(* ===== verification/Prelude.thy ===== *)
theory Prelude
  imports Main "HOL-Library.Word" "HOL-Library.Monad_Syntax"
begin

unbundle bit_operations_syntax

text \<open>
  Shared types, fact collections and lemmas of the development.

  The C integer types are words of their width; the macros and inline functions of the
  bundled headers are translated over them, so every addition, shift and mask wraps as in C.
  An expression or statement that contains an assertion has a value of an option type:
  \<open>None\<close> stands for the assertion that fires (\<open>libspl_assertf\<close> does not return by
  default), and the boolean argument \<open>nd\<close> (the macro \<open>NDEBUG\<close>) selects the build in
  which the \<open>ASSERT\<close> family is compiled away.

  The collections: \<open>zassert\<close> (evaluation of assertions and of the option monad),
  \<open>fields\<close> (bit level meaning of the packed field operations), \<open>accessor\<close>
  (definitions of the field accessors).
\<close>

type_synonym u8 = "8 word"
type_synonym u16 = "16 word"
type_synonym u32 = "32 word"
type_synonym u64 = "64 word"

named_theorems zassert \<open>evaluation of assertions\<close>
named_theorems fields \<open>bit level meaning of the packed field operations\<close>
named_theorems accessor \<open>definitions of the field accessors\<close>

section \<open>Assertions\<close>

definition VERIFY :: "bool \<Rightarrow> unit option" where
  "VERIFY c = (if c then Some () else None)"

definition VERIFY3U :: "u64 \<Rightarrow> (u64 \<Rightarrow> u64 \<Rightarrow> bool) \<Rightarrow> u64 \<Rightarrow> unit option" where
  "VERIFY3U l op r = (if op l r then Some () else None)"

definition VERIFY3S :: "u64 \<Rightarrow> (int \<Rightarrow> int \<Rightarrow> bool) \<Rightarrow> u64 \<Rightarrow> unit option" where
  "VERIFY3S l op r = (if op (sint l) (sint r) then Some () else None)"

definition ASSERT :: "bool \<Rightarrow> bool \<Rightarrow> unit option" where
  "ASSERT nd c = (if nd then Some () else VERIFY c)"

definition ASSERT3U :: "bool \<Rightarrow> u64 \<Rightarrow> (u64 \<Rightarrow> u64 \<Rightarrow> bool) \<Rightarrow> u64 \<Rightarrow> unit option" where
  "ASSERT3U nd l op r = (if nd then Some () else VERIFY3U l op r)"

definition ASSERT3S :: "bool \<Rightarrow> u64 \<Rightarrow> (int \<Rightarrow> int \<Rightarrow> bool) \<Rightarrow> u64 \<Rightarrow> unit option" where
  "ASSERT3S nd l op r = (if nd then Some () else VERIFY3S l op r)"

lemma VERIFY_simps [simp, zassert]:
  "VERIFY True = Some ()" "VERIFY False = None"
  by (simp_all add: VERIFY_def)

lemma ASSERT_True [simp, zassert]: "ASSERT nd True = Some ()"
  by (simp add: ASSERT_def)

lemma ASSERT_nd [simp, zassert]: "ASSERT True c = Some ()"
  by (simp add: ASSERT_def)

lemma ASSERT_Some [zassert]: "ASSERT nd c = Some u \<longleftrightarrow> nd \<or> c"
  by (simp add: ASSERT_def VERIFY_def)

lemma ASSERT3U_Some [zassert]: "ASSERT3U nd l op r = Some u \<longleftrightarrow> nd \<or> op l r"
  by (simp add: ASSERT3U_def VERIFY3U_def)

lemma ASSERT3S_Some [zassert]: "ASSERT3S nd l op r = Some u \<longleftrightarrow> nd \<or> op (sint l) (sint r)"
  by (simp add: ASSERT3S_def VERIFY3S_def)

lemma ASSERT_ok [intro]: "c \<Longrightarrow> ASSERT nd c = Some ()"
  by simp

lemma ASSERT3U_ok: "op l r \<Longrightarrow> ASSERT3U nd l op r = Some ()"
  by (simp add: ASSERT3U_def VERIFY3U_def)

lemma ASSERT3S_ok: "op (sint l) (sint r) \<Longrightarrow> ASSERT3S nd l op r = Some ()"
  by (simp add: ASSERT3S_def VERIFY3S_def)

section \<open>Words\<close>

text \<open>
  The simplifier writes the C expression \<open>1 << n\<close>, \<open>push_bit n 1\<close>, as \<open>2 ^ n\<close>;
  the facts about powers of two are stated in that form.
\<close>

lemma exp_minus_one_mask [simp]: "2 ^ n - (1 :: 'a::len word) = mask n"
  by (simp add: mask_eq_exp_minus_1)

lemma minus_exp_mask: "- (2 ^ n) = NOT (mask n :: 'a::len word)"
  by (simp add: minus_exp_eq_not_mask)

lemma unat_take_bit_word: "unat (take_bit n (v :: 'a::len word)) = unat v mod 2 ^ n"
  unfolding unsigned_take_bit_eq by (simp only: take_bit_eq_mod)

lemma unat_drop_bit_word: "unat (drop_bit n (v :: 'a::len word)) = unat v div 2 ^ n"
  unfolding unat_drop_bit_eq by (simp only: drop_bit_eq_div)

lemma unat_push_bit_word:
  assumes "unat v * 2 ^ n < 2 ^ LENGTH('a)"
  shows "unat (push_bit n (v :: 'a::len word)) = unat v * 2 ^ n"
proof -
  have "unat (push_bit n v) = take_bit LENGTH('a) (push_bit n (unat v))"
    by (rule unsigned_push_bit_eq)
  also have "\<dots> = unat v * 2 ^ n"
    using assms by (simp only: push_bit_eq_mult take_bit_nat_eq_self)
  finally show ?thesis .
qed

lemma unat_exp_word: "n < LENGTH('a) \<Longrightarrow> unat (2 ^ n :: 'a::len word) = 2 ^ n"
  using unat_push_bit_word [of "1 :: 'a word" n] by (simp only: push_bit_of_1) simp

lemma unat_of_nat_small: "n < 2 ^ LENGTH('a) \<Longrightarrow> unat (of_nat n :: 'a::len word) = n"
  by (simp only: unsigned_of_nat take_bit_nat_eq_self of_nat_id)

lemma take_bit_word_small: "v < 2 ^ n \<Longrightarrow> take_bit n (v :: 'a::len word) = v"
  by (simp add: take_bit_eq_mask less_mask_eq)

lemma take_bit_word_less: "n < LENGTH('a) \<Longrightarrow> take_bit n (v :: 'a::len word) < 2 ^ n"
  by (simp only: word_less_nat_alt unat_take_bit_word unat_exp_word) simp

lemma and_mask_word: "(x :: 'a::len word) AND mask n = take_bit n x"
  by (simp add: take_bit_eq_mask)

lemma take_bit_not_word: "take_bit k (NOT x) = mask k - take_bit k (x :: 'a::len word)"
proof -
  have "take_bit k (NOT x) + take_bit k x = take_bit k (NOT x) OR take_bit k x"
    by (rule disjunctive_add) (simp add: bit_simps)
  also have "\<dots> = mask k"
    by (rule bit_word_eqI) (auto simp: bit_simps)
  finally show ?thesis by (simp only: eq_diff_eq)
qed

lemma xor_zero_iff_word: "x XOR y = 0 \<longleftrightarrow> x = (y :: 'a::len word)"
  by (auto simp: bit_eq_iff bit_simps)

lemma unat_mask_word: "k < LENGTH('a) \<Longrightarrow> unat (mask k :: 'a::len word) = 2 ^ k - 1"
  using unat_minus_one [of "2 ^ k :: 'a word"] by (simp only: mask_eq_exp_minus_1 unat_exp_word) simp

lemma drop_bit_eq_0_word: "drop_bit k w = (0 :: 'a::len word) \<longleftrightarrow> unat w < 2 ^ k"
  by (simp only: unat_0_iff [symmetric] unat_drop_bit_word div_eq_0_iff) simp

lemma word_gt_mask_iff:
  assumes "k < LENGTH('a)"
  shows "w > mask k \<longleftrightarrow> drop_bit k w \<noteq> (0 :: 'a::len word)"
  unfolding drop_bit_eq_0_word word_less_nat_alt unat_mask_word [OF assms] by (metis One_nat_def Suc_pred leD linorder_not_less not_less_eq zero_less_numeral zero_less_power)

lemma bit_unat_ge: "bit (w :: 'a::len word) n \<Longrightarrow> 2 ^ n \<le> unat w"
  using drop_bit_eq_0_word [of n w] by (metis bit_iff_odd_drop_bit dvd_0_right linorder_not_le)

lemma no_bits_unat_less:
  assumes "\<And>i. n \<le> i \<Longrightarrow> \<not> bit (w :: 'a::len word) i"
  shows "unat w < 2 ^ n"
proof -
  have "drop_bit n w = 0"
    by (rule bit_word_eqI) (use assms in \<open>auto simp: bit_simps\<close>)
  then show ?thesis by (simp only: drop_bit_eq_0_word)
qed

text \<open>A signed number that is not negative is the unsigned one.\<close>

lemma nonnegative_uint:
  assumes "0 \<le> sint (w :: 'a::len word)"
  shows "sint w = uint w" "uint w < 2 ^ (LENGTH('a) - 1)"
proof -
  let ?n = "LENGTH('a) - 1"
  have b: "\<not> bit (uint w) ?n" using assms by (simp add: sint_uint)
  have "uint w = take_bit (Suc ?n) (uint w)" using uint_lt2p [of w] by (simp add: take_bit_int_eq_self)
  also have "\<dots> = take_bit ?n (uint w)" using b by (simp only: take_bit_Suc_from_most) simp
  finally have e: "uint w = take_bit ?n (uint w)" .
  then show "sint w = uint w" using b by (simp add: sint_uint signed_take_bit_eq_if_positive)
  have "take_bit ?n (uint w) < 2 ^ ?n" by (rule take_bit_int_less_exp)
  then show "uint w < 2 ^ ?n" using e by linarith
qed

lemma nonnegative_unat:
  assumes "0 \<le> sint (w :: 'a::len word)"
  shows "sint w = int (unat w)" "unat w < 2 ^ (LENGTH('a) - 1)"
  using nonnegative_uint [OF assms] unat_eq_nat_uint [of w] uint_ge_0 [of w]
  by (simp_all only: int_nat_eq if_True nat_less_iff) simp_all

lemma nonnegative_le:
  assumes "0 \<le> sint a" "0 \<le> sint (b :: 'a::len word)"
  shows "sint a \<le> sint b \<longleftrightarrow> a \<le> b"
  using nonnegative_uint(1) [OF assms(1)] nonnegative_uint(1) [OF assms(2)] by (simp add: word_le_def)

end
