(* ===== verification/Php_Runtime.thy ===== *)
theory Php_Runtime
  imports Prelude
begin

text \<open>
  What the three C files of the extension share: the trace of their calls with an effect, the
  error function \<open>php_zfs_error\<close> (\<open>zfs.c\<close>), and the parameters that stand for the Zend
  engine and for libzfs, neither of which is part of the repository.

  The Zend array functions are a record of functions (\<open>zend\<close>); what the extension relies on
  is the predicate \<open>zend_contract\<close>. An iterator of libzfs takes the callback as an argument, as in
  C; its documented behaviour is \<open>iterate\<close>: call the function on each handle in turn and stop
  at the first non-zero return, and report the iterator's own status when the walk is over.
\<close>

section \<open>Effects\<close>

datatype ('h, 'd, 'p) event =
    Ev_libzfs_init "'h option"
  | Ev_libzfs_fini 'h
  | Ev_zfs_close 'd
  | Ev_zpool_close 'p
  | Ev_warning string
  | Ev_zval_dtor

type_synonym ('h, 'd, 'p) trace = "('h, 'd, 'p) event list"

fun warnings :: "('h, 'd, 'p) trace \<Rightarrow> string list" where
  "warnings [] = []"
| "warnings (Ev_warning w # tr) = w # warnings tr"
| "warnings (_ # tr) = warnings tr"

lemma warnings_append [simp]: "warnings (tr @ tr') = warnings tr @ warnings tr'"
  by (induction tr rule: warnings.induct) simp_all

section \<open>Reporting an error\<close>

text \<open>
  The formats of the extension use the conversion \<open>%s\<close> only. \<open>vsnprintf\<close> writes at most
  \<open>n - 1\<close> characters and a NUL.
\<close>

fun printf_s :: "string \<Rightarrow> string list \<Rightarrow> string" where
  "printf_s (c # d # fmt) (a # args) =
     (if c = CHR 0x25 \<and> d = CHR ''s'' then a @ printf_s fmt args
      else c # printf_s (d # fmt) (a # args))"
| "printf_s fmt _ = fmt"

definition vsnprintf :: "nat \<Rightarrow> string \<Rightarrow> string list \<Rightarrow> string" where
  "vsnprintf n fmt args = take (n - 1) (printf_s fmt args)"

definition php_zfs_error :: "string \<Rightarrow> string list \<Rightarrow> ('h, 'd, 'p) trace \<Rightarrow> ('h, 'd, 'p) trace" where
  "php_zfs_error fmt args tr = (let buffer = vsnprintf 1024 fmt args in tr @ [Ev_warning buffer])"

lemma warnings_php_zfs_error [simp]:
  "warnings (php_zfs_error fmt args tr) = warnings tr @ [take 1023 (printf_s fmt args)]"
  by (simp add: php_zfs_error_def vsnprintf_def)

lemma printf_s_no_args [simp]: "printf_s fmt [] = fmt"
  by (cases fmt rule: list.exhaust [case_names Nil Cons]; cases "tl fmt") auto

section \<open>The Zend array functions\<close>

record 'z zend =
  array_init :: 'z
  add_assoc_string :: "'z \<Rightarrow> string \<Rightarrow> string \<Rightarrow> 'z"
  add_assoc_long :: "'z \<Rightarrow> string \<Rightarrow> u64 \<Rightarrow> 'z"
  add_next_index_zval :: "'z \<Rightarrow> 'z \<Rightarrow> 'z"

datatype zvalue = ZString string | ZLong u64

text \<open>A key that the engine does not turn into an integer index.\<close>

definition symbolic_key :: "string \<Rightarrow> bool" where
  "symbolic_key k \<longleftrightarrow> k \<noteq> [] \<and> hd k \<notin> set ''-0123456789''"

text \<open>
  What the extension relies on: \<open>lookup\<close> reads a keyed element, \<open>elems\<close> the elements appended
  with the next integer index, in order.
\<close>

definition zend_contract ::
    "'z zend \<Rightarrow> ('z \<Rightarrow> string \<rightharpoonup> zvalue) \<Rightarrow> ('z \<Rightarrow> 'z list) \<Rightarrow> bool" where
  "zend_contract Z lkp elems \<longleftrightarrow>
     lkp (array_init Z) = Map.empty \<and>
     (\<forall>k a s. symbolic_key k \<longrightarrow> lkp (add_assoc_string Z a k s) = (lkp a)(k \<mapsto> ZString s)) \<and>
     (\<forall>k a n. symbolic_key k \<longrightarrow> lkp (add_assoc_long Z a k n) = (lkp a)(k \<mapsto> ZLong n)) \<and>
     elems (array_init Z) = [] \<and>
     (\<forall>a x. elems (add_next_index_zval Z a x) = elems a @ [x])"

lemma zend_contractD:
  assumes "zend_contract Z lkp elems"
  shows "lkp (array_init Z) = Map.empty"
    and "symbolic_key k \<Longrightarrow> lkp (add_assoc_string Z a k s) = (lkp a)(k \<mapsto> ZString s)"
    and "symbolic_key k \<Longrightarrow> lkp (add_assoc_long Z a k n) = (lkp a)(k \<mapsto> ZLong n)"
    and "elems (array_init Z) = []"
    and "elems (add_next_index_zval Z a x) = elems a @ [x]"
  using assms by (simp_all add: zend_contract_def)

text \<open>Appending a list of elements, as a callback does one at a time.\<close>

definition append_zvals :: "'z zend \<Rightarrow> 'z list \<Rightarrow> 'z \<Rightarrow> 'z" where
  "append_zvals Z xs a = fold (\<lambda>x a. add_next_index_zval Z a x) xs a"

lemma append_zvals_simps [simp]:
  "append_zvals Z [] a = a"
  "append_zvals Z (x # xs) a = append_zvals Z xs (add_next_index_zval Z a x)"
  "append_zvals Z (xs @ ys) a = append_zvals Z ys (append_zvals Z xs a)"
  by (simp_all add: append_zvals_def)

lemma elems_append_zvals:
  assumes "zend_contract Z lkp elems"
  shows "elems (append_zvals Z xs a) = elems a @ xs"
  by (induction xs arbitrary: a) (simp_all add: zend_contractD [OF assms])

lemma elems_append_zvals_init:
  assumes "zend_contract Z lkp elems"
  shows "elems (append_zvals Z xs (array_init Z)) = xs"
  by (simp add: elems_append_zvals [OF assms] zend_contractD [OF assms])

text \<open>The contract can be met: association lists with a list part.\<close>

datatype zref = ZArr (zfields: "(string \<times> zvalue) list") (zelems: "zref list")

definition zend_ref :: "zref zend" where
  "zend_ref = \<lparr>array_init = ZArr [] [],
     add_assoc_string = (\<lambda>a k s. ZArr ((k, ZString s) # zfields a) (zelems a)),
     add_assoc_long = (\<lambda>a k n. ZArr ((k, ZLong n) # zfields a) (zelems a)),
     add_next_index_zval = (\<lambda>a x. ZArr (zfields a) (zelems a @ [x]))\<rparr>"

lemma zend_ref_contract: "zend_contract zend_ref (\<lambda>a. map_of (zfields a)) zelems"
  by (auto simp: zend_contract_def zend_ref_def)

section \<open>Iterators\<close>

type_synonym ('d, 's) iter_f = "'d option \<Rightarrow> 's \<Rightarrow> (int \<times> 's) option"

fun iterate :: "('d, 's) iter_f \<Rightarrow> 'd list \<Rightarrow> 's \<Rightarrow> (int \<times> 's) option" where
  "iterate f [] s = Some (0, s)"
| "iterate f (d # ds) s =
     (case f (Some d) s of
        None \<Rightarrow> None
      | Some (rc, s') \<Rightarrow> if rc \<noteq> 0 then Some (rc, s') else iterate f ds s')"

definition iterate_status :: "int \<Rightarrow> ('d, 's) iter_f \<Rightarrow> 'd list \<Rightarrow> 's \<Rightarrow> (int \<times> 's) option" where
  "iterate_status st f ds s =
     (case iterate f ds s of
        None \<Rightarrow> None
      | Some (rc, s') \<Rightarrow> Some (if rc \<noteq> 0 then rc else st, s'))"

text \<open>
  The contract both callbacks of the extension meet: on a handle that \<open>ok\<close> accepts the
  callback returns 0, never asks the iterator to stop, and its effect is \<open>visit\<close>.
\<close>

locale walker =
  fixes f :: "('d, 's) iter_f" and ok :: "'d \<Rightarrow> bool" and visit :: "'d \<Rightarrow> 's \<Rightarrow> 's"
  assumes f_null: "f None s = Some (0, s) \<or> f None s = None"
    and f_ok: "ok d \<Longrightarrow> f (Some d) s = Some (0, visit d s)"
begin

lemma iterate_visits: "\<forall>d\<in>set ds. ok d \<Longrightarrow> iterate f ds s = Some (0, fold visit ds s)"
  by (induction ds arbitrary: s) (simp_all add: f_ok)

lemma iterate_status_visits:
  "\<forall>d\<in>set ds. ok d \<Longrightarrow> iterate_status st f ds s = Some (st, fold visit ds s)"
  by (simp add: iterate_status_def iterate_visits)

end

text \<open>What the two parts of the libzfs interface have in common.\<close>

record 'h libzfs_common =
  libzfs_error_description :: "'h \<Rightarrow> string"

end
