(* ===== verification/Zfs_Types.thy ===== *)
theory Zfs_Types
  imports Prelude
begin

unbundle bit_operations_syntax

text \<open>
  The constants of \<open>compat/openzfs/sys/fs/zfs.h\<close> and \<open>compat/openzfs/libzfs.h\<close> that the
  extension passes to libzfs and switches over. The property enumerations are tables of
  (enumerator, value) built by the rule of C: an enumerator without an initialiser is one more
  than its predecessor. The dataset types are bit masks; the pool status is a datatype, since
  the code only ever switches over it.
\<close>

section \<open>Enumerations\<close>

fun enum_from :: "int \<Rightarrow> string list \<Rightarrow> (string \<times> int) list" where
  "enum_from n [] = []"
| "enum_from n (x # xs) = (x, n) # enum_from (n + 1) xs"

lemma map_fst_enum_from [simp]: "map fst (enum_from n xs) = xs"
  by (induction xs arbitrary: n) simp_all

lemma length_enum_from [simp]: "length (enum_from n xs) = length xs"
  by (induction xs arbitrary: n) simp_all

lemma enum_from_nth: "i < length xs \<Longrightarrow> enum_from n xs ! i = (xs ! i, n + int i)"
  by (induction xs arbitrary: n i) (auto simp: nth_Cons split: nat.splits)

lemma enum_from_lookup:
  "distinct xs \<Longrightarrow> i < length xs \<Longrightarrow> map_of (enum_from n xs) (xs ! i) = Some (n + int i)"
proof -
  assume "distinct xs" "i < length xs"
  then have "distinct (map fst (enum_from n xs))" "(xs ! i, n + int i) \<in> set (enum_from n xs)"
    using enum_from_nth [of i xs n] by (auto simp: in_set_conv_nth)
  then show ?thesis by (rule map_of_is_SomeI)
qed

section \<open>Dataset types\<close>

definition ZFS_TYPE_INVALID :: u32 where "ZFS_TYPE_INVALID = 0"
definition ZFS_TYPE_FILESYSTEM :: u32 where "ZFS_TYPE_FILESYSTEM = push_bit 0 1"
definition ZFS_TYPE_SNAPSHOT :: u32 where "ZFS_TYPE_SNAPSHOT = push_bit 1 1"
definition ZFS_TYPE_VOLUME :: u32 where "ZFS_TYPE_VOLUME = push_bit 2 1"
definition ZFS_TYPE_POOL :: u32 where "ZFS_TYPE_POOL = push_bit 3 1"
definition ZFS_TYPE_BOOKMARK :: u32 where "ZFS_TYPE_BOOKMARK = push_bit 4 1"
definition ZFS_TYPE_VDEV :: u32 where "ZFS_TYPE_VDEV = push_bit 5 1"

definition ZFS_TYPE_DATASET :: u32 where
  "ZFS_TYPE_DATASET = ZFS_TYPE_FILESYSTEM OR ZFS_TYPE_VOLUME OR ZFS_TYPE_SNAPSHOT"

lemmas zfs_type_defs = ZFS_TYPE_INVALID_def ZFS_TYPE_FILESYSTEM_def ZFS_TYPE_SNAPSHOT_def
  ZFS_TYPE_VOLUME_def ZFS_TYPE_POOL_def ZFS_TYPE_BOOKMARK_def ZFS_TYPE_VDEV_def

section \<open>Dataset and pool properties\<close>

definition zfs_prop_t :: "(string \<times> int) list" where
  "zfs_prop_t = [(''ZPROP_CONT'', - 2), (''ZPROP_INVAL'', - 1), (''ZPROP_USERPROP'', - 1)] @
    enum_from 0 [
     ''ZFS_PROP_TYPE'', ''ZFS_PROP_CREATION'', ''ZFS_PROP_USED'',
     ''ZFS_PROP_AVAILABLE'', ''ZFS_PROP_REFERENCED'', ''ZFS_PROP_COMPRESSRATIO'',
     ''ZFS_PROP_MOUNTED'', ''ZFS_PROP_ORIGIN'', ''ZFS_PROP_QUOTA'',
     ''ZFS_PROP_RESERVATION'', ''ZFS_PROP_VOLSIZE'', ''ZFS_PROP_VOLBLOCKSIZE'',
     ''ZFS_PROP_RECORDSIZE'', ''ZFS_PROP_MOUNTPOINT'', ''ZFS_PROP_SHARENFS'',
     ''ZFS_PROP_CHECKSUM'', ''ZFS_PROP_COMPRESSION'', ''ZFS_PROP_ATIME'',
     ''ZFS_PROP_DEVICES'', ''ZFS_PROP_EXEC'', ''ZFS_PROP_SETUID'',
     ''ZFS_PROP_READONLY'', ''ZFS_PROP_ZONED'', ''ZFS_PROP_SNAPDIR'',
     ''ZFS_PROP_ACLMODE'', ''ZFS_PROP_ACLINHERIT'', ''ZFS_PROP_CREATETXG'',
     ''ZFS_PROP_NAME'', ''ZFS_PROP_CANMOUNT'', ''ZFS_PROP_ISCSIOPTIONS'',
     ''ZFS_PROP_XATTR'', ''ZFS_PROP_NUMCLONES'', ''ZFS_PROP_COPIES'',
     ''ZFS_PROP_VERSION'', ''ZFS_PROP_UTF8ONLY'', ''ZFS_PROP_NORMALIZE'',
     ''ZFS_PROP_CASE'', ''ZFS_PROP_VSCAN'', ''ZFS_PROP_NBMAND'',
     ''ZFS_PROP_SHARESMB'', ''ZFS_PROP_REFQUOTA'', ''ZFS_PROP_REFRESERVATION'',
     ''ZFS_PROP_GUID'', ''ZFS_PROP_PRIMARYCACHE'', ''ZFS_PROP_SECONDARYCACHE'',
     ''ZFS_PROP_USEDSNAP'', ''ZFS_PROP_USEDDS'', ''ZFS_PROP_USEDCHILD'',
     ''ZFS_PROP_USEDREFRESERV'', ''ZFS_PROP_USERACCOUNTING'', ''ZFS_PROP_STMF_SHAREINFO'',
     ''ZFS_PROP_DEFER_DESTROY'', ''ZFS_PROP_USERREFS'', ''ZFS_PROP_LOGBIAS'',
     ''ZFS_PROP_UNIQUE'', ''ZFS_PROP_OBJSETID'', ''ZFS_PROP_DEDUP'',
     ''ZFS_PROP_MLSLABEL'', ''ZFS_PROP_SYNC'', ''ZFS_PROP_DNODESIZE'',
     ''ZFS_PROP_REFRATIO'', ''ZFS_PROP_WRITTEN'', ''ZFS_PROP_CLONES'',
     ''ZFS_PROP_LOGICALUSED'', ''ZFS_PROP_LOGICALREFERENCED'', ''ZFS_PROP_INCONSISTENT'',
     ''ZFS_PROP_VOLMODE'', ''ZFS_PROP_FILESYSTEM_LIMIT'', ''ZFS_PROP_SNAPSHOT_LIMIT'',
     ''ZFS_PROP_FILESYSTEM_COUNT'', ''ZFS_PROP_SNAPSHOT_COUNT'', ''ZFS_PROP_SNAPDEV'',
     ''ZFS_PROP_ACLTYPE'', ''ZFS_PROP_SELINUX_CONTEXT'', ''ZFS_PROP_SELINUX_FSCONTEXT'',
     ''ZFS_PROP_SELINUX_DEFCONTEXT'', ''ZFS_PROP_SELINUX_ROOTCONTEXT'', ''ZFS_PROP_RELATIME'',
     ''ZFS_PROP_REDUNDANT_METADATA'', ''ZFS_PROP_OVERLAY'', ''ZFS_PROP_PREV_SNAP'',
     ''ZFS_PROP_RECEIVE_RESUME_TOKEN'', ''ZFS_PROP_ENCRYPTION'', ''ZFS_PROP_KEYLOCATION'',
     ''ZFS_PROP_KEYFORMAT'', ''ZFS_PROP_PBKDF2_SALT'', ''ZFS_PROP_PBKDF2_ITERS'',
     ''ZFS_PROP_ENCRYPTION_ROOT'', ''ZFS_PROP_KEY_GUID'', ''ZFS_PROP_KEYSTATUS'',
     ''ZFS_PROP_REMAPTXG'', ''ZFS_PROP_SPECIAL_SMALL_BLOCKS'', ''ZFS_PROP_IVSET_GUID'',
     ''ZFS_PROP_REDACTED'', ''ZFS_PROP_REDACT_SNAPS'', ''ZFS_PROP_SNAPSHOTS_CHANGED'',
     ''ZFS_PROP_PREFETCH'', ''ZFS_PROP_VOLTHREADING'', ''ZFS_PROP_DIRECT'',
     ''ZFS_PROP_LONGNAME'', ''ZFS_PROP_DEFAULTUSERQUOTA'', ''ZFS_PROP_DEFAULTGROUPQUOTA'',
     ''ZFS_PROP_DEFAULTPROJECTQUOTA'', ''ZFS_PROP_DEFAULTUSEROBJQUOTA'', ''ZFS_PROP_DEFAULTGROUPOBJQUOTA'',
     ''ZFS_PROP_DEFAULTPROJECTOBJQUOTA'', ''ZFS_NUM_PROPS'']"

definition zpool_prop_t :: "(string \<times> int) list" where
  "zpool_prop_t = (''ZPOOL_PROP_INVAL'', - 1) # enum_from 0 [
     ''ZPOOL_PROP_NAME'', ''ZPOOL_PROP_SIZE'', ''ZPOOL_PROP_CAPACITY'',
     ''ZPOOL_PROP_ALTROOT'', ''ZPOOL_PROP_HEALTH'', ''ZPOOL_PROP_GUID'',
     ''ZPOOL_PROP_VERSION'', ''ZPOOL_PROP_BOOTFS'', ''ZPOOL_PROP_DELEGATION'',
     ''ZPOOL_PROP_AUTOREPLACE'', ''ZPOOL_PROP_CACHEFILE'', ''ZPOOL_PROP_FAILUREMODE'',
     ''ZPOOL_PROP_LISTSNAPS'', ''ZPOOL_PROP_AUTOEXPAND'', ''ZPOOL_PROP_DEDUPDITTO'',
     ''ZPOOL_PROP_DEDUPRATIO'', ''ZPOOL_PROP_FREE'', ''ZPOOL_PROP_ALLOCATED'',
     ''ZPOOL_PROP_READONLY'', ''ZPOOL_PROP_ASHIFT'', ''ZPOOL_PROP_COMMENT'',
     ''ZPOOL_PROP_EXPANDSZ'', ''ZPOOL_PROP_FREEING'', ''ZPOOL_PROP_FRAGMENTATION'',
     ''ZPOOL_PROP_LEAKED'', ''ZPOOL_PROP_MAXBLOCKSIZE'', ''ZPOOL_PROP_TNAME'',
     ''ZPOOL_PROP_MAXDNODESIZE'', ''ZPOOL_PROP_MULTIHOST'', ''ZPOOL_PROP_CHECKPOINT'',
     ''ZPOOL_PROP_LOAD_GUID'', ''ZPOOL_PROP_AUTOTRIM'', ''ZPOOL_PROP_COMPATIBILITY'',
     ''ZPOOL_PROP_BCLONEUSED'', ''ZPOOL_PROP_BCLONESAVED'', ''ZPOOL_PROP_BCLONERATIO'',
     ''ZPOOL_PROP_DEDUP_TABLE_SIZE'', ''ZPOOL_PROP_DEDUP_TABLE_QUOTA'', ''ZPOOL_PROP_DEDUPCACHED'',
     ''ZPOOL_PROP_LAST_SCRUBBED_TXG'', ''ZPOOL_NUM_PROPS'']"

definition zprop_source_t :: "(string \<times> int) list" where
  "zprop_source_t = [(''ZPROP_SRC_NONE'', 0x1), (''ZPROP_SRC_DEFAULT'', 0x2),
     (''ZPROP_SRC_TEMPORARY'', 0x4), (''ZPROP_SRC_LOCAL'', 0x8),
     (''ZPROP_SRC_INHERITED'', 0x10), (''ZPROP_SRC_RECEIVED'', 0x20)]"

definition ZPROP_SRC_ALL :: int where "ZPROP_SRC_ALL = 0x3f"

text \<open>The enumerators the extension names.\<close>

definition ZFS_PROP_CREATION :: int where "ZFS_PROP_CREATION = 1"
definition ZFS_PROP_USED :: int where "ZFS_PROP_USED = 2"
definition ZFS_PROP_AVAILABLE :: int where "ZFS_PROP_AVAILABLE = 3"
definition ZFS_PROP_REFERENCED :: int where "ZFS_PROP_REFERENCED = 4"
definition ZFS_PROP_COMPRESSRATIO :: int where "ZFS_PROP_COMPRESSRATIO = 5"
definition ZFS_PROP_MOUNTPOINT :: int where "ZFS_PROP_MOUNTPOINT = 13"
definition ZPOOL_PROP_SIZE :: int where "ZPOOL_PROP_SIZE = 1"
definition ZPOOL_PROP_ALTROOT :: int where "ZPOOL_PROP_ALTROOT = 3"
definition ZPOOL_PROP_VERSION :: int where "ZPOOL_PROP_VERSION = 6"
definition ZPOOL_PROP_BOOTFS :: int where "ZPOOL_PROP_BOOTFS = 7"
definition ZPOOL_PROP_FREE :: int where "ZPOOL_PROP_FREE = 16"
definition ZPOOL_PROP_ALLOCATED :: int where "ZPOOL_PROP_ALLOCATED = 17"

lemmas zfs_prop_defs = ZFS_PROP_CREATION_def ZFS_PROP_USED_def ZFS_PROP_AVAILABLE_def ZFS_PROP_REFERENCED_def ZFS_PROP_COMPRESSRATIO_def ZFS_PROP_MOUNTPOINT_def
lemmas zpool_prop_defs = ZPOOL_PROP_SIZE_def ZPOOL_PROP_ALTROOT_def ZPOOL_PROP_VERSION_def ZPOOL_PROP_BOOTFS_def ZPOOL_PROP_FREE_def ZPOOL_PROP_ALLOCATED_def

definition ZAP_MAXVALUELEN :: nat where "ZAP_MAXVALUELEN = 1024 * 8"
definition ZFS_MAX_DATASET_NAME_LEN :: nat where "ZFS_MAX_DATASET_NAME_LEN = 256"
definition ZFS_MAXPROPLEN :: nat where "ZFS_MAXPROPLEN = ZAP_MAXVALUELEN"
definition ZPOOL_MAXPROPLEN :: nat where "ZPOOL_MAXPROPLEN = ZAP_MAXVALUELEN"

section \<open>Pool status\<close>

datatype zpool_status_t =
    ZPOOL_STATUS_CORRUPT_CACHE
  | ZPOOL_STATUS_MISSING_DEV_R
  | ZPOOL_STATUS_MISSING_DEV_NR
  | ZPOOL_STATUS_CORRUPT_LABEL_R
  | ZPOOL_STATUS_CORRUPT_LABEL_NR
  | ZPOOL_STATUS_BAD_GUID_SUM
  | ZPOOL_STATUS_CORRUPT_POOL
  | ZPOOL_STATUS_CORRUPT_DATA
  | ZPOOL_STATUS_FAILING_DEV
  | ZPOOL_STATUS_VERSION_NEWER
  | ZPOOL_STATUS_HOSTID_MISMATCH
  | ZPOOL_STATUS_HOSTID_ACTIVE
  | ZPOOL_STATUS_HOSTID_REQUIRED
  | ZPOOL_STATUS_IO_FAILURE_WAIT
  | ZPOOL_STATUS_IO_FAILURE_CONTINUE
  | ZPOOL_STATUS_IO_FAILURE_MMP
  | ZPOOL_STATUS_BAD_LOG
  | ZPOOL_STATUS_ERRATA
  | ZPOOL_STATUS_UNSUP_FEAT_READ
  | ZPOOL_STATUS_UNSUP_FEAT_WRITE
  | ZPOOL_STATUS_FAULTED_DEV_R
  | ZPOOL_STATUS_FAULTED_DEV_NR
  | ZPOOL_STATUS_VERSION_OLDER
  | ZPOOL_STATUS_FEAT_DISABLED
  | ZPOOL_STATUS_RESILVERING
  | ZPOOL_STATUS_OFFLINE_DEV
  | ZPOOL_STATUS_REMOVED_DEV
  | ZPOOL_STATUS_REBUILDING
  | ZPOOL_STATUS_REBUILD_SCRUB
  | ZPOOL_STATUS_NON_NATIVE_ASHIFT
  | ZPOOL_STATUS_COMPATIBILITY_ERR
  | ZPOOL_STATUS_INCOMPATIBLE_FEAT
  | ZPOOL_STATUS_OK

end
