(* ===== verification/Zfs_List.thy ===== *)
theory Zfs_List
  imports Php_Runtime Zfs_Types "HOL-Library.Multiset"
begin

text \<open>
  \<open>zfs_list.c\<close>: the walk over the dataset tree. The functions of libzfs are the record
  \<open>libzfs_datasets\<close>; the recursion of \<open>zfs_list_callback\<close> through \<open>zfs_iter_children\<close> takes a
  recursion depth, and \<open>None\<close> stands for a depth that did not suffice. The lemmas give the
  callback its effect on a subtree (the rows of the subtree in pre-order, its handles closed
  in post-order, return value 0), which makes it a \<open>walker\<close>, and from it the behaviour of
  \<open>zfs_list_datasets\<close>.
\<close>

section \<open>Interface\<close>

text \<open>
  \<open>zfs_prop_get zhp prop proplen literal\<close> gives the return value and the string left in the
  buffer; the extension does not use \<open>source\<close> and passes no \<open>statbuf\<close>.
\<close>

record ('h, 'd, 's) libzfs_datasets = "'h libzfs_common" +
  zfs_get_name :: "'d \<Rightarrow> string"
  zfs_get_type :: "'d \<Rightarrow> u32"
  zfs_prop_get :: "'d \<Rightarrow> int \<Rightarrow> nat \<Rightarrow> bool \<Rightarrow> int \<times> string"
  zfs_iter_root :: "'h \<Rightarrow> ('d, 's) iter_f \<Rightarrow> 's \<Rightarrow> (int \<times> 's) option"
  zfs_iter_children :: "'d \<Rightarrow> ('d, 's) iter_f \<Rightarrow> 's \<Rightarrow> (int \<times> 's) option"

section \<open>The callback\<close>

record 'z zfs_list_cb_t =
  zl_return_array :: 'z
  zl_error :: int

definition zfs_type_name :: "u32 \<Rightarrow> string" where
  "zfs_type_name t =
    (if t = ZFS_TYPE_FILESYSTEM then ''filesystem''
     else if t = ZFS_TYPE_VOLUME then ''volume''
     else if t = ZFS_TYPE_SNAPSHOT then ''snapshot''
     else if t = ZFS_TYPE_BOOKMARK then ''bookmark''
     else ''unknown'')"

definition zfs_add_prop ::
    "('h, 'd, 's) libzfs_datasets \<Rightarrow> 'z zend \<Rightarrow> 'd \<Rightarrow> int \<Rightarrow> string \<Rightarrow> 'z \<Rightarrow> 'z" where
  "zfs_add_prop L Z zhp prop key info =
    (case zfs_prop_get L zhp prop ZFS_MAXPROPLEN False of (rc, property_buf) \<Rightarrow>
       if rc = 0 then add_assoc_string Z info key property_buf else info)"

definition zfs_dataset_info :: "('h, 'd, 's) libzfs_datasets \<Rightarrow> 'z zend \<Rightarrow> 'd \<Rightarrow> 'z" where
  "zfs_dataset_info L Z zhp =
    (let dataset_name = zfs_get_name L zhp;
         dataset_type = zfs_get_type L zhp;
         info = array_init Z;
         info = add_assoc_string Z info ''name'' dataset_name;
         info = add_assoc_string Z info ''type'' (zfs_type_name dataset_type);
         info = zfs_add_prop L Z zhp ZFS_PROP_USED ''used'' info;
         info = zfs_add_prop L Z zhp ZFS_PROP_AVAILABLE ''available'' info;
         info = zfs_add_prop L Z zhp ZFS_PROP_REFERENCED ''referenced'' info;
         info = zfs_add_prop L Z zhp ZFS_PROP_MOUNTPOINT ''mountpoint'' info;
         info = zfs_add_prop L Z zhp ZFS_PROP_CREATION ''creation'' info;
         info = zfs_add_prop L Z zhp ZFS_PROP_COMPRESSRATIO ''compressratio'' info
     in info)"

type_synonym ('z, 'h, 'd, 'p) zl_state = "'z zfs_list_cb_t \<times> ('h, 'd, 'p) trace"

fun zfs_list_callback ::
    "('h, 'd, ('z, 'h, 'd, 'p) zl_state) libzfs_datasets \<Rightarrow> 'z zend \<Rightarrow> nat \<Rightarrow>
     ('d, ('z, 'h, 'd, 'p) zl_state) iter_f" where
  "zfs_list_callback L Z 0 zhp s = None"
| "zfs_list_callback L Z (Suc n) None s = Some (0, s)"
| "zfs_list_callback L Z (Suc n) (Some zhp) (cb, tr) =
    (let dataset_info = zfs_dataset_info L Z zhp;
         cb = cb\<lparr>zl_return_array := add_next_index_zval Z (zl_return_array cb) dataset_info\<rparr>
     in case zfs_iter_children L zhp (zfs_list_callback L Z n) (cb, tr) of
          None \<Rightarrow> None
        | Some (_, cb, tr) \<Rightarrow> Some (0, cb, tr @ [Ev_zfs_close zhp]))"

section \<open>The entry point\<close>

definition zfs_list_datasets ::
    "('h, 'd, ('z, 'h, 'd, 'p) zl_state) libzfs_datasets \<Rightarrow> 'z zend \<Rightarrow> nat \<Rightarrow> 'h option \<Rightarrow> 'z \<Rightarrow>
     ('h, 'd, 'p) trace \<Rightarrow> (int \<times> 'z \<times> ('h, 'd, 'p) trace) option" where
  "zfs_list_datasets L Z n g_zfs return_value tr =
    (case g_zfs of
       None \<Rightarrow> Some (-1, return_value, php_zfs_error ''libzfs handle is NULL'' [] tr)
     | Some h \<Rightarrow>
        (let cb_data = \<lparr>zl_return_array = return_value, zl_error = 0\<rparr>
         in case zfs_iter_root L h (zfs_list_callback L Z n) (cb_data, tr) of
              None \<Rightarrow> None
            | Some (ret, cb_data, tr) \<Rightarrow>
                if ret \<noteq> 0 then
                  Some (-1, zl_return_array cb_data,
                    php_zfs_error ''Failed to iterate ZFS datasets: %s''
                      [libzfs_error_description L h] tr)
                else if zl_error cb_data \<noteq> 0 then
                  Some (-1, zl_return_array cb_data,
                    php_zfs_error ''Error occurred during dataset enumeration'' [] tr)
                else Some (0, zl_return_array cb_data, tr)))"

section \<open>What libzfs promises\<close>

text \<open>
  \<open>roots h\<close> and \<open>children d\<close> are the handles an iteration delivers, \<open>root_rc\<close> and \<open>child_rc\<close>
  the status it reports when no callback stopped it (an iteration that fails part-way delivers
  fewer handles and reports an error).
\<close>

record ('h, 'd) dataset_world =
  roots :: "'h \<Rightarrow> 'd list"
  root_rc :: "'h \<Rightarrow> int"
  children :: "'d \<Rightarrow> 'd list"
  child_rc :: "'d \<Rightarrow> int"

definition zfs_iterates :: "('h, 'd, 's) libzfs_datasets \<Rightarrow> ('h, 'd) dataset_world \<Rightarrow> bool" where
  "zfs_iterates L W \<longleftrightarrow>
    (\<forall>h f s. zfs_iter_root L h f s = iterate_status (root_rc W h) f (roots W h) s) \<and>
    (\<forall>d f s. zfs_iter_children L d f s = iterate_status (child_rc W d) f (children W d) s)"

text \<open>The subtree of a dataset down to a depth, in the two orders, and its nodes' depth bound.\<close>

fun shallow :: "('h, 'd) dataset_world \<Rightarrow> nat \<Rightarrow> 'd \<Rightarrow> bool" where
  "shallow W 0 d = False"
| "shallow W (Suc n) d = (\<forall>c\<in>set (children W d). shallow W n c)"

fun preorder :: "('h, 'd) dataset_world \<Rightarrow> nat \<Rightarrow> 'd \<Rightarrow> 'd list" where
  "preorder W 0 d = []"
| "preorder W (Suc n) d = d # concat (map (preorder W n) (children W d))"

fun postorder :: "('h, 'd) dataset_world \<Rightarrow> nat \<Rightarrow> 'd \<Rightarrow> 'd list" where
  "postorder W 0 d = []"
| "postorder W (Suc n) d = concat (map (postorder W n) (children W d)) @ [d]"

lemma shallow_mono: "shallow W n d \<Longrightarrow> n \<le> m \<Longrightarrow> shallow W m d"
proof (induction W n d arbitrary: m rule: shallow.induct)
  case (2 W n d)
  then show ?case by (cases m) auto
qed simp

lemma orders_stable:
  "shallow W n d \<Longrightarrow> n \<le> m \<Longrightarrow> preorder W m d = preorder W n d \<and> postorder W m d = postorder W n d"
proof (induction W n d arbitrary: m rule: shallow.induct)
  case (2 W n d)
  then obtain m' where m: "m = Suc m'" "n \<le> m'" by (cases m) auto
  have sub: "\<forall>c\<in>set (children W d). shallow W n c" using "2.prems"(1) by simp
  have c: "preorder W m' c = preorder W n c \<and> postorder W m' c = postorder W n c"
    if "c \<in> set (children W d)" for c
    by (rule "2.IH" [OF that]) (use sub that m(2) in blast)+
  have "map (preorder W m') (children W d) = map (preorder W n) (children W d)"
    and "map (postorder W m') (children W d) = map (postorder W n) (children W d)"
    by (rule map_cong [OF refl]; use c in blast)+
  then show ?case unfolding m(1) by (simp only: preorder.simps postorder.simps)
qed simp

lemma mset_concat_sum: "mset (concat xss) = sum_list (map mset xss)"
  by (induction xss) simp_all

lemma mset_postorder: "mset (postorder W n d) = mset (preorder W n d)"
proof (induction n arbitrary: d)
  case (Suc n)
  have "map (mset \<circ> postorder W n) (children W d) = map (mset \<circ> preorder W n) (children W d)"
    by (rule map_cong) (simp_all add: Suc)
  then show ?case by (simp only: postorder.simps preorder.simps mset_concat_sum mset_append
        mset.simps map_map) simp
qed simp

section \<open>The effect of the callback\<close>

definition zl_visit ::
    "('h, 'd, ('z, 'h, 'd, 'p) zl_state) libzfs_datasets \<Rightarrow> 'z zend \<Rightarrow> ('h, 'd) dataset_world \<Rightarrow>
     nat \<Rightarrow> 'd \<Rightarrow> ('z, 'h, 'd, 'p) zl_state \<Rightarrow> ('z, 'h, 'd, 'p) zl_state" where
  "zl_visit L Z W n d s = (case s of (cb, tr) \<Rightarrow>
     (cb\<lparr>zl_return_array :=
           append_zvals Z (map (zfs_dataset_info L Z) (preorder W n d)) (zl_return_array cb)\<rparr>,
      tr @ map Ev_zfs_close (postorder W n d)))"

lemma fold_zl_visit:
  "fold (zl_visit L Z W n) ds (cb, tr) =
    (cb\<lparr>zl_return_array :=
       append_zvals Z (map (zfs_dataset_info L Z) (concat (map (preorder W n) ds))) (zl_return_array cb)\<rparr>,
     tr @ map Ev_zfs_close (concat (map (postorder W n) ds)))"
  by (induction ds arbitrary: cb tr) (simp_all add: zl_visit_def)

lemma zfs_list_callback_visit:
  assumes "zfs_iterates L W" and "shallow W n d"
  shows "zfs_list_callback L Z n (Some d) s = Some (0, zl_visit L Z W n d s)"
  using assms(2)
proof (induction n arbitrary: d s)
  case (Suc n)
  obtain cb tr where s: "s = (cb, tr)" by (cases s)
  have "\<forall>c\<in>set ds. shallow W n c \<Longrightarrow>
      iterate (zfs_list_callback L Z n) ds s' = Some (0, fold (zl_visit L Z W n) ds s')" for ds s'
    by (induction ds arbitrary: s') (simp_all add: Suc.IH)
  then show ?case
    using assms(1) Suc.prems by (simp add: s zfs_iterates_def iterate_status_def fold_zl_visit zl_visit_def)
qed simp

interpretation zfs_walk: walker "zfs_list_callback L Z n" "\<lambda>d. zfs_iterates L W \<and> shallow W n d"
    "zl_visit L Z W n" for L Z n W
proof unfold_locales
  show "zfs_list_callback L Z n None s = Some (0, s) \<or> zfs_list_callback L Z n None s = None" for s
    by (cases n) simp_all
qed (simp add: zfs_list_callback_visit)

section \<open>The effect of the entry point\<close>

text \<open>All datasets of the world, in the order of the walk, and the handles in the order of closing.\<close>

definition all_datasets :: "('h, 'd) dataset_world \<Rightarrow> nat \<Rightarrow> 'h \<Rightarrow> 'd list" where
  "all_datasets W n h = concat (map (preorder W n) (roots W h))"

definition all_closes :: "('h, 'd) dataset_world \<Rightarrow> nat \<Rightarrow> 'h \<Rightarrow> 'd list" where
  "all_closes W n h = concat (map (postorder W n) (roots W h))"

lemma mset_all_closes: "mset (all_closes W n h) = mset (all_datasets W n h)"
proof -
  have "map (mset \<circ> postorder W n) (roots W h) = map (mset \<circ> preorder W n) (roots W h)"
    by (rule map_cong) (simp_all add: mset_postorder)
  then show ?thesis by (simp only: all_closes_def all_datasets_def mset_concat_sum map_map)
qed

definition depth_ok :: "('h, 'd) dataset_world \<Rightarrow> nat \<Rightarrow> 'h \<Rightarrow> bool" where
  "depth_ok W n h \<longleftrightarrow> (\<forall>d\<in>set (roots W h). shallow W n d)"

lemma zfs_list_datasets_result:
  assumes "zfs_iterates L W" and "depth_ok W n h"
  shows "zfs_list_datasets L Z n (Some h) a tr =
    (let a' = append_zvals Z (map (zfs_dataset_info L Z) (all_datasets W n h)) a;
         tr' = tr @ map Ev_zfs_close (all_closes W n h)
     in Some (if root_rc W h = 0 then (0, a', tr')
              else (-1, a', php_zfs_error ''Failed to iterate ZFS datasets: %s''
                      [libzfs_error_description L h] tr')))"
proof -
  have "iterate_status (root_rc W h) (zfs_list_callback L Z n) (roots W h) s =
      Some (root_rc W h, fold (zl_visit L Z W n) (roots W h) s)" for s
    using assms by (intro zfs_walk.iterate_status_visits) (simp add: depth_ok_def)
  then show ?thesis
    using assms(1)
    by (simp add: zfs_list_datasets_def zfs_iterates_def fold_zl_visit Let_def
        all_datasets_def all_closes_def)
qed

section \<open>The row of a dataset\<close>

lemma symbolic_zl_keys [simp]:
  "symbolic_key ''name''" "symbolic_key ''type''" "symbolic_key ''used''"
  "symbolic_key ''available''" "symbolic_key ''referenced''" "symbolic_key ''mountpoint''"
  "symbolic_key ''creation''" "symbolic_key ''compressratio''"
  by (simp_all add: symbolic_key_def)

text \<open>The value a property contributes to the row: none when libzfs reports an error.\<close>

definition zfs_prop_entry :: "('h, 'd, 's) libzfs_datasets \<Rightarrow> 'd \<Rightarrow> int \<Rightarrow> zvalue option" where
  "zfs_prop_entry L zhp prop =
    (case zfs_prop_get L zhp prop ZFS_MAXPROPLEN False of (rc, buf) \<Rightarrow>
       if rc = 0 then Some (ZString buf) else None)"

lemma lookup_zfs_add_prop:
  assumes "zend_contract Z lkp elems" and "symbolic_key key"
  shows "lkp (zfs_add_prop L Z d prop key a) =
    (case zfs_prop_entry L d prop of None \<Rightarrow> lkp a | Some v \<Rightarrow> (lkp a)(key \<mapsto> v))"
  using assms(2)
  by (auto simp: zfs_add_prop_def zfs_prop_entry_def zend_contractD [OF assms(1)] split: prod.splits)

lemma lookup_zfs_dataset_info:
  assumes "zend_contract Z lkp elems"
  shows "lkp (zfs_dataset_info L Z d) k =
    (if k = ''name'' then Some (ZString (zfs_get_name L d))
     else if k = ''type'' then Some (ZString (zfs_type_name (zfs_get_type L d)))
     else if k = ''used'' then zfs_prop_entry L d ZFS_PROP_USED
     else if k = ''available'' then zfs_prop_entry L d ZFS_PROP_AVAILABLE
     else if k = ''referenced'' then zfs_prop_entry L d ZFS_PROP_REFERENCED
     else if k = ''mountpoint'' then zfs_prop_entry L d ZFS_PROP_MOUNTPOINT
     else if k = ''creation'' then zfs_prop_entry L d ZFS_PROP_CREATION
     else if k = ''compressratio'' then zfs_prop_entry L d ZFS_PROP_COMPRESSRATIO
     else None)"
  by (simp add: zfs_dataset_info_def lookup_zfs_add_prop [OF assms] zend_contractD [OF assms]
      split: option.split)

section \<open>A reference libzfs\<close>

text \<open>
  A libzfs over a given world, with fixed names, types and properties: the contract can be
  met. \<open>demo_world\<close> is a pool with two datasets.
\<close>

definition libzfs_of :: "('h, string) dataset_world \<Rightarrow> ('h, string, 's) libzfs_datasets" where
  "libzfs_of W = \<lparr>libzfs_error_description = (\<lambda>_. ''internal error''),
     zfs_get_name = (\<lambda>d. d), zfs_get_type = (\<lambda>_. ZFS_TYPE_FILESYSTEM),
     zfs_prop_get = (\<lambda>d prop len literal. if prop = ZFS_PROP_USED then (0, ''1G'') else (-1, [])),
     zfs_iter_root = (\<lambda>h f s. iterate_status (root_rc W h) f (roots W h) s),
     zfs_iter_children = (\<lambda>d f s. iterate_status (child_rc W d) f (children W d) s)\<rparr>"

lemma libzfs_of_iterates: "zfs_iterates (libzfs_of W) W"
  by (simp add: zfs_iterates_def libzfs_of_def)

definition demo_world :: "(unit, string) dataset_world" where
  "demo_world = \<lparr>roots = (\<lambda>_. [''tank'']), root_rc = (\<lambda>_. 0),
     children = (\<lambda>d. if d = ''tank'' then [''tank/a'', ''tank/b''] else []),
     child_rc = (\<lambda>d. if d = ''tank'' then -1 else 0)\<rparr>"

abbreviation demo_libzfs where "demo_libzfs \<equiv> libzfs_of demo_world"

lemmas demo_libzfs_iterates = libzfs_of_iterates [of demo_world]

lemma demo_world_depth: "depth_ok demo_world 2 h"
  by (simp add: depth_ok_def demo_world_def numeral_2_eq_2)

lemma demo_world_orders:
  "all_datasets demo_world 2 h = [''tank'', ''tank/a'', ''tank/b'']"
  "all_closes demo_world 2 h = [''tank/a'', ''tank/b'', ''tank'']"
  by (simp_all add: all_datasets_def all_closes_def demo_world_def numeral_2_eq_2)

section \<open>Properties\<close>

text \<open>C1. Every handle an iteration delivers is closed exactly once, children before their
  parent, whether or not the walk reports an error.\<close>

theorem zfs_list_closes_every_handle:
  assumes "zfs_iterates L W" and "depth_ok W n h"
  shows "\<exists>rc a tr'. zfs_list_datasets L Z n (Some h) a0 tr = Some (rc, a, tr') \<and>
    (\<exists>ws. tr' = tr @ map Ev_zfs_close (all_closes W n h) @ map Ev_warning ws) \<and>
    mset (all_closes W n h) = mset (all_datasets W n h)"
  using zfs_list_datasets_result [OF assms, of Z a0 tr] mset_all_closes [of W n h]
  by (cases "root_rc W h = 0")
    (auto simp: Let_def php_zfs_error_def intro: exI [of _ "[]"] exI [of _ "[x]" for x])

theorem zfs_list_closes_every_handle_witness:
  "\<exists>rc a tr'. zfs_list_datasets demo_libzfs zend_ref 2 (Some ()) (array_init zend_ref) [] =
      Some (rc, a, tr') \<and>
    (\<exists>ws. tr' = [] @ map Ev_zfs_close [''tank/a'', ''tank/b'', ''tank''] @ map Ev_warning ws) \<and>
    mset [''tank/a'', ''tank/b'', ''tank''] = mset [''tank'', ''tank/a'', ''tank/b'']"
  using zfs_list_closes_every_handle [OF demo_libzfs_iterates demo_world_depth]
  unfolding demo_world_orders .

text \<open>C2. The status of \<open>zfs_iter_children\<close> is dropped: although the iteration over the
  children of some dataset reports an error (and delivered perhaps only some of them), the list
  function returns 0 and issues no warning.\<close>

theorem zfs_list_drops_child_errors:
  assumes "zfs_iterates L W" and "depth_ok W n h" and "root_rc W h = 0"
    and "d \<in> set (all_datasets W n h)" and "child_rc W d \<noteq> 0"
  shows "\<exists>a tr'. zfs_list_datasets L Z n (Some h) a0 tr = Some (0, a, tr') \<and> warnings tr' = warnings tr"
proof -
  have "warnings (map Ev_zfs_close ds) = []" for ds :: "'b list"
    by (induction ds) simp_all
  then show ?thesis
    using zfs_list_datasets_result [OF assms(1,2), of Z a0 tr] assms(3) by (simp add: Let_def)
qed

theorem zfs_list_drops_child_errors_witness:
  "child_rc demo_world ''tank'' = -1 \<and>
   (\<exists>a tr'. zfs_list_datasets demo_libzfs zend_ref 2 (Some ()) (array_init zend_ref)
        ([] :: (unit, string, string) trace) = Some (0, a, tr') \<and>
      warnings tr' = warnings ([] :: (unit, string, string) trace))"
proof -
  have world: "root_rc demo_world () = 0" "''tank'' \<in> set (all_datasets demo_world 2 ())"
      "child_rc demo_world ''tank'' \<noteq> 0" "child_rc demo_world ''tank'' = -1"
    by (simp_all only: demo_world_orders) (simp_all add: demo_world_def)
  show ?thesis
    by (intro conjI world(4) zfs_list_drops_child_errors [OF demo_libzfs_iterates demo_world_depth world(1-3)])
qed

text \<open>The row of a dataset: the keys and values of the associative array the callback
  builds, a property's key being present exactly when libzfs returned it.\<close>

theorem zfs_dataset_row:
  assumes "zend_contract Z lkp elems"
  shows "lkp (zfs_dataset_info L Z d) =
    Map.empty(
      ''name'' \<mapsto> ZString (zfs_get_name L d),
      ''type'' \<mapsto> ZString (zfs_type_name (zfs_get_type L d)),
      ''used'' := zfs_prop_entry L d ZFS_PROP_USED,
      ''available'' := zfs_prop_entry L d ZFS_PROP_AVAILABLE,
      ''referenced'' := zfs_prop_entry L d ZFS_PROP_REFERENCED,
      ''mountpoint'' := zfs_prop_entry L d ZFS_PROP_MOUNTPOINT,
      ''creation'' := zfs_prop_entry L d ZFS_PROP_CREATION,
      ''compressratio'' := zfs_prop_entry L d ZFS_PROP_COMPRESSRATIO)"
  by (rule ext) (simp add: lookup_zfs_dataset_info [OF assms])

theorem zfs_dataset_row_witness:
  "map_of (zfields (zfs_dataset_info demo_libzfs zend_ref ''tank'')) ''used'' = Some (ZString ''1G'')"
  by (simp add: zfs_dataset_row [OF zend_ref_contract])
    (simp add: zfs_prop_entry_def libzfs_of_def zfs_prop_defs)

text \<open>More recursion depth never changes the result once the tree fits: the bound is not
  part of the behaviour.\<close>

theorem zfs_list_depth_irrelevant:
  assumes "zfs_iterates L W" and "depth_ok W n h" and "n \<le> m"
  shows "zfs_list_datasets L Z m (Some h) a tr = zfs_list_datasets L Z n (Some h) a tr"
proof -
  have m: "depth_ok W m h" using assms(2,3) by (auto simp: depth_ok_def intro: shallow_mono)
  have same: "preorder W m d = preorder W n d \<and> postorder W m d = postorder W n d"
    if "d \<in> set (roots W h)" for d
    by (rule orders_stable [OF _ assms(3)]) (use assms(2) that in \<open>simp add: depth_ok_def\<close>)
  have "map (preorder W m) (roots W h) = map (preorder W n) (roots W h)"
    and "map (postorder W m) (roots W h) = map (postorder W n) (roots W h)"
    by (simp_all add: same cong: map_cong)
  then show ?thesis
    by (simp only: zfs_list_datasets_result [OF assms(1) m] zfs_list_datasets_result [OF assms(1,2)]
        all_datasets_def all_closes_def)
qed

theorem zfs_list_depth_irrelevant_witness:
  "zfs_list_datasets demo_libzfs zend_ref 100 (Some ()) (array_init zend_ref) [] =
   zfs_list_datasets demo_libzfs zend_ref 2 (Some ()) (array_init zend_ref) []"
  by (rule zfs_list_depth_irrelevant [OF demo_libzfs_iterates demo_world_depth]) simp

end
