(* ===== verification/Zpool_List.thy ===== *)
theory Zpool_List
  imports Php_Runtime Zfs_Types
begin

unbundle bit_operations_syntax

text \<open>
  \<open>zpool_list.c\<close>: the list of pools. The functions of libzfs are the record
  \<open>libzfs_pools\<close>. The lemmas give the row the callback builds (with the arithmetic of the
  capacity at the width of \<open>uint64_t\<close>), make the callback a \<open>walker\<close>, and give the
  behaviour of \<open>zpool_list_pools\<close>.
\<close>

section \<open>Interface\<close>

text \<open>
  \<open>zpool_get_prop zhp prop len literal\<close> gives the return value and the string left in the
  buffer.
\<close>

record ('h, 'p, 's) libzfs_pools = "'h libzfs_common" +
  zpool_get_name :: "'p \<Rightarrow> string"
  zpool_get_prop_int :: "'p \<Rightarrow> int \<Rightarrow> u64"
  zpool_get_status :: "'p \<Rightarrow> zpool_status_t"
  zpool_get_prop :: "'p \<Rightarrow> int \<Rightarrow> nat \<Rightarrow> bool \<Rightarrow> int \<times> string"
  zpool_iter :: "'h \<Rightarrow> ('p, 's) iter_f \<Rightarrow> 's \<Rightarrow> (int \<times> 's) option"

section \<open>The callback\<close>

record 'z zpool_list_cb_t =
  pl_return_array :: 'z
  pl_error :: int

definition zpool_health :: "zpool_status_t \<Rightarrow> string" where
  "zpool_health status =
    (case status of
      ZPOOL_STATUS_CORRUPT_CACHE \<Rightarrow> ''CORRUPT_CACHE''
    | ZPOOL_STATUS_MISSING_DEV_R \<Rightarrow> ''MISSING_DEV_R''
    | ZPOOL_STATUS_MISSING_DEV_NR \<Rightarrow> ''MISSING_DEV_NR''
    | ZPOOL_STATUS_CORRUPT_LABEL_R \<Rightarrow> ''CORRUPT_LABEL_R''
    | ZPOOL_STATUS_CORRUPT_LABEL_NR \<Rightarrow> ''CORRUPT_LABEL_NR''
    | ZPOOL_STATUS_BAD_GUID_SUM \<Rightarrow> ''BAD_GUID_SUM''
    | ZPOOL_STATUS_CORRUPT_POOL \<Rightarrow> ''CORRUPT_POOL''
    | ZPOOL_STATUS_CORRUPT_DATA \<Rightarrow> ''CORRUPT_DATA''
    | ZPOOL_STATUS_FAILING_DEV \<Rightarrow> ''FAILING_DEV''
    | ZPOOL_STATUS_VERSION_NEWER \<Rightarrow> ''VERSION_NEWER''
    | ZPOOL_STATUS_HOSTID_MISMATCH \<Rightarrow> ''HOSTID_MISMATCH''
    | ZPOOL_STATUS_IO_FAILURE_WAIT \<Rightarrow> ''IO_FAILURE_WAIT''
    | ZPOOL_STATUS_IO_FAILURE_CONTINUE \<Rightarrow> ''IO_FAILURE_CONTINUE''
    | ZPOOL_STATUS_BAD_LOG \<Rightarrow> ''BAD_LOG''
    | ZPOOL_STATUS_ERRATA \<Rightarrow> ''ERRATA''
    | ZPOOL_STATUS_UNSUP_FEAT_READ \<Rightarrow> ''UNSUP_FEAT_READ''
    | ZPOOL_STATUS_UNSUP_FEAT_WRITE \<Rightarrow> ''UNSUP_FEAT_WRITE''
    | ZPOOL_STATUS_FAULTED_DEV_R \<Rightarrow> ''FAULTED_DEV_R''
    | ZPOOL_STATUS_FAULTED_DEV_NR \<Rightarrow> ''FAULTED_DEV_NR''
    | ZPOOL_STATUS_VERSION_OLDER \<Rightarrow> ''VERSION_OLDER''
    | ZPOOL_STATUS_FEAT_DISABLED \<Rightarrow> ''FEAT_DISABLED''
    | ZPOOL_STATUS_RESILVERING \<Rightarrow> ''RESILVERING''
    | ZPOOL_STATUS_OFFLINE_DEV \<Rightarrow> ''OFFLINE_DEV''
    | ZPOOL_STATUS_REMOVED_DEV \<Rightarrow> ''REMOVED_DEV''
    | ZPOOL_STATUS_OK \<Rightarrow> ''ONLINE''
    | _ \<Rightarrow> ''ONLINE'')"

text \<open>
  The product and the quotient are taken in \<open>uint64_t\<close>, the quotient is converted to \<open>int\<close>
  (32 bits) and the \<open>int\<close> to a PHP integer.
\<close>

definition zpool_capacity :: "u64 \<Rightarrow> u64 \<Rightarrow> u64" where
  "zpool_capacity sz allocated =
    (if sz > 0 then scast (ucast ((allocated * 100) div sz) :: u32) else 0)"

definition zpool_add_prop ::
    "('h, 'p, 's) libzfs_pools \<Rightarrow> 'z zend \<Rightarrow> 'p \<Rightarrow> int \<Rightarrow> string \<Rightarrow> 'z \<Rightarrow> 'z" where
  "zpool_add_prop L Z zhp prop key info =
    (case zpool_get_prop L zhp prop ZPOOL_MAXPROPLEN False of (rc, property_buf) \<Rightarrow>
       if rc = 0 then add_assoc_string Z info key property_buf else info)"

definition zpool_pool_info :: "('h, 'p, 's) libzfs_pools \<Rightarrow> 'z zend \<Rightarrow> 'p \<Rightarrow> 'z" where
  "zpool_pool_info L Z zhp =
    (let info = array_init Z;
         info = add_assoc_string Z info ''name'' (zpool_get_name L zhp);
         sz = zpool_get_prop_int L zhp ZPOOL_PROP_SIZE;
         info = add_assoc_long Z info ''size'' sz;
         allocated = zpool_get_prop_int L zhp ZPOOL_PROP_ALLOCATED;
         info = add_assoc_long Z info ''allocated'' allocated;
         free = zpool_get_prop_int L zhp ZPOOL_PROP_FREE;
         info = add_assoc_long Z info ''free'' free;
         info = add_assoc_long Z info ''capacity'' (zpool_capacity sz allocated);
         status = zpool_get_status L zhp;
         info = add_assoc_string Z info ''health'' (zpool_health status);
         info = zpool_add_prop L Z zhp ZPOOL_PROP_VERSION ''version'' info;
         info = zpool_add_prop L Z zhp ZPOOL_PROP_BOOTFS ''bootfs'' info;
         info = zpool_add_prop L Z zhp ZPOOL_PROP_ALTROOT ''altroot'' info
     in info)"

type_synonym ('z, 'h, 'd, 'p) pl_state = "'z zpool_list_cb_t \<times> ('h, 'd, 'p) trace"

fun zpool_list_callback ::
    "('h, 'p, ('z, 'h, 'd, 'p) pl_state) libzfs_pools \<Rightarrow> 'z zend \<Rightarrow>
     ('p, ('z, 'h, 'd, 'p) pl_state) iter_f" where
  "zpool_list_callback L Z None s = Some (0, s)"
| "zpool_list_callback L Z (Some zhp) (cb, tr) =
    (let pool_info = zpool_pool_info L Z zhp;
         cb = cb\<lparr>pl_return_array := add_next_index_zval Z (pl_return_array cb) pool_info\<rparr>
     in Some (0, cb, tr @ [Ev_zpool_close zhp]))"

section \<open>The entry point\<close>

definition zpool_list_pools ::
    "('h, 'p, ('z, 'h, 'd, 'p) pl_state) libzfs_pools \<Rightarrow> 'z zend \<Rightarrow> 'h option \<Rightarrow> 'z \<Rightarrow>
     ('h, 'd, 'p) trace \<Rightarrow> (int \<times> 'z \<times> ('h, 'd, 'p) trace) option" where
  "zpool_list_pools L Z g_zfs return_value tr =
    (case g_zfs of
       None \<Rightarrow> Some (-1, return_value, php_zfs_error ''libzfs handle is NULL'' [] tr)
     | Some h \<Rightarrow>
        (let cb_data = \<lparr>pl_return_array = return_value, pl_error = 0\<rparr>
         in case zpool_iter L h (zpool_list_callback L Z) (cb_data, tr) of
              None \<Rightarrow> None
            | Some (ret, cb_data, tr) \<Rightarrow>
                if ret \<noteq> 0 then
                  Some (-1, pl_return_array cb_data,
                    php_zfs_error ''Failed to iterate ZFS pools: %s''
                      [libzfs_error_description L h] tr)
                else if pl_error cb_data \<noteq> 0 then
                  Some (-1, pl_return_array cb_data,
                    php_zfs_error ''Error occurred during pool enumeration'' [] tr)
                else Some (0, pl_return_array cb_data, tr)))"

section \<open>The capacity\<close>

lemma ucast32_small:
  assumes "unat (q :: u64) < 2 ^ 31"
  shows "unat (ucast q :: u32) = unat q"
proof -
  have "unat (ucast q :: u32) = take_bit LENGTH(32) (unat q)" by (rule unsigned_ucast_eq)
  also have "\<dots> = unat q" by (rule take_bit_nat_eq_self) (rule less_le_trans [OF assms], simp)
  finally show ?thesis .
qed
lemma scast32_small:
  assumes "unat (w :: u32) < 2 ^ 31"
  shows "unat (scast w :: u64) = unat w"
proof -
  have "int (unat w) < int (2 ^ 31)" using assms by (simp only: of_nat_less_iff)
  then have lt: "uint w < 2 ^ 31" by simp
  have ge: "- (2 ^ 31) \<le> uint w" by (rule order.trans [OF _ uint_ge_0]) simp
  have "signed_take_bit 31 (uint w) = uint w" using ge lt by (rule signed_take_bit_int_eq_self)
  then have s: "sint w = uint w" by (simp add: sint_uint)
  have "(scast w :: u64) = word_of_int (sint w)" by (rule scast_eq)
  also have "\<dots> = word_of_int (uint w)" by (simp only: s)
  also have "\<dots> = ucast w" by (rule ucast_eq [symmetric])
  finally have "unat (scast w :: u64) = unat (ucast w :: u64)" by simp
  also have "\<dots> = take_bit LENGTH(64) (unat w)" by (rule unsigned_ucast_eq)
  also have "\<dots> = unat w" by (rule take_bit_nat_eq_self) (rule less_le_trans [OF assms], simp)
  finally show ?thesis .
qed
lemma zpool_capacity_exact:
  assumes "unat allocated * 100 < 2 ^ 64" and "sz \<noteq> 0"
    and "unat allocated * 100 div unat sz < 2 ^ 31"
  shows "unat (zpool_capacity sz allocated) = unat allocated * 100 div unat sz"
proof -
  have "unat (allocated * 100) = unat allocated * 100"
    using assms(1) by (simp add: unat_word_ariths)
  then have q: "unat ((allocated * 100) div sz) = unat allocated * 100 div unat sz"
    by (simp only: unat_div_distrib)
  have lt: "unat ((allocated * 100) div sz) < 2 ^ 31" using assms(3) by (simp only: q)
  have eq: "unat (ucast ((allocated * 100) div sz) :: u32) = unat ((allocated * 100) div sz)"
    using lt by (rule ucast32_small)
  have "unat (scast (ucast ((allocated * 100) div sz) :: u32) :: u64) =
      unat (ucast ((allocated * 100) div sz) :: u32)"
    by (rule scast32_small) (simp only: eq lt)
  then show ?thesis
    using assms(2) by (simp only: zpool_capacity_def eq q) (simp add: word_greater_zero_iff)
qed

section \<open>The effect of the callback\<close>

definition pl_visit ::
    "('h, 'p, ('z, 'h, 'd, 'p) pl_state) libzfs_pools \<Rightarrow> 'z zend \<Rightarrow> 'p \<Rightarrow>
     ('z, 'h, 'd, 'p) pl_state \<Rightarrow> ('z, 'h, 'd, 'p) pl_state" where
  "pl_visit L Z zhp s = (case s of (cb, tr) \<Rightarrow>
     (cb\<lparr>pl_return_array := add_next_index_zval Z (pl_return_array cb) (zpool_pool_info L Z zhp)\<rparr>,
      tr @ [Ev_zpool_close zhp]))"

lemma fold_pl_visit:
  "fold (pl_visit L Z) ps (cb, tr) =
    (cb\<lparr>pl_return_array := append_zvals Z (map (zpool_pool_info L Z) ps) (pl_return_array cb)\<rparr>,
     tr @ map Ev_zpool_close ps)"
  by (induction ps arbitrary: cb tr) (simp_all add: pl_visit_def)

interpretation zpool_walk: walker "zpool_list_callback L Z" "\<lambda>p. True" "pl_visit L Z" for L Z
proof unfold_locales
  show "zpool_list_callback L Z (Some p) s = Some (0, pl_visit L Z p s)" for p s
    by (cases s) (simp add: pl_visit_def)
qed simp

section \<open>The effect of the entry point\<close>

text \<open>The pools an iteration delivers and the status it reports when no callback stopped it.\<close>

definition zpool_iterates ::
    "('h, 'p, 's) libzfs_pools \<Rightarrow> ('h \<Rightarrow> 'p list) \<Rightarrow> ('h \<Rightarrow> int) \<Rightarrow> bool" where
  "zpool_iterates L pools rc \<longleftrightarrow> (\<forall>h f s. zpool_iter L h f s = iterate_status (rc h) f (pools h) s)"

lemma zpool_list_pools_result:
  assumes "zpool_iterates L pools rc"
  shows "zpool_list_pools L Z (Some h) a tr =
    (let a' = append_zvals Z (map (zpool_pool_info L Z) (pools h)) a;
         tr' = tr @ map Ev_zpool_close (pools h)
     in Some (if rc h = 0 then (0, a', tr')
              else (-1, a', php_zfs_error ''Failed to iterate ZFS pools: %s''
                      [libzfs_error_description L h] tr')))"
proof -
  have "iterate_status (rc h) (zpool_list_callback L Z) (pools h) s =
      Some (rc h, fold (pl_visit L Z) (pools h) s)" for s
    by (rule zpool_walk.iterate_status_visits) simp
  then show ?thesis
    using assms by (simp add: zpool_list_pools_def zpool_iterates_def fold_pl_visit Let_def)
qed

section \<open>The row of a pool\<close>

lemma symbolic_pl_keys [simp]:
  "symbolic_key ''name''" "symbolic_key ''size''" "symbolic_key ''allocated''"
  "symbolic_key ''free''" "symbolic_key ''capacity''" "symbolic_key ''health''"
  "symbolic_key ''version''" "symbolic_key ''bootfs''" "symbolic_key ''altroot''"
  by (simp_all add: symbolic_key_def)

definition zpool_prop_entry :: "('h, 'p, 's) libzfs_pools \<Rightarrow> 'p \<Rightarrow> int \<Rightarrow> zvalue option" where
  "zpool_prop_entry L zhp prop =
    (case zpool_get_prop L zhp prop ZPOOL_MAXPROPLEN False of (rc, buf) \<Rightarrow>
       if rc = 0 then Some (ZString buf) else None)"

lemma lookup_zpool_add_prop:
  assumes "zend_contract Z lkp elems" and "symbolic_key key"
  shows "lkp (zpool_add_prop L Z d prop key a) =
    (case zpool_prop_entry L d prop of None \<Rightarrow> lkp a | Some v \<Rightarrow> (lkp a)(key \<mapsto> v))"
  using assms(2)
  by (auto simp: zpool_add_prop_def zpool_prop_entry_def zend_contractD [OF assms(1)] split: prod.splits)

lemma lookup_zpool_pool_info:
  assumes "zend_contract Z lkp elems"
  shows "lkp (zpool_pool_info L Z p) k =
    (if k = ''name'' then Some (ZString (zpool_get_name L p))
     else if k = ''size'' then Some (ZLong (zpool_get_prop_int L p ZPOOL_PROP_SIZE))
     else if k = ''allocated'' then Some (ZLong (zpool_get_prop_int L p ZPOOL_PROP_ALLOCATED))
     else if k = ''free'' then Some (ZLong (zpool_get_prop_int L p ZPOOL_PROP_FREE))
     else if k = ''capacity'' then
       Some (ZLong (zpool_capacity (zpool_get_prop_int L p ZPOOL_PROP_SIZE)
                                   (zpool_get_prop_int L p ZPOOL_PROP_ALLOCATED)))
     else if k = ''health'' then Some (ZString (zpool_health (zpool_get_status L p)))
     else if k = ''version'' then zpool_prop_entry L p ZPOOL_PROP_VERSION
     else if k = ''bootfs'' then zpool_prop_entry L p ZPOOL_PROP_BOOTFS
     else if k = ''altroot'' then zpool_prop_entry L p ZPOOL_PROP_ALTROOT
     else None)"
  by (simp add: zpool_pool_info_def lookup_zpool_add_prop [OF assms] zend_contractD [OF assms]
      Let_def split: option.split)

section \<open>A reference libzfs\<close>

definition libzfs_pools_of ::
    "('h \<Rightarrow> string list) \<Rightarrow> ('h \<Rightarrow> int) \<Rightarrow> ('h, string, 's) libzfs_pools" where
  "libzfs_pools_of pools rc = \<lparr>libzfs_error_description = (\<lambda>_. ''internal error''),
     zpool_get_name = (\<lambda>p. p),
     zpool_get_prop_int = (\<lambda>p prop. if prop = ZPOOL_PROP_SIZE then 1000
        else if prop = ZPOOL_PROP_ALLOCATED then 255 else 745),
     zpool_get_status = (\<lambda>_. ZPOOL_STATUS_REBUILDING),
     zpool_get_prop = (\<lambda>p prop len literal. if prop = ZPOOL_PROP_VERSION then (0, ''5000'') else (-1, [])),
     zpool_iter = (\<lambda>h f s. iterate_status (rc h) f (pools h) s)\<rparr>"

lemma libzfs_pools_of_iterates: "zpool_iterates (libzfs_pools_of pools rc) pools rc"
  by (simp add: zpool_iterates_def libzfs_pools_of_def)

section \<open>Properties\<close>

text \<open>The row of a pool: keys and values of the associative array the callback builds.\<close>

theorem zpool_pool_row:
  assumes "zend_contract Z lkp elems"
  shows "lkp (zpool_pool_info L Z p) =
    Map.empty(
      ''name'' \<mapsto> ZString (zpool_get_name L p),
      ''size'' \<mapsto> ZLong (zpool_get_prop_int L p ZPOOL_PROP_SIZE),
      ''allocated'' \<mapsto> ZLong (zpool_get_prop_int L p ZPOOL_PROP_ALLOCATED),
      ''free'' \<mapsto> ZLong (zpool_get_prop_int L p ZPOOL_PROP_FREE),
      ''capacity'' \<mapsto> ZLong (zpool_capacity (zpool_get_prop_int L p ZPOOL_PROP_SIZE)
                                   (zpool_get_prop_int L p ZPOOL_PROP_ALLOCATED)),
      ''health'' \<mapsto> ZString (zpool_health (zpool_get_status L p)),
      ''version'' := zpool_prop_entry L p ZPOOL_PROP_VERSION,
      ''bootfs'' := zpool_prop_entry L p ZPOOL_PROP_BOOTFS,
      ''altroot'' := zpool_prop_entry L p ZPOOL_PROP_ALTROOT)"
  by (rule ext) (simp add: lookup_zpool_pool_info [OF assms])

theorem zpool_pool_row_witness:
  "map_of (zfields (zpool_pool_info (libzfs_pools_of (\<lambda>_ :: unit. []) (\<lambda>_. 0)) zend_ref ''tank'')) ''version'' =
   Some (ZString ''5000'')"
  by (simp add: zpool_pool_row [OF zend_ref_contract])
    (simp add: zpool_prop_entry_def libzfs_pools_of_def zpool_prop_defs)

text \<open>The capacity is the rounded-down percentage, between 0 and 100, for a pool whose
  allocation is at most its size and below \<open>2^64 / 100\<close> bytes (about 163 PiB).\<close>

theorem zpool_capacity_percentage:
  assumes "unat allocated * 100 < 2 ^ 64" and "unat allocated \<le> unat sz"
  shows "unat (zpool_capacity sz allocated) = unat allocated * 100 div unat sz \<and>
    unat (zpool_capacity sz allocated) \<le> 100"
proof -
  have le: "unat allocated * 100 div unat sz \<le> 100"
    using div_le_mono [OF mult_le_mono1 [OF assms(2)], of 100 "unat sz"]
    by (cases "unat sz = 0") (simp_all add: mult.commute)
  have "unat allocated * 100 div unat sz < 2 ^ 31" by (rule le_less_trans [OF le]) simp
  then have "unat (zpool_capacity sz allocated) = unat allocated * 100 div unat sz"
    using assms(1) zpool_capacity_exact [of allocated sz]
    by (cases "sz = 0") (simp_all add: zpool_capacity_def)
  with le show ?thesis by simp
qed

theorem zpool_capacity_percentage_witness:
  "unat (zpool_capacity 1000 255) = 25 \<and> unat (zpool_capacity 1000 255) \<le> 100"
  using zpool_capacity_percentage [of 255 1000] by simp

text \<open>The product \<open>allocated * 100\<close> wraps at 64 bits: a full pool of \<open>2^62\<close> bytes is
  reported with capacity 0, and a half full one of \<open>2^61\<close> bytes with capacity 2.\<close>

theorem zpool_capacity_wraps:
  "zpool_capacity 0x4000000000000000 0x4000000000000000 = 0 \<and>
   zpool_capacity 0x2000000000000000 0x1000000000000000 = 2"
  by code_simp

text \<open>ONLINE is reported exactly for the status OK and for eight statuses that the switch
  does not name.\<close>

theorem zpool_health_online:
  "zpool_health st = ''ONLINE'' \<longleftrightarrow>
     st \<in> {ZPOOL_STATUS_OK, ZPOOL_STATUS_HOSTID_ACTIVE, ZPOOL_STATUS_HOSTID_REQUIRED,
           ZPOOL_STATUS_IO_FAILURE_MMP, ZPOOL_STATUS_REBUILDING, ZPOOL_STATUS_REBUILD_SCRUB,
           ZPOOL_STATUS_NON_NATIVE_ASHIFT, ZPOOL_STATUS_COMPATIBILITY_ERR,
           ZPOOL_STATUS_INCOMPATIBLE_FEAT}"
  by (cases st) (simp_all add: zpool_health_def)

text \<open>C7. The list of pools: one row per pool in the order of the iteration, every pool handle
  closed once, and an error of the iteration reported as \<open>-1\<close> with one warning.\<close>

theorem zpool_list_pools_behaviour:
  assumes "zpool_iterates L pools rc" and "zend_contract Z lkp elems"
  shows "\<exists>r a ws. zpool_list_pools L Z (Some h) (array_init Z) tr =
      Some (r, a, tr @ map Ev_zpool_close (pools h) @ map Ev_warning ws) \<and>
    elems a = map (zpool_pool_info L Z) (pools h) \<and>
    (if rc h = 0 then r = 0 \<and> ws = []
     else r = -1 \<and> ws = [take 1023 (''Failed to iterate ZFS pools: '' @ libzfs_error_description L h)])"
  using zpool_list_pools_result [OF assms(1), of Z h "array_init Z" tr] elems_append_zvals_init [OF assms(2)]
  by (cases "rc h = 0") (simp_all add: Let_def php_zfs_error_def vsnprintf_def)

theorem zpool_list_pools_behaviour_witness:
  "\<exists>r a ws. zpool_list_pools (libzfs_pools_of (\<lambda>_ :: unit. [''tank'', ''dozer'']) (\<lambda>_. 0)) zend_ref (Some ())
        (array_init zend_ref) ([] :: (unit, string, string) trace) =
      Some (r, a, [] @ map Ev_zpool_close [''tank'', ''dozer''] @ map Ev_warning ws) \<and>
    zelems a = map (zpool_pool_info (libzfs_pools_of (\<lambda>_ :: unit. [''tank'', ''dozer'']) (\<lambda>_. 0)
        :: (unit, string, (zref, unit, string, string) pl_state) libzfs_pools) zend_ref)
      [''tank'', ''dozer''] \<and> r = 0 \<and> ws = []"
  using zpool_list_pools_behaviour [OF libzfs_pools_of_iterates zend_ref_contract,
      where h = "()" and pools = "\<lambda>_. [''tank'', ''dozer'']" and rc = "\<lambda>_. 0" and tr = "[]"]
  by simp

end
