(* ===== verification/Php_Zfs.thy ===== *)
theory Php_Zfs
  imports Zfs_List Zpool_List
begin

text \<open>
  \<open>zfs.c\<close>: the module entry points and the two PHP functions, in the build with
  \<open>HAVE_ZFSLIB\<close> (the file does not compile without it: \<open>get_libzfs_handle\<close> names \<open>g_zfs\<close>
  unconditionally). The module state is the global handle and the trace of calls.

  The interface between \<open>zfs.c\<close> and the two list files is the locale \<open>lister\<close>, interpreted
  on \<open>zfs_list_datasets\<close> and \<open>zpool_list_pools\<close>. \<open>module_step\<close> is the life cycle the
  engine drives, and the last section its reachability invariant.
\<close>

section \<open>Module state and entry points\<close>

record ('h, 'd, 'p) module_state =
  g_zfs :: "'h option"
  mtrace :: "('h, 'd, 'p) trace"

datatype php_status = SUCCESS | FAILURE

datatype 'z php_value = PHP_False | PHP_Array 'z

definition PHP_ZFS_VERSION :: string where "PHP_ZFS_VERSION = ''1.0.0''"
definition PHP_ZFS_EXTNAME :: string where "PHP_ZFS_EXTNAME = ''zfs''"

text \<open>\<open>zfs_functions\<close>: each function's name, and its number of required arguments.\<close>

definition zfs_functions :: "(string \<times> nat) list" where
  "zfs_functions = [(''zfs_list'', 0), (''zpool_list'', 0)]"

text \<open>\<open>init\<close> is the result of \<open>libzfs_init\<close>.\<close>

definition PHP_MINIT :: "'h option \<Rightarrow> ('h, 'd, 'p) module_state \<Rightarrow> php_status \<times> ('h, 'd, 'p) module_state" where
  "PHP_MINIT init s =
    (let s = s\<lparr>g_zfs := init, mtrace := mtrace s @ [Ev_libzfs_init init]\<rparr>
     in if g_zfs s = None
        then (FAILURE, s\<lparr>mtrace := mtrace s @ [Ev_warning ''Failed to initialize libzfs'']\<rparr>)
        else (SUCCESS, s))"

definition PHP_MSHUTDOWN :: "('h, 'd, 'p) module_state \<Rightarrow> php_status \<times> ('h, 'd, 'p) module_state" where
  "PHP_MSHUTDOWN s =
    (case g_zfs s of
       None \<Rightarrow> (SUCCESS, s)
     | Some h \<Rightarrow> (SUCCESS, s\<lparr>mtrace := mtrace s @ [Ev_libzfs_fini h], g_zfs := None\<rparr>))"

definition PHP_MINFO :: "string list list" where
  "PHP_MINFO = [[''ZFS Support'', ''enabled''], [''Extension Version'', PHP_ZFS_VERSION],
     [''libzfs Support'', ''enabled'']]"

definition get_libzfs_handle :: "('h, 'd, 'p) module_state \<Rightarrow> 'h option" where
  "get_libzfs_handle s = g_zfs s"

definition release_libzfs_handle :: "'h option \<Rightarrow> ('h, 'd, 'p) module_state \<Rightarrow> ('h, 'd, 'p) module_state" where
  "release_libzfs_handle handle s = s"

section \<open>The PHP functions\<close>

text \<open>
  \<open>parsed\<close> is the result of \<open>zend_parse_parameters_none\<close>. \<open>None\<close> is the recursion depth
  that did not suffice.
\<close>

definition PHP_FUNCTION_zfs_list ::
    "('h, 'd, ('z, 'h, 'd, 'p) zl_state) libzfs_datasets \<Rightarrow> 'z zend \<Rightarrow> nat \<Rightarrow> php_status \<Rightarrow>
     ('h, 'd, 'p) module_state \<Rightarrow> ('z php_value \<times> ('h, 'd, 'p) module_state) option" where
  "PHP_FUNCTION_zfs_list L Z n parsed s =
    (if parsed = FAILURE then Some (PHP_False, s)
     else let zfs_handle = get_libzfs_handle s in
       if zfs_handle = None then
         Some (PHP_False, s\<lparr>mtrace := php_zfs_error ''libzfs not initialized'' [] (mtrace s)\<rparr>)
       else let return_value = array_init Z in
         case zfs_list_datasets L Z n zfs_handle return_value (mtrace s) of
           None \<Rightarrow> None
         | Some (rc, return_value, tr) \<Rightarrow>
             if rc \<noteq> 0 then Some (PHP_False, s\<lparr>mtrace := tr @ [Ev_zval_dtor]\<rparr>)
             else Some (PHP_Array return_value, s\<lparr>mtrace := tr\<rparr>))"

definition PHP_FUNCTION_zpool_list ::
    "('h, 'p, ('z, 'h, 'd, 'p) pl_state) libzfs_pools \<Rightarrow> 'z zend \<Rightarrow> php_status \<Rightarrow>
     ('h, 'd, 'p) module_state \<Rightarrow> ('z php_value \<times> ('h, 'd, 'p) module_state) option" where
  "PHP_FUNCTION_zpool_list L Z parsed s =
    (if parsed = FAILURE then Some (PHP_False, s)
     else let zfs_handle = get_libzfs_handle s in
       if zfs_handle = None then
         Some (PHP_False, s\<lparr>mtrace := php_zfs_error ''libzfs not initialized'' [] (mtrace s)\<rparr>)
       else let return_value = array_init Z in
         case zpool_list_pools L Z zfs_handle return_value (mtrace s) of
           None \<Rightarrow> None
         | Some (rc, return_value, tr) \<Rightarrow>
             if rc \<noteq> 0 then Some (PHP_False, s\<lparr>mtrace := tr @ [Ev_zval_dtor]\<rparr>)
             else Some (PHP_Array return_value, s\<lparr>mtrace := tr\<rparr>))"

section \<open>The interface to the list files\<close>

text \<open>The shape the two functions share, over any list function.\<close>

definition php_list_function ::
    "('h option \<Rightarrow> 'z \<Rightarrow> ('h, 'd, 'p) trace \<Rightarrow> (int \<times> 'z \<times> ('h, 'd, 'p) trace) option) \<Rightarrow> 'z zend \<Rightarrow>
     php_status \<Rightarrow> ('h, 'd, 'p) module_state \<Rightarrow> ('z php_value \<times> ('h, 'd, 'p) module_state) option" where
  "php_list_function list_fn Z parsed s =
    (if parsed = FAILURE then Some (PHP_False, s)
     else case g_zfs s of
       None \<Rightarrow> Some (PHP_False, s\<lparr>mtrace := mtrace s @ [Ev_warning ''libzfs not initialized'']\<rparr>)
     | Some h \<Rightarrow>
        (case list_fn (Some h) (array_init Z) (mtrace s) of
           None \<Rightarrow> None
         | Some (rc, a, tr) \<Rightarrow>
             if rc \<noteq> 0 then Some (PHP_False, s\<lparr>mtrace := tr @ [Ev_zval_dtor]\<rparr>)
             else Some (PHP_Array a, s\<lparr>mtrace := tr\<rparr>)))"

lemma PHP_FUNCTION_shape:
  "PHP_FUNCTION_zfs_list L Z n parsed s = php_list_function (zfs_list_datasets L Z n) Z parsed s"
  "PHP_FUNCTION_zpool_list L' Z parsed s = php_list_function (zpool_list_pools L' Z) Z parsed s"
  by (auto simp: PHP_FUNCTION_zfs_list_def PHP_FUNCTION_zpool_list_def php_list_function_def
      get_libzfs_handle_def php_zfs_error_def vsnprintf_def Let_def split: option.splits)

fun handle_event :: "('h, 'd, 'p) event \<Rightarrow> bool" where
  "handle_event (Ev_libzfs_init _) = True"
| "handle_event (Ev_libzfs_fini _) = True"
| "handle_event _ = False"

text \<open>
  What a list function promises: with the handle present it appends its rows and closes its
  handles, reports the iteration's status as 0 or \<open>-1\<close>, with one warning in the second case,
  and never touches the library handle.
\<close>

locale lister =
  fixes list_fn :: "'h option \<Rightarrow> 'z \<Rightarrow> ('h, 'd, 'p) trace \<Rightarrow> (int \<times> 'z \<times> ('h, 'd, 'p) trace) option"
    and Z :: "'z zend" and ready :: "'h \<Rightarrow> bool" and rows :: "'h \<Rightarrow> 'z list"
    and closes :: "'h \<Rightarrow> ('h, 'd, 'p) trace" and status :: "'h \<Rightarrow> int" and message :: "'h \<Rightarrow> string"
  assumes list_fn_null:
      "list_fn None a tr = Some (-1, a, tr @ [Ev_warning ''libzfs handle is NULL''])"
    and list_fn_ready: "ready h \<Longrightarrow> list_fn (Some h) a tr =
      Some (if status h = 0 then (0, append_zvals Z (rows h) a, tr @ closes h)
            else (-1, append_zvals Z (rows h) a, tr @ closes h @ [Ev_warning (message h)]))"
    and closes_quiet: "e \<in> set (closes h) \<Longrightarrow> \<not> handle_event e"
begin

lemma php_list_success:
  "g_zfs s = Some h \<Longrightarrow> ready h \<Longrightarrow> status h = 0 \<Longrightarrow>
    php_list_function list_fn Z SUCCESS s =
      Some (PHP_Array (append_zvals Z (rows h) (array_init Z)), s\<lparr>mtrace := mtrace s @ closes h\<rparr>)"
  by (simp add: php_list_function_def list_fn_ready)

lemma php_list_failure:
  "g_zfs s = Some h \<Longrightarrow> ready h \<Longrightarrow> status h \<noteq> 0 \<Longrightarrow>
    php_list_function list_fn Z SUCCESS s =
      Some (PHP_False, s\<lparr>mtrace := mtrace s @ closes h @ [Ev_warning (message h), Ev_zval_dtor]\<rparr>)"
  by (simp add: php_list_function_def list_fn_ready)

lemma php_list_quiet:
  assumes "\<forall>h. ready h"
  shows "\<exists>v s' evs. php_list_function list_fn Z parsed s = Some (v, s') \<and> g_zfs s' = g_zfs s \<and>
    mtrace s' = mtrace s @ evs \<and> (\<forall>e\<in>set evs. \<not> handle_event e)"
  using assms closes_quiet
  by (cases parsed; cases "g_zfs s") (auto simp: php_list_function_def list_fn_ready)

end

definition zl_message :: "('h, 'd, 's) libzfs_datasets \<Rightarrow> 'h \<Rightarrow> string" where
  "zl_message L h = take 1023 (''Failed to iterate ZFS datasets: '' @ libzfs_error_description L h)"

definition pl_message :: "('h, 'p, 's) libzfs_pools \<Rightarrow> 'h \<Rightarrow> string" where
  "pl_message L h = take 1023 (''Failed to iterate ZFS pools: '' @ libzfs_error_description L h)"

interpretation zfs_lister: lister "zfs_list_datasets L Z n" Z
    "\<lambda>h. zfs_iterates L W \<and> depth_ok W n h"
    "\<lambda>h. map (zfs_dataset_info L Z) (all_datasets W n h)"
    "\<lambda>h. map Ev_zfs_close (all_closes W n h)" "root_rc W" "zl_message L" for L Z n W
  by unfold_locales
    (auto simp: zfs_list_datasets_result Let_def php_zfs_error_def vsnprintf_def zl_message_def,
     simp add: zfs_list_datasets_def php_zfs_error_def vsnprintf_def)

interpretation zpool_lister: lister "zpool_list_pools L Z" Z
    "\<lambda>h. zpool_iterates L pools rc" "\<lambda>h. map (zpool_pool_info L Z) (pools h)"
    "\<lambda>h. map Ev_zpool_close (pools h)" rc "pl_message L" for L Z pools rc
  by unfold_locales
    (auto simp: zpool_list_pools_result Let_def php_zfs_error_def vsnprintf_def pl_message_def,
     simp add: zpool_list_pools_def php_zfs_error_def vsnprintf_def)

section \<open>The life cycle\<close>

text \<open>
  The engine starts the module, calls its functions any number of times in any order, and
  shuts it down; a module whose start failed is only shut down.
\<close>

datatype phase = Unloaded | Running | Failed

inductive module_step ::
    "('h, 'd, ('z, 'h, 'd, 'p) zl_state) libzfs_datasets \<Rightarrow> ('h, 'p, ('z, 'h, 'd, 'p) pl_state) libzfs_pools \<Rightarrow>
     'z zend \<Rightarrow> nat \<Rightarrow> phase \<times> ('h, 'd, 'p) module_state \<Rightarrow> phase \<times> ('h, 'd, 'p) module_state \<Rightarrow> bool"
  for LD LP Z n where
  start_ok: "PHP_MINIT init s = (SUCCESS, s') \<Longrightarrow> module_step LD LP Z n (Unloaded, s) (Running, s')"
| start_failed: "PHP_MINIT init s = (FAILURE, s') \<Longrightarrow> module_step LD LP Z n (Unloaded, s) (Failed, s')"
| call_zfs_list: "PHP_FUNCTION_zfs_list LD Z n parsed s = Some (v, s') \<Longrightarrow>
    module_step LD LP Z n (Running, s) (Running, s')"
| call_zpool_list: "PHP_FUNCTION_zpool_list LP Z parsed s = Some (v, s') \<Longrightarrow>
    module_step LD LP Z n (Running, s) (Running, s')"
| shutdown: "ph \<noteq> Unloaded \<Longrightarrow> PHP_MSHUTDOWN s = (st, s') \<Longrightarrow>
    module_step LD LP Z n (ph, s) (Unloaded, s')"

inductive_cases module_stepE: "module_step LD LP Z n (ph, s) (ph', s')"
inductive_simps module_step_Failed: "module_step LD LP Z n (Failed, s) c"

abbreviation module_run where
  "module_run LD LP Z n \<equiv> (module_step LD LP Z n)\<^sup>*\<^sup>*"

definition initial_state :: "phase \<times> ('h, 'd, 'p) module_state" where
  "initial_state = (Unloaded, \<lparr>g_zfs = None, mtrace = []\<rparr>)"

text \<open>
  The library handles a trace leaves open, \<open>None\<close> when it opens a second one or closes one
  that is not open.
\<close>

fun open_handle :: "'h option \<Rightarrow> ('h, 'd, 'p) trace \<Rightarrow> 'h option option" where
  "open_handle cur [] = Some cur"
| "open_handle cur (Ev_libzfs_init None # tr) = open_handle cur tr"
| "open_handle cur (Ev_libzfs_init (Some h) # tr) = (if cur = None then open_handle (Some h) tr else None)"
| "open_handle cur (Ev_libzfs_fini h # tr) = (if cur = Some h then open_handle None tr else None)"
| "open_handle cur (_ # tr) = open_handle cur tr"

lemma open_handle_append:
  "open_handle cur (tr @ tr') = (case open_handle cur tr of None \<Rightarrow> None | Some c \<Rightarrow> open_handle c tr')"
  by (induction cur tr rule: open_handle.induct) simp_all

lemma open_handle_quiet: "\<forall>e\<in>set tr. \<not> handle_event e \<Longrightarrow> open_handle cur tr = Some cur"
  by (induction cur tr rule: open_handle.induct) simp_all

definition module_inv :: "phase \<times> ('h, 'd, 'p) module_state \<Rightarrow> bool" where
  "module_inv c = (case c of (ph, s) \<Rightarrow>
     open_handle None (mtrace s) = Some (g_zfs s) \<and> (g_zfs s \<noteq> None \<longleftrightarrow> ph = Running))"

lemma module_inv_initial: "module_inv initial_state"
  by (simp add: module_inv_def initial_state_def)

lemma module_inv_quiet:
  assumes "module_inv (ph, s)" "g_zfs s' = g_zfs s" "mtrace s' = mtrace s @ evs"
    "\<forall>e\<in>set evs. \<not> handle_event e"
  shows "module_inv (ph, s')"
  using assms by (simp add: module_inv_def open_handle_append open_handle_quiet)

text \<open>The environment: what libzfs promises to the two list functions.\<close>

definition libzfs_env where
  "libzfs_env LD LP W pools rc n \<longleftrightarrow>
     zfs_iterates LD W \<and> (\<forall>h. depth_ok W n h) \<and> zpool_iterates LP pools rc"

lemma zfs_list_quiet:
  assumes "libzfs_env LD LP W pools rc n"
  shows "\<exists>v s' evs. PHP_FUNCTION_zfs_list LD Z n parsed s = Some (v, s') \<and> g_zfs s' = g_zfs s \<and>
    mtrace s' = mtrace s @ evs \<and> (\<forall>e\<in>set evs. \<not> handle_event e)"
  unfolding PHP_FUNCTION_shape
  by (rule zfs_lister.php_list_quiet) (use assms in \<open>fastforce simp: libzfs_env_def\<close>)

lemma zpool_list_quiet:
  assumes "libzfs_env LD LP W pools rc n"
  shows "\<exists>v s' evs. PHP_FUNCTION_zpool_list LP Z parsed s = Some (v, s') \<and> g_zfs s' = g_zfs s \<and>
    mtrace s' = mtrace s @ evs \<and> (\<forall>e\<in>set evs. \<not> handle_event e)"
  unfolding PHP_FUNCTION_shape
  by (rule zpool_lister.php_list_quiet) (use assms in \<open>fastforce simp: libzfs_env_def\<close>)

lemma PHP_MINIT_inv:
  assumes "module_inv (Unloaded, s)" "PHP_MINIT init s = (st, s')"
  shows "module_inv (if st = SUCCESS then Running else Failed, s')"
  using assms by (cases init)
    (auto simp: PHP_MINIT_def module_inv_def open_handle_append Let_def split: if_splits)

lemma PHP_MSHUTDOWN_inv:
  assumes "module_inv (ph, s)" "PHP_MSHUTDOWN s = (st, s')"
  shows "module_inv (Unloaded, s')"
  using assms by (auto simp: PHP_MSHUTDOWN_def module_inv_def open_handle_append split: option.splits)

lemma module_step_inv:
  assumes "module_step LD LP Z n c c'" and "libzfs_env LD LP W pools rc n" and "module_inv c"
  shows "module_inv c'"
  using assms(1,3)
proof (induction rule: module_step.induct)
  case (start_ok init s s')
  then show ?case using PHP_MINIT_inv by fastforce
next
  case (start_failed init s s')
  then show ?case using PHP_MINIT_inv by fastforce
next
  case (call_zfs_list parsed s v s')
  with zfs_list_quiet [OF assms(2), of Z parsed s] show ?case
    using module_inv_quiet by fastforce
next
  case (call_zpool_list parsed s v s')
  with zpool_list_quiet [OF assms(2), of Z parsed s] show ?case
    using module_inv_quiet by fastforce
next
  case (shutdown ph s st s')
  then show ?case using PHP_MSHUTDOWN_inv by blast
qed

lemma module_run_inv:
  assumes "module_run LD LP Z n initial_state c" and "libzfs_env LD LP W pools rc n"
  shows "module_inv c"
  using assms(1)
  by (induction rule: rtranclp_induct) (auto intro: module_inv_initial module_step_inv [OF _ assms(2)])

section \<open>Properties\<close>

text \<open>A small pool on a reference libzfs, for the witnesses.\<close>

definition demo_pools :: "(unit, string, (zref, unit, string, string) pl_state) libzfs_pools" where
  "demo_pools = libzfs_pools_of (\<lambda>_. [''tank'']) (\<lambda>_. 0)"

lemma demo_env: "libzfs_env demo_libzfs demo_pools demo_world (\<lambda>_. [''tank'']) (\<lambda>_. 0) 2"
  by (simp add: libzfs_env_def demo_libzfs_iterates demo_pools_def libzfs_pools_of_iterates
      demo_world_depth)

text \<open>C4. The PHP function zfs_list with an initialised module and an iteration that reports
  no error returns an array with one row per dataset of the tree, parents before children, and
  leaves the module handle as it was.\<close>

theorem php_zfs_list_success:
  assumes "zfs_iterates L W" and "depth_ok W n h" and "root_rc W h = 0"
    and "zend_contract Z lkp elems" and "g_zfs s = Some h"
  shows "\<exists>a s'. PHP_FUNCTION_zfs_list L Z n SUCCESS s = Some (PHP_Array a, s') \<and>
    elems a = map (zfs_dataset_info L Z) (all_datasets W n h) \<and>
    g_zfs s' = Some h \<and> mtrace s' = mtrace s @ map Ev_zfs_close (all_closes W n h)"
  unfolding PHP_FUNCTION_shape
  using zfs_lister.php_list_success [OF assms(5), where n = n and L = L and W = W] assms
  by (simp add: elems_append_zvals_init [OF assms(4)])

theorem php_zfs_list_success_witness:
  "\<exists>a s'. PHP_FUNCTION_zfs_list demo_libzfs zend_ref 2 SUCCESS
        \<lparr>g_zfs = Some (), mtrace = ([] :: (unit, string, string) trace)\<rparr> =
      Some (PHP_Array a, s') \<and>
    zelems a = map (zfs_dataset_info (demo_libzfs :: (unit, string,
        (zref, unit, string, string) zl_state) libzfs_datasets) zend_ref) [''tank'', ''tank/a'', ''tank/b''] \<and>
    g_zfs s' = Some () \<and> mtrace s' = map Ev_zfs_close [''tank/a'', ''tank/b'', ''tank'']"
proof -
  have rc: "root_rc demo_world () = 0" by (simp add: demo_world_def)
  show ?thesis
    using php_zfs_list_success [OF demo_libzfs_iterates demo_world_depth rc zend_ref_contract,
        where s = "\<lparr>g_zfs = Some (), mtrace = []\<rparr>"]
    by (simp add: demo_world_orders)
qed

text \<open>C5. An error of the iteration over the pools' root datasets makes zfs_list return false,
  after one warning that carries libzfs's description, with the partial array destroyed and
  every delivered handle closed.\<close>

theorem php_zfs_list_failure:
  assumes "zfs_iterates L W" and "depth_ok W n h" and "root_rc W h \<noteq> 0" and "g_zfs s = Some h"
  shows "PHP_FUNCTION_zfs_list L Z n SUCCESS s = Some (PHP_False, s\<lparr>mtrace := mtrace s @
    map Ev_zfs_close (all_closes W n h) @
    [Ev_warning (take 1023 (''Failed to iterate ZFS datasets: '' @ libzfs_error_description L h)),
     Ev_zval_dtor]\<rparr>)"
  unfolding PHP_FUNCTION_shape
  using zfs_lister.php_list_failure [OF assms(4), where n = n and L = L and W = W] assms
  by (simp add: zl_message_def)

theorem php_zfs_list_failure_witness:
  "PHP_FUNCTION_zfs_list (libzfs_of (demo_world\<lparr>root_rc := \<lambda>_. -1\<rparr>)) zend_ref 2 SUCCESS
      \<lparr>g_zfs = Some (), mtrace = ([] :: (unit, string, string) trace)\<rparr> =
    Some (PHP_False, \<lparr>g_zfs = Some (), mtrace =
      [Ev_zfs_close ''tank/a'', Ev_zfs_close ''tank/b'', Ev_zfs_close ''tank'',
       Ev_warning ''Failed to iterate ZFS datasets: internal error'', Ev_zval_dtor]\<rparr>)"
proof -
  let ?W = "demo_world\<lparr>root_rc := \<lambda>_. -1\<rparr>"
  have orders: "all_closes ?W 2 () = [''tank/a'', ''tank/b'', ''tank'']"
    and depth: "depth_ok ?W 2 ()" and rc: "root_rc ?W () \<noteq> 0"
    by (simp_all add: demo_world_def all_closes_def depth_ok_def numeral_2_eq_2)
  show ?thesis
    using php_zfs_list_failure [OF libzfs_of_iterates depth rc, where Z = zend_ref
        and s = "\<lparr>g_zfs = Some (), mtrace = []\<rparr>"]
    unfolding orders by (simp add: libzfs_of_def)
qed

text \<open>Without a library handle both functions return false after one warning, and a call
  with arguments returns false without touching the module.\<close>

theorem php_functions_guarded:
  "g_zfs s = None \<Longrightarrow>
    PHP_FUNCTION_zfs_list LD Z n SUCCESS s =
      Some (PHP_False, s\<lparr>mtrace := mtrace s @ [Ev_warning ''libzfs not initialized'']\<rparr>) \<and>
    PHP_FUNCTION_zpool_list LP Z SUCCESS s =
      Some (PHP_False, s\<lparr>mtrace := mtrace s @ [Ev_warning ''libzfs not initialized'']\<rparr>) \<and>
    PHP_FUNCTION_zfs_list LD Z n FAILURE t = Some (PHP_False, t) \<and>
    PHP_FUNCTION_zpool_list LP Z FAILURE t = Some (PHP_False, t)"
  by (simp add: PHP_FUNCTION_shape php_list_function_def)

theorem php_functions_guarded_witness:
  "PHP_FUNCTION_zpool_list demo_pools zend_ref SUCCESS (snd (PHP_MSHUTDOWN \<lparr>g_zfs = Some (), mtrace = []\<rparr>)) =
    Some (PHP_False, \<lparr>g_zfs = None, mtrace = [Ev_libzfs_fini (), Ev_warning ''libzfs not initialized''] ::
      (unit, string, string) trace\<rparr>)"
  using php_functions_guarded [where s = "snd (PHP_MSHUTDOWN \<lparr>g_zfs = Some (), mtrace = []\<rparr>)" and LP = demo_pools
      and Z = zend_ref]
  by (simp add: PHP_MSHUTDOWN_def)

text \<open>C3. Whatever the engine does with the module (start, any calls, shutdown, restart), the
  extension never opens a second libzfs handle, never closes one that is not open, and holds a
  handle exactly while it is running, so none is left when it is unloaded.\<close>

theorem module_handle_safety:
  assumes "module_run LD LP Z n initial_state (ph, s)" and "libzfs_env LD LP W pools rc n"
  shows "open_handle None (mtrace s) = Some (g_zfs s) \<and> (g_zfs s \<noteq> None \<longleftrightarrow> ph = Running)"
  using module_run_inv [OF assms] by (simp add: module_inv_def)

theorem module_handle_safety_witness:
  "\<exists>ph s. module_run demo_libzfs demo_pools zend_ref 2 initial_state (ph, s) \<and>
     mtrace s = [Ev_libzfs_init (Some ()), Ev_libzfs_fini ()] \<and>
     open_handle None (mtrace s) = Some (g_zfs s) \<and> (g_zfs s \<noteq> None \<longleftrightarrow> ph = Running)"
proof -
  let ?s1 = "\<lparr>g_zfs = Some (), mtrace = [Ev_libzfs_init (Some ())]\<rparr>"
  let ?s2 = "\<lparr>g_zfs = None, mtrace = [Ev_libzfs_init (Some ()), Ev_libzfs_fini ()]\<rparr>"
  have "module_step demo_libzfs demo_pools zend_ref 2 initial_state (Running, ?s1)"
    unfolding initial_state_def by (rule start_ok [where init = "Some ()"]) (simp add: PHP_MINIT_def)
  moreover have "module_step demo_libzfs demo_pools zend_ref 2 (Running, ?s1) (Unloaded, ?s2)"
    by (rule shutdown) (simp_all add: PHP_MSHUTDOWN_def)
  ultimately have run: "module_run demo_libzfs demo_pools zend_ref 2 initial_state (Unloaded, ?s2)"
    by (meson rtranclp.rtrancl_refl rtranclp.rtrancl_into_rtrancl)
  from module_handle_safety [OF run demo_env] run show ?thesis by fastforce
qed

text \<open>C6. In every running state both functions return: no call gets stuck, whatever the
  parameters' check said.\<close>

theorem module_calls_return:
  assumes "libzfs_env LD LP W pools rc n"
  shows "(\<exists>v s'. PHP_FUNCTION_zfs_list LD Z n parsed s = Some (v, s') \<and>
      module_step LD LP Z n (Running, s) (Running, s') \<and> g_zfs s' = g_zfs s) \<and>
    (\<exists>v s'. PHP_FUNCTION_zpool_list LP Z parsed s = Some (v, s') \<and>
      module_step LD LP Z n (Running, s) (Running, s') \<and> g_zfs s' = g_zfs s)"
  using zfs_list_quiet [OF assms, of Z parsed s] zpool_list_quiet [OF assms, of Z parsed s]
  by (blast intro: call_zfs_list call_zpool_list)

theorem module_calls_return_witness:
  "\<exists>v s'. PHP_FUNCTION_zpool_list demo_pools zend_ref SUCCESS \<lparr>g_zfs = Some (), mtrace = []\<rparr> = Some (v, s') \<and>
      module_step demo_libzfs demo_pools zend_ref 2
        (Running, \<lparr>g_zfs = Some (), mtrace = []\<rparr>) (Running, s') \<and> g_zfs s' = Some ()"
  using module_calls_return [OF demo_env, where Z = zend_ref and parsed = SUCCESS
      and s = "\<lparr>g_zfs = Some (), mtrace = []\<rparr>"]
  by simp

section \<open>The types of the results\<close>









context lister
begin

lemma php_list_array:
  assumes "\<forall>h. ready h" "php_list_function list_fn Z parsed s = Some (PHP_Array a, s')"
  obtains h where "g_zfs s = Some h" "a = append_zvals Z (rows h) (array_init Z)"
  using assms list_fn_ready by (cases "g_zfs s"; cases parsed) (auto simp: php_list_function_def split: if_splits)

end



end
