(* ===== verification/Sysmacros.thy ===== *)
theory Sysmacros
  imports Prelude
begin

unbundle bit_operations_syntax

text \<open>
  The arithmetic macros of \<open>compat/openzfs/os/freebsd/spl/sys/sysmacros.h\<close>: counting and
  rounding, the power-of-two alignment family, and the two find-highest-bit functions.
  The macros are generic in the C type of their arguments, so they are definitions over
  \<open>'a word\<close>; an alignment is a power of two \<open>push_bit k 1\<close> in the statements, as the header
  requires. The lemmas give each macro its meaning on natural numbers, including where the
  result wraps.
\<close>

section \<open>Common macros\<close>

definition c_MIN :: "'a::linorder \<Rightarrow> 'a \<Rightarrow> 'a" where
  "c_MIN a b = (if a < b then a else b)"

definition c_MAX :: "'a::linorder \<Rightarrow> 'a \<Rightarrow> 'a" where
  "c_MAX a b = (if a < b then b else a)"

definition c_ABS :: "int \<Rightarrow> int" where
  "c_ABS a = (if a < 0 then - a else a)"

definition SIGNOF :: "int \<Rightarrow> int" where
  "SIGNOF a = (if a < 0 then - 1 else of_bool (a > 0))"

definition DIV_ROUND_UP :: "'a::len word \<Rightarrow> 'a word \<Rightarrow> 'a word" where
  "DIV_ROUND_UP n d = (n + d - 1) div d"

section \<open>Counting and rounding\<close>

definition IS_P2ALIGNED :: "u64 \<Rightarrow> u64 \<Rightarrow> bool" where
  "IS_P2ALIGNED v a \<longleftrightarrow> v AND (a - 1) = 0"

definition howmany :: "'a::len word \<Rightarrow> 'a word \<Rightarrow> 'a word" where
  "howmany x y = (x + (y - 1)) div y"

definition roundup :: "'a::len word \<Rightarrow> 'a word \<Rightarrow> 'a word" where
  "roundup x y = ((x + (y - 1)) div y) * y"

definition ISP2 :: "'a::len word \<Rightarrow> bool" where
  "ISP2 x \<longleftrightarrow> x AND (x - 1) = 0"

section \<open>Alignment to a power of two\<close>

definition P2PHASE :: "'a::len word \<Rightarrow> 'a word \<Rightarrow> 'a word" where
  "P2PHASE x align = x AND (align - 1)"

definition P2NPHASE :: "'a::len word \<Rightarrow> 'a word \<Rightarrow> 'a word" where
  "P2NPHASE x align = (- x) AND (align - 1)"

definition P2ROUNDUP :: "'a::len word \<Rightarrow> 'a word \<Rightarrow> 'a word" where
  "P2ROUNDUP x align = - ((- x) AND (- align))"

definition P2END :: "'a::len word \<Rightarrow> 'a word \<Rightarrow> 'a word" where
  "P2END x align = - (NOT x AND (- align))"

definition P2PHASEUP :: "'a::len word \<Rightarrow> 'a word \<Rightarrow> 'a word \<Rightarrow> 'a word" where
  "P2PHASEUP x align phase = phase - ((phase - x) AND (- align))"

definition P2BOUNDARY :: "'a::len word \<Rightarrow> 'a word \<Rightarrow> 'a word \<Rightarrow> bool" where
  "P2BOUNDARY off len align \<longleftrightarrow> off XOR (off + len - 1) > align - 1"

definition P2SAMEHIGHBIT :: "'a::len word \<Rightarrow> 'a word \<Rightarrow> bool" where
  "P2SAMEHIGHBIT x y \<longleftrightarrow> x XOR y < x AND y"

text \<open>
  The typed versions cast every operand to the named type first; over words of that type
  they are the same expressions, and \<open>P2ALIGN\<close> and \<open>P2CROSS\<close> exist only there.
\<close>

definition P2ALIGN_TYPED :: "'a::len word \<Rightarrow> 'a word \<Rightarrow> 'a word" where
  "P2ALIGN_TYPED x align = x AND (- align)"

definition P2PHASE_TYPED :: "'a::len word \<Rightarrow> 'a word \<Rightarrow> 'a word" where
  "P2PHASE_TYPED x align = x AND (align - 1)"

definition P2NPHASE_TYPED :: "'a::len word \<Rightarrow> 'a word \<Rightarrow> 'a word" where
  "P2NPHASE_TYPED x align = (- x) AND (align - 1)"

definition P2ROUNDUP_TYPED :: "'a::len word \<Rightarrow> 'a word \<Rightarrow> 'a word" where
  "P2ROUNDUP_TYPED x align = - ((- x) AND (- align))"

definition P2END_TYPED :: "'a::len word \<Rightarrow> 'a word \<Rightarrow> 'a word" where
  "P2END_TYPED x align = - (NOT x AND (- align))"

definition P2PHASEUP_TYPED :: "'a::len word \<Rightarrow> 'a word \<Rightarrow> 'a word \<Rightarrow> 'a word" where
  "P2PHASEUP_TYPED x align phase = phase - ((phase - x) AND (- align))"

definition P2CROSS_TYPED :: "'a::len word \<Rightarrow> 'a word \<Rightarrow> 'a word \<Rightarrow> bool" where
  "P2CROSS_TYPED x y align \<longleftrightarrow> x XOR y > align - 1"

definition P2SAMEHIGHBIT_TYPED :: "'a::len word \<Rightarrow> 'a word \<Rightarrow> bool" where
  "P2SAMEHIGHBIT_TYPED x y \<longleftrightarrow> x XOR y < x AND y"

section \<open>Find highest one bit set\<close>

text \<open>
  Each \<open>if (i & mask) { h += k; i >>= k; }\<close> of the source is a step on the pair of
  local variables. \<open>highbit\<close> is the branch compiled without \<open>HAVE_INLINE_FLSL\<close> in a
  64-bit (\<open>_LP64\<close>) kernel, \<open>highbit64\<close> the one without \<open>HAVE_INLINE_FLSLL\<close>.
\<close>

definition highbit_step :: "u64 \<Rightarrow> nat \<Rightarrow> nat \<times> u64 \<Rightarrow> nat \<times> u64" where
  "highbit_step m k s = (case s of (h, i) \<Rightarrow>
     if i AND m \<noteq> 0 then (h + k, drop_bit k i) else (h, i))"

definition highbit64 :: "u64 \<Rightarrow> nat" where
  "highbit64 i =
    (if i = 0 then 0
     else
       let s = highbit_step 0xffffffff00000000 32 (1, i);
           s = highbit_step 0xffff0000 16 s;
           s = highbit_step 0xff00 8 s;
           s = highbit_step 0xf0 4 s;
           (h, i) = highbit_step 0xc 2 s
       in if i AND 0x2 \<noteq> 0 then h + 1 else h)"

definition highbit :: "u64 \<Rightarrow> nat" where
  "highbit i =
    (if i = 0 then 0
     else
       let s = highbit_step 0xffffffff00000000 32 (1, i);
           s = highbit_step 0xffff0000 16 s;
           s = highbit_step 0xff00 8 s;
           s = highbit_step 0xf0 4 s;
           (h, i) = highbit_step 0xc 2 s
       in if i AND 0x2 \<noteq> 0 then h + 1 else h)"

section \<open>Meaning of the alignment macros\<close>

lemma P2PHASE_mask [fields]: "P2PHASE x (2 ^ k) = take_bit k x"
  by (simp add: P2PHASE_def and_mask_word)

lemma P2ALIGN_mask: "P2ALIGN_TYPED x (2 ^ k) = x AND NOT (mask k)"
  by (simp only: P2ALIGN_TYPED_def minus_exp_mask)

lemma IS_P2ALIGNED_iff: "IS_P2ALIGNED v (2 ^ k) \<longleftrightarrow> 2 ^ k dvd unat v"
  by (simp add: IS_P2ALIGNED_def and_mask_dvd_nat)

lemma unat_P2PHASE: "unat (P2PHASE x (2 ^ k)) = unat x mod 2 ^ k"
  by (simp only: P2PHASE_mask unat_take_bit_word)

lemma P2ALIGN_plus_P2PHASE: "P2ALIGN_TYPED x (2 ^ k) + P2PHASE x (2 ^ k) = x"
proof -
  have "(x AND NOT (mask k)) + (x AND mask k) = (x AND NOT (mask k)) OR (x AND mask k)"
    by (rule disjunctive_add) (simp add: bit_simps)
  also have "\<dots> = x"
    by (rule bit_word_eqI) (auto simp: bit_simps)
  finally show ?thesis
    by (simp add: P2ALIGN_mask P2PHASE_mask take_bit_eq_mask)
qed

lemma P2ALIGN_eq_minus: "P2ALIGN_TYPED x (2 ^ k) = x - take_bit k x"
  using P2ALIGN_plus_P2PHASE [of x k] unfolding P2PHASE_mask by (simp only: eq_diff_eq)

lemma unat_P2ALIGN: "unat (P2ALIGN_TYPED x (2 ^ k)) = 2 ^ k * (unat x div 2 ^ k)"
proof -
  have le: "take_bit k x \<le> x"
    by (simp only: word_le_nat_alt unat_take_bit_word) (rule mod_less_eq_dividend)
  have "unat (P2ALIGN_TYPED x (2 ^ k)) = unat x - unat x mod 2 ^ k"
    by (simp only: P2ALIGN_eq_minus unat_sub [OF le] unat_take_bit_word)
  then show ?thesis by (simp only: minus_mod_eq_mult_div)
qed

lemma P2NPHASE_mask: "P2NPHASE x (2 ^ k) = take_bit k (- x)"
  by (simp add: P2NPHASE_def and_mask_word)

lemma P2ROUNDUP_eq: "P2ROUNDUP x (2 ^ k) = x + P2NPHASE x (2 ^ k)"
proof -
  have "P2ROUNDUP x (2 ^ k) = - P2ALIGN_TYPED (- x) (2 ^ k)"
    by (simp only: P2ROUNDUP_def P2ALIGN_TYPED_def)
  then show ?thesis by (simp only: P2ALIGN_eq_minus P2NPHASE_mask) simp
qed

lemma P2PHASEUP_eq: "P2PHASEUP x (2 ^ k) p = x + take_bit k (p - x)"
proof -
  have "P2PHASEUP x (2 ^ k) p = p - P2ALIGN_TYPED (p - x) (2 ^ k)"
    by (simp only: P2PHASEUP_def P2ALIGN_TYPED_def)
  then show ?thesis by (simp only: P2ALIGN_eq_minus) simp
qed

lemma P2END_eq: "P2END x (2 ^ k) = P2ALIGN_TYPED x (2 ^ k) + 2 ^ k"
proof -
  have "P2END x (2 ^ k) = - P2ALIGN_TYPED (NOT x) (2 ^ k)"
    by (simp only: P2END_def P2ALIGN_TYPED_def)
  also have "\<dots> = - (NOT x) + (mask k - take_bit k x)"
    by (simp only: P2ALIGN_eq_minus take_bit_not_word) simp
  also have "\<dots> = P2ALIGN_TYPED x (2 ^ k) + 2 ^ k"
    unfolding P2ALIGN_eq_minus not_eq_complement mask_eq_exp_minus_1 by (simp only: algebra_simps) simp
  finally show ?thesis .
qed

lemma P2BOUNDARY_iff:
  assumes "k < LENGTH('a)"
  shows "P2BOUNDARY (off :: 'a::len word) len (2 ^ k) \<longleftrightarrow> drop_bit k off \<noteq> drop_bit k (off + len - 1)"
proof -
  have "P2BOUNDARY off len (2 ^ k) \<longleftrightarrow> drop_bit k (off XOR (off + len - 1)) \<noteq> 0"
    using assms by (simp only: P2BOUNDARY_def exp_minus_one_mask word_gt_mask_iff)
  then show ?thesis by (simp only: drop_bit_xor xor_zero_iff_word)
qed

lemma P2NPHASE_complement:
  assumes "k \<le> LENGTH('a)"
  shows "2 ^ k dvd unat (x :: 'a::len word) + unat (P2NPHASE x (2 ^ k))"
proof -
  have dvd: "(2 :: int) ^ k dvd 2 ^ LENGTH('a)"
    using assms by (rule le_imp_power_dvd)
  have "uint (P2NPHASE x (2 ^ k)) = (- uint x mod 2 ^ LENGTH('a)) mod 2 ^ k"
    unfolding P2NPHASE_mask unsigned_take_bit_eq by (simp only: take_bit_eq_mod uint_word_ariths)
  also have "\<dots> = - uint x mod 2 ^ k"
    using dvd by (rule mod_mod_cancel)
  finally have "(uint x + uint (P2NPHASE x (2 ^ k))) mod 2 ^ k = 0"
    by (simp only: mod_simps) simp
  then have "int (2 ^ k) dvd int (unat x + unat (P2NPHASE x (2 ^ k)))"
    by (simp add: dvd_eq_mod_eq_0)
  then show ?thesis by (simp only: int_dvd_int_iff)
qed

lemma P2NPHASE_less: "k < LENGTH('a) \<Longrightarrow> unat (P2NPHASE (x :: 'a::len word) (2 ^ k)) < 2 ^ k"
  by (simp only: P2NPHASE_mask unat_take_bit_word) simp

lemma P2ROUNDUP_nat:
  assumes "k < LENGTH('a)" and "unat (x :: 'a::len word) + 2 ^ k \<le> 2 ^ LENGTH('a)"
  shows "unat (P2ROUNDUP x (2 ^ k)) = unat x + unat (P2NPHASE x (2 ^ k))"
proof -
  have "unat x + unat (P2NPHASE x (2 ^ k)) < 2 ^ LENGTH('a)"
    using P2NPHASE_less [OF assms(1), of x] assms(2) by linarith
  then show ?thesis by (simp only: P2ROUNDUP_eq unat_word_ariths mod_less)
qed

lemma ISP2_iff: "ISP2 (x :: 'a::len word) \<longleftrightarrow> x = 0 \<or> (\<exists>k < LENGTH('a). x = 2 ^ k)"
proof (cases "x = 0")
  case False
  define k where "k = (LEAST k. bit x k)"
  from False have "\<exists>k. bit x k" by (auto simp: bit_eq_iff)
  then have bk: "bit x k" unfolding k_def by (rule LeastI_ex)
  have low: "\<not> bit x i" if "i < k" for i
    using that unfolding k_def by (rule not_less_Least)
  have kl: "k < LENGTH('a)" using bk by (rule bit_imp_le_length)
  define hi where "hi = x AND NOT (mask (Suc k))"
  have "hi + 2 ^ k = hi OR 2 ^ k"
    by (rule disjunctive_add) (auto simp: hi_def bit_simps)
  also have "hi OR 2 ^ k = x"
    unfolding hi_def by (rule bit_word_eqI) (use bk low in \<open>auto simp: bit_simps less_Suc_eq\<close>)
  finally have "x - 1 = hi + mask k"
    unfolding mask_eq_exp_minus_1 by (simp only: algebra_simps)
  also have "\<dots> = hi OR mask k"
    by (rule disjunctive_add) (auto simp: hi_def bit_simps)
  finally have "x AND (x - 1) = hi"
    unfolding hi_def by simp (rule bit_word_eqI, use low in \<open>auto simp: bit_simps less_Suc_eq\<close>)
  moreover have "hi = 0 \<longleftrightarrow> x = 2 ^ k"
  proof
    assume "hi = 0"
    with \<open>hi OR 2 ^ k = x\<close> show "x = 2 ^ k" by simp
  next
    assume "x = 2 ^ k"
    then show "hi = 0" unfolding hi_def by (simp) (rule bit_word_eqI, auto simp: bit_simps)
  qed
  moreover have "k' = k" if "x = 2 ^ k'" "k' < LENGTH('a)" for k'
    using bk that by (auto simp: bit_simps)
  ultimately show ?thesis using False kl by (auto simp: ISP2_def)
qed (simp add: ISP2_def)

section \<open>The highest set bit\<close>

text \<open>
  The loop-free search keeps \<open>i\<close> equal to the argument shifted right by \<open>h - 1\<close>, never zero,
  and below \<open>2 ^ m\<close>, where \<open>m\<close> halves with every step.
\<close>

definition hb_inv :: "u64 \<Rightarrow> nat \<Rightarrow> nat \<times> u64 \<Rightarrow> bool" where
  "hb_inv x m s \<longleftrightarrow> (case s of (h, j) \<Rightarrow>
     0 < h \<and> h + m \<le> 65 \<and> j = drop_bit (h - 1) x \<and> j \<noteq> 0 \<and> unat j < 2 ^ m)"

lemma and_high_mask_iff:
  assumes "unat (j :: u64) < 2 ^ (2 * k)"
  shows "j AND push_bit k (mask k) \<noteq> 0 \<longleftrightarrow> 2 ^ k \<le> unat j"
proof -
  have "j AND push_bit k (mask k) = push_bit k (take_bit k (drop_bit k j))"
    by (rule bit_word_eqI) (auto simp: bit_simps)
  moreover have "take_bit k (drop_bit k j) = drop_bit k j"
  proof (rule take_bit_eq_self_iff_drop_bit_eq_0 [THEN iffD2])
    have "drop_bit (2 * k) j = 0" using assms by (simp only: drop_bit_eq_0_word)
    then show "drop_bit k (drop_bit k j) = 0" by (simp add: mult_2)
  qed
  moreover have "drop_bit k j = 0" if "push_bit k (drop_bit k j) = 0"
  proof (rule bit_word_eqI)
    fix n
    have "\<not> bit (push_bit k (drop_bit k j)) (k + n)" unfolding that by simp
    then show "bit (drop_bit k j) n \<longleftrightarrow> bit 0 n"
      by (auto simp: bit_simps dest: bit_imp_le_length)
  qed
  ultimately have "j AND push_bit k (mask k) = 0 \<longleftrightarrow> drop_bit k j = 0"
    by auto
  then show ?thesis by (simp only: drop_bit_eq_0_word not_less)
qed

lemma hb_inv_step:
  assumes "hb_inv x (2 * k) s" and "M = push_bit k (mask k)"
  shows "hb_inv x k (highbit_step M k s)"
proof (cases s)
  case (Pair h j)
  with assms have inv: "0 < h" "h + 2 * k \<le> 65" "j = drop_bit (h - 1) x" "j \<noteq> 0" "unat j < 2 ^ (2 * k)"
    by (auto simp only: hb_inv_def prod.case)
  note iff = and_high_mask_iff [OF inv(5)]
  show ?thesis
  proof (cases "2 ^ k \<le> unat j")
    case True
    have "drop_bit k j \<noteq> 0" using True by (simp only: drop_bit_eq_0_word not_less)
    moreover have "unat (drop_bit k j) < 2 ^ k"
      using inv(5) by (simp only: unat_drop_bit_word less_mult_imp_div_less power_add mult_2)
    moreover have "drop_bit k j = drop_bit (h + k - 1) x"
      using inv(1,3) by (simp add: add.commute)
    moreover have "highbit_step M k s = (h + k, drop_bit k j)"
      using True iff Pair assms(2) by (simp add: highbit_step_def)
    ultimately show ?thesis using inv(1,2) by (simp add: hb_inv_def)
  next
    case False
    moreover from False have "highbit_step M k s = (h, j)"
      using iff Pair assms(2) by (simp add: highbit_step_def)
    ultimately show ?thesis using inv by (simp add: hb_inv_def)
  qed
qed

lemma hb_masks:
  "(0xffffffff00000000 :: u64) = push_bit 32 (mask 32)"
  "(0xffff0000 :: u64) = push_bit 16 (mask 16)"
  "(0xff00 :: u64) = push_bit 8 (mask 8)"
  "(0xf0 :: u64) = push_bit 4 (mask 4)"
  "(0xc :: u64) = push_bit 2 (mask 2)"
  "(0x2 :: u64) = push_bit 1 (mask 1)"
  by (simp_all add: mask_numeral)

lemma hb_inv_init: "x \<noteq> 0 \<Longrightarrow> hb_inv x (2 * 32) (1, x)"
  using unsigned_less [of x, where ?'a = nat] by (simp add: hb_inv_def)

lemma hb_inv_last:
  assumes "hb_inv x (2 * 1) (h, j)"
  shows "hb_inv x 1 (let h' = (if j AND 0x2 \<noteq> 0 then h + 1 else h) in (h', drop_bit (h' - 1) x))"
proof -
  obtain h' j' where step: "highbit_step 0x2 1 (h, j) = (h', j')" and h': "h' = (if j AND 0x2 \<noteq> 0 then h + 1 else h)"
    by (cases "highbit_step 0x2 1 (h, j)") (simp add: highbit_step_def split: if_splits)
  have "hb_inv x 1 (h', j')"
    using hb_inv_step [OF assms hb_masks(6)] by (simp only: step)
  then show ?thesis unfolding Let_def h' [symmetric] by (auto simp only: hb_inv_def prod.case)
qed

lemma highbit64_inv:
  assumes "x \<noteq> 0"
  shows "hb_inv x 1 (highbit64 x, drop_bit (highbit64 x - 1) x)"
proof -
  define s1 where "s1 = highbit_step 0xffffffff00000000 32 (1, x)"
  define s2 where "s2 = highbit_step 0xffff0000 16 s1"
  define s3 where "s3 = highbit_step 0xff00 8 s2"
  define s4 where "s4 = highbit_step 0xf0 4 s3"
  define s5 where "s5 = highbit_step 0xc 2 s4"
  have "hb_inv x (2 * 16) s1"
    using hb_inv_step [OF hb_inv_init [OF assms] hb_masks(1)] by (simp add: s1_def)
  then have "hb_inv x (2 * 8) s2"
    using hb_inv_step [OF _ hb_masks(2)] by (fastforce simp: s2_def)
  then have "hb_inv x (2 * 4) s3"
    using hb_inv_step [OF _ hb_masks(3)] by (fastforce simp: s3_def)
  then have "hb_inv x (2 * 2) s4"
    using hb_inv_step [OF _ hb_masks(4)] by (fastforce simp: s4_def)
  then have "hb_inv x (2 * 1) s5"
    using hb_inv_step [OF _ hb_masks(5)] by (fastforce simp: s5_def)
  moreover obtain h j where hj: "s5 = (h, j)" by (cases s5)
  moreover have "highbit64 x = (if j AND 0x2 \<noteq> 0 then h + 1 else h)"
    using assms hj unfolding highbit64_def s1_def s2_def s3_def s4_def s5_def Let_def by simp
  ultimately show ?thesis using hb_inv_last [of x h j] by (simp add: Let_def)
qed

theorem highbit64_bounds:
  assumes "x \<noteq> 0"
  shows "2 ^ (highbit64 x - 1) \<le> unat x \<and> unat x < 2 ^ highbit64 x \<and> 1 \<le> highbit64 x \<and> highbit64 x \<le> 64"
proof -
  obtain h where h: "highbit64 x = h" and inv: "hb_inv x 1 (h, drop_bit (h - 1) x)"
    using highbit64_inv [OF assms] by blast
  then have pos: "0 < h" "h \<le> 64" and nz: "drop_bit (h - 1) x \<noteq> 0" and lt: "unat (drop_bit (h - 1) x) < 2 ^ 1"
    by (auto simp only: hb_inv_def prod.case)
  have "2 ^ (h - 1) \<le> unat x"
    using nz by (simp only: drop_bit_eq_0_word not_less)
  moreover have "unat x < 2 ^ 1 * 2 ^ (h - 1)"
    using lt by (simp only: unat_drop_bit_word div_less_iff_less_mult zero_less_power zero_less_numeral)
  ultimately show ?thesis using h pos by (simp add: power_eq_if)
qed

lemma highbit64_bits:
  assumes "x \<noteq> 0"
  shows "bit x (highbit64 x - 1)" and "highbit64 x \<le> i \<Longrightarrow> \<not> bit x i"
proof -
  let ?h = "highbit64 x"
  note b = highbit64_bounds [OF assms]
  show no: "highbit64 x \<le> i \<Longrightarrow> \<not> bit x i" for i
    using b bit_unat_ge [of x i] power_increasing [of ?h i "2::nat"] by (meson leD le_trans one_le_numeral)
  show "bit x (?h - 1)"
  proof (rule ccontr)
    assume "\<not> bit x (?h - 1)"
    with no have "\<not> bit x i" if "?h - 1 \<le> i" for i
      using that by (cases "i = ?h - 1") auto
    then have "unat x < 2 ^ (?h - 1)" by (rule no_bits_unat_less)
    with b show False by simp
  qed
qed

lemma highbit64_0 [simp]: "highbit64 0 = 0"
  by (simp add: highbit64_def)

lemma highbit64_unique: "bit x n \<Longrightarrow> (\<And>i. n < i \<Longrightarrow> \<not> bit x i) \<Longrightarrow> highbit64 x = Suc n"
proof -
  assume bn: "bit x n" and no: "\<And>i. n < i \<Longrightarrow> \<not> bit x i"
  then have nz: "x \<noteq> 0" by auto
  have "\<not> n < highbit64 x - 1" using no highbit64_bits(1) [OF nz] by blast
  moreover have "n < highbit64 x" using bn highbit64_bits(2) [OF nz, of n] by force
  ultimately show ?thesis by simp
qed

lemma samehighbit_diff:
  assumes "highbit64 y < highbit64 x"
  shows "\<not> x XOR y < x AND y" and "\<not> y XOR x < y AND x"
proof -
  let ?n = "highbit64 x - 1"
  have x: "x \<noteq> 0" using assms by auto
  have noy: "\<not> bit y i" if "?n \<le> i" for i
    using assms that highbit64_bits(2) [of y i] by (cases "y = 0") auto
  have "unat (x AND y) < 2 ^ ?n"
    by (rule no_bits_unat_less) (auto simp: bit_simps noy)
  moreover have "2 ^ ?n \<le> unat (x XOR y)"
    using highbit64_bits(1) [OF x] by (intro bit_unat_ge) (simp add: bit_simps noy)
  ultimately show "\<not> x XOR y < x AND y" by (simp add: word_less_nat_alt)
  then show "\<not> y XOR x < y AND x" by (metis xor.commute and.commute)
qed

lemma P2SAMEHIGHBIT_iff:
  assumes "x \<noteq> 0 \<or> y \<noteq> 0"
  shows "P2SAMEHIGHBIT (x :: u64) y \<longleftrightarrow> highbit64 x = highbit64 y"
proof (cases "highbit64 x = highbit64 y")
  case True
  with assms have nz: "x \<noteq> 0" "y \<noteq> 0"
    using highbit64_bounds [of x] highbit64_bounds [of y] by (cases "x = 0"; cases "y = 0"; auto)+
  let ?n = "highbit64 x - 1"
  have "unat (x XOR y) < 2 ^ ?n"
  proof (rule no_bits_unat_less)
    fix i assume "?n \<le> i"
    then show "\<not> bit (x XOR y) i"
      using highbit64_bits [OF nz(1)] highbit64_bits [OF nz(2)] True
      by (cases "i = ?n") (auto simp: bit_simps)
  qed
  moreover have "2 ^ ?n \<le> unat (x AND y)"
    using highbit64_bits(1) [OF nz(1)] highbit64_bits(1) [OF nz(2)] True
    by (intro bit_unat_ge) (simp add: bit_simps)
  ultimately show ?thesis using True by (simp add: P2SAMEHIGHBIT_def word_less_nat_alt)
next
  case False
  then consider "highbit64 y < highbit64 x" | "highbit64 x < highbit64 y" by linarith
  then have "\<not> x XOR y < x AND y"
    by cases (rule samehighbit_diff, assumption)+
  with False show ?thesis by (simp add: P2SAMEHIGHBIT_def)
qed

end
