(* ===== verification/Bitops.thy ===== *)
theory Bitops
  imports Sysmacros
begin

unbundle bit_operations_syntax

text \<open>
  The bitfield encodings of \<open>compat/openzfs/sys/bitops.h\<close>, on which every packed on-disk word
  of the headers rests, and two interfaces over them.

  \<open>packed_word\<close> is a 64-bit word held in some structure; inside it the field operations
  are proved to read back what was written, to leave disjoint fields alone, and to be
  idempotent. \<open>accessor\<close> is the contract of a getter and its setter (with the assertions the
  setter makes), \<open>accessor_pair\<close> adds that a second getter does not see the first setter.
  The theories that own a packed structure interpret them on their accessors.
\<close>

section \<open>The macros\<close>

definition BF32_DECODE :: "u32 \<Rightarrow> nat \<Rightarrow> nat \<Rightarrow> u32" where
  "BF32_DECODE x low len = P2PHASE (drop_bit low x) (push_bit len 1)"

definition BF64_DECODE :: "u64 \<Rightarrow> nat \<Rightarrow> nat \<Rightarrow> u64" where
  "BF64_DECODE x low len = P2PHASE (drop_bit low x) (push_bit len 1)"

definition BF32_ENCODE :: "u32 \<Rightarrow> nat \<Rightarrow> nat \<Rightarrow> u32" where
  "BF32_ENCODE x low len = push_bit low (P2PHASE x (push_bit len 1))"

definition BF64_ENCODE :: "u64 \<Rightarrow> nat \<Rightarrow> nat \<Rightarrow> u64" where
  "BF64_ENCODE x low len = push_bit low (P2PHASE x (push_bit len 1))"

definition BF32_GET :: "u32 \<Rightarrow> nat \<Rightarrow> nat \<Rightarrow> u32" where
  "BF32_GET x low len = BF32_DECODE x low len"

definition BF64_GET :: "u64 \<Rightarrow> nat \<Rightarrow> nat \<Rightarrow> u64" where
  "BF64_GET x low len = BF64_DECODE x low len"

definition BF32_SET :: "bool \<Rightarrow> u32 \<Rightarrow> nat \<Rightarrow> nat \<Rightarrow> u32 \<Rightarrow> u32 option" where
  "BF32_SET nd x low len val = do {
     ASSERT3U nd (ucast val) (<) (ucast (push_bit len (1 :: u32)));
     ASSERT3U nd (of_nat (low + len)) (\<le>) 32;
     Some (x XOR BF32_ENCODE (drop_bit low x XOR val) low len)
   }"

definition BF64_SET :: "bool \<Rightarrow> u64 \<Rightarrow> nat \<Rightarrow> nat \<Rightarrow> u64 \<Rightarrow> u64 option" where
  "BF64_SET nd x low len val = do {
     ASSERT3U nd val (<) (push_bit len 1);
     ASSERT3U nd (of_nat (low + len)) (\<le>) 64;
     Some (x XOR BF64_ENCODE (drop_bit low x XOR val) low len)
   }"

definition BF32_GET_SB :: "u32 \<Rightarrow> nat \<Rightarrow> nat \<Rightarrow> nat \<Rightarrow> u32 \<Rightarrow> u32" where
  "BF32_GET_SB x low len shift bias = push_bit shift (BF32_GET x low len + bias)"

definition BF64_GET_SB :: "u64 \<Rightarrow> nat \<Rightarrow> nat \<Rightarrow> nat \<Rightarrow> u64 \<Rightarrow> u64" where
  "BF64_GET_SB x low len shift bias = push_bit shift (BF64_GET x low len + bias)"

definition BF32_SET_SB :: "bool \<Rightarrow> u32 \<Rightarrow> nat \<Rightarrow> nat \<Rightarrow> nat \<Rightarrow> u32 \<Rightarrow> u32 \<Rightarrow> u32 option" where
  "BF32_SET_SB nd x low len shift bias val = do {
     ASSERT3U nd (of_bool (IS_P2ALIGNED (ucast val) (ucast (push_bit shift (1 :: u32))))) (\<noteq>) 0;
     ASSERT3S nd (ucast (drop_bit shift val)) (\<ge>) (ucast bias);
     BF32_SET nd x low len (drop_bit shift val - bias)
   }"

definition BF64_SET_SB :: "bool \<Rightarrow> u64 \<Rightarrow> nat \<Rightarrow> nat \<Rightarrow> nat \<Rightarrow> u64 \<Rightarrow> u64 \<Rightarrow> u64 option" where
  "BF64_SET_SB nd x low len shift bias val = do {
     ASSERT3U nd (of_bool (IS_P2ALIGNED val (push_bit shift 1))) (\<noteq>) 0;
     ASSERT3S nd (drop_bit shift val) (\<ge>) bias;
     BF64_SET nd x low len (drop_bit shift val - bias)
   }"

section \<open>Bit level meaning\<close>

lemma BF64_DECODE_take_drop [fields]: "BF64_DECODE x low len = take_bit len (drop_bit low x)"
  by (simp add: BF64_DECODE_def P2PHASE_mask)

lemma BF64_ENCODE_push_take [fields]: "BF64_ENCODE x low len = push_bit low (take_bit len x)"
  by (simp add: BF64_ENCODE_def P2PHASE_mask)

lemma BF64_GET_take_drop [fields]: "BF64_GET x low len = take_bit len (drop_bit low x)"
  by (simp add: BF64_GET_def fields)

lemma bit_BF64_GET: "bit (BF64_GET x low len) n \<longleftrightarrow> n < len \<and> bit x (low + n)"
  by (simp add: BF64_GET_take_drop bit_simps)

lemma BF64_GET_less: "len < 64 \<Longrightarrow> BF64_GET x low len < 2 ^ len"
  unfolding BF64_GET_take_drop by (rule take_bit_word_less) simp

text \<open>Words put together from encoded fields.\<close>

lemma decode_or: "BF64_DECODE (a OR b) low len = BF64_DECODE a low len OR BF64_DECODE b low len"
  by (rule bit_word_eqI) (auto simp: BF64_DECODE_take_drop bit_simps)

lemma decode_encode_same:
  "low + len \<le> 64 \<Longrightarrow> v < 2 ^ len \<Longrightarrow> BF64_DECODE (BF64_ENCODE v low len) low len = v"
proof (rule bit_word_eqI)
  fix n assume "low + len \<le> 64" "v < 2 ^ len" "n < LENGTH(64)"
  moreover have "bit v n \<Longrightarrow> n < len"
    using take_bit_word_small [OF \<open>v < 2 ^ len\<close>] by (metis bit_take_bit_iff)
  ultimately show "bit (BF64_DECODE (BF64_ENCODE v low len) low len) n \<longleftrightarrow> bit v n"
    by (auto simp: BF64_DECODE_take_drop BF64_ENCODE_push_take bit_simps)
qed

lemma decode_encode_other:
  "low' + len' \<le> low \<or> low + len \<le> low' \<Longrightarrow> BF64_DECODE (BF64_ENCODE v low len) low' len' = 0"
  by (rule bit_word_eqI) (auto simp: BF64_DECODE_take_drop BF64_ENCODE_push_take bit_simps)

text \<open>The value a setter stores, and its bits.\<close>

definition bf64_put :: "u64 \<Rightarrow> nat \<Rightarrow> nat \<Rightarrow> u64 \<Rightarrow> u64" where
  "bf64_put x low len val = x XOR BF64_ENCODE (drop_bit low x XOR val) low len"

lemma bit_bf64_put:
  "bit (bf64_put x low len v) n \<longleftrightarrow>
     (if low \<le> n \<and> n < low + len \<and> n < 64 then bit v (n - low) else bit x n)"
  by (auto simp: bf64_put_def BF64_ENCODE_push_take bit_simps dest: bit_imp_le_length)

lemma of_nat_le_64: "low + len \<le> 64 \<Longrightarrow> (of_nat (low + len) :: u64) \<le> 64"
  by (simp add: word_le_nat_alt unat_of_nat del: of_nat_add)

lemma BF64_SET_Some:
  "v < 2 ^ len \<Longrightarrow> low + len \<le> 64 \<Longrightarrow> BF64_SET nd x low len v = Some (bf64_put x low len v)"
  using of_nat_le_64 [of low len]
  by (simp add: BF64_SET_def bf64_put_def ASSERT3U_ok del: of_nat_add)

lemma BF64_SET_nd: "BF64_SET True x low len v = Some (bf64_put x low len v)"
  by (simp add: BF64_SET_def bf64_put_def ASSERT3U_def)

lemma BF64_SET_fires: "\<not> v < 2 ^ len \<Longrightarrow> BF64_SET False x low len v = None"
  by (simp add: BF64_SET_def ASSERT3U_def VERIFY3U_def)

lemma get_put_same:
  assumes "v < 2 ^ len" and "low + len \<le> 64"
  shows "BF64_GET (bf64_put x low len v) low len = v"
proof (rule bit_word_eqI)
  fix n assume "n < LENGTH(64)"
  have "bit v n \<Longrightarrow> n < len"
    using take_bit_word_small [OF assms(1)] by (metis bit_take_bit_iff)
  then show "bit (BF64_GET (bf64_put x low len v) low len) n \<longleftrightarrow> bit v n"
    using assms(2) by (auto simp: bit_BF64_GET bit_bf64_put)
qed

lemma get_put_disjoint:
  "low' + len' \<le> low \<or> low + len \<le> low' \<Longrightarrow>
    BF64_GET (bf64_put x low len v) low' len' = BF64_GET x low' len'"
  by (rule bit_word_eqI) (auto simp: bit_BF64_GET bit_bf64_put)

lemma put_get_same: "bf64_put x low len (BF64_GET x low len) = x"
  by (rule bit_word_eqI) (auto simp: bit_BF64_GET bit_bf64_put)

lemma put_put_same: "bf64_put (bf64_put x low len v) low len w = bf64_put x low len w"
  by (rule bit_word_eqI) (auto simp: bit_bf64_put)

lemma put_put_swap:
  "low' + len' \<le> low \<or> low + len \<le> low' \<Longrightarrow>
    bf64_put (bf64_put x low len v) low' len' w = bf64_put (bf64_put x low' len' w) low len v"
  by (rule bit_word_eqI) (auto simp: bit_bf64_put)

section \<open>The 32-bit fields\<close>

lemma unat_ucast_u64: "unat (ucast (w :: u32) :: u64) = unat w"
  unfolding unsigned_ucast_eq using unsigned_less [of w, where ?'a = nat] by (intro take_bit_nat_eq_self) simp

lemma BF32_GET_take_drop [fields]: "BF32_GET x low len = take_bit len (drop_bit low x)"
  by (simp add: BF32_GET_def BF32_DECODE_def P2PHASE_mask)

lemma bit_BF32_GET: "bit (BF32_GET x low len) n \<longleftrightarrow> n < len \<and> bit x (low + n)"
  by (simp add: BF32_GET_take_drop bit_simps)

definition bf32_put :: "u32 \<Rightarrow> nat \<Rightarrow> nat \<Rightarrow> u32 \<Rightarrow> u32" where
  "bf32_put x low len val = x XOR BF32_ENCODE (drop_bit low x XOR val) low len"

lemma bit_bf32_put:
  "bit (bf32_put x low len v) n \<longleftrightarrow>
     (if low \<le> n \<and> n < low + len \<and> n < 32 then bit v (n - low) else bit x n)"
  by (auto simp: bf32_put_def BF32_ENCODE_def P2PHASE_mask bit_simps dest: bit_imp_le_length)

lemma BF32_SET_Some:
  assumes "unat v < 2 ^ len" "low + len \<le> 32" "len < 32"
  shows "BF32_SET nd x low len v = Some (bf32_put x low len v)"
proof -
  have "unat (2 ^ len :: u32) = 2 ^ len" using assms(3) by (simp add: unat_exp_word)
  then have lt: "(ucast v :: u64) < ucast (2 ^ len :: u32)"
    using assms(1) by (simp only: word_less_nat_alt unat_ucast_u64)
  have "(of_nat (low + len) :: u64) \<le> 32" using assms(2) by (simp add: word_le_nat_alt unat_of_nat del: of_nat_add)
  then show ?thesis using lt by (simp add: BF32_SET_def bf32_put_def ASSERT3U_ok del: of_nat_add)
qed

lemma bits_below32: "unat (v :: u32) < 2 ^ len \<Longrightarrow> bit v n \<Longrightarrow> n < len"
proof -
  assume "unat v < 2 ^ len" "bit v n"
  then have "take_bit len (unat v) = unat v" by (simp add: take_bit_nat_eq_self)
  then have "bit (take_bit len (unat v)) n" using \<open>bit v n\<close> by (simp add: bit_unsigned_iff)
  then show "n < len" by (simp add: bit_take_bit_iff)
qed

lemma get_put32:
  "unat v < 2 ^ len \<Longrightarrow> low + len \<le> 32 \<Longrightarrow> BF32_GET (bf32_put x low len v) low len = v"
  by (rule bit_word_eqI) (auto simp: bit_BF32_GET bit_bf32_put dest: bits_below32)

lemma get_put32_disjoint:
  "low' + len' \<le> low \<or> low + len \<le> low' \<Longrightarrow> BF32_GET (bf32_put x low len v) low' len' = BF32_GET x low' len'"
  by (rule bit_word_eqI) (auto simp: bit_BF32_GET bit_bf32_put)

lemma get_put32_part:
  "low' + len' \<le> 32 \<Longrightarrow> low' + len' \<le> low' + len \<Longrightarrow> BF32_GET (bf32_put x low' len v) low' len' = take_bit len' v"
  by (rule bit_word_eqI) (auto simp: bit_BF32_GET bit_bf32_put bit_take_bit_iff)

section \<open>Scaled and biased fields\<close>

text \<open>
  A \<open>_SB\<close> field of \<open>len\<close> bits holds \<open>(val >> shift) - bias\<close>: the values it can hold are the
  multiples of \<open>2 ^ shift\<close> from \<open>bias\<close> units to \<open>bias + 2 ^ len - 1\<close> units.
\<close>

definition sb_legal :: "nat \<Rightarrow> nat \<Rightarrow> u64 \<Rightarrow> u64 \<Rightarrow> bool" where
  "sb_legal len shift bias v \<longleftrightarrow>
     2 ^ shift dvd unat v \<and> unat bias \<le> unat v div 2 ^ shift \<and>
     unat v div 2 ^ shift < unat bias + 2 ^ len"

lemma sint_eq_unat_small:
  assumes "unat (w :: u64) < 2 ^ 63"
  shows "sint w = int (unat w)"
proof -
  have "int (unat w) < int (2 ^ 63)"
    using assms by (simp only: of_nat_less_iff)
  then have lt: "uint w < 2 ^ 63" by simp
  have ge: "- (2 ^ 63) \<le> uint w"
    by (rule order.trans [OF _ uint_ge_0]) simp
  have "signed_take_bit 63 (uint w) = uint w"
    using ge lt by (rule signed_take_bit_int_eq_self)
  moreover have "sint w = signed_take_bit 63 (uint w)"
    by (simp add: sint_uint)
  ultimately show ?thesis by simp
qed

lemma unat_small_lt: "unat v < 2 ^ n \<Longrightarrow> n < 64 \<Longrightarrow> (v :: u64) < 2 ^ n"
  by (simp add: word_less_nat_alt unat_exp_word)

lemma sb_legal_value:
  assumes "sb_legal len shift bias v" and "len < 64"
  shows "drop_bit shift v - bias < 2 ^ len" and "push_bit shift (drop_bit shift v) = v"
proof -
  have le: "bias \<le> drop_bit shift v"
    using assms(1) by (simp only: word_le_nat_alt unat_drop_bit_word sb_legal_def)
  then have "unat (drop_bit shift v - bias) = unat v div 2 ^ shift - unat bias"
    by (simp only: unat_sub unat_drop_bit_word)
  also have "\<dots> < 2 ^ len"
    using assms(1) unfolding sb_legal_def by linarith
  finally show "drop_bit shift v - bias < 2 ^ len"
    using assms(2) by (rule unat_small_lt)
  have "unat v div 2 ^ shift * 2 ^ shift = unat v"
    using assms(1) by (simp only: sb_legal_def dvd_div_mult_self)
  then have "unat (push_bit shift (drop_bit shift v)) = unat v"
    using unsigned_less [of v, where ?'a = nat]
    by (subst unat_push_bit_word) (simp_all only: unat_drop_bit_word)
  then show "push_bit shift (drop_bit shift v) = v" by (simp only: word_unat_eq_iff)
qed

lemma BF64_SET_SB_Some:
  assumes legal: "sb_legal len shift bias v"
    and fit: "low + len \<le> 64" "unat bias + 2 ^ len \<le> 2 ^ 63"
  shows "BF64_SET_SB nd x low len shift bias v = Some (bf64_put x low len (drop_bit shift v - bias))"
proof -
  let ?u = "drop_bit shift v"
  have u: "unat ?u = unat v div 2 ^ shift" by (rule unat_drop_bit_word)
  have lt: "unat ?u < 2 ^ 63" and le: "unat bias \<le> unat ?u" and blt: "unat bias < 2 ^ 63"
    using legal fit(2) by (auto simp only: sb_legal_def u intro: le_less_trans less_le_trans)
  have aligned: "IS_P2ALIGNED v (2 ^ shift)"
    using legal by (simp only: IS_P2ALIGNED_iff sb_legal_def)
  have sle: "sint bias \<le> sint ?u"
    using le by (simp only: sint_eq_unat_small [OF lt] sint_eq_unat_small [OF blt] zle_int)
  have "(2 :: nat) ^ len \<le> 2 ^ 63" using fit(2) by linarith
  then have "len \<le> 63" by (rule power_le_imp_le_exp [rotated]) simp
  then have "?u - bias < 2 ^ len" by (intro sb_legal_value(1) [OF legal]) simp
  with aligned sle show ?thesis
    using fit(1) by (simp add: BF64_SET_SB_def ASSERT3U_ok ASSERT3S_ok BF64_SET_Some)
qed

lemma GET_SB_put:
  assumes "sb_legal len shift bias v" and "low + len \<le> 64" "len < 64"
  shows "BF64_GET_SB (bf64_put x low len (drop_bit shift v - bias)) low len shift bias = v"
  using sb_legal_value [OF assms(1,3)] assms(2)
  by (simp add: BF64_GET_SB_def get_put_same)

section \<open>Interfaces\<close>

text \<open>A 64-bit word inside a structure: how it is read and how it is replaced.\<close>

locale packed_word =
  fixes rd :: "'s \<Rightarrow> u64" and wr :: "u64 \<Rightarrow> 's \<Rightarrow> 's"
  assumes rd_wr: "rd (wr w s) = w"
    and wr_wr: "wr w (wr w' s) = wr w s"
    and wr_rd: "wr (rd s) s = s"
begin

lemma field_read_back:
  "v < 2 ^ len \<Longrightarrow> low + len \<le> 64 \<Longrightarrow>
    BF64_GET (rd (wr (bf64_put (rd s) low len v) s)) low len = v"
  by (simp add: rd_wr get_put_same)

lemma field_frame:
  "low' + len' \<le> low \<or> low + len \<le> low' \<Longrightarrow>
    BF64_GET (rd (wr (bf64_put (rd s) low len v) s)) low' len' = BF64_GET (rd s) low' len'"
  by (simp add: rd_wr get_put_disjoint)

lemma field_rewrite:
  "wr (bf64_put (rd (wr (bf64_put (rd s) low len v) s)) low len w) (wr (bf64_put (rd s) low len v) s) =
   wr (bf64_put (rd s) low len w) s"
  by (simp add: rd_wr wr_wr put_put_same)

lemma field_idle: "wr (bf64_put (rd s) low len (BF64_GET (rd s) low len)) s = s"
  by (simp add: put_get_same wr_rd)

end

text \<open>
  The contract of a getter and its asserting setter on the states \<open>inv\<close> accepts: a legal
  value is stored without an assertion firing, read back, and overwritten by the next store.
\<close>

locale accessor =
  fixes inv :: "'s \<Rightarrow> bool" and get :: "'s \<Rightarrow> u64"
    and set :: "bool \<Rightarrow> 's \<Rightarrow> u64 \<Rightarrow> 's option" and legal :: "u64 \<Rightarrow> bool"
  assumes set_defined: "inv s \<Longrightarrow> legal v \<Longrightarrow> \<exists>s'. set nd s v = Some s'"
    and get_set: "inv s \<Longrightarrow> legal v \<Longrightarrow> set nd s v = Some s' \<Longrightarrow> get s' = v"
    and inv_set: "inv s \<Longrightarrow> legal v \<Longrightarrow> set nd s v = Some s' \<Longrightarrow> inv s'"
    and set_set: "inv s \<Longrightarrow> legal v \<Longrightarrow> legal w \<Longrightarrow> set nd s v = Some s' \<Longrightarrow>
       set nd s' w = set nd s w"
begin

lemma build_irrelevant:
  "inv s \<Longrightarrow> legal v \<Longrightarrow> \<exists>s'. set nd s v = Some s' \<and> get s' = v \<and> inv s'"
  using set_defined get_set inv_set by blast

lemma set_inj: "inv s \<Longrightarrow> legal v \<Longrightarrow> legal w \<Longrightarrow> set nd s v = set nd s w \<Longrightarrow> v = w"
  using set_defined get_set by metis

end

locale accessor_pair = accessor inv get set legal
  for inv :: "'s \<Rightarrow> bool" and get set legal +
  fixes get' :: "'s \<Rightarrow> 'v"
  assumes frame: "inv s \<Longrightarrow> legal v \<Longrightarrow> set nd s v = Some s' \<Longrightarrow> get' s' = get' s"
begin

lemma set_keeps_other:
  "inv s \<Longrightarrow> legal v \<Longrightarrow> \<exists>s'. set nd s v = Some s' \<and> get s' = v \<and> get' s' = get' s"
  using set_defined get_set frame by blast

end

interpretation plain_word: packed_word "\<lambda>w. w" "\<lambda>w _. w"
  by unfold_locales simp_all

section \<open>Fields of a packed word meet the contract\<close>

text \<open>
  A getter that reads a field of \<open>len\<close> bits at \<open>low\<close>, and a setter that is \<open>BF64_SET\<close> on it
  in the states \<open>inv\<close> accepts, are an \<open>accessor\<close>; so are their scaled and biased versions.
\<close>

lemma accessor_field:
  assumes pw: "packed_word rd wr" and pos: "low + len \<le> 64"
    and inv: "\<And>s v. I s \<Longrightarrow> I (wr (bf64_put (rd s) low len v) s)"
    and set: "\<And>s v nd. I s \<Longrightarrow> upd nd s v = map_option (\<lambda>w. wr w s) (BF64_SET nd (rd s) low len v)"
    and get: "\<And>s. I s \<Longrightarrow> fld s = BF64_GET (rd s) low len"
  shows "accessor I fld upd (\<lambda>v. v < 2 ^ len)"
proof -
  show ?thesis
    by unfold_locales
      (auto simp: set get inv BF64_SET_Some [OF _ pos] packed_word.rd_wr [OF pw]
        packed_word.wr_wr [OF pw] get_put_same [OF _ pos] put_put_same)
qed

lemma accessor_field_SB:
  assumes pw: "packed_word rd wr" and pos: "low + len \<le> 64" "len < 64" "unat bias + 2 ^ len \<le> 2 ^ 63"
    and inv: "\<And>s v. I s \<Longrightarrow> I (wr (bf64_put (rd s) low len v) s)"
    and set: "\<And>s v nd. I s \<Longrightarrow>
      upd nd s v = map_option (\<lambda>w. wr w s) (BF64_SET_SB nd (rd s) low len shift bias v)"
    and get: "\<And>s. I s \<Longrightarrow> fld s = BF64_GET_SB (rd s) low len shift bias"
  shows "accessor I fld upd (sb_legal len shift bias)"
  by unfold_locales
    (auto simp: set get inv BF64_SET_SB_Some [OF _ pos(1,3)] packed_word.rd_wr [OF pw]
      packed_word.wr_wr [OF pw] GET_SB_put [OF _ pos(1,2)] put_put_same)

end
