(* ===== verification/Byteorder.thy ===== *)
theory Byteorder
  imports Prelude
begin

unbundle bit_operations_syntax

text \<open>
  The byte order macros of \<open>compat/openzfs/os/freebsd/spl/sys/byteorder.h\<close> (the branch that is
  not \<open>__COVERITY__\<close>), over 64-bit operands. The byte order of the host is the argument
  \<open>be\<close> of the conversions. The lemmas give the position of every bit after a swap.
\<close>

definition BSWAP_8 :: "u64 \<Rightarrow> u64" where
  "BSWAP_8 x = x AND 0xff"

definition BSWAP_16 :: "u64 \<Rightarrow> u64" where
  "BSWAP_16 x = push_bit 8 (BSWAP_8 x) OR BSWAP_8 (drop_bit 8 x)"

definition BSWAP_32 :: "u64 \<Rightarrow> u64" where
  "BSWAP_32 x = push_bit 16 (BSWAP_16 x) OR BSWAP_16 (drop_bit 16 x)"

definition BSWAP_64 :: "u64 \<Rightarrow> u64" where
  "BSWAP_64 x = push_bit 32 (BSWAP_32 x) OR BSWAP_32 (drop_bit 32 x)"

definition BMASK_8 :: "u64 \<Rightarrow> u64" where "BMASK_8 x = x AND 0xff"
definition BMASK_16 :: "u64 \<Rightarrow> u64" where "BMASK_16 x = x AND 0xffff"
definition BMASK_32 :: "u64 \<Rightarrow> u64" where "BMASK_32 x = x AND 0xffffffff"
definition BMASK_64 :: "u64 \<Rightarrow> u64" where "BMASK_64 x = x"

definition BE_8 :: "bool \<Rightarrow> u64 \<Rightarrow> u64" where "BE_8 be x = (if be then BMASK_8 x else BSWAP_8 x)"
definition BE_16 :: "bool \<Rightarrow> u64 \<Rightarrow> u64" where "BE_16 be x = (if be then BMASK_16 x else BSWAP_16 x)"
definition BE_32 :: "bool \<Rightarrow> u64 \<Rightarrow> u64" where "BE_32 be x = (if be then BMASK_32 x else BSWAP_32 x)"
definition BE_64 :: "bool \<Rightarrow> u64 \<Rightarrow> u64" where "BE_64 be x = (if be then BMASK_64 x else BSWAP_64 x)"
definition LE_8 :: "bool \<Rightarrow> u64 \<Rightarrow> u64" where "LE_8 be x = (if be then BSWAP_8 x else BMASK_8 x)"
definition LE_16 :: "bool \<Rightarrow> u64 \<Rightarrow> u64" where "LE_16 be x = (if be then BSWAP_16 x else BMASK_16 x)"
definition LE_32 :: "bool \<Rightarrow> u64 \<Rightarrow> u64" where "LE_32 be x = (if be then BSWAP_32 x else BMASK_32 x)"
definition LE_64 :: "bool \<Rightarrow> u64 \<Rightarrow> u64" where "LE_64 be x = (if be then BSWAP_64 x else BMASK_64 x)"

text \<open>\<open>htonll\<close> and \<open>ntohll\<close> on a 64-bit (\<open>__LP64__\<close>) host.\<close>

definition htonll :: "bool \<Rightarrow> u64 \<Rightarrow> u64" where
  "htonll be x = (if be then BMASK_64 x else BSWAP_64 x)"

definition ntohll :: "bool \<Rightarrow> u64 \<Rightarrow> u64" where
  "ntohll be x = (if be then BMASK_64 x else BSWAP_64 x)"

section \<open>Where the bits go\<close>

lemma low_byte_mask: "(0xff :: u64) = mask 8"
  by (simp add: mask_numeral)

lemma bit_BSWAP_8: "bit (BSWAP_8 x) n \<longleftrightarrow> n < 8 \<and> bit x n"
  by (auto simp: BSWAP_8_def low_byte_mask bit_simps)

lemma bit_BSWAP_16:
  "bit (BSWAP_16 x) n \<longleftrightarrow> (if n < 8 then bit x (n + 8) else n < 16 \<and> bit x (n - 8))"
  by (auto simp: BSWAP_16_def bit_BSWAP_8 bit_push_bit_iff bit_drop_bit_eq bit_or_iff ac_simps
      possible_bit_def)

lemma bit_BSWAP_32:
  "bit (BSWAP_32 x) n \<longleftrightarrow>
    (if n < 8 then bit x (n + 24) else if n < 16 then bit x (n + 8)
     else if n < 24 then bit x (n - 8) else n < 32 \<and> bit x (n - 24))"
  by (auto simp: BSWAP_32_def bit_BSWAP_16 bit_push_bit_iff bit_drop_bit_eq bit_or_iff ac_simps
      possible_bit_def)

lemma bit_BSWAP_64_split:
  "bit (BSWAP_64 x) n \<longleftrightarrow> (if n < 32 then bit (BSWAP_32 (drop_bit 32 x)) n else n < 64 \<and> bit (BSWAP_32 x) (n - 32))"
  by (auto simp: BSWAP_64_def bit_BSWAP_32 bit_push_bit_iff bit_or_iff possible_bit_def)

text \<open>Byte \<open>q\<close> of the result is byte \<open>7 - q\<close> of the argument.\<close>

lemma bit_BSWAP_64:
  assumes "q < 8" and "r < 8"
  shows "bit (BSWAP_64 x) (8 * q + r) \<longleftrightarrow> bit x (8 * (7 - q) + r)"
proof -
  have "q = 0 \<or> q = 1 \<or> q = 2 \<or> q = 3 \<or> q = 4 \<or> q = 5 \<or> q = 6 \<or> q = 7"
    using assms(1) by arith
  then show ?thesis
    using assms(2)
    by (elim disjE) (simp_all add: bit_BSWAP_64_split bit_BSWAP_32 bit_drop_bit_eq ac_simps)
qed

lemma BSWAP_64_involution: "BSWAP_64 (BSWAP_64 x) = x"
proof (rule bit_word_eqI)
  fix n assume "n < LENGTH(64)"
  then have q: "n div 8 < 8" and r: "n mod 8 < 8" by simp_all
  have q': "7 - n div 8 < 8" by simp
  have "bit (BSWAP_64 (BSWAP_64 x)) (8 * (n div 8) + n mod 8) \<longleftrightarrow>
      bit x (8 * (7 - (7 - n div 8)) + n mod 8)"
    by (simp only: bit_BSWAP_64 [OF q r] bit_BSWAP_64 [OF q' r])
  moreover have "7 - (7 - n div 8) = n div 8" using q by linarith
  ultimately show "bit (BSWAP_64 (BSWAP_64 x)) n \<longleftrightarrow> bit x n" by (simp only: mult_div_mod_eq)
qed

section \<open>Properties\<close>

text \<open>The 64-bit swap reverses the order of the eight bytes and keeps the bits inside each,
  and swapping twice gives the word back.\<close>

theorem BSWAP_64_reverses_bytes:
  "(\<forall>q\<in>{0..<8}. take_bit 8 (drop_bit (8 * q) (BSWAP_64 x)) = take_bit 8 (drop_bit (8 * (7 - q)) x)) \<and>
   BSWAP_64 (BSWAP_64 x) = x"
proof (intro conjI ballI BSWAP_64_involution)
  fix q :: nat assume "q \<in> {0..<8}"
  then have q: "q < 8" by simp
  show "take_bit 8 (drop_bit (8 * q) (BSWAP_64 x)) = take_bit 8 (drop_bit (8 * (7 - q)) x)"
    by (rule bit_word_eqI)
      (auto simp: bit_take_bit_iff bit_drop_bit_eq bit_BSWAP_64 [OF q] dest: bit_imp_le_length)
qed

theorem BSWAP_64_reverses_bytes_witness:
  "take_bit 8 (drop_bit 56 (BSWAP_64 0x0102030405060708)) = 8"
  using BSWAP_64_reverses_bytes [of "0x0102030405060708"] by (auto dest: bspec [of _ _ 7])

text \<open>Converting to network order and back is the identity on either kind of host, and so
  are the conversions to a fixed byte order.\<close>

theorem byteorder_roundtrip:
  "ntohll be (htonll be x) = x \<and> BE_64 be (BE_64 be x) = x \<and> LE_64 be (LE_64 be x) = x \<and>
   LE_64 be x = BSWAP_64 (BE_64 be x)"
  by (simp add: ntohll_def htonll_def BE_64_def LE_64_def BMASK_64_def BSWAP_64_involution)

end
