(* ===== verification/Dmu_Types.thy ===== *)
theory Dmu_Types
  imports Zfs_Types
begin

unbundle bit_operations_syntax

text \<open>
  Object types of the DMU (\<open>compat/openzfs/sys/dmu.h\<close>): the legacy enumeration, the encoding
  \<open>DMU_OT\<close> of a new object type in a byte, and the predicates over both. The table
  \<open>dmu_ot\<close> of the legacy types is defined in a file that is not part of the repository; it is
  the parameter \<open>dmu_ot\<close> of the definitions that read it.
\<close>

section \<open>Byteswap functions\<close>

definition dmu_object_byteswap :: "(string \<times> int) list" where
  "dmu_object_byteswap = enum_from 0 [
     ''DMU_BSWAP_UINT8'', ''DMU_BSWAP_UINT16'', ''DMU_BSWAP_UINT32'',
     ''DMU_BSWAP_UINT64'', ''DMU_BSWAP_ZAP'', ''DMU_BSWAP_DNODE'',
     ''DMU_BSWAP_OBJSET'', ''DMU_BSWAP_ZNODE'', ''DMU_BSWAP_OLDACL'',
     ''DMU_BSWAP_ACL'', ''DMU_BSWAP_NUMFUNCS'']"

definition DMU_BSWAP_UINT8 :: u64 where "DMU_BSWAP_UINT8 = 0"
definition DMU_BSWAP_UINT16 :: u64 where "DMU_BSWAP_UINT16 = 1"
definition DMU_BSWAP_UINT32 :: u64 where "DMU_BSWAP_UINT32 = 2"
definition DMU_BSWAP_UINT64 :: u64 where "DMU_BSWAP_UINT64 = 3"
definition DMU_BSWAP_ZAP :: u64 where "DMU_BSWAP_ZAP = 4"
definition DMU_BSWAP_NUMFUNCS :: u64 where "DMU_BSWAP_NUMFUNCS = 10"

section \<open>The encoding of an object type\<close>

definition DMU_OT_NEWTYPE :: u64 where "DMU_OT_NEWTYPE = 0x80"
definition DMU_OT_METADATA :: u64 where "DMU_OT_METADATA = 0x40"
definition DMU_OT_ENCRYPTED :: u64 where "DMU_OT_ENCRYPTED = 0x20"
definition DMU_OT_BYTESWAP_MASK :: u64 where "DMU_OT_BYTESWAP_MASK = 0x1f"

definition DMU_OT :: "u64 \<Rightarrow> bool \<Rightarrow> bool \<Rightarrow> u64" where
  "DMU_OT byteswap metadata encrypted =
    DMU_OT_NEWTYPE OR
    (if metadata then DMU_OT_METADATA else 0) OR
    (if encrypted then DMU_OT_ENCRYPTED else 0) OR
    (byteswap AND DMU_OT_BYTESWAP_MASK)"

section \<open>The enumeration\<close>

definition dmu_object_type :: "(string \<times> int) list" where
  "dmu_object_type = enum_from 0 [
     ''DMU_OT_NONE'', ''DMU_OT_OBJECT_DIRECTORY'', ''DMU_OT_OBJECT_ARRAY'',
     ''DMU_OT_PACKED_NVLIST'', ''DMU_OT_PACKED_NVLIST_SIZE'', ''DMU_OT_BPOBJ'',
     ''DMU_OT_BPOBJ_HDR'', ''DMU_OT_SPACE_MAP_HEADER'', ''DMU_OT_SPACE_MAP'',
     ''DMU_OT_INTENT_LOG'', ''DMU_OT_DNODE'', ''DMU_OT_OBJSET'',
     ''DMU_OT_DSL_DIR'', ''DMU_OT_DSL_DIR_CHILD_MAP'', ''DMU_OT_DSL_DS_SNAP_MAP'',
     ''DMU_OT_DSL_PROPS'', ''DMU_OT_DSL_DATASET'', ''DMU_OT_ZNODE'',
     ''DMU_OT_OLDACL'', ''DMU_OT_PLAIN_FILE_CONTENTS'', ''DMU_OT_DIRECTORY_CONTENTS'',
     ''DMU_OT_MASTER_NODE'', ''DMU_OT_UNLINKED_SET'', ''DMU_OT_ZVOL'',
     ''DMU_OT_ZVOL_PROP'', ''DMU_OT_PLAIN_OTHER'', ''DMU_OT_UINT64_OTHER'',
     ''DMU_OT_ZAP_OTHER'', ''DMU_OT_ERROR_LOG'', ''DMU_OT_SPA_HISTORY'',
     ''DMU_OT_SPA_HISTORY_OFFSETS'', ''DMU_OT_POOL_PROPS'', ''DMU_OT_DSL_PERMS'',
     ''DMU_OT_ACL'', ''DMU_OT_SYSACL'', ''DMU_OT_FUID'',
     ''DMU_OT_FUID_SIZE'', ''DMU_OT_NEXT_CLONES'', ''DMU_OT_SCAN_QUEUE'',
     ''DMU_OT_USERGROUP_USED'', ''DMU_OT_USERGROUP_QUOTA'', ''DMU_OT_USERREFS'',
     ''DMU_OT_DDT_ZAP'', ''DMU_OT_DDT_STATS'', ''DMU_OT_SA'',
     ''DMU_OT_SA_MASTER_NODE'', ''DMU_OT_SA_ATTR_REGISTRATION'', ''DMU_OT_SA_ATTR_LAYOUTS'',
     ''DMU_OT_SCAN_XLATE'', ''DMU_OT_DEDUP'', ''DMU_OT_DEADLIST'',
     ''DMU_OT_DEADLIST_HDR'', ''DMU_OT_DSL_CLONES'', ''DMU_OT_BPOBJ_SUBOBJ'',
     ''DMU_OT_NUMTYPES'']"

definition DMU_OT_NONE :: u64 where "DMU_OT_NONE = 0"
definition DMU_OT_DNODE :: u64 where "DMU_OT_DNODE = 10"
definition DMU_OT_OBJSET :: u64 where "DMU_OT_OBJSET = 11"
definition DMU_OT_PLAIN_FILE_CONTENTS :: u64 where "DMU_OT_PLAIN_FILE_CONTENTS = 19"
definition DMU_OT_DIRECTORY_CONTENTS :: u64 where "DMU_OT_DIRECTORY_CONTENTS = 20"
definition DMU_OT_UINT64_OTHER :: u64 where "DMU_OT_UINT64_OTHER = 26"
definition DMU_OT_DDT_ZAP :: u64 where "DMU_OT_DDT_ZAP = 42"
definition DMU_OT_SA :: u64 where "DMU_OT_SA = 44"
definition DMU_OT_NUMTYPES :: u64 where "DMU_OT_NUMTYPES = 54"

definition dmu_object_type_new :: "(string \<times> u64) list" where
  "dmu_object_type_new = [
     (''DMU_OTN_UINT8_DATA'', DMU_OT DMU_BSWAP_UINT8 False False),
     (''DMU_OTN_UINT8_METADATA'', DMU_OT DMU_BSWAP_UINT8 True False),
     (''DMU_OTN_UINT16_DATA'', DMU_OT DMU_BSWAP_UINT16 False False),
     (''DMU_OTN_UINT16_METADATA'', DMU_OT DMU_BSWAP_UINT16 True False),
     (''DMU_OTN_UINT32_DATA'', DMU_OT DMU_BSWAP_UINT32 False False),
     (''DMU_OTN_UINT32_METADATA'', DMU_OT DMU_BSWAP_UINT32 True False),
     (''DMU_OTN_UINT64_DATA'', DMU_OT DMU_BSWAP_UINT64 False False),
     (''DMU_OTN_UINT64_METADATA'', DMU_OT DMU_BSWAP_UINT64 True False),
     (''DMU_OTN_ZAP_DATA'', DMU_OT DMU_BSWAP_ZAP False False),
     (''DMU_OTN_ZAP_METADATA'', DMU_OT DMU_BSWAP_ZAP True False),
     (''DMU_OTN_UINT8_ENC_DATA'', DMU_OT DMU_BSWAP_UINT8 False True),
     (''DMU_OTN_UINT8_ENC_METADATA'', DMU_OT DMU_BSWAP_UINT8 True True),
     (''DMU_OTN_UINT16_ENC_DATA'', DMU_OT DMU_BSWAP_UINT16 False True),
     (''DMU_OTN_UINT16_ENC_METADATA'', DMU_OT DMU_BSWAP_UINT16 True True),
     (''DMU_OTN_UINT32_ENC_DATA'', DMU_OT DMU_BSWAP_UINT32 False True),
     (''DMU_OTN_UINT32_ENC_METADATA'', DMU_OT DMU_BSWAP_UINT32 True True),
     (''DMU_OTN_UINT64_ENC_DATA'', DMU_OT DMU_BSWAP_UINT64 False True),
     (''DMU_OTN_UINT64_ENC_METADATA'', DMU_OT DMU_BSWAP_UINT64 True True),
     (''DMU_OTN_ZAP_ENC_DATA'', DMU_OT DMU_BSWAP_ZAP False True),
     (''DMU_OTN_ZAP_ENC_METADATA'', DMU_OT DMU_BSWAP_ZAP True True)]"

section \<open>Predicates\<close>

record dmu_object_type_info =
  ot_byteswap :: u64
  ot_metadata :: bool
  ot_dbuf_metadata_cache :: bool
  ot_encrypt :: bool
  ot_name :: string

type_synonym ot_table = "u64 \<Rightarrow> dmu_object_type_info"

text \<open>A table to instantiate the parameter with: plain file contents are encrypted, nothing else is.\<close>

definition demo_ot :: ot_table where
  "demo_ot ot = \<lparr>ot_byteswap = 0, ot_metadata = (ot \<noteq> 19), ot_dbuf_metadata_cache = False,
     ot_encrypt = (ot = 19), ot_name = []\<rparr>"

definition DMU_OT_IS_VALID :: "u64 \<Rightarrow> bool" where
  "DMU_OT_IS_VALID ot =
    (if ot AND DMU_OT_NEWTYPE \<noteq> 0 then ot AND DMU_OT_BYTESWAP_MASK < DMU_BSWAP_NUMFUNCS
     else ot < DMU_OT_NUMTYPES)"

definition DMU_OT_IS_METADATA_CACHED :: "ot_table \<Rightarrow> u64 \<Rightarrow> bool" where
  "DMU_OT_IS_METADATA_CACHED dmu_ot ot =
    (if ot AND DMU_OT_NEWTYPE \<noteq> 0 then ot AND DMU_OT_METADATA \<noteq> 0
     else ot_dbuf_metadata_cache (dmu_ot ot))"

definition DMU_OT_IS_METADATA_IMPL :: "ot_table \<Rightarrow> u64 \<Rightarrow> bool" where
  "DMU_OT_IS_METADATA_IMPL dmu_ot ot = ot_metadata (dmu_ot ot)"

definition DMU_OT_IS_ENCRYPTED_IMPL :: "ot_table \<Rightarrow> u64 \<Rightarrow> bool" where
  "DMU_OT_IS_ENCRYPTED_IMPL dmu_ot ot = ot_encrypt (dmu_ot ot)"

definition DMU_OT_BYTESWAP_IMPL :: "ot_table \<Rightarrow> u64 \<Rightarrow> u64" where
  "DMU_OT_BYTESWAP_IMPL dmu_ot ot = ot_byteswap (dmu_ot ot)"

definition DMU_OT_IS_METADATA :: "ot_table \<Rightarrow> u64 \<Rightarrow> bool" where
  "DMU_OT_IS_METADATA dmu_ot ot =
    (if ot AND DMU_OT_NEWTYPE \<noteq> 0 then ot AND DMU_OT_METADATA \<noteq> 0
     else DMU_OT_IS_METADATA_IMPL dmu_ot ot)"

definition DMU_OT_IS_DDT :: "u64 \<Rightarrow> bool" where
  "DMU_OT_IS_DDT ot \<longleftrightarrow> ot = DMU_OT_DDT_ZAP"

definition DMU_OT_IS_CRITICAL :: "ot_table \<Rightarrow> u64 \<Rightarrow> u64 \<Rightarrow> bool" where
  "DMU_OT_IS_CRITICAL dmu_ot ot level \<longleftrightarrow>
    DMU_OT_IS_METADATA dmu_ot ot \<and> (ot \<noteq> DMU_OT_DNODE \<or> level > 0) \<and>
    ot \<noteq> DMU_OT_DIRECTORY_CONTENTS \<and> ot \<noteq> DMU_OT_SA"

definition DMU_OT_IS_FILE :: "u64 \<Rightarrow> bool" where
  "DMU_OT_IS_FILE ot \<longleftrightarrow> ot = DMU_OT_PLAIN_FILE_CONTENTS \<or> ot = DMU_OT_UINT64_OTHER"

definition DMU_OT_IS_ENCRYPTED :: "ot_table \<Rightarrow> u64 \<Rightarrow> bool" where
  "DMU_OT_IS_ENCRYPTED dmu_ot ot =
    (if ot AND DMU_OT_NEWTYPE \<noteq> 0 then ot AND DMU_OT_ENCRYPTED \<noteq> 0
     else DMU_OT_IS_ENCRYPTED_IMPL dmu_ot ot)"

definition DMU_OT_HAS_FILL :: "u64 \<Rightarrow> bool" where
  "DMU_OT_HAS_FILL ot \<longleftrightarrow> ot = DMU_OT_DNODE \<or> ot = DMU_OT_OBJSET"

definition DMU_OT_BYTESWAP :: "ot_table \<Rightarrow> u64 \<Rightarrow> u64" where
  "DMU_OT_BYTESWAP dmu_ot ot =
    (if ot AND DMU_OT_NEWTYPE \<noteq> 0 then ot AND DMU_OT_BYTESWAP_MASK
     else DMU_OT_BYTESWAP_IMPL dmu_ot ot)"

lemmas dmu_ot_values = DMU_OT_NONE_def DMU_OT_DNODE_def DMU_OT_OBJSET_def DMU_OT_PLAIN_FILE_CONTENTS_def DMU_OT_DIRECTORY_CONTENTS_def DMU_OT_UINT64_OTHER_def DMU_OT_DDT_ZAP_def DMU_OT_SA_def DMU_OT_NUMTYPES_def
lemmas dmu_bswap_values = DMU_BSWAP_UINT8_def DMU_BSWAP_UINT16_def DMU_BSWAP_UINT32_def DMU_BSWAP_UINT64_def DMU_BSWAP_ZAP_def DMU_BSWAP_NUMFUNCS_def
lemmas dmu_ot_bits = DMU_OT_NEWTYPE_def DMU_OT_METADATA_def DMU_OT_ENCRYPTED_def DMU_OT_BYTESWAP_MASK_def

text \<open>The constants named above are the enumerators' values.\<close>

lemma dmu_object_type_consistent:
  "\<forall>(n, v)\<in>set [(''DMU_OT_NONE'', DMU_OT_NONE), (''DMU_OT_DNODE'', DMU_OT_DNODE), (''DMU_OT_OBJSET'', DMU_OT_OBJSET), (''DMU_OT_PLAIN_FILE_CONTENTS'', DMU_OT_PLAIN_FILE_CONTENTS), (''DMU_OT_DIRECTORY_CONTENTS'', DMU_OT_DIRECTORY_CONTENTS), (''DMU_OT_UINT64_OTHER'', DMU_OT_UINT64_OTHER), (''DMU_OT_DDT_ZAP'', DMU_OT_DDT_ZAP), (''DMU_OT_SA'', DMU_OT_SA), (''DMU_OT_NUMTYPES'', DMU_OT_NUMTYPES)].
     map_of dmu_object_type n = Some (uint v)"
  by (simp add: dmu_object_type_def dmu_ot_values)

section \<open>Meaning of the encoding\<close>

text \<open>The parts of the encoding, bit by bit: bit 7, bit 6, bit 5 and the five low bits.\<close>

lemma byteswap_mask: "x AND DMU_OT_BYTESWAP_MASK = take_bit 5 x"
proof -
  have "DMU_OT_BYTESWAP_MASK = mask 5" by (simp add: DMU_OT_BYTESWAP_MASK_def mask_numeral)
  then show ?thesis by (metis and_mask_word)
qed

lemma and_flag_nonzero: "x AND (2 ^ n :: u64) \<noteq> 0 \<longleftrightarrow> bit x n"
proof -
  have "x AND 2 ^ n = of_bool (bit x n) * 2 ^ n"
    using and_exp_eq_0_iff_not_bit [of x n] by (auto intro!: bit_word_eqI simp: bit_simps)
  then show ?thesis by (metis and_exp_eq_0_iff_not_bit)
qed

lemma flag_powers: "DMU_OT_NEWTYPE = 2 ^ 7" "DMU_OT_METADATA = 2 ^ 6" "DMU_OT_ENCRYPTED = 2 ^ 5"
  by (simp_all add: dmu_ot_bits)

lemma bit_DMU_OT:
  "bit (DMU_OT b m e) n \<longleftrightarrow> (n = 7 \<or> n = 6 \<and> m \<or> n = 5 \<and> e \<or> n < 5 \<and> bit b n)"
  unfolding DMU_OT_def byteswap_mask flag_powers
  by (cases m; cases e)
    (simp_all only: if_True if_False bit_or_iff bit_exp_iff bit_take_bit_iff bit_0_eq possible_bit_def,
     auto)

lemma DMU_OT_low: "take_bit 5 (DMU_OT b m e) = take_bit 5 b"
  by (rule bit_word_eqI) (auto simp: bit_take_bit_iff bit_DMU_OT)

lemma DMU_OT_byte: "DMU_OT b m e < 256"
proof -
  have "unat (DMU_OT b m e) < 2 ^ 8" by (rule no_bits_unat_less) (auto simp: bit_DMU_OT)
  then show ?thesis by (simp add: word_less_nat_alt)
qed

lemma DMU_OT_flags:
  "DMU_OT b m e AND DMU_OT_NEWTYPE \<noteq> 0"
  "DMU_OT b m e AND DMU_OT_METADATA \<noteq> 0 \<longleftrightarrow> m"
  "DMU_OT b m e AND DMU_OT_ENCRYPTED \<noteq> 0 \<longleftrightarrow> e"
  unfolding flag_powers and_flag_nonzero bit_DMU_OT by auto

section \<open>Properties\<close>

text \<open>The encoding of a new object type is a byte from which the three parts are read back,
  without the table of legacy types, and the type is valid exactly for the byteswap functions
  that exist.\<close>

theorem DMU_OT_roundtrip:
  assumes "b < 32"
  shows "DMU_OT b m e < 256 \<and> DMU_OT_BYTESWAP tbl (DMU_OT b m e) = b \<and>
    (DMU_OT_IS_METADATA tbl (DMU_OT b m e) \<longleftrightarrow> m) \<and>
    (DMU_OT_IS_METADATA_CACHED tbl (DMU_OT b m e) \<longleftrightarrow> m) \<and>
    (DMU_OT_IS_ENCRYPTED tbl (DMU_OT b m e) \<longleftrightarrow> e) \<and>
    (DMU_OT_IS_VALID (DMU_OT b m e) \<longleftrightarrow> b < DMU_BSWAP_NUMFUNCS)"
proof -
  have "take_bit 5 b = b" using assms by (intro take_bit_word_small) simp
  then show ?thesis
    using DMU_OT_flags [of b m e] DMU_OT_byte [of b m e]
    by (simp only: DMU_OT_BYTESWAP_def DMU_OT_IS_METADATA_def DMU_OT_IS_METADATA_CACHED_def
        DMU_OT_IS_ENCRYPTED_def DMU_OT_IS_VALID_def byteswap_mask DMU_OT_low if_True simp_thms)
qed

theorem DMU_OT_roundtrip_witness:
  "DMU_OT_BYTESWAP demo_ot (DMU_OT DMU_BSWAP_ZAP True False) = DMU_BSWAP_ZAP"
  using DMU_OT_roundtrip [of DMU_BSWAP_ZAP] by (simp add: DMU_BSWAP_ZAP_def)

text \<open>Every object type the enumeration names is valid, the names of the new types have
  distinct values, and no new type has the number of a legacy one.\<close>

theorem dmu_object_types_wellformed:
  "(\<forall>(n, v)\<in>set dmu_object_type_new. DMU_OT_IS_VALID v \<and> DMU_OT_NUMTYPES \<le> v) \<and>
   distinct (map snd dmu_object_type_new) \<and>
   (\<forall>ot. ot < DMU_OT_NUMTYPES \<longrightarrow> DMU_OT_IS_VALID ot)"
proof (intro conjI allI impI)
  show "\<forall>(n, v)\<in>set dmu_object_type_new. DMU_OT_IS_VALID v \<and> DMU_OT_NUMTYPES \<le> v"
    by (simp add: dmu_object_type_new_def DMU_OT_IS_VALID_def DMU_OT_def dmu_ot_bits dmu_bswap_values
        DMU_OT_NUMTYPES_def)
  show "distinct (map snd dmu_object_type_new)"
    by (simp add: dmu_object_type_new_def DMU_OT_def dmu_ot_bits dmu_bswap_values)
  fix ot assume lt: "ot < DMU_OT_NUMTYPES"
  have "\<not> bit ot 7"
    using bit_unat_ge [of ot 7] lt by (auto simp: DMU_OT_NUMTYPES_def word_less_nat_alt)
  then show "DMU_OT_IS_VALID ot"
    using lt and_flag_nonzero [of ot 7] by (simp add: DMU_OT_IS_VALID_def DMU_OT_NEWTYPE_def)
qed

theorem dmu_object_types_wellformed_witness:
  "DMU_OT_IS_VALID DMU_OT_DNODE"
  using dmu_object_types_wellformed by (simp add: DMU_OT_DNODE_def DMU_OT_NUMTYPES_def)

end
