(* ===== verification/Blkptr.thy ===== *)
theory Blkptr
  imports Bitops Byteorder Dmu_Types
begin

unbundle bit_operations_syntax

text \<open>
  Block pointers (\<open>compat/openzfs/sys/spa.h\<close>, with \<open>zio_cksum_t\<close> of \<open>spa_checksum.h\<close> and the
  gang block header of \<open>zio.h\<close>): the records, every DVA, BP and BPE macro, and the layouts the
  comments of the header draw. Getters with an \<open>ASSERT\<close> have an option type; the table of
  legacy object types is the parameter \<open>dmu_ot\<close>.
\<close>

section \<open>Checksums\<close>

record zio_cksum_t =
  zc_word0 :: u64
  zc_word1 :: u64
  zc_word2 :: u64
  zc_word3 :: u64

definition ZIO_SET_CHECKSUM :: "zio_cksum_t \<Rightarrow> u64 \<Rightarrow> u64 \<Rightarrow> u64 \<Rightarrow> u64 \<Rightarrow> zio_cksum_t" where
  "ZIO_SET_CHECKSUM zc w0 w1 w2 w3 =
    zc\<lparr>zc_word0 := w0, zc_word1 := w1, zc_word2 := w2, zc_word3 := w3\<rparr>"

definition ZIO_CHECKSUM_EQUAL :: "zio_cksum_t \<Rightarrow> zio_cksum_t \<Rightarrow> bool" where
  "ZIO_CHECKSUM_EQUAL zc1 zc2 \<longleftrightarrow>
    0 = ((zc_word0 zc1 - zc_word0 zc2) OR (zc_word1 zc1 - zc_word1 zc2) OR
         (zc_word2 zc1 - zc_word2 zc2) OR (zc_word3 zc1 - zc_word3 zc2))"

definition ZIO_CHECKSUM_IS_ZERO :: "zio_cksum_t \<Rightarrow> bool" where
  "ZIO_CHECKSUM_IS_ZERO zc \<longleftrightarrow> 0 = (zc_word0 zc OR zc_word1 zc OR zc_word2 zc OR zc_word3 zc)"

definition ZIO_CHECKSUM_BSWAP :: "zio_cksum_t \<Rightarrow> zio_cksum_t" where
  "ZIO_CHECKSUM_BSWAP zc =
    zc\<lparr>zc_word0 := BSWAP_64 (zc_word0 zc), zc_word1 := BSWAP_64 (zc_word1 zc),
       zc_word2 := BSWAP_64 (zc_word2 zc), zc_word3 := BSWAP_64 (zc_word3 zc)\<rparr>"

section \<open>Constants and structures\<close>

definition SPA_MINBLOCKSHIFT :: nat where "SPA_MINBLOCKSHIFT = 9"
definition SPA_OLD_MAXBLOCKSHIFT :: nat where "SPA_OLD_MAXBLOCKSHIFT = 17"
definition SPA_MAXBLOCKSHIFT :: nat where "SPA_MAXBLOCKSHIFT = 24"
definition SPA_LSIZEBITS :: nat where "SPA_LSIZEBITS = 16"
definition SPA_PSIZEBITS :: nat where "SPA_PSIZEBITS = 16"
definition SPA_ASIZEBITS :: nat where "SPA_ASIZEBITS = 24"
definition SPA_COMPRESSBITS :: nat where "SPA_COMPRESSBITS = 7"
definition SPA_VDEVBITS :: nat where "SPA_VDEVBITS = 24"
definition SPA_COMPRESSMASK :: u32 where "SPA_COMPRESSMASK = push_bit SPA_COMPRESSBITS 1 - 1"
definition SPA_BLKPTRSHIFT :: nat where "SPA_BLKPTRSHIFT = 7"
definition SPA_DVAS_PER_BP :: nat where "SPA_DVAS_PER_BP = 3"
definition BPE_NUM_WORDS :: nat where "BPE_NUM_WORDS = 14"
definition BPE_PAYLOAD_SIZE :: nat where "BPE_PAYLOAD_SIZE = BPE_NUM_WORDS * 8"
definition ZIO_CHECKSUM_OFF :: u64 where "ZIO_CHECKSUM_OFF = 2"
definition BP_EMBEDDED_TYPE_DATA :: u64 where "BP_EMBEDDED_TYPE_DATA = 0"
definition BP_EMBEDDED_TYPE_RESERVED :: u64 where "BP_EMBEDDED_TYPE_RESERVED = 1"
definition BP_EMBEDDED_TYPE_REDACTED :: u64 where "BP_EMBEDDED_TYPE_REDACTED = 2"
definition NUM_BP_EMBEDDED_TYPES :: u64 where "NUM_BP_EMBEDDED_TYPES = 3"

lemmas spa_defs = SPA_MINBLOCKSHIFT_def SPA_LSIZEBITS_def SPA_PSIZEBITS_def SPA_ASIZEBITS_def
  SPA_COMPRESSBITS_def SPA_VDEVBITS_def
lemmas bpe_type_defs = BP_EMBEDDED_TYPE_DATA_def BP_EMBEDDED_TYPE_RESERVED_def BP_EMBEDDED_TYPE_REDACTED_def

record dva_t =
  dva_word0 :: u64
  dva_word1 :: u64

text \<open>The array \<open>blk_dva[SPA_DVAS_PER_BP]\<close> is three fields; \<open>blk_dva\<close> indexes them.\<close>

record blkptr_t =
  blk_dva0 :: dva_t
  blk_dva1 :: dva_t
  blk_dva2 :: dva_t
  blk_prop :: u64
  blk_prop2 :: u64
  blk_pad :: u64
  blk_birth_word0 :: u64
  blk_birth_word1 :: u64
  blk_fill :: u64
  blk_cksum :: zio_cksum_t

text \<open>A block pointer with every word in use.\<close>

definition demo_bp :: blkptr_t where
  "demo_bp = \<lparr>blk_dva0 = \<lparr>dva_word0 = 1, dva_word1 = 2\<rparr>, blk_dva1 = \<lparr>dva_word0 = 3, dva_word1 = 4\<rparr>,
     blk_dva2 = \<lparr>dva_word0 = 5, dva_word1 = 6\<rparr>, blk_prop = 7, blk_prop2 = 8, blk_pad = 9,
     blk_birth_word0 = 10, blk_birth_word1 = 11, blk_fill = 12,
     blk_cksum = \<lparr>zc_word0 = 13, zc_word1 = 14, zc_word2 = 15, zc_word3 = 16\<rparr>\<rparr>"

definition blk_dva :: "blkptr_t \<Rightarrow> nat \<Rightarrow> dva_t" where
  "blk_dva bp d = [blk_dva0 bp, blk_dva1 bp, blk_dva2 bp] ! d"

text \<open>The sixteen words of the structure, in memory order.\<close>

definition blkptr_words :: "blkptr_t \<Rightarrow> u64 list" where
  "blkptr_words bp =
    [dva_word0 (blk_dva0 bp), dva_word1 (blk_dva0 bp), dva_word0 (blk_dva1 bp), dva_word1 (blk_dva1 bp),
     dva_word0 (blk_dva2 bp), dva_word1 (blk_dva2 bp), blk_prop bp, blk_prop2 bp, blk_pad bp,
     blk_birth_word0 bp, blk_birth_word1 bp, blk_fill bp,
     zc_word0 (blk_cksum bp), zc_word1 (blk_cksum bp), zc_word2 (blk_cksum bp), zc_word3 (blk_cksum bp)]"

definition BPE_IS_PAYLOADWORD :: "nat \<Rightarrow> bool" where
  "BPE_IS_PAYLOADWORD wp \<longleftrightarrow> wp \<noteq> 6 \<and> wp \<noteq> 10"

section \<open>DVA fields\<close>

definition DVA_GET_ASIZE :: "dva_t \<Rightarrow> u64" where
  "DVA_GET_ASIZE dva = BF64_GET_SB (dva_word0 dva) 0 SPA_ASIZEBITS SPA_MINBLOCKSHIFT 0"

definition DVA_SET_ASIZE :: "bool \<Rightarrow> dva_t \<Rightarrow> u64 \<Rightarrow> dva_t option" where
  "DVA_SET_ASIZE nd dva x = map_option (\<lambda>w. dva\<lparr>dva_word0 := w\<rparr>)
     (BF64_SET_SB nd (dva_word0 dva) 0 SPA_ASIZEBITS SPA_MINBLOCKSHIFT 0 x)"

definition DVA_GET_VDEV :: "dva_t \<Rightarrow> u64" where
  "DVA_GET_VDEV dva = BF64_GET (dva_word0 dva) 32 SPA_VDEVBITS"

definition DVA_SET_VDEV :: "bool \<Rightarrow> dva_t \<Rightarrow> u64 \<Rightarrow> dva_t option" where
  "DVA_SET_VDEV nd dva x = map_option (\<lambda>w. dva\<lparr>dva_word0 := w\<rparr>)
     (BF64_SET nd (dva_word0 dva) 32 SPA_VDEVBITS x)"

definition DVA_GET_OFFSET :: "dva_t \<Rightarrow> u64" where
  "DVA_GET_OFFSET dva = BF64_GET_SB (dva_word1 dva) 0 63 SPA_MINBLOCKSHIFT 0"

definition DVA_SET_OFFSET :: "bool \<Rightarrow> dva_t \<Rightarrow> u64 \<Rightarrow> dva_t option" where
  "DVA_SET_OFFSET nd dva x = map_option (\<lambda>w. dva\<lparr>dva_word1 := w\<rparr>)
     (BF64_SET_SB nd (dva_word1 dva) 0 63 SPA_MINBLOCKSHIFT 0 x)"

definition DVA_GET_GANG :: "dva_t \<Rightarrow> u64" where
  "DVA_GET_GANG dva = BF64_GET (dva_word1 dva) 63 1"

definition DVA_SET_GANG :: "bool \<Rightarrow> dva_t \<Rightarrow> u64 \<Rightarrow> dva_t option" where
  "DVA_SET_GANG nd dva x = map_option (\<lambda>w. dva\<lparr>dva_word1 := w\<rparr>) (BF64_SET nd (dva_word1 dva) 63 1 x)"

definition DVA_EQUAL :: "dva_t \<Rightarrow> dva_t \<Rightarrow> bool" where
  "DVA_EQUAL dva1 dva2 \<longleftrightarrow> dva_word1 dva1 = dva_word1 dva2 \<and> dva_word0 dva1 = dva_word0 dva2"

definition DVA_IS_VALID :: "dva_t \<Rightarrow> bool" where
  "DVA_IS_VALID dva \<longleftrightarrow> DVA_GET_ASIZE dva \<noteq> 0"

definition DVA_IS_EMPTY :: "dva_t \<Rightarrow> bool" where
  "DVA_IS_EMPTY dva \<longleftrightarrow> dva_word0 dva = 0 \<and> dva_word1 dva = 0"

section \<open>Block pointer fields\<close>

text \<open>A field used as a truth value is its comparison with zero.\<close>

definition BP_IS_EMBEDDED :: "blkptr_t \<Rightarrow> bool" where
  "BP_IS_EMBEDDED bp \<longleftrightarrow> BF64_GET (blk_prop bp) 39 1 \<noteq> 0"

definition BP_SET_EMBEDDED :: "bool \<Rightarrow> blkptr_t \<Rightarrow> u64 \<Rightarrow> blkptr_t option" where
  "BP_SET_EMBEDDED nd bp x = map_option (\<lambda>w. bp\<lparr>blk_prop := w\<rparr>) (BF64_SET nd (blk_prop bp) 39 1 x)"

definition BPE_GET_ETYPE :: "bool \<Rightarrow> blkptr_t \<Rightarrow> u64 option" where
  "BPE_GET_ETYPE nd bp = do { ASSERT nd (BP_IS_EMBEDDED bp); Some (BF64_GET (blk_prop bp) 40 8) }"

definition BPE_SET_ETYPE :: "bool \<Rightarrow> blkptr_t \<Rightarrow> u64 \<Rightarrow> blkptr_t option" where
  "BPE_SET_ETYPE nd bp t = do {
     ASSERT nd (BP_IS_EMBEDDED bp);
     map_option (\<lambda>w. bp\<lparr>blk_prop := w\<rparr>) (BF64_SET nd (blk_prop bp) 40 8 t) }"

definition BPE_GET_LSIZE :: "bool \<Rightarrow> blkptr_t \<Rightarrow> u64 option" where
  "BPE_GET_LSIZE nd bp = do { ASSERT nd (BP_IS_EMBEDDED bp); Some (BF64_GET_SB (blk_prop bp) 0 25 0 1) }"

definition BPE_SET_LSIZE :: "bool \<Rightarrow> blkptr_t \<Rightarrow> u64 \<Rightarrow> blkptr_t option" where
  "BPE_SET_LSIZE nd bp x = do {
     ASSERT nd (BP_IS_EMBEDDED bp);
     map_option (\<lambda>w. bp\<lparr>blk_prop := w\<rparr>) (BF64_SET_SB nd (blk_prop bp) 0 25 0 1 x) }"

definition BPE_GET_PSIZE :: "bool \<Rightarrow> blkptr_t \<Rightarrow> u64 option" where
  "BPE_GET_PSIZE nd bp = do { ASSERT nd (BP_IS_EMBEDDED bp); Some (BF64_GET_SB (blk_prop bp) 25 7 0 1) }"

definition BPE_SET_PSIZE :: "bool \<Rightarrow> blkptr_t \<Rightarrow> u64 \<Rightarrow> blkptr_t option" where
  "BPE_SET_PSIZE nd bp x = do {
     ASSERT nd (BP_IS_EMBEDDED bp);
     map_option (\<lambda>w. bp\<lparr>blk_prop := w\<rparr>) (BF64_SET_SB nd (blk_prop bp) 25 7 0 1 x) }"

definition BP_GET_LSIZE :: "bool \<Rightarrow> blkptr_t \<Rightarrow> u64 option" where
  "BP_GET_LSIZE nd bp =
    (if BP_IS_EMBEDDED bp then do {
       t \<leftarrow> BPE_GET_ETYPE nd bp;
       if t = BP_EMBEDDED_TYPE_DATA then BPE_GET_LSIZE nd bp else Some 0 }
     else Some (BF64_GET_SB (blk_prop bp) 0 SPA_LSIZEBITS SPA_MINBLOCKSHIFT 1))"

definition BP_SET_LSIZE :: "bool \<Rightarrow> blkptr_t \<Rightarrow> u64 \<Rightarrow> blkptr_t option" where
  "BP_SET_LSIZE nd bp x = do {
     ASSERT nd (\<not> BP_IS_EMBEDDED bp);
     map_option (\<lambda>w. bp\<lparr>blk_prop := w\<rparr>)
       (BF64_SET_SB nd (blk_prop bp) 0 SPA_LSIZEBITS SPA_MINBLOCKSHIFT 1 x) }"

definition BP_GET_PSIZE :: "blkptr_t \<Rightarrow> u64" where
  "BP_GET_PSIZE bp =
    (if BP_IS_EMBEDDED bp then 0 else BF64_GET_SB (blk_prop bp) 16 SPA_PSIZEBITS SPA_MINBLOCKSHIFT 1)"

definition BP_SET_PSIZE :: "bool \<Rightarrow> blkptr_t \<Rightarrow> u64 \<Rightarrow> blkptr_t option" where
  "BP_SET_PSIZE nd bp x = do {
     ASSERT nd (\<not> BP_IS_EMBEDDED bp);
     map_option (\<lambda>w. bp\<lparr>blk_prop := w\<rparr>)
       (BF64_SET_SB nd (blk_prop bp) 16 SPA_PSIZEBITS SPA_MINBLOCKSHIFT 1 x) }"

definition BP_GET_COMPRESS :: "blkptr_t \<Rightarrow> u64" where
  "BP_GET_COMPRESS bp = BF64_GET (blk_prop bp) 32 SPA_COMPRESSBITS"

definition BP_SET_COMPRESS :: "bool \<Rightarrow> blkptr_t \<Rightarrow> u64 \<Rightarrow> blkptr_t option" where
  "BP_SET_COMPRESS nd bp x =
     map_option (\<lambda>w. bp\<lparr>blk_prop := w\<rparr>) (BF64_SET nd (blk_prop bp) 32 SPA_COMPRESSBITS x)"

definition BP_GET_CHECKSUM :: "blkptr_t \<Rightarrow> u64" where
  "BP_GET_CHECKSUM bp = (if BP_IS_EMBEDDED bp then ZIO_CHECKSUM_OFF else BF64_GET (blk_prop bp) 40 8)"

definition BP_SET_CHECKSUM :: "bool \<Rightarrow> blkptr_t \<Rightarrow> u64 \<Rightarrow> blkptr_t option" where
  "BP_SET_CHECKSUM nd bp x = do {
     ASSERT nd (\<not> BP_IS_EMBEDDED bp);
     map_option (\<lambda>w. bp\<lparr>blk_prop := w\<rparr>) (BF64_SET nd (blk_prop bp) 40 8 x) }"

definition BP_GET_TYPE :: "blkptr_t \<Rightarrow> u64" where
  "BP_GET_TYPE bp = BF64_GET (blk_prop bp) 48 8"

definition BP_SET_TYPE :: "bool \<Rightarrow> blkptr_t \<Rightarrow> u64 \<Rightarrow> blkptr_t option" where
  "BP_SET_TYPE nd bp x = map_option (\<lambda>w. bp\<lparr>blk_prop := w\<rparr>) (BF64_SET nd (blk_prop bp) 48 8 x)"

definition BP_GET_LEVEL :: "blkptr_t \<Rightarrow> u64" where
  "BP_GET_LEVEL bp = BF64_GET (blk_prop bp) 56 5"

definition BP_SET_LEVEL :: "bool \<Rightarrow> blkptr_t \<Rightarrow> u64 \<Rightarrow> blkptr_t option" where
  "BP_SET_LEVEL nd bp x = map_option (\<lambda>w. bp\<lparr>blk_prop := w\<rparr>) (BF64_SET nd (blk_prop bp) 56 5 x)"

definition BP_USES_CRYPT :: "blkptr_t \<Rightarrow> u64" where
  "BP_USES_CRYPT bp = BF64_GET (blk_prop bp) 61 1"

definition BP_SET_CRYPT :: "bool \<Rightarrow> blkptr_t \<Rightarrow> u64 \<Rightarrow> blkptr_t option" where
  "BP_SET_CRYPT nd bp x = map_option (\<lambda>w. bp\<lparr>blk_prop := w\<rparr>) (BF64_SET nd (blk_prop bp) 61 1 x)"

definition BP_IS_ENCRYPTED :: "ot_table \<Rightarrow> blkptr_t \<Rightarrow> bool" where
  "BP_IS_ENCRYPTED dmu_ot bp \<longleftrightarrow>
    BP_USES_CRYPT bp \<noteq> 0 \<and> BP_GET_LEVEL bp \<le> 0 \<and> DMU_OT_IS_ENCRYPTED dmu_ot (BP_GET_TYPE bp)"

definition BP_IS_AUTHENTICATED :: "ot_table \<Rightarrow> blkptr_t \<Rightarrow> bool" where
  "BP_IS_AUTHENTICATED dmu_ot bp \<longleftrightarrow>
    BP_USES_CRYPT bp \<noteq> 0 \<and> BP_GET_LEVEL bp \<le> 0 \<and> \<not> DMU_OT_IS_ENCRYPTED dmu_ot (BP_GET_TYPE bp)"

definition BP_HAS_INDIRECT_MAC_CKSUM :: "blkptr_t \<Rightarrow> bool" where
  "BP_HAS_INDIRECT_MAC_CKSUM bp \<longleftrightarrow> BP_USES_CRYPT bp \<noteq> 0 \<and> BP_GET_LEVEL bp > 0"

definition BP_IS_PROTECTED :: "ot_table \<Rightarrow> blkptr_t \<Rightarrow> bool" where
  "BP_IS_PROTECTED dmu_ot bp \<longleftrightarrow> BP_IS_ENCRYPTED dmu_ot bp \<or> BP_IS_AUTHENTICATED dmu_ot bp"

definition BP_GET_DEDUP :: "blkptr_t \<Rightarrow> u64" where
  "BP_GET_DEDUP bp = BF64_GET (blk_prop bp) 62 1"

definition BP_SET_DEDUP :: "bool \<Rightarrow> blkptr_t \<Rightarrow> u64 \<Rightarrow> blkptr_t option" where
  "BP_SET_DEDUP nd bp x = map_option (\<lambda>w. bp\<lparr>blk_prop := w\<rparr>) (BF64_SET nd (blk_prop bp) 62 1 x)"

definition BP_GET_BYTEORDER :: "blkptr_t \<Rightarrow> u64" where
  "BP_GET_BYTEORDER bp = BF64_GET (blk_prop bp) 63 1"

definition BP_SET_BYTEORDER :: "bool \<Rightarrow> blkptr_t \<Rightarrow> u64 \<Rightarrow> blkptr_t option" where
  "BP_SET_BYTEORDER nd bp x = map_option (\<lambda>w. bp\<lparr>blk_prop := w\<rparr>) (BF64_SET nd (blk_prop bp) 63 1 x)"

definition BP_GET_FREE :: "blkptr_t \<Rightarrow> u64" where
  "BP_GET_FREE bp = BF64_GET (blk_fill bp) 0 1"

definition BP_SET_FREE :: "bool \<Rightarrow> blkptr_t \<Rightarrow> u64 \<Rightarrow> blkptr_t option" where
  "BP_SET_FREE nd bp x = map_option (\<lambda>w. bp\<lparr>blk_fill := w\<rparr>) (BF64_SET nd (blk_fill bp) 0 1 x)"

section \<open>Birth times and fill count\<close>

definition BP_GET_LOGICAL_BIRTH :: "blkptr_t \<Rightarrow> u64" where
  "BP_GET_LOGICAL_BIRTH bp = blk_birth_word1 bp"

definition BP_SET_LOGICAL_BIRTH :: "blkptr_t \<Rightarrow> u64 \<Rightarrow> blkptr_t" where
  "BP_SET_LOGICAL_BIRTH bp x = bp\<lparr>blk_birth_word1 := x\<rparr>"

definition BP_GET_RAW_PHYSICAL_BIRTH :: "blkptr_t \<Rightarrow> u64" where
  "BP_GET_RAW_PHYSICAL_BIRTH bp = blk_birth_word0 bp"

definition BP_SET_PHYSICAL_BIRTH :: "blkptr_t \<Rightarrow> u64 \<Rightarrow> blkptr_t" where
  "BP_SET_PHYSICAL_BIRTH bp x = bp\<lparr>blk_birth_word0 := x\<rparr>"

definition BP_GET_PHYSICAL_BIRTH :: "blkptr_t \<Rightarrow> u64" where
  "BP_GET_PHYSICAL_BIRTH bp =
    (if BP_IS_EMBEDDED bp then 0
     else if BP_GET_RAW_PHYSICAL_BIRTH bp \<noteq> 0 then BP_GET_RAW_PHYSICAL_BIRTH bp
     else BP_GET_LOGICAL_BIRTH bp)"

definition BP_GET_REWRITE :: "blkptr_t \<Rightarrow> u64" where
  "BP_GET_REWRITE bp = (if BP_IS_EMBEDDED bp then 0 else BF64_GET (blk_prop2 bp) 63 1)"

definition BP_SET_REWRITE :: "bool \<Rightarrow> blkptr_t \<Rightarrow> u64 \<Rightarrow> blkptr_t option" where
  "BP_SET_REWRITE nd bp x = do {
     ASSERT nd (\<not> BP_IS_EMBEDDED bp);
     map_option (\<lambda>w. bp\<lparr>blk_prop2 := w\<rparr>) (BF64_SET nd (blk_prop2 bp) 63 1 x) }"

definition BP_GET_BIRTH :: "blkptr_t \<Rightarrow> u64" where
  "BP_GET_BIRTH bp =
    (if BP_IS_EMBEDDED bp \<or> \<not> BP_GET_REWRITE bp \<noteq> 0
     then BP_GET_LOGICAL_BIRTH bp else BP_GET_PHYSICAL_BIRTH bp)"

definition BP_SET_BIRTH :: "bool \<Rightarrow> blkptr_t \<Rightarrow> u64 \<Rightarrow> u64 \<Rightarrow> blkptr_t option" where
  "BP_SET_BIRTH nd bp logical physical = do {
     ASSERT nd (\<not> BP_IS_EMBEDDED bp);
     let bp = BP_SET_LOGICAL_BIRTH bp logical;
     Some (BP_SET_PHYSICAL_BIRTH bp (if logical = physical then 0 else physical)) }"

definition BP_GET_FILL :: "ot_table \<Rightarrow> blkptr_t \<Rightarrow> u64" where
  "BP_GET_FILL dmu_ot bp =
    (if BP_IS_EMBEDDED bp then 1
     else if BP_IS_ENCRYPTED dmu_ot bp then BF64_GET (blk_fill bp) 0 32
     else blk_fill bp)"

definition BP_SET_FILL :: "bool \<Rightarrow> ot_table \<Rightarrow> blkptr_t \<Rightarrow> u64 \<Rightarrow> blkptr_t option" where
  "BP_SET_FILL nd dmu_ot bp fill = do {
     ASSERT nd (\<not> BP_IS_EMBEDDED bp);
     if BP_IS_ENCRYPTED dmu_ot bp
     then map_option (\<lambda>w. bp\<lparr>blk_fill := w\<rparr>) (BF64_SET nd (blk_fill bp) 0 32 fill)
     else Some (bp\<lparr>blk_fill := fill\<rparr>) }"

definition BP_GET_IV2 :: "bool \<Rightarrow> ot_table \<Rightarrow> blkptr_t \<Rightarrow> u64 option" where
  "BP_GET_IV2 nd dmu_ot bp = do {
     ASSERT nd (BP_IS_ENCRYPTED dmu_ot bp);
     Some (BF64_GET (blk_fill bp) 32 32) }"

definition BP_SET_IV2 :: "bool \<Rightarrow> ot_table \<Rightarrow> blkptr_t \<Rightarrow> u64 \<Rightarrow> blkptr_t option" where
  "BP_SET_IV2 nd dmu_ot bp iv2 = do {
     ASSERT nd (BP_IS_ENCRYPTED dmu_ot bp);
     map_option (\<lambda>w. bp\<lparr>blk_fill := w\<rparr>) (BF64_SET nd (blk_fill bp) 32 32 iv2) }"

section \<open>Derived quantities and predicates\<close>

definition BP_IS_METADATA :: "ot_table \<Rightarrow> blkptr_t \<Rightarrow> bool" where
  "BP_IS_METADATA dmu_ot bp \<longleftrightarrow> BP_GET_LEVEL bp > 0 \<or> DMU_OT_IS_METADATA dmu_ot (BP_GET_TYPE bp)"

definition BP_GET_ASIZE :: "ot_table \<Rightarrow> blkptr_t \<Rightarrow> u64" where
  "BP_GET_ASIZE dmu_ot bp =
    (if BP_IS_EMBEDDED bp then 0
     else DVA_GET_ASIZE (blk_dva bp 0) + DVA_GET_ASIZE (blk_dva bp 1) +
       DVA_GET_ASIZE (blk_dva bp 2) * of_bool (\<not> BP_IS_ENCRYPTED dmu_ot bp))"

definition BP_GET_UCSIZE :: "bool \<Rightarrow> ot_table \<Rightarrow> blkptr_t \<Rightarrow> u64 option" where
  "BP_GET_UCSIZE nd dmu_ot bp =
    (if BP_IS_METADATA dmu_ot bp then Some (BP_GET_PSIZE bp) else BP_GET_LSIZE nd bp)"

definition BP_GET_NDVAS :: "ot_table \<Rightarrow> blkptr_t \<Rightarrow> nat" where
  "BP_GET_NDVAS dmu_ot bp =
    (if BP_IS_EMBEDDED bp then 0
     else of_bool (DVA_GET_ASIZE (blk_dva bp 0) \<noteq> 0) + of_bool (DVA_GET_ASIZE (blk_dva bp 1) \<noteq> 0) +
       of_bool (DVA_GET_ASIZE (blk_dva bp 2) \<noteq> 0) * of_bool (\<not> BP_IS_ENCRYPTED dmu_ot bp))"

definition BP_COUNT_GANG :: "ot_table \<Rightarrow> blkptr_t \<Rightarrow> u64" where
  "BP_COUNT_GANG dmu_ot bp =
    (if BP_IS_EMBEDDED bp then 0
     else DVA_GET_GANG (blk_dva bp 0) + DVA_GET_GANG (blk_dva bp 1) +
       DVA_GET_GANG (blk_dva bp 2) * of_bool (\<not> BP_IS_ENCRYPTED dmu_ot bp))"

definition BP_EQUAL :: "blkptr_t \<Rightarrow> blkptr_t \<Rightarrow> bool" where
  "BP_EQUAL bp1 bp2 \<longleftrightarrow>
    BP_GET_PHYSICAL_BIRTH bp1 = BP_GET_PHYSICAL_BIRTH bp2 \<and>
    BP_GET_LOGICAL_BIRTH bp1 = BP_GET_LOGICAL_BIRTH bp2 \<and>
    DVA_EQUAL (blk_dva bp1 0) (blk_dva bp2 0) \<and>
    DVA_EQUAL (blk_dva bp1 1) (blk_dva bp2 1) \<and>
    DVA_EQUAL (blk_dva bp1 2) (blk_dva bp2 2)"

definition BP_IDENTITY :: "bool \<Rightarrow> blkptr_t \<Rightarrow> dva_t option" where
  "BP_IDENTITY nd bp = do { ASSERT nd (\<not> BP_IS_EMBEDDED bp); Some (blk_dva bp 0) }"

definition BP_IS_GANG :: "bool \<Rightarrow> blkptr_t \<Rightarrow> bool option" where
  "BP_IS_GANG nd bp =
    (if BP_IS_EMBEDDED bp then Some False
     else do { dva \<leftarrow> BP_IDENTITY nd bp; Some (DVA_GET_GANG dva \<noteq> 0) })"

definition BP_IS_HOLE :: "bool \<Rightarrow> blkptr_t \<Rightarrow> bool option" where
  "BP_IS_HOLE nd bp =
    (if \<not> BP_IS_EMBEDDED bp then do { dva \<leftarrow> BP_IDENTITY nd bp; Some (DVA_IS_EMPTY dva) }
     else Some False)"

definition BP_SET_REDACTED :: "bool \<Rightarrow> blkptr_t \<Rightarrow> blkptr_t option" where
  "BP_SET_REDACTED nd bp = do {
     bp \<leftarrow> BP_SET_EMBEDDED nd bp 1;
     BPE_SET_ETYPE nd bp BP_EMBEDDED_TYPE_REDACTED }"

definition BP_IS_REDACTED :: "bool \<Rightarrow> blkptr_t \<Rightarrow> bool option" where
  "BP_IS_REDACTED nd bp =
    (if BP_IS_EMBEDDED bp
     then do { t \<leftarrow> BPE_GET_ETYPE nd bp; Some (t = BP_EMBEDDED_TYPE_REDACTED) }
     else Some False)"

definition BP_IS_RAIDZ :: "blkptr_t \<Rightarrow> bool" where
  "BP_IS_RAIDZ bp \<longleftrightarrow> DVA_GET_ASIZE (blk_dva bp 0) > BP_GET_PSIZE bp"

definition BP_ZERO_DVAS :: "blkptr_t \<Rightarrow> blkptr_t" where
  "BP_ZERO_DVAS bp = bp\<lparr>
     blk_dva0 := (blk_dva0 bp)\<lparr>dva_word0 := 0, dva_word1 := 0\<rparr>,
     blk_dva1 := (blk_dva1 bp)\<lparr>dva_word0 := 0, dva_word1 := 0\<rparr>,
     blk_dva2 := (blk_dva2 bp)\<lparr>dva_word0 := 0, dva_word1 := 0\<rparr>\<rparr>"

definition BP_ZERO :: "blkptr_t \<Rightarrow> blkptr_t" where
  "BP_ZERO bp =
    (let bp = BP_ZERO_DVAS bp
     in bp\<lparr>blk_prop := 0, blk_prop2 := 0, blk_pad := 0, blk_birth_word0 := 0, blk_birth_word1 := 0,
          blk_fill := 0, blk_cksum := ZIO_SET_CHECKSUM (blk_cksum bp) 0 0 0 0\<rparr>)"

text \<open>\<open>be\<close> is the host's byte order (\<open>_ZFS_BIG_ENDIAN\<close>).\<close>

definition ZFS_HOST_BYTEORDER :: "bool \<Rightarrow> u64" where
  "ZFS_HOST_BYTEORDER be = (if be then 0 else 1)"

definition BP_SHOULD_BYTESWAP :: "bool \<Rightarrow> blkptr_t \<Rightarrow> bool" where
  "BP_SHOULD_BYTESWAP be bp \<longleftrightarrow> BP_GET_BYTEORDER bp \<noteq> ZFS_HOST_BYTEORDER be"

datatype arc_buf_contents_t = ARC_BUFC_DATA | ARC_BUFC_METADATA

definition BP_GET_BUFC_TYPE :: "ot_table \<Rightarrow> blkptr_t \<Rightarrow> arc_buf_contents_t" where
  "BP_GET_BUFC_TYPE dmu_ot bp = (if BP_IS_METADATA dmu_ot bp then ARC_BUFC_METADATA else ARC_BUFC_DATA)"

section \<open>The documented layouts\<close>

text \<open>
  The three diagrams of \<open>spa.h\<close>: a field's name, its word, its lowest bit and its length in
  bits, from the highest bit of each word down.
\<close>

type_synonym layout = "(string \<times> nat \<times> nat \<times> nat) list"

definition dva_layout :: "nat \<Rightarrow> layout" where
  "dva_layout w = [(''pad'', w, 56, 8), (''vdev'', w, 32, 24), (''pad'', w, 24, 8), (''ASIZE'', w, 0, 24),
     (''G'', w + 1, 63, 1), (''offset'', w + 1, 0, 63)]"

definition prop_layout :: layout where
  "prop_layout = [(''B'', 6, 63, 1), (''D'', 6, 62, 1), (''X'', 6, 61, 1), (''lvl'', 6, 56, 5), (''type'', 6, 48, 8)]"

definition blkptr_layout :: layout where
  "blkptr_layout = dva_layout 0 @ dva_layout 2 @ dva_layout 4 @ prop_layout @
    [(''cksum'', 6, 40, 8), (''E'', 6, 39, 1), (''comp'', 6, 32, 7), (''PSIZE'', 6, 16, 16), (''LSIZE'', 6, 0, 16),
     (''R'', 7, 63, 1), (''padding'', 7, 0, 63), (''padding'', 8, 0, 64),
     (''physical birth txg'', 9, 0, 64), (''logical birth txg'', 10, 0, 64), (''fill count'', 11, 0, 64),
     (''checksum0'', 12, 0, 64), (''checksum1'', 13, 0, 64), (''checksum2'', 14, 0, 64), (''checksum3'', 15, 0, 64)]"

definition blkptr_layout_encrypted :: layout where
  "blkptr_layout_encrypted = dva_layout 0 @ dva_layout 2 @
    [(''salt'', 4, 0, 64), (''IV1'', 5, 0, 64)] @ prop_layout @
    [(''cksum'', 6, 40, 8), (''E'', 6, 39, 1), (''comp'', 6, 32, 7), (''PSIZE'', 6, 16, 16), (''LSIZE'', 6, 0, 16),
     (''R'', 7, 63, 1), (''padding'', 7, 0, 63), (''padding'', 8, 0, 64),
     (''physical birth txg'', 9, 0, 64), (''logical birth txg'', 10, 0, 64),
     (''IV2'', 11, 32, 32), (''fill count'', 11, 0, 32),
     (''checksum0'', 12, 0, 64), (''checksum1'', 13, 0, 64), (''MAC0'', 14, 0, 64), (''MAC1'', 15, 0, 64)]"

definition blkptr_layout_embedded :: layout where
  "blkptr_layout_embedded =
    map (\<lambda>w. (''payload'', w, 0, 64)) [0, 1, 2, 3, 4, 5] @ prop_layout @
    [(''etype'', 6, 40, 8), (''E'', 6, 39, 1), (''comp'', 6, 32, 7), (''PSIZE'', 6, 25, 7), (''LSIZE'', 6, 0, 25)] @
    map (\<lambda>w. (''payload'', w, 0, 64)) [7, 8, 9] @ [(''logical birth txg'', 10, 0, 64)] @
    map (\<lambda>w. (''payload'', w, 0, 64)) [11, 12, 13, 14, 15]"

section \<open>Gang block headers\<close>

definition SPA_OLD_GANGBLOCKSIZE :: u64 where "SPA_OLD_GANGBLOCKSIZE = push_bit SPA_MINBLOCKSHIFT 1"
definition sizeof_blkptr :: u64 where "sizeof_blkptr = 128"
definition sizeof_zio_eck :: u64 where "sizeof_zio_eck = 40"

record zio_eck_t =
  zec_magic :: u64
  zec_cksum :: zio_cksum_t

text \<open>Pointers are byte addresses; the size argument is asserted to be a multiple of 128.\<close>

definition gbh_nblkptrs :: "bool \<Rightarrow> u64 \<Rightarrow> u64 option" where
  "gbh_nblkptrs nd sz = do {
     ASSERT nd (IS_P2ALIGNED sz sizeof_blkptr);
     Some ((sz - sizeof_zio_eck) div sizeof_blkptr) }"

definition gbh_eck :: "bool \<Rightarrow> u64 \<Rightarrow> u64 \<Rightarrow> u64 option" where
  "gbh_eck nd gbh sz = do {
     ASSERT nd (IS_P2ALIGNED sz sizeof_blkptr);
     Some (gbh + sz - sizeof_zio_eck) }"

definition gbh_bp :: "u64 \<Rightarrow> int \<Rightarrow> u64" where
  "gbh_bp gbh bp = gbh + sizeof_blkptr * of_int bp"

end
