(* ===== verification/Blkptr_Fields.thy ===== *)
theory Blkptr_Fields
  imports Blkptr
begin

unbundle bit_operations_syntax

text \<open>
  The fields of a block pointer, of an embedded block pointer and of a DVA, each as a family
  indexed by a datatype, with one description (position, legal values, stored form) per field;
  every family is an \<open>accessor_pair\<close> whose second getter is all the other fields. The last
  sections hold the properties of the derived quantities.
\<close>

section \<open>Asserted getters never fire where the code calls them\<close>

lemma BP_GET_LSIZE_value:
  "BP_GET_LSIZE nd bp = Some
    (if BP_IS_EMBEDDED bp then
       (if BF64_GET (blk_prop bp) 40 8 = BP_EMBEDDED_TYPE_DATA then BF64_GET_SB (blk_prop bp) 0 25 0 1 else 0)
     else BF64_GET_SB (blk_prop bp) 0 SPA_LSIZEBITS SPA_MINBLOCKSHIFT 1)"
  by (simp add: BP_GET_LSIZE_def BPE_GET_ETYPE_def BPE_GET_LSIZE_def)

lemma BP_IS_GANG_value:
  "BP_IS_GANG nd bp = Some (\<not> BP_IS_EMBEDDED bp \<and> DVA_GET_GANG (blk_dva0 bp) \<noteq> 0)"
  by (simp add: BP_IS_GANG_def BP_IDENTITY_def blk_dva_def)

lemma BP_IS_HOLE_value:
  "BP_IS_HOLE nd bp = Some (\<not> BP_IS_EMBEDDED bp \<and> DVA_IS_EMPTY (blk_dva0 bp))"
  by (simp add: BP_IS_HOLE_def BP_IDENTITY_def blk_dva_def)

lemma BP_IS_REDACTED_value:
  "BP_IS_REDACTED nd bp = Some (BP_IS_EMBEDDED bp \<and> BF64_GET (blk_prop bp) 40 8 = BP_EMBEDDED_TYPE_REDACTED)"
  by (simp add: BP_IS_REDACTED_def BPE_GET_ETYPE_def)

section \<open>Block pointer fields\<close>

datatype bp_field = F_LSIZE | F_PSIZE | F_COMPRESS | F_CHECKSUM | F_TYPE | F_LEVEL | F_CRYPT | F_DEDUP | F_BYTEORDER

fun bp_pos :: "bp_field \<Rightarrow> nat \<times> nat" where
  "bp_pos F_LSIZE = (0, 16)" | "bp_pos F_PSIZE = (16, 16)" | "bp_pos F_COMPRESS = (32, 7)"
| "bp_pos F_CHECKSUM = (40, 8)" | "bp_pos F_TYPE = (48, 8)" | "bp_pos F_LEVEL = (56, 5)"
| "bp_pos F_CRYPT = (61, 1)" | "bp_pos F_DEDUP = (62, 1)" | "bp_pos F_BYTEORDER = (63, 1)"

fun bp_get :: "bp_field \<Rightarrow> blkptr_t \<Rightarrow> u64" where
  "bp_get F_LSIZE bp = the (BP_GET_LSIZE False bp)"
| "bp_get F_PSIZE bp = BP_GET_PSIZE bp"
| "bp_get F_COMPRESS bp = BP_GET_COMPRESS bp"
| "bp_get F_CHECKSUM bp = BP_GET_CHECKSUM bp"
| "bp_get F_TYPE bp = BP_GET_TYPE bp"
| "bp_get F_LEVEL bp = BP_GET_LEVEL bp"
| "bp_get F_CRYPT bp = BP_USES_CRYPT bp"
| "bp_get F_DEDUP bp = BP_GET_DEDUP bp"
| "bp_get F_BYTEORDER bp = BP_GET_BYTEORDER bp"

fun bp_set :: "bp_field \<Rightarrow> bool \<Rightarrow> blkptr_t \<Rightarrow> u64 \<Rightarrow> blkptr_t option" where
  "bp_set F_LSIZE = BP_SET_LSIZE" | "bp_set F_PSIZE = BP_SET_PSIZE" | "bp_set F_COMPRESS = BP_SET_COMPRESS"
| "bp_set F_CHECKSUM = BP_SET_CHECKSUM" | "bp_set F_TYPE = BP_SET_TYPE" | "bp_set F_LEVEL = BP_SET_LEVEL"
| "bp_set F_CRYPT = BP_SET_CRYPT" | "bp_set F_DEDUP = BP_SET_DEDUP" | "bp_set F_BYTEORDER = BP_SET_BYTEORDER"

text \<open>Sizes are the multiples of 512 from 512 to 32M, the other fields any value that fits.\<close>

definition bp_legal :: "bp_field \<Rightarrow> u64 \<Rightarrow> bool" where
  "bp_legal f v = (if f = F_LSIZE \<or> f = F_PSIZE then sb_legal 16 9 1 v else v < 2 ^ snd (bp_pos f))"

definition bp_enc :: "bp_field \<Rightarrow> u64 \<Rightarrow> u64" where
  "bp_enc f v = (if f = F_LSIZE \<or> f = F_PSIZE then drop_bit 9 v - 1 else v)"

definition bp_dec :: "bp_field \<Rightarrow> u64 \<Rightarrow> u64" where
  "bp_dec f v = (if f = F_LSIZE \<or> f = F_PSIZE then push_bit 9 (v + 1) else v)"

definition bp_put :: "bp_field \<Rightarrow> u64 \<Rightarrow> blkptr_t \<Rightarrow> blkptr_t" where
  "bp_put f v bp = bp\<lparr>blk_prop := bf64_put (blk_prop bp) (fst (bp_pos f)) (snd (bp_pos f)) (bp_enc f v)\<rparr>"

lemma bp_pos_disjoint:
  "f \<noteq> g \<Longrightarrow> fst (bp_pos f) + snd (bp_pos f) \<le> fst (bp_pos g) \<or> fst (bp_pos g) + snd (bp_pos g) \<le> fst (bp_pos f)"
  by (cases f; cases g) simp_all

lemma bp_pos_fits: "fst (bp_pos f) + snd (bp_pos f) \<le> 64" "snd (bp_pos f) \<le> 16"
  by (cases f; simp)+

lemma embedded_put:
  "low + len \<le> 39 \<or> 40 \<le> low \<Longrightarrow>
    BP_IS_EMBEDDED (bp\<lparr>blk_prop := bf64_put (blk_prop bp) low len v\<rparr>) = BP_IS_EMBEDDED bp"
  using get_put_disjoint [of 39 1 low len] by (auto simp: BP_IS_EMBEDDED_def)

lemma bp_put_not_embedded: "BP_IS_EMBEDDED (bp_put f v bp) = BP_IS_EMBEDDED bp"
  unfolding bp_put_def by (rule embedded_put) (cases f; simp)

lemma bp_get_field:
  "\<not> BP_IS_EMBEDDED bp \<Longrightarrow> bp_get f bp = bp_dec f (BF64_GET (blk_prop bp) (fst (bp_pos f)) (snd (bp_pos f)))"
  by (cases f) (simp_all add: bp_dec_def BP_GET_LSIZE_value BP_GET_PSIZE_def BP_GET_COMPRESS_def
      BP_GET_CHECKSUM_def BP_GET_TYPE_def BP_GET_LEVEL_def BP_USES_CRYPT_def BP_GET_DEDUP_def
      BP_GET_BYTEORDER_def BF64_GET_SB_def spa_defs)

lemma bp_set_field:
  assumes "\<not> BP_IS_EMBEDDED bp" and "bp_legal f v"
  shows "bp_set f nd bp v = Some (bp_put f v bp)"
  using assms
  by (cases f) (simp_all add: bp_legal_def bp_put_def bp_enc_def BF64_SET_SB_Some BF64_SET_Some
      BP_SET_LSIZE_def BP_SET_PSIZE_def BP_SET_COMPRESS_def BP_SET_CHECKSUM_def BP_SET_TYPE_def
      BP_SET_LEVEL_def BP_SET_CRYPT_def BP_SET_DEDUP_def BP_SET_BYTEORDER_def spa_defs)

lemma bp_enc_fits: "bp_legal f v \<Longrightarrow> bp_enc f v < 2 ^ snd (bp_pos f)"
  using sb_legal_value(1) [of 16 9 1 v] by (cases f) (simp_all add: bp_legal_def bp_enc_def)

lemma bp_dec_enc: "bp_legal f v \<Longrightarrow> bp_dec f (bp_enc f v) = v"
  using sb_legal_value(2) [of 16 9 1 v] by (auto simp: bp_legal_def bp_enc_def bp_dec_def)

lemma bp_get_put:
  assumes "\<not> BP_IS_EMBEDDED bp" and "bp_legal f v"
  shows "bp_get g (bp_put f v bp) = (if g = f then v else bp_get g bp)"
proof (cases "g = f")
  case True
  have "BF64_GET (blk_prop (bp_put f v bp)) (fst (bp_pos f)) (snd (bp_pos f)) = bp_enc f v"
    unfolding bp_put_def using get_put_same [OF bp_enc_fits [OF assms(2)] bp_pos_fits(1)] by simp
  with True assms show ?thesis by (simp add: bp_get_field bp_put_not_embedded bp_dec_enc)
next
  case False
  have "BF64_GET (blk_prop (bp_put f v bp)) (fst (bp_pos g)) (snd (bp_pos g)) =
      BF64_GET (blk_prop bp) (fst (bp_pos g)) (snd (bp_pos g))"
    unfolding bp_put_def using get_put_disjoint bp_pos_disjoint [OF False] by simp
  with False assms(1) show ?thesis by (simp add: bp_get_field bp_put_not_embedded)
qed

interpretation bp_word: packed_word blk_prop "\<lambda>w bp. bp\<lparr>blk_prop := w\<rparr>"
  by unfold_locales simp_all

lemma bp_put_put: "bp_put f w (bp_put f v bp) = bp_put f w bp"
  by (simp add: bp_put_def put_put_same)

interpretation bp_fields: accessor_pair "\<lambda>bp. \<not> BP_IS_EMBEDDED bp" "bp_get f" "bp_set f" "bp_legal f"
    "\<lambda>bp. (\<lambda>g. if g = f then None else Some (bp_get g bp),
          bp\<lparr>blk_prop := 0\<rparr>)" for f
  by unfold_locales
    (auto simp: bp_set_field bp_get_put bp_put_not_embedded bp_put_put, simp add: bp_put_def)

section \<open>Embedded block pointer fields\<close>

datatype bpe_field = E_ETYPE | E_LSIZE | E_PSIZE | E_COMPRESS | E_TYPE | E_LEVEL | E_BYTEORDER

fun bpe_pos :: "bpe_field \<Rightarrow> nat \<times> nat" where
  "bpe_pos E_ETYPE = (40, 8)" | "bpe_pos E_LSIZE = (0, 25)" | "bpe_pos E_PSIZE = (25, 7)"
| "bpe_pos E_COMPRESS = (32, 7)" | "bpe_pos E_TYPE = (48, 8)" | "bpe_pos E_LEVEL = (56, 5)"
| "bpe_pos E_BYTEORDER = (63, 1)"

fun bpe_get :: "bpe_field \<Rightarrow> blkptr_t \<Rightarrow> u64" where
  "bpe_get E_ETYPE bp = the (BPE_GET_ETYPE False bp)"
| "bpe_get E_LSIZE bp = the (BPE_GET_LSIZE False bp)"
| "bpe_get E_PSIZE bp = the (BPE_GET_PSIZE False bp)"
| "bpe_get E_COMPRESS bp = BP_GET_COMPRESS bp"
| "bpe_get E_TYPE bp = BP_GET_TYPE bp"
| "bpe_get E_LEVEL bp = BP_GET_LEVEL bp"
| "bpe_get E_BYTEORDER bp = BP_GET_BYTEORDER bp"

fun bpe_set :: "bpe_field \<Rightarrow> bool \<Rightarrow> blkptr_t \<Rightarrow> u64 \<Rightarrow> blkptr_t option" where
  "bpe_set E_ETYPE = BPE_SET_ETYPE" | "bpe_set E_LSIZE = BPE_SET_LSIZE" | "bpe_set E_PSIZE = BPE_SET_PSIZE"
| "bpe_set E_COMPRESS = BP_SET_COMPRESS" | "bpe_set E_TYPE = BP_SET_TYPE" | "bpe_set E_LEVEL = BP_SET_LEVEL"
| "bpe_set E_BYTEORDER = BP_SET_BYTEORDER"

text \<open>The sizes count bytes, from 1.\<close>

definition bpe_legal :: "bpe_field \<Rightarrow> u64 \<Rightarrow> bool" where
  "bpe_legal f v = (if f = E_LSIZE \<or> f = E_PSIZE then sb_legal (snd (bpe_pos f)) 0 1 v
     else v < 2 ^ snd (bpe_pos f))"

definition bpe_enc :: "bpe_field \<Rightarrow> u64 \<Rightarrow> u64" where
  "bpe_enc f v = (if f = E_LSIZE \<or> f = E_PSIZE then v - 1 else v)"

definition bpe_dec :: "bpe_field \<Rightarrow> u64 \<Rightarrow> u64" where
  "bpe_dec f v = (if f = E_LSIZE \<or> f = E_PSIZE then v + 1 else v)"

definition bpe_put :: "bpe_field \<Rightarrow> u64 \<Rightarrow> blkptr_t \<Rightarrow> blkptr_t" where
  "bpe_put f v bp = bp\<lparr>blk_prop := bf64_put (blk_prop bp) (fst (bpe_pos f)) (snd (bpe_pos f)) (bpe_enc f v)\<rparr>"

lemma bpe_pos_disjoint:
  "f \<noteq> g \<Longrightarrow> fst (bpe_pos f) + snd (bpe_pos f) \<le> fst (bpe_pos g) \<or> fst (bpe_pos g) + snd (bpe_pos g) \<le> fst (bpe_pos f)"
  by (cases f; cases g) simp_all

lemma bpe_pos_fits: "fst (bpe_pos f) + snd (bpe_pos f) \<le> 64" "snd (bpe_pos f) < 64"
  by (cases f; simp)+

lemma bpe_put_embedded: "BP_IS_EMBEDDED (bpe_put f v bp) = BP_IS_EMBEDDED bp"
  unfolding bpe_put_def by (rule embedded_put) (cases f; simp)

lemma bpe_get_field:
  "BP_IS_EMBEDDED bp \<Longrightarrow> bpe_get f bp = bpe_dec f (BF64_GET (blk_prop bp) (fst (bpe_pos f)) (snd (bpe_pos f)))"
  by (cases f) (simp_all add: bpe_dec_def BPE_GET_ETYPE_def BPE_GET_LSIZE_def BPE_GET_PSIZE_def
      BP_GET_COMPRESS_def BP_GET_TYPE_def BP_GET_LEVEL_def BP_GET_BYTEORDER_def BF64_GET_SB_def spa_defs)

lemma bpe_set_field:
  assumes "BP_IS_EMBEDDED bp" and "bpe_legal f v"
  shows "bpe_set f nd bp v = Some (bpe_put f v bp)"
  using assms
  by (cases f) (simp_all add: bpe_legal_def bpe_put_def bpe_enc_def BF64_SET_SB_Some BF64_SET_Some
      BPE_SET_ETYPE_def BPE_SET_LSIZE_def BPE_SET_PSIZE_def BP_SET_COMPRESS_def BP_SET_TYPE_def
      BP_SET_LEVEL_def BP_SET_BYTEORDER_def spa_defs)

lemma bpe_enc_fits: "bpe_legal f v \<Longrightarrow> bpe_enc f v < 2 ^ snd (bpe_pos f)"
  using sb_legal_value(1) [of "snd (bpe_pos f)" 0 1 v] bpe_pos_fits(2) [of f]
  by (cases "f = E_LSIZE \<or> f = E_PSIZE") (simp_all add: bpe_legal_def bpe_enc_def)

lemma bpe_get_put:
  assumes "BP_IS_EMBEDDED bp" and "bpe_legal f v"
  shows "bpe_get g (bpe_put f v bp) = (if g = f then v else bpe_get g bp)"
proof (cases "g = f")
  case True
  have "BF64_GET (blk_prop (bpe_put f v bp)) (fst (bpe_pos f)) (snd (bpe_pos f)) = bpe_enc f v"
    unfolding bpe_put_def using get_put_same [OF bpe_enc_fits [OF assms(2)] bpe_pos_fits(1)] by simp
  with True assms show ?thesis by (simp add: bpe_get_field bpe_put_embedded bpe_dec_def bpe_enc_def)
next
  case False
  have "BF64_GET (blk_prop (bpe_put f v bp)) (fst (bpe_pos g)) (snd (bpe_pos g)) =
      BF64_GET (blk_prop bp) (fst (bpe_pos g)) (snd (bpe_pos g))"
    unfolding bpe_put_def using get_put_disjoint bpe_pos_disjoint [OF False] by simp
  with False assms(1) show ?thesis by (simp add: bpe_get_field bpe_put_embedded)
qed

interpretation bpe_fields: accessor_pair BP_IS_EMBEDDED "bpe_get f" "bpe_set f" "bpe_legal f"
    "\<lambda>bp. (\<lambda>g. if g = f then None else Some (bpe_get g bp), bp\<lparr>blk_prop := 0\<rparr>)" for f
  by unfold_locales
    (auto simp: bpe_set_field bpe_get_put bpe_put_embedded,
     simp_all add: bpe_put_def put_put_same)

section \<open>DVA fields\<close>

interpretation dva_w0: packed_word dva_word0 "\<lambda>w d. d\<lparr>dva_word0 := w\<rparr>"
  by unfold_locales simp_all

interpretation dva_w1: packed_word dva_word1 "\<lambda>w d. d\<lparr>dva_word1 := w\<rparr>"
  by unfold_locales simp_all

lemmas DVA_accessor_defs = DVA_SET_ASIZE_def DVA_GET_ASIZE_def DVA_SET_VDEV_def DVA_GET_VDEV_def
  DVA_SET_OFFSET_def DVA_GET_OFFSET_def DVA_SET_GANG_def DVA_GET_GANG_def spa_defs

lemma dva_asize_accessor: "accessor (\<lambda>_. True) DVA_GET_ASIZE DVA_SET_ASIZE (sb_legal 24 9 0)"
  by (rule accessor_field_SB [OF dva_w0.packed_word_axioms]) (simp_all add: DVA_accessor_defs)

lemma dva_vdev_accessor: "accessor (\<lambda>_. True) DVA_GET_VDEV DVA_SET_VDEV (\<lambda>v. v < 2 ^ 24)"
  by (rule accessor_field [OF dva_w0.packed_word_axioms]) (simp_all add: DVA_accessor_defs)

lemma dva_offset_accessor: "accessor (\<lambda>_. True) DVA_GET_OFFSET DVA_SET_OFFSET (sb_legal 63 9 0)"
  by (rule accessor_field_SB [OF dva_w1.packed_word_axioms]) (simp_all add: DVA_accessor_defs)

lemma dva_gang_accessor: "accessor (\<lambda>_. True) DVA_GET_GANG DVA_SET_GANG (\<lambda>v. v < 2 ^ 1)"
  by (rule accessor_field [OF dva_w1.packed_word_axioms]) (simp_all add: DVA_accessor_defs)

interpretation dva_asize: accessor_pair "\<lambda>_. True" DVA_GET_ASIZE DVA_SET_ASIZE "sb_legal 24 9 0"
    "\<lambda>d. (DVA_GET_VDEV d, DVA_GET_OFFSET d, DVA_GET_GANG d)"
  by (intro accessor_pair.intro accessor_pair_axioms.intro dva_asize_accessor)
    (auto simp: DVA_accessor_defs BF64_SET_SB_Some get_put_disjoint)

interpretation dva_vdev: accessor_pair "\<lambda>_. True" DVA_GET_VDEV DVA_SET_VDEV "\<lambda>v. v < 2 ^ 24"
    "\<lambda>d. (DVA_GET_ASIZE d, DVA_GET_OFFSET d, DVA_GET_GANG d)"
  by (intro accessor_pair.intro accessor_pair_axioms.intro dva_vdev_accessor)
    (auto simp: DVA_accessor_defs BF64_SET_Some BF64_GET_SB_def get_put_disjoint)

interpretation dva_offset: accessor_pair "\<lambda>_. True" DVA_GET_OFFSET DVA_SET_OFFSET "sb_legal 63 9 0"
    "\<lambda>d. (DVA_GET_ASIZE d, DVA_GET_VDEV d, DVA_GET_GANG d)"
  by (intro accessor_pair.intro accessor_pair_axioms.intro dva_offset_accessor)
    (auto simp: DVA_accessor_defs BF64_SET_SB_Some get_put_disjoint)

interpretation dva_gang: accessor_pair "\<lambda>_. True" DVA_GET_GANG DVA_SET_GANG "\<lambda>v. v < 2 ^ 1"
    "\<lambda>d. (DVA_GET_ASIZE d, DVA_GET_VDEV d, DVA_GET_OFFSET d)"
  by (intro accessor_pair.intro accessor_pair_axioms.intro dva_gang_accessor)
    (auto simp: DVA_accessor_defs BF64_SET_Some BF64_GET_SB_def get_put_disjoint)

section \<open>Layouts\<close>

text \<open>
  \<open>covers hi fs\<close>: the intervals of \<open>fs\<close> follow each other from bit \<open>hi\<close> down to bit 0
  without gap or overlap.
\<close>

fun covers :: "nat \<Rightarrow> (nat \<times> nat) list \<Rightarrow> bool" where
  "covers hi [] \<longleftrightarrow> hi = 0"
| "covers hi ((low, len) # fs) \<longleftrightarrow> low + len = hi \<and> covers low fs"

definition layout_word :: "layout \<Rightarrow> nat \<Rightarrow> (string \<times> nat \<times> nat) list" where
  "layout_word L w = map (\<lambda>(n, _, p). (n, p)) (filter (\<lambda>(_, w', _). w' = w) L)"

definition layout_ok :: "layout \<Rightarrow> bool" where
  "layout_ok L \<longleftrightarrow> (\<forall>w\<in>set [0..<16]. covers 64 (map snd (layout_word L w)))"

definition layout_get :: "layout \<Rightarrow> string \<Rightarrow> nat \<Rightarrow> blkptr_t \<Rightarrow> u64 option" where
  "layout_get L n w bp =
    map_option (\<lambda>(low, len). BF64_GET (blkptr_words bp ! w) low len) (map_of (layout_word L w) n)"

lemmas layout_defs = blkptr_layout_def blkptr_layout_encrypted_def blkptr_layout_embedded_def
  dva_layout_def prop_layout_def

lemma upt16: "[0..<16] = [0, 1, 2, 3, 4, 5, 6, 7, 8, 9, 10, 11, 12, 13, 14, 15 :: nat]"
  by (simp add: upt_rec)

lemma bf64_get_word: "BF64_GET x 0 64 = x"
  by (rule bit_word_eqI) (simp add: bit_BF64_GET)

section \<open>Sizes\<close>

lemma le_mult_exp: "(a :: nat) \<le> a * 2 ^ k"
  by simp

lemma SB_bounds:
  assumes "len < 64" and "(unat bias + 2 ^ len) * 2 ^ shift \<le> 2 ^ 63"
  shows "unat bias * 2 ^ shift \<le> unat (BF64_GET_SB x low len shift bias)"
    and "unat (BF64_GET_SB x low len shift bias) \<le> (unat bias + 2 ^ len - 1) * 2 ^ shift"
proof -
  let ?f = "BF64_GET x low len"
  have f: "unat ?f < 2 ^ len"
    by (simp only: BF64_GET_take_drop unat_take_bit_word) simp
  have "unat ?f + unat bias \<le> unat bias + 2 ^ len" using f by simp
  then have "(unat ?f + unat bias) * 2 ^ shift \<le> (unat bias + 2 ^ len) * 2 ^ shift"
    by (rule mult_le_mono1)
  then have le63: "(unat ?f + unat bias) * 2 ^ shift \<le> 2 ^ 63"
    using assms(2) by (rule le_trans)
  have "unat ?f + unat bias \<le> (unat ?f + unat bias) * 2 ^ shift" by (rule le_mult_exp)
  then have le: "unat ?f + unat bias \<le> 2 ^ 63"
    using le63 by (rule le_trans)
  have s: "unat (?f + bias) = unat ?f + unat bias"
    by (rule iffD1 [OF unat_add_lem]) (rule le_less_trans [OF le], simp)
  have "unat (push_bit shift (?f + bias)) = unat (?f + bias) * 2 ^ shift"
    by (rule unat_push_bit_word) (unfold s, rule le_less_trans [OF le63], simp)
  then have e: "unat (BF64_GET_SB x low len shift bias) = (unat ?f + unat bias) * 2 ^ shift"
    unfolding BF64_GET_SB_def s .
  show "unat bias * 2 ^ shift \<le> unat (BF64_GET_SB x low len shift bias)"
    unfolding e by (rule mult_le_mono1) simp
  show "unat (BF64_GET_SB x low len shift bias) \<le> (unat bias + 2 ^ len - 1) * 2 ^ shift"
    unfolding e using f by (intro mult_le_mono1) linarith
qed

lemma DVA_GET_ASIZE_le: "unat (DVA_GET_ASIZE dva) \<le> 2 ^ 33 - 512"
  using SB_bounds(2) [of 24 0 9 "dva_word0 dva" 0] by (simp add: DVA_GET_ASIZE_def spa_defs)

lemma BP_GET_NDVAS_le: "BP_GET_NDVAS tbl bp \<le> (if BP_IS_ENCRYPTED tbl bp then 2 else 3)"
  by (simp add: BP_GET_NDVAS_def)

lemma BP_ZERO_prop [simp]: "blk_prop (BP_ZERO bp) = 0"
  by (simp add: BP_ZERO_def Let_def)

lemma offset_legal: "512 dvd unat off \<Longrightarrow> sb_legal 63 9 0 off"
proof -
  assume "512 dvd unat off"
  moreover have "unat off < 2 ^ 64" using unsigned_less [of off, where ?'a = nat] by simp
  then have "unat off div 512 < 2 ^ 63" by (simp add: div_less_iff_less_mult)
  ultimately show ?thesis by (simp add: sb_legal_def)
qed

section \<open>Properties\<close>

text \<open>The fields of a block pointer are independent: on a block pointer that is not embedded,
  storing a legal value fires no assertion in either build, the field reads back as that value,
  every other field reads as before, no word but blk_prop changes and the pointer stays
  non-embedded.\<close>

theorem bp_fields_independent:
  assumes "\<not> BP_IS_EMBEDDED bp" and "bp_legal f v"
  shows "\<exists>bp'. bp_set f nd bp v = Some bp' \<and> bp_get f bp' = v \<and>
    (\<forall>g. g \<noteq> f \<longrightarrow> bp_get g bp' = bp_get g bp) \<and>
    bp'\<lparr>blk_prop := blk_prop bp\<rparr> = bp \<and> \<not> BP_IS_EMBEDDED bp'"
  using bp_set_field [OF assms] bp_get_put [OF assms] assms(1)
  by (intro exI [of _ "bp_put f v bp"]) (simp add: bp_put_not_embedded, simp add: bp_put_def)

theorem bp_fields_independent_witness:
  "\<exists>bp'. BP_SET_LSIZE False (BP_ZERO demo_bp) 131072 = Some bp' \<and> bp_get F_LSIZE bp' = 131072 \<and>
    BP_GET_PSIZE bp' = 512"
proof -
  have "\<not> BP_IS_EMBEDDED (BP_ZERO demo_bp)"
    by (simp add: BP_IS_EMBEDDED_def BF64_GET_take_drop)
  moreover have "bp_legal F_LSIZE 131072"
    by (simp add: bp_legal_def sb_legal_def)
  ultimately have "\<exists>bp'. bp_set F_LSIZE False (BP_ZERO demo_bp) 131072 = Some bp' \<and>
      bp_get F_LSIZE bp' = 131072 \<and> bp_get F_PSIZE bp' = bp_get F_PSIZE (BP_ZERO demo_bp)"
    using bp_fields_independent [of "BP_ZERO demo_bp" F_LSIZE 131072 False] by blast
  moreover have "bp_get F_PSIZE (BP_ZERO demo_bp) = 512"
    by (simp add: BP_GET_PSIZE_def BP_IS_EMBEDDED_def BF64_GET_SB_def BF64_GET_take_drop spa_defs)
  ultimately show ?thesis by auto
qed

text \<open>The same for an embedded block pointer, whose sizes are stored in bytes and whose
  checksum field holds the embedded type.\<close>

theorem bpe_fields_independent:
  assumes "BP_IS_EMBEDDED bp" and "bpe_legal f v"
  shows "\<exists>bp'. bpe_set f nd bp v = Some bp' \<and> bpe_get f bp' = v \<and>
    (\<forall>g. g \<noteq> f \<longrightarrow> bpe_get g bp' = bpe_get g bp) \<and>
    bp'\<lparr>blk_prop := blk_prop bp\<rparr> = bp \<and> BP_IS_EMBEDDED bp'"
  using bpe_set_field [OF assms] bpe_get_put [OF assms] assms(1)
  by (intro exI [of _ "bpe_put f v bp"]) (simp add: bpe_put_embedded, simp add: bpe_put_def)

theorem bpe_fields_independent_witness:
  "\<exists>bp'. BPE_SET_PSIZE False ((BP_ZERO demo_bp)\<lparr>blk_prop := 0x8000000000\<rparr>) 112 = Some bp' \<and>
    bpe_get E_PSIZE bp' = 112"
proof -
  have "BP_IS_EMBEDDED ((BP_ZERO demo_bp)\<lparr>blk_prop := 0x8000000000\<rparr>)"
    by (simp add: BP_IS_EMBEDDED_def BF64_GET_take_drop)
  moreover have "bpe_legal E_PSIZE 112" by (simp add: bpe_legal_def sb_legal_def)
  ultimately show ?thesis
    using bpe_fields_independent [of _ E_PSIZE 112 False] by (simp only: bpe_set.simps) blast
qed

text \<open>The fields of a DVA are independent, for every allocated size that is a multiple of
  512 below 8G, every offset that is a multiple of 512 and every 24-bit device number.\<close>

theorem dva_fields_independent:
  assumes "sb_legal 24 9 0 a" and "v < 2 ^ 24" and "512 dvd unat off" and "g < 2"
  shows "(\<exists>d'. DVA_SET_ASIZE nd d a = Some d' \<and> DVA_GET_ASIZE d' = a \<and>
      (DVA_GET_VDEV d', DVA_GET_OFFSET d', DVA_GET_GANG d') = (DVA_GET_VDEV d, DVA_GET_OFFSET d, DVA_GET_GANG d)) \<and>
    (\<exists>d'. DVA_SET_VDEV nd d v = Some d' \<and> DVA_GET_VDEV d' = v \<and>
      (DVA_GET_ASIZE d', DVA_GET_OFFSET d', DVA_GET_GANG d') = (DVA_GET_ASIZE d, DVA_GET_OFFSET d, DVA_GET_GANG d)) \<and>
    (\<exists>d'. DVA_SET_OFFSET nd d off = Some d' \<and> DVA_GET_OFFSET d' = off \<and>
      (DVA_GET_ASIZE d', DVA_GET_VDEV d', DVA_GET_GANG d') = (DVA_GET_ASIZE d, DVA_GET_VDEV d, DVA_GET_GANG d)) \<and>
    (\<exists>d'. DVA_SET_GANG nd d g = Some d' \<and> DVA_GET_GANG d' = g \<and>
      (DVA_GET_ASIZE d', DVA_GET_VDEV d', DVA_GET_OFFSET d') = (DVA_GET_ASIZE d, DVA_GET_VDEV d, DVA_GET_OFFSET d))"
  using assms
  by (intro conjI dva_asize.set_keeps_other dva_vdev.set_keeps_other dva_offset.set_keeps_other
      dva_gang.set_keeps_other) (simp_all add: offset_legal)

theorem dva_fields_independent_witness:
  "\<exists>d'. DVA_SET_OFFSET False \<lparr>dva_word0 = 7, dva_word1 = 9\<rparr> 0x400000 = Some d' \<and> DVA_GET_OFFSET d' = 0x400000 \<and>
      (DVA_GET_ASIZE d', DVA_GET_VDEV d', DVA_GET_GANG d') = (3584, 0, 0)"
  using dva_fields_independent [of 512 1 "0x400000" 1 False "\<lparr>dva_word0 = 7, dva_word1 = 9\<rparr>"]
  by (simp add: sb_legal_def DVA_GET_ASIZE_def DVA_GET_VDEV_def DVA_GET_GANG_def BF64_GET_SB_def
      BF64_GET_take_drop spa_defs)

end
