(* ===== verification/Blkptr_Props.thy ===== *)
theory Blkptr_Props
  imports Blkptr_Fields
begin

unbundle bit_operations_syntax

text \<open>
  What the derived quantities of a block pointer promise: the documented layouts, the size
  bounds, the three kinds of encryption state, birth times, fill count and IV, holes and
  redaction, checksums and gang block headers.
\<close>

section \<open>Layouts\<close>

lemma layouts_ok:
  "layout_ok blkptr_layout" "layout_ok blkptr_layout_encrypted" "layout_ok blkptr_layout_embedded"
  by (simp_all add: layout_ok_def upt16 layout_word_def layout_defs)

lemma dva_read_layout:
  assumes "d < 3"
  shows "layout_get blkptr_layout ''vdev'' (2 * d) bp = Some (DVA_GET_VDEV (blk_dva bp d))"
    and "layout_get blkptr_layout ''G'' (2 * d + 1) bp = Some (DVA_GET_GANG (blk_dva bp d))"
    and "map_option (push_bit 9) (layout_get blkptr_layout ''ASIZE'' (2 * d) bp) = Some (DVA_GET_ASIZE (blk_dva bp d))"
    and "map_option (push_bit 9) (layout_get blkptr_layout ''offset'' (2 * d + 1) bp) =
      Some (DVA_GET_OFFSET (blk_dva bp d))"
proof -
  have "d = 0 \<or> d = 1 \<or> d = 2" using assms by arith
  then show "layout_get blkptr_layout ''vdev'' (2 * d) bp = Some (DVA_GET_VDEV (blk_dva bp d))"
    and "layout_get blkptr_layout ''G'' (2 * d + 1) bp = Some (DVA_GET_GANG (blk_dva bp d))"
    and "map_option (push_bit 9) (layout_get blkptr_layout ''ASIZE'' (2 * d) bp) = Some (DVA_GET_ASIZE (blk_dva bp d))"
    and "map_option (push_bit 9) (layout_get blkptr_layout ''offset'' (2 * d + 1) bp) =
      Some (DVA_GET_OFFSET (blk_dva bp d))"
    by (elim disjE; simp add: layout_get_def layout_word_def layout_defs blkptr_words_def blk_dva_def
        DVA_GET_VDEV_def DVA_GET_GANG_def DVA_GET_ASIZE_def DVA_GET_OFFSET_def BF64_GET_SB_def spa_defs)+
qed

text \<open>What each layout says of the fields that it draws, against the accessors of the code.\<close>

lemmas layout_reads = layout_get_def layout_word_def layout_defs blkptr_words_def bf64_get_word

lemmas getters = BP_GET_TYPE_def BP_GET_LEVEL_def BP_GET_COMPRESS_def BP_USES_CRYPT_def BP_GET_DEDUP_def
  BP_GET_BYTEORDER_def BP_IS_EMBEDDED_def BP_GET_LOGICAL_BIRTH_def BP_GET_RAW_PHYSICAL_BIRTH_def

lemma common_fields:
  assumes "L = blkptr_layout \<or> L = blkptr_layout_encrypted \<or> L = blkptr_layout_embedded"
  shows "layout_get L ''type'' 6 bp = Some (BP_GET_TYPE bp)" "layout_get L ''lvl'' 6 bp = Some (BP_GET_LEVEL bp)"
    "layout_get L ''comp'' 6 bp = Some (BP_GET_COMPRESS bp)" "layout_get L ''X'' 6 bp = Some (BP_USES_CRYPT bp)"
    "layout_get L ''D'' 6 bp = Some (BP_GET_DEDUP bp)" "layout_get L ''B'' 6 bp = Some (BP_GET_BYTEORDER bp)"
    "layout_get L ''E'' 6 bp = Some 0 \<longleftrightarrow> \<not> BP_IS_EMBEDDED bp"
    "layout_get L ''logical birth txg'' 10 bp = Some (BP_GET_LOGICAL_BIRTH bp)"
  by (use assms in \<open>elim disjE; simp add: layout_reads getters spa_defs\<close>)+

lemma ordinary_fields:
  assumes "\<not> BP_IS_EMBEDDED bp" "L = blkptr_layout \<or> L = blkptr_layout_encrypted"
  shows "map_option (\<lambda>v. push_bit 9 (v + 1)) (layout_get L ''LSIZE'' 6 bp) = BP_GET_LSIZE nd bp"
    "map_option (\<lambda>v. push_bit 9 (v + 1)) (layout_get L ''PSIZE'' 6 bp) = Some (BP_GET_PSIZE bp)"
    "layout_get L ''cksum'' 6 bp = Some (BP_GET_CHECKSUM bp)" "layout_get L ''R'' 7 bp = Some (BP_GET_REWRITE bp)"
    "layout_get L ''physical birth txg'' 9 bp = Some (BP_GET_RAW_PHYSICAL_BIRTH bp)"
    "layout_get L ''checksum0'' 12 bp = Some (zc_word0 (blk_cksum bp))"
    "layout_get L ''checksum1'' 13 bp = Some (zc_word1 (blk_cksum bp))"
  by (use assms in \<open>elim disjE; simp add: layout_reads BP_GET_LSIZE_value BP_GET_PSIZE_def BP_GET_CHECKSUM_def
      BP_GET_REWRITE_def BP_GET_RAW_PHYSICAL_BIRTH_def BF64_GET_SB_def spa_defs\<close>)+

lemma fill_fields:
  assumes "\<not> BP_IS_EMBEDDED bp"
  shows "layout_get (if BP_IS_ENCRYPTED tbl bp then blkptr_layout_encrypted else blkptr_layout) ''fill count'' 11 bp =
      Some (BP_GET_FILL tbl bp)"
    "BP_IS_ENCRYPTED tbl bp \<Longrightarrow> layout_get blkptr_layout_encrypted ''IV2'' 11 bp = BP_GET_IV2 nd tbl bp"
  by (cases "BP_IS_ENCRYPTED tbl bp"; use assms in \<open>simp add: layout_reads BP_GET_FILL_def BP_GET_IV2_def\<close>)+

lemma embedded_fields:
  assumes "BP_IS_EMBEDDED bp"
  shows "layout_get blkptr_layout_embedded ''etype'' 6 bp = BPE_GET_ETYPE nd bp"
    "map_option (\<lambda>v. v + 1) (layout_get blkptr_layout_embedded ''LSIZE'' 6 bp) = BPE_GET_LSIZE nd bp"
    "map_option (\<lambda>v. v + 1) (layout_get blkptr_layout_embedded ''PSIZE'' 6 bp) = BPE_GET_PSIZE nd bp"
    "BP_GET_LSIZE nd bp = (if BPE_GET_ETYPE nd bp = Some BP_EMBEDDED_TYPE_DATA then BPE_GET_LSIZE nd bp else Some 0)"
    "BP_GET_PSIZE bp = 0" "BP_GET_CHECKSUM bp = ZIO_CHECKSUM_OFF" "BP_GET_REWRITE bp = 0" "BP_GET_FILL tbl bp = 1"
    "BP_GET_PHYSICAL_BIRTH bp = 0"
  using assms by (simp_all add: layout_reads BPE_GET_ETYPE_def BPE_GET_LSIZE_def BPE_GET_PSIZE_def BF64_GET_SB_def
      BP_GET_LSIZE_value BP_GET_PSIZE_def BP_GET_CHECKSUM_def BP_GET_REWRITE_def BP_GET_FILL_def BP_GET_PHYSICAL_BIRTH_def)

lemma dva_fields_encrypted:
  assumes "d < 2" "n = ''vdev'' \<or> n = ''ASIZE'' \<or> n = ''G'' \<or> n = ''offset''"
  shows "layout_get blkptr_layout_encrypted n (2 * d) bp = layout_get blkptr_layout n (2 * d) bp"
    "layout_get blkptr_layout_encrypted n (2 * d + 1) bp = layout_get blkptr_layout n (2 * d + 1) bp"
proof -
  have "d = 0 \<or> d = 1" using assms(1) by arith
  then show "layout_get blkptr_layout_encrypted n (2 * d) bp = layout_get blkptr_layout n (2 * d) bp"
    "layout_get blkptr_layout_encrypted n (2 * d + 1) bp = layout_get blkptr_layout n (2 * d + 1) bp"
    using assms(2) by (elim disjE; simp add: layout_reads)+
qed

lemma dva_fields:
  assumes "d < (if L = blkptr_layout_encrypted then 2 else 3)" "L = blkptr_layout \<or> L = blkptr_layout_encrypted"
  shows "layout_get L ''vdev'' (2 * d) bp = Some (DVA_GET_VDEV (blk_dva bp d))"
    and "layout_get L ''G'' (2 * d + 1) bp = Some (DVA_GET_GANG (blk_dva bp d))"
    and "map_option (push_bit 9) (layout_get L ''ASIZE'' (2 * d) bp) = Some (DVA_GET_ASIZE (blk_dva bp d))"
    and "map_option (push_bit 9) (layout_get L ''offset'' (2 * d + 1) bp) = Some (DVA_GET_OFFSET (blk_dva bp d))"
  using assms dva_read_layout [of d bp] dva_fields_encrypted [of d _ bp] by (auto split: if_splits)

lemma payload_words: "\<forall>w<16. BPE_IS_PAYLOADWORD w \<longleftrightarrow> (''payload'', w, 0, 64) \<in> set blkptr_layout_embedded"
proof -
  have "\<forall>w\<in>set [0..<16]. BPE_IS_PAYLOADWORD w \<longleftrightarrow> (''payload'', w, 0, 64) \<in> set blkptr_layout_embedded"
    unfolding upt16 by (simp add: layout_defs BPE_IS_PAYLOADWORD_def)
  then show ?thesis by (simp only: set_upt atLeastLessThan_iff) simp
qed

text \<open>C18. Each of the three layouts the header draws assigns every bit of the sixteen words to
  exactly one field, and the accessors read the fields as drawn. In all three these are the type,
  the level, the compression, the flags for encryption, deduplication, byte order and embedding, and
  the logical birth; in an ordinary pointer, encrypted or not, also the sizes (in sectors, less one),
  the checksum type, the rewrite flag, the physical birth, the vdev, size, offset and gang bit of
  its DVAs (three, or two if encrypted), the fill count, and the second part of the IV if it is
  encrypted; in an embedded one the embedded type and the sizes in bytes less one, and the words with
  payload are the drawn ones. What is not drawn in an embedded pointer reads as the documented
  constant.\<close>

theorem documented_layouts:
  "(\<forall>L. L = blkptr_layout \<or> L = blkptr_layout_encrypted \<or> L = blkptr_layout_embedded \<longrightarrow>
     layout_ok L \<and> layout_get L ''type'' 6 bp = Some (BP_GET_TYPE bp) \<and> layout_get L ''lvl'' 6 bp = Some (BP_GET_LEVEL bp) \<and>
     layout_get L ''comp'' 6 bp = Some (BP_GET_COMPRESS bp) \<and> layout_get L ''X'' 6 bp = Some (BP_USES_CRYPT bp) \<and>
     layout_get L ''D'' 6 bp = Some (BP_GET_DEDUP bp) \<and> layout_get L ''B'' 6 bp = Some (BP_GET_BYTEORDER bp) \<and>
     (layout_get L ''E'' 6 bp = Some 0 \<longleftrightarrow> \<not> BP_IS_EMBEDDED bp) \<and>
     layout_get L ''logical birth txg'' 10 bp = Some (BP_GET_LOGICAL_BIRTH bp)) \<and>
   (\<not> BP_IS_EMBEDDED bp \<longrightarrow> (let L = (if BP_IS_ENCRYPTED tbl bp then blkptr_layout_encrypted else blkptr_layout) in
     map_option (\<lambda>v. push_bit 9 (v + 1)) (layout_get L ''LSIZE'' 6 bp) = BP_GET_LSIZE nd bp \<and>
     map_option (\<lambda>v. push_bit 9 (v + 1)) (layout_get L ''PSIZE'' 6 bp) = Some (BP_GET_PSIZE bp) \<and>
     layout_get L ''cksum'' 6 bp = Some (BP_GET_CHECKSUM bp) \<and> layout_get L ''R'' 7 bp = Some (BP_GET_REWRITE bp) \<and>
     layout_get L ''physical birth txg'' 9 bp = Some (BP_GET_RAW_PHYSICAL_BIRTH bp) \<and>
     layout_get L ''fill count'' 11 bp = Some (BP_GET_FILL tbl bp) \<and>
     (BP_IS_ENCRYPTED tbl bp \<longrightarrow> layout_get L ''IV2'' 11 bp = BP_GET_IV2 nd tbl bp) \<and>
     layout_get L ''checksum0'' 12 bp = Some (zc_word0 (blk_cksum bp)) \<and>
     layout_get L ''checksum1'' 13 bp = Some (zc_word1 (blk_cksum bp)) \<and>
     (\<forall>d<if BP_IS_ENCRYPTED tbl bp then 2 else 3.
       layout_get L ''vdev'' (2 * d) bp = Some (DVA_GET_VDEV (blk_dva bp d)) \<and>
       map_option (push_bit 9) (layout_get L ''ASIZE'' (2 * d) bp) = Some (DVA_GET_ASIZE (blk_dva bp d)) \<and>
       layout_get L ''G'' (2 * d + 1) bp = Some (DVA_GET_GANG (blk_dva bp d)) \<and>
       map_option (push_bit 9) (layout_get L ''offset'' (2 * d + 1) bp) = Some (DVA_GET_OFFSET (blk_dva bp d))))) \<and>
   (BP_IS_EMBEDDED bp \<longrightarrow>
     layout_get blkptr_layout_embedded ''etype'' 6 bp = BPE_GET_ETYPE nd bp \<and>
     map_option (\<lambda>v. v + 1) (layout_get blkptr_layout_embedded ''LSIZE'' 6 bp) = BPE_GET_LSIZE nd bp \<and>
     map_option (\<lambda>v. v + 1) (layout_get blkptr_layout_embedded ''PSIZE'' 6 bp) = BPE_GET_PSIZE nd bp \<and>
     BP_GET_LSIZE nd bp = (if BPE_GET_ETYPE nd bp = Some BP_EMBEDDED_TYPE_DATA then BPE_GET_LSIZE nd bp else Some 0) \<and>
     BP_GET_PSIZE bp = 0 \<and> BP_GET_CHECKSUM bp = ZIO_CHECKSUM_OFF \<and> BP_GET_REWRITE bp = 0 \<and> BP_GET_FILL tbl bp = 1 \<and>
     BP_GET_PHYSICAL_BIRTH bp = 0) \<and>
   (\<forall>w<16. BPE_IS_PAYLOADWORD w \<longleftrightarrow> (''payload'', w, 0, 64) \<in> set blkptr_layout_embedded)"
proof (intro conjI impI allI)
  fix L assume "L = blkptr_layout \<or> L = blkptr_layout_encrypted \<or> L = blkptr_layout_embedded"
  note common_fields [OF this, of bp]
  moreover have "layout_ok L"
    using \<open>L = blkptr_layout \<or> L = blkptr_layout_encrypted \<or> L = blkptr_layout_embedded\<close> layouts_ok by (elim disjE) simp_all
  ultimately show "layout_ok L" "layout_get L ''type'' 6 bp = Some (BP_GET_TYPE bp)"
    "layout_get L ''lvl'' 6 bp = Some (BP_GET_LEVEL bp)"
    "layout_get L ''comp'' 6 bp = Some (BP_GET_COMPRESS bp)" "layout_get L ''X'' 6 bp = Some (BP_USES_CRYPT bp)"
    "layout_get L ''D'' 6 bp = Some (BP_GET_DEDUP bp)" "layout_get L ''B'' 6 bp = Some (BP_GET_BYTEORDER bp)"
    "layout_get L ''E'' 6 bp = Some 0 \<longleftrightarrow> \<not> BP_IS_EMBEDDED bp"
    "layout_get L ''logical birth txg'' 10 bp = Some (BP_GET_LOGICAL_BIRTH bp)" by simp_all
next
  assume o: "\<not> BP_IS_EMBEDDED bp"
  define L where "L = (if BP_IS_ENCRYPTED tbl bp then blkptr_layout_encrypted else blkptr_layout)"
  have L: "L = blkptr_layout \<or> L = blkptr_layout_encrypted" by (simp add: L_def)
  have ne: "blkptr_layout \<noteq> blkptr_layout_encrypted" by (simp add: layout_defs)
  have n: "(if BP_IS_ENCRYPTED tbl bp then 2 else 3 :: nat) = (if L = blkptr_layout_encrypted then 2 else 3)"
    using ne by (simp add: L_def)
  have f: "layout_get L ''fill count'' 11 bp = Some (BP_GET_FILL tbl bp)" unfolding L_def by (rule fill_fields(1) [OF o])
  have iv: "BP_IS_ENCRYPTED tbl bp \<longrightarrow> layout_get L ''IV2'' 11 bp = BP_GET_IV2 nd tbl bp"
    using fill_fields(2) [OF o] by (simp add: L_def)
  show "let L = (if BP_IS_ENCRYPTED tbl bp then blkptr_layout_encrypted else blkptr_layout) in
     map_option (\<lambda>v. push_bit 9 (v + 1)) (layout_get L ''LSIZE'' 6 bp) = BP_GET_LSIZE nd bp \<and>
     map_option (\<lambda>v. push_bit 9 (v + 1)) (layout_get L ''PSIZE'' 6 bp) = Some (BP_GET_PSIZE bp) \<and>
     layout_get L ''cksum'' 6 bp = Some (BP_GET_CHECKSUM bp) \<and> layout_get L ''R'' 7 bp = Some (BP_GET_REWRITE bp) \<and>
     layout_get L ''physical birth txg'' 9 bp = Some (BP_GET_RAW_PHYSICAL_BIRTH bp) \<and>
     layout_get L ''fill count'' 11 bp = Some (BP_GET_FILL tbl bp) \<and>
     (BP_IS_ENCRYPTED tbl bp \<longrightarrow> layout_get L ''IV2'' 11 bp = BP_GET_IV2 nd tbl bp) \<and>
     layout_get L ''checksum0'' 12 bp = Some (zc_word0 (blk_cksum bp)) \<and>
     layout_get L ''checksum1'' 13 bp = Some (zc_word1 (blk_cksum bp)) \<and>
     (\<forall>d<if BP_IS_ENCRYPTED tbl bp then 2 else 3.
       layout_get L ''vdev'' (2 * d) bp = Some (DVA_GET_VDEV (blk_dva bp d)) \<and>
       map_option (push_bit 9) (layout_get L ''ASIZE'' (2 * d) bp) = Some (DVA_GET_ASIZE (blk_dva bp d)) \<and>
       layout_get L ''G'' (2 * d + 1) bp = Some (DVA_GET_GANG (blk_dva bp d)) \<and>
       map_option (push_bit 9) (layout_get L ''offset'' (2 * d + 1) bp) = Some (DVA_GET_OFFSET (blk_dva bp d)))"
    unfolding L_def [symmetric] n Let_def
    by (intro conjI allI impI ordinary_fields [OF o L] f iv [rule_format] dva_fields [OF _ L])
next
  assume "BP_IS_EMBEDDED bp"
  note e = embedded_fields [OF this]
  show "layout_get blkptr_layout_embedded ''etype'' 6 bp = BPE_GET_ETYPE nd bp"
    "map_option (\<lambda>v. v + 1) (layout_get blkptr_layout_embedded ''LSIZE'' 6 bp) = BPE_GET_LSIZE nd bp"
    "map_option (\<lambda>v. v + 1) (layout_get blkptr_layout_embedded ''PSIZE'' 6 bp) = BPE_GET_PSIZE nd bp"
    "BP_GET_LSIZE nd bp = (if BPE_GET_ETYPE nd bp = Some BP_EMBEDDED_TYPE_DATA then BPE_GET_LSIZE nd bp else Some 0)"
    "BP_GET_PSIZE bp = 0" "BP_GET_CHECKSUM bp = ZIO_CHECKSUM_OFF" "BP_GET_REWRITE bp = 0" "BP_GET_FILL tbl bp = 1"
    "BP_GET_PHYSICAL_BIRTH bp = 0" by (rule e)+
next
  fix w :: nat assume "w < 16"
  then show "BPE_IS_PAYLOADWORD w \<longleftrightarrow> (''payload'', w, 0, 64) \<in> set blkptr_layout_embedded"
    using payload_words by blast
qed

text \<open>A pointer with an embedded block, and a zeroed one, which is ordinary.\<close>

theorem documented_layouts_witness:
  "layout_get blkptr_layout_embedded ''etype'' 6 (demo_bp\<lparr>blk_prop := 0x028000000000\<rparr>) =
     BPE_GET_ETYPE False (demo_bp\<lparr>blk_prop := 0x028000000000\<rparr>) \<and>
   layout_get blkptr_layout ''vdev'' 4 (BP_ZERO demo_bp) = Some (DVA_GET_VDEV (blk_dva (BP_ZERO demo_bp) 2))"
proof -
  have e: "BP_IS_EMBEDDED (demo_bp\<lparr>blk_prop := 0x028000000000\<rparr>)" by code_simp
  have z: "\<not> BP_IS_EMBEDDED (BP_ZERO demo_bp)" "\<not> BP_IS_ENCRYPTED demo_ot (BP_ZERO demo_bp)"
    by (simp_all add: BP_IS_EMBEDDED_def BP_IS_ENCRYPTED_def BP_USES_CRYPT_def BF64_GET_take_drop)
  have "\<forall>d<3. layout_get blkptr_layout ''vdev'' (2 * d) (BP_ZERO demo_bp) = Some (DVA_GET_VDEV (blk_dva (BP_ZERO demo_bp) d))"
    using documented_layouts [of "BP_ZERO demo_bp" demo_ot False] z unfolding Let_def if_not_P [OF z(2)] by blast
  then have "layout_get blkptr_layout ''vdev'' (2 * 2) (BP_ZERO demo_bp) = Some (DVA_GET_VDEV (blk_dva (BP_ZERO demo_bp) 2))"
    by (rule spec [of _ 2, THEN mp]) simp
  moreover have "2 * 2 = (4 :: nat)" by simp
  ultimately show ?thesis
    using documented_layouts [of "demo_bp\<lparr>blk_prop := 0x028000000000\<rparr>" demo_ot False] e by (simp only: simp_thms)
qed

section \<open>Sizes\<close>

text \<open>The sizes a block pointer can hold: logical and physical sizes of an ordinary pointer
  are between 512 bytes and 32M, those of an embedded one between 1 byte and 32M and between 1
  and 128 bytes (so 25 bits in bytes hold every ordinary logical size), and the allocated size
  is the sum of the DVAs' sizes without wrap-around, below 24G.\<close>

theorem bp_size_bounds:
  "(\<not> BP_IS_EMBEDDED bp \<longrightarrow> 512 \<le> unat (the (BP_GET_LSIZE nd bp)) \<and> unat (the (BP_GET_LSIZE nd bp)) \<le> 2 ^ 25 \<and>
     512 \<le> unat (BP_GET_PSIZE bp) \<and> unat (BP_GET_PSIZE bp) \<le> 2 ^ 25 \<and>
     unat (BP_GET_ASIZE tbl bp) =
       sum_list (map (\<lambda>d. unat (DVA_GET_ASIZE (blk_dva bp d))) (if BP_IS_ENCRYPTED tbl bp then [0, 1] else [0, 1, 2])) \<and>
     unat (BP_GET_ASIZE tbl bp) < 24 * 2 ^ 30) \<and>
   (BP_IS_EMBEDDED bp \<longrightarrow> unat (the (BP_GET_LSIZE nd bp)) \<le> 2 ^ 25 \<and>
     1 \<le> unat (the (BPE_GET_LSIZE nd bp)) \<and> unat (the (BPE_GET_LSIZE nd bp)) \<le> 2 ^ 25 \<and>
     1 \<le> unat (the (BPE_GET_PSIZE nd bp)) \<and> unat (the (BPE_GET_PSIZE nd bp)) \<le> 128 \<and>
     BP_GET_PSIZE bp = 0 \<and> BP_GET_ASIZE tbl bp = 0)"
proof -
  have L: "512 \<le> unat (BF64_GET_SB (blk_prop bp) low 16 9 1)" "unat (BF64_GET_SB (blk_prop bp) low 16 9 1) \<le> 33554432"
    for low using SB_bounds [of 16 1 9 "blk_prop bp" low] by simp_all
  have E: "1 \<le> unat (BF64_GET_SB (blk_prop bp) 0 25 0 1)" "unat (BF64_GET_SB (blk_prop bp) 0 25 0 1) \<le> 33554432"
    "1 \<le> unat (BF64_GET_SB (blk_prop bp) 25 7 0 1)" "unat (BF64_GET_SB (blk_prop bp) 25 7 0 1) \<le> 128"
    using SB_bounds [of 25 1 0 "blk_prop bp" 0] SB_bounds [of 7 1 0 "blk_prop bp" 25] by simp_all
  have A: "unat (DVA_GET_ASIZE (blk_dva bp d)) \<le> 8589934080" for d
    using DVA_GET_ASIZE_le [of "blk_dva bp d"] by simp
  have sum2: "unat (DVA_GET_ASIZE (blk_dva bp 0) + DVA_GET_ASIZE (blk_dva bp 1)) =
      unat (DVA_GET_ASIZE (blk_dva bp 0)) + unat (DVA_GET_ASIZE (blk_dva bp 1))"
    by (rule iffD1 [OF unat_add_lem]) (use A [of 0] A [of 1] in simp)
  have sum3: "unat (DVA_GET_ASIZE (blk_dva bp 0) + DVA_GET_ASIZE (blk_dva bp 1) + DVA_GET_ASIZE (blk_dva bp 2)) =
      unat (DVA_GET_ASIZE (blk_dva bp 0)) + unat (DVA_GET_ASIZE (blk_dva bp 1)) + unat (DVA_GET_ASIZE (blk_dva bp 2))"
    unfolding sum2 [symmetric]
    by (rule iffD1 [OF unat_add_lem]) (use A [of 0] A [of 1] A [of 2] sum2 in simp)
  have asize: "\<not> BP_IS_EMBEDDED bp \<Longrightarrow> unat (BP_GET_ASIZE tbl bp) =
      sum_list (map (\<lambda>d. unat (DVA_GET_ASIZE (blk_dva bp d))) (if BP_IS_ENCRYPTED tbl bp then [0, 1] else [0, 1, 2]))"
    using sum2 sum3 by (simp add: BP_GET_ASIZE_def add.assoc)
  then have "\<not> BP_IS_EMBEDDED bp \<Longrightarrow> unat (BP_GET_ASIZE tbl bp) < 25769803776"
    using A [of 0] A [of 1] A [of 2] by (cases "BP_IS_ENCRYPTED tbl bp") simp_all
  with asize show ?thesis
    using L [of 0] L [of 16] E
    by (simp add: BP_GET_LSIZE_value BP_GET_PSIZE_def BPE_GET_LSIZE_def BPE_GET_PSIZE_def BP_GET_ASIZE_def spa_defs)
qed

theorem bp_size_bounds_witness:
  "512 \<le> unat (BP_GET_PSIZE (BP_ZERO demo_bp))"
proof -
  have "\<not> BP_IS_EMBEDDED (BP_ZERO demo_bp)" by (simp add: BP_IS_EMBEDDED_def BF64_GET_take_drop)
  then show ?thesis using bp_size_bounds [of "BP_ZERO demo_bp"] by blast
qed

section \<open>Encryption\<close>

text \<open>A block pointer that uses encryption is in exactly one of the three states the header
  describes, encrypted, authenticated or with an indirect MAC checksum; without the flag it is in
  none; and protected means level 0 with the flag. An encrypted pointer has at most two DVAs.\<close>

theorem bp_crypt_states:
  "(BP_USES_CRYPT bp \<noteq> 0 \<longleftrightarrow>
     BP_IS_ENCRYPTED tbl bp \<or> BP_IS_AUTHENTICATED tbl bp \<or> BP_HAS_INDIRECT_MAC_CKSUM bp) \<and>
   \<not> (BP_IS_ENCRYPTED tbl bp \<and> BP_IS_AUTHENTICATED tbl bp) \<and>
   \<not> (BP_IS_PROTECTED tbl bp \<and> BP_HAS_INDIRECT_MAC_CKSUM bp) \<and>
   (BP_IS_PROTECTED tbl bp \<longleftrightarrow> BP_USES_CRYPT bp \<noteq> 0 \<and> BP_GET_LEVEL bp = 0) \<and>
   BP_GET_NDVAS tbl bp \<le> (if BP_IS_ENCRYPTED tbl bp then 2 else 3)"
proof -
  have le: "BP_GET_LEVEL bp \<le> 0 \<longleftrightarrow> BP_GET_LEVEL bp = 0" and gt: "BP_GET_LEVEL bp > 0 \<longleftrightarrow> BP_GET_LEVEL bp \<noteq> 0"
    by (simp_all add: word_greater_zero_iff)
  show ?thesis
    using BP_GET_NDVAS_le [of tbl bp]
    unfolding BP_IS_PROTECTED_def BP_IS_ENCRYPTED_def BP_IS_AUTHENTICATED_def
      BP_HAS_INDIRECT_MAC_CKSUM_def le gt by blast
qed

section \<open>Birth times, fill count and IV\<close>

lemma fill_disjoint:
  "BF64_GET (bf64_put x 0 32 v) 32 32 = BF64_GET x 32 32"
  "BF64_GET (bf64_put x 32 32 v) 0 32 = BF64_GET x 0 32"
  by (simp_all add: get_put_disjoint)

lemma encrypted_fill [simp]:
  "BP_IS_ENCRYPTED tbl (bp\<lparr>blk_fill := w\<rparr>) = BP_IS_ENCRYPTED tbl bp"
  "BP_IS_EMBEDDED (bp\<lparr>blk_fill := w\<rparr>) = BP_IS_EMBEDDED bp"
  by (simp_all add: BP_IS_ENCRYPTED_def BP_USES_CRYPT_def BP_GET_LEVEL_def BP_GET_TYPE_def BP_IS_EMBEDDED_def)

text \<open>In an encrypted block pointer the fill count and the last 32 bits of the IV share a
  word without disturbing each other; in any other ordinary pointer the fill count is the whole
  word.\<close>

theorem bp_fill_and_iv2:
  assumes "\<not> BP_IS_EMBEDDED bp" and "BP_IS_ENCRYPTED tbl bp \<longrightarrow> fill < 2 ^ 32" and "iv2 < 2 ^ 32"
  shows "(\<exists>bp'. BP_SET_FILL nd tbl bp fill = Some bp' \<and> BP_GET_FILL tbl bp' = fill \<and>
      (BP_IS_ENCRYPTED tbl bp \<longrightarrow> BP_GET_IV2 nd tbl bp' = BP_GET_IV2 nd tbl bp)) \<and>
    (BP_IS_ENCRYPTED tbl bp \<longrightarrow> (\<exists>bp'. BP_SET_IV2 nd tbl bp iv2 = Some bp' \<and>
      BP_GET_IV2 nd tbl bp' = Some iv2 \<and> BP_GET_FILL tbl bp' = BP_GET_FILL tbl bp))"
proof (cases "BP_IS_ENCRYPTED tbl bp")
  case True
  then show ?thesis
    using assms BF64_SET_Some [of fill 32 0 nd "blk_fill bp"] BF64_SET_Some [of iv2 32 32 nd "blk_fill bp"]
      get_put_same [of fill 32 0 "blk_fill bp"] get_put_same [of iv2 32 32 "blk_fill bp"]
    by (simp add: BP_SET_FILL_def BP_GET_FILL_def BP_SET_IV2_def BP_GET_IV2_def fill_disjoint)
next
  case False
  then show ?thesis using assms by (simp add: BP_SET_FILL_def BP_GET_FILL_def)
qed

theorem bp_fill_and_iv2_witness:
  "\<exists>bp'. BP_SET_FILL False demo_ot (BP_ZERO demo_bp) 5 = Some bp' \<and> BP_GET_FILL demo_ot bp' = 5"
proof -
  have "\<not> BP_IS_EMBEDDED (BP_ZERO demo_bp)" "\<not> BP_IS_ENCRYPTED demo_ot (BP_ZERO demo_bp)"
    by (simp_all add: BP_IS_EMBEDDED_def BP_IS_ENCRYPTED_def BP_USES_CRYPT_def BF64_GET_take_drop)
  then show ?thesis
    using bp_fill_and_iv2 [of "BP_ZERO demo_bp" demo_ot 5 0 False] by auto
qed

text \<open>Setting the birth times of an ordinary block pointer: the logical birth reads back,
  the physical birth reads back (a zero physical birth stands for the logical one), and the birth
  is the physical one exactly for rewritten blocks.\<close>

theorem bp_birth_roundtrip:
  assumes "\<not> BP_IS_EMBEDDED bp" and "physical \<noteq> 0 \<or> logical = physical"
  shows "\<exists>bp'. BP_SET_BIRTH nd bp logical physical = Some bp' \<and>
    BP_GET_LOGICAL_BIRTH bp' = logical \<and> BP_GET_PHYSICAL_BIRTH bp' = physical \<and>
    BP_GET_BIRTH bp' = (if BP_GET_REWRITE bp \<noteq> 0 then physical else logical)"
  using assms
  by (auto simp: BP_SET_BIRTH_def BP_SET_LOGICAL_BIRTH_def BP_SET_PHYSICAL_BIRTH_def BP_GET_BIRTH_def
      BP_GET_LOGICAL_BIRTH_def BP_GET_PHYSICAL_BIRTH_def BP_GET_RAW_PHYSICAL_BIRTH_def BP_GET_REWRITE_def
      BP_IS_EMBEDDED_def Let_def)

theorem bp_birth_roundtrip_witness:
  "\<exists>bp'. BP_SET_BIRTH False (BP_ZERO demo_bp) 7 9 = Some bp' \<and> BP_GET_PHYSICAL_BIRTH bp' = 9 \<and>
     BP_GET_BIRTH bp' = 7"
proof -
  have "\<not> BP_IS_EMBEDDED (BP_ZERO demo_bp)" "BP_GET_REWRITE (BP_ZERO demo_bp) = 0"
    by (simp_all add: BP_IS_EMBEDDED_def BF64_GET_take_drop BP_GET_REWRITE_def BP_ZERO_def Let_def)
  then show ?thesis using bp_birth_roundtrip [of "BP_ZERO demo_bp" 9 7 False] by auto
qed

section \<open>Holes and redaction\<close>

text \<open>A zeroed block pointer is a hole, no embedded pointer is; redacting any block pointer
  succeeds and makes it a redacted one: embedded, of logical size 0, with no DVAs.\<close>

theorem bp_hole_and_redacted:
  "BP_IS_HOLE nd (BP_ZERO bp) = Some True \<and>
   (BP_IS_EMBEDDED bp \<longrightarrow> BP_IS_HOLE nd bp = Some False) \<and>
   (\<exists>bp'. BP_SET_REDACTED nd bp = Some bp' \<and> BP_IS_REDACTED nd bp' = Some True \<and>
     BP_IS_HOLE nd bp' = Some False \<and> BP_GET_LSIZE nd bp' = Some 0 \<and> BP_GET_NDVAS tbl bp' = 0)"
proof -
  let ?w = "bf64_put (blk_prop bp) 39 1 1"
  let ?bp = "bp\<lparr>blk_prop := bf64_put ?w 40 8 2\<rparr>"
  have g1: "BF64_GET ?w 39 1 = 1" by (rule get_put_same) simp_all
  have g2: "BF64_GET (bf64_put ?w 40 8 2) 39 1 = 1" using g1 by (subst get_put_disjoint) simp_all
  have g3: "BF64_GET (bf64_put ?w 40 8 2) 40 8 = 2" by (rule get_put_same) simp_all
  have set: "BP_SET_REDACTED nd bp = Some ?bp"
    using g1 BF64_SET_Some [of 1 1 39 nd "blk_prop bp"] BF64_SET_Some [of 2 8 40 nd ?w]
    by (simp add: BP_SET_REDACTED_def BP_SET_EMBEDDED_def BPE_SET_ETYPE_def BP_IS_EMBEDDED_def
        BP_EMBEDDED_TYPE_REDACTED_def)
  have emb: "BP_IS_EMBEDDED ?bp" using g2 by (simp add: BP_IS_EMBEDDED_def)
  have zero: "BP_IS_HOLE nd (BP_ZERO bp) = Some True"
    by (simp add: BP_IS_HOLE_value BP_IS_EMBEDDED_def BF64_GET_take_drop)
      (simp add: BP_ZERO_def BP_ZERO_DVAS_def DVA_IS_EMPTY_def Let_def)
  show ?thesis
    using set emb g3 zero
    by (simp add: BP_IS_REDACTED_value BP_IS_HOLE_value BP_GET_LSIZE_value BP_GET_NDVAS_def bpe_type_defs)
qed

theorem bp_hole_and_redacted_witness:
  "BP_IS_HOLE False (the (BP_SET_REDACTED False (BP_ZERO demo_bp))) = Some False"
  using bp_hole_and_redacted [of False "BP_ZERO demo_bp" demo_ot] by auto

section \<open>Checksums\<close>

text \<open>The branch-free comparison of checksums is equality, the zero test is equality with the
  zero checksum, and byte-swapping twice gives the checksum back.\<close>

theorem zio_checksum_operations:
  "(ZIO_CHECKSUM_EQUAL a b \<longleftrightarrow> zc_word0 a = zc_word0 b \<and> zc_word1 a = zc_word1 b \<and>
      zc_word2 a = zc_word2 b \<and> zc_word3 a = zc_word3 b) \<and>
   (ZIO_CHECKSUM_IS_ZERO a \<longleftrightarrow> ZIO_CHECKSUM_EQUAL a (ZIO_SET_CHECKSUM b 0 0 0 0)) \<and>
   ZIO_CHECKSUM_BSWAP (ZIO_CHECKSUM_BSWAP a) = a"
proof -
  have or0: "x OR y = 0 \<longleftrightarrow> x = 0 \<and> y = 0" for x y :: u64
    by (auto simp: bit_eq_iff bit_simps)
  show ?thesis
    by (simp add: ZIO_CHECKSUM_EQUAL_def ZIO_CHECKSUM_IS_ZERO_def ZIO_SET_CHECKSUM_def
        ZIO_CHECKSUM_BSWAP_def BSWAP_64_involution or0 eq_commute [of 0])
qed

section \<open>Gang blocks\<close>

text \<open>In a gang block of any size that is a multiple of 128 bytes, the block pointers
  \<open>gbh_nblkptrs\<close> counts lie below the trailing \<open>zio_eck_t\<close>, which ends at the end of the block;
  the block is the pointers, 88 bytes of padding and the 40 bytes of the trailer, as drawn.\<close>

theorem gang_header_fits:
  assumes "128 dvd unat sz" and "0 < unat sz" and "unat gbh + unat sz < 2 ^ 64"
  shows "\<exists>n eck. gbh_nblkptrs nd sz = Some n \<and> gbh_eck nd gbh sz = Some eck \<and>
    unat eck + 40 = unat gbh + unat sz \<and> 128 * unat n + 88 + 40 = unat sz \<and>
    (\<forall>i. 0 \<le> i \<and> i < int (unat n) \<longrightarrow> unat (gbh_bp gbh i) + 128 \<le> unat eck)"
proof -
  obtain k where "unat sz = 128 * k" "k \<noteq> 0" using assms(1,2) by auto
  then obtain j where sz: "unat sz = 128 * j + 128" by (cases k) auto
  have al: "IS_P2ALIGNED sz sizeof_blkptr"
    using assms(1) IS_P2ALIGNED_iff [of sz 7] by (simp add: sizeof_blkptr_def)
  have "(40 :: u64) \<le> sz" using sz by (simp add: word_le_nat_alt)
  then have sub: "unat (sz - 40) = 128 * j + 88" using sz by (simp add: unat_sub)
  have n: "unat ((sz - 40) div 128) = j" by (simp add: unat_div_distrib sub)
  have sum: "unat (gbh + sz) = unat gbh + unat sz"
    by (rule iffD1 [OF unat_add_lem]) (use assms(3) in simp)
  have "(40 :: u64) \<le> gbh + sz" using sz sum by (simp add: word_le_nat_alt)
  then have eck: "unat (gbh + sz - 40) = unat gbh + 128 * j + 88" using sz sum by (simp add: unat_sub)
  have bp: "unat (gbh_bp gbh (int m)) = unat gbh + 128 * m" if "m < j" for m
  proof -
    have "gbh_bp gbh (int m) = of_nat (unat gbh + 128 * m)"
      by (simp add: gbh_bp_def sizeof_blkptr_def)
    then show ?thesis
      using that sz assms(3) by (simp only:) (rule unat_of_nat_small, simp)
  qed
  have fit: "\<forall>i. 0 \<le> i \<and> i < int j \<longrightarrow> unat (gbh_bp gbh i) + 128 \<le> unat gbh + 128 * j + 88"
  proof (intro allI impI)
    fix i assume i: "0 \<le> i \<and> i < int j"
    then obtain m where m: "i = int m" "m < j" by (metis nonneg_int_cases of_nat_less_iff)
    show "unat (gbh_bp gbh i) + 128 \<le> unat gbh + 128 * j + 88"
      using m bp by simp
  qed
  have "gbh_nblkptrs nd sz = Some ((sz - 40) div 128)" "gbh_eck nd gbh sz = Some (gbh + sz - 40)"
    using al by (simp_all add: gbh_nblkptrs_def gbh_eck_def sizeof_blkptr_def sizeof_zio_eck_def)
  then show ?thesis
    by (intro exI conjI) (assumption, assumption, simp add: eck sz, simp add: n sz, use fit in \<open>simp only: n eck\<close>)
qed

theorem gang_header_fits_witness:
  "\<exists>n eck. gbh_nblkptrs False SPA_OLD_GANGBLOCKSIZE = Some n \<and> gbh_eck False 0x1000 SPA_OLD_GANGBLOCKSIZE = Some eck \<and>
    unat eck + 40 = 0x1200 \<and> unat n = 3"
proof -
  have eq: "SPA_OLD_GANGBLOCKSIZE = 512" by (simp add: SPA_OLD_GANGBLOCKSIZE_def spa_defs)
  show ?thesis unfolding eq using gang_header_fits [of 512 "0x1000" False] by auto
qed

end
