(* ===== verification/Blkptr_Print.thy ===== *)
theory Blkptr_Print
  imports Blkptr_Props
begin

unbundle bit_operations_syntax

text \<open>
  \<open>SNPRINTF_BLKPTR\<close> of \<open>compat/openzfs/sys/spa.h\<close>. Its argument \<open>func\<close> is a bounded print
  function: given the space left and the formatted text it gives the characters written and
  its return value. The state is the buffer and \<open>len\<close>. \<open>None\<close> is the final
  \<open>ASSERT(len < size)\<close> or one of the assertions inside the accessors.
\<close>

section \<open>Conversions\<close>

fun utoa :: "nat \<Rightarrow> nat \<Rightarrow> string" where
  "utoa b n = (if b < 2 \<or> n < b then [''0123456789abcdef'' ! n] else utoa b (n div b) @ [''0123456789abcdef'' ! (n mod b)])"

declare utoa.simps [simp del]

definition llu :: "u64 \<Rightarrow> string" where "llu x = utoa 10 (unat x)"
definition llx :: "u64 \<Rightarrow> string" where "llx x = utoa 16 (unat x)"

definition llx016 :: "u64 \<Rightarrow> string" where
  "llx016 x = (let s = llx x in replicate (16 - length s) (CHR ''0'') @ s)"

section \<open>The macro\<close>

type_synonym printer = "int \<Rightarrow> string \<Rightarrow> string \<times> int"
type_synonym pbuf = "string \<times> int"

text \<open>\<open>len += func(buf + len, size - len, ...)\<close>.\<close>

definition emit :: "printer \<Rightarrow> int \<Rightarrow> string \<Rightarrow> pbuf \<Rightarrow> pbuf" where
  "emit func sz s b = (case b of (buf, len) \<Rightarrow>
     (case func (sz - len) s of (w, r) \<Rightarrow> (take (nat len) buf @ w, len + r)))"

definition copyname :: "string list" where
  "copyname = [''zero'', ''single'', ''double'', ''triple'']"

definition crypt_type :: "ot_table \<Rightarrow> blkptr_t \<Rightarrow> string" where
  "crypt_type dmu_ot bp =
    (if BP_IS_ENCRYPTED dmu_ot bp then ''encrypted''
     else if BP_IS_AUTHENTICATED dmu_ot bp then ''authenticated''
     else if BP_HAS_INDIRECT_MAC_CKSUM bp then ''indirect-MAC''
     else ''unencrypted'')"

text \<open>The body of the \<open>for\<close> loop over the DVAs, and the loop; \<open>copies\<close> counts the valid ones.\<close>

definition print_dva :: "printer \<Rightarrow> char \<Rightarrow> int \<Rightarrow> blkptr_t \<Rightarrow> nat \<Rightarrow> nat \<times> pbuf \<Rightarrow> nat \<times> pbuf" where
  "print_dva func ws sz bp d st = (case st of (copies, b) \<Rightarrow>
     (let dva = blk_dva bp d
      in (if DVA_IS_VALID dva then copies + 1 else copies,
          emit func sz (''DVA['' @ utoa 10 d @ '']=<'' @ llu (DVA_GET_VDEV dva) @ '':'' @
            llx (DVA_GET_OFFSET dva) @ '':'' @ llx (DVA_GET_ASIZE dva) @ ''>'' @ [ws]) b)))"

definition SNPRINTF_BLKPTR ::
    "bool \<Rightarrow> ot_table \<Rightarrow> printer \<Rightarrow> char \<Rightarrow> int \<Rightarrow> blkptr_t option \<Rightarrow> string \<Rightarrow> string \<Rightarrow> string \<Rightarrow> pbuf option" where
  "SNPRINTF_BLKPTR nd dmu_ot func ws sz bp_ptr otype checksum compress =
    do {
      (buf, len) \<leftarrow>
        (case bp_ptr of
           None \<Rightarrow> Some (emit func sz ''<NULL>'' ([], 0))
         | Some bp \<Rightarrow> do {
             hole \<leftarrow> BP_IS_HOLE nd bp;
             if hole then do {
               lsize \<leftarrow> BP_GET_LSIZE nd bp;
               Some (emit func sz (''HOLE [L'' @ llu (BP_GET_LEVEL bp) @ '' '' @ otype @ ''] size='' @
                 llx lsize @ ''L birth='' @ llu (BP_GET_LOGICAL_BIRTH bp) @ ''L'') ([], 0)) }
             else if BP_IS_EMBEDDED bp then do {
               etype \<leftarrow> BPE_GET_ETYPE nd bp;
               lsize \<leftarrow> BPE_GET_LSIZE nd bp;
               psize \<leftarrow> BPE_GET_PSIZE nd bp;
               Some (emit func sz (''EMBEDDED [L'' @ llu (BP_GET_LEVEL bp) @ '' '' @ otype @ ''] et='' @
                 llu etype @ '' '' @ compress @ '' size='' @ llx lsize @ ''L/'' @ llx psize @
                 ''P birth='' @ llu (BP_GET_LOGICAL_BIRTH bp) @ ''L'') ([], 0)) }
             else do {
               redacted \<leftarrow> BP_IS_REDACTED nd bp;
               if redacted then do {
                 lsize \<leftarrow> BP_GET_LSIZE nd bp;
                 Some (emit func sz (''REDACTED [L'' @ llu (BP_GET_LEVEL bp) @ '' '' @ otype @ ''] size='' @
                   llx lsize @ ''L birth='' @ llu (BP_GET_LOGICAL_BIRTH bp) @ ''L'') ([], 0)) }
               else do {
                 let (copies, b) = fold (print_dva func ws sz bp) [0..<BP_GET_NDVAS dmu_ot bp] (0, ([], 0));
                 b \<leftarrow> (if BP_IS_ENCRYPTED dmu_ot bp then do {
                         iv2 \<leftarrow> BP_GET_IV2 nd dmu_ot bp;
                         Some (emit func sz (''salt='' @ llx (dva_word0 (blk_dva2 bp)) @ '' iv='' @
                           llx (dva_word1 (blk_dva2 bp)) @ '':'' @ llx iv2 @ [ws]) b) }
                       else Some b);
                 gang \<leftarrow> BP_IS_GANG nd bp;
                 lsize \<leftarrow> BP_GET_LSIZE nd bp;
                 Some (emit func sz (''[L'' @ llu (BP_GET_LEVEL bp) @ '' '' @ otype @ ''] '' @ checksum @ '' '' @
                   compress @ '' '' @ crypt_type dmu_ot bp @ '' '' @
                   (if BP_GET_BYTEORDER bp = 0 then ''BE'' else ''LE'') @ '' '' @
                   (if gang then ''gang'' else ''contiguous'') @ '' '' @
                   (if BP_GET_DEDUP bp \<noteq> 0 then ''dedup'' else ''unique'') @ '' '' @
                   copyname ! copies @ [ws] @
                   ''size='' @ llx lsize @ ''L/'' @ llx (BP_GET_PSIZE bp) @ ''P birth='' @
                   llu (BP_GET_LOGICAL_BIRTH bp) @ ''L/'' @ llu (BP_GET_PHYSICAL_BIRTH bp) @ ''P fill='' @
                   llu (BP_GET_FILL dmu_ot bp) @ [ws] @
                   ''cksum='' @ llx016 (zc_word0 (blk_cksum bp)) @ '':'' @ llx016 (zc_word1 (blk_cksum bp)) @
                   '':'' @ llx016 (zc_word2 (blk_cksum bp)) @ '':'' @ llx016 (zc_word3 (blk_cksum bp))) b) } } });
      ASSERT nd (len < sz);
      Some (buf, len) }"

section \<open>Printing with kmem\_scnprintf\<close>

text \<open>
  The documented behaviour of \<open>kmem_scnprintf\<close>: at most \<open>avail - 1\<close> characters are written
  and their number is returned. The state after a sequence of such calls is the text, cut to
  what fits.
\<close>

definition is_scnprintf :: "printer \<Rightarrow> bool" where
  "is_scnprintf func \<longleftrightarrow> (\<forall>avail s. func avail s = (take (nat (avail - 1)) s, int (length (take (nat (avail - 1)) s))))"

definition pbuf_of :: "int \<Rightarrow> string \<Rightarrow> pbuf" where
  "pbuf_of sz s = (take (nat (sz - 1)) s, int (length (take (nat (sz - 1)) s)))"

lemma emit_pbuf_of:
  assumes "is_scnprintf func"
  shows "emit func sz s (pbuf_of sz t) = pbuf_of sz (t @ s)"
proof -
  have "nat (sz - int (length (take (nat (sz - 1)) t)) - 1) = nat (sz - 1) - length t"
    by (cases "length t \<le> nat (sz - 1)") (simp_all add: min_def)
  then show ?thesis
    using assms by (auto simp: is_scnprintf_def emit_def pbuf_of_def min_def)
qed

lemma emit_first: "is_scnprintf func \<Longrightarrow> emit func sz s ([], 0) = pbuf_of sz s"
  using emit_pbuf_of [of func sz s "[]"] by (simp add: pbuf_of_def)

lemma pbuf_of_fits: "0 < sz \<Longrightarrow> snd (pbuf_of sz s) < sz"
  by (simp add: pbuf_of_def min_def) linarith

text \<open>The text of a DVA and of the loop.\<close>

definition dva_text :: "char \<Rightarrow> blkptr_t \<Rightarrow> nat \<Rightarrow> string" where
  "dva_text ws bp d = ''DVA['' @ utoa 10 d @ '']=<'' @ llu (DVA_GET_VDEV (blk_dva bp d)) @ '':'' @
     llx (DVA_GET_OFFSET (blk_dva bp d)) @ '':'' @ llx (DVA_GET_ASIZE (blk_dva bp d)) @ ''>'' @ [ws]"

lemma fold_print_dva:
  assumes "is_scnprintf func"
  shows "fold (print_dva func ws sz bp) ds (c, pbuf_of sz t) =
    (c + length (filter (\<lambda>d. DVA_IS_VALID (blk_dva bp d)) ds), pbuf_of sz (t @ concat (map (dva_text ws bp) ds)))"
proof (induction ds arbitrary: c t)
  case (Cons d ds)
  have "print_dva func ws sz bp d (c, pbuf_of sz t) =
      (if DVA_IS_VALID (blk_dva bp d) then c + 1 else c, pbuf_of sz (t @ dva_text ws bp d))"
    by (simp only: print_dva_def dva_text_def Let_def prod.case emit_pbuf_of [OF assms])
  then show ?case by (simp add: Cons.IH)
qed simp

definition bp_copies :: "ot_table \<Rightarrow> blkptr_t \<Rightarrow> nat" where
  "bp_copies tbl bp = length (filter (\<lambda>d. DVA_IS_VALID (blk_dva bp d)) [0..<BP_GET_NDVAS tbl bp])"

lemma bp_copies_le: "bp_copies tbl bp \<le> 3"
  using BP_GET_NDVAS_le [of tbl bp] length_filter_le [of "\<lambda>d. DVA_IS_VALID (blk_dva bp d)" "[0..<BP_GET_NDVAS tbl bp]"]
  by (auto simp: bp_copies_def split: if_splits)

text \<open>The whole text, before it is cut to the buffer.\<close>

definition bp_text :: "ot_table \<Rightarrow> char \<Rightarrow> blkptr_t option \<Rightarrow> string \<Rightarrow> string \<Rightarrow> string \<Rightarrow> string" where
  "bp_text tbl ws bp_ptr otype checksum compress =
    (case bp_ptr of None \<Rightarrow> ''<NULL>''
     | Some bp \<Rightarrow>
        if \<not> BP_IS_EMBEDDED bp \<and> DVA_IS_EMPTY (blk_dva0 bp) then
          ''HOLE [L'' @ llu (BP_GET_LEVEL bp) @ '' '' @ otype @ ''] size='' @
          llx (the (BP_GET_LSIZE False bp)) @ ''L birth='' @ llu (BP_GET_LOGICAL_BIRTH bp) @ ''L''
        else if BP_IS_EMBEDDED bp then
          ''EMBEDDED [L'' @ llu (BP_GET_LEVEL bp) @ '' '' @ otype @ ''] et='' @
          llu (the (BPE_GET_ETYPE False bp)) @ '' '' @ compress @ '' size='' @
          llx (the (BPE_GET_LSIZE False bp)) @ ''L/'' @ llx (the (BPE_GET_PSIZE False bp)) @
          ''P birth='' @ llu (BP_GET_LOGICAL_BIRTH bp) @ ''L''
        else
          concat (map (dva_text ws bp) [0..<BP_GET_NDVAS tbl bp]) @
          (if BP_IS_ENCRYPTED tbl bp then
             ''salt='' @ llx (dva_word0 (blk_dva2 bp)) @ '' iv='' @ llx (dva_word1 (blk_dva2 bp)) @ '':'' @
             llx (the (BP_GET_IV2 True tbl bp)) @ [ws] else []) @
          ''[L'' @ llu (BP_GET_LEVEL bp) @ '' '' @ otype @ ''] '' @ checksum @ '' '' @
          compress @ '' '' @ crypt_type tbl bp @ '' '' @
          (if BP_GET_BYTEORDER bp = 0 then ''BE'' else ''LE'') @ '' '' @
          (if DVA_GET_GANG (blk_dva0 bp) \<noteq> 0 then ''gang'' else ''contiguous'') @ '' '' @
          (if BP_GET_DEDUP bp \<noteq> 0 then ''dedup'' else ''unique'') @ '' '' @
          copyname ! bp_copies tbl bp @ [ws] @
          ''size='' @ llx (the (BP_GET_LSIZE False bp)) @ ''L/'' @ llx (BP_GET_PSIZE bp) @ ''P birth='' @
          llu (BP_GET_LOGICAL_BIRTH bp) @ ''L/'' @ llu (BP_GET_PHYSICAL_BIRTH bp) @ ''P fill='' @
          llu (BP_GET_FILL tbl bp) @ [ws] @
          ''cksum='' @ llx016 (zc_word0 (blk_cksum bp)) @ '':'' @ llx016 (zc_word1 (blk_cksum bp)) @
          '':'' @ llx016 (zc_word2 (blk_cksum bp)) @ '':'' @ llx016 (zc_word3 (blk_cksum bp)))"

lemma SNPRINTF_BLKPTR_text:
  assumes "is_scnprintf func" and "0 < sz"
  shows "SNPRINTF_BLKPTR nd tbl func ws sz bp_ptr otype checksum compress =
    Some (pbuf_of sz (bp_text tbl ws bp_ptr otype checksum compress))"
proof -
  have empty: "([], 0) = pbuf_of sz []" by (simp add: pbuf_of_def)
  have fits: "snd (pbuf_of sz s) < sz" for s using assms(2) by (rule pbuf_of_fits)
  then have A: "pbuf_of sz s = (b, l) \<Longrightarrow> ASSERT nd (l < sz) = Some ()" for s b l
    by (metis ASSERT_ok snd_conv)
  show ?thesis
  proof (cases bp_ptr)
    case None
    then show ?thesis
      using A by (simp add: SNPRINTF_BLKPTR_def bp_text_def emit_first [OF assms(1)] split: prod.split)
  next
    case (Some bp)
    show ?thesis
      using A unfolding Some
      by (simp add: SNPRINTF_BLKPTR_def bp_text_def BP_IS_HOLE_value BP_GET_LSIZE_value BP_IS_GANG_value
          BPE_GET_ETYPE_def BPE_GET_LSIZE_def BPE_GET_PSIZE_def BP_GET_IV2_def BP_IS_REDACTED_value
          empty fold_print_dva [OF assms(1)] emit_pbuf_of [OF assms(1)] bp_copies_def split: prod.split)
  qed
qed

section \<open>Properties\<close>

definition scnprintf_ref :: printer where
  "scnprintf_ref avail s = (take (nat (avail - 1)) s, int (length (take (nat (avail - 1)) s)))"

lemma scnprintf_ref: "is_scnprintf scnprintf_ref"
  by (simp add: is_scnprintf_def scnprintf_ref_def)

text \<open>C19. Printing a block pointer with a printer that behaves like kmem_scnprintf into a buffer
  of any positive size leaves the first \<open>size - 1\<close> characters of one text, whatever the number
  of print calls it was made of; no assertion fires, in either build, and the table of copy names
  is never indexed out of bounds.\<close>

theorem blkptr_print_is_cut_text:
  assumes "is_scnprintf func" and "0 < sz"
  shows "SNPRINTF_BLKPTR nd tbl func ws sz bp_ptr otype checksum compress =
      Some (take (nat (sz - 1)) (bp_text tbl ws bp_ptr otype checksum compress),
            int (min (length (bp_text tbl ws bp_ptr otype checksum compress)) (nat (sz - 1)))) \<and>
    bp_copies tbl bp < length copyname"
  using SNPRINTF_BLKPTR_text [OF assms] bp_copies_le [of tbl bp]
  by (simp add: pbuf_of_def copyname_def)

theorem blkptr_print_is_cut_text_witness:
  "SNPRINTF_BLKPTR False demo_ot scnprintf_ref (CHR '' '') 4 None [] [] [] = Some (''<NU'', 3)"
  using blkptr_print_is_cut_text [OF scnprintf_ref, of 4 False demo_ot "CHR '' ''" None]
  by (simp add: bp_text_def)

text \<open>A redacted block pointer is printed as an embedded one: the branch of the macro that
  prints REDACTED is never taken, because the embedded test before it already holds.\<close>

theorem blkptr_print_redacted:
  assumes "is_scnprintf func" and "9 < sz" and "BP_IS_REDACTED False bp = Some True"
  shows "\<exists>rest len. SNPRINTF_BLKPTR nd tbl func ws sz (Some bp) otype checksum compress =
    Some (''EMBEDDED '' @ rest, len)"
proof -
  have emb: "BP_IS_EMBEDDED bp" using assms(3) by (simp add: BP_IS_REDACTED_value)
  obtain n where n: "nat (sz - 1) = 9 + n" using assms(2) nat_le_iff_add [of 9 "nat (sz - 1)"] by auto
  have "\<exists>rest. bp_text tbl ws (Some bp) otype checksum compress = ''EMBEDDED '' @ rest"
    using emb by (simp add: bp_text_def)
  then obtain rest where "bp_text tbl ws (Some bp) otype checksum compress = ''EMBEDDED '' @ rest" by blast
  then have "take (nat (sz - 1)) (bp_text tbl ws (Some bp) otype checksum compress) = ''EMBEDDED '' @ take n rest"
    by (simp add: n numeral_eq_Suc)
  then show ?thesis
    using SNPRINTF_BLKPTR_text [OF assms(1), of sz] assms(2) by (simp add: pbuf_of_def)
qed

theorem blkptr_print_redacted_witness:
  "\<exists>rest len. SNPRINTF_BLKPTR False demo_ot scnprintf_ref (CHR '' '') 400
      (Some ((BP_ZERO demo_bp)\<lparr>blk_prop := 0x28000000000\<rparr>)) [] [] [] = Some (''EMBEDDED '' @ rest, len)"
proof -
  have "BP_IS_REDACTED False ((BP_ZERO demo_bp)\<lparr>blk_prop := 0x28000000000\<rparr>) = Some True"
    by (simp add: BP_IS_REDACTED_value BP_IS_EMBEDDED_def BF64_GET_take_drop bpe_type_defs)
  then show ?thesis by (intro blkptr_print_redacted scnprintf_ref) simp
qed

end
