(* ===== verification/Space_Map.thy ===== *)
theory Space_Map
  imports Blkptr
begin

unbundle bit_operations_syntax

text \<open>
  Space map entries (\<open>compat/openzfs/sys/space_map.h\<close>): the on-disk records, the field macros
  and the three kinds of entries the header draws, with a reader of a sequence of words. The
  lemmas show that every entry in range is read back, and how far a run and an offset reach.
\<close>

section \<open>Structures\<close>

definition SPACE_MAP_SIZE_V0 :: nat where "SPACE_MAP_SIZE_V0 = 3 * 8"
definition SPACE_MAP_HISTOGRAM_SIZE :: nat where "SPACE_MAP_HISTOGRAM_SIZE = 32"

record space_map_phys_t =
  smp_object :: u64
  smp_length :: u64
  smp_alloc :: u64
  smp_pad :: "u64 list"
  smp_histogram :: "u64 list"

text \<open>The pointers of the in-core structure have the types of what they point to.\<close>

record ('os, 'db) space_map_t =
  sm_start :: u64
  sm_size :: u64
  sm_shift :: u8
  sm_os :: 'os
  sm_object :: u64
  sm_blksz :: u32
  sm_dbuf :: 'db
  sm_phys :: space_map_phys_t

datatype maptype_t = SM_ALLOC | SM_FREE

record space_map_entry_t =
  sme_type :: maptype_t
  sme_vdev :: u32
  sme_offset :: u64
  sme_run :: u64
  sme_txg :: u64
  sme_sync_pass :: u64

section \<open>Field macros\<close>

definition SM_NO_VDEVID :: u64 where "SM_NO_VDEVID = push_bit SPA_VDEVBITS 1"
definition SM_DEBUG_PREFIX :: u64 where "SM_DEBUG_PREFIX = 2"
definition SM_OFFSET_BITS :: nat where "SM_OFFSET_BITS = 47"
definition SM_RUN_BITS :: nat where "SM_RUN_BITS = 15"
definition SM2_PREFIX :: u64 where "SM2_PREFIX = 3"
definition SM2_OFFSET_BITS :: nat where "SM2_OFFSET_BITS = 63"
definition SM2_RUN_BITS :: nat where "SM2_RUN_BITS = 36"

definition SM_PREFIX_DECODE :: "u64 \<Rightarrow> u64" where "SM_PREFIX_DECODE x = BF64_DECODE x 62 2"
definition SM_PREFIX_ENCODE :: "u64 \<Rightarrow> u64" where "SM_PREFIX_ENCODE x = BF64_ENCODE x 62 2"
definition SM_DEBUG_ACTION_DECODE :: "u64 \<Rightarrow> u64" where "SM_DEBUG_ACTION_DECODE x = BF64_DECODE x 60 2"
definition SM_DEBUG_ACTION_ENCODE :: "u64 \<Rightarrow> u64" where "SM_DEBUG_ACTION_ENCODE x = BF64_ENCODE x 60 2"
definition SM_DEBUG_SYNCPASS_DECODE :: "u64 \<Rightarrow> u64" where "SM_DEBUG_SYNCPASS_DECODE x = BF64_DECODE x 50 10"
definition SM_DEBUG_SYNCPASS_ENCODE :: "u64 \<Rightarrow> u64" where "SM_DEBUG_SYNCPASS_ENCODE x = BF64_ENCODE x 50 10"
definition SM_DEBUG_TXG_DECODE :: "u64 \<Rightarrow> u64" where "SM_DEBUG_TXG_DECODE x = BF64_DECODE x 0 50"
definition SM_DEBUG_TXG_ENCODE :: "u64 \<Rightarrow> u64" where "SM_DEBUG_TXG_ENCODE x = BF64_ENCODE x 0 50"
definition SM_OFFSET_DECODE :: "u64 \<Rightarrow> u64" where "SM_OFFSET_DECODE x = BF64_DECODE x 16 SM_OFFSET_BITS"
definition SM_OFFSET_ENCODE :: "u64 \<Rightarrow> u64" where "SM_OFFSET_ENCODE x = BF64_ENCODE x 16 SM_OFFSET_BITS"
definition SM_TYPE_DECODE :: "u64 \<Rightarrow> u64" where "SM_TYPE_DECODE x = BF64_DECODE x 15 1"
definition SM_TYPE_ENCODE :: "u64 \<Rightarrow> u64" where "SM_TYPE_ENCODE x = BF64_ENCODE x 15 1"
definition SM_RUN_DECODE :: "u64 \<Rightarrow> u64" where "SM_RUN_DECODE x = BF64_DECODE x 0 SM_RUN_BITS + 1"
definition SM_RUN_ENCODE :: "u64 \<Rightarrow> u64" where "SM_RUN_ENCODE x = BF64_ENCODE (x - 1) 0 SM_RUN_BITS"
definition SM_RUN_MAX :: u64 where "SM_RUN_MAX = SM_RUN_DECODE (NOT 0)"
definition SM_OFFSET_MAX :: u64 where "SM_OFFSET_MAX = SM_OFFSET_DECODE (NOT 0)"
definition SM2_RUN_DECODE :: "u64 \<Rightarrow> u64" where "SM2_RUN_DECODE x = BF64_DECODE x SPA_VDEVBITS SM2_RUN_BITS + 1"
definition SM2_RUN_ENCODE :: "u64 \<Rightarrow> u64" where "SM2_RUN_ENCODE x = BF64_ENCODE (x - 1) SPA_VDEVBITS SM2_RUN_BITS"
definition SM2_VDEV_DECODE :: "u64 \<Rightarrow> u64" where "SM2_VDEV_DECODE x = BF64_DECODE x 0 SPA_VDEVBITS"
definition SM2_VDEV_ENCODE :: "u64 \<Rightarrow> u64" where "SM2_VDEV_ENCODE x = BF64_ENCODE x 0 SPA_VDEVBITS"
definition SM2_TYPE_DECODE :: "u64 \<Rightarrow> u64" where "SM2_TYPE_DECODE x = BF64_DECODE x SM2_OFFSET_BITS 1"
definition SM2_TYPE_ENCODE :: "u64 \<Rightarrow> u64" where "SM2_TYPE_ENCODE x = BF64_ENCODE x SM2_OFFSET_BITS 1"
definition SM2_OFFSET_DECODE :: "u64 \<Rightarrow> u64" where "SM2_OFFSET_DECODE x = BF64_DECODE x 0 SM2_OFFSET_BITS"
definition SM2_OFFSET_ENCODE :: "u64 \<Rightarrow> u64" where "SM2_OFFSET_ENCODE x = BF64_ENCODE x 0 SM2_OFFSET_BITS"
definition SM2_RUN_MAX :: u64 where "SM2_RUN_MAX = SM2_RUN_DECODE (NOT 0)"
definition SM2_OFFSET_MAX :: u64 where "SM2_OFFSET_MAX = SM2_OFFSET_DECODE (NOT 0)"

lemmas sm_bits = SM_OFFSET_BITS_def SM_RUN_BITS_def SM2_OFFSET_BITS_def SM2_RUN_BITS_def SPA_VDEVBITS_def
  SM_DEBUG_PREFIX_def SM2_PREFIX_def

lemmas sm_macros = SM_PREFIX_DECODE_def SM_PREFIX_ENCODE_def SM_DEBUG_ACTION_DECODE_def SM_DEBUG_ACTION_ENCODE_def
  SM_DEBUG_SYNCPASS_DECODE_def SM_DEBUG_SYNCPASS_ENCODE_def SM_DEBUG_TXG_DECODE_def SM_DEBUG_TXG_ENCODE_def
  SM_OFFSET_DECODE_def SM_OFFSET_ENCODE_def SM_TYPE_DECODE_def SM_TYPE_ENCODE_def SM_RUN_DECODE_def
  SM_RUN_ENCODE_def SM2_RUN_DECODE_def SM2_RUN_ENCODE_def SM2_VDEV_DECODE_def SM2_VDEV_ENCODE_def
  SM2_TYPE_DECODE_def SM2_TYPE_ENCODE_def SM2_OFFSET_DECODE_def SM2_OFFSET_ENCODE_def

section \<open>Entries\<close>

text \<open>
  The three entries of the diagram. A word is written as the union of its encoded fields; the
  first two bits of a word tell the reader what follows.
\<close>

datatype sm_entry =
    SM_Debug (sm_action: u64) (sm_pass: u64) (sm_txg: u64)
  | SM_One (sm1_offset: u64) (sm1_type: u64) (sm1_run: u64)
  | SM_Two (sm2_run: u64) (sm2_vdev: u64) (sm2_type: u64) (sm2_offset: u64)

fun sm_write :: "sm_entry \<Rightarrow> u64 list" where
  "sm_write (SM_Debug act pass txg) =
     [SM_PREFIX_ENCODE SM_DEBUG_PREFIX OR SM_DEBUG_ACTION_ENCODE act OR SM_DEBUG_SYNCPASS_ENCODE pass OR
      SM_DEBUG_TXG_ENCODE txg]"
| "sm_write (SM_One off ty run) = [SM_OFFSET_ENCODE off OR SM_TYPE_ENCODE ty OR SM_RUN_ENCODE run]"
| "sm_write (SM_Two run vdev ty off) =
     [SM_PREFIX_ENCODE SM2_PREFIX OR SM2_RUN_ENCODE run OR SM2_VDEV_ENCODE vdev,
      SM2_TYPE_ENCODE ty OR SM2_OFFSET_ENCODE off]"

text \<open>The entries of a list of words; \<open>None\<close> when a two-word entry lacks its second word.\<close>

fun sm_read :: "u64 list \<Rightarrow> sm_entry list option" where
  "sm_read [] = Some []"
| "sm_read (w # ws) =
    (if SM_PREFIX_DECODE w = SM_DEBUG_PREFIX then
       map_option ((#) (SM_Debug (SM_DEBUG_ACTION_DECODE w) (SM_DEBUG_SYNCPASS_DECODE w) (SM_DEBUG_TXG_DECODE w)))
         (sm_read ws)
     else if SM_PREFIX_DECODE w = SM2_PREFIX then
       (case ws of
          [] \<Rightarrow> None
        | w' # ws' \<Rightarrow>
            map_option ((#) (SM_Two (SM2_RUN_DECODE w) (SM2_VDEV_DECODE w) (SM2_TYPE_DECODE w') (SM2_OFFSET_DECODE w')))
              (sm_read ws'))
     else
       map_option ((#) (SM_One (SM_OFFSET_DECODE w) (SM_TYPE_DECODE w) (SM_RUN_DECODE w))) (sm_read ws))"

text \<open>The values each field can hold; a run is stored less one.\<close>

fun sm_in_range :: "sm_entry \<Rightarrow> bool" where
  "sm_in_range (SM_Debug act pass txg) \<longleftrightarrow> act < 2 ^ 2 \<and> pass < 2 ^ 10 \<and> txg < 2 ^ 50"
| "sm_in_range (SM_One off ty run) \<longleftrightarrow> off < 2 ^ 47 \<and> ty < 2 ^ 1 \<and> run - 1 < 2 ^ 15"
| "sm_in_range (SM_Two run vdev ty off) \<longleftrightarrow> run - 1 < 2 ^ 36 \<and> vdev < 2 ^ 24 \<and> ty < 2 ^ 1 \<and> off < 2 ^ 63"

lemma sm_one_prefix:
  "SM_PREFIX_DECODE (SM_OFFSET_ENCODE off OR SM_TYPE_ENCODE ty OR SM_RUN_ENCODE run) \<noteq> 2"
  "SM_PREFIX_DECODE (SM_OFFSET_ENCODE off OR SM_TYPE_ENCODE ty OR SM_RUN_ENCODE run) \<noteq> 3"
proof -
  have "\<not> bit (SM_PREFIX_DECODE (SM_OFFSET_ENCODE off OR SM_TYPE_ENCODE ty OR SM_RUN_ENCODE run)) 1"
    by (simp add: sm_macros sm_bits BF64_DECODE_take_drop BF64_ENCODE_push_take bit_simps)
  moreover have "bit (2 :: u64) 1" "bit (3 :: u64) 1" by simp_all
  ultimately show "SM_PREFIX_DECODE (SM_OFFSET_ENCODE off OR SM_TYPE_ENCODE ty OR SM_RUN_ENCODE run) \<noteq> 2"
    and "SM_PREFIX_DECODE (SM_OFFSET_ENCODE off OR SM_TYPE_ENCODE ty OR SM_RUN_ENCODE run) \<noteq> 3" by metis+
qed

lemma sm_read_write:
  "sm_in_range e \<Longrightarrow> sm_read (sm_write e @ ws) = map_option ((#) e) (sm_read ws)"
proof (cases e)
  case (SM_One off ty run)
  assume "sm_in_range e"
  then show ?thesis
    using SM_One sm_one_prefix [of off ty run]
    by (simp add: sm_bits) (simp add: sm_macros sm_bits decode_or decode_encode_same decode_encode_other)
qed (simp_all add: sm_macros sm_bits decode_or decode_encode_same decode_encode_other)

section \<open>Properties\<close>

text \<open>C20. A space map written entry by entry, each entry in the range of its kind (one-word
  entries with a 47-bit offset and a run of at most 2^15, two-word entries with a 63-bit offset
  and a run of at most 2^36, debug entries), is read back as the same sequence of entries.\<close>

theorem space_map_roundtrip:
  assumes "\<forall>e\<in>set es. sm_in_range e"
  shows "sm_read (concat (map sm_write es)) = Some es"
  using assms by (induction es) (simp_all add: sm_read_write)

theorem space_map_roundtrip_witness:
  "sm_read (concat (map sm_write [SM_Debug 0 3 9, SM_One 7 1 32768, SM_Two 68719476736 5 0 (2 ^ 62)])) =
    Some [SM_Debug 0 3 9, SM_One 7 1 32768, SM_Two 68719476736 5 0 (2 ^ 62)]"
  by (rule space_map_roundtrip) simp

text \<open>The greatest run and offset of a one-word and of a two-word entry are 2^15 and 2^47 - 1,
  2^36 and 2^63 - 1, the maxima the comments of the structure name, and no device number in a
  two-word entry is the absent one.\<close>

theorem space_map_maxima:
  "SM_RUN_MAX = 2 ^ 15 \<and> SM_OFFSET_MAX = 2 ^ 47 - 1 \<and> SM2_RUN_MAX = 2 ^ 36 \<and> SM2_OFFSET_MAX = 2 ^ 63 - 1 \<and>
   SM2_VDEV_DECODE w \<noteq> SM_NO_VDEVID"
proof -
  have "SM2_VDEV_DECODE w < 2 ^ 24"
    unfolding SM2_VDEV_DECODE_def BF64_DECODE_take_drop SPA_VDEVBITS_def by (rule take_bit_word_less) simp
  then show ?thesis
    by (auto simp: SM_RUN_MAX_def SM_OFFSET_MAX_def SM2_RUN_MAX_def SM2_OFFSET_MAX_def SM_NO_VDEVID_def
        SM_RUN_DECODE_def SM_OFFSET_DECODE_def SM2_RUN_DECODE_def SM2_OFFSET_DECODE_def
        BF64_DECODE_take_drop sm_bits mask_numeral)
qed

end
