(* ===== verification/Range_Seg.thy ===== *)
theory Range_Seg
  imports Bitops
begin

unbundle bit_operations_syntax

text \<open>
  Segments of a range tree (\<open>compat/openzfs/sys/range_tree.h\<close>): the three segment
  representations and the inline accessors that switch over the tree's type. A segment is a
  value of a datatype; a tree whose type does not fit the representation (the C code would read
  the wrong structure) has no result, and so has an assertion that fires.
\<close>

section \<open>Structures\<close>

definition ZFS_RANGE_TREE_HISTOGRAM_SIZE :: nat where "ZFS_RANGE_TREE_HISTOGRAM_SIZE = 64"

datatype zfs_range_seg_type_t = ZFS_RANGE_SEG32 | ZFS_RANGE_SEG64 | ZFS_RANGE_SEG_GAP | ZFS_RANGE_SEG_NUM_TYPES

fun rst_value :: "zfs_range_seg_type_t \<Rightarrow> u64" where
  "rst_value ZFS_RANGE_SEG32 = 0" | "rst_value ZFS_RANGE_SEG64 = 1"
| "rst_value ZFS_RANGE_SEG_GAP = 2" | "rst_value ZFS_RANGE_SEG_NUM_TYPES = 3"

record ('bt, 'ops, 'arg) zfs_range_tree_t =
  rt_root :: 'bt
  rt_space :: u64
  rt_type :: zfs_range_seg_type_t
  rt_shift :: u8
  rt_start :: u64
  rt_ops :: 'ops
  rt_arg :: 'arg
  rt_gap :: u64
  rt_flags :: u64
  rt_name :: "string option"
  rt_histogram :: "u64 list"

definition ZFS_RT_NAME :: "('bt, 'ops, 'arg) zfs_range_tree_t \<Rightarrow> string" where
  "ZFS_RT_NAME rt = (case rt_name rt of None \<Rightarrow> [] | Some n \<Rightarrow> n)"

definition ZFS_RT_F_DYN_NAME :: u64 where "ZFS_RT_F_DYN_NAME = push_bit 0 1"

record zfs_range_seg32_t = rs32_start :: u32 rs32_end :: u32
record zfs_range_seg64_t = rs64_start :: u64 rs64_end :: u64
record zfs_range_seg_gap_t = rsg_start :: u64 rsg_end :: u64 rsg_fill :: u64

datatype zfs_range_seg_t = Seg32 zfs_range_seg32_t | Seg64 zfs_range_seg64_t | SegGap zfs_range_seg_gap_t

section \<open>Accessors\<close>

definition zfs_rs_get_start_raw :: "bool \<Rightarrow> zfs_range_seg_t \<Rightarrow> ('bt, 'ops, 'arg) zfs_range_tree_t \<Rightarrow> u64 option" where
  "zfs_rs_get_start_raw nd rs rt = do {
     ASSERT3U nd (rst_value (rt_type rt)) (\<le>) (rst_value ZFS_RANGE_SEG_NUM_TYPES);
     (case (rt_type rt, rs) of
        (ZFS_RANGE_SEG32, Seg32 r) \<Rightarrow> Some (ucast (rs32_start r))
      | (ZFS_RANGE_SEG64, Seg64 r) \<Rightarrow> Some (rs64_start r)
      | (ZFS_RANGE_SEG_GAP, SegGap r) \<Rightarrow> Some (rsg_start r)
      | _ \<Rightarrow> do { VERIFY False; Some 0 }) }"

definition zfs_rs_get_end_raw :: "bool \<Rightarrow> zfs_range_seg_t \<Rightarrow> ('bt, 'ops, 'arg) zfs_range_tree_t \<Rightarrow> u64 option" where
  "zfs_rs_get_end_raw nd rs rt = do {
     ASSERT3U nd (rst_value (rt_type rt)) (\<le>) (rst_value ZFS_RANGE_SEG_NUM_TYPES);
     (case (rt_type rt, rs) of
        (ZFS_RANGE_SEG32, Seg32 r) \<Rightarrow> Some (ucast (rs32_end r))
      | (ZFS_RANGE_SEG64, Seg64 r) \<Rightarrow> Some (rs64_end r)
      | (ZFS_RANGE_SEG_GAP, SegGap r) \<Rightarrow> Some (rsg_end r)
      | _ \<Rightarrow> do { VERIFY False; Some 0 }) }"

definition zfs_rs_get_fill_raw :: "bool \<Rightarrow> zfs_range_seg_t \<Rightarrow> ('bt, 'ops, 'arg) zfs_range_tree_t \<Rightarrow> u64 option" where
  "zfs_rs_get_fill_raw nd rs rt = do {
     ASSERT3U nd (rst_value (rt_type rt)) (\<le>) (rst_value ZFS_RANGE_SEG_NUM_TYPES);
     (case (rt_type rt, rs) of
        (ZFS_RANGE_SEG32, Seg32 r) \<Rightarrow> Some (ucast (rs32_end r - rs32_start r))
      | (ZFS_RANGE_SEG64, Seg64 r) \<Rightarrow> Some (rs64_end r - rs64_start r)
      | (ZFS_RANGE_SEG_GAP, SegGap r) \<Rightarrow> Some (rsg_fill r)
      | _ \<Rightarrow> do { VERIFY False; Some 0 }) }"

definition zfs_rs_get_start :: "bool \<Rightarrow> zfs_range_seg_t \<Rightarrow> ('bt, 'ops, 'arg) zfs_range_tree_t \<Rightarrow> u64 option" where
  "zfs_rs_get_start nd rs rt = do {
     raw \<leftarrow> zfs_rs_get_start_raw nd rs rt;
     Some (push_bit (unat (rt_shift rt)) raw + rt_start rt) }"

definition zfs_rs_get_end :: "bool \<Rightarrow> zfs_range_seg_t \<Rightarrow> ('bt, 'ops, 'arg) zfs_range_tree_t \<Rightarrow> u64 option" where
  "zfs_rs_get_end nd rs rt = do {
     raw \<leftarrow> zfs_rs_get_end_raw nd rs rt;
     Some (push_bit (unat (rt_shift rt)) raw + rt_start rt) }"

definition zfs_rs_get_fill :: "bool \<Rightarrow> zfs_range_seg_t \<Rightarrow> ('bt, 'ops, 'arg) zfs_range_tree_t \<Rightarrow> u64 option" where
  "zfs_rs_get_fill nd rs rt = do {
     raw \<leftarrow> zfs_rs_get_fill_raw nd rs rt;
     Some (push_bit (unat (rt_shift rt)) raw) }"

definition zfs_rs_set_start_raw ::
    "bool \<Rightarrow> zfs_range_seg_t \<Rightarrow> ('bt, 'ops, 'arg) zfs_range_tree_t \<Rightarrow> u64 \<Rightarrow> zfs_range_seg_t option" where
  "zfs_rs_set_start_raw nd rs rt start = do {
     ASSERT3U nd (rst_value (rt_type rt)) (\<le>) (rst_value ZFS_RANGE_SEG_NUM_TYPES);
     (case (rt_type rt, rs) of
        (ZFS_RANGE_SEG32, Seg32 r) \<Rightarrow> do {
          ASSERT3U nd start (\<le>) 0xffffffff;
          Some (Seg32 (r\<lparr>rs32_start := ucast start\<rparr>)) }
      | (ZFS_RANGE_SEG64, Seg64 r) \<Rightarrow> Some (Seg64 (r\<lparr>rs64_start := start\<rparr>))
      | (ZFS_RANGE_SEG_GAP, SegGap r) \<Rightarrow> Some (SegGap (r\<lparr>rsg_start := start\<rparr>))
      | _ \<Rightarrow> do { VERIFY False; Some rs }) }"

definition zfs_rs_set_end_raw ::
    "bool \<Rightarrow> zfs_range_seg_t \<Rightarrow> ('bt, 'ops, 'arg) zfs_range_tree_t \<Rightarrow> u64 \<Rightarrow> zfs_range_seg_t option" where
  "zfs_rs_set_end_raw nd rs rt ends = do {
     ASSERT3U nd (rst_value (rt_type rt)) (\<le>) (rst_value ZFS_RANGE_SEG_NUM_TYPES);
     (case (rt_type rt, rs) of
        (ZFS_RANGE_SEG32, Seg32 r) \<Rightarrow> do {
          ASSERT3U nd ends (\<le>) 0xffffffff;
          Some (Seg32 (r\<lparr>rs32_end := ucast ends\<rparr>)) }
      | (ZFS_RANGE_SEG64, Seg64 r) \<Rightarrow> Some (Seg64 (r\<lparr>rs64_end := ends\<rparr>))
      | (ZFS_RANGE_SEG_GAP, SegGap r) \<Rightarrow> Some (SegGap (r\<lparr>rsg_end := ends\<rparr>))
      | _ \<Rightarrow> do { VERIFY False; Some rs }) }"

text \<open>The two segment types without a fill field share a branch.\<close>

definition zfs_rs_set_fill_raw ::
    "bool \<Rightarrow> zfs_range_seg_t \<Rightarrow> ('bt, 'ops, 'arg) zfs_range_tree_t \<Rightarrow> u64 \<Rightarrow> zfs_range_seg_t option" where
  "zfs_rs_set_fill_raw nd rs rt fill = do {
     ASSERT3U nd (rst_value (rt_type rt)) (\<le>) (rst_value ZFS_RANGE_SEG_NUM_TYPES);
     (if rt_type rt = ZFS_RANGE_SEG32 \<or> rt_type rt = ZFS_RANGE_SEG64 then
        (if nd then Some rs
         else do {
           e \<leftarrow> zfs_rs_get_end_raw nd rs rt;
           s \<leftarrow> zfs_rs_get_start_raw nd rs rt;
           ASSERT3U nd fill (=) (e - s);
           Some rs })
      else case (rt_type rt, rs) of
        (ZFS_RANGE_SEG_GAP, SegGap r) \<Rightarrow> Some (SegGap (r\<lparr>rsg_fill := fill\<rparr>))
      | _ \<Rightarrow> do { VERIFY False; Some rs }) }"

definition zfs_rs_set_start ::
    "bool \<Rightarrow> zfs_range_seg_t \<Rightarrow> ('bt, 'ops, 'arg) zfs_range_tree_t \<Rightarrow> u64 \<Rightarrow> zfs_range_seg_t option" where
  "zfs_rs_set_start nd rs rt start = do {
     ASSERT3U nd start (\<ge>) (rt_start rt);
     ASSERT nd (IS_P2ALIGNED start (push_bit (unat (rt_shift rt)) 1));
     zfs_rs_set_start_raw nd rs rt (drop_bit (unat (rt_shift rt)) (start - rt_start rt)) }"

definition zfs_rs_set_end ::
    "bool \<Rightarrow> zfs_range_seg_t \<Rightarrow> ('bt, 'ops, 'arg) zfs_range_tree_t \<Rightarrow> u64 \<Rightarrow> zfs_range_seg_t option" where
  "zfs_rs_set_end nd rs rt ends = do {
     ASSERT3U nd ends (\<ge>) (rt_start rt);
     ASSERT nd (IS_P2ALIGNED ends (push_bit (unat (rt_shift rt)) 1));
     zfs_rs_set_end_raw nd rs rt (drop_bit (unat (rt_shift rt)) (ends - rt_start rt)) }"

definition zfs_rs_set_fill ::
    "bool \<Rightarrow> zfs_range_seg_t \<Rightarrow> ('bt, 'ops, 'arg) zfs_range_tree_t \<Rightarrow> u64 \<Rightarrow> zfs_range_seg_t option" where
  "zfs_rs_set_fill nd rs rt fill = do {
     ASSERT nd (IS_P2ALIGNED fill (push_bit (unat (rt_shift rt)) 1));
     zfs_rs_set_fill_raw nd rs rt (drop_bit (unat (rt_shift rt)) fill) }"

section \<open>The contract of the accessors\<close>

text \<open>A segment of the tree's representation, and the values a bound can take.\<close>

fun seg_fits :: "zfs_range_seg_type_t \<Rightarrow> zfs_range_seg_t \<Rightarrow> bool" where
  "seg_fits ZFS_RANGE_SEG32 (Seg32 _) = True"
| "seg_fits ZFS_RANGE_SEG64 (Seg64 _) = True"
| "seg_fits ZFS_RANGE_SEG_GAP (SegGap _) = True"
| "seg_fits _ _ = False"

definition bound_legal :: "('bt, 'ops, 'arg) zfs_range_tree_t \<Rightarrow> u64 \<Rightarrow> bool" where
  "bound_legal rt v \<longleftrightarrow> rt_start rt \<le> v \<and> 2 ^ unat (rt_shift rt) dvd unat v \<and>
     2 ^ unat (rt_shift rt) dvd unat (rt_start rt) \<and>
     (rt_type rt = ZFS_RANGE_SEG32 \<longrightarrow> unat (v - rt_start rt) div 2 ^ unat (rt_shift rt) < 2 ^ 32)"

lemma bound_stored:
  assumes "bound_legal rt v"
  shows "push_bit (unat (rt_shift rt)) (drop_bit (unat (rt_shift rt)) (v - rt_start rt)) + rt_start rt = v"
proof -
  let ?k = "unat (rt_shift rt)" and ?d = "v - rt_start rt"
  have "unat ?d = unat v - unat (rt_start rt)"
    using assms by (simp add: bound_legal_def unat_sub)
  then have dvd: "2 ^ ?k dvd unat ?d" using assms by (simp add: bound_legal_def dvd_diff_nat)
  have "unat (push_bit ?k (drop_bit ?k ?d)) = unat ?d"
    using dvd unsigned_less [of ?d, where ?'a = nat]
    by (subst unat_push_bit_word) (simp_all only: unat_drop_bit_word dvd_div_mult_self)
  then have "push_bit ?k (drop_bit ?k ?d) = ?d" by (simp only: word_unat_eq_iff)
  then show ?thesis by simp
qed

lemma ucast_ucast_32: "unat (w :: u64) < 2 ^ 32 \<Longrightarrow> ucast (ucast w :: u32) = w"
proof (rule bit_word_eqI)
  fix n assume w: "unat w < 2 ^ 32" and n: "n < LENGTH(64)"
  have "n < 32" if "bit w n"
  proof -
    have "(2 :: nat) ^ n < 2 ^ 32" using bit_unat_ge [OF that] w by (rule le_less_trans)
    then show ?thesis by (rule power_less_imp_less_exp [rotated]) simp
  qed
  then show "bit (ucast (ucast w :: u32) :: u64) n \<longleftrightarrow> bit w n"
    using n by (auto simp: bit_simps)
qed

lemma bound_raw_32:
  assumes "bound_legal rt v" and "rt_type rt = ZFS_RANGE_SEG32"
  shows "unat (drop_bit (unat (rt_shift rt)) (v - rt_start rt)) < 2 ^ 32"
    and "drop_bit (unat (rt_shift rt)) (v - rt_start rt) \<le> 0xffffffff"
proof -
  show lt: "unat (drop_bit (unat (rt_shift rt)) (v - rt_start rt)) < 2 ^ 32"
    using assms by (simp only: unat_drop_bit_word bound_legal_def)
  then show "drop_bit (unat (rt_shift rt)) (v - rt_start rt) \<le> 0xffffffff"
    unfolding word_le_nat_alt by simp
qed

lemma bound_asserts:
  assumes "bound_legal rt v"
  shows "ASSERT3U nd v (\<ge>) (rt_start rt) = Some ()"
    and "ASSERT nd (IS_P2ALIGNED v (push_bit (unat (rt_shift rt)) 1)) = Some ()"
    and "ASSERT3U nd (rst_value (rt_type rt)) (\<le>) (rst_value ZFS_RANGE_SEG_NUM_TYPES) = Some ()"
proof -
  show "ASSERT3U nd v (\<ge>) (rt_start rt) = Some ()"
    using assms by (simp add: bound_legal_def ASSERT3U_ok)
  have "IS_P2ALIGNED v (2 ^ unat (rt_shift rt))"
    using assms by (simp only: bound_legal_def IS_P2ALIGNED_iff)
  then show "ASSERT nd (IS_P2ALIGNED v (push_bit (unat (rt_shift rt)) 1)) = Some ()" by simp
  show "ASSERT3U nd (rst_value (rt_type rt)) (\<le>) (rst_value ZFS_RANGE_SEG_NUM_TYPES) = Some ()"
    by (cases "rt_type rt") (simp_all add: ASSERT3U_ok)
qed

lemma type_assert: "ASSERT3U nd (rst_value ty) (\<le>) (rst_value ZFS_RANGE_SEG_NUM_TYPES) = Some ()"
  by (cases ty) (simp_all add: ASSERT3U_ok)

text \<open>A segment's bounds in units, and their replacement.\<close>

fun seg_start_raw :: "zfs_range_seg_t \<Rightarrow> u64" where
  "seg_start_raw (Seg32 r) = ucast (rs32_start r)"
| "seg_start_raw (Seg64 r) = rs64_start r"
| "seg_start_raw (SegGap r) = rsg_start r"

fun seg_end_raw :: "zfs_range_seg_t \<Rightarrow> u64" where
  "seg_end_raw (Seg32 r) = ucast (rs32_end r)"
| "seg_end_raw (Seg64 r) = rs64_end r"
| "seg_end_raw (SegGap r) = rsg_end r"

fun put_start :: "u64 \<Rightarrow> zfs_range_seg_t \<Rightarrow> zfs_range_seg_t" where
  "put_start w (Seg32 r) = Seg32 (r\<lparr>rs32_start := ucast w\<rparr>)"
| "put_start w (Seg64 r) = Seg64 (r\<lparr>rs64_start := w\<rparr>)"
| "put_start w (SegGap r) = SegGap (r\<lparr>rsg_start := w\<rparr>)"

fun put_end :: "u64 \<Rightarrow> zfs_range_seg_t \<Rightarrow> zfs_range_seg_t" where
  "put_end w (Seg32 r) = Seg32 (r\<lparr>rs32_end := ucast w\<rparr>)"
| "put_end w (Seg64 r) = Seg64 (r\<lparr>rs64_end := w\<rparr>)"
| "put_end w (SegGap r) = SegGap (r\<lparr>rsg_end := w\<rparr>)"

definition unit_of :: "('bt, 'ops, 'arg) zfs_range_tree_t \<Rightarrow> u64 \<Rightarrow> u64" where
  "unit_of rt v = drop_bit (unat (rt_shift rt)) (v - rt_start rt)"

lemma seg_put [simp]:
  "seg_end_raw (put_start w rs) = seg_end_raw rs \<and> seg_start_raw (put_end w rs) = seg_start_raw rs \<and>
   put_start w (put_start w' rs) = put_start w rs \<and> put_end w (put_end w' rs) = put_end w rs"
  by (cases rs) simp_all

lemma seg_fits_put [simp]:
  "seg_fits ty (put_start w rs) = seg_fits ty rs \<and> seg_fits ty (put_end w rs) = seg_fits ty rs"
  by (cases ty; cases rs) simp_all

lemma seg_put_same:
  assumes "seg_fits ty rs" and "ty = ZFS_RANGE_SEG32 \<longrightarrow> unat w < 2 ^ 32"
  shows "seg_start_raw (put_start w rs) = w \<and> seg_end_raw (put_end w rs) = w"
  using assms by (cases ty; cases rs) (simp_all add: ucast_ucast_32)

definition rs_start_val :: "('bt, 'ops, 'arg) zfs_range_tree_t \<Rightarrow> zfs_range_seg_t \<Rightarrow> u64" where
  "rs_start_val rt rs = the (zfs_rs_get_start False rs rt)"

definition rs_end_val :: "('bt, 'ops, 'arg) zfs_range_tree_t \<Rightarrow> zfs_range_seg_t \<Rightarrow> u64" where
  "rs_end_val rt rs = the (zfs_rs_get_end False rs rt)"

lemma rs_get_raw:
  assumes "seg_fits (rt_type rt) rs"
  shows "zfs_rs_get_start_raw nd rs rt = Some (seg_start_raw rs)"
    and "zfs_rs_get_end_raw nd rs rt = Some (seg_end_raw rs)"
proof -
  show "zfs_rs_get_start_raw nd rs rt = Some (seg_start_raw rs)"
    unfolding zfs_rs_get_start_raw_def type_assert
    using assms by (cases "rt_type rt"; cases rs) simp_all
  show "zfs_rs_get_end_raw nd rs rt = Some (seg_end_raw rs)"
    unfolding zfs_rs_get_end_raw_def type_assert
    using assms by (cases "rt_type rt"; cases rs) simp_all
qed

lemma rs_vals:
  assumes "seg_fits (rt_type rt) rs"
  shows "rs_start_val rt rs = push_bit (unat (rt_shift rt)) (seg_start_raw rs) + rt_start rt"
    and "rs_end_val rt rs = push_bit (unat (rt_shift rt)) (seg_end_raw rs) + rt_start rt"
  by (simp_all add: rs_start_val_def rs_end_val_def zfs_rs_get_start_def zfs_rs_get_end_def
      rs_get_raw [OF assms])

lemma rs_getters_defined:
  assumes "seg_fits (rt_type rt) rs"
  shows "zfs_rs_get_start nd rs rt = Some (rs_start_val rt rs)"
    and "zfs_rs_get_end nd rs rt = Some (rs_end_val rt rs)"
  by (simp_all add: zfs_rs_get_start_def zfs_rs_get_end_def rs_get_raw [OF assms] rs_vals [OF assms])

lemma unit_ok: "bound_legal rt v \<Longrightarrow> rt_type rt = ZFS_RANGE_SEG32 \<longrightarrow> unat (unit_of rt v) < 2 ^ 32"
  unfolding unit_of_def using bound_raw_32(1) by blast

lemma set_start_eq:
  assumes "seg_fits (rt_type rt) rs" and "bound_legal rt v"
  shows "zfs_rs_set_start nd rs rt v = Some (put_start (unit_of rt v) rs)"
proof -
  have A: "ASSERT3U nd (unit_of rt v) (\<le>) 0xffffffff = Some ()" if "rt_type rt = ZFS_RANGE_SEG32"
    unfolding unit_of_def using bound_raw_32(2) [OF assms(2) that] by (rule ASSERT3U_ok)
  have raw: "zfs_rs_set_start_raw nd rs rt (unit_of rt v) = Some (put_start (unit_of rt v) rs)"
    unfolding zfs_rs_set_start_raw_def type_assert
    using assms(1) A by (cases "rt_type rt"; cases rs) simp_all
  show ?thesis
    unfolding zfs_rs_set_start_def bound_asserts [OF assms(2)]
    using raw by (simp add: unit_of_def)
qed

lemma set_end_eq:
  assumes "seg_fits (rt_type rt) rs" and "bound_legal rt v"
  shows "zfs_rs_set_end nd rs rt v = Some (put_end (unit_of rt v) rs)"
proof -
  have A: "ASSERT3U nd (unit_of rt v) (\<le>) 0xffffffff = Some ()" if "rt_type rt = ZFS_RANGE_SEG32"
    unfolding unit_of_def using bound_raw_32(2) [OF assms(2) that] by (rule ASSERT3U_ok)
  have raw: "zfs_rs_set_end_raw nd rs rt (unit_of rt v) = Some (put_end (unit_of rt v) rs)"
    unfolding zfs_rs_set_end_raw_def type_assert
    using assms(1) A by (cases "rt_type rt"; cases rs) simp_all
  show ?thesis
    unfolding zfs_rs_set_end_def bound_asserts [OF assms(2)]
    using raw by (simp add: unit_of_def)
qed

lemma bound_back: "bound_legal rt v \<Longrightarrow> push_bit (unat (rt_shift rt)) (unit_of rt v) + rt_start rt = v"
  unfolding unit_of_def by (rule bound_stored)

interpretation rs_start: accessor_pair "seg_fits (rt_type rt)" "rs_start_val rt"
    "\<lambda>nd rs v. zfs_rs_set_start nd rs rt v" "bound_legal rt" "rs_end_val rt"
    for rt :: "('bt, 'ops, 'arg) zfs_range_tree_t"
  by unfold_locales (auto simp: set_start_eq rs_vals seg_put_same [OF _ unit_ok] bound_back)

interpretation rs_end: accessor_pair "seg_fits (rt_type rt)" "rs_end_val rt"
    "\<lambda>nd rs v. zfs_rs_set_end nd rs rt v" "bound_legal rt" "rs_start_val rt"
    for rt :: "('bt, 'ops, 'arg) zfs_range_tree_t"
  by unfold_locales (auto simp: set_end_eq rs_vals seg_put_same [OF _ unit_ok] bound_back)

section \<open>Properties\<close>

text \<open>For a segment of the tree's representation and bounds at or above the tree's start that
  are multiples of its unit (and whose distance from the start is below 2^32 units in a 32-bit
  tree), setting the start and the end fires no assertion, and both read back.\<close>

theorem range_seg_bounds_roundtrip:
  assumes "seg_fits (rt_type rt) rs" and "bound_legal rt s" and "bound_legal rt e"
  shows "\<exists>rs1 rs2. zfs_rs_set_start nd rs rt s = Some rs1 \<and> zfs_rs_set_end nd rs1 rt e = Some rs2 \<and>
    zfs_rs_get_start nd rs2 rt = Some s \<and> zfs_rs_get_end nd rs2 rt = Some e"
proof -
  obtain rs1 where 1: "zfs_rs_set_start nd rs rt s = Some rs1" "rs_start_val rt rs1 = s" "seg_fits (rt_type rt) rs1"
    using rs_start.build_irrelevant [OF assms(1,2)] by blast
  obtain rs2 where 2: "zfs_rs_set_end nd rs1 rt e = Some rs2" "rs_end_val rt rs2 = e"
      "rs_start_val rt rs2 = rs_start_val rt rs1"
    using rs_end.set_keeps_other [OF 1(3) assms(3)] by blast
  have "seg_fits (rt_type rt) rs2" using rs_end.inv_set [OF 1(3) assms(3) 2(1)] .
  then show ?thesis using 1 2 by (auto simp: rs_getters_defined)
qed

definition demo_tree :: "(unit, unit, unit) zfs_range_tree_t" where
  "demo_tree = \<lparr>rt_root = (), rt_space = 0, rt_type = ZFS_RANGE_SEG32, rt_shift = 9, rt_start = 0x100000,
     rt_ops = (), rt_arg = (), rt_gap = 0, rt_flags = 0, rt_name = None, rt_histogram = []\<rparr>"

theorem range_seg_bounds_roundtrip_witness:
  "\<exists>rs1 rs2. zfs_rs_set_start False (Seg32 \<lparr>rs32_start = 0, rs32_end = 0\<rparr>) demo_tree 0x100200 = Some rs1 \<and>
    zfs_rs_set_end False rs1 demo_tree 0x10000100000 = Some rs2 \<and>
    zfs_rs_get_start False rs2 demo_tree = Some 0x100200 \<and> zfs_rs_get_end False rs2 demo_tree = Some 0x10000100000"
  by (rule range_seg_bounds_roundtrip) (simp_all add: demo_tree_def bound_legal_def)

text \<open>The fill of a segment: a gap segment stores any multiple of the unit, the other two
  kinds store none and accept exactly the length of the segment when assertions are compiled in
  (any value when they are not), and the fill of a 64-bit segment then is its length.\<close>

theorem range_seg_fill:
  assumes "seg_fits (rt_type rt) rs" and "2 ^ unat (rt_shift rt) dvd unat fill"
  shows "(rt_type rt = ZFS_RANGE_SEG_GAP \<longrightarrow>
      (\<exists>rs'. zfs_rs_set_fill nd rs rt fill = Some rs' \<and> zfs_rs_get_fill nd rs' rt = Some fill)) \<and>
    (rt_type rt = ZFS_RANGE_SEG64 \<longrightarrow>
      zfs_rs_set_fill True rs rt fill = Some rs \<and>
      (zfs_rs_set_fill False rs rt fill \<noteq> None \<longrightarrow> zfs_rs_get_fill nd rs rt = Some fill))"
proof -
  let ?k = "unat (rt_shift rt)"
  have al: "IS_P2ALIGNED fill (2 ^ ?k)" using assms(2) by (simp only: IS_P2ALIGNED_iff)
  have "unat (push_bit ?k (drop_bit ?k fill)) = unat fill"
    using assms(2) unsigned_less [of fill, where ?'a = nat]
    by (subst unat_push_bit_word) (simp_all only: unat_drop_bit_word dvd_div_mult_self)
  then have restore: "push_bit ?k (drop_bit ?k fill) = fill" by (simp only: word_unat_eq_iff)
  have gap: "\<exists>rs'. zfs_rs_set_fill nd rs rt fill = Some rs' \<and> zfs_rs_get_fill nd rs' rt = Some fill"
    if "rt_type rt = ZFS_RANGE_SEG_GAP"
    using assms(1) al restore that
    by (cases rs) (simp_all add: zfs_rs_set_fill_def zfs_rs_set_fill_raw_def zfs_rs_get_fill_def
        zfs_rs_get_fill_raw_def ASSERT3U_ok)
  have seg64: "zfs_rs_set_fill True rs rt fill = Some rs \<and>
      (zfs_rs_set_fill False rs rt fill \<noteq> None \<longrightarrow> zfs_rs_get_fill nd rs rt = Some fill)"
    if ty: "rt_type rt = ZFS_RANGE_SEG64"
  proof -
    obtain r where r: "rs = Seg64 r" using assms(1) ty by (cases rs) simp_all
    have "zfs_rs_set_fill True rs rt fill = Some rs"
      using ty al by (simp add: zfs_rs_set_fill_def zfs_rs_set_fill_raw_def ASSERT3U_def)
    moreover have "zfs_rs_get_fill nd rs rt = Some fill" if f: "zfs_rs_set_fill False rs rt fill \<noteq> None"
    proof -
      have "drop_bit ?k fill = rs64_end r - rs64_start r"
        using f al ty rs_get_raw [OF assms(1), of False] unfolding r
        by (auto simp: zfs_rs_set_fill_def zfs_rs_set_fill_raw_def ASSERT3U_def VERIFY3U_def split: if_splits)
      then show ?thesis
        using ty restore unfolding r
        by (simp add: zfs_rs_get_fill_def zfs_rs_get_fill_raw_def ASSERT3U_ok)
    qed
    ultimately show ?thesis by blast
  qed
  show ?thesis using gap seg64 by blast
qed

theorem range_seg_fill_witness:
  "\<exists>rs'. zfs_rs_set_fill False (SegGap \<lparr>rsg_start = 0, rsg_end = 8, rsg_fill = 0\<rparr>)
      (demo_tree\<lparr>rt_type := ZFS_RANGE_SEG_GAP\<rparr>) 1024 = Some rs' \<and>
    zfs_rs_get_fill False rs' (demo_tree\<lparr>rt_type := ZFS_RANGE_SEG_GAP\<rparr>) = Some 1024"
  using range_seg_fill [of "demo_tree\<lparr>rt_type := ZFS_RANGE_SEG_GAP\<rparr>"
      "SegGap \<lparr>rsg_start = 0, rsg_end = 8, rsg_fill = 0\<rparr>" 1024 False]
  by (simp add: demo_tree_def)

end
