(* ===== verification/Btree_Search.thy ===== *)
theory Btree_Search
  imports Prelude
begin

text \<open>
  The search inside a B-tree node (\<open>ZFS_BTREE_FIND_IN_BUF_FUNC\<close> of
  \<open>compat/openzfs/sys/btree.h\<close>), Shar's branch-free binary search, with the comparator
  \<open>TREE_CMP\<close> of \<open>avl.h\<close>. A pointer into the buffer is an index; reading beyond the buffer
  has no result. The comparator's contract is the locale \<open>comparator\<close>.
\<close>

section \<open>The macro\<close>

definition elem_at :: "'a list \<Rightarrow> nat \<Rightarrow> 'a option" where
  "elem_at buf k = (if k < length buf then Some (buf ! k) else None)"

definition TREE_CMP :: "'a::linorder \<Rightarrow> 'a \<Rightarrow> int" where
  "TREE_CMP a b = of_bool (a > b) - of_bool (a < b)"

lemma half_less: "1 < (n :: u32) \<Longrightarrow> unat (n - n div 2) = unat n - unat n div 2"
proof -
  have "n div 2 \<le> n" by (simp add: word_le_nat_alt unat_div_distrib)
  then show ?thesis by (simp add: unat_sub unat_div_distrib)
qed

text \<open>The loop, on the index \<open>i\<close> and the \<open>uint32_t\<close> \<open>nelems\<close>.\<close>

function shar_loop :: "('a \<Rightarrow> 'v \<Rightarrow> int) \<Rightarrow> 'a list \<Rightarrow> 'v \<Rightarrow> nat \<Rightarrow> u32 \<Rightarrow> nat option" where
  "shar_loop COMP buf v i nelems =
    (if nelems > 1 then
       let half = nelems div 2; nelems = nelems - half in do {
         x \<leftarrow> elem_at buf (i + unat half - 1);
         shar_loop COMP buf v (i + of_bool (COMP x v < 0) * unat half) nelems }
     else Some i)"
  by pat_completeness auto

termination
  by (relation "measure (\<lambda>(_, _, _, _, n). unat n)") (auto simp: half_less word_less_nat_alt)

declare shar_loop.simps [simp del]

text \<open>\<open>where\<close> of the C code.\<close>

record bt_where =
  bti_offset :: u32
  bti_before :: bool

definition find_in_buf :: "('a \<Rightarrow> 'v \<Rightarrow> int) \<Rightarrow> 'a list \<Rightarrow> u32 \<Rightarrow> 'v \<Rightarrow> (nat option \<times> bt_where) option" where
  "find_in_buf COMP buf nelems v = do {
     i \<leftarrow> shar_loop COMP buf v 0 nelems;
     x \<leftarrow> elem_at buf i;
     let comp = COMP x v;
     let wh = \<lparr>bti_offset = of_nat (i + of_bool (comp < 0)), bti_before = (comp \<noteq> 0)\<rparr>;
     if comp = 0 then Some (Some i, wh) else Some (None, wh) }"

section \<open>The loop finds the partition point\<close>

text \<open>The number of leading elements below the value; in a sorted buffer they are all of them.\<close>

definition below :: "('a \<Rightarrow> 'v \<Rightarrow> int) \<Rightarrow> 'a list \<Rightarrow> 'v \<Rightarrow> nat" where
  "below COMP buf v = length (takeWhile (\<lambda>x. COMP x v < 0) buf)"

lemma below_sign:
  fixes COMP :: "'a \<Rightarrow> 'v \<Rightarrow> int" and v :: 'v
  assumes "sorted_wrt (\<lambda>a b. COMP a v \<le> COMP b v) buf" and "k < length buf"
  shows "COMP (buf ! k) v < 0 \<longleftrightarrow> k < below COMP buf v"
proof
  assume "k < below COMP buf v"
  then show "COMP (buf ! k) v < 0"
    unfolding below_def by (metis nth_mem set_takeWhileD takeWhile_nth)
next
  assume neg: "COMP (buf ! k) v < 0"
  show "k < below COMP buf v"
  proof (rule ccontr)
    assume "\<not> k < below COMP buf v"
    then have le: "below COMP buf v \<le> k" and lt: "below COMP buf v < length buf" using assms(2) by auto
    have p: "\<not> COMP (buf ! below COMP buf v) v < 0"
      using nth_length_takeWhile [of "\<lambda>x. COMP x v < 0" buf] lt by (simp add: below_def)
    have "COMP (buf ! below COMP buf v) v \<le> COMP (buf ! k) v"
      using le sorted_wrt_nth_less [OF assms(1) _ assms(2), of "below COMP buf v"]
      by (cases "below COMP buf v = k") auto
    with p neg show False by simp
  qed
qed

lemma below_le: "below COMP buf v \<le> length buf"
  by (simp add: below_def length_takeWhile_le)

lemma shar_loop_partition:
  assumes "sorted_wrt (\<lambda>a b. COMP a v \<le> COMP b v) buf"
    and "1 \<le> nelems" and "i + unat nelems \<le> length buf" and "i \<le> below COMP buf v"
    and "below COMP buf v < i + unat nelems \<or> below COMP buf v = length buf \<and> i + unat nelems = length buf"
  shows "shar_loop COMP buf v i nelems = Some (min (below COMP buf v) (length buf - 1))"
  using assms(2-)
proof (induction "unat nelems" arbitrary: i nelems rule: less_induct)
  case less
  let ?p = "below COMP buf v"
  show ?case
  proof (cases "1 < nelems")
    case True
    define half where "half = unat nelems div 2"
    let ?n' = "nelems - nelems div 2"
    have n: "2 \<le> unat nelems" using True by (simp add: word_less_nat_alt)
    have half: "unat (nelems div 2) = half" by (simp add: half_def unat_div_distrib)
    have n': "unat ?n' = unat nelems - half" using half_less [OF True] by (simp add: half_def)
    have bounds: "1 \<le> half" "half \<le> unat nelems - half" "half < unat nelems"
      using n by (simp_all add: half_def)
    have smaller: "unat ?n' < unat nelems" "1 \<le> ?n'"
      using n' bounds by (simp_all add: word_le_nat_alt)
    have lt: "i + half - 1 < length buf" using less.prems(2) bounds by linarith
    have sgn: "COMP (buf ! (i + half - 1)) v < 0 \<longleftrightarrow> i + half \<le> ?p"
      using below_sign [where COMP = COMP and v = v, OF assms(1) lt] bounds(1) by linarith
    have "shar_loop COMP buf v (i + of_bool (COMP (buf ! (i + half - 1)) v < 0) * half) ?n' =
        Some (min ?p (length buf - 1))"
      using less.prems(2-4) n' bounds sgn
      by (intro less.hyps smaller; cases "i + half \<le> ?p") simp_all
    then show ?thesis
      using True lt by (subst shar_loop.simps) (simp add: half elem_at_def Let_def)
  next
    case False
    then have "nelems = 1" using less.prems(1) by simp
    then show ?thesis
      using less.prems(2-4) by (subst shar_loop.simps) auto
  qed
qed

section \<open>Comparators\<close>

text \<open>
  What the macro asks of \<open>COMP\<close>: exactly -1, 0 or 1, and the order of a strict weak
  ordering. In a buffer sorted by it the signs against any value are sorted.
\<close>

locale comparator =
  fixes COMP :: "'a \<Rightarrow> 'a \<Rightarrow> int"
  assumes comp_sign: "COMP a b \<in> {-1, 0, 1}"
    and comp_opposite: "COMP b a = - COMP a b"
    and comp_trans: "COMP a b < 0 \<Longrightarrow> COMP b c < 0 \<Longrightarrow> COMP a c < 0"
    and comp_equal: "COMP a b = 0 \<Longrightarrow> COMP a c = COMP b c"
begin

lemma sorted_signs:
  assumes "sorted_wrt (\<lambda>a b. COMP a b < 0) buf"
  shows "sorted_wrt (\<lambda>a b. COMP a v \<le> COMP b v) buf"
proof (rule sorted_wrt_mono_rel [OF _ assms])
  fix a b assume ab: "COMP a b < 0"
  show "COMP a v \<le> COMP b v"
  proof (rule ccontr)
    assume gt: "\<not> COMP a v \<le> COMP b v"
    have "COMP a v \<in> {-1, 0, 1}" "COMP b v \<in> {-1, 0, 1}" by (rule comp_sign)+
    with gt consider "COMP b v < 0" | "COMP b v = 0" "COMP a v > 0" by auto
    then show False
    proof cases
      case 1
      with comp_trans [OF ab] have "COMP a v < 0" by blast
      with 1 gt comp_sign [of a v] comp_sign [of b v] show False by auto
    next
      case 2
      have "COMP v a = COMP b a" using comp_equal [of b v a] 2(1) by simp
      then show False using comp_opposite [of a b] comp_opposite [of a v] ab 2(2) by simp
    qed
  qed
qed

lemma found_iff:
  assumes "sorted_wrt (\<lambda>a b. COMP a b < 0) buf"
  shows "(\<exists>x\<in>set buf. COMP x v = 0) \<longleftrightarrow> below COMP buf v < length buf \<and> COMP (buf ! below COMP buf v) v = 0"
proof
  assume "\<exists>x\<in>set buf. COMP x v = 0"
  then obtain k where k: "k < length buf" "COMP (buf ! k) v = 0" by (auto simp: in_set_conv_nth)
  have le: "below COMP buf v \<le> k"
    using below_sign [where COMP = COMP and v = v, OF sorted_signs [OF assms] k(1)] k(2) by simp
  then have lt: "below COMP buf v < length buf" using k(1) by simp
  have "COMP (buf ! below COMP buf v) v \<le> COMP (buf ! k) v"
    using le sorted_wrt_nth_less [OF sorted_signs [OF assms, of v] _ k(1), of "below COMP buf v"]
    by (cases "below COMP buf v = k") auto
  moreover have "\<not> COMP (buf ! below COMP buf v) v < 0"
    using below_sign [where COMP = COMP and v = v, OF sorted_signs [OF assms] lt] by simp
  ultimately show "below COMP buf v < length buf \<and> COMP (buf ! below COMP buf v) v = 0"
    using lt k(2) by simp
qed (auto intro: nth_mem)

lemma find_in_buf_result:
  assumes "sorted_wrt (\<lambda>a b. COMP a b < 0) buf" and "1 \<le> nelems" and "unat nelems = length buf"
  shows "find_in_buf COMP buf nelems v =
    (let p = below COMP buf v; found = (\<exists>x\<in>set buf. COMP x v = 0)
     in Some (if found then Some p else None, \<lparr>bti_offset = of_nat p, bti_before = (\<not> found)\<rparr>))"
proof -
  let ?p = "below COMP buf v"
  note signs = sorted_signs [OF assms(1), of v]
  have len: "0 < length buf" using assms(2,3) by (cases buf) (simp_all add: word_le_nat_alt)
  have le: "?p \<le> length buf" by (rule below_le)
  have loop: "shar_loop COMP buf v 0 nelems = Some (min ?p (length buf - 1))"
    by (rule shar_loop_partition [where COMP = COMP and v = v, OF signs assms(2)]) (use assms(3) le in auto)
  show ?thesis
  proof (cases "?p < length buf")
    case True
    then have i: "min ?p (length buf - 1) = ?p" by simp
    have "\<not> COMP (buf ! ?p) v < 0" using below_sign [where COMP = COMP and v = v, OF signs True] by simp
    then show ?thesis
      using True i found_iff [OF assms(1), of v] by (simp add: find_in_buf_def loop elem_at_def Let_def)
  next
    case False
    then have p: "?p = length buf" using le by simp
    have "COMP (buf ! (length buf - 1)) v < 0"
      using below_sign [where COMP = COMP and v = v, OF signs, of "length buf - 1"] p len by simp
    then show ?thesis
      using p len found_iff [OF assms(1), of v]
      by (cases "length buf") (simp_all add: find_in_buf_def loop elem_at_def Let_def ac_simps)
  qed
qed

end

lemma TREE_CMP_less: "TREE_CMP a b < 0 \<longleftrightarrow> a < b"
  by (auto simp: TREE_CMP_def)

lemma TREE_CMP_zero: "TREE_CMP a b = 0 \<longleftrightarrow> a = b"
  by (cases a b rule: linorder_cases) (auto simp: TREE_CMP_def)

interpretation tree_cmp: comparator "TREE_CMP :: 'a::linorder \<Rightarrow> 'a \<Rightarrow> int"
proof unfold_locales
  show "TREE_CMP a b \<in> {-1, 0, 1}" for a b :: 'a
    by (cases a b rule: linorder_cases) (auto simp: TREE_CMP_def)
  show "TREE_CMP b a = - TREE_CMP a b" for a b :: 'a
    by (simp add: TREE_CMP_def)
qed (auto simp: TREE_CMP_zero TREE_CMP_less)

section \<open>Properties\<close>

text \<open>In any non-empty node buffer whose signs against the value are sorted, the branch-free
  loop reads no element outside the buffer, ends, and stops at the first element that is not
  below the value, or at the last element when all are.\<close>

theorem shar_search_partition:
  assumes "sorted_wrt (\<lambda>a b. COMP a v \<le> COMP b v) buf" and "1 \<le> nelems" and "unat nelems = length buf"
  shows "shar_loop COMP buf v 0 nelems =
    Some (min (length (takeWhile (\<lambda>x. COMP x v < 0) buf)) (length buf - 1))"
  using shar_loop_partition [where COMP = COMP and v = v, OF assms(1,2), of 0] below_le [of COMP buf v] assms(3)
  by (fastforce simp: below_def)

theorem shar_search_partition_witness:
  "shar_loop TREE_CMP [2, 4, 6, 8, 10 :: nat] 7 0 5 = Some 3"
  using shar_search_partition [of TREE_CMP 7 "[2, 4, 6, 8, 10 :: nat]" 5]
  by (simp add: TREE_CMP_def)

text \<open>C21. The node search with the standard comparator on a strictly sorted buffer returns the
  element equal to the value when there is one and nothing otherwise, and in both cases the
  number of smaller elements as the offset, marked as an insertion point exactly when nothing
  was found: the same as a linear scan.\<close>

theorem find_in_buf_is_linear_scan:
  fixes buf :: "'a::linorder list"
  assumes "sorted_wrt (<) buf" and "1 \<le> nelems" and "unat nelems = length buf"
  shows "find_in_buf TREE_CMP buf nelems v =
    Some (if v \<in> set buf then Some (length (takeWhile (\<lambda>x. x < v) buf)) else None,
          \<lparr>bti_offset = of_nat (length (takeWhile (\<lambda>x. x < v) buf)), bti_before = (v \<notin> set buf)\<rparr>)"
  using tree_cmp.find_in_buf_result [of buf nelems v] assms
  by (simp add: TREE_CMP_less TREE_CMP_zero below_def Let_def)

theorem find_in_buf_is_linear_scan_witness:
  "find_in_buf TREE_CMP [10, 20, 30 :: nat] 3 20 = Some (Some 1, \<lparr>bti_offset = 1, bti_before = False\<rparr>) \<and>
   find_in_buf TREE_CMP [10, 20, 30 :: nat] 3 31 = Some (None, \<lparr>bti_offset = 3, bti_before = True\<rparr>)"
  using find_in_buf_is_linear_scan [of "[10, 20, 30 :: nat]" 3 20] find_in_buf_is_linear_scan [of "[10, 20, 30 :: nat]" 3 31]
  by simp

end
