(* ===== verification/Avl_Node.thy ===== *)
theory Avl_Node
  imports Bitops
begin

unbundle bit_operations_syntax

text \<open>
  The packed AVL node of 64-bit hosts (\<open>compat/openzfs/sys/avl_impl.h\<close>, \<open>_LP64\<close>): parent
  pointer, child index and balance in one word, and the index and node/data conversions.
  Pointers are 64-bit words, a node's address being a multiple of 8.
\<close>

section \<open>The node\<close>

record avl_node =
  avl_child0 :: u64
  avl_child1 :: u64
  avl_pcb :: u64

definition AVL_XPARENT :: "avl_node \<Rightarrow> u64" where
  "AVL_XPARENT n = avl_pcb n AND NOT 7"

definition AVL_SETPARENT :: "avl_node \<Rightarrow> u64 \<Rightarrow> avl_node" where
  "AVL_SETPARENT n p = n\<lparr>avl_pcb := (avl_pcb n AND 7) OR p\<rparr>"

definition AVL_XCHILD :: "avl_node \<Rightarrow> u64" where
  "AVL_XCHILD n = drop_bit 2 (avl_pcb n) AND 1"

definition AVL_SETCHILD :: "avl_node \<Rightarrow> u64 \<Rightarrow> avl_node" where
  "AVL_SETCHILD n c = n\<lparr>avl_pcb := (avl_pcb n AND NOT 4) OR push_bit 2 c\<rparr>"

definition AVL_XBALANCE :: "avl_node \<Rightarrow> int" where
  "AVL_XBALANCE n = sint (ucast ((avl_pcb n AND 3) - 1) :: u32)"

definition AVL_SETBALANCE :: "avl_node \<Rightarrow> int \<Rightarrow> avl_node" where
  "AVL_SETBALANCE n b = n\<lparr>avl_pcb := (avl_pcb n AND NOT 3) OR of_int (b + 1)\<rparr>"

section \<open>Conversions\<close>

definition AVL_NODE2DATA :: "u64 \<Rightarrow> u64 \<Rightarrow> u64" where "AVL_NODE2DATA n off = n - off"
definition AVL_DATA2NODE :: "u64 \<Rightarrow> u64 \<Rightarrow> u64" where "AVL_DATA2NODE d off = d + off"
definition AVL_INDEX2NODE :: "u64 \<Rightarrow> u64" where "AVL_INDEX2NODE x = x AND NOT 1"
definition AVL_INDEX2CHILD :: "u64 \<Rightarrow> u64" where "AVL_INDEX2CHILD x = x AND 1"
definition AVL_MKINDEX :: "u64 \<Rightarrow> u64 \<Rightarrow> u64" where "AVL_MKINDEX n c = n OR c"

section \<open>The three fields, bit by bit\<close>

text \<open>Bits 3 to 63, bit 2, and bits 0 and 1.\<close>

lemma avl_masks: "(7 :: u64) = mask 3" "(3 :: u64) = mask 2" "(1 :: u64) = mask 1"
  by (simp_all add: mask_numeral)

lemma bit_seven: "bit (7 :: u64) n \<longleftrightarrow> n < 3"
  unfolding avl_masks(1) by (simp only: bit_mask_iff) (auto simp: possible_bit_def)

lemma bit_three: "bit (3 :: u64) n \<longleftrightarrow> n < 2"
  unfolding avl_masks(2) by (simp only: bit_mask_iff) (auto simp: possible_bit_def)

lemma bit_four: "bit (4 :: u64) n \<longleftrightarrow> n = 2"
proof -
  have "(4 :: u64) = 2 ^ 2" by simp
  then have "bit (4 :: u64) n \<longleftrightarrow> possible_bit TYPE(64 word) n \<and> n = 2" by (simp only: bit_exp_iff)
  then show ?thesis by (auto simp: possible_bit_def)
qed

definition node_ptr :: "u64 \<Rightarrow> bool" where "node_ptr p \<longleftrightarrow> p AND 7 = 0"

lemma node_ptr_bit: "node_ptr p \<Longrightarrow> bit p n \<Longrightarrow> \<not> n < 3"
  unfolding node_ptr_def by (metis bit_and_iff bit_seven bit_0_eq bot_apply bot_bool_def)

lemma child_bit: "c < 2 \<Longrightarrow> bit (c :: u64) n \<longleftrightarrow> n = 0 \<and> c = 1"
proof -
  assume "c < 2"
  then have "c = 0 \<or> c = 1" by (simp add: word_less_nat_alt word_unat_eq_iff) linarith
  then show ?thesis by (auto simp: bit_1_iff)
qed

definition balance_bits :: "avl_node \<Rightarrow> u64" where "balance_bits n = avl_pcb n AND 3"

lemma bit_pcb_getters:
  "bit (AVL_XPARENT n) k \<longleftrightarrow> bit (avl_pcb n) k \<and> \<not> k < 3"
  "bit (AVL_XCHILD n) k \<longleftrightarrow> k = 0 \<and> bit (avl_pcb n) 2"
  "bit (balance_bits n) k \<longleftrightarrow> bit (avl_pcb n) k \<and> k < 2"
proof -
  show "bit (AVL_XPARENT n) k \<longleftrightarrow> bit (avl_pcb n) k \<and> \<not> k < 3"
    unfolding AVL_XPARENT_def by (simp only: bit_and_iff bit_not_iff bit_seven) (auto dest: bit_imp_possible_bit)
  show "bit (AVL_XCHILD n) k \<longleftrightarrow> k = 0 \<and> bit (avl_pcb n) 2"
    unfolding AVL_XCHILD_def by (auto simp: bit_and_iff bit_1_iff bit_drop_bit_eq numeral_2_eq_2)
  show "bit (balance_bits n) k \<longleftrightarrow> bit (avl_pcb n) k \<and> k < 2"
    unfolding balance_bits_def by (simp only: bit_and_iff bit_three)
qed

lemma bit_pcb_setters:
  "bit (avl_pcb (AVL_SETPARENT n p)) k \<longleftrightarrow> bit (avl_pcb n) k \<and> k < 3 \<or> bit p k"
  "c < 2 \<Longrightarrow> bit (avl_pcb (AVL_SETCHILD n c)) k \<longleftrightarrow> (if k = 2 then c = 1 else bit (avl_pcb n) k)"
  "bit (avl_pcb (AVL_SETBALANCE n b)) k \<longleftrightarrow> bit (avl_pcb n) k \<and> \<not> k < 2 \<or> bit (of_int (b + 1) :: u64) k"
proof -
  show "bit (avl_pcb (AVL_SETPARENT n p)) k \<longleftrightarrow> bit (avl_pcb n) k \<and> k < 3 \<or> bit p k"
  proof -
    have "avl_pcb (AVL_SETPARENT n p) = (avl_pcb n AND 7) OR p" by (simp add: AVL_SETPARENT_def)
    then show ?thesis by (simp only: bit_and_iff bit_or_iff bit_seven)
  qed
  have "bit (avl_pcb (AVL_SETCHILD n c)) k \<longleftrightarrow>
      bit (avl_pcb n) k \<and> possible_bit TYPE(64 word) k \<and> k \<noteq> 2 \<or> bit (push_bit 2 c) k"
  proof -
    have "avl_pcb (AVL_SETCHILD n c) = (avl_pcb n AND NOT 4) OR push_bit 2 c" by (simp only: AVL_SETCHILD_def) simp
    then show ?thesis by (simp only: bit_and_iff bit_or_iff bit_not_iff bit_four)
  qed
  then show "c < 2 \<Longrightarrow> bit (avl_pcb (AVL_SETCHILD n c)) k \<longleftrightarrow> (if k = 2 then c = 1 else bit (avl_pcb n) k)"
    by (auto simp: bit_push_bit_iff child_bit dest: bit_imp_possible_bit)
  have "bit (avl_pcb (AVL_SETBALANCE n b)) k \<longleftrightarrow>
      bit (avl_pcb n) k \<and> possible_bit TYPE(64 word) k \<and> \<not> k < 2 \<or> bit (of_int (b + 1) :: u64) k"
  proof -
    have "avl_pcb (AVL_SETBALANCE n b) = (avl_pcb n AND NOT 3) OR of_int (b + 1)" by (simp only: AVL_SETBALANCE_def) simp
    then show ?thesis by (simp only: bit_and_iff bit_or_iff bit_not_iff bit_three)
  qed
  then show "bit (avl_pcb (AVL_SETBALANCE n b)) k \<longleftrightarrow> bit (avl_pcb n) k \<and> \<not> k < 2 \<or> bit (of_int (b + 1) :: u64) k"
    by (auto dest: bit_imp_possible_bit)
qed

lemmas pcb_bits = bit_pcb_getters bit_pcb_setters

lemma balance_value: "AVL_XBALANCE n = int (unat (balance_bits n)) - 1"
proof -
  let ?w = "avl_pcb n AND 3"
  have "unat ?w < 2 ^ 2"
    by (rule no_bits_unat_less) (simp only: bit_and_iff bit_three, simp)
  then have "unat ?w = 0 \<or> unat ?w = 1 \<or> unat ?w = 2 \<or> unat ?w = 3" by simp arith
  then have "?w = 0 \<or> ?w = 1 \<or> ?w = 2 \<or> ?w = 3" by (simp add: word_unat_eq_iff)
  moreover have "(ucast (- 1 :: u64) :: u32) = - 1"
    by (rule bit_word_eqI) (simp add: bit_simps)
  ultimately show ?thesis unfolding AVL_XBALANCE_def balance_bits_def by (elim disjE) simp_all
qed

lemma setparent_fields:
  assumes "node_ptr p"
  shows "AVL_XPARENT (AVL_SETPARENT n p) = p" and "AVL_XCHILD (AVL_SETPARENT n p) = AVL_XCHILD n"
    and "balance_bits (AVL_SETPARENT n p) = balance_bits n"
proof -
  have low: "\<not> bit p k" if "k < 3" for k using node_ptr_bit [OF assms] that by blast
  show "AVL_XPARENT (AVL_SETPARENT n p) = p"
    by (rule bit_word_eqI) (use low in \<open>auto simp: pcb_bits\<close>)
  show "AVL_XCHILD (AVL_SETPARENT n p) = AVL_XCHILD n"
    by (rule bit_word_eqI) (use low [of 2] in \<open>auto simp: pcb_bits\<close>)
  show "balance_bits (AVL_SETPARENT n p) = balance_bits n"
    by (rule bit_word_eqI) (simp add: pcb_bits, use low in force)
qed

lemma setchild_fields:
  assumes "c < 2"
  shows "AVL_XPARENT (AVL_SETCHILD n c) = AVL_XPARENT n" and "AVL_XCHILD (AVL_SETCHILD n c) = c"
    and "balance_bits (AVL_SETCHILD n c) = balance_bits n"
  by (rule bit_word_eqI; use assms in \<open>auto simp: pcb_bits child_bit\<close>)+

lemma setbalance_fields:
  assumes "b \<in> {-1, 0, 1}"
  shows "AVL_XPARENT (AVL_SETBALANCE n b) = AVL_XPARENT n"
    and "AVL_XCHILD (AVL_SETBALANCE n b) = AVL_XCHILD n"
    and "balance_bits (AVL_SETBALANCE n b) = of_int (b + 1)"
proof -
  have "(of_int (b + 1) :: u64) = 0 \<or> (of_int (b + 1) :: u64) = 2 ^ 0 \<or> (of_int (b + 1) :: u64) = 2 ^ 1"
    using assms by auto
  then have bits: "bit (of_int (b + 1) :: u64) k \<Longrightarrow> k < 2" for k
    by (elim disjE) (simp_all only: bit_exp_iff, simp_all)
  show "AVL_XPARENT (AVL_SETBALANCE n b) = AVL_XPARENT n"
    by (rule bit_word_eqI) (use bits in \<open>fastforce simp only: pcb_bits\<close>)
  show "AVL_XCHILD (AVL_SETBALANCE n b) = AVL_XCHILD n"
    by (rule bit_word_eqI) (use bits [of 2] in \<open>auto simp only: pcb_bits\<close>)
  show "balance_bits (AVL_SETBALANCE n b) = of_int (b + 1)"
    by (rule bit_word_eqI) (use bits in \<open>fastforce simp only: pcb_bits\<close>)
qed

lemma set_set_pcb:
  "node_ptr p \<Longrightarrow> AVL_SETPARENT (AVL_SETPARENT n p) q = AVL_SETPARENT n q"
  "c < 2 \<Longrightarrow> d < 2 \<Longrightarrow> AVL_SETCHILD (AVL_SETCHILD n c) d = AVL_SETCHILD n d"
proof -
  assume p: "node_ptr p"
  have "avl_pcb (AVL_SETPARENT (AVL_SETPARENT n p) q) = avl_pcb (AVL_SETPARENT n q)"
    by (rule bit_word_eqI) (use node_ptr_bit [OF p] in \<open>auto simp: pcb_bits\<close>)
  then show "AVL_SETPARENT (AVL_SETPARENT n p) q = AVL_SETPARENT n q"
    by (simp add: AVL_SETPARENT_def)
next
  assume c: "c < 2" "d < 2"
  have "avl_pcb (AVL_SETCHILD (AVL_SETCHILD n c) d) = avl_pcb (AVL_SETCHILD n d)"
    by (rule bit_word_eqI) (use c in \<open>simp add: pcb_bits\<close>)
  then show "AVL_SETCHILD (AVL_SETCHILD n c) d = AVL_SETCHILD n d"
    by (simp add: AVL_SETCHILD_def)
qed

interpretation avl_parent: accessor_pair "\<lambda>_. True" AVL_XPARENT "\<lambda>_ n p. Some (AVL_SETPARENT n p)" node_ptr
    "\<lambda>n. (AVL_XCHILD n, AVL_XBALANCE n)"
  by unfold_locales (auto simp: setparent_fields setchild_fields balance_value set_set_pcb)

interpretation avl_child: accessor_pair "\<lambda>_. True" AVL_XCHILD "\<lambda>_ n c. Some (AVL_SETCHILD n c)" "\<lambda>c. c < 2"
    "\<lambda>n. (AVL_XPARENT n, AVL_XBALANCE n)"
  by unfold_locales (auto simp: setparent_fields setchild_fields balance_value set_set_pcb)

section \<open>Properties\<close>

text \<open>The parent pointer, the child index and the balance of a packed node are independent:
  for an 8-aligned parent, a child index 0 or 1 and a balance -1, 0 or 1 each setter makes its
  own field read back and leaves the other two as they were.\<close>

theorem avl_pcb_fields_independent:
  assumes "node_ptr p" and "c < 2" and "b \<in> {-1, 0, 1}"
  shows "(AVL_XPARENT (AVL_SETPARENT n p) = p \<and> AVL_XCHILD (AVL_SETPARENT n p) = AVL_XCHILD n \<and>
      AVL_XBALANCE (AVL_SETPARENT n p) = AVL_XBALANCE n) \<and>
    (AVL_XPARENT (AVL_SETCHILD n c) = AVL_XPARENT n \<and> AVL_XCHILD (AVL_SETCHILD n c) = c \<and>
      AVL_XBALANCE (AVL_SETCHILD n c) = AVL_XBALANCE n) \<and>
    (AVL_XPARENT (AVL_SETBALANCE n b) = AVL_XPARENT n \<and> AVL_XCHILD (AVL_SETBALANCE n b) = AVL_XCHILD n \<and>
      AVL_XBALANCE (AVL_SETBALANCE n b) = b)"
proof -
  have "AVL_XBALANCE (AVL_SETBALANCE n b) = b"
    using assms(3) by (auto simp: balance_value setbalance_fields(3))
  then show ?thesis
    using setparent_fields [OF assms(1), of n] setchild_fields [OF assms(2), of n] assms
      setbalance_fields(1,2) [OF assms(3), of n] by (simp add: balance_value)
qed

theorem avl_pcb_fields_independent_witness:
  "AVL_XBALANCE (AVL_SETBALANCE \<lparr>avl_child0 = 0, avl_child1 = 0, avl_pcb = 0x1007\<rparr> (-1)) = -1 \<and>
   AVL_XPARENT (AVL_SETBALANCE \<lparr>avl_child0 = 0, avl_child1 = 0, avl_pcb = 0x1007\<rparr> (-1)) = 0x1000"
  using avl_pcb_fields_independent [of "0x2000" 1 "-1" "\<lparr>avl_child0 = 0, avl_child1 = 0, avl_pcb = 0x1007\<rparr>"]
  by (simp add: node_ptr_def AVL_XPARENT_def)

text \<open>An index made of a node address and a child number gives both back, and converting
  between a node and the data it is embedded in is a bijection for any offset.\<close>

theorem avl_index_roundtrip:
  assumes "node_ptr n" and "c < 2"
  shows "AVL_INDEX2NODE (AVL_MKINDEX n c) = n \<and> AVL_INDEX2CHILD (AVL_MKINDEX n c) = c \<and>
    AVL_DATA2NODE (AVL_NODE2DATA n off) off = n"
proof (intro conjI)
  show "AVL_INDEX2NODE (AVL_MKINDEX n c) = n"
    unfolding AVL_INDEX2NODE_def AVL_MKINDEX_def
    by (rule bit_word_eqI, simp only: bit_and_iff bit_or_iff bit_not_iff bit_1_iff child_bit [OF assms(2)])
      (use node_ptr_bit [OF assms(1), of 0] in \<open>auto simp: possible_bit_def intro: gr0I\<close>)
  show "AVL_INDEX2CHILD (AVL_MKINDEX n c) = c"
    unfolding AVL_INDEX2CHILD_def AVL_MKINDEX_def
    by (rule bit_word_eqI, simp only: bit_and_iff bit_or_iff bit_1_iff child_bit [OF assms(2)])
      (use node_ptr_bit [OF assms(1), of 0] in auto)
qed (simp add: AVL_DATA2NODE_def AVL_NODE2DATA_def)

theorem avl_index_roundtrip_witness:
  "AVL_INDEX2CHILD (AVL_MKINDEX 0x7f0010 1) = 1"
  using avl_index_roundtrip [of "0x7f0010" 1] by (simp add: node_ptr_def)

end
