(* ===== verification/Zap_Leaf.thy ===== *)
theory Zap_Leaf
  imports Prelude
begin

unbundle bit_operations_syntax

text \<open>
  The geometry of a ZAP leaf block (\<open>compat/openzfs/sys/zap_leaf.h\<close>): header, hash table and
  24-byte chunks, in \<open>unsigned int\<close> arithmetic, with the structures of the block. The block
  shift \<open>bs\<close> is the argument of the macros.
\<close>

section \<open>Macros\<close>

definition ZAP_LEAF_MAGIC :: u32 where "ZAP_LEAF_MAGIC = 0x2AB1EAF"
definition ZAP_LEAF_CHUNKSIZE :: u32 where "ZAP_LEAF_CHUNKSIZE = 24"

definition ZAP_LEAF_HASH_SHIFT_BS :: "nat \<Rightarrow> nat" where
  "ZAP_LEAF_HASH_SHIFT_BS bs = bs - 5"

definition ZAP_LEAF_HASH_NUMENTRIES_BS :: "nat \<Rightarrow> u32" where
  "ZAP_LEAF_HASH_NUMENTRIES_BS bs = push_bit (ZAP_LEAF_HASH_SHIFT_BS bs) 1"

definition ZAP_LEAF_NUMCHUNKS_BS :: "nat \<Rightarrow> u32" where
  "ZAP_LEAF_NUMCHUNKS_BS bs =
    (push_bit bs 1 - 2 * ZAP_LEAF_HASH_NUMENTRIES_BS bs) div ZAP_LEAF_CHUNKSIZE - 2"

definition ZAP_LEAF_ARRAY_BYTES :: u32 where "ZAP_LEAF_ARRAY_BYTES = ZAP_LEAF_CHUNKSIZE - 3"

definition ZAP_LEAF_ARRAY_NCHUNKS :: "u32 \<Rightarrow> u32" where
  "ZAP_LEAF_ARRAY_NCHUNKS bytes = (bytes + ZAP_LEAF_ARRAY_BYTES - 1) div ZAP_LEAF_ARRAY_BYTES"

definition ZAP_LEAF_LOW_WATER :: u32 where "ZAP_LEAF_LOW_WATER = 20"
definition ZLF_ENTRIES_CDSORTED :: u8 where "ZLF_ENTRIES_CDSORTED = push_bit 0 1"

section \<open>Structures\<close>

definition ZAP_CHUNK_FREE :: u8 where "ZAP_CHUNK_FREE = 253"
definition ZAP_CHUNK_ENTRY :: u8 where "ZAP_CHUNK_ENTRY = 252"
definition ZAP_CHUNK_ARRAY :: u8 where "ZAP_CHUNK_ARRAY = 251"
definition ZAP_CHUNK_TYPE_MAX :: u8 where "ZAP_CHUNK_TYPE_MAX = 250"

record zap_leaf_header =
  lh_block_type :: u64
  lh_pad1 :: u64
  lh_prefix :: u64
  lh_magic :: u32
  lh_nfree :: u16
  lh_nentries :: u16
  lh_prefix_len :: u16
  lh_freelist :: u16
  lh_flags :: u8
  lh_pad2 :: "u8 list"

record zap_leaf_entry =
  le_type :: u8
  le_value_intlen :: u8
  le_next :: u16
  le_name_chunk :: u16
  le_name_numints :: u16
  le_value_chunk :: u16
  le_value_numints :: u16
  le_cd :: u32
  le_hash :: u64

record zap_leaf_array =
  la_type :: u8
  la_array :: "u8 list"
  la_next :: u16

record zap_leaf_free =
  lf_type :: u8
  lf_pad :: "u8 list"
  lf_next :: u16

text \<open>The union is read through the member its type byte names.\<close>

datatype zap_leaf_chunk = L_Entry zap_leaf_entry | L_Array zap_leaf_array | L_Free zap_leaf_free

definition sizeof_zap_leaf_header :: nat where "sizeof_zap_leaf_header = 3 * 8 + 4 + 4 * 2 + 1 + 11"
definition sizeof_zap_leaf_entry :: nat where "sizeof_zap_leaf_entry = 2 * 1 + 5 * 2 + 4 + 8"

text \<open>The byte offset of chunk \<open>idx\<close> in the block: after the header and the 16-bit hash table.\<close>

definition ZAP_LEAF_CHUNK :: "nat \<Rightarrow> nat \<Rightarrow> nat" where
  "ZAP_LEAF_CHUNK bs idx =
    sizeof_zap_leaf_header + 2 * unat (ZAP_LEAF_HASH_NUMENTRIES_BS bs) + 24 * idx"

section \<open>Meaning on natural numbers\<close>

text \<open>The block shifts for which the shift is defined in \<open>unsigned int\<close>, from the smallest block.\<close>

definition leaf_geometry :: "nat \<Rightarrow> bool" where
  "leaf_geometry bs \<longleftrightarrow>
    (let n = unat (ZAP_LEAF_HASH_NUMENTRIES_BS bs); c = unat (ZAP_LEAF_NUMCHUNKS_BS bs)
     in 48 + 2 * n + 24 * c \<le> 2 ^ bs \<and> 2 ^ bs < 48 + 2 * n + 24 * c + 24 \<and> c div 3 < n \<and> 1 \<le> c)"

lemma leaf_geometry_all: "\<forall>bs\<in>set [9..<32]. leaf_geometry bs"
  by (simp add: upt_rec leaf_geometry_def ZAP_LEAF_NUMCHUNKS_BS_def ZAP_LEAF_HASH_NUMENTRIES_BS_def
      ZAP_LEAF_HASH_SHIFT_BS_def ZAP_LEAF_CHUNKSIZE_def Let_def)

lemma sizeof_header: "sizeof_zap_leaf_header = 48" and sizeof_entry: "sizeof_zap_leaf_entry = 24"
  by (simp_all add: sizeof_zap_leaf_header_def sizeof_zap_leaf_entry_def)

lemma nchunks_value:
  assumes "unat bytes < 2 ^ 31"
  shows "unat (ZAP_LEAF_ARRAY_NCHUNKS bytes) = (unat bytes + 20) div 21"
proof -
  have "unat (20 + bytes) = unat bytes + 20"
    using unat_add_lem [of 20 bytes] assms by simp
  then show ?thesis
    by (simp add: ZAP_LEAF_ARRAY_NCHUNKS_def ZAP_LEAF_ARRAY_BYTES_def ZAP_LEAF_CHUNKSIZE_def unat_div_distrib)
qed

section \<open>Properties\<close>

text \<open>For every block of 512 bytes to 2G the header, the hash table and the chunks the macro
  counts fit in the block with less than one chunk to spare, all chunks lie inside the block, and
  the hash table has more entries than a third of the chunks, the most entries a leaf can hold.\<close>

theorem zap_leaf_fits:
  assumes "9 \<le> bs" and "bs < 32"
  shows "sizeof_zap_leaf_header + 2 * unat (ZAP_LEAF_HASH_NUMENTRIES_BS bs) + 24 * unat (ZAP_LEAF_NUMCHUNKS_BS bs)
      \<le> 2 ^ bs \<and>
    2 ^ bs < sizeof_zap_leaf_header + 2 * unat (ZAP_LEAF_HASH_NUMENTRIES_BS bs) +
      24 * (unat (ZAP_LEAF_NUMCHUNKS_BS bs) + 1) \<and>
    (\<forall>idx < unat (ZAP_LEAF_NUMCHUNKS_BS bs). ZAP_LEAF_CHUNK bs idx + sizeof_zap_leaf_entry \<le> 2 ^ bs) \<and>
    unat (ZAP_LEAF_NUMCHUNKS_BS bs) div 3 < unat (ZAP_LEAF_HASH_NUMENTRIES_BS bs)"
proof -
  have "bs \<in> set [9..<32]" using assms by (simp only: set_upt atLeastLessThan_iff)
  with leaf_geometry_all have g: "leaf_geometry bs" by (rule bspec)
  then show ?thesis
    by (auto simp: leaf_geometry_def Let_def sizeof_header sizeof_entry ZAP_LEAF_CHUNK_def)
qed

theorem zap_leaf_fits_witness:
  "ZAP_LEAF_CHUNK 14 600 + sizeof_zap_leaf_entry \<le> 16384"
proof -
  have "unat (ZAP_LEAF_NUMCHUNKS_BS 14) = 638"
    by (simp add: ZAP_LEAF_NUMCHUNKS_BS_def ZAP_LEAF_HASH_NUMENTRIES_BS_def ZAP_LEAF_HASH_SHIFT_BS_def
        ZAP_LEAF_CHUNKSIZE_def)
  then show ?thesis using zap_leaf_fits [of 14] by simp
qed

text \<open>The number of array chunks of a value is the least that holds its bytes at 21 to a
  chunk, and the low-water mark of 20 chunks covers the largest directory entry: one entry chunk,
  a 256-byte name and an 8-byte value.\<close>

theorem zap_array_chunks:
  assumes "unat bytes < 2 ^ 31"
  shows "unat bytes \<le> 21 * unat (ZAP_LEAF_ARRAY_NCHUNKS bytes) \<and>
    (\<forall>c. unat bytes \<le> 21 * c \<longrightarrow> unat (ZAP_LEAF_ARRAY_NCHUNKS bytes) \<le> c) \<and>
    1 + ZAP_LEAF_ARRAY_NCHUNKS 256 + ZAP_LEAF_ARRAY_NCHUNKS 8 \<le> ZAP_LEAF_LOW_WATER"
proof -
  have "1 + ZAP_LEAF_ARRAY_NCHUNKS 256 + ZAP_LEAF_ARRAY_NCHUNKS 8 \<le> ZAP_LEAF_LOW_WATER" by code_simp
  then show ?thesis unfolding nchunks_value [OF assms] by auto
qed

theorem zap_array_chunks_witness:
  "22 \<le> 21 * unat (ZAP_LEAF_ARRAY_NCHUNKS 22)"
  using zap_array_chunks [of 22] by simp

end
