(* ===== verification/Uberblock.thy ===== *)
theory Uberblock
  imports Blkptr_Fields
begin

unbundle bit_operations_syntax

text \<open>
  The uberblock (\<open>compat/openzfs/sys/uberblock_impl.h\<close>): the structure, the multihost
  configuration word with its valid bits, and the RAID-Z reflow word.
\<close>

section \<open>Structure and macros\<close>

definition UBERBLOCK_MAGIC :: u64 where "UBERBLOCK_MAGIC = 0x00bab10c"
definition UBERBLOCK_SHIFT :: nat where "UBERBLOCK_SHIFT = 10"
definition MMP_MAGIC :: u64 where "MMP_MAGIC = 0xa11cea11"
definition MMP_INTERVAL_VALID_BIT :: u64 where "MMP_INTERVAL_VALID_BIT = 0x01"
definition MMP_SEQ_VALID_BIT :: u64 where "MMP_SEQ_VALID_BIT = 0x02"
definition MMP_FAIL_INT_VALID_BIT :: u64 where "MMP_FAIL_INT_VALID_BIT = 0x04"

record uberblock =
  ub_magic :: u64
  ub_version :: u64
  ub_txg :: u64
  ub_guid_sum :: u64
  ub_timestamp :: u64
  ub_rootbp :: blkptr_t
  ub_software_version :: u64
  ub_mmp_magic :: u64
  ub_mmp_delay :: u64
  ub_mmp_config :: u64
  ub_checkpoint_txg :: u64
  ub_raidz_reflow_info :: u64

definition MMP_VALID :: "uberblock \<Rightarrow> bool" where
  "MMP_VALID ub \<longleftrightarrow> ub_magic ub = UBERBLOCK_MAGIC \<and> ub_mmp_magic ub = MMP_MAGIC"

definition MMP_INTERVAL_VALID :: "uberblock \<Rightarrow> bool" where
  "MMP_INTERVAL_VALID ub \<longleftrightarrow> MMP_VALID ub \<and> ub_mmp_config ub AND MMP_INTERVAL_VALID_BIT \<noteq> 0"

definition MMP_SEQ_VALID :: "uberblock \<Rightarrow> bool" where
  "MMP_SEQ_VALID ub \<longleftrightarrow> MMP_VALID ub \<and> ub_mmp_config ub AND MMP_SEQ_VALID_BIT \<noteq> 0"

definition MMP_FAIL_INT_VALID :: "uberblock \<Rightarrow> bool" where
  "MMP_FAIL_INT_VALID ub \<longleftrightarrow> MMP_VALID ub \<and> ub_mmp_config ub AND MMP_FAIL_INT_VALID_BIT \<noteq> 0"

definition MMP_INTERVAL :: "uberblock \<Rightarrow> u64" where
  "MMP_INTERVAL ub = drop_bit 8 (ub_mmp_config ub AND 0x00000000FFFFFF00)"

definition MMP_SEQ :: "uberblock \<Rightarrow> u64" where
  "MMP_SEQ ub = drop_bit 32 (ub_mmp_config ub AND 0x0000FFFF00000000)"

definition MMP_FAIL_INT :: "uberblock \<Rightarrow> u64" where
  "MMP_FAIL_INT ub = drop_bit 48 (ub_mmp_config ub AND 0xFFFF000000000000)"

definition MMP_INTERVAL_SET :: "u64 \<Rightarrow> u64" where
  "MMP_INTERVAL_SET w = push_bit 8 (w AND 0xFFFFFF) OR MMP_INTERVAL_VALID_BIT"

definition MMP_SEQ_SET :: "u64 \<Rightarrow> u64" where
  "MMP_SEQ_SET sq = push_bit 32 (sq AND 0xFFFF) OR MMP_SEQ_VALID_BIT"

definition MMP_FAIL_INT_SET :: "u64 \<Rightarrow> u64" where
  "MMP_FAIL_INT_SET fl = push_bit 48 (fl AND 0xFFFF) OR MMP_FAIL_INT_VALID_BIT"

section \<open>RAID-Z reflow\<close>

datatype raidz_reflow_scratch_state =
    RRSS_SCRATCH_NOT_IN_USE | RRSS_SCRATCH_VALID | RRSS_SCRATCH_INVALID_SYNCED
  | RRSS_SCRATCH_INVALID_SYNCED_ON_IMPORT | RRSS_SCRATCH_INVALID_SYNCED_REFLOW

fun rrss_value :: "raidz_reflow_scratch_state \<Rightarrow> u64" where
  "rrss_value RRSS_SCRATCH_NOT_IN_USE = 0" | "rrss_value RRSS_SCRATCH_VALID = 1"
| "rrss_value RRSS_SCRATCH_INVALID_SYNCED = 2" | "rrss_value RRSS_SCRATCH_INVALID_SYNCED_ON_IMPORT = 3"
| "rrss_value RRSS_SCRATCH_INVALID_SYNCED_REFLOW = 4"

definition RRSS_GET_OFFSET :: "uberblock \<Rightarrow> u64" where
  "RRSS_GET_OFFSET ub = BF64_GET_SB (ub_raidz_reflow_info ub) 0 55 SPA_MINBLOCKSHIFT 0"

definition RRSS_SET_OFFSET :: "bool \<Rightarrow> uberblock \<Rightarrow> u64 \<Rightarrow> uberblock option" where
  "RRSS_SET_OFFSET nd ub x = map_option (\<lambda>w. ub\<lparr>ub_raidz_reflow_info := w\<rparr>)
     (BF64_SET_SB nd (ub_raidz_reflow_info ub) 0 55 SPA_MINBLOCKSHIFT 0 x)"

definition RRSS_GET_STATE :: "uberblock \<Rightarrow> u64" where
  "RRSS_GET_STATE ub = BF64_GET (ub_raidz_reflow_info ub) 55 9"

definition RRSS_SET_STATE :: "bool \<Rightarrow> uberblock \<Rightarrow> u64 \<Rightarrow> uberblock option" where
  "RRSS_SET_STATE nd ub x = map_option (\<lambda>w. ub\<lparr>ub_raidz_reflow_info := w\<rparr>)
     (BF64_SET nd (ub_raidz_reflow_info ub) 55 9 x)"

definition RAIDZ_REFLOW_SET :: "bool \<Rightarrow> uberblock \<Rightarrow> u64 \<Rightarrow> u64 \<Rightarrow> uberblock option" where
  "RAIDZ_REFLOW_SET nd ub state offset = do {
     let ub = ub\<lparr>ub_raidz_reflow_info := 0\<rparr>;
     ub \<leftarrow> RRSS_SET_OFFSET nd ub offset;
     RRSS_SET_STATE nd ub state }"

interpretation rrss_word: packed_word ub_raidz_reflow_info "\<lambda>w ub. ub\<lparr>ub_raidz_reflow_info := w\<rparr>"
  by unfold_locales simp_all

lemmas RRSS_defs = RRSS_GET_OFFSET_def RRSS_SET_OFFSET_def RRSS_GET_STATE_def RRSS_SET_STATE_def spa_defs

lemma rrss_offset_accessor: "accessor (\<lambda>_. True) RRSS_GET_OFFSET RRSS_SET_OFFSET (sb_legal 55 9 0)"
  by (rule accessor_field_SB [OF rrss_word.packed_word_axioms]) (simp_all add: RRSS_defs)

lemma rrss_state_accessor: "accessor (\<lambda>_. True) RRSS_GET_STATE RRSS_SET_STATE (\<lambda>v. v < 2 ^ 9)"
  by (rule accessor_field [OF rrss_word.packed_word_axioms]) (simp_all add: RRSS_defs)

interpretation rrss_offset: accessor_pair "\<lambda>_. True" RRSS_GET_OFFSET RRSS_SET_OFFSET "sb_legal 55 9 0"
    "\<lambda>ub. (RRSS_GET_STATE ub, ub\<lparr>ub_raidz_reflow_info := 0\<rparr>)"
  by (intro accessor_pair.intro accessor_pair_axioms.intro rrss_offset_accessor)
    (auto simp: RRSS_defs BF64_SET_SB_Some get_put_disjoint)

interpretation rrss_state: accessor_pair "\<lambda>_. True" RRSS_GET_STATE RRSS_SET_STATE "\<lambda>v. v < 2 ^ 9"
    "\<lambda>ub. (RRSS_GET_OFFSET ub, ub\<lparr>ub_raidz_reflow_info := 0\<rparr>)"
  by (intro accessor_pair.intro accessor_pair_axioms.intro rrss_state_accessor)
    (auto simp: RRSS_defs BF64_SET_Some BF64_GET_SB_def get_put_disjoint)

section \<open>The configuration word in terms of fields\<close>

lemma and_field_mask: "drop_bit low (x AND push_bit low (mask len)) = BF64_DECODE x low len"
  by (rule bit_word_eqI)
    (auto simp: BF64_DECODE_take_drop bit_and_iff bit_drop_bit_eq bit_push_bit_iff bit_mask_iff bit_take_bit_iff
      possible_bit_def dest: bit_imp_le_length)

lemma mmp_getters:
  "MMP_INTERVAL ub = BF64_DECODE (ub_mmp_config ub) 8 24"
  "MMP_SEQ ub = BF64_DECODE (ub_mmp_config ub) 32 16"
  "MMP_FAIL_INT ub = BF64_DECODE (ub_mmp_config ub) 48 16"
  unfolding and_field_mask [symmetric] MMP_INTERVAL_def MMP_SEQ_def MMP_FAIL_INT_def
  by (simp_all add: mask_numeral)

lemma mmp_setters:
  "MMP_INTERVAL_SET w = BF64_ENCODE w 8 24 OR BF64_ENCODE 1 0 1"
  "MMP_SEQ_SET w = BF64_ENCODE w 32 16 OR BF64_ENCODE 1 1 1"
  "MMP_FAIL_INT_SET w = BF64_ENCODE w 48 16 OR BF64_ENCODE 1 2 1"
  by (simp_all add: MMP_INTERVAL_SET_def MMP_SEQ_SET_def MMP_FAIL_INT_SET_def BF64_ENCODE_push_take
      take_bit_eq_mask mask_numeral MMP_INTERVAL_VALID_BIT_def MMP_SEQ_VALID_BIT_def MMP_FAIL_INT_VALID_BIT_def)

lemma and_bit_decode: "x AND 2 ^ n \<noteq> 0 \<longleftrightarrow> BF64_DECODE x n 1 \<noteq> (0 :: u64)"
proof -
  have "BF64_DECODE x n 1 = 0 \<longleftrightarrow> \<not> bit x n"
  proof
    assume "BF64_DECODE x n 1 = 0"
    then have "\<not> bit (BF64_DECODE x n 1) 0" by (simp only: bit_0_eq not_False_eq_True bot_apply bot_bool_def)
    then show "\<not> bit x n" by (simp add: BF64_DECODE_take_drop bit_take_bit_iff bit_iff_odd_drop_bit)
  next
    assume "\<not> bit x n"
    then show "BF64_DECODE x n 1 = 0"
      by (intro bit_word_eqI) (auto simp only: BF64_DECODE_take_drop bit_take_bit_iff bit_drop_bit_eq
        bit_0_eq bot_apply bot_bool_def less_one add_0_right o_apply)
  qed
  then show ?thesis by (simp add: and_flag_nonzero)
qed

section \<open>Properties\<close>

text \<open>A multihost configuration word put together from a write interval of 24 bits, a sequence
  number of 16 bits and a fail-interval count of 16 bits reads back as the three values, all
  valid in an uberblock with both magic numbers, with the reserved bits clear.\<close>

theorem mmp_config_roundtrip:
  assumes "w < 2 ^ 24" and "s < 2 ^ 16" and "f < 2 ^ 16"
    and "ub_mmp_config ub = MMP_INTERVAL_SET w OR MMP_SEQ_SET s OR MMP_FAIL_INT_SET f"
    and "MMP_VALID ub"
  shows "MMP_INTERVAL ub = w \<and> MMP_SEQ ub = s \<and> MMP_FAIL_INT ub = f \<and>
    MMP_INTERVAL_VALID ub \<and> MMP_SEQ_VALID ub \<and> MMP_FAIL_INT_VALID ub \<and>
    BF64_DECODE (ub_mmp_config ub) 3 5 = 0"
proof -
  have bits: "MMP_INTERVAL_VALID_BIT = 2 ^ 0" "MMP_SEQ_VALID_BIT = 2 ^ 1" "MMP_FAIL_INT_VALID_BIT = 2 ^ 2"
    by (simp_all add: MMP_INTERVAL_VALID_BIT_def MMP_SEQ_VALID_BIT_def MMP_FAIL_INT_VALID_BIT_def)
  have d: "BF64_DECODE (ub_mmp_config ub) low len =
      BF64_DECODE (BF64_ENCODE w 8 24) low len OR BF64_DECODE (BF64_ENCODE 1 0 1) low len OR
      BF64_DECODE (BF64_ENCODE s 32 16) low len OR BF64_DECODE (BF64_ENCODE 1 1 1) low len OR
      BF64_DECODE (BF64_ENCODE f 48 16) low len OR BF64_DECODE (BF64_ENCODE 1 2 1) low len" for low len
    unfolding assms(4) mmp_setters by (simp only: decode_or or.assoc)
  show ?thesis
    using assms(1-3,5)
    unfolding mmp_getters MMP_INTERVAL_VALID_def MMP_SEQ_VALID_def MMP_FAIL_INT_VALID_def bits
      and_bit_decode d
    by (simp add: decode_encode_same decode_encode_other)
qed

definition demo_uberblock :: "u64 \<Rightarrow> uberblock" where
  "demo_uberblock cfg = \<lparr>ub_magic = UBERBLOCK_MAGIC, ub_version = 5000, ub_txg = 4, ub_guid_sum = 3,
     ub_timestamp = 2, ub_rootbp = demo_bp, ub_software_version = 5000, ub_mmp_magic = MMP_MAGIC,
     ub_mmp_delay = 0, ub_mmp_config = cfg, ub_checkpoint_txg = 0, ub_raidz_reflow_info = 1\<rparr>"

theorem mmp_config_roundtrip_witness:
  "MMP_SEQ (demo_uberblock (MMP_INTERVAL_SET 1000 OR MMP_SEQ_SET 7 OR MMP_FAIL_INT_SET 10)) = 7"
proof -
  let ?ub = "demo_uberblock (MMP_INTERVAL_SET 1000 OR MMP_SEQ_SET 7 OR MMP_FAIL_INT_SET 10)"
  have "ub_mmp_config ?ub = MMP_INTERVAL_SET 1000 OR MMP_SEQ_SET 7 OR MMP_FAIL_INT_SET 10" "MMP_VALID ?ub"
    by (simp_all add: demo_uberblock_def MMP_VALID_def)
  then show ?thesis using mmp_config_roundtrip [of 1000 7 10 ?ub] by simp
qed

text \<open>Setting the reflow information to a scratch state and an offset below 2^64 that is a
  multiple of 512 fires no assertion, and both read back.\<close>

theorem raidz_reflow_roundtrip:
  assumes "512 dvd unat off"
  shows "\<exists>ub'. RAIDZ_REFLOW_SET nd ub (rrss_value st) off = Some ub' \<and>
    RRSS_GET_STATE ub' = rrss_value st \<and> RRSS_GET_OFFSET ub' = off \<and>
    ub'\<lparr>ub_raidz_reflow_info := 0\<rparr> = ub\<lparr>ub_raidz_reflow_info := 0\<rparr>"
proof -
  have "unat off < 2 ^ 64" using unsigned_less [of off, where ?'a = nat] by simp
  then have "unat off div 512 < 2 ^ 55" by (simp add: div_less_iff_less_mult)
  then have off: "sb_legal 55 9 0 off" using assms by (simp add: sb_legal_def)
  have st: "rrss_value st < 2 ^ 9" by (cases st) simp_all
  let ?ub0 = "ub\<lparr>ub_raidz_reflow_info := 0\<rparr>"
  obtain ub1 where 1: "RRSS_SET_OFFSET nd ?ub0 off = Some ub1" "RRSS_GET_OFFSET ub1 = off"
      "ub1\<lparr>ub_raidz_reflow_info := 0\<rparr> = ?ub0"
    using rrss_offset.set_keeps_other [where s = ?ub0 and v = off and nd = nd] off by auto
  obtain ub2 where 2: "RRSS_SET_STATE nd ub1 (rrss_value st) = Some ub2" "RRSS_GET_STATE ub2 = rrss_value st"
      "RRSS_GET_OFFSET ub2 = RRSS_GET_OFFSET ub1" "ub2\<lparr>ub_raidz_reflow_info := 0\<rparr> = ub1\<lparr>ub_raidz_reflow_info := 0\<rparr>"
    using rrss_state.set_keeps_other [where s = ub1 and v = "rrss_value st" and nd = nd] st by auto
  then show ?thesis using 1 2 by (simp add: RAIDZ_REFLOW_SET_def)
qed

theorem raidz_reflow_roundtrip_witness:
  "\<exists>ub'. RAIDZ_REFLOW_SET False (demo_uberblock 0) (rrss_value RRSS_SCRATCH_VALID) 0x8000000000000200 = Some ub' \<and>
    RRSS_GET_STATE ub' = 1 \<and> RRSS_GET_OFFSET ub' = 0x8000000000000200"
  using raidz_reflow_roundtrip [of "0x8000000000000200" False "demo_uberblock 0" RRSS_SCRATCH_VALID] by auto

end
