(* ===== verification/Spl_List.thy ===== *)
theory Spl_List
  imports Prelude
begin

text \<open>
  The Solaris list interface over the Linux kernel's intrusive lists
  (\<open>compat/openzfs/os/linux/spl/sys/list.h\<close>). Nodes live in a memory: an address has a next and
  a previous pointer, a list has an offset from an object to the node inside it, and the list's
  own node stands 8 bytes into the list.

  The functions of \<open>linux/list.h\<close> are not part of the repository; they are the record
  \<open>linux_list\<close>, their documented behaviour is the predicate \<open>linux_contract\<close> over rings of nodes,
  and \<open>kernel_list\<close> is an instance that meets it. The lemmas show that every operation keeps the
  representation of a list, does to it what its name says, and changes no node outside it; the
  contract of a double-ended queue is the locale \<open>deque\<close>, interpreted on the operations.
\<close>

section \<open>Memory and the kernel's functions\<close>

record list_mem =
  nxt :: "u64 \<Rightarrow> u64"
  prv :: "u64 \<Rightarrow> u64"
  offs :: "u64 \<Rightarrow> u64"

record linux_list =
  LIST_POISON1 :: u64
  LIST_POISON2 :: u64
  INIT_LIST_HEAD :: "u64 \<Rightarrow> list_mem \<Rightarrow> list_mem"
  list_add :: "u64 \<Rightarrow> u64 \<Rightarrow> list_mem \<Rightarrow> list_mem"
  list_add_tail :: "u64 \<Rightarrow> u64 \<Rightarrow> list_mem \<Rightarrow> list_mem"
  list_del :: "u64 \<Rightarrow> list_mem \<Rightarrow> list_mem"
  list_empty :: "u64 \<Rightarrow> list_mem \<Rightarrow> bool"
  list_splice_init :: "u64 \<Rightarrow> u64 \<Rightarrow> list_mem \<Rightarrow> list_mem"

definition set_nxt :: "u64 \<Rightarrow> u64 \<Rightarrow> list_mem \<Rightarrow> list_mem" where
  "set_nxt n x m = m\<lparr>nxt := (nxt m)(n := x)\<rparr>"

definition set_prv :: "u64 \<Rightarrow> u64 \<Rightarrow> list_mem \<Rightarrow> list_mem" where
  "set_prv n x m = m\<lparr>prv := (prv m)(n := x)\<rparr>"

lemma set_ptr_simps [simp]:
  "nxt (set_nxt n x m) = (nxt m)(n := x)" "prv (set_nxt n x m) = prv m" "offs (set_nxt n x m) = offs m"
  "nxt (set_prv n x m) = nxt m" "prv (set_prv n x m) = (prv m)(n := x)" "offs (set_prv n x m) = offs m"
  by (simp_all add: set_nxt_def set_prv_def)

section \<open>The operations\<close>

text \<open>The address of the member \<open>list_head\<close> of a list.\<close>

definition list_head_node :: "u64 \<Rightarrow> u64" where
  "list_head_node l = l + 8"

definition list_d2l :: "list_mem \<Rightarrow> u64 \<Rightarrow> u64 \<Rightarrow> u64" where
  "list_d2l m a obj = obj + offs m a"

definition list_object :: "list_mem \<Rightarrow> u64 \<Rightarrow> u64 \<Rightarrow> u64" where
  "list_object m a node = node - offs m a"

definition list_is_empty :: "linux_list \<Rightarrow> u64 \<Rightarrow> list_mem \<Rightarrow> bool" where
  "list_is_empty K l m = list_empty K (list_head_node l) m"

definition list_link_init :: "linux_list \<Rightarrow> u64 \<Rightarrow> list_mem \<Rightarrow> list_mem" where
  "list_link_init K node m = set_prv node (LIST_POISON2 K) (set_nxt node (LIST_POISON1 K) m)"

definition list_create :: "linux_list \<Rightarrow> u64 \<Rightarrow> u64 \<Rightarrow> u64 \<Rightarrow> list_mem \<Rightarrow> list_mem" where
  "list_create K l sz offset m =
    INIT_LIST_HEAD K (list_head_node l) (m\<lparr>offs := (offs m)(l := offset)\<rparr>)"

definition list_destroy :: "linux_list \<Rightarrow> u64 \<Rightarrow> list_mem \<Rightarrow> list_mem" where
  "list_destroy K l m = list_del K (list_head_node l) m"

definition list_insert_head :: "linux_list \<Rightarrow> u64 \<Rightarrow> u64 \<Rightarrow> list_mem \<Rightarrow> list_mem" where
  "list_insert_head K l obj m = list_add K (list_d2l m l obj) (list_head_node l) m"

definition list_insert_tail :: "linux_list \<Rightarrow> u64 \<Rightarrow> u64 \<Rightarrow> list_mem \<Rightarrow> list_mem" where
  "list_insert_tail K l obj m = list_add_tail K (list_d2l m l obj) (list_head_node l) m"

definition list_insert_after :: "linux_list \<Rightarrow> u64 \<Rightarrow> u64 \<Rightarrow> u64 \<Rightarrow> list_mem \<Rightarrow> list_mem" where
  "list_insert_after K l obj nobj m =
    (if obj = 0 then list_insert_head K l nobj m
     else list_add K (list_d2l m l nobj) (list_d2l m l obj) m)"

definition list_insert_before :: "linux_list \<Rightarrow> u64 \<Rightarrow> u64 \<Rightarrow> u64 \<Rightarrow> list_mem \<Rightarrow> list_mem" where
  "list_insert_before K l obj nobj m =
    (if obj = 0 then list_insert_tail K l nobj m
     else list_add_tail K (list_d2l m l nobj) (list_d2l m l obj) m)"

definition list_remove :: "linux_list \<Rightarrow> u64 \<Rightarrow> u64 \<Rightarrow> list_mem \<Rightarrow> list_mem" where
  "list_remove K l obj m = list_del K (list_d2l m l obj) m"

definition list_remove_head :: "linux_list \<Rightarrow> u64 \<Rightarrow> list_mem \<Rightarrow> u64 \<times> list_mem" where
  "list_remove_head K l m =
    (let head = nxt m (list_head_node l)
     in if head = list_head_node l then (0, m)
        else let m' = list_del K head m in (list_object m' l head, m'))"

definition list_remove_tail :: "linux_list \<Rightarrow> u64 \<Rightarrow> list_mem \<Rightarrow> u64 \<times> list_mem" where
  "list_remove_tail K l m =
    (let tail = prv m (list_head_node l)
     in if tail = list_head_node l then (0, m)
        else let m' = list_del K tail m in (list_object m' l tail, m'))"

definition list_head :: "linux_list \<Rightarrow> u64 \<Rightarrow> list_mem \<Rightarrow> u64" where
  "list_head K l m = (if list_is_empty K l m then 0 else list_object m l (nxt m (list_head_node l)))"

definition list_tail :: "linux_list \<Rightarrow> u64 \<Rightarrow> list_mem \<Rightarrow> u64" where
  "list_tail K l m = (if list_is_empty K l m then 0 else list_object m l (prv m (list_head_node l)))"

definition list_next :: "u64 \<Rightarrow> u64 \<Rightarrow> list_mem \<Rightarrow> u64" where
  "list_next l obj m =
    (let node = list_d2l m l obj
     in if nxt m node \<noteq> list_head_node l then list_object m l (nxt m node) else 0)"

definition list_prev :: "u64 \<Rightarrow> u64 \<Rightarrow> list_mem \<Rightarrow> u64" where
  "list_prev l obj m =
    (let node = list_d2l m l obj
     in if prv m node \<noteq> list_head_node l then list_object m l (prv m node) else 0)"

definition list_link_active :: "linux_list \<Rightarrow> bool \<Rightarrow> u64 \<Rightarrow> list_mem \<Rightarrow> bool option" where
  "list_link_active K nd node m = do {
     ASSERT nd ((nxt m node = LIST_POISON1 K) = (prv m node = LIST_POISON2 K));
     Some (nxt m node \<noteq> LIST_POISON1 K) }"

definition list_move_tail :: "linux_list \<Rightarrow> u64 \<Rightarrow> u64 \<Rightarrow> list_mem \<Rightarrow> list_mem" where
  "list_move_tail K dst src m = list_splice_init K (list_head_node src) (prv m (list_head_node dst)) m"

definition list_link_replace :: "linux_list \<Rightarrow> u64 \<Rightarrow> u64 \<Rightarrow> list_mem \<Rightarrow> list_mem" where
  "list_link_replace K old_node new_node m =
    (let m = set_nxt new_node (nxt m old_node) m;
         m = set_prv new_node (prv m old_node) m;
         m = set_nxt (prv m old_node) new_node m;
         m = set_prv (nxt m old_node) new_node m
     in list_link_init K old_node m)"

section \<open>Rings of nodes\<close>

text \<open>\<open>chain m a ns b\<close>: from \<open>a\<close> through \<open>ns\<close> to \<open>b\<close> every link is present in both directions.\<close>

fun chain :: "list_mem \<Rightarrow> u64 \<Rightarrow> u64 list \<Rightarrow> u64 \<Rightarrow> bool" where
  "chain m a [] b \<longleftrightarrow> nxt m a = b \<and> prv m b = a"
| "chain m a (n # ns) b \<longleftrightarrow> nxt m a = n \<and> prv m n = a \<and> chain m n ns b"

definition ring :: "list_mem \<Rightarrow> u64 list \<Rightarrow> bool" where
  "ring m ns \<longleftrightarrow> ns \<noteq> [] \<and> distinct ns \<and> chain m (hd ns) (tl ns) (hd ns)"

lemma chain_append: "chain m a (xs @ y # ys) b \<longleftrightarrow> chain m a xs y \<and> chain m y ys b"
  by (induction xs arbitrary: a) auto

lemma chain_cong:
  assumes "\<And>n. n \<in> insert a (set ns) \<Longrightarrow> nxt m' n = nxt m n" and "\<And>n. n \<in> insert b (set ns) \<Longrightarrow> prv m' n = prv m n"
  shows "chain m' a ns b = chain m a ns b"
  using assms by (induction ns arbitrary: a) auto

lemma chain_ends:
  "chain m a xs b \<Longrightarrow> nxt m a = hd (xs @ [b]) \<and> prv m (hd (xs @ [b])) = a \<and>
    nxt m (last (a # xs)) = b \<and> prv m b = last (a # xs)"
proof (induction xs arbitrary: a)
  case (Cons x xs)
  have c: "nxt m a = x \<and> prv m x = a \<and> chain m x xs b" using Cons.prems by (rule chain.simps [THEN iffD1])
  have "nxt m (last (x # xs)) = b \<and> prv m b = last (x # xs)" using Cons.IH [of x] c by blast
  then show ?case using c by (simp only: append_Cons list.sel last_ConsR list.simps simp_thms)
qed simp

lemma ring_Cons: "ring m (x # xs) \<longleftrightarrow> distinct (x # xs) \<and> chain m x xs x"
  by (simp add: ring_def)

lemma ring_rotate: "ring m (xs @ ys) \<longleftrightarrow> ring m (ys @ xs)"
proof (cases xs)
  case (Cons x xs')
  show ?thesis
  proof (cases ys)
    case (Cons y ys')
    have "distinct (xs @ ys) = distinct (ys @ xs)" by auto
    then show ?thesis
      using \<open>xs = x # xs'\<close> \<open>ys = y # ys'\<close> by (auto simp: ring_def chain_append)
  qed simp
qed simp

lemma ring_cong:
  assumes "\<And>n. n \<in> set ns \<Longrightarrow> nxt m' n = nxt m n \<and> prv m' n = prv m n"
  shows "ring m' ns = ring m ns"
proof (cases ns)
  case (Cons n ns')
  then have "chain m' n ns' n = chain m n ns' n" using assms by (intro chain_cong) auto
  then show ?thesis by (simp add: Cons ring_Cons)
qed (simp add: ring_def)

lemma ring_ends:
  "ring m (x # xs) \<Longrightarrow> nxt m x = hd (xs @ [x]) \<and> prv m x = last (x # xs)"
  using chain_ends [of m x xs x] by (simp add: ring_Cons)

section \<open>The contract of the kernel's functions\<close>

definition same_outside :: "u64 set \<Rightarrow> list_mem \<Rightarrow> list_mem \<Rightarrow> bool" where
  "same_outside S m m' \<longleftrightarrow> (\<forall>n. n \<notin> S \<longrightarrow> nxt m' n = nxt m n \<and> prv m' n = prv m n) \<and> offs m' = offs m"

text \<open>
  \<open>list_add\<close> inserts a new entry after the given one, \<open>list_add_tail\<close> before it, \<open>list_del\<close>
  takes an entry out of its ring and poisons it, \<open>list_splice_init\<close> joins a list after the
  given entry and reinitialises it; nothing else changes.
\<close>

definition init_ok :: "linux_list \<Rightarrow> bool" where
  "init_ok K \<longleftrightarrow>
    (\<forall>m x. ring (INIT_LIST_HEAD K x m) [x] \<and> same_outside {x} m (INIT_LIST_HEAD K x m))"

definition add_ok :: "linux_list \<Rightarrow> bool" where
  "add_ok K \<longleftrightarrow>
    (\<forall>m x xs n. ring m (x # xs) \<longrightarrow> n \<notin> set (x # xs) \<longrightarrow>
       ring (list_add K n x m) (x # n # xs) \<and> same_outside (set (n # x # xs)) m (list_add K n x m))"

definition add_tail_ok :: "linux_list \<Rightarrow> bool" where
  "add_tail_ok K \<longleftrightarrow>
    (\<forall>m x xs n. ring m (x # xs) \<longrightarrow> n \<notin> set (x # xs) \<longrightarrow>
       ring (list_add_tail K n x m) (x # xs @ [n]) \<and>
       same_outside (set (n # x # xs)) m (list_add_tail K n x m))"

definition del_ok :: "linux_list \<Rightarrow> bool" where
  "del_ok K \<longleftrightarrow>
    (\<forall>m x xs. ring m (x # xs) \<longrightarrow>
       (xs \<noteq> [] \<longrightarrow> ring (list_del K x m) xs) \<and>
       nxt (list_del K x m) x = LIST_POISON1 K \<and> prv (list_del K x m) x = LIST_POISON2 K \<and>
       same_outside (set (x # xs)) m (list_del K x m))"

definition empty_ok :: "linux_list \<Rightarrow> bool" where
  "empty_ok K \<longleftrightarrow> (\<forall>m x xs. ring m (x # xs) \<longrightarrow> (list_empty K x m \<longleftrightarrow> xs = []))"

definition splice_ok :: "linux_list \<Rightarrow> bool" where
  "splice_ok K \<longleftrightarrow>
    (\<forall>m l xs h ys. ring m (l # xs) \<longrightarrow> ring m (h # ys) \<longrightarrow> set (l # xs) \<inter> set (h # ys) = {} \<longrightarrow>
       ring (list_splice_init K l h m) [l] \<and> ring (list_splice_init K l h m) (h # xs @ ys) \<and>
       same_outside (set (l # xs) \<union> set (h # ys)) m (list_splice_init K l h m))"

definition linux_contract :: "linux_list \<Rightarrow> bool" where
  "linux_contract K \<longleftrightarrow> init_ok K \<and> add_ok K \<and> add_tail_ok K \<and> del_ok K \<and> empty_ok K \<and> splice_ok K"

lemma linux_init:
  "linux_contract K \<Longrightarrow> ring (INIT_LIST_HEAD K x m) [x] \<and> same_outside {x} m (INIT_LIST_HEAD K x m)"
  by (simp add: linux_contract_def init_ok_def)

lemma linux_add:
  "linux_contract K \<Longrightarrow> ring m (x # xs) \<Longrightarrow> n \<notin> set (x # xs) \<Longrightarrow>
    ring (list_add K n x m) (x # n # xs) \<and> same_outside (set (n # x # xs)) m (list_add K n x m)"
  unfolding linux_contract_def add_ok_def by blast

lemma linux_add_tail:
  "linux_contract K \<Longrightarrow> ring m (x # xs) \<Longrightarrow> n \<notin> set (x # xs) \<Longrightarrow>
    ring (list_add_tail K n x m) (x # xs @ [n]) \<and> same_outside (set (n # x # xs)) m (list_add_tail K n x m)"
  unfolding linux_contract_def add_tail_ok_def by blast

lemma linux_del:
  "linux_contract K \<Longrightarrow> ring m (x # xs) \<Longrightarrow>
    (xs \<noteq> [] \<longrightarrow> ring (list_del K x m) xs) \<and> nxt (list_del K x m) x = LIST_POISON1 K \<and>
    prv (list_del K x m) x = LIST_POISON2 K \<and> same_outside (set (x # xs)) m (list_del K x m)"
  unfolding linux_contract_def del_ok_def by blast

lemma linux_empty: "linux_contract K \<Longrightarrow> ring m (x # xs) \<Longrightarrow> list_empty K x m \<longleftrightarrow> xs = []"
  unfolding linux_contract_def empty_ok_def by blast

lemma linux_splice:
  "linux_contract K \<Longrightarrow> ring m (l # xs) \<Longrightarrow> ring m (h # ys) \<Longrightarrow> set (l # xs) \<inter> set (h # ys) = {} \<Longrightarrow>
    ring (list_splice_init K l h m) [l] \<and> ring (list_splice_init K l h m) (h # xs @ ys) \<and>
    same_outside (set (l # xs) \<union> set (h # ys)) m (list_splice_init K l h m)"
  unfolding linux_contract_def splice_ok_def by blast

text \<open>An instance: pointer updates on the neighbours.\<close>

definition link_between :: "u64 \<Rightarrow> u64 \<Rightarrow> u64 \<Rightarrow> list_mem \<Rightarrow> list_mem" where
  "link_between new p n m = set_nxt p new (set_prv new p (set_nxt new n (set_prv n new m)))"

definition kernel_list :: linux_list where
  "kernel_list = \<lparr>LIST_POISON1 = 0x100, LIST_POISON2 = 0x122,
     INIT_LIST_HEAD = (\<lambda>x m. set_prv x x (set_nxt x x m)),
     list_add = (\<lambda>n x m. link_between n x (nxt m x) m),
     list_add_tail = (\<lambda>n x m. link_between n (prv m x) x m),
     list_del = (\<lambda>x m. set_prv x 0x122 (set_nxt x 0x100
        (set_nxt (prv m x) (nxt m x) (set_prv (nxt m x) (prv m x) m)))),
     list_empty = (\<lambda>x m. nxt m x = x),
     list_splice_init = (\<lambda>l h m.
        if nxt m l = l then m
        else (let first = nxt m l; last = prv m l; at = nxt m h;
                  m = set_nxt h first (set_prv first h m);
                  m = set_prv at last (set_nxt last at m)
              in set_prv l l (set_nxt l l m)))\<rparr>"

lemma same_outsideI:
  "(\<And>n. n \<notin> S \<Longrightarrow> nxt m' n = nxt m n \<and> prv m' n = prv m n) \<Longrightarrow> offs m' = offs m \<Longrightarrow> same_outside S m m'"
  by (simp add: same_outside_def)

text \<open>Changing only the next pointer at the start and the previous pointer at the end.\<close>

lemma chain_retarget:
  assumes "chain m a xs b" and "distinct (a # xs)" and "b \<notin> set xs" and "a' \<notin> set xs" "b' \<notin> set xs"
    and "\<And>n. n \<in> set xs \<Longrightarrow> nxt m' n = (if n = last xs then b' else nxt m n)"
    and "\<And>n. n \<in> set xs \<Longrightarrow> prv m' n = (if n = hd xs then a' else prv m n)"
    and "nxt m' a' = hd (xs @ [b'])" and "prv m' b' = last (a' # xs)"
  shows "chain m' a' xs b'"
  using assms
proof (induction xs arbitrary: a a')
  case (Cons x xs)
  have "chain m' x xs b'"
  proof (rule Cons.IH [of x])
    show "prv m' n = (if n = hd xs then x else prv m n)" if "n \<in> set xs" for n
    proof (cases "n = hd xs")
      case True
      then have "prv m n = x" using Cons.prems(1) that by (cases xs) auto
      then show ?thesis using True Cons.prems(2,7) that by auto
    next
      case False
      then show ?thesis using Cons.prems(2,7) that by auto
    qed
    show "nxt m' n = (if n = last xs then b' else nxt m n)" if "n \<in> set xs" for n
      using Cons.prems(6) [of n] that by auto
    show "nxt m' x = hd (xs @ [b'])"
      using Cons.prems(1,2) Cons.prems(6) [of x] by (cases xs) auto
    show "prv m' b' = last (x # xs)" using Cons.prems(9) by simp
  qed (use Cons.prems in auto)
  then show ?case using Cons.prems by simp
qed simp

lemma kernel_add_ok: "add_ok kernel_list"
  unfolding add_ok_def
proof (intro allI impI conjI)
  fix m x xs n assume r: "ring m (x # xs)" and n: "n \<notin> set (x # xs)"
  let ?m = "list_add kernel_list n x m"
  have m: "?m = set_nxt x n (set_prv n x (set_nxt n (nxt m x) (set_prv (nxt m x) n m)))"
    by (simp add: kernel_list_def link_between_def)
  have e: "nxt m x = hd (xs @ [x])" "prv m x = last (x # xs)" and d: "distinct (x # xs)" and c: "chain m x xs x"
    using r ring_ends [OF r] by (auto simp: ring_Cons)
  have "chain ?m n xs x"
  proof (cases xs)
    case Nil
    then show ?thesis using n e by (simp add: m)
  next
    case (Cons y ys)
    have ns: "n \<noteq> x" "n \<noteq> y" "n \<notin> set ys" "x \<noteq> y" "x \<notin> set ys" "y \<notin> set ys" "nxt m x = y"
      using n d e Cons by auto
    show ?thesis
    proof (rule chain_retarget [OF c d])
      have l: "nxt m (last xs) = x"
        using chain_ends [OF c] Cons by simp
      show "nxt ?m k = (if k = last xs then x else nxt m k)" if "k \<in> set xs" for k
        using that ns l Cons by (auto simp add: m)
      show "prv ?m k = (if k = hd xs then n else prv m k)" if "k \<in> set xs" for k
        using that ns Cons by (auto simp add: m)
      show "prv ?m x = last (n # xs)" using ns e Cons by (simp add: m)
    qed (use ns n d Cons in \<open>simp_all add: m\<close>)
  qed
  then show "ring ?m (x # n # xs)"
    using d n by (auto simp add: ring_Cons m e)
  show "same_outside (set (n # x # xs)) m ?m"
    using e by (intro same_outsideI) (cases xs, auto simp add: m)+
qed

lemma ring_last_first: "ring m (x # xs) \<longleftrightarrow> ring m (last (x # xs) # butlast (x # xs))"
  using ring_rotate [of m "butlast (x # xs)" "[last (x # xs)]"] append_butlast_last_id [of "x # xs"]
  by (simp only: list.distinct simp_thms append_Cons append_Nil)

lemma kernel_add:
  "ring m (x # xs) \<Longrightarrow> n \<notin> set (x # xs) \<Longrightarrow>
    ring (list_add kernel_list n x m) (x # n # xs) \<and> same_outside (set (n # x # xs)) m (list_add kernel_list n x m)"
  using kernel_add_ok unfolding add_ok_def by blast

lemma kernel_add_tail_ok: "add_tail_ok kernel_list"
  unfolding add_tail_ok_def
proof (intro allI impI)
  fix m x xs n assume r: "ring m (x # xs)" and n: "n \<notin> set (x # xs)"
  let ?p = "last (x # xs)" and ?ws = "butlast (x # xs)"
  have p: "?ws @ [?p] = x # xs" by (rule append_butlast_last_id) simp
  have s: "set (?p # ?ws) = set (x # xs)" using arg_cong [OF p, of set] by auto
  have rp: "ring m (?p # ?ws)" using r by (rule ring_last_first [THEN iffD1])
  have "nxt m ?p = x" "prv m x = ?p"
    using ring_ends [OF rp] ring_ends [OF r] p by (simp_all only: list.sel)
  then have "list_add_tail kernel_list n x m = list_add kernel_list n ?p m"
    by (simp add: kernel_list_def)
  moreover have "ring (list_add kernel_list n ?p m) (?p # n # ?ws) \<and>
      same_outside (set (n # x # xs)) m (list_add kernel_list n ?p m)"
  proof -
    have "n \<notin> set (?p # ?ws)" using n s by (simp only: simp_thms not_False_eq_True)
    moreover have "set (n # ?p # ?ws) = set (n # x # xs)" using s by (simp only: list.set)
    ultimately show ?thesis using kernel_add [OF rp, of n] by (simp only: simp_thms not_False_eq_True)
  qed
  moreover have "ring m' (?p # n # ?ws) \<longleftrightarrow> ring m' (x # xs @ [n])" for m'
    using ring_rotate [of m' "[?p]" "n # ?ws"] ring_rotate [of m' "[n]" "?ws @ [?p]"] p
    by (simp only: append_Cons append_Nil)
  ultimately show "ring (list_add_tail kernel_list n x m) (x # xs @ [n]) \<and>
      same_outside (set (n # x # xs)) m (list_add_tail kernel_list n x m)" by simp
qed

lemma kernel_del_ok: "del_ok kernel_list"
  unfolding del_ok_def
proof (intro allI impI conjI)
  fix m x xs assume r: "ring m (x # xs)"
  let ?m = "list_del kernel_list x m"
  have m: "?m = set_prv x 0x122 (set_nxt x 0x100 (set_nxt (prv m x) (nxt m x) (set_prv (nxt m x) (prv m x) m)))"
    by (simp add: kernel_list_def)
  have e: "nxt m x = hd (xs @ [x])" "prv m x = last (x # xs)" and d: "distinct (x # xs)" and c: "chain m x xs x"
    using r ring_ends [OF r] by (auto simp: ring_Cons)
  show "ring ?m xs" if nonempty: "xs \<noteq> []"
  proof -
    obtain y ys where xs: "xs = y # ys" using nonempty by (cases xs) auto
    have ne: "x \<noteq> y" "x \<notin> set ys" "y \<notin> set ys" "distinct ys" and cy: "chain m y ys x" using d c xs by auto
    have q: "nxt m x = y" "prv m x = last (y # ys)" using e xs by auto
    have "chain ?m y ys y"
    proof (rule chain_retarget [OF cy])
      show "nxt ?m k = (if k = last ys then y else nxt m k)" if "k \<in> set ys" for k
        using that ne q by (auto simp add: m)
      show "prv ?m k = (if k = hd ys then y else prv m k)" if "k \<in> set ys" for k
        using that ne q chain_ends [OF cy] by (cases ys) (auto simp add: m)
      show "nxt ?m y = hd (ys @ [y])" using ne q chain_ends [OF cy] by (cases ys) (auto simp add: m)
      show "prv ?m y = last (y # ys)" using ne q by (simp add: m)
    qed (use ne in auto)
    then show ?thesis using ne xs by (simp add: ring_Cons)
  qed
  show "nxt ?m x = LIST_POISON1 kernel_list" "prv ?m x = LIST_POISON2 kernel_list"
    by (simp_all add: kernel_list_def)
  have "nxt m x \<in> set (x # xs)" "prv m x \<in> set (x # xs)"
    using e by (cases xs; simp)+
  then show "same_outside (set (x # xs)) m ?m"
    by (intro same_outsideI) (auto simp add: m)
qed

lemma kernel_init_empty_ok: "init_ok kernel_list" "empty_ok kernel_list"
proof -
  show "init_ok kernel_list" by (simp add: init_ok_def kernel_list_def ring_Cons same_outside_def)
  show "empty_ok kernel_list"
    unfolding empty_ok_def
  proof (intro allI impI)
    fix m x xs assume "ring m (x # xs)"
    then have "nxt m x = hd (xs @ [x])" "distinct (x # xs)" by (auto simp: ring_Cons ring_ends)
    then show "list_empty kernel_list x m \<longleftrightarrow> xs = []" by (cases xs) (auto simp: kernel_list_def)
  qed
qed

lemma kernel_splice_ok: "splice_ok kernel_list"
  unfolding splice_ok_def
proof (intro allI impI)
  fix m l xs h ys
  assume rl: "ring m (l # xs)" and rh: "ring m (h # ys)" and dj: "set (l # xs) \<inter> set (h # ys) = {}"
  let ?m = "list_splice_init kernel_list l h m"
  have cl: "chain m l xs l" and ch: "chain m h ys h" and d: "distinct (l # xs)" "distinct (h # ys)"
    using rl rh by (simp_all add: ring_Cons)
  note el = chain_ends [OF cl] and eh = chain_ends [OF ch]
  show "ring ?m [l] \<and> ring ?m (h # xs @ ys) \<and> same_outside (set (l # xs) \<union> set (h # ys)) m ?m"
  proof (cases xs)
    case Nil
    then show ?thesis using cl rl rh by (simp add: kernel_list_def same_outside_def)
  next
    case (Cons f fs)
    let ?g = "last xs" and ?a = "hd (ys @ [h])"
    have f: "nxt m l = f" "prv m l = ?g" "nxt m h = ?a" "prv m ?a = h" "nxt m ?g = l" "prv m f = l"
      using el eh Cons by auto
    have a: "?a \<in> set (h # ys)" by (cases ys) auto
    have fg: "f \<in> set xs" "?g \<in> set xs" "l \<notin> set xs" using Cons d by auto
    have neq: "f \<noteq> l" "?g \<noteq> l" "h \<noteq> l" "?a \<noteq> l" "?a \<notin> set xs" "h \<notin> set xs" "f \<noteq> ?a" "?g \<noteq> h" "l \<notin> set ys"
      using fg a dj by auto
    have m: "?m = set_prv l l (set_nxt l l (set_prv ?a ?g (set_nxt ?g ?a (set_nxt h f (set_prv f h m)))))"
      using f neq by (simp add: kernel_list_def Let_def)
    have "ring ?m [l]" by (simp add: m ring_Cons)
    moreover have "same_outside (set (l # xs) \<union> set (h # ys)) m ?m"
      using fg a by (intro same_outsideI) (auto simp add: m)
    moreover have "chain ?m h xs ?a"
    proof (rule chain_retarget [OF cl d(1)])
      show "nxt ?m k = (if k = last xs then ?a else nxt m k)" if "k \<in> set xs" for k
        using that neq fg by (auto simp add: m)
      show "prv ?m k = (if k = hd xs then h else prv m k)" if "k \<in> set xs" for k
        using that neq fg Cons by (auto simp add: m)
      show "nxt ?m h = hd (xs @ [?a])" "prv ?m ?a = last (h # xs)"
        using neq Cons by (simp_all add: m)
    qed (use neq fg in auto)
    moreover have "chain ?m y ys' h" if ys: "ys = y # ys'" for y ys'
    proof -
      have "chain ?m y ys' h = chain m y ys' h"
        by (rule chain_cong) (use ys d dj fg neq in \<open>auto simp add: m\<close>)
      then show ?thesis using ch ys by simp
    qed
    ultimately show ?thesis
      using d dj by (cases ys) (auto simp add: ring_Cons chain_append)
  qed
qed

theorem kernel_list_contract: "linux_contract kernel_list"
  by (simp add: linux_contract_def kernel_add_ok kernel_add_tail_ok kernel_del_ok kernel_init_empty_ok
      kernel_splice_ok)

section \<open>The representation of a list\<close>

definition list_nodes :: "list_mem \<Rightarrow> u64 \<Rightarrow> u64 list \<Rightarrow> u64 list" where
  "list_nodes m l xs = list_head_node l # map (list_d2l m l) xs"

text \<open>The list at \<open>l\<close> holds the objects \<open>xs\<close>: no null object, and no node at the poison address.\<close>

definition list_rep :: "linux_list \<Rightarrow> list_mem \<Rightarrow> u64 \<Rightarrow> u64 list \<Rightarrow> bool" where
  "list_rep K m l xs \<longleftrightarrow> ring m (list_nodes m l xs) \<and> 0 \<notin> set xs \<and> LIST_POISON1 K \<notin> set (list_nodes m l xs)"

text \<open>An object that can be added: not null, its node not in use and not the poison address.\<close>

definition fresh_object :: "linux_list \<Rightarrow> list_mem \<Rightarrow> u64 \<Rightarrow> u64 list \<Rightarrow> u64 \<Rightarrow> bool" where
  "fresh_object K m l xs obj \<longleftrightarrow>
    obj \<noteq> 0 \<and> list_d2l m l obj \<notin> set (list_nodes m l xs) \<and> list_d2l m l obj \<noteq> LIST_POISON1 K"

lemma list_object_d2l [simp]: "list_object m l (list_d2l m l obj) = obj"
  by (simp add: list_object_def list_d2l_def)

lemma list_d2l_inj [simp]: "list_d2l m l a = list_d2l m l b \<longleftrightarrow> a = b"
  by (simp add: list_d2l_def)

lemma offs_eq:
  "offs m' = offs m \<Longrightarrow> list_nodes m' l xs = list_nodes m l xs"
  "offs m' = offs m \<Longrightarrow> list_d2l m' l obj = list_d2l m l obj"
  "offs m' = offs m \<Longrightarrow> list_object m' l obj = list_object m l obj"
  by (simp_all add: list_nodes_def list_d2l_def list_object_def fun_eq_iff cong: map_cong)

lemma list_repI:
  assumes "ring m' (list_nodes m l xs)" and "same_outside S m m'" and "0 \<notin> set xs"
    and "LIST_POISON1 K \<notin> set (list_nodes m l xs)"
  shows "list_rep K m' l xs"
proof -
  have "list_nodes m' l xs = list_nodes m l xs"
    using assms(2) by (intro offs_eq) (simp add: same_outside_def)
  then show ?thesis using assms by (simp only: list_rep_def simp_thms)
qed

lemma same_outside_offs: "same_outside S m m' \<Longrightarrow> offs m' = offs m"
  by (simp add: same_outside_def)

lemma same_outside_mono: "same_outside S m m' \<Longrightarrow> S \<subseteq> S' \<Longrightarrow> same_outside S' m m'"
  by (auto simp: same_outside_def)

text \<open>A list none of whose nodes an operation touches is the same list afterwards.\<close>

lemma list_rep_frame:
  assumes "list_rep K m l xs" and "same_outside S m m'" and "S \<inter> set (list_nodes m l xs) = {}"
  shows "list_rep K m' l xs"
proof -
  have "ring m' (list_nodes m l xs) = ring m (list_nodes m l xs)"
    using assms(2,3) by (intro ring_cong) (auto simp: same_outside_def)
  then show ?thesis
    using assms(1) by (intro list_repI [OF _ assms(2)]) (simp_all only: list_rep_def simp_thms)
qed

text \<open>The ring of a list, started at one of its objects.\<close>

lemma list_nodes_at:
  "ring m' (list_nodes m l (as @ ob # bs)) \<longleftrightarrow>
   ring m' (list_d2l m l ob # map (list_d2l m l) bs @ list_nodes m l as)"
  using ring_rotate [of m' "list_nodes m l as" "list_d2l m l ob # map (list_d2l m l) bs"]
  by (simp add: list_nodes_def)

lemma list_insert_head_rep:
  assumes K: "linux_contract K" and r: "list_rep K m l xs" and f: "fresh_object K m l xs ob"
  shows "list_rep K (list_insert_head K l ob m) l (ob # xs) \<and>
    same_outside (set (list_nodes m l (ob # xs))) m (list_insert_head K l ob m)"
proof -
  let ?m = "list_insert_head K l ob m"
  have "ring m (list_head_node l # map (list_d2l m l) xs)" "list_d2l m l ob \<notin> set (list_head_node l # map (list_d2l m l) xs)"
    using r f by (simp_all only: list_rep_def fresh_object_def list_nodes_def simp_thms)
  from linux_add [OF K this]
  have "ring ?m (list_nodes m l (ob # xs)) \<and> same_outside (set (list_nodes m l (ob # xs))) m ?m"
    by (simp add: list_insert_head_def list_nodes_def insert_commute)
  moreover have "0 \<notin> set (ob # xs)" "LIST_POISON1 K \<notin> set (list_nodes m l (ob # xs))"
    using r f by (auto simp: list_rep_def fresh_object_def list_nodes_def)
  ultimately show ?thesis by (blast intro: list_repI)
qed

lemma list_insert_tail_rep:
  assumes K: "linux_contract K" and r: "list_rep K m l xs" and f: "fresh_object K m l xs ob"
  shows "list_rep K (list_insert_tail K l ob m) l (xs @ [ob]) \<and>
    same_outside (set (list_nodes m l (ob # xs))) m (list_insert_tail K l ob m)"
proof -
  let ?m = "list_insert_tail K l ob m"
  have "ring m (list_head_node l # map (list_d2l m l) xs)" "list_d2l m l ob \<notin> set (list_head_node l # map (list_d2l m l) xs)"
    using r f by (simp_all only: list_rep_def fresh_object_def list_nodes_def simp_thms)
  from linux_add_tail [OF K this]
  have "ring ?m (list_nodes m l (xs @ [ob])) \<and> same_outside (set (list_nodes m l (ob # xs))) m ?m"
    by (simp add: list_insert_tail_def list_nodes_def insert_commute)
  moreover have "0 \<notin> set (xs @ [ob])" "LIST_POISON1 K \<notin> set (list_nodes m l (xs @ [ob]))"
    using r f by (auto simp: list_rep_def fresh_object_def list_nodes_def)
  ultimately show ?thesis by (blast intro: list_repI)
qed

lemma list_insert_after_rep:
  assumes K: "linux_contract K" and r: "list_rep K m l (as @ ob # bs)" and f: "fresh_object K m l (as @ ob # bs) new"
  shows "list_rep K (list_insert_after K l ob new m) l (as @ ob # new # bs) \<and>
    same_outside (set (list_nodes m l (new # as @ ob # bs))) m (list_insert_after K l ob new m)"
proof -
  let ?m = "list_insert_after K l ob new m" and ?d = "list_d2l m l"
  have "ring m (?d ob # map ?d bs @ list_nodes m l as)" "ob \<noteq> 0"
    using r by (auto simp: list_rep_def list_nodes_at)
  moreover have "?d new \<notin> set (?d ob # map ?d bs @ list_nodes m l as)"
    using f by (auto simp: fresh_object_def list_nodes_def)
  ultimately have "ring ?m (?d ob # ?d new # map ?d bs @ list_nodes m l as) \<and>
      same_outside (set (?d new # ?d ob # map ?d bs @ list_nodes m l as)) m ?m"
    using linux_add [OF K, of m "?d ob" "map ?d bs @ list_nodes m l as" "?d new"]
    by (simp only: list_insert_after_def if_False simp_thms not_False_eq_True)
  moreover from this have "same_outside (set (list_nodes m l (new # as @ ob # bs))) m ?m"
    by (simp add: same_outside_def list_nodes_def)
  ultimately have "ring ?m (list_nodes m l (as @ ob # new # bs))"
    "same_outside (set (list_nodes m l (new # as @ ob # bs))) m ?m"
    by (simp_all only: list_nodes_at list.map append_Cons simp_thms)
  moreover have "0 \<notin> set (as @ ob # new # bs)" "LIST_POISON1 K \<notin> set (list_nodes m l (as @ ob # new # bs))"
    using r f by (auto simp: list_rep_def fresh_object_def list_nodes_def)
  ultimately show ?thesis by (blast intro: list_repI)
qed

lemma list_insert_before_rep:
  assumes K: "linux_contract K" and r: "list_rep K m l (as @ ob # bs)" and f: "fresh_object K m l (as @ ob # bs) new"
  shows "list_rep K (list_insert_before K l ob new m) l (as @ new # ob # bs) \<and>
    same_outside (set (list_nodes m l (new # as @ ob # bs))) m (list_insert_before K l ob new m)"
proof -
  let ?m = "list_insert_before K l ob new m" and ?d = "list_d2l m l"
  have "ring m (?d ob # map ?d bs @ list_nodes m l as)" "ob \<noteq> 0"
    using r by (auto simp: list_rep_def list_nodes_at)
  moreover have "?d new \<notin> set (?d ob # map ?d bs @ list_nodes m l as)"
    using f by (auto simp: fresh_object_def list_nodes_def)
  ultimately have "ring ?m (?d ob # (map ?d bs @ list_nodes m l as) @ [?d new]) \<and>
      same_outside (set (?d new # ?d ob # map ?d bs @ list_nodes m l as)) m ?m"
    using linux_add_tail [OF K, of m "?d ob" "map ?d bs @ list_nodes m l as" "?d new"]
    by (simp only: list_insert_before_def if_False simp_thms not_False_eq_True)
  moreover have "ring ?m (?d ob # (map ?d bs @ list_nodes m l as) @ [?d new]) \<longleftrightarrow>
      ring ?m (list_nodes m l (as @ new # ob # bs))"
    using ring_rotate [of ?m "[?d new]" "?d ob # map ?d bs @ list_nodes m l as"]
    by (simp add: list_nodes_at)
  ultimately have "ring ?m (list_nodes m l (as @ new # ob # bs))"
    "same_outside (set (list_nodes m l (new # as @ ob # bs))) m ?m"
    by (simp_all add: same_outside_def list_nodes_def)
  moreover have "0 \<notin> set (as @ new # ob # bs)" "LIST_POISON1 K \<notin> set (list_nodes m l (as @ new # ob # bs))"
    using r f by (auto simp: list_rep_def fresh_object_def list_nodes_def)
  ultimately show ?thesis by (blast intro: list_repI)
qed

text \<open>Unlinking the node of an object: the list without it, the node poisoned.\<close>

lemma list_del_rep:
  assumes K: "linux_contract K" and r: "list_rep K m l (as @ ob # bs)"
  shows "list_rep K (list_del K (list_d2l m l ob) m) l (as @ bs) \<and>
    nxt (list_del K (list_d2l m l ob) m) (list_d2l m l ob) = LIST_POISON1 K \<and>
    prv (list_del K (list_d2l m l ob) m) (list_d2l m l ob) = LIST_POISON2 K \<and>
    same_outside (set (list_nodes m l (as @ ob # bs))) m (list_del K (list_d2l m l ob) m)"
proof -
  let ?d = "list_d2l m l" let ?m = "list_del K (?d ob) m"
  have "ring m (?d ob # map ?d bs @ list_nodes m l as)"
    using r by (auto simp: list_rep_def list_nodes_at)
  from linux_del [OF K this]
  have m: "ring ?m (map ?d bs @ list_nodes m l as)" "nxt ?m (?d ob) = LIST_POISON1 K"
      "prv ?m (?d ob) = LIST_POISON2 K"
      "same_outside (set (list_nodes m l (as @ ob # bs))) m ?m"
    by (simp_all add: list_nodes_def same_outside_def)
  moreover have "ring ?m (list_nodes m l (as @ bs))"
    using m(1) ring_rotate [of ?m "list_nodes m l as" "map ?d bs"] by (simp add: list_nodes_def)
  moreover have "0 \<notin> set (as @ bs)" "LIST_POISON1 K \<notin> set (list_nodes m l (as @ bs))"
    using r by (auto simp: list_rep_def list_nodes_def)
  ultimately show ?thesis by (blast intro: list_repI)
qed

text \<open>The neighbours of a node of a list.\<close>

lemma list_node_links:
  assumes r: "list_rep K m l (as @ ob # bs)"
  shows "nxt m (list_d2l m l ob) = (if bs = [] then list_head_node l else list_d2l m l (hd bs))"
    and "prv m (list_d2l m l ob) = (if as = [] then list_head_node l else list_d2l m l (last as))"
proof -
  let ?d = "list_d2l m l"
  have "ring m (?d ob # map ?d bs @ list_nodes m l as)"
    using r by (auto simp: list_rep_def list_nodes_at)
  note e = ring_ends [OF this]
  show "nxt m (?d ob) = (if bs = [] then list_head_node l else ?d (hd bs))"
    using e by (cases bs) (simp_all add: list_nodes_def)
  show "prv m (?d ob) = (if as = [] then list_head_node l else ?d (last as))"
    using e by (simp add: list_nodes_def last_map)
qed

lemma list_head_links:
  assumes r: "list_rep K m l xs"
  shows "nxt m (list_head_node l) = (if xs = [] then list_head_node l else list_d2l m l (hd xs))"
    and "prv m (list_head_node l) = (if xs = [] then list_head_node l else list_d2l m l (last xs))"
proof -
  have "ring m (list_head_node l # map (list_d2l m l) xs)" using r by (simp add: list_rep_def list_nodes_def)
  note e = ring_ends [OF this]
  show "nxt m (list_head_node l) = (if xs = [] then list_head_node l else list_d2l m l (hd xs))"
    using e by (cases xs) simp_all
  show "prv m (list_head_node l) = (if xs = [] then list_head_node l else list_d2l m l (last xs))"
    using e by (simp add: last_map)
qed

lemma list_head_not_object:
  "list_rep K m l xs \<Longrightarrow> ob \<in> set xs \<Longrightarrow> list_d2l m l ob \<noteq> list_head_node l"
  by (auto simp: list_rep_def list_nodes_def ring_Cons) (metis image_eqI)

section \<open>Removing, looking, joining\<close>

lemma list_is_empty_rep: "linux_contract K \<Longrightarrow> list_rep K m l xs \<Longrightarrow> list_is_empty K l m \<longleftrightarrow> xs = []"
  using linux_empty [of K m "list_head_node l" "map (list_d2l m l) xs"]
  by (simp add: list_is_empty_def list_rep_def list_nodes_def)

lemma list_remove_head_rep:
  assumes K: "linux_contract K" and r: "list_rep K m l (x # xs)"
  shows "\<exists>m'. list_remove_head K l m = (x, m') \<and> list_rep K m' l xs \<and>
    same_outside (set (list_nodes m l (x # xs))) m m'"
proof -
  note d = list_del_rep [OF K, of m l "[]" x xs]
  have "list_object (list_del K (list_d2l m l x) m) l (list_d2l m l x) = x"
    using d r by (simp add: list_object_def list_d2l_def same_outside_def)
  then show ?thesis
    using d r list_head_links(1) [OF r] list_head_not_object [OF r, of x]
    by (simp add: list_remove_head_def Let_def)
qed

lemma list_remove_tail_rep:
  assumes K: "linux_contract K" and r: "list_rep K m l (xs @ [x])"
  shows "\<exists>m'. list_remove_tail K l m = (x, m') \<and> list_rep K m' l xs \<and>
    same_outside (set (list_nodes m l (xs @ [x]))) m m'"
proof -
  note d = list_del_rep [OF K, of m l xs x "[]"]
  have "list_object (list_del K (list_d2l m l x) m) l (list_d2l m l x) = x"
    using d r by (simp add: list_object_def list_d2l_def same_outside_def)
  then show ?thesis
    using d r list_head_links(2) [OF r] list_head_not_object [OF r, of x]
    by (simp add: list_remove_tail_def Let_def)
qed

lemma list_remove_empty:
  assumes r: "list_rep K m l []"
  shows "list_remove_head K l m = (0, m)" "list_remove_tail K l m = (0, m)"
  using list_head_links [OF r] by (simp_all add: list_remove_head_def list_remove_tail_def)

lemma list_ends_rep:
  assumes "linux_contract K" and "list_rep K m l xs"
  shows "list_head K l m = (if xs = [] then 0 else hd xs)"
    and "list_tail K l m = (if xs = [] then 0 else last xs)"
  using assms list_head_links [OF assms(2)]
  by (simp_all add: list_head_def list_tail_def list_is_empty_rep)

lemma list_step_rep:
  assumes "list_rep K m l (as @ ob # bs)"
  shows "list_next l ob m = (if bs = [] then 0 else hd bs)"
    and "list_prev l ob m = (if as = [] then 0 else last as)"
proof -
  have "hd bs \<in> set (as @ ob # bs)" if "bs \<noteq> []" using that by simp
  moreover have "last as \<in> set (as @ ob # bs)" if "as \<noteq> []" using that by simp
  ultimately show "list_next l ob m = (if bs = [] then 0 else hd bs)"
    and "list_prev l ob m = (if as = [] then 0 else last as)"
    using list_node_links [OF assms] list_head_not_object [OF assms]
    by (auto simp: list_next_def list_prev_def)
qed

lemma list_create_rep:
  assumes "linux_contract K" and "LIST_POISON1 K \<noteq> list_head_node l"
  shows "list_rep K (list_create K l sz offset m) l []"
    and "offs (list_create K l sz offset m) l = offset"
  using linux_init [OF assms(1), of "list_head_node l" "m\<lparr>offs := (offs m)(l := offset)\<rparr>"] assms(2)
  by (simp_all add: list_create_def list_rep_def list_nodes_def same_outside_def)

lemma list_move_tail_rep:
  assumes K: "linux_contract K" and d: "list_rep K m dst ys" and s: "list_rep K m src xs"
    and off: "offs m dst = offs m src" and dj: "set (list_nodes m dst ys) \<inter> set (list_nodes m src xs) = {}"
  shows "list_rep K (list_move_tail K dst src m) dst (ys @ xs)"
    and "list_rep K (list_move_tail K dst src m) src []"
    and "same_outside (set (list_nodes m dst ys) \<union> set (list_nodes m src xs)) m (list_move_tail K dst src m)"
proof -
  let ?m = "list_move_tail K dst src m" and ?p = "prv m (list_head_node dst)"
  let ?xs = "map (list_d2l m src) xs" let ?ys = "list_nodes m dst ys"
  have map_eq: "map (list_d2l m dst) xs = ?xs" using off by (simp add: list_d2l_def)
  have rd: "ring m ?ys" and rs: "ring m (list_head_node src # ?xs)"
    using d s by (simp_all add: list_rep_def list_nodes_def)
  have p: "?p = last ?ys"
    using list_head_links(2) [OF d] by (simp add: list_nodes_def last_map)
  have ne: "?ys \<noteq> []" by (simp add: list_nodes_def)
  have ys: "butlast ?ys @ [?p] = ?ys" using ne p by simp
  have ring_p: "ring m' (?p # zs @ butlast ?ys) \<longleftrightarrow> ring m' (?ys @ zs)" for m' zs
    using ring_rotate [of m' "?p # zs" "butlast ?ys"] ys by (metis append_Cons append_assoc append_Nil)
  have rp: "ring m (?p # butlast ?ys)" using rd ring_p [of m "[]"] by simp
  have sets: "set (?p # butlast ?ys) = set ?ys" using arg_cong [OF ys, of set] by auto
  have "set (list_head_node src # ?xs) \<inter> set (?p # butlast ?ys) = {}"
    using dj sets by (auto simp: list_nodes_def)
  note sp = linux_splice [OF K rs rp this]
  have un: "set (list_head_node src # ?xs) \<union> set (?p # butlast ?ys) =
      set (list_nodes m dst ys) \<union> set (list_nodes m src xs)"
    unfolding sets by (simp only: list_nodes_def Un_commute)
  have m: "ring ?m [list_head_node src]" "ring ?m (?p # ?xs @ butlast ?ys)"
    and so: "same_outside (set (list_nodes m dst ys) \<union> set (list_nodes m src xs)) m ?m"
    using sp unfolding un list_move_tail_def by blast+
  show "same_outside (set (list_nodes m dst ys) \<union> set (list_nodes m src xs)) m ?m" by (rule so)
  have nodes: "list_nodes m dst (ys @ xs) = ?ys @ ?xs" by (simp add: list_nodes_def map_eq)
  show "list_rep K ?m dst (ys @ xs)"
  proof (rule list_repI [OF _ so])
    show "ring ?m (list_nodes m dst (ys @ xs))" using m(2) by (simp only: nodes ring_p)
    show "0 \<notin> set (ys @ xs)" using d s by (simp add: list_rep_def)
    show "LIST_POISON1 K \<notin> set (list_nodes m dst (ys @ xs))"
      using d s unfolding nodes by (auto simp: list_rep_def list_nodes_def)
  qed
  show "list_rep K ?m src []"
    using m(1) s by (intro list_repI [OF _ so]) (simp_all add: list_nodes_def list_rep_def)
qed

lemma list_link_replace_rep:
  assumes r: "list_rep K m l (as @ ob # bs)" and f: "fresh_object K m l (as @ ob # bs) new"
  shows "list_rep K (list_link_replace K (list_d2l m l ob) (list_d2l m l new) m) l (as @ new # bs)"
    and "list_link_active K nd (list_d2l m l ob) (list_link_replace K (list_d2l m l ob) (list_d2l m l new) m) =
      Some False"
proof -
  let ?d = "list_d2l m l" let ?o = "?d ob" and ?n = "?d new" and ?R = "map (list_d2l m l) bs @ list_nodes m l as"
  let ?m = "list_link_replace K ?o ?n m"
  have rg: "ring m (?o # ?R)" using r by (auto simp: list_rep_def list_nodes_at)
  have n: "?n \<notin> set (?o # ?R)" "?n \<noteq> LIST_POISON1 K"
    using f by (auto simp: fresh_object_def list_nodes_def)
  obtain y ys where R: "?R = y # ys" by (cases ?R) (auto simp: list_nodes_def)
  have d: "distinct (?o # ?R)" and c: "chain m ?o ?R ?o" using rg by (simp_all only: ring_Cons)
  note e = chain_ends [OF c]
  have q: "nxt m ?o = y" "prv m ?o = last ?R" "prv m y = ?o" "nxt m (last ?R) = ?o" using e R by auto
  have ne: "?o \<noteq> y" "?o \<noteq> last ?R" "?n \<noteq> y" "?n \<noteq> last ?R" "?n \<noteq> ?o"
      "?o \<notin> set ?R" "?n \<notin> set ?R" "distinct ?R" "y \<in> set ?R" "last ?R \<in> set ?R" "hd ?R = y" "?R \<noteq> []"
    using d n(1) R by auto
  have m: "?m = set_prv ?o (LIST_POISON2 K) (set_nxt ?o (LIST_POISON1 K)
      (set_prv y ?n (set_nxt (last ?R) ?n (set_prv ?n (last ?R) (set_nxt ?n y m)))))"
    using q ne by (simp add: list_link_replace_def list_link_init_def Let_def)
  show "list_link_active K nd ?o ?m = Some False" by (simp add: list_link_active_def m)
  have "chain ?m ?n ?R ?n"
  proof (rule chain_retarget [OF c d])
    show "nxt ?m k = (if k = last ?R then ?n else nxt m k)" if "k \<in> set ?R" for k
      using that ne unfolding m by (simp del: map_append) metis
    show "prv ?m k = (if k = hd ?R then ?n else prv m k)" if "k \<in> set ?R" for k
      using that ne unfolding m by (simp del: map_append) metis
    show "nxt ?m ?n = hd (?R @ [?n])" "prv ?m ?n = last (?n # ?R)"
      using ne R unfolding m by (simp_all del: map_append)
  qed (use ne in simp_all)
  then have "ring ?m (list_nodes m l (as @ new # bs))"
    using ne unfolding list_nodes_at by (simp only: ring_Cons distinct.simps simp_thms)
  moreover have "same_outside (insert ?n (set (?o # ?R))) m ?m"
    using ne by (intro same_outsideI) (auto simp add: m)
  moreover have "0 \<notin> set (as @ new # bs)" "LIST_POISON1 K \<notin> set (list_nodes m l (as @ new # bs))"
    using r f by (auto simp: list_rep_def fresh_object_def list_nodes_def)
  ultimately show "list_rep K ?m l (as @ new # bs)" by (blast intro: list_repI)
qed

section \<open>A double-ended queue\<close>

text \<open>Taking out a number of elements.\<close>

primrec drain :: "('s \<Rightarrow> 'a \<times> 's) \<Rightarrow> nat \<Rightarrow> 's \<Rightarrow> 'a list \<times> 's" where
  "drain pop 0 s = ([], s)"
| "drain pop (Suc n) s = (let (x, s') = pop s; (xs, s'') = drain pop n s' in (x # xs, s''))"

locale deque =
  fixes rep :: "'s \<Rightarrow> 'a list \<Rightarrow> bool" and fresh :: "'s \<Rightarrow> 'a list \<Rightarrow> 'a \<Rightarrow> bool"
    and push_front push_back :: "'a \<Rightarrow> 's \<Rightarrow> 's" and pop_front pop_back :: "'s \<Rightarrow> 'a \<times> 's"
    and none :: 'a
  assumes push_front: "rep s xs \<Longrightarrow> fresh s xs a \<Longrightarrow> rep (push_front a s) (a # xs)"
    and push_back: "rep s xs \<Longrightarrow> fresh s xs a \<Longrightarrow> rep (push_back a s) (xs @ [a])"
    and fresh_front: "rep s xs \<Longrightarrow> fresh s xs a \<Longrightarrow> fresh s xs b \<Longrightarrow> a \<noteq> b \<Longrightarrow> fresh (push_front a s) (a # xs) b"
    and fresh_back: "rep s xs \<Longrightarrow> fresh s xs a \<Longrightarrow> fresh s xs b \<Longrightarrow> a \<noteq> b \<Longrightarrow> fresh (push_back a s) (xs @ [a]) b"
    and pop_front: "rep s (x # xs) \<Longrightarrow> \<exists>s'. pop_front s = (x, s') \<and> rep s' xs"
    and pop_back: "rep s (xs @ [x]) \<Longrightarrow> \<exists>s'. pop_back s = (x, s') \<and> rep s' xs"
    and pop_none: "rep s [] \<Longrightarrow> pop_front s = (none, s) \<and> pop_back s = (none, s)"
begin

lemma push_back_all:
  "rep s xs \<Longrightarrow> distinct as \<Longrightarrow> \<forall>a\<in>set as. fresh s xs a \<Longrightarrow> rep (fold push_back as s) (xs @ as)"
proof (induction as arbitrary: s xs)
  case (Cons a as)
  have "rep (fold push_back as (push_back a s)) ((xs @ [a]) @ as)"
    using Cons.prems by (intro Cons.IH push_back ballI fresh_back) auto
  then show ?case by simp
qed simp

lemma push_front_all:
  "rep s xs \<Longrightarrow> distinct as \<Longrightarrow> \<forall>a\<in>set as. fresh s xs a \<Longrightarrow> rep (fold push_front as s) (rev as @ xs)"
proof (induction as arbitrary: s xs)
  case (Cons a as)
  have "rep (fold push_front as (push_front a s)) (rev as @ a # xs)"
    using Cons.prems by (intro Cons.IH push_front ballI fresh_front) auto
  then show ?case by simp
qed simp

lemma drain_front: "rep s xs \<Longrightarrow> \<exists>s'. drain pop_front (length xs) s = (xs, s') \<and> rep s' []"
proof (induction xs arbitrary: s)
  case (Cons x xs)
  then obtain s1 where "pop_front s = (x, s1)" "rep s1 xs" using pop_front by blast
  then show ?case using Cons.IH by fastforce
qed simp

lemma drain_back: "rep s xs \<Longrightarrow> \<exists>s'. drain pop_back (length xs) s = (rev xs, s') \<and> rep s' []"
proof (induction xs arbitrary: s rule: rev_induct)
  case (snoc x xs)
  then obtain s1 where "pop_back s = (x, s1)" "rep s1 xs" using pop_back by blast
  then show ?case using snoc.IH by fastforce
qed simp

lemma first_in_first_out:
  assumes "rep s []" and "distinct as" and "\<forall>a\<in>set as. fresh s [] a"
  shows "\<exists>s'. drain pop_front (length as) (fold push_back as s) = (as, s') \<and> rep s' []"
    and "\<exists>s'. drain pop_back (length as) (fold push_front as s) = (as, s') \<and> rep s' []"
  using drain_front [OF push_back_all [OF assms]] drain_back [OF push_front_all [OF assms]] by simp_all

lemma last_in_first_out:
  assumes "rep s []" and "distinct as" and "\<forall>a\<in>set as. fresh s [] a"
  shows "\<exists>s'. drain pop_front (length as) (fold push_front as s) = (rev as, s') \<and> rep s' []"
  using drain_front [OF push_front_all [OF assms]] by simp

end

lemma fresh_object_push:
  assumes "fresh_object K m l xs a" "fresh_object K m l xs b" "a \<noteq> b" "same_outside S m m'"
    and "set ys = insert a (set xs)"
  shows "fresh_object K m' l ys b"
proof -
  have "list_d2l m' l = list_d2l m l"
    using assms(4) by (simp add: same_outside_def list_d2l_def fun_eq_iff)
  then show ?thesis using assms(1-3,5) by (auto simp: fresh_object_def list_nodes_def)
qed

interpretation spl_deque: deque "\<lambda>m xs. linux_contract K \<and> list_rep K m l xs" "\<lambda>m xs. fresh_object K m l xs"
    "list_insert_head K l" "list_insert_tail K l" "list_remove_head K l" "list_remove_tail K l" 0 for K l
proof unfold_locales
  fix m xs a b
  assume r: "linux_contract K \<and> list_rep K m l xs" and a: "fresh_object K m l xs a"
    and b: "fresh_object K m l xs b" and ne: "a \<noteq> b"
  show "fresh_object K (list_insert_head K l a m) l (a # xs) b"
    using list_insert_head_rep [of K m l xs a] r a by (intro fresh_object_push [OF a b ne]) auto
  show "fresh_object K (list_insert_tail K l a m) l (xs @ [a]) b"
    using list_insert_tail_rep [of K m l xs a] r a by (intro fresh_object_push [OF a b ne]) auto
next
  fix m x xs assume r: "linux_contract K \<and> list_rep K m l (x # xs)"
  then show "\<exists>m'. list_remove_head K l m = (x, m') \<and> linux_contract K \<and> list_rep K m' l xs"
    using list_remove_head_rep by blast
next
  fix m x xs assume r: "linux_contract K \<and> list_rep K m l (xs @ [x])"
  then show "\<exists>m'. list_remove_tail K l m = (x, m') \<and> linux_contract K \<and> list_rep K m' l xs"
    using list_remove_tail_rep by blast
qed (simp_all add: list_insert_head_rep list_insert_tail_rep list_remove_empty)

section \<open>Properties\<close>

text \<open>Two lists: the one at \<open>0x1000\<close> holds an object, the one at \<open>0x1100\<close> is empty.\<close>

definition demo_mem :: list_mem where
  "demo_mem = list_insert_head kernel_list 0x1000 0x2000
     (list_create kernel_list 0x1100 64 16
       (list_create kernel_list 0x1000 64 16 \<lparr>nxt = \<lambda>_. 0, prv = \<lambda>_. 0, offs = \<lambda>_. 0\<rparr>))"

lemma demo_mem_rep:
  "list_rep kernel_list demo_mem 0x1000 [0x2000]" "list_rep kernel_list demo_mem 0x1100 []"
  "offs demo_mem 0x1000 = 16" "offs demo_mem 0x1100 = 16"
  by (simp_all add: demo_mem_def list_rep_def list_nodes_def list_d2l_def list_head_node_def list_create_def
      list_insert_head_def kernel_list_def link_between_def ring_Cons)

text \<open>C9. Inserting an object into a list, empty or not, at its head or at its tail (also by way
  of the two relative operations with a null position) gives the list with the object in that
  place; inserting it after or before an object of the list puts it next to that object. Every
  other list, empty or not, stays as it is.\<close>

theorem spl_list_insert:
  assumes "linux_contract K" and "list_rep K m l xs" and "fresh_object K m l xs new"
    and "m' = list_insert_head K l new m \<and> zs = new # xs \<or>
         m' = list_insert_tail K l new m \<and> zs = xs @ [new] \<or>
         m' = list_insert_after K l 0 new m \<and> zs = new # xs \<or>
         m' = list_insert_before K l 0 new m \<and> zs = xs @ [new] \<or>
         (\<exists>as ob bs. xs = as @ ob # bs \<and>
           (m' = list_insert_after K l ob new m \<and> zs = as @ ob # new # bs \<or>
            m' = list_insert_before K l ob new m \<and> zs = as @ new # ob # bs))"
    and "list_rep K m l2 ys" and "set (list_nodes m l2 ys) \<inter> set (list_nodes m l (new # xs)) = {}"
  shows "list_rep K m' l zs \<and> list_rep K m' l2 ys"
proof -
  have relative: "list_rep K (list_insert_after K l ob new m) l (as @ ob # new # bs) \<and>
      same_outside (set (list_nodes m l (new # xs))) m (list_insert_after K l ob new m) \<and>
      list_rep K (list_insert_before K l ob new m) l (as @ new # ob # bs) \<and>
      same_outside (set (list_nodes m l (new # xs))) m (list_insert_before K l ob new m)"
    if "xs = as @ ob # bs" for as ob bs
    using list_insert_after_rep [OF assms(1), of m l as ob bs new]
      list_insert_before_rep [OF assms(1), of m l as ob bs new] assms(2,3) that by simp
  have "list_rep K m' l zs \<and> same_outside (set (list_nodes m l (new # xs))) m m'"
    using assms(4) list_insert_head_rep [OF assms(1-3)] list_insert_tail_rep [OF assms(1-3)] relative
    by (elim disjE exE conjE) (simp_all add: list_insert_after_def list_insert_before_def)
  moreover have "set (list_nodes m l (new # xs)) \<inter> set (list_nodes m l2 ys) = {}"
    using assms(6) by blast
  ultimately show ?thesis using list_rep_frame [OF assms(5)] by blast
qed

theorem spl_list_insert_witness:
  "list_rep kernel_list (list_insert_tail kernel_list 0x1100 0x3000 demo_mem) 0x1100 [0x3000] \<and>
   list_rep kernel_list (list_insert_tail kernel_list 0x1100 0x3000 demo_mem) 0x1000 [0x2000] \<and>
   list_rep kernel_list (list_insert_before kernel_list 0x1000 0x2000 0x3000 demo_mem) 0x1000 [0x3000, 0x2000]"
proof -
  have "fresh_object kernel_list demo_mem 0x1000 [0x2000] 0x3000" "fresh_object kernel_list demo_mem 0x1100 [] 0x3000"
    "set (list_nodes demo_mem 0x1100 []) \<inter> set (list_nodes demo_mem 0x1000 [0x3000, 0x2000]) = {}"
    "set (list_nodes demo_mem 0x1000 [0x2000]) \<inter> set (list_nodes demo_mem 0x1100 [0x3000]) = {}"
    by (simp_all add: fresh_object_def list_nodes_def list_d2l_def demo_mem_rep list_head_node_def kernel_list_def)
  moreover have "[0x2000] = [] @ (0x2000 :: u64) # []" by simp
  ultimately show ?thesis
    using spl_list_insert [OF kernel_list_contract demo_mem_rep(1) _ _ demo_mem_rep(2), of "0x3000"
        "list_insert_before kernel_list 0x1000 0x2000 0x3000 demo_mem" "[0x3000, 0x2000]"]
      spl_list_insert [OF kernel_list_contract demo_mem_rep(2) _ _ demo_mem_rep(1), of "0x3000"
        "list_insert_tail kernel_list 0x1100 0x3000 demo_mem" "[0x3000]"]
    by (metis append_Nil)
qed

text \<open>C10. Removing an object, or the object at the head or the tail, gives the list without it and
  returns the object removed; the links of a removed object are inactive; on the empty list
  the two operations return null and change nothing; other lists stay as they are.\<close>

theorem spl_list_remove:
  assumes "linux_contract K" and "list_rep K m l (as @ ob # bs)"
    and "list_rep K m l2 ys" and "set (list_nodes m l2 ys) \<inter> set (list_nodes m l (as @ ob # bs)) = {}"
  shows "list_rep K (list_remove K l ob m) l (as @ bs) \<and>
    list_link_active K nd (list_d2l m l ob) (list_remove K l ob m) = Some False \<and>
    list_rep K (list_remove K l ob m) l2 ys \<and>
    (as = [] \<longrightarrow> list_remove_head K l m = (ob, list_remove K l ob m)) \<and>
    (bs = [] \<longrightarrow> list_remove_tail K l m = (ob, list_remove K l ob m)) \<and>
    (ys = [] \<longrightarrow> list_remove_head K l2 m = (0, m) \<and> list_remove_tail K l2 m = (0, m))"
proof -
  note d = list_del_rep [OF assms(1,2)]
  have obj: "list_object (list_del K (list_d2l m l ob) m) l (list_d2l m l ob) = ob"
    using d by (simp add: list_object_def list_d2l_def same_outside_def)
  have ne: "list_d2l m l ob \<noteq> list_head_node l" by (rule list_head_not_object [OF assms(2)]) simp
  have "list_rep K (list_remove K l ob m) l2 ys"
    using d assms(4) unfolding list_remove_def by (intro list_rep_frame [OF assms(3)]) (auto simp: Int_commute)
  moreover have "as = [] \<Longrightarrow> list_remove_head K l m = (ob, list_remove K l ob m)"
    using list_head_links(1) [OF assms(2)] obj ne by (simp add: list_remove_head_def list_remove_def)
  moreover have "bs = [] \<Longrightarrow> list_remove_tail K l m = (ob, list_remove K l ob m)"
    using list_head_links(2) [OF assms(2)] obj ne by (simp add: list_remove_tail_def list_remove_def)
  moreover have "ys = [] \<Longrightarrow> list_remove_head K l2 m = (0, m) \<and> list_remove_tail K l2 m = (0, m)"
    using assms(3) list_remove_empty [of K m l2] by simp
  ultimately show ?thesis
    using d by (simp add: list_remove_def list_link_active_def)
qed

theorem spl_list_remove_witness:
  "list_rep kernel_list (list_remove kernel_list 0x1000 0x2000 demo_mem) 0x1000 [] \<and>
   list_remove_head kernel_list 0x1100 demo_mem = (0, demo_mem)"
proof -
  have "set (list_nodes demo_mem 0x1100 []) \<inter> set (list_nodes demo_mem 0x1000 ([] @ 0x2000 # [])) = {}"
    by (simp add: list_nodes_def list_d2l_def demo_mem_rep list_head_node_def)
  then show ?thesis
    using spl_list_remove [OF kernel_list_contract _ demo_mem_rep(2), of "0x1000" "[]" "0x2000" "[]" True] demo_mem_rep(1)
    by simp
qed

text \<open>Stepping from an object to the next or the previous one, and asking for the first and the
  last, gives the neighbours in the list, and null exactly beyond its ends; the emptiness test
  agrees.\<close>

theorem spl_list_navigation:
  assumes "linux_contract K" and "list_rep K m l (as @ ob # bs)"
  shows "list_next l ob m = hd (bs @ [0]) \<and> list_prev l ob m = last (0 # as) \<and>
    list_head K l m = hd (as @ [ob]) \<and> list_tail K l m = last (ob # bs) \<and> \<not> list_is_empty K l m \<and>
    (list_next l ob m = 0 \<longleftrightarrow> bs = []) \<and> (list_prev l ob m = 0 \<longleftrightarrow> as = [])"
proof -
  have "0 \<notin> set (as @ ob # bs)" using assms(2) by (simp add: list_rep_def)
  then have "as \<noteq> [] \<Longrightarrow> last as \<noteq> 0" "bs \<noteq> [] \<Longrightarrow> hd bs \<noteq> 0"
    by (metis Un_iff last_in_set set_append, metis Un_iff hd_in_set list.set_intros(2) set_append)
  moreover have "hd (bs @ [0]) = (if bs = [] then 0 else hd bs)" "hd (as @ [ob]) = hd (as @ ob # bs)"
    by (simp_all add: hd_append)
  ultimately show ?thesis
    using list_step_rep [OF assms(2)] list_ends_rep [OF assms] list_is_empty_rep [OF assms] by simp
qed

theorem spl_list_navigation_witness:
  "list_next 0x1000 0x2000 demo_mem = 0 \<and> list_head kernel_list 0x1000 demo_mem = 0x2000"
  using spl_list_navigation [OF kernel_list_contract, of demo_mem "0x1000" "[]" "0x2000" "[]"] demo_mem_rep(1) by simp

text \<open>Moving the tail of a list appends its objects, in order, to another list of the same
  element offset and leaves it empty; replacing a link puts the new object in the place of the old
  one, whose link becomes inactive.\<close>

theorem spl_list_move_and_replace:
  assumes "linux_contract K" and "list_rep K m dst (as @ ob # bs)" and "list_rep K m src xs"
    and "offs m dst = offs m src"
    and "set (list_nodes m dst (as @ ob # bs)) \<inter> set (list_nodes m src xs) = {}"
    and "fresh_object K m dst (as @ ob # bs) new"
  shows "list_rep K (list_move_tail K dst src m) dst (as @ ob # bs @ xs) \<and>
    list_rep K (list_move_tail K dst src m) src [] \<and>
    list_rep K (list_link_replace K (list_d2l m dst ob) (list_d2l m dst new) m) dst (as @ new # bs) \<and>
    list_link_active K nd (list_d2l m dst ob)
      (list_link_replace K (list_d2l m dst ob) (list_d2l m dst new) m) = Some False"
  using list_move_tail_rep [OF assms(1-5)] list_link_replace_rep [OF assms(2,6)] by simp

theorem spl_list_move_and_replace_witness:
  "list_rep kernel_list (list_link_replace kernel_list 0x2010 0x3010 demo_mem) 0x1000 [0x3000]"
proof -
  have "fresh_object kernel_list demo_mem 0x1000 ([] @ 0x2000 # []) 0x3000"
    "set (list_nodes demo_mem 0x1000 ([] @ 0x2000 # [])) \<inter> set (list_nodes demo_mem 0x1100 []) = {}"
    by (simp_all add: fresh_object_def list_nodes_def list_d2l_def demo_mem_rep list_head_node_def kernel_list_def)
  then show ?thesis
    using spl_list_move_and_replace [OF kernel_list_contract _ demo_mem_rep(2), of "0x1000" "[]" "0x2000" "[]" "0x3000" True]
      demo_mem_rep
    by (simp add: list_d2l_def)
qed

text \<open>Objects inserted at the tail of an empty list come out at its head in the order they went
  in, and objects inserted at the head come out at the head in the reverse order; the list is
  empty afterwards.\<close>

theorem spl_list_queue_order:
  assumes "linux_contract K" and "list_rep K m l []" and "distinct obs"
    and "\<forall>ob\<in>set obs. fresh_object K m l [] ob"
  shows "(\<exists>m'. drain (list_remove_head K l) (length obs) (fold (list_insert_tail K l) obs m) = (obs, m') \<and>
      list_rep K m' l []) \<and>
    (\<exists>m'. drain (list_remove_head K l) (length obs) (fold (list_insert_head K l) obs m) = (rev obs, m') \<and>
      list_rep K m' l [])"
  using spl_deque.first_in_first_out(1) [where K = K and l = l and s = m and as = obs]
    spl_deque.last_in_first_out [where K = K and l = l and s = m and as = obs] assms
  by blast

theorem spl_list_queue_order_witness:
  "\<exists>m'. drain (list_remove_head kernel_list 0x1100) 2
      (list_insert_tail kernel_list 0x1100 0x4000 (list_insert_tail kernel_list 0x1100 0x3000 demo_mem)) =
    ([0x3000, 0x4000], m')"
proof -
  have "\<forall>ob\<in>set [0x3000, 0x4000]. fresh_object kernel_list demo_mem 0x1100 [] ob"
    by (simp add: fresh_object_def list_nodes_def list_d2l_def demo_mem_rep list_head_node_def kernel_list_def)
  then have "\<exists>m'. drain (list_remove_head kernel_list 0x1100) (length [0x3000 :: u64, 0x4000])
      (fold (list_insert_tail kernel_list 0x1100) [0x3000, 0x4000] demo_mem) = ([0x3000, 0x4000], m')"
    using spl_list_queue_order [OF kernel_list_contract demo_mem_rep(2), of "[0x3000, 0x4000]"] by auto
  then show ?thesis by (simp add: numeral_2_eq_2)
qed

end
