(* ===== verification/Zstd_Header.thy ===== *)
theory Zstd_Header
  imports Bitops Byteorder
begin

unbundle bit_operations_syntax

text \<open>
  The version and level word of the ZSTD block header (\<open>compat/openzfs/sys/zstd/zstd.h\<close>). The word
  used to be a C bitfield and occurs in four byte orders; \<open>zfs_get_hdrmeta\<close> tells them apart by
  the position of the byte that is zero. The lemmas give the bits of each reading; the
  properties say which words are read as they were written, and which are not.
\<close>

section \<open>Structures and functions\<close>

record zfs_zstdhdr_t =
  c_len :: u32
  raw_version_level :: u32

record zfs_zstdmeta_t =
  level :: u8
  version :: u32

text \<open>The loop that looks for the zero byte: the shift at which it stops, 4 if there is none.\<close>

function find_zero_byte :: "u32 \<Rightarrow> nat \<Rightarrow> nat" where
  "find_zero_byte raw shift =
    (if shift < 4 then (if (ucast (BF32_GET raw (8 * shift) 8) :: u8) = 0 then shift
       else find_zero_byte raw (shift + 1))
     else shift)"
  by pat_completeness auto

termination by (relation "measure (\<lambda>(_, shift). 4 - shift)") auto

declare find_zero_byte.simps [simp del]

definition bswap32 :: "u32 \<Rightarrow> u32" where
  "bswap32 x = ucast (BSWAP_32 (ucast x))"

definition zfs_get_hdrmeta :: "zfs_zstdhdr_t \<Rightarrow> zfs_zstdmeta_t" where
  "zfs_get_hdrmeta blob =
    (let raw = raw_version_level blob; shift = find_zero_byte raw 0 in
     if shift = 0 then \<lparr>level = ucast (BF32_GET raw 24 8), version = BF32_GET (bswap32 raw) 8 24\<rparr>
     else if shift = 1 then \<lparr>level = ucast (BF32_GET raw 0 8), version = BF32_GET (bswap32 raw) 0 24\<rparr>
     else if shift = 2 then \<lparr>level = ucast (BF32_GET raw 24 8), version = BF32_GET raw 0 24\<rparr>
     else if shift = 3 then \<lparr>level = ucast (BF32_GET raw 0 8), version = BF32_GET raw 8 24\<rparr>
     else \<lparr>level = 0, version = 0\<rparr>)"

definition zfs_get_hdrlevel :: "zfs_zstdhdr_t \<Rightarrow> u8" where
  "zfs_get_hdrlevel blob = level (zfs_get_hdrmeta blob)"

definition zfs_get_hdrversion :: "zfs_zstdhdr_t \<Rightarrow> u32" where
  "zfs_get_hdrversion blob = version (zfs_get_hdrmeta blob)"

definition zfs_set_hdrversion :: "bool \<Rightarrow> zfs_zstdhdr_t \<Rightarrow> u32 \<Rightarrow> zfs_zstdhdr_t option" where
  "zfs_set_hdrversion nd blob v =
    map_option (\<lambda>w. blob\<lparr>raw_version_level := w\<rparr>) (BF32_SET nd (raw_version_level blob) 0 24 v)"

definition zfs_set_hdrlevel :: "bool \<Rightarrow> zfs_zstdhdr_t \<Rightarrow> u8 \<Rightarrow> zfs_zstdhdr_t option" where
  "zfs_set_hdrlevel nd blob lv =
    map_option (\<lambda>w. blob\<lparr>raw_version_level := w\<rparr>) (BF32_SET nd (raw_version_level blob) 24 8 (ucast lv))"

section \<open>Words of four bytes\<close>

text \<open>The word whose bytes, from the low end, are the arguments.\<close>

definition bytes4 :: "u8 \<Rightarrow> u8 \<Rightarrow> u8 \<Rightarrow> u8 \<Rightarrow> u32" where
  "bytes4 b0 b1 b2 b3 =
    ucast b0 OR push_bit 8 (ucast b1) OR push_bit 16 (ucast b2) OR push_bit 24 (ucast b3)"

lemma bit_bytes4:
  "bit (bytes4 b0 b1 b2 b3) n \<longleftrightarrow>
    (if n < 8 then bit b0 n else if n < 16 then bit b1 (n - 8) else if n < 24 then bit b2 (n - 16)
     else n < 32 \<and> bit b3 (n - 24))"
  by (auto simp: bytes4_def bit_or_iff bit_push_bit_iff bit_ucast_iff possible_bit_def dest: bit_imp_le_length)

lemma bytes4_bytes:
  "(ucast (BF32_GET (bytes4 b0 b1 b2 b3) 0 8) :: u8) = b0"
  "(ucast (BF32_GET (bytes4 b0 b1 b2 b3) 8 8) :: u8) = b1"
  "(ucast (BF32_GET (bytes4 b0 b1 b2 b3) 16 8) :: u8) = b2"
  "(ucast (BF32_GET (bytes4 b0 b1 b2 b3) 24 8) :: u8) = b3"
  by (rule bit_word_eqI; simp add: bit_ucast_iff bit_BF32_GET bit_bytes4)+

lemma bytes4_versions:
  "BF32_GET (bytes4 b0 b1 b2 b3) 0 24 = bytes4 b0 b1 b2 0"
  "BF32_GET (bytes4 b0 b1 b2 b3) 8 24 = bytes4 b1 b2 b3 0"
  by (rule bit_word_eqI; auto simp: bit_BF32_GET bit_bytes4)+

lemma bswap32_bytes4: "bswap32 (bytes4 b0 b1 b2 b3) = bytes4 b3 b2 b1 b0"
  by (rule bit_word_eqI) (auto simp: bswap32_def bit_ucast_iff bit_BSWAP_32 bit_bytes4)

lemma find_zero_byte_bytes4:
  "find_zero_byte (bytes4 b0 b1 b2 b3) 0 =
    (if b0 = 0 then 0 else if b1 = 0 then 1 else if b2 = 0 then 2 else if b3 = 0 then 3 else 4)"
  by (simp add: find_zero_byte.simps [of _ 0] find_zero_byte.simps [of _ "Suc 0"] find_zero_byte.simps [of _ "Suc (Suc 0)"]
      find_zero_byte.simps [of _ "Suc (Suc (Suc 0))"] find_zero_byte.simps [of _ "Suc (Suc (Suc (Suc 0)))"] bytes4_bytes numeral_2_eq_2 numeral_3_eq_3)

text \<open>How a word is read, by its first zero byte.\<close>

lemma get_hdrmeta_bytes4:
  "raw_version_level blob = bytes4 b0 b1 b2 b3 \<Longrightarrow> zfs_get_hdrmeta blob =
    (if b0 = 0 then \<lparr>level = b3, version = bytes4 b2 b1 0 0\<rparr>
     else if b1 = 0 then \<lparr>level = b0, version = bytes4 b3 b2 0 0\<rparr>
     else if b2 = 0 then \<lparr>level = b3, version = bytes4 b0 b1 0 0\<rparr>
     else if b3 = 0 then \<lparr>level = b0, version = bytes4 b1 b2 0 0\<rparr>
     else \<lparr>level = 0, version = 0\<rparr>)"
  by (simp add: zfs_get_hdrmeta_def find_zero_byte_bytes4 bytes4_bytes bytes4_versions bswap32_bytes4)

section \<open>What the setters store\<close>

lemma BF32_SET_put:
  "ASSERT3U nd (ucast v) (<) (ucast (push_bit len (1 :: u32))) = Some () \<Longrightarrow> low + len \<le> 32 \<Longrightarrow>
    BF32_SET nd x low len v = Some (x XOR BF32_ENCODE (drop_bit low x XOR v) low len)"
  by (simp add: BF32_SET_def ASSERT3U_ok word_le_nat_alt unat_of_nat del: of_nat_add)

lemma bit_BF32_put:
  "bit (x XOR BF32_ENCODE (drop_bit low x XOR v) low len) n \<longleftrightarrow>
    (if low \<le> n \<and> n < low + len \<and> n < 32 then bit v (n - low) else bit x n)"
  by (auto simp: BF32_ENCODE_def P2PHASE_mask bit_xor_iff bit_push_bit_iff bit_take_bit_iff bit_drop_bit_eq
      possible_bit_def dest: bit_imp_le_length)

text \<open>The bytes of a version number, from the low end.\<close>

definition vbyte :: "u32 \<Rightarrow> nat \<Rightarrow> u8" where
  "vbyte v i = ucast (drop_bit (8 * i) v)"

lemma bit_vbyte: "bit (vbyte v i) n \<longleftrightarrow> n < 8 \<and> bit v (8 * i + n)"
  by (simp add: vbyte_def bit_ucast_iff bit_drop_bit_eq)

definition zstd_write :: "bool \<Rightarrow> zfs_zstdhdr_t \<Rightarrow> u32 \<Rightarrow> u8 \<Rightarrow> zfs_zstdhdr_t option" where
  "zstd_write nd blob v lv = do { blob \<leftarrow> zfs_set_hdrversion nd blob v; zfs_set_hdrlevel nd blob lv }"

lemma zstd_write_bytes:
  assumes "v < 2 ^ 24"
  shows "zstd_write nd blob v lv =
    Some (blob\<lparr>raw_version_level := bytes4 (vbyte v 0) (vbyte v 1) (vbyte v 2) lv\<rparr>)"
proof -
  have up: "unat (ucast w :: u64) = unat w" for w :: u32
    using unsigned_less [of w, where ?'a = nat] by (simp add: unsigned_ucast_eq take_bit_nat_eq_self)
  have up8: "unat (ucast w :: u32) = unat w" for w :: u8
    using unsigned_less [of w, where ?'a = nat] by (simp add: unsigned_ucast_eq take_bit_nat_eq_self)
  have "(ucast v :: u64) < 0x1000000"
    using assms by (simp add: word_less_nat_alt up)
  then have v: "ASSERT3U nd (ucast v) (<) (ucast (push_bit 24 (1 :: u32))) = Some ()"
    by (intro ASSERT3U_ok) simp
  have "(ucast (ucast lv :: u32) :: u64) < 0x100"
    using unsigned_less [of lv, where ?'a = nat] by (simp only: word_less_nat_alt up up8) simp
  then have l: "ASSERT3U nd (ucast (ucast lv :: u32)) (<) (ucast (push_bit 8 (1 :: u32))) = Some ()"
    by (intro ASSERT3U_ok) simp
  have "(\<lambda>w. w XOR BF32_ENCODE (drop_bit 24 w XOR ucast lv) 24 8)
      (x XOR BF32_ENCODE (drop_bit 0 x XOR v) 0 24) = bytes4 (vbyte v 0) (vbyte v 1) (vbyte v 2) lv" for x
  proof (rule bit_word_eqI)
    fix n assume n: "n < LENGTH(32)"
    consider "n < 8" | "8 \<le> n" "n < 16" | "16 \<le> n" "n < 24" | "24 \<le> n" by linarith
    then show "bit ((\<lambda>w. w XOR BF32_ENCODE (drop_bit 24 w XOR ucast lv) 24 8)
        (x XOR BF32_ENCODE (drop_bit 0 x XOR v) 0 24)) n = bit (bytes4 (vbyte v 0) (vbyte v 1) (vbyte v 2) lv) n"
      unfolding bit_BF32_put bit_bytes4 bit_vbyte bit_ucast_iff
      using n by cases (auto simp: less_diff_conv2)
  qed
  then show ?thesis
    by (simp add: zstd_write_def zfs_set_hdrversion_def zfs_set_hdrlevel_def BF32_SET_put [OF v] BF32_SET_put [OF l])
qed

lemma version_bytes:
  assumes "v < 2 ^ 16"
  shows "v = bytes4 (vbyte v 0) (vbyte v 1) 0 0" and "vbyte v 2 = 0"
    and "vbyte v 1 = 0 \<longleftrightarrow> v < 256" and "vbyte v 1 = 0 \<Longrightarrow> vbyte v 0 = 0 \<longleftrightarrow> v = 0"
proof -
  have hi: "bit v n \<Longrightarrow> n < 16" for n
    using take_bit_word_small [OF assms] by (metis bit_take_bit_iff)
  show eq: "v = bytes4 (vbyte v 0) (vbyte v 1) 0 0"
    by (rule bit_word_eqI) (auto simp: bit_bytes4 bit_vbyte dest: hi)
  show "vbyte v 2 = 0"
    by (rule bit_word_eqI) (auto simp: bit_vbyte dest: hi)
  show "vbyte v 1 = 0 \<longleftrightarrow> v < 256"
  proof
    assume "vbyte v 1 = 0"
    then have "v = bytes4 (vbyte v 0) 0 0 0" using eq by simp
    then have "v = take_bit 8 v"
      by (metis (no_types, lifting) bit_bytes4 bit_take_bit_iff bit_word_eqI bit_0_eq bot_apply bot_bool_def)
    then show "v < 256" using take_bit_word_less [of 8 v] by simp
  next
    assume "v < 256"
    then have "take_bit 8 v = v" by (intro take_bit_word_small) simp
    then have "bit v n \<Longrightarrow> n < 8" for n by (metis bit_take_bit_iff)
    then show "vbyte v 1 = 0" by (intro bit_word_eqI) (auto simp: bit_vbyte)
  qed
  show "vbyte v 1 = 0 \<Longrightarrow> vbyte v 0 = 0 \<longleftrightarrow> v = 0"
    using eq by (auto simp: bytes4_def vbyte_def)
qed

section \<open>Properties\<close>

text \<open>The four layouts of the word that a version below 2^16 and a level can have, the two byte orders of
  the former bitfield on either kind of host, are all read as the same version and level,
  when no byte but the version's high one is zero.\<close>

theorem zstd_layouts_read_alike:
  assumes "lv \<noteq> 0" and "vlow \<noteq> 0" and "vmid \<noteq> 0"
    and "raw_version_level blob \<in> {bytes4 vlow vmid 0 lv, bytes4 lv 0 vmid vlow, bytes4 0 vmid vlow lv, bytes4 lv vlow vmid 0}"
  shows "zfs_get_hdrlevel blob = lv \<and> zfs_get_hdrversion blob = bytes4 vlow vmid 0 0"
  using assms by (auto simp: zfs_get_hdrlevel_def zfs_get_hdrversion_def get_hdrmeta_bytes4)

theorem zstd_layouts_read_alike_witness:
  "zfs_get_hdrversion \<lparr>c_len = 9, raw_version_level = 0xA5280003\<rparr> = 10405"
proof -
  have w: "(0xA5280003 :: u32) = bytes4 3 0 0x28 0xA5" "bytes4 0xA5 0x28 0 0 = 10405"
    by (simp_all add: bytes4_def)
  show ?thesis
    using zstd_layouts_read_alike [of 3 "0xA5" "0x28" "\<lparr>c_len = 9, raw_version_level = 0xA5280003\<rparr>"]
    unfolding w by simp
qed

text \<open>A version below 2^16 and a level that are stored with the setters read back as both exactly when the
  version is at least 256, or zero, or equal to the level; the length field is kept.\<close>

theorem zstd_set_then_get:
  assumes "v < 2 ^ 16"
  shows "\<exists>blob'. zstd_write nd blob v lv = Some blob' \<and> c_len blob' = c_len blob \<and>
    (zfs_get_hdrlevel blob' = lv \<and> zfs_get_hdrversion blob' = v \<longleftrightarrow> 256 \<le> v \<or> v = 0 \<or> v = ucast lv)"
proof -
  note b = version_bytes [OF assms]
  have "v < 2 ^ 24" by (rule less_trans [OF assms]) simp
  note w = zstd_write_bytes [OF this, of nd blob lv]
  define v0 v1 where "v0 = vbyte v 0" and "v1 = vbyte v 1"
  have v: "v = bytes4 v0 v1 0 0" using b(1) by (simp add: v0_def v1_def)
  have inj: "bytes4 a c 0 0 = bytes4 a' c' 0 0 \<longleftrightarrow> a = a' \<and> c = c'" for a c a' c'
    using bytes4_bytes(1,2) [of a c 0 0] bytes4_bytes(1,2) [of a' c' 0 0] by metis
  have lvw: "ucast lv = bytes4 lv 0 0 0" by (simp add: bytes4_def)
  have zero: "bytes4 0 0 0 0 = 0" by (simp add: bytes4_def)
  have "v = ucast lv \<longleftrightarrow> v0 = lv \<and> v1 = 0" unfolding lvw v inj by blast
  moreover have "v = 0 \<longleftrightarrow> v0 = 0 \<and> v1 = 0" using inj [of v0 v1 0 0] unfolding zero v by blast
  moreover have "256 \<le> v \<longleftrightarrow> v1 \<noteq> 0" using b(3) by (simp add: v1_def not_less [symmetric])
  ultimately show ?thesis
    unfolding w b(2) v0_def [symmetric] v1_def [symmetric]
    by (simp add: zfs_get_hdrlevel_def zfs_get_hdrversion_def get_hdrmeta_bytes4 inj v) (use inj in metis)
qed

theorem zstd_set_then_get_witness:
  "\<exists>blob'. zstd_write False \<lparr>c_len = 9, raw_version_level = 0\<rparr> 10405 3 = Some blob' \<and>
    zfs_get_hdrlevel blob' = 3 \<and> zfs_get_hdrversion blob' = 10405"
  using zstd_set_then_get [of 10405 False "\<lparr>c_len = 9, raw_version_level = 0\<rparr>" 3] by auto

text \<open>Once a version needs its third byte (from 2^16 on), a header with no zero byte is read as
  level 0 and version 0.\<close>

theorem zstd_no_zero_byte:
  assumes "v < 2 ^ 24" and "vbyte v 0 \<noteq> 0" and "vbyte v 1 \<noteq> 0" and "vbyte v 2 \<noteq> 0" and "lv \<noteq> 0"
  shows "\<exists>blob'. zstd_write nd blob v lv = Some blob' \<and> zfs_get_hdrlevel blob' = 0 \<and> zfs_get_hdrversion blob' = 0"
  using assms
  by (simp add: zstd_write_bytes zfs_get_hdrlevel_def zfs_get_hdrversion_def get_hdrmeta_bytes4)

theorem zstd_no_zero_byte_witness:
  "\<exists>blob'. zstd_write False \<lparr>c_len = 9, raw_version_level = 0\<rparr> 65793 3 = Some blob' \<and> zfs_get_hdrversion blob' = 0"
proof -
  have "vbyte 65793 0 = 1" "vbyte 65793 1 = 1" "vbyte 65793 2 = 1" by (simp_all add: vbyte_def)
  then show ?thesis
    using zstd_no_zero_byte [of 65793 3 False "\<lparr>c_len = 9, raw_version_level = 0\<rparr>"] by auto
qed

end
