(* ===== verification/C_Layout.thy ===== *)
theory C_Layout
  imports Prelude
begin

text \<open>
  The layout a C compiler gives a structure: every member at the next multiple of its
  alignment, the size a multiple of the structure's alignment. The argument \<open>a\<close> is the
  alignment of a 64-bit integer, 8 on 64-bit hosts and 4 on i386. The theories that own a
  structure describe it as a \<open>ctype\<close> and evaluate its offsets.
\<close>

datatype ctype =
    CInt nat
  | CArray nat ctype
  | CStruct "(string \<times> ctype) list"
  | CUnion "(string \<times> ctype) list"

text \<open>The next multiple of \<open>al\<close>.\<close>

definition pad_to :: "nat \<Rightarrow> nat \<Rightarrow> nat" where
  "pad_to n al = (n + al - 1) div al * al"

fun align_of :: "nat \<Rightarrow> ctype \<Rightarrow> nat" and align_members :: "nat \<Rightarrow> (string \<times> ctype) list \<Rightarrow> nat" where
  "align_of a (CInt n) = (if n = 8 then a else n)"
| "align_of a (CArray n t) = align_of a t"
| "align_of a (CStruct ms) = align_members a ms"
| "align_of a (CUnion ms) = align_members a ms"
| "align_members a [] = 1"
| "align_members a ((f, t) # ms) = max (align_of a t) (align_members a ms)"

fun size_of :: "nat \<Rightarrow> ctype \<Rightarrow> nat" and struct_end :: "nat \<Rightarrow> nat \<Rightarrow> (string \<times> ctype) list \<Rightarrow> nat"
  and union_size :: "nat \<Rightarrow> (string \<times> ctype) list \<Rightarrow> nat" where
  "size_of a (CInt n) = n"
| "size_of a (CArray n t) = n * size_of a t"
| "size_of a (CStruct ms) = pad_to (struct_end a 0 ms) (align_members a ms)"
| "size_of a (CUnion ms) = pad_to (union_size a ms) (align_members a ms)"
| "struct_end a pos [] = pos"
| "struct_end a pos ((f, t) # ms) = struct_end a (pad_to pos (align_of a t) + size_of a t) ms"
| "union_size a [] = 0"
| "union_size a ((f, t) # ms) = max (size_of a t) (union_size a ms)"

text \<open>The members of a structure with their offsets.\<close>

fun offsets :: "nat \<Rightarrow> nat \<Rightarrow> (string \<times> ctype) list \<Rightarrow> (string \<times> nat) list" where
  "offsets a pos [] = []"
| "offsets a pos ((f, t) # ms) =
    (f, pad_to pos (align_of a t)) # offsets a (pad_to pos (align_of a t) + size_of a t) ms"

fun members :: "ctype \<Rightarrow> (string \<times> ctype) list" where
  "members (CStruct ms) = ms"
| "members (CUnion ms) = ms"
| "members _ = []"

text \<open>No gap before or after any member.\<close>

definition no_padding :: "nat \<Rightarrow> ctype \<Rightarrow> bool" where
  "no_padding a t \<longleftrightarrow> size_of a t = sum_list (map (size_of a \<circ> snd) (members t))"

text \<open>The same offsets and size on both kinds of host.\<close>

definition portable :: "ctype \<Rightarrow> bool" where
  "portable t \<longleftrightarrow> offsets 4 0 (members t) = offsets 8 0 (members t) \<and> size_of 4 t = size_of 8 t"

abbreviation "c_u8 \<equiv> CInt 1"
abbreviation "c_u16 \<equiv> CInt 2"
abbreviation "c_u32 \<equiv> CInt 4"
abbreviation "c_u64 \<equiv> CInt 8"

section \<open>General facts\<close>

lemma pad_to_le: "0 < al \<Longrightarrow> n \<le> pad_to n al"
  unfolding pad_to_def using dividend_less_div_times [of al "n + al - 1"] by linarith

lemma pad_to_dvd: "al dvd pad_to n al"
  by (simp add: pad_to_def)

lemma pad_to_less: "0 < al \<Longrightarrow> pad_to n al < n + al"
  unfolding pad_to_def using div_times_less_eq_dividend [of "n + al - 1" al] by linarith

lemma pad_to_multiple: "0 < al \<Longrightarrow> al dvd n \<Longrightarrow> pad_to n al = n"
proof -
  assume "0 < al" "al dvd n"
  moreover have "al dvd pad_to n al - n" using pad_to_dvd [of al n] \<open>al dvd n\<close> by (rule dvd_diff_nat)
  moreover have "pad_to n al - n < al" using pad_to_less [of al n] \<open>0 < al\<close> by linarith
  ultimately have "pad_to n al - n = 0" using nat_dvd_not_less by blast
  then show ?thesis using pad_to_le [of al n] \<open>0 < al\<close> by linarith
qed

text \<open>Every member lies inside its structure, at a multiple of its alignment, and after the one before.\<close>

lemma offsets_in_order:
  assumes "\<forall>(f, t)\<in>set ms. 0 < align_of a t"
  shows "sorted_wrt (\<le>) (pos # map snd (offsets a pos ms)) \<and>
    (\<forall>(f, p)\<in>set (offsets a pos ms). pos \<le> p \<and> p \<le> struct_end a pos ms) \<and> pos \<le> struct_end a pos ms"
  using assms
proof (induction ms arbitrary: pos)
  case (Cons m ms)
  obtain f t where m: "m = (f, t)" by (cases m)
  let ?p = "pad_to pos (align_of a t)"
  have p: "pos \<le> ?p" using Cons.prems m by (intro pad_to_le) auto
  have "\<forall>(f, t)\<in>set ms. 0 < align_of a t" using Cons.prems by simp
  from Cons.IH [OF this, of "?p + size_of a t"] show ?case
    using p by (fastforce simp: m)
qed simp

end
