(* ===== verification/Zfs_Ioctl.thy ===== *)
theory Zfs_Ioctl
  imports C_Layout Bitops
begin

unbundle bit_operations_syntax

text \<open>
  The interface between the kernel and its users (\<open>compat/openzfs/sys/zfs_ioctl.h\<close>): the version
  word and the flags of a send stream, the records of a send stream, and the command
  structure of an ioctl. The structures are layouts (\<open>C_Layout\<close>): their comments promise that 32-bit
  and 64-bit compilations agree and that the checksum of a record overlays no member of it.
  \<open>MAXPATHLEN\<close> differs between platforms and is the argument \<open>mp\<close>.
\<close>

section \<open>Send stream versions and features\<close>

datatype zfs_snapdir = ZFS_SNAPDIR_HIDDEN | ZFS_SNAPDIR_VISIBLE | ZFS_SNAPDIR_DISABLED
datatype zfs_snapdev = ZFS_SNAPDEV_HIDDEN | ZFS_SNAPDEV_VISIBLE
datatype zfs_acltype = ZFS_ACLTYPE_OFF | ZFS_ACLTYPE_POSIX | ZFS_ACLTYPE_NFSV4

definition DMU_GET_STREAM_HDRTYPE :: "u64 \<Rightarrow> u64" where
  "DMU_GET_STREAM_HDRTYPE vi = BF64_GET vi 0 2"

definition DMU_SET_STREAM_HDRTYPE :: "bool \<Rightarrow> u64 \<Rightarrow> u64 \<Rightarrow> u64 option" where
  "DMU_SET_STREAM_HDRTYPE nd vi x = BF64_SET nd vi 0 2 x"

definition DMU_GET_FEATUREFLAGS :: "u64 \<Rightarrow> u64" where
  "DMU_GET_FEATUREFLAGS vi = BF64_GET vi 2 56"

definition DMU_SET_FEATUREFLAGS :: "bool \<Rightarrow> u64 \<Rightarrow> u64 \<Rightarrow> u64 option" where
  "DMU_SET_FEATUREFLAGS nd vi x = BF64_SET nd vi 2 56 x"

definition DMU_SUBSTREAM :: u64 where "DMU_SUBSTREAM = 0x1"
definition DMU_COMPOUNDSTREAM :: u64 where "DMU_COMPOUNDSTREAM = 0x2"

definition DMU_BACKUP_FEATURE_DEDUP :: u64 where "DMU_BACKUP_FEATURE_DEDUP = 2 ^ 0"
definition DMU_BACKUP_FEATURE_DEDUPPROPS :: u64 where "DMU_BACKUP_FEATURE_DEDUPPROPS = 2 ^ 1"
definition DMU_BACKUP_FEATURE_SA_SPILL :: u64 where "DMU_BACKUP_FEATURE_SA_SPILL = 2 ^ 2"
definition DMU_BACKUP_FEATURE_EMBED_DATA :: u64 where "DMU_BACKUP_FEATURE_EMBED_DATA = 2 ^ 16"
definition DMU_BACKUP_FEATURE_LZ4 :: u64 where "DMU_BACKUP_FEATURE_LZ4 = 2 ^ 17"
definition DMU_BACKUP_FEATURE_LARGE_BLOCKS :: u64 where "DMU_BACKUP_FEATURE_LARGE_BLOCKS = 2 ^ 19"
definition DMU_BACKUP_FEATURE_RESUMING :: u64 where "DMU_BACKUP_FEATURE_RESUMING = 2 ^ 20"
definition DMU_BACKUP_FEATURE_REDACTED :: u64 where "DMU_BACKUP_FEATURE_REDACTED = 2 ^ 21"
definition DMU_BACKUP_FEATURE_COMPRESSED :: u64 where "DMU_BACKUP_FEATURE_COMPRESSED = 2 ^ 22"
definition DMU_BACKUP_FEATURE_LARGE_DNODE :: u64 where "DMU_BACKUP_FEATURE_LARGE_DNODE = 2 ^ 23"
definition DMU_BACKUP_FEATURE_RAW :: u64 where "DMU_BACKUP_FEATURE_RAW = 2 ^ 24"
definition DMU_BACKUP_FEATURE_ZSTD :: u64 where "DMU_BACKUP_FEATURE_ZSTD = 2 ^ 25"
definition DMU_BACKUP_FEATURE_HOLDS :: u64 where "DMU_BACKUP_FEATURE_HOLDS = 2 ^ 26"
definition DMU_BACKUP_FEATURE_SWITCH_TO_LARGE_BLOCKS :: u64 where
  "DMU_BACKUP_FEATURE_SWITCH_TO_LARGE_BLOCKS = 2 ^ 27"
definition DMU_BACKUP_FEATURE_LONGNAME :: u64 where "DMU_BACKUP_FEATURE_LONGNAME = 2 ^ 28"
definition DMU_BACKUP_FEATURE_LARGE_MICROZAP :: u64 where "DMU_BACKUP_FEATURE_LARGE_MICROZAP = 2 ^ 29"

definition DMU_BACKUP_FEATURE_MASK :: u64 where
  "DMU_BACKUP_FEATURE_MASK = DMU_BACKUP_FEATURE_SA_SPILL OR DMU_BACKUP_FEATURE_EMBED_DATA OR
    DMU_BACKUP_FEATURE_LZ4 OR DMU_BACKUP_FEATURE_RESUMING OR DMU_BACKUP_FEATURE_LARGE_BLOCKS OR
    DMU_BACKUP_FEATURE_COMPRESSED OR DMU_BACKUP_FEATURE_LARGE_DNODE OR DMU_BACKUP_FEATURE_RAW OR
    DMU_BACKUP_FEATURE_HOLDS OR DMU_BACKUP_FEATURE_REDACTED OR DMU_BACKUP_FEATURE_SWITCH_TO_LARGE_BLOCKS OR
    DMU_BACKUP_FEATURE_ZSTD OR DMU_BACKUP_FEATURE_LONGNAME OR DMU_BACKUP_FEATURE_LARGE_MICROZAP"

definition DMU_STREAM_SUPPORTED :: "u64 \<Rightarrow> bool" where
  "DMU_STREAM_SUPPORTED x \<longleftrightarrow> x AND NOT DMU_BACKUP_FEATURE_MASK = 0"

definition DMU_BACKUP_MAGIC :: u64 where "DMU_BACKUP_MAGIC = 0x2F5bacbac"

definition DRR_FLAG_CLONE :: u32 where "DRR_FLAG_CLONE = 2 ^ 0"
definition DRR_FLAG_CI_DATA :: u32 where "DRR_FLAG_CI_DATA = 2 ^ 1"
definition DRR_FLAG_FREERECORDS :: u32 where "DRR_FLAG_FREERECORDS = 2 ^ 2"
definition DRR_FLAG_SPILL_BLOCK :: u32 where "DRR_FLAG_SPILL_BLOCK = 2 ^ 3"
definition DRR_CHECKSUM_DEDUP :: u8 where "DRR_CHECKSUM_DEDUP = 2 ^ 0"
definition DRR_RAW_BYTESWAP :: u8 where "DRR_RAW_BYTESWAP = 2 ^ 1"
definition DRR_OBJECT_SPILL :: u8 where "DRR_OBJECT_SPILL = 2 ^ 2"
definition DRR_SPILL_UNMODIFIED :: u8 where "DRR_SPILL_UNMODIFIED = 2 ^ 2"

definition DRR_IS_DEDUP_CAPABLE :: "u8 \<Rightarrow> bool" where
  "DRR_IS_DEDUP_CAPABLE flags \<longleftrightarrow> flags AND DRR_CHECKSUM_DEDUP \<noteq> 0"

definition DRR_IS_RAW_BYTESWAPPED :: "u8 \<Rightarrow> bool" where
  "DRR_IS_RAW_BYTESWAPPED flags \<longleftrightarrow> flags AND DRR_RAW_BYTESWAP \<noteq> 0"

definition DRR_OBJECT_HAS_SPILL :: "u8 \<Rightarrow> bool" where
  "DRR_OBJECT_HAS_SPILL flags \<longleftrightarrow> flags AND DRR_OBJECT_SPILL \<noteq> 0"

definition DRR_SPILL_IS_UNMODIFIED :: "u8 \<Rightarrow> bool" where
  "DRR_SPILL_IS_UNMODIFIED flags \<longleftrightarrow> flags AND DRR_SPILL_UNMODIFIED \<noteq> 0"

section \<open>Payload sizes\<close>

text \<open>The members of the three records that the payload macros read.\<close>

record drr_write_sizes =
  drrw_compressiontype :: u8
  drrw_compressed_size :: u64
  drrw_logical_size :: u64

record drr_spill_sizes =
  drrs_compressed_size :: u64
  drrs_length :: u64

record drr_object_sizes =
  drro_raw_bonuslen :: u32
  drro_bonuslen :: u32

definition DRR_WRITE_COMPRESSED :: "drr_write_sizes \<Rightarrow> bool" where
  "DRR_WRITE_COMPRESSED drrw \<longleftrightarrow> drrw_compressiontype drrw \<noteq> 0"

definition DRR_WRITE_PAYLOAD_SIZE :: "drr_write_sizes \<Rightarrow> u64" where
  "DRR_WRITE_PAYLOAD_SIZE drrw =
    (if DRR_WRITE_COMPRESSED drrw then drrw_compressed_size drrw else drrw_logical_size drrw)"

definition DRR_SPILL_PAYLOAD_SIZE :: "drr_spill_sizes \<Rightarrow> u64" where
  "DRR_SPILL_PAYLOAD_SIZE drrs =
    (if drrs_compressed_size drrs \<noteq> 0 then drrs_compressed_size drrs else drrs_length drrs)"

definition DRR_OBJECT_PAYLOAD_SIZE :: "drr_object_sizes \<Rightarrow> u32" where
  "DRR_OBJECT_PAYLOAD_SIZE drro =
    (if drro_raw_bonuslen drro \<noteq> 0 then drro_raw_bonuslen drro else P2ROUNDUP (drro_bonuslen drro) 8)"

section \<open>The records of a send stream\<close>

definition MAXNAMELEN :: nat where "MAXNAMELEN = 256"
definition ZIO_DATA_SALT_LEN :: nat where "ZIO_DATA_SALT_LEN = 8"
definition ZIO_DATA_IV_LEN :: nat where "ZIO_DATA_IV_LEN = 12"
definition ZIO_DATA_MAC_LEN :: nat where "ZIO_DATA_MAC_LEN = 16"

definition c_enum :: ctype where "c_enum = CInt 4"

definition c_zio_cksum :: ctype where
  "c_zio_cksum = CStruct [(''zc_word'', CArray 4 c_u64)]"

definition c_ddt_key :: ctype where
  "c_ddt_key = CStruct [(''ddk_cksum'', c_zio_cksum), (''ddk_prop'', c_u64)]"

definition drr_begin :: ctype where
  "drr_begin = CStruct [(''drr_magic'', c_u64), (''drr_versioninfo'', c_u64), (''drr_creation_time'', c_u64),
    (''drr_type'', c_enum), (''drr_flags'', c_u32), (''drr_toguid'', c_u64), (''drr_fromguid'', c_u64),
    (''drr_toname'', CArray MAXNAMELEN c_u8)]"

definition drr_end :: ctype where
  "drr_end = CStruct [(''drr_checksum'', c_zio_cksum), (''drr_toguid'', c_u64)]"

definition drr_object :: ctype where
  "drr_object = CStruct [(''drr_object'', c_u64), (''drr_type'', c_enum), (''drr_bonustype'', c_enum),
    (''drr_blksz'', c_u32), (''drr_bonuslen'', c_u32), (''drr_checksumtype'', c_u8), (''drr_compress'', c_u8),
    (''drr_dn_slots'', c_u8), (''drr_flags'', c_u8), (''drr_raw_bonuslen'', c_u32), (''drr_toguid'', c_u64),
    (''drr_indblkshift'', c_u8), (''drr_nlevels'', c_u8), (''drr_nblkptr'', c_u8), (''drr_pad'', CArray 5 c_u8),
    (''drr_maxblkid'', c_u64)]"

definition drr_freeobjects :: ctype where
  "drr_freeobjects = CStruct [(''drr_firstobj'', c_u64), (''drr_numobjs'', c_u64), (''drr_toguid'', c_u64)]"

definition drr_write :: ctype where
  "drr_write = CStruct [(''drr_object'', c_u64), (''drr_type'', c_enum), (''drr_pad'', c_u32),
    (''drr_offset'', c_u64), (''drr_logical_size'', c_u64), (''drr_toguid'', c_u64), (''drr_checksumtype'', c_u8),
    (''drr_flags'', c_u8), (''drr_compressiontype'', c_u8), (''drr_pad2'', CArray 5 c_u8), (''drr_key'', c_ddt_key),
    (''drr_compressed_size'', c_u64), (''drr_salt'', CArray ZIO_DATA_SALT_LEN c_u8),
    (''drr_iv'', CArray ZIO_DATA_IV_LEN c_u8), (''drr_mac'', CArray ZIO_DATA_MAC_LEN c_u8)]"

definition drr_free :: ctype where
  "drr_free = CStruct [(''drr_object'', c_u64), (''drr_offset'', c_u64), (''drr_length'', c_u64), (''drr_toguid'', c_u64)]"

definition drr_write_byref :: ctype where
  "drr_write_byref = CStruct [(''drr_object'', c_u64), (''drr_offset'', c_u64), (''drr_length'', c_u64),
    (''drr_toguid'', c_u64), (''drr_refguid'', c_u64), (''drr_refobject'', c_u64), (''drr_refoffset'', c_u64),
    (''drr_checksumtype'', c_u8), (''drr_flags'', c_u8), (''drr_pad2'', CArray 6 c_u8), (''drr_key'', c_ddt_key)]"

definition drr_spill :: ctype where
  "drr_spill = CStruct [(''drr_object'', c_u64), (''drr_length'', c_u64), (''drr_toguid'', c_u64),
    (''drr_flags'', c_u8), (''drr_compressiontype'', c_u8), (''drr_pad'', CArray 6 c_u8),
    (''drr_compressed_size'', c_u64), (''drr_salt'', CArray ZIO_DATA_SALT_LEN c_u8),
    (''drr_iv'', CArray ZIO_DATA_IV_LEN c_u8), (''drr_mac'', CArray ZIO_DATA_MAC_LEN c_u8), (''drr_type'', c_enum)]"

definition drr_write_embedded :: ctype where
  "drr_write_embedded = CStruct [(''drr_object'', c_u64), (''drr_offset'', c_u64), (''drr_length'', c_u64),
    (''drr_toguid'', c_u64), (''drr_compression'', c_u8), (''drr_etype'', c_u8), (''drr_pad'', CArray 6 c_u8),
    (''drr_lsize'', c_u32), (''drr_psize'', c_u32)]"

definition drr_object_range :: ctype where
  "drr_object_range = CStruct [(''drr_firstobj'', c_u64), (''drr_numslots'', c_u64), (''drr_toguid'', c_u64),
    (''drr_salt'', CArray ZIO_DATA_SALT_LEN c_u8), (''drr_iv'', CArray ZIO_DATA_IV_LEN c_u8),
    (''drr_mac'', CArray ZIO_DATA_MAC_LEN c_u8), (''drr_flags'', c_u8), (''drr_pad'', CArray 3 c_u8)]"

definition drr_redact :: ctype where
  "drr_redact = CStruct [(''drr_object'', c_u64), (''drr_offset'', c_u64), (''drr_length'', c_u64), (''drr_toguid'', c_u64)]"

definition drr_checksum :: ctype where
  "drr_checksum = CStruct [(''drr_pad'', CArray 34 c_u64), (''drr_checksum'', c_zio_cksum)]"

definition drr_u :: "(string \<times> ctype) list" where
  "drr_u = [(''drr_begin'', drr_begin), (''drr_end'', drr_end), (''drr_object'', drr_object),
    (''drr_freeobjects'', drr_freeobjects), (''drr_write'', drr_write), (''drr_free'', drr_free),
    (''drr_write_byref'', drr_write_byref), (''drr_spill'', drr_spill), (''drr_write_embedded'', drr_write_embedded),
    (''drr_object_range'', drr_object_range), (''drr_redact'', drr_redact), (''drr_checksum'', drr_checksum)]"

datatype drr_type = DRR_BEGIN | DRR_OBJECT | DRR_FREEOBJECTS | DRR_WRITE | DRR_FREE | DRR_END | DRR_WRITE_BYREF
  | DRR_SPILL | DRR_WRITE_EMBEDDED | DRR_OBJECT_RANGE | DRR_REDACT | DRR_NUMTYPES

definition dmu_replay_record :: ctype where
  "dmu_replay_record = CStruct [(''drr_type'', c_enum), (''drr_payloadlen'', c_u32), (''drr_u'', CUnion drr_u)]"

section \<open>The command structure\<close>

definition dmu_diff_record :: ctype where
  "dmu_diff_record = CStruct [(''ddr_type'', c_u64), (''ddr_first'', c_u64), (''ddr_last'', c_u64)]"

definition zinject_record :: ctype where
  "zinject_record = CStruct [(''zi_objset'', c_u64), (''zi_object'', c_u64), (''zi_start'', c_u64), (''zi_end'', c_u64),
    (''zi_guid'', c_u64), (''zi_level'', c_u32), (''zi_error'', c_u32), (''zi_type'', c_u64), (''zi_freq'', c_u32),
    (''zi_failfast'', c_u32), (''zi_func'', CArray MAXNAMELEN c_u8), (''zi_iotype'', c_u32), (''zi_duration'', c_u32),
    (''zi_timer'', c_u64), (''zi_nlanes'', c_u64), (''zi_cmd'', c_u32), (''zi_dvas'', c_u32),
    (''zi_match_count'', c_u64), (''zi_inject_count'', c_u64)]"

definition zfs_share :: ctype where
  "zfs_share = CStruct [(''z_exportdata'', c_u64), (''z_sharedata'', c_u64), (''z_sharetype'', c_u64), (''z_sharemax'', c_u64)]"

definition dmu_objset_stats :: ctype where
  "dmu_objset_stats = CStruct [(''dds_num_clones'', c_u64), (''dds_creation_txg'', c_u64), (''dds_guid'', c_u64),
    (''dds_type'', c_enum), (''dds_is_snapshot'', c_u8), (''dds_inconsistent'', c_u8), (''dds_redacted'', c_u8),
    (''dds_origin'', CArray 256 c_u8), (''dds_flags'', c_u8)]"

definition zfs_stat :: ctype where
  "zfs_stat = CStruct [(''zs_gen'', c_u64), (''zs_mode'', c_u64), (''zs_links'', c_u64), (''zs_ctime'', CArray 2 c_u64)]"

text \<open>The structure that shares the space of the injection record.\<close>

definition zc_inject_overlay :: ctype where
  "zc_inject_overlay = CStruct [(''zc_pad1'', CArray (size_of 8 zinject_record - 16) c_u8), (''zc_defer_destroy'', c_u32),
    (''zc_flags'', c_u32), (''zc_action_handle'', c_u64)]"

definition zfs_cmd :: "nat \<Rightarrow> ctype" where
  "zfs_cmd mp = CStruct [(''zc_name'', CArray mp c_u8), (''zc_nvlist_src'', c_u64), (''zc_nvlist_src_size'', c_u64),
    (''zc_nvlist_dst'', c_u64), (''zc_nvlist_dst_size'', c_u64), (''zc_nvlist_dst_filled'', c_enum), (''zc_pad2'', c_u32),
    (''zc_history'', c_u64), (''zc_value'', CArray (mp * 2) c_u8), (''zc_string'', CArray MAXNAMELEN c_u8),
    (''zc_guid'', c_u64), (''zc_nvlist_conf'', c_u64), (''zc_nvlist_conf_size'', c_u64), (''zc_cookie'', c_u64),
    (''zc_objset_type'', c_u64), (''zc_perm_action'', c_u64), (''zc_history_len'', c_u64), (''zc_history_offset'', c_u64),
    (''zc_obj'', c_u64), (''zc_iflags'', c_u64), (''zc_share'', zfs_share), (''zc_objset_stats'', dmu_objset_stats),
    (''zc_begin_record'', drr_begin),
    (''zc_inject_record'', CUnion [(''zc_inject_record'', zinject_record), ([], zc_inject_overlay)]),
    (''zc_cleanup_fd'', c_u32), (''zc_simple'', c_u8), (''zc_pad'', CArray 3 c_u8), (''zc_sendobj'', c_u64),
    (''zc_fromobj'', c_u64), (''zc_createtxg'', c_u64), (''zc_stat'', zfs_stat), (''zc_zoneid'', c_u64)]"

definition expected_zfs_cmd_size :: "nat \<Rightarrow> nat" where
  "expected_zfs_cmd_size mp = mp * 3 + MAXNAMELEN + 1200"

definition zfs_useracct :: ctype where
  "zfs_useracct = CStruct [(''zu_domain'', CArray 256 c_u8), (''zu_rid'', c_u32), (''zu_pad'', c_u32), (''zu_space'', c_u64)]"

section \<open>Evaluation of the layouts\<close>

lemmas drr_structs = drr_begin_def drr_end_def drr_object_def drr_freeobjects_def drr_write_def drr_free_def
  drr_write_byref_def drr_spill_def drr_write_embedded_def drr_object_range_def drr_redact_def drr_checksum_def

lemmas layout_simps = c_enum_def c_zio_cksum_def c_ddt_key_def MAXNAMELEN_def ZIO_DATA_SALT_LEN_def
  ZIO_DATA_IV_LEN_def ZIO_DATA_MAC_LEN_def pad_to_def Let_def

lemma member_sizes:
  "size_of 8 zfs_share = 32" "size_of 4 zfs_share = 32" "align_of 8 zfs_share = 8" "align_of 4 zfs_share = 4"
  "size_of 8 dmu_objset_stats = 288" "size_of 4 dmu_objset_stats = 288" "align_of 8 dmu_objset_stats = 8"
  "align_of 4 dmu_objset_stats = 4"
  "size_of 8 drr_begin = 304" "size_of 4 drr_begin = 304" "align_of 8 drr_begin = 8" "align_of 4 drr_begin = 4"
  "size_of 8 zfs_stat = 40" "size_of 4 zfs_stat = 40" "align_of 8 zfs_stat = 8" "align_of 4 zfs_stat = 4"
  "size_of 8 zinject_record = 368" "size_of 4 zinject_record = 368" "align_of 8 zinject_record = 8"
  "align_of 4 zinject_record = 4"
  by (simp_all add: zfs_share_def dmu_objset_stats_def drr_begin_def zfs_stat_def zinject_record_def layout_simps)

lemma overlay_sizes:
  "size_of 8 zc_inject_overlay = 368" "size_of 4 zc_inject_overlay = 368" "align_of 8 zc_inject_overlay = 8"
  "align_of 4 zc_inject_overlay = 4"
  by (simp_all add: zc_inject_overlay_def member_sizes layout_simps)

lemmas zfs_cmd_simps = member_sizes overlay_sizes c_enum_def MAXNAMELEN_def Let_def pad_to_def

lemma drr_offsets:
  "map (\<lambda>(n, t). offsets 4 0 (members t)) drr_u = map (\<lambda>(n, t). offsets 8 0 (members t)) drr_u"
  by (simp add: drr_u_def drr_structs layout_simps)

section \<open>Properties\<close>

text \<open>On 32-bit and 64-bit hosts alike, the checksum that ends a record of a send stream starts at byte 272
  of the union and overlays no member of any record but the first: exactly \<open>drr_begin\<close>, which
  carries none, is longer than that; every member of every record has the same offset on both,
  and a whole record takes 312 bytes.\<close>

theorem send_record_layout:
  "map_of (offsets 8 0 (members drr_checksum)) ''drr_checksum'' = Some 272 \<and>
   map fst (filter (\<lambda>(n, t). 272 < size_of 8 t) drr_u) = [''drr_begin'', ''drr_checksum''] \<and>
   map fst (filter (\<lambda>(n, t). 272 < size_of 4 t) drr_u) = [''drr_begin'', ''drr_checksum''] \<and>
   map (\<lambda>(n, t). offsets 4 0 (members t)) drr_u = map (\<lambda>(n, t). offsets 8 0 (members t)) drr_u \<and>
   portable dmu_replay_record \<and> size_of 8 dmu_replay_record = 312"
proof (intro conjI)
  show "map_of (offsets 8 0 (members drr_checksum)) ''drr_checksum'' = Some 272"
    by (simp add: drr_checksum_def layout_simps)
  show "map fst (filter (\<lambda>(n, t). 272 < size_of 8 t) drr_u) = [''drr_begin'', ''drr_checksum'']"
    "map fst (filter (\<lambda>(n, t). 272 < size_of 4 t) drr_u) = [''drr_begin'', ''drr_checksum'']"
    by (simp_all add: drr_u_def drr_structs layout_simps)
  show "map (\<lambda>(n, t). offsets 4 0 (members t)) drr_u = map (\<lambda>(n, t). offsets 8 0 (members t)) drr_u"
    by (rule drr_offsets)
  show "portable dmu_replay_record" "size_of 8 dmu_replay_record = 312"
    by (simp_all add: portable_def dmu_replay_record_def drr_u_def drr_structs layout_simps)
qed

text \<open>For the path lengths of both platforms, the command structure has the same layout on 32-bit
  and 64-bit hosts, no padding the compiler would add, and the size its assertion states; the
  structure that shares the space of the injection record covers its last two counters exactly
  with its two flag words and its handle.\<close>

theorem zfs_cmd_layout:
  "list_all (\<lambda>mp. portable (zfs_cmd mp) \<and> no_padding 8 (zfs_cmd mp) \<and> no_padding 4 (zfs_cmd mp) \<and>
     size_of 8 (zfs_cmd mp) = expected_zfs_cmd_size mp) [1024, 4096] \<and>
   size_of 8 zc_inject_overlay = size_of 8 zinject_record \<and>
   drop 17 (offsets 8 0 (members zinject_record)) = [(''zi_match_count'', 352), (''zi_inject_count'', 360)] \<and>
   tl (offsets 8 0 (members zc_inject_overlay)) =
     [(''zc_defer_destroy'', 352), (''zc_flags'', 356), (''zc_action_handle'', 360)]"
proof (intro conjI)
  have "portable (zfs_cmd mp)" "no_padding 8 (zfs_cmd mp)" "no_padding 4 (zfs_cmd mp)"
    "size_of 8 (zfs_cmd mp) = expected_zfs_cmd_size mp" if "mp = 1024 \<or> mp = 4096" for mp
  proof -
    have s: "size_of 4 (zfs_cmd mp) = expected_zfs_cmd_size mp" "size_of 8 (zfs_cmd mp) = expected_zfs_cmd_size mp"
      using that by (elim disjE; simp add: zfs_cmd_def expected_zfs_cmd_size_def zfs_cmd_simps)+
    have n: "sum_list (map (size_of 4 \<circ> snd) (members (zfs_cmd mp))) = expected_zfs_cmd_size mp"
      "sum_list (map (size_of 8 \<circ> snd) (members (zfs_cmd mp))) = expected_zfs_cmd_size mp"
      using that by (elim disjE; simp add: zfs_cmd_def expected_zfs_cmd_size_def zfs_cmd_simps)+
    have o: "offsets 4 0 (members (zfs_cmd mp)) = offsets 8 0 (members (zfs_cmd mp))"
      using that by (elim disjE; simp only:) (simp_all add: zfs_cmd_def zfs_cmd_simps)
    show "portable (zfs_cmd mp)" "no_padding 8 (zfs_cmd mp)" "no_padding 4 (zfs_cmd mp)"
        "size_of 8 (zfs_cmd mp) = expected_zfs_cmd_size mp"
      by (simp_all only: portable_def no_padding_def s n o simp_thms)
  qed
  then show "list_all (\<lambda>mp. portable (zfs_cmd mp) \<and> no_padding 8 (zfs_cmd mp) \<and> no_padding 4 (zfs_cmd mp) \<and>
     size_of 8 (zfs_cmd mp) = expected_zfs_cmd_size mp) [1024, 4096]" by simp
  show "size_of 8 zc_inject_overlay = size_of 8 zinject_record" by (simp add: overlay_sizes member_sizes)
  show "drop 17 (offsets 8 0 (members zinject_record)) = [(''zi_match_count'', 352), (''zi_inject_count'', 360)]"
    by (simp add: zinject_record_def layout_simps)
  show "tl (offsets 8 0 (members zc_inject_overlay)) =
     [(''zc_defer_destroy'', 352), (''zc_flags'', 356), (''zc_action_handle'', 360)]"
    by (simp add: zc_inject_overlay_def member_sizes layout_simps)
qed

text \<open>The two fields of the version word meet the contract of an accessor pair.\<close>

lemmas stream_word_defs = DMU_GET_STREAM_HDRTYPE_def DMU_SET_STREAM_HDRTYPE_def DMU_GET_FEATUREFLAGS_def
  DMU_SET_FEATUREFLAGS_def

lemma stream_hdrtype_accessor:
  "accessor (\<lambda>_. True) DMU_GET_STREAM_HDRTYPE DMU_SET_STREAM_HDRTYPE (\<lambda>v. v < 2 ^ 2)"
  by (rule accessor_field [OF plain_word.packed_word_axioms])
    (simp_all add: stream_word_defs option.map_id0 [unfolded id_def] option.map_ident)

lemma stream_features_accessor:
  "accessor (\<lambda>_. True) DMU_GET_FEATUREFLAGS DMU_SET_FEATUREFLAGS (\<lambda>v. v < 2 ^ 56)"
  by (rule accessor_field [OF plain_word.packed_word_axioms])
    (simp_all add: stream_word_defs option.map_ident)

interpretation stream_hdrtype: accessor_pair "\<lambda>_. True" DMU_GET_STREAM_HDRTYPE DMU_SET_STREAM_HDRTYPE
    "\<lambda>v. v < 2 ^ 2" DMU_GET_FEATUREFLAGS
  by (intro accessor_pair.intro accessor_pair_axioms.intro stream_hdrtype_accessor)
    (auto simp: stream_word_defs BF64_SET_Some get_put_disjoint)

interpretation stream_features: accessor_pair "\<lambda>_. True" DMU_GET_FEATUREFLAGS DMU_SET_FEATUREFLAGS
    "\<lambda>v. v < 2 ^ 56" DMU_GET_STREAM_HDRTYPE
  by (intro accessor_pair.intro accessor_pair_axioms.intro stream_features_accessor)
    (auto simp: stream_word_defs BF64_SET_Some get_put_disjoint)

lemma feature_mask_bits:
  "bit DMU_BACKUP_FEATURE_MASK n \<longleftrightarrow> n \<in> {2, 16, 17} \<union> {19..29}"
proof -
  have "DMU_BACKUP_FEATURE_MASK = 0x3FFB0004"
    by (simp add: DMU_BACKUP_FEATURE_MASK_def DMU_BACKUP_FEATURE_SA_SPILL_def DMU_BACKUP_FEATURE_EMBED_DATA_def
      DMU_BACKUP_FEATURE_LZ4_def DMU_BACKUP_FEATURE_RESUMING_def DMU_BACKUP_FEATURE_LARGE_BLOCKS_def
      DMU_BACKUP_FEATURE_COMPRESSED_def DMU_BACKUP_FEATURE_LARGE_DNODE_def DMU_BACKUP_FEATURE_RAW_def
      DMU_BACKUP_FEATURE_HOLDS_def DMU_BACKUP_FEATURE_REDACTED_def DMU_BACKUP_FEATURE_SWITCH_TO_LARGE_BLOCKS_def
      DMU_BACKUP_FEATURE_ZSTD_def DMU_BACKUP_FEATURE_LONGNAME_def DMU_BACKUP_FEATURE_LARGE_MICROZAP_def)
  also have "\<dots> = push_bit 2 (mask 1) OR push_bit 16 (mask 2) OR push_bit 19 (mask 11)"
    by (simp add: mask_numeral)
  finally have eq: "DMU_BACKUP_FEATURE_MASK = push_bit 2 (mask 1) OR push_bit 16 (mask 2) OR push_bit 19 (mask 11)" .
  show ?thesis
    unfolding eq bit_or_iff bit_push_bit_iff bit_mask_iff by (auto simp: possible_bit_def)
qed

lemma supported_bits: "DMU_STREAM_SUPPORTED x \<longleftrightarrow> (\<forall>n. bit x n \<longrightarrow> bit DMU_BACKUP_FEATURE_MASK n)"
proof -
  have "bit (x AND NOT DMU_BACKUP_FEATURE_MASK) n \<longleftrightarrow> bit x n \<and> \<not> bit DMU_BACKUP_FEATURE_MASK n" for n
    by (auto simp: bit_and_iff bit_not_iff possible_bit_def dest: bit_imp_le_length)
  moreover have "w = 0 \<longleftrightarrow> (\<forall>n. \<not> bit w n)" for w :: u64
    by (metis bit_0_eq bit_word_eqI bot_apply bot_bool_def)
  ultimately show ?thesis unfolding DMU_STREAM_SUPPORTED_def by blast
qed

text \<open>Both fields of the version word of a send stream can be set, in either order and in either build,
  and read back: setting the feature flags to any flags the software supports keeps the header type,
  and the flags read back are supported.\<close>

theorem send_stream_version_roundtrip:
  assumes "t < 4" and "DMU_STREAM_SUPPORTED fl"
  shows "\<exists>vi1 vi2. DMU_SET_STREAM_HDRTYPE nd vi t = Some vi1 \<and> DMU_SET_FEATUREFLAGS nd vi1 fl = Some vi2 \<and>
    DMU_GET_STREAM_HDRTYPE vi2 = t \<and> DMU_GET_FEATUREFLAGS vi2 = fl \<and>
    DMU_STREAM_SUPPORTED (DMU_GET_FEATUREFLAGS vi2)"
proof -
  have "n < 56" if "bit fl n" for n
    using that assms(2) unfolding supported_bits feature_mask_bits by fastforce
  then have "take_bit 56 fl = fl" by (intro bit_word_eqI) (auto simp: bit_take_bit_iff)
  then have "fl < 2 ^ 56" using take_bit_word_less [of 56 fl] by simp
  then show ?thesis
    using stream_hdrtype.set_keeps_other [where s = vi and v = t and nd = nd]
      stream_features.set_keeps_other [where v = fl and nd = nd] assms
    by fastforce
qed

theorem send_stream_version_roundtrip_witness:
  "\<exists>vi1 vi2. DMU_SET_STREAM_HDRTYPE False 0 DMU_COMPOUNDSTREAM = Some vi1 \<and>
    DMU_SET_FEATUREFLAGS False vi1 (DMU_BACKUP_FEATURE_RAW OR DMU_BACKUP_FEATURE_LZ4) = Some vi2 \<and>
    DMU_GET_STREAM_HDRTYPE vi2 = DMU_COMPOUNDSTREAM"
proof -
  have "DMU_STREAM_SUPPORTED (DMU_BACKUP_FEATURE_RAW OR DMU_BACKUP_FEATURE_LZ4)" "DMU_COMPOUNDSTREAM < 4"
    by (simp_all add: DMU_STREAM_SUPPORTED_def DMU_BACKUP_FEATURE_MASK_def DMU_BACKUP_FEATURE_SA_SPILL_def
      DMU_BACKUP_FEATURE_EMBED_DATA_def DMU_COMPOUNDSTREAM_def
      DMU_BACKUP_FEATURE_LZ4_def DMU_BACKUP_FEATURE_RESUMING_def DMU_BACKUP_FEATURE_LARGE_BLOCKS_def
      DMU_BACKUP_FEATURE_COMPRESSED_def DMU_BACKUP_FEATURE_LARGE_DNODE_def DMU_BACKUP_FEATURE_RAW_def
      DMU_BACKUP_FEATURE_HOLDS_def DMU_BACKUP_FEATURE_REDACTED_def DMU_BACKUP_FEATURE_SWITCH_TO_LARGE_BLOCKS_def
      DMU_BACKUP_FEATURE_ZSTD_def DMU_BACKUP_FEATURE_LONGNAME_def DMU_BACKUP_FEATURE_LARGE_MICROZAP_def)
  then show ?thesis using send_stream_version_roundtrip [of DMU_COMPOUNDSTREAM _ False 0] by blast
qed

text \<open>A stream is supported exactly when its feature flags are among the bits 2, 16, 17 and 19 to 29; in
  particular no stream with the deduplication features is.\<close>

theorem stream_supported_bits:
  "(DMU_STREAM_SUPPORTED x \<longleftrightarrow> {n. bit x n} \<subseteq> {2, 16, 17} \<union> {19..29}) \<and>
   \<not> DMU_STREAM_SUPPORTED (x OR DMU_BACKUP_FEATURE_DEDUP) \<and> \<not> DMU_STREAM_SUPPORTED (x OR DMU_BACKUP_FEATURE_DEDUPPROPS)"
proof -
  have "DMU_STREAM_SUPPORTED y \<longleftrightarrow> {n. bit y n} \<subseteq> {2, 16, 17} \<union> {19..29}" for y
    unfolding supported_bits feature_mask_bits by blast
  moreover have "bit (x OR DMU_BACKUP_FEATURE_DEDUP) 0" "bit (x OR DMU_BACKUP_FEATURE_DEDUPPROPS) 1"
    by (simp_all only: DMU_BACKUP_FEATURE_DEDUP_def DMU_BACKUP_FEATURE_DEDUPPROPS_def bit_or_iff bit_exp_iff possible_bit_def)
      simp_all
  ultimately show ?thesis by fastforce
qed

text \<open>The payload of an object record that is not raw is its bonus length rounded up to the next multiple
  of 8, at most 7 more, for every bonus length up to 2^32 - 8; beyond that the sum wraps to
  zero. A raw length is used as it is.\<close>

theorem object_payload_size:
  assumes "drro_raw_bonuslen drro = 0"
  shows "if unat (drro_bonuslen drro) \<le> 2 ^ 32 - 8
    then 8 dvd unat (DRR_OBJECT_PAYLOAD_SIZE drro) \<and> unat (drro_bonuslen drro) \<le> unat (DRR_OBJECT_PAYLOAD_SIZE drro) \<and>
      unat (DRR_OBJECT_PAYLOAD_SIZE drro) < unat (drro_bonuslen drro) + 8
    else DRR_OBJECT_PAYLOAD_SIZE drro = 0"
proof -
  let ?x = "drro_bonuslen drro" and ?n = "P2NPHASE (drro_bonuslen drro) (2 ^ 3)"
  have s: "DRR_OBJECT_PAYLOAD_SIZE drro = P2ROUNDUP ?x (2 ^ 3)"
    using assms by (simp add: DRR_OBJECT_PAYLOAD_SIZE_def)
  have n: "unat ?n < 2 ^ 3" "2 ^ 3 dvd unat ?x + unat ?n"
    by (rule P2NPHASE_less, simp) (rule P2NPHASE_complement, simp)
  show ?thesis
  proof (cases "unat ?x \<le> 2 ^ 32 - 8")
    case True
    have "unat (P2ROUNDUP ?x (2 ^ 3)) = unat ?x + unat ?n"
      by (rule P2ROUNDUP_nat) (use True in simp_all)
    then show ?thesis using True n unfolding s by simp
  next
    case False
    have "unat ?x < 2 ^ 32" using unsigned_less [of ?x, where ?'a = nat] by simp
    moreover obtain j where "unat ?x + unat ?n = 8 * j" using n(2) by (auto elim: dvdE)
    ultimately have "unat ?x + unat ?n = 2 ^ 32" using False n(1) by simp
    then have "unat (?x + ?n) = 0" by (simp add: unat_word_ariths)
    then have "?x + ?n = 0" by (simp only: unat_eq_zero)
    then show ?thesis using False unfolding s P2ROUNDUP_eq by (simp only: if_False)
  qed
qed

theorem object_payload_size_witness:
  "8 dvd unat (DRR_OBJECT_PAYLOAD_SIZE \<lparr>drro_raw_bonuslen = 0, drro_bonuslen = 321\<rparr>)"
  using object_payload_size [of "\<lparr>drro_raw_bonuslen = 0, drro_bonuslen = 321\<rparr>"] by simp

end
