(* ===== verification/Simd.thy ===== *)
theory Simd
  imports Prelude
begin

unbundle bit_operations_syntax

text \<open>
  The user-space tests for instruction sets (\<open>compat/spl/sys/simd.h\<close>). The processor is a record: the
  results of CPUID, the extended control register, and the auxiliary vector. CPUID is available
  on every 64-bit processor; \<open>xgetbv\<close> is an illegal instruction unless the operating system
  has enabled it (the OSXSAVE flag), which is the value \<open>None\<close>.
\<close>

section \<open>The processor\<close>

datatype cpuid_regs = EAX | EBX | ECX | EDX

record cpu =
  cpuid_max :: u32
  cpuid_count :: "u32 \<Rightarrow> u32 \<Rightarrow> cpuid_regs \<Rightarrow> u32"
  xcr :: "u32 \<Rightarrow> u64"
  auxval :: "nat \<Rightarrow> u64"

datatype cpuid_inst_sets =
    SSE | SSE2 | SSE3 | SSSE3 | SSE4_1 | SSE4_2 | OSXSAVE | AVX | AVX2
  | BMI1 | BMI2 | AVX512F | AVX512CD | AVX512DQ | AVX512BW | AVX512IFMA | AVX512VBMI | AVX512PF
  | AVX512ER | AVX512VL | AES | PCLMULQDQ | MOVBE | SHA_NI | VAES | VPCLMULQDQ

record cpuid_feature_desc =
  leaf :: u32
  subleaf :: u32
  flag :: u32
  reg :: cpuid_regs

definition AVX512F_BIT :: u32 where "AVX512F_BIT = 2 ^ 16"
definition AVX512CD_BIT :: u32 where "AVX512CD_BIT = AVX512F_BIT OR 2 ^ 28"
definition AVX512DQ_BIT :: u32 where "AVX512DQ_BIT = AVX512F_BIT OR 2 ^ 17"
definition AVX512BW_BIT :: u32 where "AVX512BW_BIT = AVX512F_BIT OR 2 ^ 30"
definition AVX512IFMA_BIT :: u32 where "AVX512IFMA_BIT = AVX512F_BIT OR 2 ^ 21"
definition AVX512VBMI_BIT :: u32 where "AVX512VBMI_BIT = 2 ^ 1"
definition AVX512PF_BIT :: u32 where "AVX512PF_BIT = AVX512F_BIT OR 2 ^ 26"
definition AVX512ER_BIT :: u32 where "AVX512ER_BIT = AVX512F_BIT OR 2 ^ 27"
definition AVX512VL_BIT :: u32 where "AVX512VL_BIT = 2 ^ 31"
definition AES_BIT :: u32 where "AES_BIT = 2 ^ 25"
definition PCLMULQDQ_BIT :: u32 where "PCLMULQDQ_BIT = 2 ^ 1"
definition MOVBE_BIT :: u32 where "MOVBE_BIT = 2 ^ 22"
definition VAES_BIT :: u32 where "VAES_BIT = 2 ^ 9"
definition VPCLMULQDQ_BIT :: u32 where "VPCLMULQDQ_BIT = 2 ^ 10"
definition SHA_NI_BIT :: u32 where "SHA_NI_BIT = 2 ^ 29"

abbreviation desc :: "u32 \<Rightarrow> u32 \<Rightarrow> u32 \<Rightarrow> cpuid_regs \<Rightarrow> cpuid_feature_desc" where
  "desc l s f r \<equiv> \<lparr>leaf = l, subleaf = s, flag = f, reg = r\<rparr>"

fun cpuid_features :: "cpuid_inst_sets \<Rightarrow> cpuid_feature_desc" where
  "cpuid_features SSE = desc 1 0 (2 ^ 25) EDX"
| "cpuid_features SSE2 = desc 1 0 (2 ^ 26) EDX"
| "cpuid_features SSE3 = desc 1 0 (2 ^ 0) ECX"
| "cpuid_features SSSE3 = desc 1 0 (2 ^ 9) ECX"
| "cpuid_features SSE4_1 = desc 1 0 (2 ^ 19) ECX"
| "cpuid_features SSE4_2 = desc 1 0 (2 ^ 20) ECX"
| "cpuid_features OSXSAVE = desc 1 0 (2 ^ 27) ECX"
| "cpuid_features AVX = desc 1 0 (2 ^ 28) ECX"
| "cpuid_features AVX2 = desc 7 0 (2 ^ 5) EBX"
| "cpuid_features BMI1 = desc 7 0 (2 ^ 3) EBX"
| "cpuid_features BMI2 = desc 7 0 (2 ^ 8) EBX"
| "cpuid_features AVX512F = desc 7 0 AVX512F_BIT EBX"
| "cpuid_features AVX512CD = desc 7 0 AVX512CD_BIT EBX"
| "cpuid_features AVX512DQ = desc 7 0 AVX512DQ_BIT EBX"
| "cpuid_features AVX512BW = desc 7 0 AVX512BW_BIT EBX"
| "cpuid_features AVX512IFMA = desc 7 0 AVX512IFMA_BIT EBX"
| "cpuid_features AVX512VBMI = desc 7 0 AVX512VBMI_BIT ECX"
| "cpuid_features AVX512PF = desc 7 0 AVX512PF_BIT EBX"
| "cpuid_features AVX512ER = desc 7 0 AVX512ER_BIT EBX"
| "cpuid_features AVX512VL = desc 7 0 AVX512ER_BIT EBX"
| "cpuid_features AES = desc 1 0 AES_BIT ECX"
| "cpuid_features PCLMULQDQ = desc 1 0 PCLMULQDQ_BIT ECX"
| "cpuid_features MOVBE = desc 1 0 MOVBE_BIT ECX"
| "cpuid_features SHA_NI = desc 7 0 SHA_NI_BIT EBX"
| "cpuid_features VAES = desc 7 0 VAES_BIT ECX"
| "cpuid_features VPCLMULQDQ = desc 7 0 VPCLMULQDQ_BIT ECX"

section \<open>Tests\<close>

definition cpuid_check_feature :: "cpu \<Rightarrow> cpuid_feature_desc \<Rightarrow> bool" where
  "cpuid_check_feature c d \<longleftrightarrow>
    (if leaf d \<le> cpuid_max c then cpuid_count c (leaf d) (subleaf d) (reg d) AND flag d = flag d else False)"

text \<open>The functions \<open>CPUID_FEATURE_CHECK\<close> defines.\<close>

definition CPUID_FEATURE_CHECK :: "cpu \<Rightarrow> cpuid_inst_sets \<Rightarrow> bool" where
  "CPUID_FEATURE_CHECK c i = cpuid_check_feature c (cpuid_features i)"

definition cpuid_has_sse :: "cpu \<Rightarrow> bool" where "cpuid_has_sse c = CPUID_FEATURE_CHECK c SSE"
definition cpuid_has_sse2 :: "cpu \<Rightarrow> bool" where "cpuid_has_sse2 c = CPUID_FEATURE_CHECK c SSE2"
definition cpuid_has_sse3 :: "cpu \<Rightarrow> bool" where "cpuid_has_sse3 c = CPUID_FEATURE_CHECK c SSE3"
definition cpuid_has_ssse3 :: "cpu \<Rightarrow> bool" where "cpuid_has_ssse3 c = CPUID_FEATURE_CHECK c SSSE3"
definition cpuid_has_sse4_1 :: "cpu \<Rightarrow> bool" where "cpuid_has_sse4_1 c = CPUID_FEATURE_CHECK c SSE4_1"
definition cpuid_has_sse4_2 :: "cpu \<Rightarrow> bool" where "cpuid_has_sse4_2 c = CPUID_FEATURE_CHECK c SSE4_2"
definition cpuid_has_avx :: "cpu \<Rightarrow> bool" where "cpuid_has_avx c = CPUID_FEATURE_CHECK c AVX"
definition cpuid_has_avx2 :: "cpu \<Rightarrow> bool" where "cpuid_has_avx2 c = CPUID_FEATURE_CHECK c AVX2"
definition cpuid_has_osxsave :: "cpu \<Rightarrow> bool" where "cpuid_has_osxsave c = CPUID_FEATURE_CHECK c OSXSAVE"
definition cpuid_has_bmi1 :: "cpu \<Rightarrow> bool" where "cpuid_has_bmi1 c = CPUID_FEATURE_CHECK c BMI1"
definition cpuid_has_bmi2 :: "cpu \<Rightarrow> bool" where "cpuid_has_bmi2 c = CPUID_FEATURE_CHECK c BMI2"
definition cpuid_has_avx512f :: "cpu \<Rightarrow> bool" where "cpuid_has_avx512f c = CPUID_FEATURE_CHECK c AVX512F"
definition cpuid_has_avx512cd :: "cpu \<Rightarrow> bool" where "cpuid_has_avx512cd c = CPUID_FEATURE_CHECK c AVX512CD"
definition cpuid_has_avx512dq :: "cpu \<Rightarrow> bool" where "cpuid_has_avx512dq c = CPUID_FEATURE_CHECK c AVX512DQ"
definition cpuid_has_avx512bw :: "cpu \<Rightarrow> bool" where "cpuid_has_avx512bw c = CPUID_FEATURE_CHECK c AVX512BW"
definition cpuid_has_avx512ifma :: "cpu \<Rightarrow> bool" where "cpuid_has_avx512ifma c = CPUID_FEATURE_CHECK c AVX512IFMA"
definition cpuid_has_avx512vbmi :: "cpu \<Rightarrow> bool" where "cpuid_has_avx512vbmi c = CPUID_FEATURE_CHECK c AVX512VBMI"
definition cpuid_has_avx512pf :: "cpu \<Rightarrow> bool" where "cpuid_has_avx512pf c = CPUID_FEATURE_CHECK c AVX512PF"
definition cpuid_has_avx512er :: "cpu \<Rightarrow> bool" where "cpuid_has_avx512er c = CPUID_FEATURE_CHECK c AVX512ER"
definition cpuid_has_avx512vl :: "cpu \<Rightarrow> bool" where "cpuid_has_avx512vl c = CPUID_FEATURE_CHECK c AVX512VL"
definition cpuid_has_aes :: "cpu \<Rightarrow> bool" where "cpuid_has_aes c = CPUID_FEATURE_CHECK c AES"
definition cpuid_has_pclmulqdq :: "cpu \<Rightarrow> bool" where "cpuid_has_pclmulqdq c = CPUID_FEATURE_CHECK c PCLMULQDQ"
definition cpuid_has_movbe :: "cpu \<Rightarrow> bool" where "cpuid_has_movbe c = CPUID_FEATURE_CHECK c MOVBE"
definition cpuid_has_shani :: "cpu \<Rightarrow> bool" where "cpuid_has_shani c = CPUID_FEATURE_CHECK c SHA_NI"
definition cpuid_has_vaes :: "cpu \<Rightarrow> bool" where "cpuid_has_vaes c = CPUID_FEATURE_CHECK c VAES"
definition cpuid_has_vpclmulqdq :: "cpu \<Rightarrow> bool" where "cpuid_has_vpclmulqdq c = CPUID_FEATURE_CHECK c VPCLMULQDQ"

lemmas cpuid_has_defs = cpuid_has_sse_def cpuid_has_sse2_def cpuid_has_sse3_def cpuid_has_ssse3_def cpuid_has_sse4_1_def cpuid_has_sse4_2_def cpuid_has_avx_def cpuid_has_avx2_def cpuid_has_osxsave_def cpuid_has_bmi1_def cpuid_has_bmi2_def cpuid_has_avx512f_def cpuid_has_avx512cd_def cpuid_has_avx512dq_def cpuid_has_avx512bw_def cpuid_has_avx512ifma_def cpuid_has_avx512vbmi_def cpuid_has_avx512pf_def cpuid_has_avx512er_def cpuid_has_avx512vl_def cpuid_has_aes_def cpuid_has_pclmulqdq_def cpuid_has_movbe_def cpuid_has_shani_def cpuid_has_vaes_def cpuid_has_vpclmulqdq_def

text \<open>The instruction: the operating system has enabled it exactly when the flag says so.\<close>

definition xgetbv :: "cpu \<Rightarrow> u32 \<Rightarrow> u64 option" where
  "xgetbv c index = (if bit (cpuid_count c 1 0 ECX) 27 then Some (xcr c index) else None)"

definition simd_state_enabled :: "cpu \<Rightarrow> u64 \<Rightarrow> bool option" where
  "simd_state_enabled c state =
    (let has_osxsave = cpuid_has_osxsave c
     in if \<not> has_osxsave then Some False
        else do { x \<leftarrow> xgetbv c 0; Some (x AND state = state) })"

definition XSTATE_SSE_AVX :: u64 where "XSTATE_SSE_AVX = 0x2 OR 0x4"
definition XSTATE_AVX512 :: u64 where "XSTATE_AVX512 = 0xE0 OR XSTATE_SSE_AVX"

definition ymm_enabled :: "cpu \<Rightarrow> bool option" where "ymm_enabled c = simd_state_enabled c XSTATE_SSE_AVX"
definition zmm_enabled :: "cpu \<Rightarrow> bool option" where "zmm_enabled c = simd_state_enabled c XSTATE_AVX512"

text \<open>The conjunction of C: the second operand is evaluated only after a first that holds.\<close>

definition and_then :: "bool \<Rightarrow> bool option \<Rightarrow> bool option" where
  "and_then p q = (if p then q else Some False)"

definition zfs_sse_available :: "cpu \<Rightarrow> bool option" where
  "zfs_sse_available c = Some (cpuid_has_sse c)"

definition zfs_sse2_available :: "cpu \<Rightarrow> bool option" where
  "zfs_sse2_available c = Some (cpuid_has_sse2 c)"

definition zfs_sse3_available :: "cpu \<Rightarrow> bool option" where
  "zfs_sse3_available c = Some (cpuid_has_sse3 c)"

definition zfs_ssse3_available :: "cpu \<Rightarrow> bool option" where
  "zfs_ssse3_available c = Some (cpuid_has_ssse3 c)"

definition zfs_sse4_1_available :: "cpu \<Rightarrow> bool option" where
  "zfs_sse4_1_available c = Some (cpuid_has_sse4_1 c)"

definition zfs_sse4_2_available :: "cpu \<Rightarrow> bool option" where
  "zfs_sse4_2_available c = Some (cpuid_has_sse4_2 c)"

definition zfs_avx_available :: "cpu \<Rightarrow> bool option" where
  "zfs_avx_available c = and_then (cpuid_has_avx c) (ymm_enabled c)"

definition zfs_avx2_available :: "cpu \<Rightarrow> bool option" where
  "zfs_avx2_available c = and_then (cpuid_has_avx2 c) (ymm_enabled c)"

definition zfs_bmi1_available :: "cpu \<Rightarrow> bool option" where
  "zfs_bmi1_available c = Some (cpuid_has_bmi1 c)"

definition zfs_bmi2_available :: "cpu \<Rightarrow> bool option" where
  "zfs_bmi2_available c = Some (cpuid_has_bmi2 c)"

definition zfs_aes_available :: "cpu \<Rightarrow> bool option" where
  "zfs_aes_available c = Some (cpuid_has_aes c)"

definition zfs_pclmulqdq_available :: "cpu \<Rightarrow> bool option" where
  "zfs_pclmulqdq_available c = Some (cpuid_has_pclmulqdq c)"

definition zfs_movbe_available :: "cpu \<Rightarrow> bool option" where
  "zfs_movbe_available c = Some (cpuid_has_movbe c)"

definition zfs_shani_available :: "cpu \<Rightarrow> bool option" where
  "zfs_shani_available c = Some (cpuid_has_shani c)"

definition zfs_vaes_available :: "cpu \<Rightarrow> bool option" where
  "zfs_vaes_available c = Some (cpuid_has_vaes c)"

definition zfs_vpclmulqdq_available :: "cpu \<Rightarrow> bool option" where
  "zfs_vpclmulqdq_available c = Some (cpuid_has_vpclmulqdq c)"

definition zfs_avx512f_available :: "cpu \<Rightarrow> bool option" where
  "zfs_avx512f_available c = and_then (cpuid_has_avx512f c) (zmm_enabled c)"

definition zfs_avx512cd_available :: "cpu \<Rightarrow> bool option" where
  "zfs_avx512cd_available c = and_then (cpuid_has_avx512cd c) (zmm_enabled c)"

definition zfs_avx512er_available :: "cpu \<Rightarrow> bool option" where
  "zfs_avx512er_available c = and_then (cpuid_has_avx512er c) (zmm_enabled c)"

definition zfs_avx512pf_available :: "cpu \<Rightarrow> bool option" where
  "zfs_avx512pf_available c = and_then (cpuid_has_avx512pf c) (zmm_enabled c)"

definition zfs_avx512bw_available :: "cpu \<Rightarrow> bool option" where
  "zfs_avx512bw_available c = and_then (cpuid_has_avx512bw c) (zmm_enabled c)"

definition zfs_avx512dq_available :: "cpu \<Rightarrow> bool option" where
  "zfs_avx512dq_available c = and_then (cpuid_has_avx512dq c) (zmm_enabled c)"

definition zfs_avx512vl_available :: "cpu \<Rightarrow> bool option" where
  "zfs_avx512vl_available c = and_then (cpuid_has_avx512vl c) (zmm_enabled c)"

definition zfs_avx512ifma_available :: "cpu \<Rightarrow> bool option" where
  "zfs_avx512ifma_available c = and_then (cpuid_has_avx512ifma c) (zmm_enabled c)"

definition zfs_avx512vbmi_available :: "cpu \<Rightarrow> bool option" where
  "zfs_avx512vbmi_available c = and_then (cpuid_has_avx512f c \<and> cpuid_has_avx512vbmi c) (zmm_enabled c)"

lemmas available_defs = zfs_sse_available_def zfs_sse2_available_def zfs_sse3_available_def zfs_ssse3_available_def zfs_sse4_1_available_def zfs_sse4_2_available_def zfs_avx_available_def zfs_avx2_available_def zfs_bmi1_available_def zfs_bmi2_available_def zfs_aes_available_def zfs_pclmulqdq_available_def zfs_movbe_available_def zfs_shani_available_def zfs_vaes_available_def zfs_vpclmulqdq_available_def zfs_avx512f_available_def zfs_avx512cd_available_def zfs_avx512er_available_def zfs_avx512pf_available_def zfs_avx512bw_available_def zfs_avx512dq_available_def zfs_avx512vl_available_def zfs_avx512ifma_available_def zfs_avx512vbmi_available_def

section \<open>Other processors\<close>

definition AT_HWCAP :: nat where "AT_HWCAP = 16"
definition AT_HWCAP2 :: nat where "AT_HWCAP2 = 26"

definition HWCAP_NEON :: u64 where "HWCAP_NEON = 0x00001000"
definition HWCAP2_SHA2 :: u64 where "HWCAP2_SHA2 = 0x00000008"
definition HWCAP_FP :: u64 where "HWCAP_FP = 0x00000001"
definition HWCAP_SHA2 :: u64 where "HWCAP_SHA2 = 0x00000040"
definition HWCAP_SHA512 :: u64 where "HWCAP_SHA512 = 0x00200000"
definition PPC_FEATURE_HAS_ALTIVEC :: u64 where "PPC_FEATURE_HAS_ALTIVEC = 0x10000000"
definition PPC_FEATURE_HAS_VSX :: u64 where "PPC_FEATURE_HAS_VSX = 0x00000080"
definition PPC_FEATURE2_ARCH_2_07 :: u64 where "PPC_FEATURE2_ARCH_2_07 = 0x80000000"

text \<open>The results of type \<open>boolean_t\<close> are integers: the masked word itself.\<close>

definition arm_neon_available :: "cpu \<Rightarrow> u64" where
  "arm_neon_available c = (let hwcap = auxval c AT_HWCAP in hwcap AND HWCAP_NEON)"

definition arm_sha256_available :: "cpu \<Rightarrow> u64" where
  "arm_sha256_available c = (let hwcap = auxval c AT_HWCAP in hwcap AND HWCAP2_SHA2)"

definition aarch64_neon_available :: "cpu \<Rightarrow> u64" where
  "aarch64_neon_available c = (let hwcap = auxval c AT_HWCAP in hwcap AND HWCAP_FP)"

definition aarch64_sha256_available :: "cpu \<Rightarrow> u64" where
  "aarch64_sha256_available c = (let hwcap = auxval c AT_HWCAP in hwcap AND HWCAP_SHA2)"

definition aarch64_sha512_available :: "cpu \<Rightarrow> u64" where
  "aarch64_sha512_available c = (let hwcap = auxval c AT_HWCAP in hwcap AND HWCAP_SHA512)"

definition zfs_altivec_available :: "cpu \<Rightarrow> u64" where
  "zfs_altivec_available c = (let hwcap = auxval c AT_HWCAP in hwcap AND PPC_FEATURE_HAS_ALTIVEC)"

definition zfs_vsx_available :: "cpu \<Rightarrow> u64" where
  "zfs_vsx_available c = (let hwcap = auxval c AT_HWCAP in hwcap AND PPC_FEATURE_HAS_VSX)"

definition zfs_isa207_available :: "cpu \<Rightarrow> u64" where
  "zfs_isa207_available c =
    (let hwcap = auxval c AT_HWCAP; hwcap2 = auxval c AT_HWCAP2
     in of_bool (hwcap AND PPC_FEATURE_HAS_VSX \<noteq> 0 \<and> hwcap2 AND PPC_FEATURE2_ARCH_2_07 \<noteq> 0))"

section \<open>Meaning\<close>

text \<open>The flag mask is contained in the register, bit by bit.\<close>

lemma and_eq_iff_bits: "(x :: 'a::len word) AND y = y \<longleftrightarrow> (\<forall>n. bit y n \<longrightarrow> bit x n)"
proof
  assume e: "x AND y = y"
  show "\<forall>n. bit y n \<longrightarrow> bit x n"
  proof (intro allI impI)
    fix n assume "bit y n"
    then have "bit (x AND y) n" by (simp only: e)
    then show "bit x n" by (simp only: bit_and_iff)
  qed
next
  assume "\<forall>n. bit y n \<longrightarrow> bit x n"
  then show "x AND y = y" by (intro bit_word_eqI) (auto simp: bit_and_iff)
qed

lemma and_flag_iff: "n < LENGTH('a) \<Longrightarrow> (x :: 'a::len word) AND 2 ^ n = 2 ^ n \<longleftrightarrow> bit x n"
  by (simp only: and_eq_iff_bits bit_exp_iff possible_bit_word) auto

lemma and_flags_iff:
  "(x :: 'a::len word) AND (y OR z) = y OR z \<longleftrightarrow> x AND y = y \<and> x AND z = z"
  by (auto simp only: and_eq_iff_bits bit_or_iff)

lemma osxsave_flag:
  "cpuid_has_osxsave c \<longleftrightarrow> 1 \<le> cpuid_max c \<and> bit (cpuid_count c 1 0 ECX) 27"
proof -
  have "cpuid_count c 1 0 ECX AND 2 ^ 27 = 2 ^ 27 \<longleftrightarrow> bit (cpuid_count c 1 0 ECX) 27"
    by (rule and_flag_iff) simp
  then show ?thesis by (simp add: cpuid_has_defs CPUID_FEATURE_CHECK_def cpuid_check_feature_def)
qed

lemma simd_state_value:
  "simd_state_enabled c state = Some (cpuid_has_osxsave c \<and> xcr c 0 AND state = state)"
  by (auto simp: simd_state_enabled_def xgetbv_def osxsave_flag Let_def)

lemma and_then_Some [simp]: "and_then p (Some q) = Some (p \<and> q)"
  by (simp add: and_then_def)

lemma enabled_value:
  "ymm_enabled c = Some (cpuid_has_osxsave c \<and> xcr c 0 AND XSTATE_SSE_AVX = XSTATE_SSE_AVX)"
  "zmm_enabled c = Some (cpuid_has_osxsave c \<and> xcr c 0 AND XSTATE_AVX512 = XSTATE_AVX512)"
  by (simp_all add: ymm_enabled_def zmm_enabled_def simd_state_value)

lemma zmm_implies_ymm: "zmm_enabled c = Some True \<Longrightarrow> ymm_enabled c = Some True"
  by (simp add: enabled_value XSTATE_AVX512_def and_flags_iff)

text \<open>The tests on the processor's state: what they return.\<close>

lemma available_value:
  "zfs_avx_available c = Some (cpuid_has_avx c \<and> cpuid_has_osxsave c \<and> xcr c 0 AND XSTATE_SSE_AVX = XSTATE_SSE_AVX)"
  "zfs_avx2_available c = Some (cpuid_has_avx2 c \<and> cpuid_has_osxsave c \<and> xcr c 0 AND XSTATE_SSE_AVX = XSTATE_SSE_AVX)"
  by (simp_all add: available_defs enabled_value)

lemma avx512_descs:
  "cpuid_features i = desc 7 0 f EBX \<Longrightarrow> f = AVX512F_BIT OR g \<Longrightarrow> CPUID_FEATURE_CHECK c i \<Longrightarrow> cpuid_has_avx512f c"
  by (auto simp: CPUID_FEATURE_CHECK_def cpuid_check_feature_def cpuid_has_avx512f_def and_flags_iff split: if_splits)

lemma avx512_has_f:
  "cpuid_has_avx512cd c \<or> cpuid_has_avx512er c \<or> cpuid_has_avx512pf c \<or> cpuid_has_avx512bw c \<or>
   cpuid_has_avx512dq c \<or> cpuid_has_avx512vl c \<or> cpuid_has_avx512ifma c \<Longrightarrow> cpuid_has_avx512f c"
  unfolding cpuid_has_avx512cd_def cpuid_has_avx512er_def cpuid_has_avx512pf_def cpuid_has_avx512bw_def
    cpuid_has_avx512dq_def cpuid_has_avx512vl_def cpuid_has_avx512ifma_def
  by (elim disjE; erule avx512_descs [rotated 2];
      simp add: AVX512CD_BIT_def AVX512ER_BIT_def AVX512PF_BIT_def AVX512BW_BIT_def AVX512DQ_BIT_def AVX512IFMA_BIT_def)

section \<open>Properties\<close>

text \<open>No test for an instruction set ever executes the register read on a processor where it is an
  illegal instruction: every one of them returns, on every processor.\<close>

theorem simd_checks_never_trap:
  "list_all (\<lambda>test. test c \<noteq> None)
    [zfs_sse_available, zfs_sse2_available, zfs_sse3_available, zfs_ssse3_available, zfs_sse4_1_available,
     zfs_sse4_2_available, zfs_avx_available, zfs_avx2_available, zfs_bmi1_available, zfs_bmi2_available,
     zfs_aes_available, zfs_pclmulqdq_available, zfs_movbe_available, zfs_shani_available, zfs_vaes_available,
     zfs_vpclmulqdq_available, zfs_avx512f_available, zfs_avx512cd_available, zfs_avx512er_available,
     zfs_avx512pf_available, zfs_avx512bw_available, zfs_avx512dq_available, zfs_avx512vl_available,
     zfs_avx512ifma_available, zfs_avx512vbmi_available, ymm_enabled, zmm_enabled]"
  by (simp add: available_defs enabled_value)

text \<open>When a test for one of the AVX-512 extensions succeeds, so does the one for the foundation, and the
  operating system saves all of the wide registers, so that the 256-bit state is enabled too.\<close>

theorem simd_avx512_family:
  assumes "test \<in> {zfs_avx512cd_available, zfs_avx512er_available, zfs_avx512pf_available, zfs_avx512bw_available,
      zfs_avx512dq_available, zfs_avx512vl_available, zfs_avx512ifma_available, zfs_avx512vbmi_available}"
    and "test c = Some True"
  shows "zfs_avx512f_available c = Some True \<and> ymm_enabled c = Some True \<and> zmm_enabled c = Some True \<and>
    cpuid_has_osxsave c \<and> xcr c 0 AND XSTATE_AVX512 = XSTATE_AVX512"
proof -
  have z: "zmm_enabled c = Some True" and f: "cpuid_has_avx512f c"
    using assms avx512_has_f [of c] by (auto simp: available_defs and_then_def split: if_splits)
  then show ?thesis
    using zmm_implies_ymm [OF z] by (simp add: zfs_avx512f_available_def enabled_value)
qed

text \<open>A processor with the foundation and the vector length extensions, but not the exponential ones.\<close>

definition demo_cpu :: cpu where
  "demo_cpu = \<lparr>cpuid_max = 0x16,
     cpuid_count = (\<lambda>l s r. if l = 7 \<and> r = EBX then 2 ^ 16 OR 2 ^ 31 OR 2 ^ 17
       else if l = 1 \<and> r = ECX then 2 ^ 27 OR 2 ^ 28 else 0),
     xcr = (\<lambda>_. 0xE7), auxval = (\<lambda>_. 0)\<rparr>"

lemma demo_cpu_tests:
  "zfs_avx512dq_available demo_cpu = Some True" "zfs_avx512er_available demo_cpu = Some False"
  "zfs_avx512f_available demo_cpu = Some True"
  by (simp_all add: zfs_avx512dq_available_def zfs_avx512er_available_def zfs_avx512f_available_def enabled_value
      cpuid_has_defs CPUID_FEATURE_CHECK_def cpuid_check_feature_def demo_cpu_def AVX512F_BIT_def AVX512DQ_BIT_def
      AVX512ER_BIT_def XSTATE_AVX512_def XSTATE_SSE_AVX_def)

theorem simd_avx512_family_witness: "zfs_avx512f_available demo_cpu = Some True \<and> ymm_enabled demo_cpu = Some True"
  using simd_avx512_family [of zfs_avx512dq_available demo_cpu] demo_cpu_tests by simp

text \<open>The test for the vector length extensions looks at the flag of the exponential extensions: it is the
  same test, and on a processor that has the former without the latter it fails although the
  foundation test succeeds and the processor reports the extension.\<close>

theorem simd_avx512vl_is_er:
  "zfs_avx512vl_available c = zfs_avx512er_available c \<and>
   zfs_avx512f_available demo_cpu = Some True \<and>
   cpuid_count demo_cpu 7 0 EBX AND AVX512VL_BIT = AVX512VL_BIT \<and> zfs_avx512vl_available demo_cpu = Some False"
proof -
  have "zfs_avx512vl_available c = zfs_avx512er_available c" for c
    by (simp add: zfs_avx512vl_available_def zfs_avx512er_available_def cpuid_has_defs CPUID_FEATURE_CHECK_def)
  then show ?thesis using demo_cpu_tests by (simp add: demo_cpu_def AVX512VL_BIT_def)
qed

end
