(* ===== verification/Packed_Words.thy ===== *)
theory Packed_Words
  imports Blkptr
begin

unbundle bit_operations_syntax

text \<open>
  The other packed words of the headers: metaslab weights (\<open>metaslab_impl.h\<close>), the properties
  of a level-2 cache block (\<open>arc_impl.h\<close>), deduplication keys and log records (\<open>ddt.h\<close>,
  \<open>ddt_impl.h\<close>), redaction blocks (\<open>dmu_redact.h\<close>), the object id of an intent log record
  (\<open>zil.h\<close>), indirect mapping entries (\<open>vdev_indirect_mapping.h\<close>) and directory entries
  (\<open>zfs_znode.h\<close>).

  \<open>field_family\<close> states once what a structure with several fields in one word promises: any
  legal value is stored without an assertion firing, is read back, and no other field moves.
  Every structure below interprets it on its own accessors.
\<close>

section \<open>A family of fields in one word\<close>

locale field_family = packed_word rd wr
  for rd :: "'s \<Rightarrow> u64" and wr :: "u64 \<Rightarrow> 's \<Rightarrow> 's" +
  fixes pos :: "'f \<Rightarrow> nat \<times> nat" and enc :: "'f \<Rightarrow> u64 \<Rightarrow> u64" and dec :: "'f \<Rightarrow> u64 \<Rightarrow> u64"
    and legal :: "'f \<Rightarrow> u64 \<Rightarrow> bool"
    and fget :: "'f \<Rightarrow> 's \<Rightarrow> u64" and fset :: "'f \<Rightarrow> bool \<Rightarrow> 's \<Rightarrow> u64 \<Rightarrow> 's option"
  assumes pos_fits: "fst (pos f) + snd (pos f) \<le> 64"
    and pos_disjoint: "f \<noteq> g \<Longrightarrow>
      fst (pos f) + snd (pos f) \<le> fst (pos g) \<or> fst (pos g) + snd (pos g) \<le> fst (pos f)"
    and enc_fits: "legal f v \<Longrightarrow> enc f v < 2 ^ snd (pos f)"
    and dec_enc: "legal f v \<Longrightarrow> dec f (enc f v) = v"
    and fget_reads: "fget f s = dec f (BF64_GET (rd s) (fst (pos f)) (snd (pos f)))"
    and fset_writes: "legal f v \<Longrightarrow>
      fset f nd s v = Some (wr (bf64_put (rd s) (fst (pos f)) (snd (pos f)) (enc f v)) s)"
begin

lemma fget_after_put:
  "legal f v \<Longrightarrow> fget g (wr (bf64_put (rd s) (fst (pos f)) (snd (pos f)) (enc f v)) s) =
    (if g = f then v else fget g s)"
  using get_put_same [OF enc_fits pos_fits, of f v "rd s"]
    get_put_disjoint [of "fst (pos g)" "snd (pos g)" "fst (pos f)" "snd (pos f)" "rd s" "enc f v"]
    pos_disjoint [of f g]
  by (auto simp: fget_reads rd_wr dec_enc)

theorem independent:
  "legal f v \<Longrightarrow> \<exists>s'. fset f nd s v = Some s' \<and> (\<forall>g. fget g s' = (if g = f then v else fget g s))"
  by (simp add: fset_writes fget_after_put)

theorem overwrite:
  "legal f v \<Longrightarrow> legal f w \<Longrightarrow> fset f nd s v \<bind> (\<lambda>s'. fset f nd s' w) = fset f nd s w"
  by (simp add: fset_writes rd_wr wr_wr put_put_same)

theorem commute:
  assumes "f \<noteq> g" "legal f v" "legal g w"
  shows "fset f nd s v \<bind> (\<lambda>s'. fset g nd s' w) = fset g nd s w \<bind> (\<lambda>s'. fset f nd s' v)"
proof -
  have "bf64_put (bf64_put (rd s) (fst (pos f)) (snd (pos f)) (enc f v)) (fst (pos g)) (snd (pos g)) (enc g w) =
      bf64_put (bf64_put (rd s) (fst (pos g)) (snd (pos g)) (enc g w)) (fst (pos f)) (snd (pos f)) (enc f v)"
    using pos_disjoint [OF assms(1)] by (intro put_put_swap) auto
  then show ?thesis using assms(2,3) by (simp add: fset_writes rd_wr wr_wr)
qed

end

text \<open>Each field of a family meets the contract of one accessor against all the others.\<close>

sublocale field_family \<subseteq> family_accessor: accessor_pair "\<lambda>_. True" "fget f" "fset f" "legal f"
    "\<lambda>s g. if g = f then None else Some (fget g s)" for f
  by unfold_locales (auto simp: fset_writes fget_after_put rd_wr wr_wr put_put_same)

text \<open>Plain fields, and fields that hold \<open>(v >> shift) - bias\<close>.\<close>

lemma sb_enc_fits: "sb_legal len shift bias v \<Longrightarrow> len < 64 \<Longrightarrow> drop_bit shift v - bias < 2 ^ len"
  by (rule sb_legal_value(1))

lemma sb_dec_enc: "sb_legal len shift bias v \<Longrightarrow> len < 64 \<Longrightarrow>
    push_bit shift (drop_bit shift v - bias + bias) = v"
  using sb_legal_value(2) by simp

lemmas field_simps_SB = BF64_SET_SB_Some BF64_SET_Some BF64_GET_SB_def sb_enc_fits spa_defs

section \<open>Metaslab weights\<close>

definition METASLAB_WEIGHT_PRIMARY :: u64 where "METASLAB_WEIGHT_PRIMARY = push_bit 63 1"
definition METASLAB_WEIGHT_SECONDARY :: u64 where "METASLAB_WEIGHT_SECONDARY = push_bit 62 1"
definition METASLAB_WEIGHT_CLAIM :: u64 where "METASLAB_WEIGHT_CLAIM = push_bit 61 1"
definition METASLAB_WEIGHT_TYPE :: u64 where "METASLAB_WEIGHT_TYPE = push_bit 60 1"

definition METASLAB_ACTIVE_MASK :: u64 where
  "METASLAB_ACTIVE_MASK = METASLAB_WEIGHT_PRIMARY OR METASLAB_WEIGHT_SECONDARY OR METASLAB_WEIGHT_CLAIM"

lemmas metaslab_defs = METASLAB_WEIGHT_PRIMARY_def METASLAB_WEIGHT_SECONDARY_def
  METASLAB_WEIGHT_CLAIM_def METASLAB_WEIGHT_TYPE_def METASLAB_ACTIVE_MASK_def

text \<open>What an allocation trace stores as its offset when there is none.\<close>

datatype trace_alloc_type =
    TRACE_ALLOC_FAILURE | TRACE_TOO_SMALL | TRACE_FORCE_GANG | TRACE_NOT_ALLOCATABLE
  | TRACE_GROUP_FAILURE | TRACE_ENOSPC | TRACE_CONDENSING | TRACE_VDEV_ERROR | TRACE_DISABLED

fun trace_alloc_value :: "trace_alloc_type \<Rightarrow> u64" where
  "trace_alloc_value TRACE_ALLOC_FAILURE = - 1"
| "trace_alloc_value TRACE_TOO_SMALL = - 2"
| "trace_alloc_value TRACE_FORCE_GANG = - 3"
| "trace_alloc_value TRACE_NOT_ALLOCATABLE = - 4"
| "trace_alloc_value TRACE_GROUP_FAILURE = - 5"
| "trace_alloc_value TRACE_ENOSPC = - 6"
| "trace_alloc_value TRACE_CONDENSING = - 7"
| "trace_alloc_value TRACE_VDEV_ERROR = - 8"
| "trace_alloc_value TRACE_DISABLED = - 9"

definition WEIGHT_GET_ACTIVE :: "u64 \<Rightarrow> u64" where
  "WEIGHT_GET_ACTIVE weight = BF64_GET weight 61 3"

definition WEIGHT_SET_ACTIVE :: "bool \<Rightarrow> u64 \<Rightarrow> u64 \<Rightarrow> u64 option" where
  "WEIGHT_SET_ACTIVE nd weight x = BF64_SET nd weight 61 3 x"

definition WEIGHT_IS_SPACEBASED :: "u64 \<Rightarrow> bool" where
  "WEIGHT_IS_SPACEBASED weight \<longleftrightarrow> weight = 0 \<or> BF64_GET weight 60 1 \<noteq> 0"

definition WEIGHT_SET_SPACEBASED :: "bool \<Rightarrow> u64 \<Rightarrow> u64 option" where
  "WEIGHT_SET_SPACEBASED nd weight = BF64_SET nd weight 60 1 1"

definition WEIGHT_GET_INDEX :: "u64 \<Rightarrow> u64" where
  "WEIGHT_GET_INDEX weight = BF64_GET weight 54 6"

definition WEIGHT_SET_INDEX :: "bool \<Rightarrow> u64 \<Rightarrow> u64 \<Rightarrow> u64 option" where
  "WEIGHT_SET_INDEX nd weight x = BF64_SET nd weight 54 6 x"

definition WEIGHT_GET_COUNT :: "u64 \<Rightarrow> u64" where
  "WEIGHT_GET_COUNT weight = BF64_GET weight 0 54"

definition WEIGHT_SET_COUNT :: "bool \<Rightarrow> u64 \<Rightarrow> u64 \<Rightarrow> u64 option" where
  "WEIGHT_SET_COUNT nd weight x = BF64_SET nd weight 0 54 x"

lemmas weight_defs = WEIGHT_GET_ACTIVE_def WEIGHT_SET_ACTIVE_def WEIGHT_IS_SPACEBASED_def
  WEIGHT_SET_SPACEBASED_def WEIGHT_GET_INDEX_def WEIGHT_SET_INDEX_def WEIGHT_GET_COUNT_def
  WEIGHT_SET_COUNT_def

datatype weight_field = W_ACTIVE | W_INDEX | W_COUNT

fun weight_pos :: "weight_field \<Rightarrow> nat \<times> nat" where
  "weight_pos W_ACTIVE = (61, 3)" | "weight_pos W_INDEX = (54, 6)" | "weight_pos W_COUNT = (0, 54)"

fun weight_get :: "weight_field \<Rightarrow> u64 \<Rightarrow> u64" where
  "weight_get W_ACTIVE = WEIGHT_GET_ACTIVE" | "weight_get W_INDEX = WEIGHT_GET_INDEX"
| "weight_get W_COUNT = WEIGHT_GET_COUNT"

fun weight_set :: "weight_field \<Rightarrow> bool \<Rightarrow> u64 \<Rightarrow> u64 \<Rightarrow> u64 option" where
  "weight_set W_ACTIVE = WEIGHT_SET_ACTIVE" | "weight_set W_INDEX = WEIGHT_SET_INDEX"
| "weight_set W_COUNT = WEIGHT_SET_COUNT"

lemma weight_pos_disjoint: "f \<noteq> g \<Longrightarrow> fst (weight_pos f) + snd (weight_pos f) \<le> fst (weight_pos g) \<or>
    fst (weight_pos g) + snd (weight_pos g) \<le> fst (weight_pos f)"
  by (cases f; cases g) simp_all

lemma weight_family: "field_family (\<lambda>w. w) (\<lambda>w _. w) weight_pos (\<lambda>_ v. v) (\<lambda>_ v. v)
    (\<lambda>f v. v < 2 ^ snd (weight_pos f)) weight_get weight_set"
proof unfold_locales
  show "fst (weight_pos f) + snd (weight_pos f) \<le> 64" for f by (cases f) simp_all
  show "weight_get f s = BF64_GET s (fst (weight_pos f)) (snd (weight_pos f))" for f s
    by (cases f) (simp_all add: weight_defs)
  show "v < 2 ^ snd (weight_pos f) \<Longrightarrow> weight_set f nd s v =
      Some (bf64_put s (fst (weight_pos f)) (snd (weight_pos f)) v)" for f v nd s
    by (cases f) (simp_all add: weight_defs BF64_SET_Some)
qed (simp_all add: weight_pos_disjoint)

interpretation weight: field_family "\<lambda>w. w" "\<lambda>w _. w" weight_pos "\<lambda>_ v. v" "\<lambda>_ v. v"
    "\<lambda>f v. v < 2 ^ snd (weight_pos f)" weight_get weight_set
  by (rule weight_family)

text \<open>The fields split the word, so unsigned order is lexicographic order of the fields.\<close>

lemma unat_BF64_GET: "unat (BF64_GET w low len) = unat w div 2 ^ low mod 2 ^ len"
proof -
  have "unat (BF64_GET w low len) = take_bit len (unat w div 2 ^ low)"
    unfolding BF64_GET_take_drop unsigned_take_bit_eq unat_drop_bit_word by (rule refl)
  then show ?thesis by (simp only: take_bit_eq_mod)
qed

lemma split_at: "(n :: nat) = n div 2 ^ i * 2 ^ i + n mod 2 ^ i"
  by (rule div_mult_mod_eq [symmetric])

lemma weight_value:
  "unat w = ((unat (WEIGHT_GET_ACTIVE w) * 2 + unat (BF64_GET w 60 1)) * 2 ^ 6 +
     unat (WEIGHT_GET_INDEX w)) * 2 ^ 54 + unat (WEIGHT_GET_COUNT w)"
proof -
  let ?n = "unat w"
  have "?n < 2 ^ 64" using unsigned_less [of w, where ?'a = nat] by simp
  then have top: "?n div 2 ^ 61 mod 2 ^ 3 = ?n div 2 ^ 61" by simp
  have "?n div 2 ^ 60 = ?n div 2 ^ 61 * 2 ^ 1 + ?n div 2 ^ 60 mod 2 ^ 1"
    using split_at [of "?n div 2 ^ 60" 1] by (simp only: div_mult2_eq [symmetric]) simp
  moreover have "?n div 2 ^ 54 = ?n div 2 ^ 60 * 2 ^ 6 + ?n div 2 ^ 54 mod 2 ^ 6"
    using split_at [of "?n div 2 ^ 54" 6] by (simp only: div_mult2_eq [symmetric]) simp
  moreover have "?n = ?n div 2 ^ 54 * 2 ^ 54 + ?n div 2 ^ 0 mod 2 ^ 54"
    using split_at [of ?n 54] by simp
  ultimately show ?thesis
    by (simp only: weight_defs unat_BF64_GET top power_one_right)
qed

lemma lex_step:
  assumes "c < b" "c' < (b :: nat)"
  shows "x * b + c < x' * b + c' \<longleftrightarrow> x < x' \<or> x = x' \<and> c < c'"
proof (cases x x' rule: linorder_cases)
  case less
  then have "(x + 1) * b \<le> x' * b" by (intro mult_le_mono1) simp
  with less assms show ?thesis by simp
next
  case greater
  then have "(x' + 1) * b \<le> x * b" by (intro mult_le_mono1) simp
  with greater assms show ?thesis by simp
qed simp

lemma lex_step_eq:
  assumes "c < b" "c' < (b :: nat)"
  shows "x * b + c = x' * b + c' \<longleftrightarrow> x = x' \<and> c = c'"
  using lex_step [OF assms] lex_step [OF assms(2,1)] nat_neq_iff by metis

lemma unat_BF64_GET_less: "unat (BF64_GET w low len) < 2 ^ len"
  by (simp add: unat_BF64_GET)

text \<open>
  Sorting metaslab weights as unsigned numbers, as the code does to take the best metaslab
  first, is sorting by activation, then space-based before segment-based, then by the index of
  the highest histogram bucket, and only then by the number of segments in it.
\<close>

theorem weight_order:
  "w < w' \<longleftrightarrow>
     WEIGHT_GET_ACTIVE w < WEIGHT_GET_ACTIVE w' \<or>
     WEIGHT_GET_ACTIVE w = WEIGHT_GET_ACTIVE w' \<and>
       (BF64_GET w 60 1 < BF64_GET w' 60 1 \<or>
        BF64_GET w 60 1 = BF64_GET w' 60 1 \<and>
          (WEIGHT_GET_INDEX w < WEIGHT_GET_INDEX w' \<or>
           WEIGHT_GET_INDEX w = WEIGHT_GET_INDEX w' \<and> WEIGHT_GET_COUNT w < WEIGHT_GET_COUNT w'))"
proof -
  have c: "unat (WEIGHT_GET_COUNT v) < 2 ^ 54" "unat (WEIGHT_GET_INDEX v) < 2 ^ 6"
    "unat (BF64_GET v 60 1) < 2" for v
    using unat_BF64_GET_less [of v 0 54] unat_BF64_GET_less [of v 54 6] unat_BF64_GET_less [of v 60 1]
    by (simp_all only: weight_defs power_one_right)
  show ?thesis
    unfolding word_less_nat_alt weight_value [of w] weight_value [of w']
      lex_step [OF c(1) c(1)] lex_step [OF c(2) c(2)] lex_step_eq [OF c(2) c(2)]
      lex_step [OF c(3) c(3)] lex_step_eq [OF c(3) c(3)] word_unat_eq_iff
    by blast
qed

text \<open>
  Building a segment-based weight from an index below 64, a count below \<open>2 ^ 54\<close> and an
  activation below 8 gives back all three, and the weight is not space-based unless it is 0 (which
  the macro counts as space-based); marking a weight space-based changes none of the three.
\<close>

theorem weight_segment_build:
  assumes "i < 2 ^ 6" "c < 2 ^ 54" "a < 2 ^ 3"
  shows "\<exists>w. WEIGHT_SET_INDEX nd 0 i \<bind> (\<lambda>w1. WEIGHT_SET_COUNT nd w1 c) \<bind> (\<lambda>w2. WEIGHT_SET_ACTIVE nd w2 a) = Some w \<and>
    WEIGHT_GET_INDEX w = i \<and> WEIGHT_GET_COUNT w = c \<and> WEIGHT_GET_ACTIVE w = a \<and>
    (WEIGHT_IS_SPACEBASED w \<longleftrightarrow> i = 0 \<and> c = 0 \<and> a = 0) \<and>
    (\<exists>w'. WEIGHT_SET_SPACEBASED nd w = Some w' \<and> WEIGHT_IS_SPACEBASED w' \<and>
       WEIGHT_GET_INDEX w' = i \<and> WEIGHT_GET_COUNT w' = c \<and> WEIGHT_GET_ACTIVE w' = a)"
proof -
  let ?w1 = "bf64_put 0 54 6 i" let ?w2 = "bf64_put ?w1 0 54 c" let ?w = "bf64_put ?w2 61 3 a"
  have set: "WEIGHT_SET_INDEX nd 0 i \<bind> (\<lambda>w1. WEIGHT_SET_COUNT nd w1 c) \<bind> (\<lambda>w2. WEIGHT_SET_ACTIVE nd w2 a) = Some ?w"
    using assms by (simp add: weight_defs BF64_SET_Some)
  have get: "BF64_GET ?w 54 6 = i" "BF64_GET ?w 0 54 = c" "BF64_GET ?w 61 3 = a"
    using assms by (simp_all add: get_put_same get_put_disjoint)
  have zero: "BF64_GET 0 low len = 0" for low len by (simp add: BF64_GET_take_drop)
  have type0: "BF64_GET ?w 60 1 = 0" by (simp add: get_put_disjoint zero)
  have "?w = 0 \<longleftrightarrow> i = 0 \<and> c = 0 \<and> a = 0"
  proof
    assume "?w = 0"
    then show "i = 0 \<and> c = 0 \<and> a = 0" using get zero by metis
  next
    assume z: "i = 0 \<and> c = 0 \<and> a = 0"
    have "unat ?w = 0"
      unfolding weight_value [of ?w] weight_defs get type0 using z by simp
    then show "?w = 0" by (simp only: unat_eq_0)
  qed
  then have seg: "WEIGHT_IS_SPACEBASED ?w \<longleftrightarrow> i = 0 \<and> c = 0 \<and> a = 0"
    by (simp only: WEIGHT_IS_SPACEBASED_def type0 simp_thms)
  have "WEIGHT_SET_SPACEBASED nd ?w = Some (bf64_put ?w 60 1 1)"
    by (simp add: WEIGHT_SET_SPACEBASED_def BF64_SET_Some)
  moreover have "WEIGHT_IS_SPACEBASED (bf64_put ?w 60 1 1)"
    by (simp add: WEIGHT_IS_SPACEBASED_def get_put_same)
  moreover have "WEIGHT_GET_INDEX (bf64_put ?w 60 1 1) = i" "WEIGHT_GET_COUNT (bf64_put ?w 60 1 1) = c"
    "WEIGHT_GET_ACTIVE (bf64_put ?w 60 1 1) = a"
    by (simp_all add: weight_defs get_put_disjoint get)
  ultimately show ?thesis using set get seg by (auto simp: weight_defs)
qed

theorem weight_segment_build_witness:
  "\<exists>w. WEIGHT_SET_INDEX False 0 20 \<bind> (\<lambda>w1. WEIGHT_SET_COUNT False w1 7) \<bind> (\<lambda>w2. WEIGHT_SET_ACTIVE False w2 4) = Some w \<and>
    WEIGHT_GET_INDEX w = 20 \<and> WEIGHT_GET_COUNT w = 7 \<and> \<not> WEIGHT_IS_SPACEBASED w"
  using weight_segment_build [of 20 7 4 False] by auto

section \<open>Level-2 cache blocks\<close>

definition L2BLK_GET_LSIZE :: "u64 \<Rightarrow> u64" where
  "L2BLK_GET_LSIZE field = BF64_GET_SB field 0 SPA_LSIZEBITS SPA_MINBLOCKSHIFT 1"
definition L2BLK_SET_LSIZE :: "bool \<Rightarrow> u64 \<Rightarrow> u64 \<Rightarrow> u64 option" where
  "L2BLK_SET_LSIZE nd field x = BF64_SET_SB nd field 0 SPA_LSIZEBITS SPA_MINBLOCKSHIFT 1 x"
definition L2BLK_GET_PSIZE :: "u64 \<Rightarrow> u64" where
  "L2BLK_GET_PSIZE field = BF64_GET_SB field 16 SPA_PSIZEBITS SPA_MINBLOCKSHIFT 1"
definition L2BLK_SET_PSIZE :: "bool \<Rightarrow> u64 \<Rightarrow> u64 \<Rightarrow> u64 option" where
  "L2BLK_SET_PSIZE nd field x = BF64_SET_SB nd field 16 SPA_PSIZEBITS SPA_MINBLOCKSHIFT 1 x"
definition L2BLK_GET_COMPRESS :: "u64 \<Rightarrow> u64" where
  "L2BLK_GET_COMPRESS field = BF64_GET field 32 SPA_COMPRESSBITS"
definition L2BLK_SET_COMPRESS :: "bool \<Rightarrow> u64 \<Rightarrow> u64 \<Rightarrow> u64 option" where
  "L2BLK_SET_COMPRESS nd field x = BF64_SET nd field 32 SPA_COMPRESSBITS x"
definition L2BLK_GET_PREFETCH :: "u64 \<Rightarrow> u64" where
  "L2BLK_GET_PREFETCH field = BF64_GET field 39 1"
definition L2BLK_SET_PREFETCH :: "bool \<Rightarrow> u64 \<Rightarrow> u64 \<Rightarrow> u64 option" where
  "L2BLK_SET_PREFETCH nd field x = BF64_SET nd field 39 1 x"
definition L2BLK_GET_CHECKSUM :: "u64 \<Rightarrow> u64" where
  "L2BLK_GET_CHECKSUM field = BF64_GET field 40 8"
definition L2BLK_SET_CHECKSUM :: "bool \<Rightarrow> u64 \<Rightarrow> u64 \<Rightarrow> u64 option" where
  "L2BLK_SET_CHECKSUM nd field x = BF64_SET nd field 40 8 x"
definition L2BLK_GET_TYPE :: "u64 \<Rightarrow> u64" where
  "L2BLK_GET_TYPE field = BF64_GET field 48 8 - 1"
definition L2BLK_SET_TYPE :: "bool \<Rightarrow> u64 \<Rightarrow> u64 \<Rightarrow> u64 option" where
  "L2BLK_SET_TYPE nd field x = BF64_SET nd field 48 8 (x + 1)"
definition L2BLK_GET_PROTECTED :: "u64 \<Rightarrow> u64" where
  "L2BLK_GET_PROTECTED field = BF64_GET field 56 1"
definition L2BLK_SET_PROTECTED :: "bool \<Rightarrow> u64 \<Rightarrow> u64 \<Rightarrow> u64 option" where
  "L2BLK_SET_PROTECTED nd field x = BF64_SET nd field 56 1 x"
definition L2BLK_GET_STATE :: "u64 \<Rightarrow> u64" where
  "L2BLK_GET_STATE field = BF64_GET field 57 4"
definition L2BLK_SET_STATE :: "bool \<Rightarrow> u64 \<Rightarrow> u64 \<Rightarrow> u64 option" where
  "L2BLK_SET_STATE nd field x = BF64_SET nd field 57 4 x"

lemmas l2blk_defs = L2BLK_GET_LSIZE_def L2BLK_SET_LSIZE_def L2BLK_GET_PSIZE_def L2BLK_SET_PSIZE_def
  L2BLK_GET_COMPRESS_def L2BLK_SET_COMPRESS_def L2BLK_GET_PREFETCH_def L2BLK_SET_PREFETCH_def
  L2BLK_GET_CHECKSUM_def L2BLK_SET_CHECKSUM_def L2BLK_GET_TYPE_def L2BLK_SET_TYPE_def
  L2BLK_GET_PROTECTED_def L2BLK_SET_PROTECTED_def L2BLK_GET_STATE_def L2BLK_SET_STATE_def

datatype l2blk_field = L2_LSIZE | L2_PSIZE | L2_COMPRESS | L2_PREFETCH | L2_CHECKSUM | L2_TYPE
  | L2_PROTECTED | L2_STATE

fun l2blk_pos :: "l2blk_field \<Rightarrow> nat \<times> nat" where
  "l2blk_pos L2_LSIZE = (0, 16)" | "l2blk_pos L2_PSIZE = (16, 16)" | "l2blk_pos L2_COMPRESS = (32, 7)"
| "l2blk_pos L2_PREFETCH = (39, 1)" | "l2blk_pos L2_CHECKSUM = (40, 8)" | "l2blk_pos L2_TYPE = (48, 8)"
| "l2blk_pos L2_PROTECTED = (56, 1)" | "l2blk_pos L2_STATE = (57, 4)"

fun l2blk_get :: "l2blk_field \<Rightarrow> u64 \<Rightarrow> u64" where
  "l2blk_get L2_LSIZE = L2BLK_GET_LSIZE" | "l2blk_get L2_PSIZE = L2BLK_GET_PSIZE"
| "l2blk_get L2_COMPRESS = L2BLK_GET_COMPRESS" | "l2blk_get L2_PREFETCH = L2BLK_GET_PREFETCH"
| "l2blk_get L2_CHECKSUM = L2BLK_GET_CHECKSUM" | "l2blk_get L2_TYPE = L2BLK_GET_TYPE"
| "l2blk_get L2_PROTECTED = L2BLK_GET_PROTECTED" | "l2blk_get L2_STATE = L2BLK_GET_STATE"

fun l2blk_set :: "l2blk_field \<Rightarrow> bool \<Rightarrow> u64 \<Rightarrow> u64 \<Rightarrow> u64 option" where
  "l2blk_set L2_LSIZE = L2BLK_SET_LSIZE" | "l2blk_set L2_PSIZE = L2BLK_SET_PSIZE"
| "l2blk_set L2_COMPRESS = L2BLK_SET_COMPRESS" | "l2blk_set L2_PREFETCH = L2BLK_SET_PREFETCH"
| "l2blk_set L2_CHECKSUM = L2BLK_SET_CHECKSUM" | "l2blk_set L2_TYPE = L2BLK_SET_TYPE"
| "l2blk_set L2_PROTECTED = L2BLK_SET_PROTECTED" | "l2blk_set L2_STATE = L2BLK_SET_STATE"

text \<open>
  Sizes are multiples of 512 up to 32M. The type is stored one higher, so the value -1 (the
  removed \<open>ARC_BUFC_INVALID\<close>) is stored as 0 and is legal.
\<close>

fun l2blk_legal :: "l2blk_field \<Rightarrow> u64 \<Rightarrow> bool" where
  "l2blk_legal L2_LSIZE v = sb_legal 16 9 1 v" | "l2blk_legal L2_PSIZE v = sb_legal 16 9 1 v"
| "l2blk_legal L2_COMPRESS v = (v < 2 ^ 7)" | "l2blk_legal L2_PREFETCH v = (v < 2)"
| "l2blk_legal L2_CHECKSUM v = (v < 2 ^ 8)" | "l2blk_legal L2_TYPE v = (v + 1 < 2 ^ 8)"
| "l2blk_legal L2_PROTECTED v = (v < 2)" | "l2blk_legal L2_STATE v = (v < 2 ^ 4)"

fun l2blk_enc :: "l2blk_field \<Rightarrow> u64 \<Rightarrow> u64" where
  "l2blk_enc L2_LSIZE v = drop_bit 9 v - 1" | "l2blk_enc L2_PSIZE v = drop_bit 9 v - 1"
| "l2blk_enc L2_TYPE v = v + 1" | "l2blk_enc _ v = v"

fun l2blk_dec :: "l2blk_field \<Rightarrow> u64 \<Rightarrow> u64" where
  "l2blk_dec L2_LSIZE v = push_bit 9 (v + 1)" | "l2blk_dec L2_PSIZE v = push_bit 9 (v + 1)"
| "l2blk_dec L2_TYPE v = v - 1" | "l2blk_dec _ v = v"

lemma l2blk_pos_disjoint: "f \<noteq> g \<Longrightarrow> fst (l2blk_pos f) + snd (l2blk_pos f) \<le> fst (l2blk_pos g) \<or>
    fst (l2blk_pos g) + snd (l2blk_pos g) \<le> fst (l2blk_pos f)"
  by (cases f; cases g) simp_all

interpretation l2blk: field_family "\<lambda>w. w" "\<lambda>w _. w" l2blk_pos l2blk_enc l2blk_dec l2blk_legal
    l2blk_get l2blk_set
proof unfold_locales
  show "fst (l2blk_pos f) + snd (l2blk_pos f) \<le> 64" for f by (cases f) simp_all
  show "l2blk_get f s = l2blk_dec f (BF64_GET s (fst (l2blk_pos f)) (snd (l2blk_pos f)))" for f s
    by (cases f) (simp_all add: l2blk_defs BF64_GET_SB_def spa_defs)
  show "l2blk_legal f v \<Longrightarrow> l2blk_enc f v < 2 ^ snd (l2blk_pos f)" for f v
    using sb_enc_fits [of 16 9 1 v] by (cases f) simp_all
  show "l2blk_legal f v \<Longrightarrow> l2blk_dec f (l2blk_enc f v) = v" for f v
    using sb_dec_enc [of 16 9 1 v] by (cases f) simp_all
  show "l2blk_legal f v \<Longrightarrow> l2blk_set f nd s v =
      Some (bf64_put s (fst (l2blk_pos f)) (snd (l2blk_pos f)) (l2blk_enc f v))" for f v nd s
    by (cases f) (simp_all add: l2blk_defs BF64_SET_Some BF64_SET_SB_Some spa_defs)
qed (simp_all add: l2blk_pos_disjoint)

text \<open>
  Every field of the properties word of a level-2 cache block (sizes, compression, prefetch,
  checksum, type, protection, state) can be set to any legal value without an assertion firing;
  the getter returns that value, including the type -1, and the seven other fields are unchanged.
\<close>

theorem l2blk_fields_independent:
  "l2blk_legal f v \<Longrightarrow> \<exists>s'. l2blk_set f nd s v = Some s' \<and>
     (\<forall>g. l2blk_get g s' = (if g = f then v else l2blk_get g s))"
  by (rule l2blk.independent)

theorem l2blk_fields_independent_witness:
  "\<exists>s'. L2BLK_SET_TYPE False 0x1ff (- 1) = Some s' \<and> L2BLK_GET_TYPE s' = - 1 \<and>
     L2BLK_GET_LSIZE s' = 512 * 512"
proof -
  obtain s' where s: "L2BLK_SET_TYPE False 0x1ff (- 1) = Some s'"
      "\<forall>g. l2blk_get g s' = (if g = L2_TYPE then - 1 else l2blk_get g 0x1ff)"
    using l2blk_fields_independent [of L2_TYPE "- 1" False "0x1ff"] by auto
  have "l2blk_get L2_LSIZE 0x1ff = 512 * 512" by (simp add: l2blk_defs BF64_GET_SB_def BF64_GET_take_drop spa_defs take_bit_eq_mod)
  with s show ?thesis using s(2) [rule_format, of L2_TYPE] s(2) [rule_format, of L2_LSIZE] by auto
qed

section \<open>Redaction blocks\<close>

record redact_block_phys_t =
  rbp_object :: u64
  rbp_blkid :: u64
  rbp_size_count :: u64
  rbp_padding :: u64

definition REDACT_BLOCK_MAX_COUNT :: u64 where "REDACT_BLOCK_MAX_COUNT = push_bit 48 1"

definition redact_block_get_size :: "redact_block_phys_t \<Rightarrow> u64" where
  "redact_block_get_size rbp = BF64_GET_SB (rbp_size_count rbp) 48 16 SPA_MINBLOCKSHIFT 0"

definition redact_block_set_size :: "bool \<Rightarrow> redact_block_phys_t \<Rightarrow> u64 \<Rightarrow> redact_block_phys_t option" where
  "redact_block_set_size nd rbp sz = map_option (\<lambda>w. rbp\<lparr>rbp_size_count := w\<rparr>)
     (BF64_SET_SB nd (rbp_size_count rbp) 48 16 SPA_MINBLOCKSHIFT 0 sz)"

definition redact_block_get_count :: "redact_block_phys_t \<Rightarrow> u64" where
  "redact_block_get_count rbp = BF64_GET_SB (rbp_size_count rbp) 0 48 0 1"

definition redact_block_set_count :: "bool \<Rightarrow> redact_block_phys_t \<Rightarrow> u64 \<Rightarrow> redact_block_phys_t option" where
  "redact_block_set_count nd rbp count = map_option (\<lambda>w. rbp\<lparr>rbp_size_count := w\<rparr>)
     (BF64_SET_SB nd (rbp_size_count rbp) 0 48 0 1 count)"

lemmas redact_defs = redact_block_get_size_def redact_block_set_size_def redact_block_get_count_def
  redact_block_set_count_def

text \<open>Families indexed by \<open>bool\<close>: the size is \<open>True\<close>, the count \<open>False\<close>.\<close>

definition redact_pos :: "bool \<Rightarrow> nat \<times> nat" where
  "redact_pos sz = (if sz then (48, 16) else (0, 48))"

definition redact_legal :: "bool \<Rightarrow> u64 \<Rightarrow> bool" where
  "redact_legal sz v = (if sz then sb_legal 16 9 0 v else sb_legal 48 0 1 v)"

definition redact_enc :: "bool \<Rightarrow> u64 \<Rightarrow> u64" where
  "redact_enc sz v = (if sz then drop_bit 9 v - 0 else drop_bit 0 v - 1)"

definition redact_dec :: "bool \<Rightarrow> u64 \<Rightarrow> u64" where
  "redact_dec sz v = (if sz then push_bit 9 (v + 0) else push_bit 0 (v + 1))"

definition redact_get :: "bool \<Rightarrow> redact_block_phys_t \<Rightarrow> u64" where
  "redact_get sz = (if sz then redact_block_get_size else redact_block_get_count)"

definition redact_set :: "bool \<Rightarrow> bool \<Rightarrow> redact_block_phys_t \<Rightarrow> u64 \<Rightarrow> redact_block_phys_t option" where
  "redact_set sz = (if sz then redact_block_set_size else redact_block_set_count)"

interpretation redact: field_family rbp_size_count "\<lambda>w rbp. rbp\<lparr>rbp_size_count := w\<rparr>"
    redact_pos redact_enc redact_dec redact_legal redact_get redact_set
proof unfold_locales
  show "redact_legal f v \<Longrightarrow> redact_enc f v < 2 ^ snd (redact_pos f)" for f v
    using sb_enc_fits [of 16 9 0 v] sb_enc_fits [of 48 0 1 v]
    by (simp add: redact_legal_def redact_enc_def redact_pos_def split: if_splits)
  show "redact_legal f v \<Longrightarrow> redact_dec f (redact_enc f v) = v" for f v
    using sb_dec_enc [of 16 9 0 v] sb_dec_enc [of 48 0 1 v]
    by (simp add: redact_legal_def redact_enc_def redact_dec_def split: if_splits)
  show "redact_legal f v \<Longrightarrow> redact_set f nd s v = Some (s\<lparr>rbp_size_count :=
      bf64_put (rbp_size_count s) (fst (redact_pos f)) (snd (redact_pos f)) (redact_enc f v)\<rparr>)" for f v nd s
    using BF64_SET_SB_Some [of 16 9 0 v 48 nd "rbp_size_count s"]
      BF64_SET_SB_Some [of 48 0 1 v 0 nd "rbp_size_count s"]
    by (simp add: redact_legal_def redact_enc_def redact_pos_def redact_set_def redact_defs spa_defs
        split: if_splits)
qed (auto simp: redact_pos_def redact_get_def redact_dec_def redact_defs BF64_GET_SB_def spa_defs)

text \<open>The counts a redaction block can hold are exactly those from 1 to \<open>REDACT_BLOCK_MAX_COUNT\<close>.\<close>

lemma redact_count_legal: "redact_legal False v \<longleftrightarrow> 1 \<le> v \<and> v \<le> REDACT_BLOCK_MAX_COUNT"
  by (simp add: redact_legal_def sb_legal_def REDACT_BLOCK_MAX_COUNT_def word_le_nat_alt) linarith

text \<open>
  A redaction block holds every count from 1 to \<open>REDACT_BLOCK_MAX_COUNT\<close>, both included (the
  bias of one is what makes \<open>2 ^ 48\<close> fit 48 bits): setting it fires no assertion, it is read back,
  and the size of the block is unchanged.
\<close>

theorem redact_count_roundtrip:
  assumes "1 \<le> count" "count \<le> REDACT_BLOCK_MAX_COUNT"
  shows "\<exists>rbp'. redact_block_set_count nd rbp count = Some rbp' \<and> redact_block_get_count rbp' = count \<and>
    redact_block_get_size rbp' = redact_block_get_size rbp"
  using redact.independent [of False count nd rbp] assms
  by (auto simp: redact_count_legal redact_set_def redact_get_def split: if_splits)

theorem redact_count_roundtrip_witness:
  "\<exists>rbp'. redact_block_set_count False \<lparr>rbp_object = 1, rbp_blkid = 2, rbp_size_count = 0, rbp_padding = 0\<rparr>
      REDACT_BLOCK_MAX_COUNT = Some rbp' \<and> redact_block_get_count rbp' = 2 ^ 48"
  using redact_count_roundtrip [of REDACT_BLOCK_MAX_COUNT False
      "\<lparr>rbp_object = 1, rbp_blkid = 2, rbp_size_count = 0, rbp_padding = 0\<rparr>"]
  by (auto simp: REDACT_BLOCK_MAX_COUNT_def)

section \<open>Object ids of log records, mapping sources and directory entries\<close>

definition DN_MAX_OBJECT_SHIFT :: nat where "DN_MAX_OBJECT_SHIFT = 48"

definition LR_FOID_GET_SLOTS :: "u64 \<Rightarrow> u64" where
  "LR_FOID_GET_SLOTS oid = BF64_GET oid 56 8 + 1"
definition LR_FOID_SET_SLOTS :: "bool \<Rightarrow> u64 \<Rightarrow> u64 \<Rightarrow> u64 option" where
  "LR_FOID_SET_SLOTS nd oid x = BF64_SET nd oid 56 8 (x - 1)"
definition LR_FOID_GET_OBJ :: "u64 \<Rightarrow> u64" where
  "LR_FOID_GET_OBJ oid = BF64_GET oid 0 DN_MAX_OBJECT_SHIFT"
definition LR_FOID_SET_OBJ :: "bool \<Rightarrow> u64 \<Rightarrow> u64 \<Rightarrow> u64 option" where
  "LR_FOID_SET_OBJ nd oid x = BF64_SET nd oid 0 DN_MAX_OBJECT_SHIFT x"

lemmas foid_defs = LR_FOID_GET_SLOTS_def LR_FOID_SET_SLOTS_def LR_FOID_GET_OBJ_def LR_FOID_SET_OBJ_def
  DN_MAX_OBJECT_SHIFT_def

record vdev_indirect_mapping_entry_phys_t =
  vimep_src :: u64
  vimep_dst :: dva_t

definition DVA_MAPPING_GET_SRC_OFFSET :: "vdev_indirect_mapping_entry_phys_t \<Rightarrow> u64" where
  "DVA_MAPPING_GET_SRC_OFFSET vimep = BF64_GET_SB (vimep_src vimep) 0 63 SPA_MINBLOCKSHIFT 0"
definition DVA_MAPPING_SET_SRC_OFFSET ::
    "bool \<Rightarrow> vdev_indirect_mapping_entry_phys_t \<Rightarrow> u64 \<Rightarrow> vdev_indirect_mapping_entry_phys_t option" where
  "DVA_MAPPING_SET_SRC_OFFSET nd vimep x = map_option (\<lambda>w. vimep\<lparr>vimep_src := w\<rparr>)
     (BF64_SET_SB nd (vimep_src vimep) 0 63 SPA_MINBLOCKSHIFT 0 x)"

definition ZFS_DIRENT_TYPE :: "u64 \<Rightarrow> u64" where "ZFS_DIRENT_TYPE de = BF64_GET de 60 4"
definition ZFS_DIRENT_OBJ :: "u64 \<Rightarrow> u64" where "ZFS_DIRENT_OBJ de = BF64_GET de 0 48"

text \<open>The slot field is stored one lower, so that a one-slot dnode leaves the object id as it was.\<close>

definition foid_pos :: "bool \<Rightarrow> nat \<times> nat" where "foid_pos sl = (if sl then (56, 8) else (0, 48))"
definition foid_get :: "bool \<Rightarrow> u64 \<Rightarrow> u64" where
  "foid_get sl = (if sl then LR_FOID_GET_SLOTS else LR_FOID_GET_OBJ)"
definition foid_set :: "bool \<Rightarrow> bool \<Rightarrow> u64 \<Rightarrow> u64 \<Rightarrow> u64 option" where
  "foid_set sl = (if sl then LR_FOID_SET_SLOTS else LR_FOID_SET_OBJ)"

interpretation foid: field_family "\<lambda>w. w" "\<lambda>w _. w" foid_pos "\<lambda>sl v. if sl then v - 1 else v"
    "\<lambda>sl v. if sl then v + 1 else v" "\<lambda>sl v. if sl then v - 1 < 2 ^ 8 else v < 2 ^ 48" foid_get foid_set
  by unfold_locales (auto simp: foid_pos_def foid_get_def foid_set_def foid_defs BF64_SET_Some split: if_splits)

lemma slots_legal: "1 \<le> n \<Longrightarrow> n \<le> 256 \<Longrightarrow> (n :: u64) - 1 < 2 ^ 8"
  by (simp add: word_less_nat_alt word_le_nat_alt unat_sub)

lemma bf64_put_zero: "BF64_GET x low len = 0 \<Longrightarrow> bf64_put x low len 0 = x"
  using put_get_same [of x low len] by simp

text \<open>
  An object id of an intent log record carries the number of dnode slots, 1 to 256, in its top
  bits: both parts can be set without an assertion firing and read back independently, and for a
  plain object number (below \<open>2 ^ 48\<close>) setting one slot leaves the word as it was, the format of
  records written before large dnodes.
\<close>

theorem foid_slots_compatible:
  assumes "obj < 2 ^ 48" "1 \<le> n" "n \<le> 256"
  shows "\<exists>oid. LR_FOID_SET_OBJ nd 0 obj \<bind> (\<lambda>w. LR_FOID_SET_SLOTS nd w n) = Some oid \<and>
    LR_FOID_GET_OBJ oid = obj \<and> LR_FOID_GET_SLOTS oid = n \<and> (n = 1 \<longrightarrow> oid = obj)"
proof -
  obtain w where w: "LR_FOID_SET_OBJ nd 0 obj = Some w" "LR_FOID_GET_OBJ w = obj"
    using foid.independent [of False obj nd 0] assms(1) by (auto simp: foid_set_def foid_get_def all_bool_eq)
  obtain oid where o: "LR_FOID_SET_SLOTS nd w n = Some oid" "LR_FOID_GET_SLOTS oid = n"
      "LR_FOID_GET_OBJ oid = obj"
    using foid.independent [of True n nd w] slots_legal [OF assms(2,3)] w(2)
    by (auto simp: foid_set_def foid_get_def all_bool_eq)
  have "oid = obj" if "n = 1"
  proof -
    have small: "take_bit 48 obj = obj" using assms(1) by (rule take_bit_word_small)
    have "w = bf64_put 0 0 48 obj" using w(1) assms(1) by (simp add: foid_defs BF64_SET_Some)
    then have "w = obj" using small
      by (simp add: bf64_put_def BF64_ENCODE_push_take)
    moreover have "oid = bf64_put w 56 8 0" using o(1) that by (simp add: foid_defs BF64_SET_Some)
    moreover have "BF64_GET obj 56 8 = 0"
    proof (rule bit_word_eqI)
      fix i
      show "bit (BF64_GET obj 56 8) i \<longleftrightarrow> bit (0 :: u64) i"
        by (subst small [symmetric]) (simp add: bit_BF64_GET bit_take_bit_iff)
    qed
    ultimately show ?thesis by (simp add: bf64_put_zero)
  qed
  with w o show ?thesis by auto
qed

theorem foid_slots_compatible_witness:
  "\<exists>oid. LR_FOID_SET_OBJ False 0 0x1234 \<bind> (\<lambda>w. LR_FOID_SET_SLOTS False w 32) = Some oid \<and>
    LR_FOID_GET_OBJ oid = 0x1234 \<and> LR_FOID_GET_SLOTS oid = 32"
  using foid_slots_compatible [of "0x1234" 32 False] by auto

text \<open>
  The offset of a mapping entry is any multiple of 512 below \<open>2 ^ 63\<close> sectors; the top bit of the
  word, the mark of the garbage collector, is not disturbed.
\<close>

theorem mapping_source_keeps_mark:
  assumes "512 dvd unat x"
  shows "\<exists>e. DVA_MAPPING_SET_SRC_OFFSET nd vimep x = Some e \<and> DVA_MAPPING_GET_SRC_OFFSET e = x \<and>
    bit (vimep_src e) 63 = bit (vimep_src vimep) 63 \<and> vimep_dst e = vimep_dst vimep"
proof -
  have "unat x < 2 ^ 64" using unsigned_less [of x, where ?'a = nat] by simp
  then have "unat x div 2 ^ 9 < 2 ^ 63" by simp
  then have legal: "sb_legal 63 9 0 x" using assms by (simp add: sb_legal_def)
  let ?w = "bf64_put (vimep_src vimep) 0 63 (drop_bit 9 x - 0)"
  have "DVA_MAPPING_SET_SRC_OFFSET nd vimep x = Some (vimep\<lparr>vimep_src := ?w\<rparr>)"
    using BF64_SET_SB_Some [OF legal] by (simp add: DVA_MAPPING_SET_SRC_OFFSET_def spa_defs)
  moreover have "BF64_GET_SB ?w 0 63 9 0 = x" by (rule GET_SB_put [OF legal]) simp_all
  moreover have "bit ?w 63 = bit (vimep_src vimep) 63" by (simp add: bit_bf64_put)
  ultimately show ?thesis by (simp add: DVA_MAPPING_GET_SRC_OFFSET_def spa_defs)
qed

theorem mapping_source_keeps_mark_witness:
  "\<exists>e. DVA_MAPPING_SET_SRC_OFFSET False \<lparr>vimep_src = 2 ^ 63, vimep_dst = \<lparr>dva_word0 = 0, dva_word1 = 0\<rparr>\<rparr> 1024 = Some e \<and>
    DVA_MAPPING_GET_SRC_OFFSET e = 1024"
  using mapping_source_keeps_mark [of 1024 False
      "\<lparr>vimep_src = 2 ^ 63, vimep_dst = \<lparr>dva_word0 = 0, dva_word1 = 0\<rparr>\<rparr>"] by auto

end
