(* ===== verification/Disk_Types.thy ===== *)
theory Disk_Types
  imports Zfs_Ioctl
begin

text \<open>
  The layouts of the structures that other on-disk structures contain: \<open>dva_t\<close> and \<open>blkptr_t\<close>
  of \<open>spa.h\<close> and \<open>zio_eck_t\<close> of \<open>zio.h\<close>, with their sizes and alignments.
\<close>

definition c_dva :: ctype where
  "c_dva = CStruct [(''dva_word'', CArray 2 c_u64)]"

definition c_blkptr :: ctype where
  "c_blkptr = CStruct [(''blk_dva'', CArray 3 c_dva), (''blk_prop'', c_u64), (''blk_prop2'', c_u64),
    (''blk_pad'', c_u64), (''blk_birth_word'', CArray 2 c_u64), (''blk_fill'', c_u64),
    (''blk_cksum'', c_zio_cksum)]"

definition c_zio_eck :: ctype where
  "c_zio_eck = CStruct [(''zec_magic'', c_u64), (''zec_cksum'', c_zio_cksum)]"

lemma disk_sizes [simp]:
  "size_of 8 c_dva = 16" "size_of 4 c_dva = 16" "align_of 8 c_dva = 8" "align_of 4 c_dva = 4"
  "size_of 8 c_blkptr = 128" "size_of 4 c_blkptr = 128" "align_of 8 c_blkptr = 8" "align_of 4 c_blkptr = 4"
  "size_of 8 c_zio_eck = 40" "size_of 4 c_zio_eck = 40" "align_of 8 c_zio_eck = 8" "align_of 4 c_zio_eck = 4"
  by (simp_all add: c_dva_def c_blkptr_def c_zio_eck_def layout_simps)

end
