(* ===== verification/Ddt.thy ===== *)
theory Ddt
  imports Packed_Words Disk_Types
begin

unbundle bit_operations_syntax

text \<open>
  The deduplication table headers \<open>ddt.h\<close> and \<open>ddt_impl.h\<close>: the key of an entry, the records and
  header of the on-disk log, the two forms of the value, and the macros that choose between them.
\<close>

section \<open>Deduplication keys and log records\<close>

record ddt_key_t =
  ddk_cksum :: zio_cksum_t
  ddk_prop :: u64

definition DDK_GET_LSIZE :: "ddt_key_t \<Rightarrow> u64" where
  "DDK_GET_LSIZE ddk = BF64_GET_SB (ddk_prop ddk) 0 16 SPA_MINBLOCKSHIFT 1"
definition DDK_SET_LSIZE :: "bool \<Rightarrow> ddt_key_t \<Rightarrow> u64 \<Rightarrow> ddt_key_t option" where
  "DDK_SET_LSIZE nd ddk x = map_option (\<lambda>w. ddk\<lparr>ddk_prop := w\<rparr>)
     (BF64_SET_SB nd (ddk_prop ddk) 0 16 SPA_MINBLOCKSHIFT 1 x)"
definition DDK_GET_PSIZE :: "ddt_key_t \<Rightarrow> u64" where
  "DDK_GET_PSIZE ddk = BF64_GET_SB (ddk_prop ddk) 16 16 SPA_MINBLOCKSHIFT 1"
definition DDK_SET_PSIZE :: "bool \<Rightarrow> ddt_key_t \<Rightarrow> u64 \<Rightarrow> ddt_key_t option" where
  "DDK_SET_PSIZE nd ddk x = map_option (\<lambda>w. ddk\<lparr>ddk_prop := w\<rparr>)
     (BF64_SET_SB nd (ddk_prop ddk) 16 16 SPA_MINBLOCKSHIFT 1 x)"
definition DDK_GET_COMPRESS :: "ddt_key_t \<Rightarrow> u64" where
  "DDK_GET_COMPRESS ddk = BF64_GET (ddk_prop ddk) 32 7"
definition DDK_SET_COMPRESS :: "bool \<Rightarrow> ddt_key_t \<Rightarrow> u64 \<Rightarrow> ddt_key_t option" where
  "DDK_SET_COMPRESS nd ddk x = map_option (\<lambda>w. ddk\<lparr>ddk_prop := w\<rparr>) (BF64_SET nd (ddk_prop ddk) 32 7 x)"
definition DDK_GET_CRYPT :: "ddt_key_t \<Rightarrow> u64" where
  "DDK_GET_CRYPT ddk = BF64_GET (ddk_prop ddk) 39 1"
definition DDK_SET_CRYPT :: "bool \<Rightarrow> ddt_key_t \<Rightarrow> u64 \<Rightarrow> ddt_key_t option" where
  "DDK_SET_CRYPT nd ddk x = map_option (\<lambda>w. ddk\<lparr>ddk_prop := w\<rparr>) (BF64_SET nd (ddk_prop ddk) 39 1 x)"

lemmas ddk_defs = DDK_GET_LSIZE_def DDK_SET_LSIZE_def DDK_GET_PSIZE_def DDK_SET_PSIZE_def
  DDK_GET_COMPRESS_def DDK_SET_COMPRESS_def DDK_GET_CRYPT_def DDK_SET_CRYPT_def

datatype ddk_field = K_LSIZE | K_PSIZE | K_COMPRESS | K_CRYPT

fun ddk_pos :: "ddk_field \<Rightarrow> nat \<times> nat" where
  "ddk_pos K_LSIZE = (0, 16)" | "ddk_pos K_PSIZE = (16, 16)" | "ddk_pos K_COMPRESS = (32, 7)"
| "ddk_pos K_CRYPT = (39, 1)"

fun ddk_get :: "ddk_field \<Rightarrow> ddt_key_t \<Rightarrow> u64" where
  "ddk_get K_LSIZE = DDK_GET_LSIZE" | "ddk_get K_PSIZE = DDK_GET_PSIZE"
| "ddk_get K_COMPRESS = DDK_GET_COMPRESS" | "ddk_get K_CRYPT = DDK_GET_CRYPT"

fun ddk_set :: "ddk_field \<Rightarrow> bool \<Rightarrow> ddt_key_t \<Rightarrow> u64 \<Rightarrow> ddt_key_t option" where
  "ddk_set K_LSIZE = DDK_SET_LSIZE" | "ddk_set K_PSIZE = DDK_SET_PSIZE"
| "ddk_set K_COMPRESS = DDK_SET_COMPRESS" | "ddk_set K_CRYPT = DDK_SET_CRYPT"

definition ddk_legal :: "ddk_field \<Rightarrow> u64 \<Rightarrow> bool" where
  "ddk_legal f v = (if f = K_LSIZE \<or> f = K_PSIZE then sb_legal 16 9 1 v else v < 2 ^ snd (ddk_pos f))"
definition ddk_enc :: "ddk_field \<Rightarrow> u64 \<Rightarrow> u64" where
  "ddk_enc f v = (if f = K_LSIZE \<or> f = K_PSIZE then drop_bit 9 v - 1 else v)"
definition ddk_dec :: "ddk_field \<Rightarrow> u64 \<Rightarrow> u64" where
  "ddk_dec f v = (if f = K_LSIZE \<or> f = K_PSIZE then push_bit 9 (v + 1) else v)"

lemma ddk_pos_disjoint: "f \<noteq> g \<Longrightarrow> fst (ddk_pos f) + snd (ddk_pos f) \<le> fst (ddk_pos g) \<or>
    fst (ddk_pos g) + snd (ddk_pos g) \<le> fst (ddk_pos f)"
  by (cases f; cases g) simp_all

interpretation ddk: field_family ddk_prop "\<lambda>w ddk. ddk\<lparr>ddk_prop := w\<rparr>" ddk_pos ddk_enc ddk_dec
    ddk_legal ddk_get ddk_set
proof unfold_locales
  show "fst (ddk_pos f) + snd (ddk_pos f) \<le> 64" for f by (cases f) simp_all
  show "ddk_get f s = ddk_dec f (BF64_GET (ddk_prop s) (fst (ddk_pos f)) (snd (ddk_pos f)))" for f s
    by (cases f) (simp_all add: ddk_defs ddk_dec_def BF64_GET_SB_def spa_defs)
  show "ddk_legal f v \<Longrightarrow> ddk_enc f v < 2 ^ snd (ddk_pos f)" for f v
    using sb_enc_fits [of 16 9 1 v] by (cases f) (simp_all add: ddk_legal_def ddk_enc_def)
  show "ddk_legal f v \<Longrightarrow> ddk_dec f (ddk_enc f v) = v" for f v
    using sb_dec_enc [of 16 9 1 v] by (cases f) (simp_all add: ddk_legal_def ddk_enc_def ddk_dec_def)
  show "ddk_legal f v \<Longrightarrow> ddk_set f nd s v =
      Some (s\<lparr>ddk_prop := bf64_put (ddk_prop s) (fst (ddk_pos f)) (snd (ddk_pos f)) (ddk_enc f v)\<rparr>)" for f v nd s
    by (cases f) (simp_all add: ddk_defs ddk_legal_def ddk_enc_def BF64_SET_Some BF64_SET_SB_Some spa_defs)
qed (simp_all add: ddk_pos_disjoint)

lemma agree_subfield:
  assumes "BF64_GET a 0 n = BF64_GET b 0 n" "low + len \<le> n"
  shows "BF64_GET a low len = BF64_GET b low len"
proof (rule bit_word_eqI)
  fix i assume "i < LENGTH(64)"
  have "bit (BF64_GET a 0 n) (low + i) \<longleftrightarrow> bit (BF64_GET b 0 n) (low + i)" using assms(1) by simp
  then show "bit (BF64_GET a low len) i \<longleftrightarrow> bit (BF64_GET b low len) i"
    using assms(2) by (auto simp: bit_BF64_GET)
qed

text \<open>
  The size and compression fields of a deduplication key sit exactly where an ordinary
  (not embedded) block pointer has them: when the low 39 bits of the two property words agree, the
  key and the block pointer give the same logical size, physical size and compression, and clearing
  or setting the encryption bit of the key changes none of this.
\<close>

theorem ddk_reads_like_bp:
  assumes "\<not> BP_IS_EMBEDDED bp" "BF64_GET (ddk_prop ddk) 0 39 = BF64_GET (blk_prop bp) 0 39" "x < 2"
  shows "\<exists>ddk'. DDK_SET_CRYPT nd ddk x = Some ddk' \<and> DDK_GET_CRYPT ddk' = x \<and>
    BP_GET_LSIZE nd bp = Some (DDK_GET_LSIZE ddk') \<and> DDK_GET_PSIZE ddk' = BP_GET_PSIZE bp \<and>
    DDK_GET_COMPRESS ddk' = BP_GET_COMPRESS bp"
proof -
  have "ddk_legal K_CRYPT x" using assms(3) by (simp add: ddk_legal_def)
  then obtain ddk' where s: "ddk_set K_CRYPT nd ddk x = Some ddk'"
      and g: "\<And>g. ddk_get g ddk' = (if g = K_CRYPT then x else ddk_get g ddk)"
    using ddk.independent by blast
  have "BP_GET_LSIZE nd bp = Some (DDK_GET_LSIZE ddk)" "DDK_GET_PSIZE ddk = BP_GET_PSIZE bp"
    "DDK_GET_COMPRESS ddk = BP_GET_COMPRESS bp"
    using assms(1) agree_subfield [OF assms(2), of 0 16] agree_subfield [OF assms(2), of 16 16]
      agree_subfield [OF assms(2), of 32 7]
    by (simp_all add: ddk_defs BP_GET_LSIZE_def BP_GET_PSIZE_def BP_GET_COMPRESS_def BF64_GET_SB_def spa_defs)
  then show ?thesis using s g [of K_CRYPT] g [of K_LSIZE] g [of K_PSIZE] g [of K_COMPRESS] by auto
qed

theorem ddk_reads_like_bp_witness:
  "\<exists>ddk'. DDK_SET_CRYPT False \<lparr>ddk_cksum = blk_cksum demo_bp, ddk_prop = BF64_GET (blk_prop demo_bp) 0 39\<rparr> 1 = Some ddk' \<and>
     DDK_GET_CRYPT ddk' = 1 \<and> DDK_GET_PSIZE ddk' = BP_GET_PSIZE demo_bp"
  using ddk_reads_like_bp [of demo_bp
      "\<lparr>ddk_cksum = blk_cksum demo_bp, ddk_prop = BF64_GET (blk_prop demo_bp) 0 39\<rparr>" 1 False]
  by (simp add: demo_bp_def BP_IS_EMBEDDED_def BF64_GET_take_drop take_bit_eq_mod) blast

text \<open>Records and header of the deduplication log.\<close>

definition DLR_INVALID :: u64 where "DLR_INVALID = 0"
definition DLR_ENTRY :: u64 where "DLR_ENTRY = 1"

record ddt_log_record_t =
  dlr_info :: u64
  dlr_payload :: "u8 list"

definition DLR_GET_TYPE :: "ddt_log_record_t \<Rightarrow> u64" where
  "DLR_GET_TYPE dlr = BF64_GET (dlr_info dlr) 0 8"
definition DLR_SET_TYPE :: "bool \<Rightarrow> ddt_log_record_t \<Rightarrow> u64 \<Rightarrow> ddt_log_record_t option" where
  "DLR_SET_TYPE nd dlr v = map_option (\<lambda>w. dlr\<lparr>dlr_info := w\<rparr>) (BF64_SET nd (dlr_info dlr) 0 8 v)"
definition DLR_GET_RECLEN :: "ddt_log_record_t \<Rightarrow> u64" where
  "DLR_GET_RECLEN dlr = BF64_GET (dlr_info dlr) 8 16"
definition DLR_SET_RECLEN :: "bool \<Rightarrow> ddt_log_record_t \<Rightarrow> u64 \<Rightarrow> ddt_log_record_t option" where
  "DLR_SET_RECLEN nd dlr v = map_option (\<lambda>w. dlr\<lparr>dlr_info := w\<rparr>) (BF64_SET nd (dlr_info dlr) 8 16 v)"
definition DLR_GET_ENTRY_TYPE :: "ddt_log_record_t \<Rightarrow> u64" where
  "DLR_GET_ENTRY_TYPE dlr = BF64_GET (dlr_info dlr) 48 8"
definition DLR_SET_ENTRY_TYPE :: "bool \<Rightarrow> ddt_log_record_t \<Rightarrow> u64 \<Rightarrow> ddt_log_record_t option" where
  "DLR_SET_ENTRY_TYPE nd dlr v = map_option (\<lambda>w. dlr\<lparr>dlr_info := w\<rparr>) (BF64_SET nd (dlr_info dlr) 48 8 v)"
definition DLR_GET_ENTRY_CLASS :: "ddt_log_record_t \<Rightarrow> u64" where
  "DLR_GET_ENTRY_CLASS dlr = BF64_GET (dlr_info dlr) 56 8"
definition DLR_SET_ENTRY_CLASS :: "bool \<Rightarrow> ddt_log_record_t \<Rightarrow> u64 \<Rightarrow> ddt_log_record_t option" where
  "DLR_SET_ENTRY_CLASS nd dlr v = map_option (\<lambda>w. dlr\<lparr>dlr_info := w\<rparr>) (BF64_SET nd (dlr_info dlr) 56 8 v)"

lemmas dlr_defs = DLR_GET_TYPE_def DLR_SET_TYPE_def DLR_GET_RECLEN_def DLR_SET_RECLEN_def
  DLR_GET_ENTRY_TYPE_def DLR_SET_ENTRY_TYPE_def DLR_GET_ENTRY_CLASS_def DLR_SET_ENTRY_CLASS_def

definition DDL_FLAG_FLUSHING :: u64 where "DDL_FLAG_FLUSHING = push_bit 0 1"
definition DDL_FLAG_CHECKPOINT :: u64 where "DDL_FLAG_CHECKPOINT = push_bit 1 1"

record ddt_log_header_t =
  dlh_info :: u64
  dlh_length :: u64
  dlh_first_txg :: u64
  dlh_checkpoint :: ddt_key_t

definition DLH_GET_VERSION :: "ddt_log_header_t \<Rightarrow> u64" where
  "DLH_GET_VERSION dlh = BF64_GET (dlh_info dlh) 0 8"
definition DLH_SET_VERSION :: "bool \<Rightarrow> ddt_log_header_t \<Rightarrow> u64 \<Rightarrow> ddt_log_header_t option" where
  "DLH_SET_VERSION nd dlh v = map_option (\<lambda>w. dlh\<lparr>dlh_info := w\<rparr>) (BF64_SET nd (dlh_info dlh) 0 8 v)"
definition DLH_GET_FLAGS :: "ddt_log_header_t \<Rightarrow> u64" where
  "DLH_GET_FLAGS dlh = BF64_GET (dlh_info dlh) 8 8"
definition DLH_SET_FLAGS :: "bool \<Rightarrow> ddt_log_header_t \<Rightarrow> u64 \<Rightarrow> ddt_log_header_t option" where
  "DLH_SET_FLAGS nd dlh v = map_option (\<lambda>w. dlh\<lparr>dlh_info := w\<rparr>) (BF64_SET nd (dlh_info dlh) 8 8 v)"

lemmas dlh_defs = DLH_GET_VERSION_def DLH_SET_VERSION_def DLH_GET_FLAGS_def DLH_SET_FLAGS_def

datatype dlr_field = D_TYPE | D_RECLEN | D_ENTRY_TYPE | D_ENTRY_CLASS

fun dlr_pos :: "dlr_field \<Rightarrow> nat \<times> nat" where
  "dlr_pos D_TYPE = (0, 8)" | "dlr_pos D_RECLEN = (8, 16)" | "dlr_pos D_ENTRY_TYPE = (48, 8)"
| "dlr_pos D_ENTRY_CLASS = (56, 8)"

fun dlr_get :: "dlr_field \<Rightarrow> ddt_log_record_t \<Rightarrow> u64" where
  "dlr_get D_TYPE = DLR_GET_TYPE" | "dlr_get D_RECLEN = DLR_GET_RECLEN"
| "dlr_get D_ENTRY_TYPE = DLR_GET_ENTRY_TYPE" | "dlr_get D_ENTRY_CLASS = DLR_GET_ENTRY_CLASS"

fun dlr_set :: "dlr_field \<Rightarrow> bool \<Rightarrow> ddt_log_record_t \<Rightarrow> u64 \<Rightarrow> ddt_log_record_t option" where
  "dlr_set D_TYPE = DLR_SET_TYPE" | "dlr_set D_RECLEN = DLR_SET_RECLEN"
| "dlr_set D_ENTRY_TYPE = DLR_SET_ENTRY_TYPE" | "dlr_set D_ENTRY_CLASS = DLR_SET_ENTRY_CLASS"

lemma dlr_pos_disjoint: "f \<noteq> g \<Longrightarrow> fst (dlr_pos f) + snd (dlr_pos f) \<le> fst (dlr_pos g) \<or>
    fst (dlr_pos g) + snd (dlr_pos g) \<le> fst (dlr_pos f)"
  by (cases f; cases g) simp_all

interpretation dlr: field_family dlr_info "\<lambda>w dlr. dlr\<lparr>dlr_info := w\<rparr>" dlr_pos "\<lambda>_ v. v" "\<lambda>_ v. v"
    "\<lambda>f v. v < 2 ^ snd (dlr_pos f)" dlr_get dlr_set
proof unfold_locales
  show "fst (dlr_pos f) + snd (dlr_pos f) \<le> 64" for f by (cases f) simp_all
  show "dlr_get f s = BF64_GET (dlr_info s) (fst (dlr_pos f)) (snd (dlr_pos f))" for f s
    by (cases f) (simp_all add: dlr_defs)
  show "v < 2 ^ snd (dlr_pos f) \<Longrightarrow> dlr_set f nd s v =
      Some (s\<lparr>dlr_info := bf64_put (dlr_info s) (fst (dlr_pos f)) (snd (dlr_pos f)) v\<rparr>)" for f v nd s
    by (cases f) (simp_all add: dlr_defs BF64_SET_Some)
qed (simp_all add: dlr_pos_disjoint)

interpretation dlh: field_family dlh_info "\<lambda>w dlh. dlh\<lparr>dlh_info := w\<rparr>"
    "\<lambda>fl. if fl then (8, 8) else (0, 8)" "\<lambda>_ v. v" "\<lambda>_ v. v" "\<lambda>_ v. v < 2 ^ 8"
    "\<lambda>fl. if fl then DLH_GET_FLAGS else DLH_GET_VERSION" "\<lambda>fl. if fl then DLH_SET_FLAGS else DLH_SET_VERSION"
  by unfold_locales (auto simp: dlh_defs BF64_SET_Some split: if_splits)

text \<open>
  The four fields of a deduplication log record (record type, record length, storage type and
  storage class) can each be set to any value they can hold and read back without disturbing the
  others or the payload.
\<close>

theorem dlr_fields_independent:
  assumes "v < 2 ^ snd (dlr_pos f)"
  shows "\<exists>dlr'. dlr_set f nd dlr v = Some dlr' \<and> dlr_payload dlr' = dlr_payload dlr \<and>
    (\<forall>g. dlr_get g dlr' = (if g = f then v else dlr_get g dlr))"
  using dlr.independent [of v f nd dlr] dlr.fset_writes [of v f nd dlr] assms by auto

theorem dlr_fields_independent_witness:
  "\<exists>dlr'. DLR_SET_RECLEN False \<lparr>dlr_info = 0x0200000000000001, dlr_payload = [7]\<rparr> 312 = Some dlr' \<and>
    DLR_GET_RECLEN dlr' = 312 \<and> dlr_payload dlr' = [7]"
  using dlr_fields_independent [of 312 D_RECLEN False "\<lparr>dlr_info = 0x0200000000000001, dlr_payload = [7]\<rparr>"]
  by (auto dest: spec [of _ D_RECLEN])

section \<open>The two forms of the value\<close>

definition DDT_FLAG_FLAT :: u64 where "DDT_FLAG_FLAT = push_bit 0 1"
definition DDT_FLAG_LOG :: u64 where "DDT_FLAG_LOG = push_bit 1 1"
definition DDT_FLAG_MASK :: u64 where "DDT_FLAG_MASK = DDT_FLAG_FLAT OR DDT_FLAG_LOG"

definition DDT_PHYS_MAX :: nat where "DDT_PHYS_MAX = 4"

datatype ddt_phys_variant_t =
  DDT_PHYS_DITTO | DDT_PHYS_SINGLE | DDT_PHYS_DOUBLE | DDT_PHYS_TRIPLE | DDT_PHYS_FLAT | DDT_PHYS_NONE

fun phys_variant_value :: "ddt_phys_variant_t \<Rightarrow> nat" where
  "phys_variant_value DDT_PHYS_DITTO = 0" | "phys_variant_value DDT_PHYS_SINGLE = 1"
| "phys_variant_value DDT_PHYS_DOUBLE = 2" | "phys_variant_value DDT_PHYS_TRIPLE = 3"
| "phys_variant_value DDT_PHYS_FLAT = 4" | "phys_variant_value DDT_PHYS_NONE = 5"

definition ddp_trad :: ctype where
  "ddp_trad = CStruct [(''ddp_dva'', CArray 3 c_dva), (''ddp_refcnt'', c_u64), (''ddp_phys_birth'', c_u64)]"

definition ddp_flat :: ctype where
  "ddp_flat = CStruct [(''ddp_dva'', CArray 3 c_dva), (''ddp_refcnt'', c_u64), (''ddp_phys_birth'', c_u64),
    (''ddp_class_start'', c_u64)]"

definition ddt_univ_phys_t :: ctype where
  "ddt_univ_phys_t = CUnion [(''ddp_trad'', CArray DDT_PHYS_MAX ddp_trad), (''ddp_flat'', ddp_flat)]"

definition DDT_TRAD_PHYS_SIZE :: nat where "DDT_TRAD_PHYS_SIZE = size_of 8 (CArray DDT_PHYS_MAX ddp_trad)"
definition DDT_FLAT_PHYS_SIZE :: nat where "DDT_FLAT_PHYS_SIZE = size_of 8 ddp_flat"

text \<open>The argument is the flag word \<open>ddt_flags\<close> of the table.\<close>

definition DDT_PHYS_SWITCH :: "u64 \<Rightarrow> 'a \<Rightarrow> 'a \<Rightarrow> 'a" where
  "DDT_PHYS_SWITCH ddt_flags flat trad = (if ddt_flags AND DDT_FLAG_FLAT \<noteq> 0 then flat else trad)"

definition DDT_PHYS_VARIANT :: "bool \<Rightarrow> u64 \<Rightarrow> nat \<Rightarrow> nat option" where
  "DDT_PHYS_VARIANT nd ddt_flags p = do {
     ASSERT nd (p < phys_variant_value DDT_PHYS_NONE);
     Some (if ddt_flags AND DDT_FLAG_FLAT \<noteq> 0 then phys_variant_value DDT_PHYS_FLAT else p) }"

definition DDT_PHYS_SIZE :: "u64 \<Rightarrow> nat" where
  "DDT_PHYS_SIZE ddt_flags = DDT_PHYS_SWITCH ddt_flags DDT_FLAT_PHYS_SIZE DDT_TRAD_PHYS_SIZE"

definition DDT_NPHYS :: "u64 \<Rightarrow> nat" where
  "DDT_NPHYS ddt_flags = DDT_PHYS_SWITCH ddt_flags 1 DDT_PHYS_MAX"

definition DDT_PHYS_FOR_COPIES :: "u64 \<Rightarrow> nat \<Rightarrow> nat" where
  "DDT_PHYS_FOR_COPIES ddt_flags p = DDT_PHYS_SWITCH ddt_flags 0 p"

definition DDT_PHYS_IS_DITTO :: "u64 \<Rightarrow> nat \<Rightarrow> bool" where
  "DDT_PHYS_IS_DITTO ddt_flags p = DDT_PHYS_SWITCH ddt_flags False (p = 0)"

lemmas ddt_phys_defs = DDT_PHYS_SWITCH_def DDT_PHYS_VARIANT_def DDT_PHYS_SIZE_def DDT_NPHYS_def
  DDT_PHYS_FOR_COPIES_def DDT_PHYS_IS_DITTO_def DDT_PHYS_MAX_def

lemma ddt_phys_sizes: "size_of 8 ddp_trad = 64" "size_of 4 ddp_trad = 64" "size_of 8 ddp_flat = 72" "size_of 4 ddp_flat = 72"
  "align_of 8 ddp_trad = 8" "align_of 4 ddp_trad = 4" "align_of 8 ddp_flat = 8" "align_of 4 ddp_flat = 4"
  by (simp_all add: ddp_trad_def ddp_flat_def pad_to_def)

text \<open>
  For each number of copies up to three, in a flat and in a traditional table, the variant the
  macros select is a real one, its index is below the number of values the table has, and the
  structure at that index lies within the bytes the table's value takes: 72 in a flat table, 256 in
  a traditional one, on 32-bit and 64-bit hosts alike.
\<close>

theorem ddt_phys_in_bounds:
  assumes "p \<le> 3"
  shows "(\<exists>v. DDT_PHYS_VARIANT nd flags (DDT_PHYS_FOR_COPIES flags p) = Some v \<and>
      v < phys_variant_value DDT_PHYS_NONE \<and>
      (v = phys_variant_value DDT_PHYS_FLAT \<longleftrightarrow> flags AND DDT_FLAG_FLAT \<noteq> 0)) \<and>
    DDT_PHYS_FOR_COPIES flags p < DDT_NPHYS flags \<and>
    DDT_PHYS_SWITCH flags (size_of 8 ddp_flat) (size_of 8 ddp_trad * (DDT_PHYS_FOR_COPIES flags p + 1)) \<le>
      DDT_PHYS_SIZE flags \<and>
    DDT_PHYS_SIZE flags = DDT_PHYS_SWITCH flags 72 256 \<and> portable ddp_trad \<and> portable ddp_flat"
proof (intro conjI)
  show "\<exists>v. DDT_PHYS_VARIANT nd flags (DDT_PHYS_FOR_COPIES flags p) = Some v \<and>
      v < phys_variant_value DDT_PHYS_NONE \<and>
      (v = phys_variant_value DDT_PHYS_FLAT \<longleftrightarrow> flags AND DDT_FLAG_FLAT \<noteq> 0)"
    using assms by (auto simp: ddt_phys_defs)
  show "DDT_PHYS_FOR_COPIES flags p < DDT_NPHYS flags"
    using assms by (auto simp: ddt_phys_defs)
  show "DDT_PHYS_SWITCH flags (size_of 8 ddp_flat) (size_of 8 ddp_trad * (DDT_PHYS_FOR_COPIES flags p + 1)) \<le>
      DDT_PHYS_SIZE flags"
    using assms by (auto simp: ddt_phys_defs ddt_phys_sizes DDT_FLAT_PHYS_SIZE_def DDT_TRAD_PHYS_SIZE_def)
  show "portable ddp_trad" "portable ddp_flat"
    by (simp_all add: portable_def ddp_trad_def ddp_flat_def pad_to_def)
  show "DDT_PHYS_SIZE flags = DDT_PHYS_SWITCH flags 72 256"
    by (simp add: ddt_phys_defs ddt_phys_sizes DDT_FLAT_PHYS_SIZE_def DDT_TRAD_PHYS_SIZE_def)
qed

theorem ddt_phys_in_bounds_witness:
  "DDT_PHYS_FOR_COPIES DDT_FLAG_LOG 3 < DDT_NPHYS DDT_FLAG_LOG \<and>
   DDT_PHYS_FOR_COPIES DDT_FLAG_MASK 3 < DDT_NPHYS DDT_FLAG_MASK"
  using ddt_phys_in_bounds [of 3 False DDT_FLAG_LOG] ddt_phys_in_bounds [of 3 False DDT_FLAG_MASK]
  by simp

text \<open>The record on disk: its header and an entry without the value, whose length varies.\<close>

definition c_ddt_log_record :: ctype where
  "c_ddt_log_record = CStruct [(''dlr_info'', c_u64), (''dlr_payload'', CArray 0 c_u8)]"

definition c_ddt_log_record_entry :: ctype where
  "c_ddt_log_record_entry = CStruct [(''dlre_key'', c_ddt_key), (''dlre_phys'', CArray 0 ddt_univ_phys_t)]"

definition c_ddt_log_header :: ctype where
  "c_ddt_log_header = CStruct [(''dlh_info'', c_u64), (''dlh_length'', c_u64), (''dlh_first_txg'', c_u64),
    (''dlh_checkpoint'', c_ddt_key)]"

lemma log_record_sizes: "size_of 8 c_ddt_log_record = 8" "size_of 8 c_ddt_log_record_entry = 40"
    "size_of 8 c_ddt_log_header = 64"
  by (simp_all add: c_ddt_log_record_def c_ddt_log_record_entry_def c_ddt_log_header_def ddt_univ_phys_t_def
      ddp_trad_def ddp_flat_def layout_simps)

text \<open>
  The length of a log record of either kind of table fits the length field and is read back;
  in a traditional table it is 304, so it needs a ninth bit, and writing it puts a one among the
  bits 16 to 47 that the comment of the structure reserves as zero.
\<close>

theorem dlr_reclen_needs_reserved_bits:
  "\<exists>dlr'. DLR_SET_RECLEN nd \<lparr>dlr_info = 0, dlr_payload = []\<rparr>
      (of_nat (size_of 8 c_ddt_log_record + size_of 8 c_ddt_log_record_entry + DDT_PHYS_SIZE flags)) = Some dlr' \<and>
    unat (DLR_GET_RECLEN dlr') = DDT_PHYS_SWITCH flags 120 304 \<and>
    (BF64_GET (dlr_info dlr') 16 32 = 0 \<longleftrightarrow> flags AND DDT_FLAG_FLAT \<noteq> 0)"
proof -
  let ?dlr = "\<lparr>dlr_info = 0, dlr_payload = []\<rparr>"
  have put: "BF64_GET (bf64_put 0 8 16 v) 16 32 = take_bit 8 (drop_bit 8 v)" for v :: u64
    by (rule bit_word_eqI) (auto simp: bit_BF64_GET bit_bf64_put bit_simps)
  have small: "DLR_SET_RECLEN nd ?dlr v = Some (?dlr\<lparr>dlr_info := bf64_put 0 8 16 v\<rparr>) \<and>
      BF64_GET (bf64_put 0 8 16 v) 8 16 = v" if "v < 2 ^ 16" for v
    using that by (simp add: dlr_defs BF64_SET_Some get_put_same)
  show ?thesis
  proof (cases "flags AND DDT_FLAG_FLAT = 0")
    case True
    with small [of 304] show ?thesis
      by (simp add: log_record_sizes ddt_phys_defs ddt_phys_sizes DDT_TRAD_PHYS_SIZE_def dlr_defs put
          take_bit_eq_mod drop_bit_eq_div)
  next
    case False
    with small [of 120] show ?thesis
      by (simp add: log_record_sizes ddt_phys_defs ddt_phys_sizes DDT_FLAT_PHYS_SIZE_def dlr_defs put
          take_bit_eq_mod drop_bit_eq_div)
  qed
qed

end
