(* ===== verification/Dnode.thy ===== *)
theory Dnode
  imports Packed_Words Disk_Types
begin

unbundle bit_operations_syntax

text \<open>
  The on-disk dnode of \<open>compat/openzfs/sys/dnode.h\<close>: its constants, the layout of
  \<open>dnode_phys_t\<close> with the three uses of its tail, and the macros that compute where the bonus
  buffer and the spill pointer are and how long the bonus buffer may be. A dnode lies at a byte
  address \<open>a\<close> (an integer); the macros that do pointer arithmetic are functions of it.
\<close>

section \<open>Constants\<close>

definition DNODE_SHIFT :: nat where "DNODE_SHIFT = 9"
definition DN_MIN_INDBLKSHIFT :: nat where "DN_MIN_INDBLKSHIFT = 12"
definition DN_MAX_INDBLKSHIFT :: nat where "DN_MAX_INDBLKSHIFT = 17"
definition DNODE_BLOCK_SHIFT :: nat where "DNODE_BLOCK_SHIFT = 14"
definition DNODE_CORE_SIZE :: int where "DNODE_CORE_SIZE = 64"
definition DN_MAX_OFFSET_SHIFT :: nat where "DN_MAX_OFFSET_SHIFT = 64"

definition DNODE_MIN_SIZE :: int where "DNODE_MIN_SIZE = push_bit DNODE_SHIFT 1"
definition DNODE_MAX_SIZE :: int where "DNODE_MAX_SIZE = push_bit DNODE_BLOCK_SHIFT 1"
definition DNODE_BLOCK_SIZE :: int where "DNODE_BLOCK_SIZE = push_bit DNODE_BLOCK_SHIFT 1"
definition DNODE_MIN_SLOTS :: int where "DNODE_MIN_SLOTS = drop_bit DNODE_SHIFT DNODE_MIN_SIZE"
definition DNODE_MAX_SLOTS :: int where "DNODE_MAX_SLOTS = drop_bit DNODE_SHIFT DNODE_MAX_SIZE"

definition DN_BONUS_SIZE :: "int \<Rightarrow> int" where
  "DN_BONUS_SIZE dnsize = dnsize - DNODE_CORE_SIZE - push_bit SPA_BLKPTRSHIFT 1"
definition DN_SLOTS_TO_BONUSLEN :: "int \<Rightarrow> int" where
  "DN_SLOTS_TO_BONUSLEN slots = DN_BONUS_SIZE (push_bit DNODE_SHIFT slots)"
definition DN_OLD_MAX_BONUSLEN :: int where "DN_OLD_MAX_BONUSLEN = DN_BONUS_SIZE DNODE_MIN_SIZE"
definition DN_MAX_NBLKPTR :: int where
  "DN_MAX_NBLKPTR = drop_bit SPA_BLKPTRSHIFT (DNODE_MIN_SIZE - DNODE_CORE_SIZE)"
definition DN_MAX_OBJECT :: u64 where "DN_MAX_OBJECT = push_bit DN_MAX_OBJECT_SHIFT 1"
definition DN_ZERO_BONUSLEN :: int where "DN_ZERO_BONUSLEN = DN_BONUS_SIZE DNODE_MAX_SIZE + 1"
definition DN_KILL_SPILLBLK :: int where "DN_KILL_SPILLBLK = 1"

definition DNODES_PER_BLOCK_SHIFT :: nat where "DNODES_PER_BLOCK_SHIFT = DNODE_BLOCK_SHIFT - DNODE_SHIFT"
definition DNODES_PER_BLOCK :: u64 where "DNODES_PER_BLOCK = push_bit DNODES_PER_BLOCK_SHIFT 1"
definition DNODES_PER_LEVEL_SHIFT :: nat where "DNODES_PER_LEVEL_SHIFT = DN_MAX_INDBLKSHIFT - SPA_BLKPTRSHIFT"
definition DNODES_PER_LEVEL :: u64 where "DNODES_PER_LEVEL = push_bit DNODES_PER_LEVEL_SHIFT 1"

definition DIV_ROUND_UP :: "nat \<Rightarrow> nat \<Rightarrow> nat" where "DIV_ROUND_UP n d = (n + d - 1) div d"

definition DN_MAX_LEVELS :: nat where
  "DN_MAX_LEVELS = DIV_ROUND_UP (DN_MAX_OFFSET_SHIFT - SPA_MINBLOCKSHIFT) (DN_MIN_INDBLKSHIFT - SPA_BLKPTRSHIFT) + 1"

definition EPB :: "nat \<Rightarrow> nat \<Rightarrow> int" where "EPB blkshift typeshift = push_bit (blkshift - typeshift) 1"

definition DNODE_FLAG_USED_BYTES :: u8 where "DNODE_FLAG_USED_BYTES = push_bit 0 1"
definition DNODE_FLAG_USERUSED_ACCOUNTED :: u8 where "DNODE_FLAG_USERUSED_ACCOUNTED = push_bit 1 1"
definition DNODE_FLAG_SPILL_BLKPTR :: u8 where "DNODE_FLAG_SPILL_BLKPTR = push_bit 2 1"
definition DNODE_FLAG_USEROBJUSED_ACCOUNTED :: u8 where "DNODE_FLAG_USEROBJUSED_ACCOUNTED = push_bit 3 1"
definition DNODE_CRYPT_PORTABLE_FLAGS_MASK :: u8 where
  "DNODE_CRYPT_PORTABLE_FLAGS_MASK = DNODE_FLAG_SPILL_BLKPTR"

lemmas dnode_consts = DNODE_SHIFT_def DN_MIN_INDBLKSHIFT_def DN_MAX_INDBLKSHIFT_def DNODE_BLOCK_SHIFT_def
  DNODE_CORE_SIZE_def DN_MAX_OFFSET_SHIFT_def DNODE_MIN_SIZE_def DNODE_MAX_SIZE_def DNODE_BLOCK_SIZE_def
  DNODE_MIN_SLOTS_def DNODE_MAX_SLOTS_def DN_BONUS_SIZE_def DN_SLOTS_TO_BONUSLEN_def DN_OLD_MAX_BONUSLEN_def
  DN_MAX_NBLKPTR_def DN_ZERO_BONUSLEN_def DNODES_PER_BLOCK_SHIFT_def DNODES_PER_LEVEL_SHIFT_def
  DN_MAX_LEVELS_def DIV_ROUND_UP_def SPA_BLKPTRSHIFT_def SPA_MINBLOCKSHIFT_def

section \<open>Slot handles\<close>

text \<open>A slot holds a pointer or one of three small numbers.\<close>

definition DN_SLOT_UNINIT :: u64 where "DN_SLOT_UNINIT = 0"
definition DN_SLOT_FREE :: u64 where "DN_SLOT_FREE = 1"
definition DN_SLOT_ALLOCATED :: u64 where "DN_SLOT_ALLOCATED = 2"
definition DN_SLOT_INTERIOR :: u64 where "DN_SLOT_INTERIOR = 3"
definition DN_SLOT_IS_PTR :: "u64 \<Rightarrow> bool" where "DN_SLOT_IS_PTR dn \<longleftrightarrow> DN_SLOT_INTERIOR < dn"
definition DN_SLOT_IS_VALID :: "u64 \<Rightarrow> bool" where "DN_SLOT_IS_VALID dn \<longleftrightarrow> dn \<noteq> 0"

lemmas slot_defs = DN_SLOT_UNINIT_def DN_SLOT_FREE_def DN_SLOT_ALLOCATED_def DN_SLOT_INTERIOR_def
  DN_SLOT_IS_PTR_def DN_SLOT_IS_VALID_def

section \<open>Layout\<close>

text \<open>The members before the tail, then the tail's union in a dnode of one slot.\<close>

definition dnode_core :: "(string \<times> ctype) list" where
  "dnode_core = [(''dn_type'', c_u8), (''dn_indblkshift'', c_u8), (''dn_nlevels'', c_u8), (''dn_nblkptr'', c_u8),
    (''dn_bonustype'', c_u8), (''dn_checksum'', c_u8), (''dn_compress'', c_u8), (''dn_flags'', c_u8),
    (''dn_datablkszsec'', c_u16), (''dn_bonuslen'', c_u16), (''dn_extra_slots'', c_u8), (''dn_pad2'', CArray 3 c_u8),
    (''dn_maxblkid'', c_u64), (''dn_used'', c_u64), (''dn_pad3'', CArray 4 c_u64)]"

definition dnode_tail_blkptrs :: ctype where
  "dnode_tail_blkptrs = CArray (1 + nat DN_OLD_MAX_BONUSLEN div size_of 8 c_blkptr) c_blkptr"
definition dnode_tail_bonus :: ctype where
  "dnode_tail_bonus = CStruct [(''__dn_ignore1'', c_blkptr), (''dn_bonus'', CArray (nat DN_OLD_MAX_BONUSLEN) c_u8)]"
definition dnode_tail_spill :: ctype where
  "dnode_tail_spill = CStruct [(''__dn_ignore2'', c_blkptr),
    (''__dn_ignore3'', CArray (nat DN_OLD_MAX_BONUSLEN - size_of 8 c_blkptr) c_u8), (''dn_spill'', c_blkptr)]"
definition dnode_tail_flexible :: ctype where
  "dnode_tail_flexible = CStruct [(''__dn_ignore4'', c_blkptr), (''dn_bonus_flexible'', CArray 0 c_u8)]"

definition dnode_phys :: ctype where
  "dnode_phys = CStruct (dnode_core @ [(''tail'', CUnion [(''dn_blkptr'', dnode_tail_blkptrs),
    (''bonus'', dnode_tail_bonus), (''spill'', dnode_tail_spill), (''flexible'', dnode_tail_flexible)])])"

lemmas dnode_tails = dnode_tail_blkptrs_def dnode_tail_bonus_def dnode_tail_spill_def dnode_tail_flexible_def

text \<open>The offset of a member of the tail from the start of the dnode.\<close>

definition tail_offset :: "ctype \<Rightarrow> string \<Rightarrow> nat" where
  "tail_offset t f = the (map_of (offsets 8 0 (members dnode_phys)) ''tail'') + the (map_of (offsets 8 0 (members t)) f)"

section \<open>The dnode and its macros\<close>

text \<open>The members before the padding; the padding and the tail are in the layout above.\<close>

record dnode_phys_t =
  dn_type :: u8
  dn_indblkshift :: u8
  dn_nlevels :: u8
  dn_nblkptr :: u8
  dn_bonustype :: u8
  dn_checksum :: u8
  dn_compress :: u8
  dn_flags :: u8
  dn_datablkszsec :: u16
  dn_bonuslen :: u16
  dn_extra_slots :: u8
  dn_maxblkid :: u64
  dn_used :: u64

text \<open>A file's dnode with the given number of block pointers, flags and extra slots.\<close>

definition demo_dnode :: "u8 \<Rightarrow> u8 \<Rightarrow> u8 \<Rightarrow> dnode_phys_t" where
  "demo_dnode n fl ex = \<lparr>dn_type = 19, dn_indblkshift = 17, dn_nlevels = 1, dn_nblkptr = n, dn_bonustype = 44,
     dn_checksum = 7, dn_compress = 15, dn_flags = fl, dn_datablkszsec = 256, dn_bonuslen = 176,
     dn_extra_slots = ex, dn_maxblkid = 0, dn_used = 131072\<rparr>"

definition DN_BONUS :: "int \<Rightarrow> dnode_phys_t \<Rightarrow> int" where
  "DN_BONUS a dnp = (a + int (tail_offset dnode_tail_flexible ''dn_bonus_flexible'')) +
     (int (unat (dn_nblkptr dnp)) - 1) * int (size_of 8 c_blkptr)"

definition DN_SPILL_BLKPTR :: "int \<Rightarrow> dnode_phys_t \<Rightarrow> int" where
  "DN_SPILL_BLKPTR a dnp =
     a + push_bit DNODE_SHIFT (int (unat (dn_extra_slots dnp)) + 1) - push_bit SPA_BLKPTRSHIFT 1"

definition DN_MAX_BONUS_LEN :: "int \<Rightarrow> dnode_phys_t \<Rightarrow> int" where
  "DN_MAX_BONUS_LEN a dnp =
    (if dn_flags dnp AND DNODE_FLAG_SPILL_BLKPTR \<noteq> 0 then DN_SPILL_BLKPTR a dnp - DN_BONUS a dnp
     else a + (int (unat (dn_extra_slots dnp)) + 1) * int (size_of 8 dnode_phys) - DN_BONUS a dnp)"

definition DN_USED_BYTES :: "dnode_phys_t \<Rightarrow> u64" where
  "DN_USED_BYTES dnp = (if dn_flags dnp AND DNODE_FLAG_USED_BYTES \<noteq> 0 then dn_used dnp
     else push_bit SPA_MINBLOCKSHIFT (dn_used dnp))"

section \<open>Facts\<close>

lemma dnode_values:
  "DN_OLD_MAX_BONUSLEN = 320" "DNODE_MIN_SIZE = 512" "DNODE_MAX_SIZE = 16384" "DNODE_MAX_SLOTS = 32"
  "DNODE_MIN_SLOTS = 1" "DN_MAX_NBLKPTR = 3" "DN_ZERO_BONUSLEN = 16193" "DN_MAX_LEVELS = 12"
  by (simp_all add: dnode_consts push_bit_eq_mult drop_bit_eq_div)

lemma tail_sizes:
  "size_of 8 dnode_tail_blkptrs = 384" "size_of 4 dnode_tail_blkptrs = 384"
  "size_of 8 dnode_tail_bonus = 448" "size_of 4 dnode_tail_bonus = 448"
  "size_of 8 dnode_tail_spill = 448" "size_of 4 dnode_tail_spill = 448"
  "size_of 8 dnode_tail_flexible = 128" "size_of 4 dnode_tail_flexible = 128"
  "align_of 8 dnode_tail_blkptrs = 8" "align_of 4 dnode_tail_blkptrs = 4"
  "align_of 8 dnode_tail_bonus = 8" "align_of 4 dnode_tail_bonus = 4"
  "align_of 8 dnode_tail_spill = 8" "align_of 4 dnode_tail_spill = 4"
  "align_of 8 dnode_tail_flexible = 8" "align_of 4 dnode_tail_flexible = 4"
  by (simp_all add: dnode_tails dnode_values pad_to_def)

lemma dnode_offsets:
  "size_of 8 dnode_phys = 512" "size_of 4 dnode_phys = 512"
  "map_of (offsets 8 0 (members dnode_phys)) ''tail'' = Some 64"
  by (simp_all add: dnode_phys_def dnode_core_def tail_sizes pad_to_def)

lemma tail_offsets:
  "tail_offset dnode_tail_bonus ''dn_bonus'' = 192"
  "tail_offset dnode_tail_flexible ''dn_bonus_flexible'' = 192"
  "tail_offset dnode_tail_spill ''dn_spill'' = 384"
  by (simp_all add: tail_offset_def dnode_offsets dnode_tails dnode_values pad_to_def)

text \<open>
  The on-disk dnode is 512 bytes with its tail at \<open>DNODE_CORE_SIZE\<close> on 32-bit and 64-bit
  hosts alike, without padding; its tail holds exactly \<open>DN_MAX_NBLKPTR\<close> block pointers and a part
  of a fourth, or one and 320 bytes of bonus buffer, or one, 192 bytes and the spill pointer at
  384, which is where \<open>DN_SPILL_BLKPTR\<close> finds it in a dnode of one slot.
\<close>

theorem dnode_phys_layout:
  "portable dnode_phys \<and> no_padding 8 dnode_phys \<and> size_of 8 dnode_phys = nat DNODE_MIN_SIZE \<and>
   map_of (offsets 8 0 (members dnode_phys)) ''tail'' = Some (nat DNODE_CORE_SIZE) \<and>
   dnode_tail_blkptrs = CArray (nat DN_MAX_NBLKPTR) c_blkptr \<and>
   size_of 8 dnode_tail_bonus = 448 \<and> size_of 8 dnode_tail_spill = 448 \<and>
   tail_offset dnode_tail_bonus ''dn_bonus'' = 192 \<and>
   (dn_extra_slots dnp = 0 \<longrightarrow> DN_SPILL_BLKPTR a dnp = a + int (tail_offset dnode_tail_spill ''dn_spill''))"
proof (intro conjI impI)
  show "portable dnode_phys" "no_padding 8 dnode_phys"
    by (simp_all add: portable_def no_padding_def dnode_phys_def dnode_core_def tail_sizes pad_to_def)
  show "size_of 8 dnode_phys = nat DNODE_MIN_SIZE" by (simp add: dnode_offsets dnode_values)
  show "map_of (offsets 8 0 (members dnode_phys)) ''tail'' = Some (nat DNODE_CORE_SIZE)"
    by (simp add: dnode_offsets DNODE_CORE_SIZE_def)
  show "dnode_tail_blkptrs = CArray (nat DN_MAX_NBLKPTR) c_blkptr"
    by (simp add: dnode_tail_blkptrs_def dnode_values)
  show "DN_SPILL_BLKPTR a dnp = a + int (tail_offset dnode_tail_spill ''dn_spill'')" if "dn_extra_slots dnp = 0"
    using that by (simp add: DN_SPILL_BLKPTR_def tail_offsets dnode_consts push_bit_eq_mult)
qed (simp_all add: tail_sizes tail_offsets)

theorem dnode_phys_layout_witness:
  "DN_SPILL_BLKPTR 4096 (demo_dnode 1 4 0) = 4480"
  using dnode_phys_layout [of "(demo_dnode 1 4 0)" 4096]
  by (simp add: tail_offsets demo_dnode_def)

lemma bonus_room:
  assumes "1 \<le> (n :: int)" "n \<le> 3" "0 \<le> (x :: int)"
  shows "(x + 1) * 512 - 192 - 128 * (n - 1) - (if spill then 128 else 0) < 0 \<longleftrightarrow> spill \<and> n = 3 \<and> x = 0"
proof -
  have "n = 1 \<or> n = 2 \<or> n = 3" using assms(1,2) by linarith
  then show ?thesis using assms(3) by (elim disjE; cases spill; simp; linarith)
qed

text \<open>
  C16. A dnode with 1 to \<open>DN_MAX_NBLKPTR\<close> block pointers has its bonus buffer right after them, and
  the longest it may be is what is left: the bonus length of its slots less one block pointer for
  each pointer past the first and one for the spill pointer. The buffer ends inside the dnode's
  slots, and the length is negative exactly when three pointers and a spill pointer share one slot.
\<close>

theorem dnode_bonus_bounds:
  assumes "1 \<le> unat (dn_nblkptr dnp)" "unat (dn_nblkptr dnp) \<le> nat DN_MAX_NBLKPTR"
  shows "DN_BONUS a dnp = a + DNODE_CORE_SIZE + int (unat (dn_nblkptr dnp)) * 128 \<and>
    DN_MAX_BONUS_LEN a dnp = DN_SLOTS_TO_BONUSLEN (int (unat (dn_extra_slots dnp)) + 1) -
      128 * (int (unat (dn_nblkptr dnp)) - 1) -
      (if dn_flags dnp AND DNODE_FLAG_SPILL_BLKPTR \<noteq> 0 then 128 else 0) \<and>
    DN_BONUS a dnp + DN_MAX_BONUS_LEN a dnp \<le> a + (int (unat (dn_extra_slots dnp)) + 1) * 512 \<and>
    (DN_MAX_BONUS_LEN a dnp < 0 \<longleftrightarrow> dn_flags dnp AND DNODE_FLAG_SPILL_BLKPTR \<noteq> 0 \<and>
       dn_nblkptr dnp = 3 \<and> dn_extra_slots dnp = 0)"
proof -
  let ?n = "uint (dn_nblkptr dnp)" let ?x = "uint (dn_extra_slots dnp)"
  have "1 \<le> int (unat (dn_nblkptr dnp))" "int (unat (dn_nblkptr dnp)) \<le> 3"
    using assms unfolding dnode_values by linarith+
  then have n: "1 \<le> ?n" "?n \<le> 3" and x: "0 \<le> ?x" by simp_all
  have b: "DN_BONUS a dnp = a + 64 + ?n * 128"
    by (simp add: DN_BONUS_def tail_offsets)
  have s: "DN_SPILL_BLKPTR a dnp = a + (?x + 1) * 512 - 128"
    by (simp add: DN_SPILL_BLKPTR_def dnode_consts push_bit_eq_mult)
  have l: "DN_SLOTS_TO_BONUSLEN (?x + 1) = (?x + 1) * 512 - 192"
    by (simp add: dnode_consts push_bit_eq_mult)
  have m: "DN_MAX_BONUS_LEN a dnp = (?x + 1) * 512 - 192 - 128 * (?n - 1) -
      (if dn_flags dnp AND DNODE_FLAG_SPILL_BLKPTR \<noteq> 0 then 128 else 0)"
    by (simp add: DN_MAX_BONUS_LEN_def s b dnode_offsets)
  have n3: "dn_nblkptr dnp = 3 \<longleftrightarrow> ?n = 3" and x0: "dn_extra_slots dnp = 0 \<longleftrightarrow> ?x = 0"
    by (simp_all add: word_uint_eq_iff)
  have "DN_MAX_BONUS_LEN a dnp < 0 \<longleftrightarrow> dn_flags dnp AND DNODE_FLAG_SPILL_BLKPTR \<noteq> 0 \<and> ?n = 3 \<and> ?x = 0"
    unfolding m using bonus_room [OF n x] by simp
  then show ?thesis using n unfolding n3 x0
    by (simp add: b m l DNODE_CORE_SIZE_def)
qed

theorem dnode_bonus_bounds_witness:
  "DN_BONUS 0 (demo_dnode 1 0 1) = 192 \<and>
   DN_MAX_BONUS_LEN 0 (demo_dnode 1 0 1) = DN_SLOTS_TO_BONUSLEN 2"
  using dnode_bonus_bounds [of "(demo_dnode 1 0 1)" 0]
  by (simp add: dnode_values DNODE_CORE_SIZE_def demo_dnode_def)

text \<open>
  \<open>DN_ZERO_BONUSLEN\<close>, the value that asks for an empty bonus buffer, is above the length of any
  bonus buffer of a dnode of 1 to \<open>DNODE_MAX_SLOTS\<close> slots; \<open>DN_MAX_LEVELS\<close> levels of the smallest
  indirect blocks over the smallest data blocks reach \<open>2 ^ DN_MAX_OFFSET_SHIFT\<close> bytes, one level
  fewer does not.
\<close>

theorem dnode_limits:
  "(1 \<le> slots \<and> slots \<le> DNODE_MAX_SLOTS \<longrightarrow> DN_SLOTS_TO_BONUSLEN slots < DN_ZERO_BONUSLEN) \<and>
   DN_MAX_OFFSET_SHIFT \<le> SPA_MINBLOCKSHIFT + (DN_MAX_LEVELS - 1) * (DN_MIN_INDBLKSHIFT - SPA_BLKPTRSHIFT) \<and>
   SPA_MINBLOCKSHIFT + (DN_MAX_LEVELS - 2) * (DN_MIN_INDBLKSHIFT - SPA_BLKPTRSHIFT) < DN_MAX_OFFSET_SHIFT"
  unfolding dnode_values by (simp add: dnode_consts push_bit_eq_mult)

theorem dnode_limits_witness: "DN_SLOTS_TO_BONUSLEN 32 < DN_ZERO_BONUSLEN"
  using dnode_limits [of 32] by (simp add: dnode_values)

end
