(* ===== verification/Zil.thy ===== *)
theory Zil
  imports Packed_Words Disk_Types
begin

unbundle bit_operations_syntax

text \<open>
  The on-disk intent log of \<open>compat/openzfs/sys/zil.h\<close>: the header and the chain block, the
  transaction types with the class of those that can be logged out of order, the layouts of every
  log record, and the macros that compute the sizes of variable parts. The object ids of records
  are packed words and are in \<open>Packed_Words\<close>.
\<close>

section \<open>Constants and transaction types\<close>

definition TXG_CONCURRENT_STATES :: u64 where "TXG_CONCURRENT_STATES = 3"
definition ZILTEST_TXG :: u64 where "ZILTEST_TXG = - 1 - TXG_CONCURRENT_STATES"
definition ZIL_REPLAY_NEEDED :: u64 where "ZIL_REPLAY_NEEDED = 0x1"
definition ZIL_CLAIM_LR_SEQ_VALID :: u64 where "ZIL_CLAIM_LR_SEQ_VALID = 0x2"
definition ZIL_MIN_BLKSZ :: u64 where "ZIL_MIN_BLKSZ = 4096"
definition ZIL_ZC_GUID_0 :: nat where "ZIL_ZC_GUID_0 = 0"
definition ZIL_ZC_GUID_1 :: nat where "ZIL_ZC_GUID_1 = 1"
definition ZIL_ZC_OBJSET :: nat where "ZIL_ZC_OBJSET = 2"
definition ZIL_ZC_SEQ :: nat where "ZIL_ZC_SEQ = 3"

definition TX_COMMIT :: u64 where "TX_COMMIT = 0"
definition TX_CREATE :: u64 where "TX_CREATE = 1"
definition TX_MKDIR :: u64 where "TX_MKDIR = 2"
definition TX_MKXATTR :: u64 where "TX_MKXATTR = 3"
definition TX_SYMLINK :: u64 where "TX_SYMLINK = 4"
definition TX_REMOVE :: u64 where "TX_REMOVE = 5"
definition TX_RMDIR :: u64 where "TX_RMDIR = 6"
definition TX_LINK :: u64 where "TX_LINK = 7"
definition TX_RENAME :: u64 where "TX_RENAME = 8"
definition TX_WRITE :: u64 where "TX_WRITE = 9"
definition TX_TRUNCATE :: u64 where "TX_TRUNCATE = 10"
definition TX_SETATTR :: u64 where "TX_SETATTR = 11"
definition TX_ACL_V0 :: u64 where "TX_ACL_V0 = 12"
definition TX_ACL :: u64 where "TX_ACL = 13"
definition TX_CREATE_ACL :: u64 where "TX_CREATE_ACL = 14"
definition TX_CREATE_ATTR :: u64 where "TX_CREATE_ATTR = 15"
definition TX_CREATE_ACL_ATTR :: u64 where "TX_CREATE_ACL_ATTR = 16"
definition TX_MKDIR_ACL :: u64 where "TX_MKDIR_ACL = 17"
definition TX_MKDIR_ATTR :: u64 where "TX_MKDIR_ATTR = 18"
definition TX_MKDIR_ACL_ATTR :: u64 where "TX_MKDIR_ACL_ATTR = 19"
definition TX_WRITE2 :: u64 where "TX_WRITE2 = 20"
definition TX_SETSAXATTR :: u64 where "TX_SETSAXATTR = 21"
definition TX_RENAME_EXCHANGE :: u64 where "TX_RENAME_EXCHANGE = 22"
definition TX_RENAME_WHITEOUT :: u64 where "TX_RENAME_WHITEOUT = 23"
definition TX_CLONE_RANGE :: u64 where "TX_CLONE_RANGE = 24"
definition TX_MAX_TYPE :: u64 where "TX_MAX_TYPE = 25"
definition TX_CI :: u64 where "TX_CI = push_bit 63 0x1"

definition TX_OOO :: "u64 \<Rightarrow> bool" where
  "TX_OOO txtype \<longleftrightarrow> txtype = TX_WRITE \<or> txtype = TX_TRUNCATE \<or> txtype = TX_SETATTR \<or>
     txtype = TX_ACL_V0 \<or> txtype = TX_ACL \<or> txtype = TX_WRITE2 \<or> txtype = TX_SETSAXATTR \<or>
     txtype = TX_CLONE_RANGE"

lemmas tx_ooo_defs = TX_OOO_def TX_WRITE_def TX_TRUNCATE_def TX_SETATTR_def TX_ACL_V0_def TX_ACL_def
  TX_WRITE2_def TX_SETSAXATTR_def TX_CLONE_RANGE_def

section \<open>Structures\<close>

definition zil_header :: ctype where
  "zil_header = CStruct [(''zh_claim_txg'', c_u64), (''zh_replay_seq'', c_u64), (''zh_log'', c_blkptr),
    (''zh_claim_blk_seq'', c_u64), (''zh_flags'', c_u64), (''zh_claim_lr_seq'', c_u64), (''zh_pad'', CArray 3 c_u64)]"

definition zil_chain :: ctype where
  "zil_chain = CStruct [(''zc_pad'', c_u64), (''zc_next_blk'', c_blkptr), (''zc_nused'', c_u64), (''zc_eck'', c_zio_eck)]"

definition lr_t :: ctype where
  "lr_t = CStruct [(''lrc_txtype'', c_u64), (''lrc_reclen'', c_u64), (''lrc_txg'', c_u64), (''lrc_seq'', c_u64)]"

definition lr_ooo_t :: ctype where
  "lr_ooo_t = CStruct [(''lr_common'', lr_t), (''lr_foid'', c_u64)]"

definition lr_attr_end_t :: ctype where
  "lr_attr_end_t = CStruct [(''lr_attr_attrs'', c_u64), (''lr_attr_crtime'', CArray 2 c_u64),
    (''lr_attr_scanstamp'', CArray 32 c_u8)]"

definition lr_attr_t :: ctype where
  "lr_attr_t = CStruct [(''lr_attr_masksize'', c_u32), (''lr_attr_bitmap'', c_u32), (''lr_attr_data'', CArray 0 c_u8)]"

definition lr_create_common :: ctype where
  "lr_create_common = CStruct [(''lr_common'', lr_t), (''lr_doid'', c_u64), (''lr_foid'', c_u64), (''lr_mode'', c_u64),
    (''lr_uid'', c_u64), (''lr_gid'', c_u64), (''lr_gen'', c_u64), (''lr_crtime'', CArray 2 c_u64), (''lr_rdev'', c_u64)]"

definition lr_create_t :: ctype where
  "lr_create_t = CStruct [(''lr_create'', lr_create_common), (''lr_data'', CArray 0 c_u8)]"

definition lr_acl_create_t :: ctype where
  "lr_acl_create_t = CStruct [(''lr_create'', lr_create_common), (''lr_aclcnt'', c_u64), (''lr_domcnt'', c_u64),
    (''lr_fuidcnt'', c_u64), (''lr_acl_bytes'', c_u64), (''lr_acl_flags'', c_u64), (''lr_data'', CArray 0 c_u8)]"

definition lr_remove_t :: ctype where
  "lr_remove_t = CStruct [(''lr_common'', lr_t), (''lr_doid'', c_u64), (''lr_data'', CArray 0 c_u8)]"

definition lr_link_t :: ctype where
  "lr_link_t = CStruct [(''lr_common'', lr_t), (''lr_doid'', c_u64), (''lr_link_obj'', c_u64), (''lr_data'', CArray 0 c_u8)]"

definition lr_rename_common :: ctype where
  "lr_rename_common = CStruct [(''lr_common'', lr_t), (''lr_sdoid'', c_u64), (''lr_tdoid'', c_u64)]"

definition lr_rename_t :: ctype where
  "lr_rename_t = CStruct [(''lr_rename'', lr_rename_common), (''lr_data'', CArray 0 c_u8)]"

definition lr_rename_whiteout_t :: ctype where
  "lr_rename_whiteout_t = CStruct [(''lr_rename'', lr_rename_common), (''lr_wfoid'', c_u64), (''lr_wmode'', c_u64),
    (''lr_wuid'', c_u64), (''lr_wgid'', c_u64), (''lr_wgen'', c_u64), (''lr_wcrtime'', CArray 2 c_u64),
    (''lr_wrdev'', c_u64), (''lr_data'', CArray 0 c_u8)]"

definition lr_write_t :: ctype where
  "lr_write_t = CStruct [(''lr_common'', lr_t), (''lr_foid'', c_u64), (''lr_offset'', c_u64), (''lr_length'', c_u64),
    (''lr_blkoff'', c_u64), (''lr_blkptr'', c_blkptr), (''lr_data'', CArray 0 c_u8)]"

definition lr_truncate_t :: ctype where
  "lr_truncate_t = CStruct [(''lr_common'', lr_t), (''lr_foid'', c_u64), (''lr_offset'', c_u64), (''lr_length'', c_u64)]"

definition lr_setattr_t :: ctype where
  "lr_setattr_t = CStruct [(''lr_common'', lr_t), (''lr_foid'', c_u64), (''lr_mask'', c_u64), (''lr_mode'', c_u64),
    (''lr_uid'', c_u64), (''lr_gid'', c_u64), (''lr_size'', c_u64), (''lr_atime'', CArray 2 c_u64),
    (''lr_mtime'', CArray 2 c_u64), (''lr_data'', CArray 0 c_u8)]"

definition lr_setsaxattr_t :: ctype where
  "lr_setsaxattr_t = CStruct [(''lr_common'', lr_t), (''lr_foid'', c_u64), (''lr_size'', c_u64), (''lr_data'', CArray 0 c_u8)]"

definition lr_acl_v0_t :: ctype where
  "lr_acl_v0_t = CStruct [(''lr_common'', lr_t), (''lr_foid'', c_u64), (''lr_aclcnt'', c_u64), (''lr_data'', CArray 0 c_u8)]"

definition lr_acl_t :: ctype where
  "lr_acl_t = CStruct [(''lr_common'', lr_t), (''lr_foid'', c_u64), (''lr_aclcnt'', c_u64), (''lr_domcnt'', c_u64),
    (''lr_fuidcnt'', c_u64), (''lr_acl_bytes'', c_u64), (''lr_acl_flags'', c_u64), (''lr_data'', CArray 0 c_u8)]"

definition lr_clone_range_t :: ctype where
  "lr_clone_range_t = CStruct [(''lr_common'', lr_t), (''lr_foid'', c_u64), (''lr_offset'', c_u64), (''lr_length'', c_u64),
    (''lr_blksz'', c_u64), (''lr_nbps'', c_u64), (''lr_bps'', CArray 0 c_blkptr)]"

text \<open>
  The records in the order of the header, and those of the transaction types that \<open>TX_OOO\<close> lists
  (\<open>TX_WRITE2\<close> uses the record of \<open>TX_WRITE\<close>).
\<close>

definition log_records :: "ctype list" where
  "log_records = [lr_create_t, lr_acl_create_t, lr_remove_t, lr_link_t, lr_rename_t, lr_rename_whiteout_t,
    lr_write_t, lr_truncate_t, lr_setattr_t, lr_setsaxattr_t, lr_acl_v0_t, lr_acl_t, lr_clone_range_t]"

definition ooo_records :: "(u64 \<times> ctype) list" where
  "ooo_records = [(TX_WRITE, lr_write_t), (TX_TRUNCATE, lr_truncate_t), (TX_SETATTR, lr_setattr_t),
    (TX_ACL_V0, lr_acl_v0_t), (TX_ACL, lr_acl_t), (TX_WRITE2, lr_write_t), (TX_SETSAXATTR, lr_setsaxattr_t),
    (TX_CLONE_RANGE, lr_clone_range_t)]"

lemmas lr_structs = lr_create_t_def lr_acl_create_t_def lr_remove_t_def lr_link_t_def lr_rename_t_def
  lr_rename_whiteout_t_def lr_write_t_def lr_truncate_t_def lr_setattr_t_def lr_setsaxattr_t_def
  lr_acl_v0_t_def lr_acl_t_def lr_clone_range_t_def

section \<open>Sizes of variable parts\<close>

definition ZIL_XVAT_SIZE :: "u64 \<Rightarrow> u64" where
  "ZIL_XVAT_SIZE mapsize =
    of_nat (size_of 8 lr_attr_t) + of_nat (size_of 8 c_u32) * (mapsize - 1) + of_nat (size_of 8 c_u64) * 7"

definition ZIL_ACE_LENGTH :: "u64 \<Rightarrow> u64" where
  "ZIL_ACE_LENGTH x = roundup x (of_nat (size_of 8 c_u64))"

section \<open>Facts\<close>

lemma lr_sizes [simp]:
  "size_of 8 lr_t = 32" "size_of 4 lr_t = 32" "align_of 8 lr_t = 8" "align_of 4 lr_t = 4"
  "size_of 8 lr_create_common = 104" "size_of 4 lr_create_common = 104" "align_of 8 lr_create_common = 8"
  "align_of 4 lr_create_common = 4"
  "size_of 8 lr_rename_common = 48" "size_of 4 lr_rename_common = 48" "align_of 8 lr_rename_common = 8"
  "align_of 4 lr_rename_common = 4"
  "size_of 8 lr_attr_end_t = 56" "size_of 8 lr_attr_t = 8"
  by (simp_all add: lr_t_def lr_create_common_def lr_rename_common_def lr_attr_end_t_def lr_attr_t_def pad_to_def)

lemma portable_records: "list_all portable log_records"
  by (simp add: log_records_def portable_def lr_structs pad_to_def)

lemma unpadded_records: "list_all (\<lambda>t. no_padding 8 t \<and> no_padding 4 t) log_records"
  by (simp add: log_records_def no_padding_def lr_structs pad_to_def)

text \<open>
  Every intent log record has the same layout on 32-bit and 64-bit hosts with no padding the
  compiler would add, as the header's comment promises of records read on either; so have the log
  header, of 192 bytes, and the chain block, of 184.
\<close>

theorem log_records_portable:
  "list_all (\<lambda>t. portable t \<and> no_padding 8 t \<and> no_padding 4 t) (zil_header # zil_chain # log_records) \<and>
   size_of 8 zil_header = 192 \<and> size_of 8 zil_chain = 184"
proof -
  have "portable zil_header" "portable zil_chain" "no_padding 8 zil_header" "no_padding 4 zil_header"
    "no_padding 8 zil_chain" "no_padding 4 zil_chain"
    by (simp_all add: portable_def no_padding_def zil_header_def zil_chain_def pad_to_def)
  moreover have "list_all (\<lambda>t. portable t \<and> no_padding 8 t \<and> no_padding 4 t) log_records"
    using portable_records unpadded_records by (simp add: list_all_iff)
  ultimately show ?thesis by (simp add: zil_header_def zil_chain_def pad_to_def)
qed

text \<open>
  The transaction types that may be logged out of order are exactly those below
  \<open>TX_MAX_TYPE\<close> whose record starts like \<open>lr_ooo_t\<close>: the object id follows the common header
  immediately, at the same offset in all of them; in the other records with an object id (creates)
  it is elsewhere. A case-insensitive request is never out of order.
\<close>

theorem ooo_records_share_foid:
  "(\<forall>tx. TX_OOO tx \<longleftrightarrow> tx \<in> set (map fst ooo_records)) \<and>
   list_all (\<lambda>(tx, t). tx < TX_MAX_TYPE \<and> map_of (offsets 8 0 (members t)) ''lr_foid'' =
     map_of (offsets 8 0 (members lr_ooo_t)) ''lr_foid'' \<and> \<not> TX_OOO (tx OR TX_CI)) ooo_records \<and>
   map_of (offsets 8 0 (members lr_ooo_t)) ''lr_foid'' = Some (size_of 8 lr_t) \<and>
   map_of (offsets 8 0 (members lr_create_common)) ''lr_foid'' \<noteq> Some (size_of 8 lr_t)"
proof (intro conjI)
  show "\<forall>tx. TX_OOO tx \<longleftrightarrow> tx \<in> set (map fst ooo_records)"
    by (auto simp: TX_OOO_def ooo_records_def)
  show "list_all (\<lambda>(tx, t). tx < TX_MAX_TYPE \<and> map_of (offsets 8 0 (members t)) ''lr_foid'' =
     map_of (offsets 8 0 (members lr_ooo_t)) ''lr_foid'' \<and> \<not> TX_OOO (tx OR TX_CI)) ooo_records"
    by (simp add: ooo_records_def lr_structs lr_ooo_t_def pad_to_def TX_MAX_TYPE_def TX_CI_def tx_ooo_defs)
qed (simp_all add: lr_ooo_t_def lr_create_common_def pad_to_def)

text \<open>
  The size of the extended attribute section of a log record counts exactly the word with the
  number of bitmap words, that many bitmap words, and the trailing structure, for every count from 1.
\<close>

theorem xvat_size_exact:
  assumes "1 \<le> n" "n < 2 ^ 32"
  shows "ZIL_XVAT_SIZE (of_nat n) =
    of_nat (the (map_of (offsets 8 0 (members lr_attr_t)) ''lr_attr_bitmap'') + n * size_of 8 c_u32 + size_of 8 lr_attr_end_t)"
  using assms by (simp add: ZIL_XVAT_SIZE_def lr_attr_t_def pad_to_def of_nat_mult algebra_simps)

theorem xvat_size_exact_witness: "ZIL_XVAT_SIZE (of_nat 3) = 72"
  using xvat_size_exact [of 3] by (simp add: lr_attr_t_def pad_to_def)

end
