(* ===== verification/Raidz_Math.thy ===== *)
theory Raidz_Math
  imports Prelude
begin

unbundle bit_operations_syntax

text \<open>
  The Galois field arithmetic of RAID-Z (\<open>compat/openzfs/sys/vdev_raidz_impl.h\<close>): the inline
  functions that multiply, divide, invert and take powers through a table of powers of two and a
  table of logarithms. The tables are defined in a file that is not in the repository: they are the
  parameter \<open>T\<close>, and the locale \<open>raidz_tables\<close> states what their comments say of them, powers of 2
  in the field and the logarithms of these, for some reduction polynomial \<open>p\<close>. Under that contract
  the functions are proved to be the multiplication and division of the field whose product is
  computed by shifting and adding, and the contract is met by the tables of the polynomial 0x1d.
\<close>

section \<open>The functions\<close>

record raidz_tab =
  vdev_raidz_pow2 :: "nat \<Rightarrow> u8"
  vdev_raidz_log2 :: "nat \<Rightarrow> u8"

text \<open>Both arrays have 256 elements; an access past the end has no value.\<close>

definition tab_at :: "(nat \<Rightarrow> u8) \<Rightarrow> u32 \<Rightarrow> u8 option" where
  "tab_at t i = (if i < 256 then Some (t (unat i)) else None)"

definition vdev_raidz_exp2 :: "raidz_tab \<Rightarrow> u8 \<Rightarrow> u32 \<Rightarrow> u8 option" where
  "vdev_raidz_exp2 T a ex = (if a = 0 then Some 0 else do {
     l \<leftarrow> tab_at (vdev_raidz_log2 T) (ucast a);
     tab_at (vdev_raidz_pow2 T) ((ex + ucast l) mod 255) })"

definition gf_mul :: "raidz_tab \<Rightarrow> u32 \<Rightarrow> u32 \<Rightarrow> u32 option" where
  "gf_mul T a b = (if a = 0 \<or> b = 0 then Some 0 else do {
     la \<leftarrow> tab_at (vdev_raidz_log2 T) a;
     lb \<leftarrow> tab_at (vdev_raidz_log2 T) b;
     r \<leftarrow> tab_at (vdev_raidz_pow2 T) ((ucast la + ucast lb) mod 255);
     Some (ucast r) })"

definition gf_div :: "raidz_tab \<Rightarrow> bool \<Rightarrow> u32 \<Rightarrow> u32 \<Rightarrow> u32 option" where
  "gf_div T nd a b = do {
     ASSERT3U nd (ucast b) (>) 0;
     if a = 0 then Some 0 else do {
       la \<leftarrow> tab_at (vdev_raidz_log2 T) a;
       lb \<leftarrow> tab_at (vdev_raidz_log2 T) b;
       r \<leftarrow> tab_at (vdev_raidz_pow2 T) ((255 + ucast la - ucast lb) mod 255);
       Some (ucast r) } }"

definition gf_inv :: "raidz_tab \<Rightarrow> bool \<Rightarrow> u32 \<Rightarrow> u32 option" where
  "gf_inv T nd a = do {
     ASSERT3U nd (ucast a) (>) 0;
     la \<leftarrow> tab_at (vdev_raidz_log2 T) a;
     r \<leftarrow> tab_at (vdev_raidz_pow2 T) (255 - ucast la);
     Some (ucast r) }"

definition gf_exp2 :: "raidz_tab \<Rightarrow> u32 \<Rightarrow> u32 option" where
  "gf_exp2 T ex = map_option ucast (tab_at (vdev_raidz_pow2 T) (ex mod 255))"

definition gf_exp4 :: "raidz_tab \<Rightarrow> bool \<Rightarrow> u32 \<Rightarrow> u32 option" where
  "gf_exp4 T nd ex = do {
     ASSERT3U nd (ucast ex) (\<le>) 255;
     map_option ucast (tab_at (vdev_raidz_pow2 T) ((2 * ex) mod 255)) }"

section \<open>Multiplication by shifting and adding\<close>

text \<open>Doubling, with the reduction polynomial \<open>p\<close> (its term \<open>x ^ 8\<close> left out).\<close>

definition xtime :: "u8 \<Rightarrow> u8 \<Rightarrow> u8" where
  "xtime p a = push_bit 1 a XOR (if bit a 7 then p else 0)"

fun gmul_upto :: "u8 \<Rightarrow> nat \<Rightarrow> u8 \<Rightarrow> u8 \<Rightarrow> u8" where
  "gmul_upto p 0 a b = 0"
| "gmul_upto p (Suc k) a b = gmul_upto p k a b XOR (if bit a k then (xtime p ^^ k) b else 0)"

definition gmul :: "u8 \<Rightarrow> u8 \<Rightarrow> u8 \<Rightarrow> u8" where
  "gmul p a b = gmul_upto p 8 a b"

lemma xtime_xor: "xtime p (a XOR b) = xtime p a XOR xtime p b"
  by (rule bit_word_eqI) (auto simp: xtime_def bit_simps)

lemma xtime_0 [simp]: "xtime p 0 = 0"
  by (simp add: xtime_def)

lemma xpow_xor: "(xtime p ^^ k) (a XOR b) = (xtime p ^^ k) a XOR (xtime p ^^ k) b"
  by (induction k) (simp_all add: xtime_xor)

lemma xpow_0 [simp]: "(xtime p ^^ k) 0 = 0"
  by (induction k) simp_all

lemma xor_swap4: "(a XOR b) XOR (c XOR d) = (a XOR c) XOR (b XOR (d :: u8))"
  by (simp add: ac_simps)

lemma gmul_upto_xor_left: "gmul_upto p k (a XOR a') b = gmul_upto p k a b XOR gmul_upto p k a' b"
  by (induction k) (auto simp: bit_simps ac_simps)

lemma gmul_upto_xor_right: "gmul_upto p k a (b XOR b') = gmul_upto p k a b XOR gmul_upto p k a b'"
  by (induction k) (auto simp: xpow_xor ac_simps)

lemma gmul_upto_xpow: "gmul_upto p k a ((xtime p ^^ j) b) = (xtime p ^^ j) (gmul_upto p k a b)"
proof (induction k)
  case (Suc k)
  have "(xtime p ^^ k) ((xtime p ^^ j) b) = (xtime p ^^ j) ((xtime p ^^ k) b)"
    by (simp add: funpow_add [symmetric, THEN fun_cong, simplified] add.commute)
  with Suc show ?case by (simp add: xpow_xor)
qed simp

text \<open>The powers of \<open>x\<close> below the eighth are single bits, the eighth is the polynomial.\<close>

lemma xtime_bit: "k < 7 \<Longrightarrow> xtime p (push_bit k 1) = push_bit (Suc k) 1"
  by (simp add: xtime_def bit_simps push_bit_push_bit add.commute)

lemma xpow_bit: "k < 8 \<Longrightarrow> (xtime p ^^ k) 1 = push_bit k 1"
proof (induction k)
  case (Suc k)
  have ih: "(xtime p ^^ k) 1 = push_bit k 1" by (rule Suc.IH) (use Suc.prems in simp)
  show ?case unfolding funpow.simps o_apply ih by (rule xtime_bit) (use Suc.prems in simp)
qed simp

lemma xpow_8: "(xtime p ^^ 8) 1 = p"
proof -
  have "(xtime p ^^ 8) 1 = xtime p ((xtime p ^^ 7) 1)" by (simp add: eval_nat_numeral)
  also have "\<dots> = xtime p (push_bit 7 1)" by (simp only: xpow_bit [of 7])
  also have "\<dots> = p"
    by (rule bit_word_eqI) (simp only: xtime_def bit_xor_iff bit_push_bit_iff, auto simp: bit_simps)
  finally show ?thesis .
qed

lemma gmul_upto_1_right: "k \<le> 8 \<Longrightarrow> gmul_upto p k a 1 = take_bit k a"
proof (induction k)
  case (Suc k)
  have "take_bit (Suc k) a = take_bit k a XOR (if bit a k then push_bit k 1 else 0)"
    by (rule bit_word_eqI) (auto simp: bit_simps less_Suc_eq)
  with Suc show ?case by (simp add: xpow_bit)
qed simp

lemma gmul_1_right: "gmul p a 1 = a"
  by (simp add: gmul_def gmul_upto_1_right take_bit_word_eq_self)

lemma gmul_upto_1_left: "gmul_upto p (Suc k) 1 b = b"
  by (induction k) auto

lemma gmul_1_left: "gmul p 1 b = b"
  using gmul_upto_1_left [of p 7 b] by (simp add: gmul_def eval_nat_numeral)

lemma gmul_0_left [simp]: "gmul p 0 b = 0"
proof -
  have "gmul_upto p k 0 b = 0" for k by (induction k) simp_all
  then show ?thesis by (simp add: gmul_def)
qed

lemma gmul_0_right [simp]: "gmul p a 0 = 0"
proof -
  have "gmul_upto p k a 0 = 0" for k by (induction k) simp_all
  then show ?thesis by (simp add: gmul_def)
qed

lemma gmul_xor_left: "gmul p (a XOR a') b = gmul p a b XOR gmul p a' b"
  by (simp add: gmul_def gmul_upto_xor_left)

lemma gmul_xor_right: "gmul p a (b XOR b') = gmul p a b XOR gmul p a b'"
  by (simp add: gmul_def gmul_upto_xor_right)

lemma gmul_xpow_right: "gmul p a ((xtime p ^^ j) b) = (xtime p ^^ j) (gmul p a b)"
  by (simp add: gmul_def gmul_upto_xpow)

text \<open>Multiplying by the polynomial is doubling eight times; doubling the left factor doubles.\<close>

lemma xpow_gmul_1: "(xtime p ^^ j) b = gmul p b ((xtime p ^^ j) 1)"
  by (simp only: gmul_xpow_right gmul_1_right)

lemma gmul_upto_p: "gmul p p (gmul_upto p k b 1) = (xtime p ^^ 8) (gmul_upto p k b 1)"
proof (induction k)
  case (Suc k)
  have "gmul p p ((xtime p ^^ k) 1) = (xtime p ^^ k) ((xtime p ^^ 8) 1)"
    by (simp only: gmul_xpow_right gmul_1_right xpow_8)
  also have "\<dots> = (xtime p ^^ 8) ((xtime p ^^ k) 1)"
    by (simp only: funpow_add [symmetric, THEN fun_cong, unfolded o_def] add.commute)
  finally show ?case using Suc by (simp add: gmul_xor_right xpow_xor)
qed simp

lemma gmul_p: "gmul p p b = (xtime p ^^ 8) b"
proof -
  have "gmul_upto p 8 b 1 = b" using gmul_1_right [of p b] by (simp only: gmul_def)
  then show ?thesis using gmul_upto_p [of p 8 b] by simp
qed

lemma bit_double: "k < 7 \<Longrightarrow> bit (push_bit 1 (a :: u8)) (Suc k) = bit a k"
  by (simp only: bit_push_bit_iff) simp

lemma gmul_upto_shift: "k \<le> 7 \<Longrightarrow> gmul_upto p (Suc k) (push_bit 1 a) b = xtime p (gmul_upto p k a b)"
proof (induction k)
  case (Suc k)
  have b: "bit (push_bit 1 a) (Suc k) = bit a k" by (rule bit_double) (use Suc.prems in simp)
  have ih: "gmul_upto p (Suc k) (push_bit 1 a) b = xtime p (gmul_upto p k a b)"
    by (rule Suc.IH) (use Suc.prems in simp)
  show ?case
    unfolding gmul_upto.simps(2) [of p "Suc k"] gmul_upto.simps(2) [of p k a b] ih b xtime_xor
    by simp
next
  case 0
  have "\<not> bit (push_bit 1 a) 0" by (simp only: bit_push_bit_iff) simp
  then show ?case by (simp only: gmul_upto.simps) simp
qed

lemma gmul_xtime_left: "gmul p (xtime p a) b = xtime p (gmul p a b)"
proof -
  have s: "gmul p (push_bit 1 a) b = xtime p (gmul_upto p 7 a b)"
  proof -
    have e: "Suc 7 = 8" by simp
    show ?thesis using gmul_upto_shift [OF order_refl, of p a b] unfolding gmul_def e .
  qed
  have "gmul p a b = gmul_upto p 7 a b XOR (if bit a 7 then (xtime p ^^ 7) b else 0)"
    unfolding gmul_def using gmul_upto.simps(2) [of p 7 a b] by (simp add: eval_nat_numeral)
  moreover have "xtime p ((xtime p ^^ 7) b) = (xtime p ^^ 8) b" by (simp add: eval_nat_numeral)
  ultimately have t: "xtime p (gmul p a b) =
      xtime p (gmul_upto p 7 a b) XOR (if bit a 7 then (xtime p ^^ 8) b else 0)"
    by (simp add: xtime_xor)
  show ?thesis
    unfolding t xtime_def [of p a] gmul_xor_left s using gmul_p by simp
qed

lemma gmul_xpow_left: "gmul p ((xtime p ^^ i) a) b = (xtime p ^^ i) (gmul p a b)"
  by (induction i) (simp_all add: gmul_xtime_left)

lemma gmul_powers: "gmul p ((xtime p ^^ i) 1) ((xtime p ^^ j) 1) = (xtime p ^^ (i + j)) 1"
  by (simp add: gmul_xpow_left gmul_1_left funpow_add)

lemma ucast_u8_u32: "(ucast (ucast (x :: u8) :: u32) :: u8) = x"
  by (rule ucast_up_ucast_id) (simp add: is_up)

lemma ucast_less_256: "(ucast (x :: u8) :: u32) < 256"
  using unsigned_less [of x, where ?'a = nat] by (simp add: word_less_nat_alt unsigned_ucast_eq take_bit_nat_eq_self)

lemma ucast_u8_zero: "(ucast (a :: u8) :: u32) = 0 \<longleftrightarrow> a = 0"
proof
  assume "(ucast a :: u32) = 0"
  then have "(ucast (ucast a :: u32) :: u8) = 0" by simp
  then show "a = 0" by (simp only: ucast_u8_u32)
qed simp

section \<open>The contract of the tables\<close>

locale raidz_tables =
  fixes T :: raidz_tab and p :: u8
  assumes pow2_table: "i < 256 \<Longrightarrow> vdev_raidz_pow2 T i = (xtime p ^^ i) 1"
    and pow2_last: "vdev_raidz_pow2 T 255 = 1"
    and log2_table: "0 < a \<Longrightarrow> a < 256 \<Longrightarrow> unat (vdev_raidz_log2 T a) < 255 \<and>
      vdev_raidz_pow2 T (unat (vdev_raidz_log2 T a)) = of_nat a"
begin

lemma period: "(xtime p ^^ (n mod 255)) 1 = (xtime p ^^ n) 1"
  using pow2_table [of 255] pow2_last by (intro funpow_mod_eq) simp

lemma pow2_at: "i < 256 \<Longrightarrow> tab_at (vdev_raidz_pow2 T) i = Some ((xtime p ^^ unat i) 1)"
  by (simp add: tab_at_def pow2_table word_less_nat_alt)

lemma pow2_at_mod: "tab_at (vdev_raidz_pow2 T) (i mod 255) = Some ((xtime p ^^ unat i) 1)"
proof -
  have "unat (i mod 255) = unat i mod 255" by (simp add: unat_mod)
  moreover have "i mod 255 < 256" by (simp add: word_less_nat_alt unat_mod)
  ultimately show ?thesis by (simp add: pow2_at period)
qed

lemma log2_at:
  assumes "a \<noteq> 0" "a < 256"
  obtains l where "tab_at (vdev_raidz_log2 T) a = Some l" "unat l < 255" "ucast a = (xtime p ^^ unat l) 1"
proof -
  let ?l = "vdev_raidz_log2 T (unat a)"
  have "0 < unat a" "unat a < 256" using assms by (simp_all add: word_less_nat_alt unat_gt_0)
  then have l: "unat ?l < 255" "vdev_raidz_pow2 T (unat ?l) = of_nat (unat a)" using log2_table by blast+
  have "tab_at (vdev_raidz_log2 T) a = Some ?l" using assms(2) by (simp add: tab_at_def)
  moreover have "ucast a = (xtime p ^^ unat ?l) 1" using l pow2_table [of "unat ?l"] by simp
  ultimately show ?thesis using l(1) that by blast
qed

lemma power_nonzero: "(xtime p ^^ n) 1 \<noteq> 0"
proof
  assume z: "(xtime p ^^ n) 1 = 0"
  have "(xtime p ^^ (255 * n)) 1 = (xtime p ^^ (255 * n - n)) ((xtime p ^^ n) 1)"
    by (simp add: funpow_add [symmetric, THEN fun_cong, unfolded o_def])
  then have "(xtime p ^^ (255 * n)) 1 = 0" using z by simp
  moreover have "(xtime p ^^ (255 * n)) 1 = 1" using period [of "255 * n"] by simp
  ultimately show False by simp
qed

lemma power_of: "(a :: u8) \<noteq> 0 \<Longrightarrow> \<exists>n<255. a = (xtime p ^^ n) 1"
proof -
  assume "a \<noteq> 0"
  moreover have "unat a < 256" using unsigned_less [of a, where ?'a = nat] by simp
  ultimately have "unat (vdev_raidz_log2 T (unat a)) < 255 \<and>
      vdev_raidz_pow2 T (unat (vdev_raidz_log2 T (unat a))) = a"
    using log2_table [of "unat a"] by (simp add: unat_gt_0)
  then show ?thesis using pow2_table [of "unat (vdev_raidz_log2 T (unat a))"]
    by (intro exI [of _ "unat (vdev_raidz_log2 T (unat a))"]) simp
qed

lemma gmul_nonzero: "a \<noteq> 0 \<Longrightarrow> b \<noteq> 0 \<Longrightarrow> gmul p a b \<noteq> 0"
  using power_of power_nonzero gmul_powers by metis

lemma gmul_commute: "gmul p a b = gmul p b a"
  using power_of [of a] power_of [of b] gmul_powers [of p] by (cases "a = 0"; cases "b = 0") (auto simp: add.commute)

lemma gmul_cancel: "b \<noteq> 0 \<Longrightarrow> gmul p a b = gmul p a' b \<Longrightarrow> a = a'"
proof -
  assume b: "b \<noteq> 0" and eq: "gmul p a b = gmul p a' b"
  then have "gmul p (a XOR a') b = 0" by (simp add: gmul_xor_left)
  then have "a XOR a' = 0" using gmul_nonzero b by blast
  then have "(a XOR a') XOR a' = a'" by simp
  then show "a = a'" by (simp add: xor.assoc)
qed

lemma sum_of_logs: "unat la < 255 \<Longrightarrow> unat lb < 255 \<Longrightarrow>
    unat ((ucast (la :: u8) :: u32) + ucast (lb :: u8)) = unat la + unat lb"
  by (subst unat_add_lem [THEN iffD1]) (simp_all add: unsigned_ucast_eq take_bit_nat_eq_self)

lemma gf_mul_spec:
  assumes "a < 256" "b < 256"
  shows "gf_mul T a b = Some (ucast (gmul p (ucast a) (ucast b)))"
proof (cases "a = 0 \<or> b = 0")
  case True
  then show ?thesis by (auto simp: gf_mul_def)
next
  case False
  then obtain la lb where la: "tab_at (vdev_raidz_log2 T) a = Some la" "unat la < 255" "ucast a = (xtime p ^^ unat la) 1"
      and lb: "tab_at (vdev_raidz_log2 T) b = Some lb" "unat lb < 255" "ucast b = (xtime p ^^ unat lb) 1"
    using log2_at assms by metis
  have "gf_mul T a b = Some (ucast ((xtime p ^^ (unat la + unat lb)) 1))"
    using False by (simp add: gf_mul_def la(1) lb(1) pow2_at_mod sum_of_logs [OF la(2) lb(2)])
  then show ?thesis by (simp only: la(3) lb(3) gmul_powers)
qed

lemma gf_div_spec:
  assumes "a < 256" "b < 256" "b \<noteq> 0"
  obtains q where "gf_div T nd a b = Some (ucast q)" "gmul p q (ucast b) = ucast a"
proof (cases "a = 0")
  case True
  moreover have "ASSERT3U nd (ucast b) (\<lambda>x y. y < x) 0 = Some ()"
    using assms(2,3) by (intro ASSERT3U_ok) (simp add: word_less_nat_alt unsigned_ucast_eq take_bit_nat_eq_self unat_gt_0)
  ultimately show ?thesis by (intro that [of 0]) (simp_all add: gf_div_def)
next
  case False
  obtain la where la: "tab_at (vdev_raidz_log2 T) a = Some la" "unat la < 255" "ucast a = (xtime p ^^ unat la) 1"
    using log2_at [OF False assms(1)] by blast
  obtain lb where lb: "tab_at (vdev_raidz_log2 T) b = Some lb" "unat lb < 255" "ucast b = (xtime p ^^ unat lb) 1"
    using log2_at [OF assms(3,2)] by blast
  have nz: "ASSERT3U nd (ucast b) (\<lambda>x y. y < x) 0 = Some ()"
    using assms(2,3) by (intro ASSERT3U_ok) (simp add: word_less_nat_alt unsigned_ucast_eq take_bit_nat_eq_self unat_gt_0)
  have u: "unat (ucast la :: u32) = unat la" "unat (ucast lb :: u32) = unat lb"
    using la(2) lb(2) by (simp_all add: unsigned_ucast_eq take_bit_nat_eq_self)
  have s: "unat (255 + ucast la :: u32) = 255 + unat la"
    using la(2) by (subst unat_add_lem [THEN iffD1]) (simp_all add: u)
  have d: "unat (255 + ucast la - ucast lb :: u32) = 255 + unat la - unat lb"
    by (subst unat_sub) (use lb(2) in \<open>simp_all add: word_le_nat_alt s u\<close>)
  let ?q = "(xtime p ^^ (255 + unat la - unat lb)) 1"
  have "gf_div T nd a b = Some (ucast ?q)"
    using False by (simp add: gf_div_def nz la(1) lb(1) pow2_at_mod d)
  moreover have "gmul p ?q (ucast b) = ucast a"
  proof -
    have "gmul p ?q (ucast b) = (xtime p ^^ (255 + unat la)) 1"
      using lb(2) by (simp only: lb(3) gmul_powers) simp
    also have "\<dots> = (xtime p ^^ unat la) 1" using period [of "255 + unat la"] period [of "unat la"] by simp
    finally show ?thesis by (simp only: la(3))
  qed
  ultimately show ?thesis by (rule that)
qed

lemma gf_div_mul:
  assumes "a < 256" "b < 256" "b \<noteq> 0"
  shows "gf_mul T a b \<bind> (\<lambda>c. gf_div T nd c b) = Some a" and "gf_div T nd a b \<bind> (\<lambda>q. gf_mul T q b) = Some a"
proof -
  have id: "ucast (ucast a :: u8) = a" using assms(1)
    by (simp add: word_unat_eq_iff unsigned_ucast_eq unsigned_take_bit_eq take_bit_nat_eq_self word_less_nat_alt)
  have nz: "(ucast b :: u8) \<noteq> 0" using assms(2,3)
    by (simp add: word_unat_eq_iff unsigned_ucast_eq unsigned_take_bit_eq take_bit_nat_eq_self word_less_nat_alt)
  let ?c = "ucast (gmul p (ucast a) (ucast b)) :: u32"
  obtain q where q: "gf_div T nd ?c b = Some (ucast q)" "gmul p q (ucast b) = ucast ?c"
    using gf_div_spec [OF ucast_less_256 assms(2,3)] by blast
  then have "q = ucast a" using gmul_cancel [OF nz] by (simp add: ucast_u8_u32)
  then show "gf_mul T a b \<bind> (\<lambda>c. gf_div T nd c b) = Some a"
    using q(1) id by (simp add: gf_mul_spec assms)
  obtain q where q: "gf_div T nd a b = Some (ucast q)" "gmul p q (ucast b) = ucast a"
    using gf_div_spec [OF assms] by blast
  then show "gf_div T nd a b \<bind> (\<lambda>q. gf_mul T q b) = Some a"
    using id by (simp add: gf_mul_spec [OF ucast_less_256 assms(2)] ucast_u8_u32)
qed

lemma gf_inv_div:
  assumes "a < 256" "a \<noteq> 0"
  shows "gf_inv T nd a = gf_div T nd 1 a"
proof -
  obtain la where la: "tab_at (vdev_raidz_log2 T) a = Some la" "unat la < 255" "ucast a = (xtime p ^^ unat la) 1"
    using log2_at [OF assms(2,1)] by blast
  obtain l1 where l1: "tab_at (vdev_raidz_log2 T) 1 = Some l1" "unat l1 < 255" "ucast (1 :: u32) = (xtime p ^^ unat l1) 1"
    using log2_at [of 1] by auto
  have nz: "ASSERT3U nd (ucast a) (\<lambda>x y. y < x) 0 = Some ()"
    using assms by (intro ASSERT3U_ok) (simp add: word_less_nat_alt unsigned_ucast_eq take_bit_nat_eq_self unat_gt_0)
  have u: "unat (ucast la :: u32) = unat la" "unat (ucast l1 :: u32) = unat l1"
    using la(2) l1(2) by (simp_all add: unsigned_ucast_eq take_bit_nat_eq_self)
  have "unat (255 - ucast la :: u32) = 255 - unat la"
    by (subst unat_sub) (use la(2) in \<open>simp_all add: word_le_nat_alt u\<close>)
  moreover have "255 - ucast la < (256 :: u32)"
    using calculation by (simp add: word_less_nat_alt)
  ultimately have inv: "gf_inv T nd a = Some (ucast ((xtime p ^^ (255 - unat la)) 1))"
    by (simp add: gf_inv_def nz la(1) pow2_at)
  obtain q where q: "gf_div T nd 1 a = Some (ucast q)" "gmul p q (ucast a) = 1"
    using gf_div_spec [of 1 a] assms by auto
  have "gmul p ((xtime p ^^ (255 - unat la)) 1) (ucast a) = 1"
    using la(2) period [of 255] by (simp only: la(3) gmul_powers) simp
  then have "q = (xtime p ^^ (255 - unat la)) 1"
    using q(2) gmul_cancel [of "ucast a"] power_nonzero la(3) by metis
  then show ?thesis using inv q(1) by simp
qed

end

section \<open>Tables that meet the contract\<close>

text \<open>
  For the polynomial 0x1d, two has order 255: its power with the exponent 255 is 1, those with the
  exponents 85, 51 and 15 are not, and these are the greatest proper divisors of 255. Its powers are
  therefore all the nonzero elements.
\<close>

fun xiter :: "u8 \<Rightarrow> nat \<Rightarrow> u8 \<Rightarrow> u8" where
  "xiter p 0 a = a"
| "xiter p (Suc n) a = xiter p n (xtime p a)"

lemma xiter_funpow: "xiter p n a = (xtime p ^^ n) a"
  by (induction n arbitrary: a) (simp_all add: funpow_swap1)

lemma xiter_values: "xiter 0x1d 15 1 = 38" "xiter 0x1d 51 1 = 10" "xiter 0x1d 85 1 = 214" "xiter 0x1d 255 1 = 1"
  by code_simp+

lemma order_facts:
  "(xtime 0x1d ^^ 255) 1 = 1" "(xtime 0x1d ^^ 85) 1 \<noteq> 1" "(xtime 0x1d ^^ 51) 1 \<noteq> 1" "(xtime 0x1d ^^ 15) 1 \<noteq> 1"
  using xiter_values by (simp_all add: xiter_funpow)

lemma period_gcd: "(f ^^ m) x = x \<Longrightarrow> (f ^^ n) x = x \<Longrightarrow> (f ^^ gcd m n) x = x"
proof (induction m n rule: gcd_nat_induct)
  case (step m n)
  then have "(f ^^ (m mod n)) x = x" using funpow_mod_eq [of n f x m] by simp
  with step show ?case by (simp add: gcd_red_nat [symmetric])
qed simp

lemma period_multiple: "(f ^^ n) x = x \<Longrightarrow> n dvd m \<Longrightarrow> (f ^^ m) x = x"
  using funpow_mod_eq [of n f x m] by (auto simp: dvd_eq_mod_eq_0)

lemma proper_divisor_255: "d dvd 255 \<Longrightarrow> d \<noteq> 255 \<Longrightarrow> d dvd 85 \<or> d dvd 51 \<or> d dvd (15 :: nat)"
proof -
  assume d: "d dvd 255" "d \<noteq> 255"
  then have "d \<in> set [0..<255]" using dvd_imp_le [OF d(1)] by simp
  moreover have "list_all (\<lambda>d. d dvd 255 \<longrightarrow> d dvd 85 \<or> d dvd 51 \<or> d dvd (15 :: nat)) [0..<255]"
    by code_simp
  ultimately show ?thesis using d(1) by (auto simp: list_all_iff)
qed

lemma no_short_period:
  assumes "0 < d" "d < 255"
  shows "(xtime 0x1d ^^ d) 1 \<noteq> 1"
proof
  assume "(xtime 0x1d ^^ d) 1 = 1"
  then have g: "(xtime 0x1d ^^ gcd d 255) 1 = 1" using order_facts(1) by (rule period_gcd)
  have "gcd d 255 \<noteq> 255" using assms dvd_imp_le [OF gcd_dvd1 assms(1), of 255] by linarith
  then have "gcd d 255 dvd 85 \<or> gcd d 255 dvd 51 \<or> gcd d 255 dvd 15" by (intro proper_divisor_255) simp_all
  then show False using period_multiple [OF g] order_facts(2-4) by blast
qed

lemma xpow_1d_neq:
  assumes "i < j" "j < 255"
  shows "(xtime 0x1d ^^ i) 1 \<noteq> (xtime 0x1d ^^ j) (1 :: u8)"
proof
  assume "(xtime 0x1d ^^ i) 1 = (xtime 0x1d ^^ j) (1 :: u8)"
  then have "(xtime 0x1d ^^ (255 - i)) ((xtime 0x1d ^^ i) 1) = (xtime 0x1d ^^ (255 - i)) ((xtime 0x1d ^^ j) (1 :: u8))"
    by simp
  then have "(xtime 0x1d ^^ (255 - i + i)) 1 = (xtime 0x1d ^^ (255 - i + j)) (1 :: u8)"
    by (simp only: funpow_add o_apply)
  moreover have "255 - i + i = 255" "255 - i + j = (j - i) + 255" using assms by simp_all
  ultimately have "(xtime 0x1d ^^ (j - i)) 1 = (1 :: u8)"
    using order_facts(1) by (simp only: funpow_add o_apply)
  then show False using no_short_period [of "j - i"] assms by simp
qed

lemma xpow_1d_onto: "a \<noteq> 0 \<Longrightarrow> \<exists>i<255. (xtime 0x1d ^^ i) 1 = (a :: u8)"
proof -
  assume a: "a \<noteq> 0"
  let ?f = "\<lambda>i. (xtime 0x1d ^^ i) (1 :: u8)"
  have inj: "inj_on ?f {..<255}" using xpow_1d_neq by (intro inj_onI) (metis lessThan_iff nat_neq_iff)
  have nz: "?f i \<noteq> 0" if "i < 255" for i
  proof
    assume "?f i = 0"
    then have "(xtime 0x1d ^^ (255 - i)) (?f i) = 0" by simp
    moreover have "(xtime 0x1d ^^ (255 - i)) (?f i) = ?f 255"
      using that by (simp only: funpow_add [symmetric, THEN fun_cong, unfolded o_def]) simp
    ultimately show False using order_facts(1) by simp
  qed
  have "card (UNIV - {0 :: u8}) = 255" by (simp add: card_word)
  moreover have "card (?f ` {..<255}) = 255" using inj by (simp add: card_image)
  moreover have "?f ` {..<255} \<subseteq> UNIV - {0}" using nz by auto
  ultimately have "?f ` {..<255} = UNIV - {0}" using card_subset_eq [of "UNIV - {0}" "?f ` {..<255}"] by simp
  then have "a \<in> ?f ` {..<255}" using a by simp
  then obtain i where "i < 255" "?f i = a" by (elim imageE) simp
  then show ?thesis by blast
qed

text \<open>The tables of this polynomial: the powers, and for each element the first exponent that gives it.\<close>

definition tables_1d :: raidz_tab where
  "tables_1d = \<lparr>vdev_raidz_pow2 = (\<lambda>i. (xtime 0x1d ^^ i) 1),
     vdev_raidz_log2 = (\<lambda>a. of_nat (length (takeWhile (\<lambda>i. (xtime 0x1d ^^ i) 1 \<noteq> (of_nat a :: u8)) [0..<255])))\<rparr>"

lemma first_index:
  assumes "\<exists>i<n. P i"
  shows "length (takeWhile (\<lambda>i. \<not> P i) [0..<n]) < n \<and> P (length (takeWhile (\<lambda>i. \<not> P i) [0..<n]))"
proof -
  let ?k = "length (takeWhile (\<lambda>i. \<not> P i) [0..<n])"
  have "takeWhile (\<lambda>i. \<not> P i) [0..<n] \<noteq> [0..<n]"
  proof
    assume "takeWhile (\<lambda>i. \<not> P i) [0..<n] = [0..<n]"
    then have "\<forall>i\<in>set [0..<n]. \<not> P i" by (simp only: takeWhile_eq_all_conv)
    moreover obtain i where "i < n" "P i" using assms by blast
    ultimately show False by auto
  qed
  then have k: "?k < length [0..<n]"
    using length_takeWhile_le [of "\<lambda>i. \<not> P i" "[0..<n]"] takeWhile_eq_take [of "\<lambda>i. \<not> P i" "[0..<n]"]
    by (metis le_neq_implies_less take_all_iff order_refl)
  with nth_length_takeWhile [OF k] show ?thesis by simp
qed

interpretation raidz_1d: raidz_tables tables_1d "0x1d"
proof
  fix a :: nat assume "0 < a" "a < 256"
  then have "(of_nat a :: u8) \<noteq> 0" by (simp add: word_unat_eq_iff unat_of_nat)
  then have "\<exists>i<255. (xtime 0x1d ^^ i) 1 = (of_nat a :: u8)" by (rule xpow_1d_onto)
  from first_index [OF this] show "unat (vdev_raidz_log2 tables_1d a) < 255 \<and>
      vdev_raidz_pow2 tables_1d (unat (vdev_raidz_log2 tables_1d a)) = of_nat a"
    by (simp add: tables_1d_def unat_of_nat)
qed (simp_all add: tables_1d_def order_facts)

section \<open>Properties\<close>

text \<open>
  C15. With tables that hold the powers of two and their logarithms, multiplying two field elements
  through the tables is multiplication by shifting and adding modulo the polynomial, so it
  distributes over the exclusive or that adds parity columns, and it never reads past a table.
\<close>

theorem gf_mul_shift_add:
  assumes "raidz_tables T p" "a < 256" "b < 256" "c < 256"
  shows "gf_mul T a b = Some (ucast (gmul p (ucast a) (ucast b))) \<and>
    gf_mul T a (b XOR c) = do { x \<leftarrow> gf_mul T a b; y \<leftarrow> gf_mul T a c; Some (x XOR y) } \<and>
    gf_mul T a b = gf_mul T b a"
proof -
  have xor: "b XOR c < 256"
    using assms(3,4) take_bit_word_small [of b 8] take_bit_word_small [of c 8]
      take_bit_word_less [of 8 "b XOR c"] by (simp add: take_bit_xor)
  have u: "(ucast (b XOR c) :: u8) = ucast b XOR ucast c" "(ucast (x XOR y) :: u32) = ucast x XOR ucast y" for x y :: u8
    by (rule bit_word_eqI; auto simp: bit_simps)+
  show ?thesis
    using assms xor raidz_tables.gmul_commute [OF assms(1), of "ucast a" "ucast b"]
    by (simp add: raidz_tables.gf_mul_spec [OF assms(1)] u gmul_xor_right)
qed

theorem gf_mul_shift_add_witness: "gf_mul tables_1d 0x80 2 = Some 0x1d"
proof -
  have "gmul 0x1d 0x80 2 = 0x1d" by code_simp
  then show ?thesis using gf_mul_shift_add [OF raidz_1d.raidz_tables_axioms, of "0x80" 2 0] by simp
qed

text \<open>
  Division by a nonzero element undoes multiplication and multiplication undoes division, the
  inverse is the quotient of one, and no assertion fires; dividing by zero and inverting zero fire
  the assertion of the debugging build.
\<close>

theorem gf_division:
  assumes "raidz_tables T p" "a < 256" "b < 256" "b \<noteq> 0"
  shows "gf_mul T a b \<bind> (\<lambda>c. gf_div T nd c b) = Some a \<and> gf_div T nd a b \<bind> (\<lambda>q. gf_mul T q b) = Some a \<and>
    gf_inv T nd b = gf_div T nd 1 b \<and> gf_inv T nd b \<bind> (\<lambda>i. gf_mul T i b) = Some 1 \<and>
    gf_div T False a 0 = None \<and> gf_inv T False 0 = None"
proof -
  have "gf_inv T nd b = gf_div T nd 1 b" by (rule raidz_tables.gf_inv_div [OF assms(1,3,4)])
  then show ?thesis
    using raidz_tables.gf_div_mul [OF assms(1) assms(2,3,4)] raidz_tables.gf_div_mul(2) [OF assms(1) _ assms(3,4), of 1]
    by (simp add: gf_div_def gf_inv_def ASSERT3U_def VERIFY3U_def)
qed

theorem gf_division_witness:
  "gf_mul tables_1d 7 9 \<bind> (\<lambda>c. gf_div tables_1d False c 9) = Some 7"
  using gf_division [OF raidz_1d.raidz_tables_axioms, of 7 9 False] by simp

text \<open>
  Multiplying by a power of two through the tables is doubling that many times, for every
  exponent the sum with a logarithm does not overflow; the powers of two and of four are those of
  the field.
\<close>

theorem raidz_powers:
  assumes "raidz_tables T p" "unat ex < 2 ^ 32 - 255"
  shows "vdev_raidz_exp2 T a ex = Some ((xtime p ^^ unat ex) a) \<and>
    gf_exp2 T ex = Some (ucast ((xtime p ^^ unat ex) 1)) \<and>
    (ex \<le> 255 \<longrightarrow> gf_exp4 T nd ex = Some (ucast (gmul p ((xtime p ^^ unat ex) 1) ((xtime p ^^ unat ex) 1))))"
proof (intro conjI impI)
  show "gf_exp2 T ex = Some (ucast ((xtime p ^^ unat ex) 1))"
    by (simp add: gf_exp2_def raidz_tables.pow2_at_mod [OF assms(1)])
  show "vdev_raidz_exp2 T a ex = Some ((xtime p ^^ unat ex) a)"
  proof (cases "a = 0")
    case False
    have a: "(ucast a :: u32) \<noteq> 0" "(ucast a :: u32) < 256" "ucast (ucast a :: u32) = a"
      using False by (simp_all only: ucast_less_256 ucast_u8_u32 ucast_u8_zero not_False_eq_True)
    obtain l where l: "tab_at (vdev_raidz_log2 T) (ucast a) = Some l" "unat l < 255" "a = (xtime p ^^ unat l) 1"
      using raidz_tables.log2_at [OF assms(1) a(1,2)] a(3) by metis
    have u: "unat (ucast l :: u32) = unat l" using l(2) by (simp add: unsigned_ucast_eq take_bit_nat_eq_self)
    have "unat (ex + ucast l :: u32) = unat ex + unat l"
      using assms(2) l(2) by (subst unat_add_lem [THEN iffD1]) (simp_all add: u)
    then have "vdev_raidz_exp2 T a ex = Some ((xtime p ^^ (unat ex + unat l)) 1)"
      using False by (simp add: vdev_raidz_exp2_def l(1) raidz_tables.pow2_at_mod [OF assms(1)])
    then show ?thesis using l(3) by (simp add: funpow_add)
  qed (simp add: vdev_raidz_exp2_def)
  show "gf_exp4 T nd ex = Some (ucast (gmul p ((xtime p ^^ unat ex) 1) ((xtime p ^^ unat ex) 1)))" if le: "ex \<le> 255"
  proof -
    have e: "unat ex \<le> 255" using le by (simp add: word_le_nat_alt)
    have "unat (ex + ex) = unat ex + unat ex"
      by (rule unat_add_lem [THEN iffD1]) (use e in simp)
    then have d: "unat (2 * ex) = unat ex + unat ex" by (simp only: mult_2 [of ex])
    have ok: "ASSERT3U nd (ucast ex) (\<le>) 255 = Some ()"
      using e by (intro ASSERT3U_ok) (simp add: word_le_nat_alt unsigned_ucast_eq take_bit_nat_eq_self)
    show ?thesis by (simp add: gf_exp4_def ok raidz_tables.pow2_at_mod [OF assms(1)] d gmul_powers)
  qed
qed

theorem raidz_powers_witness: "vdev_raidz_exp2 tables_1d 0x80 1 = Some 0x1d \<and> gf_exp4 tables_1d False 4 = Some 0x1d"
proof -
  have "xtime 0x1d 0x80 = 0x1d" "gmul 0x1d 16 16 = 0x1d" "(xtime 0x1d ^^ 4) 1 = 16" by code_simp+
  then show ?thesis
    using raidz_powers [OF raidz_1d.raidz_tables_axioms, of 1 "0x80" False]
      raidz_powers [OF raidz_1d.raidz_tables_axioms, of 4 0 False] by simp
qed

end
