(* ===== verification/Umem.thy ===== *)
theory Umem
  imports C_Layout
begin

unbundle bit_operations_syntax

text \<open>
  The malloc-based umem library of user space (\<open>compat/spl/umem.h\<close>): allocation that may be told
  never to fail, aligned and zeroed allocation, and object caches with a constructor and a
  destructor.

  The heap is a map from the addresses of allocated blocks to their bytes; \<open>malloc\<close> and
  \<open>posix_memalign\<close> are the parameter \<open>L\<close>, which may consult and change a hidden state \<open>os\<close> (so the
  same call can fail now and succeed later), under the contract \<open>libc_alloc\<close>. A loop that may not
  end is a \<open>partial_function\<close>: \<open>None\<close> is not returning. A call of \<open>abort\<close> and undefined behaviour
  (freeing or reading what is not allocated) are outcomes.
\<close>

section \<open>Heap and C library\<close>

type_synonym block_map = "u64 \<Rightarrow> u8 list option"

record umem_cache =
  cache_name :: string
  cache_bufsize :: u64
  cache_align :: u64
  cache_constructor :: "(u64 \<Rightarrow> u64 \<Rightarrow> u32 \<Rightarrow> block_map \<Rightarrow> int \<times> block_map) option"
  cache_destructor :: "(u64 \<Rightarrow> u64 \<Rightarrow> block_map \<Rightarrow> block_map) option"
  cache_reclaim :: u64
  cache_private :: u64
  cache_arena :: u64
  cache_cflags :: u32

text \<open>\<open>caches\<close> holds the cache structures by address, \<open>errs\<close> the messages printed.\<close>

record 'o heap =
  blocks :: block_map
  caches :: "u64 \<Rightarrow> umem_cache option"
  errs :: "string list"
  os :: 'o

record 'o libc =
  c_malloc :: "'o heap \<Rightarrow> u64 \<Rightarrow> u64 \<times> 'o heap"
  c_memalign :: "'o heap \<Rightarrow> u64 \<Rightarrow> u64 \<Rightarrow> u64 \<Rightarrow> nat \<times> u64 \<times> 'o heap"

datatype 'a outcome = Return 'a | Aborted | Undefined

definition EINVAL :: nat where "EINVAL = 22"
definition ENOMEM :: nat where "ENOMEM = 12"

definition c_free :: "'o heap \<Rightarrow> u64 \<Rightarrow> unit outcome \<times> 'o heap" where
  "c_free s p = (if p = 0 then (Return (), s) else if blocks s p = None then (Undefined, s)
     else (Return (), s\<lparr>blocks := (blocks s)(p := None)\<rparr>))"

definition c_memset0 :: "'o heap \<Rightarrow> u64 \<Rightarrow> u64 \<Rightarrow> unit outcome \<times> 'o heap" where
  "c_memset0 s p n = (case blocks s p of
      None \<Rightarrow> (if n = 0 then (Return (), s) else (Undefined, s))
    | Some bs \<Rightarrow> if unat n \<le> length bs
        then (Return (), s\<lparr>blocks := (blocks s)(p \<mapsto> replicate (unat n) 0 @ drop (unat n) bs)\<rparr>)
        else (Undefined, s))"

section \<open>The library\<close>

definition UMEM_DEFAULT :: u32 where "UMEM_DEFAULT = 0x0000"
definition UMEM_NOFAIL :: u32 where "UMEM_NOFAIL = 0x0100"
definition UMC_NODEBUG :: u32 where "UMC_NODEBUG = 0x00020000"
definition UMEM_CACHE_NAMELEN :: nat where "UMEM_CACHE_NAMELEN = 31"

definition c_umem_cache :: ctype where
  "c_umem_cache = CStruct [(''cache_name'', CArray (UMEM_CACHE_NAMELEN + 1) c_u8), (''cache_bufsize'', c_u64),
    (''cache_align'', c_u64), (''cache_constructor'', c_u64), (''cache_destructor'', c_u64), (''cache_reclaim'', c_u64),
    (''cache_private'', c_u64), (''cache_arena'', c_u64), (''cache_cflags'', c_u32)]"

partial_function (option) umem_alloc ::
    "'o libc \<Rightarrow> u64 \<Rightarrow> u32 \<Rightarrow> 'o heap \<Rightarrow> (u64 \<times> 'o heap) option" where
  "umem_alloc L sz flags s = (let r = c_malloc L s sz in
     if fst r = 0 \<and> flags AND UMEM_NOFAIL \<noteq> 0 then umem_alloc L sz flags (snd r) else Some r)"

text \<open>The loop of the aligned allocation; the pointer keeps its value across failed calls.\<close>

partial_function (option) memalign_loop ::
    "'o libc \<Rightarrow> u64 \<Rightarrow> u64 \<Rightarrow> u64 \<Rightarrow> u32 \<Rightarrow> 'o heap \<Rightarrow> (nat \<times> u64 \<times> 'o heap) option" where
  "memalign_loop L ptr sz align flags s = (let r = c_memalign L s ptr align sz in
     if fst r = ENOMEM \<and> flags AND UMEM_NOFAIL \<noteq> 0
     then memalign_loop L (fst (snd r)) sz align flags (snd (snd r)) else Some r)"

definition umem_alloc_aligned ::
    "'o libc \<Rightarrow> u64 \<Rightarrow> u64 \<Rightarrow> u32 \<Rightarrow> 'o heap \<Rightarrow> (u64 outcome \<times> 'o heap) option" where
  "umem_alloc_aligned L sz align flags s = map_option (\<lambda>(rc, ptr, s').
     if rc = EINVAL then
       (if flags AND UMEM_NOFAIL \<noteq> 0 then Aborted else Return 0,
        s'\<lparr>errs := errs s' @ [''umem_alloc_aligned: invalid memory alignment'']\<rparr>)
     else (Return ptr, s')) (memalign_loop L 0 sz align flags s)"

definition umem_zalloc :: "'o libc \<Rightarrow> u64 \<Rightarrow> u32 \<Rightarrow> 'o heap \<Rightarrow> (u64 outcome \<times> 'o heap) option" where
  "umem_zalloc L sz flags s = map_option (\<lambda>(ptr, s').
     if ptr \<noteq> 0 then (case c_memset0 s' ptr sz of
         (Return _, s'') \<Rightarrow> (Return ptr, s'') | (Aborted, s'') \<Rightarrow> (Aborted, s'') | (Undefined, s'') \<Rightarrow> (Undefined, s''))
     else (Return ptr, s')) (umem_alloc L sz flags s)"

definition umem_free :: "'o heap \<Rightarrow> u64 \<Rightarrow> u64 \<Rightarrow> unit outcome \<times> 'o heap" where
  "umem_free s ptr sz = c_free s ptr"

definition umem_free_aligned :: "'o heap \<Rightarrow> u64 \<Rightarrow> u64 \<Rightarrow> unit outcome \<times> 'o heap" where
  "umem_free_aligned s ptr sz = c_free s ptr"

definition umem_cache_create ::
    "'o libc \<Rightarrow> string \<Rightarrow> u64 \<Rightarrow> u64 \<Rightarrow> (u64 \<Rightarrow> u64 \<Rightarrow> u32 \<Rightarrow> block_map \<Rightarrow> int \<times> block_map) option \<Rightarrow>
     (u64 \<Rightarrow> u64 \<Rightarrow> block_map \<Rightarrow> block_map) option \<Rightarrow> u64 \<Rightarrow> u64 \<Rightarrow> u64 \<Rightarrow> u32 \<Rightarrow> 'o heap \<Rightarrow> (u64 \<times> 'o heap) option" where
  "umem_cache_create L name bufsize align constructor destructor reclaim priv vmp cflags s =
    map_option (\<lambda>(cp, s'). if cp \<noteq> 0 then (cp, s'\<lparr>caches := (caches s')(cp \<mapsto>
       \<lparr>cache_name = take (UMEM_CACHE_NAMELEN - 1) name, cache_bufsize = bufsize, cache_align = align,
        cache_constructor = constructor, cache_destructor = destructor, cache_reclaim = reclaim,
        cache_private = priv, cache_arena = vmp, cache_cflags = cflags\<rparr>)\<rparr>) else (cp, s'))
     (umem_alloc L (of_nat (size_of 8 c_umem_cache)) UMEM_DEFAULT s)"

definition umem_cache_destroy :: "'o heap \<Rightarrow> u64 \<Rightarrow> unit outcome \<times> 'o heap" where
  "umem_cache_destroy s cp = (case umem_free s cp (of_nat (size_of 8 c_umem_cache)) of
     (r, s') \<Rightarrow> (r, s'\<lparr>caches := (caches s')(cp := None)\<rparr>))"

text \<open>The two halves of \<open>umem_cache_alloc\<close>: the allocation, and the constructor on what it gave.\<close>

definition cache_allocate :: "'o libc \<Rightarrow> umem_cache \<Rightarrow> u32 \<Rightarrow> 'o heap \<Rightarrow> (u64 outcome \<times> 'o heap) option" where
  "cache_allocate L c flags s =
    (if cache_align c \<noteq> 0 then umem_alloc_aligned L (cache_bufsize c) (cache_align c) flags s
     else map_option (\<lambda>(ptr, s'). (Return ptr, s')) (umem_alloc L (cache_bufsize c) flags s))"

definition cache_construct :: "umem_cache \<Rightarrow> u64 \<Rightarrow> 'o heap \<Rightarrow> 'o heap" where
  "cache_construct c ptr s = (case cache_constructor c of None \<Rightarrow> s
    | Some f \<Rightarrow> if ptr \<noteq> 0 then s\<lparr>blocks := snd (f ptr (cache_private c) UMEM_DEFAULT (blocks s))\<rparr> else s)"

definition umem_cache_alloc :: "'o libc \<Rightarrow> u64 \<Rightarrow> u32 \<Rightarrow> 'o heap \<Rightarrow> (u64 outcome \<times> 'o heap) option" where
  "umem_cache_alloc L cp flags s = (case caches s cp of None \<Rightarrow> Some (Undefined, s) | Some c \<Rightarrow>
     map_option (\<lambda>(r, s'). case r of Return ptr \<Rightarrow> (Return ptr, cache_construct c ptr s') | _ \<Rightarrow> (r, s'))
       (cache_allocate L c flags s))"

definition umem_cache_free :: "'o heap \<Rightarrow> u64 \<Rightarrow> u64 \<Rightarrow> unit outcome \<times> 'o heap" where
  "umem_cache_free s cp ptr = (case caches s cp of None \<Rightarrow> (Undefined, s) | Some c \<Rightarrow>
     let s' = (case cache_destructor c of None \<Rightarrow> s
         | Some f \<Rightarrow> s\<lparr>blocks := f ptr (cache_private c) (blocks s)\<rparr>) in
     if cache_align c \<noteq> 0 then umem_free_aligned s' ptr (cache_bufsize c) else umem_free s' ptr (cache_bufsize c))"

definition umem_cache_reap_now :: "'o heap \<Rightarrow> u64 \<Rightarrow> 'o heap" where
  "umem_cache_reap_now s cp = s"

section \<open>The contract of the C library\<close>

text \<open>An allocation of \<open>n\<close> bytes gives a fresh block with any contents, or a null pointer and no change.\<close>

definition alloc_result :: "'o heap \<Rightarrow> u64 \<Rightarrow> u64 \<Rightarrow> 'o heap \<Rightarrow> bool" where
  "alloc_result s n p s' \<longleftrightarrow> caches s' = caches s \<and> errs s' = errs s \<and>
     (if p = 0 then blocks s' = blocks s
      else blocks s p = None \<and> (\<exists>bs. length bs = unat n \<and> blocks s' = (blocks s)(p \<mapsto> bs)))"

text \<open>A power of two that is a multiple of the size of a pointer.\<close>

definition valid_align :: "u64 \<Rightarrow> bool" where
  "valid_align al \<longleftrightarrow> 8 \<le> al \<and> al AND (al - 1) = 0"

definition memalign_result :: "'o heap \<Rightarrow> u64 \<Rightarrow> u64 \<Rightarrow> u64 \<Rightarrow> nat \<Rightarrow> u64 \<Rightarrow> 'o heap \<Rightarrow> bool" where
  "memalign_result s q al n rc p s' \<longleftrightarrow>
     (if rc = 0 then valid_align al \<and> alloc_result s n p s' \<and> al dvd p
      else (rc = EINVAL \<and> \<not> valid_align al \<or> rc = ENOMEM \<and> valid_align al) \<and> p = q \<and> alloc_result s n 0 s')"

locale libc_alloc =
  fixes L :: "'o libc"
  assumes malloc_law: "c_malloc L s n = (p, s') \<Longrightarrow> alloc_result s n p s'"
    and memalign_law: "c_memalign L s q al n = (rc, p, s') \<Longrightarrow> memalign_result s q al n rc p s'"

text \<open>The state after \<open>k\<close> calls of \<open>malloc\<close> for \<open>n\<close> bytes.\<close>

fun after_mallocs :: "'o libc \<Rightarrow> u64 \<Rightarrow> nat \<Rightarrow> 'o heap \<Rightarrow> 'o heap" where
  "after_mallocs L n 0 s = s"
| "after_mallocs L n (Suc k) s = after_mallocs L n k (snd (c_malloc L s n))"

lemma alloc_result_after_failure:
  "alloc_result s n 0 s' \<Longrightarrow> alloc_result s' n p s'' \<Longrightarrow> alloc_result s n p s''"
  by (simp add: alloc_result_def split: if_splits)

section \<open>Allocation loops\<close>

lemma umem_alloc_step:
  "umem_alloc L sz flags s = (if fst (c_malloc L s sz) = 0 \<and> flags AND UMEM_NOFAIL \<noteq> 0
     then umem_alloc L sz flags (snd (c_malloc L s sz)) else Some (c_malloc L s sz))"
  by (subst umem_alloc.simps) (simp add: Let_def)

text \<open>What the loop returns is the result of some call of \<open>malloc\<close> after calls that all failed.\<close>

lemma umem_alloc_result:
  assumes "umem_alloc L sz flags s = Some r"
  shows "\<exists>k. (\<forall>j<k. fst (c_malloc L (after_mallocs L sz j s) sz) = 0) \<and> c_malloc L (after_mallocs L sz k s) sz = r \<and>
    (flags AND UMEM_NOFAIL \<noteq> 0 \<longrightarrow> fst r \<noteq> 0) \<and> (flags AND UMEM_NOFAIL = 0 \<longrightarrow> k = 0)"
proof (rule umem_alloc.raw_induct [where P = "\<lambda>L sz flags s r. \<exists>k. (\<forall>j<k. fst (c_malloc L (after_mallocs L sz j s) sz) = 0) \<and>
      c_malloc L (after_mallocs L sz k s) sz = r \<and> (flags AND UMEM_NOFAIL \<noteq> 0 \<longrightarrow> fst r \<noteq> 0) \<and>
      (flags AND UMEM_NOFAIL = 0 \<longrightarrow> k = 0)", OF _ assms])
  fix f and L :: "'b libc" and sz flags s r
  assume IH: "\<And>L sz flags s r. f L sz flags s = Some r \<Longrightarrow>
      \<exists>k. (\<forall>j<k. fst (c_malloc L (after_mallocs L sz j s) sz) = 0) \<and> c_malloc L (after_mallocs L sz k s) sz = r \<and>
        (flags AND UMEM_NOFAIL \<noteq> 0 \<longrightarrow> fst r \<noteq> 0) \<and> (flags AND UMEM_NOFAIL = 0 \<longrightarrow> k = 0)"
    and eq: "(let r = c_malloc L s sz in
       if fst r = 0 \<and> flags AND UMEM_NOFAIL \<noteq> 0 then f L sz flags (snd r) else Some r) = Some r"
  show "\<exists>k. (\<forall>j<k. fst (c_malloc L (after_mallocs L sz j s) sz) = 0) \<and> c_malloc L (after_mallocs L sz k s) sz = r \<and>
      (flags AND UMEM_NOFAIL \<noteq> 0 \<longrightarrow> fst r \<noteq> 0) \<and> (flags AND UMEM_NOFAIL = 0 \<longrightarrow> k = 0)"
  proof (cases "fst (c_malloc L s sz) = 0 \<and> flags AND UMEM_NOFAIL \<noteq> 0")
    case True
    then have "f L sz flags (snd (c_malloc L s sz)) = Some r" using eq by (simp add: Let_def)
    from IH [OF this] obtain k where k: "\<forall>j<k. fst (c_malloc L (after_mallocs L sz j (snd (c_malloc L s sz))) sz) = 0"
        "c_malloc L (after_mallocs L sz k (snd (c_malloc L s sz))) sz = r" "fst r \<noteq> 0"
      using True by blast
    have "\<forall>j<Suc k. fst (c_malloc L (after_mallocs L sz j s) sz) = 0"
    proof (intro allI impI)
      fix j assume "j < Suc k"
      with k(1) True show "fst (c_malloc L (after_mallocs L sz j s) sz) = 0" by (cases j) auto
    qed
    then show ?thesis using k(2,3) True by (intro exI [of _ "Suc k"]) simp
  next
    case False
    then have "c_malloc L s sz = r" using eq by (simp only: Let_def if_False option.inject)
    then show ?thesis using False by (intro exI [of _ 0]) auto
  qed
qed

lemma umem_alloc_returns:
  assumes "\<forall>j<k. fst (c_malloc L (after_mallocs L sz j s) sz) = 0" "fst (c_malloc L (after_mallocs L sz k s) sz) \<noteq> 0"
    "flags AND UMEM_NOFAIL \<noteq> 0"
  shows "umem_alloc L sz flags s = Some (c_malloc L (after_mallocs L sz k s) sz)"
  using assms(1,2)
proof (induction k arbitrary: s)
  case 0
  then show ?case by (subst umem_alloc_step) simp
next
  case (Suc k)
  have first: "fst (c_malloc L s sz) = 0" using Suc.prems(1) by (metis after_mallocs.simps(1) zero_less_Suc)
  have "\<forall>j<k. fst (c_malloc L (after_mallocs L sz j (snd (c_malloc L s sz))) sz) = 0"
    using Suc.prems(1) by (metis after_mallocs.simps(2) Suc_mono)
  moreover have "fst (c_malloc L (after_mallocs L sz k (snd (c_malloc L s sz))) sz) \<noteq> 0"
    using Suc.prems(2) by simp
  ultimately show ?case
    using Suc.IH [of "snd (c_malloc L s sz)"] first assms(3) by (subst umem_alloc_step) simp
qed

context libc_alloc
begin

lemma after_failures: "\<forall>j<k. fst (c_malloc L (after_mallocs L sz j s) sz) = 0 \<Longrightarrow>
    alloc_result s sz 0 (after_mallocs L sz k s)"
proof (induction k arbitrary: s)
  case 0
  show ?case by (simp add: alloc_result_def)
next
  case (Suc k)
  have first: "fst (c_malloc L s sz) = 0" using Suc.prems by (metis after_mallocs.simps(1) zero_less_Suc)
  then have a: "alloc_result s sz 0 (snd (c_malloc L s sz))" using malloc_law [of s sz] by (metis prod.collapse)
  have "\<forall>j<k. fst (c_malloc L (after_mallocs L sz j (snd (c_malloc L s sz))) sz) = 0"
    using Suc.prems by (metis after_mallocs.simps(2) Suc_mono)
  from Suc.IH [OF this] show ?case using alloc_result_after_failure [OF a] by simp
qed

lemma umem_alloc_sound:
  assumes "umem_alloc L sz flags s = Some (p, s')"
  shows "alloc_result s sz p s' \<and> (flags AND UMEM_NOFAIL \<noteq> 0 \<longrightarrow> p \<noteq> 0)"
proof -
  obtain k where k: "\<forall>j<k. fst (c_malloc L (after_mallocs L sz j s) sz) = 0"
      "c_malloc L (after_mallocs L sz k s) sz = (p, s')" "flags AND UMEM_NOFAIL \<noteq> 0 \<longrightarrow> p \<noteq> 0"
    using umem_alloc_result [OF assms] by auto
  show ?thesis using alloc_result_after_failure [OF after_failures [OF k(1)] malloc_law [OF k(2)]] k(3) by blast
qed

lemma umem_zalloc_sound:
  assumes "umem_zalloc L sz flags s = Some (r, s')"
  shows "\<exists>p. r = Return p \<and> (flags AND UMEM_NOFAIL \<noteq> 0 \<longrightarrow> p \<noteq> 0) \<and> caches s' = caches s \<and>
    (if p = 0 then blocks s' = blocks s
     else blocks s p = None \<and> blocks s' = (blocks s)(p \<mapsto> replicate (unat sz) 0))"
proof -
  obtain p s1 where a: "umem_alloc L sz flags s = Some (p, s1)"
    using assms by (auto simp: umem_zalloc_def)
  note res = umem_alloc_sound [OF a]
  show ?thesis
  proof (cases "p = 0")
    case True
    then show ?thesis using assms a res by (auto simp: umem_zalloc_def alloc_result_def)
  next
    case False
    with res have r: "blocks s p = None" "\<exists>bs. length bs = unat sz \<and> blocks s1 = (blocks s)(p \<mapsto> bs)"
        "caches s1 = caches s" by (simp_all add: alloc_result_def)
    then obtain bs where bs: "length bs = unat sz" "blocks s1 = (blocks s)(p \<mapsto> bs)" by blast
    have "c_memset0 s1 p sz = (Return (), s1\<lparr>blocks := (blocks s)(p \<mapsto> replicate (unat sz) 0)\<rparr>)"
      by (simp add: c_memset0_def bs)
    then have "r = Return p" "s' = s1\<lparr>blocks := (blocks s)(p \<mapsto> replicate (unat sz) 0)\<rparr>"
      using assms a False by (simp_all add: umem_zalloc_def)
    then show ?thesis using False r by simp
  qed
qed

end

section \<open>Aligned allocation\<close>

lemma memalign_after_failure:
  "memalign_result s q al n ENOMEM q' s' \<Longrightarrow> memalign_result s' q' al n rc p s'' \<Longrightarrow> memalign_result s q al n rc p s''"
  using alloc_result_after_failure [of s n s' p s''] alloc_result_after_failure [of s n s' 0 s'']
  by (auto simp: memalign_result_def EINVAL_def ENOMEM_def split: if_splits)

lemma memalign_loop_sound:
  assumes "memalign_loop L q sz al flags s = Some r" "libc_alloc L"
  shows "memalign_result s q al sz (fst r) (fst (snd r)) (snd (snd r)) \<and> (flags AND UMEM_NOFAIL \<noteq> 0 \<longrightarrow> fst r \<noteq> ENOMEM)"
proof -
  have "libc_alloc L \<longrightarrow> memalign_result s q al sz (fst r) (fst (snd r)) (snd (snd r)) \<and>
      (flags AND UMEM_NOFAIL \<noteq> 0 \<longrightarrow> fst r \<noteq> ENOMEM)"
  proof (rule memalign_loop.raw_induct [where P = "\<lambda>L q sz al flags s r. libc_alloc L \<longrightarrow>
        memalign_result s q al sz (fst r) (fst (snd r)) (snd (snd r)) \<and> (flags AND UMEM_NOFAIL \<noteq> 0 \<longrightarrow> fst r \<noteq> ENOMEM)",
        OF _ assms(1)], rule impI)
    fix f and L :: "'b libc" and q sz al flags s r
    assume IH: "\<And>L q sz al flags s r. f L q sz al flags s = Some r \<Longrightarrow> libc_alloc L \<longrightarrow>
        memalign_result s q al sz (fst r) (fst (snd r)) (snd (snd r)) \<and> (flags AND UMEM_NOFAIL \<noteq> 0 \<longrightarrow> fst r \<noteq> ENOMEM)"
      and eq: "(let r = c_memalign L s q al sz in
        if fst r = ENOMEM \<and> flags AND UMEM_NOFAIL \<noteq> 0 then f L (fst (snd r)) sz al flags (snd (snd r)) else Some r) = Some r"
      and L: "libc_alloc L"
    let ?c = "c_memalign L s q al sz"
    have one: "memalign_result s q al sz (fst ?c) (fst (snd ?c)) (snd (snd ?c))"
      using libc_alloc.memalign_law [OF L, of s q al sz] by simp
    show "memalign_result s q al sz (fst r) (fst (snd r)) (snd (snd r)) \<and> (flags AND UMEM_NOFAIL \<noteq> 0 \<longrightarrow> fst r \<noteq> ENOMEM)"
    proof (cases "fst ?c = ENOMEM \<and> flags AND UMEM_NOFAIL \<noteq> 0")
      case True
      then have "f L (fst (snd ?c)) sz al flags (snd (snd ?c)) = Some r" using eq by (simp add: Let_def)
      from IH [OF this] L show ?thesis using one True memalign_after_failure by metis
    next
      case False
      then have "?c = r" using eq by (simp only: Let_def if_False option.inject)
      then show ?thesis using one False by auto
    qed
  qed
  then show ?thesis using assms(2) by blast
qed

lemma umem_alloc_aligned_result:
  assumes "libc_alloc L" "umem_alloc_aligned L sz al flags s = Some (r, s')"
  shows "if valid_align al then \<exists>p. r = Return p \<and> al dvd p \<and> alloc_result s sz p s' \<and> errs s' = errs s
    else r = (if flags AND UMEM_NOFAIL \<noteq> 0 then Aborted else Return 0) \<and> blocks s' = blocks s \<and>
      length (errs s') = Suc (length (errs s))"
proof -
  obtain rc p s1 where m: "memalign_loop L 0 sz al flags s = Some (rc, p, s1)"
    using assms(2) by (auto simp: umem_alloc_aligned_def)
  from memalign_loop_sound [OF m assms(1)] have res: "memalign_result s 0 al sz rc p s1" by simp
  show ?thesis
  proof (cases "rc = EINVAL")
    case True
    then have "\<not> valid_align al" "alloc_result s sz 0 s1"
      using res by (auto simp: memalign_result_def EINVAL_def ENOMEM_def split: if_splits)
    then show ?thesis using assms(2) m True by (auto simp: umem_alloc_aligned_def alloc_result_def)
  next
    case False
    then have "valid_align al" "al dvd p" "alloc_result s sz p s1"
      using res by (auto simp: memalign_result_def split: if_splits)
    then show ?thesis using assms(2) m False by (auto simp: umem_alloc_aligned_def alloc_result_def)
  qed
qed

section \<open>An allocator that meets the contract\<close>

text \<open>
  Blocks at multiples of 4096, in order; the hidden state is the next address and a list that says
  of the coming calls whether each fails.
\<close>

definition bump :: "(u64 \<times> bool list) heap \<Rightarrow> u64 \<Rightarrow> u64 \<times> (u64 \<times> bool list) heap" where
  "bump s n = (case os s of (nx, fs) \<Rightarrow>
     if fs \<noteq> [] \<and> hd fs \<or> nx = 0 \<or> blocks s nx \<noteq> None then (0, s\<lparr>os := (nx, tl fs)\<rparr>)
     else (nx, s\<lparr>blocks := (blocks s)(nx \<mapsto> replicate (unat n) 0xaa), os := (nx + 4096, tl fs)\<rparr>))"

definition bump_libc :: "(u64 \<times> bool list) libc" where
  "bump_libc = \<lparr>c_malloc = bump, c_memalign = (\<lambda>s q al n.
     if \<not> valid_align al then (EINVAL, q, s)
     else case bump s n of (p, s') \<Rightarrow> if p = 0 \<or> \<not> al dvd p then (ENOMEM, q, s\<lparr>os := os s'\<rparr>) else (0, p, s'))\<rparr>"

lemma bump_result: "bump s n = (p, s') \<Longrightarrow> alloc_result s n p s'"
  by (auto simp: bump_def alloc_result_def intro: exI [of _ "replicate (unat n) 0xaa"] split: prod.splits if_splits)

interpretation bump: libc_alloc bump_libc
proof
  show "c_malloc bump_libc s n = (p, s') \<Longrightarrow> alloc_result s n p s'" for s n p s'
    by (simp add: bump_libc_def bump_result)
  show "c_memalign bump_libc s q al n = (rc, p, s') \<Longrightarrow> memalign_result s q al n rc p s'" for s q al n rc p s'
    using bump_result [of s n]
    by (auto simp: bump_libc_def memalign_result_def EINVAL_def ENOMEM_def alloc_result_def split: prod.splits if_splits)
qed

definition empty_heap :: "bool list \<Rightarrow> (u64 \<times> bool list) heap" where
  "empty_heap fs = \<lparr>blocks = (\<lambda>_. None), caches = (\<lambda>_. None), errs = [], os = (4096, fs)\<rparr>"

section \<open>Properties\<close>

text \<open>
  C13. An allocation returns exactly when failing is allowed or some later call of \<open>malloc\<close> succeeds;
  one that may fail makes a single call, and one that may not never returns a null pointer. So an
  allocation that may not fail, of a size for which \<open>malloc\<close> always gives a null pointer (it may
  for size 0), never returns.
\<close>

theorem umem_alloc_terminates:
  "((\<exists>r. umem_alloc L sz flags s = Some r) \<longleftrightarrow>
      flags AND UMEM_NOFAIL = 0 \<or> (\<exists>k. fst (c_malloc L (after_mallocs L sz k s) sz) \<noteq> 0)) \<and>
   (flags AND UMEM_NOFAIL = 0 \<longrightarrow> umem_alloc L sz flags s = Some (c_malloc L s sz)) \<and>
   (\<forall>p s'. flags AND UMEM_NOFAIL \<noteq> 0 \<longrightarrow> umem_alloc L sz flags s = Some (p, s') \<longrightarrow> p \<noteq> 0)"
proof (intro conjI allI impI)
  show "umem_alloc L sz flags s = Some (c_malloc L s sz)" if "flags AND UMEM_NOFAIL = 0"
    using that by (subst umem_alloc_step) simp
  show "p \<noteq> 0" if "flags AND UMEM_NOFAIL \<noteq> 0" "umem_alloc L sz flags s = Some (p, s')" for p s'
    using umem_alloc_result [OF that(2)] that(1) by auto
  show "(\<exists>r. umem_alloc L sz flags s = Some r) \<longleftrightarrow>
      flags AND UMEM_NOFAIL = 0 \<or> (\<exists>k. fst (c_malloc L (after_mallocs L sz k s) sz) \<noteq> 0)" (is "?l \<longleftrightarrow> ?r")
  proof
    assume ?l
    then obtain r where "umem_alloc L sz flags s = Some r" by blast
    from umem_alloc_result [OF this] show ?r by blast
  next
    assume ?r
    then show ?l
    proof
      assume "flags AND UMEM_NOFAIL = 0"
      then show ?l by (subst umem_alloc_step) simp
    next
      assume ex: "\<exists>k. fst (c_malloc L (after_mallocs L sz k s) sz) \<noteq> 0"
      define k where "k = (LEAST k. fst (c_malloc L (after_mallocs L sz k s) sz) \<noteq> 0)"
      have "fst (c_malloc L (after_mallocs L sz k s) sz) \<noteq> 0" unfolding k_def using ex by (rule LeastI_ex)
      moreover have "\<forall>j<k. fst (c_malloc L (after_mallocs L sz j s) sz) = 0"
        unfolding k_def using not_less_Least by blast
      ultimately show ?l using umem_alloc_returns [of k L sz s flags] umem_alloc_step [of L sz flags s]
        by (cases "flags AND UMEM_NOFAIL = 0") auto
    qed
  qed
qed

theorem umem_alloc_terminates_witness:
  "\<exists>r. umem_alloc bump_libc 16 UMEM_NOFAIL (empty_heap [True, True]) = Some r"
proof -
  have "fst (c_malloc bump_libc (after_mallocs bump_libc 16 (Suc (Suc 0)) (empty_heap [True, True])) 16) \<noteq> 0"
    by (simp add: bump_libc_def bump_def empty_heap_def)
  then show ?thesis using umem_alloc_terminates [of bump_libc 16 UMEM_NOFAIL "empty_heap [True, True]"] by blast
qed

text \<open>
  A zeroed allocation that returns gives a block that was not allocated, holding as many zero
  bytes as were asked for, and changes no other block; or, only where it may fail, a null pointer
  and no change. It never writes outside what it allocated.
\<close>

theorem umem_zalloc_safe:
  assumes "libc_alloc L" "umem_zalloc L sz flags s = Some (r, s')"
  shows "\<exists>p. r = Return p \<and> (flags AND UMEM_NOFAIL \<noteq> 0 \<longrightarrow> p \<noteq> 0) \<and> caches s' = caches s \<and>
    (if p = 0 then blocks s' = blocks s
     else blocks s p = None \<and> blocks s' = (blocks s)(p \<mapsto> replicate (unat sz) 0))"
  by (rule libc_alloc.umem_zalloc_sound [OF assms])

lemma bump_first: "c_malloc bump_libc (empty_heap []) n =
    (4096, (empty_heap [])\<lparr>blocks := [4096 \<mapsto> replicate (unat n) 0xaa], os := (8192, [])\<rparr>)"
  by (simp add: bump_libc_def bump_def empty_heap_def)

theorem umem_zalloc_safe_witness:
  "\<exists>p s'. umem_zalloc bump_libc 4 UMEM_NOFAIL (empty_heap []) = Some (Return p, s') \<and>
    p \<noteq> 0 \<and> blocks s' p = Some (replicate 4 0)"
proof -
  have "umem_alloc bump_libc 4 UMEM_NOFAIL (empty_heap []) = Some (c_malloc bump_libc (empty_heap []) 4)"
    by (subst umem_alloc_step) (simp add: bump_first)
  then obtain r s' where z: "umem_zalloc bump_libc 4 UMEM_NOFAIL (empty_heap []) = Some (r, s')"
    using prod.exhaust by (fastforce simp: umem_zalloc_def)
  have "UMEM_NOFAIL AND UMEM_NOFAIL \<noteq> 0" by (simp add: UMEM_NOFAIL_def)
  with umem_zalloc_safe [OF bump.libc_alloc_axioms z] z show ?thesis by auto
qed

text \<open>
  An aligned allocation with an alignment that is not a power of two of at least the size of a
  pointer prints a message and aborts if it may not fail, and gives a null pointer otherwise,
  allocating nothing; with a valid alignment it prints nothing, and what it returns is aligned, and
  fresh unless null.
\<close>

theorem umem_alloc_aligned_cases:
  assumes "libc_alloc L" "umem_alloc_aligned L sz al flags s = Some (r, s')"
  shows "if valid_align al then \<exists>p. r = Return p \<and> al dvd p \<and> alloc_result s sz p s' \<and> errs s' = errs s
    else r = (if flags AND UMEM_NOFAIL \<noteq> 0 then Aborted else Return 0) \<and> blocks s' = blocks s \<and>
      length (errs s') = Suc (length (errs s))"
  using umem_alloc_aligned_result [OF assms] .

theorem umem_alloc_aligned_cases_witness:
  "\<exists>s'. umem_alloc_aligned bump_libc 64 24 UMEM_NOFAIL (empty_heap []) = Some (Aborted, s')"
proof -
  have v: "\<not> valid_align 24" by (simp add: valid_align_def)
  then have "memalign_loop bump_libc 0 64 24 UMEM_NOFAIL (empty_heap []) = Some (EINVAL, 0, empty_heap [])"
    by (subst memalign_loop.simps) (simp add: bump_libc_def EINVAL_def ENOMEM_def)
  then obtain r s' where a: "umem_alloc_aligned bump_libc 64 24 UMEM_NOFAIL (empty_heap []) = Some (r, s')"
    by (simp add: umem_alloc_aligned_def)
  have "UMEM_NOFAIL AND UMEM_NOFAIL \<noteq> 0" by (simp add: UMEM_NOFAIL_def)
  with umem_alloc_aligned_cases [OF bump.libc_alloc_axioms a] v a show ?thesis by auto
qed

text \<open>A constructor or destructor that writes nothing but the object it is given.\<close>

definition ctor_local :: "(u64 \<Rightarrow> u64 \<Rightarrow> u32 \<Rightarrow> block_map \<Rightarrow> int \<times> block_map) option \<Rightarrow> bool" where
  "ctor_local f \<longleftrightarrow> (\<forall>g. f = Some g \<longrightarrow> (\<forall>p q fl b. p \<in> dom b \<longrightarrow> (\<exists>bs. snd (g p q fl b) = b(p \<mapsto> bs))))"

definition dtor_local :: "(u64 \<Rightarrow> u64 \<Rightarrow> block_map \<Rightarrow> block_map) option \<Rightarrow> bool" where
  "dtor_local f \<longleftrightarrow> (\<forall>g. f = Some g \<longrightarrow> (\<forall>p q b. p \<in> dom b \<longrightarrow> (\<exists>bs. g p q b = b(p \<mapsto> bs))))"

lemma cache_alloc_fresh:
  assumes "libc_alloc L" "caches s cp = Some c" "ctor_local (cache_constructor c)"
    and alloc: "umem_cache_alloc L cp flags s = Some (Return p, s1)" and "p \<noteq> 0"
  shows "blocks s p = None \<and> (\<exists>bs. blocks s1 = (blocks s)(p \<mapsto> bs)) \<and> caches s1 = caches s"
proof -
  obtain s' where raw: "cache_allocate L c flags s = Some (Return p, s')" and s1: "s1 = cache_construct c p s'"
  proof -
    obtain r s' where "cache_allocate L c flags s = Some (r, s')"
      using alloc assms(2) by (auto simp: umem_cache_alloc_def)
    then show ?thesis using alloc assms(2) by (intro that [of s']; cases r) (simp_all add: umem_cache_alloc_def)
  qed
  have "alloc_result s (cache_bufsize c) p s'"
  proof (cases "cache_align c = 0")
    case True
    then have "umem_alloc L (cache_bufsize c) flags s = Some (p, s')" using raw by (auto simp: cache_allocate_def)
    then show ?thesis using libc_alloc.umem_alloc_sound [OF assms(1)] by blast
  next
    case False
    then have a: "umem_alloc_aligned L (cache_bufsize c) (cache_align c) flags s = Some (Return p, s')"
      using raw by (simp add: cache_allocate_def)
    show ?thesis using umem_alloc_aligned_result [OF assms(1) a] assms(5) by (auto split: if_splits)
  qed
  then have f: "blocks s p = None" "caches s' = caches s" "\<exists>bs. blocks s' = (blocks s)(p \<mapsto> bs)"
    using assms(5) by (auto simp: alloc_result_def)
  then obtain bs where bs: "blocks s' = (blocks s)(p \<mapsto> bs)" by blast
  show ?thesis
  proof (cases "cache_constructor c")
    case None
    then show ?thesis using f s1 by (simp add: cache_construct_def)
  next
    case (Some g)
    have "p \<in> dom (blocks s')" using bs by simp
    then obtain bs' where "snd (g p (cache_private c) UMEM_DEFAULT (blocks s')) = (blocks s')(p \<mapsto> bs')"
      using assms(3) Some unfolding ctor_local_def by blast
    then show ?thesis using f(1,2) bs Some assms(5) by (auto simp: s1 cache_construct_def)
  qed
qed

text \<open>
  Freeing an object that a cache has just given returns the heap to the blocks it had before,
  whether the cache aligns its objects or not, for constructors and destructors that write only
  their object: no double free, no leak, no access outside the object.
\<close>

theorem umem_cache_roundtrip:
  assumes "libc_alloc L" "caches s cp = Some c" "ctor_local (cache_constructor c)" "dtor_local (cache_destructor c)"
    and "umem_cache_alloc L cp flags s = Some (Return p, s1)" and "p \<noteq> 0"
  shows "\<exists>s2. umem_cache_free s1 cp p = (Return (), s2) \<and> blocks s2 = blocks s \<and> caches s2 = caches s"
proof -
  obtain bs where f: "blocks s p = None" "blocks s1 = (blocks s)(p \<mapsto> bs)" "caches s1 = caches s"
    using cache_alloc_fresh [OF assms(1-3,5,6)] by blast
  define s' where "s' = (case cache_destructor c of None \<Rightarrow> s1
      | Some g \<Rightarrow> s1\<lparr>blocks := g p (cache_private c) (blocks s1)\<rparr>)"
  have "\<exists>bs'. blocks s' = (blocks s)(p \<mapsto> bs') \<and> caches s' = caches s"
  proof (cases "cache_destructor c")
    case None
    then show ?thesis using f by (auto simp: s'_def)
  next
    case (Some g)
    have "p \<in> dom (blocks s1)" using f by simp
    then obtain bs' where "g p (cache_private c) (blocks s1) = (blocks s1)(p \<mapsto> bs')"
      using assms(4) Some unfolding dtor_local_def by blast
    then show ?thesis using f Some by (auto simp: s'_def)
  qed
  then obtain bs' where b: "blocks s' = (blocks s)(p \<mapsto> bs')" "caches s' = caches s" by blast
  have "c_free s' p = (Return (), s'\<lparr>blocks := (blocks s')(p := None)\<rparr>)" using b assms(6) by (simp add: c_free_def)
  moreover have "(blocks s')(p := None) = blocks s" using b(1) f(1) by auto
  ultimately show ?thesis using assms(2) f(3) b(2)
    by (simp add: umem_cache_free_def umem_free_def umem_free_aligned_def s'_def [symmetric] Let_def)
qed

text \<open>A cache of 8-byte objects at 64, whose constructor fills the object with ones.\<close>

definition demo_cache :: umem_cache where
  "demo_cache = \<lparr>cache_name = ''demo'', cache_bufsize = 8, cache_align = 0,
     cache_constructor = Some (\<lambda>p q fl b. (- 1, b(p \<mapsto> replicate 8 1))),
     cache_destructor = Some (\<lambda>p q b. b(p \<mapsto> replicate 8 0)),
     cache_reclaim = 0, cache_private = 0, cache_arena = 0, cache_cflags = 0\<rparr>"

theorem umem_cache_roundtrip_witness:
  "\<exists>p s1 s2. umem_cache_alloc bump_libc 64 UMEM_NOFAIL ((empty_heap [True])\<lparr>caches := [64 \<mapsto> demo_cache]\<rparr>) = Some (Return p, s1) \<and>
     umem_cache_free s1 64 p = (Return (), s2) \<and> blocks s2 = Map.empty"
proof -
  let ?s = "(empty_heap [True])\<lparr>caches := [64 \<mapsto> demo_cache]\<rparr>"
  let ?f = "snd (c_malloc bump_libc ?s 8)"
  have one: "fst (c_malloc bump_libc ?s 8) = 0" and two: "fst (c_malloc bump_libc ?f 8) \<noteq> 0"
    by (simp_all add: bump_libc_def bump_def empty_heap_def)
  have "UMEM_NOFAIL AND UMEM_NOFAIL \<noteq> 0" by (simp add: UMEM_NOFAIL_def)
  then have "umem_alloc bump_libc 8 UMEM_NOFAIL ?s = Some (c_malloc bump_libc ?f 8)"
    using one two umem_alloc_step [of bump_libc 8 UMEM_NOFAIL ?s] umem_alloc_step [of bump_libc 8 UMEM_NOFAIL ?f] by simp
  then have "cache_allocate bump_libc demo_cache UMEM_NOFAIL ?s =
      Some (Return (fst (c_malloc bump_libc ?f 8)), snd (c_malloc bump_libc ?f 8))"
    by (simp add: cache_allocate_def demo_cache_def split: prod.splits)
  then obtain p s1 where a: "umem_cache_alloc bump_libc 64 UMEM_NOFAIL ?s = Some (Return p, s1)" "p \<noteq> 0"
    using two by (simp add: umem_cache_alloc_def)
  have "caches ?s 64 = Some demo_cache" "ctor_local (cache_constructor demo_cache)" "dtor_local (cache_destructor demo_cache)"
    by (auto simp: demo_cache_def ctor_local_def dtor_local_def)
  from umem_cache_roundtrip [OF bump.libc_alloc_axioms this a]
  obtain s2 where "umem_cache_free s1 64 p = (Return (), s2)" "blocks s2 = blocks ?s" by blast
  moreover have "blocks ?s = Map.empty" by (simp add: empty_heap_def)
  ultimately show ?thesis using a by auto
qed

end
