(* ===== verification/Spl_Locks.thy ===== *)
theory Spl_Locks
  imports Prelude
begin

text \<open>
  The locks of the Linux porting layer (\<open>compat/openzfs/os/linux/spl/sys/rwlock.h\<close> and
  \<open>mutex.h\<close>): a kernel lock and beside it the owner, which the wrappers set and clear in steps of
  their own. The kernel's semaphore and mutex are parameters under contracts; a thread is a number,
  the program of each thread is cut at the points where another thread can run, and the steps of
  all threads interleave freely. The configuration is the one without lock dependency tracking.
\<close>

section \<open>The kernel's reader-writer semaphore\<close>

text \<open>Taking it has no result where the kernel would block; trying gives no result on failure.\<close>

record 'm rwsem_ops =
  down_read :: "'m \<Rightarrow> nat \<Rightarrow> 'm option"
  down_write :: "'m \<Rightarrow> nat \<Rightarrow> 'm option"
  up_read :: "'m \<Rightarrow> nat \<Rightarrow> 'm"
  up_write :: "'m \<Rightarrow> nat \<Rightarrow> 'm"
  downgrade_write :: "'m \<Rightarrow> nat \<Rightarrow> 'm"
  rwsem_is_locked :: "'m \<Rightarrow> bool"
  init_rwsem :: 'm

text \<open>
  The contract speaks of the writer and the readers a semaphore has: a writer excludes everybody,
  a release by a holder removes it, a downgrade turns the writer into a reader.
\<close>

locale rwsem =
  fixes R :: "'m rwsem_ops" and writer :: "'m \<Rightarrow> nat option" and readers :: "'m \<Rightarrow> nat set"
  assumes init_law: "writer (init_rwsem R) = None" "readers (init_rwsem R) = {}"
    and down_read_law: "down_read R m t = Some m' \<Longrightarrow> writer m = None \<and> writer m' = None \<and> readers m' = insert t (readers m)"
    and down_write_law: "down_write R m t = Some m' \<Longrightarrow>
      writer m = None \<and> readers m = {} \<and> writer m' = Some t \<and> readers m' = {}"
    and up_read_law: "t \<in> readers m \<Longrightarrow> writer m = None \<Longrightarrow>
      writer (up_read R m t) = None \<and> readers (up_read R m t) = readers m - {t}"
    and up_write_law: "writer m = Some t \<Longrightarrow> readers m = {} \<Longrightarrow>
      writer (up_write R m t) = None \<and> readers (up_write R m t) = {}"
    and downgrade_law: "writer m = Some t \<Longrightarrow> readers m = {} \<Longrightarrow>
      writer (downgrade_write R m t) = None \<and> readers (downgrade_write R m t) = {t}"
    and is_locked_law: "rwsem_is_locked R m \<longleftrightarrow> writer m \<noteq> None \<or> readers m \<noteq> {}"

section \<open>The reader-writer lock\<close>

record 'm krwlock_t =
  rw_rwlock :: 'm
  rw_owner :: "nat option"

definition spl_rw_set_owner :: "nat \<Rightarrow> 'm krwlock_t \<Rightarrow> 'm krwlock_t" where
  "spl_rw_set_owner current rwp = rwp\<lparr>rw_owner := Some current\<rparr>"

definition spl_rw_clear_owner :: "'m krwlock_t \<Rightarrow> 'm krwlock_t" where
  "spl_rw_clear_owner rwp = rwp\<lparr>rw_owner := None\<rparr>"

definition RW_LOCK_HELD :: "'m rwsem_ops \<Rightarrow> 'm krwlock_t \<Rightarrow> bool" where
  "RW_LOCK_HELD R rwp \<longleftrightarrow> rwsem_is_locked R (rw_rwlock rwp)"

definition RW_WRITE_HELD :: "nat \<Rightarrow> 'm krwlock_t \<Rightarrow> bool" where
  "RW_WRITE_HELD current rwp \<longleftrightarrow> rw_owner rwp = Some current"

definition RW_READ_HELD :: "'m rwsem_ops \<Rightarrow> 'm krwlock_t \<Rightarrow> bool" where
  "RW_READ_HELD R rwp \<longleftrightarrow> RW_LOCK_HELD R rwp \<and> rw_owner rwp = None"

definition rw_init :: "'m rwsem_ops \<Rightarrow> 'm krwlock_t" where
  "rw_init R = spl_rw_clear_owner \<lparr>rw_rwlock = init_rwsem R, rw_owner = None\<rparr>"

definition rw_tryupgrade :: "nat \<Rightarrow> 'm krwlock_t \<Rightarrow> bool" where
  "rw_tryupgrade current rwp \<longleftrightarrow> RW_WRITE_HELD current rwp"

definition rw_destroy :: "bool \<Rightarrow> 'm rwsem_ops \<Rightarrow> 'm krwlock_t \<Rightarrow> unit option" where
  "rw_destroy nd R rwp = ASSERT nd (\<not> RW_LOCK_HELD R rwp)"

lemmas rw_defs = spl_rw_set_owner_def spl_rw_clear_owner_def RW_LOCK_HELD_def RW_WRITE_HELD_def
  RW_READ_HELD_def rw_init_def rw_tryupgrade_def

text \<open>
  Where a thread is: outside, holding for reading, between taking the semaphore for writing and
  setting the owner, holding for writing, between clearing the owner and releasing, and the same
  before downgrading. \<open>Failed\<close> is an assertion that fired.
\<close>

datatype rw_pc = Outside | Reading | Took_write | Writing | Exiting | Downgrading | Failed

record 'm rw_sys =
  lock :: "'m krwlock_t"
  at :: "nat \<Rightarrow> rw_pc"

definition goto :: "nat \<Rightarrow> rw_pc \<Rightarrow> 'm krwlock_t \<Rightarrow> 'm rw_sys \<Rightarrow> 'm rw_sys" where
  "goto t p l s = \<lparr>lock = l, at = (at s)(t := p)\<rparr>"

text \<open>
  The actions: entering or trying to enter as a reader or as a writer, both halves of the latter;
  leaving, where the branch is chosen by the owner as in the code; downgrading, both halves.
\<close>

inductive rw_step :: "'m rwsem_ops \<Rightarrow> 'm rw_sys \<Rightarrow> 'm rw_sys \<Rightarrow> bool" for R where
  enter_reader: "at s t = Outside \<Longrightarrow> down_read R (rw_rwlock (lock s)) t = Some m \<Longrightarrow>
    rw_step R s (goto t Reading ((lock s)\<lparr>rw_rwlock := m\<rparr>) s)"
| enter_writer: "at s t = Outside \<Longrightarrow> down_write R (rw_rwlock (lock s)) t = Some m \<Longrightarrow>
    rw_step R s (goto t Took_write ((lock s)\<lparr>rw_rwlock := m\<rparr>) s)"
| enter_writer_owner: "at s t = Took_write \<Longrightarrow> rw_step R s (goto t Writing (spl_rw_set_owner t (lock s)) s)"
| exit_write: "at s t = Reading \<or> at s t = Writing \<Longrightarrow> RW_WRITE_HELD t (lock s) \<Longrightarrow>
    rw_step R s (goto t Exiting (spl_rw_clear_owner (lock s)) s)"
| exit_write_up: "at s t = Exiting \<Longrightarrow>
    rw_step R s (goto t Outside ((lock s)\<lparr>rw_rwlock := up_write R (rw_rwlock (lock s)) t\<rparr>) s)"
| exit_read: "at s t = Reading \<or> at s t = Writing \<Longrightarrow> \<not> RW_WRITE_HELD t (lock s) \<Longrightarrow> RW_READ_HELD R (lock s) \<Longrightarrow>
    rw_step R s (goto t Outside ((lock s)\<lparr>rw_rwlock := up_read R (rw_rwlock (lock s)) t\<rparr>) s)"
| exit_assert: "at s t = Reading \<or> at s t = Writing \<Longrightarrow> \<not> RW_WRITE_HELD t (lock s) \<Longrightarrow> \<not> RW_READ_HELD R (lock s) \<Longrightarrow>
    rw_step R s (goto t Failed (lock s) s)"
| downgrade: "at s t = Writing \<Longrightarrow> rw_step R s (goto t Downgrading (spl_rw_clear_owner (lock s)) s)"
| downgrade_sem: "at s t = Downgrading \<Longrightarrow>
    rw_step R s (goto t Reading ((lock s)\<lparr>rw_rwlock := downgrade_write R (rw_rwlock (lock s)) t\<rparr>) s)"

inductive rw_reachable :: "'m rwsem_ops \<Rightarrow> 'm rw_sys \<Rightarrow> bool" for R where
  start: "rw_reachable R \<lparr>lock = rw_init R, at = (\<lambda>_. Outside)\<rparr>"
| step: "rw_reachable R s \<Longrightarrow> rw_step R s s' \<Longrightarrow> rw_reachable R s'"

text \<open>How the semaphore, the owner and the threads agree.\<close>

definition write_side :: "rw_pc \<Rightarrow> bool" where
  "write_side p \<longleftrightarrow> p \<in> {Took_write, Writing, Exiting, Downgrading}"

definition rw_agree :: "('m \<Rightarrow> nat option) \<Rightarrow> ('m \<Rightarrow> nat set) \<Rightarrow> 'm rw_sys \<Rightarrow> bool" where
  "rw_agree writer readers s \<longleftrightarrow>
     (\<forall>t. writer (rw_rwlock (lock s)) = Some t \<longleftrightarrow> write_side (at s t)) \<and>
     (\<forall>t. t \<in> readers (rw_rwlock (lock s)) \<longleftrightarrow> at s t = Reading) \<and>
     (writer (rw_rwlock (lock s)) \<noteq> None \<longrightarrow> readers (rw_rwlock (lock s)) = {}) \<and>
     (\<forall>t. rw_owner (lock s) = Some t \<longleftrightarrow> at s t = Writing) \<and> (\<forall>t. at s t \<noteq> Failed)"

text \<open>A holder recorded in one place and in the positions of the threads, after one thread moved.\<close>

lemma single_holder:
  assumes "\<And>u. h = Some u \<longleftrightarrow> P (f u)"
    and "h' = (if P p then Some t else if P (f t) then None else h)" and "P p \<Longrightarrow> \<not> P (f t) \<Longrightarrow> h = None"
  shows "h' = Some u \<longleftrightarrow> P ((f(t := p)) u)"
proof -
  have uniq: "P (f u) \<Longrightarrow> P (f v) \<Longrightarrow> u = v" for u v using assms(1) by (metis option.inject)
  have none: "h = None \<Longrightarrow> \<not> P (f u)" for u using assms(1) by (metis option.distinct(1))
  show ?thesis
    using assms uniq none by (cases "u = t"; cases "P (f t)") (auto split: if_splits)
qed

context rwsem
begin

lemma agree_init: "rw_agree writer readers \<lparr>lock = rw_init R, at = (\<lambda>_. Outside)\<rparr>"
  by (simp add: rw_agree_def rw_defs init_law write_side_def)

text \<open>A change of the semaphore, of the owner and of one thread keeps the agreement if they fit.\<close>

lemma agree_goto:
  assumes "rw_agree writer readers s" "p \<noteq> Failed"
    and "writer (rw_rwlock l) = (if write_side p then Some t
      else if write_side (at s t) then None else writer (rw_rwlock (lock s)))"
    and "readers (rw_rwlock l) = (if p = Reading then insert t (readers (rw_rwlock (lock s)))
      else readers (rw_rwlock (lock s)) - {t})"
    and "rw_owner l = (if p = Writing then Some t else if at s t = Writing then None else rw_owner (lock s))"
    and "write_side p \<Longrightarrow> \<not> write_side (at s t) \<Longrightarrow> writer (rw_rwlock (lock s)) = None"
    and "write_side p \<Longrightarrow> readers (rw_rwlock (lock s)) = {}"
    and "p = Reading \<Longrightarrow> \<not> write_side (at s t) \<Longrightarrow> writer (rw_rwlock (lock s)) = None"
    and "p = Writing \<Longrightarrow> rw_owner (lock s) = None"
  shows "rw_agree writer readers (goto t p l s)"
proof -
  let ?w = "writer (rw_rwlock (lock s))" let ?r = "readers (rw_rwlock (lock s))"
  have I: "\<And>u. ?w = Some u \<longleftrightarrow> write_side (at s u)" "\<And>u. u \<in> ?r \<longleftrightarrow> at s u = Reading"
    "?w \<noteq> None \<Longrightarrow> ?r = {}" "\<And>u. rw_owner (lock s) = Some u \<longleftrightarrow> at s u = Writing" "\<And>u. at s u \<noteq> Failed"
    using assms(1) unfolding rw_agree_def by blast+
  have w: "writer (rw_rwlock l) = Some u \<longleftrightarrow> write_side (((at s)(t := p)) u)" for u
    by (rule single_holder [where P = write_side and f = "at s", OF I(1) assms(3,6)])
  have r: "u \<in> readers (rw_rwlock l) \<longleftrightarrow> ((at s)(t := p)) u = Reading" for u
    using assms(4) I(2) by (cases "u = t") auto
  have o: "rw_owner l = Some u \<longleftrightarrow> ((at s)(t := p)) u = Writing" for u
    by (rule single_holder [where P = "\<lambda>p. p = Writing" and f = "at s", OF I(4) assms(5,9)])
  have x: "readers (rw_rwlock l) = {}" if "writer (rw_rwlock l) \<noteq> None"
  proof (cases "write_side p")
    case True
    then have "p \<noteq> Reading" by (auto simp: write_side_def)
    then show ?thesis using assms(4,7) True by simp
  next
    case False
    then have "\<not> write_side (at s t)" "writer (rw_rwlock l) = ?w" using that assms(3) by (auto split: if_splits)
    then show ?thesis using that assms(4,8) I(3) by (cases "p = Reading") auto
  qed
  show ?thesis unfolding rw_agree_def goto_def using w r o x I(5) assms(2) by auto
qed

lemma agree_step: "rw_step R s s' \<Longrightarrow> rw_agree writer readers s \<Longrightarrow> rw_agree writer readers s'"
proof (induction rule: rw_step.induct)
  case (enter_reader s t m)
  then show ?case
    by (intro agree_goto) (auto simp: write_side_def dest: down_read_law)
next
  case (enter_writer s t m)
  note law = down_write_law [OF enter_writer(2)]
  then show ?case using enter_writer law
    by (intro agree_goto) (auto simp: write_side_def)
next
  case (enter_writer_owner s t)
  have "writer (rw_rwlock (lock s)) = Some t" "readers (rw_rwlock (lock s)) = {}"
    using enter_writer_owner unfolding rw_agree_def write_side_def by auto
  moreover have "rw_owner (lock s) = None"
  proof (rule ccontr)
    assume "rw_owner (lock s) \<noteq> None"
    then obtain u where "rw_owner (lock s) = Some u" by blast
    then have "at s u = Writing" using enter_writer_owner unfolding rw_agree_def by blast
    then have "writer (rw_rwlock (lock s)) = Some u"
      using enter_writer_owner unfolding rw_agree_def write_side_def by blast
    then show False using calculation \<open>at s u = Writing\<close> enter_writer_owner by simp
  qed
  ultimately show ?case using enter_writer_owner
    by (intro agree_goto) (auto simp: write_side_def spl_rw_set_owner_def)
next
  case (exit_write s t)
  then have w: "at s t = Writing" unfolding rw_agree_def RW_WRITE_HELD_def by blast
  then have "writer (rw_rwlock (lock s)) = Some t" "readers (rw_rwlock (lock s)) = {}"
    using exit_write unfolding rw_agree_def write_side_def by auto
  then show ?case using exit_write w
    by (intro agree_goto) (auto simp: write_side_def spl_rw_clear_owner_def)
next
  case (exit_write_up s t)
  then have w: "writer (rw_rwlock (lock s)) = Some t" "readers (rw_rwlock (lock s)) = {}"
    unfolding rw_agree_def write_side_def by auto
  show ?case using exit_write_up up_write_law [OF w] w
    by (intro agree_goto) (auto simp: write_side_def)
next
  case (exit_read s t)
  then have r: "at s t = Reading" unfolding rw_agree_def RW_WRITE_HELD_def by blast
  then have "t \<in> readers (rw_rwlock (lock s))" "writer (rw_rwlock (lock s)) = None"
    using exit_read unfolding rw_agree_def by auto
  from up_read_law [OF this] this show ?case using exit_read r
    by (intro agree_goto) (auto simp: write_side_def)
next
  case (exit_assert s t)
  then have r: "at s t = Reading" unfolding rw_agree_def RW_WRITE_HELD_def by blast
  then have m: "t \<in> readers (rw_rwlock (lock s))" "writer (rw_rwlock (lock s)) = None"
    using exit_assert unfolding rw_agree_def by auto
  have "rw_owner (lock s) = None"
  proof (rule ccontr)
    assume "rw_owner (lock s) \<noteq> None"
    then obtain u where "at s u = Writing" using exit_assert unfolding rw_agree_def by blast
    then have "writer (rw_rwlock (lock s)) = Some u" using exit_assert unfolding rw_agree_def write_side_def by blast
    then show False using m by simp
  qed
  then have "RW_READ_HELD R (lock s)" using m is_locked_law by (auto simp: RW_READ_HELD_def RW_LOCK_HELD_def)
  then show ?case using exit_assert by simp
next
  case (downgrade s t)
  then have "writer (rw_rwlock (lock s)) = Some t" "readers (rw_rwlock (lock s)) = {}"
    unfolding rw_agree_def write_side_def by auto
  then show ?case using downgrade
    by (intro agree_goto) (auto simp: write_side_def spl_rw_clear_owner_def)
next
  case (downgrade_sem s t)
  then have w: "writer (rw_rwlock (lock s)) = Some t" "readers (rw_rwlock (lock s)) = {}"
    unfolding rw_agree_def write_side_def by auto
  show ?case using downgrade_sem downgrade_law [OF w] w
    by (intro agree_goto) (auto simp: write_side_def)
qed

lemma reachable_agree: "rw_reachable R s \<Longrightarrow> rw_agree writer readers s"
  by (induction rule: rw_reachable.induct) (simp_all add: agree_init agree_step)

end

text \<open>A semaphore that meets the contract: its writer and its readers.\<close>

definition sem_ops :: "(nat option \<times> nat set) rwsem_ops" where
  "sem_ops = \<lparr>down_read = (\<lambda>(w, r) t. if w = None then Some (None, insert t r) else None),
     down_write = (\<lambda>(w, r) t. if w = None \<and> r = {} then Some (Some t, {}) else None),
     up_read = (\<lambda>(w, r) t. (w, r - {t})), up_write = (\<lambda>(w, r) t. (None, r)),
     downgrade_write = (\<lambda>(w, r) t. (None, {t})),
     rwsem_is_locked = (\<lambda>(w, r). w \<noteq> None \<or> r \<noteq> {}), init_rwsem = (None, {})\<rparr>"

interpretation sem: rwsem sem_ops fst snd
  by unfold_locales (auto simp: sem_ops_def split: if_splits)

section \<open>The mutex\<close>

text \<open>
  The kernel's mutex: taking it gives no result while somebody holds it. Unlocking is two steps,
  giving the mutex up and finishing the call, which still uses the memory of the mutex: the kernel
  does not serialise the second with the next holder's work. The spinlock is its holder.
\<close>

record 'k mutex_ops =
  mutex_lock :: "'k \<Rightarrow> nat \<Rightarrow> 'k option"
  mutex_give_up :: "'k \<Rightarrow> nat \<Rightarrow> 'k"
  mutex_new :: 'k

locale kernel_mutex =
  fixes K :: "'k mutex_ops" and holder :: "'k \<Rightarrow> nat option"
  assumes new_law: "holder (mutex_new K) = None"
    and lock_law: "mutex_lock K m t = Some m' \<Longrightarrow> holder m = None \<and> holder m' = Some t"
    and give_up_law: "holder m = Some t \<Longrightarrow> holder (mutex_give_up K m t) = None"

record 'k kmutex_t =
  m_mutex :: 'k
  m_lock :: "nat option"
  m_owner :: "nat option"

definition spl_mutex_set_owner :: "nat \<Rightarrow> 'k kmutex_t \<Rightarrow> 'k kmutex_t" where
  "spl_mutex_set_owner current mp = mp\<lparr>m_owner := Some current\<rparr>"

definition spl_mutex_clear_owner :: "'k kmutex_t \<Rightarrow> 'k kmutex_t" where
  "spl_mutex_clear_owner mp = mp\<lparr>m_owner := None\<rparr>"

definition mutex_owned :: "nat \<Rightarrow> 'k kmutex_t \<Rightarrow> bool" where
  "mutex_owned current mp \<longleftrightarrow> m_owner mp = Some current"

definition mutex_init :: "'k mutex_ops \<Rightarrow> 'k kmutex_t" where
  "mutex_init K = spl_mutex_clear_owner \<lparr>m_mutex = mutex_new K, m_lock = None, m_owner = None\<rparr>"

definition mutex_destroy :: "'k kmutex_t \<Rightarrow> unit option" where
  "mutex_destroy mp = VERIFY (m_owner mp = None)"

lemmas mutex_defs = spl_mutex_set_owner_def spl_mutex_clear_owner_def mutex_owned_def mutex_init_def

text \<open>
  Where a thread is: outside; with the mutex but not yet its owner; inside; leaving with the owner
  cleared; with the spinlock; after giving the mutex up but inside the kernel's unlock; after it.
\<close>

datatype mx_pc = M_out | M_took | M_in | M_cleared | M_spin | M_given_up | M_unlocked | M_failed

record 'k mx_sys =
  mutex :: "'k kmutex_t"
  pc :: "nat \<Rightarrow> mx_pc"

definition mgoto :: "nat \<Rightarrow> mx_pc \<Rightarrow> 'k kmutex_t \<Rightarrow> 'k mx_sys \<Rightarrow> 'k mx_sys" where
  "mgoto t p l s = \<lparr>mutex = l, pc = (pc s)(t := p)\<rparr>"

inductive mx_step :: "'k mutex_ops \<Rightarrow> 'k mx_sys \<Rightarrow> 'k mx_sys \<Rightarrow> bool" for K where
  enter: "pc s t = M_out \<Longrightarrow> \<not> mutex_owned t (mutex s) \<Longrightarrow> mutex_lock K (m_mutex (mutex s)) t = Some m \<Longrightarrow>
    mx_step K s (mgoto t M_took ((mutex s)\<lparr>m_mutex := m\<rparr>) s)"
| enter_assert: "pc s t = M_out \<Longrightarrow> mutex_owned t (mutex s) \<Longrightarrow> mx_step K s (mgoto t M_failed (mutex s) s)"
| enter_owner: "pc s t = M_took \<Longrightarrow> mx_step K s (mgoto t M_in (spl_mutex_set_owner t (mutex s)) s)"
| exit_assert: "pc s t = M_in \<Longrightarrow> \<not> mutex_owned t (mutex s) \<Longrightarrow> mx_step K s (mgoto t M_failed (mutex s) s)"
| exit_owner: "pc s t = M_in \<Longrightarrow> mutex_owned t (mutex s) \<Longrightarrow>
    mx_step K s (mgoto t M_cleared (spl_mutex_clear_owner (mutex s)) s)"
| exit_spin: "pc s t = M_cleared \<Longrightarrow> m_lock (mutex s) = None \<Longrightarrow>
    mx_step K s (mgoto t M_spin ((mutex s)\<lparr>m_lock := Some t\<rparr>) s)"
| exit_give_up: "pc s t = M_spin \<Longrightarrow>
    mx_step K s (mgoto t M_given_up ((mutex s)\<lparr>m_mutex := mutex_give_up K (m_mutex (mutex s)) t\<rparr>) s)"
| exit_unlocked: "pc s t = M_given_up \<Longrightarrow> mx_step K s (mgoto t M_unlocked (mutex s) s)"
| exit_unspin: "pc s t = M_unlocked \<Longrightarrow> mx_step K s (mgoto t M_out ((mutex s)\<lparr>m_lock := None\<rparr>) s)"

inductive mx_reachable :: "'k mutex_ops \<Rightarrow> 'k mx_sys \<Rightarrow> bool" for K where
  start: "mx_reachable K \<lparr>mutex = mutex_init K, pc = (\<lambda>_. M_out)\<rparr>"
| step: "mx_reachable K s \<Longrightarrow> mx_step K s s' \<Longrightarrow> mx_reachable K s'"

definition has_mutex :: "mx_pc \<Rightarrow> bool" where
  "has_mutex p \<longleftrightarrow> p \<in> {M_took, M_in, M_cleared, M_spin}"

definition has_spin :: "mx_pc \<Rightarrow> bool" where
  "has_spin p \<longleftrightarrow> p \<in> {M_spin, M_given_up, M_unlocked}"

definition mx_agree :: "('k \<Rightarrow> nat option) \<Rightarrow> 'k mx_sys \<Rightarrow> bool" where
  "mx_agree holder s \<longleftrightarrow>
     (\<forall>t. holder (m_mutex (mutex s)) = Some t \<longleftrightarrow> has_mutex (pc s t)) \<and>
     (\<forall>t. m_lock (mutex s) = Some t \<longleftrightarrow> has_spin (pc s t)) \<and>
     (\<forall>t. m_owner (mutex s) = Some t \<longleftrightarrow> pc s t = M_in) \<and> (\<forall>t. pc s t \<noteq> M_failed)"

context kernel_mutex
begin

lemma mx_agree_init: "mx_agree holder \<lparr>mutex = mutex_init K, pc = (\<lambda>_. M_out)\<rparr>"
  by (simp add: mx_agree_def mutex_defs new_law has_mutex_def has_spin_def)

lemma mx_agree_goto:
  assumes "mx_agree holder s" "p \<noteq> M_failed"
    and "holder (m_mutex l) = (if has_mutex p then Some t
      else if has_mutex (pc s t) then None else holder (m_mutex (mutex s)))"
    and "m_lock l = (if has_spin p then Some t else if has_spin (pc s t) then None else m_lock (mutex s))"
    and "m_owner l = (if p = M_in then Some t else if pc s t = M_in then None else m_owner (mutex s))"
    and "has_mutex p \<Longrightarrow> \<not> has_mutex (pc s t) \<Longrightarrow> holder (m_mutex (mutex s)) = None"
    and "has_spin p \<Longrightarrow> \<not> has_spin (pc s t) \<Longrightarrow> m_lock (mutex s) = None"
    and "p = M_in \<Longrightarrow> pc s t \<noteq> M_in \<Longrightarrow> m_owner (mutex s) = None"
  shows "mx_agree holder (mgoto t p l s)"
proof -
  have I: "\<And>u. holder (m_mutex (mutex s)) = Some u \<longleftrightarrow> has_mutex (pc s u)"
    "\<And>u. m_lock (mutex s) = Some u \<longleftrightarrow> has_spin (pc s u)"
    "\<And>u. m_owner (mutex s) = Some u \<longleftrightarrow> pc s u = M_in" "\<And>u. pc s u \<noteq> M_failed"
    using assms(1) unfolding mx_agree_def by blast+
  have "holder (m_mutex l) = Some u \<longleftrightarrow> has_mutex (((pc s)(t := p)) u)" for u
    by (rule single_holder [where P = has_mutex and f = "pc s", OF I(1) assms(3,6)])
  moreover have "m_lock l = Some u \<longleftrightarrow> has_spin (((pc s)(t := p)) u)" for u
    by (rule single_holder [where P = has_spin and f = "pc s", OF I(2) assms(4,7)])
  moreover have "m_owner l = Some u \<longleftrightarrow> ((pc s)(t := p)) u = M_in" for u
    by (rule single_holder [where P = "\<lambda>p. p = M_in" and f = "pc s", OF I(3) assms(5,8)])
  ultimately show ?thesis unfolding mx_agree_def mgoto_def using I(4) assms(2) by auto
qed

lemma mx_agree_step: "mx_step K s s' \<Longrightarrow> mx_agree holder s \<Longrightarrow> mx_agree holder s'"
proof (induction rule: mx_step.induct)
  case (enter s t m)
  then show ?case using lock_law [OF enter(3)] by (intro mx_agree_goto) (auto simp: has_mutex_def has_spin_def)
next
  case (enter_assert s t)
  then show ?case unfolding mx_agree_def mutex_owned_def by (metis mx_pc.distinct(3))
next
  case (enter_owner s t)
  have own: "m_owner (mutex s) = None"
  proof (rule ccontr)
    assume "m_owner (mutex s) \<noteq> None"
    then obtain u where u: "pc s u = M_in" using enter_owner unfolding mx_agree_def by blast
    then have "holder (m_mutex (mutex s)) = Some u" "holder (m_mutex (mutex s)) = Some t"
      using enter_owner unfolding mx_agree_def has_mutex_def by auto
    then show False using u enter_owner by simp
  qed
  have "holder (m_mutex (mutex s)) = Some t" using enter_owner unfolding mx_agree_def has_mutex_def by auto
  then show ?case using enter_owner own
    by (intro mx_agree_goto) (auto simp: has_mutex_def has_spin_def spl_mutex_set_owner_def)
next
  case (exit_assert s t)
  then show ?case unfolding mx_agree_def mutex_owned_def by blast
next
  case (exit_owner s t)
  then have "holder (m_mutex (mutex s)) = Some t" unfolding mx_agree_def has_mutex_def by auto
  then show ?case using exit_owner
    by (intro mx_agree_goto) (auto simp: has_mutex_def has_spin_def spl_mutex_clear_owner_def)
next
  case (exit_spin s t)
  then have "holder (m_mutex (mutex s)) = Some t" unfolding mx_agree_def has_mutex_def by auto
  then show ?case using exit_spin by (intro mx_agree_goto) (auto simp: has_mutex_def has_spin_def)
next
  case (exit_give_up s t)
  then have "holder (m_mutex (mutex s)) = Some t" "m_lock (mutex s) = Some t"
    unfolding mx_agree_def has_mutex_def has_spin_def by auto
  then show ?case using exit_give_up give_up_law
    by (intro mx_agree_goto) (auto simp: has_mutex_def has_spin_def)
next
  case (exit_unlocked s t)
  then have "m_lock (mutex s) = Some t" unfolding mx_agree_def has_spin_def by auto
  then show ?case using exit_unlocked by (intro mx_agree_goto) (auto simp: has_mutex_def has_spin_def)
next
  case (exit_unspin s t)
  then show ?case by (intro mx_agree_goto) (auto simp: has_mutex_def has_spin_def)
qed

lemma mx_reachable_agree: "mx_reachable K s \<Longrightarrow> mx_agree holder s"
  by (induction rule: mx_reachable.induct) (simp_all add: mx_agree_init mx_agree_step)

end

text \<open>A mutex that meets the contract: its holder.\<close>

definition holder_ops :: "nat option mutex_ops" where
  "holder_ops = \<lparr>mutex_lock = (\<lambda>m t. if m = None then Some (Some t) else None),
     mutex_give_up = (\<lambda>m t. None), mutex_new = None\<rparr>"

interpretation holder: kernel_mutex holder_ops "\<lambda>m. m"
  by unfold_locales (auto simp: holder_ops_def split: if_splits)

section \<open>Properties\<close>

text \<open>
  C11. In every state threads can reach through any interleaving of enters, exits and downgrades,
  the write test is true for exactly the thread that holds the lock for writing, nobody else is
  then reading or writing, the read test is true for every reader, and no exit finds the lock in a
  state it does not expect.
\<close>

theorem rwlock_exclusion:
  assumes "rwsem R writer readers" "rw_reachable R s"
  shows "(RW_WRITE_HELD t (lock s) \<longleftrightarrow> at s t = Writing) \<and>
    (RW_WRITE_HELD t (lock s) \<longrightarrow> (\<forall>u. u \<noteq> t \<longrightarrow> at s u = Outside)) \<and>
    (at s t = Reading \<longrightarrow> RW_READ_HELD R (lock s)) \<and> at s t \<noteq> Failed"
proof -
  have agree: "rw_agree writer readers s" by (rule rwsem.reachable_agree [OF assms])
  have I: "\<And>u. writer (rw_rwlock (lock s)) = Some u \<longleftrightarrow> write_side (at s u)"
    "\<And>u. u \<in> readers (rw_rwlock (lock s)) \<longleftrightarrow> at s u = Reading"
    "writer (rw_rwlock (lock s)) \<noteq> None \<Longrightarrow> readers (rw_rwlock (lock s)) = {}"
    "\<And>u. rw_owner (lock s) = Some u \<longleftrightarrow> at s u = Writing" "\<And>u. at s u \<noteq> Failed"
    using agree unfolding rw_agree_def by blast+
  have alone: "at s u = Outside" if "at s t = Writing" "u \<noteq> t" for u
  proof -
    have w: "writer (rw_rwlock (lock s)) = Some t" using that I(1) by (simp add: write_side_def)
    then have "\<not> write_side (at s u)" "at s u \<noteq> Reading" using I(1) [of u] I(2) [of u] I(3) that(2) by auto
    then show ?thesis using I(5) [of u] by (cases "at s u") (auto simp: write_side_def)
  qed
  have "RW_READ_HELD R (lock s)" if r: "at s t = Reading"
  proof -
    have m: "t \<in> readers (rw_rwlock (lock s))" using I(2) r by simp
    then have "writer (rw_rwlock (lock s)) = None" using I(3) by blast
    then have "rw_owner (lock s) = None" using I(1) I(4) by (metis insertCI not_Some_eq option.distinct(1) write_side_def)
    then show ?thesis using m rwsem.is_locked_law [OF assms(1)] by (auto simp: RW_READ_HELD_def RW_LOCK_HELD_def)
  qed
  then show ?thesis using alone I(4,5) by (auto simp: RW_WRITE_HELD_def)
qed

lemma writer_taken: "rw_reachable sem_ops (goto 1 Took_write ((rw_init sem_ops)\<lparr>rw_rwlock := (Some 1, {})\<rparr>)
    \<lparr>lock = rw_init sem_ops, at = (\<lambda>_. Outside)\<rparr>)"
proof (rule rw_reachable.step [OF rw_reachable.start])
  let ?s = "\<lparr>lock = rw_init sem_ops, at = (\<lambda>_ :: nat. Outside)\<rparr>"
  have "down_write sem_ops (rw_rwlock (lock ?s)) 1 = Some (Some 1, {})"
    by (simp add: sem_ops_def rw_init_def spl_rw_clear_owner_def)
  from rw_step.enter_writer [OF _ this] show "rw_step sem_ops ?s (goto 1 Took_write ((rw_init sem_ops)\<lparr>rw_rwlock := (Some 1, {})\<rparr>) ?s)"
    by simp
qed

theorem rwlock_exclusion_witness:
  "\<exists>s. rw_reachable sem_ops s \<and> RW_WRITE_HELD 1 (lock s) \<and> at s 2 = Outside"
proof -
  let ?s = "goto 1 Took_write ((rw_init sem_ops)\<lparr>rw_rwlock := (Some 1, {})\<rparr>) \<lparr>lock = rw_init sem_ops, at = (\<lambda>_. Outside)\<rparr>"
  let ?s' = "goto 1 Writing (spl_rw_set_owner 1 (lock ?s)) ?s"
  have r: "rw_reachable sem_ops ?s'"
    by (rule rw_reachable.step [OF writer_taken rw_step.enter_writer_owner]) (simp add: goto_def)
  have "at ?s' 1 = Writing" by (simp add: goto_def)
  with rwlock_exclusion [OF sem.rwsem_axioms r, of 1] have "RW_WRITE_HELD 1 (lock ?s')" "at ?s' 2 = Outside" by auto
  then show ?thesis using r by blast
qed

text \<open>
  The read test is weaker than its name: a state can be reached where it is true although no
  thread is reading, because a writer has the semaphore and has not set the owner yet; the write
  test and the upgrade, which never succeeds for a reader, are false there.
\<close>

theorem rwlock_read_test_imprecise:
  "\<exists>s. rw_reachable sem_ops s \<and> RW_READ_HELD sem_ops (lock s) \<and> (\<forall>t. at s t \<noteq> Reading) \<and>
     (\<exists>t. at s t = Took_write) \<and> (\<forall>t. \<not> RW_WRITE_HELD t (lock s) \<and> \<not> rw_tryupgrade t (lock s))"
  by (rule exI, rule conjI, rule writer_taken)
    (auto simp: goto_def RW_READ_HELD_def RW_LOCK_HELD_def RW_WRITE_HELD_def rw_tryupgrade_def
      rw_init_def spl_rw_clear_owner_def sem_ops_def)

text \<open>
  C12. At most one thread is ever inside a mutex, the ownership test is true for exactly that
  thread, no assertion of entering or leaving fires, and when a thread is about to complete
  leaving, no other is still inside the kernel's unlock: so when all are outside the mutex may be
  destroyed, and its memory freed by the last to leave.
\<close>

theorem mutex_exit_serialized:
  assumes "kernel_mutex K holder" "mx_reachable K s"
  shows "(mutex_owned t (mutex s) \<longleftrightarrow> pc s t = M_in) \<and>
    (pc s t = M_in \<and> pc s u = M_in \<longrightarrow> t = u) \<and> pc s t \<noteq> M_failed \<and>
    (pc s t = M_unlocked \<and> u \<noteq> t \<longrightarrow> pc s u \<notin> {M_spin, M_given_up, M_unlocked}) \<and>
    ((\<forall>v. pc s v = M_out) \<longrightarrow> mutex_destroy (mutex s) = Some () \<and> m_lock (mutex s) = None)"
proof -
  have agree: "mx_agree holder s" by (rule kernel_mutex.mx_reachable_agree [OF assms])
  have I: "\<And>u. m_lock (mutex s) = Some u \<longleftrightarrow> has_spin (pc s u)"
    "\<And>u. m_owner (mutex s) = Some u \<longleftrightarrow> pc s u = M_in" "\<And>u. pc s u \<noteq> M_failed"
    using agree unfolding mx_agree_def by blast+
  have "pc s u \<notin> {M_spin, M_given_up, M_unlocked}" if "pc s t = M_unlocked" "u \<noteq> t"
    using I(1) [of t] I(1) [of u] that by (auto simp: has_spin_def)
  moreover have "t = u" if "pc s t = M_in" "pc s u = M_in"
    using I(2) [of t] I(2) [of u] that by auto
  moreover have "m_owner (mutex s) = None \<and> m_lock (mutex s) = None" if "\<forall>v. pc s v = M_out"
    using I(1,2) that by (metis has_spin_def insertE empty_iff mx_pc.distinct not_Some_eq)
  ultimately show ?thesis using I(2,3) by (auto simp: mutex_owned_def mutex_destroy_def)
qed

lemma holder_inside:
  "\<exists>s. mx_reachable holder_ops s \<and> pc s 1 = M_in"
proof -
  let ?s = "\<lparr>mutex = mutex_init holder_ops, pc = (\<lambda>_ :: nat. M_out)\<rparr>"
  have l: "mutex_lock holder_ops (m_mutex (mutex ?s)) 1 = Some (Some 1)"
    by (simp add: holder_ops_def mutex_init_def spl_mutex_clear_owner_def)
  let ?s1 = "mgoto 1 M_took ((mutex ?s)\<lparr>m_mutex := Some 1\<rparr>) ?s"
  have "mx_reachable holder_ops ?s1"
    by (rule mx_reachable.step [OF mx_reachable.start mx_step.enter [OF _ _ l]])
      (simp_all add: mutex_owned_def mutex_init_def spl_mutex_clear_owner_def)
  then have "mx_reachable holder_ops (mgoto 1 M_in (spl_mutex_set_owner 1 (mutex ?s1)) ?s1)"
    by (rule mx_reachable.step [OF _ mx_step.enter_owner]) (simp add: mgoto_def)
  moreover have "pc (mgoto 1 M_in (spl_mutex_set_owner 1 (mutex ?s1)) ?s1) 1 = M_in" by (simp add: mgoto_def)
  ultimately show ?thesis by blast
qed

theorem mutex_exit_serialized_witness:
  "\<exists>s. mx_reachable holder_ops s \<and> mutex_owned 1 (mutex s) \<and> \<not> mutex_owned 2 (mutex s)"
proof -
  obtain s where s: "mx_reachable holder_ops s" "pc s 1 = M_in" using holder_inside by blast
  from mutex_exit_serialized [OF holder.kernel_mutex_axioms s(1), of 1 2]
    mutex_exit_serialized [OF holder.kernel_mutex_axioms s(1), of 2 1] s
  show ?thesis by auto
qed

end
