(* ===== verification/Spl_Uio.thy ===== *)
theory Spl_Uio
  imports Sysmacros
begin

unbundle bit_operations_syntax

text \<open>
  The I/O descriptor of the Linux porting layer (\<open>compat/openzfs/os/linux/spl/sys/uio.h\<close>) and the
  helpers over it (\<open>compat/openzfs/sys/uio_impl.h\<close>): initialisation from its three sources,
  advancing, the alignment tests of direct I/O, and the loop that finds the vector element that
  holds an offset. The kernel structures an initialiser reads are records of the fields it reads.
\<close>

section \<open>The descriptor\<close>

datatype zfs_uio_seg_t = UIO_SYSSPACE | UIO_BVEC | UIO_ITER
datatype zfs_uio_rw_t = UIO_READ | UIO_WRITE

definition UIO_DIRECT :: u16 where "UIO_DIRECT = 0x0001"

text \<open>The union of the descriptor: base and length of each element, or an iterator.\<close>

datatype uio_vec = Iov "(u64 \<times> u64) list" | Bvec "(u64 \<times> u64) list" | Iter u64

record zfs_uio_dio_t =
  pages :: u64
  npages :: u64
  pinned :: bool

record zfs_uio_t =
  uio_vec :: uio_vec
  uio_iovcnt :: u32
  uio_soffset :: u64
  uio_loffset :: u64
  uio_segflg :: zfs_uio_seg_t
  uio_fault_disable :: bool
  uio_fmode :: u16
  uio_extflg :: u16
  uio_resid :: u64
  uio_skip :: u64
  uio_dio :: zfs_uio_dio_t
  rq :: u64

definition zfs_uio_setoffset :: "zfs_uio_t \<Rightarrow> u64 \<Rightarrow> zfs_uio_t" where
  "zfs_uio_setoffset uio off = uio\<lparr>uio_loffset := off\<rparr>"

definition zfs_uio_setsoffset :: "bool \<Rightarrow> zfs_uio_t \<Rightarrow> u64 \<Rightarrow> zfs_uio_t option" where
  "zfs_uio_setsoffset nd uio off = do {
     ASSERT3U nd (uio_loffset uio) (=) off;
     Some (uio\<lparr>uio_soffset := off\<rparr>) }"

definition zfs_uio_advance :: "zfs_uio_t \<Rightarrow> u64 \<Rightarrow> zfs_uio_t" where
  "zfs_uio_advance uio sz = uio\<lparr>uio_resid := uio_resid uio - sz, uio_loffset := uio_loffset uio + sz\<rparr>"

definition no_dio :: zfs_uio_dio_t where
  "no_dio = \<lparr>pages = 0, npages = 0, pinned = False\<rparr>"

definition zfs_uio_iovec_init ::
    "bool \<Rightarrow> zfs_uio_t \<Rightarrow> (u64 \<times> u64) list \<Rightarrow> u64 \<Rightarrow> u64 \<Rightarrow> zfs_uio_seg_t \<Rightarrow> u64 \<Rightarrow> u64 \<Rightarrow> zfs_uio_t option" where
  "zfs_uio_iovec_init nd uio iov nr_segs offset seg resid skip = do {
     ASSERT nd (seg = UIO_SYSSPACE);
     Some (uio\<lparr>uio_vec := Iov iov, uio_iovcnt := ucast nr_segs, uio_loffset := offset, uio_segflg := seg,
       uio_fault_disable := False, uio_fmode := 0, uio_extflg := 0, uio_resid := resid, uio_skip := skip,
       uio_soffset := offset, uio_dio := no_dio\<rparr>) }"

text \<open>The fields of a block I/O and of a request that \<open>zfs_uio_bvec_init\<close> reads.\<close>

record bio =
  bi_vcnt :: u16
  bi_io_vec :: "(u64 \<times> u64) list"
  bi_idx :: u32
  bi_sector :: u64
  bi_size :: u32
  bi_bvec_done :: u32

record request =
  rq_addr :: u64
  rq_pos :: u64
  rq_bytes :: u32

definition io_offset :: "bio option \<Rightarrow> request option \<Rightarrow> u64 option" where
  "io_offset b r = (case r of Some r \<Rightarrow> Some (push_bit 9 (rq_pos r))
    | None \<Rightarrow> map_option (\<lambda>b. push_bit 9 (bi_sector b)) b)"

definition io_size :: "bio option \<Rightarrow> request option \<Rightarrow> u64 option" where
  "io_size b r = (case r of Some r \<Rightarrow> Some (ucast (rq_bytes r)) | None \<Rightarrow> map_option (\<lambda>b. ucast (bi_size b)) b)"

text \<open>With neither source the reads are of a null pointer and there is no result.\<close>

definition zfs_uio_bvec_init :: "zfs_uio_t \<Rightarrow> bio option \<Rightarrow> request option \<Rightarrow> zfs_uio_t option" where
  "zfs_uio_bvec_init uio b r = do {
     off \<leftarrow> io_offset b r;
     resid \<leftarrow> io_size b r;
     Some (uio\<lparr>
       uio_vec := Bvec (case b of Some b \<Rightarrow> drop (unat (bi_idx b)) (bi_io_vec b) | None \<Rightarrow> []),
       uio_iovcnt := (case b of Some b \<Rightarrow> ucast (bi_vcnt b) - bi_idx b | None \<Rightarrow> 0),
       uio_loffset := off, uio_segflg := UIO_BVEC, uio_fault_disable := False, uio_fmode := 0, uio_extflg := 0,
       uio_resid := resid, uio_skip := (case b of Some b \<Rightarrow> ucast (bi_bvec_done b) | None \<Rightarrow> 0),
       rq := (case r of Some r \<Rightarrow> rq_addr r | None \<Rightarrow> 0), uio_soffset := off, uio_dio := no_dio\<rparr>) }"

definition zfs_uio_iov_iter_init :: "zfs_uio_t \<Rightarrow> u64 \<Rightarrow> u64 \<Rightarrow> u64 \<Rightarrow> u64 \<Rightarrow> zfs_uio_t" where
  "zfs_uio_iov_iter_init uio iter nr_segs offset resid =
     uio\<lparr>uio_vec := Iter iter, uio_iovcnt := ucast nr_segs, uio_loffset := offset, uio_segflg := UIO_ITER,
       uio_fault_disable := False, uio_fmode := 0, uio_extflg := 0, uio_resid := resid, uio_skip := 0,
       uio_soffset := offset, uio_dio := no_dio\<rparr>"

section \<open>Helpers\<close>

definition zfs_dio_page_aligned :: "u64 \<Rightarrow> u64 \<Rightarrow> bool" where
  "zfs_dio_page_aligned pagesize buf \<longleftrightarrow> buf AND (pagesize - 1) = 0"

definition zfs_dio_offset_aligned :: "u64 \<Rightarrow> u64 \<Rightarrow> bool" where
  "zfs_dio_offset_aligned offset blksz \<longleftrightarrow> IS_P2ALIGNED offset blksz"

text \<open>A block size of 0 divides by zero.\<close>

definition zfs_dio_size_aligned :: "u64 \<Rightarrow> u64 \<Rightarrow> bool option" where
  "zfs_dio_size_aligned sz blksz = (if blksz = 0 then None else Some (sz mod blksz = 0))"

definition zfs_dio_aligned :: "u64 \<Rightarrow> u64 \<Rightarrow> u64 \<Rightarrow> bool option" where
  "zfs_dio_aligned offset sz blksz =
    (if zfs_dio_offset_aligned offset blksz then zfs_dio_size_aligned sz blksz else Some False)"

definition zfs_uio_aligned :: "zfs_uio_t \<Rightarrow> u64 \<Rightarrow> bool option" where
  "zfs_uio_aligned uio blksz = zfs_dio_aligned (uio_loffset uio) (uio_resid uio) blksz"

definition zfs_uio_iov_at_index :: "zfs_uio_t \<Rightarrow> u32 \<Rightarrow> (u64 \<times> u64) option" where
  "zfs_uio_iov_at_index uio idx = (case uio_vec uio of
      Iov v \<Rightarrow> if unat idx < length v then Some (v ! unat idx) else None
    | _ \<Rightarrow> None)"

text \<open>
  The loop of \<open>zfs_uio_index_at_offset\<close>: the counter is compared as an unsigned number with the
  element count, the offset as an unsigned number with the length of the element.
\<close>

function index_loop :: "zfs_uio_t \<Rightarrow> u64 \<Rightarrow> nat \<Rightarrow> (u64 \<times> nat) option" where
  "index_loop uio off i =
    (if i < unat (uio_iovcnt uio) then
       (case zfs_uio_iov_at_index uio (of_nat i) of None \<Rightarrow> None
        | Some (base, len) \<Rightarrow> if len \<le> off then index_loop uio (off - len) (Suc i) else Some (off, i))
     else Some (off, i))"
  by pat_completeness auto
termination by (relation "measure (\<lambda>(uio, off, i). unat (uio_iovcnt uio) - i)") auto

declare index_loop.simps [simp del]

definition zfs_uio_index_at_offset :: "zfs_uio_t \<Rightarrow> u64 \<Rightarrow> (u64 \<times> u32) option" where
  "zfs_uio_index_at_offset uio off = map_option (\<lambda>(off', i). (off', of_nat i)) (index_loop uio off 0)"

section \<open>The position of an offset\<close>

text \<open>Reference: walk the lengths.\<close>

fun locate_in :: "nat list \<Rightarrow> nat \<Rightarrow> nat \<times> nat" where
  "locate_in [] off = (off, 0)"
| "locate_in (n # ns) off = (if n \<le> off then let (o', i) = locate_in ns (off - n) in (o', Suc i) else (off, 0))"

lemma locate_in_sum: "locate_in ns off = (o', i) \<Longrightarrow>
    sum_list (take i ns) + o' = off \<and> i \<le> length ns \<and> (i < length ns \<longrightarrow> o' < ns ! i)"
  by (induction ns off arbitrary: o' i rule: locate_in.induct) (auto split: if_splits prod.splits)

lemma index_loop_reference:
  assumes "uio_vec uio = Iov v" "unat (uio_iovcnt uio) = length v" "i \<le> length v"
  shows "\<exists>o' k. index_loop uio off i = Some (o', i + k) \<and>
    locate_in (map (unat \<circ> snd) (drop i v)) (unat off) = (unat o', k)"
  using assms
proof (induction uio off i rule: index_loop.induct)
  case (1 uio off i)
  show ?case
  proof (cases "i < length v")
    case False
    then show ?thesis using 1 by (simp add: index_loop.simps)
  next
    case True
    obtain base len where e: "v ! i = (base, len)" by (cases "v ! i")
    have "length v < 2 ^ 32" using 1(3) unsigned_less [of "uio_iovcnt uio", where ?'a = nat] by simp
    then have "unat (of_nat i :: u32) = i" using True by (simp add: unat_of_nat take_bit_nat_eq_self)
    then have at: "zfs_uio_iov_at_index uio (of_nat i) = Some (base, len)"
      using True 1(2) e by (simp add: zfs_uio_iov_at_index_def)
    have d: "drop i v = (base, len) # drop (Suc i) v" using Cons_nth_drop_Suc [OF True] e by simp
    show ?thesis
    proof (cases "len \<le> off")
      case True
      obtain o' k where ih: "index_loop uio (off - len) (Suc i) = Some (o', Suc i + k)"
          "locate_in (map (unat \<circ> snd) (drop (Suc i) v)) (unat (off - len)) = (unat o', k)"
        using 1(1) [OF _ at refl True 1(2,3)] \<open>i < length v\<close> 1(3) by (auto simp: comp_def)
      have u: "unat (off - len) = unat off - unat len" using True by (rule unat_sub)
      have "index_loop uio off i = Some (o', i + Suc k)"
        using ih(1) \<open>i < length v\<close> 1(3) at True by (subst index_loop.simps) simp
      moreover have "locate_in (map (unat \<circ> snd) (drop i v)) (unat off) = (unat o', Suc k)"
        using ih(2) True by (simp add: d u word_le_nat_alt)
      ultimately show ?thesis by blast
    next
      case False
      have "index_loop uio off i = Some (off, i + 0)"
        using \<open>i < length v\<close> 1(3) at False by (subst index_loop.simps) simp
      moreover have "locate_in (map (unat \<circ> snd) (drop i v)) (unat off) = (unat off, 0)"
        using False by (simp add: d word_le_nat_alt)
      ultimately show ?thesis by blast
    qed
  qed
qed

lemma locate_in_concat:
  "locate_in (map length segs) off = (o', i) \<Longrightarrow>
    (if off < length (concat segs)
     then i < length segs \<and> o' < length (segs ! i) \<and> segs ! i ! o' = concat segs ! off
     else i = length segs \<and> o' = off - length (concat segs))"
proof (induction segs arbitrary: off o' i)
  case (Cons seg segs)
  show ?case
  proof (cases "length seg \<le> off")
    case True
    then obtain j where j: "locate_in (map length segs) (off - length seg) = (o', j)" "i = Suc j"
      using Cons.prems by (auto split: prod.splits)
    from Cons.IH [OF j(1)] j(2) True show ?thesis by (auto simp: nth_append split: if_splits)
  next
    case False
    then show ?thesis using Cons.prems by (simp add: nth_append)
  qed
qed simp

section \<open>Properties\<close>

text \<open>
  C14. For a descriptor over an array of buffers, the loop that looks an offset up ends, reads no
  element past the array, and finds the byte: the buffer at the index it returns holds, at the
  offset it returns, the byte the concatenation of the buffers holds at the given offset, skipping
  empty buffers; an offset at or past the end gives the number of buffers and the excess.
\<close>

theorem uio_index_finds_byte:
  assumes "uio_vec uio = Iov v" "unat (uio_iovcnt uio) = length v"
    and "map length segs = map (unat \<circ> snd) v"
  shows "\<exists>off' idx. zfs_uio_index_at_offset uio off = Some (off', idx) \<and>
    (if unat off < length (concat segs)
     then unat idx < length segs \<and> unat off' < length (segs ! unat idx) \<and>
       segs ! unat idx ! unat off' = concat segs ! unat off
     else unat idx = length segs \<and> unat off' = unat off - length (concat segs))"
proof -
  obtain o' k where l: "index_loop uio off 0 = Some (o', k)" "locate_in (map length segs) (unat off) = (unat o', k)"
    using index_loop_reference [OF assms(1,2), of 0 off] assms(3) by auto
  have len: "length segs = length v" using assms(3) by (metis length_map)
  have "k \<le> length segs" using locate_in_sum [OF l(2)] by simp
  moreover have "length v < 2 ^ 32" using assms(2) unsigned_less [of "uio_iovcnt uio", where ?'a = nat] by simp
  ultimately have k: "unat (of_nat k :: u32) = k" using len by (simp add: unat_of_nat take_bit_nat_eq_self)
  have "zfs_uio_index_at_offset uio off = Some (o', of_nat k)" using l(1) by (simp add: zfs_uio_index_at_offset_def)
  moreover have "if unat off < length (concat segs)
     then unat (of_nat k :: u32) < length segs \<and> unat o' < length (segs ! unat (of_nat k :: u32)) \<and>
       segs ! unat (of_nat k :: u32) ! unat o' = concat segs ! unat off
     else unat (of_nat k :: u32) = length segs \<and> unat o' = unat off - length (concat segs)"
    unfolding k by (rule locate_in_concat [OF l(2)])
  ultimately show ?thesis by (intro exI conjI)
qed

definition demo_uio :: zfs_uio_t where
  "demo_uio = \<lparr>uio_vec = Iov [(0x1000, 3), (0x2000, 0), (0x3000, 5)], uio_iovcnt = 3, uio_soffset = 0, uio_loffset = 1024,
     uio_segflg = UIO_SYSSPACE, uio_fault_disable = False, uio_fmode = 0, uio_extflg = 0, uio_resid = 2048,
     uio_skip = 0, uio_dio = no_dio, rq = 0\<rparr>"

theorem uio_index_finds_byte_witness:
  "\<exists>off' idx. zfs_uio_index_at_offset demo_uio 4 = Some (off', idx) \<and>
     [[1, 2, 3], [], [4, 5, 6, 7, 8 :: nat]] ! unat idx ! unat off' = 5"
  using uio_index_finds_byte [of demo_uio "[(0x1000, 3), (0x2000, 0), (0x3000, 5)]" "[[1, 2, 3], [], [4, 5, 6, 7, 8 :: nat]]" 4]
  by (auto simp: demo_uio_def)

lemma dvd_word_mod: "(b :: u64) = 2 ^ k \<Longrightarrow> k < 64 \<Longrightarrow> a mod b = 0 \<longleftrightarrow> 2 ^ k dvd unat a"
  by (simp add: word_unat_eq_iff unat_mod unat_exp_word dvd_eq_mod_eq_0)

text \<open>
  For a block size that is a power of two, the test for direct I/O says whether both the
  offset and the remaining length are multiples of it; advancing by whole blocks keeps the answer
  and keeps the sum of offset and remaining length.
\<close>

theorem uio_aligned_advance:
  assumes "k < 64" "2 ^ k dvd unat n"
  shows "zfs_uio_aligned uio (2 ^ k) = Some (2 ^ k dvd unat (uio_loffset uio) \<and> 2 ^ k dvd unat (uio_resid uio)) \<and>
    zfs_uio_aligned (zfs_uio_advance uio n) (2 ^ k) = zfs_uio_aligned uio (2 ^ k) \<and>
    uio_loffset (zfs_uio_advance uio n) + uio_resid (zfs_uio_advance uio n) = uio_loffset uio + uio_resid uio"
proof -
  have nz: "(2 :: u64) ^ k \<noteq> 0" using assms(1) by (simp add: word_unat_eq_iff unat_exp_word)
  have al: "zfs_uio_aligned u (2 ^ k) = Some (2 ^ k dvd unat (uio_loffset u) \<and> 2 ^ k dvd unat (uio_resid u))" for u
    using nz dvd_word_mod [OF refl assms(1)]
    by (simp add: zfs_uio_aligned_def zfs_dio_aligned_def zfs_dio_offset_aligned_def zfs_dio_size_aligned_def IS_P2ALIGNED_iff)
  have plus: "2 ^ k dvd unat (x + n) \<longleftrightarrow> 2 ^ k dvd unat x" for x :: u64
  proof -
    have "(2 :: nat) ^ k dvd 2 ^ LENGTH(64)" using assms(1) by (intro le_imp_power_dvd) simp
    then have "2 ^ k dvd unat (x + n) \<longleftrightarrow> 2 ^ k dvd unat x + unat n"
      unfolding unat_word_ariths(1) by (rule dvd_mod_iff)
    then show ?thesis using assms(2) by (simp add: dvd_add_left_iff)
  qed
  moreover have "2 ^ k dvd unat (x - n) \<longleftrightarrow> 2 ^ k dvd unat x" for x :: u64
    using plus [of "x - n"] by simp
  ultimately show ?thesis by (simp add: al zfs_uio_advance_def)
qed

theorem uio_aligned_advance_witness:
  "zfs_uio_aligned (zfs_uio_advance demo_uio 512) 512 = Some True"
  using uio_aligned_advance [of 9 512 demo_uio] by (simp add: demo_uio_def)

end
