(* ===== verification/Simd_Kernel.thy ===== *)
theory Simd_Kernel
  imports Simd
begin

unbundle bit_operations_syntax

text \<open>
  The tests for instruction sets inside the kernels: Linux
  (\<open>compat/openzfs/os/linux/kernel/linux/simd_x86.h\<close>) and FreeBSD
  (\<open>compat/openzfs/os/freebsd/spl/sys/simd_x86.h\<close>), against one statement of what such a test
  promises. The flags the kernels keep are parameters: the function \<open>boot_cpu_has\<close> and the
  macros the Linux headers define, the three feature words and the mask constants of FreeBSD.
  The processor itself is the record of the user-space tests.
\<close>

section \<open>What a test promises\<close>

text \<open>The place of each flag in the processor's manual: leaf, register and bit.\<close>

fun hw_flag :: "cpuid_inst_sets \<Rightarrow> u32 \<times> cpuid_regs \<times> nat" where
  "hw_flag SSE = (1, EDX, 25)"
| "hw_flag SSE2 = (1, EDX, 26)"
| "hw_flag SSE3 = (1, ECX, 0)"
| "hw_flag SSSE3 = (1, ECX, 9)"
| "hw_flag SSE4_1 = (1, ECX, 19)"
| "hw_flag SSE4_2 = (1, ECX, 20)"
| "hw_flag OSXSAVE = (1, ECX, 27)"
| "hw_flag AVX = (1, ECX, 28)"
| "hw_flag AVX2 = (7, EBX, 5)"
| "hw_flag BMI1 = (7, EBX, 3)"
| "hw_flag BMI2 = (7, EBX, 8)"
| "hw_flag AVX512F = (7, EBX, 16)"
| "hw_flag AVX512CD = (7, EBX, 28)"
| "hw_flag AVX512DQ = (7, EBX, 17)"
| "hw_flag AVX512BW = (7, EBX, 30)"
| "hw_flag AVX512IFMA = (7, EBX, 21)"
| "hw_flag AVX512VBMI = (7, ECX, 1)"
| "hw_flag AVX512PF = (7, EBX, 26)"
| "hw_flag AVX512ER = (7, EBX, 27)"
| "hw_flag AVX512VL = (7, EBX, 31)"
| "hw_flag AES = (1, ECX, 25)"
| "hw_flag PCLMULQDQ = (1, ECX, 1)"
| "hw_flag MOVBE = (1, ECX, 22)"
| "hw_flag SHA_NI = (7, EBX, 29)"
| "hw_flag VAES = (7, ECX, 9)"
| "hw_flag VPCLMULQDQ = (7, ECX, 10)"

definition has_hw :: "cpu \<Rightarrow> cpuid_inst_sets \<Rightarrow> bool" where
  "has_hw c i = (case hw_flag i of (l, r, n) \<Rightarrow> l \<le> cpuid_max c \<and> bit (cpuid_count c l 0 r) n)"

text \<open>The operating system keeps these registers across a context switch.\<close>

definition keeps_regs :: "cpu \<Rightarrow> u64 \<Rightarrow> bool" where
  "keeps_regs c m \<longleftrightarrow> has_hw c OSXSAVE \<and> xcr c 0 AND m = m"

definition promised :: "cpu \<Rightarrow> cpuid_inst_sets \<Rightarrow> bool" where
  "promised c i \<longleftrightarrow> has_hw c i \<and>
     (i \<in> {AVX, AVX2} \<longrightarrow> keeps_regs c XSTATE_SSE_AVX) \<and>
     (i \<in> {AVX512F, AVX512CD, AVX512DQ, AVX512BW, AVX512IFMA, AVX512VBMI, AVX512PF, AVX512ER, AVX512VL} \<longrightarrow>
        has_hw c AVX512F \<and> keeps_regs c XSTATE_AVX512)"

section \<open>Linux\<close>

datatype x86_feature =
    X86_FEATURE_OSXSAVE | X86_FEATURE_XMM | X86_FEATURE_XMM2 | X86_FEATURE_XMM3 | X86_FEATURE_SSSE3
  | X86_FEATURE_XMM4_1 | X86_FEATURE_XMM4_2 | X86_FEATURE_AVX | X86_FEATURE_AVX2 | X86_FEATURE_BMI1
  | X86_FEATURE_BMI2 | X86_FEATURE_AES | X86_FEATURE_PCLMULQDQ | X86_FEATURE_MOVBE | X86_FEATURE_VAES
  | X86_FEATURE_VPCLMULQDQ | X86_FEATURE_SHA_NI | X86_FEATURE_AVX512F | X86_FEATURE_AVX512CD
  | X86_FEATURE_AVX512ER | X86_FEATURE_AVX512PF | X86_FEATURE_AVX512BW | X86_FEATURE_AVX512DQ
  | X86_FEATURE_AVX512VL | X86_FEATURE_AVX512IFMA | X86_FEATURE_AVX512VBMI

text \<open>The kernel: its flags, the feature names its headers define, and the processor.\<close>

record linux_x86 =
  boot_cpu_has :: "x86_feature \<Rightarrow> bool"
  has_macro :: "x86_feature \<Rightarrow> bool"
  linux_cpu :: cpu

definition zfs_xgetbv :: "linux_x86 \<Rightarrow> u32 \<Rightarrow> u64 option" where
  "zfs_xgetbv L index = xgetbv (linux_cpu L) index"

definition linux_simd_state_enabled :: "linux_x86 \<Rightarrow> u64 \<Rightarrow> bool option" where
  "linux_simd_state_enabled L state =
    (let has_osxsave = (if has_macro L X86_FEATURE_OSXSAVE then boot_cpu_has L X86_FEATURE_OSXSAVE else False)
     in if \<not> has_osxsave then Some False
        else do { xcr0 \<leftarrow> zfs_xgetbv L 0; Some (xcr0 AND state = state) })"

definition linux_XSTATE_SSE_AVX :: u64 where "linux_XSTATE_SSE_AVX = 0x2 OR 0x4"
definition linux_XSTATE_AVX512 :: u64 where "linux_XSTATE_AVX512 = 0xE0 OR linux_XSTATE_SSE_AVX"

definition linux_ymm_enabled :: "linux_x86 \<Rightarrow> bool option" where
  "linux_ymm_enabled L = linux_simd_state_enabled L linux_XSTATE_SSE_AVX"
definition linux_zmm_enabled :: "linux_x86 \<Rightarrow> bool option" where
  "linux_zmm_enabled L = linux_simd_state_enabled L linux_XSTATE_AVX512"

definition linux_sse_available :: "linux_x86 \<Rightarrow> bool option" where
  "linux_sse_available L = Some (boot_cpu_has L X86_FEATURE_XMM)"
definition linux_sse2_available :: "linux_x86 \<Rightarrow> bool option" where
  "linux_sse2_available L = Some (boot_cpu_has L X86_FEATURE_XMM2)"
definition linux_sse3_available :: "linux_x86 \<Rightarrow> bool option" where
  "linux_sse3_available L = Some (boot_cpu_has L X86_FEATURE_XMM3)"
definition linux_ssse3_available :: "linux_x86 \<Rightarrow> bool option" where
  "linux_ssse3_available L = Some (boot_cpu_has L X86_FEATURE_SSSE3)"
definition linux_sse4_1_available :: "linux_x86 \<Rightarrow> bool option" where
  "linux_sse4_1_available L = Some (boot_cpu_has L X86_FEATURE_XMM4_1)"
definition linux_sse4_2_available :: "linux_x86 \<Rightarrow> bool option" where
  "linux_sse4_2_available L = Some (boot_cpu_has L X86_FEATURE_XMM4_2)"
definition linux_avx_available :: "linux_x86 \<Rightarrow> bool option" where
  "linux_avx_available L = and_then (boot_cpu_has L X86_FEATURE_AVX) (linux_ymm_enabled L)"
definition linux_avx2_available :: "linux_x86 \<Rightarrow> bool option" where
  "linux_avx2_available L = and_then (boot_cpu_has L X86_FEATURE_AVX2) (linux_ymm_enabled L)"
definition linux_bmi1_available :: "linux_x86 \<Rightarrow> bool option" where
  "linux_bmi1_available L = Some (if has_macro L X86_FEATURE_BMI1 then boot_cpu_has L X86_FEATURE_BMI1 else False)"
definition linux_bmi2_available :: "linux_x86 \<Rightarrow> bool option" where
  "linux_bmi2_available L = Some (if has_macro L X86_FEATURE_BMI2 then boot_cpu_has L X86_FEATURE_BMI2 else False)"
definition linux_aes_available :: "linux_x86 \<Rightarrow> bool option" where
  "linux_aes_available L = Some (if has_macro L X86_FEATURE_AES then boot_cpu_has L X86_FEATURE_AES else False)"
definition linux_pclmulqdq_available :: "linux_x86 \<Rightarrow> bool option" where
  "linux_pclmulqdq_available L = Some (if has_macro L X86_FEATURE_PCLMULQDQ then boot_cpu_has L X86_FEATURE_PCLMULQDQ else False)"
definition linux_movbe_available :: "linux_x86 \<Rightarrow> bool option" where
  "linux_movbe_available L = Some (if has_macro L X86_FEATURE_MOVBE then boot_cpu_has L X86_FEATURE_MOVBE else False)"
definition linux_vaes_available :: "linux_x86 \<Rightarrow> bool option" where
  "linux_vaes_available L = Some (if has_macro L X86_FEATURE_VAES then boot_cpu_has L X86_FEATURE_VAES else False)"
definition linux_vpclmulqdq_available :: "linux_x86 \<Rightarrow> bool option" where
  "linux_vpclmulqdq_available L = Some (if has_macro L X86_FEATURE_VPCLMULQDQ then boot_cpu_has L X86_FEATURE_VPCLMULQDQ else False)"
definition linux_shani_available :: "linux_x86 \<Rightarrow> bool option" where
  "linux_shani_available L = Some (if has_macro L X86_FEATURE_SHA_NI then boot_cpu_has L X86_FEATURE_SHA_NI else False)"
definition linux_avx512f_available :: "linux_x86 \<Rightarrow> bool option" where
  "linux_avx512f_available L =
    (let has_avx512 = (if has_macro L X86_FEATURE_AVX512F then boot_cpu_has L X86_FEATURE_AVX512F else False)
     in and_then has_avx512 (linux_zmm_enabled L))"
definition linux_avx512cd_available :: "linux_x86 \<Rightarrow> bool option" where
  "linux_avx512cd_available L =
    (let has_avx512 = (if has_macro L X86_FEATURE_AVX512CD
       then boot_cpu_has L X86_FEATURE_AVX512F \<and> boot_cpu_has L X86_FEATURE_AVX512CD else False)
     in and_then has_avx512 (linux_zmm_enabled L))"
definition linux_avx512er_available :: "linux_x86 \<Rightarrow> bool option" where
  "linux_avx512er_available L =
    (let has_avx512 = (if has_macro L X86_FEATURE_AVX512ER
       then boot_cpu_has L X86_FEATURE_AVX512F \<and> boot_cpu_has L X86_FEATURE_AVX512ER else False)
     in and_then has_avx512 (linux_zmm_enabled L))"
definition linux_avx512pf_available :: "linux_x86 \<Rightarrow> bool option" where
  "linux_avx512pf_available L =
    (let has_avx512 = (if has_macro L X86_FEATURE_AVX512PF
       then boot_cpu_has L X86_FEATURE_AVX512F \<and> boot_cpu_has L X86_FEATURE_AVX512PF else False)
     in and_then has_avx512 (linux_zmm_enabled L))"
definition linux_avx512bw_available :: "linux_x86 \<Rightarrow> bool option" where
  "linux_avx512bw_available L =
    (let has_avx512 = (if has_macro L X86_FEATURE_AVX512BW
       then boot_cpu_has L X86_FEATURE_AVX512F \<and> boot_cpu_has L X86_FEATURE_AVX512BW else False)
     in and_then has_avx512 (linux_zmm_enabled L))"
definition linux_avx512dq_available :: "linux_x86 \<Rightarrow> bool option" where
  "linux_avx512dq_available L =
    (let has_avx512 = (if has_macro L X86_FEATURE_AVX512DQ
       then boot_cpu_has L X86_FEATURE_AVX512F \<and> boot_cpu_has L X86_FEATURE_AVX512DQ else False)
     in and_then has_avx512 (linux_zmm_enabled L))"
definition linux_avx512vl_available :: "linux_x86 \<Rightarrow> bool option" where
  "linux_avx512vl_available L =
    (let has_avx512 = (if has_macro L X86_FEATURE_AVX512VL
       then boot_cpu_has L X86_FEATURE_AVX512F \<and> boot_cpu_has L X86_FEATURE_AVX512VL else False)
     in and_then has_avx512 (linux_zmm_enabled L))"
definition linux_avx512ifma_available :: "linux_x86 \<Rightarrow> bool option" where
  "linux_avx512ifma_available L =
    (let has_avx512 = (if has_macro L X86_FEATURE_AVX512IFMA
       then boot_cpu_has L X86_FEATURE_AVX512F \<and> boot_cpu_has L X86_FEATURE_AVX512IFMA else False)
     in and_then has_avx512 (linux_zmm_enabled L))"
definition linux_avx512vbmi_available :: "linux_x86 \<Rightarrow> bool option" where
  "linux_avx512vbmi_available L =
    (let has_avx512 = (if has_macro L X86_FEATURE_AVX512VBMI
       then boot_cpu_has L X86_FEATURE_AVX512F \<and> boot_cpu_has L X86_FEATURE_AVX512VBMI else False)
     in and_then has_avx512 (linux_zmm_enabled L))"

lemmas linux_available_defs = linux_sse_available_def linux_sse2_available_def linux_sse3_available_def linux_ssse3_available_def linux_sse4_1_available_def linux_sse4_2_available_def linux_avx_available_def linux_avx2_available_def linux_bmi1_available_def linux_bmi2_available_def linux_aes_available_def linux_pclmulqdq_available_def linux_movbe_available_def linux_vaes_available_def linux_vpclmulqdq_available_def linux_shani_available_def linux_avx512f_available_def linux_avx512cd_available_def linux_avx512er_available_def linux_avx512pf_available_def linux_avx512bw_available_def linux_avx512dq_available_def linux_avx512vl_available_def linux_avx512ifma_available_def linux_avx512vbmi_available_def

section \<open>FreeBSD\<close>

text \<open>The mask constants of the kernel's headers that the tests name.\<close>

datatype cpuid_mask =
    CPUID_SSE | CPUID_SSE2 | CPUID2_SSE3 | CPUID2_SSSE3 | CPUID2_SSE41 | CPUID2_SSE42 | CPUID2_OSXSAVE
  | CPUID2_AVX | CPUID_STDEXT_AVX2 | CPUID_STDEXT_SHA | CPUID_STDEXT_AVX512F | CPUID_STDEXT_AVX512CD
  | CPUID_STDEXT_AVX512PF | CPUID_STDEXT_AVX512BW | CPUID_STDEXT_AVX512DQ | CPUID_STDEXT_AVX512VL
  | CPUID_STDEXT_AVX512IFMA | CPUID_STDEXT_BMI1

record freebsd_x86 =
  cpu_feature :: u32
  cpu_feature2 :: u32
  cpu_stdext_feature :: u32
  cmask :: "cpuid_mask \<Rightarrow> u32"
  freebsd_cpu :: cpu

definition freebsd_xgetbv :: "freebsd_x86 \<Rightarrow> u32 \<Rightarrow> u64 option" where
  "freebsd_xgetbv B index = xgetbv (freebsd_cpu B) index"

definition freebsd_simd_state_enabled :: "freebsd_x86 \<Rightarrow> u64 \<Rightarrow> bool option" where
  "freebsd_simd_state_enabled B state =
    (let has_osxsave = (cpu_feature2 B AND cmask B CPUID2_OSXSAVE \<noteq> 0)
     in if \<not> has_osxsave then Some False
        else do { xcr0 \<leftarrow> freebsd_xgetbv B 0; Some (xcr0 AND state = state) })"

definition freebsd_XSTATE_SSE_AVX :: u64 where "freebsd_XSTATE_SSE_AVX = 0x2 OR 0x4"
definition freebsd_XSTATE_AVX512 :: u64 where "freebsd_XSTATE_AVX512 = 0xE0 OR freebsd_XSTATE_SSE_AVX"

definition freebsd_ymm_enabled :: "freebsd_x86 \<Rightarrow> bool option" where
  "freebsd_ymm_enabled B = freebsd_simd_state_enabled B freebsd_XSTATE_SSE_AVX"
definition freebsd_zmm_enabled :: "freebsd_x86 \<Rightarrow> bool option" where
  "freebsd_zmm_enabled B = freebsd_simd_state_enabled B freebsd_XSTATE_AVX512"

definition freebsd_sse_available :: "freebsd_x86 \<Rightarrow> bool option" where
  "freebsd_sse_available B = Some (cpu_feature B AND cmask B CPUID_SSE \<noteq> 0)"
definition freebsd_sse2_available :: "freebsd_x86 \<Rightarrow> bool option" where
  "freebsd_sse2_available B = Some (cpu_feature B AND cmask B CPUID_SSE2 \<noteq> 0)"
definition freebsd_sse3_available :: "freebsd_x86 \<Rightarrow> bool option" where
  "freebsd_sse3_available B = Some (cpu_feature2 B AND cmask B CPUID2_SSE3 \<noteq> 0)"
definition freebsd_ssse3_available :: "freebsd_x86 \<Rightarrow> bool option" where
  "freebsd_ssse3_available B = Some (cpu_feature2 B AND cmask B CPUID2_SSSE3 \<noteq> 0)"
definition freebsd_sse4_1_available :: "freebsd_x86 \<Rightarrow> bool option" where
  "freebsd_sse4_1_available B = Some (cpu_feature2 B AND cmask B CPUID2_SSE41 \<noteq> 0)"
definition freebsd_sse4_2_available :: "freebsd_x86 \<Rightarrow> bool option" where
  "freebsd_sse4_2_available B = Some (cpu_feature2 B AND cmask B CPUID2_SSE42 \<noteq> 0)"
definition freebsd_avx_available :: "freebsd_x86 \<Rightarrow> bool option" where
  "freebsd_avx_available B = and_then (cpu_feature2 B AND cmask B CPUID2_AVX \<noteq> 0) (freebsd_ymm_enabled B)"
definition freebsd_avx2_available :: "freebsd_x86 \<Rightarrow> bool option" where
  "freebsd_avx2_available B = and_then (cpu_stdext_feature B AND cmask B CPUID_STDEXT_AVX2 \<noteq> 0) (freebsd_ymm_enabled B)"
definition freebsd_shani_available :: "freebsd_x86 \<Rightarrow> bool option" where
  "freebsd_shani_available B = and_then (cpu_stdext_feature B AND cmask B CPUID_STDEXT_SHA \<noteq> 0) (freebsd_ymm_enabled B)"
definition freebsd_avx512f_available :: "freebsd_x86 \<Rightarrow> bool option" where
  "freebsd_avx512f_available B =
    (let has_avx512 = (cpu_stdext_feature B AND cmask B CPUID_STDEXT_AVX512F \<noteq> 0)
     in and_then has_avx512 (freebsd_zmm_enabled B))"
definition freebsd_avx512cd_available :: "freebsd_x86 \<Rightarrow> bool option" where
  "freebsd_avx512cd_available B =
    (let has_avx512 = (cpu_stdext_feature B AND cmask B CPUID_STDEXT_AVX512F \<noteq> 0 \<and>
       cpu_stdext_feature B AND cmask B CPUID_STDEXT_AVX512CD \<noteq> 0)
     in and_then has_avx512 (freebsd_zmm_enabled B))"
definition freebsd_avx512er_available :: "freebsd_x86 \<Rightarrow> bool option" where
  "freebsd_avx512er_available B =
    (let has_avx512 = (cpu_stdext_feature B AND cmask B CPUID_STDEXT_AVX512F \<noteq> 0 \<and>
       cpu_stdext_feature B AND cmask B CPUID_STDEXT_AVX512CD \<noteq> 0)
     in and_then has_avx512 (freebsd_zmm_enabled B))"
definition freebsd_avx512pf_available :: "freebsd_x86 \<Rightarrow> bool option" where
  "freebsd_avx512pf_available B =
    (let has_avx512 = (cpu_stdext_feature B AND cmask B CPUID_STDEXT_AVX512F \<noteq> 0 \<and>
       cpu_stdext_feature B AND cmask B CPUID_STDEXT_AVX512PF \<noteq> 0)
     in and_then has_avx512 (freebsd_zmm_enabled B))"
definition freebsd_avx512bw_available :: "freebsd_x86 \<Rightarrow> bool option" where
  "freebsd_avx512bw_available B =
    (let has_avx512 = (cpu_stdext_feature B AND cmask B CPUID_STDEXT_AVX512BW \<noteq> 0)
     in and_then has_avx512 (freebsd_zmm_enabled B))"
definition freebsd_avx512dq_available :: "freebsd_x86 \<Rightarrow> bool option" where
  "freebsd_avx512dq_available B =
    (let has_avx512 = (cpu_stdext_feature B AND cmask B CPUID_STDEXT_AVX512F \<noteq> 0 \<and>
       cpu_stdext_feature B AND cmask B CPUID_STDEXT_AVX512DQ \<noteq> 0)
     in and_then has_avx512 (freebsd_zmm_enabled B))"
definition freebsd_avx512vl_available :: "freebsd_x86 \<Rightarrow> bool option" where
  "freebsd_avx512vl_available B =
    (let has_avx512 = (cpu_stdext_feature B AND cmask B CPUID_STDEXT_AVX512F \<noteq> 0 \<and>
       cpu_stdext_feature B AND cmask B CPUID_STDEXT_AVX512VL \<noteq> 0)
     in and_then has_avx512 (freebsd_zmm_enabled B))"
definition freebsd_avx512ifma_available :: "freebsd_x86 \<Rightarrow> bool option" where
  "freebsd_avx512ifma_available B =
    (let has_avx512 = (cpu_stdext_feature B AND cmask B CPUID_STDEXT_AVX512F \<noteq> 0 \<and>
       cpu_stdext_feature B AND cmask B CPUID_STDEXT_AVX512IFMA \<noteq> 0)
     in and_then has_avx512 (freebsd_zmm_enabled B))"
definition freebsd_avx512vbmi_available :: "freebsd_x86 \<Rightarrow> bool option" where
  "freebsd_avx512vbmi_available B =
    (let has_avx512 = (cpu_stdext_feature B AND cmask B CPUID_STDEXT_AVX512F \<noteq> 0 \<and>
       cpu_stdext_feature B AND cmask B CPUID_STDEXT_BMI1 \<noteq> 0)
     in and_then has_avx512 (freebsd_zmm_enabled B))"

lemmas freebsd_available_defs = freebsd_sse_available_def freebsd_sse2_available_def freebsd_sse3_available_def freebsd_ssse3_available_def freebsd_sse4_1_available_def freebsd_sse4_2_available_def freebsd_avx_available_def freebsd_avx2_available_def freebsd_shani_available_def freebsd_avx512f_available_def freebsd_avx512cd_available_def freebsd_avx512er_available_def freebsd_avx512pf_available_def freebsd_avx512bw_available_def freebsd_avx512dq_available_def freebsd_avx512vl_available_def freebsd_avx512ifma_available_def freebsd_avx512vbmi_available_def

section \<open>The tests keep the promise\<close>

lemma hw_simps [simp]:
  "hw_flag i = (l, r, n) \<Longrightarrow> has_hw c i \<longleftrightarrow> l \<le> cpuid_max c \<and> bit (cpuid_count c l 0 r) n"
  by (simp add: has_hw_def)

text \<open>What the kernels' flags mean: the flag of a Linux feature name is the processor's flag.\<close>

fun x86_flag :: "x86_feature \<Rightarrow> cpuid_inst_sets" where
  "x86_flag X86_FEATURE_OSXSAVE = OSXSAVE"
| "x86_flag X86_FEATURE_XMM = SSE"
| "x86_flag X86_FEATURE_XMM2 = SSE2"
| "x86_flag X86_FEATURE_XMM3 = SSE3"
| "x86_flag X86_FEATURE_SSSE3 = SSSE3"
| "x86_flag X86_FEATURE_XMM4_1 = SSE4_1"
| "x86_flag X86_FEATURE_XMM4_2 = SSE4_2"
| "x86_flag X86_FEATURE_AVX = AVX"
| "x86_flag X86_FEATURE_AVX2 = AVX2"
| "x86_flag X86_FEATURE_BMI1 = BMI1"
| "x86_flag X86_FEATURE_BMI2 = BMI2"
| "x86_flag X86_FEATURE_AES = AES"
| "x86_flag X86_FEATURE_PCLMULQDQ = PCLMULQDQ"
| "x86_flag X86_FEATURE_MOVBE = MOVBE"
| "x86_flag X86_FEATURE_VAES = VAES"
| "x86_flag X86_FEATURE_VPCLMULQDQ = VPCLMULQDQ"
| "x86_flag X86_FEATURE_SHA_NI = SHA_NI"
| "x86_flag X86_FEATURE_AVX512F = AVX512F"
| "x86_flag X86_FEATURE_AVX512CD = AVX512CD"
| "x86_flag X86_FEATURE_AVX512ER = AVX512ER"
| "x86_flag X86_FEATURE_AVX512PF = AVX512PF"
| "x86_flag X86_FEATURE_AVX512BW = AVX512BW"
| "x86_flag X86_FEATURE_AVX512DQ = AVX512DQ"
| "x86_flag X86_FEATURE_AVX512VL = AVX512VL"
| "x86_flag X86_FEATURE_AVX512IFMA = AVX512IFMA"
| "x86_flag X86_FEATURE_AVX512VBMI = AVX512VBMI"

definition linux_reports :: "linux_x86 \<Rightarrow> bool" where
  "linux_reports L \<longleftrightarrow> (\<forall>f. boot_cpu_has L f = has_hw (linux_cpu L) (x86_flag f))"

lemma linux_state_value:
  assumes "linux_reports L"
  shows "linux_simd_state_enabled L m = Some (has_macro L X86_FEATURE_OSXSAVE \<and> keeps_regs (linux_cpu L) m)"
  using assms by (auto simp: linux_simd_state_enabled_def linux_reports_def zfs_xgetbv_def xgetbv_def keeps_regs_def Let_def)

lemma linux_enabled_value:
  assumes "linux_reports L"
  shows "linux_ymm_enabled L = Some (has_macro L X86_FEATURE_OSXSAVE \<and> keeps_regs (linux_cpu L) XSTATE_SSE_AVX)"
    and "linux_zmm_enabled L = Some (has_macro L X86_FEATURE_OSXSAVE \<and> keeps_regs (linux_cpu L) XSTATE_AVX512)"
  using linux_state_value [OF assms]
  by (simp_all add: linux_ymm_enabled_def linux_zmm_enabled_def linux_XSTATE_SSE_AVX_def linux_XSTATE_AVX512_def
      XSTATE_SSE_AVX_def XSTATE_AVX512_def)

text \<open>The feature words and mask constants of FreeBSD.\<close>

fun mask_bit :: "cpuid_mask \<Rightarrow> nat" where
  "mask_bit CPUID_SSE = 25"
| "mask_bit CPUID_SSE2 = 26"
| "mask_bit CPUID2_SSE3 = 0"
| "mask_bit CPUID2_SSSE3 = 9"
| "mask_bit CPUID2_SSE41 = 19"
| "mask_bit CPUID2_SSE42 = 20"
| "mask_bit CPUID2_OSXSAVE = 27"
| "mask_bit CPUID2_AVX = 28"
| "mask_bit CPUID_STDEXT_AVX2 = 5"
| "mask_bit CPUID_STDEXT_SHA = 29"
| "mask_bit CPUID_STDEXT_AVX512F = 16"
| "mask_bit CPUID_STDEXT_AVX512CD = 28"
| "mask_bit CPUID_STDEXT_AVX512PF = 26"
| "mask_bit CPUID_STDEXT_AVX512BW = 30"
| "mask_bit CPUID_STDEXT_AVX512DQ = 17"
| "mask_bit CPUID_STDEXT_AVX512VL = 31"
| "mask_bit CPUID_STDEXT_AVX512IFMA = 21"
| "mask_bit CPUID_STDEXT_BMI1 = 3"

definition leaf_word :: "cpu \<Rightarrow> u32 \<Rightarrow> cpuid_regs \<Rightarrow> u32" where
  "leaf_word c l r = (if l \<le> cpuid_max c then cpuid_count c l 0 r else 0)"

definition freebsd_reports :: "freebsd_x86 \<Rightarrow> bool" where
  "freebsd_reports B \<longleftrightarrow> cpu_feature B = leaf_word (freebsd_cpu B) 1 EDX \<and>
     cpu_feature2 B = leaf_word (freebsd_cpu B) 1 ECX \<and>
     cpu_stdext_feature B = leaf_word (freebsd_cpu B) 7 EBX \<and> (\<forall>m. cmask B m = 2 ^ mask_bit m)"

lemma leaf_word_flag:
  assumes "hw_flag i = (l, r, n)"
  shows "leaf_word c l r AND 2 ^ n \<noteq> 0 \<longleftrightarrow> has_hw c i"
  using assms by (auto simp: leaf_word_def and_exp_eq_0_iff_not_bit)

lemma freebsd_flags:
  assumes "freebsd_reports B"
  shows "cpu_feature B AND cmask B CPUID_SSE \<noteq> 0 \<longleftrightarrow> has_hw (freebsd_cpu B) SSE"
    "cpu_feature B AND cmask B CPUID_SSE2 \<noteq> 0 \<longleftrightarrow> has_hw (freebsd_cpu B) SSE2"
    "cpu_feature2 B AND cmask B CPUID2_SSE3 \<noteq> 0 \<longleftrightarrow> has_hw (freebsd_cpu B) SSE3"
    "cpu_feature2 B AND cmask B CPUID2_SSSE3 \<noteq> 0 \<longleftrightarrow> has_hw (freebsd_cpu B) SSSE3"
    "cpu_feature2 B AND cmask B CPUID2_SSE41 \<noteq> 0 \<longleftrightarrow> has_hw (freebsd_cpu B) SSE4_1"
    "cpu_feature2 B AND cmask B CPUID2_SSE42 \<noteq> 0 \<longleftrightarrow> has_hw (freebsd_cpu B) SSE4_2"
    "cpu_feature2 B AND cmask B CPUID2_OSXSAVE \<noteq> 0 \<longleftrightarrow> has_hw (freebsd_cpu B) OSXSAVE"
    "cpu_feature2 B AND cmask B CPUID2_AVX \<noteq> 0 \<longleftrightarrow> has_hw (freebsd_cpu B) AVX"
    "cpu_stdext_feature B AND cmask B CPUID_STDEXT_AVX2 \<noteq> 0 \<longleftrightarrow> has_hw (freebsd_cpu B) AVX2"
    "cpu_stdext_feature B AND cmask B CPUID_STDEXT_SHA \<noteq> 0 \<longleftrightarrow> has_hw (freebsd_cpu B) SHA_NI"
    "cpu_stdext_feature B AND cmask B CPUID_STDEXT_AVX512F \<noteq> 0 \<longleftrightarrow> has_hw (freebsd_cpu B) AVX512F"
    "cpu_stdext_feature B AND cmask B CPUID_STDEXT_AVX512CD \<noteq> 0 \<longleftrightarrow> has_hw (freebsd_cpu B) AVX512CD"
    "cpu_stdext_feature B AND cmask B CPUID_STDEXT_AVX512PF \<noteq> 0 \<longleftrightarrow> has_hw (freebsd_cpu B) AVX512PF"
    "cpu_stdext_feature B AND cmask B CPUID_STDEXT_AVX512BW \<noteq> 0 \<longleftrightarrow> has_hw (freebsd_cpu B) AVX512BW"
    "cpu_stdext_feature B AND cmask B CPUID_STDEXT_AVX512DQ \<noteq> 0 \<longleftrightarrow> has_hw (freebsd_cpu B) AVX512DQ"
    "cpu_stdext_feature B AND cmask B CPUID_STDEXT_AVX512VL \<noteq> 0 \<longleftrightarrow> has_hw (freebsd_cpu B) AVX512VL"
    "cpu_stdext_feature B AND cmask B CPUID_STDEXT_AVX512IFMA \<noteq> 0 \<longleftrightarrow> has_hw (freebsd_cpu B) AVX512IFMA"
    "cpu_stdext_feature B AND cmask B CPUID_STDEXT_BMI1 \<noteq> 0 \<longleftrightarrow> has_hw (freebsd_cpu B) BMI1"
  using assms unfolding freebsd_reports_def
  by (simp_all only: leaf_word_flag [OF hw_flag.simps(1)] leaf_word_flag [OF hw_flag.simps(2)]
      leaf_word_flag [OF hw_flag.simps(3)] leaf_word_flag [OF hw_flag.simps(4)] leaf_word_flag [OF hw_flag.simps(5)]
      leaf_word_flag [OF hw_flag.simps(6)] leaf_word_flag [OF hw_flag.simps(7)] leaf_word_flag [OF hw_flag.simps(8)]
      leaf_word_flag [OF hw_flag.simps(9)] leaf_word_flag [OF hw_flag.simps(10)] leaf_word_flag [OF hw_flag.simps(12)]
      leaf_word_flag [OF hw_flag.simps(13)] leaf_word_flag [OF hw_flag.simps(14)] leaf_word_flag [OF hw_flag.simps(15)]
      leaf_word_flag [OF hw_flag.simps(16)] leaf_word_flag [OF hw_flag.simps(18)] leaf_word_flag [OF hw_flag.simps(20)]
      leaf_word_flag [OF hw_flag.simps(24)] mask_bit.simps)

lemma freebsd_state_value:
  assumes "freebsd_reports B"
  shows "freebsd_simd_state_enabled B m = Some (keeps_regs (freebsd_cpu B) m)"
  using freebsd_flags(7) [OF assms]
  by (auto simp: freebsd_simd_state_enabled_def freebsd_xgetbv_def xgetbv_def keeps_regs_def Let_def)

lemma freebsd_enabled_value:
  assumes "freebsd_reports B"
  shows "freebsd_ymm_enabled B = Some (keeps_regs (freebsd_cpu B) XSTATE_SSE_AVX)"
    and "freebsd_zmm_enabled B = Some (keeps_regs (freebsd_cpu B) XSTATE_AVX512)"
  using freebsd_state_value [OF assms]
  by (simp_all add: freebsd_ymm_enabled_def freebsd_zmm_enabled_def freebsd_XSTATE_SSE_AVX_def freebsd_XSTATE_AVX512_def
      XSTATE_SSE_AVX_def XSTATE_AVX512_def)

lemma and_flag_low: "(x :: u32) AND 1 = 1 \<longleftrightarrow> bit x 0" "(x :: u32) AND 2 = 2 \<longleftrightarrow> bit x (Suc 0)"
  using and_flag_iff [of 0 x] and_flag_iff [of 1 x] by simp_all

text \<open>The user-space tests compare several flags at once.\<close>

lemma user_flags:
  "cpuid_has_sse c = has_hw c SSE" "cpuid_has_sse2 c = has_hw c SSE2" "cpuid_has_sse3 c = has_hw c SSE3"
  "cpuid_has_ssse3 c = has_hw c SSSE3" "cpuid_has_sse4_1 c = has_hw c SSE4_1" "cpuid_has_sse4_2 c = has_hw c SSE4_2"
  "cpuid_has_osxsave c = has_hw c OSXSAVE" "cpuid_has_avx c = has_hw c AVX" "cpuid_has_avx2 c = has_hw c AVX2"
  "cpuid_has_bmi1 c = has_hw c BMI1" "cpuid_has_bmi2 c = has_hw c BMI2" "cpuid_has_aes c = has_hw c AES"
  "cpuid_has_pclmulqdq c = has_hw c PCLMULQDQ" "cpuid_has_movbe c = has_hw c MOVBE" "cpuid_has_shani c = has_hw c SHA_NI"
  "cpuid_has_vaes c = has_hw c VAES" "cpuid_has_vpclmulqdq c = has_hw c VPCLMULQDQ"
  "cpuid_has_avx512f c = has_hw c AVX512F" "cpuid_has_avx512vbmi c = has_hw c AVX512VBMI"
  by (simp_all add: cpuid_has_defs CPUID_FEATURE_CHECK_def cpuid_check_feature_def and_flag_iff AES_BIT_def
      PCLMULQDQ_BIT_def MOVBE_BIT_def SHA_NI_BIT_def VAES_BIT_def VPCLMULQDQ_BIT_def AVX512F_BIT_def AVX512VBMI_BIT_def
      and_flag_low del: power_numeral)

lemma user_family:
  "cpuid_has_avx512cd c \<longleftrightarrow> has_hw c AVX512F \<and> has_hw c AVX512CD"
  "cpuid_has_avx512dq c \<longleftrightarrow> has_hw c AVX512F \<and> has_hw c AVX512DQ"
  "cpuid_has_avx512bw c \<longleftrightarrow> has_hw c AVX512F \<and> has_hw c AVX512BW"
  "cpuid_has_avx512ifma c \<longleftrightarrow> has_hw c AVX512F \<and> has_hw c AVX512IFMA"
  "cpuid_has_avx512pf c \<longleftrightarrow> has_hw c AVX512F \<and> has_hw c AVX512PF"
  "cpuid_has_avx512er c \<longleftrightarrow> has_hw c AVX512F \<and> has_hw c AVX512ER"
  "cpuid_has_avx512vl c \<longleftrightarrow> has_hw c AVX512F \<and> has_hw c AVX512ER"
  by (auto simp: cpuid_has_defs CPUID_FEATURE_CHECK_def cpuid_check_feature_def AVX512CD_BIT_def AVX512DQ_BIT_def
      AVX512BW_BIT_def AVX512IFMA_BIT_def AVX512PF_BIT_def AVX512ER_BIT_def AVX512F_BIT_def and_flags_iff and_flag_iff
      simp del: power_numeral)

lemma user_enabled:
  "ymm_enabled c = Some (keeps_regs c XSTATE_SSE_AVX)" "zmm_enabled c = Some (keeps_regs c XSTATE_AVX512)"
  by (simp_all add: enabled_value keeps_regs_def user_flags del: hw_simps)

lemma linux_values:
  assumes "linux_reports L"
  shows "linux_sse_available L = Some (has_hw (linux_cpu L) SSE)"
    "linux_sse2_available L = Some (has_hw (linux_cpu L) SSE2)"
    "linux_sse3_available L = Some (has_hw (linux_cpu L) SSE3)"
    "linux_ssse3_available L = Some (has_hw (linux_cpu L) SSSE3)"
    "linux_sse4_1_available L = Some (has_hw (linux_cpu L) SSE4_1)"
    "linux_sse4_2_available L = Some (has_hw (linux_cpu L) SSE4_2)"
    "linux_avx_available L = Some (has_hw (linux_cpu L) AVX \<and> has_macro L X86_FEATURE_OSXSAVE \<and> keeps_regs (linux_cpu L) XSTATE_SSE_AVX)"
    "linux_avx2_available L = Some (has_hw (linux_cpu L) AVX2 \<and> has_macro L X86_FEATURE_OSXSAVE \<and> keeps_regs (linux_cpu L) XSTATE_SSE_AVX)"
    "linux_bmi1_available L = Some (has_macro L X86_FEATURE_BMI1 \<and> has_hw (linux_cpu L) BMI1)"
    "linux_bmi2_available L = Some (has_macro L X86_FEATURE_BMI2 \<and> has_hw (linux_cpu L) BMI2)"
    "linux_aes_available L = Some (has_macro L X86_FEATURE_AES \<and> has_hw (linux_cpu L) AES)"
    "linux_pclmulqdq_available L = Some (has_macro L X86_FEATURE_PCLMULQDQ \<and> has_hw (linux_cpu L) PCLMULQDQ)"
    "linux_movbe_available L = Some (has_macro L X86_FEATURE_MOVBE \<and> has_hw (linux_cpu L) MOVBE)"
    "linux_vaes_available L = Some (has_macro L X86_FEATURE_VAES \<and> has_hw (linux_cpu L) VAES)"
    "linux_vpclmulqdq_available L = Some (has_macro L X86_FEATURE_VPCLMULQDQ \<and> has_hw (linux_cpu L) VPCLMULQDQ)"
    "linux_shani_available L = Some (has_macro L X86_FEATURE_SHA_NI \<and> has_hw (linux_cpu L) SHA_NI)"
    "linux_avx512f_available L = Some (has_macro L X86_FEATURE_AVX512F \<and> has_hw (linux_cpu L) AVX512F \<and> has_macro L X86_FEATURE_OSXSAVE \<and> keeps_regs (linux_cpu L) XSTATE_AVX512)"
    "linux_avx512cd_available L = Some (has_macro L X86_FEATURE_AVX512CD \<and> has_hw (linux_cpu L) AVX512F \<and> has_hw (linux_cpu L) AVX512CD \<and> has_macro L X86_FEATURE_OSXSAVE \<and> keeps_regs (linux_cpu L) XSTATE_AVX512)"
    "linux_avx512er_available L = Some (has_macro L X86_FEATURE_AVX512ER \<and> has_hw (linux_cpu L) AVX512F \<and> has_hw (linux_cpu L) AVX512ER \<and> has_macro L X86_FEATURE_OSXSAVE \<and> keeps_regs (linux_cpu L) XSTATE_AVX512)"
    "linux_avx512pf_available L = Some (has_macro L X86_FEATURE_AVX512PF \<and> has_hw (linux_cpu L) AVX512F \<and> has_hw (linux_cpu L) AVX512PF \<and> has_macro L X86_FEATURE_OSXSAVE \<and> keeps_regs (linux_cpu L) XSTATE_AVX512)"
    "linux_avx512bw_available L = Some (has_macro L X86_FEATURE_AVX512BW \<and> has_hw (linux_cpu L) AVX512F \<and> has_hw (linux_cpu L) AVX512BW \<and> has_macro L X86_FEATURE_OSXSAVE \<and> keeps_regs (linux_cpu L) XSTATE_AVX512)"
    "linux_avx512dq_available L = Some (has_macro L X86_FEATURE_AVX512DQ \<and> has_hw (linux_cpu L) AVX512F \<and> has_hw (linux_cpu L) AVX512DQ \<and> has_macro L X86_FEATURE_OSXSAVE \<and> keeps_regs (linux_cpu L) XSTATE_AVX512)"
    "linux_avx512vl_available L = Some (has_macro L X86_FEATURE_AVX512VL \<and> has_hw (linux_cpu L) AVX512F \<and> has_hw (linux_cpu L) AVX512VL \<and> has_macro L X86_FEATURE_OSXSAVE \<and> keeps_regs (linux_cpu L) XSTATE_AVX512)"
    "linux_avx512ifma_available L = Some (has_macro L X86_FEATURE_AVX512IFMA \<and> has_hw (linux_cpu L) AVX512F \<and> has_hw (linux_cpu L) AVX512IFMA \<and> has_macro L X86_FEATURE_OSXSAVE \<and> keeps_regs (linux_cpu L) XSTATE_AVX512)"
    "linux_avx512vbmi_available L = Some (has_macro L X86_FEATURE_AVX512VBMI \<and> has_hw (linux_cpu L) AVX512F \<and> has_hw (linux_cpu L) AVX512VBMI \<and> has_macro L X86_FEATURE_OSXSAVE \<and> keeps_regs (linux_cpu L) XSTATE_AVX512)"
proof -
  have flags: "\<And>f. boot_cpu_has L f = has_hw (linux_cpu L) (x86_flag f)" using assms by (simp add: linux_reports_def)
  note defs = flags linux_enabled_value [OF assms] and_then_def Let_def
  show "linux_sse_available L = Some (has_hw (linux_cpu L) SSE)"
    by (simp add: linux_sse_available_def defs del: hw_simps)
  show "linux_sse2_available L = Some (has_hw (linux_cpu L) SSE2)"
    by (simp add: linux_sse2_available_def defs del: hw_simps)
  show "linux_sse3_available L = Some (has_hw (linux_cpu L) SSE3)"
    by (simp add: linux_sse3_available_def defs del: hw_simps)
  show "linux_ssse3_available L = Some (has_hw (linux_cpu L) SSSE3)"
    by (simp add: linux_ssse3_available_def defs del: hw_simps)
  show "linux_sse4_1_available L = Some (has_hw (linux_cpu L) SSE4_1)"
    by (simp add: linux_sse4_1_available_def defs del: hw_simps)
  show "linux_sse4_2_available L = Some (has_hw (linux_cpu L) SSE4_2)"
    by (simp add: linux_sse4_2_available_def defs del: hw_simps)
  show "linux_avx_available L = Some (has_hw (linux_cpu L) AVX \<and> has_macro L X86_FEATURE_OSXSAVE \<and> keeps_regs (linux_cpu L) XSTATE_SSE_AVX)"
    by (simp add: linux_avx_available_def defs del: hw_simps)
  show "linux_avx2_available L = Some (has_hw (linux_cpu L) AVX2 \<and> has_macro L X86_FEATURE_OSXSAVE \<and> keeps_regs (linux_cpu L) XSTATE_SSE_AVX)"
    by (simp add: linux_avx2_available_def defs del: hw_simps)
  show "linux_bmi1_available L = Some (has_macro L X86_FEATURE_BMI1 \<and> has_hw (linux_cpu L) BMI1)"
    by (simp add: linux_bmi1_available_def defs del: hw_simps)
  show "linux_bmi2_available L = Some (has_macro L X86_FEATURE_BMI2 \<and> has_hw (linux_cpu L) BMI2)"
    by (simp add: linux_bmi2_available_def defs del: hw_simps)
  show "linux_aes_available L = Some (has_macro L X86_FEATURE_AES \<and> has_hw (linux_cpu L) AES)"
    by (simp add: linux_aes_available_def defs del: hw_simps)
  show "linux_pclmulqdq_available L = Some (has_macro L X86_FEATURE_PCLMULQDQ \<and> has_hw (linux_cpu L) PCLMULQDQ)"
    by (simp add: linux_pclmulqdq_available_def defs del: hw_simps)
  show "linux_movbe_available L = Some (has_macro L X86_FEATURE_MOVBE \<and> has_hw (linux_cpu L) MOVBE)"
    by (simp add: linux_movbe_available_def defs del: hw_simps)
  show "linux_vaes_available L = Some (has_macro L X86_FEATURE_VAES \<and> has_hw (linux_cpu L) VAES)"
    by (simp add: linux_vaes_available_def defs del: hw_simps)
  show "linux_vpclmulqdq_available L = Some (has_macro L X86_FEATURE_VPCLMULQDQ \<and> has_hw (linux_cpu L) VPCLMULQDQ)"
    by (simp add: linux_vpclmulqdq_available_def defs del: hw_simps)
  show "linux_shani_available L = Some (has_macro L X86_FEATURE_SHA_NI \<and> has_hw (linux_cpu L) SHA_NI)"
    by (simp add: linux_shani_available_def defs del: hw_simps)
  show "linux_avx512f_available L = Some (has_macro L X86_FEATURE_AVX512F \<and> has_hw (linux_cpu L) AVX512F \<and> has_macro L X86_FEATURE_OSXSAVE \<and> keeps_regs (linux_cpu L) XSTATE_AVX512)"
    by (auto simp: linux_avx512f_available_def defs simp del: hw_simps)
  show "linux_avx512cd_available L = Some (has_macro L X86_FEATURE_AVX512CD \<and> has_hw (linux_cpu L) AVX512F \<and> has_hw (linux_cpu L) AVX512CD \<and> has_macro L X86_FEATURE_OSXSAVE \<and> keeps_regs (linux_cpu L) XSTATE_AVX512)"
    by (auto simp: linux_avx512cd_available_def defs simp del: hw_simps)
  show "linux_avx512er_available L = Some (has_macro L X86_FEATURE_AVX512ER \<and> has_hw (linux_cpu L) AVX512F \<and> has_hw (linux_cpu L) AVX512ER \<and> has_macro L X86_FEATURE_OSXSAVE \<and> keeps_regs (linux_cpu L) XSTATE_AVX512)"
    by (auto simp: linux_avx512er_available_def defs simp del: hw_simps)
  show "linux_avx512pf_available L = Some (has_macro L X86_FEATURE_AVX512PF \<and> has_hw (linux_cpu L) AVX512F \<and> has_hw (linux_cpu L) AVX512PF \<and> has_macro L X86_FEATURE_OSXSAVE \<and> keeps_regs (linux_cpu L) XSTATE_AVX512)"
    by (auto simp: linux_avx512pf_available_def defs simp del: hw_simps)
  show "linux_avx512bw_available L = Some (has_macro L X86_FEATURE_AVX512BW \<and> has_hw (linux_cpu L) AVX512F \<and> has_hw (linux_cpu L) AVX512BW \<and> has_macro L X86_FEATURE_OSXSAVE \<and> keeps_regs (linux_cpu L) XSTATE_AVX512)"
    by (auto simp: linux_avx512bw_available_def defs simp del: hw_simps)
  show "linux_avx512dq_available L = Some (has_macro L X86_FEATURE_AVX512DQ \<and> has_hw (linux_cpu L) AVX512F \<and> has_hw (linux_cpu L) AVX512DQ \<and> has_macro L X86_FEATURE_OSXSAVE \<and> keeps_regs (linux_cpu L) XSTATE_AVX512)"
    by (auto simp: linux_avx512dq_available_def defs simp del: hw_simps)
  show "linux_avx512vl_available L = Some (has_macro L X86_FEATURE_AVX512VL \<and> has_hw (linux_cpu L) AVX512F \<and> has_hw (linux_cpu L) AVX512VL \<and> has_macro L X86_FEATURE_OSXSAVE \<and> keeps_regs (linux_cpu L) XSTATE_AVX512)"
    by (auto simp: linux_avx512vl_available_def defs simp del: hw_simps)
  show "linux_avx512ifma_available L = Some (has_macro L X86_FEATURE_AVX512IFMA \<and> has_hw (linux_cpu L) AVX512F \<and> has_hw (linux_cpu L) AVX512IFMA \<and> has_macro L X86_FEATURE_OSXSAVE \<and> keeps_regs (linux_cpu L) XSTATE_AVX512)"
    by (auto simp: linux_avx512ifma_available_def defs simp del: hw_simps)
  show "linux_avx512vbmi_available L = Some (has_macro L X86_FEATURE_AVX512VBMI \<and> has_hw (linux_cpu L) AVX512F \<and> has_hw (linux_cpu L) AVX512VBMI \<and> has_macro L X86_FEATURE_OSXSAVE \<and> keeps_regs (linux_cpu L) XSTATE_AVX512)"
    by (auto simp: linux_avx512vbmi_available_def defs simp del: hw_simps)
qed

lemma claims_iff: "(\<exists>b. Some v = Some b \<and> (b \<longrightarrow> p) \<and> (m \<longrightarrow> b = p)) \<longleftrightarrow> (v \<longrightarrow> p) \<and> (m \<longrightarrow> v = p)"
  by simp

section \<open>Properties\<close>

text \<open>
  In user space every test but the one for the vector length extensions returns exactly what
  it promises: the processor has the flag, for the AVX-512 family also the foundation's, and the
  operating system keeps the registers. The remaining one returns the promise of the exponential
  extensions.
\<close>

theorem simd_user_space_promise:
  "list_all (\<lambda>(i, test). test c = Some (promised c i))
    [(SSE, zfs_sse_available), (SSE2, zfs_sse2_available), (SSE3, zfs_sse3_available), (SSSE3, zfs_ssse3_available),
     (SSE4_1, zfs_sse4_1_available), (SSE4_2, zfs_sse4_2_available), (AVX, zfs_avx_available), (AVX2, zfs_avx2_available),
     (BMI1, zfs_bmi1_available), (BMI2, zfs_bmi2_available), (AES, zfs_aes_available),
     (PCLMULQDQ, zfs_pclmulqdq_available), (MOVBE, zfs_movbe_available), (SHA_NI, zfs_shani_available),
     (VAES, zfs_vaes_available), (VPCLMULQDQ, zfs_vpclmulqdq_available), (AVX512F, zfs_avx512f_available),
     (AVX512CD, zfs_avx512cd_available), (AVX512ER, zfs_avx512er_available), (AVX512PF, zfs_avx512pf_available),
     (AVX512BW, zfs_avx512bw_available), (AVX512DQ, zfs_avx512dq_available), (AVX512IFMA, zfs_avx512ifma_available),
     (AVX512VBMI, zfs_avx512vbmi_available), (AVX512ER, zfs_avx512vl_available)]"
  by (simp add: available_defs user_flags user_family user_enabled promised_def and_then_def del: hw_simps)

text \<open>
  In the Linux kernel no test reads the control register where that is illegal, none claims
  more than it promises, whatever feature names the kernel's headers define, and where they define
  all of them every test returns exactly the promise.
\<close>

theorem simd_linux_promise:
  assumes "linux_reports L"
  shows "list_all (\<lambda>(i, test). \<exists>b. test L = Some b \<and> (b \<longrightarrow> promised (linux_cpu L) i) \<and>
      ((\<forall>f. has_macro L f) \<longrightarrow> b = promised (linux_cpu L) i))
    [(SSE, linux_sse_available), (SSE2, linux_sse2_available), (SSE3, linux_sse3_available),
     (SSSE3, linux_ssse3_available), (SSE4_1, linux_sse4_1_available), (SSE4_2, linux_sse4_2_available),
     (AVX, linux_avx_available), (AVX2, linux_avx2_available), (BMI1, linux_bmi1_available),
     (BMI2, linux_bmi2_available), (AES, linux_aes_available), (PCLMULQDQ, linux_pclmulqdq_available),
     (MOVBE, linux_movbe_available), (SHA_NI, linux_shani_available), (VAES, linux_vaes_available),
     (VPCLMULQDQ, linux_vpclmulqdq_available), (AVX512F, linux_avx512f_available), (AVX512CD, linux_avx512cd_available),
     (AVX512ER, linux_avx512er_available), (AVX512PF, linux_avx512pf_available), (AVX512BW, linux_avx512bw_available),
     (AVX512DQ, linux_avx512dq_available), (AVX512VL, linux_avx512vl_available),
     (AVX512IFMA, linux_avx512ifma_available), (AVX512VBMI, linux_avx512vbmi_available)]"
  unfolding list.pred_inject prod.case linux_values [OF assms] claims_iff
  by (intro conjI TrueI; auto simp: promised_def simp del: hw_simps)

definition demo_linux :: linux_x86 where
  "demo_linux = \<lparr>boot_cpu_has = (\<lambda>f. has_hw demo_cpu (x86_flag f)), has_macro = (\<lambda>_. True), linux_cpu = demo_cpu\<rparr>"

theorem simd_linux_promise_witness:
  "linux_avx512vl_available demo_linux = Some (promised demo_cpu AVX512VL) \<and>
   linux_avx512er_available demo_linux = Some (promised demo_cpu AVX512ER)"
  using simd_linux_promise [of demo_linux] by (simp add: linux_reports_def demo_linux_def del: hw_simps)

text \<open>
  In the FreeBSD kernel the tests up to AVX2 and, of the AVX-512 family, those for the
  foundation and for CD, PF, DQ, VL and IFMA return exactly the promise, and the one for the SHA
  instructions also asks for the registers. The others do not: ER answers for CD, BW does not ask
  for the foundation, and VBMI answers for BMI1.
\<close>

theorem simd_freebsd_promise:
  assumes "freebsd_reports B"
  shows "list_all (\<lambda>(test, answer). test B = Some answer)
    [(freebsd_sse_available, promised (freebsd_cpu B) SSE), (freebsd_sse2_available, promised (freebsd_cpu B) SSE2),
     (freebsd_sse3_available, promised (freebsd_cpu B) SSE3), (freebsd_ssse3_available, promised (freebsd_cpu B) SSSE3),
     (freebsd_sse4_1_available, promised (freebsd_cpu B) SSE4_1), (freebsd_sse4_2_available, promised (freebsd_cpu B) SSE4_2),
     (freebsd_avx_available, promised (freebsd_cpu B) AVX), (freebsd_avx2_available, promised (freebsd_cpu B) AVX2),
     (freebsd_shani_available, promised (freebsd_cpu B) SHA_NI \<and> keeps_regs (freebsd_cpu B) XSTATE_SSE_AVX),
     (freebsd_avx512f_available, promised (freebsd_cpu B) AVX512F), (freebsd_avx512cd_available, promised (freebsd_cpu B) AVX512CD),
     (freebsd_avx512pf_available, promised (freebsd_cpu B) AVX512PF), (freebsd_avx512dq_available, promised (freebsd_cpu B) AVX512DQ),
     (freebsd_avx512vl_available, promised (freebsd_cpu B) AVX512VL), (freebsd_avx512ifma_available, promised (freebsd_cpu B) AVX512IFMA),
     (freebsd_avx512er_available, promised (freebsd_cpu B) AVX512CD),
     (freebsd_avx512bw_available, has_hw (freebsd_cpu B) AVX512BW \<and> keeps_regs (freebsd_cpu B) XSTATE_AVX512),
     (freebsd_avx512vbmi_available, promised (freebsd_cpu B) AVX512F \<and> has_hw (freebsd_cpu B) BMI1)]"
  unfolding list.pred_inject prod.case freebsd_available_defs freebsd_flags [OF assms] freebsd_enabled_value [OF assms] Let_def and_then_def
  by (intro conjI TrueI; auto simp: promised_def simp del: hw_simps)

text \<open>A processor with the foundation, CD and BMI1, but without ER and VBMI, as FreeBSD sees it.\<close>

definition skylake :: cpu where
  "skylake = \<lparr>cpuid_max = 0x16,
     cpuid_count = (\<lambda>l s r. if l = 7 \<and> r = EBX then 2 ^ 16 OR 2 ^ 28 OR 2 ^ 3
       else if l = 1 \<and> r = ECX then 2 ^ 27 OR 2 ^ 28 else 0),
     xcr = (\<lambda>_. 0xE7), auxval = (\<lambda>_. 0)\<rparr>"

definition demo_freebsd :: freebsd_x86 where
  "demo_freebsd = \<lparr>cpu_feature = leaf_word skylake 1 EDX, cpu_feature2 = leaf_word skylake 1 ECX,
     cpu_stdext_feature = leaf_word skylake 7 EBX, cmask = (\<lambda>m. 2 ^ mask_bit m), freebsd_cpu = skylake\<rparr>"

lemma demo_freebsd_reports: "freebsd_reports demo_freebsd"
  by (simp add: freebsd_reports_def demo_freebsd_def)

theorem simd_freebsd_promise_witness:
  "freebsd_avx512er_available demo_freebsd = Some True \<and> \<not> promised skylake AVX512ER \<and>
   freebsd_avx512vbmi_available demo_freebsd = Some True \<and> \<not> promised skylake AVX512VBMI"
proof -
  have "freebsd_cpu demo_freebsd = skylake" by (simp add: demo_freebsd_def)
  then show ?thesis using simd_freebsd_promise [OF demo_freebsd_reports]
    by (simp add: promised_def keeps_regs_def skylake_def XSTATE_AVX512_def XSTATE_SSE_AVX_def bit_numeral_rec)
qed

end
