(* ===== verification/Kfpu.thy ===== *)
theory Kfpu
  imports Simd_Kernel
begin

unbundle bit_operations_syntax

text \<open>
  The floating point context of the Linux kernel build that provides its own
  (\<open>compat/openzfs/os/linux/kernel/linux/simd_x86.h\<close>, without the kernel's exported functions):
  the allocation of one save area for each processor, and \<open>kfpu_begin\<close> and \<open>kfpu_end\<close>, which
  save and restore the registers around a region that uses them. The instructions are parameters
  with a contract on the state components in their masks: an instruction that restores loads, for
  the components in its mask, what the saving instruction of its own format has stored, and leaves
  the others alone.
\<close>

section \<open>Save areas\<close>

definition get_xsave_area_size :: "linux_x86 \<Rightarrow> u32" where
  "get_xsave_area_size L = (if \<not> boot_cpu_has L X86_FEATURE_OSXSAVE then 0 else cpuid_count (linux_cpu L) 13 0 ECX)"

definition get_fpuregs_save_area_order :: "(u64 \<Rightarrow> nat) \<Rightarrow> linux_x86 \<Rightarrow> nat" where
  "get_fpuregs_save_area_order get_order L =
    (let area_size = (ucast (get_xsave_area_size L) :: u64)
     in get_order (if area_size = 0 then 512 else area_size))"

text \<open>
  Memory: the array of area addresses, the pages in use with the order of their allocation, and
  what the next allocations return (0 is a failure). Reading the array outside its bounds, through
  a null pointer or after it was freed, and freeing pages that are not in use or with another
  order, have no result.
\<close>

datatype area_array = Array_null | Array_live "u64 list" | Array_freed

record kfpu_mem =
  zfs_kfpu_fpregs :: area_array
  live_pages :: "(u64 \<times> nat) set"
  page_supply :: "u64 list"
  kzalloc_ok :: bool

fun free_areas :: "nat list \<Rightarrow> nat \<Rightarrow> u64 list \<Rightarrow> (u64 \<times> nat) set \<Rightarrow> (u64 \<times> nat) set option" where
  "free_areas [] order areas live = Some live"
| "free_areas (cpu # cpus) order areas live =
    (if cpu < length areas then
       (if areas ! cpu \<noteq> 0 then
          (if (areas ! cpu, order) \<in> live then free_areas cpus order areas (live - {(areas ! cpu, order)}) else None)
        else free_areas cpus order areas live)
     else None)"

definition kfpu_fini :: "nat list \<Rightarrow> nat \<Rightarrow> kfpu_mem \<Rightarrow> kfpu_mem option" where
  "kfpu_fini possible order s = (case zfs_kfpu_fpregs s of
      Array_live areas \<Rightarrow> map_option (\<lambda>live. s\<lparr>live_pages := live, zfs_kfpu_fpregs := Array_freed\<rparr>)
        (free_areas possible order areas (live_pages s))
    | _ \<Rightarrow> if possible = [] \<and> zfs_kfpu_fpregs s = Array_null then Some s else None)"

definition ENOMEM_kernel :: int where "ENOMEM_kernel = 12"

definition next_page :: "kfpu_mem \<Rightarrow> u64" where
  "next_page s = (case page_supply s of [] \<Rightarrow> 0 | p # _ \<Rightarrow> p)"

fun init_areas :: "nat list \<Rightarrow> nat \<Rightarrow> nat list \<Rightarrow> kfpu_mem \<Rightarrow> (int \<times> kfpu_mem) option" where
  "init_areas possible order [] s = Some (0, s)"
| "init_areas possible order (cpu # cpus) s =
    (let page = next_page s; s = s\<lparr>page_supply := tl (page_supply s)\<rparr>
     in if page = 0 then map_option (\<lambda>s'. (- ENOMEM_kernel, s')) (kfpu_fini possible order s)
        else (case zfs_kfpu_fpregs s of
            Array_live areas \<Rightarrow>
              (if cpu < length areas
               then init_areas possible order cpus
                 (s\<lparr>zfs_kfpu_fpregs := Array_live (areas[cpu := page]), live_pages := insert (page, order) (live_pages s)\<rparr>)
               else None)
          | _ \<Rightarrow> None))"

text \<open>The list holds the numbers of the possible processors; their count sizes the array.\<close>

definition kfpu_init :: "nat list \<Rightarrow> nat \<Rightarrow> kfpu_mem \<Rightarrow> (int \<times> kfpu_mem) option" where
  "kfpu_init possible order s =
    (if \<not> kzalloc_ok s then Some (- ENOMEM_kernel, s\<lparr>zfs_kfpu_fpregs := Array_null\<rparr>)
     else init_areas possible order possible (s\<lparr>zfs_kfpu_fpregs := Array_live (replicate (length possible) 0)\<rparr>))"

section \<open>Saving and restoring\<close>

datatype save_insn = Xsaves u32 u32 | Xsaveopt u32 u32 | Xsave u32 u32 | Fxsave | Fxsaveq | Fnsave
datatype restore_insn = Xrstors u32 u32 | Xrstor u32 u32 | Fxrstor | Fxrstorq | Frstor

text \<open>What the build found in the compiler, and the flags of the processor.\<close>

record kfpu_env =
  HAVE_XSAVES :: bool
  HAVE_XSAVEOPT :: bool
  HAVE_XSAVE :: bool
  CONFIG_X86_32 :: bool
  cpu_XSAVES :: bool
  cpu_XSAVEOPT :: bool
  cpu_XSAVE :: bool
  cpu_FXSR :: bool
  bug_FXSAVE_LEAK :: bool

record ('f, 'a) fpu_hw =
  exec_save :: "save_insn \<Rightarrow> 'f \<Rightarrow> 'a \<Rightarrow> 'f \<times> 'a"
  exec_restore :: "restore_insn \<Rightarrow> 'f \<Rightarrow> 'a \<Rightarrow> 'f"
  fxsr_clean :: "'f \<Rightarrow> 'a \<Rightarrow> 'f"

definition XFEATURE_MASK_XTILE :: u32 where "XFEATURE_MASK_XTILE = 0x60000"

text \<open>The macro's argument is a signed expression: extended to 64 bits its upper half is all ones.\<close>

definition kfpu_do_xsave :: "(u32 \<Rightarrow> u32 \<Rightarrow> save_insn) \<Rightarrow> u32 \<Rightarrow> save_insn" where
  "kfpu_do_xsave insn m = insn m (ucast (drop_bit 32 (scast m :: u64)))"

definition kfpu_do_xrstor :: "(u32 \<Rightarrow> u32 \<Rightarrow> restore_insn) \<Rightarrow> u32 \<Rightarrow> restore_insn" where
  "kfpu_do_xrstor insn m = insn m (ucast (drop_bit 32 (scast m :: u64)))"

definition kfpu_save_fxsr :: "kfpu_env \<Rightarrow> save_insn" where
  "kfpu_save_fxsr E = (if CONFIG_X86_32 E then Fxsave else Fxsaveq)"

definition kfpu_save_fsave :: save_insn where "kfpu_save_fsave = Fnsave"

definition save_choice :: "kfpu_env \<Rightarrow> save_insn" where
  "save_choice E =
    (if HAVE_XSAVES E \<and> cpu_XSAVES E then kfpu_do_xsave Xsaves (NOT XFEATURE_MASK_XTILE)
     else if HAVE_XSAVEOPT E \<and> cpu_XSAVEOPT E then kfpu_do_xsave Xsaveopt (NOT XFEATURE_MASK_XTILE)
     else if HAVE_XSAVE E \<and> cpu_XSAVE E then kfpu_do_xsave Xsave (NOT XFEATURE_MASK_XTILE)
     else if cpu_FXSR E then kfpu_save_fxsr E
     else kfpu_save_fsave)"

definition kfpu_restore_fxsr :: "('f, 'a) fpu_hw \<Rightarrow> kfpu_env \<Rightarrow> 'f \<Rightarrow> 'a \<Rightarrow> 'f" where
  "kfpu_restore_fxsr H E f a =
    (let f = (if bug_FXSAVE_LEAK E then fxsr_clean H f a else f)
     in if CONFIG_X86_32 E then exec_restore H Fxrstor f a else exec_restore H Fxrstorq f a)"

definition kfpu_restore_fsave :: "('f, 'a) fpu_hw \<Rightarrow> 'f \<Rightarrow> 'a \<Rightarrow> 'f" where
  "kfpu_restore_fsave H f a = exec_restore H Frstor f a"

definition restore_state :: "('f, 'a) fpu_hw \<Rightarrow> kfpu_env \<Rightarrow> 'f \<Rightarrow> 'a \<Rightarrow> 'f" where
  "restore_state H E f a =
    (if HAVE_XSAVES E \<and> cpu_XSAVES E then exec_restore H (kfpu_do_xrstor Xrstors (NOT XFEATURE_MASK_XTILE)) f a
     else if HAVE_XSAVE E \<and> cpu_XSAVE E then exec_restore H (kfpu_do_xrstor Xrstor (NOT XFEATURE_MASK_XTILE)) f a
     else if cpu_FXSR E then kfpu_restore_fxsr H E f a
     else kfpu_restore_fsave H f a)"

text \<open>The machine: for each processor its registers, its save area, and what is disabled on it.\<close>

record ('f, 'a) machine =
  fpus :: "nat \<Rightarrow> 'f"
  areas :: "nat \<Rightarrow> 'a"
  preempt_count :: "nat \<Rightarrow> nat"
  irqs_on :: "nat \<Rightarrow> bool"

definition kfpu_begin :: "('f, 'a) fpu_hw \<Rightarrow> kfpu_env \<Rightarrow> nat \<Rightarrow> ('f, 'a) machine \<Rightarrow> ('f, 'a) machine" where
  "kfpu_begin H E cpu m =
    (let m = m\<lparr>preempt_count := (preempt_count m)(cpu := preempt_count m cpu + 1), irqs_on := (irqs_on m)(cpu := False)\<rparr>;
         (f, a) = exec_save H (save_choice E) (fpus m cpu) (areas m cpu)
     in m\<lparr>fpus := (fpus m)(cpu := f), areas := (areas m)(cpu := a)\<rparr>)"

definition kfpu_end :: "('f, 'a) fpu_hw \<Rightarrow> kfpu_env \<Rightarrow> nat \<Rightarrow> ('f, 'a) machine \<Rightarrow> ('f, 'a) machine" where
  "kfpu_end H E cpu m =
    (let m = m\<lparr>fpus := (fpus m)(cpu := restore_state H E (fpus m cpu) (areas m cpu))\<rparr>
     in m\<lparr>irqs_on := (irqs_on m)(cpu := True), preempt_count := (preempt_count m)(cpu := preempt_count m cpu - 1)\<rparr>)"

text \<open>What the processors do meanwhile: enter a region, leave one, or use their registers.\<close>

datatype 'f fpu_act = Begin nat | End nat | Use nat 'f

fun act_cpu :: "'f fpu_act \<Rightarrow> nat" where
  "act_cpu (Begin c) = c"
| "act_cpu (End c) = c"
| "act_cpu (Use c f) = c"

fun fpu_run :: "('f, 'a) fpu_hw \<Rightarrow> kfpu_env \<Rightarrow> 'f fpu_act list \<Rightarrow> ('f, 'a) machine \<Rightarrow> ('f, 'a) machine" where
  "fpu_run H E [] m = m"
| "fpu_run H E (Begin c # acts) m = fpu_run H E acts (kfpu_begin H E c m)"
| "fpu_run H E (End c # acts) m = fpu_run H E acts (kfpu_end H E c m)"
| "fpu_run H E (Use c f # acts) m = fpu_run H E acts (m\<lparr>fpus := (fpus m)(c := f)\<rparr>)"

section \<open>The contract of the instructions\<close>

fun same_format :: "save_insn \<Rightarrow> restore_insn \<Rightarrow> bool" where
  "same_format (Xsaves _ _) (Xrstors _ _) \<longleftrightarrow> True"
| "same_format (Xsaveopt _ _) (Xrstor _ _) \<longleftrightarrow> True"
| "same_format (Xsave _ _) (Xrstor _ _) \<longleftrightarrow> True"
| "same_format Fxsave Fxrstor \<longleftrightarrow> True"
| "same_format Fxsaveq Fxrstorq \<longleftrightarrow> True"
| "same_format Fnsave Frstor \<longleftrightarrow> True"
| "same_format _ _ \<longleftrightarrow> False"

text \<open>
  The state components that an instruction handles, by their architectural numbers (0 the x87
  registers, 1 the SSE registers, 2 the upper halves of the AVX registers, 17 and 18 the tile
  configuration and the tiles): the extended instructions take them from the mask in their two
  operands, the older ones are fixed.
\<close>

definition mask_comps :: "u32 \<Rightarrow> u32 \<Rightarrow> nat set" where
  "mask_comps low hi = {i. if i < 32 then bit low i else bit hi (i - 32)}"

fun saved :: "save_insn \<Rightarrow> nat set" where
  "saved (Xsaves low hi) = mask_comps low hi"
| "saved (Xsaveopt low hi) = mask_comps low hi"
| "saved (Xsave low hi) = mask_comps low hi"
| "saved Fnsave = {0}"
| "saved _ = {0, 1}"

fun restored :: "restore_insn \<Rightarrow> nat set" where
  "restored (Xrstors low hi) = mask_comps low hi"
| "restored (Xrstor low hi) = mask_comps low hi"
| "restored Frstor = {0}"
| "restored _ = {0, 1}"

text \<open>
  A component that the system has enabled, that the saving instruction stores and that the
  restoring instruction of the same format loads, gets its value back; a component that the
  restoring instruction does not load keeps the value it has; cleaning touches the x87 registers
  only. (The pointers to the last x87 instruction are not counted to component 0: some processors
  restore them only when an exception is pending.)
\<close>

locale fpu_insns =
  fixes H :: "('f, 'a) fpu_hw" and part :: "nat \<Rightarrow> 'f \<Rightarrow> 'u" and enabled :: "nat set"
  assumes restore_saved: "same_format si ri \<Longrightarrow> i \<in> enabled \<Longrightarrow> i \<in> saved si \<Longrightarrow> i \<in> restored ri \<Longrightarrow>
      part i (exec_restore H ri f' (snd (exec_save H si f a))) = part i f"
    and restore_others: "i \<notin> restored ri \<Longrightarrow> part i (exec_restore H ri f' a) = part i f'"
    and clean_others: "i \<noteq> 0 \<Longrightarrow> part i (fxsr_clean H f a) = part i f"

text \<open>The instruction that \<open>kfpu_end\<close> executes.\<close>

definition restore_choice :: "kfpu_env \<Rightarrow> restore_insn" where
  "restore_choice E =
    (if HAVE_XSAVES E \<and> cpu_XSAVES E then kfpu_do_xrstor Xrstors (NOT XFEATURE_MASK_XTILE)
     else if HAVE_XSAVE E \<and> cpu_XSAVE E then kfpu_do_xrstor Xrstor (NOT XFEATURE_MASK_XTILE)
     else if cpu_FXSR E then (if CONFIG_X86_32 E then Fxrstor else Fxrstorq)
     else Frstor)"

lemma restore_state_choice:
  "restore_state H E f a = exec_restore H (restore_choice E) f a \<or>
   0 \<in> restored (restore_choice E) \<and> restore_state H E f a = exec_restore H (restore_choice E) (fxsr_clean H f a) a"
  by (auto simp: restore_state_def restore_choice_def kfpu_restore_fxsr_def kfpu_restore_fsave_def Let_def)

text \<open>
  What a region keeps: everything but the two tile components with the extended instructions, the
  x87 and SSE registers with the next older ones, the x87 registers with the oldest.
\<close>

definition kept :: "kfpu_env \<Rightarrow> nat set" where
  "kept E = (if HAVE_XSAVES E \<and> cpu_XSAVES E \<or> HAVE_XSAVEOPT E \<and> cpu_XSAVEOPT E \<or> HAVE_XSAVE E \<and> cpu_XSAVE E
    then {..<64} - {17, 18} else if cpu_FXSR E then {0, 1} else {0})"

lemma xtile_bits: "bit XFEATURE_MASK_XTILE i \<longleftrightarrow> i = 17 \<or> i = 18"
proof -
  have m: "XFEATURE_MASK_XTILE = push_bit 17 (mask 2)" by (simp add: XFEATURE_MASK_XTILE_def mask_eq_exp_minus_1)
  show ?thesis unfolding m
    by (simp only: bit_push_bit_iff bit_mask_iff) (auto simp: possible_bit_def)
qed

lemma mask_comps_xtile:
  "mask_comps (NOT XFEATURE_MASK_XTILE) (ucast (drop_bit 32 (scast (NOT XFEATURE_MASK_XTILE) :: u64))) = {..<64} - {17, 18}"
proof -
  have "ucast (drop_bit 32 (scast (NOT XFEATURE_MASK_XTILE) :: u64)) = (NOT 0 :: u32)"
    by (simp add: XFEATURE_MASK_XTILE_def)
  then show ?thesis unfolding mask_comps_def
    by (auto simp: bit_not_iff xtile_bits possible_bit_def)
qed

lemma saved_choice: "saved (save_choice E) = kept E"
  by (simp add: save_choice_def kfpu_do_xsave_def kfpu_save_fxsr_def kfpu_save_fsave_def kept_def mask_comps_xtile)

text \<open>
  Only one combination saves and restores in different formats: saving with the optimised
  instruction in a build that lacks the plain one.
\<close>

lemma formats_agree:
  "same_format (save_choice E) (restore_choice E) \<longleftrightarrow>
    \<not> (HAVE_XSAVEOPT E \<and> cpu_XSAVEOPT E \<and> \<not> (HAVE_XSAVES E \<and> cpu_XSAVES E) \<and> \<not> (HAVE_XSAVE E \<and> cpu_XSAVE E))"
  by (auto simp: save_choice_def restore_choice_def kfpu_do_xsave_def kfpu_do_xrstor_def kfpu_save_fxsr_def kfpu_save_fsave_def)

lemma begin_sel [simp]:
  "areas (kfpu_begin H E c m) c = snd (exec_save H (save_choice E) (fpus m c) (areas m c))"
  "preempt_count (kfpu_begin H E c m) c = Suc (preempt_count m c)" "\<not> irqs_on (kfpu_begin H E c m) c"
  by (simp_all add: kfpu_begin_def Let_def split: prod.split)

lemma end_sel [simp]:
  "fpus (kfpu_end H E c m) c = restore_state H E (fpus m c) (areas m c)"
  "preempt_count (kfpu_end H E c m) c = preempt_count m c - 1" "irqs_on (kfpu_end H E c m) c"
  "areas (kfpu_end H E c m) = areas m"
  by (simp_all add: kfpu_end_def Let_def)

lemma other_cpu [simp]:
  assumes "c \<noteq> d"
  shows "areas (kfpu_begin H E d m) c = areas m c" "preempt_count (kfpu_begin H E d m) c = preempt_count m c"
    "irqs_on (kfpu_begin H E d m) c = irqs_on m c" "preempt_count (kfpu_end H E d m) c = preempt_count m c"
    "irqs_on (kfpu_end H E d m) c = irqs_on m c"
  using assms by (simp_all add: kfpu_begin_def kfpu_end_def Let_def split: prod.split)

text \<open>Between its begin and its end a processor only uses its registers; the others do anything.\<close>

definition region_of :: "nat \<Rightarrow> 'f fpu_act list \<Rightarrow> bool" where
  "region_of c acts \<longleftrightarrow> Begin c \<notin> set acts \<and> End c \<notin> set acts"

lemma region_frame:
  "region_of c acts \<Longrightarrow> areas (fpu_run H E acts m) c = areas m c \<and>
     preempt_count (fpu_run H E acts m) c = preempt_count m c \<and> irqs_on (fpu_run H E acts m) c = irqs_on m c"
  by (induction H E acts m rule: fpu_run.induct) (auto simp: region_of_def)

lemma restored_choice: "same_format (save_choice E) (restore_choice E) \<Longrightarrow> restored (restore_choice E) = kept E"
  unfolding formats_agree
  by (auto simp: restore_choice_def kfpu_do_xrstor_def kept_def mask_comps_xtile)

context fpu_insns
begin

lemma restore_state_kept:
  assumes "same_format (save_choice E) (restore_choice E)" "i \<in> enabled" "i \<in> kept E"
  shows "part i (restore_state H E f' (snd (exec_save H (save_choice E) f a))) = part i f"
  using restore_state_choice [of H E f' "snd (exec_save H (save_choice E) f a)"] restore_saved [OF assms(1,2)] assms(3)
  by (auto simp: saved_choice restored_choice [OF assms(1)])

lemma restore_state_others:
  assumes "same_format (save_choice E) (restore_choice E)" "i \<notin> kept E"
  shows "part i (restore_state H E f a) = part i f"
proof -
  have "i \<notin> restored (restore_choice E)" using assms by (simp add: restored_choice)
  moreover have "i \<noteq> 0" using assms(2) by (auto simp: kept_def split: if_splits)
  ultimately show ?thesis
    using restore_state_choice [of H E f a] restore_others clean_others by metis
qed

end

section \<open>Properties of the context\<close>

text \<open>
  C22. Whatever a processor does with its registers between \<open>kfpu_begin\<close> and \<open>kfpu_end\<close>, and
  whatever the other processors do meanwhile, including their own regions, at the end every enabled
  state component is as it was before the region, except the ones the code leaves out: with the
  extended instructions these are exactly the two tile components (bits 17 and 18 of the inverted
  mask), with the older ones all but the x87 and SSE registers, or all but the x87 registers. The
  components left out have the values the region gave them. Preemption is as before; interrupts
  are enabled, also when they were not before. The build must not have the optimised saving
  instruction without the plain one, if the processor has it and not the compacted one. The
  instructions only have to load what an instruction of the same format has stored, for the
  components in their masks.
\<close>

theorem kfpu_region_preserves:
  assumes "fpu_insns H part enabled" "region_of c acts"
    and "HAVE_XSAVEOPT E \<and> cpu_XSAVEOPT E \<longrightarrow> HAVE_XSAVES E \<and> cpu_XSAVES E \<or> HAVE_XSAVE E \<and> cpu_XSAVE E"
  shows "let used = fpu_run H E acts (kfpu_begin H E c m); m' = kfpu_end H E c used
    in (\<forall>i\<in>enabled \<inter> kept E. part i (fpus m' c) = part i (fpus m c)) \<and>
      (\<forall>i. i \<notin> kept E \<longrightarrow> part i (fpus m' c) = part i (fpus used c)) \<and>
      preempt_count m' c = preempt_count m c \<and> irqs_on m' c"
proof -
  have f: "same_format (save_choice E) (restore_choice E)" using assms(3) unfolding formats_agree by blast
  show ?thesis
    using region_frame [OF assms(2), of H E "kfpu_begin H E c m"]
      fpu_insns.restore_state_kept [OF assms(1) f] fpu_insns.restore_state_others [OF assms(1) f]
    by (simp add: Let_def)
qed

text \<open>
  Registers with 64 components, and instructions that store the components of their mask with the
  format that was used, and check it.
\<close>

definition demo_fpu :: "(nat \<Rightarrow> nat, save_insn \<times> (nat \<Rightarrow> nat)) fpu_hw" where
  "demo_fpu = \<lparr>exec_save = (\<lambda>si f a. (if si = Fnsave then f(0 := 0) else f, (si, \<lambda>i. if i \<in> saved si then f i else snd a i))),
     exec_restore = (\<lambda>ri f a. \<lambda>i. if i \<notin> restored ri then f i else if same_format (fst a) ri then snd a i else 0),
     fxsr_clean = (\<lambda>f a. f(0 := 0))\<rparr>"

interpretation demo_fpu: fpu_insns demo_fpu "\<lambda>i f. f i" "{0, 1, 2, 9}"
  by unfold_locales (auto simp: demo_fpu_def)

definition demo_env :: "bool \<Rightarrow> kfpu_env" where
  "demo_env has_xsave = \<lparr>HAVE_XSAVES = False, HAVE_XSAVEOPT = True, HAVE_XSAVE = has_xsave, CONFIG_X86_32 = False,
     cpu_XSAVES = False, cpu_XSAVEOPT = True, cpu_XSAVE = True, cpu_FXSR = True, bug_FXSAVE_LEAK = False\<rparr>"

definition demo_machine :: "(nat \<Rightarrow> nat, save_insn \<times> (nat \<Rightarrow> nat)) machine" where
  "demo_machine = \<lparr>fpus = (\<lambda>_ _. 7), areas = (\<lambda>_. (Fxsave, \<lambda>_. 0)), preempt_count = (\<lambda>_. 0), irqs_on = (\<lambda>_. True)\<rparr>"

theorem kfpu_region_preserves_witness:
  "let m' = kfpu_end demo_fpu (demo_env True) 0 (fpu_run demo_fpu (demo_env True) [Use 0 (\<lambda>_. 99), Begin 1, Use 1 (\<lambda>_. 5), End 1]
     (kfpu_begin demo_fpu (demo_env True) 0 demo_machine)) in map (fpus m' 0) [0, 1, 2, 9, 17, 18] = [7, 7, 7, 7, 99, 99]"
proof -
  have "kept (demo_env True) = {..<64} - {17, 18}" by (simp add: kept_def demo_env_def)
  then show ?thesis
    using kfpu_region_preserves [OF demo_fpu.fpu_insns_axioms, of 0 "[Use 0 (\<lambda>_. 99), Begin 1, Use 1 (\<lambda>_. 5), End 1]" "demo_env True" demo_machine]
    by (simp add: region_of_def demo_env_def demo_machine_def Let_def fun_upd_def) (simp add: kfpu_begin_def kfpu_end_def Let_def split: prod.splits)
qed

text \<open>
  Where the formats differ the registers are not restored; and regions do not nest, because a
  processor has one save area: the outer end gives back what the inner begin has saved.
\<close>

theorem kfpu_limits:
  "\<not> same_format (save_choice (demo_env False)) (restore_choice (demo_env False)) \<and>
   fpus (fpu_run demo_fpu (demo_env False) [Begin 0, Use 0 (\<lambda>_. 99), End 0] demo_machine) 0 0 \<noteq> fpus demo_machine 0 0 \<and>
   (\<forall>f. fpus (fpu_run demo_fpu (demo_env True) [Begin 0, Use 0 f, Begin 0, End 0, End 0] demo_machine) 0 2 = f 2)"
proof -
  have n: "\<not> same_format (save_choice (demo_env False)) (restore_choice (demo_env False))"
    by (simp only: formats_agree) (simp add: demo_env_def)
  have y: "same_format (save_choice (demo_env True)) (restore_choice (demo_env True))"
    by (simp only: formats_agree) (simp add: demo_env_def)
  have k: "2 \<in> kept (demo_env True)" by (simp add: kept_def demo_env_def)
  have "restore_state demo_fpu (demo_env False) f (save_choice (demo_env False), g) 0 = 0" for f g
    by (simp add: restore_state_def save_choice_def demo_env_def kfpu_restore_fxsr_def kfpu_do_xsave_def demo_fpu_def)
  moreover have "restore_state demo_fpu (demo_env True) f (save_choice (demo_env True), g) 2 = g 2" for f g
    using k by (simp add: restore_state_def save_choice_def demo_env_def kfpu_do_xsave_def kfpu_do_xrstor_def demo_fpu_def
        mask_comps_xtile)
  moreover have "save_choice (demo_env b) \<noteq> Fnsave" for b
    by (simp add: save_choice_def demo_env_def kfpu_do_xsave_def)
  ultimately show ?thesis using n k
    by (simp add: demo_machine_def kfpu_begin_def kfpu_end_def Let_def demo_fpu_def saved_choice)
qed

section \<open>Properties of the allocation\<close>

definition used_areas :: "u64 list \<Rightarrow> nat set" where
  "used_areas arr = {cpu. cpu < length arr \<and> arr ! cpu \<noteq> 0}"

text \<open>The pages in use are those from before and one for each entry that is not null.\<close>

definition area_inv :: "nat \<Rightarrow> (u64 \<times> nat) set \<Rightarrow> u64 list \<Rightarrow> (u64 \<times> nat) set \<Rightarrow> bool" where
  "area_inv order before arr live \<longleftrightarrow> inj_on ((!) arr) (used_areas arr) \<and>
     live = before \<union> (\<lambda>cpu. (arr ! cpu, order)) ` used_areas arr \<and>
     (\<forall>cpu\<in>used_areas arr. (arr ! cpu, order) \<notin> before)"

lemma free_areas_result:
  assumes "distinct cpus" "\<forall>cpu\<in>set cpus. cpu < length arr" "inj_on ((!) arr) (used_areas arr)"
    and "\<forall>cpu\<in>set cpus. arr ! cpu \<noteq> 0 \<longrightarrow> (arr ! cpu, order) \<in> live"
  shows "free_areas cpus order arr live = Some (live - (\<lambda>cpu. (arr ! cpu, order)) ` {cpu \<in> set cpus. arr ! cpu \<noteq> 0})"
  using assms
proof (induction cpus arbitrary: live)
  case (Cons cpu cpus)
  show ?case
  proof (cases "arr ! cpu = 0")
    case True
    then have "{d \<in> set (cpu # cpus). arr ! d \<noteq> 0} = {d \<in> set cpus. arr ! d \<noteq> 0}" by auto
    then show ?thesis using Cons True by simp
  next
    case False
    have "(arr ! d, order) \<in> live - {(arr ! cpu, order)}" if "d \<in> set cpus" "arr ! d \<noteq> 0" for d
    proof -
      have "d \<noteq> cpu" using Cons.prems(1) that(1) by auto
      then have "arr ! d \<noteq> arr ! cpu"
        using inj_onD [OF Cons.prems(3), of d cpu] Cons.prems(2) False that by (auto simp: used_areas_def)
      then show ?thesis using Cons.prems(4) that by simp
    qed
    then have ih: "free_areas cpus order arr (live - {(arr ! cpu, order)}) =
        Some (live - {(arr ! cpu, order)} - (\<lambda>cpu. (arr ! cpu, order)) ` {d \<in> set cpus. arr ! d \<noteq> 0})"
      using Cons.prems by (intro Cons.IH) auto
    have eq: "{d \<in> set (cpu # cpus). arr ! d \<noteq> 0} = insert cpu {d \<in> set cpus. arr ! d \<noteq> 0}" using False by auto
    have step: "free_areas (cpu # cpus) order arr live = free_areas cpus order arr (live - {(arr ! cpu, order)})"
      using Cons.prems False by simp
    show ?thesis 
      by (simp only: step ih eq image_insert
          Diff_insert2 [of live "(arr ! cpu, order)" "(\<lambda>cpu. (arr ! cpu, order)) ` {d \<in> set cpus. arr ! d \<noteq> 0}"])
  qed
qed simp

lemma area_inv_free:
  assumes "area_inv order before arr live" "distinct possible" "set possible = {..<length arr}"
  shows "free_areas possible order arr live = Some before"
proof -
  have u: "{cpu \<in> set possible. arr ! cpu \<noteq> 0} = used_areas arr" using assms(3) by (auto simp: used_areas_def)
  have "free_areas possible order arr live = Some (live - (\<lambda>cpu. (arr ! cpu, order)) ` used_areas arr)"
    unfolding u [symmetric] using assms by (intro free_areas_result) (auto simp: area_inv_def used_areas_def)
  also have "live - (\<lambda>cpu. (arr ! cpu, order)) ` used_areas arr = before" using assms(1) by (auto simp: area_inv_def)
  finally show ?thesis .
qed

lemma area_inv_set:
  assumes "area_inv order before arr live" "cpu < length arr" "arr ! cpu = 0" "page \<noteq> 0"
    and "(page, order) \<notin> before" "page \<notin> set arr"
  shows "area_inv order before (arr[cpu := page]) (insert (page, order) live)"
proof -
  have u: "used_areas (arr[cpu := page]) = insert cpu (used_areas arr)"
    using assms(2,4) by (auto simp: used_areas_def nth_list_update)
  have old: "arr[cpu := page] ! d = arr ! d" if "d \<in> used_areas arr" for d
    using that assms(3) by (cases "d = cpu") (auto simp: used_areas_def)
  have new: "arr[cpu := page] ! cpu = page" using assms(2) by simp
  have "page \<noteq> arr ! d" if "d \<in> used_areas arr" for d using that assms(6) by (auto simp: used_areas_def)
  then have "inj_on ((!) (arr[cpu := page])) (insert cpu (used_areas arr))"
    using assms(1) old new by (auto simp: area_inv_def inj_on_def)
  moreover have "(\<lambda>d. (arr[cpu := page] ! d, order)) ` insert cpu (used_areas arr) =
      insert (page, order) ((\<lambda>d. (arr ! d, order)) ` used_areas arr)"
    using old new by (auto simp: image_iff)
  ultimately show ?thesis using assms(1,5) old new unfolding area_inv_def u by auto
qed

definition fresh_supply :: "nat \<Rightarrow> (u64 \<times> nat) set \<Rightarrow> u64 list \<Rightarrow> u64 list \<Rightarrow> bool" where
  "fresh_supply order before arr supply \<longleftrightarrow> distinct (filter (\<lambda>p. p \<noteq> 0) supply) \<and>
     (\<forall>p\<in>set supply. p \<noteq> 0 \<longrightarrow> (p, order) \<notin> before \<and> p \<notin> set arr)"

lemma init_areas_result:
  assumes "zfs_kfpu_fpregs s = Array_live arr" "area_inv order before arr (live_pages s)"
    and "fresh_supply order before arr (page_supply s)" "distinct possible" "set possible = {..<length arr}"
    and "distinct cpus" "\<forall>cpu\<in>set cpus. cpu < length arr \<and> arr ! cpu = 0"
    and "\<forall>cpu<length arr. cpu \<notin> set cpus \<longrightarrow> arr ! cpu \<noteq> 0"
  shows "\<exists>rc s'. init_areas possible order cpus s = Some (rc, s') \<and>
    (rc = - ENOMEM_kernel \<and> zfs_kfpu_fpregs s' = Array_freed \<and> live_pages s' = before \<or>
     rc = 0 \<and> (\<exists>arr'. zfs_kfpu_fpregs s' = Array_live arr' \<and> length arr' = length arr \<and>
       area_inv order before arr' (live_pages s') \<and> used_areas arr' = {..<length arr}))"
  using assms
proof (induction cpus arbitrary: s arr)
  case Nil
  then have "used_areas arr = {..<length arr}" by (auto simp: used_areas_def)
  then show ?case using Nil by auto
next
  case (Cons cpu cpus)
  let ?s = "s\<lparr>page_supply := tl (page_supply s)\<rparr>"
  have cpu: "cpu < length arr" "arr ! cpu = 0" using Cons.prems(7) by auto
  show ?case
  proof (cases "next_page s = 0")
    case True
    then show ?thesis using Cons.prems(1) area_inv_free [OF Cons.prems(2,4,5)]
      by (simp add: kfpu_fini_def)
  next
    case False
    then obtain ps where ps: "page_supply s = next_page s # ps" by (auto simp: next_page_def split: list.splits)
    let ?arr = "arr[cpu := next_page s]"
    let ?t = "?s\<lparr>zfs_kfpu_fpregs := Array_live ?arr, live_pages := insert (next_page s, order) (live_pages ?s)\<rparr>"
    have fresh: "(next_page s, order) \<notin> before" "next_page s \<notin> set arr"
      using Cons.prems(3) False ps by (auto simp: fresh_supply_def)
    have "fresh_supply order before ?arr ps"
      using Cons.prems(3) False unfolding ps fresh_supply_def by (auto dest: set_update_subset_insert [THEN subsetD])
    then have "\<exists>rc s'. init_areas possible order cpus ?t = Some (rc, s') \<and>
        (rc = - ENOMEM_kernel \<and> zfs_kfpu_fpregs s' = Array_freed \<and> live_pages s' = before \<or>
         rc = 0 \<and> (\<exists>arr'. zfs_kfpu_fpregs s' = Array_live arr' \<and> length arr' = length ?arr \<and>
           area_inv order before arr' (live_pages s') \<and> used_areas arr' = {..<length ?arr}))"
      using Cons.prems(4-8) False cpu ps area_inv_set [OF Cons.prems(2) cpu False fresh]
      by (intro Cons.IH) (auto simp: nth_list_update)
    then show ?thesis using Cons.prems(1) False cpu ps by (simp add: Let_def)
  qed
qed

lemma set_possible: "distinct possible \<Longrightarrow> \<forall>cpu\<in>set possible. cpu < length possible \<Longrightarrow> set possible = {..<length possible}"
  by (rule card_subset_eq) (auto simp: distinct_card)

text \<open>
  Where the processors are numbered without gaps, \<open>kfpu_init\<close> either gives every processor an
  area of its own, and \<open>kfpu_fini\<close> then frees exactly those, or it fails with everything it had
  allocated freed again.
\<close>

theorem kfpu_init_no_leak:
  assumes "distinct possible" "\<forall>cpu\<in>set possible. cpu < length possible"
    and "fresh_supply order (live_pages s) [] (page_supply s)"
  shows "\<exists>rc s'. kfpu_init possible order s = Some (rc, s') \<and>
    (rc \<noteq> 0 \<and> live_pages s' = live_pages s \<or>
     rc = 0 \<and> (\<exists>arr. zfs_kfpu_fpregs s' = Array_live arr \<and> (\<forall>cpu\<in>set possible. arr ! cpu \<noteq> 0 \<and> (arr ! cpu, order) \<in> live_pages s') \<and>
         distinct (map ((!) arr) possible)) \<and>
       (\<exists>s''. kfpu_fini possible order s' = Some s'' \<and> live_pages s'' = live_pages s))"
proof (cases "kzalloc_ok s")
  case False
  then show ?thesis by (simp add: kfpu_init_def ENOMEM_kernel_def)
next
  case True
  let ?arr = "replicate (length possible) (0 :: u64)"
  let ?s = "s\<lparr>zfs_kfpu_fpregs := Array_live ?arr\<rparr>"
  have p: "set possible = {..<length possible}" using assms(1,2) by (rule set_possible)
  obtain rc s' where r: "init_areas possible order possible ?s = Some (rc, s')"
    and c: "rc = - ENOMEM_kernel \<and> zfs_kfpu_fpregs s' = Array_freed \<and> live_pages s' = live_pages s \<or>
     rc = 0 \<and> (\<exists>arr'. zfs_kfpu_fpregs s' = Array_live arr' \<and> length arr' = length ?arr \<and>
       area_inv order (live_pages s) arr' (live_pages s') \<and> used_areas arr' = {..<length ?arr})"
  proof -
    have "used_areas ?arr = {}" by (auto simp: used_areas_def)
    then have inv: "area_inv order (live_pages s) ?arr (live_pages ?s)" by (simp add: area_inv_def)
    have fresh: "fresh_supply order (live_pages s) ?arr (page_supply ?s)" using assms(3) by (auto simp: fresh_supply_def)
    have "zfs_kfpu_fpregs ?s = Array_live ?arr" by simp
    from init_areas_result [OF this inv fresh assms(1) _ assms(1)] p show ?thesis
      by (auto intro: that)
  qed
  have k: "kfpu_init possible order s = Some (rc, s')" using r True by (simp add: kfpu_init_def)
  from c show ?thesis
  proof
    assume "rc = - ENOMEM_kernel \<and> zfs_kfpu_fpregs s' = Array_freed \<and> live_pages s' = live_pages s"
    then show ?thesis using k by (intro exI [of _ rc] exI [of _ s']) (simp add: ENOMEM_kernel_def)
  next
    assume "rc = 0 \<and> (\<exists>arr'. zfs_kfpu_fpregs s' = Array_live arr' \<and> length arr' = length ?arr \<and>
       area_inv order (live_pages s) arr' (live_pages s') \<and> used_areas arr' = {..<length ?arr})"
    then obtain arr where a: "rc = 0" "zfs_kfpu_fpregs s' = Array_live arr" "length arr = length possible"
        "area_inv order (live_pages s) arr (live_pages s')" "used_areas arr = {..<length possible}" by auto
    have "free_areas possible order arr (live_pages s') = Some (live_pages s)"
      using area_inv_free [OF a(4) assms(1)] p a(3) by simp
    then have f: "\<exists>s''. kfpu_fini possible order s' = Some s'' \<and> live_pages s'' = live_pages s"
      using a(2) by (simp add: kfpu_fini_def)
    have "\<forall>cpu\<in>set possible. arr ! cpu \<noteq> 0 \<and> (arr ! cpu, order) \<in> live_pages s'"
      using a(4,5) p by (auto simp: area_inv_def used_areas_def)
    moreover have "distinct (map ((!) arr) possible)"
      using a(4,5) assms(1) p by (simp add: distinct_map area_inv_def)
    ultimately show ?thesis using k a(1,2) f by blast
  qed
qed

definition demo_mem :: kfpu_mem where
  "demo_mem = \<lparr>zfs_kfpu_fpregs = Array_null, live_pages = {(0x1000, 0)}, page_supply = [0x2000, 0x3000, 0], kzalloc_ok = True\<rparr>"

lemma demo_mem_runs:
  "map_option fst (kfpu_init [0, 1] 0 demo_mem) = Some 0" "map_option fst (kfpu_init [0, 1, 2] 0 demo_mem) = Some (- 12)"
  by code_simp+

theorem kfpu_init_no_leak_witness:
  "map_option (live_pages \<circ> snd) (kfpu_init [0, 1, 2] 0 demo_mem) = Some {(0x1000, 0)}"
  using kfpu_init_no_leak [of "[0, 1, 2]" 0 demo_mem] demo_mem_runs(2)
  by (auto simp: fresh_supply_def demo_mem_def)

lemma init_areas_sparse:
  "zfs_kfpu_fpregs s = Array_live arr \<Longrightarrow> cpu \<in> set cpus \<Longrightarrow> length arr \<le> cpu \<Longrightarrow>
   length cpus \<le> length (page_supply s) \<Longrightarrow> 0 \<notin> set (page_supply s) \<Longrightarrow> init_areas possible order cpus s = None"
proof (induction cpus arbitrary: s arr)
  case (Cons c cpus)
  then obtain p ps where ps: "page_supply s = p # ps" "p \<noteq> 0" by (cases "page_supply s") auto
  then show ?case
    using Cons.prems Cons.IH [of "s\<lparr>page_supply := ps, zfs_kfpu_fpregs := Array_live (arr[c := p]), live_pages := insert (p, order) (live_pages s)\<rparr>" "arr[c := p]"]
    by (auto simp: next_page_def Let_def)
qed simp

text \<open>
  The array has one entry for each possible processor but is indexed by the processor's number:
  where the numbers have a gap and the allocations succeed, \<open>kfpu_init\<close> writes past the array.
\<close>

theorem kfpu_init_sparse_cpus:
  assumes "cpu \<in> set possible" "length possible \<le> cpu" "kzalloc_ok s"
    and "length possible \<le> length (page_supply s)" "0 \<notin> set (page_supply s)"
  shows "kfpu_init possible order s = None"
  using assms init_areas_sparse [of "s\<lparr>zfs_kfpu_fpregs := Array_live (replicate (length possible) 0)\<rparr>" "replicate (length possible) 0" cpu possible possible order]
  by (simp add: kfpu_init_def)

theorem kfpu_init_sparse_cpus_witness:
  "kfpu_init [0, 2] 0 (demo_mem\<lparr>page_supply := [0x2000, 0x3000]\<rparr>) = None"
  using kfpu_init_sparse_cpus [of 2 "[0, 2]" "demo_mem\<lparr>page_supply := [0x2000, 0x3000]\<rparr>" 0] by (simp add: demo_mem_def)

end
