(* ===== verification/Blkdev.thy ===== *)
theory Blkdev
  imports Spl_Uio
begin

unbundle bit_operations_syntax

text \<open>
  The block device adapters of the Linux port
  (\<open>compat/openzfs/os/linux/kernel/linux/blkdev_compat.h\<close>): the translation between error
  numbers and block layer statuses, the cache and failfast flags, and the questions asked of an
  I/O, which is either a block I/O or a request. The kernel's constants and its functions over
  flags are parameters; error numbers and statuses are their names.
\<close>

section \<open>Error numbers and statuses\<close>

datatype errno = E_OK | EOPNOTSUPP | ETIMEDOUT | ENOSPC | ENOLINK | EREMOTEIO | EBADE | ENODATA | EILSEQ
  | ENOMEM_errno | EAGAIN | EIO | E_other nat

text \<open>The reservation conflict has two names, of which a kernel has one.\<close>

datatype blk_status = BLK_STS_OK | BLK_STS_NOTSUPP | BLK_STS_TIMEOUT | BLK_STS_NOSPC | BLK_STS_TRANSPORT
  | BLK_STS_TARGET | BLK_STS_RESV_CONFLICT | BLK_STS_NEXUS | BLK_STS_MEDIUM | BLK_STS_PROTECTION
  | BLK_STS_RESOURCE | BLK_STS_AGAIN | BLK_STS_IOERR | BLK_STS_other nat

definition conflict_status :: "bool \<Rightarrow> blk_status" where
  "conflict_status have_resv_conflict = (if have_resv_conflict then BLK_STS_RESV_CONFLICT else BLK_STS_NEXUS)"

definition bi_status_to_errno :: "bool \<Rightarrow> blk_status \<Rightarrow> errno" where
  "bi_status_to_errno resv status =
    (if status = conflict_status resv then EBADE
     else case status of
       BLK_STS_OK \<Rightarrow> E_OK
     | BLK_STS_NOTSUPP \<Rightarrow> EOPNOTSUPP
     | BLK_STS_TIMEOUT \<Rightarrow> ETIMEDOUT
     | BLK_STS_NOSPC \<Rightarrow> ENOSPC
     | BLK_STS_TRANSPORT \<Rightarrow> ENOLINK
     | BLK_STS_TARGET \<Rightarrow> EREMOTEIO
     | BLK_STS_MEDIUM \<Rightarrow> ENODATA
     | BLK_STS_PROTECTION \<Rightarrow> EILSEQ
     | BLK_STS_RESOURCE \<Rightarrow> ENOMEM_errno
     | BLK_STS_AGAIN \<Rightarrow> EAGAIN
     | BLK_STS_IOERR \<Rightarrow> EIO
     | _ \<Rightarrow> EIO)"

definition errno_to_bi_status :: "bool \<Rightarrow> errno \<Rightarrow> blk_status" where
  "errno_to_bi_status resv error = (case error of
       E_OK \<Rightarrow> BLK_STS_OK
     | EOPNOTSUPP \<Rightarrow> BLK_STS_NOTSUPP
     | ETIMEDOUT \<Rightarrow> BLK_STS_TIMEOUT
     | ENOSPC \<Rightarrow> BLK_STS_NOSPC
     | ENOLINK \<Rightarrow> BLK_STS_TRANSPORT
     | EREMOTEIO \<Rightarrow> BLK_STS_TARGET
     | EBADE \<Rightarrow> conflict_status resv
     | ENODATA \<Rightarrow> BLK_STS_MEDIUM
     | EILSEQ \<Rightarrow> BLK_STS_PROTECTION
     | ENOMEM_errno \<Rightarrow> BLK_STS_RESOURCE
     | EAGAIN \<Rightarrow> BLK_STS_AGAIN
     | EIO \<Rightarrow> BLK_STS_IOERR
     | _ \<Rightarrow> BLK_STS_IOERR)"

section \<open>Queue flags\<close>

datatype queue_flag = QUEUE_FLAG_WC | QUEUE_FLAG_FUA | QUEUE_FLAG_HW_WC

text \<open>
  What the kernel offers: which flags it defines, and whether the hardware flag is an alias of the
  flag for forced unit access.
\<close>

record queue_api =
  has_HW_WC :: bool
  HW_WC_is_FUA :: bool
  has_WC :: bool

definition blk_queue_set_write_cache :: "queue_flag set \<Rightarrow> bool \<Rightarrow> queue_flag set" where
  "blk_queue_set_write_cache q on =
    (if on then insert QUEUE_FLAG_FUA (insert QUEUE_FLAG_WC q) else q - {QUEUE_FLAG_WC} - {QUEUE_FLAG_FUA})"

definition zfs_bdev_has_write_cache :: "queue_api \<Rightarrow> queue_flag set \<Rightarrow> bool" where
  "zfs_bdev_has_write_cache K q =
    (if has_HW_WC K \<and> \<not> HW_WC_is_FUA K then QUEUE_FLAG_HW_WC \<in> q
     else if has_WC K then QUEUE_FLAG_WC \<in> q
     else True)"

section \<open>Operations and their flags\<close>

record blk_api =
  REQ_FAILFAST_DEV :: u32
  REQ_FAILFAST_TRANSPORT :: u32
  REQ_FAILFAST_DRIVER :: u32
  REQ_PREFLUSH :: u32
  REQ_FUA :: u32
  REQ_OP_WRITE :: u32
  REQ_OP_FLUSH :: u32
  REQ_OP_DISCARD :: u32
  REQ_OP_SECURE_ERASE :: u32
  op_of :: "u32 \<Rightarrow> u32"
  op_is_flush :: "u32 \<Rightarrow> bool"
  CONFIG_BUG :: bool
  LOOP_MAJOR :: u32
  MD_MAJOR :: u32
  BLOCK_EXT_MAJOR :: "u32 option"

definition bio_set_flags_failfast :: "blk_api \<Rightarrow> u32 \<Rightarrow> u32 \<Rightarrow> bool \<Rightarrow> bool \<Rightarrow> bool \<Rightarrow> u32" where
  "bio_set_flags_failfast K major flags dev transport driver =
    (if CONFIG_BUG K \<and> (major = LOOP_MAJOR K \<or> major = MD_MAJOR K) then flags
     else if CONFIG_BUG K \<and> BLOCK_EXT_MAJOR K = Some major then flags
     else
       let flags = (if dev then flags OR REQ_FAILFAST_DEV K else flags);
           flags = (if transport then flags OR REQ_FAILFAST_TRANSPORT K else flags);
           flags = (if driver then flags OR REQ_FAILFAST_DRIVER K else flags)
       in flags)"

record zbio = bio +
  bi_opf :: u32
  bi_has_data :: bool

record zrequest = request +
  cmd_flags :: u32
  rq_bio :: zbio

definition bio_set_op_attrs :: "zbio \<Rightarrow> u32 \<Rightarrow> u32 \<Rightarrow> zbio" where
  "bio_set_op_attrs b rw flags = b\<lparr>bi_opf := rw OR flags\<rparr>"

definition bio_set_flush :: "blk_api \<Rightarrow> zbio \<Rightarrow> zbio" where
  "bio_set_flush K b = bio_set_op_attrs b 0 (REQ_PREFLUSH K OR REQ_OP_WRITE K)"

definition bio_is_flush :: "blk_api \<Rightarrow> zbio \<Rightarrow> bool" where
  "bio_is_flush K b \<longleftrightarrow> op_of K (bi_opf b) = REQ_OP_FLUSH K \<or> op_is_flush K (bi_opf b)"

definition bio_is_fua :: "blk_api \<Rightarrow> zbio \<Rightarrow> bool" where
  "bio_is_fua K b \<longleftrightarrow> bi_opf b AND REQ_FUA K \<noteq> 0"

definition bio_is_discard :: "blk_api \<Rightarrow> zbio \<Rightarrow> bool" where
  "bio_is_discard K b \<longleftrightarrow> op_of K (bi_opf b) = REQ_OP_DISCARD K"

definition bio_is_secure_erase :: "blk_api \<Rightarrow> zbio \<Rightarrow> bool" where
  "bio_is_secure_erase K b \<longleftrightarrow> op_of K (bi_opf b) = REQ_OP_SECURE_ERASE K"

text \<open>The request is asked when there is one; with neither, a null pointer is read.\<close>

definition io_is_flush :: "blk_api \<Rightarrow> zbio option \<Rightarrow> zrequest option \<Rightarrow> bool option" where
  "io_is_flush K b r = (case r of Some r \<Rightarrow> Some (op_of K (cmd_flags r) = REQ_OP_FLUSH K) | None \<Rightarrow> map_option (bio_is_flush K) b)"

definition io_is_discard :: "blk_api \<Rightarrow> zbio option \<Rightarrow> zrequest option \<Rightarrow> bool option" where
  "io_is_discard K b r = (case r of Some r \<Rightarrow> Some (op_of K (cmd_flags r) = REQ_OP_DISCARD K) | None \<Rightarrow> map_option (bio_is_discard K) b)"

definition io_is_secure_erase :: "blk_api \<Rightarrow> zbio option \<Rightarrow> zrequest option \<Rightarrow> bool option" where
  "io_is_secure_erase K b r = (case r of Some r \<Rightarrow> Some (op_of K (cmd_flags r) = REQ_OP_SECURE_ERASE K) | None \<Rightarrow> map_option (bio_is_secure_erase K) b)"

text \<open>The request's flag is narrowed from the kernel's flag word to an \<open>int\<close>.\<close>

definition io_is_fua :: "blk_api \<Rightarrow> zbio option \<Rightarrow> zrequest option \<Rightarrow> bool option" where
  "io_is_fua K b r = (case r of Some r \<Rightarrow> Some (cmd_flags r AND REQ_FUA K \<noteq> 0) | None \<Rightarrow> map_option (bio_is_fua K) b)"

definition io_has_data :: "zbio option \<Rightarrow> zrequest option \<Rightarrow> bool option" where
  "io_has_data b r = (case r of Some r \<Rightarrow> Some (bi_has_data (rq_bio r)) | None \<Rightarrow> map_option bi_has_data b)"

text \<open>Whether a device can discard: its largest discard, or its queue's answer, and a granularity.\<close>

definition bdev_discard_supported :: "bool \<Rightarrow> u32 \<Rightarrow> bool \<Rightarrow> u32 \<Rightarrow> bool" where
  "bdev_discard_supported has_max_sectors max_sectors queue_discard granularity \<longleftrightarrow>
    (if has_max_sectors then max_sectors > 0 \<and> granularity > 0 else queue_discard \<and> granularity > 0)"

definition bdev_secure_discard_supported :: "bool \<Rightarrow> u32 \<Rightarrow> bool \<Rightarrow> bool" where
  "bdev_secure_discard_supported has_max_sectors max_sectors queue_erase \<longleftrightarrow>
    (if has_max_sectors then max_sectors \<noteq> 0 else queue_erase)"

section \<open>Properties\<close>

text \<open>
  An error number survives the translation to a block status and back, unless it is one the
  translation does not know, which becomes an I/O error; and a status survives the other way,
  unless it is unknown to the translation.
\<close>

theorem bi_status_roundtrip:
  "bi_status_to_errno resv (errno_to_bi_status resv e) = (case e of E_other _ \<Rightarrow> EIO | _ \<Rightarrow> e) \<and>
   (errno_to_bi_status resv (bi_status_to_errno resv s) = s \<or>
    s \<in> {BLK_STS_RESV_CONFLICT, BLK_STS_NEXUS} - {conflict_status resv} \<or> (\<exists>n. s = BLK_STS_other n)) \<and>
   (bi_status_to_errno resv s = E_OK \<longleftrightarrow> s = BLK_STS_OK)"
  by (cases e; cases s; cases resv) (simp_all add: bi_status_to_errno_def errno_to_bi_status_def conflict_status_def)

text \<open>
  A block I/O on which a flush was set is recognised as a flush by every question asked of it,
  whatever it was before, when the kernel's predicate recognises the preflush flag; but it is not a
  flush, nor forced to the medium, for a request, of which only the operation counts.
\<close>

theorem bio_set_flush_recognised:
  assumes "\<And>f. op_is_flush K f \<longleftrightarrow> f AND (REQ_FUA K OR REQ_PREFLUSH K) \<noteq> 0" "REQ_PREFLUSH K \<noteq> 0"
  shows "bio_is_flush K (bio_set_flush K b) \<and> io_is_flush K (Some (bio_set_flush K b)) None = Some True \<and>
    (op_of K (cmd_flags r) \<noteq> REQ_OP_FLUSH K \<longrightarrow> io_is_flush K (Some (bio_set_flush K b)) (Some r) = Some False) \<and>
    bi_has_data (bio_set_flush K b) = bi_has_data b \<and> bio.truncate (bio_set_flush K b) = bio.truncate b"
proof -
  obtain n where n: "bit (REQ_PREFLUSH K) n" using assms(2) by (auto simp: bit_eq_iff)
  have "bit ((REQ_PREFLUSH K OR REQ_OP_WRITE K) AND (REQ_FUA K OR REQ_PREFLUSH K)) n" using n by (simp add: bit_simps)
  then have "(REQ_PREFLUSH K OR REQ_OP_WRITE K) AND (REQ_FUA K OR REQ_PREFLUSH K) \<noteq> 0" by (metis bit_0_eq bot_apply bot_bool_def)
  then show ?thesis
    by (simp add: bio_is_flush_def bio_set_flush_def bio_set_op_attrs_def assms(1) io_is_flush_def bio.truncate_def)
qed

definition demo_blk :: blk_api where
  "demo_blk = \<lparr>REQ_FAILFAST_DEV = 0x100, REQ_FAILFAST_TRANSPORT = 0x200, REQ_FAILFAST_DRIVER = 0x400,
     REQ_PREFLUSH = 0x40000, REQ_FUA = 0x20000, REQ_OP_WRITE = 1, REQ_OP_FLUSH = 2, REQ_OP_DISCARD = 3,
     REQ_OP_SECURE_ERASE = 5, op_of = (\<lambda>f. f AND 0xff), op_is_flush = (\<lambda>f. f AND (0x20000 OR 0x40000) \<noteq> 0),
     CONFIG_BUG = True, LOOP_MAJOR = 7, MD_MAJOR = 9, BLOCK_EXT_MAJOR = Some 259\<rparr>"

definition demo_bio :: zbio where
  "demo_bio = \<lparr>bi_vcnt = 0, bi_io_vec = [], bi_idx = 0, bi_sector = 0, bi_size = 0, bi_bvec_done = 0, bi_opf = 1, bi_has_data = False\<rparr>"

definition demo_request :: zrequest where
  "demo_request = \<lparr>rq_addr = 0x1000, rq_pos = 8, rq_bytes = 512, cmd_flags = 0x40001, rq_bio = demo_bio\<rparr>"

theorem bio_set_flush_recognised_witness:
  "io_is_flush demo_blk (Some (bio_set_flush demo_blk demo_bio)) None = Some True \<and>
   io_is_flush demo_blk (Some (bio_set_flush demo_blk demo_bio)) (Some demo_request) = Some False"
  using bio_set_flush_recognised [of demo_blk demo_bio demo_request] by (simp add: demo_blk_def demo_request_def)

text \<open>
  The failfast flags that are asked for are set and no other bit of the flags changes; for the
  loop, MD and extended block majors nothing is set.
\<close>

theorem failfast_flags:
  "bit (bio_set_flags_failfast K major flags dev transport driver) n \<longleftrightarrow>
     bit flags n \<or>
     (CONFIG_BUG K \<longrightarrow> major \<noteq> LOOP_MAJOR K \<and> major \<noteq> MD_MAJOR K \<and> BLOCK_EXT_MAJOR K \<noteq> Some major) \<and>
     (dev \<and> bit (REQ_FAILFAST_DEV K) n \<or> transport \<and> bit (REQ_FAILFAST_TRANSPORT K) n \<or>
      driver \<and> bit (REQ_FAILFAST_DRIVER K) n)"
  by (auto simp: bio_set_flags_failfast_def bit_or_iff Let_def)

text \<open>
  After the write cache was switched on or off, a kernel without a usable hardware flag sees it
  as switched, and a kernel with one sees the hardware's answer, which the switch does not change.
\<close>

theorem write_cache_switch:
  "zfs_bdev_has_write_cache K (blk_queue_set_write_cache q on) =
    (if has_HW_WC K \<and> \<not> HW_WC_is_FUA K then zfs_bdev_has_write_cache K q else has_WC K \<longrightarrow> on)"
  by (simp add: zfs_bdev_has_write_cache_def blk_queue_set_write_cache_def)

end
