(* ===== verification/Zio.thy ===== *)
theory Zio
  imports Blkptr
begin

unbundle bit_operations_syntax

text \<open>
  The constants that drive the I/O pipeline: its stages and the pipelines of each kind of I/O
  (\<open>compat/openzfs/sys/zio_impl.h\<close>), the flags and what children inherit of them, bookmarks
  (\<open>compat/openzfs/sys/zio.h\<close>), and the compression algorithms and levels with their packed form
  (\<open>compat/openzfs/sys/zio_compress.h\<close>).
\<close>

section \<open>Stages\<close>

datatype zio_stage =
  ZIO_STAGE_OPEN | ZIO_STAGE_READ_BP_INIT | ZIO_STAGE_WRITE_BP_INIT | ZIO_STAGE_FREE_BP_INIT | ZIO_STAGE_ISSUE_ASYNC
  | ZIO_STAGE_WRITE_COMPRESS | ZIO_STAGE_ENCRYPT | ZIO_STAGE_CHECKSUM_GENERATE
  | ZIO_STAGE_NOP_WRITE | ZIO_STAGE_BRT_FREE | ZIO_STAGE_DDT_READ_START | ZIO_STAGE_DDT_READ_DONE | ZIO_STAGE_DDT_WRITE | ZIO_STAGE_DDT_FREE
  | ZIO_STAGE_GANG_ASSEMBLE | ZIO_STAGE_GANG_ISSUE | ZIO_STAGE_DVA_THROTTLE | ZIO_STAGE_DVA_ALLOCATE | ZIO_STAGE_DVA_FREE | ZIO_STAGE_DVA_CLAIM | ZIO_STAGE_READY
  | ZIO_STAGE_VDEV_IO_START | ZIO_STAGE_VDEV_IO_DONE | ZIO_STAGE_VDEV_IO_ASSESS | ZIO_STAGE_CHECKSUM_VERIFY | ZIO_STAGE_DIO_CHECKSUM_VERIFY | ZIO_STAGE_DONE

fun stage_bit :: "zio_stage \<Rightarrow> nat" where
  "stage_bit ZIO_STAGE_OPEN = 0"
| "stage_bit ZIO_STAGE_READ_BP_INIT = 1"
| "stage_bit ZIO_STAGE_WRITE_BP_INIT = 2"
| "stage_bit ZIO_STAGE_FREE_BP_INIT = 3"
| "stage_bit ZIO_STAGE_ISSUE_ASYNC = 4"
| "stage_bit ZIO_STAGE_WRITE_COMPRESS = 5"
| "stage_bit ZIO_STAGE_ENCRYPT = 6"
| "stage_bit ZIO_STAGE_CHECKSUM_GENERATE = 7"
| "stage_bit ZIO_STAGE_NOP_WRITE = 8"
| "stage_bit ZIO_STAGE_BRT_FREE = 9"
| "stage_bit ZIO_STAGE_DDT_READ_START = 10"
| "stage_bit ZIO_STAGE_DDT_READ_DONE = 11"
| "stage_bit ZIO_STAGE_DDT_WRITE = 12"
| "stage_bit ZIO_STAGE_DDT_FREE = 13"
| "stage_bit ZIO_STAGE_GANG_ASSEMBLE = 14"
| "stage_bit ZIO_STAGE_GANG_ISSUE = 15"
| "stage_bit ZIO_STAGE_DVA_THROTTLE = 16"
| "stage_bit ZIO_STAGE_DVA_ALLOCATE = 17"
| "stage_bit ZIO_STAGE_DVA_FREE = 18"
| "stage_bit ZIO_STAGE_DVA_CLAIM = 19"
| "stage_bit ZIO_STAGE_READY = 20"
| "stage_bit ZIO_STAGE_VDEV_IO_START = 21"
| "stage_bit ZIO_STAGE_VDEV_IO_DONE = 22"
| "stage_bit ZIO_STAGE_VDEV_IO_ASSESS = 23"
| "stage_bit ZIO_STAGE_CHECKSUM_VERIFY = 24"
| "stage_bit ZIO_STAGE_DIO_CHECKSUM_VERIFY = 25"
| "stage_bit ZIO_STAGE_DONE = 26"

text \<open>The kinds of I/O that run a stage, as the comments of the enumeration say.\<close>

fun stage_kinds :: "zio_stage \<Rightarrow> string" where
  "stage_kinds ZIO_STAGE_OPEN = ''RWFCXT''"
| "stage_kinds ZIO_STAGE_READ_BP_INIT = ''R''"
| "stage_kinds ZIO_STAGE_WRITE_BP_INIT = ''W''"
| "stage_kinds ZIO_STAGE_FREE_BP_INIT = ''F''"
| "stage_kinds ZIO_STAGE_ISSUE_ASYNC = ''WFT''"
| "stage_kinds ZIO_STAGE_WRITE_COMPRESS = ''W''"
| "stage_kinds ZIO_STAGE_ENCRYPT = ''W''"
| "stage_kinds ZIO_STAGE_CHECKSUM_GENERATE = ''W''"
| "stage_kinds ZIO_STAGE_NOP_WRITE = ''W''"
| "stage_kinds ZIO_STAGE_BRT_FREE = ''F''"
| "stage_kinds ZIO_STAGE_DDT_READ_START = ''R''"
| "stage_kinds ZIO_STAGE_DDT_READ_DONE = ''R''"
| "stage_kinds ZIO_STAGE_DDT_WRITE = ''W''"
| "stage_kinds ZIO_STAGE_DDT_FREE = ''F''"
| "stage_kinds ZIO_STAGE_GANG_ASSEMBLE = ''RWFC''"
| "stage_kinds ZIO_STAGE_GANG_ISSUE = ''RWFC''"
| "stage_kinds ZIO_STAGE_DVA_THROTTLE = ''W''"
| "stage_kinds ZIO_STAGE_DVA_ALLOCATE = ''W''"
| "stage_kinds ZIO_STAGE_DVA_FREE = ''F''"
| "stage_kinds ZIO_STAGE_DVA_CLAIM = ''C''"
| "stage_kinds ZIO_STAGE_READY = ''RWFCXT''"
| "stage_kinds ZIO_STAGE_VDEV_IO_START = ''RWXT''"
| "stage_kinds ZIO_STAGE_VDEV_IO_DONE = ''RWXT''"
| "stage_kinds ZIO_STAGE_VDEV_IO_ASSESS = ''RWXT''"
| "stage_kinds ZIO_STAGE_CHECKSUM_VERIFY = ''R''"
| "stage_kinds ZIO_STAGE_DIO_CHECKSUM_VERIFY = ''W''"
| "stage_kinds ZIO_STAGE_DONE = ''RWFCXT''"

definition zio_stages :: "zio_stage list" where
  "zio_stages = [ZIO_STAGE_OPEN, ZIO_STAGE_READ_BP_INIT, ZIO_STAGE_WRITE_BP_INIT, ZIO_STAGE_FREE_BP_INIT, ZIO_STAGE_ISSUE_ASYNC,
    ZIO_STAGE_WRITE_COMPRESS, ZIO_STAGE_ENCRYPT, ZIO_STAGE_CHECKSUM_GENERATE,
    ZIO_STAGE_NOP_WRITE, ZIO_STAGE_BRT_FREE, ZIO_STAGE_DDT_READ_START, ZIO_STAGE_DDT_READ_DONE, ZIO_STAGE_DDT_WRITE, ZIO_STAGE_DDT_FREE,
    ZIO_STAGE_GANG_ASSEMBLE, ZIO_STAGE_GANG_ISSUE, ZIO_STAGE_DVA_THROTTLE, ZIO_STAGE_DVA_ALLOCATE, ZIO_STAGE_DVA_FREE, ZIO_STAGE_DVA_CLAIM, ZIO_STAGE_READY,
    ZIO_STAGE_VDEV_IO_START, ZIO_STAGE_VDEV_IO_DONE, ZIO_STAGE_VDEV_IO_ASSESS, ZIO_STAGE_CHECKSUM_VERIFY, ZIO_STAGE_DIO_CHECKSUM_VERIFY, ZIO_STAGE_DONE]"

definition stage_value :: "zio_stage \<Rightarrow> u32" where
  "stage_value s = push_bit (stage_bit s) 1"

section \<open>Pipelines\<close>

definition ZIO_ROOT_PIPELINE :: u32 where
  "ZIO_ROOT_PIPELINE = stage_value ZIO_STAGE_DONE"
definition ZIO_INTERLOCK_STAGES :: u32 where
  "ZIO_INTERLOCK_STAGES = stage_value ZIO_STAGE_READY OR stage_value ZIO_STAGE_DONE"
definition ZIO_INTERLOCK_PIPELINE :: u32 where
  "ZIO_INTERLOCK_PIPELINE = ZIO_INTERLOCK_STAGES"
definition ZIO_VDEV_IO_STAGES :: u32 where
  "ZIO_VDEV_IO_STAGES = stage_value ZIO_STAGE_VDEV_IO_START OR stage_value ZIO_STAGE_VDEV_IO_DONE OR stage_value ZIO_STAGE_VDEV_IO_ASSESS"
definition ZIO_VDEV_CHILD_PIPELINE :: u32 where
  "ZIO_VDEV_CHILD_PIPELINE = ZIO_VDEV_IO_STAGES OR stage_value ZIO_STAGE_DONE"
definition ZIO_READ_COMMON_STAGES :: u32 where
  "ZIO_READ_COMMON_STAGES = ZIO_INTERLOCK_STAGES OR ZIO_VDEV_IO_STAGES OR stage_value ZIO_STAGE_CHECKSUM_VERIFY"
definition ZIO_READ_PHYS_PIPELINE :: u32 where
  "ZIO_READ_PHYS_PIPELINE = ZIO_READ_COMMON_STAGES"
definition ZIO_READ_PIPELINE :: u32 where
  "ZIO_READ_PIPELINE = ZIO_READ_COMMON_STAGES OR stage_value ZIO_STAGE_READ_BP_INIT"
definition ZIO_DDT_CHILD_READ_PIPELINE :: u32 where
  "ZIO_DDT_CHILD_READ_PIPELINE = ZIO_READ_COMMON_STAGES"
definition ZIO_DDT_READ_PIPELINE :: u32 where
  "ZIO_DDT_READ_PIPELINE = ZIO_INTERLOCK_STAGES OR stage_value ZIO_STAGE_READ_BP_INIT OR stage_value ZIO_STAGE_DDT_READ_START OR stage_value ZIO_STAGE_DDT_READ_DONE"
definition ZIO_WRITE_COMMON_STAGES :: u32 where
  "ZIO_WRITE_COMMON_STAGES = ZIO_INTERLOCK_STAGES OR ZIO_VDEV_IO_STAGES OR stage_value ZIO_STAGE_ISSUE_ASYNC OR stage_value ZIO_STAGE_CHECKSUM_GENERATE"
definition ZIO_WRITE_PHYS_PIPELINE :: u32 where
  "ZIO_WRITE_PHYS_PIPELINE = ZIO_WRITE_COMMON_STAGES"
definition ZIO_REWRITE_PIPELINE :: u32 where
  "ZIO_REWRITE_PIPELINE = ZIO_WRITE_COMMON_STAGES OR stage_value ZIO_STAGE_WRITE_COMPRESS OR stage_value ZIO_STAGE_ENCRYPT OR stage_value ZIO_STAGE_WRITE_BP_INIT"
definition ZIO_WRITE_PIPELINE :: u32 where
  "ZIO_WRITE_PIPELINE = ZIO_WRITE_COMMON_STAGES OR stage_value ZIO_STAGE_WRITE_BP_INIT OR stage_value ZIO_STAGE_WRITE_COMPRESS OR stage_value ZIO_STAGE_ENCRYPT OR stage_value ZIO_STAGE_DVA_THROTTLE OR stage_value ZIO_STAGE_DVA_ALLOCATE"
definition ZIO_DIRECT_WRITE_PIPELINE :: u32 where
  "ZIO_DIRECT_WRITE_PIPELINE = ZIO_WRITE_PIPELINE AND NOT (stage_value ZIO_STAGE_ISSUE_ASYNC)"
definition ZIO_DDT_CHILD_WRITE_PIPELINE :: u32 where
  "ZIO_DDT_CHILD_WRITE_PIPELINE = ZIO_INTERLOCK_STAGES OR ZIO_VDEV_IO_STAGES OR stage_value ZIO_STAGE_DVA_THROTTLE OR stage_value ZIO_STAGE_DVA_ALLOCATE"
definition ZIO_DDT_WRITE_PIPELINE :: u32 where
  "ZIO_DDT_WRITE_PIPELINE = ZIO_INTERLOCK_STAGES OR stage_value ZIO_STAGE_WRITE_BP_INIT OR stage_value ZIO_STAGE_ISSUE_ASYNC OR stage_value ZIO_STAGE_WRITE_COMPRESS OR stage_value ZIO_STAGE_ENCRYPT OR stage_value ZIO_STAGE_CHECKSUM_GENERATE OR stage_value ZIO_STAGE_DDT_WRITE"
definition ZIO_GANG_STAGES :: u32 where
  "ZIO_GANG_STAGES = stage_value ZIO_STAGE_GANG_ASSEMBLE OR stage_value ZIO_STAGE_GANG_ISSUE"
definition ZIO_FREE_PIPELINE :: u32 where
  "ZIO_FREE_PIPELINE = ZIO_INTERLOCK_STAGES OR stage_value ZIO_STAGE_FREE_BP_INIT OR stage_value ZIO_STAGE_BRT_FREE OR stage_value ZIO_STAGE_DVA_FREE"
definition ZIO_DDT_FREE_PIPELINE :: u32 where
  "ZIO_DDT_FREE_PIPELINE = ZIO_INTERLOCK_STAGES OR stage_value ZIO_STAGE_FREE_BP_INIT OR stage_value ZIO_STAGE_ISSUE_ASYNC OR stage_value ZIO_STAGE_DDT_FREE"
definition ZIO_CLAIM_PIPELINE :: u32 where
  "ZIO_CLAIM_PIPELINE = ZIO_INTERLOCK_STAGES OR stage_value ZIO_STAGE_DVA_CLAIM"
definition ZIO_FLUSH_PIPELINE :: u32 where
  "ZIO_FLUSH_PIPELINE = ZIO_INTERLOCK_STAGES OR ZIO_VDEV_IO_STAGES"
definition ZIO_TRIM_PIPELINE :: u32 where
  "ZIO_TRIM_PIPELINE = ZIO_INTERLOCK_STAGES OR stage_value ZIO_STAGE_ISSUE_ASYNC OR ZIO_VDEV_IO_STAGES"
definition ZIO_BLOCKING_STAGES :: u32 where
  "ZIO_BLOCKING_STAGES = stage_value ZIO_STAGE_DVA_ALLOCATE OR stage_value ZIO_STAGE_DVA_CLAIM OR stage_value ZIO_STAGE_VDEV_IO_START"

lemmas pipeline_defs = ZIO_ROOT_PIPELINE_def ZIO_INTERLOCK_STAGES_def ZIO_INTERLOCK_PIPELINE_def ZIO_VDEV_IO_STAGES_def ZIO_VDEV_CHILD_PIPELINE_def ZIO_READ_COMMON_STAGES_def ZIO_READ_PHYS_PIPELINE_def ZIO_READ_PIPELINE_def ZIO_DDT_CHILD_READ_PIPELINE_def ZIO_DDT_READ_PIPELINE_def ZIO_WRITE_COMMON_STAGES_def ZIO_WRITE_PHYS_PIPELINE_def ZIO_REWRITE_PIPELINE_def ZIO_WRITE_PIPELINE_def ZIO_DIRECT_WRITE_PIPELINE_def ZIO_DDT_CHILD_WRITE_PIPELINE_def ZIO_DDT_WRITE_PIPELINE_def ZIO_GANG_STAGES_def ZIO_FREE_PIPELINE_def ZIO_DDT_FREE_PIPELINE_def ZIO_CLAIM_PIPELINE_def ZIO_FLUSH_PIPELINE_def ZIO_TRIM_PIPELINE_def ZIO_BLOCKING_STAGES_def stage_value_def


text \<open>The stages of a pipeline, in the order of their bits, which is the order they run in.\<close>

definition stages_of :: "u32 \<Rightarrow> zio_stage list" where
  "stages_of p = filter (\<lambda>s. bit p (stage_bit s)) zio_stages"

section \<open>Flags\<close>

definition ZIO_FLAG_DONT_AGGREGATE :: u64 where "ZIO_FLAG_DONT_AGGREGATE = push_bit 0 1"
definition ZIO_FLAG_IO_REPAIR :: u64 where "ZIO_FLAG_IO_REPAIR = push_bit 1 1"
definition ZIO_FLAG_SELF_HEAL :: u64 where "ZIO_FLAG_SELF_HEAL = push_bit 2 1"
definition ZIO_FLAG_RESILVER :: u64 where "ZIO_FLAG_RESILVER = push_bit 3 1"
definition ZIO_FLAG_SCRUB :: u64 where "ZIO_FLAG_SCRUB = push_bit 4 1"
definition ZIO_FLAG_SCAN_THREAD :: u64 where "ZIO_FLAG_SCAN_THREAD = push_bit 5 1"
definition ZIO_FLAG_PHYSICAL :: u64 where "ZIO_FLAG_PHYSICAL = push_bit 6 1"
definition ZIO_FLAG_CANFAIL :: u64 where "ZIO_FLAG_CANFAIL = push_bit 7 1"
definition ZIO_FLAG_SPECULATIVE :: u64 where "ZIO_FLAG_SPECULATIVE = push_bit 8 1"
definition ZIO_FLAG_CONFIG_WRITER :: u64 where "ZIO_FLAG_CONFIG_WRITER = push_bit 9 1"
definition ZIO_FLAG_DONT_RETRY :: u64 where "ZIO_FLAG_DONT_RETRY = push_bit 10 1"
definition ZIO_FLAG_NODATA :: u64 where "ZIO_FLAG_NODATA = push_bit 12 1"
definition ZIO_FLAG_INDUCE_DAMAGE :: u64 where "ZIO_FLAG_INDUCE_DAMAGE = push_bit 13 1"
definition ZIO_FLAG_ALLOC_THROTTLED :: u64 where "ZIO_FLAG_ALLOC_THROTTLED = push_bit 14 1"
definition ZIO_FLAG_IO_RETRY :: u64 where "ZIO_FLAG_IO_RETRY = push_bit 15 1"
definition ZIO_FLAG_PROBE :: u64 where "ZIO_FLAG_PROBE = push_bit 16 1"
definition ZIO_FLAG_TRYHARD :: u64 where "ZIO_FLAG_TRYHARD = push_bit 17 1"
definition ZIO_FLAG_OPTIONAL :: u64 where "ZIO_FLAG_OPTIONAL = push_bit 18 1"
definition ZIO_FLAG_DIO_READ :: u64 where "ZIO_FLAG_DIO_READ = push_bit 19 1"
definition ZIO_FLAG_DONT_QUEUE :: u64 where "ZIO_FLAG_DONT_QUEUE = push_bit 20 1"
definition ZIO_FLAG_DONT_PROPAGATE :: u64 where "ZIO_FLAG_DONT_PROPAGATE = push_bit 21 1"
definition ZIO_FLAG_IO_BYPASS :: u64 where "ZIO_FLAG_IO_BYPASS = push_bit 22 1"
definition ZIO_FLAG_IO_REWRITE :: u64 where "ZIO_FLAG_IO_REWRITE = push_bit 23 1"
definition ZIO_FLAG_RAW_COMPRESS :: u64 where "ZIO_FLAG_RAW_COMPRESS = push_bit 24 1"
definition ZIO_FLAG_RAW_ENCRYPT :: u64 where "ZIO_FLAG_RAW_ENCRYPT = push_bit 25 1"
definition ZIO_FLAG_GANG_CHILD :: u64 where "ZIO_FLAG_GANG_CHILD = push_bit 26 1"
definition ZIO_FLAG_DDT_CHILD :: u64 where "ZIO_FLAG_DDT_CHILD = push_bit 27 1"
definition ZIO_FLAG_GODFATHER :: u64 where "ZIO_FLAG_GODFATHER = push_bit 28 1"
definition ZIO_FLAG_NOPWRITE :: u64 where "ZIO_FLAG_NOPWRITE = push_bit 29 1"
definition ZIO_FLAG_REEXECUTED :: u64 where "ZIO_FLAG_REEXECUTED = push_bit 30 1"
definition ZIO_FLAG_DELEGATED :: u64 where "ZIO_FLAG_DELEGATED = push_bit 31 1"
definition ZIO_FLAG_PREALLOCATED :: u64 where "ZIO_FLAG_PREALLOCATED = push_bit 32 1"

lemmas flag_defs = ZIO_FLAG_DONT_AGGREGATE_def ZIO_FLAG_IO_REPAIR_def ZIO_FLAG_SELF_HEAL_def ZIO_FLAG_RESILVER_def ZIO_FLAG_SCRUB_def ZIO_FLAG_SCAN_THREAD_def ZIO_FLAG_PHYSICAL_def ZIO_FLAG_CANFAIL_def ZIO_FLAG_SPECULATIVE_def ZIO_FLAG_CONFIG_WRITER_def ZIO_FLAG_DONT_RETRY_def ZIO_FLAG_NODATA_def ZIO_FLAG_INDUCE_DAMAGE_def ZIO_FLAG_ALLOC_THROTTLED_def ZIO_FLAG_IO_RETRY_def ZIO_FLAG_PROBE_def ZIO_FLAG_TRYHARD_def ZIO_FLAG_OPTIONAL_def ZIO_FLAG_DIO_READ_def ZIO_FLAG_DONT_QUEUE_def ZIO_FLAG_DONT_PROPAGATE_def ZIO_FLAG_IO_BYPASS_def ZIO_FLAG_IO_REWRITE_def ZIO_FLAG_RAW_COMPRESS_def ZIO_FLAG_RAW_ENCRYPT_def ZIO_FLAG_GANG_CHILD_def ZIO_FLAG_DDT_CHILD_def ZIO_FLAG_GODFATHER_def ZIO_FLAG_NOPWRITE_def ZIO_FLAG_REEXECUTED_def ZIO_FLAG_DELEGATED_def ZIO_FLAG_PREALLOCATED_def

definition ZIO_FLAG_AGG_INHERIT :: u64 where "ZIO_FLAG_AGG_INHERIT = ZIO_FLAG_CANFAIL - 1"
definition ZIO_FLAG_DDT_INHERIT :: u64 where "ZIO_FLAG_DDT_INHERIT = ZIO_FLAG_IO_RETRY - 1"
definition ZIO_FLAG_GANG_INHERIT :: u64 where "ZIO_FLAG_GANG_INHERIT = ZIO_FLAG_IO_RETRY - 1"
definition ZIO_FLAG_VDEV_INHERIT :: u64 where "ZIO_FLAG_VDEV_INHERIT = ZIO_FLAG_DONT_QUEUE - 1"
definition ZIO_FLAG_MUSTSUCCEED :: u64 where "ZIO_FLAG_MUSTSUCCEED = 0"
definition ZIO_FLAG_RAW :: u64 where "ZIO_FLAG_RAW = ZIO_FLAG_RAW_COMPRESS OR ZIO_FLAG_RAW_ENCRYPT"

text \<open>The macros take an I/O and read its flags.\<close>

definition ZIO_DDT_CHILD_FLAGS :: "u64 \<Rightarrow> u64" where
  "ZIO_DDT_CHILD_FLAGS io_flags = (io_flags AND ZIO_FLAG_DDT_INHERIT) OR ZIO_FLAG_DDT_CHILD OR ZIO_FLAG_CANFAIL"

definition ZIO_GANG_CHILD_FLAGS :: "u64 \<Rightarrow> u64" where
  "ZIO_GANG_CHILD_FLAGS io_flags = (io_flags AND ZIO_FLAG_GANG_INHERIT) OR ZIO_FLAG_GANG_CHILD OR ZIO_FLAG_CANFAIL"

definition ZIO_VDEV_CHILD_FLAGS :: "u64 \<Rightarrow> u64" where
  "ZIO_VDEV_CHILD_FLAGS io_flags = (io_flags AND ZIO_FLAG_VDEV_INHERIT) OR ZIO_FLAG_DONT_PROPAGATE OR ZIO_FLAG_CANFAIL"

datatype zio_child = ZIO_CHILD_VDEV | ZIO_CHILD_GANG | ZIO_CHILD_DDT | ZIO_CHILD_LOGICAL

fun zio_child_value :: "zio_child \<Rightarrow> nat" where
  "zio_child_value ZIO_CHILD_VDEV = 0"
| "zio_child_value ZIO_CHILD_GANG = 1"
| "zio_child_value ZIO_CHILD_DDT = 2"
| "zio_child_value ZIO_CHILD_LOGICAL = 3"

definition ZIO_CHILD_TYPES :: nat where "ZIO_CHILD_TYPES = 4"

definition ZIO_CHILD_BIT :: "zio_child \<Rightarrow> u32" where
  "ZIO_CHILD_BIT x = push_bit (zio_child_value x) 1"

definition ZIO_CHILD_BIT_IS_SET :: "u32 \<Rightarrow> zio_child \<Rightarrow> bool" where
  "ZIO_CHILD_BIT_IS_SET val x \<longleftrightarrow> val AND push_bit (zio_child_value x) 1 \<noteq> 0"

definition ZIO_CHILD_VDEV_BIT :: u32 where "ZIO_CHILD_VDEV_BIT = ZIO_CHILD_BIT ZIO_CHILD_VDEV"
definition ZIO_CHILD_GANG_BIT :: u32 where "ZIO_CHILD_GANG_BIT = ZIO_CHILD_BIT ZIO_CHILD_GANG"
definition ZIO_CHILD_DDT_BIT :: u32 where "ZIO_CHILD_DDT_BIT = ZIO_CHILD_BIT ZIO_CHILD_DDT"
definition ZIO_CHILD_LOGICAL_BIT :: u32 where "ZIO_CHILD_LOGICAL_BIT = ZIO_CHILD_BIT ZIO_CHILD_LOGICAL"
definition ZIO_CHILD_ALL_BITS :: u32 where
  "ZIO_CHILD_ALL_BITS = ZIO_CHILD_VDEV_BIT OR ZIO_CHILD_GANG_BIT OR ZIO_CHILD_DDT_BIT OR ZIO_CHILD_LOGICAL_BIT"

section \<open>Bookmarks\<close>

record zbookmark_phys =
  zb_objset :: u64
  zb_object :: u64
  zb_level :: u64
  zb_blkid :: u64

definition SET_BOOKMARK :: "u64 \<Rightarrow> u64 \<Rightarrow> u64 \<Rightarrow> u64 \<Rightarrow> zbookmark_phys" where
  "SET_BOOKMARK objset object level blkid =
     \<lparr>zb_objset = objset, zb_object = object, zb_level = level, zb_blkid = blkid\<rparr>"

definition ZB_DESTROYED_OBJSET :: u64 where "ZB_DESTROYED_OBJSET = - 1"
definition ZB_ROOT_OBJECT :: u64 where "ZB_ROOT_OBJECT = 0"
definition ZB_ROOT_LEVEL :: u64 where "ZB_ROOT_LEVEL = - 1"
definition ZB_ROOT_BLKID :: u64 where "ZB_ROOT_BLKID = 0"
definition ZB_ZIL_OBJECT :: u64 where "ZB_ZIL_OBJECT = 0"
definition ZB_ZIL_LEVEL :: u64 where "ZB_ZIL_LEVEL = - 2"
definition ZB_DNODE_LEVEL :: u64 where "ZB_DNODE_LEVEL = - 3"
definition ZB_DNODE_BLKID :: u64 where "ZB_DNODE_BLKID = 0"

definition ZB_IS_ZERO :: "zbookmark_phys \<Rightarrow> bool" where
  "ZB_IS_ZERO zb \<longleftrightarrow> zb_objset zb = 0 \<and> zb_object zb = 0 \<and> zb_level zb = 0 \<and> zb_blkid zb = 0"

definition ZB_IS_ROOT :: "zbookmark_phys \<Rightarrow> bool" where
  "ZB_IS_ROOT zb \<longleftrightarrow> zb_object zb = ZB_ROOT_OBJECT \<and> zb_level zb = ZB_ROOT_LEVEL \<and> zb_blkid zb = ZB_ROOT_BLKID"

section \<open>Compression\<close>

datatype zio_compress = ZIO_COMPRESS_INHERIT | ZIO_COMPRESS_ON | ZIO_COMPRESS_OFF | ZIO_COMPRESS_LZJB | ZIO_COMPRESS_EMPTY
  | ZIO_COMPRESS_GZIP_1 | ZIO_COMPRESS_GZIP_2 | ZIO_COMPRESS_GZIP_3 | ZIO_COMPRESS_GZIP_4 | ZIO_COMPRESS_GZIP_5 | ZIO_COMPRESS_GZIP_6
  | ZIO_COMPRESS_GZIP_7 | ZIO_COMPRESS_GZIP_8 | ZIO_COMPRESS_GZIP_9 | ZIO_COMPRESS_ZLE | ZIO_COMPRESS_LZ4 | ZIO_COMPRESS_ZSTD

fun zio_compress_value :: "zio_compress \<Rightarrow> u64" where
  "zio_compress_value ZIO_COMPRESS_INHERIT = 0"
| "zio_compress_value ZIO_COMPRESS_ON = 1"
| "zio_compress_value ZIO_COMPRESS_OFF = 2"
| "zio_compress_value ZIO_COMPRESS_LZJB = 3"
| "zio_compress_value ZIO_COMPRESS_EMPTY = 4"
| "zio_compress_value ZIO_COMPRESS_GZIP_1 = 5"
| "zio_compress_value ZIO_COMPRESS_GZIP_2 = 6"
| "zio_compress_value ZIO_COMPRESS_GZIP_3 = 7"
| "zio_compress_value ZIO_COMPRESS_GZIP_4 = 8"
| "zio_compress_value ZIO_COMPRESS_GZIP_5 = 9"
| "zio_compress_value ZIO_COMPRESS_GZIP_6 = 10"
| "zio_compress_value ZIO_COMPRESS_GZIP_7 = 11"
| "zio_compress_value ZIO_COMPRESS_GZIP_8 = 12"
| "zio_compress_value ZIO_COMPRESS_GZIP_9 = 13"
| "zio_compress_value ZIO_COMPRESS_ZLE = 14"
| "zio_compress_value ZIO_COMPRESS_LZ4 = 15"
| "zio_compress_value ZIO_COMPRESS_ZSTD = 16"

definition ZIO_COMPRESS_FUNCTIONS :: u64 where "ZIO_COMPRESS_FUNCTIONS = 17"

definition ZIO_COMPRESS_HASLEVEL :: "u64 \<Rightarrow> bool" where
  "ZIO_COMPRESS_HASLEVEL compress \<longleftrightarrow> compress = zio_compress_value ZIO_COMPRESS_ZSTD \<or>
     compress \<ge> zio_compress_value ZIO_COMPRESS_GZIP_1 \<and> compress \<le> zio_compress_value ZIO_COMPRESS_GZIP_9"

definition ZIO_COMPLEVEL_INHERIT :: u64 where "ZIO_COMPLEVEL_INHERIT = 0"
definition ZIO_COMPLEVEL_DEFAULT :: u64 where "ZIO_COMPLEVEL_DEFAULT = 255"

definition BOOTFS_COMPRESS_VALID :: "u64 \<Rightarrow> bool" where
  "BOOTFS_COMPRESS_VALID compress \<longleftrightarrow>
     compress = zio_compress_value ZIO_COMPRESS_LZJB \<or>
     compress = zio_compress_value ZIO_COMPRESS_LZ4 \<or>
     compress = zio_compress_value ZIO_COMPRESS_GZIP_1 \<or>
     compress = zio_compress_value ZIO_COMPRESS_GZIP_2 \<or>
     compress = zio_compress_value ZIO_COMPRESS_GZIP_3 \<or>
     compress = zio_compress_value ZIO_COMPRESS_GZIP_4 \<or>
     compress = zio_compress_value ZIO_COMPRESS_GZIP_5 \<or>
     compress = zio_compress_value ZIO_COMPRESS_GZIP_6 \<or>
     compress = zio_compress_value ZIO_COMPRESS_GZIP_7 \<or>
     compress = zio_compress_value ZIO_COMPRESS_GZIP_8 \<or>
     compress = zio_compress_value ZIO_COMPRESS_GZIP_9 \<or>
     compress = zio_compress_value ZIO_COMPRESS_ZLE \<or>
     compress = zio_compress_value ZIO_COMPRESS_ZSTD \<or>
     compress = zio_compress_value ZIO_COMPRESS_ON \<or>
     compress = zio_compress_value ZIO_COMPRESS_OFF"

datatype zio_zstd_levels =
    ZIO_ZSTD_LEVEL_INHERIT | ZIO_ZSTD_LEVEL_1 | ZIO_ZSTD_LEVEL_2 | ZIO_ZSTD_LEVEL_3 | ZIO_ZSTD_LEVEL_4
  | ZIO_ZSTD_LEVEL_5 | ZIO_ZSTD_LEVEL_6 | ZIO_ZSTD_LEVEL_7 | ZIO_ZSTD_LEVEL_8 | ZIO_ZSTD_LEVEL_9
  | ZIO_ZSTD_LEVEL_10 | ZIO_ZSTD_LEVEL_11 | ZIO_ZSTD_LEVEL_12 | ZIO_ZSTD_LEVEL_13 | ZIO_ZSTD_LEVEL_14
  | ZIO_ZSTD_LEVEL_15 | ZIO_ZSTD_LEVEL_16 | ZIO_ZSTD_LEVEL_17 | ZIO_ZSTD_LEVEL_18 | ZIO_ZSTD_LEVEL_19
  | ZIO_ZSTD_LEVEL_RESERVE | ZIO_ZSTD_LEVEL_FAST | ZIO_ZSTD_LEVEL_FAST_1 | ZIO_ZSTD_LEVEL_FAST_2 | ZIO_ZSTD_LEVEL_FAST_3
  | ZIO_ZSTD_LEVEL_FAST_4 | ZIO_ZSTD_LEVEL_FAST_5 | ZIO_ZSTD_LEVEL_FAST_6 | ZIO_ZSTD_LEVEL_FAST_7 | ZIO_ZSTD_LEVEL_FAST_8
  | ZIO_ZSTD_LEVEL_FAST_9 | ZIO_ZSTD_LEVEL_FAST_10 | ZIO_ZSTD_LEVEL_FAST_20 | ZIO_ZSTD_LEVEL_FAST_30 | ZIO_ZSTD_LEVEL_FAST_40
  | ZIO_ZSTD_LEVEL_FAST_50 | ZIO_ZSTD_LEVEL_FAST_60 | ZIO_ZSTD_LEVEL_FAST_70 | ZIO_ZSTD_LEVEL_FAST_80 | ZIO_ZSTD_LEVEL_FAST_90
  | ZIO_ZSTD_LEVEL_FAST_100 | ZIO_ZSTD_LEVEL_FAST_500 | ZIO_ZSTD_LEVEL_FAST_1000 | ZIO_ZSTD_LEVEL_AUTO | ZIO_ZSTD_LEVEL_LEVELS

fun zstd_level_value :: "zio_zstd_levels \<Rightarrow> u64" where
  "zstd_level_value ZIO_ZSTD_LEVEL_INHERIT = 0"
| "zstd_level_value ZIO_ZSTD_LEVEL_1 = 1"
| "zstd_level_value ZIO_ZSTD_LEVEL_2 = 2"
| "zstd_level_value ZIO_ZSTD_LEVEL_3 = 3"
| "zstd_level_value ZIO_ZSTD_LEVEL_4 = 4"
| "zstd_level_value ZIO_ZSTD_LEVEL_5 = 5"
| "zstd_level_value ZIO_ZSTD_LEVEL_6 = 6"
| "zstd_level_value ZIO_ZSTD_LEVEL_7 = 7"
| "zstd_level_value ZIO_ZSTD_LEVEL_8 = 8"
| "zstd_level_value ZIO_ZSTD_LEVEL_9 = 9"
| "zstd_level_value ZIO_ZSTD_LEVEL_10 = 10"
| "zstd_level_value ZIO_ZSTD_LEVEL_11 = 11"
| "zstd_level_value ZIO_ZSTD_LEVEL_12 = 12"
| "zstd_level_value ZIO_ZSTD_LEVEL_13 = 13"
| "zstd_level_value ZIO_ZSTD_LEVEL_14 = 14"
| "zstd_level_value ZIO_ZSTD_LEVEL_15 = 15"
| "zstd_level_value ZIO_ZSTD_LEVEL_16 = 16"
| "zstd_level_value ZIO_ZSTD_LEVEL_17 = 17"
| "zstd_level_value ZIO_ZSTD_LEVEL_18 = 18"
| "zstd_level_value ZIO_ZSTD_LEVEL_19 = 19"
| "zstd_level_value ZIO_ZSTD_LEVEL_RESERVE = 101"
| "zstd_level_value ZIO_ZSTD_LEVEL_FAST = 102"
| "zstd_level_value ZIO_ZSTD_LEVEL_FAST_1 = 103"
| "zstd_level_value ZIO_ZSTD_LEVEL_FAST_2 = 104"
| "zstd_level_value ZIO_ZSTD_LEVEL_FAST_3 = 105"
| "zstd_level_value ZIO_ZSTD_LEVEL_FAST_4 = 106"
| "zstd_level_value ZIO_ZSTD_LEVEL_FAST_5 = 107"
| "zstd_level_value ZIO_ZSTD_LEVEL_FAST_6 = 108"
| "zstd_level_value ZIO_ZSTD_LEVEL_FAST_7 = 109"
| "zstd_level_value ZIO_ZSTD_LEVEL_FAST_8 = 110"
| "zstd_level_value ZIO_ZSTD_LEVEL_FAST_9 = 111"
| "zstd_level_value ZIO_ZSTD_LEVEL_FAST_10 = 112"
| "zstd_level_value ZIO_ZSTD_LEVEL_FAST_20 = 113"
| "zstd_level_value ZIO_ZSTD_LEVEL_FAST_30 = 114"
| "zstd_level_value ZIO_ZSTD_LEVEL_FAST_40 = 115"
| "zstd_level_value ZIO_ZSTD_LEVEL_FAST_50 = 116"
| "zstd_level_value ZIO_ZSTD_LEVEL_FAST_60 = 117"
| "zstd_level_value ZIO_ZSTD_LEVEL_FAST_70 = 118"
| "zstd_level_value ZIO_ZSTD_LEVEL_FAST_80 = 119"
| "zstd_level_value ZIO_ZSTD_LEVEL_FAST_90 = 120"
| "zstd_level_value ZIO_ZSTD_LEVEL_FAST_100 = 121"
| "zstd_level_value ZIO_ZSTD_LEVEL_FAST_500 = 122"
| "zstd_level_value ZIO_ZSTD_LEVEL_FAST_1000 = 123"
| "zstd_level_value ZIO_ZSTD_LEVEL_AUTO = 251"
| "zstd_level_value ZIO_ZSTD_LEVEL_LEVELS = 252"

definition ZIO_ZSTD_LEVEL_MIN :: zio_zstd_levels where "ZIO_ZSTD_LEVEL_MIN = ZIO_ZSTD_LEVEL_1"
definition ZIO_ZSTD_LEVEL_DEFAULT :: zio_zstd_levels where "ZIO_ZSTD_LEVEL_DEFAULT = ZIO_ZSTD_LEVEL_3"
definition ZIO_ZSTD_LEVEL_MAX :: zio_zstd_levels where "ZIO_ZSTD_LEVEL_MAX = ZIO_ZSTD_LEVEL_19"
definition ZIO_ZSTD_LEVEL_FAST_DEFAULT :: zio_zstd_levels where "ZIO_ZSTD_LEVEL_FAST_DEFAULT = ZIO_ZSTD_LEVEL_FAST_1"
definition ZIO_ZSTD_LEVEL_FAST_MAX :: zio_zstd_levels where "ZIO_ZSTD_LEVEL_FAST_MAX = ZIO_ZSTD_LEVEL_FAST_1000"

text \<open>The mask is a 32-bit expression: its complement clears the upper half of a 64-bit value.\<close>

definition ZIO_COMPRESS_ALGO :: "u64 \<Rightarrow> u64" where
  "ZIO_COMPRESS_ALGO x = x AND ucast SPA_COMPRESSMASK"

definition ZIO_COMPRESS_LEVEL :: "u64 \<Rightarrow> u64" where
  "ZIO_COMPRESS_LEVEL x = drop_bit SPA_COMPRESSBITS (x AND ucast (NOT SPA_COMPRESSMASK))"

definition ZIO_COMPRESS_RAW :: "u64 \<Rightarrow> u64 \<Rightarrow> u64" where
  "ZIO_COMPRESS_RAW t level = t OR push_bit SPA_COMPRESSBITS level"

definition ZIO_COMPLEVEL_ZSTD :: "u64 \<Rightarrow> u64" where
  "ZIO_COMPLEVEL_ZSTD level = ZIO_COMPRESS_RAW (zio_compress_value ZIO_COMPRESS_ZSTD) level"

section \<open>Properties\<close>

lemma zio_stages_all: "set zio_stages = UNIV"
proof -
  have "s \<in> set zio_stages" for s by (cases s) (simp_all add: zio_stages_def)
  then show ?thesis by blast
qed

text \<open>Which pipelines each kind of I/O uses: read, write, free, claim, flush and trim.\<close>

definition zio_pipelines :: "(char \<times> u32) list" where
  "zio_pipelines =
    [(CHR ''R'', ZIO_READ_PHYS_PIPELINE), (CHR ''R'', ZIO_READ_PIPELINE), (CHR ''R'', ZIO_DDT_CHILD_READ_PIPELINE),
     (CHR ''R'', ZIO_DDT_READ_PIPELINE), (CHR ''W'', ZIO_WRITE_PHYS_PIPELINE), (CHR ''W'', ZIO_REWRITE_PIPELINE),
     (CHR ''W'', ZIO_WRITE_PIPELINE), (CHR ''W'', ZIO_DIRECT_WRITE_PIPELINE), (CHR ''W'', ZIO_DDT_CHILD_WRITE_PIPELINE),
     (CHR ''W'', ZIO_DDT_WRITE_PIPELINE), (CHR ''F'', ZIO_FREE_PIPELINE), (CHR ''F'', ZIO_DDT_FREE_PIPELINE),
     (CHR ''C'', ZIO_CLAIM_PIPELINE), (CHR ''X'', ZIO_FLUSH_PIPELINE), (CHR ''T'', ZIO_TRIM_PIPELINE)]"

definition runs_stage :: "char \<Rightarrow> zio_stage \<Rightarrow> bool" where
  "runs_stage k s = list_ex (\<lambda>(k', p). k' = k \<and> bit p (stage_bit s)) zio_pipelines"

text \<open>Stages that no pipeline starts with: they are added to a running I/O, or are its first state.\<close>

definition added_stages :: "zio_stage list" where
  "added_stages = [ZIO_STAGE_OPEN, ZIO_STAGE_NOP_WRITE, ZIO_STAGE_GANG_ASSEMBLE, ZIO_STAGE_GANG_ISSUE, ZIO_STAGE_DIO_CHECKSUM_VERIFY]"

lemma pipeline_stages:
  "stages_of ZIO_ROOT_PIPELINE = [ZIO_STAGE_DONE]"
  "stages_of ZIO_VDEV_CHILD_PIPELINE = [ZIO_STAGE_VDEV_IO_START, ZIO_STAGE_VDEV_IO_DONE, ZIO_STAGE_VDEV_IO_ASSESS, ZIO_STAGE_DONE]"
  "stages_of ZIO_READ_PHYS_PIPELINE = [ZIO_STAGE_READY, ZIO_STAGE_VDEV_IO_START, ZIO_STAGE_VDEV_IO_DONE, ZIO_STAGE_VDEV_IO_ASSESS, ZIO_STAGE_CHECKSUM_VERIFY, ZIO_STAGE_DONE]"
  "stages_of ZIO_READ_PIPELINE = [ZIO_STAGE_READ_BP_INIT, ZIO_STAGE_READY, ZIO_STAGE_VDEV_IO_START, ZIO_STAGE_VDEV_IO_DONE, ZIO_STAGE_VDEV_IO_ASSESS, ZIO_STAGE_CHECKSUM_VERIFY, ZIO_STAGE_DONE]"
  "stages_of ZIO_DDT_CHILD_READ_PIPELINE = [ZIO_STAGE_READY, ZIO_STAGE_VDEV_IO_START, ZIO_STAGE_VDEV_IO_DONE, ZIO_STAGE_VDEV_IO_ASSESS, ZIO_STAGE_CHECKSUM_VERIFY, ZIO_STAGE_DONE]"
  "stages_of ZIO_DDT_READ_PIPELINE = [ZIO_STAGE_READ_BP_INIT, ZIO_STAGE_DDT_READ_START, ZIO_STAGE_DDT_READ_DONE, ZIO_STAGE_READY, ZIO_STAGE_DONE]"
  "stages_of ZIO_WRITE_PHYS_PIPELINE = [ZIO_STAGE_ISSUE_ASYNC, ZIO_STAGE_CHECKSUM_GENERATE, ZIO_STAGE_READY, ZIO_STAGE_VDEV_IO_START, ZIO_STAGE_VDEV_IO_DONE, ZIO_STAGE_VDEV_IO_ASSESS, ZIO_STAGE_DONE]"
  "stages_of ZIO_REWRITE_PIPELINE = [ZIO_STAGE_WRITE_BP_INIT, ZIO_STAGE_ISSUE_ASYNC, ZIO_STAGE_WRITE_COMPRESS, ZIO_STAGE_ENCRYPT, ZIO_STAGE_CHECKSUM_GENERATE, ZIO_STAGE_READY, ZIO_STAGE_VDEV_IO_START, ZIO_STAGE_VDEV_IO_DONE, ZIO_STAGE_VDEV_IO_ASSESS, ZIO_STAGE_DONE]"
  "stages_of ZIO_WRITE_PIPELINE = [ZIO_STAGE_WRITE_BP_INIT, ZIO_STAGE_ISSUE_ASYNC, ZIO_STAGE_WRITE_COMPRESS, ZIO_STAGE_ENCRYPT, ZIO_STAGE_CHECKSUM_GENERATE, ZIO_STAGE_DVA_THROTTLE, ZIO_STAGE_DVA_ALLOCATE, ZIO_STAGE_READY, ZIO_STAGE_VDEV_IO_START, ZIO_STAGE_VDEV_IO_DONE, ZIO_STAGE_VDEV_IO_ASSESS, ZIO_STAGE_DONE]"
  "stages_of ZIO_DIRECT_WRITE_PIPELINE = [ZIO_STAGE_WRITE_BP_INIT, ZIO_STAGE_WRITE_COMPRESS, ZIO_STAGE_ENCRYPT, ZIO_STAGE_CHECKSUM_GENERATE, ZIO_STAGE_DVA_THROTTLE, ZIO_STAGE_DVA_ALLOCATE, ZIO_STAGE_READY, ZIO_STAGE_VDEV_IO_START, ZIO_STAGE_VDEV_IO_DONE, ZIO_STAGE_VDEV_IO_ASSESS, ZIO_STAGE_DONE]"
  "stages_of ZIO_DDT_CHILD_WRITE_PIPELINE = [ZIO_STAGE_DVA_THROTTLE, ZIO_STAGE_DVA_ALLOCATE, ZIO_STAGE_READY, ZIO_STAGE_VDEV_IO_START, ZIO_STAGE_VDEV_IO_DONE, ZIO_STAGE_VDEV_IO_ASSESS, ZIO_STAGE_DONE]"
  "stages_of ZIO_DDT_WRITE_PIPELINE = [ZIO_STAGE_WRITE_BP_INIT, ZIO_STAGE_ISSUE_ASYNC, ZIO_STAGE_WRITE_COMPRESS, ZIO_STAGE_ENCRYPT, ZIO_STAGE_CHECKSUM_GENERATE, ZIO_STAGE_DDT_WRITE, ZIO_STAGE_READY, ZIO_STAGE_DONE]"
  "stages_of ZIO_FREE_PIPELINE = [ZIO_STAGE_FREE_BP_INIT, ZIO_STAGE_BRT_FREE, ZIO_STAGE_DVA_FREE, ZIO_STAGE_READY, ZIO_STAGE_DONE]"
  "stages_of ZIO_DDT_FREE_PIPELINE = [ZIO_STAGE_FREE_BP_INIT, ZIO_STAGE_ISSUE_ASYNC, ZIO_STAGE_DDT_FREE, ZIO_STAGE_READY, ZIO_STAGE_DONE]"
  "stages_of ZIO_CLAIM_PIPELINE = [ZIO_STAGE_DVA_CLAIM, ZIO_STAGE_READY, ZIO_STAGE_DONE]"
  "stages_of ZIO_FLUSH_PIPELINE = [ZIO_STAGE_READY, ZIO_STAGE_VDEV_IO_START, ZIO_STAGE_VDEV_IO_DONE, ZIO_STAGE_VDEV_IO_ASSESS, ZIO_STAGE_DONE]"
  "stages_of ZIO_TRIM_PIPELINE = [ZIO_STAGE_ISSUE_ASYNC, ZIO_STAGE_READY, ZIO_STAGE_VDEV_IO_START, ZIO_STAGE_VDEV_IO_DONE, ZIO_STAGE_VDEV_IO_ASSESS, ZIO_STAGE_DONE]"
  by code_simp+

lemma runs_stage_list: "runs_stage k s \<longleftrightarrow> list_ex (\<lambda>(k', p). k' = k \<and> s \<in> set (stages_of p)) zio_pipelines"
  by (simp add: runs_stage_def stages_of_def zio_stages_all)

text \<open>
  The comments of the stage enumeration are exact: for every kind of I/O, the stages that one of
  its pipelines contains are those whose comment names the kind, except for the initial state
  and the four stages that are added while an I/O runs.
\<close>

theorem pipelines_match_comments:
  "map (\<lambda>k. filter (runs_stage k) zio_stages) ''RWFCXT'' =
   map (\<lambda>k. filter (\<lambda>s. List.member (stage_kinds s) k \<and> \<not> List.member added_stages s) zio_stages) ''RWFCXT''"
  by (simp add: runs_stage_list zio_pipelines_def pipeline_stages added_stages_def zio_stages_def)

text \<open>
  Every pipeline ends with the stage that completes the I/O and has it once; all but those of
  the root and of a vdev's child have the stage that makes it ready, before any device I/O; the
  three device stages come together and in order; and a write compresses before it encrypts,
  encrypts before it computes the checksum, and has its checksum before it allocates.
\<close>

theorem pipeline_shape:
  "list_all (\<lambda>(k, p). last (stages_of p) = ZIO_STAGE_DONE \<and> List.member (stages_of p) ZIO_STAGE_READY \<and>
      List.member [[], [ZIO_STAGE_VDEV_IO_START, ZIO_STAGE_VDEV_IO_DONE, ZIO_STAGE_VDEV_IO_ASSESS]]
        (filter (List.member [ZIO_STAGE_VDEV_IO_START, ZIO_STAGE_VDEV_IO_DONE, ZIO_STAGE_VDEV_IO_ASSESS]) (stages_of p)) \<and>
      last (takeWhile (\<lambda>s. stage_bit s < stage_bit ZIO_STAGE_VDEV_IO_START) (stages_of p)) = ZIO_STAGE_READY) zio_pipelines \<and>
   stages_of ZIO_ROOT_PIPELINE = [ZIO_STAGE_DONE] \<and>
   stages_of ZIO_VDEV_CHILD_PIPELINE =
     [ZIO_STAGE_VDEV_IO_START, ZIO_STAGE_VDEV_IO_DONE, ZIO_STAGE_VDEV_IO_ASSESS, ZIO_STAGE_DONE] \<and>
   stages_of ZIO_WRITE_PIPELINE =
     [ZIO_STAGE_WRITE_BP_INIT, ZIO_STAGE_ISSUE_ASYNC, ZIO_STAGE_WRITE_COMPRESS, ZIO_STAGE_ENCRYPT, ZIO_STAGE_CHECKSUM_GENERATE,
      ZIO_STAGE_DVA_THROTTLE, ZIO_STAGE_DVA_ALLOCATE, ZIO_STAGE_READY, ZIO_STAGE_VDEV_IO_START, ZIO_STAGE_VDEV_IO_DONE,
      ZIO_STAGE_VDEV_IO_ASSESS, ZIO_STAGE_DONE] \<and>
   stages_of ZIO_DIRECT_WRITE_PIPELINE = removeAll ZIO_STAGE_ISSUE_ASYNC (stages_of ZIO_WRITE_PIPELINE) \<and>
   map stage_bit zio_stages = [0..<27] \<and> set zio_stages = UNIV"
  by (simp add: zio_pipelines_def pipeline_stages zio_stages_all) (simp add: zio_stages_def upt_rec)

lemma inherit_mask:
  "ZIO_FLAG_AGG_INHERIT = mask 7" "ZIO_FLAG_DDT_INHERIT = mask 15" "ZIO_FLAG_GANG_INHERIT = mask 15" "ZIO_FLAG_VDEV_INHERIT = mask 20"
  by (simp_all add: ZIO_FLAG_AGG_INHERIT_def ZIO_FLAG_DDT_INHERIT_def ZIO_FLAG_GANG_INHERIT_def ZIO_FLAG_VDEV_INHERIT_def
      flag_defs mask_numeral)

text \<open>
  A child of an I/O has exactly the flags its kind inherits, the flag of its kind, and the flag
  that it may fail: a gang or deduplication child the flags below the retry flag, a device child
  also the four of the retry group, and no child any of the flags above.
\<close>

theorem zio_child_flags:
  "(bit (ZIO_DDT_CHILD_FLAGS f) n \<longleftrightarrow> n < 15 \<and> bit f n \<or> n = 27 \<or> n = 7) \<and>
   (bit (ZIO_GANG_CHILD_FLAGS f) n \<longleftrightarrow> n < 15 \<and> bit f n \<or> n = 26 \<or> n = 7) \<and>
   (bit (ZIO_VDEV_CHILD_FLAGS f) n \<longleftrightarrow> n < 20 \<and> bit f n \<or> n = 21 \<or> n = 7) \<and>
   ZIO_FLAG_AGG_INHERIT = ZIO_FLAG_DONT_AGGREGATE OR ZIO_FLAG_IO_REPAIR OR ZIO_FLAG_SELF_HEAL OR ZIO_FLAG_RESILVER OR
     ZIO_FLAG_SCRUB OR ZIO_FLAG_SCAN_THREAD OR ZIO_FLAG_PHYSICAL"
proof -
  have "ZIO_FLAG_AGG_INHERIT = ZIO_FLAG_DONT_AGGREGATE OR ZIO_FLAG_IO_REPAIR OR ZIO_FLAG_SELF_HEAL OR ZIO_FLAG_RESILVER OR
     ZIO_FLAG_SCRUB OR ZIO_FLAG_SCAN_THREAD OR ZIO_FLAG_PHYSICAL"
    by (simp add: ZIO_FLAG_AGG_INHERIT_def flag_defs)
  moreover have "bit (push_bit k 1 :: u64) n \<longleftrightarrow> n = k" if "k < 64" for k
    using that by (auto simp: bit_simps simp del: push_bit_of_1)
  ultimately show ?thesis
    unfolding ZIO_DDT_CHILD_FLAGS_def ZIO_GANG_CHILD_FLAGS_def ZIO_VDEV_CHILD_FLAGS_def inherit_mask flag_defs
    by (simp add: bit_or_iff bit_and_iff bit_mask_iff del: push_bit_of_1) (auto dest: bit_imp_le_length)
qed

lemma compress_mask: "SPA_COMPRESSMASK = mask 7"
  by (simp add: SPA_COMPRESSMASK_def SPA_COMPRESSBITS_def mask_numeral)

text \<open>
  A compression algorithm and a level packed into one value are read back, for every algorithm
  below 128 and every level below 2 to the 25; a larger level loses its upper bits, and every level
  of the ZSTD enumeration fits the byte it is kept in.
\<close>

theorem compress_level_roundtrip:
  assumes "t < 2 ^ 7"
  shows "ZIO_COMPRESS_ALGO (ZIO_COMPRESS_RAW t level) = t \<and>
    ZIO_COMPRESS_LEVEL (ZIO_COMPRESS_RAW t level) = take_bit 25 level \<and>
    ZIO_COMPRESS_ALGO (ZIO_COMPLEVEL_ZSTD (zstd_level_value l)) = zio_compress_value ZIO_COMPRESS_ZSTD \<and>
    ZIO_COMPRESS_LEVEL (ZIO_COMPLEVEL_ZSTD (zstd_level_value l)) = zstd_level_value l \<and> zstd_level_value l < 2 ^ 8"
proof -
  have hi: "n < 7" if "v < 2 ^ 7" "bit v n" for v :: u64 and n
    using take_bit_word_small [OF that(1)] that(2) by (metis bit_take_bit_iff)
  have algo: "ZIO_COMPRESS_ALGO (ZIO_COMPRESS_RAW v level) = v" if "v < 2 ^ 7" for v level
    unfolding ZIO_COMPRESS_ALGO_def ZIO_COMPRESS_RAW_def compress_mask SPA_COMPRESSBITS_def
    by (rule bit_word_eqI) (auto simp: bit_simps dest: hi [OF that])
  have level: "ZIO_COMPRESS_LEVEL (ZIO_COMPRESS_RAW v level) = take_bit 25 level" if "v < 2 ^ 7" for v level
    unfolding ZIO_COMPRESS_LEVEL_def ZIO_COMPRESS_RAW_def compress_mask SPA_COMPRESSBITS_def
    by (rule bit_word_eqI) (auto simp: bit_simps dest: hi [OF that])
  have small: "zstd_level_value l < 2 ^ 8" by (cases l) simp_all
  then have "take_bit 25 (zstd_level_value l) = zstd_level_value l"
    by (intro take_bit_word_small) (simp add: word_less_nat_alt)
  then show ?thesis using algo level small assms by (simp add: ZIO_COMPLEVEL_ZSTD_def)
qed

theorem compress_level_roundtrip_witness:
  "ZIO_COMPRESS_LEVEL (ZIO_COMPRESS_RAW 16 19) = 19 \<and> ZIO_COMPRESS_ALGO (ZIO_COMPRESS_RAW 16 19) = 16"
  using compress_level_roundtrip [of 16 19 ZIO_ZSTD_LEVEL_19] by simp

text \<open>
  A boot pool may use every compression algorithm but the two that are no choice of a dataset,
  inheriting and the internal one for empty blocks; and exactly GZIP and ZSTD have levels.
\<close>

theorem compress_tables:
  "(BOOTFS_COMPRESS_VALID (zio_compress_value c) = (c \<noteq> ZIO_COMPRESS_INHERIT \<and> c \<noteq> ZIO_COMPRESS_EMPTY)) \<and>
   (ZIO_COMPRESS_HASLEVEL (zio_compress_value c) = List.member [ZIO_COMPRESS_ZSTD, ZIO_COMPRESS_GZIP_1, ZIO_COMPRESS_GZIP_2,
      ZIO_COMPRESS_GZIP_3, ZIO_COMPRESS_GZIP_4, ZIO_COMPRESS_GZIP_5, ZIO_COMPRESS_GZIP_6, ZIO_COMPRESS_GZIP_7,
      ZIO_COMPRESS_GZIP_8, ZIO_COMPRESS_GZIP_9] c) \<and>
   zio_compress_value c < ZIO_COMPRESS_FUNCTIONS"
  by (cases c) (simp_all add: BOOTFS_COMPRESS_VALID_def ZIO_COMPRESS_HASLEVEL_def ZIO_COMPRESS_FUNCTIONS_def word_le_nat_alt)

end
