(* ===== verification/Xvattr.thy ===== *)
theory Xvattr
  imports Prelude
begin

unbundle bit_operations_syntax

text \<open>
  Optional file attributes (\<open>compat/openzfs/sys/xvattr.h\<close>): the structure with its two bitmaps,
  of requested and of returned attributes, and the macros that set, clear and test an attribute.
  The abstract view is a pair of sets of attributes.
\<close>

section \<open>Attributes\<close>

definition AV_SCANSTAMP_SZ :: nat where "AV_SCANSTAMP_SZ = 32"
definition XVA_MAPSIZE :: nat where "XVA_MAPSIZE = 3"
definition XVA_MAGIC :: u32 where "XVA_MAGIC = 0x78766174"

text \<open>The mask bit that marks an extended attribute structure (\<open>os/linux/spl/sys/vnode.h\<close>).\<close>

definition ATTR_XVATTR :: u32 where "ATTR_XVATTR = push_bit 31 1"
definition AT_XVATTR :: u32 where "AT_XVATTR = ATTR_XVATTR"

datatype xat =
    XAT_CREATETIME | XAT_ARCHIVE | XAT_SYSTEM | XAT_READONLY | XAT_HIDDEN | XAT_NOUNLINK
  | XAT_IMMUTABLE | XAT_APPENDONLY | XAT_NODUMP | XAT_OPAQUE | XAT_AV_QUARANTINED | XAT_AV_MODIFIED
  | XAT_AV_SCANSTAMP | XAT_REPARSE | XAT_GEN | XAT_OFFLINE | XAT_SPARSE | XAT_PROJINHERIT
  | XAT_PROJID

definition XAT0_INDEX :: u64 where "XAT0_INDEX = 0"

fun XAT0 :: "xat \<Rightarrow> u64" where
  "XAT0 XAT_CREATETIME = 0x00000001"
| "XAT0 XAT_ARCHIVE = 0x00000002"
| "XAT0 XAT_SYSTEM = 0x00000004"
| "XAT0 XAT_READONLY = 0x00000008"
| "XAT0 XAT_HIDDEN = 0x00000010"
| "XAT0 XAT_NOUNLINK = 0x00000020"
| "XAT0 XAT_IMMUTABLE = 0x00000040"
| "XAT0 XAT_APPENDONLY = 0x00000080"
| "XAT0 XAT_NODUMP = 0x00000100"
| "XAT0 XAT_OPAQUE = 0x00000200"
| "XAT0 XAT_AV_QUARANTINED = 0x00000400"
| "XAT0 XAT_AV_MODIFIED = 0x00000800"
| "XAT0 XAT_AV_SCANSTAMP = 0x00001000"
| "XAT0 XAT_REPARSE = 0x00002000"
| "XAT0 XAT_GEN = 0x00004000"
| "XAT0 XAT_OFFLINE = 0x00008000"
| "XAT0 XAT_SPARSE = 0x00010000"
| "XAT0 XAT_PROJINHERIT = 0x00020000"
| "XAT0 XAT_PROJID = 0x00040000"

definition XVA_MASK :: u64 where "XVA_MASK = 0xffffffff"
definition XVA_SHFT :: nat where "XVA_SHFT = 32"

definition XVA_INDEX :: "u64 \<Rightarrow> u32" where
  "XVA_INDEX attr = ucast (drop_bit XVA_SHFT attr AND XVA_MASK)"

definition XVA_ATTRBIT :: "u64 \<Rightarrow> u32" where
  "XVA_ATTRBIT attr = ucast (attr AND XVA_MASK)"

text \<open>The flat names: index and bit in one number.\<close>

definition XAT :: "xat \<Rightarrow> u64" where
  "XAT a = push_bit XVA_SHFT XAT0_INDEX OR XAT0 a"

section \<open>The structure\<close>

record xoptattr_t =
  xoa_createtime :: "u64 \<times> u64"
  xoa_archive :: u8
  xoa_system :: u8
  xoa_readonly :: u8
  xoa_hidden :: u8
  xoa_nounlink :: u8
  xoa_immutable :: u8
  xoa_appendonly :: u8
  xoa_nodump :: u8
  xoa_opaque :: u8
  xoa_av_quarantined :: u8
  xoa_av_modified :: u8
  xoa_av_scanstamp :: "u8 list"
  xoa_reparse :: u8
  xoa_generation :: u64
  xoa_offline :: u8
  xoa_sparse :: u8
  xoa_projinherit :: u8
  xoa_projid :: u64

text \<open>
  Of the embedded classic attributes the macros read the mask only. The pointer to the returned
  map is null or points to the map of the same structure.
\<close>

datatype map_ptr = Map_null | Map_own

record xvattr =
  va_mask :: u32
  va_others :: "u64 list"
  xva_magic :: u32
  xva_mapsize :: u32
  xva_rtnattrmapp :: map_ptr
  xva_reqattrmap :: "u32 list"
  xva_rtnattrmap :: "u32 list"
  xva_xoptattrs :: xoptattr_t

definition zero_xoptattr :: xoptattr_t where
  "zero_xoptattr = \<lparr>xoa_createtime = (0, 0), xoa_archive = 0, xoa_system = 0, xoa_readonly = 0, xoa_hidden = 0,
     xoa_nounlink = 0, xoa_immutable = 0, xoa_appendonly = 0, xoa_nodump = 0, xoa_opaque = 0, xoa_av_quarantined = 0,
     xoa_av_modified = 0, xoa_av_scanstamp = replicate AV_SCANSTAMP_SZ 0, xoa_reparse = 0, xoa_generation = 0,
     xoa_offline = 0, xoa_sparse = 0, xoa_projinherit = 0, xoa_projid = 0\<rparr>"

text \<open>Clearing the memory and the assignments after it; the structure it starts from is lost.\<close>

definition xva_init :: "xvattr \<Rightarrow> xvattr" where
  "xva_init xvap =
    (let xvap = \<lparr>va_mask = 0, va_others = map (\<lambda>_. 0) (va_others xvap), xva_magic = 0, xva_mapsize = 0,
           xva_rtnattrmapp = Map_null, xva_reqattrmap = replicate XVA_MAPSIZE 0,
           xva_rtnattrmap = replicate XVA_MAPSIZE 0, xva_xoptattrs = zero_xoptattr\<rparr>;
         xvap = xvap\<lparr>xva_mapsize := of_nat XVA_MAPSIZE\<rparr>;
         xvap = xvap\<lparr>xva_magic := XVA_MAGIC\<rparr>;
         xvap = xvap\<lparr>va_mask := ATTR_XVATTR\<rparr>
     in xvap\<lparr>xva_rtnattrmapp := Map_own\<rparr>)"

definition xva_getxoptattr :: "xvattr \<Rightarrow> xoptattr_t option" where
  "xva_getxoptattr xvap = (if va_mask xvap AND AT_XVATTR \<noteq> 0 then Some (xva_xoptattrs xvap) else None)"

text \<open>An index past the map is undefined.\<close>

definition map_update :: "(u32 \<Rightarrow> u32) \<Rightarrow> u32 list \<Rightarrow> u32 \<Rightarrow> u32 list option" where
  "map_update f m i = (if unat i < length m then Some (m[unat i := f (m ! unat i)]) else None)"

definition XVA_SET_REQ :: "bool \<Rightarrow> xvattr \<Rightarrow> u64 \<Rightarrow> xvattr option" where
  "XVA_SET_REQ nd xvap attr = do {
     ASSERT nd (va_mask xvap AND AT_XVATTR \<noteq> 0);
     ASSERT nd (xva_magic xvap = XVA_MAGIC);
     m \<leftarrow> map_update (\<lambda>w. w OR XVA_ATTRBIT attr) (xva_reqattrmap xvap) (XVA_INDEX attr);
     Some (xvap\<lparr>xva_reqattrmap := m\<rparr>) }"

definition XVA_CLR_REQ :: "bool \<Rightarrow> xvattr \<Rightarrow> u64 \<Rightarrow> xvattr option" where
  "XVA_CLR_REQ nd xvap attr = do {
     ASSERT nd (va_mask xvap AND AT_XVATTR \<noteq> 0);
     ASSERT nd (xva_magic xvap = XVA_MAGIC);
     m \<leftarrow> map_update (\<lambda>w. w AND NOT (XVA_ATTRBIT attr)) (xva_reqattrmap xvap) (XVA_INDEX attr);
     Some (xvap\<lparr>xva_reqattrmap := m\<rparr>) }"

definition XVA_RTNATTRMAP :: "xvattr \<Rightarrow> u32 list option" where
  "XVA_RTNATTRMAP xvap = (case xva_rtnattrmapp xvap of Map_null \<Rightarrow> None | Map_own \<Rightarrow> Some (xva_rtnattrmap xvap))"

definition XVA_SET_RTN :: "bool \<Rightarrow> xvattr \<Rightarrow> u64 \<Rightarrow> xvattr option" where
  "XVA_SET_RTN nd xvap attr = do {
     ASSERT nd (va_mask xvap AND AT_XVATTR \<noteq> 0);
     ASSERT nd (xva_magic xvap = XVA_MAGIC);
     rtn \<leftarrow> XVA_RTNATTRMAP xvap;
     m \<leftarrow> map_update (\<lambda>w. w OR XVA_ATTRBIT attr) rtn (XVA_INDEX attr);
     Some (xvap\<lparr>xva_rtnattrmap := m\<rparr>) }"

definition map_read :: "u32 list \<Rightarrow> u32 \<Rightarrow> u32 option" where
  "map_read m i = (if unat i < length m then Some (m ! unat i) else None)"

definition XVA_ISSET_REQ :: "xvattr \<Rightarrow> u64 \<Rightarrow> u32 option" where
  "XVA_ISSET_REQ xvap attr =
    (if va_mask xvap AND AT_XVATTR \<noteq> 0 \<and> xva_magic xvap = XVA_MAGIC \<and> xva_mapsize xvap > XVA_INDEX attr
     then map_option (\<lambda>w. w AND XVA_ATTRBIT attr) (map_read (xva_reqattrmap xvap) (XVA_INDEX attr))
     else Some 0)"

definition XVA_ISSET_RTN :: "xvattr \<Rightarrow> u64 \<Rightarrow> u32 option" where
  "XVA_ISSET_RTN xvap attr =
    (if va_mask xvap AND AT_XVATTR \<noteq> 0 \<and> xva_magic xvap = XVA_MAGIC \<and> xva_mapsize xvap > XVA_INDEX attr
     then do { rtn \<leftarrow> XVA_RTNATTRMAP xvap; map_option (\<lambda>w. w AND XVA_ATTRBIT attr) (map_read rtn (XVA_INDEX attr)) }
     else Some 0)"

section \<open>Sets of attributes\<close>

definition well_formed :: "xvattr \<Rightarrow> bool" where
  "well_formed x \<longleftrightarrow> va_mask x AND AT_XVATTR \<noteq> 0 \<and> xva_magic x = XVA_MAGIC \<and> xva_mapsize x = of_nat XVA_MAPSIZE \<and>
     xva_rtnattrmapp x = Map_own \<and> length (xva_reqattrmap x) = XVA_MAPSIZE \<and> length (xva_rtnattrmap x) = XVA_MAPSIZE"

definition requested :: "xvattr \<Rightarrow> xat set" where
  "requested x = {a. XVA_ISSET_REQ x (XAT a) \<noteq> Some 0}"

definition returned :: "xvattr \<Rightarrow> xat set" where
  "returned x = {a. XVA_ISSET_RTN x (XAT a) \<noteq> Some 0}"

text \<open>The bit of an attribute in the first word of a map.\<close>

fun attr_bit :: "xat \<Rightarrow> nat" where
  "attr_bit XAT_CREATETIME = 0"
| "attr_bit XAT_ARCHIVE = 1"
| "attr_bit XAT_SYSTEM = 2"
| "attr_bit XAT_READONLY = 3"
| "attr_bit XAT_HIDDEN = 4"
| "attr_bit XAT_NOUNLINK = 5"
| "attr_bit XAT_IMMUTABLE = 6"
| "attr_bit XAT_APPENDONLY = 7"
| "attr_bit XAT_NODUMP = 8"
| "attr_bit XAT_OPAQUE = 9"
| "attr_bit XAT_AV_QUARANTINED = 10"
| "attr_bit XAT_AV_MODIFIED = 11"
| "attr_bit XAT_AV_SCANSTAMP = 12"
| "attr_bit XAT_REPARSE = 13"
| "attr_bit XAT_GEN = 14"
| "attr_bit XAT_OFFLINE = 15"
| "attr_bit XAT_SPARSE = 16"
| "attr_bit XAT_PROJINHERIT = 17"
| "attr_bit XAT_PROJID = 18"

lemma attr_bit_inj: "attr_bit a = attr_bit b \<longleftrightarrow> a = b"
  by (cases a; cases b) simp_all

lemma attr_bit_less: "attr_bit a < 32"
  by (cases a) simp_all

lemma XAT_parts: "XVA_INDEX (XAT a) = 0" "XVA_ATTRBIT (XAT a) = push_bit (attr_bit a) 1"
  by (cases a; simp add: XVA_INDEX_def XVA_ATTRBIT_def XAT_def XAT0_INDEX_def XVA_MASK_def XVA_SHFT_def)+

lemma and_attr_bit: "(w :: u32) AND push_bit (attr_bit a) 1 \<noteq> 0 \<longleftrightarrow> bit w (attr_bit a)"
  by (simp add: and_exp_eq_0_iff_not_bit)

lemma isset_iff:
  assumes "well_formed x"
  shows "XVA_ISSET_REQ x (XAT a) \<noteq> Some 0 \<longleftrightarrow> bit (xva_reqattrmap x ! 0) (attr_bit a)"
    and "XVA_ISSET_RTN x (XAT a) \<noteq> Some 0 \<longleftrightarrow> bit (xva_rtnattrmap x ! 0) (attr_bit a)"
  using assms and_attr_bit [of "xva_reqattrmap x ! 0" a] and_attr_bit [of "xva_rtnattrmap x ! 0" a]
  by (auto simp: well_formed_def XVA_ISSET_REQ_def XVA_ISSET_RTN_def XAT_parts XVA_RTNATTRMAP_def map_read_def
      XVA_MAPSIZE_def simp del: push_bit_of_1)

lemma sets_iff:
  assumes "well_formed x"
  shows "requested x = {a. bit (xva_reqattrmap x ! 0) (attr_bit a)}"
    and "returned x = {a. bit (xva_rtnattrmap x ! 0) (attr_bit a)}"
  using isset_iff [OF assms] by (simp_all add: requested_def returned_def)

lemma attr_bit_simps:
  "bit ((w :: u32) OR push_bit (attr_bit a) 1) (attr_bit b) \<longleftrightarrow> b = a \<or> bit w (attr_bit b)"
  "bit ((w :: u32) AND NOT (push_bit (attr_bit a) 1)) (attr_bit b) \<longleftrightarrow> b \<noteq> a \<and> bit w (attr_bit b)"
  using attr_bit_inj [of a b] attr_bit_less [of b] by (auto simp: bit_simps simp del: push_bit_of_1)

lemma update_at_0 [simp]:
  "length m = XVA_MAPSIZE \<Longrightarrow> map_update f m 0 = Some (m[0 := f (m ! 0)])"
  by (simp add: map_update_def XVA_MAPSIZE_def)

lemma nth_update_0 [simp]: "length m = XVA_MAPSIZE \<Longrightarrow> m[0 := w] ! 0 = w"
  by (simp add: XVA_MAPSIZE_def)

text \<open>A map keeps its length, and every bit of every word but the one of an attribute.\<close>

definition only_bit :: "xat \<Rightarrow> u32 list \<Rightarrow> u32 list \<Rightarrow> bool" where
  "only_bit a m m' \<longleftrightarrow> length m' = length m \<and>
     (\<forall>j<length m. \<forall>i. (j, i) \<noteq> (0, attr_bit a) \<longrightarrow> bit (m' ! j) i = bit (m ! j) i)"

lemma only_bit_update:
  "only_bit a m (m[0 := m ! 0 OR push_bit (attr_bit a) 1])"
  "only_bit a m (m[0 := m ! 0 AND NOT (push_bit (attr_bit a) 1)])"
proof -
  have "bit ((w :: u32) OR push_bit (attr_bit a) 1) i = bit w i" "bit (w AND NOT (push_bit (attr_bit a) 1)) i = bit w i"
    if "i \<noteq> attr_bit a" for w i
    using that by (auto simp: bit_simps simp del: push_bit_of_1 dest: bit_imp_possible_bit)
  then have "bit (m[0 := m ! 0 OR push_bit (attr_bit a) 1] ! j) i = bit (m ! j) i"
    "bit (m[0 := m ! 0 AND NOT (push_bit (attr_bit a) 1)] ! j) i = bit (m ! j) i"
    if "j < length m" "(j, i) \<noteq> (0, attr_bit a)" for j i
    using that by (cases "j = 0"; simp del: push_bit_of_1)+
  then show "only_bit a m (m[0 := m ! 0 OR push_bit (attr_bit a) 1])"
    "only_bit a m (m[0 := m ! 0 AND NOT (push_bit (attr_bit a) 1)])"
    unfolding only_bit_def length_list_update by blast+
qed

section \<open>Properties\<close>

text \<open>
  C23. The structure implements a pair of sets of attributes: initialising it gives two empty sets,
  a mask that only marks the extended structure, and cleared values everywhere else, whatever was in
  the memory; setting and clearing a requested attribute adds it to and removes it from the first set;
  setting a returned one adds it to the second. Each of the three changes one bit of one map and
  nothing else in the structure: not the other words and bits of the map, the classic attributes and
  their mask, nor the values. No assertion fires.
\<close>

theorem xvattr_refines_sets:
  assumes "well_formed x"
  shows "(well_formed (xva_init y) \<and> requested (xva_init y) = {} \<and> returned (xva_init y) = {} \<and>
      xva_getxoptattr (xva_init y) = Some zero_xoptattr \<and> va_mask (xva_init y) = ATTR_XVATTR \<and>
      va_others (xva_init y) = replicate (length (va_others y)) 0 \<and>
      set (xva_reqattrmap (xva_init y) @ xva_rtnattrmap (xva_init y)) = {0}) \<and>
    (\<exists>x'. XVA_SET_REQ nd x (XAT a) = Some x' \<and> well_formed x' \<and> requested x' = insert a (requested x) \<and>
       returned x' = returned x \<and> x'\<lparr>xva_reqattrmap := xva_reqattrmap x\<rparr> = x \<and>
       only_bit a (xva_reqattrmap x) (xva_reqattrmap x')) \<and>
    (\<exists>x'. XVA_CLR_REQ nd x (XAT a) = Some x' \<and> well_formed x' \<and> requested x' = requested x - {a} \<and>
       returned x' = returned x \<and> x'\<lparr>xva_reqattrmap := xva_reqattrmap x\<rparr> = x \<and>
       only_bit a (xva_reqattrmap x) (xva_reqattrmap x')) \<and>
    (\<exists>x'. XVA_SET_RTN nd x (XAT a) = Some x' \<and> well_formed x' \<and> requested x' = requested x \<and>
       returned x' = insert a (returned x) \<and> x'\<lparr>xva_rtnattrmap := xva_rtnattrmap x\<rparr> = x \<and>
       only_bit a (xva_rtnattrmap x) (xva_rtnattrmap x'))"
proof (intro conjI)
  let ?i = "xva_init y"
  have i: "well_formed ?i"
    by (simp add: xva_init_def well_formed_def AT_XVATTR_def ATTR_XVATTR_def)
  then show "well_formed ?i" .
  show "requested ?i = {}" "returned ?i = {}"
    using sets_iff [OF i] by (simp_all add: xva_init_def XVA_MAPSIZE_def)
  show "xva_getxoptattr ?i = Some zero_xoptattr"
    by (simp add: xva_init_def xva_getxoptattr_def AT_XVATTR_def ATTR_XVATTR_def)
  show "va_mask ?i = ATTR_XVATTR" "va_others ?i = replicate (length (va_others y)) 0"
    "set (xva_reqattrmap ?i @ xva_rtnattrmap ?i) = {0}"
    by (simp_all add: xva_init_def XVA_MAPSIZE_def map_replicate_const)
  have wf: "va_mask x AND AT_XVATTR \<noteq> 0" "xva_magic x = XVA_MAGIC" "xva_rtnattrmapp x = Map_own"
      "length (xva_reqattrmap x) = XVA_MAPSIZE" "length (xva_rtnattrmap x) = XVA_MAPSIZE"
    using assms by (simp_all add: well_formed_def)
  note ops = XVA_SET_REQ_def XVA_CLR_REQ_def XVA_SET_RTN_def XVA_RTNATTRMAP_def XAT_parts only_bit_update
  let ?r = "x\<lparr>xva_reqattrmap := (xva_reqattrmap x)[0 := xva_reqattrmap x ! 0 OR push_bit (attr_bit a) 1]\<rparr>"
  have r: "well_formed ?r" using assms by (simp add: well_formed_def)
  show "\<exists>x'. XVA_SET_REQ nd x (XAT a) = Some x' \<and> well_formed x' \<and> requested x' = insert a (requested x) \<and>
       returned x' = returned x \<and> x'\<lparr>xva_reqattrmap := xva_reqattrmap x\<rparr> = x \<and>
       only_bit a (xva_reqattrmap x) (xva_reqattrmap x')"
    using wf r sets_iff [OF r] sets_iff [OF assms] by (auto simp: ops attr_bit_simps simp del: push_bit_of_1)
  let ?c = "x\<lparr>xva_reqattrmap := (xva_reqattrmap x)[0 := xva_reqattrmap x ! 0 AND NOT (push_bit (attr_bit a) 1)]\<rparr>"
  have c: "well_formed ?c" using assms by (simp add: well_formed_def)
  show "\<exists>x'. XVA_CLR_REQ nd x (XAT a) = Some x' \<and> well_formed x' \<and> requested x' = requested x - {a} \<and>
       returned x' = returned x \<and> x'\<lparr>xva_reqattrmap := xva_reqattrmap x\<rparr> = x \<and>
       only_bit a (xva_reqattrmap x) (xva_reqattrmap x')"
    using wf c sets_iff [OF c] sets_iff [OF assms] by (auto simp: ops attr_bit_simps simp del: push_bit_of_1)
  let ?t = "x\<lparr>xva_rtnattrmap := (xva_rtnattrmap x)[0 := xva_rtnattrmap x ! 0 OR push_bit (attr_bit a) 1]\<rparr>"
  have t: "well_formed ?t" using assms by (simp add: well_formed_def)
  show "\<exists>x'. XVA_SET_RTN nd x (XAT a) = Some x' \<and> well_formed x' \<and> requested x' = requested x \<and>
       returned x' = insert a (returned x) \<and> x'\<lparr>xva_rtnattrmap := xva_rtnattrmap x\<rparr> = x \<and>
       only_bit a (xva_rtnattrmap x) (xva_rtnattrmap x')"
    using wf t sets_iff [OF t] sets_iff [OF assms] by (auto simp: ops attr_bit_simps simp del: push_bit_of_1)
qed

definition dirty_xvattr :: xvattr where
  "dirty_xvattr = \<lparr>va_mask = 7, va_others = [1, 2], xva_magic = 9, xva_mapsize = 1, xva_rtnattrmapp = Map_null,
     xva_reqattrmap = [1, 2, 3], xva_rtnattrmap = [4, 5, 6], xva_xoptattrs = zero_xoptattr\<lparr>xoa_archive := 1\<rparr>\<rparr>"

theorem xvattr_refines_sets_witness:
  "\<exists>x'. XVA_SET_REQ False (xva_init dirty_xvattr) (XAT XAT_HIDDEN) = Some x' \<and> requested x' = {XAT_HIDDEN}"
proof -
  have "well_formed (xva_init dirty_xvattr)" by code_simp
  from xvattr_refines_sets [OF this, of dirty_xvattr False XAT_HIDDEN] show ?thesis by auto
qed

end
