(* ===== verification/Sa_Impl.thy ===== *)
theory Sa_Impl
  imports Dnode
begin

unbundle bit_operations_syntax

text \<open>
  The packed words of system attributes (\<open>compat/openzfs/sys/sa_impl.h\<close>): the registration word of
  an attribute, the table of contents that locates the attributes of a layout, and the header of
  a bonus or spill buffer with its layout number and size.
\<close>

section \<open>Registration words\<close>

text \<open>A 32-bit mask applied to a 64-bit word.\<close>

definition ATTR_BSWAP :: "u64 \<Rightarrow> u64" where
  "ATTR_BSWAP x = drop_bit 16 x AND ucast (push_bit 8 1 - 1 :: u32)"

definition ATTR_LENGTH :: "u64 \<Rightarrow> u64" where
  "ATTR_LENGTH x = drop_bit 24 x AND ucast (push_bit 16 1 - 1 :: u32)"

definition ATTR_NUM :: "u64 \<Rightarrow> u64" where
  "ATTR_NUM x = drop_bit 0 x AND ucast (push_bit 16 1 - 1 :: u32)"

definition ATTR_ENCODE :: "bool \<Rightarrow> u64 \<Rightarrow> u64 \<Rightarrow> u64 \<Rightarrow> u64 \<Rightarrow> u64 option" where
  "ATTR_ENCODE nd x attr len bswap = do {
     x \<leftarrow> BF64_SET nd x 24 16 len;
     x \<leftarrow> BF64_SET nd x 16 8 bswap;
     BF64_SET nd x 0 16 attr }"

section \<open>Tables of contents\<close>

definition TOC_OFF :: "u32 \<Rightarrow> u32" where
  "TOC_OFF x = BF32_GET x 0 23"

definition TOC_ATTR_PRESENT :: "u32 \<Rightarrow> u32" where
  "TOC_ATTR_PRESENT x = BF32_GET x 31 1"

definition TOC_LEN_IDX :: "u32 \<Rightarrow> u32" where
  "TOC_LEN_IDX x = BF32_GET x 24 4"

definition TOC_ATTR_ENCODE :: "bool \<Rightarrow> u32 \<Rightarrow> u32 \<Rightarrow> u32 \<Rightarrow> u32 option" where
  "TOC_ATTR_ENCODE nd x len_idx offset = do {
     x \<leftarrow> BF32_SET nd x 31 1 1;
     x \<leftarrow> BF32_SET nd x 24 7 len_idx;
     BF32_SET nd x 0 24 offset }"

section \<open>Headers\<close>

definition SA_MAGIC :: u32 where "SA_MAGIC = 0x2F505A"

record sa_hdr_phys_t =
  sa_magic :: u32
  sa_layout_info :: u16
  sa_lengths :: "u16 list"

definition sizeof_sa_hdr_phys :: u64 where "sizeof_sa_hdr_phys = 8"

definition SA_HDR_LAYOUT_NUM :: "sa_hdr_phys_t \<Rightarrow> u32" where
  "SA_HDR_LAYOUT_NUM hdr = BF32_GET (ucast (sa_layout_info hdr)) 0 10"

definition SA_HDR_SIZE :: "sa_hdr_phys_t \<Rightarrow> u32" where
  "SA_HDR_SIZE hdr = BF32_GET_SB (ucast (sa_layout_info hdr)) 10 6 3 0"

text \<open>The 16-bit word is widened for the macros and narrowed when it is assigned.\<close>

definition SA_HDR_LAYOUT_INFO_ENCODE :: "bool \<Rightarrow> u16 \<Rightarrow> u32 \<Rightarrow> u32 \<Rightarrow> u16 option" where
  "SA_HDR_LAYOUT_INFO_ENCODE nd x num sz = do {
     w \<leftarrow> BF32_SET_SB nd (ucast x) 10 6 3 0 sz;
     let x = (ucast w :: u16);
     w \<leftarrow> BF32_SET nd (ucast x) 0 10 num;
     Some (ucast w) }"

definition SA_SET_HDR :: "bool \<Rightarrow> sa_hdr_phys_t \<Rightarrow> u32 \<Rightarrow> u32 \<Rightarrow> sa_hdr_phys_t option" where
  "SA_SET_HDR nd hdr num sz = (let hdr = hdr\<lparr>sa_magic := SA_MAGIC\<rparr> in
     map_option (\<lambda>w. hdr\<lparr>sa_layout_info := w\<rparr>) (SA_HDR_LAYOUT_INFO_ENCODE nd (sa_layout_info hdr) num sz))"

definition IS_SA_BONUSTYPE :: "u64 \<Rightarrow> bool" where
  "IS_SA_BONUSTYPE a \<longleftrightarrow> a = DMU_OT_SA"

definition SA_LAYOUT_NUM :: "sa_hdr_phys_t \<Rightarrow> u64 \<Rightarrow> u32" where
  "SA_LAYOUT_NUM x type =
    (if \<not> IS_SA_BONUSTYPE type then 0
     else if IS_SA_BONUSTYPE type \<and> SA_HDR_LAYOUT_NUM x = 0 then 1 else SA_HDR_LAYOUT_NUM x)"

definition SA_BLKPTR_SPACE :: int where
  "SA_BLKPTR_SPACE = DN_OLD_MAX_BONUSLEN - int (size_of 8 c_blkptr)"

text \<open>The registered lengths and the table of contents are arrays; outside of them there is no value.\<close>

definition SA_REGISTERED_LEN :: "u16 list \<Rightarrow> nat \<Rightarrow> u16 option" where
  "SA_REGISTERED_LEN sa_table attr = (if attr < length sa_table then Some (sa_table ! attr) else None)"

definition SA_ATTR_LEN :: "u16 list \<Rightarrow> u32 list \<Rightarrow> nat \<Rightarrow> sa_hdr_phys_t \<Rightarrow> u16 option" where
  "SA_ATTR_LEN sa_table idx_tab attr hdr = do {
     n \<leftarrow> SA_REGISTERED_LEN sa_table attr;
     if n = 0
     then if attr < length idx_tab \<and> unat (TOC_LEN_IDX (idx_tab ! attr)) < length (sa_lengths hdr)
          then Some (sa_lengths hdr ! unat (TOC_LEN_IDX (idx_tab ! attr))) else None
     else SA_REGISTERED_LEN sa_table attr }"

datatype sa_buf_type = SA_BONUS | SA_SPILL

fun sa_buf_value :: "sa_buf_type \<Rightarrow> nat" where
  "sa_buf_value SA_BONUS = 1"
| "sa_buf_value SA_SPILL = 2"

record sa_bulk =
  sa_size :: u16
  sa_buftype :: sa_buf_type
  sa_addr :: u64

text \<open>What a lookup finds: length, buffer and address, which is an offset from the header.\<close>

definition SA_ATTR_INFO ::
    "u16 list \<Rightarrow> u32 list \<Rightarrow> u64 \<Rightarrow> sa_hdr_phys_t \<Rightarrow> nat \<Rightarrow> sa_buf_type \<Rightarrow> sa_bulk option" where
  "SA_ATTR_INFO sa_table idx_tab hdr_addr hdr attr type = do {
     n \<leftarrow> SA_ATTR_LEN sa_table idx_tab attr hdr;
     if attr < length idx_tab
     then Some \<lparr>sa_size = n, sa_buftype = type, sa_addr = ucast (TOC_OFF (idx_tab ! attr)) + hdr_addr\<rparr>
     else None }"

definition SA_HDR_SIZE_MATCH_LAYOUT :: "sa_hdr_phys_t \<Rightarrow> u32 \<Rightarrow> bool" where
  "SA_HDR_SIZE_MATCH_LAYOUT hdr lot_var_sizes \<longleftrightarrow>
     ucast (SA_HDR_SIZE hdr) = sizeof_sa_hdr_phys +
       (if 1 < lot_var_sizes then P2ROUNDUP (ucast (lot_var_sizes - 1) * 2) 8 else 0)"

section \<open>Properties\<close>

lemma mask16: "push_bit 16 1 - 1 = (mask 16 :: u32)" "push_bit 8 1 - 1 = (mask 8 :: u32)"
  by (simp_all add: mask_eq_exp_minus_1)

lemma attr_fields:
  "ATTR_BSWAP x = BF64_GET x 16 8" "ATTR_LENGTH x = BF64_GET x 24 16" "ATTR_NUM x = BF64_GET x 0 16"
  unfolding ATTR_BSWAP_def ATTR_LENGTH_def ATTR_NUM_def mask16
  by (rule bit_word_eqI; auto simp: bit_BF64_GET bit_simps)+

text \<open>
  The number, the length and the byte order of an attribute are read back from its registration
  word, whatever the word held before; the three fields leave the upper 24 bits alone.
\<close>

theorem attr_registration_roundtrip:
  assumes "attr < 2 ^ 16" "len < 2 ^ 16" "bswap < 2 ^ 8"
  shows "\<exists>y. ATTR_ENCODE nd x attr len bswap = Some y \<and> ATTR_NUM y = attr \<and> ATTR_LENGTH y = len \<and>
    ATTR_BSWAP y = bswap \<and> drop_bit 40 y = drop_bit 40 x"
proof -
  let ?y = "bf64_put (bf64_put (bf64_put x 24 16 len) 16 8 bswap) 0 16 attr"
  have "ATTR_ENCODE nd x attr len bswap = Some ?y"
    using assms by (simp add: ATTR_ENCODE_def BF64_SET_Some)
  moreover have "drop_bit 40 ?y = drop_bit 40 x"
    by (rule bit_word_eqI) (auto simp: bit_drop_bit_eq bit_bf64_put)
  ultimately show ?thesis using assms by (simp add: attr_fields get_put_same get_put_disjoint)
qed

theorem attr_registration_roundtrip_witness:
  "\<exists>y. ATTR_ENCODE False (- 1) 3 8 0 = Some y \<and> ATTR_LENGTH y = 8"
  using attr_registration_roundtrip [of 3 8 0 False "- 1"] by auto

text \<open>
  A table of contents entry is written wider than it is read: every length index below 128 and
  every offset below 2 to the 24 is stored without an assertion firing and marked as present, but
  only the lower 4 bits of the index and the lower 23 of the offset come back. They are all of it
  exactly for indices below 16 and offsets below 2 to the 23.
\<close>

theorem toc_reads_less_than_written:
  assumes "unat len_idx < 2 ^ 7" "unat offset < 2 ^ 24"
  shows "\<exists>y. TOC_ATTR_ENCODE nd x len_idx offset = Some y \<and> TOC_ATTR_PRESENT y = 1 \<and>
    unat (TOC_LEN_IDX y) = unat len_idx mod 2 ^ 4 \<and> unat (TOC_OFF y) = unat offset mod 2 ^ 23"
proof -
  let ?y = "bf32_put (bf32_put (bf32_put x 31 1 1) 24 7 len_idx) 0 24 offset"
  have enc: "TOC_ATTR_ENCODE nd x len_idx offset = Some ?y"
    using assms by (simp add: TOC_ATTR_ENCODE_def BF32_SET_Some)
  have "TOC_ATTR_PRESENT ?y = 1"
    by (simp add: TOC_ATTR_PRESENT_def get_put32_disjoint get_put32)
  moreover have "TOC_LEN_IDX ?y = take_bit 4 len_idx"
    by (simp add: TOC_LEN_IDX_def get_put32_disjoint get_put32_part)
  moreover have "TOC_OFF ?y = take_bit 23 offset" by (simp add: TOC_OFF_def get_put32_part)
  ultimately have "TOC_ATTR_ENCODE nd x len_idx offset = Some ?y \<and> TOC_ATTR_PRESENT ?y = 1 \<and>
      unat (TOC_LEN_IDX ?y) = unat len_idx mod 2 ^ 4 \<and> unat (TOC_OFF ?y) = unat offset mod 2 ^ 23"
    using enc by (simp only: unat_take_bit_word simp_thms)
  then show ?thesis by (rule exI)
qed

theorem toc_reads_less_than_written_witness:
  "\<exists>y. TOC_ATTR_ENCODE False 0 16 0x800010 = Some y \<and> TOC_LEN_IDX y = 0 \<and> TOC_OFF y = 16"
  using toc_reads_less_than_written [where len_idx = 16 and offset = "0x800010" and nd = False and x = 0]
  by (auto simp: word_unat_eq_iff)

lemma widen16: "ucast (ucast (w :: u32) :: u16) = w" if "take_bit 16 w = w"
proof -
  have "bit w n \<Longrightarrow> n < 16" for n using that by (metis bit_take_bit_iff)
  then show ?thesis by (intro bit_word_eqI) (auto simp: bit_simps)
qed

lemma put16: "take_bit 16 (bf32_put (ucast (x :: u16)) low len v) = bf32_put (ucast x) low len v" if "low + len \<le> 16"
  by (rule bit_word_eqI) (use that in \<open>auto simp: bit_simps bit_bf32_put dest: bit_imp_le_length\<close>)

text \<open>
  A header that was set gives back its magic number, its layout number below 1024 and its size,
  a multiple of 8 below 512, and keeps its lengths; a layout number of 0 of an attribute buffer
  stands for layout 1.
\<close>

theorem sa_header_roundtrip:
  assumes "unat num < 2 ^ 10" "unat units < 2 ^ 6"
  shows "\<exists>h'. SA_SET_HDR nd hdr num (units * 8) = Some h' \<and> sa_magic h' = SA_MAGIC \<and> SA_HDR_LAYOUT_NUM h' = num \<and>
    SA_HDR_SIZE h' = units * 8 \<and> sa_lengths h' = sa_lengths hdr \<and>
    SA_LAYOUT_NUM h' DMU_OT_SA = (if num = 0 then 1 else num)"
proof -
  have u8: "unat (units * 8) = unat units * 8" using assms(2) by (simp add: unat_word_ariths)
  have drop: "drop_bit 3 (units * 8) = units"
    using u8 by (simp only: word_unat_eq_iff unat_drop_bit_word) simp
  have "IS_P2ALIGNED (ucast (units * 8) :: u64) (2 ^ 3)" using u8 by (simp only: IS_P2ALIGNED_iff unat_ucast_u64) simp
  then have al: "ASSERT3U nd (of_bool (IS_P2ALIGNED (ucast (units * 8) :: u64) 8)) (\<noteq>) 0 = Some ()"
    by (intro ASSERT3U_ok) simp
  have "unat (ucast units :: u64) < 2 ^ 63" using assms(2) by (simp only: unat_ucast_u64) simp
  then have ge: "ASSERT3S nd (ucast units) (\<ge>) 0 = Some ()"
    by (intro ASSERT3S_ok) (simp only: sint_eq_unat_small, simp)
  let ?w = "bf32_put (ucast (sa_layout_info hdr)) 10 6 units"
  have w: "ucast (ucast ?w :: u16) = ?w" by (intro widen16 put16) simp
  let ?v = "bf32_put ?w 0 10 num"
  have "ucast (ucast (bf32_put (ucast (ucast ?w :: u16)) 0 10 num) :: u16) = bf32_put (ucast (ucast ?w :: u16)) 0 10 num"
    by (intro widen16 put16) simp
  then have v: "ucast (ucast ?v :: u16) = ?v" by (simp only: w)
  have set: "SA_SET_HDR nd hdr num (units * 8) = Some (hdr\<lparr>sa_magic := SA_MAGIC, sa_layout_info := ucast ?v\<rparr>)"
    using al ge assms w by (simp add: SA_SET_HDR_def SA_HDR_LAYOUT_INFO_ENCODE_def BF32_SET_SB_def drop BF32_SET_Some Let_def)
  have "BF32_GET ?v 0 10 = num" "BF32_GET ?v 10 6 = units"
    using assms by (simp_all add: get_put32 get_put32_disjoint)
  then show ?thesis
    using set v by (simp add: SA_HDR_LAYOUT_NUM_def SA_HDR_SIZE_def BF32_GET_SB_def SA_LAYOUT_NUM_def IS_SA_BONUSTYPE_def
        push_bit_eq_mult)
qed

theorem sa_header_roundtrip_witness:
  "\<exists>h'. SA_SET_HDR False \<lparr>sa_magic = 0, sa_layout_info = 0xFFFF, sa_lengths = [7]\<rparr> 2 (1 * 8) = Some h' \<and>
     SA_HDR_LAYOUT_NUM h' = 2 \<and> SA_HDR_SIZE h' = 8"
  using sa_header_roundtrip [of 2 1 False "\<lparr>sa_magic = 0, sa_layout_info = 0xFFFF, sa_lengths = [7]\<rparr>"] by auto

end
