(* ===== verification/Spl_Progress.thy ===== *)
theory Spl_Progress
  imports Spl_Locks
begin

text \<open>
  Progress of the mutex of \<open>Spl_Locks\<close>: from every state the threads can reach, whoever is inside or
  on its way out can leave, so that any thread can get in. The kernel's mutex has to grant a lock
  that nobody holds, which the locale \<open>granting_mutex\<close> adds to its contract.
\<close>

locale granting_mutex = kernel_mutex K holder
  for K :: "'k mutex_ops" and holder :: "'k \<Rightarrow> nat option" +
  assumes grant_law: "holder m = None \<Longrightarrow> \<exists>m'. mutex_lock K m t = Some m'"

interpretation granting_holder: granting_mutex holder_ops "\<lambda>m. m"
  by unfold_locales (simp add: holder_ops_def)

text \<open>The way out: the next position of a thread, and how many steps it still has.\<close>

fun way_out :: "mx_pc \<Rightarrow> mx_pc" where
  "way_out M_took = M_in"
| "way_out M_in = M_cleared"
| "way_out M_cleared = M_spin"
| "way_out M_spin = M_given_up"
| "way_out M_given_up = M_unlocked"
| "way_out p = M_out"

fun steps_left :: "mx_pc \<Rightarrow> nat" where
  "steps_left M_took = 6"
| "steps_left M_in = 5"
| "steps_left M_cleared = 4"
| "steps_left M_spin = 3"
| "steps_left M_given_up = 2"
| "steps_left M_unlocked = 1"
| "steps_left p = 0"

lemma steps_left_way_out: "p \<noteq> M_out \<Longrightarrow> p \<noteq> M_failed \<Longrightarrow> steps_left p = Suc (steps_left (way_out p))"
  by (cases p) simp_all

lemma steps_left_bounds: "steps_left p \<le> 6" "has_spin p \<Longrightarrow> steps_left p \<le> 3"
  by (cases p; simp add: has_spin_def)+

lemma out_iff: "p \<noteq> M_failed \<Longrightarrow> p = M_out \<longleftrightarrow> \<not> has_mutex p \<and> \<not> has_spin p"
  by (cases p) (simp_all add: has_mutex_def has_spin_def)

lemma pc_mgoto [simp]: "pc (mgoto t p l s) = (pc s)(t := p)"
  by (simp add: mgoto_def)

lemma mx_agreeD:
  assumes "mx_agree holder s"
  shows "holder (m_mutex (mutex s)) = Some u \<longleftrightarrow> has_mutex (pc s u)" "m_lock (mutex s) = Some u \<longleftrightarrow> has_spin (pc s u)"
    "m_owner (mutex s) = Some u \<longleftrightarrow> pc s u = M_in" "pc s u \<noteq> M_failed"
  using assms unfolding mx_agree_def by blast+

text \<open>A thread on its way out is never stuck, unless another one has the spinlock.\<close>

lemma leave_step:
  assumes "mx_agree holder s" "pc s t \<noteq> M_out" "\<And>u. u \<noteq> t \<Longrightarrow> \<not> has_spin (pc s u)"
  shows "\<exists>s'. mx_step K s s' \<and> pc s' = (pc s)(t := way_out (pc s t))"
proof (cases "pc s t")
  case M_in
  then have "mutex_owned t (mutex s)" using mx_agreeD(3) [OF assms(1), of t] by (simp add: mutex_owned_def)
  then show ?thesis using mx_step.exit_owner [OF M_in, of K] M_in by fastforce
next
  case M_cleared
  then have "\<not> has_spin (pc s t)" by (simp add: has_spin_def)
  then have "m_lock (mutex s) = None"
    using assms(3) mx_agreeD(2) [OF assms(1)] by (metis not_Some_eq)
  then show ?thesis using mx_step.exit_spin [OF M_cleared, of K] M_cleared by fastforce
next
  case M_took
  then show ?thesis using mx_step.enter_owner [OF M_took, of K] by fastforce
next
  case M_spin
  then show ?thesis using mx_step.exit_give_up [OF M_spin, of K] by fastforce
next
  case M_given_up
  then show ?thesis using mx_step.exit_unlocked [OF M_given_up, of K] by fastforce
next
  case M_unlocked
  then show ?thesis using mx_step.exit_unspin [OF M_unlocked, of K] by fastforce
qed (use assms(2) mx_agreeD(4) [OF assms(1), of t] in simp_all)

context granting_mutex
begin

lemma leave:
  assumes "mx_agree holder s" "\<And>u. u \<noteq> t \<Longrightarrow> \<not> has_spin (pc s u)"
  shows "\<exists>s'. (mx_step K ^^ steps_left (pc s t)) s s' \<and> mx_agree holder s' \<and> pc s' = (pc s)(t := M_out)"
  using assms
proof (induction "steps_left (pc s t)" arbitrary: s)
  case 0
  then have "pc s t = M_out" using mx_agreeD(4) [OF 0(2), of t] by (cases "pc s t") simp_all
  then show ?case using 0 by (intro exI [of _ s]) auto
next
  case (Suc n)
  have out: "pc s t \<noteq> M_out" using Suc(2) by auto
  obtain s1 where s1: "mx_step K s s1" "pc s1 = (pc s)(t := way_out (pc s t))"
    using leave_step [OF Suc(3) out Suc(4)] by blast
  have agree: "mx_agree holder s1" by (rule mx_agree_step [OF s1(1) Suc(3)])
  have n: "n = steps_left (pc s1 t)"
    using Suc(2) s1(2) steps_left_way_out [OF out mx_agreeD(4) [OF Suc(3)]] by simp
  have "\<not> has_spin (pc s1 u)" if "u \<noteq> t" for u using Suc(4) s1(2) that by simp
  from Suc(1) [OF n agree this] obtain s2 where
    "(mx_step K ^^ n) s1 s2" "mx_agree holder s2" "pc s2 = (pc s1)(t := M_out)"
    unfolding n by blast
  moreover from relpowp_Suc_I2 [OF s1(1) this(1)] have "(mx_step K ^^ steps_left (pc s t)) s s2"
    using Suc(2) by simp
  ultimately show ?case using s1(2) by (intro exI [of _ s2]) simp
qed

text \<open>First whoever has the spinlock leaves, then whoever has the mutex.\<close>

lemma drain_spin:
  assumes "mx_agree holder s"
  shows "\<exists>n s'. n \<le> 3 \<and> (mx_step K ^^ n) s s' \<and> mx_agree holder s' \<and> (\<forall>u. \<not> has_spin (pc s' u)) \<and>
    (\<forall>u. pc s u = M_out \<longrightarrow> pc s' u = M_out)"
proof (cases "m_lock (mutex s)")
  case None
  then have "\<not> has_spin (pc s u)" for u using mx_agreeD(2) [OF assms] by (metis option.distinct(1))
  then show ?thesis using assms by (intro exI [of _ 0] exI [of _ s]) auto
next
  case (Some t)
  have sp: "has_spin (pc s t)" "\<And>u. u \<noteq> t \<Longrightarrow> \<not> has_spin (pc s u)"
    using mx_agreeD(2) [OF assms] Some by (metis option.inject)+
  obtain s' where "(mx_step K ^^ steps_left (pc s t)) s s'" "mx_agree holder s'" "pc s' = (pc s)(t := M_out)"
    using leave [OF assms sp(2)] by blast
  then show ?thesis using sp steps_left_bounds(2) [OF sp(1)]
    by (intro exI [of _ "steps_left (pc s t)"] exI [of _ s']) (auto simp: has_spin_def)
qed

lemma drain:
  assumes "mx_agree holder s"
  shows "\<exists>n s'. n \<le> 9 \<and> (mx_step K ^^ n) s s' \<and> mx_agree holder s' \<and> (\<forall>u. pc s' u = M_out)"
proof -
  obtain n s1 where s1: "n \<le> 3" "(mx_step K ^^ n) s s1" "mx_agree holder s1" "\<And>u. \<not> has_spin (pc s1 u)"
    using drain_spin [OF assms] by blast
  have ok: "pc s1 u \<noteq> M_failed" for u by (rule mx_agreeD(4) [OF s1(3)])
  show ?thesis
  proof (cases "holder (m_mutex (mutex s1))")
    case None
    then have "\<not> has_mutex (pc s1 u)" for u using mx_agreeD(1) [OF s1(3)] by (metis option.distinct(1))
    then have "pc s1 u = M_out" for u using s1(4) out_iff [OF ok] by blast
    then show ?thesis using s1 by (intro exI [of _ n] exI [of _ s1]) auto
  next
    case (Some t)
    have other: "pc s1 u = M_out" if "u \<noteq> t" for u
      using Some that mx_agreeD(1) [OF s1(3), of u] s1(4) out_iff [OF ok] by auto
    obtain s2 where s2: "(mx_step K ^^ steps_left (pc s1 t)) s1 s2" "mx_agree holder s2" "pc s2 = (pc s1)(t := M_out)"
      using leave [OF s1(3,4)] by blast
    have "(mx_step K ^^ (n + steps_left (pc s1 t))) s s2"
      by (rule relpowp_trans [OF s1(2) s2(1)])
    then show ?thesis using s1(1) s2 other steps_left_bounds(1) [of "pc s1 t"]
      by (intro exI [of _ "n + steps_left (pc s1 t)"] exI [of _ s2]) auto
  qed
qed

lemma enters:
  assumes "mx_agree holder s" "\<And>u. pc s u = M_out"
  shows "\<exists>s'. (mx_step K ^^ 2) s s' \<and> pc s' = (pc s)(t := M_in)"
proof -
  have "holder (m_mutex (mutex s)) = None"
    using mx_agreeD(1) [OF assms(1)] assms(2) by (cases "holder (m_mutex (mutex s))") (auto simp: has_mutex_def)
  then obtain m where m: "mutex_lock K (m_mutex (mutex s)) t = Some m" using grant_law by blast
  have "\<not> mutex_owned t (mutex s)"
    using mx_agreeD(3) [OF assms(1), of t] assms(2) by (simp add: mutex_owned_def)
  from mx_step.enter [OF assms(2) this m] obtain s1 where s1: "mx_step K s s1" "pc s1 = (pc s)(t := M_took)" by simp
  then obtain s2 where "mx_step K s1 s2" "pc s2 = (pc s1)(t := M_in)"
    using mx_step.enter_owner [of s1 t K] by fastforce
  then show ?thesis using s1 by (intro exI [of _ s2]) (auto simp: numeral_2_eq_2)
qed

end

text \<open>
  C25. No thread is ever locked out of a mutex: from every state that any interleaving of enters and
  exits can reach, there is a continuation of at most 11 steps in which the threads inside leave,
  through the spinlock of the exit, and the given thread is then inside alone.
\<close>

theorem mutex_never_locked_out:
  assumes "granting_mutex K holder" "mx_reachable K s"
  shows "\<exists>n s'. n \<le> 11 \<and> (mx_step K ^^ n) s s' \<and> pc s' t = M_in \<and> mutex_owned t (mutex s') \<and>
    (\<forall>u. u \<noteq> t \<longrightarrow> pc s' u = M_out)"
proof -
  have K: "kernel_mutex K holder" using assms(1) by (simp add: granting_mutex_def)
  have "mx_agree holder s" by (rule kernel_mutex.mx_reachable_agree [OF K assms(2)])
  then obtain n s1 where s1: "n \<le> 9" "(mx_step K ^^ n) s s1" "mx_agree holder s1" "\<And>u. pc s1 u = M_out"
    using granting_mutex.drain [OF assms(1)] by blast
  obtain s2 where s2: "(mx_step K ^^ 2) s1 s2" "pc s2 = (pc s1)(t := M_in)"
    using granting_mutex.enters [OF assms(1) s1(3,4)] by blast
  have "mx_agree holder s2"
    using s1(3) s2(1) kernel_mutex.mx_agree_step [OF K] by (auto simp: numeral_2_eq_2)
  then have "mutex_owned t (mutex s2)" using mx_agreeD(3) s2(2) by (fastforce simp: mutex_owned_def)
  moreover have "(mx_step K ^^ (n + 2)) s s2" by (rule relpowp_trans [OF s1(2) s2(1)])
  ultimately show ?thesis using s1 s2(2) by (intro exI [of _ "n + 2"] exI [of _ s2]) auto
qed

theorem mutex_never_locked_out_witness:
  "\<exists>n s'. n \<le> 11 \<and> (mx_step holder_ops ^^ n) \<lparr>mutex = mutex_init holder_ops, pc = (\<lambda>_. M_out)\<rparr> s' \<and> pc s' 5 = M_in"
  using mutex_never_locked_out [OF granting_holder.granting_mutex_axioms mx_reachable.start, of 5] by blast

end
