(* ===== verification/Phys_Layouts.thy ===== *)
theory Phys_Layouts
  imports Zil Dnode Space_Map
begin

text \<open>
  The structures that the headers declare for the disk and that hold no other logic: the bonus
  buffers and directories of the DSL and the pool, block pointer lists, ZAP blocks, ACLs and the old
  znode, the persistent L2ARC. Each is a \<open>ctype\<close>; the lemmas give its size and alignment on both
  kinds of host, and the properties what the comments and the size macros promise of them.
\<close>

section \<open>Sizes\<close>

definition DD_USED_NUM :: nat where "DD_USED_NUM = 5"
definition MZAP_ENT_LEN :: nat where "MZAP_ENT_LEN = 64"
definition MZAP_NAME_LEN :: nat where "MZAP_NAME_LEN = MZAP_ENT_LEN - 8 - 4 - 2"
definition L2ARC_LOG_BLK_MAX_ENTRIES :: nat where "L2ARC_LOG_BLK_MAX_ENTRIES = 1022"
definition ACE_SLOT_CNT :: nat where "ACE_SLOT_CNT = 6"
definition ZIO_OBJSET_MAC_LEN :: nat where "ZIO_OBJSET_MAC_LEN = 32"
definition OBJSET_PHYS_SIZE_V1 :: nat where "OBJSET_PHYS_SIZE_V1 = 1024"
definition OBJSET_PHYS_SIZE_V2 :: nat where "OBJSET_PHYS_SIZE_V2 = 2048"
definition OBJSET_PHYS_SIZE_V3 :: nat where "OBJSET_PHYS_SIZE_V3 = 4096"
definition BPOBJ_SIZE_V0 :: nat where "BPOBJ_SIZE_V0 = 2 * size_of 8 c_u64"
definition BPOBJ_SIZE_V1 :: nat where "BPOBJ_SIZE_V1 = 4 * size_of 8 c_u64"
definition BPOBJ_SIZE_V2 :: nat where "BPOBJ_SIZE_V2 = 6 * size_of 8 c_u64"
definition BOOKMARK_PHYS_SIZE_V1 :: nat where "BOOKMARK_PHYS_SIZE_V1 = 3 * size_of 8 c_u64"
definition BOOKMARK_PHYS_SIZE_V2 :: nat where "BOOKMARK_PHYS_SIZE_V2 = 12 * size_of 8 c_u64"
definition SPACE_MAP_SIZE_V0 :: nat where "SPACE_MAP_SIZE_V0 = 3 * size_of 8 c_u64"
definition VDEV_INDIRECT_MAPPING_SIZE_V0 :: nat where "VDEV_INDIRECT_MAPPING_SIZE_V0 = 3 * size_of 8 c_u64"
definition REBUILD_PHYS_ENTRIES :: nat where "REBUILD_PHYS_ENTRIES = 12"

lemmas size_macros = DD_USED_NUM_def MZAP_ENT_LEN_def MZAP_NAME_LEN_def L2ARC_LOG_BLK_MAX_ENTRIES_def
  ACE_SLOT_CNT_def ZIO_OBJSET_MAC_LEN_def OBJSET_PHYS_SIZE_V1_def OBJSET_PHYS_SIZE_V2_def
  OBJSET_PHYS_SIZE_V3_def BPOBJ_SIZE_V0_def BPOBJ_SIZE_V1_def BPOBJ_SIZE_V2_def BOOKMARK_PHYS_SIZE_V1_def
  BOOKMARK_PHYS_SIZE_V2_def SPACE_MAP_SIZE_V0_def VDEV_INDIRECT_MAPPING_SIZE_V0_def
  REBUILD_PHYS_ENTRIES_def SPACE_MAP_HISTOGRAM_SIZE_def

text \<open>No gap anywhere, and the same bytes on 32-bit and 64-bit hosts.\<close>

definition sealed :: "ctype \<Rightarrow> bool" where
  "sealed t \<longleftrightarrow> portable t \<and> no_padding 8 t \<and> no_padding 4 t"

lemmas sealed_defs = sealed_def portable_def no_padding_def

named_theorems phys_sizes

lemma dnode_aligned [phys_sizes]: "align_of 8 dnode_phys = 8" "align_of 4 dnode_phys = 4"
  "size_of 8 dnode_phys = 512" "size_of 4 dnode_phys = 512"
  by (simp_all add: dnode_offsets) (simp_all add: dnode_phys_def dnode_core_def tail_sizes)

lemma zil_header_sizes [phys_sizes]: "align_of 8 zil_header = 8" "align_of 4 zil_header = 4"
  "size_of 8 zil_header = 192" "size_of 4 zil_header = 192"
  by (simp_all add: zil_header_def pad_to_def)

section \<open>Structures\<close>

definition c_zbookmark_phys :: ctype where
  "c_zbookmark_phys = CStruct [(''zb_objset'', c_u64), (''zb_object'', c_u64), (''zb_level'', c_u64),
    (''zb_blkid'', c_u64)]"

lemma zbookmark_phys_layout [phys_sizes]: "size_of 8 c_zbookmark_phys = 32" "size_of 4 c_zbookmark_phys = 32" "align_of 8 c_zbookmark_phys = 8"
  "align_of 4 c_zbookmark_phys = 4" "sealed c_zbookmark_phys"
  by (simp_all add: c_zbookmark_phys_def sealed_defs size_macros pad_to_def phys_sizes layout_simps)

definition c_zbookmark_err_phys :: ctype where
  "c_zbookmark_err_phys = CStruct [(''zb_object'', c_u64), (''zb_level'', c_u64), (''zb_blkid'', c_u64),
    (''zb_birth'', c_u64)]"

lemma zbookmark_err_phys_layout [phys_sizes]: "size_of 8 c_zbookmark_err_phys = 32" "size_of 4 c_zbookmark_err_phys = 32" "align_of 8 c_zbookmark_err_phys = 8"
  "align_of 4 c_zbookmark_err_phys = 4" "sealed c_zbookmark_err_phys"
  by (simp_all add: c_zbookmark_err_phys_def sealed_defs size_macros pad_to_def phys_sizes layout_simps)

definition c_ddt_bookmark :: ctype where
  "c_ddt_bookmark = CStruct [(''ddb_class'', c_u64), (''ddb_type'', c_u64), (''ddb_checksum'', c_u64),
    (''ddb_cursor'', c_u64)]"

lemma ddt_bookmark_layout [phys_sizes]: "size_of 8 c_ddt_bookmark = 32" "size_of 4 c_ddt_bookmark = 32" "align_of 8 c_ddt_bookmark = 8"
  "align_of 4 c_ddt_bookmark = 4" "sealed c_ddt_bookmark"
  by (simp_all add: c_ddt_bookmark_def sealed_defs size_macros pad_to_def phys_sizes layout_simps)

definition c_bpobj_phys :: ctype where
  "c_bpobj_phys = CStruct [(''bpo_num_blkptrs'', c_u64), (''bpo_bytes'', c_u64), (''bpo_comp'', c_u64),
    (''bpo_uncomp'', c_u64), (''bpo_subobjs'', c_u64), (''bpo_num_subobjs'', c_u64),
    (''bpo_num_freed'', c_u64)]"

lemma bpobj_phys_layout [phys_sizes]: "size_of 8 c_bpobj_phys = 56" "size_of 4 c_bpobj_phys = 56" "align_of 8 c_bpobj_phys = 8"
  "align_of 4 c_bpobj_phys = 4" "sealed c_bpobj_phys"
  by (simp_all add: c_bpobj_phys_def sealed_defs size_macros pad_to_def phys_sizes layout_simps)

definition c_bptree_phys :: ctype where
  "c_bptree_phys = CStruct [(''bt_begin'', c_u64), (''bt_end'', c_u64), (''bt_bytes'', c_u64),
    (''bt_comp'', c_u64), (''bt_uncomp'', c_u64)]"

lemma bptree_phys_layout [phys_sizes]: "size_of 8 c_bptree_phys = 40" "size_of 4 c_bptree_phys = 40" "align_of 8 c_bptree_phys = 8"
  "align_of 4 c_bptree_phys = 4" "sealed c_bptree_phys"
  by (simp_all add: c_bptree_phys_def sealed_defs size_macros pad_to_def phys_sizes layout_simps)

definition c_bptree_entry_phys :: ctype where
  "c_bptree_entry_phys = CStruct [(''be_bp'', c_blkptr), (''be_birth_txg'', c_u64),
    (''be_zb'', c_zbookmark_phys)]"

lemma bptree_entry_phys_layout [phys_sizes]: "size_of 8 c_bptree_entry_phys = 168" "size_of 4 c_bptree_entry_phys = 168" "align_of 8 c_bptree_entry_phys = 8"
  "align_of 4 c_bptree_entry_phys = 4" "sealed c_bptree_entry_phys"
  by (simp_all add: c_bptree_entry_phys_def sealed_defs size_macros pad_to_def phys_sizes layout_simps)

definition c_brt_vdev_phys :: ctype where
  "c_brt_vdev_phys = CStruct [(''bvp_mos_entries'', c_u64), (''bvp_size'', c_u64),
    (''bvp_byteorder'', c_u64), (''bvp_totalcount'', c_u64), (''bvp_rangesize'', c_u64),
    (''bvp_usedspace'', c_u64), (''bvp_savedspace'', c_u64)]"

lemma brt_vdev_phys_layout [phys_sizes]: "size_of 8 c_brt_vdev_phys = 56" "size_of 4 c_brt_vdev_phys = 56" "align_of 8 c_brt_vdev_phys = 8"
  "align_of 4 c_brt_vdev_phys = 4" "sealed c_brt_vdev_phys"
  by (simp_all add: c_brt_vdev_phys_def sealed_defs size_macros pad_to_def phys_sizes layout_simps)

definition c_zfs_bookmark_phys :: ctype where
  "c_zfs_bookmark_phys = CStruct [(''zbm_guid'', c_u64), (''zbm_creation_txg'', c_u64),
    (''zbm_creation_time'', c_u64), (''zbm_redaction_obj'', c_u64), (''zbm_flags'', c_u64),
    (''zbm_referenced_bytes_refd'', c_u64), (''zbm_compressed_bytes_refd'', c_u64),
    (''zbm_uncompressed_bytes_refd'', c_u64), (''zbm_referenced_freed_before_next_snap'', c_u64),
    (''zbm_compressed_freed_before_next_snap'', c_u64),
    (''zbm_uncompressed_freed_before_next_snap'', c_u64), (''zbm_ivset_guid'', c_u64)]"

lemma zfs_bookmark_phys_layout [phys_sizes]: "size_of 8 c_zfs_bookmark_phys = 96" "size_of 4 c_zfs_bookmark_phys = 96" "align_of 8 c_zfs_bookmark_phys = 8"
  "align_of 4 c_zfs_bookmark_phys = 4" "sealed c_zfs_bookmark_phys"
  by (simp_all add: c_zfs_bookmark_phys_def sealed_defs size_macros pad_to_def phys_sizes layout_simps)

definition c_redaction_list_phys :: ctype where
  "c_redaction_list_phys = CStruct [(''rlp_last_object'', c_u64), (''rlp_last_blkid'', c_u64),
    (''rlp_num_entries'', c_u64), (''rlp_num_snaps'', c_u64), (''rlp_snaps'', CArray 0 c_u64)]"

lemma redaction_list_phys_layout [phys_sizes]: "size_of 8 c_redaction_list_phys = 32" "size_of 4 c_redaction_list_phys = 32" "align_of 8 c_redaction_list_phys = 8"
  "align_of 4 c_redaction_list_phys = 4" "sealed c_redaction_list_phys"
  by (simp_all add: c_redaction_list_phys_def sealed_defs size_macros pad_to_def phys_sizes layout_simps)

definition c_redact_block_phys :: ctype where
  "c_redact_block_phys = CStruct [(''rbp_object'', c_u64), (''rbp_blkid'', c_u64),
    (''rbp_size_count'', c_u64), (''rbp_padding'', c_u64)]"

lemma redact_block_phys_layout [phys_sizes]: "size_of 8 c_redact_block_phys = 32" "size_of 4 c_redact_block_phys = 32" "align_of 8 c_redact_block_phys = 8"
  "align_of 4 c_redact_block_phys = 4" "sealed c_redact_block_phys"
  by (simp_all add: c_redact_block_phys_def sealed_defs size_macros pad_to_def phys_sizes layout_simps)

definition c_dsl_dataset_phys :: ctype where
  "c_dsl_dataset_phys = CStruct [(''ds_dir_obj'', c_u64), (''ds_prev_snap_obj'', c_u64),
    (''ds_prev_snap_txg'', c_u64), (''ds_next_snap_obj'', c_u64), (''ds_snapnames_zapobj'', c_u64),
    (''ds_num_children'', c_u64), (''ds_creation_time'', c_u64), (''ds_creation_txg'', c_u64),
    (''ds_deadlist_obj'', c_u64), (''ds_referenced_bytes'', c_u64), (''ds_compressed_bytes'', c_u64),
    (''ds_uncompressed_bytes'', c_u64), (''ds_unique_bytes'', c_u64), (''ds_fsid_guid'', c_u64),
    (''ds_guid'', c_u64), (''ds_flags'', c_u64), (''ds_bp'', c_blkptr), (''ds_next_clones_obj'', c_u64),
    (''ds_props_obj'', c_u64), (''ds_userrefs_obj'', c_u64), (''ds_pad'', CArray 5 c_u64)]"

lemma dsl_dataset_phys_layout [phys_sizes]: "size_of 8 c_dsl_dataset_phys = 320" "size_of 4 c_dsl_dataset_phys = 320" "align_of 8 c_dsl_dataset_phys = 8"
  "align_of 4 c_dsl_dataset_phys = 4" "sealed c_dsl_dataset_phys"
  by (simp_all add: c_dsl_dataset_phys_def sealed_defs size_macros pad_to_def phys_sizes layout_simps)

definition c_dsl_deadlist_phys :: ctype where
  "c_dsl_deadlist_phys = CStruct [(''dl_used'', c_u64), (''dl_comp'', c_u64), (''dl_uncomp'', c_u64),
    (''dl_pad'', CArray 37 c_u64)]"

lemma dsl_deadlist_phys_layout [phys_sizes]: "size_of 8 c_dsl_deadlist_phys = 320" "size_of 4 c_dsl_deadlist_phys = 320" "align_of 8 c_dsl_deadlist_phys = 8"
  "align_of 4 c_dsl_deadlist_phys = 4" "sealed c_dsl_deadlist_phys"
  by (simp_all add: c_dsl_deadlist_phys_def sealed_defs size_macros pad_to_def phys_sizes layout_simps)

definition c_dsl_dir_phys :: ctype where
  "c_dsl_dir_phys = CStruct [(''dd_creation_time'', c_u64), (''dd_head_dataset_obj'', c_u64),
    (''dd_parent_obj'', c_u64), (''dd_origin_obj'', c_u64), (''dd_child_dir_zapobj'', c_u64),
    (''dd_used_bytes'', c_u64), (''dd_compressed_bytes'', c_u64), (''dd_uncompressed_bytes'', c_u64),
    (''dd_quota'', c_u64), (''dd_reserved'', c_u64), (''dd_props_zapobj'', c_u64),
    (''dd_deleg_zapobj'', c_u64), (''dd_flags'', c_u64), (''dd_used_breakdown'', CArray DD_USED_NUM c_u64),
    (''dd_clones'', c_u64), (''dd_pad'', CArray 13 c_u64)]"

lemma dsl_dir_phys_layout [phys_sizes]: "size_of 8 c_dsl_dir_phys = 256" "size_of 4 c_dsl_dir_phys = 256" "align_of 8 c_dsl_dir_phys = 8"
  "align_of 4 c_dsl_dir_phys = 4" "sealed c_dsl_dir_phys"
  by (simp_all add: c_dsl_dir_phys_def sealed_defs size_macros pad_to_def phys_sizes layout_simps)

definition c_dsl_scan_phys :: ctype where
  "c_dsl_scan_phys = CStruct [(''scn_func'', c_u64), (''scn_state'', c_u64), (''scn_queue_obj'', c_u64),
    (''scn_min_txg'', c_u64), (''scn_max_txg'', c_u64), (''scn_cur_min_txg'', c_u64),
    (''scn_cur_max_txg'', c_u64), (''scn_start_time'', c_u64), (''scn_end_time'', c_u64),
    (''scn_to_examine'', c_u64), (''scn_examined'', c_u64), (''scn_skipped'', c_u64),
    (''scn_processed'', c_u64), (''scn_errors'', c_u64), (''scn_ddt_class_max'', c_u64),
    (''scn_ddt_bookmark'', c_ddt_bookmark), (''scn_bookmark'', c_zbookmark_phys), (''scn_flags'', c_u64)]"

lemma dsl_scan_phys_layout [phys_sizes]: "size_of 8 c_dsl_scan_phys = 192" "size_of 4 c_dsl_scan_phys = 192" "align_of 8 c_dsl_scan_phys = 8"
  "align_of 4 c_dsl_scan_phys = 4" "sealed c_dsl_scan_phys"
  by (simp_all add: c_dsl_scan_phys_def sealed_defs size_macros pad_to_def phys_sizes layout_simps)

definition c_dsl_errorscrub_phys :: ctype where
  "c_dsl_errorscrub_phys = CStruct [(''dep_func'', c_u64), (''dep_state'', c_u64), (''dep_cursor'', c_u64),
    (''dep_start_time'', c_u64), (''dep_end_time'', c_u64), (''dep_to_examine'', c_u64),
    (''dep_examined'', c_u64), (''dep_errors'', c_u64), (''dep_paused_flags'', c_u64)]"

lemma dsl_errorscrub_phys_layout [phys_sizes]: "size_of 8 c_dsl_errorscrub_phys = 72" "size_of 4 c_dsl_errorscrub_phys = 72" "align_of 8 c_dsl_errorscrub_phys = 8"
  "align_of 4 c_dsl_errorscrub_phys = 4" "sealed c_dsl_errorscrub_phys"
  by (simp_all add: c_dsl_errorscrub_phys_def sealed_defs size_macros pad_to_def phys_sizes layout_simps)

definition c_metaslab_unflushed_phys :: ctype where
  "c_metaslab_unflushed_phys = CStruct [(''msp_unflushed_txg'', c_u64)]"

lemma metaslab_unflushed_phys_layout [phys_sizes]: "size_of 8 c_metaslab_unflushed_phys = 8" "size_of 4 c_metaslab_unflushed_phys = 8" "align_of 8 c_metaslab_unflushed_phys = 8"
  "align_of 4 c_metaslab_unflushed_phys = 4" "sealed c_metaslab_unflushed_phys"
  by (simp_all add: c_metaslab_unflushed_phys_def sealed_defs size_macros pad_to_def phys_sizes layout_simps)

definition c_spa_history_phys :: ctype where
  "c_spa_history_phys = CStruct [(''sh_pool_create_len'', c_u64), (''sh_phys_max_off'', c_u64),
    (''sh_bof'', c_u64), (''sh_eof'', c_u64), (''sh_records_lost'', c_u64)]"

lemma spa_history_phys_layout [phys_sizes]: "size_of 8 c_spa_history_phys = 40" "size_of 4 c_spa_history_phys = 40" "align_of 8 c_spa_history_phys = 8"
  "align_of 4 c_spa_history_phys = 4" "sealed c_spa_history_phys"
  by (simp_all add: c_spa_history_phys_def sealed_defs size_macros pad_to_def phys_sizes layout_simps)

definition c_spa_removing_phys :: ctype where
  "c_spa_removing_phys = CStruct [(''sr_state'', c_u64), (''sr_removing_vdev'', c_u64),
    (''sr_prev_indirect_vdev'', c_u64), (''sr_start_time'', c_u64), (''sr_end_time'', c_u64),
    (''sr_to_copy'', c_u64), (''sr_copied'', c_u64)]"

lemma spa_removing_phys_layout [phys_sizes]: "size_of 8 c_spa_removing_phys = 56" "size_of 4 c_spa_removing_phys = 56" "align_of 8 c_spa_removing_phys = 8"
  "align_of 4 c_spa_removing_phys = 4" "sealed c_spa_removing_phys"
  by (simp_all add: c_spa_removing_phys_def sealed_defs size_macros pad_to_def phys_sizes layout_simps)

definition c_spa_condensing_indirect_phys :: ctype where
  "c_spa_condensing_indirect_phys = CStruct [(''scip_vdev'', c_u64),
    (''scip_prev_obsolete_sm_object'', c_u64), (''scip_next_mapping_object'', c_u64)]"

lemma spa_condensing_indirect_phys_layout [phys_sizes]: "size_of 8 c_spa_condensing_indirect_phys = 24" "size_of 4 c_spa_condensing_indirect_phys = 24" "align_of 8 c_spa_condensing_indirect_phys = 8"
  "align_of 4 c_spa_condensing_indirect_phys = 4" "sealed c_spa_condensing_indirect_phys"
  by (simp_all add: c_spa_condensing_indirect_phys_def sealed_defs size_macros pad_to_def phys_sizes layout_simps)

definition c_space_map_phys :: ctype where
  "c_space_map_phys = CStruct [(''smp_object'', c_u64), (''smp_length'', c_u64), (''smp_alloc'', c_u64),
    (''smp_pad'', CArray 5 c_u64), (''smp_histogram'', CArray SPACE_MAP_HISTOGRAM_SIZE c_u64)]"

lemma space_map_phys_layout [phys_sizes]: "size_of 8 c_space_map_phys = 320" "size_of 4 c_space_map_phys = 320" "align_of 8 c_space_map_phys = 8"
  "align_of 4 c_space_map_phys = 4" "sealed c_space_map_phys"
  by (simp_all add: c_space_map_phys_def sealed_defs size_macros pad_to_def phys_sizes layout_simps)

definition c_vdev_indirect_birth_entry_phys :: ctype where
  "c_vdev_indirect_birth_entry_phys = CStruct [(''vibe_offset'', c_u64), (''vibe_phys_birth_txg'', c_u64)]"

lemma vdev_indirect_birth_entry_phys_layout [phys_sizes]: "size_of 8 c_vdev_indirect_birth_entry_phys = 16" "size_of 4 c_vdev_indirect_birth_entry_phys = 16" "align_of 8 c_vdev_indirect_birth_entry_phys = 8"
  "align_of 4 c_vdev_indirect_birth_entry_phys = 4" "sealed c_vdev_indirect_birth_entry_phys"
  by (simp_all add: c_vdev_indirect_birth_entry_phys_def sealed_defs size_macros pad_to_def phys_sizes layout_simps)

definition c_vdev_indirect_birth_phys :: ctype where
  "c_vdev_indirect_birth_phys = CStruct [(''vib_count'', c_u64)]"

lemma vdev_indirect_birth_phys_layout [phys_sizes]: "size_of 8 c_vdev_indirect_birth_phys = 8" "size_of 4 c_vdev_indirect_birth_phys = 8" "align_of 8 c_vdev_indirect_birth_phys = 8"
  "align_of 4 c_vdev_indirect_birth_phys = 4" "sealed c_vdev_indirect_birth_phys"
  by (simp_all add: c_vdev_indirect_birth_phys_def sealed_defs size_macros pad_to_def phys_sizes layout_simps)

definition c_vdev_indirect_mapping_entry_phys :: ctype where
  "c_vdev_indirect_mapping_entry_phys = CStruct [(''vimep_src'', c_u64), (''vimep_dst'', c_dva)]"

lemma vdev_indirect_mapping_entry_phys_layout [phys_sizes]: "size_of 8 c_vdev_indirect_mapping_entry_phys = 24" "size_of 4 c_vdev_indirect_mapping_entry_phys = 24" "align_of 8 c_vdev_indirect_mapping_entry_phys = 8"
  "align_of 4 c_vdev_indirect_mapping_entry_phys = 4" "sealed c_vdev_indirect_mapping_entry_phys"
  by (simp_all add: c_vdev_indirect_mapping_entry_phys_def sealed_defs size_macros pad_to_def phys_sizes layout_simps)

definition c_vdev_indirect_mapping_phys :: ctype where
  "c_vdev_indirect_mapping_phys = CStruct [(''vimp_max_offset'', c_u64), (''vimp_bytes_mapped'', c_u64),
    (''vimp_num_entries'', c_u64), (''vimp_counts_object'', c_u64)]"

lemma vdev_indirect_mapping_phys_layout [phys_sizes]: "size_of 8 c_vdev_indirect_mapping_phys = 32" "size_of 4 c_vdev_indirect_mapping_phys = 32" "align_of 8 c_vdev_indirect_mapping_phys = 8"
  "align_of 4 c_vdev_indirect_mapping_phys = 4" "sealed c_vdev_indirect_mapping_phys"
  by (simp_all add: c_vdev_indirect_mapping_phys_def sealed_defs size_macros pad_to_def phys_sizes layout_simps)

definition c_vdev_rebuild_phys :: ctype where
  "c_vdev_rebuild_phys = CStruct [(''vrp_rebuild_state'', c_u64), (''vrp_last_offset'', c_u64),
    (''vrp_min_txg'', c_u64), (''vrp_max_txg'', c_u64), (''vrp_start_time'', c_u64),
    (''vrp_end_time'', c_u64), (''vrp_scan_time_ms'', c_u64), (''vrp_bytes_scanned'', c_u64),
    (''vrp_bytes_issued'', c_u64), (''vrp_bytes_rebuilt'', c_u64), (''vrp_bytes_est'', c_u64),
    (''vrp_errors'', c_u64)]"

lemma vdev_rebuild_phys_layout [phys_sizes]: "size_of 8 c_vdev_rebuild_phys = 96" "size_of 4 c_vdev_rebuild_phys = 96" "align_of 8 c_vdev_rebuild_phys = 8"
  "align_of 4 c_vdev_rebuild_phys = 4" "sealed c_vdev_rebuild_phys"
  by (simp_all add: c_vdev_rebuild_phys_def sealed_defs size_macros pad_to_def phys_sizes layout_simps)

definition c_mzap_ent_phys :: ctype where
  "c_mzap_ent_phys = CStruct [(''mze_value'', c_u64), (''mze_cd'', c_u32), (''mze_pad'', c_u16),
    (''mze_name'', CArray MZAP_NAME_LEN c_u8)]"

lemma mzap_ent_phys_layout [phys_sizes]: "size_of 8 c_mzap_ent_phys = 64" "size_of 4 c_mzap_ent_phys = 64" "align_of 8 c_mzap_ent_phys = 8"
  "align_of 4 c_mzap_ent_phys = 4" "sealed c_mzap_ent_phys"
  by (simp_all add: c_mzap_ent_phys_def sealed_defs size_macros pad_to_def phys_sizes layout_simps)

definition c_mzap_phys :: ctype where
  "c_mzap_phys = CStruct [(''mz_block_type'', c_u64), (''mz_salt'', c_u64), (''mz_normflags'', c_u64),
    (''mz_pad'', CArray 5 c_u64), (''mz_chunk'', CArray 1 c_mzap_ent_phys)]"

lemma mzap_phys_layout [phys_sizes]: "size_of 8 c_mzap_phys = 128" "size_of 4 c_mzap_phys = 128" "align_of 8 c_mzap_phys = 8"
  "align_of 4 c_mzap_phys = 4" "sealed c_mzap_phys"
  by (simp_all add: c_mzap_phys_def sealed_defs size_macros pad_to_def phys_sizes layout_simps)

definition c_zap_table_phys :: ctype where
  "c_zap_table_phys = CStruct [(''zt_blk'', c_u64), (''zt_numblks'', c_u64), (''zt_shift'', c_u64),
    (''zt_nextblk'', c_u64), (''zt_blks_copied'', c_u64)]"

lemma zap_table_phys_layout [phys_sizes]: "size_of 8 c_zap_table_phys = 40" "size_of 4 c_zap_table_phys = 40" "align_of 8 c_zap_table_phys = 8"
  "align_of 4 c_zap_table_phys = 4" "sealed c_zap_table_phys"
  by (simp_all add: c_zap_table_phys_def sealed_defs size_macros pad_to_def phys_sizes layout_simps)

definition c_zap_phys :: ctype where
  "c_zap_phys = CStruct [(''zap_block_type'', c_u64), (''zap_magic'', c_u64),
    (''zap_ptrtbl'', c_zap_table_phys), (''zap_freeblk'', c_u64), (''zap_num_leafs'', c_u64),
    (''zap_num_entries'', c_u64), (''zap_salt'', c_u64), (''zap_normflags'', c_u64),
    (''zap_flags'', c_u64)]"

lemma zap_phys_layout [phys_sizes]: "size_of 8 c_zap_phys = 104" "size_of 4 c_zap_phys = 104" "align_of 8 c_zap_phys = 8"
  "align_of 4 c_zap_phys = 4" "sealed c_zap_phys"
  by (simp_all add: c_zap_phys_def sealed_defs size_macros pad_to_def phys_sizes layout_simps)

definition c_l2arc_log_blkptr :: ctype where
  "c_l2arc_log_blkptr = CStruct [(''lbp_daddr'', c_u64), (''lbp_payload_asize'', c_u64),
    (''lbp_payload_start'', c_u64), (''lbp_prop'', c_u64), (''lbp_cksum'', c_zio_cksum)]"

lemma l2arc_log_blkptr_layout [phys_sizes]: "size_of 8 c_l2arc_log_blkptr = 64" "size_of 4 c_l2arc_log_blkptr = 64" "align_of 8 c_l2arc_log_blkptr = 8"
  "align_of 4 c_l2arc_log_blkptr = 4" "sealed c_l2arc_log_blkptr"
  by (simp_all add: c_l2arc_log_blkptr_def sealed_defs size_macros pad_to_def phys_sizes layout_simps)

definition c_l2arc_dev_hdr_phys :: ctype where
  "c_l2arc_dev_hdr_phys = CStruct [(''dh_magic'', c_u64), (''dh_version'', c_u64),
    (''dh_spa_guid'', c_u64), (''dh_vdev_guid'', c_u64), (''dh_log_entries'', c_u64),
    (''dh_evict'', c_u64), (''dh_flags'', c_u64), (''dh_start'', c_u64), (''dh_end'', c_u64),
    (''dh_start_lbps'', CArray 2 c_l2arc_log_blkptr), (''dh_lb_asize'', c_u64), (''dh_lb_count'', c_u64),
    (''dh_trim_action_time'', c_u64), (''dh_trim_state'', c_u64), (''dh_pad'', CArray 30 c_u64),
    (''dh_tail'', c_zio_eck)]"

lemma l2arc_dev_hdr_phys_layout [phys_sizes]: "size_of 8 c_l2arc_dev_hdr_phys = 512" "size_of 4 c_l2arc_dev_hdr_phys = 512" "align_of 8 c_l2arc_dev_hdr_phys = 8"
  "align_of 4 c_l2arc_dev_hdr_phys = 4" "sealed c_l2arc_dev_hdr_phys"
  by (simp_all add: c_l2arc_dev_hdr_phys_def sealed_defs size_macros pad_to_def phys_sizes layout_simps)

definition c_l2arc_log_ent_phys :: ctype where
  "c_l2arc_log_ent_phys = CStruct [(''le_dva'', c_dva), (''le_birth'', c_u64), (''le_prop'', c_u64),
    (''le_daddr'', c_u64), (''le_complevel'', c_u64), (''le_pad'', CArray 2 c_u64)]"

lemma l2arc_log_ent_phys_layout [phys_sizes]: "size_of 8 c_l2arc_log_ent_phys = 64" "size_of 4 c_l2arc_log_ent_phys = 64" "align_of 8 c_l2arc_log_ent_phys = 8"
  "align_of 4 c_l2arc_log_ent_phys = 4" "sealed c_l2arc_log_ent_phys"
  by (simp_all add: c_l2arc_log_ent_phys_def sealed_defs size_macros pad_to_def phys_sizes layout_simps)

definition c_l2arc_log_blk_phys :: ctype where
  "c_l2arc_log_blk_phys = CStruct [(''lb_magic'', c_u64), (''lb_prev_lbp'', c_l2arc_log_blkptr),
    (''lb_pad'', CArray 7 c_u64), (''lb_entries'', CArray L2ARC_LOG_BLK_MAX_ENTRIES c_l2arc_log_ent_phys)]"

lemma l2arc_log_blk_phys_layout [phys_sizes]: "size_of 8 c_l2arc_log_blk_phys = 65536" "size_of 4 c_l2arc_log_blk_phys = 65536" "align_of 8 c_l2arc_log_blk_phys = 8"
  "align_of 4 c_l2arc_log_blk_phys = 4" "sealed c_l2arc_log_blk_phys"
  by (simp_all add: c_l2arc_log_blk_phys_def sealed_defs size_macros pad_to_def phys_sizes layout_simps)

definition c_zfs_ace_hdr :: ctype where
  "c_zfs_ace_hdr = CStruct [(''z_type'', c_u16), (''z_flags'', c_u16), (''z_access_mask'', c_u32)]"

lemma zfs_ace_hdr_layout [phys_sizes]: "size_of 8 c_zfs_ace_hdr = 8" "size_of 4 c_zfs_ace_hdr = 8" "align_of 8 c_zfs_ace_hdr = 4"
  "align_of 4 c_zfs_ace_hdr = 4" "sealed c_zfs_ace_hdr"
  by (simp_all add: c_zfs_ace_hdr_def sealed_defs size_macros pad_to_def phys_sizes layout_simps)

definition c_zfs_ace :: ctype where
  "c_zfs_ace = CStruct [(''z_hdr'', c_zfs_ace_hdr), (''z_fuid'', c_u64)]"

lemma zfs_ace_layout [phys_sizes]: "size_of 8 c_zfs_ace = 16" "size_of 4 c_zfs_ace = 16" "align_of 8 c_zfs_ace = 8"
  "align_of 4 c_zfs_ace = 4" "sealed c_zfs_ace"
  by (simp_all add: c_zfs_ace_def sealed_defs size_macros pad_to_def phys_sizes layout_simps)

definition c_zfs_object_ace :: ctype where
  "c_zfs_object_ace = CStruct [(''z_ace'', c_zfs_ace), (''z_object_type'', CArray 16 c_u8),
    (''z_inherit_type'', CArray 16 c_u8)]"

lemma zfs_object_ace_layout [phys_sizes]: "size_of 8 c_zfs_object_ace = 48" "size_of 4 c_zfs_object_ace = 48" "align_of 8 c_zfs_object_ace = 8"
  "align_of 4 c_zfs_object_ace = 4" "sealed c_zfs_object_ace"
  by (simp_all add: c_zfs_object_ace_def sealed_defs size_macros pad_to_def phys_sizes layout_simps)

definition c_zfs_oldace :: ctype where
  "c_zfs_oldace = CStruct [(''z_fuid'', c_u32), (''z_access_mask'', c_u32), (''z_flags'', c_u16),
    (''z_type'', c_u16)]"

lemma zfs_oldace_layout [phys_sizes]: "size_of 8 c_zfs_oldace = 12" "size_of 4 c_zfs_oldace = 12" "align_of 8 c_zfs_oldace = 4"
  "align_of 4 c_zfs_oldace = 4" "sealed c_zfs_oldace"
  by (simp_all add: c_zfs_oldace_def sealed_defs size_macros pad_to_def phys_sizes layout_simps)

definition c_zfs_acl_phys_v0 :: ctype where
  "c_zfs_acl_phys_v0 = CStruct [(''z_acl_extern_obj'', c_u64), (''z_acl_count'', c_u32),
    (''z_acl_version'', c_u16), (''z_acl_pad'', c_u16), (''z_ace_data'', CArray ACE_SLOT_CNT c_zfs_oldace)]"

lemma zfs_acl_phys_v0_layout [phys_sizes]: "size_of 8 c_zfs_acl_phys_v0 = 88" "size_of 4 c_zfs_acl_phys_v0 = 88" "align_of 8 c_zfs_acl_phys_v0 = 8"
  "align_of 4 c_zfs_acl_phys_v0 = 4" "sealed c_zfs_acl_phys_v0"
  by (simp_all add: c_zfs_acl_phys_v0_def sealed_defs size_macros pad_to_def phys_sizes layout_simps)

definition ZFS_ACE_SPACE :: nat where "ZFS_ACE_SPACE = size_of 8 c_zfs_oldace * ACE_SLOT_CNT"

lemma ZFS_ACE_SPACE_value [phys_sizes]: "ZFS_ACE_SPACE = 72"
  by (simp add: ZFS_ACE_SPACE_def size_macros phys_sizes)

definition c_zfs_acl_phys :: ctype where
  "c_zfs_acl_phys = CStruct [(''z_acl_extern_obj'', c_u64), (''z_acl_size'', c_u32),
    (''z_acl_version'', c_u16), (''z_acl_count'', c_u16), (''z_ace_data'', CArray ZFS_ACE_SPACE c_u8)]"

lemma zfs_acl_phys_layout [phys_sizes]: "size_of 8 c_zfs_acl_phys = 88" "size_of 4 c_zfs_acl_phys = 88" "align_of 8 c_zfs_acl_phys = 8"
  "align_of 4 c_zfs_acl_phys = 4" "sealed c_zfs_acl_phys"
  by (simp_all add: c_zfs_acl_phys_def sealed_defs size_macros pad_to_def phys_sizes layout_simps)

definition c_znode_phys :: ctype where
  "c_znode_phys = CStruct [(''zp_atime'', CArray 2 c_u64), (''zp_mtime'', CArray 2 c_u64),
    (''zp_ctime'', CArray 2 c_u64), (''zp_crtime'', CArray 2 c_u64), (''zp_gen'', c_u64),
    (''zp_mode'', c_u64), (''zp_size'', c_u64), (''zp_parent'', c_u64), (''zp_links'', c_u64),
    (''zp_xattr'', c_u64), (''zp_rdev'', c_u64), (''zp_flags'', c_u64), (''zp_uid'', c_u64),
    (''zp_gid'', c_u64), (''zp_zap'', c_u64), (''zp_pad'', CArray 3 c_u64), (''zp_acl'', c_zfs_acl_phys)]"

lemma znode_phys_layout [phys_sizes]: "size_of 8 c_znode_phys = 264" "size_of 4 c_znode_phys = 264" "align_of 8 c_znode_phys = 8"
  "align_of 4 c_znode_phys = 4" "sealed c_znode_phys"
  by (simp_all add: c_znode_phys_def sealed_defs size_macros pad_to_def phys_sizes layout_simps)

definition c_objset_phys :: ctype where
  "c_objset_phys = CStruct [(''os_meta_dnode'', dnode_phys), (''os_zil_header'', zil_header),
    (''os_type'', c_u64), (''os_flags'', c_u64), (''os_portable_mac'', CArray ZIO_OBJSET_MAC_LEN c_u8),
    (''os_local_mac'', CArray ZIO_OBJSET_MAC_LEN c_u8),
    (''os_pad0'', CArray (OBJSET_PHYS_SIZE_V2 - size_of 8 dnode_phys * 3 - size_of 8 zil_header - size_of 8 c_u64 * 2 -
      2 * ZIO_OBJSET_MAC_LEN) c_u8),
    (''os_userused_dnode'', dnode_phys), (''os_groupused_dnode'', dnode_phys),
    (''os_projectused_dnode'', dnode_phys),
    (''os_pad1'', CArray (OBJSET_PHYS_SIZE_V3 - OBJSET_PHYS_SIZE_V2 - size_of 8 dnode_phys) c_u8)]"

lemma objset_phys_layout [phys_sizes]: "size_of 8 c_objset_phys = 4096" "size_of 4 c_objset_phys = 4096" "align_of 8 c_objset_phys = 8"
  "align_of 4 c_objset_phys = 4" "sealed c_objset_phys"
  by (simp_all add: c_objset_phys_def sealed_defs size_macros pad_to_def phys_sizes layout_simps)

section \<open>What the comments and the size macros promise\<close>

definition phys_structs :: "ctype list" where
  "phys_structs =
   [    c_zbookmark_phys, c_zbookmark_err_phys, c_ddt_bookmark, c_bpobj_phys, c_bptree_phys,
    c_bptree_entry_phys, c_brt_vdev_phys, c_zfs_bookmark_phys, c_redaction_list_phys,
    c_redact_block_phys, c_dsl_dataset_phys, c_dsl_deadlist_phys, c_dsl_dir_phys, c_dsl_scan_phys,
    c_dsl_errorscrub_phys, c_metaslab_unflushed_phys, c_spa_history_phys, c_spa_removing_phys,
    c_spa_condensing_indirect_phys, c_space_map_phys, c_vdev_indirect_birth_entry_phys,
    c_vdev_indirect_birth_phys, c_vdev_indirect_mapping_entry_phys, c_vdev_indirect_mapping_phys,
    c_vdev_rebuild_phys, c_mzap_ent_phys, c_mzap_phys, c_zap_table_phys, c_zap_phys,
    c_l2arc_log_blkptr, c_l2arc_dev_hdr_phys, c_l2arc_log_ent_phys, c_l2arc_log_blk_phys,
    c_zfs_ace_hdr, c_zfs_ace, c_zfs_object_ace, c_zfs_oldace, c_zfs_acl_phys_v0, c_zfs_acl_phys,
    c_znode_phys, c_objset_phys]"

text \<open>Structures that are swapped as an array of 64-bit words consist of nothing else.\<close>

fun words_only :: "ctype \<Rightarrow> bool" and words_only_members :: "(string \<times> ctype) list \<Rightarrow> bool" where
  "words_only (CInt n) \<longleftrightarrow> n = 8"
| "words_only (CArray n t) \<longleftrightarrow> words_only t"
| "words_only (CStruct ms) \<longleftrightarrow> words_only_members ms"
| "words_only (CUnion ms) \<longleftrightarrow> words_only_members ms"
| "words_only_members [] \<longleftrightarrow> True"
| "words_only_members ((f, t) # ms) \<longleftrightarrow> words_only t \<and> words_only_members ms"

definition SCAN_PHYS_NUMINTS :: nat where
  "SCAN_PHYS_NUMINTS = size_of 8 c_dsl_scan_phys div size_of 8 c_u64"

definition ERRORSCRUB_PHYS_NUMINTS :: nat where
  "ERRORSCRUB_PHYS_NUMINTS = size_of 8 c_dsl_errorscrub_phys div size_of 8 c_u64"

definition OBJSET_BUF_HAS_USERUSED :: "nat \<Rightarrow> bool" where
  "OBJSET_BUF_HAS_USERUSED buf_size \<longleftrightarrow> OBJSET_PHYS_SIZE_V2 \<le> buf_size"

definition OBJSET_BUF_HAS_PROJECTUSED :: "nat \<Rightarrow> bool" where
  "OBJSET_BUF_HAS_PROJECTUSED buf_size \<longleftrightarrow> OBJSET_PHYS_SIZE_V3 \<le> buf_size"

definition offset_of :: "ctype \<Rightarrow> string \<Rightarrow> nat option" where
  "offset_of t f = map_of (offsets 8 0 (members t)) f"

text \<open>A member that lies in the first bytes of its structure.\<close>

definition member_within :: "ctype \<Rightarrow> nat \<Rightarrow> string \<Rightarrow> bool" where
  "member_within t n f = (case (offset_of t f, map_of (members t) f) of
     (Some p, Some m) \<Rightarrow> p + size_of 8 m \<le> n | _ \<Rightarrow> False)"

text \<open>
  Every structure of this theory has the same offsets and size on 32-bit and 64-bit hosts and no
  padding before, between or after its members, and those whose size a comment fixes have it: 320
  bytes for a dataset and a deadlist, 256 for a directory, 512 for the cache device header with
  its static assertion, 64 for a log entry after a header of 128 and 64K for the log block, 64 for
  a micro ZAP entry, 4096 for an object set. (Dnodes, log records, labels, the headers of system
  attributes and of ZAP leaves and block pointers have theories of their own.)
\<close>

theorem disk_structures_sealed:
  "list_all sealed phys_structs \<and>
   size_of 8 c_dsl_dataset_phys = 320 \<and> size_of 8 c_dsl_deadlist_phys = 320 \<and> size_of 8 c_dsl_dir_phys = 256 \<and>
   size_of 8 c_l2arc_dev_hdr_phys = 512 \<and> size_of 8 c_l2arc_log_ent_phys = 64 \<and>
   offset_of c_l2arc_log_blk_phys ''lb_entries'' = Some 128 \<and> size_of 8 c_l2arc_log_blk_phys = 64 * 1024 \<and>
   size_of 8 c_mzap_ent_phys = MZAP_ENT_LEN \<and> size_of 8 c_objset_phys = OBJSET_PHYS_SIZE_V3"
proof -
  have "list_all sealed phys_structs" by (simp add: phys_structs_def phys_sizes)
  moreover have "offset_of c_l2arc_log_blk_phys ''lb_entries'' = Some 128"
    by (simp add: offset_of_def c_l2arc_log_blk_phys_def phys_sizes pad_to_def)
  ultimately show ?thesis by (simp add: phys_sizes size_macros)
qed

text \<open>
  A structure that grew is read in its old form by its size: the size macro of each old version
  ends exactly where a member starts, so an old object holds a whole number of members and none of
  the newer ones. The buffer tests of object sets agree: a buffer they accept holds the
  accounting dnodes entirely, and one of the version before holds none of them.
\<close>

theorem old_versions_are_prefixes:
  "offset_of c_bpobj_phys ''bpo_comp'' = Some BPOBJ_SIZE_V0 \<and>
   offset_of c_bpobj_phys ''bpo_subobjs'' = Some BPOBJ_SIZE_V1 \<and>
   offset_of c_bpobj_phys ''bpo_num_freed'' = Some BPOBJ_SIZE_V2 \<and>
   offset_of c_zfs_bookmark_phys ''zbm_redaction_obj'' = Some BOOKMARK_PHYS_SIZE_V1 \<and>
   size_of 8 c_zfs_bookmark_phys = BOOKMARK_PHYS_SIZE_V2 \<and>
   offset_of c_space_map_phys ''smp_pad'' = Some SPACE_MAP_SIZE_V0 \<and>
   offset_of c_vdev_indirect_mapping_phys ''vimp_counts_object'' = Some VDEV_INDIRECT_MAPPING_SIZE_V0 \<and>
   offset_of c_objset_phys ''os_userused_dnode'' = Some OBJSET_PHYS_SIZE_V1 \<and>
   offset_of c_objset_phys ''os_projectused_dnode'' = Some OBJSET_PHYS_SIZE_V2 \<and>
   (\<forall>n. OBJSET_BUF_HAS_USERUSED n \<longrightarrow> member_within c_objset_phys n ''os_userused_dnode'' \<and>
      member_within c_objset_phys n ''os_groupused_dnode'') \<and>
   (\<forall>n. OBJSET_BUF_HAS_PROJECTUSED n \<longrightarrow> member_within c_objset_phys n ''os_projectused_dnode'') \<and>
   \<not> member_within c_objset_phys OBJSET_PHYS_SIZE_V1 ''os_userused_dnode'' \<and>
   \<not> member_within c_objset_phys OBJSET_PHYS_SIZE_V2 ''os_projectused_dnode''"
proof -
  have "offset_of c_bpobj_phys ''bpo_comp'' = Some 16" "offset_of c_bpobj_phys ''bpo_subobjs'' = Some 32"
    "offset_of c_bpobj_phys ''bpo_num_freed'' = Some 48"
    by (simp_all add: offset_of_def c_bpobj_phys_def pad_to_def)
  moreover have "offset_of c_zfs_bookmark_phys ''zbm_redaction_obj'' = Some 24"
    by (simp add: offset_of_def c_zfs_bookmark_phys_def pad_to_def)
  moreover have "offset_of c_space_map_phys ''smp_pad'' = Some 24"
    by (simp add: offset_of_def c_space_map_phys_def pad_to_def)
  moreover have "offset_of c_vdev_indirect_mapping_phys ''vimp_counts_object'' = Some 24"
    by (simp add: offset_of_def c_vdev_indirect_mapping_phys_def pad_to_def)
  moreover have os: "offset_of c_objset_phys ''os_userused_dnode'' = Some 1024"
    "offset_of c_objset_phys ''os_groupused_dnode'' = Some 1536"
    "offset_of c_objset_phys ''os_projectused_dnode'' = Some 2048"
    by (simp_all add: offset_of_def c_objset_phys_def pad_to_def size_macros phys_sizes)
  moreover have "map_of (members c_objset_phys) ''os_userused_dnode'' = Some dnode_phys"
    "map_of (members c_objset_phys) ''os_groupused_dnode'' = Some dnode_phys"
    "map_of (members c_objset_phys) ''os_projectused_dnode'' = Some dnode_phys"
    by (simp_all add: c_objset_phys_def)
  ultimately show ?thesis
    by (simp add: size_macros phys_sizes member_within_def OBJSET_BUF_HAS_USERUSED_def OBJSET_BUF_HAS_PROJECTUSED_def)
qed

theorem old_versions_are_prefixes_witness:
  "OBJSET_BUF_HAS_USERUSED 2048 \<and> member_within c_objset_phys 2048 ''os_userused_dnode'' \<and>
   OBJSET_BUF_HAS_PROJECTUSED 4096 \<and> member_within c_objset_phys 4096 ''os_projectused_dnode''"
proof -
  have b: "OBJSET_BUF_HAS_USERUSED 2048" "OBJSET_BUF_HAS_PROJECTUSED 4096"
    by (simp_all add: OBJSET_BUF_HAS_USERUSED_def OBJSET_BUF_HAS_PROJECTUSED_def size_macros)
  then show ?thesis
    using old_versions_are_prefixes by blast
qed

text \<open>
  What is kept in a bonus buffer fits the smallest dnode: the largest of them, a dataset, a
  deadlist and a space map, fill its 320 bytes exactly.
\<close>

theorem bonus_structures_fit:
  "list_all (\<lambda>t. int (size_of 8 t) \<le> DN_OLD_MAX_BONUSLEN)
     [c_dsl_dataset_phys, c_dsl_deadlist_phys, c_dsl_dir_phys, c_bpobj_phys, c_space_map_phys, c_znode_phys,
      c_spa_history_phys, c_vdev_indirect_birth_phys, c_vdev_indirect_mapping_phys, c_redaction_list_phys] \<and>
   int (size_of 8 c_dsl_dataset_phys) = DN_OLD_MAX_BONUSLEN \<and> int (size_of 8 c_space_map_phys) = DN_OLD_MAX_BONUSLEN"
  by (simp add: phys_sizes dnode_values)

text \<open>
  The structures that are byte swapped or stored as arrays of 64-bit words hold nothing else, and the
  macros count their words; the members of the old znode are where their comments say, and the
  version of an ACL, old or new, is at the same place.
\<close>

theorem swapped_as_words:
  "list_all words_only [c_dsl_scan_phys, c_dsl_errorscrub_phys, c_spa_removing_phys, c_vdev_rebuild_phys] \<and>
   SCAN_PHYS_NUMINTS = 24 \<and> ERRORSCRUB_PHYS_NUMINTS = 9 \<and> size_of 8 c_vdev_rebuild_phys = REBUILD_PHYS_ENTRIES * 8"
  by (simp add: c_dsl_scan_phys_def c_dsl_errorscrub_phys_def c_spa_removing_phys_def c_vdev_rebuild_phys_def
      c_ddt_bookmark_def c_zbookmark_phys_def SCAN_PHYS_NUMINTS_def ERRORSCRUB_PHYS_NUMINTS_def REBUILD_PHYS_ENTRIES_def
      pad_to_def)

theorem znode_comment_offsets:
  "offsets 8 0 (members c_znode_phys) = [(''zp_atime'', 0), (''zp_mtime'', 16), (''zp_ctime'', 32), (''zp_crtime'', 48),
     (''zp_gen'', 64), (''zp_mode'', 72), (''zp_size'', 80), (''zp_parent'', 88), (''zp_links'', 96), (''zp_xattr'', 104),
     (''zp_rdev'', 112), (''zp_flags'', 120), (''zp_uid'', 128), (''zp_gid'', 136), (''zp_zap'', 144), (''zp_pad'', 152),
     (''zp_acl'', 176)] \<and> size_of 8 c_znode_phys = 264 \<and>
   offset_of c_zfs_acl_phys_v0 ''z_acl_version'' = offset_of c_zfs_acl_phys ''z_acl_version'' \<and>
   size_of 8 c_zfs_acl_phys_v0 = size_of 8 c_zfs_acl_phys"
  by (simp add: c_znode_phys_def offset_of_def c_zfs_acl_phys_v0_def c_zfs_acl_phys_def phys_sizes pad_to_def size_macros)

end
