(* ===== verification/Vdev_Label.thy ===== *)
theory Vdev_Label
  imports Phys_Layouts Sysmacros Uberblock
begin

unbundle bit_operations_syntax

text \<open>
  The label of a device (\<open>compat/openzfs/sys/vdev_impl.h\<close>): padding, boot environment, configuration
  and the ring of uberblocks, the geometry of that ring for the sector size of the device, and the
  regions that labels and boot loader take from the device. A device is its two sizes.
\<close>

section \<open>Sizes and structures\<close>

definition VDEV_PAD_SIZE :: nat where "VDEV_PAD_SIZE = push_bit 10 8"
definition VDEV_SKIP_SIZE :: nat where "VDEV_SKIP_SIZE = VDEV_PAD_SIZE * 2"
definition VDEV_PHYS_SIZE :: nat where "VDEV_PHYS_SIZE = push_bit 10 112"
definition VDEV_UBERBLOCK_RING :: nat where "VDEV_UBERBLOCK_RING = push_bit 10 128"
definition MMP_BLOCKS_PER_LABEL :: nat where "MMP_BLOCKS_PER_LABEL = 1"
definition MAX_UBERBLOCK_SHIFT :: u64 where "MAX_UBERBLOCK_SHIFT = 13"

lemmas label_macros = VDEV_PAD_SIZE_def VDEV_SKIP_SIZE_def VDEV_PHYS_SIZE_def VDEV_UBERBLOCK_RING_def
  MMP_BLOCKS_PER_LABEL_def

definition c_uberblock :: ctype where
  "c_uberblock = CStruct [(''ub_magic'', c_u64), (''ub_version'', c_u64), (''ub_txg'', c_u64),
    (''ub_guid_sum'', c_u64), (''ub_timestamp'', c_u64), (''ub_rootbp'', c_blkptr),
    (''ub_software_version'', c_u64), (''ub_mmp_magic'', c_u64), (''ub_mmp_delay'', c_u64),
    (''ub_mmp_config'', c_u64), (''ub_checkpoint_txg'', c_u64), (''ub_raidz_reflow_info'', c_u64)]"

lemma uberblock_layout [phys_sizes]: "size_of 8 c_uberblock = 216" "size_of 4 c_uberblock = 216" "align_of 8 c_uberblock = 8"
  "align_of 4 c_uberblock = 4" "sealed c_uberblock"
  by (simp_all add: c_uberblock_def sealed_defs label_macros pad_to_def phys_sizes layout_simps)

definition c_vdev_phys :: ctype where
  "c_vdev_phys = CStruct [(''vp_nvlist'', CArray (VDEV_PHYS_SIZE - size_of 8 c_zio_eck) c_u8),
    (''vp_zbt'', c_zio_eck)]"

lemma vdev_phys_layout [phys_sizes]: "size_of 8 c_vdev_phys = 114688" "size_of 4 c_vdev_phys = 114688" "align_of 8 c_vdev_phys = 8"
  "align_of 4 c_vdev_phys = 4" "sealed c_vdev_phys"
  by (simp_all add: c_vdev_phys_def sealed_defs label_macros pad_to_def phys_sizes layout_simps)

definition c_vdev_boot_envblock :: ctype where
  "c_vdev_boot_envblock = CStruct [(''vbe_version'', c_u64),
    (''vbe_bootenv'', CArray (VDEV_PAD_SIZE - size_of 8 c_u64 - size_of 8 c_zio_eck) c_u8),
    (''vbe_zbt'', c_zio_eck)]"

lemma vdev_boot_envblock_layout [phys_sizes]: "size_of 8 c_vdev_boot_envblock = 8192" "size_of 4 c_vdev_boot_envblock = 8192" "align_of 8 c_vdev_boot_envblock = 8"
  "align_of 4 c_vdev_boot_envblock = 4" "sealed c_vdev_boot_envblock"
  by (simp_all add: c_vdev_boot_envblock_def sealed_defs label_macros pad_to_def phys_sizes layout_simps)

definition c_vdev_label :: ctype where
  "c_vdev_label = CStruct [(''vl_pad1'', CArray VDEV_PAD_SIZE c_u8), (''vl_be'', c_vdev_boot_envblock),
    (''vl_vdev_phys'', c_vdev_phys), (''vl_uberblock'', CArray VDEV_UBERBLOCK_RING c_u8)]"

lemma vdev_label_layout [phys_sizes]: "size_of 8 c_vdev_label = 262144" "size_of 4 c_vdev_label = 262144" "align_of 8 c_vdev_label = 8"
  "align_of 4 c_vdev_label = 4" "sealed c_vdev_label"
  by (simp_all add: c_vdev_label_def sealed_defs label_macros pad_to_def phys_sizes layout_simps)

section \<open>The ring of uberblocks\<close>

record vdev =
  vdev_top_ashift :: u64
  vdev_psize :: u64

definition VDEV_UBERBLOCK_SHIFT :: "vdev \<Rightarrow> u64" where
  "VDEV_UBERBLOCK_SHIFT vd = c_MIN (c_MAX (vdev_top_ashift vd) (of_nat UBERBLOCK_SHIFT)) MAX_UBERBLOCK_SHIFT"

definition VDEV_UBERBLOCK_COUNT :: "vdev \<Rightarrow> nat" where
  "VDEV_UBERBLOCK_COUNT vd = drop_bit (unat (VDEV_UBERBLOCK_SHIFT vd)) VDEV_UBERBLOCK_RING"

definition VDEV_UBERBLOCK_OFFSET :: "vdev \<Rightarrow> nat \<Rightarrow> nat" where
  "VDEV_UBERBLOCK_OFFSET vd n = the (offset_of c_vdev_label ''vl_uberblock'') + push_bit (unat (VDEV_UBERBLOCK_SHIFT vd)) n"

definition VDEV_UBERBLOCK_SIZE :: "vdev \<Rightarrow> u64" where
  "VDEV_UBERBLOCK_SIZE vd = push_bit (unat (VDEV_UBERBLOCK_SHIFT vd)) 1"

section \<open>Regions of the device\<close>

definition sizeof_vdev_label :: u64 where "sizeof_vdev_label = of_nat (size_of 8 c_vdev_label)"

definition VDEV_BOOT_OFFSET :: u64 where "VDEV_BOOT_OFFSET = 2 * sizeof_vdev_label"
definition VDEV_BOOT_SIZE :: u64 where "VDEV_BOOT_SIZE = push_bit 19 7"
definition VDEV_LABEL_START_SIZE :: u64 where "VDEV_LABEL_START_SIZE = 2 * sizeof_vdev_label + VDEV_BOOT_SIZE"
definition VDEV_LABEL_END_SIZE :: u64 where "VDEV_LABEL_END_SIZE = 2 * sizeof_vdev_label"
definition VDEV_LABELS :: nat where "VDEV_LABELS = 4"
definition VDEV_BEST_LABEL :: nat where "VDEV_BEST_LABEL = VDEV_LABELS"

definition VDEV_OFFSET_IS_LABEL :: "vdev \<Rightarrow> u64 \<Rightarrow> bool" where
  "VDEV_OFFSET_IS_LABEL vd off \<longleftrightarrow> off < VDEV_LABEL_START_SIZE \<or> vdev_psize vd - VDEV_LABEL_END_SIZE \<le> off"

section \<open>Properties\<close>

lemma label_offsets:
  "offset_of c_vdev_label ''vl_be'' = Some (8 * 1024)" "offset_of c_vdev_label ''vl_vdev_phys'' = Some (16 * 1024)"
  "offset_of c_vdev_label ''vl_uberblock'' = Some (128 * 1024)"
  by (simp_all add: offset_of_def c_vdev_label_def phys_sizes label_macros pad_to_def)

lemma label_sizes:
  "sizeof_vdev_label = 0x40000" "VDEV_LABEL_START_SIZE = 0x400000" "VDEV_LABEL_END_SIZE = 0x80000"
  by (simp_all add: sizeof_vdev_label_def phys_sizes VDEV_LABEL_START_SIZE_def VDEV_LABEL_END_SIZE_def VDEV_BOOT_SIZE_def
      push_bit_eq_mult)

lemma uberblock_shift_value:
  "unat (VDEV_UBERBLOCK_SHIFT vd) = min (max (unat (vdev_top_ashift vd)) 10) 13"
  by (simp add: VDEV_UBERBLOCK_SHIFT_def c_MIN_def c_MAX_def UBERBLOCK_SHIFT_def MAX_UBERBLOCK_SHIFT_def word_less_nat_alt
      min_def max_def)

text \<open>
  C28. Whatever the sector size of the device, the slots of the uberblock ring tile the second half
  of the 256K label: they are between 16 and 128, each of 1K to 8K, start where the one before
  ends, the first behind the configuration and the last at the end of the label, and each holds an
  uberblock with its checksum. With sectors of up to 8K every slot is a whole number of sectors at
  a sector boundary of the label, so that rewriting one touches no other.
\<close>

theorem uberblock_ring_tiles_label:
  "size_of 8 c_vdev_label = 256 * 1024 \<and>
   VDEV_UBERBLOCK_OFFSET vd 0 = VDEV_SKIP_SIZE + VDEV_PHYS_SIZE \<and>
   (\<forall>n. VDEV_UBERBLOCK_OFFSET vd (n + 1) = VDEV_UBERBLOCK_OFFSET vd n + unat (VDEV_UBERBLOCK_SIZE vd)) \<and>
   VDEV_UBERBLOCK_OFFSET vd (VDEV_UBERBLOCK_COUNT vd) = size_of 8 c_vdev_label \<and>
   VDEV_UBERBLOCK_COUNT vd \<in> {16, 32, 64, 128} \<and> MMP_BLOCKS_PER_LABEL < VDEV_UBERBLOCK_COUNT vd \<and>
   size_of 8 c_uberblock + size_of 8 c_zio_eck \<le> unat (VDEV_UBERBLOCK_SIZE vd) \<and>
   (vdev_top_ashift vd \<le> MAX_UBERBLOCK_SHIFT \<longrightarrow>
     2 ^ unat (vdev_top_ashift vd) dvd unat (VDEV_UBERBLOCK_SIZE vd) \<and>
     (\<forall>n. 2 ^ unat (vdev_top_ashift vd) dvd VDEV_UBERBLOCK_OFFSET vd n))"
proof -
  let ?s = "unat (VDEV_UBERBLOCK_SHIFT vd)"
  have s: "?s = 10 \<or> ?s = 11 \<or> ?s = 12 \<or> ?s = 13" unfolding uberblock_shift_value by linarith
  have size: "unat (VDEV_UBERBLOCK_SIZE vd) = 2 ^ ?s"
    using s by (auto simp: VDEV_UBERBLOCK_SIZE_def)
  have off: "VDEV_UBERBLOCK_OFFSET vd n = 128 * 1024 + n * 2 ^ ?s" for n
    by (simp add: VDEV_UBERBLOCK_OFFSET_def label_offsets push_bit_eq_mult)
  have count: "VDEV_UBERBLOCK_COUNT vd = 128 * 1024 div 2 ^ ?s"
    by (simp add: VDEV_UBERBLOCK_COUNT_def drop_bit_eq_div label_macros push_bit_eq_mult)
  have dvd: "2 ^ unat (vdev_top_ashift vd) dvd (2 ^ ?s :: nat)" if "vdev_top_ashift vd \<le> MAX_UBERBLOCK_SHIFT"
  proof (rule le_imp_power_dvd)
    show "unat (vdev_top_ashift vd) \<le> ?s"
      using that unfolding uberblock_shift_value by (simp add: MAX_UBERBLOCK_SHIFT_def word_le_nat_alt)
  qed
  moreover have "(2 ^ ?s :: nat) dvd 128 * 1024" using s by auto
  ultimately have "2 ^ unat (vdev_top_ashift vd) dvd VDEV_UBERBLOCK_OFFSET vd n" if "vdev_top_ashift vd \<le> MAX_UBERBLOCK_SHIFT" for n
    unfolding off using that by (meson dvd_add dvd_mult dvd_trans)
  then show ?thesis
    using s dvd by (auto simp: size off count phys_sizes label_macros)
qed

theorem uberblock_ring_tiles_label_witness:
  "VDEV_UBERBLOCK_OFFSET \<lparr>vdev_top_ashift = 12, vdev_psize = 0x10000000\<rparr> 31 = 252 * 1024 \<and>
   2 ^ 12 dvd VDEV_UBERBLOCK_OFFSET \<lparr>vdev_top_ashift = 12, vdev_psize = 0x10000000\<rparr> 31"
  using uberblock_ring_tiles_label [of "\<lparr>vdev_top_ashift = 12, vdev_psize = 0x10000000\<rparr>"]
  by (simp add: VDEV_UBERBLOCK_OFFSET_def label_offsets VDEV_UBERBLOCK_SHIFT_def c_MIN_def c_MAX_def UBERBLOCK_SHIFT_def
      MAX_UBERBLOCK_SHIFT_def push_bit_eq_mult)

text \<open>
  On a device that has room for its four labels, an offset is a label offset exactly if it is
  in the first 4M (two labels and the boot region behind them) or in the last two labels of 256K;
  on a smaller one the size of the end region wraps around, and of the offsets behind the first 4M only
  those near the top of the 64-bit range are still recognised.
\<close>

theorem label_offsets_recognised:
  "(0x80000 \<le> vdev_psize vd \<longrightarrow>
     (VDEV_OFFSET_IS_LABEL vd off \<longleftrightarrow> unat off < 4 * 1024 * 1024 \<or> unat (vdev_psize vd) - 2 * (256 * 1024) \<le> unat off)) \<and>
   (vdev_psize vd < 0x80000 \<longrightarrow>
     (VDEV_OFFSET_IS_LABEL vd off \<longleftrightarrow> unat off < 4 * 1024 * 1024 \<or>
        2 ^ 64 - (2 * (256 * 1024) - unat (vdev_psize vd)) \<le> unat off)) \<and>
   VDEV_BOOT_OFFSET + VDEV_BOOT_SIZE = VDEV_LABEL_START_SIZE \<and> unat VDEV_LABEL_START_SIZE = 4 * 1024 * 1024"
proof -
  have "unat (vdev_psize vd - 0x80000) = unat (vdev_psize vd) - 2 * (256 * 1024)" if "0x80000 \<le> vdev_psize vd"
    using that by (simp add: unat_sub)
  moreover have "unat (vdev_psize vd - 0x80000) = 2 ^ 64 - (2 * (256 * 1024) - unat (vdev_psize vd))"
    if "vdev_psize vd < 0x80000"
    using that by (simp add: unat_sub_if' word_less_nat_alt)
  ultimately show ?thesis
    by (auto simp: VDEV_OFFSET_IS_LABEL_def label_sizes VDEV_BOOT_OFFSET_def VDEV_BOOT_SIZE_def push_bit_eq_mult
        word_less_nat_alt word_le_nat_alt)
qed

theorem label_offsets_recognised_witness:
  "VDEV_OFFSET_IS_LABEL \<lparr>vdev_top_ashift = 9, vdev_psize = 0x40000000\<rparr> 0x3FF80000 \<and>
   \<not> VDEV_OFFSET_IS_LABEL \<lparr>vdev_top_ashift = 9, vdev_psize = 0\<rparr> 0x400000"
  using label_offsets_recognised [of "\<lparr>vdev_top_ashift = 9, vdev_psize = 0x40000000\<rparr>" "0x3FF80000"]
    label_offsets_recognised [of "\<lparr>vdev_top_ashift = 9, vdev_psize = 0\<rparr>" "0x400000"] by simp

end
