(* ===== verification/Assertions.thy ===== *)
theory Assertions
  imports Blkptr_Print
begin

text \<open>
  The assertion macros of the two kernels (\<open>compat/openzfs/os/linux/spl/sys/debug.h\<close> and the same of
  \<open>freebsd\<close>) and of user space (\<open>compat/spl/assert.h\<close>). An assertion is its macro with, for each
  argument, the text the preprocessor turns it into and its value; checking it passes or panics with
  a message, which the formatting functions make from a format and the converted values. A format
  with a conversion that the macros do not use has no defined message. \<open>fp\<close> prints a pointer.
\<close>

section \<open>Formatted messages\<close>

datatype farg = FWord u64 | FStr string

definition lld :: "u64 \<Rightarrow> string" where
  "lld x = (if sint x < 0 then CHR ''-'' # utoa 10 (nat (- sint x)) else utoa 10 (nat (sint x)))"

definition pct_d :: "u64 \<Rightarrow> string" where "pct_d x = lld (scast (ucast x :: u32))"

definition percent :: char where "percent = CHR 0x25"

fun c_printf :: "(string \<Rightarrow> u64 \<Rightarrow> string) \<Rightarrow> string \<Rightarrow> farg list \<Rightarrow> string option" where
  "c_printf fp [] as = Some []"
| "c_printf fp (c # f) as =
    (if c \<noteq> percent then map_option ((#) c) (c_printf fp f as)
     else (case as of
        FStr s # as' \<Rightarrow> (if take 1 f = ''s'' then map_option ((@) s) (c_printf fp (drop 1 f) as') else None)
      | FWord x # as' \<Rightarrow>
         (if take 3 f = ''lld'' then map_option ((@) (lld x)) (c_printf fp (drop 3 f) as')
          else if take 3 f = ''llu'' then map_option ((@) (llu x)) (c_printf fp (drop 3 f) as')
          else if take 1 f = ''d'' then map_option ((@) (pct_d x)) (c_printf fp (drop 1 f) as')
          else if take 2 f = ''px'' then map_option ((@) (fp ''px'' x)) (c_printf fp (drop 2 f) as')
          else if take 1 f = ''p'' then map_option ((@) (fp ''p'' x)) (c_printf fp (drop 1 f) as')
          else None)
      | [] \<Rightarrow> None))"

datatype outcome = Pass | Panic "string option"

section \<open>The macros\<close>

datatype cmp = C_eq | C_ne | C_lt | C_le | C_gt | C_ge

fun cmp_text :: "cmp \<Rightarrow> string" where
  "cmp_text C_eq = ''==''" | "cmp_text C_ne = ''!=''" | "cmp_text C_lt = ''<''"
| "cmp_text C_le = ''<=''" | "cmp_text C_gt = ''>''" | "cmp_text C_ge = ''>=''"

fun cmp_holds :: "cmp \<Rightarrow> 'a::linorder \<Rightarrow> 'a \<Rightarrow> bool" where
  "cmp_holds C_eq a b \<longleftrightarrow> a = b" | "cmp_holds C_ne a b \<longleftrightarrow> a \<noteq> b" | "cmp_holds C_lt a b \<longleftrightarrow> a < b"
| "cmp_holds C_le a b \<longleftrightarrow> a \<le> b" | "cmp_holds C_gt a b \<longleftrightarrow> b < a" | "cmp_holds C_ge a b \<longleftrightarrow> b \<le> a"

text \<open>
  An argument: its text and its mathematical value, with the casts of the macros. The forms: a
  condition; a comparison as booleans, signed, unsigned or pointers; a value or pointer that is zero;
  each with a message of the caller or without; implication and equivalence.
\<close>

type_synonym c_expr = "string \<times> int"

definition as_word :: "c_expr \<Rightarrow> u64" where "as_word e = of_int (snd e)"
definition as_signed :: "c_expr \<Rightarrow> int" where "as_signed e = sint (as_word e)"
definition as_bool :: "c_expr \<Rightarrow> u64" where "as_bool e = (if snd e \<noteq> 0 then 1 else 0)"

datatype assertion =
    Cond c_expr
  | CondF c_expr string "farg list"
  | CmpB c_expr cmp c_expr | CmpS c_expr cmp c_expr | CmpU c_expr cmp c_expr | CmpP c_expr cmp c_expr
  | Zero c_expr | ZeroP c_expr
  | CmpBF c_expr cmp c_expr string "farg list" | CmpSF c_expr cmp c_expr string "farg list"
  | CmpUF c_expr cmp c_expr string "farg list" | CmpPF c_expr cmp c_expr string "farg list"
  | ZeroF c_expr string "farg list" | ZeroPF c_expr string "farg list"
  | Implies c_expr c_expr
  | Equiv c_expr c_expr

definition newline :: string where "newline = [CHR 0x0A]"

definition linux_spl_panic :: "(string \<Rightarrow> u64 \<Rightarrow> string) \<Rightarrow> string \<Rightarrow> farg list \<Rightarrow> outcome" where
  "linux_spl_panic fp fmt args = Panic (c_printf fp fmt args)"

definition linux_spl_assert :: "(string \<Rightarrow> u64 \<Rightarrow> string) \<Rightarrow> string \<Rightarrow> outcome" where
  "linux_spl_assert fp buf = linux_spl_panic fp ''%s'' [FStr buf]"

definition linux_VERIFY3B :: "(string \<Rightarrow> u64 \<Rightarrow> string) \<Rightarrow> c_expr \<Rightarrow> cmp \<Rightarrow> c_expr \<Rightarrow> outcome" where
  "linux_VERIFY3B fp l op r =
    (if \<not> cmp_holds op (as_bool l) (as_bool r) then linux_spl_panic fp (''VERIFY3B('' @ fst l @ '', '' @ cmp_text op @ '', '' @ fst r @ '') '' @
       ''failed (%d '' @ cmp_text op @ '' %d)'' @ newline) [FWord (as_bool l), FWord (as_bool r)] else Pass)"

fun linux_VERIFY :: "(string \<Rightarrow> u64 \<Rightarrow> string) \<Rightarrow> assertion \<Rightarrow> outcome" where
  "linux_VERIFY fp (Cond c) =
    (if \<not> snd c \<noteq> 0 then linux_spl_assert fp (''VERIFY('' @ fst c @ '') failed'' @ newline) else Pass)"
| "linux_VERIFY fp (CondF c str va) =
    (if \<not> snd c \<noteq> 0 then linux_spl_panic fp (''VERIFY('' @ fst c @ '') failed '' @ str @ newline) va else Pass)"
| "linux_VERIFY fp (CmpB l op r) = linux_VERIFY3B fp l op r"
| "linux_VERIFY fp (CmpS l op r) =
    (if \<not> cmp_holds op (as_signed l) (as_signed r) then linux_spl_panic fp (''VERIFY3S('' @ fst l @ '', '' @ cmp_text op @ '', '' @ fst r @ '') '' @
       ''failed (%lld '' @ cmp_text op @ '' %lld)'' @ newline) [FWord (as_word l), FWord (as_word r)] else Pass)"
| "linux_VERIFY fp (CmpU l op r) =
    (if \<not> cmp_holds op (as_word l) (as_word r) then linux_spl_panic fp (''VERIFY3U('' @ fst l @ '', '' @ cmp_text op @ '', '' @ fst r @ '') '' @
       ''failed (%llu '' @ cmp_text op @ '' %llu)'' @ newline) [FWord (as_word l), FWord (as_word r)] else Pass)"
| "linux_VERIFY fp (CmpP l op r) =
    (if \<not> cmp_holds op (as_word l) (as_word r) then linux_spl_panic fp (''VERIFY3P('' @ fst l @ '', '' @ cmp_text op @ '', '' @ fst r @ '') '' @
       ''failed (%px '' @ cmp_text op @ '' %px)'' @ newline) [FWord (as_word l), FWord (as_word r)] else Pass)"
| "linux_VERIFY fp (Zero r) =
    (if \<not> 0 = as_signed r then linux_spl_panic fp (''VERIFY0('' @ fst r @ '') failed (%lld)'' @ newline) [FWord (as_word r)]
     else Pass)"
| "linux_VERIFY fp (ZeroP r) =
    (if \<not> 0 = as_word r then linux_spl_panic fp (''VERIFY0P('' @ fst r @ '') failed (%px)'' @ newline) [FWord (as_word r)]
     else Pass)"
| "linux_VERIFY fp (CmpBF l op r str va) =
    (if \<not> cmp_holds op (as_bool l) (as_bool r) then linux_spl_panic fp (''VERIFY3B('' @ fst l @ '', '' @ cmp_text op @ '', '' @ fst r @ '') '' @
       ''failed (%d '' @ cmp_text op @ '' %d) '' @ str @ newline) ([FWord (as_bool l), FWord (as_bool r)] @ va) else Pass)"
| "linux_VERIFY fp (CmpSF l op r str va) =
    (if \<not> cmp_holds op (as_signed l) (as_signed r) then linux_spl_panic fp (''VERIFY3S('' @ fst l @ '', '' @ cmp_text op @ '', '' @ fst r @ '') '' @
       ''failed (%lld '' @ cmp_text op @ '' %lld) '' @ str @ newline) ([FWord (as_word l), FWord (as_word r)] @ va) else Pass)"
| "linux_VERIFY fp (CmpUF l op r str va) =
    (if \<not> cmp_holds op (as_word l) (as_word r) then linux_spl_panic fp (''VERIFY3U('' @ fst l @ '', '' @ cmp_text op @ '', '' @ fst r @ '') '' @
       ''failed (%llu '' @ cmp_text op @ '' %llu) '' @ str @ newline) ([FWord (as_word l), FWord (as_word r)] @ va) else Pass)"
| "linux_VERIFY fp (CmpPF l op r str va) =
    (if \<not> cmp_holds op (as_word l) (as_word r) then linux_spl_panic fp (''VERIFY3P('' @ fst l @ '', '' @ cmp_text op @ '', '' @ fst r @ '') '' @
       ''failed (%px '' @ cmp_text op @ '' %px) '' @ str @ newline) ([FWord (as_word l), FWord (as_word r)] @ va) else Pass)"
| "linux_VERIFY fp (ZeroPF r str va) =
    (if \<not> 0 = as_word r then linux_spl_panic fp (''VERIFY0P('' @ fst r @ '') failed (%px) '' @ str @ newline)
       ([FWord (as_word r)] @ va) else Pass)"
| "linux_VERIFY fp (ZeroF r str va) =
    (if \<not> 0 = as_signed r then linux_spl_panic fp (''VERIFY0('' @ fst r @ '') failed (%lld) '' @ str @ newline)
       ([FWord (as_word r)] @ va) else Pass)"
| "linux_VERIFY fp (Implies a b) =
    (if \<not> snd a \<noteq> 0 \<or> snd b \<noteq> 0 then Pass
     else linux_spl_assert fp (''('' @ fst a @ '') implies ('' @ fst b @ '')''))"
| "linux_VERIFY fp (Equiv a b) = linux_VERIFY3B fp a C_eq b"

text \<open>In a build without assertions the arguments are only sized, not evaluated.\<close>

definition linux_ASSERT :: "bool \<Rightarrow> (string \<Rightarrow> u64 \<Rightarrow> string) \<Rightarrow> assertion \<Rightarrow> outcome" where
  "linux_ASSERT nd fp a = (if nd then Pass else linux_VERIFY fp a)"


definition freebsd_spl_panic :: "(string \<Rightarrow> u64 \<Rightarrow> string) \<Rightarrow> string \<Rightarrow> farg list \<Rightarrow> outcome" where
  "freebsd_spl_panic fp fmt args = Panic (c_printf fp fmt args)"

definition freebsd_spl_assert :: "(string \<Rightarrow> u64 \<Rightarrow> string) \<Rightarrow> string \<Rightarrow> outcome" where
  "freebsd_spl_assert fp buf = freebsd_spl_panic fp ''%s'' [FStr buf]"

definition freebsd_VERIFY3B :: "(string \<Rightarrow> u64 \<Rightarrow> string) \<Rightarrow> c_expr \<Rightarrow> cmp \<Rightarrow> c_expr \<Rightarrow> outcome" where
  "freebsd_VERIFY3B fp l op r =
    (if \<not> cmp_holds op (as_bool l) (as_bool r) then freebsd_spl_panic fp (''VERIFY3B('' @ fst l @ '', '' @ cmp_text op @ '', '' @ fst r @ '') '' @
       ''failed (%d '' @ cmp_text op @ '' %d)'' @ newline) [FWord (as_bool l), FWord (as_bool r)] else Pass)"

fun freebsd_VERIFY :: "(string \<Rightarrow> u64 \<Rightarrow> string) \<Rightarrow> assertion \<Rightarrow> outcome" where
  "freebsd_VERIFY fp (Cond c) =
    (if \<not> snd c \<noteq> 0 then freebsd_spl_assert fp (''VERIFY('' @ fst c @ '') failed'' @ newline) else Pass)"
| "freebsd_VERIFY fp (CondF c str va) =
    (if \<not> snd c \<noteq> 0 then freebsd_spl_panic fp (''VERIFY('' @ fst c @ '') failed '' @ str @ newline) va else Pass)"
| "freebsd_VERIFY fp (CmpB l op r) = freebsd_VERIFY3B fp l op r"
| "freebsd_VERIFY fp (CmpS l op r) =
    (if \<not> cmp_holds op (as_signed l) (as_signed r) then freebsd_spl_panic fp (''VERIFY3S('' @ fst l @ '', '' @ cmp_text op @ '', '' @ fst r @ '') '' @
       ''failed (%lld '' @ cmp_text op @ '' %lld)'' @ newline) [FWord (as_word l), FWord (as_word r)] else Pass)"
| "freebsd_VERIFY fp (CmpU l op r) =
    (if \<not> cmp_holds op (as_word l) (as_word r) then freebsd_spl_panic fp (''VERIFY3U('' @ fst l @ '', '' @ cmp_text op @ '', '' @ fst r @ '') '' @
       ''failed (%llu '' @ cmp_text op @ '' %llu)'' @ newline) [FWord (as_word l), FWord (as_word r)] else Pass)"
| "freebsd_VERIFY fp (CmpP l op r) =
    (if \<not> cmp_holds op (as_word l) (as_word r) then freebsd_spl_panic fp (''VERIFY3P('' @ fst l @ '', '' @ cmp_text op @ '', '' @ fst r @ '') '' @
       ''failed (%p '' @ cmp_text op @ '' %p)'' @ newline) [FWord (as_word l), FWord (as_word r)] else Pass)"
| "freebsd_VERIFY fp (Zero r) =
    (if \<not> 0 = as_signed r then freebsd_spl_panic fp (''VERIFY0('' @ fst r @ '') failed (%lld)'' @ newline) [FWord (as_word r)]
     else Pass)"
| "freebsd_VERIFY fp (ZeroP r) =
    (if \<not> 0 = as_word r then freebsd_spl_panic fp (''VERIFY0P('' @ fst r @ '') failed (%p)'' @ newline) [FWord (as_word r)]
     else Pass)"
| "freebsd_VERIFY fp (CmpBF l op r str va) =
    (if \<not> cmp_holds op (as_bool l) (as_bool r) then freebsd_spl_panic fp (''VERIFY3B('' @ fst l @ '', '' @ cmp_text op @ '', '' @ fst r @ '') '' @
       ''failed (%d '' @ cmp_text op @ '' %d) '' @ str @ newline) ([FWord (as_bool l), FWord (as_bool r)] @ va) else Pass)"
| "freebsd_VERIFY fp (CmpSF l op r str va) =
    (if \<not> cmp_holds op (as_signed l) (as_signed r) then freebsd_spl_panic fp (''VERIFY3S('' @ fst l @ '', '' @ cmp_text op @ '', '' @ fst r @ '') '' @
       ''failed (%lld '' @ cmp_text op @ '' %lld) '' @ str @ newline) ([FWord (as_word l), FWord (as_word r)] @ va) else Pass)"
| "freebsd_VERIFY fp (CmpUF l op r str va) =
    (if \<not> cmp_holds op (as_word l) (as_word r) then freebsd_spl_panic fp (''VERIFY3U('' @ fst l @ '', '' @ cmp_text op @ '', '' @ fst r @ '') '' @
       ''failed (%llu '' @ cmp_text op @ '' %llu) '' @ str @ newline) ([FWord (as_word l), FWord (as_word r)] @ va) else Pass)"
| "freebsd_VERIFY fp (CmpPF l op r str va) =
    (if \<not> cmp_holds op (as_word l) (as_word r) then freebsd_spl_panic fp (''VERIFY3P('' @ fst l @ '', '' @ cmp_text op @ '', '' @ fst r @ '') '' @
       ''failed (%p '' @ cmp_text op @ '' %p) '' @ str @ newline) ([FWord (as_word l), FWord (as_word r)] @ va) else Pass)"
| "freebsd_VERIFY fp (ZeroPF r str va) =
    (if \<not> 0 = as_word r then freebsd_spl_panic fp (''VERIFY0P('' @ fst r @ '') failed (%p) '' @ str @ newline)
       ([FWord (as_word r)] @ va) else Pass)"
| "freebsd_VERIFY fp (ZeroF r str va) =
    (if \<not> 0 = as_signed r then freebsd_spl_panic fp (''VERIFY0('' @ fst r @ '') failed (%lld) '' @ str @ newline)
       ([FWord (as_word r)] @ va) else Pass)"
| "freebsd_VERIFY fp (Implies a b) =
    (if \<not> snd a \<noteq> 0 \<or> snd b \<noteq> 0 then Pass
     else freebsd_spl_assert fp (''('' @ fst a @ '') implies ('' @ fst b @ '')''))"
| "freebsd_VERIFY fp (Equiv a b) = freebsd_VERIFY3B fp a C_eq b"

text \<open>In a build without assertions the arguments are only sized, not evaluated.\<close>

definition freebsd_ASSERT :: "bool \<Rightarrow> (string \<Rightarrow> u64 \<Rightarrow> string) \<Rightarrow> assertion \<Rightarrow> outcome" where
  "freebsd_ASSERT nd fp a = (if nd then Pass else freebsd_VERIFY fp a)"


text \<open>User space passes the texts as arguments; the first signed form prints its right side after 0x.\<close>

definition libspl_assertf :: "(string \<Rightarrow> u64 \<Rightarrow> string) \<Rightarrow> string \<Rightarrow> farg list \<Rightarrow> outcome" where
  "libspl_assertf fp fmt args = Panic (c_printf fp fmt args)"

definition libspl_assert :: "(string \<Rightarrow> u64 \<Rightarrow> string) \<Rightarrow> string \<Rightarrow> outcome" where
  "libspl_assert fp buf = libspl_assertf fp ''%s'' [FStr buf]"

definition user_VERIFY3B :: "(string \<Rightarrow> u64 \<Rightarrow> string) \<Rightarrow> c_expr \<Rightarrow> cmp \<Rightarrow> c_expr \<Rightarrow> outcome" where
  "user_VERIFY3B fp l op r =
    (if \<not> cmp_holds op (as_bool l) (as_bool r) then libspl_assertf fp (''VERIFY3B(%s, %s, %s) failed '' @ ''(%d %s %d)'')
       [FStr (fst l), FStr (cmp_text op), FStr (fst r), FWord (as_bool l), FStr (cmp_text op), FWord (as_bool r)] else Pass)"

fun user_VERIFY :: "(string \<Rightarrow> u64 \<Rightarrow> string) \<Rightarrow> assertion \<Rightarrow> outcome" where
  "user_VERIFY fp (Cond c) = (if \<not> snd c \<noteq> 0 then libspl_assert fp (fst c) else Pass)"
| "user_VERIFY fp (CondF c str va) =
    (if \<not> snd c \<noteq> 0 then libspl_assertf fp (''%s '' @ str) (FStr (fst c) # va) else Pass)"
| "user_VERIFY fp (CmpB l op r) = user_VERIFY3B fp l op r"
| "user_VERIFY fp (CmpS l op r) =
    (if \<not> cmp_holds op (as_signed l) (as_signed r) then libspl_assertf fp (''VERIFY3S(%s, %s, %s) failed '' @ ''(%lld %s 0x%lld)'')
       [FStr (fst l), FStr (cmp_text op), FStr (fst r), FWord (as_word l), FStr (cmp_text op), FWord (as_word r)] else Pass)"
| "user_VERIFY fp (CmpU l op r) =
    (if \<not> cmp_holds op (as_word l) (as_word r) then libspl_assertf fp (''VERIFY3U(%s, %s, %s) failed '' @ ''(%llu %s %llu)'')
       [FStr (fst l), FStr (cmp_text op), FStr (fst r), FWord (as_word l), FStr (cmp_text op), FWord (as_word r)] else Pass)"
| "user_VERIFY fp (CmpP l op r) =
    (if \<not> cmp_holds op (as_word l) (as_word r) then libspl_assertf fp (''VERIFY3P(%s, %s, %s) failed '' @ ''(%p %s %p)'')
       [FStr (fst l), FStr (cmp_text op), FStr (fst r), FWord (as_word l), FStr (cmp_text op), FWord (as_word r)] else Pass)"
| "user_VERIFY fp (Zero l) =
    (if \<not> as_word l = 0 then libspl_assertf fp ''VERIFY0(%s) failed (%lld)'' [FStr (fst l), FWord (as_word l)] else Pass)"
| "user_VERIFY fp (ZeroP l) =
    (if \<not> as_word l = 0 then libspl_assertf fp ''VERIFY0P(%s) failed (%p)'' [FStr (fst l), FWord (as_word l)] else Pass)"
| "user_VERIFY fp (CmpBF l op r str va) =
    (if \<not> cmp_holds op (as_bool l) (as_bool r) then libspl_assertf fp (''VERIFY3B(%s, %s, %s) failed '' @ ''(%d %s %d) '' @ str)
       ([FStr (fst l), FStr (cmp_text op), FStr (fst r), FWord (as_bool l), FStr (cmp_text op), FWord (as_bool r)] @ va) else Pass)"
| "user_VERIFY fp (CmpSF l op r str va) =
    (if \<not> cmp_holds op (as_signed l) (as_signed r) then libspl_assertf fp (''VERIFY3S(%s, %s, %s) failed '' @ ''(%lld %s %lld) '' @ str)
       ([FStr (fst l), FStr (cmp_text op), FStr (fst r), FWord (as_word l), FStr (cmp_text op), FWord (as_word r)] @ va) else Pass)"
| "user_VERIFY fp (CmpUF l op r str va) =
    (if \<not> cmp_holds op (as_word l) (as_word r) then libspl_assertf fp (''VERIFY3U(%s, %s, %s) failed '' @ ''(%llu %s %llu) '' @ str)
       ([FStr (fst l), FStr (cmp_text op), FStr (fst r), FWord (as_word l), FStr (cmp_text op), FWord (as_word r)] @ va) else Pass)"
| "user_VERIFY fp (CmpPF l op r str va) =
    (if \<not> cmp_holds op (as_word l) (as_word r) then libspl_assertf fp (''VERIFY3P(%s, %s, %s) failed '' @ ''(%p %s %p) '' @ str)
       ([FStr (fst l), FStr (cmp_text op), FStr (fst r), FWord (as_word l), FStr (cmp_text op), FWord (as_word r)] @ va) else Pass)"
| "user_VERIFY fp (ZeroF l str va) =
    (if \<not> as_signed l = 0 then libspl_assertf fp (''VERIFY0(%s) failed (%lld) '' @ str)
       ([FStr (fst l), FWord (as_word l)] @ va) else Pass)"
| "user_VERIFY fp (ZeroPF l str va) =
    (if \<not> as_word l = 0 then libspl_assertf fp (''VERIFY0P(%s) failed (%p) '' @ str)
       ([FStr (fst l), FWord (as_word l)] @ va) else Pass)"
| "user_VERIFY fp (Implies a b) =
    (if \<not> snd a \<noteq> 0 \<or> snd b \<noteq> 0 then Pass
     else libspl_assert fp (''('' @ fst a @ '') implies ('' @ fst b @ '')''))"
| "user_VERIFY fp (Equiv a b) = user_VERIFY3B fp a C_eq b"

definition user_ASSERT :: "bool \<Rightarrow> (string \<Rightarrow> u64 \<Rightarrow> string) \<Rightarrow> assertion \<Rightarrow> outcome" where
  "user_ASSERT nd fp a = (if nd then Pass else user_VERIFY fp a)"


section \<open>Properties\<close>

text \<open>What an assertion says of the mathematical values of its arguments, and when C can represent them.\<close>

fun claims :: "assertion \<Rightarrow> bool" where
  "claims (Cond c) \<longleftrightarrow> snd c \<noteq> 0" | "claims (CondF c _ _) \<longleftrightarrow> snd c \<noteq> 0"
| "claims (CmpB l op r) \<longleftrightarrow> cmp_holds op (snd l \<noteq> 0) (snd r \<noteq> 0)"
| "claims (CmpBF l op r _ _) \<longleftrightarrow> cmp_holds op (snd l \<noteq> 0) (snd r \<noteq> 0)"
| "claims (CmpS l op r) \<longleftrightarrow> cmp_holds op (snd l) (snd r)" | "claims (CmpSF l op r _ _) \<longleftrightarrow> cmp_holds op (snd l) (snd r)"
| "claims (CmpU l op r) \<longleftrightarrow> cmp_holds op (snd l) (snd r)" | "claims (CmpUF l op r _ _) \<longleftrightarrow> cmp_holds op (snd l) (snd r)"
| "claims (CmpP l op r) \<longleftrightarrow> cmp_holds op (snd l) (snd r)" | "claims (CmpPF l op r _ _) \<longleftrightarrow> cmp_holds op (snd l) (snd r)"
| "claims (Zero c) \<longleftrightarrow> snd c = 0" | "claims (ZeroF c _ _) \<longleftrightarrow> snd c = 0"
| "claims (ZeroP c) \<longleftrightarrow> snd c = 0" | "claims (ZeroPF c _ _) \<longleftrightarrow> snd c = 0"
| "claims (Implies a b) \<longleftrightarrow> (snd a \<noteq> 0 \<longrightarrow> snd b \<noteq> 0)"
| "claims (Equiv a b) \<longleftrightarrow> (snd a \<noteq> 0 \<longleftrightarrow> snd b \<noteq> 0)"

definition fits_signed :: "c_expr \<Rightarrow> bool" where "fits_signed e \<longleftrightarrow> - (2 ^ 63) \<le> snd e \<and> snd e < 2 ^ 63"
definition fits_unsigned :: "c_expr \<Rightarrow> bool" where "fits_unsigned e \<longleftrightarrow> 0 \<le> snd e \<and> snd e < 2 ^ 64"

fun in_range :: "assertion \<Rightarrow> bool" where
  "in_range (CmpS l _ r) \<longleftrightarrow> fits_signed l \<and> fits_signed r" | "in_range (CmpSF l _ r _ _) \<longleftrightarrow> fits_signed l \<and> fits_signed r"
| "in_range (CmpU l _ r) \<longleftrightarrow> fits_unsigned l \<and> fits_unsigned r"
| "in_range (CmpUF l _ r _ _) \<longleftrightarrow> fits_unsigned l \<and> fits_unsigned r"
| "in_range (CmpP l _ r) \<longleftrightarrow> fits_unsigned l \<and> fits_unsigned r"
| "in_range (CmpPF l _ r _ _) \<longleftrightarrow> fits_unsigned l \<and> fits_unsigned r"
| "in_range (Zero c) \<longleftrightarrow> fits_signed c \<or> fits_unsigned c" | "in_range (ZeroF c _ _) \<longleftrightarrow> fits_signed c \<or> fits_unsigned c"
| "in_range (ZeroP c) \<longleftrightarrow> fits_unsigned c" | "in_range (ZeroPF c _ _) \<longleftrightarrow> fits_unsigned c"
| "in_range _ \<longleftrightarrow> True"

lemma as_signed_fits: "fits_signed e \<Longrightarrow> as_signed e = snd e"
  by (simp add: fits_signed_def as_signed_def as_word_def int_word_sint)

lemma as_word_fits: "fits_unsigned e \<Longrightarrow> uint (as_word e) = snd e"
  by (simp add: fits_unsigned_def as_word_def take_bit_int_eq_self_iff uint_word_of_int)

lemma cmp_word: "fits_unsigned l \<Longrightarrow> fits_unsigned r \<Longrightarrow> cmp_holds op (as_word l) (as_word r) \<longleftrightarrow> cmp_holds op (snd l) (snd r)"
  by (cases op) (simp_all add: word_less_def word_le_def as_word_fits word_uint_eq_iff)

lemma cmp_bool: "cmp_holds op (as_bool l) (as_bool r) \<longleftrightarrow> cmp_holds op (snd l \<noteq> 0) (snd r \<noteq> 0)"
  by (cases op) (auto simp: as_bool_def)

lemma zero_signed: "as_signed e = 0 \<longleftrightarrow> as_word e = 0"
  unfolding as_signed_def by (metis of_int_0 of_int_sint scast_id sint_0)

lemma zero_word: "fits_signed e \<or> fits_unsigned e \<Longrightarrow> as_word e = 0 \<longleftrightarrow> snd e = 0"
  by (metis as_signed_fits as_word_fits uint_0_iff zero_signed)

lemmas verdict_simps = linux_spl_panic_def linux_spl_assert_def freebsd_spl_panic_def freebsd_spl_assert_def
  libspl_assertf_def libspl_assert_def
  linux_VERIFY3B_def freebsd_VERIFY3B_def user_VERIFY3B_def

text \<open>
  C29. Linux, FreeBSD and user space reach the same verdict for every assertion and any values:
  the build without assertions passes always. When the values fit the type the macro compares in,
  the verdict is what the assertion says of the mathematical values.
\<close>

theorem assertions_agree:
  "(linux_VERIFY fp a = Pass \<longleftrightarrow> user_VERIFY fp' a = Pass) \<and> (freebsd_VERIFY fp'' a = Pass \<longleftrightarrow> user_VERIFY fp' a = Pass) \<and>
   linux_ASSERT True fp a = Pass \<and> freebsd_ASSERT True fp'' a = Pass \<and> user_ASSERT True fp' a = Pass \<and>
   (in_range a \<longrightarrow> (linux_ASSERT False fp a = Pass \<longleftrightarrow> claims a))"
proof -
  have "linux_VERIFY fp a = Pass \<longleftrightarrow> user_VERIFY fp' a = Pass" "freebsd_VERIFY fp'' a = Pass \<longleftrightarrow> user_VERIFY fp' a = Pass"
    by (cases a; simp add: verdict_simps zero_signed eq_commute [of 0])+
  moreover have "linux_VERIFY fp a = Pass \<longleftrightarrow> claims a" if "in_range a"
    using that by (cases a) (auto simp: verdict_simps as_signed_fits cmp_word cmp_bool zero_signed zero_word eq_commute [of 0])
  ultimately show ?thesis
    by (simp add: linux_ASSERT_def freebsd_ASSERT_def user_ASSERT_def)
qed

theorem assertions_agree_witness:
  "linux_ASSERT False (\<lambda>_ _. []) (CmpS (''n'', 3) C_lt (''m'', 2 ^ 40)) = Pass \<and>
   linux_ASSERT False (\<lambda>_ _. []) (CmpU (''n'', 3) C_lt (''m'', 2)) \<noteq> Pass"
  using assertions_agree [of "\<lambda>_ _. []" "CmpS (''n'', 3) C_lt (''m'', 2 ^ 40)" "\<lambda>_ _. []" "\<lambda>_ _. []"]
    assertions_agree [of "\<lambda>_ _. []" "CmpU (''n'', 3) C_lt (''m'', 2)" "\<lambda>_ _. []" "\<lambda>_ _. []"]
  by (simp add: fits_signed_def fits_unsigned_def)

lemma c_printf_text: "percent \<notin> set t \<Longrightarrow> c_printf fp (t @ f) as = map_option ((@) t) (c_printf fp f as)"
proof (induction t)
  case Nil
  have "(@) [] = (\<lambda>x :: string. x)" by auto
  then show ?case by (simp only: append_Nil option.map_ident)
next
  case (Cons c t)
  then have c: "c \<noteq> percent" and IH: "c_printf fp (t @ f) as = map_option ((@) t) (c_printf fp f as)" by auto
  have "c_printf fp ((c # t) @ f) as = map_option ((#) c) (c_printf fp (t @ f) as)" using c by simp
  also have "\<dots> = map_option ((@) (c # t)) (c_printf fp f as)"
    unfolding IH option.map_comp by (rule arg_cong [where f = "\<lambda>g. map_option g _"]) auto
  finally show ?case .
qed

lemma percent_simps [simp]: "percent = CHR ''%''"
  by (simp add: percent_def)

lemma cmp_text_plain: "CHR ''%'' \<notin> set (cmp_text op)"
  by (cases op) simp_all

text \<open>
  The messages: user space prints the text of both sides and their values whatever the text is.
  The kernels paste the text into the format: they print the same followed by a newline when the
  texts contain no percent sign, but a comparison with a remainder in it has a message with an
  undefined conversion.
\<close>

theorem assertion_messages:
  assumes "\<not> cmp_holds op (as_word l) (as_word r)"
  shows "user_VERIFY fp (CmpU l op r) = Panic (Some (''VERIFY3U('' @ fst l @ '', '' @ cmp_text op @ '', '' @ fst r @
       '') failed ('' @ llu (as_word l) @ '' '' @ cmp_text op @ '' '' @ llu (as_word r) @ '')'')) \<and>
    (percent \<notin> set (fst l) \<and> percent \<notin> set (fst r) \<longrightarrow>
       linux_VERIFY fp (CmpU l op r) = Panic (Some (''VERIFY3U('' @ fst l @ '', '' @ cmp_text op @ '', '' @ fst r @
         '') failed ('' @ llu (as_word l) @ '' '' @ cmp_text op @ '' '' @ llu (as_word r) @ '')'' @ newline)) \<and>
       freebsd_VERIFY fp (CmpU l op r) = linux_VERIFY fp (CmpU l op r)) \<and>
    (fst l = ''a % b'' \<longrightarrow> linux_VERIFY fp (CmpU l op r) = Panic None \<and> freebsd_VERIFY fp (CmpU l op r) = Panic None)"
  using assms cmp_text_plain [of op]
  by (intro conjI impI) (simp_all add: verdict_simps newline_def c_printf_text option.map_comp comp_def)

theorem assertion_messages_witness:
  "linux_VERIFY (\<lambda>_ _. []) (CmpU (''a % b'', 7) C_eq (''0'', 0)) = Panic None \<and>
   user_VERIFY (\<lambda>_ _. []) (CmpU (''a % b'', 7) C_eq (''0'', 0)) \<noteq> Panic None"
  using assertion_messages [of C_eq "(''a % b'', 7)" "(''0'', 0)" "\<lambda>_ _. []"] by (simp add: as_word_def)

end
