(* ===== verification/Efi.thy ===== *)
theory Efi
  imports C_Layout Byteorder Blkptr_Print
begin

text \<open>
  The disk labels of EFI (\<open>compat/openzfs/sys/efi_partition.h\<close> and \<open>uuid.h\<close>): the table header and the
  partition entry as they are on the disk, the library's view of them, and the partition types, each
  a GUID that is stored with its first three fields in little-endian order.
\<close>

section \<open>GUIDs\<close>

record uuid =
  time_low :: u32
  time_mid :: u16
  time_hi_and_version :: u16
  clock_seq_hi_and_reserved :: u8
  clock_seq_low :: u8
  node_addr :: "u8 list"

definition UUID_PRINTABLE_STRING_LENGTH :: nat where "UUID_PRINTABLE_STRING_LENGTH = 37"

definition c_uuid :: ctype where
  "c_uuid = CStruct [(''time_low'', c_u32), (''time_mid'', c_u16), (''time_hi_and_version'', c_u16),
    (''clock_seq_hi_and_reserved'', c_u8), (''clock_seq_low'', c_u8), (''node_addr'', CArray 6 c_u8)]"

definition UUID_LE_CONVERT :: "bool \<Rightarrow> uuid \<Rightarrow> uuid" where
  "UUID_LE_CONVERT be src = (let dest = src;
     dest = dest\<lparr>time_low := ucast (LE_32 be (ucast (time_low dest)))\<rparr>;
     dest = dest\<lparr>time_mid := ucast (LE_16 be (ucast (time_mid dest)))\<rparr>
     in dest\<lparr>time_hi_and_version := ucast (LE_16 be (ucast (time_hi_and_version dest)))\<rparr>)"

section \<open>Partition types\<close>

definition guid :: "u32 \<Rightarrow> u16 \<Rightarrow> u16 \<Rightarrow> u8 \<Rightarrow> u8 \<Rightarrow> u8 list \<Rightarrow> uuid" where
  "guid a b c d e n = \<lparr>time_low = a, time_mid = b, time_hi_and_version = c, clock_seq_hi_and_reserved = d,
     clock_seq_low = e, node_addr = n\<rparr>"

definition V_UNASSIGNED :: u16 where "V_UNASSIGNED = 0x00"
definition V_USR :: u16 where "V_USR = 0x04"
definition V_RESERVED :: u16 where "V_RESERVED = 0x0b"

definition EFI_UNUSED :: uuid where
  "EFI_UNUSED = guid 0x00000000 0x0000 0x0000 0x00 0x00 [0x00, 0x00, 0x00, 0x00, 0x00, 0x00]"
definition EFI_RESV1 :: uuid where
  "EFI_RESV1 = guid 0x6a96237f 0x1dd2 0x11b2 0x99 0xa6 [0x08, 0x00, 0x20, 0x73, 0x66, 0x31]"
definition EFI_BOOT :: uuid where
  "EFI_BOOT = guid 0x6a82cb45 0x1dd2 0x11b2 0x99 0xa6 [0x08, 0x00, 0x20, 0x73, 0x66, 0x31]"
definition EFI_ROOT :: uuid where
  "EFI_ROOT = guid 0x6a85cf4d 0x1dd2 0x11b2 0x99 0xa6 [0x08, 0x00, 0x20, 0x73, 0x66, 0x31]"
definition EFI_SWAP :: uuid where
  "EFI_SWAP = guid 0x6a87c46f 0x1dd2 0x11b2 0x99 0xa6 [0x08, 0x00, 0x20, 0x73, 0x66, 0x31]"
definition EFI_USR :: uuid where
  "EFI_USR = guid 0x6a898cc3 0x1dd2 0x11b2 0x99 0xa6 [0x08, 0x00, 0x20, 0x73, 0x66, 0x31]"
definition EFI_BACKUP :: uuid where
  "EFI_BACKUP = guid 0x6a8b642b 0x1dd2 0x11b2 0x99 0xa6 [0x08, 0x00, 0x20, 0x73, 0x66, 0x31]"
definition EFI_RESV2 :: uuid where
  "EFI_RESV2 = guid 0x6a8d2ac7 0x1dd2 0x11b2 0x99 0xa6 [0x08, 0x00, 0x20, 0x73, 0x66, 0x31]"
definition EFI_VAR :: uuid where
  "EFI_VAR = guid 0x6a8ef2e9 0x1dd2 0x11b2 0x99 0xa6 [0x08, 0x00, 0x20, 0x73, 0x66, 0x31]"
definition EFI_HOME :: uuid where
  "EFI_HOME = guid 0x6a90ba39 0x1dd2 0x11b2 0x99 0xa6 [0x08, 0x00, 0x20, 0x73, 0x66, 0x31]"
definition EFI_ALTSCTR :: uuid where
  "EFI_ALTSCTR = guid 0x6a9283a5 0x1dd2 0x11b2 0x99 0xa6 [0x08, 0x00, 0x20, 0x73, 0x66, 0x31]"
definition EFI_RESERVED :: uuid where
  "EFI_RESERVED = guid 0x6a945a3b 0x1dd2 0x11b2 0x99 0xa6 [0x08, 0x00, 0x20, 0x73, 0x66, 0x31]"
definition EFI_SYSTEM :: uuid where
  "EFI_SYSTEM = guid 0xC12A7328 0xF81F 0x11d2 0xBA 0x4B [0x00, 0xA0, 0xC9, 0x3E, 0xC9, 0x3B]"
definition EFI_LEGACY_MBR :: uuid where
  "EFI_LEGACY_MBR = guid 0x024DEE41 0x33E7 0x11d3 0x9D 0x69 [0x00, 0x08, 0xC7, 0x81, 0xF3, 0x9F]"
definition EFI_SYMC_PUB :: uuid where
  "EFI_SYMC_PUB = guid 0x6a9630d1 0x1dd2 0x11b2 0x99 0xa6 [0x08, 0x00, 0x20, 0x73, 0x66, 0x31]"
definition EFI_SYMC_CDS :: uuid where
  "EFI_SYMC_CDS = guid 0x6a980767 0x1dd2 0x11b2 0x99 0xa6 [0x08, 0x00, 0x20, 0x73, 0x66, 0x31]"
definition EFI_MSFT_RESV :: uuid where
  "EFI_MSFT_RESV = guid 0xE3C9E316 0x0B5C 0x4DB8 0x81 0x7D [0xF9, 0x2D, 0xF0, 0x02, 0x15, 0xAE]"
definition EFI_DELL_BASIC :: uuid where
  "EFI_DELL_BASIC = guid 0xebd0a0a2 0xb9e5 0x4433 0x87 0xc0 [0x68, 0xb6, 0xb7, 0x26, 0x99, 0xc7]"
definition EFI_DELL_RAID :: uuid where
  "EFI_DELL_RAID = guid 0xa19d880f 0x05fc 0x4d3b 0xa0 0x06 [0x74, 0x3f, 0x0f, 0x84, 0x91, 0x1e]"
definition EFI_DELL_SWAP :: uuid where
  "EFI_DELL_SWAP = guid 0x0657fd6d 0xa4ab 0x43c4 0x84 0xe5 [0x09, 0x33, 0xc8, 0x4b, 0x4f, 0x4f]"
definition EFI_DELL_LVM :: uuid where
  "EFI_DELL_LVM = guid 0xe6d6d379 0xf507 0x44c2 0xa2 0x3c [0x23, 0x8f, 0x2a, 0x3d, 0xf9, 0x28]"
definition EFI_DELL_RESV :: uuid where
  "EFI_DELL_RESV = guid 0x8da63339 0x0007 0x60c0 0xc4 0x36 [0x08, 0x3a, 0xc8, 0x23, 0x09, 0x08]"
definition EFI_AAPL_HFS :: uuid where
  "EFI_AAPL_HFS = guid 0x48465300 0x0000 0x11aa 0xaa 0x11 [0x00, 0x30, 0x65, 0x43, 0xec, 0xac]"
definition EFI_AAPL_UFS :: uuid where
  "EFI_AAPL_UFS = guid 0x55465300 0x0000 0x11aa 0xaa 0x11 [0x00, 0x30, 0x65, 0x43, 0xec, 0xac]"
definition EFI_FREEBSD_BOOT :: uuid where
  "EFI_FREEBSD_BOOT = guid 0x83bd6b9d 0x7f41 0x11dc 0xbe 0x0b [0x00, 0x15, 0x60, 0xb8, 0x4f, 0x0f]"
definition EFI_FREEBSD_SWAP :: uuid where
  "EFI_FREEBSD_SWAP = guid 0x516e7cb5 0x6ecf 0x11d6 0x8f 0xf8 [0x00, 0x02, 0x2d, 0x09, 0x71, 0x2b]"
definition EFI_FREEBSD_UFS :: uuid where
  "EFI_FREEBSD_UFS = guid 0x516e7cb6 0x6ecf 0x11d6 0x8f 0xf8 [0x00, 0x02, 0x2d, 0x09, 0x71, 0x2b]"
definition EFI_FREEBSD_VINUM :: uuid where
  "EFI_FREEBSD_VINUM = guid 0x516e7cb8 0x6ecf 0x11d6 0x8f 0xf8 [0x00, 0x02, 0x2d, 0x09, 0x71, 0x2b]"
definition EFI_FREEBSD_ZFS :: uuid where
  "EFI_FREEBSD_ZFS = guid 0x516e7cba 0x6ecf 0x11d6 0x8f 0xf8 [0x00, 0x02, 0x2d, 0x09, 0x71, 0x2b]"
definition EFI_BIOS_BOOT :: uuid where
  "EFI_BIOS_BOOT = guid 0x21686148 0x6449 0x6e6f 0x74 0x4e [0x65, 0x65, 0x64, 0x45, 0x46, 0x49]"
definition EFI_INTC_RS :: uuid where
  "EFI_INTC_RS = guid 0xd3bfe2de 0x3daf 0x11df 0xba 0x40 [0xe3, 0xa5, 0x56, 0xd8, 0x95, 0x93]"
definition EFI_SNE_BOOT :: uuid where
  "EFI_SNE_BOOT = guid 0xf4019732 0x066e 0x4e12 0x82 0x73 [0x34, 0x6c, 0x56, 0x41, 0x49, 0x4f]"
definition EFI_LENOVO_BOOT :: uuid where
  "EFI_LENOVO_BOOT = guid 0xbfbfafe7 0xa34f 0x448a 0x9a 0x5b [0x62, 0x13, 0xeb, 0x73, 0x6c, 0x22]"
definition EFI_MSFT_LDMM :: uuid where
  "EFI_MSFT_LDMM = guid 0x5808c8aa 0x7e8f 0x42e0 0x85 0xd2 [0xe1, 0xe9, 0x04, 0x34, 0xcf, 0xb3]"
definition EFI_MSFT_LDMD :: uuid where
  "EFI_MSFT_LDMD = guid 0xaf9b60a0 0x1431 0x4f62 0xbc 0x68 [0x33, 0x11, 0x71, 0x4a, 0x69, 0xad]"
definition EFI_MSFT_RE :: uuid where
  "EFI_MSFT_RE = guid 0xde94bba4 0x06d1 0x4d40 0xa1 0x6a [0xbf, 0xd5, 0x01, 0x79, 0xd6, 0xac]"
definition EFI_IBM_GPFS :: uuid where
  "EFI_IBM_GPFS = guid 0x37affc90 0xef7d 0x4e96 0x91 0xc3 [0x2d, 0x7a, 0xe0, 0x55, 0xb1, 0x74]"
definition EFI_MSFT_STORAGESPACES :: uuid where
  "EFI_MSFT_STORAGESPACES = guid 0xe75caf8f 0xf680 0x4cee 0xaf 0xa3 [0xb0, 0x01, 0xe5, 0x6e, 0xfc, 0x2d]"
definition EFI_HPQ_DATA :: uuid where
  "EFI_HPQ_DATA = guid 0x75894c1e 0x3aeb 0x11d3 0xb7 0xc1 [0x7b, 0x03, 0xa0, 0x00, 0x00, 0x00]"
definition EFI_HPQ_SVC :: uuid where
  "EFI_HPQ_SVC = guid 0xe2a1e728 0x32e3 0x11d6 0xa6 0x82 [0x7b, 0x03, 0xa0, 0x00, 0x00, 0x00]"
definition EFI_RHT_DATA :: uuid where
  "EFI_RHT_DATA = guid 0x0fc63daf 0x8483 0x4772 0x8e 0x79 [0x3d, 0x69, 0xd8, 0x47, 0x7d, 0xe4]"
definition EFI_RHT_HOME :: uuid where
  "EFI_RHT_HOME = guid 0x933ac7e1 0x2eb4 0x4f13 0xb8 0x44 [0x0e, 0x14, 0xe2, 0xae, 0xf9, 0x15]"
definition EFI_RHT_SRV :: uuid where
  "EFI_RHT_SRV = guid 0x3b8f8425 0x20e0 0x4f3b 0x90 0x7f [0x1a, 0x25, 0xa7, 0x6f, 0x98, 0xe8]"
definition EFI_RHT_DMCRYPT :: uuid where
  "EFI_RHT_DMCRYPT = guid 0x7ffec5c9 0x2d00 0x49b7 0x89 0x41 [0x3e, 0xa1, 0x0a, 0x55, 0x86, 0xb7]"
definition EFI_RHT_LUKS :: uuid where
  "EFI_RHT_LUKS = guid 0xca7d7ccb 0x63ed 0x4c53 0x86 0x1c [0x17, 0x42, 0x53, 0x60, 0x59, 0xcc]"
definition EFI_FREEBSD_DISKLABEL :: uuid where
  "EFI_FREEBSD_DISKLABEL = guid 0x516e7cb4 0x6ecf 0x11d6 0x8f 0xf8 [0x00, 0x02, 0x2d, 0x09, 0x71, 0x2b]"
definition EFI_AAPL_RAID :: uuid where
  "EFI_AAPL_RAID = guid 0x52414944 0x0000 0x11aa 0xaa 0x11 [0x00, 0x30, 0x65, 0x43, 0xec, 0xac]"
definition EFI_AAPL_RAIDOFFLINE :: uuid where
  "EFI_AAPL_RAIDOFFLINE = guid 0x52414944 0x5f4f 0x11aa 0xaa 0x11 [0x00, 0x30, 0x65, 0x43, 0xec, 0xac]"
definition EFI_AAPL_BOOT :: uuid where
  "EFI_AAPL_BOOT = guid 0x426f6f74 0x0000 0x11aa 0xaa 0x11 [0x00, 0x30, 0x65, 0x43, 0xec, 0xac]"
definition EFI_AAPL_LABEL :: uuid where
  "EFI_AAPL_LABEL = guid 0x4c616265 0x6c00 0x11aa 0xaa 0x11 [0x00, 0x30, 0x65, 0x43, 0xec, 0xac]"
definition EFI_AAPL_TVRECOVERY :: uuid where
  "EFI_AAPL_TVRECOVERY = guid 0x5265636f 0x7665 0x11aa 0xaa 0x11 [0x00, 0x30, 0x65, 0x43, 0xec, 0xac]"
definition EFI_AAPL_CORESTORAGE :: uuid where
  "EFI_AAPL_CORESTORAGE = guid 0x53746f72 0x6167 0x11aa 0xaa 0x11 [0x00, 0x30, 0x65, 0x43, 0xec, 0xac]"
definition EFI_NETBSD_SWAP :: uuid where
  "EFI_NETBSD_SWAP = guid 0x49f48d32 0xb10e 0x11dc 0xb9 0x9b [0x00, 0x19, 0xd1, 0x87, 0x96, 0x48]"
definition EFI_NETBSD_FFS :: uuid where
  "EFI_NETBSD_FFS = guid 0x49f48d5a 0xb10e 0x11dc 0xb9 0x9b [0x00, 0x19, 0xd1, 0x87, 0x96, 0x48]"
definition EFI_NETBSD_LFS :: uuid where
  "EFI_NETBSD_LFS = guid 0x49f48d82 0xb10e 0x11dc 0xb9 0x9b [0x00, 0x19, 0xd1, 0x87, 0x96, 0x48]"
definition EFI_NETBSD_RAID :: uuid where
  "EFI_NETBSD_RAID = guid 0x49f48daa 0xb10e 0x11dc 0xb9 0x9b [0x00, 0x19, 0xd1, 0x87, 0x96, 0x48]"
definition EFI_NETBSD_CAT :: uuid where
  "EFI_NETBSD_CAT = guid 0x2db519c4 0xb10f 0x11dc 0xb9 0x9b [0x00, 0x19, 0xd1, 0x87, 0x96, 0x48]"
definition EFI_NETBSD_CRYPT :: uuid where
  "EFI_NETBSD_CRYPT = guid 0x2db519ec 0xb10f 0x11dc 0xb9 0x9b [0x00, 0x19, 0xd1, 0x87, 0x96, 0x48]"
definition EFI_GOOG_KERN :: uuid where
  "EFI_GOOG_KERN = guid 0xfe3a2a5d 0x4f32 0x41a7 0xb7 0x25 [0xac, 0xcc, 0x32, 0x85, 0xa3, 0x09]"
definition EFI_GOOG_ROOT :: uuid where
  "EFI_GOOG_ROOT = guid 0x3cb8e202 0x3b7e 0x47dd 0x8a 0x3c [0x7f, 0xf2, 0xa1, 0x3c, 0xfc, 0xec]"
definition EFI_GOOG_RESV :: uuid where
  "EFI_GOOG_RESV = guid 0x2e0a753d 0x9e48 0x43b0 0x83 0x37 [0xb1, 0x51, 0x92, 0xcb, 0x1b, 0x5e]"
definition EFI_HAIKU_BFS :: uuid where
  "EFI_HAIKU_BFS = guid 0x42465331 0x3ba3 0x10f1 0x80 0x2a [0x48, 0x61, 0x69, 0x6b, 0x75, 0x21]"
definition EFI_MIDNIGHTBSD_BOOT :: uuid where
  "EFI_MIDNIGHTBSD_BOOT = guid 0x85d5e45e 0x237c 0x11e1 0xb4 0xb3 [0xe8, 0x9a, 0x8f, 0x7f, 0xc3, 0xa7]"
definition EFI_MIDNIGHTBSD_DATA :: uuid where
  "EFI_MIDNIGHTBSD_DATA = guid 0x85d5e45a 0x237c 0x11e1 0xb4 0xb3 [0xe8, 0x9a, 0x8f, 0x7f, 0xc3, 0xa7]"
definition EFI_MIDNIGHTBSD_SWAP :: uuid where
  "EFI_MIDNIGHTBSD_SWAP = guid 0x85d5e45b 0x237c 0x11e1 0xb4 0xb3 [0xe8, 0x9a, 0x8f, 0x7f, 0xc3, 0xa7]"
definition EFI_MIDNIGHTBSD_UFS :: uuid where
  "EFI_MIDNIGHTBSD_UFS = guid 0x0394ef8b 0x237e 0x11e1 0xb4 0xb3 [0xe8, 0x9a, 0x8f, 0x7f, 0xc3, 0xa7]"
definition EFI_MIDNIGHTBSD_VINUM :: uuid where
  "EFI_MIDNIGHTBSD_VINUM = guid 0x85d5e45c 0x237c 0x11e1 0xb4 0xb3 [0xe8, 0x9a, 0x8f, 0x7f, 0xc3, 0xa7]"
definition EFI_MIDNIGHTBSD_ZFS :: uuid where
  "EFI_MIDNIGHTBSD_ZFS = guid 0x85d5e45d 0x237c 0x11e1 0xb4 0xb3 [0xe8, 0x9a, 0x8f, 0x7f, 0xc3, 0xa7]"
definition EFI_CEPH_JOURNAL :: uuid where
  "EFI_CEPH_JOURNAL = guid 0x45b0969e 0x9b03 0x4f30 0xb4 0xc6 [0xb4, 0xb8, 0x0c, 0xef, 0xf1, 0x06]"
definition EFI_CEPH_DMCRYPTJOURNAL :: uuid where
  "EFI_CEPH_DMCRYPTJOURNAL = guid 0x45b0969e 0x9b03 0x4f30 0xb4 0xc6 [0x5e, 0xc0, 0x0c, 0xef, 0xf1, 0x06]"
definition EFI_CEPH_OSD :: uuid where
  "EFI_CEPH_OSD = guid 0x4fbd7e29 0x9d25 0x41b8 0xaf 0xd0 [0x06, 0x2c, 0x0c, 0xef, 0xf0, 0x5d]"
definition EFI_CEPH_DMCRYPTOSD :: uuid where
  "EFI_CEPH_DMCRYPTOSD = guid 0x4fbd7e29 0x9d25 0x41b8 0xaf 0xd0 [0x5e, 0xc0, 0x0c, 0xef, 0xf0, 0x5d]"
definition EFI_CEPH_CREATE :: uuid where
  "EFI_CEPH_CREATE = guid 0x89c57f98 0x2fe5 0x4dc0 0x89 0xc1 [0xf3, 0xad, 0x0c, 0xef, 0xf2, 0xbe]"
definition EFI_CEPH_DMCRYPTCREATE :: uuid where
  "EFI_CEPH_DMCRYPTCREATE = guid 0x89c57f98 0x2fe5 0x4dc0 0x89 0xc1 [0x5e, 0xc0, 0x0c, 0xef, 0xf2, 0xbe]"
definition EFI_OPENBSD_DISKLABEL :: uuid where
  "EFI_OPENBSD_DISKLABEL = guid 0x824cc7a0 0x36a8 0x11e3 0x89 0x0a [0x95, 0x25, 0x19, 0xad, 0x3f, 0x61]"
definition EFI_BBRY_QNX :: uuid where
  "EFI_BBRY_QNX = guid 0xcef5a9ad 0x73bc 0x4601 0x89 0xf3 [0xcd, 0xee, 0xee, 0xe3, 0x21, 0xa1]"
definition EFI_BELL_PLAN9 :: uuid where
  "EFI_BELL_PLAN9 = guid 0xc91818f9 0x8025 0x47af 0x89 0xd2 [0xf0, 0x30, 0xd7, 0x00, 0x0c, 0x2c]"
definition EFI_VMW_KCORE :: uuid where
  "EFI_VMW_KCORE = guid 0x9d275380 0x40ad 0x11db 0xbf 0x97 [0x00, 0x0c, 0x29, 0x11, 0xd1, 0xb8]"
definition EFI_VMW_VMFS :: uuid where
  "EFI_VMW_VMFS = guid 0xaa31e02a 0x400f 0x11db 0x95 0x90 [0x00, 0x0c, 0x29, 0x11, 0xd1, 0xb8]"
definition EFI_VMW_RESV :: uuid where
  "EFI_VMW_RESV = guid 0x9198effc 0x31c0 0x11db 0x8f 0x78 [0x00, 0x0c, 0x29, 0x11, 0xd1, 0xb8]"
definition EFI_RHT_ROOTX86 :: uuid where
  "EFI_RHT_ROOTX86 = guid 0x44479540 0xf297 0x41b2 0x9a 0xf7 [0xd1, 0x31, 0xd5, 0xf0, 0x45, 0x8a]"
definition EFI_RHT_ROOTAMD64 :: uuid where
  "EFI_RHT_ROOTAMD64 = guid 0x4f68bce3 0xe8cd 0x4db1 0x96 0xe7 [0xfb, 0xca, 0xf9, 0x84, 0xb7, 0x09]"
definition EFI_RHT_ROOTARM :: uuid where
  "EFI_RHT_ROOTARM = guid 0x69dad710 0x2ce4 0x4e3c 0xb1 0x6c [0x21, 0xa1, 0xd4, 0x9a, 0xbe, 0xd3]"
definition EFI_RHT_ROOTARM64 :: uuid where
  "EFI_RHT_ROOTARM64 = guid 0xb921b045 0x1df0 0x41c3 0xaf 0x44 [0x4c, 0x6f, 0x28, 0x0d, 0x3f, 0xae]"
definition EFI_ACRONIS_SECUREZONE :: uuid where
  "EFI_ACRONIS_SECUREZONE = guid 0x0311fc50 0x01ca 0x4725 0xad 0x77 [0x9a, 0xdb, 0xb2, 0x0a, 0xce, 0x98]"
definition EFI_ONIE_BOOT :: uuid where
  "EFI_ONIE_BOOT = guid 0x7412f7d5 0xa156 0x4b13 0x81 0xdc [0x86, 0x71, 0x74, 0x92, 0x93, 0x25]"
definition EFI_ONIE_CONFIG :: uuid where
  "EFI_ONIE_CONFIG = guid 0xd4e6e2cd 0x4469 0x46f3 0xb5 0xcb [0x1b, 0xff, 0x57, 0xaf, 0xc1, 0x49]"
definition EFI_IBM_PPRPBOOT :: uuid where
  "EFI_IBM_PPRPBOOT = guid 0x9e1a2d38 0xc612 0x4316 0xaa 0x26 [0x8b, 0x49, 0x52, 0x1e, 0x5a, 0x8b]"
definition EFI_FREEDESKTOP_BOOT :: uuid where
  "EFI_FREEDESKTOP_BOOT = guid 0xbc13c2ff 0x59e6 0x4262 0xa3 0x52 [0xb2, 0x75, 0xfd, 0x6f, 0x71, 0x72]"

text \<open>All partition types, except the mark of an unused entry.\<close>

definition partition_types :: "uuid list" where
  "partition_types =
   [    EFI_RESV1, EFI_BOOT, EFI_ROOT, EFI_SWAP, EFI_USR, EFI_BACKUP, EFI_RESV2, EFI_VAR, EFI_HOME,
    EFI_ALTSCTR, EFI_RESERVED, EFI_SYSTEM, EFI_LEGACY_MBR, EFI_SYMC_PUB, EFI_SYMC_CDS, EFI_MSFT_RESV,
    EFI_DELL_BASIC, EFI_DELL_RAID, EFI_DELL_SWAP, EFI_DELL_LVM, EFI_DELL_RESV, EFI_AAPL_HFS, EFI_AAPL_UFS,
    EFI_FREEBSD_BOOT, EFI_FREEBSD_SWAP, EFI_FREEBSD_UFS, EFI_FREEBSD_VINUM, EFI_FREEBSD_ZFS, EFI_BIOS_BOOT,
    EFI_INTC_RS, EFI_SNE_BOOT, EFI_LENOVO_BOOT, EFI_MSFT_LDMM, EFI_MSFT_LDMD, EFI_MSFT_RE, EFI_IBM_GPFS,
    EFI_MSFT_STORAGESPACES, EFI_HPQ_DATA, EFI_HPQ_SVC, EFI_RHT_DATA, EFI_RHT_HOME, EFI_RHT_SRV,
    EFI_RHT_DMCRYPT, EFI_RHT_LUKS, EFI_FREEBSD_DISKLABEL, EFI_AAPL_RAID, EFI_AAPL_RAIDOFFLINE,
    EFI_AAPL_BOOT, EFI_AAPL_LABEL, EFI_AAPL_TVRECOVERY, EFI_AAPL_CORESTORAGE, EFI_NETBSD_SWAP,
    EFI_NETBSD_FFS, EFI_NETBSD_LFS, EFI_NETBSD_RAID, EFI_NETBSD_CAT, EFI_NETBSD_CRYPT, EFI_GOOG_KERN,
    EFI_GOOG_ROOT, EFI_GOOG_RESV, EFI_HAIKU_BFS, EFI_MIDNIGHTBSD_BOOT, EFI_MIDNIGHTBSD_DATA,
    EFI_MIDNIGHTBSD_SWAP, EFI_MIDNIGHTBSD_UFS, EFI_MIDNIGHTBSD_VINUM, EFI_MIDNIGHTBSD_ZFS,
    EFI_CEPH_JOURNAL, EFI_CEPH_DMCRYPTJOURNAL, EFI_CEPH_OSD, EFI_CEPH_DMCRYPTOSD, EFI_CEPH_CREATE,
    EFI_CEPH_DMCRYPTCREATE, EFI_OPENBSD_DISKLABEL, EFI_BBRY_QNX, EFI_BELL_PLAN9, EFI_VMW_KCORE,
    EFI_VMW_VMFS, EFI_VMW_RESV, EFI_RHT_ROOTX86, EFI_RHT_ROOTAMD64, EFI_RHT_ROOTARM, EFI_RHT_ROOTARM64,
    EFI_ACRONIS_SECUREZONE, EFI_ONIE_BOOT, EFI_ONIE_CONFIG, EFI_IBM_PPRPBOOT, EFI_FREEDESKTOP_BOOT]"

lemmas partition_type_defs =
  EFI_UNUSED_def EFI_RESV1_def EFI_BOOT_def EFI_ROOT_def EFI_SWAP_def EFI_USR_def EFI_BACKUP_def
  EFI_RESV2_def EFI_VAR_def EFI_HOME_def EFI_ALTSCTR_def EFI_RESERVED_def EFI_SYSTEM_def EFI_LEGACY_MBR_def
  EFI_SYMC_PUB_def EFI_SYMC_CDS_def EFI_MSFT_RESV_def EFI_DELL_BASIC_def EFI_DELL_RAID_def
  EFI_DELL_SWAP_def EFI_DELL_LVM_def EFI_DELL_RESV_def EFI_AAPL_HFS_def EFI_AAPL_UFS_def
  EFI_FREEBSD_BOOT_def EFI_FREEBSD_SWAP_def EFI_FREEBSD_UFS_def EFI_FREEBSD_VINUM_def EFI_FREEBSD_ZFS_def
  EFI_BIOS_BOOT_def EFI_INTC_RS_def EFI_SNE_BOOT_def EFI_LENOVO_BOOT_def EFI_MSFT_LDMM_def
  EFI_MSFT_LDMD_def EFI_MSFT_RE_def EFI_IBM_GPFS_def EFI_MSFT_STORAGESPACES_def EFI_HPQ_DATA_def
  EFI_HPQ_SVC_def EFI_RHT_DATA_def EFI_RHT_HOME_def EFI_RHT_SRV_def EFI_RHT_DMCRYPT_def EFI_RHT_LUKS_def
  EFI_FREEBSD_DISKLABEL_def EFI_AAPL_RAID_def EFI_AAPL_RAIDOFFLINE_def EFI_AAPL_BOOT_def EFI_AAPL_LABEL_def
  EFI_AAPL_TVRECOVERY_def EFI_AAPL_CORESTORAGE_def EFI_NETBSD_SWAP_def EFI_NETBSD_FFS_def
  EFI_NETBSD_LFS_def EFI_NETBSD_RAID_def EFI_NETBSD_CAT_def EFI_NETBSD_CRYPT_def EFI_GOOG_KERN_def
  EFI_GOOG_ROOT_def EFI_GOOG_RESV_def EFI_HAIKU_BFS_def EFI_MIDNIGHTBSD_BOOT_def EFI_MIDNIGHTBSD_DATA_def
  EFI_MIDNIGHTBSD_SWAP_def EFI_MIDNIGHTBSD_UFS_def EFI_MIDNIGHTBSD_VINUM_def EFI_MIDNIGHTBSD_ZFS_def
  EFI_CEPH_JOURNAL_def EFI_CEPH_DMCRYPTJOURNAL_def EFI_CEPH_OSD_def EFI_CEPH_DMCRYPTOSD_def
  EFI_CEPH_CREATE_def EFI_CEPH_DMCRYPTCREATE_def EFI_OPENBSD_DISKLABEL_def EFI_BBRY_QNX_def
  EFI_BELL_PLAN9_def EFI_VMW_KCORE_def EFI_VMW_VMFS_def EFI_VMW_RESV_def EFI_RHT_ROOTX86_def
  EFI_RHT_ROOTAMD64_def EFI_RHT_ROOTARM_def EFI_RHT_ROOTARM64_def EFI_ACRONIS_SECUREZONE_def
  EFI_ONIE_BOOT_def EFI_ONIE_CONFIG_def EFI_IBM_PPRPBOOT_def EFI_FREEDESKTOP_BOOT_def

section \<open>The label\<close>

definition EFI_MIN_LABEL_SIZE :: nat where "EFI_MIN_LABEL_SIZE = 92"
definition EFI_LABEL_SIZE :: nat where "EFI_LABEL_SIZE = 512"
definition LEN_EFI_PAD :: nat where
  "LEN_EFI_PAD = EFI_LABEL_SIZE - (5 * size_of 8 c_u64 + 7 * size_of 8 c_u32 + 8 * size_of 8 c_u8 + 1 * size_of 8 c_uuid)"
definition EFI_SIGNATURE :: u64 where "EFI_SIGNATURE = 0x5452415020494645"

definition c_efi_gpt :: ctype where
  "c_efi_gpt = CStruct [(''efi_gpt_Signature'', c_u64), (''efi_gpt_Revision'', c_u32), (''efi_gpt_HeaderSize'', c_u32),
    (''efi_gpt_HeaderCRC32'', c_u32), (''efi_gpt_Reserved1'', c_u32), (''efi_gpt_MyLBA'', c_u64),
    (''efi_gpt_AlternateLBA'', c_u64), (''efi_gpt_FirstUsableLBA'', c_u64), (''efi_gpt_LastUsableLBA'', c_u64),
    (''efi_gpt_DiskGUID'', c_uuid), (''efi_gpt_PartitionEntryLBA'', c_u64),
    (''efi_gpt_NumberOfPartitionEntries'', c_u32), (''efi_gpt_SizeOfPartitionEntry'', c_u32),
    (''efi_gpt_PartitionEntryArrayCRC32'', c_u32), (''efi_gpt_Reserved2'', CArray LEN_EFI_PAD c_u8)]"

text \<open>The bit fields of the attributes fill two 32-bit units.\<close>

definition c_efi_gpe_Attrs :: ctype where
  "c_efi_gpe_Attrs = CStruct [(''PartitionAttrs_Reserved2'', c_u32), (''Reserved1_RequiredPartition'', c_u32)]"

definition EFI_MIN_ARRAY_SIZE :: nat where "EFI_MIN_ARRAY_SIZE = 16 * 1024"
definition EFI_PART_NAME_LEN :: nat where "EFI_PART_NAME_LEN = 36"
definition EFI_MIN_RESV_SIZE :: nat where "EFI_MIN_RESV_SIZE = 16 * 1024"

definition c_efi_gpe :: ctype where
  "c_efi_gpe = CStruct [(''efi_gpe_PartitionTypeGUID'', c_uuid), (''efi_gpe_UniquePartitionGUID'', c_uuid),
    (''efi_gpe_StartingLBA'', c_u64), (''efi_gpe_EndingLBA'', c_u64), (''efi_gpe_Attributes'', c_efi_gpe_Attrs),
    (''efi_gpe_PartitionName'', CArray EFI_PART_NAME_LEN c_u16)]"

definition c_dk_part :: ctype where
  "c_dk_part = CStruct [(''p_start'', c_u64), (''p_size'', c_u64), (''p_guid'', c_uuid), (''p_tag'', c_u16),
    (''p_flag'', c_u16), (''p_name'', CArray EFI_PART_NAME_LEN c_u8), (''p_uguid'', c_uuid),
    (''p_resv'', CArray 8 c_u32)]"

definition EFI_VERSION102 :: u32 where "EFI_VERSION102 = 0x00010002"
definition EFI_VERSION100 :: u32 where "EFI_VERSION100 = 0x00010000"
definition EFI_VERSION_CURRENT :: u32 where "EFI_VERSION_CURRENT = EFI_VERSION100"

definition c_dk_gpt :: ctype where
  "c_dk_gpt = CStruct [(''efi_version'', c_u32), (''efi_nparts'', c_u32), (''efi_part_size'', c_u32),
    (''efi_lbasize'', c_u32), (''efi_last_lba'', c_u64), (''efi_first_u_lba'', c_u64), (''efi_last_u_lba'', c_u64),
    (''efi_disk_uguid'', c_uuid), (''efi_flags'', c_u32), (''efi_reserved1'', c_u32), (''efi_altern_lba'', c_u64),
    (''efi_reserved'', CArray 12 c_u32), (''efi_parts'', CArray 1 c_dk_part)]"

definition c_partition64 :: ctype where
  "c_partition64 = CStruct [(''p_type'', c_uuid), (''p_partno'', c_u32), (''p_resv1'', c_u32), (''p_start'', c_u64),
    (''p_size'', c_u64)]"

definition EFI_NUMPAR :: "bool \<Rightarrow> nat" where
  "EFI_NUMPAR linux = (if linux then 128 else 9)"

definition EFI_GPT_PRIMARY_CORRUPT :: u32 where "EFI_GPT_PRIMARY_CORRUPT = 0x1"

lemmas efi_defs = EFI_MIN_LABEL_SIZE_def EFI_LABEL_SIZE_def LEN_EFI_PAD_def EFI_MIN_ARRAY_SIZE_def
  EFI_PART_NAME_LEN_def EFI_NUMPAR_def

lemma uuid_layout [simp]: "size_of 8 c_uuid = 16" "size_of 4 c_uuid = 16" "align_of 8 c_uuid = 4" "align_of 4 c_uuid = 4"
  by (simp_all add: c_uuid_def pad_to_def)

lemma attrs_layout [simp]: "size_of 8 c_efi_gpe_Attrs = 8" "size_of 4 c_efi_gpe_Attrs = 8"
  "align_of 8 c_efi_gpe_Attrs = 4" "align_of 4 c_efi_gpe_Attrs = 4"
  by (simp_all add: c_efi_gpe_Attrs_def pad_to_def)

section \<open>Properties\<close>

text \<open>
  The on-disk label: the header fills one 512-byte sector on 32-bit and 64-bit hosts without
  padding, its defined part is the 92 bytes of the smallest label, and the padding starts there; an
  entry is 128 bytes, so the smallest array the specification allows holds the 128 entries that are
  used on Linux; the signature reads \<open>EFI PART\<close> in the order of the bytes on the disk.
\<close>

theorem gpt_layout:
  "portable c_efi_gpt \<and> no_padding 8 c_efi_gpt \<and> size_of 8 c_efi_gpt = EFI_LABEL_SIZE \<and>
   map_of (offsets 8 0 (members c_efi_gpt)) ''efi_gpt_Reserved2'' = Some EFI_MIN_LABEL_SIZE \<and>
   portable c_efi_gpe \<and> no_padding 8 c_efi_gpe \<and> size_of 8 c_efi_gpe * EFI_NUMPAR True = EFI_MIN_ARRAY_SIZE \<and>
   map (\<lambda>i. char_of (unat (drop_bit (8 * i) EFI_SIGNATURE AND 0xFF))) [0..<8] = ''EFI PART''"
proof -
  have "map (\<lambda>i. char_of (unat (drop_bit (8 * i) EFI_SIGNATURE AND 0xFF))) [0..<8] = ''EFI PART''" by code_simp
  then show ?thesis
    by (simp add: c_efi_gpt_def c_efi_gpe_def portable_def no_padding_def efi_defs pad_to_def)
qed

lemma le_masks: "(0xffffffff :: u64) = mask 32" "(0xffff :: u64) = mask 16"
  by (simp_all add: mask_numeral)

lemma swap_twice:
  "(ucast (LE_32 be (ucast (ucast (LE_32 be (ucast (x :: u32))) :: u32))) :: u32) = x"
  "(ucast (LE_16 be (ucast (ucast (LE_16 be (ucast (y :: u16))) :: u16))) :: u16) = y"
  by (rule bit_word_eqI; auto simp: LE_32_def LE_16_def BMASK_32_def BMASK_16_def le_masks bit_BSWAP_32 bit_BSWAP_16 bit_simps)+

lemma UUID_LE_CONVERT_twice: "UUID_LE_CONVERT be (UUID_LE_CONVERT be u) = u"
  by (cases u) (simp add: UUID_LE_CONVERT_def Let_def swap_twice)

text \<open>A number for each GUID, by which the list is seen to have no duplicates.\<close>

definition uuid_key :: "uuid \<Rightarrow> int" where
  "uuid_key u = foldl (\<lambda>n b. n * 256 + uint b) (((uint (time_low u) * 65536 + uint (time_mid u)) * 65536 +
     uint (time_hi_and_version u)) * 256 + uint (clock_seq_hi_and_reserved u)) (clock_seq_low u # node_addr u)"

lemma partition_types_differ: "distinct (EFI_UNUSED # partition_types)"
proof -
  have "distinct (map uuid_key (EFI_UNUSED # partition_types))" by code_simp
  then show ?thesis by (simp only: distinct_map)
qed

text \<open>The printed form of a GUID, with a fixed number of digits in each group.\<close>

fun hex_digits :: "nat \<Rightarrow> nat \<Rightarrow> string" where
  "hex_digits 0 n = []"
| "hex_digits (Suc w) n = hex_digits w (n div 16) @ [''0123456789abcdef'' ! (n mod 16)]"

lemma hex_digits_widths:
  "hex_digits (numeral k) n = hex_digits (pred_numeral k) (n div 16) @ [''0123456789abcdef'' ! (n mod 16)]"
  "hex_digits 1 n = [''0123456789abcdef'' ! (n mod 16)]"
  by (simp_all only: numeral_eq_Suc [of k] One_nat_def hex_digits.simps append.simps)

definition uuid_text :: "uuid \<Rightarrow> string" where
  "uuid_text u = hex_digits 8 (unat (time_low u)) @ ''-'' @ hex_digits 4 (unat (time_mid u)) @ ''-'' @
     hex_digits 4 (unat (time_hi_and_version u)) @ ''-'' @ hex_digits 2 (unat (clock_seq_hi_and_reserved u)) @
     hex_digits 2 (unat (clock_seq_low u)) @ ''-'' @ concat (map (hex_digits 2 \<circ> unat) (node_addr u))"

text \<open>
  The partition types are pairwise different and different from the mark of an unused entry, so
  an entry's type determines the partition; they stay so in the byte order of the disk, from which
  the conversion brings them back. The three types with a tag print as the comment gives them.
\<close>

theorem partition_types_distinct:
  "distinct (EFI_UNUSED # partition_types) \<and> distinct (map (UUID_LE_CONVERT be) (EFI_UNUSED # partition_types)) \<and>
   UUID_LE_CONVERT be (UUID_LE_CONVERT be u) = u \<and>
   uuid_text EFI_RESV1 = ''6a96237f-1dd2-11b2-99a6-080020736631'' \<and>
   uuid_text EFI_USR = ''6a898cc3-1dd2-11b2-99a6-080020736631'' \<and>
   uuid_text EFI_RESERVED = ''6a945a3b-1dd2-11b2-99a6-080020736631'' \<and>
   length (uuid_text EFI_USR) + 1 = UUID_PRINTABLE_STRING_LENGTH"
proof -
  have "inj (UUID_LE_CONVERT be)" by (rule inj_on_inverseI) (rule UUID_LE_CONVERT_twice)
  then have "distinct (map (UUID_LE_CONVERT be) (EFI_UNUSED # partition_types))"
    using partition_types_differ by (simp only: distinct_map inj_on_subset [OF _ subset_UNIV] simp_thms)
  moreover have "uuid_text EFI_RESV1 = ''6a96237f-1dd2-11b2-99a6-080020736631''"
    "uuid_text EFI_USR = ''6a898cc3-1dd2-11b2-99a6-080020736631''"
    "uuid_text EFI_RESERVED = ''6a945a3b-1dd2-11b2-99a6-080020736631''"
    by (simp_all add: uuid_text_def hex_digits_widths EFI_RESV1_def EFI_USR_def EFI_RESERVED_def guid_def)
  moreover from this have "length (uuid_text EFI_USR) + 1 = UUID_PRINTABLE_STRING_LENGTH"
    by (simp add: UUID_PRINTABLE_STRING_LENGTH_def)
  ultimately show ?thesis
    using partition_types_differ UUID_LE_CONVERT_twice by (intro conjI)
qed

end
