(* ===== verification/Spl_Atomic.thy ===== *)
theory Spl_Atomic
  imports Prelude
begin

text \<open>
  Atomic operations: the FreeBSD layer (\<open>compat/openzfs/os/freebsd/spl/sys/atomic.h\<close>, in the kernel
  of a 64-bit host) and the Linux one (\<open>compat/openzfs/os/linux/spl/sys/atomic.h\<close>). An operation takes
  the value of the memory cell and gives its result and the new value. The processor's and the
  kernel's own primitives are records with a contract; the loop around FreeBSD's weak
  compare-and-set runs against a list that says, for each turn, what other processors do to the cell
  before it and whether the instruction fails spuriously.
\<close>

section \<open>FreeBSD\<close>

record ('w, 'o) bsd_prims =
  machine_add :: "'w \<Rightarrow> 'w \<Rightarrow> 'w"
  machine_subtract :: "'w \<Rightarrow> 'w \<Rightarrow> 'w"
  machine_fetchadd :: "'w \<Rightarrow> 'w \<Rightarrow> 'w \<times> 'w"
  machine_fcmpset :: "'o \<Rightarrow> 'w \<Rightarrow> 'w \<Rightarrow> 'w \<Rightarrow> bool \<times> 'w \<times> 'w"

text \<open>
  \<open>machine_fcmpset o m cmp new\<close> gives success, the value left in \<open>cmp\<close> and the new value of the
  cell; a failure reports what it read. Only a spurious failure can happen on equal values.
\<close>

locale bsd_atomics =
  fixes B :: "('a::len word, 'o) bsd_prims" and spurious :: "'o \<Rightarrow> bool"
  assumes add_law: "machine_add B v d = v + d" and subtract_law: "machine_subtract B v d = v - d"
    and fetchadd_law: "machine_fetchadd B v d = (v, v + d)"
    and fcmpset_law: "machine_fcmpset B o' m cmp new =
      (if m = cmp \<and> \<not> spurious o' then (True, cmp, new) else (False, m, m))"

definition bsd_atomic_add_32_nv :: "(u32, 'o) bsd_prims \<Rightarrow> u32 \<Rightarrow> u32 \<Rightarrow> u32 \<times> u32" where
  "bsd_atomic_add_32_nv B target delta = (case machine_fetchadd B target delta of (r, m) \<Rightarrow> (r + delta, m))"

definition bsd_atomic_inc_32 :: "(u32, 'o) bsd_prims \<Rightarrow> u32 \<Rightarrow> u32" where
  "bsd_atomic_inc_32 B target = machine_add B target 1"

definition bsd_atomic_inc_32_nv :: "(u32, 'o) bsd_prims \<Rightarrow> u32 \<Rightarrow> u32 \<times> u32" where
  "bsd_atomic_inc_32_nv B target = bsd_atomic_add_32_nv B target 1"

definition bsd_atomic_dec_32 :: "(u32, 'o) bsd_prims \<Rightarrow> u32 \<Rightarrow> u32" where
  "bsd_atomic_dec_32 B target = machine_subtract B target 1"

definition bsd_atomic_dec_32_nv :: "(u32, 'o) bsd_prims \<Rightarrow> u32 \<Rightarrow> u32 \<times> u32" where
  "bsd_atomic_dec_32_nv B target = bsd_atomic_add_32_nv B target (- 1)"

text \<open>The loop of the weak variant; without a turn left it has no result.\<close>

fun cas_loop_32 :: "(u32, 'o) bsd_prims \<Rightarrow> u32 \<Rightarrow> u32 \<Rightarrow> u32 \<Rightarrow> ((u32 \<Rightarrow> u32) \<times> 'o) list \<Rightarrow> u32 \<Rightarrow> (u32 \<times> u32) option" where
  "cas_loop_32 B expected newval cmp [] target = None"
| "cas_loop_32 B expected newval cmp ((others, o') # turns) target =
    (case machine_fcmpset B o' (others target) cmp newval of (done, cmp, target) \<Rightarrow>
       if done then Some (cmp, target)
       else if cmp = expected then cas_loop_32 B expected newval cmp turns target else Some (cmp, target))"

definition bsd_atomic_cas_32 :: "bool \<Rightarrow> (u32, 'o) bsd_prims \<Rightarrow> ((u32 \<Rightarrow> u32) \<times> 'o) list \<Rightarrow> u32 \<Rightarrow> u32 \<Rightarrow> u32 \<Rightarrow> (u32 \<times> u32) option" where
  "bsd_atomic_cas_32 STRONG_FCMPSET B turns target cmp newval =
    (if STRONG_FCMPSET then
       (case turns of [] \<Rightarrow> None
        | (others, o') # _ \<Rightarrow> (case machine_fcmpset B o' (others target) cmp newval of (_, cmp, target) \<Rightarrow> Some (cmp, target)))
     else cas_loop_32 B cmp newval cmp turns target)"

definition bsd_atomic_add_int_nv :: "(u32, 'o) bsd_prims \<Rightarrow> u32 \<Rightarrow> u32 \<Rightarrow> u32 \<times> u32" where
  "bsd_atomic_add_int_nv B target delta = bsd_atomic_add_32_nv B target delta"

definition bsd_atomic_add_64_nv :: "(u64, 'o) bsd_prims \<Rightarrow> u64 \<Rightarrow> u64 \<Rightarrow> u64 \<times> u64" where
  "bsd_atomic_add_64_nv B target delta = (case machine_fetchadd B target delta of (r, m) \<Rightarrow> (r + delta, m))"

definition bsd_atomic_inc_64 :: "(u64, 'o) bsd_prims \<Rightarrow> u64 \<Rightarrow> u64" where
  "bsd_atomic_inc_64 B target = machine_add B target 1"

definition bsd_atomic_inc_64_nv :: "(u64, 'o) bsd_prims \<Rightarrow> u64 \<Rightarrow> u64 \<times> u64" where
  "bsd_atomic_inc_64_nv B target = bsd_atomic_add_64_nv B target 1"

definition bsd_atomic_dec_64 :: "(u64, 'o) bsd_prims \<Rightarrow> u64 \<Rightarrow> u64" where
  "bsd_atomic_dec_64 B target = machine_subtract B target 1"

definition bsd_atomic_dec_64_nv :: "(u64, 'o) bsd_prims \<Rightarrow> u64 \<Rightarrow> u64 \<times> u64" where
  "bsd_atomic_dec_64_nv B target = bsd_atomic_add_64_nv B target (- 1)"

text \<open>The loop of the weak variant; without a turn left it has no result.\<close>

fun cas_loop_64 :: "(u64, 'o) bsd_prims \<Rightarrow> u64 \<Rightarrow> u64 \<Rightarrow> u64 \<Rightarrow> ((u64 \<Rightarrow> u64) \<times> 'o) list \<Rightarrow> u64 \<Rightarrow> (u64 \<times> u64) option" where
  "cas_loop_64 B expected newval cmp [] target = None"
| "cas_loop_64 B expected newval cmp ((others, o') # turns) target =
    (case machine_fcmpset B o' (others target) cmp newval of (done, cmp, target) \<Rightarrow>
       if done then Some (cmp, target)
       else if cmp = expected then cas_loop_64 B expected newval cmp turns target else Some (cmp, target))"

definition bsd_atomic_cas_64 :: "bool \<Rightarrow> (u64, 'o) bsd_prims \<Rightarrow> ((u64 \<Rightarrow> u64) \<times> 'o) list \<Rightarrow> u64 \<Rightarrow> u64 \<Rightarrow> u64 \<Rightarrow> (u64 \<times> u64) option" where
  "bsd_atomic_cas_64 STRONG_FCMPSET B turns target cmp newval =
    (if STRONG_FCMPSET then
       (case turns of [] \<Rightarrow> None
        | (others, o') # _ \<Rightarrow> (case machine_fcmpset B o' (others target) cmp newval of (_, cmp, target) \<Rightarrow> Some (cmp, target)))
     else cas_loop_64 B cmp newval cmp turns target)"

definition bsd_atomic_cas_ptr :: "bool \<Rightarrow> (u64, 'o) bsd_prims \<Rightarrow> ((u64 \<Rightarrow> u64) \<times> 'o) list \<Rightarrow> u64 \<Rightarrow> u64 \<Rightarrow> u64 \<Rightarrow> (u64 \<times> u64) option" where
  "bsd_atomic_cas_ptr strong B turns target cmp newval = bsd_atomic_cas_64 strong B turns target cmp newval"

section \<open>Linux\<close>

record 'w linux_prims =
  k_inc :: "'w \<Rightarrow> 'w"
  k_dec :: "'w \<Rightarrow> 'w"
  k_add :: "'w \<Rightarrow> 'w \<Rightarrow> 'w"
  k_sub :: "'w \<Rightarrow> 'w \<Rightarrow> 'w"
  k_inc_return :: "'w \<Rightarrow> 'w \<times> 'w"
  k_dec_return :: "'w \<Rightarrow> 'w \<times> 'w"
  k_add_return :: "'w \<Rightarrow> 'w \<Rightarrow> 'w \<times> 'w"
  k_sub_return :: "'w \<Rightarrow> 'w \<Rightarrow> 'w \<times> 'w"
  k_cmpxchg :: "'w \<Rightarrow> 'w \<Rightarrow> 'w \<Rightarrow> 'w \<times> 'w"
  k_xchg :: "'w \<Rightarrow> 'w \<Rightarrow> 'w \<times> 'w"
  k_read :: "'w \<Rightarrow> 'w"
  k_set :: "'w \<Rightarrow> 'w \<Rightarrow> 'w"

text \<open>The kernel's functions take the operand first, the cell last.\<close>

locale linux_atomics =
  fixes K :: "'a::len word linux_prims"
  assumes inc_law: "k_inc K v = v + 1" and dec_law: "k_dec K v = v - 1"
    and add_law: "k_add K i v = v + i" and sub_law: "k_sub K i v = v - i"
    and inc_return_law: "k_inc_return K v = (v + 1, v + 1)" and dec_return_law: "k_dec_return K v = (v - 1, v - 1)"
    and add_return_law: "k_add_return K i v = (v + i, v + i)" and sub_return_law: "k_sub_return K i v = (v - i, v - i)"
    and cmpxchg_law: "k_cmpxchg K v x y = (v, if v = x then y else v)" and xchg_law: "k_xchg K v x = (v, x)"
    and read_law: "k_read K v = v" and set_law: "k_set K v x = x"

definition linux_atomic_inc_32 :: "u32 linux_prims \<Rightarrow> u32 \<Rightarrow> u32" where
  "linux_atomic_inc_32 K v = k_inc K v"
definition linux_atomic_dec_32 :: "u32 linux_prims \<Rightarrow> u32 \<Rightarrow> u32" where
  "linux_atomic_dec_32 K v = k_dec K v"
definition linux_atomic_add_32 :: "u32 linux_prims \<Rightarrow> u32 \<Rightarrow> u32 \<Rightarrow> u32" where
  "linux_atomic_add_32 K v i = k_add K i v"
definition linux_atomic_sub_32 :: "u32 linux_prims \<Rightarrow> u32 \<Rightarrow> u32 \<Rightarrow> u32" where
  "linux_atomic_sub_32 K v i = k_sub K i v"
definition linux_atomic_inc_32_nv :: "u32 linux_prims \<Rightarrow> u32 \<Rightarrow> u32 \<times> u32" where
  "linux_atomic_inc_32_nv K v = k_inc_return K v"
definition linux_atomic_dec_32_nv :: "u32 linux_prims \<Rightarrow> u32 \<Rightarrow> u32 \<times> u32" where
  "linux_atomic_dec_32_nv K v = k_dec_return K v"
definition linux_atomic_add_32_nv :: "u32 linux_prims \<Rightarrow> u32 \<Rightarrow> u32 \<Rightarrow> u32 \<times> u32" where
  "linux_atomic_add_32_nv K v i = k_add_return K i v"
definition linux_atomic_sub_32_nv :: "u32 linux_prims \<Rightarrow> u32 \<Rightarrow> u32 \<Rightarrow> u32 \<times> u32" where
  "linux_atomic_sub_32_nv K v i = k_sub_return K i v"
definition linux_atomic_cas_32 :: "u32 linux_prims \<Rightarrow> u32 \<Rightarrow> u32 \<Rightarrow> u32 \<Rightarrow> u32 \<times> u32" where
  "linux_atomic_cas_32 K v x y = k_cmpxchg K v x y"
definition linux_atomic_swap_32 :: "u32 linux_prims \<Rightarrow> u32 \<Rightarrow> u32 \<Rightarrow> u32 \<times> u32" where
  "linux_atomic_swap_32 K v x = k_xchg K v x"
definition linux_atomic_load_32 :: "u32 linux_prims \<Rightarrow> u32 \<Rightarrow> u32" where
  "linux_atomic_load_32 K v = k_read K v"
definition linux_atomic_store_32 :: "u32 linux_prims \<Rightarrow> u32 \<Rightarrow> u32 \<Rightarrow> u32" where
  "linux_atomic_store_32 K v x = k_set K v x"

definition linux_atomic_inc_64 :: "u64 linux_prims \<Rightarrow> u64 \<Rightarrow> u64" where
  "linux_atomic_inc_64 K v = k_inc K v"
definition linux_atomic_dec_64 :: "u64 linux_prims \<Rightarrow> u64 \<Rightarrow> u64" where
  "linux_atomic_dec_64 K v = k_dec K v"
definition linux_atomic_add_64 :: "u64 linux_prims \<Rightarrow> u64 \<Rightarrow> u64 \<Rightarrow> u64" where
  "linux_atomic_add_64 K v i = k_add K i v"
definition linux_atomic_sub_64 :: "u64 linux_prims \<Rightarrow> u64 \<Rightarrow> u64 \<Rightarrow> u64" where
  "linux_atomic_sub_64 K v i = k_sub K i v"
definition linux_atomic_inc_64_nv :: "u64 linux_prims \<Rightarrow> u64 \<Rightarrow> u64 \<times> u64" where
  "linux_atomic_inc_64_nv K v = k_inc_return K v"
definition linux_atomic_dec_64_nv :: "u64 linux_prims \<Rightarrow> u64 \<Rightarrow> u64 \<times> u64" where
  "linux_atomic_dec_64_nv K v = k_dec_return K v"
definition linux_atomic_add_64_nv :: "u64 linux_prims \<Rightarrow> u64 \<Rightarrow> u64 \<Rightarrow> u64 \<times> u64" where
  "linux_atomic_add_64_nv K v i = k_add_return K i v"
definition linux_atomic_sub_64_nv :: "u64 linux_prims \<Rightarrow> u64 \<Rightarrow> u64 \<Rightarrow> u64 \<times> u64" where
  "linux_atomic_sub_64_nv K v i = k_sub_return K i v"
definition linux_atomic_cas_64 :: "u64 linux_prims \<Rightarrow> u64 \<Rightarrow> u64 \<Rightarrow> u64 \<Rightarrow> u64 \<times> u64" where
  "linux_atomic_cas_64 K v x y = k_cmpxchg K v x y"
definition linux_atomic_swap_64 :: "u64 linux_prims \<Rightarrow> u64 \<Rightarrow> u64 \<Rightarrow> u64 \<times> u64" where
  "linux_atomic_swap_64 K v x = k_xchg K v x"
definition linux_atomic_load_64 :: "u64 linux_prims \<Rightarrow> u64 \<Rightarrow> u64" where
  "linux_atomic_load_64 K v = k_read K v"
definition linux_atomic_store_64 :: "u64 linux_prims \<Rightarrow> u64 \<Rightarrow> u64 \<Rightarrow> u64" where
  "linux_atomic_store_64 K v x = k_set K v x"

definition linux_atomic_cas_ptr :: "u64 linux_prims \<Rightarrow> u64 \<Rightarrow> u64 \<Rightarrow> u64 \<Rightarrow> u64 \<times> u64" where
  "linux_atomic_cas_ptr K target cmp newval = linux_atomic_cas_64 K target cmp newval"
definition linux_atomic_swap_ptr :: "u64 linux_prims \<Rightarrow> u64 \<Rightarrow> u64 \<Rightarrow> u64 \<times> u64" where
  "linux_atomic_swap_ptr K target newval = linux_atomic_swap_64 K target newval"
definition linux_atomic_load_ptr :: "u64 linux_prims \<Rightarrow> u64 \<Rightarrow> u64" where
  "linux_atomic_load_ptr K target = linux_atomic_load_64 K target"
definition linux_atomic_store_ptr :: "u64 linux_prims \<Rightarrow> u64 \<Rightarrow> u64 \<Rightarrow> u64" where
  "linux_atomic_store_ptr K target newval = linux_atomic_store_64 K target newval"
definition linux_ilp32_atomic_cas_ptr :: "u32 linux_prims \<Rightarrow> u32 \<Rightarrow> u32 \<Rightarrow> u32 \<Rightarrow> u32 \<times> u32" where
  "linux_ilp32_atomic_cas_ptr K target cmp newval = linux_atomic_cas_32 K target cmp newval"
definition linux_ilp32_atomic_swap_ptr :: "u32 linux_prims \<Rightarrow> u32 \<Rightarrow> u32 \<Rightarrow> u32 \<times> u32" where
  "linux_ilp32_atomic_swap_ptr K target newval = linux_atomic_swap_32 K target newval"
definition linux_ilp32_atomic_load_ptr :: "u32 linux_prims \<Rightarrow> u32 \<Rightarrow> u32" where
  "linux_ilp32_atomic_load_ptr K target = linux_atomic_load_32 K target"
definition linux_ilp32_atomic_store_ptr :: "u32 linux_prims \<Rightarrow> u32 \<Rightarrow> u32 \<Rightarrow> u32" where
  "linux_ilp32_atomic_store_ptr K target newval = linux_atomic_store_32 K target newval"

lemmas linux_atomic_defs =
  linux_atomic_inc_32_def linux_atomic_dec_32_def linux_atomic_add_32_def linux_atomic_sub_32_def
  linux_atomic_inc_32_nv_def linux_atomic_dec_32_nv_def linux_atomic_add_32_nv_def
  linux_atomic_sub_32_nv_def linux_atomic_cas_32_def linux_atomic_swap_32_def linux_atomic_load_32_def
  linux_atomic_store_32_def linux_atomic_inc_64_def linux_atomic_dec_64_def linux_atomic_add_64_def
  linux_atomic_sub_64_def linux_atomic_inc_64_nv_def linux_atomic_dec_64_nv_def
  linux_atomic_add_64_nv_def linux_atomic_sub_64_nv_def linux_atomic_cas_64_def linux_atomic_swap_64_def
  linux_atomic_load_64_def linux_atomic_store_64_def linux_atomic_cas_ptr_def linux_atomic_swap_ptr_def
  linux_atomic_load_ptr_def linux_atomic_store_ptr_def

lemmas bsd_atomic_defs =
  bsd_atomic_add_32_nv_def bsd_atomic_inc_32_def bsd_atomic_inc_32_nv_def bsd_atomic_dec_32_def
  bsd_atomic_dec_32_nv_def bsd_atomic_add_64_nv_def bsd_atomic_inc_64_def bsd_atomic_inc_64_nv_def
  bsd_atomic_dec_64_def bsd_atomic_dec_64_nv_def bsd_atomic_add_int_nv_def bsd_atomic_cas_ptr_def

section \<open>The contracts hold of the obvious primitives\<close>

definition plain_bsd :: "('a::len word, bool) bsd_prims" where
  "plain_bsd = \<lparr>machine_add = (+), machine_subtract = (-), machine_fetchadd = (\<lambda>v d. (v, v + d)),
     machine_fcmpset = (\<lambda>o' m cmp new. if m = cmp \<and> \<not> o' then (True, cmp, new) else (False, m, m))\<rparr>"

interpretation plain_bsd: bsd_atomics plain_bsd "\<lambda>o'. o'"
  by unfold_locales (simp_all add: plain_bsd_def)

definition plain_linux :: "'a::len word linux_prims" where
  "plain_linux = \<lparr>k_inc = (\<lambda>v. v + 1), k_dec = (\<lambda>v. v - 1), k_add = (\<lambda>i v. v + i), k_sub = (\<lambda>i v. v - i),
     k_inc_return = (\<lambda>v. (v + 1, v + 1)), k_dec_return = (\<lambda>v. (v - 1, v - 1)), k_add_return = (\<lambda>i v. (v + i, v + i)),
     k_sub_return = (\<lambda>i v. (v - i, v - i)), k_cmpxchg = (\<lambda>v x y. (v, if v = x then y else v)),
     k_xchg = (\<lambda>v x. (v, x)), k_read = (\<lambda>v. v), k_set = (\<lambda>v x. x)\<rparr>"

interpretation plain_linux: linux_atomics plain_linux
  by unfold_locales (simp_all add: plain_linux_def)

section \<open>Compare and set\<close>

text \<open>The cell as other processors leave it before turn \<open>k\<close>, when no turn before it changed it.\<close>

definition seen :: "(('w \<Rightarrow> 'w) \<times> 'o) list \<Rightarrow> nat \<Rightarrow> 'w \<Rightarrow> 'w" where
  "seen turns k target = fold fst (take (Suc k) turns) target"

lemma seen_Cons: "seen ((f, o') # turns) (Suc k) target = seen turns k (f target)" "seen ((f, o') # turns) 0 target = f target"
  by (simp_all add: seen_def)

lemma cas_loop_result_64:
  assumes "bsd_atomics B spurious" "cas_loop_64 B expected newval expected turns target = Some (r, m)"
  shows "\<exists>k<length turns. r = seen turns k target \<and> m = (if r = expected then newval else r)"
  using assms(2)
proof (induction turns arbitrary: target)
  case (Cons t turns)
  obtain f o' where t: "t = (f, o')" by (cases t)
  note law = bsd_atomics.fcmpset_law [OF assms(1)]
  show ?case
  proof (cases "f target = expected \<and> spurious o'")
    case True
    then have "cas_loop_64 B expected newval expected turns (f target) = Some (r, m)"
      using Cons.prems by (simp add: t law)
    from Cons.IH [OF this] obtain k where "k < length turns" "r = seen turns k (f target)"
      "m = (if r = expected then newval else r)" by blast
    then show ?thesis by (intro exI [of _ "Suc k"]) (simp add: t seen_Cons)
  next
    case False
    then have "r = f target \<and> m = (if r = expected then newval else r)"
      using Cons.prems by (auto simp: t law split: if_splits)
    then show ?thesis by (intro exI [of _ 0]) (auto simp: t seen_Cons)
  qed
qed simp

lemma cas_loop_returns_64:
  assumes "bsd_atomics B spurious" "\<exists>(f, o')\<in>set turns. \<not> spurious o'"
  shows "cas_loop_64 B expected newval expected turns target \<noteq> None"
  using assms(2)
proof (induction turns arbitrary: target)
  case (Cons t turns)
  obtain f o' where t: "t = (f, o')" by (cases t)
  note law = bsd_atomics.fcmpset_law [OF assms(1)]
  show ?case
  proof (cases "f target = expected \<and> spurious o'")
    case True
    then have "\<exists>(f, o')\<in>set turns. \<not> spurious o'" using Cons.prems by (auto simp: t)
    from Cons.IH [OF this] show ?thesis using True by (simp add: t law)
  next
    case False
    then show ?thesis by (auto simp: t law)
  qed
qed simp

text \<open>
  C32. The compare-and-set built from the weak instruction is one atomic step whatever other
  processors do to the cell between its turns and however often the instruction fails for no
  reason: its result is the value the cell had at one of the turns, and the cell then changes to the
  new value exactly if that was the expected one. It returns as soon as one turn does not fail
  spuriously; a strong instruction needs one turn. Linux gives the same at that turn.
\<close>

theorem cas_linearizes:
  assumes "bsd_atomics B spurious" "linux_atomics K"
    and "strong \<longrightarrow> (\<forall>(f, o')\<in>set turns. \<not> spurious o')"
  shows "(\<forall>r m. bsd_atomic_cas_64 strong B turns target cmp newval = Some (r, m) \<longrightarrow>
      (\<exists>k<length turns. (r, m) = linux_atomic_cas_64 K (seen turns k target) cmp newval)) \<and>
    ((\<exists>(f, o')\<in>set turns. \<not> spurious o') \<longrightarrow> bsd_atomic_cas_64 strong B turns target cmp newval \<noteq> None)"
proof (cases strong)
  case True
  note law = bsd_atomics.fcmpset_law [OF assms(1)] linux_atomics.cmpxchg_law [OF assms(2)]
  show ?thesis
  proof (cases turns)
    case (Cons t ts)
    obtain f o' where t: "t = (f, o')" by (cases t)
    have "\<not> spurious o'" using True assms(3) by (simp add: Cons t)
    then have "bsd_atomic_cas_64 strong B turns target cmp newval =
        Some (linux_atomic_cas_64 K (seen turns 0 target) cmp newval)"
      using True by (simp add: bsd_atomic_cas_64_def linux_atomic_defs Cons t seen_Cons law)
    then show ?thesis using Cons by auto
  qed (simp add: bsd_atomic_cas_64_def True)
next
  case False
  then have weak: "bsd_atomic_cas_64 strong B turns target cmp newval = cas_loop_64 B cmp newval cmp turns target"
    by (simp add: bsd_atomic_cas_64_def)
  have cas: "linux_atomic_cas_64 K v x y = (v, if v = x then y else v)" for v x y
    by (simp add: linux_atomic_defs linux_atomics.cmpxchg_law [OF assms(2)])
  show ?thesis
    unfolding weak cas using cas_loop_result_64 [OF assms(1)] cas_loop_returns_64 [OF assms(1)]
    by (intro conjI allI impI) (blast, simp)
qed

text \<open>Two spurious failures, another processor that changes the cell and changes it back, success.\<close>

theorem cas_linearizes_witness:
  "\<exists>k<3. bsd_atomic_cas_64 False plain_bsd [(id, True), (\<lambda>w. w + 1, True), (\<lambda>w. w - 1, False)] 7 7 9 =
     Some (linux_atomic_cas_64 plain_linux
       (seen [(id, True), (\<lambda>w. w + 1, True), (\<lambda>w. w - 1, False)] k 7) 7 9)"
proof -
  note c = cas_linearizes [OF plain_bsd.bsd_atomics_axioms plain_linux.linux_atomics_axioms,
    of False "[(id, True), (\<lambda>w. w + 1, True), (\<lambda>w. w - 1, False)]" 7 7 9]
  then show ?thesis by (auto simp: numeral_3_eq_3)
qed

text \<open>The remaining operations of the two layers do the same to the cell and give the same result.\<close>

lemma atomic_arithmetic:
  assumes "bsd_atomics B spurious" "linux_atomics K"
  shows "bsd_atomic_inc_64 B v = linux_atomic_inc_64 K v" "bsd_atomic_dec_64 B v = linux_atomic_dec_64 K v"
    "bsd_atomic_inc_64_nv B v = linux_atomic_inc_64_nv K v" "bsd_atomic_dec_64_nv B v = linux_atomic_dec_64_nv K v"
    "bsd_atomic_add_64_nv B v d = linux_atomic_add_64_nv K v d"
  using bsd_atomics.add_law [OF assms(1)] bsd_atomics.subtract_law [OF assms(1)] bsd_atomics.fetchadd_law [OF assms(1)]
    linux_atomics.inc_law [OF assms(2)] linux_atomics.dec_law [OF assms(2)] linux_atomics.inc_return_law [OF assms(2)]
    linux_atomics.dec_return_law [OF assms(2)] linux_atomics.add_return_law [OF assms(2)]
  by (simp_all add: bsd_atomic_defs linux_atomic_defs)

end
