(* ===== verification/Refcount.thy ===== *)
theory Refcount
  imports Spl_Atomic "HOL-Library.Multiset"
begin

text \<open>
  Reference counts (\<open>compat/openzfs/sys/zfs_refcount.h\<close>) in the build without \<open>ZFS_DEBUG\<close>, over the
  Linux atomics. What the interface promises is the other build's: a collection of references, each
  with a holder and a number. The count is the sum of the numbers; a transfer between two counts is
  three atomic steps that other processors interleave with.
\<close>

record refcount =
  rc_count :: u64

definition zfs_refcount_create :: "refcount \<Rightarrow> refcount" where
  "zfs_refcount_create rc = rc\<lparr>rc_count := 0\<rparr>"
definition zfs_refcount_create_untracked :: "refcount \<Rightarrow> refcount" where
  "zfs_refcount_create_untracked rc = rc\<lparr>rc_count := 0\<rparr>"
definition zfs_refcount_create_tracked :: "refcount \<Rightarrow> refcount" where
  "zfs_refcount_create_tracked rc = rc\<lparr>rc_count := 0\<rparr>"
definition zfs_refcount_destroy :: "refcount \<Rightarrow> refcount" where
  "zfs_refcount_destroy rc = rc\<lparr>rc_count := 0\<rparr>"
definition zfs_refcount_destroy_many :: "refcount \<Rightarrow> u64 \<Rightarrow> refcount" where
  "zfs_refcount_destroy_many rc number = rc\<lparr>rc_count := 0\<rparr>"

definition zfs_refcount_count :: "u64 linux_prims \<Rightarrow> refcount \<Rightarrow> u64" where
  "zfs_refcount_count K rc = linux_atomic_load_64 K (rc_count rc)"
definition zfs_refcount_is_zero :: "u64 linux_prims \<Rightarrow> refcount \<Rightarrow> bool" where
  "zfs_refcount_is_zero K rc \<longleftrightarrow> zfs_refcount_count K rc = 0"

definition zfs_refcount_add :: "u64 linux_prims \<Rightarrow> refcount \<Rightarrow> 'h \<Rightarrow> u64 \<times> refcount" where
  "zfs_refcount_add K rc holder = map_prod id (\<lambda>c. rc\<lparr>rc_count := c\<rparr>) (linux_atomic_inc_64_nv K (rc_count rc))"
definition zfs_refcount_remove :: "u64 linux_prims \<Rightarrow> refcount \<Rightarrow> 'h \<Rightarrow> u64 \<times> refcount" where
  "zfs_refcount_remove K rc holder = map_prod id (\<lambda>c. rc\<lparr>rc_count := c\<rparr>) (linux_atomic_dec_64_nv K (rc_count rc))"
definition zfs_refcount_add_few :: "u64 linux_prims \<Rightarrow> refcount \<Rightarrow> u64 \<Rightarrow> 'h \<Rightarrow> refcount" where
  "zfs_refcount_add_few K rc number holder = rc\<lparr>rc_count := linux_atomic_add_64 K (rc_count rc) number\<rparr>"
text \<open>
  The two removing macros negate their argument in its own type; \<open>conv\<close> is the conversion of that type
  to 64 bits: the identity for 64-bit numbers, \<open>ucast\<close> for narrower unsigned and \<open>scast\<close> for signed ones.
\<close>

definition zfs_refcount_remove_few ::
    "u64 linux_prims \<Rightarrow> ('n::len word \<Rightarrow> u64) \<Rightarrow> refcount \<Rightarrow> 'n word \<Rightarrow> 'h \<Rightarrow> refcount" where
  "zfs_refcount_remove_few K conv rc number holder =
    rc\<lparr>rc_count := linux_atomic_add_64 K (rc_count rc) (conv (- number))\<rparr>"
definition zfs_refcount_add_many :: "u64 linux_prims \<Rightarrow> refcount \<Rightarrow> u64 \<Rightarrow> 'h \<Rightarrow> u64 \<times> refcount" where
  "zfs_refcount_add_many K rc number holder =
    map_prod id (\<lambda>c. rc\<lparr>rc_count := c\<rparr>) (linux_atomic_add_64_nv K (rc_count rc) number)"
definition zfs_refcount_remove_many ::
    "u64 linux_prims \<Rightarrow> ('n::len word \<Rightarrow> u64) \<Rightarrow> refcount \<Rightarrow> 'n word \<Rightarrow> 'h \<Rightarrow> u64 \<times> refcount" where
  "zfs_refcount_remove_many K conv rc number holder =
    map_prod id (\<lambda>c. rc\<lparr>rc_count := c\<rparr>) (linux_atomic_add_64_nv K (rc_count rc) (conv (- number)))"

text \<open>The kernel's read gives a signed value, so the comparison is a signed one.\<close>

definition zfs_refcount_held :: "u64 linux_prims \<Rightarrow> refcount \<Rightarrow> 'h \<Rightarrow> bool" where
  "zfs_refcount_held K rc holder \<longleftrightarrow> 0 < sint (zfs_refcount_count K rc)"
definition zfs_refcount_not_held :: "refcount \<Rightarrow> 'h \<Rightarrow> bool" where
  "zfs_refcount_not_held rc holder \<longleftrightarrow> True"
definition zfs_refcount_transfer_ownership :: "refcount \<Rightarrow> 'h \<Rightarrow> 'h \<Rightarrow> refcount" where
  "zfs_refcount_transfer_ownership rc ch nh = rc"
definition zfs_refcount_transfer_ownership_many :: "refcount \<Rightarrow> u64 \<Rightarrow> 'h \<Rightarrow> 'h \<Rightarrow> refcount" where
  "zfs_refcount_transfer_ownership_many rc nr ch nh = rc"

lemmas refcount_defs =
  zfs_refcount_create_def zfs_refcount_count_def zfs_refcount_is_zero_def zfs_refcount_add_def zfs_refcount_remove_def
  zfs_refcount_add_few_def zfs_refcount_remove_few_def zfs_refcount_add_many_def zfs_refcount_remove_many_def
  zfs_refcount_held_def zfs_refcount_transfer_ownership_def zfs_refcount_transfer_ownership_many_def linux_atomic_defs

section \<open>Holders\<close>

text \<open>The operations in a sequence of calls on one count.\<close>

datatype 'h rc_op =
    Rc_add 'h | Rc_remove 'h | Rc_add_few nat 'h | Rc_remove_few nat 'h | Rc_add_many nat 'h | Rc_remove_many nat 'h
  | Rc_transfer_ownership nat 'h 'h

fun rc_exec :: "u64 linux_prims \<Rightarrow> 'h rc_op \<Rightarrow> refcount \<Rightarrow> u64 option \<times> refcount" where
  "rc_exec K (Rc_add h) rc = map_prod Some id (zfs_refcount_add K rc h)"
| "rc_exec K (Rc_remove h) rc = map_prod Some id (zfs_refcount_remove K rc h)"
| "rc_exec K (Rc_add_few n h) rc = (None, zfs_refcount_add_few K rc (of_nat n) h)"
| "rc_exec K (Rc_remove_few n h) rc = (None, zfs_refcount_remove_few K (\<lambda>w :: u64. w) rc (of_nat n) h)"
| "rc_exec K (Rc_add_many n h) rc = map_prod Some id (zfs_refcount_add_many K rc (of_nat n) h)"
| "rc_exec K (Rc_remove_many n h) rc = map_prod Some id (zfs_refcount_remove_many K (\<lambda>w :: u64. w) rc (of_nat n) h)"
| "rc_exec K (Rc_transfer_ownership n h h') rc = (None, zfs_refcount_transfer_ownership_many rc (of_nat n) h h')"

text \<open>
  What the comment of the header promises: \<open>few\<close> is a number of references, \<open>many\<close> one reference
  with a number, and removing a reference that does not exist is a panic (\<open>None\<close>).
\<close>

definition rc_drop :: "('h \<times> nat) multiset \<Rightarrow> ('h \<times> nat) multiset \<Rightarrow> ('h \<times> nat) multiset option" where
  "rc_drop gone refs = (if gone \<subseteq># refs then Some (refs - gone) else None)"

fun rc_spec :: "'h rc_op \<Rightarrow> ('h \<times> nat) multiset \<Rightarrow> ('h \<times> nat) multiset option" where
  "rc_spec (Rc_add h) refs = Some (refs + {#(h, 1)#})"
| "rc_spec (Rc_remove h) refs = rc_drop {#(h, 1)#} refs"
| "rc_spec (Rc_add_few n h) refs = Some (refs + replicate_mset n (h, 1))"
| "rc_spec (Rc_remove_few n h) refs = rc_drop (replicate_mset n (h, 1)) refs"
| "rc_spec (Rc_add_many n h) refs = Some (refs + {#(h, n)#})"
| "rc_spec (Rc_remove_many n h) refs = rc_drop {#(h, n)#} refs"
| "rc_spec (Rc_transfer_ownership n h h') refs = map_option (\<lambda>r. r + {#(h', n)#}) (rc_drop {#(h, n)#} refs)"

fun rc_spec_run :: "'h rc_op list \<Rightarrow> ('h \<times> nat) multiset \<Rightarrow> ('h \<times> nat) multiset option" where
  "rc_spec_run [] refs = Some refs"
| "rc_spec_run (op # ops) refs = Option.bind (rc_spec op refs) (rc_spec_run ops)"

fun rc_run :: "u64 linux_prims \<Rightarrow> 'h rc_op list \<Rightarrow> refcount \<Rightarrow> refcount" where
  "rc_run K [] rc = rc"
| "rc_run K (op # ops) rc = rc_run K ops (snd (rc_exec K op rc))"

definition rc_total :: "('h \<times> nat) multiset \<Rightarrow> nat" where
  "rc_total refs = \<Sum>\<^sub># (image_mset snd refs)"

lemma rc_total_simps [simp]:
  "rc_total {#} = 0" "rc_total (add_mset (h, n) refs) = n + rc_total refs"
  "rc_total (r + s) = rc_total r + rc_total s" "rc_total (replicate_mset k (h, n)) = k * n"
  by (simp_all add: rc_total_def image_replicate_mset)

lemma rc_total_drop: "rc_drop gone refs = Some refs' \<Longrightarrow> rc_total refs = rc_total refs' + rc_total gone"
  unfolding rc_drop_def by (metis option.distinct(1) option.inject rc_total_simps(3) subset_mset.diff_add)

lemma rc_step_total:
  assumes "linux_atomics K" "rc_count rc = of_nat (rc_total refs)" "rc_spec op refs = Some refs'"
  shows "rc_count (snd (rc_exec K op rc)) = of_nat (rc_total refs')"
    and "fst (rc_exec K op rc) \<in> {None, Some (of_nat (rc_total refs'))}"
  using assms(2-) linux_atomics.inc_return_law [OF assms(1)] linux_atomics.dec_return_law [OF assms(1)]
    linux_atomics.add_return_law [OF assms(1)] linux_atomics.add_law [OF assms(1)]
  by (cases op; auto simp: refcount_defs map_prod_def dest!: rc_total_drop)+

lemma rc_run_total:
  assumes "linux_atomics K"
  shows "rc_spec_run ops refs = Some refs' \<Longrightarrow> rc_count rc = of_nat (rc_total refs) \<Longrightarrow>
    rc_count (rc_run K ops rc) = of_nat (rc_total refs')"
proof (induction ops arbitrary: refs rc)
  case (Cons op ops)
  from Cons.prems(1) obtain r where r: "rc_spec op refs = Some r" "rc_spec_run ops r = Some refs'"
    by (auto split: bind_splits)
  then show ?case using Cons.IH rc_step_total(1) [OF assms Cons.prems(2) r(1)] by simp
qed simp

lemma rc_total_zero: "rc_total refs = 0 \<longleftrightarrow> (\<forall>(h, n)\<in>#refs. n = 0)"
  by (auto simp: rc_total_def)

lemma rc_total_member: "(h, n) \<in># refs \<Longrightarrow> n \<le> rc_total refs"
  by (metis insert_DiffM le_add1 rc_total_simps(2))

text \<open>
  A removal with an unsigned 32-bit number does not subtract it from the count: the number is negated
  at its own width, and the count grows by \<^verbatim>\<open>2^32 - n\<close>.
\<close>

lemma narrow_removal:
  fixes n :: u32
  assumes "linux_atomics K" "n \<noteq> 0"
  shows "rc_count (zfs_refcount_remove_few K ucast rc n h) = rc_count rc + (4294967296 - ucast n)"
proof -
  have p: "0 < uint n" "uint n < 4294967296"
    using assms(2) uint_lt2p [of n] by (auto simp: order.strict_iff_order uint_0_iff)
  have "uint (- n) = (- uint n) mod 4294967296" by (simp only: uint_word_ariths) simp
  also have "\<dots> = (- uint n + 4294967296) mod 4294967296" by simp
  also have "\<dots> = 4294967296 - uint n" using p by (subst mod_pos_pos_trivial) auto
  finally have "(ucast (- n) :: u64) = word_of_int (4294967296 - uint n)" by (simp only: ucast_eq)
  also have "\<dots> = 4294967296 - ucast n"
    unfolding ucast_eq wi_hom_sub [symmetric] by (simp only: word_of_int_numeral)
  finally show ?thesis by (simp add: refcount_defs linux_atomics.add_law [OF assms(1)])
qed

text \<open>
  C30. The plain counter is a sound replacement of the collection of references: after any calls that
  the collection accepts (nothing is removed that was not added), with numbers of 64 bits and as long as the numbers sum to less
  than \<open>2 ^ 63\<close>, the count is their sum, it is zero exactly if no reference with a number is left,
  every holder of one is reported as holding, and the removal whose result is zero is the one of
  the last reference.
\<close>

theorem refcount_refines_holders:
  fixes refs :: "('h \<times> nat) multiset"
  assumes "linux_atomics K" "rc_spec_run ops {#} = Some refs" "rc_total refs < 2 ^ 63"
    and rc_def: "rc = rc_run K ops (zfs_refcount_create rc0)"
  shows "unat (zfs_refcount_count K rc) = rc_total refs \<and>
    (zfs_refcount_is_zero K rc \<longleftrightarrow> (\<forall>(h, n)\<in>#refs. n = 0)) \<and>
    (\<forall>h n. (h, n) \<in># refs \<and> n \<noteq> 0 \<longrightarrow> zfs_refcount_held K rc h) \<and>
    (\<forall>h. (h, 1) \<in># refs \<longrightarrow>
      (fst (zfs_refcount_remove K rc h) = 0 \<longleftrightarrow> rc_total (refs - {#(h, 1)#}) = 0))"
proof -
  have c: "rc_count rc = of_nat (rc_total refs)"
    unfolding rc_def by (rule rc_run_total [OF assms(1,2)]) (simp add: zfs_refcount_create_def)
  have u: "zfs_refcount_count K rc = of_nat (rc_total refs)"
    by (simp add: refcount_defs linux_atomics.read_law [OF assms(1)] c)
  have n: "unat (zfs_refcount_count K rc) = rc_total refs"
    using assms(3) by (simp add: u unat_of_nat)
  have s: "sint (zfs_refcount_count K rc) = int (rc_total refs)"
    using assms(3) by (simp add: sint_uint uint_nat n signed_take_bit_int_eq_self)
  have z: "zfs_refcount_is_zero K rc \<longleftrightarrow> (\<forall>(h, n)\<in>#refs. n = 0)"
    unfolding zfs_refcount_is_zero_def rc_total_zero [symmetric] n [symmetric] by (simp add: unat_eq_0)
  have held: "zfs_refcount_held K rc h" if "(h, n) \<in># refs" "n \<noteq> 0" for h n
    using rc_total_member [OF that(1)] that(2) by (simp add: zfs_refcount_held_def s)
  have "fst (zfs_refcount_remove K rc h) = 0 \<longleftrightarrow> rc_total (refs - {#(h, 1)#}) = 0" if "(h, 1) \<in># refs" for h
  proof -
    have t: "rc_total refs = 1 + rc_total (refs - {#(h, 1)#})"
      using that by (metis insert_DiffM rc_total_simps(2))
    then have "fst (zfs_refcount_remove K rc h) = of_nat (rc_total (refs - {#(h, 1)#}))"
      by (simp add: refcount_defs linux_atomics.dec_return_law [OF assms(1)] c map_prod_def)
    moreover have "unat (of_nat (rc_total (refs - {#(h, 1)#})) :: u64) = rc_total (refs - {#(h, 1)#})"
      using assms(3) t by (simp add: unat_of_nat)
    ultimately show ?thesis by (metis unat_eq_0)
  qed
  with n z held show ?thesis by blast
qed

theorem refcount_refines_holders_witness:
  "unat (zfs_refcount_count plain_linux (rc_run plain_linux
      [Rc_add_few 2 ''dbuf'', Rc_add_many 512 ''arc'', Rc_remove ''dbuf''] (zfs_refcount_create \<lparr>rc_count = 7\<rparr>))) = 513"
proof -
  have r: "rc_spec_run [Rc_add_few 2 ''dbuf'', Rc_add_many 512 ''arc'', Rc_remove ''dbuf''] {#} =
      Some {#(''dbuf'', 1), (''arc'', 512)#}"
    by (simp add: rc_drop_def numeral_2_eq_2)
  show ?thesis
    using refcount_refines_holders [OF plain_linux.linux_atomics_axioms r _ refl, of "\<lparr>rc_count = 7\<rparr>"] by simp
qed

section \<open>Transfers between counts\<close>

text \<open>
  The three statements of the transfer macro, and the macro run without interference. In the system,
  processor \<open>t\<close> is outside the macro, has read the source, or has taken from it; \<open>net\<close> is what was
  added less what was removed by everybody. Holders play no part in this build.
\<close>

definition transfer_take :: "u64 linux_prims \<Rightarrow> nat \<Rightarrow> u64 \<Rightarrow> refcount list \<Rightarrow> refcount list" where
  "transfer_take K src tmp rcs = rcs[src := (rcs ! src)\<lparr>rc_count := linux_atomic_add_64 K (rc_count (rcs ! src)) (- tmp)\<rparr>]"
definition transfer_give :: "u64 linux_prims \<Rightarrow> nat \<Rightarrow> u64 \<Rightarrow> refcount list \<Rightarrow> refcount list" where
  "transfer_give K dst tmp rcs = rcs[dst := (rcs ! dst)\<lparr>rc_count := linux_atomic_add_64 K (rc_count (rcs ! dst)) tmp\<rparr>]"
definition zfs_refcount_transfer :: "u64 linux_prims \<Rightarrow> nat \<Rightarrow> nat \<Rightarrow> refcount list \<Rightarrow> refcount list" where
  "zfs_refcount_transfer K dst src rcs =
    (let tmp = zfs_refcount_count K (rcs ! src) in transfer_give K dst tmp (transfer_take K src tmp rcs))"

datatype transfer_pc = T_out | T_read nat nat u64 | T_taken nat u64

fun in_transit :: "transfer_pc \<Rightarrow> u64" where
  "in_transit (T_taken dst tmp) = tmp"
| "in_transit T_out = 0"
| "in_transit (T_read dst src tmp) = 0"

record rc_sys =
  counts :: "refcount list"
  transfers :: "transfer_pc list"
  net :: u64

inductive rc_step :: "u64 linux_prims \<Rightarrow> rc_sys \<Rightarrow> rc_sys \<Rightarrow> bool" for K where
  add: "i < length (counts s) \<Longrightarrow>
    rc_step K s (s\<lparr>counts := (counts s)[i := snd (zfs_refcount_add_many K (counts s ! i) n ())], net := net s + n\<rparr>)"
| remove: "i < length (counts s) \<Longrightarrow>
    rc_step K s (s\<lparr>counts := (counts s)[i := snd (zfs_refcount_remove_many K (\<lambda>w :: u64. w) (counts s ! i) n ())], net := net s - n\<rparr>)"
| read: "t < length (transfers s) \<Longrightarrow> transfers s ! t = T_out \<Longrightarrow> src < length (counts s) \<Longrightarrow> dst < length (counts s) \<Longrightarrow>
    rc_step K s (s\<lparr>transfers := (transfers s)[t := T_read dst src (zfs_refcount_count K (counts s ! src))]\<rparr>)"
| take: "t < length (transfers s) \<Longrightarrow> transfers s ! t = T_read dst src tmp \<Longrightarrow>
    rc_step K s (s\<lparr>counts := transfer_take K src tmp (counts s), transfers := (transfers s)[t := T_taken dst tmp]\<rparr>)"
| give: "t < length (transfers s) \<Longrightarrow> transfers s ! t = T_taken dst tmp \<Longrightarrow>
    rc_step K s (s\<lparr>counts := transfer_give K dst tmp (counts s), transfers := (transfers s)[t := T_out]\<rparr>)"

definition rc_start :: "nat \<Rightarrow> nat \<Rightarrow> rc_sys" where
  "rc_start n m = \<lparr>counts = replicate n (zfs_refcount_create \<lparr>rc_count = 0\<rparr>), transfers = replicate m T_out, net = 0\<rparr>"

definition total_count :: "refcount list \<Rightarrow> u64" where
  "total_count rcs = sum_list (map rc_count rcs)"

definition positions_ok :: "nat \<Rightarrow> transfer_pc \<Rightarrow> bool" where
  "positions_ok n p = (case p of T_out \<Rightarrow> True | T_read dst src tmp \<Rightarrow> dst < n \<and> src < n | T_taken dst tmp \<Rightarrow> dst < n)"

definition rc_inv :: "rc_sys \<Rightarrow> bool" where
  "rc_inv s \<longleftrightarrow> total_count (counts s) + sum_list (map in_transit (transfers s)) = net s \<and>
     (\<forall>p\<in>set (transfers s). positions_ok (length (counts s)) p)"

lemma sum_list_map_update:
  fixes f :: "'b \<Rightarrow> 'c::ab_group_add"
  shows "i < length xs \<Longrightarrow> sum_list (map f (xs[i := x])) = sum_list (map f xs) - f (xs ! i) + f x"
proof (induction xs arbitrary: i)
  case (Cons y ys)
  then show ?case by (cases i) (auto simp: algebra_simps)
qed simp

lemma positions_update:
  assumes "\<forall>p\<in>set ps. positions_ok n p" "positions_ok n q"
  shows "\<forall>p\<in>set (ps[t := q]). positions_ok n p"
  using assms set_update_subset_insert [of ps t q] by blast

lemma rc_step_inv:
  assumes "linux_atomics K" "rc_step K s s'" "rc_inv s"
  shows "rc_inv s'"
  using assms(2)
proof cases
  case (add i n)
  then show ?thesis using assms(3) linux_atomics.add_return_law [OF assms(1)]
    by (auto simp: rc_inv_def total_count_def sum_list_map_update refcount_defs map_prod_def algebra_simps)
next
  case (remove i n)
  then show ?thesis using assms(3) linux_atomics.add_return_law [OF assms(1)]
    by (auto simp: rc_inv_def total_count_def sum_list_map_update refcount_defs map_prod_def algebra_simps)
next
  case (read t src dst)
  then have q: "positions_ok (length (counts s)) (T_read dst src (zfs_refcount_count K (counts s ! src)))"
    by (simp add: positions_ok_def)
  from read show ?thesis using assms(3) positions_update [OF _ q, of "transfers s" t]
    by (simp add: rc_inv_def sum_list_map_update)
next
  case (take t dst src tmp)
  have "positions_ok (length (counts s)) (T_read dst src tmp)"
    using assms(3) take nth_mem [of t "transfers s"] by (auto simp: rc_inv_def)
  then have p: "src < length (counts s)" "positions_ok (length (counts s)) (T_taken dst tmp)" by (simp_all add: positions_ok_def)
  with take show ?thesis using assms(3) positions_update [OF _ p(2), of "transfers s" t] linux_atomics.add_law [OF assms(1)]
    by (simp add: rc_inv_def total_count_def transfer_take_def sum_list_map_update refcount_defs algebra_simps)
next
  case (give t dst tmp)
  have "positions_ok (length (counts s)) (T_taken dst tmp)"
    using assms(3) give nth_mem [of t "transfers s"] by (auto simp: rc_inv_def)
  then have p: "dst < length (counts s)" by (simp add: positions_ok_def)
  have q: "positions_ok (length (counts s)) T_out" by (simp add: positions_ok_def)
  from give p show ?thesis using assms(3) positions_update [OF _ q, of "transfers s" t] linux_atomics.add_law [OF assms(1)]
    by (simp add: rc_inv_def total_count_def transfer_give_def sum_list_map_update refcount_defs algebra_simps)
qed

lemma rc_start_inv: "rc_inv (rc_start n m)"
  by (simp add: rc_inv_def rc_start_def total_count_def refcount_defs positions_ok_def sum_list_replicate)

lemma rc_reachable_inv:
  assumes "linux_atomics K" "(rc_step K)\<^sup>*\<^sup>* (rc_start n m) s"
  shows "rc_inv s"
  using assms(2) by (induction rule: rtranclp_induct) (auto intro: rc_start_inv rc_step_inv [OF assms(1)])

text \<open>
  C31. Transfers lose and invent nothing, however they interleave with each other and with additions
  and removals: when no processor is inside the macro, the counts sum to what was added less what
  was removed. Run without interference, a transfer to another count leaves nothing in the source.
\<close>

theorem transfers_conserve:
  assumes "linux_atomics K"
  shows "((rc_step K)\<^sup>*\<^sup>* (rc_start n m) s \<and> set (transfers s) \<subseteq> {T_out} \<longrightarrow> total_count (counts s) = net s) \<and>
    (src < length rcs \<and> dst < length rcs \<and> src \<noteq> dst \<longrightarrow>
      map rc_count (zfs_refcount_transfer K dst src rcs) =
      (map rc_count rcs)[src := 0, dst := rc_count (rcs ! dst) + rc_count (rcs ! src)])"
proof (intro conjI impI; elim conjE)
  assume r: "(rc_step K)\<^sup>*\<^sup>* (rc_start n m) s" and out: "set (transfers s) \<subseteq> {T_out}"
  have "sum_list (map in_transit ps) = 0" if "set ps \<subseteq> {T_out}" for ps
    using that by (induction ps) auto
  with out have "sum_list (map in_transit (transfers s)) = 0" by blast
  with rc_reachable_inv [OF assms r] show "total_count (counts s) = net s" by (simp add: rc_inv_def)
next
  assume "src < length rcs" "dst < length rcs" "src \<noteq> dst"
  then show "map rc_count (zfs_refcount_transfer K dst src rcs) =
      (map rc_count rcs)[src := 0, dst := rc_count (rcs ! dst) + rc_count (rcs ! src)]"
    by (simp add: zfs_refcount_transfer_def transfer_take_def transfer_give_def Let_def refcount_defs map_update
        linux_atomics.add_law [OF assms] linux_atomics.read_law [OF assms])
qed

theorem transfers_conserve_witness:
  "map rc_count (zfs_refcount_transfer plain_linux 1 0 [\<lparr>rc_count = 5\<rparr>, \<lparr>rc_count = 2\<rparr>]) = [0, 7] \<and>
   total_count (counts (rc_start 2 1)) = net (rc_start 2 1)"
  using transfers_conserve [OF plain_linux.linux_atomics_axioms, of 2 1 "rc_start 2 1" 0 "[\<lparr>rc_count = 5\<rparr>, \<lparr>rc_count = 2\<rparr>]" 1]
  by (simp add: rc_start_def)

text \<open>
  During a transfer the references in transit are in neither count: another processor can see both
  at zero while a reference exists.
\<close>

lemma transfer_window:
  "\<exists>s. (rc_step plain_linux)\<^sup>*\<^sup>* (rc_start 2 1) s \<and> net s = 1 \<and> (\<forall>rc\<in>set (counts s). zfs_refcount_is_zero plain_linux rc)"
proof -
  let ?K = "plain_linux :: u64 linux_prims"
  let ?s1 = "\<lparr>counts = [\<lparr>rc_count = 1\<rparr>, \<lparr>rc_count = 0\<rparr>], transfers = [T_out], net = 1\<rparr>"
  let ?s2 = "\<lparr>counts = [\<lparr>rc_count = 1\<rparr>, \<lparr>rc_count = 0\<rparr>], transfers = [T_read 1 0 1], net = 1\<rparr>"
  let ?s3 = "\<lparr>counts = [\<lparr>rc_count = 0\<rparr>, \<lparr>rc_count = 0\<rparr>], transfers = [T_taken 1 1], net = 1\<rparr>"
  note simps = rc_start_def refcount_defs plain_linux_def numeral_2_eq_2 transfer_take_def
  have "rc_step ?K (rc_start 2 1) ?s1"
    using rc_step.add [of 0 "rc_start 2 1" ?K 1] by (simp add: simps)
  moreover have "rc_step ?K ?s1 ?s2"
    using rc_step.read [of 0 ?s1 0 1 ?K] by (simp add: simps)
  moreover have "rc_step ?K ?s2 ?s3"
    using rc_step.take [of 0 ?s2 1 0 1 ?K] by (simp add: simps)
  ultimately have "(rc_step ?K)\<^sup>*\<^sup>* (rc_start 2 1) ?s3" by (meson converse_rtranclp_into_rtranclp rtranclp.rtrancl_refl)
  then show ?thesis by (intro exI [of _ ?s3]) (simp add: simps)
qed

end
