(* ===== verification/Spl_Time.thy ===== *)
theory Spl_Time
  imports Prelude "HOL-Library.Signed_Division"
begin

text \<open>
  Times in nanoseconds (\<open>compat/openzfs/os/freebsd/spl/sys/time.h\<close>,
  \<open>compat/openzfs/os/linux/spl/sys/time.h\<close> and \<open>compat/spl/sys/time.h\<close>, on hosts with a 64-bit
  \<open>long\<close>): conversions of \<open>hrtime_t\<close>, a signed 64-bit word, and the clocks. The FreeBSD constants are
  unsigned long, those of the other layers \<open>int\<close>, so a division of an \<open>hrtime_t\<close> is unsigned on
  FreeBSD and signed elsewhere. What the kernel's or the C library's clock returns is the argument
  of the clock functions.
\<close>

type_synonym hrtime_t = u64

text \<open>Division of C's signed 64-bit integers.\<close>

definition quot :: "hrtime_t \<Rightarrow> hrtime_t \<Rightarrow> hrtime_t" where
  "quot a b = word_of_int (sint a sdiv sint b)"

record timespec =
  tv_sec :: u64
  tv_nsec :: u64

record timeval =
  tvl_sec :: u64
  tvl_usec :: u64

section \<open>FreeBSD\<close>

definition freebsd_SEC :: u64 where "freebsd_SEC = 1"
definition freebsd_MILLISEC :: u64 where "freebsd_MILLISEC = 1000"
definition freebsd_MICROSEC :: u64 where "freebsd_MICROSEC = 1000000"
definition freebsd_NANOSEC :: u64 where "freebsd_NANOSEC = 1000000000"
definition freebsd_TIME_MAX :: u64 where "freebsd_TIME_MAX = 0x7FFFFFFFFFFFFFFF"

definition freebsd_MSEC2NSEC :: "hrtime_t \<Rightarrow> u64" where "freebsd_MSEC2NSEC m = m * (freebsd_NANOSEC div freebsd_MILLISEC)"
definition freebsd_NSEC2MSEC :: "hrtime_t \<Rightarrow> u64" where "freebsd_NSEC2MSEC n = n div (freebsd_NANOSEC div freebsd_MILLISEC)"
definition freebsd_USEC2NSEC :: "hrtime_t \<Rightarrow> u64" where "freebsd_USEC2NSEC m = m * (freebsd_NANOSEC div freebsd_MICROSEC)"
definition freebsd_NSEC2USEC :: "hrtime_t \<Rightarrow> u64" where "freebsd_NSEC2USEC n = n div (freebsd_NANOSEC div freebsd_MICROSEC)"
definition freebsd_NSEC2SEC :: "hrtime_t \<Rightarrow> u64" where "freebsd_NSEC2SEC n = n div (freebsd_NANOSEC div freebsd_SEC)"
definition freebsd_SEC2NSEC :: "hrtime_t \<Rightarrow> u64" where "freebsd_SEC2NSEC m = m * (freebsd_NANOSEC div freebsd_SEC)"

definition freebsd_TIMESPEC_OVERFLOW :: "bool \<Rightarrow> timespec \<Rightarrow> bool" where
  "freebsd_TIMESPEC_OVERFLOW i386 ts =
    (if i386 then sint (tv_sec ts) < - 0x80000000 \<or> 0x7FFFFFFF < sint (tv_sec ts)
     else sint (tv_sec ts) < - 0x8000000000000000 \<or> 0x7FFFFFFFFFFFFFFF < sint (tv_sec ts))"

definition SEC_TO_TICK :: "u64 \<Rightarrow> u64 \<Rightarrow> u64" where "SEC_TO_TICK hz sec = sec * hz"
definition NSEC_TO_TICK :: "u64 \<Rightarrow> u64 \<Rightarrow> u64" where "NSEC_TO_TICK hz nsec = nsec div (freebsd_NANOSEC div hz)"

definition freebsd_getlrtime :: "timespec \<Rightarrow> hrtime_t" where
  "freebsd_getlrtime ts = tv_sec ts * freebsd_NANOSEC + tv_nsec ts"
definition freebsd_gethrtime :: "timespec \<Rightarrow> hrtime_t" where
  "freebsd_gethrtime ts = tv_sec ts * freebsd_NANOSEC + tv_nsec ts"
definition gethrtime_waitfree :: "timespec \<Rightarrow> hrtime_t" where
  "gethrtime_waitfree ts = freebsd_gethrtime ts"

text \<open>The uptime is a fixed-point number with 32 bits behind the point.\<close>

definition ddi_get_lbolt64 :: "u64 \<Rightarrow> u64 \<Rightarrow> u64" where
  "ddi_get_lbolt64 hz uptime = signed_drop_bit 16 (signed_drop_bit 16 uptime * hz)"
definition ddi_get_lbolt :: "u64 \<Rightarrow> u64 \<Rightarrow> u64" where
  "ddi_get_lbolt hz uptime = ddi_get_lbolt64 hz uptime"

section \<open>Linux\<close>

definition linux_SEC :: u64 where "linux_SEC = 1"
definition linux_MILLISEC :: u64 where "linux_MILLISEC = 1000"
definition linux_MICROSEC :: u64 where "linux_MICROSEC = 1000000"
definition linux_NANOSEC :: u64 where "linux_NANOSEC = 1000000000"
definition linux_TIME_MAX :: u64 where "linux_TIME_MAX = 0x7FFFFFFFFFFFFFFF"
definition linux_TIME_MIN :: u64 where "linux_TIME_MIN = 0x8000000000000000"

definition linux_MSEC2NSEC :: "hrtime_t \<Rightarrow> hrtime_t" where "linux_MSEC2NSEC m = m * quot linux_NANOSEC linux_MILLISEC"
definition linux_NSEC2MSEC :: "hrtime_t \<Rightarrow> hrtime_t" where "linux_NSEC2MSEC n = quot n (quot linux_NANOSEC linux_MILLISEC)"
definition linux_USEC2NSEC :: "hrtime_t \<Rightarrow> hrtime_t" where "linux_USEC2NSEC m = m * quot linux_NANOSEC linux_MICROSEC"
definition linux_NSEC2USEC :: "hrtime_t \<Rightarrow> hrtime_t" where "linux_NSEC2USEC n = quot n (quot linux_NANOSEC linux_MICROSEC)"
definition linux_NSEC2SEC :: "hrtime_t \<Rightarrow> hrtime_t" where "linux_NSEC2SEC n = quot n (quot linux_NANOSEC linux_SEC)"
definition linux_SEC2NSEC :: "hrtime_t \<Rightarrow> hrtime_t" where "linux_SEC2NSEC m = m * quot linux_NANOSEC linux_SEC"

definition linux_TIMESPEC_OVERFLOW :: "timespec \<Rightarrow> bool" where
  "linux_TIMESPEC_OVERFLOW ts \<longleftrightarrow> sint (tv_sec ts) < sint linux_TIME_MIN \<or> sint linux_TIME_MAX < sint (tv_sec ts)"

definition NSEC_PER_SEC :: u64 where "NSEC_PER_SEC = 1000000000"

definition linux_gethrestime :: "timespec \<Rightarrow> timespec" where "linux_gethrestime coarse = coarse"
definition linux_gethrestime_sec :: "timespec \<Rightarrow> u64" where "linux_gethrestime_sec coarse = tv_sec coarse"
definition linux_getlrtime :: "timespec \<Rightarrow> hrtime_t" where
  "linux_getlrtime ts = tv_sec ts * NSEC_PER_SEC + tv_nsec ts"
definition linux_gethrtime :: "timespec \<Rightarrow> hrtime_t" where
  "linux_gethrtime ts = tv_sec ts * NSEC_PER_SEC + tv_nsec ts"

section \<open>User space\<close>

definition user_SEC :: u64 where "user_SEC = 1"
definition user_MILLISEC :: u64 where "user_MILLISEC = 1000"
definition user_MICROSEC :: u64 where "user_MICROSEC = 1000000"
definition user_NANOSEC :: u64 where "user_NANOSEC = 1000000000"
definition NSEC_PER_USEC :: u64 where "NSEC_PER_USEC = 1000"

definition user_MSEC2NSEC :: "hrtime_t \<Rightarrow> hrtime_t" where "user_MSEC2NSEC m = m * quot user_NANOSEC user_MILLISEC"
definition user_NSEC2MSEC :: "hrtime_t \<Rightarrow> hrtime_t" where "user_NSEC2MSEC n = quot n (quot user_NANOSEC user_MILLISEC)"
definition user_USEC2NSEC :: "hrtime_t \<Rightarrow> hrtime_t" where "user_USEC2NSEC m = m * quot user_NANOSEC user_MICROSEC"
definition user_NSEC2USEC :: "hrtime_t \<Rightarrow> hrtime_t" where "user_NSEC2USEC n = quot n (quot user_NANOSEC user_MICROSEC)"
definition user_NSEC2SEC :: "hrtime_t \<Rightarrow> hrtime_t" where "user_NSEC2SEC n = quot n (quot user_NANOSEC user_SEC)"
definition user_SEC2NSEC :: "hrtime_t \<Rightarrow> hrtime_t" where "user_SEC2NSEC m = m * quot user_NANOSEC user_SEC"

definition user_gethrestime :: "timeval \<Rightarrow> timespec" where
  "user_gethrestime tv = \<lparr>tv_sec = tvl_sec tv, tv_nsec = tvl_usec tv * NSEC_PER_USEC\<rparr>"
definition user_gethrestime_sec :: "timeval \<Rightarrow> u64" where "user_gethrestime_sec tv = tvl_sec tv"
definition user_getlrtime :: "timeval \<Rightarrow> hrtime_t" where
  "user_getlrtime tv = tvl_sec tv * user_NANOSEC + tvl_usec tv * NSEC_PER_USEC"
definition user_gethrtime :: "timespec \<Rightarrow> hrtime_t" where
  "user_gethrtime ts = tv_sec ts * user_NANOSEC + tv_nsec ts"

lemmas time_constants =
  freebsd_SEC_def freebsd_MILLISEC_def freebsd_MICROSEC_def freebsd_NANOSEC_def linux_SEC_def linux_MILLISEC_def
  linux_MICROSEC_def linux_NANOSEC_def user_SEC_def user_MILLISEC_def user_MICROSEC_def user_NANOSEC_def
  NSEC_PER_SEC_def NSEC_PER_USEC_def

section \<open>Conversions\<close>

lemma quot_constants:
  "quot 1000000000 1000 = 1000000" "quot 1000000000 1000000 = 1000" "quot 1000000000 1 = 1000000000"
  by (simp_all add: quot_def signed_divide_int_def)

lemma sint_word_of_int: "- (2 ^ 63) \<le> x \<Longrightarrow> x < 2 ^ 63 \<Longrightarrow> sint (word_of_int x :: u64) = x"
  by (simp add: int_word_sint)

lemma scaled_plus: "(m :: u64) * word_of_int u + word_of_int r = word_of_int (sint m * u + r)"
  by simp

lemma scaled_values:
  assumes "0 \<le> sint (m :: u64)" "0 \<le> r" "r < u" "sint m * u + r < 2 ^ 63"
  shows "sint (m * word_of_int u + word_of_int r) = sint m * u + r"
    and "uint (m * word_of_int u + word_of_int r) = sint m * u + r"
    and "0 \<le> sint m * u + r" and "(sint m * u + r) div u = sint m"
proof -
  show p: "0 \<le> sint m * u + r" using assms by simp
  show "sint (m * word_of_int u + word_of_int r) = sint m * u + r"
    unfolding scaled_plus using p assms(4) by (simp only: sint_word_of_int)
  show "uint (m * word_of_int u + word_of_int r) = sint m * u + r"
    unfolding scaled_plus using p assms(4) by (simp only: uint_word_of_int) simp
  show "(sint m * u + r) div u = sint m" using assms(2,3) by simp
qed

lemma quot_scaled:
  assumes "0 \<le> sint (m :: u64)" "0 \<le> r" "r < u" "sint m * u + r < 2 ^ 63" "u < 2 ^ 63"
  shows "quot (m * word_of_int u + word_of_int r) (word_of_int u) = m"
proof -
  note v = scaled_values [OF assms(1-4)]
  have "sint (word_of_int u :: u64) = u" using assms by (simp only: sint_word_of_int)
  then have "quot (m * word_of_int u + word_of_int r) (word_of_int u) = word_of_int ((sint m * u + r) sdiv u)"
    by (simp only: quot_def v(1))
  also have "(sint m * u + r) sdiv u = sint m"
    using v(3,4) assms(2,3) by (cases "sint m * u + r = 0") (auto simp: signed_divide_int_def sgn_if)
  finally show ?thesis by simp
qed

lemma udiv_scaled:
  assumes "0 \<le> sint (m :: u64)" "0 \<le> r" "r < u" "sint m * u + r < 2 ^ 63" "u < 2 ^ 63"
  shows "(m * word_of_int u + word_of_int r) div word_of_int u = m"
proof -
  note v = scaled_values [OF assms(1-4)]
  have "uint (word_of_int u :: u64) = u" using assms by (simp add: uint_word_of_int)
  then show ?thesis unfolding word_div_def v(2) by (simp only: v(4)) simp
qed

text \<open>The nine pairs of conversions: how many nanoseconds the unit has, to and from nanoseconds.\<close>

definition conversions :: "(int \<times> (u64 \<Rightarrow> u64) \<times> (u64 \<Rightarrow> u64)) list" where
  "conversions = [
     (1000000, freebsd_MSEC2NSEC, freebsd_NSEC2MSEC), (1000, freebsd_USEC2NSEC, freebsd_NSEC2USEC),
     (1000000000, freebsd_SEC2NSEC, freebsd_NSEC2SEC),
     (1000000, linux_MSEC2NSEC, linux_NSEC2MSEC), (1000, linux_USEC2NSEC, linux_NSEC2USEC),
     (1000000000, linux_SEC2NSEC, linux_NSEC2SEC),
     (1000000, user_MSEC2NSEC, user_NSEC2MSEC), (1000, user_USEC2NSEC, user_NSEC2USEC),
     (1000000000, user_SEC2NSEC, user_NSEC2SEC)]"

definition to_defined :: "(int \<times> (u64 \<Rightarrow> u64) \<times> (u64 \<Rightarrow> u64)) \<Rightarrow> bool" where
  "to_defined c = (case c of (u, to, fro) \<Rightarrow> 0 < u \<and> u < 2 ^ 63 \<and>
     (\<forall>m. to m = m * word_of_int u) \<and>
     ((\<forall>n. fro n = quot n (word_of_int u)) \<or> (\<forall>n. fro n = n div word_of_int u)))"

lemma conversions_defined: "list_all to_defined conversions"
  by (simp add: conversions_def to_defined_def freebsd_MSEC2NSEC_def freebsd_NSEC2MSEC_def freebsd_USEC2NSEC_def
      freebsd_NSEC2USEC_def freebsd_NSEC2SEC_def freebsd_SEC2NSEC_def linux_MSEC2NSEC_def linux_NSEC2MSEC_def
      linux_USEC2NSEC_def linux_NSEC2USEC_def linux_NSEC2SEC_def linux_SEC2NSEC_def user_MSEC2NSEC_def user_NSEC2MSEC_def
      user_USEC2NSEC_def user_NSEC2USEC_def user_NSEC2SEC_def user_SEC2NSEC_def time_constants quot_constants)

text \<open>
  On every layer, a time in a coarse unit that fits when converted to nanoseconds comes back
  unchanged, also after less than one unit of nanoseconds was added: the way back rounds down.
  For a time before the epoch the layers differ: the user-space and Linux conversions of
  \<open>-1\<close> nanosecond give \<open>0\<close>, FreeBSD's unsigned division a time 585 years ahead.
\<close>

theorem time_conversions_roundtrip:
  "(\<forall>(u, to, fro)\<in>set conversions. \<forall>m r. 0 \<le> sint m \<and> 0 \<le> r \<and> r < u \<and> sint m * u + r < 2 ^ 63 \<longrightarrow>
     fro (to m + word_of_int r) = m) \<and>
   linux_NSEC2MSEC (- 1) = 0 \<and> user_NSEC2MSEC (- 1) = 0 \<and> freebsd_NSEC2MSEC (- 1) = 18446744073709"
proof -
  have "fro (to m + word_of_int r) = m"
    if "(u, to, fro) \<in> set conversions" "0 \<le> sint m" "0 \<le> r" "r < u" "sint m * u + r < 2 ^ 63" for u to fro m r
  proof -
    have "to_defined (u, to, fro)" using conversions_defined that(1) by (simp add: list_all_iff)
    then show ?thesis
      using quot_scaled [OF that(2-5)] udiv_scaled [OF that(2-5)] by (auto simp: to_defined_def)
  qed
  moreover have "linux_NSEC2MSEC (- 1) = 0" "user_NSEC2MSEC (- 1) = 0"
    by (simp_all add: linux_NSEC2MSEC_def user_NSEC2MSEC_def time_constants quot_constants)
      (simp_all add: quot_def signed_divide_int_def)
  moreover have "freebsd_NSEC2MSEC (- 1) = 18446744073709"
    unfolding freebsd_NSEC2MSEC_def time_constants by code_simp
  ultimately show ?thesis by blast
qed

theorem time_conversions_roundtrip_witness:
  "linux_NSEC2MSEC (linux_MSEC2NSEC 1500 + word_of_int 999999) = 1500"
proof -
  have "(1000000, linux_MSEC2NSEC, linux_NSEC2MSEC) \<in> set conversions" by (simp add: conversions_def)
  note c = bspec [OF conjunct1 [OF time_conversions_roundtrip] this, unfolded prod.case]
  show ?thesis
    using c [THEN spec [of _ 1500], THEN spec [of _ 999999]] by simp
qed

section \<open>Clocks\<close>

text \<open>A clock reading with its nanoseconds below a second, early enough to fit.\<close>

definition normal_ts :: "timespec \<Rightarrow> bool" where
  "normal_ts ts \<longleftrightarrow> 0 \<le> sint (tv_sec ts) \<and> sint (tv_sec ts) < 9223372036 \<and>
     0 \<le> sint (tv_nsec ts) \<and> sint (tv_nsec ts) < 1000000000"

lemma clock_value:
  assumes "normal_ts ts"
  shows "sint (tv_sec ts * 1000000000 + tv_nsec ts) = sint (tv_sec ts) * 1000000000 + sint (tv_nsec ts)"
  using scaled_values(1) [of "tv_sec ts" "sint (tv_nsec ts)" 1000000000] assms by (simp add: normal_ts_def)

text \<open>
  The three layers read a clock alike: seconds and nanoseconds become one number of nanoseconds
  without loss, and a later reading is a larger number, for the 292 years that fit. A time of day
  from microseconds agrees with one from nanoseconds.
\<close>

theorem clocks_monotonic:
  assumes "normal_ts a" "normal_ts b"
  shows "freebsd_gethrtime a = linux_gethrtime a \<and> user_gethrtime a = linux_gethrtime a \<and>
    freebsd_getlrtime a = linux_getlrtime a \<and>
    linux_NSEC2SEC (linux_gethrtime a) = tv_sec a \<and>
    sint (linux_gethrtime a) = sint (tv_sec a) * 1000000000 + sint (tv_nsec a) \<and>
    (sint (linux_gethrtime a) < sint (linux_gethrtime b) \<longleftrightarrow>
       sint (tv_sec a) < sint (tv_sec b) \<or> tv_sec a = tv_sec b \<and> sint (tv_nsec a) < sint (tv_nsec b)) \<and>
    (\<forall>tv. user_gethrestime tv = a \<longrightarrow> user_getlrtime tv = linux_gethrtime a)"
proof (intro conjI)
  have h: "linux_gethrtime ts = tv_sec ts * 1000000000 + tv_nsec ts" for ts
    by (simp add: linux_gethrtime_def time_constants)
  show "freebsd_gethrtime a = linux_gethrtime a" "user_gethrtime a = linux_gethrtime a" "freebsd_getlrtime a = linux_getlrtime a"
    by (simp_all add: h freebsd_gethrtime_def user_gethrtime_def freebsd_getlrtime_def linux_getlrtime_def time_constants)
  show s: "sint (linux_gethrtime a) = sint (tv_sec a) * 1000000000 + sint (tv_nsec a)"
    unfolding h by (rule clock_value [OF assms(1)])
  have "quot (tv_sec a * word_of_int 1000000000 + word_of_int (sint (tv_nsec a))) (word_of_int 1000000000) = tv_sec a"
    using assms(1) by (intro quot_scaled) (simp_all add: normal_ts_def)
  then show "linux_NSEC2SEC (linux_gethrtime a) = tv_sec a"
    by (simp add: h linux_NSEC2SEC_def time_constants quot_constants)
  have "sint (linux_gethrtime b) = sint (tv_sec b) * 1000000000 + sint (tv_nsec b)"
    unfolding h by (rule clock_value [OF assms(2)])
  moreover have "tv_sec a = tv_sec b \<longleftrightarrow> sint (tv_sec a) = sint (tv_sec b)"
    by (metis of_int_sint scast_id)
  ultimately show "sint (linux_gethrtime a) < sint (linux_gethrtime b) \<longleftrightarrow>
       sint (tv_sec a) < sint (tv_sec b) \<or> tv_sec a = tv_sec b \<and> sint (tv_nsec a) < sint (tv_nsec b)"
    using s assms unfolding normal_ts_def by linarith
  show "\<forall>tv. user_gethrestime tv = a \<longrightarrow> user_getlrtime tv = linux_gethrtime a"
    by (auto simp: h user_gethrestime_def user_getlrtime_def time_constants)
qed

theorem clocks_monotonic_witness:
  "sint (linux_gethrtime \<lparr>tv_sec = 100, tv_nsec = 999999999\<rparr>) < sint (linux_gethrtime \<lparr>tv_sec = 101, tv_nsec = 0\<rparr>)"
  using clocks_monotonic [of "\<lparr>tv_sec = 100, tv_nsec = 999999999\<rparr>" "\<lparr>tv_sec = 101, tv_nsec = 0\<rparr>"]
  by (simp add: normal_ts_def)

text \<open>
  The clock ticks since boot are never ahead of the exact number and less than one tick more than
  what the first shift drops behind it, as long as the product fits.
\<close>

theorem lbolt_close:
  assumes "0 \<le> sint uptime" "0 < sint hz" "sint hz \<le> 65536" "(sint uptime div 65536) * sint hz < 2 ^ 63"
  shows "sint (ddi_get_lbolt64 hz uptime) \<le> sint uptime * sint hz div 4294967296 \<and>
    sint uptime * sint hz div 4294967296 \<le> sint (ddi_get_lbolt64 hz uptime) + 1"
proof -
  let ?u = "sint uptime" and ?h = "sint hz"
  have u16: "sint (signed_drop_bit 16 uptime) = ?u div 65536"
    by (simp add: sint_signed_drop_bit_eq drop_bit_eq_div)
  have "0 \<le> ?u div 65536 * ?h" using assms(1,2) by (simp add: pos_imp_zdiv_nonneg_iff)
  then have "sint (signed_drop_bit 16 uptime * hz) = ?u div 65536 * ?h"
    using scaled_values(1) [of "signed_drop_bit 16 uptime" 0 ?h] assms u16 by (simp add: pos_imp_zdiv_nonneg_iff)
  then have l: "sint (ddi_get_lbolt64 hz uptime) = (?u div 65536 * ?h) div 65536"
    by (simp add: ddi_get_lbolt64_def sint_signed_drop_bit_eq drop_bit_eq_div)
  have q: "?u = 65536 * (?u div 65536) + ?u mod 65536" "0 \<le> ?u mod 65536" "?u mod 65536 < 65536" by simp_all
  have e: "?u * ?h div 4294967296 = (?u * ?h div 65536) div 65536"
    by (simp add: zdiv_zmult2_eq [symmetric])
  have p: "?u * ?h = 65536 * (?u div 65536 * ?h) + ?u mod 65536 * ?h"
    by (metis (no_types, lifting) q(1) distrib_right mult.assoc)
  have d: "?u * ?h div 65536 = ?u div 65536 * ?h + (?u mod 65536 * ?h) div 65536"
    unfolding p by simp
  have lo: "0 \<le> (?u mod 65536 * ?h) div 65536" using assms(2) q by (simp add: pos_imp_zdiv_nonneg_iff)
  have "?u mod 65536 * ?h < 65536 * ?h" using q(3) assms(2) by simp
  then have hi: "(?u mod 65536 * ?h) div 65536 < 65536" using assms(3) by linarith
  show ?thesis unfolding l e d using lo hi by linarith
qed

end
