(* ===== verification/Idmap.thy ===== *)
theory Idmap
  imports Prelude
begin

text \<open>
  Mapped mounts (\<open>compat/openzfs/os/linux/spl/sys/cred.h\<close>): translation of the user and group ids of
  files between the mount's user namespace and the file system's. The kernel's namespaces with
  their maps are the parameter: \<open>from_kuid ns\<close> gives the id a kernel id has inside a namespace and
  \<open>make_kuid ns\<close> the kernel id of an id inside it, both \<open>-1\<close> for an id that is not mapped. The ids of
  the kernel's two kinds are 32-bit words.
\<close>

record ('n, 'm) userns_kernel =
  CONFIG_USER_NS :: bool
  HAVE_IOPS_CREATE_IDMAP :: bool
  kcred_user_ns :: 'n
  zfs_init_idmap :: 'm
  idmap_owner :: "'m \<Rightarrow> 'n"
  from_kuid :: "'n \<Rightarrow> u32 \<Rightarrow> u32"
  make_kuid :: "'n \<Rightarrow> u32 \<Rightarrow> u32"
  from_kgid :: "'n \<Rightarrow> u32 \<Rightarrow> u32"
  make_kgid :: "'n \<Rightarrow> u32 \<Rightarrow> u32"

definition KUID_TO_SUID :: "u32 \<Rightarrow> u32" where "KUID_TO_SUID x = x"
definition KGID_TO_SGID :: "u32 \<Rightarrow> u32" where "KGID_TO_SGID x = x"
definition SUID_TO_KUID :: "u32 \<Rightarrow> u32" where "SUID_TO_KUID x = x"
definition SGID_TO_KGID :: "u32 \<Rightarrow> u32" where "SGID_TO_KGID x = x"

definition zfs_is_init_userns :: "('n, 'm) userns_kernel \<Rightarrow> 'n \<Rightarrow> bool" where
  "zfs_is_init_userns K user_ns = (if CONFIG_USER_NS K then user_ns = kcred_user_ns K else False)"

definition zfs_no_idmapping :: "('n, 'm) userns_kernel \<Rightarrow> 'n \<Rightarrow> 'n \<Rightarrow> bool" where
  "zfs_no_idmapping K mnt_userns fs_userns \<longleftrightarrow> zfs_is_init_userns K mnt_userns \<or> mnt_userns = fs_userns"

text \<open>
  With \<open>HAVE_IDMAP_NO_USERNS\<close> the owner is a namespace built from the map of the mount; it is the
  result of \<open>idmap_owner\<close> here too, and differs from every namespace of the kernel.
\<close>

definition zfs_uid_to_vfsuid :: "('n, 'm) userns_kernel \<Rightarrow> 'm \<Rightarrow> 'n \<Rightarrow> u32 \<Rightarrow> u32" where
  "zfs_uid_to_vfsuid K mnt_userns fs_userns uid =
    (if HAVE_IOPS_CREATE_IDMAP K \<and> mnt_userns = zfs_init_idmap K then uid
     else let owner = idmap_owner K mnt_userns
       in if zfs_no_idmapping K owner fs_userns then uid
          else let uid = (if \<not> zfs_is_init_userns K fs_userns then from_kuid K fs_userns (SUID_TO_KUID uid) else uid)
            in if uid = - 1 then uid else KUID_TO_SUID (make_kuid K owner uid))"

definition zfs_gid_to_vfsgid :: "('n, 'm) userns_kernel \<Rightarrow> 'm \<Rightarrow> 'n \<Rightarrow> u32 \<Rightarrow> u32" where
  "zfs_gid_to_vfsgid K mnt_userns fs_userns gid =
    (if HAVE_IOPS_CREATE_IDMAP K \<and> mnt_userns = zfs_init_idmap K then gid
     else let owner = idmap_owner K mnt_userns
       in if zfs_no_idmapping K owner fs_userns then gid
          else let gid = (if \<not> zfs_is_init_userns K fs_userns then from_kgid K fs_userns (SGID_TO_KGID gid) else gid)
            in if gid = - 1 then gid else KGID_TO_SGID (make_kgid K owner gid))"

definition zfs_vfsuid_to_uid :: "('n, 'm) userns_kernel \<Rightarrow> 'm \<Rightarrow> 'n \<Rightarrow> u32 \<Rightarrow> u32" where
  "zfs_vfsuid_to_uid K mnt_userns fs_userns uid =
    (if HAVE_IOPS_CREATE_IDMAP K \<and> mnt_userns = zfs_init_idmap K then uid
     else let owner = idmap_owner K mnt_userns
       in if zfs_no_idmapping K owner fs_userns then uid
          else let uid = from_kuid K owner (SUID_TO_KUID uid)
            in if uid = - 1 then uid
               else if zfs_is_init_userns K fs_userns then uid
               else KUID_TO_SUID (make_kuid K fs_userns uid))"

definition zfs_vfsgid_to_gid :: "('n, 'm) userns_kernel \<Rightarrow> 'm \<Rightarrow> 'n \<Rightarrow> u32 \<Rightarrow> u32" where
  "zfs_vfsgid_to_gid K mnt_userns fs_userns gid =
    (if HAVE_IOPS_CREATE_IDMAP K \<and> mnt_userns = zfs_init_idmap K then gid
     else let owner = idmap_owner K mnt_userns
       in if zfs_no_idmapping K owner fs_userns then gid
          else let gid = from_kgid K owner (SGID_TO_KGID gid)
            in if gid = - 1 then gid
               else if zfs_is_init_userns K fs_userns then gid
               else KGID_TO_SGID (make_kgid K fs_userns gid))"

section \<open>The kernel's maps\<close>

text \<open>
  What the kernel documents of a namespace's map: it is injective on the ids it maps, \<open>-1\<close> is never
  mapped, and the two directions are inverse to each other.
\<close>

locale id_maps =
  fixes inside :: "'n \<Rightarrow> u32 \<Rightarrow> u32" and outside :: "'n \<Rightarrow> u32 \<Rightarrow> u32"
  assumes inverse: "inside ns k = i \<and> i \<noteq> - 1 \<longleftrightarrow> outside ns i = k \<and> k \<noteq> - 1"
begin

lemma invalid: "inside ns (- 1) = - 1" "outside ns (- 1) = - 1"
  using inverse by metis+

lemma there_and_back:
  "inside ns k \<noteq> - 1 \<Longrightarrow> outside ns (inside ns k) = k" "outside ns i \<noteq> - 1 \<Longrightarrow> inside ns (outside ns i) = i"
  using inverse by metis+

text \<open>The two translations over any such maps, \<open>A\<close> the owner of the mount and \<open>B\<close> the file system's namespace.\<close>

definition into :: "bool \<Rightarrow> 'n \<Rightarrow> 'n \<Rightarrow> u32 \<Rightarrow> u32" where
  "into init A B i = (let i = if \<not> init then inside B i else i in if i = - 1 then i else outside A i)"

definition out_of :: "bool \<Rightarrow> 'n \<Rightarrow> 'n \<Rightarrow> u32 \<Rightarrow> u32" where
  "out_of init A B v = (let i = inside A v in if i = - 1 then i else if init then i else outside B i)"

lemma into_out_of:
  "into init A B i \<noteq> - 1 \<Longrightarrow> out_of init A B (into init A B i) = i"
  "out_of init A B v \<noteq> - 1 \<Longrightarrow> into init A B (out_of init A B v) = v"
  using there_and_back invalid unfolding into_def out_of_def Let_def
  by (auto split: if_splits)

lemma into_invalid: "into init A B (- 1) = - 1" "out_of init A B (- 1) = - 1"
  using invalid by (simp_all add: into_def out_of_def Let_def)

end

definition kernel_ids :: "('n, 'm) userns_kernel \<Rightarrow> bool" where
  "kernel_ids K \<longleftrightarrow> id_maps (from_kuid K) (make_kuid K) \<and> id_maps (from_kgid K) (make_kgid K)"

lemma uid_forms:
  assumes "id_maps (from_kuid K) (make_kuid K)"
  shows "zfs_uid_to_vfsuid K m fs i =
      (if HAVE_IOPS_CREATE_IDMAP K \<and> m = zfs_init_idmap K \<or> zfs_no_idmapping K (idmap_owner K m) fs then i
       else id_maps.into (from_kuid K) (make_kuid K) (zfs_is_init_userns K fs) (idmap_owner K m) fs i)"
    and "zfs_vfsuid_to_uid K m fs i =
      (if HAVE_IOPS_CREATE_IDMAP K \<and> m = zfs_init_idmap K \<or> zfs_no_idmapping K (idmap_owner K m) fs then i
       else id_maps.out_of (from_kuid K) (make_kuid K) (zfs_is_init_userns K fs) (idmap_owner K m) fs i)"
  by (simp_all add: zfs_uid_to_vfsuid_def zfs_vfsuid_to_uid_def id_maps.into_def [OF assms] id_maps.out_of_def [OF assms]
      KUID_TO_SUID_def SUID_TO_KUID_def Let_def)

lemma gid_forms:
  assumes "id_maps (from_kgid K) (make_kgid K)"
  shows "zfs_gid_to_vfsgid K m fs i =
      (if HAVE_IOPS_CREATE_IDMAP K \<and> m = zfs_init_idmap K \<or> zfs_no_idmapping K (idmap_owner K m) fs then i
       else id_maps.into (from_kgid K) (make_kgid K) (zfs_is_init_userns K fs) (idmap_owner K m) fs i)"
    and "zfs_vfsgid_to_gid K m fs i =
      (if HAVE_IOPS_CREATE_IDMAP K \<and> m = zfs_init_idmap K \<or> zfs_no_idmapping K (idmap_owner K m) fs then i
       else id_maps.out_of (from_kgid K) (make_kgid K) (zfs_is_init_userns K fs) (idmap_owner K m) fs i)"
  by (simp_all add: zfs_gid_to_vfsgid_def zfs_vfsgid_to_gid_def id_maps.into_def [OF assms] id_maps.out_of_def [OF assms]
      KGID_TO_SGID_def SGID_TO_KGID_def Let_def)

text \<open>
  C33. On a mapped mount no file changes its owner by being looked at: an id that has a counterpart
  on the other side comes back to itself, in both directions and for users and groups alike, and an
  id without one becomes the invalid id, which the translations never turn into a valid one. In
  particular two ids of the file system never appear as the same id on the mount.
\<close>

theorem idmap_roundtrip:
  assumes "kernel_ids K"
  shows "(zfs_uid_to_vfsuid K m fs i \<noteq> - 1 \<longrightarrow> zfs_vfsuid_to_uid K m fs (zfs_uid_to_vfsuid K m fs i) = i) \<and>
    (zfs_vfsuid_to_uid K m fs v \<noteq> - 1 \<longrightarrow> zfs_uid_to_vfsuid K m fs (zfs_vfsuid_to_uid K m fs v) = v) \<and>
    (zfs_gid_to_vfsgid K m fs i \<noteq> - 1 \<longrightarrow> zfs_vfsgid_to_gid K m fs (zfs_gid_to_vfsgid K m fs i) = i) \<and>
    (zfs_vfsgid_to_gid K m fs v \<noteq> - 1 \<longrightarrow> zfs_gid_to_vfsgid K m fs (zfs_vfsgid_to_gid K m fs v) = v) \<and>
    zfs_uid_to_vfsuid K m fs (- 1) = - 1 \<and> zfs_vfsuid_to_uid K m fs (- 1) = - 1 \<and>
    zfs_gid_to_vfsgid K m fs (- 1) = - 1 \<and> zfs_vfsgid_to_gid K m fs (- 1) = - 1"
proof -
  from assms have u: "id_maps (from_kuid K) (make_kuid K)" and g: "id_maps (from_kgid K) (make_kgid K)"
    by (simp_all add: kernel_ids_def)
  show ?thesis
    by (simp add: uid_forms [OF u] gid_forms [OF g] id_maps.into_out_of [OF u] id_maps.into_out_of [OF g]
        id_maps.into_invalid [OF u] id_maps.into_invalid [OF g])
qed

text \<open>Namespaces that shift a range of ids, as containers use them: base and length.\<close>

definition shift_in :: "u32 \<times> u32 \<Rightarrow> u32 \<Rightarrow> u32" where
  "shift_in ns k = (case ns of (base, n) \<Rightarrow> if k - base < n \<and> k \<noteq> - 1 \<and> k - base \<noteq> - 1 then k - base else - 1)"
definition shift_out :: "u32 \<times> u32 \<Rightarrow> u32 \<Rightarrow> u32" where
  "shift_out ns i = (case ns of (base, n) \<Rightarrow> if i < n \<and> i \<noteq> - 1 \<and> i + base \<noteq> - 1 then i + base else - 1)"

interpretation shift_ids: id_maps shift_in shift_out
proof
  fix ns :: "u32 \<times> u32" and k i :: u32
  obtain b n where ns: "ns = (b, n)" by (cases ns)
  have "i + b = k \<longleftrightarrow> k - b = i" by (auto simp: algebra_simps)
  then show "shift_in ns k = i \<and> i \<noteq> - 1 \<longleftrightarrow> shift_out ns i = k \<and> k \<noteq> - 1"
    unfolding ns shift_in_def shift_out_def prod.case by (cases "k - b = i") auto
qed

definition demo_container :: "(u32 \<times> u32, u32 \<times> u32) userns_kernel" where
  "demo_container = \<lparr>CONFIG_USER_NS = True, HAVE_IOPS_CREATE_IDMAP = True, kcred_user_ns = (0, 0xFFFFFFFF),
     zfs_init_idmap = (0, 0xFFFFFFFF), idmap_owner = (\<lambda>m. m), from_kuid = shift_in, make_kuid = shift_out,
     from_kgid = shift_in, make_kgid = shift_out\<rparr>"

theorem idmap_roundtrip_witness:
  "zfs_uid_to_vfsuid demo_container (100000, 65536) (0, 0xFFFFFFFF) 1000 = 101000 \<and>
   zfs_vfsuid_to_uid demo_container (100000, 65536) (0, 0xFFFFFFFF) 101000 = 1000"
proof -
  have k: "kernel_ids demo_container"
    using shift_ids.id_maps_axioms by (simp add: kernel_ids_def demo_container_def)
  have f: "zfs_uid_to_vfsuid demo_container (100000, 65536) (0, 0xFFFFFFFF) 1000 = 101000" by code_simp
  show ?thesis
    using idmap_roundtrip [OF k, of "(100000, 65536)" "(0, 0xFFFFFFFF)" 1000 0] f by simp
qed

end
