(* ===== verification/Spl_Kmem.thy ===== *)
theory Spl_Kmem
  imports Prelude
begin

unbundle bit_operations_syntax

text \<open>
  Allocation flags of the Linux layer (\<open>compat/openzfs/os/linux/spl/sys/kmem.h\<close>): conversion to the
  kernel's flags, and the mark that keeps allocations of a task from calling back into the file
  system. The kernel's flag values are the parameter; what the code relies on is which of the
  allocator's permissions each includes.
\<close>

definition KM_SLEEP :: u32 where "KM_SLEEP = 0x0000"
definition KM_NOSLEEP :: u32 where "KM_NOSLEEP = 0x0001"
definition KM_PUSHPAGE :: u32 where "KM_PUSHPAGE = 0x0004"
definition KM_ZERO :: u32 where "KM_ZERO = 0x1000"
definition KM_VMEM :: u32 where "KM_VMEM = 0x2000"
definition KM_PUBLIC_MASK :: u32 where "KM_PUBLIC_MASK = KM_SLEEP OR KM_NOSLEEP OR KM_PUSHPAGE"

record gfp =
  GFP_KERNEL :: u32
  GFP_ATOMIC :: u32
  gfp_NOWARN :: u32
  gfp_COMP :: u32
  gfp_NORETRY :: u32
  gfp_IO :: u32
  gfp_FS :: u32
  gfp_HIGH :: u32
  gfp_ZERO :: u32
  gfp_DIRECT_RECLAIM :: u32
  PF_MEMALLOC_NOIO :: u32

record task =
  task_id :: nat
  flags :: u32

record fstrans_cookie_t =
  fstrans_thread :: nat
  saved_flags :: u32

definition SPL_FSTRANS :: "gfp \<Rightarrow> u32" where "SPL_FSTRANS G = PF_MEMALLOC_NOIO G"

definition spl_fstrans_check :: "gfp \<Rightarrow> task \<Rightarrow> u32" where
  "spl_fstrans_check G current = flags current AND SPL_FSTRANS G"

definition kmem_flags_convert :: "gfp \<Rightarrow> task \<Rightarrow> u32 \<Rightarrow> u32" where
  "kmem_flags_convert G current fl =
    (let lflags = gfp_NOWARN G OR gfp_COMP G;
         lflags = (if fl AND KM_NOSLEEP \<noteq> 0 then lflags OR (GFP_ATOMIC G OR gfp_NORETRY G)
           else let lflags = lflags OR GFP_KERNEL G
             in if spl_fstrans_check G current \<noteq> 0 then lflags AND NOT (gfp_IO G OR gfp_FS G) else lflags);
         lflags = (if fl AND KM_PUSHPAGE \<noteq> 0 then lflags OR gfp_HIGH G else lflags)
     in if fl AND KM_ZERO \<noteq> 0 then lflags OR gfp_ZERO G else lflags)"

definition spl_fstrans_mark :: "gfp \<Rightarrow> task \<Rightarrow> fstrans_cookie_t \<times> task" where
  "spl_fstrans_mark G current =
    (\<lparr>fstrans_thread = task_id current, saved_flags = flags current AND SPL_FSTRANS G\<rparr>,
     current\<lparr>flags := flags current OR SPL_FSTRANS G\<rparr>)"

definition spl_fstrans_unmark :: "bool \<Rightarrow> gfp \<Rightarrow> fstrans_cookie_t \<Rightarrow> task \<Rightarrow> task option" where
  "spl_fstrans_unmark nd G cookie current = do {
     ASSERT nd (fstrans_thread cookie = task_id current);
     ASSERT nd (flags current AND SPL_FSTRANS G = SPL_FSTRANS G);
     let current = current\<lparr>flags := flags current AND NOT (SPL_FSTRANS G)\<rparr>;
     Some (current\<lparr>flags := flags current OR saved_flags cookie\<rparr>) }"

definition POINTER_IS_VALID :: "u64 \<Rightarrow> bool" where "POINTER_IS_VALID p \<longleftrightarrow> p AND 0x3 = 0"
definition POINTER_INVALIDATE :: "u64 \<Rightarrow> u64" where "POINTER_INVALIDATE p = p OR 0x1"

lemma invalidated_pointer: "\<not> POINTER_IS_VALID (POINTER_INVALIDATE p)"
proof
  assume "POINTER_IS_VALID (POINTER_INVALIDATE p)"
  then have "bit ((p OR 1) AND 3) 0 = bit (0 :: u64) 0" by (simp add: POINTER_IS_VALID_def POINTER_INVALIDATE_def)
  then show False by (simp add: bit_simps)
qed

section \<open>What an allocation may do\<close>

text \<open>
  The kernel's documentation: a normal allocation may reclaim directly, start I/O and call file
  systems, an atomic one none of these, and the modifiers add none of them.
\<close>

definition gfp_contract :: "gfp \<Rightarrow> bool" where
  "gfp_contract G \<longleftrightarrow>
     GFP_KERNEL G AND gfp_IO G = gfp_IO G \<and> GFP_KERNEL G AND gfp_FS G = gfp_FS G \<and>
     GFP_KERNEL G AND gfp_DIRECT_RECLAIM G = gfp_DIRECT_RECLAIM G \<and>
     (\<forall>p\<in>{gfp_IO G, gfp_FS G, gfp_DIRECT_RECLAIM G}. p \<noteq> 0 \<and>
        (\<forall>x\<in>{GFP_ATOMIC G, gfp_NOWARN G, gfp_COMP G, gfp_NORETRY G, gfp_HIGH G, gfp_ZERO G}. x AND p = 0)) \<and>
     gfp_IO G AND gfp_DIRECT_RECLAIM G = 0 \<and> gfp_FS G AND gfp_DIRECT_RECLAIM G = 0 \<and>
     gfp_ZERO G \<noteq> 0 \<and>
     (\<forall>x\<in>{GFP_KERNEL G, GFP_ATOMIC G, gfp_NOWARN G, gfp_COMP G, gfp_NORETRY G, gfp_HIGH G}. x AND gfp_ZERO G = 0) \<and>
     PF_MEMALLOC_NOIO G \<noteq> 0"

definition linux_gfp :: gfp where
  "linux_gfp = \<lparr>GFP_KERNEL = 0xCC0, GFP_ATOMIC = 0x820, gfp_NOWARN = 0x2000, gfp_COMP = 0x40000, gfp_NORETRY = 0x10000,
     gfp_IO = 0x40, gfp_FS = 0x80, gfp_HIGH = 0x20, gfp_ZERO = 0x100, gfp_DIRECT_RECLAIM = 0x400,
     PF_MEMALLOC_NOIO = 0x80000\<rparr>"

lemma linux_gfp_contract: "gfp_contract linux_gfp"
  by (simp add: gfp_contract_def linux_gfp_def)

lemma and_masked: "(x AND NOT p AND NOT q) AND p = (0 :: u32)" "(x AND NOT p AND NOT q) AND q = (0 :: u32)"
  by (rule bit_word_eqI; auto simp: bit_simps)+

lemma and_kept: "d AND p = 0 \<Longrightarrow> d AND q = 0 \<Longrightarrow> (x AND NOT p AND NOT q) AND d = x AND (d :: u32)"
  by (rule bit_word_eqI) (auto simp: bit_eq_iff bit_simps)

lemma and_or_distrib: "(a OR b) AND p = (a AND p) OR (b AND (p :: u32))"
  by (rule bit.conj_disj_distrib2)

lemma kmem_flags_bits:
  assumes "gfp_contract G"
  defines "may \<equiv> \<lambda>p t fl. kmem_flags_convert G t fl AND p \<noteq> 0"
  shows "(may (gfp_IO G) t fl \<longleftrightarrow> fl AND KM_NOSLEEP = 0 \<and> spl_fstrans_check G t = 0) \<and>
    (may (gfp_FS G) t fl \<longleftrightarrow> fl AND KM_NOSLEEP = 0 \<and> spl_fstrans_check G t = 0) \<and>
    (may (gfp_DIRECT_RECLAIM G) t fl \<longleftrightarrow> fl AND KM_NOSLEEP = 0) \<and>
    (may (gfp_ZERO G) t fl \<longleftrightarrow> fl AND KM_ZERO \<noteq> 0)"
proof -
  note c = assms(1) [unfolded gfp_contract_def]
  have k: "GFP_KERNEL G AND gfp_IO G = gfp_IO G" "GFP_KERNEL G AND gfp_FS G = gfp_FS G"
    "GFP_KERNEL G AND gfp_DIRECT_RECLAIM G = gfp_DIRECT_RECLAIM G" "gfp_ZERO G \<noteq> 0"
    "gfp_DIRECT_RECLAIM G AND gfp_IO G = 0" "gfp_DIRECT_RECLAIM G AND gfp_FS G = 0"
    using c by (simp_all add: and.commute)
  have z: "x AND p = 0 \<and> p \<noteq> 0" if "p \<in> {gfp_IO G, gfp_FS G, gfp_DIRECT_RECLAIM G}"
    "x \<in> {GFP_ATOMIC G, gfp_NOWARN G, gfp_COMP G, gfp_NORETRY G, gfp_HIGH G, gfp_ZERO G}" for p x
    using c that by blast
  have o: "x AND gfp_ZERO G = 0" if "x \<in> {GFP_KERNEL G, GFP_ATOMIC G, gfp_NOWARN G, gfp_COMP G, gfp_NORETRY G, gfp_HIGH G}" for x
    using c that by blast
  note zs = z [of "gfp_IO G"] z [of "gfp_FS G"] z [of "gfp_DIRECT_RECLAIM G"]
  have m: "(x AND NOT (gfp_IO G) AND NOT (gfp_FS G)) AND gfp_ZERO G = x AND gfp_ZERO G" for x
    using z [of "gfp_IO G" "gfp_ZERO G"] z [of "gfp_FS G" "gfp_ZERO G"] by (intro and_kept) simp_all
  note conv = kmem_flags_convert_def Let_def and_or_distrib if_distrib [of "\<lambda>x. x AND _"]
  have "kmem_flags_convert G t fl AND gfp_IO G =
      (if fl AND KM_NOSLEEP = 0 \<and> spl_fstrans_check G t = 0 then gfp_IO G else 0)"
    by (simp add: conv zs k and_masked)
  moreover have "kmem_flags_convert G t fl AND gfp_FS G =
      (if fl AND KM_NOSLEEP = 0 \<and> spl_fstrans_check G t = 0 then gfp_FS G else 0)"
    by (simp add: conv zs k and_masked)
  moreover have "kmem_flags_convert G t fl AND gfp_DIRECT_RECLAIM G =
      (if fl AND KM_NOSLEEP = 0 then gfp_DIRECT_RECLAIM G else 0)"
    by (simp add: conv zs k and_kept)
  moreover have "kmem_flags_convert G t fl AND gfp_ZERO G = (if fl AND KM_ZERO \<noteq> 0 then gfp_ZERO G else 0)"
    by (simp add: conv o k m)
  ultimately show ?thesis
    using zs [of "gfp_ZERO G"] k(4) by (simp add: may_def)
qed

text \<open>
  For every combination of flags and every task: the allocation may start I/O and call file
  systems exactly if it may sleep and the task is not inside a marked region; it may reclaim
  directly exactly if it may sleep; and it is zeroed exactly if that was asked for.
\<close>

theorem kmem_flags_permissions:
  assumes "gfp_contract G"
  defines "may \<equiv> \<lambda>p t fl. kmem_flags_convert G t fl AND p \<noteq> 0"
  shows "(may (gfp_IO G) t fl \<longleftrightarrow> fl AND KM_NOSLEEP = 0 \<and> spl_fstrans_check G t = 0) \<and>
    (may (gfp_FS G) t fl \<longleftrightarrow> fl AND KM_NOSLEEP = 0 \<and> spl_fstrans_check G t = 0) \<and>
    (may (gfp_DIRECT_RECLAIM G) t fl \<longleftrightarrow> fl AND KM_NOSLEEP = 0) \<and>
    (may (gfp_ZERO G) t fl \<longleftrightarrow> fl AND KM_ZERO \<noteq> 0)"
  unfolding may_def by (rule kmem_flags_bits [OF assms(1)])

theorem kmem_flags_permissions_witness:
  "kmem_flags_convert linux_gfp \<lparr>task_id = 1, flags = 0\<rparr> KM_ZERO AND gfp_IO linux_gfp \<noteq> 0"
  using kmem_flags_permissions [OF linux_gfp_contract, of "\<lparr>task_id = 1, flags = 0\<rparr>" KM_ZERO]
  by (simp add: KM_ZERO_def KM_NOSLEEP_def spl_fstrans_check_def)

section \<open>Marked regions\<close>

text \<open>
  Code of a task that marks regions, one inside another, and allocates: the result is the task
  afterwards and every allocation with the depth at which it was made.
\<close>

datatype fs_code = Alloc u32 | Then fs_code fs_code | Region fs_code

fun fs_exec :: "bool \<Rightarrow> gfp \<Rightarrow> fs_code \<Rightarrow> nat \<Rightarrow> task \<Rightarrow> (task \<times> (nat \<times> u32) list) option" where
  "fs_exec nd G (Alloc fl) depth t = Some (t, [(depth, kmem_flags_convert G t fl)])"
| "fs_exec nd G (Then a b) depth t = do {
     (t, xs) \<leftarrow> fs_exec nd G a depth t; (t, ys) \<leftarrow> fs_exec nd G b depth t; Some (t, xs @ ys) }"
| "fs_exec nd G (Region a) depth t = (case spl_fstrans_mark G t of (cookie, t) \<Rightarrow> do {
     (t, xs) \<leftarrow> fs_exec nd G a (Suc depth) t; t \<leftarrow> spl_fstrans_unmark nd G cookie t; Some (t, xs) })"

lemma mark_unmark_flags: "((f OR p) AND NOT p) OR (f AND p) = (f :: u32)"
  by (rule bit_word_eqI) (auto simp: bit_simps)

lemma fs_exec_restores:
  assumes "gfp_contract G"
  shows "0 < depth \<longrightarrow> flags t AND SPL_FSTRANS G = SPL_FSTRANS G \<Longrightarrow>
    \<exists>xs. fs_exec nd G c depth t = Some (t, xs) \<and> (\<forall>(d, g)\<in>set xs. 0 < d \<longrightarrow> g AND gfp_IO G = 0 \<and> g AND gfp_FS G = 0)"
proof (induction c arbitrary: depth t)
  case (Alloc fl)
  have "SPL_FSTRANS G \<noteq> 0" using assms by (simp add: gfp_contract_def SPL_FSTRANS_def)
  then show ?case
    using kmem_flags_bits [OF assms, of t fl] Alloc by (auto simp: spl_fstrans_check_def)
next
  case (Then a b)
  from Then.IH(1) [OF Then.prems] Then.IH(2) [OF Then.prems] show ?case by fastforce
next
  case (Region a)
  let ?t = "snd (spl_fstrans_mark G t)"
  have m: "flags ?t AND SPL_FSTRANS G = SPL_FSTRANS G"
    by (simp add: spl_fstrans_mark_def bit.conj_disj_distrib2)
  then obtain xs where xs: "fs_exec nd G a (Suc depth) ?t = Some (?t, xs)"
    "\<forall>(d, g)\<in>set xs. 0 < d \<longrightarrow> g AND gfp_IO G = 0 \<and> g AND gfp_FS G = 0"
    using Region.IH [of "Suc depth" ?t] by auto
  have "spl_fstrans_unmark nd G (fst (spl_fstrans_mark G t)) ?t = Some t"
    using m by (simp add: spl_fstrans_unmark_def spl_fstrans_mark_def ASSERT_def Let_def mark_unmark_flags)
  with xs show ?case by (simp add: prod.case_eq_if)
qed

text \<open>
  C34. Marked regions nest: however a task marks, unmarks and allocates in brackets, no assertion
  fails, its flags are afterwards what they were before, and no allocation inside a region may
  start I/O or call a file system.
\<close>

theorem fstrans_regions_nest:
  assumes "gfp_contract G"
  shows "\<exists>xs. fs_exec nd G c 0 t = Some (t, xs) \<and>
    (\<forall>(d, g)\<in>set xs. 0 < d \<longrightarrow> g AND gfp_IO G = 0 \<and> g AND gfp_FS G = 0)"
  by (rule fs_exec_restores [OF assms]) simp

theorem fstrans_regions_nest_witness:
  "\<exists>xs. fs_exec False linux_gfp (Region (Then (Region (Alloc 0)) (Alloc 0))) 0 \<lparr>task_id = 1, flags = 0\<rparr> =
     Some (\<lparr>task_id = 1, flags = 0\<rparr>, xs)"
  using fstrans_regions_nest [OF linux_gfp_contract] by blast

end
