(* ===== verification/Dbuf.thy ===== *)
theory Dbuf
  imports Spl_List Blkptr
begin

text \<open>
  Buffers of the data management unit (\<open>compat/openzfs/sys/dbuf.h\<close>): the search for a dirty record,
  over the linked lists of the Linux layer, the cacheability test and the choice of a hash lock.
  Dirty records are addresses in the list memory, their transaction groups a function of the address;
  whether a buffer holds metadata is decided outside the header and is an argument.
\<close>

datatype dbuf_states_t = DB_MARKER | DB_SEARCH | DB_UNCACHED | DB_FILL | DB_NOFILL | DB_READ | DB_CACHED | DB_EVICTING

primrec dbuf_states_value :: "dbuf_states_t \<Rightarrow> int" where
  "dbuf_states_value DB_MARKER = - 2" | "dbuf_states_value DB_SEARCH = - 1" | "dbuf_states_value DB_UNCACHED = 0"
| "dbuf_states_value DB_FILL = 1" | "dbuf_states_value DB_NOFILL = 2" | "dbuf_states_value DB_READ = 3"
| "dbuf_states_value DB_CACHED = 4" | "dbuf_states_value DB_EVICTING = 5"

datatype dbuf_cached_state_t = DB_NO_CACHE | DB_DBUF_CACHE | DB_DBUF_METADATA_CACHE | DB_CACHE_MAX

primrec dbuf_cached_state_value :: "dbuf_cached_state_t \<Rightarrow> int" where
  "dbuf_cached_state_value DB_NO_CACHE = - 1" | "dbuf_cached_state_value DB_DBUF_CACHE = 0"
| "dbuf_cached_state_value DB_DBUF_METADATA_CACHE = 1" | "dbuf_cached_state_value DB_CACHE_MAX = 2"

datatype override_states_t = DR_NOT_OVERRIDDEN | DR_IN_DMU_SYNC | DR_OVERRIDDEN
datatype db_lock_type_t = DLT_NONE | DLT_PARENT | DLT_OBJSET
datatype zfs_cache_type_t = ZFS_CACHE_NONE | ZFS_CACHE_METADATA | ZFS_CACHE_ALL

text \<open>The search state is below every other one that a buffer can be in.\<close>

lemma search_below: "s \<notin> {DB_MARKER, DB_SEARCH} \<Longrightarrow> dbuf_states_value DB_SEARCH < dbuf_states_value s"
  by (cases s) simp_all

text \<open>The fields of a buffer that the header's own code reads.\<close>

record dmu_buf_impl_t =
  db_pending_evict :: u8
  os_primary_cache :: zfs_cache_type_t
  db_dirty_records :: u64

definition DBUF_GET_BUFC_TYPE :: "bool \<Rightarrow> arc_buf_contents_t" where
  "DBUF_GET_BUFC_TYPE is_metadata = (if is_metadata then ARC_BUFC_METADATA else ARC_BUFC_DATA)"

definition DBUF_IS_CACHEABLE :: "bool \<Rightarrow> dmu_buf_impl_t \<Rightarrow> bool" where
  "DBUF_IS_CACHEABLE is_metadata db \<longleftrightarrow> \<not> db_pending_evict db \<noteq> 0 \<and>
     (os_primary_cache db = ZFS_CACHE_ALL \<or> is_metadata \<and> os_primary_cache db = ZFS_CACHE_METADATA)"

record dbuf_hash_table_t =
  hash_table_mask :: u64
  hash_mutex_mask :: u64
  hash_table :: "u64 list"
  hash_mutexes :: "u64 list"

definition DBUF_HASH_MUTEX :: "dbuf_hash_table_t \<Rightarrow> u64 \<Rightarrow> u64 option" where
  "DBUF_HASH_MUTEX h idx =
    (let i = unat (and idx (hash_mutex_mask h)) in if i < length (hash_mutexes h) then Some (hash_mutexes h ! i) else None)"

text \<open>A table of a power of two of locks: every hash has its lock, and the same lock each time it differs by a multiple.\<close>

lemma hash_mutex_defined:
  assumes "hash_mutex_mask h = mask k" "length (hash_mutexes h) = 2 ^ k" "k < 64"
  shows "DBUF_HASH_MUTEX h idx = Some (hash_mutexes h ! (unat idx mod 2 ^ k))"
  using assms by (simp add: DBUF_HASH_MUTEX_def Let_def take_bit_eq_mask [symmetric] unat_take_bit_word)

section \<open>Dirty records\<close>

text \<open>The loop has no result when the list does not end, as on a list that is linked to itself.\<close>

partial_function (option) find_dirty_loop :: "u64 \<Rightarrow> list_mem \<Rightarrow> (u64 \<Rightarrow> u64) \<Rightarrow> u64 \<Rightarrow> u64 \<Rightarrow> u64 option" where
  "find_dirty_loop l m dr_txg txg dr =
    (if dr \<noteq> 0 \<and> txg < dr_txg dr then find_dirty_loop l m dr_txg txg (list_next l dr m) else Some dr)"

definition dbuf_find_dirty_lte :: "linux_list \<Rightarrow> list_mem \<Rightarrow> (u64 \<Rightarrow> u64) \<Rightarrow> dmu_buf_impl_t \<Rightarrow> u64 \<Rightarrow> u64 option" where
  "dbuf_find_dirty_lte K m dr_txg db txg =
    find_dirty_loop (db_dirty_records db) m dr_txg txg (list_head K (db_dirty_records db) m)"

definition dbuf_find_dirty_eq :: "linux_list \<Rightarrow> list_mem \<Rightarrow> (u64 \<Rightarrow> u64) \<Rightarrow> dmu_buf_impl_t \<Rightarrow> u64 \<Rightarrow> u64 option" where
  "dbuf_find_dirty_eq K m dr_txg db txg =
    map_option (\<lambda>dr. if dr \<noteq> 0 \<and> dr_txg dr = txg then dr else 0) (dbuf_find_dirty_lte K m dr_txg db txg)"

lemma find_dirty_loop_rep:
  assumes "list_rep K m l xs"
  shows "xs = as @ bs \<Longrightarrow> find_dirty_loop l m dr_txg txg (hd (bs @ [0])) =
    Some (hd (dropWhile (\<lambda>dr. txg < dr_txg dr) bs @ [0]))"
proof (induction bs arbitrary: as)
  case Nil
  show ?case by (simp add: find_dirty_loop.simps)
next
  case (Cons b bs)
  have "b \<noteq> 0" using assms Cons.prems by (auto simp: list_rep_def)
  show ?case
  proof (cases "txg < dr_txg b")
    case True
    have "list_next l b m = hd (bs @ [0])"
      using list_step_rep(1) [of K m l as b bs] assms Cons.prems by (simp add: hd_append)
    then show ?thesis
      using Cons.IH [of "as @ [b]"] Cons.prems \<open>b \<noteq> 0\<close> True
      by (subst find_dirty_loop.simps) simp
  next
    case False
    then show ?thesis by (subst find_dirty_loop.simps) simp
  qed
qed

lemma find_dirty_lte_rep:
  assumes "linux_contract K" "list_rep K m (db_dirty_records db) drs"
  shows "dbuf_find_dirty_lte K m dr_txg db txg = Some (hd (dropWhile (\<lambda>dr. txg < dr_txg dr) drs @ [0]))"
proof -
  have "list_head K (db_dirty_records db) m = hd (drs @ [0])"
    using list_ends_rep(1) [OF assms] by (simp add: hd_append)
  then show ?thesis
    using find_dirty_loop_rep [OF assms(2), of "[]" drs] by (simp only: dbuf_find_dirty_lte_def append_Nil)
qed

text \<open>What the search finds in a list sorted from newest to oldest, with at most one record per group.\<close>

lemma first_not_newer:
  fixes f :: "'a::zero \<Rightarrow> 'b::linorder"
  assumes "sorted_wrt (\<lambda>a b. f b < f a) xs" "0 \<notin> set xs"
    and "r = hd (dropWhile (\<lambda>x. t < f x) xs @ [0])"
  shows "(r = 0 \<longleftrightarrow> (\<forall>x\<in>set xs. t < f x)) \<and>
    (r \<noteq> 0 \<longrightarrow> r \<in> set xs \<and> f r \<le> t \<and> (\<forall>x\<in>set xs. f x \<le> t \<longrightarrow> f x \<le> f r))"
  using assms(1,2) unfolding assms(3)
proof (induction xs)
  case (Cons x xs)
  show ?case
  proof (cases "t < f x")
    case True
    define r where "r = hd (dropWhile (\<lambda>x. t < f x) xs @ [0])"
    have "hd (dropWhile (\<lambda>x. t < f x) (x # xs) @ [0]) = r" using True by (simp add: r_def)
    moreover have "(r = 0 \<longleftrightarrow> (\<forall>x\<in>set xs. t < f x)) \<and>
        (r \<noteq> 0 \<longrightarrow> r \<in> set xs \<and> f r \<le> t \<and> (\<forall>x\<in>set xs. f x \<le> t \<longrightarrow> f x \<le> f r))"
      unfolding r_def using Cons.prems by (intro Cons.IH) simp_all
    ultimately show ?thesis using True by auto
  next
    case False
    then have "hd (dropWhile (\<lambda>x. t < f x) (x # xs) @ [0]) = x" by simp
    with Cons.prems False show ?thesis by (simp only: sorted_wrt.simps) (auto simp: not_less order_less_imp_le)
  qed
qed simp

text \<open>
  C35. The search for a dirty record ends, on every list of records kept from newest to oldest: it
  gives the record of the newest transaction group that is not after the one asked for, or null
  exactly if there is none; the exact search gives the record of the group itself exactly if it
  exists.
\<close>

theorem find_dirty_correct:
  assumes "linux_contract K" "list_rep K m (db_dirty_records db) drs"
    and "sorted_wrt (\<lambda>a b. dr_txg b < dr_txg a) drs"
  shows "(\<exists>r. dbuf_find_dirty_lte K m dr_txg db txg = Some r \<and>
      (r = 0 \<longleftrightarrow> (\<forall>d\<in>set drs. txg < dr_txg d)) \<and>
      (r \<noteq> 0 \<longrightarrow> r \<in> set drs \<and> dr_txg r \<le> txg \<and> (\<forall>d\<in>set drs. dr_txg d \<le> txg \<longrightarrow> dr_txg d \<le> dr_txg r))) \<and>
    (\<exists>e. dbuf_find_dirty_eq K m dr_txg db txg = Some e \<and>
      (e = 0 \<longleftrightarrow> txg \<notin> dr_txg ` set drs) \<and> (e \<noteq> 0 \<longrightarrow> e \<in> set drs \<and> dr_txg e = txg))"
proof -
  define r where "r = hd (dropWhile (\<lambda>d. txg < dr_txg d) drs @ [0])"
  have lte: "dbuf_find_dirty_lte K m dr_txg db txg = Some r"
    unfolding r_def by (rule find_dirty_lte_rep [OF assms(1,2)])
  have z: "0 \<notin> set drs" using assms(2) by (simp add: list_rep_def)
  note f = first_not_newer [OF assms(3) z r_def]
  have "(if r \<noteq> 0 \<and> dr_txg r = txg then r else 0) = 0 \<longleftrightarrow> txg \<notin> dr_txg ` set drs"
    using f z by (smt (verit) image_iff order_antisym order_refl linorder_not_less)
  with f lte show ?thesis by (auto simp: dbuf_find_dirty_eq_def)
qed

theorem find_dirty_correct_witness:
  "dbuf_find_dirty_lte kernel_list demo_mem (\<lambda>_. 7)
     \<lparr>db_pending_evict = 0, os_primary_cache = ZFS_CACHE_ALL, db_dirty_records = 0x1000\<rparr> 9 = Some 0x2000"
proof -
  let ?db = "\<lparr>db_pending_evict = 0, os_primary_cache = ZFS_CACHE_ALL, db_dirty_records = 0x1000\<rparr>"
  have "list_rep kernel_list demo_mem (db_dirty_records ?db) [0x2000]" using demo_mem_rep(1) by simp
  from find_dirty_correct [OF kernel_list_contract this, of "\<lambda>_. 7" 9] show ?thesis by auto
qed

end
