(* ===== verification/Bitmap.thy ===== *)
theory Bitmap
  imports Prelude
begin

unbundle bit_operations_syntax

text \<open>
  Bitmaps (\<open>compat/openzfs/sys/bitmap.h\<close>, with 64-bit longs) and that they are sets of numbers. A map
  is a list of words; an access outside it is \<open>None\<close>.
\<close>

definition BT_ULSHIFT :: nat where "BT_ULSHIFT = 6"
definition BT_ULSHIFT32 :: nat where "BT_ULSHIFT32 = 5"
definition BT_NBIPUL :: u64 where "BT_NBIPUL = push_bit BT_ULSHIFT 1"

definition BT_BITOUL :: "u64 \<Rightarrow> u64" where
  "BT_BITOUL nbits = (nbits + BT_NBIPUL - 1) div BT_NBIPUL"
definition BT_SIZEOFMAP :: "u64 \<Rightarrow> u64" where
  "BT_SIZEOFMAP nbits = BT_BITOUL nbits * 8"








end
