(* ===== verification/Byteorder_Mem.thy ===== *)
theory Byteorder_Mem
  imports Byteorder
begin

text \<open>
  Unaligned access in a given byte order (\<open>compat/spl/os/linux/sys/byteorder.h\<close>; the FreeBSD headers
  beside it carry the same macros): reading and writing words byte by byte. Memory gives a byte for
  each address. The reading macros give an \<open>int\<close> for 16 bits, else a word of their width.
\<close>

type_synonym bytes = "u64 \<Rightarrow> u8"

definition BE_IN8 :: "bytes \<Rightarrow> u64 \<Rightarrow> u8" where "BE_IN8 m xa = m xa"
definition BE_IN16 :: "bytes \<Rightarrow> u64 \<Rightarrow> u32" where
  "BE_IN16 m xa = push_bit 8 (ucast (BE_IN8 m xa)) OR ucast (BE_IN8 m (xa + 1))"
definition BE_IN32 :: "bytes \<Rightarrow> u64 \<Rightarrow> u32" where
  "BE_IN32 m xa = push_bit 16 (BE_IN16 m xa) OR BE_IN16 m (xa + 2)"
definition BE_IN64 :: "bytes \<Rightarrow> u64 \<Rightarrow> u64" where
  "BE_IN64 m xa = push_bit 32 (ucast (BE_IN32 m xa)) OR ucast (BE_IN32 m (xa + 4))"
definition LE_IN8 :: "bytes \<Rightarrow> u64 \<Rightarrow> u8" where "LE_IN8 m xa = m xa"
definition LE_IN16 :: "bytes \<Rightarrow> u64 \<Rightarrow> u32" where
  "LE_IN16 m xa = push_bit 8 (ucast (LE_IN8 m (xa + 1))) OR ucast (LE_IN8 m xa)"
definition LE_IN32 :: "bytes \<Rightarrow> u64 \<Rightarrow> u32" where
  "LE_IN32 m xa = push_bit 16 (LE_IN16 m (xa + 2)) OR LE_IN16 m xa"
definition LE_IN64 :: "bytes \<Rightarrow> u64 \<Rightarrow> u64" where
  "LE_IN64 m xa = push_bit 32 (ucast (LE_IN32 m (xa + 4))) OR ucast (LE_IN32 m xa)"

definition BE_OUT8 :: "u64 \<Rightarrow> u64 \<Rightarrow> bytes \<Rightarrow> bytes" where "BE_OUT8 xa yv m = m(xa := ucast yv)"
definition BE_OUT16 :: "u64 \<Rightarrow> u64 \<Rightarrow> bytes \<Rightarrow> bytes" where
  "BE_OUT16 xa yv m = BE_OUT8 xa (drop_bit 8 yv) (BE_OUT8 (xa + 1) yv m)"
definition BE_OUT32 :: "u64 \<Rightarrow> u64 \<Rightarrow> bytes \<Rightarrow> bytes" where
  "BE_OUT32 xa yv m = BE_OUT16 xa (drop_bit 16 yv) (BE_OUT16 (xa + 2) yv m)"
definition BE_OUT64 :: "u64 \<Rightarrow> u64 \<Rightarrow> bytes \<Rightarrow> bytes" where
  "BE_OUT64 xa yv m = BE_OUT32 xa (drop_bit 32 yv) (BE_OUT32 (xa + 4) yv m)"
definition LE_OUT8 :: "u64 \<Rightarrow> u64 \<Rightarrow> bytes \<Rightarrow> bytes" where "LE_OUT8 xa yv m = m(xa := ucast yv)"
definition LE_OUT16 :: "u64 \<Rightarrow> u64 \<Rightarrow> bytes \<Rightarrow> bytes" where
  "LE_OUT16 xa yv m = LE_OUT8 (xa + 1) (drop_bit 8 yv) (LE_OUT8 xa yv m)"
definition LE_OUT32 :: "u64 \<Rightarrow> u64 \<Rightarrow> bytes \<Rightarrow> bytes" where
  "LE_OUT32 xa yv m = LE_OUT16 (xa + 2) (drop_bit 16 yv) (LE_OUT16 xa yv m)"
definition LE_OUT64 :: "u64 \<Rightarrow> u64 \<Rightarrow> bytes \<Rightarrow> bytes" where
  "LE_OUT64 xa yv m = LE_OUT32 (xa + 4) (drop_bit 32 yv) (LE_OUT32 xa yv m)"

text \<open>
  Network order of 64-bit words on a little-endian host, from the C library's \<open>htonl\<close> and \<open>ntohl\<close>
  of 32-bit words.
\<close>

definition user_htonll :: "bool \<Rightarrow> (u32 \<Rightarrow> u32) \<Rightarrow> u64 \<Rightarrow> u64" where
  "user_htonll be htonl n =
    (if be then n else push_bit 32 (ucast (htonl (ucast n))) + ucast (htonl (ucast (drop_bit 32 n))))"
definition user_ntohll :: "bool \<Rightarrow> (u32 \<Rightarrow> u32) \<Rightarrow> u64 \<Rightarrow> u64" where
  "user_ntohll be ntohl n =
    (if be then n else push_bit 32 (ucast (ntohl (ucast n))) + ucast (ntohl (ucast (drop_bit 32 n))))"

lemmas byte_reads = BE_IN8_def BE_IN16_def BE_IN32_def BE_IN64_def LE_IN8_def LE_IN16_def LE_IN32_def LE_IN64_def
lemmas byte_writes = BE_OUT8_def BE_OUT16_def BE_OUT32_def BE_OUT64_def LE_OUT8_def LE_OUT16_def LE_OUT32_def LE_OUT64_def

text \<open>Which bytes a read sees and a write leaves.\<close>

lemma write_bytes:
  "BE_OUT64 a v m = m(a + 7 := ucast v, a + 6 := ucast (drop_bit 8 v), a + 5 := ucast (drop_bit 16 v),
     a + 4 := ucast (drop_bit 24 v), a + 3 := ucast (drop_bit 32 v), a + 2 := ucast (drop_bit 40 v),
     a + 1 := ucast (drop_bit 48 v), a := ucast (drop_bit 56 v))"
  "LE_OUT64 a v m = m(a := ucast v, a + 1 := ucast (drop_bit 8 v), a + 2 := ucast (drop_bit 16 v),
     a + 3 := ucast (drop_bit 24 v), a + 4 := ucast (drop_bit 32 v), a + 5 := ucast (drop_bit 40 v),
     a + 6 := ucast (drop_bit 48 v), a + 7 := ucast (drop_bit 56 v))"
  by (simp_all only: byte_writes drop_bit_drop_bit) (simp_all add: ac_simps)

lemma bit_word_of_u16:
  "bit (push_bit 8 (ucast (x :: u8)) OR ucast (y :: u8) :: u32) n \<longleftrightarrow>
    (if n < 8 then bit y n else n < 16 \<and> bit x (n - 8))"
  by (auto simp: bit_simps dest: bit_imp_le_length)

lemma bit_word_of_u32:
  assumes "\<And>n. bit x n \<Longrightarrow> n < 16" "\<And>n. bit y n \<Longrightarrow> n < 16"
  shows "bit (push_bit 16 x OR y :: u32) n \<longleftrightarrow> (if n < 16 then bit y n else n < 32 \<and> bit x (n - 16))"
  using assms by (auto simp: bit_simps dest: bit_imp_le_length)

lemma bit_word_of_u64:
  "bit (push_bit 32 (ucast (x :: u32)) OR ucast (y :: u32) :: u64) n \<longleftrightarrow>
    (if n < 32 then bit y n else n < 64 \<and> bit x (n - 32))"
  by (auto simp: bit_simps dest: bit_imp_le_length)

lemma read16_bits:
  "bit (BE_IN16 m a) n \<longleftrightarrow> (if n < 8 then bit (m (a + 1)) n else n < 16 \<and> bit (m a) (n - 8))"
  "bit (LE_IN16 m a) n \<longleftrightarrow> (if n < 8 then bit (m a) n else n < 16 \<and> bit (m (a + 1)) (n - 8))"
  by (simp_all only: byte_reads bit_word_of_u16)

lemma read16_small: "bit (BE_IN16 m a) n \<Longrightarrow> n < 16" "bit (LE_IN16 m a) n \<Longrightarrow> n < 16"
  by (auto simp: read16_bits split: if_splits)

lemma read32_bits:
  "bit (BE_IN32 m a) n \<longleftrightarrow> (if n < 16 then bit (BE_IN16 m (a + 2)) n else n < 32 \<and> bit (BE_IN16 m a) (n - 16))"
  "bit (LE_IN32 m a) n \<longleftrightarrow> (if n < 16 then bit (LE_IN16 m a) n else n < 32 \<and> bit (LE_IN16 m (a + 2)) (n - 16))"
  by (simp_all only: BE_IN32_def LE_IN32_def bit_word_of_u32 [OF read16_small(1) read16_small(1)]
      bit_word_of_u32 [OF read16_small(2) read16_small(2)])

lemma read64_bits:
  "bit (BE_IN64 m a) n \<longleftrightarrow> (if n < 32 then bit (BE_IN32 m (a + 4)) n else n < 64 \<and> bit (BE_IN32 m a) (n - 32))"
  "bit (LE_IN64 m a) n \<longleftrightarrow> (if n < 32 then bit (LE_IN32 m a) n else n < 64 \<and> bit (LE_IN32 m (a + 4)) (n - 32))"
  by (simp_all only: BE_IN64_def LE_IN64_def bit_word_of_u64)

text \<open>A bit of a word read from memory is a bit of one of its bytes, listed from the lowest.\<close>

lemma bit_position: "(n :: nat) < 64 \<Longrightarrow> \<exists>k<8. \<exists>r<8. n = 8 * k + r"
  by (intro exI [of _ "n div 8"] conjI exI [of _ "n mod 8"]) auto

lemma read64_byte:
  assumes "n < 64"
  shows "bit (BE_IN64 m a) n = bit (map m [a + 7, a + 6, a + 5, a + 4, a + 3, a + 2, a + 1, a] ! (n div 8)) (n mod 8)"
    and "bit (LE_IN64 m a) n = bit (map m [a, a + 1, a + 2, a + 3, a + 4, a + 5, a + 6, a + 7] ! (n div 8)) (n mod 8)"
proof -
  obtain k r where n: "k < 8" "r < 8" "n = 8 * k + r" using bit_position [OF assms] by blast
  have d: "n div 8 = k" "n mod 8 = r" using n by simp_all
  have "k = 0 \<or> k = 1 \<or> k = 2 \<or> k = 3 \<or> k = 4 \<or> k = 5 \<or> k = 6 \<or> k = 7" using n(1) by linarith
  then show "bit (BE_IN64 m a) n = bit (map m [a + 7, a + 6, a + 5, a + 4, a + 3, a + 2, a + 1, a] ! (n div 8)) (n mod 8)"
    and "bit (LE_IN64 m a) n = bit (map m [a, a + 1, a + 2, a + 3, a + 4, a + 5, a + 6, a + 7] ! (n div 8)) (n mod 8)"
    unfolding d using n(2) unfolding n(3) by (elim disjE; simp add: read64_bits read32_bits read16_bits add.commute)+
qed

lemma bytes_written:
  "map (BE_OUT64 a v m) [a + 7, a + 6, a + 5, a + 4, a + 3, a + 2, a + 1, a] =
     map (\<lambda>k. ucast (drop_bit (8 * k) v)) [0..<8]"
  "map (LE_OUT64 a v m) [a, a + 1, a + 2, a + 3, a + 4, a + 5, a + 6, a + 7] =
     map (\<lambda>k. ucast (drop_bit (8 * k) v)) [0..<8]"
  by (simp_all add: write_bytes upt_rec)

lemma bit_byte:
  assumes "n < 64"
  shows "bit (map (\<lambda>k. ucast (drop_bit (8 * k) (v :: u64)) :: u8) [0..<8] ! (n div 8)) (n mod 8) = bit v n"
proof -
  have "n div 8 < 8" using assms by simp
  then have "map (\<lambda>k. ucast (drop_bit (8 * k) v) :: u8) [0..<8] ! (n div 8) = ucast (drop_bit (8 * (n div 8)) v)"
    by (subst nth_map) simp_all
  then show ?thesis using assms by (simp add: bit_ucast_iff bit_drop_bit_eq)
qed

lemma reversed_reads: "BE_IN64 m a = BSWAP_64 (LE_IN64 m a)"
proof (rule bit_word_eqI)
  fix n assume "n < LENGTH(64)"
  then have n: "n < 64" by simp
  then obtain k r where k: "k < 8" "r < 8" "n = 8 * k + r" using bit_position by blast
  have s: "8 * (7 - k) + r < 64" "(8 * (7 - k) + r) div 8 = 7 - k" "(8 * (7 - k) + r) mod 8 = r" using k by simp_all
  have "bit (BSWAP_64 (LE_IN64 m a)) n = bit (LE_IN64 m a) (8 * (7 - k) + r)"
    unfolding k(3) by (rule bit_BSWAP_64 [OF k(1,2)])
  also have "\<dots> = bit (BE_IN64 m a) n"
  proof -
    have d: "n div 8 = k" "n mod 8 = r" using k by simp_all
    have "k = 0 \<or> k = 1 \<or> k = 2 \<or> k = 3 \<or> k = 4 \<or> k = 5 \<or> k = 6 \<or> k = 7" using k(1) by linarith
    then show ?thesis
      unfolding read64_byte(2) [OF s(1)] read64_byte(1) [OF n] s(2,3) d by (elim disjE) simp_all
  qed
  finally show "bit (BE_IN64 m a) n = bit (BSWAP_64 (LE_IN64 m a)) n" by simp
qed

text \<open>
  C37. A 64-bit word written in one byte order at any address, aligned or not, is read back as it was,
  and in the other byte order reversed; the bytes outside the eight are left alone. Network order of
  64 bits, built from the C library's conversion of 32 bits - on a little-endian host the reversal of
  four bytes - is its own inverse, and on such a host it is the reversal that memory shows.
\<close>

theorem unaligned_roundtrip:
  "BE_IN64 (BE_OUT64 a v m) a = v \<and> LE_IN64 (LE_OUT64 a v m) a = v \<and>
   LE_IN64 (BE_OUT64 a v m) a = BSWAP_64 v \<and> BE_IN64 (LE_OUT64 a v m) a = BSWAP_64 v \<and>
   (\<forall>b. 8 \<le> unat (b - a) \<longrightarrow> BE_OUT64 a v m b = m b \<and> LE_OUT64 a v m b = m b) \<and>
   (\<forall>htonl. (\<forall>x. ucast (htonl x) = BSWAP_32 (ucast x)) \<longrightarrow>
      user_htonll be htonl (user_ntohll be htonl v) = v \<and>
      (\<not> be \<longrightarrow> user_htonll be htonl v = BE_IN64 (LE_OUT64 a v m) a))"
proof -
  have be: "BE_IN64 (BE_OUT64 a v m) a = v" for a m and v :: u64
  proof (rule bit_word_eqI)
    fix n assume "n < LENGTH(64)"
    then have "n < 64" by simp
    then show "bit (BE_IN64 (BE_OUT64 a v m) a) n = bit v n" by (simp only: read64_byte(1) bytes_written(1) bit_byte)
  qed
  have le: "LE_IN64 (LE_OUT64 a v m) a = v" for a m and v :: u64
  proof (rule bit_word_eqI)
    fix n assume "n < LENGTH(64)"
    then have "n < 64" by simp
    then show "bit (LE_IN64 (LE_OUT64 a v m) a) n = bit v n" by (simp only: read64_byte(2) bytes_written(2) bit_byte)
  qed
  have x: "LE_IN64 (BE_OUT64 a v m) a = BSWAP_64 v" "BE_IN64 (LE_OUT64 a v m) a = BSWAP_64 v"
    using reversed_reads [of "BE_OUT64 a v m" a] reversed_reads [of "LE_OUT64 a v m" a]
    by (simp_all add: be le) (metis BSWAP_64_involution be)
  have out: "BE_OUT64 a v m b = m b \<and> LE_OUT64 a v m b = m b" if "8 \<le> unat (b - a)" for b
  proof -
    have "b \<noteq> a + of_nat k" if "k < 8" for k
      using \<open>8 \<le> unat (b - a)\<close> that by (auto simp: unat_of_nat)
    from this [of 0] this [of 1] this [of 2] this [of 3] this [of 4] this [of 5] this [of 6] this [of 7]
    show ?thesis by (simp add: write_bytes)
  qed
  have net: "user_htonll False htonl w = BSWAP_64 w" if "\<forall>x. ucast (htonl x) = BSWAP_32 (ucast x)" for htonl w
  proof -
    have low: "BSWAP_32 (ucast (ucast x :: u32)) = BSWAP_32 (x :: u64)" for x
      by (rule bit_word_eqI) (auto simp: bit_BSWAP_32 bit_ucast_iff)
    have "user_htonll False htonl w = push_bit 32 (BSWAP_32 w) + BSWAP_32 (drop_bit 32 w)"
      using that by (simp add: user_htonll_def low)
    also have "\<dots> = push_bit 32 (BSWAP_32 w) OR BSWAP_32 (drop_bit 32 w)"
      by (rule disjunctive_add) (auto simp: bit_push_bit_iff bit_BSWAP_32)
    finally show ?thesis by (simp add: BSWAP_64_def)
  qed
  show ?thesis
    using be le x out net by (cases be) (auto simp: user_htonll_def user_ntohll_def BSWAP_64_involution)
qed

theorem unaligned_roundtrip_witness:
  "BE_IN64 (BE_OUT64 0x1001 0x1122334455667788 (\<lambda>_. 0)) 0x1001 = 0x1122334455667788 \<and>
   LE_OUT64 0x1001 0x1122334455667788 (\<lambda>_. 0) 0x1009 = 0 \<and>
   user_htonll False (\<lambda>x. ucast (BSWAP_32 (ucast x))) (user_ntohll False (\<lambda>x. ucast (BSWAP_32 (ucast x))) 5) = 5"
proof -
  let ?swap = "\<lambda>x :: u32. ucast (BSWAP_32 (ucast x)) :: u32"
  have "\<forall>x. ucast (?swap x) = BSWAP_32 (ucast x)"
    by (intro allI bit_word_eqI) (auto simp: bit_BSWAP_32 bit_ucast_iff)
  moreover have "\<forall>htonl. (\<forall>x. ucast (htonl x) = BSWAP_32 (ucast x)) \<longrightarrow> user_htonll False htonl (user_ntohll False htonl 5) = 5"
    using unaligned_roundtrip [of 0 5 "\<lambda>_. 0" False] by blast
  ultimately have "user_htonll False ?swap (user_ntohll False ?swap 5) = 5" by (elim allE [of _ ?swap]) (erule mp)
  moreover have "8 \<le> unat ((0x1009 :: u64) - 0x1001)" by simp
  ultimately show ?thesis
    using unaligned_roundtrip [of "0x1001" "0x1122334455667788" "\<lambda>_. 0" False] by blast
qed

end
