(* ===== verification/Zfs_Enums.thy ===== *)
theory Zfs_Enums
  imports Zfs_Types Phys_Layouts "HOL-Library.Sublist"
begin

text \<open>
  The enumerations of \<open>fs/zfs.h\<close>, \<open>libzfs.h\<close> and the headers of the storage pool, as lists of
  enumerators with their initialisers, and the values C gives them. The ioctl commands
  (\<open>zfs_ioc_t\<close>) are an interface between kernel and user space, with their numbers also written in
  comments.
\<close>

section \<open>Enumerations of C\<close>

datatype initialiser = Next | Is int | Bit nat | Letter char | As string | Plus string int

type_synonym enum = "(string \<times> initialiser) list"

fun init_value :: "int \<Rightarrow> (string \<times> int) list \<Rightarrow> initialiser \<Rightarrow> int option" where
  "init_value nx env Next = Some nx"
| "init_value nx env (Is v) = Some v"
| "init_value nx env (Bit k) = Some (2 ^ k)"
| "init_value nx env (Letter c) = Some (of_char c)"
| "init_value nx env (As x) = map_of env x"
| "init_value nx env (Plus x v) = map_option (\<lambda>w. w + v) (map_of env x)"

text \<open>\<open>None\<close> when an initialiser names an enumerator that was not declared before it.\<close>

fun enum_go :: "int \<Rightarrow> (string \<times> int) list \<Rightarrow> enum \<Rightarrow> (string \<times> int) list option" where
  "enum_go nx env [] = Some []"
| "enum_go nx env ((x, i) # xs) =
    Option.bind (init_value nx env i) (\<lambda>v. map_option (\<lambda>vs. (x, v) # vs) (enum_go (v + 1) ((x, v) # env) xs))"

definition enum_values :: "enum \<Rightarrow> (string \<times> int) list option" where
  "enum_values e = enum_go 0 [] e"

text \<open>The values of the enumerators that are not declared as another name of an earlier one.\<close>

fun own :: "initialiser \<Rightarrow> bool" where
  "own (As x) \<longleftrightarrow> False"
| "own i \<longleftrightarrow> True"

definition own_values :: "enum \<Rightarrow> int list" where
  "own_values e = (case enum_values e of None \<Rightarrow> []
     | Some vs \<Rightarrow> map (\<lambda>(p, i). snd p) (filter (\<lambda>(p, i). own (snd i)) (zip vs e)))"

section \<open>\<open>sys/fs/zfs.h\<close>\<close>

definition dmu_objset_type_t :: enum where
  "dmu_objset_type_t = [
     (''DMU_OST_NONE'', Next), (''DMU_OST_META'', Next), (''DMU_OST_ZFS'', Next), (''DMU_OST_ZVOL'', Next),
     (''DMU_OST_OTHER'', Next), (''DMU_OST_ANY'', Next), (''DMU_OST_NUMTYPES'', Next)]"

definition zfs_userquota_prop_t :: enum where
  "zfs_userquota_prop_t = [
     (''ZFS_PROP_USERUSED'', Next), (''ZFS_PROP_USERQUOTA'', Next), (''ZFS_PROP_GROUPUSED'', Next),
     (''ZFS_PROP_GROUPQUOTA'', Next), (''ZFS_PROP_USEROBJUSED'', Next), (''ZFS_PROP_USEROBJQUOTA'', Next),
     (''ZFS_PROP_GROUPOBJUSED'', Next), (''ZFS_PROP_GROUPOBJQUOTA'', Next),
     (''ZFS_PROP_PROJECTUSED'', Next), (''ZFS_PROP_PROJECTQUOTA'', Next),
     (''ZFS_PROP_PROJECTOBJUSED'', Next), (''ZFS_PROP_PROJECTOBJQUOTA'', Next),
     (''ZFS_NUM_USERQUOTA_PROPS'', Next)]"

definition zprop_errflags_t :: enum where
  "zprop_errflags_t = [
     (''ZPROP_ERR_NOCLEAR'', Is 0x1), (''ZPROP_ERR_NORESTORE'', Is 0x2)]"

definition vdev_prop_t :: enum where
  "vdev_prop_t = [
     (''VDEV_PROP_INVAL'', Is (- 1)), (''VDEV_PROP_USERPROP'', As ''VDEV_PROP_INVAL''),
     (''VDEV_PROP_NAME'', Next), (''VDEV_PROP_CAPACITY'', Next), (''VDEV_PROP_STATE'', Next),
     (''VDEV_PROP_GUID'', Next), (''VDEV_PROP_ASIZE'', Next), (''VDEV_PROP_PSIZE'', Next),
     (''VDEV_PROP_ASHIFT'', Next), (''VDEV_PROP_SIZE'', Next), (''VDEV_PROP_FREE'', Next),
     (''VDEV_PROP_ALLOCATED'', Next), (''VDEV_PROP_COMMENT'', Next), (''VDEV_PROP_EXPANDSZ'', Next),
     (''VDEV_PROP_FRAGMENTATION'', Next), (''VDEV_PROP_BOOTSIZE'', Next), (''VDEV_PROP_PARITY'', Next),
     (''VDEV_PROP_PATH'', Next), (''VDEV_PROP_DEVID'', Next), (''VDEV_PROP_PHYS_PATH'', Next),
     (''VDEV_PROP_ENC_PATH'', Next), (''VDEV_PROP_FRU'', Next), (''VDEV_PROP_PARENT'', Next),
     (''VDEV_PROP_CHILDREN'', Next), (''VDEV_PROP_NUMCHILDREN'', Next), (''VDEV_PROP_READ_ERRORS'', Next),
     (''VDEV_PROP_WRITE_ERRORS'', Next), (''VDEV_PROP_CHECKSUM_ERRORS'', Next),
     (''VDEV_PROP_INITIALIZE_ERRORS'', Next), (''VDEV_PROP_OPS_NULL'', Next),
     (''VDEV_PROP_OPS_READ'', Next), (''VDEV_PROP_OPS_WRITE'', Next), (''VDEV_PROP_OPS_FREE'', Next),
     (''VDEV_PROP_OPS_CLAIM'', Next), (''VDEV_PROP_OPS_TRIM'', Next), (''VDEV_PROP_BYTES_NULL'', Next),
     (''VDEV_PROP_BYTES_READ'', Next), (''VDEV_PROP_BYTES_WRITE'', Next), (''VDEV_PROP_BYTES_FREE'', Next),
     (''VDEV_PROP_BYTES_CLAIM'', Next), (''VDEV_PROP_BYTES_TRIM'', Next), (''VDEV_PROP_REMOVING'', Next),
     (''VDEV_PROP_ALLOCATING'', Next), (''VDEV_PROP_FAILFAST'', Next), (''VDEV_PROP_CHECKSUM_N'', Next),
     (''VDEV_PROP_CHECKSUM_T'', Next), (''VDEV_PROP_IO_N'', Next), (''VDEV_PROP_IO_T'', Next),
     (''VDEV_PROP_RAIDZ_EXPANDING'', Next), (''VDEV_PROP_SLOW_IO_N'', Next),
     (''VDEV_PROP_SLOW_IO_T'', Next), (''VDEV_PROP_TRIM_SUPPORT'', Next),
     (''VDEV_PROP_TRIM_ERRORS'', Next), (''VDEV_PROP_SLOW_IOS'', Next), (''VDEV_PROP_SIT_OUT'', Next),
     (''VDEV_PROP_AUTOSIT'', Next), (''VDEV_PROP_SLOW_IO_EVENTS'', Next), (''VDEV_NUM_PROPS'', Next)]"

definition zfs_deleg_who_type_t :: enum where
  "zfs_deleg_who_type_t = [
     (''ZFS_DELEG_WHO_UNKNOWN'', Is 0), (''ZFS_DELEG_USER'', Letter (CHR ''u'')),
     (''ZFS_DELEG_USER_SETS'', Letter (CHR ''U'')), (''ZFS_DELEG_GROUP'', Letter (CHR ''g'')),
     (''ZFS_DELEG_GROUP_SETS'', Letter (CHR ''G'')), (''ZFS_DELEG_EVERYONE'', Letter (CHR ''e'')),
     (''ZFS_DELEG_EVERYONE_SETS'', Letter (CHR ''E'')), (''ZFS_DELEG_CREATE'', Letter (CHR ''c'')),
     (''ZFS_DELEG_CREATE_SETS'', Letter (CHR ''C'')), (''ZFS_DELEG_NAMED_SET'', Letter (CHR ''s'')),
     (''ZFS_DELEG_NAMED_SET_SETS'', Letter (CHR ''S''))]"

definition zfs_deleg_inherit_t :: enum where
  "zfs_deleg_inherit_t = [
     (''ZFS_DELEG_NONE'', Is 0), (''ZFS_DELEG_PERM_LOCAL'', Is 1), (''ZFS_DELEG_PERM_DESCENDENT'', Is 2),
     (''ZFS_DELEG_PERM_LOCALDESCENDENT'', Is 3), (''ZFS_DELEG_PERM_CREATE'', Is 4)]"

definition zfs_canmount_type_t :: enum where
  "zfs_canmount_type_t = [
     (''ZFS_CANMOUNT_OFF'', Is 0), (''ZFS_CANMOUNT_ON'', Is 1), (''ZFS_CANMOUNT_NOAUTO'', Is 2)]"

definition zfs_logbias_op_t :: enum where
  "zfs_logbias_op_t = [
     (''ZFS_LOGBIAS_LATENCY'', Is 0), (''ZFS_LOGBIAS_THROUGHPUT'', Is 1)]"

definition zfs_share_op_t :: enum where
  "zfs_share_op_t = [
     (''ZFS_SHARE_NFS'', Is 0), (''ZFS_UNSHARE_NFS'', Is 1), (''ZFS_SHARE_SMB'', Is 2),
     (''ZFS_UNSHARE_SMB'', Is 3)]"

definition zfs_smb_acl_op_t :: enum where
  "zfs_smb_acl_op_t = [
     (''ZFS_SMB_ACL_ADD'', Next), (''ZFS_SMB_ACL_REMOVE'', Next), (''ZFS_SMB_ACL_RENAME'', Next),
     (''ZFS_SMB_ACL_PURGE'', Next)]"

definition zfs_sync_type_t :: enum where
  "zfs_sync_type_t = [
     (''ZFS_SYNC_STANDARD'', Is 0), (''ZFS_SYNC_ALWAYS'', Is 1), (''ZFS_SYNC_DISABLED'', Is 2)]"

definition zfs_xattr_type_t :: enum where
  "zfs_xattr_type_t = [
     (''ZFS_XATTR_OFF'', Is 0), (''ZFS_XATTR_DIR'', Is 1), (''ZFS_XATTR_SA'', Is 2)]"

definition zfs_dnsize_type_t :: enum where
  "zfs_dnsize_type_t = [
     (''ZFS_DNSIZE_LEGACY'', Is 0), (''ZFS_DNSIZE_AUTO'', Is 1), (''ZFS_DNSIZE_1K'', Is 1024),
     (''ZFS_DNSIZE_2K'', Is 2048), (''ZFS_DNSIZE_4K'', Is 4096), (''ZFS_DNSIZE_8K'', Is 8192),
     (''ZFS_DNSIZE_16K'', Is 16384)]"

definition zfs_redundant_metadata_type_t :: enum where
  "zfs_redundant_metadata_type_t = [
     (''ZFS_REDUNDANT_METADATA_ALL'', Next), (''ZFS_REDUNDANT_METADATA_MOST'', Next),
     (''ZFS_REDUNDANT_METADATA_SOME'', Next), (''ZFS_REDUNDANT_METADATA_NONE'', Next)]"

definition zfs_volmode_t :: enum where
  "zfs_volmode_t = [
     (''ZFS_VOLMODE_DEFAULT'', Is 0), (''ZFS_VOLMODE_GEOM'', Is 1), (''ZFS_VOLMODE_DEV'', Is 2),
     (''ZFS_VOLMODE_NONE'', Is 3)]"

definition zfs_direct_t :: enum where
  "zfs_direct_t = [
     (''ZFS_DIRECT_DISABLED'', Is 0), (''ZFS_DIRECT_STANDARD'', Next), (''ZFS_DIRECT_ALWAYS'', Next)]"

definition zfs_keystatus_t :: enum where
  "zfs_keystatus_t = [
     (''ZFS_KEYSTATUS_NONE'', Is 0), (''ZFS_KEYSTATUS_UNAVAILABLE'', Next),
     (''ZFS_KEYSTATUS_AVAILABLE'', Next)]"

definition zfs_keyformat_t :: enum where
  "zfs_keyformat_t = [
     (''ZFS_KEYFORMAT_NONE'', Is 0), (''ZFS_KEYFORMAT_RAW'', Next), (''ZFS_KEYFORMAT_HEX'', Next),
     (''ZFS_KEYFORMAT_PASSPHRASE'', Next), (''ZFS_KEYFORMAT_FORMATS'', Next)]"

definition zfs_keylocation_t :: enum where
  "zfs_keylocation_t = [
     (''ZFS_KEYLOCATION_NONE'', Is 0), (''ZFS_KEYLOCATION_PROMPT'', Next), (''ZFS_KEYLOCATION_URI'', Next),
     (''ZFS_KEYLOCATION_LOCATIONS'', Next)]"

definition zfs_prefetch_type_t :: enum where
  "zfs_prefetch_type_t = [
     (''ZFS_PREFETCH_NONE'', Is 0), (''ZFS_PREFETCH_METADATA'', Is 1), (''ZFS_PREFETCH_ALL'', Is 2)]"

definition vdev_state_t :: enum where
  "vdev_state_t = [
     (''VDEV_STATE_UNKNOWN'', Is 0), (''VDEV_STATE_CLOSED'', Next), (''VDEV_STATE_OFFLINE'', Next),
     (''VDEV_STATE_REMOVED'', Next), (''VDEV_STATE_CANT_OPEN'', Next), (''VDEV_STATE_FAULTED'', Next),
     (''VDEV_STATE_DEGRADED'', Next), (''VDEV_STATE_HEALTHY'', Next)]"

definition vdev_aux_t :: enum where
  "vdev_aux_t = [
     (''VDEV_AUX_NONE'', Next), (''VDEV_AUX_OPEN_FAILED'', Next), (''VDEV_AUX_CORRUPT_DATA'', Next),
     (''VDEV_AUX_NO_REPLICAS'', Next), (''VDEV_AUX_BAD_GUID_SUM'', Next), (''VDEV_AUX_TOO_SMALL'', Next),
     (''VDEV_AUX_BAD_LABEL'', Next), (''VDEV_AUX_VERSION_NEWER'', Next),
     (''VDEV_AUX_VERSION_OLDER'', Next), (''VDEV_AUX_UNSUP_FEAT'', Next), (''VDEV_AUX_SPARED'', Next),
     (''VDEV_AUX_ERR_EXCEEDED'', Next), (''VDEV_AUX_IO_FAILURE'', Next), (''VDEV_AUX_BAD_LOG'', Next),
     (''VDEV_AUX_EXTERNAL'', Next), (''VDEV_AUX_SPLIT_POOL'', Next), (''VDEV_AUX_BAD_ASHIFT'', Next),
     (''VDEV_AUX_EXTERNAL_PERSIST'', Next), (''VDEV_AUX_ACTIVE'', Next),
     (''VDEV_AUX_CHILDREN_OFFLINE'', Next), (''VDEV_AUX_ASHIFT_TOO_BIG'', Next)]"

definition pool_state_t :: enum where
  "pool_state_t = [
     (''POOL_STATE_ACTIVE'', Is 0), (''POOL_STATE_EXPORTED'', Next), (''POOL_STATE_DESTROYED'', Next),
     (''POOL_STATE_SPARE'', Next), (''POOL_STATE_L2CACHE'', Next), (''POOL_STATE_UNINITIALIZED'', Next),
     (''POOL_STATE_UNAVAIL'', Next), (''POOL_STATE_POTENTIALLY_ACTIVE'', Next)]"

definition mmp_state_t :: enum where
  "mmp_state_t = [
     (''MMP_STATE_ACTIVE'', Is 0), (''MMP_STATE_INACTIVE'', Next), (''MMP_STATE_NO_HOSTID'', Next)]"

definition pool_scan_func_t :: enum where
  "pool_scan_func_t = [
     (''POOL_SCAN_NONE'', Next), (''POOL_SCAN_SCRUB'', Next), (''POOL_SCAN_RESILVER'', Next),
     (''POOL_SCAN_ERRORSCRUB'', Next), (''POOL_SCAN_FUNCS'', Next)]"

definition pool_scrub_cmd_t :: enum where
  "pool_scrub_cmd_t = [
     (''POOL_SCRUB_NORMAL'', Is 0), (''POOL_SCRUB_PAUSE'', Next), (''POOL_SCRUB_FROM_LAST_TXG'', Next),
     (''POOL_SCRUB_FLAGS_END'', Next)]"

definition checkpoint_state_t :: enum where
  "checkpoint_state_t = [
     (''CS_NONE'', Next), (''CS_CHECKPOINT_EXISTS'', Next), (''CS_CHECKPOINT_DISCARDING'', Next),
     (''CS_NUM_STATES'', Next)]"

definition zio_type_t :: enum where
  "zio_type_t = [
     (''ZIO_TYPE_NULL'', Is 0), (''ZIO_TYPE_READ'', Next), (''ZIO_TYPE_WRITE'', Next),
     (''ZIO_TYPE_FREE'', Next), (''ZIO_TYPE_CLAIM'', Next), (''ZIO_TYPE_FLUSH'', Next),
     (''ZIO_TYPE_TRIM'', Next), (''ZIO_TYPES'', Next)]"

definition zio_priority_t :: enum where
  "zio_priority_t = [
     (''ZIO_PRIORITY_SYNC_READ'', Next), (''ZIO_PRIORITY_SYNC_WRITE'', Next),
     (''ZIO_PRIORITY_ASYNC_READ'', Next), (''ZIO_PRIORITY_ASYNC_WRITE'', Next),
     (''ZIO_PRIORITY_SCRUB'', Next), (''ZIO_PRIORITY_REMOVAL'', Next),
     (''ZIO_PRIORITY_INITIALIZING'', Next), (''ZIO_PRIORITY_TRIM'', Next),
     (''ZIO_PRIORITY_REBUILD'', Next), (''ZIO_PRIORITY_NUM_QUEUEABLE'', Next),
     (''ZIO_PRIORITY_NOW'', Next)]"

definition dsl_scan_state_t :: enum where
  "dsl_scan_state_t = [
     (''DSS_NONE'', Next), (''DSS_SCANNING'', Next), (''DSS_FINISHED'', Next), (''DSS_CANCELED'', Next),
     (''DSS_ERRORSCRUBBING'', Next), (''DSS_NUM_STATES'', Next)]"

definition zpool_errata_t :: enum where
  "zpool_errata_t = [
     (''ZPOOL_ERRATA_NONE'', Next), (''ZPOOL_ERRATA_ZOL_2094_SCRUB'', Next),
     (''ZPOOL_ERRATA_ZOL_2094_ASYNC_DESTROY'', Next), (''ZPOOL_ERRATA_ZOL_6845_ENCRYPTION'', Next),
     (''ZPOOL_ERRATA_ZOL_8308_ENCRYPTION'', Next)]"

definition pool_initialize_func_t :: enum where
  "pool_initialize_func_t = [
     (''POOL_INITIALIZE_START'', Next), (''POOL_INITIALIZE_CANCEL'', Next),
     (''POOL_INITIALIZE_SUSPEND'', Next), (''POOL_INITIALIZE_UNINIT'', Next),
     (''POOL_INITIALIZE_FUNCS'', Next)]"

definition pool_trim_func_t :: enum where
  "pool_trim_func_t = [
     (''POOL_TRIM_START'', Next), (''POOL_TRIM_CANCEL'', Next), (''POOL_TRIM_SUSPEND'', Next),
     (''POOL_TRIM_FUNCS'', Next)]"

definition vdev_initializing_state_t :: enum where
  "vdev_initializing_state_t = [
     (''VDEV_INITIALIZE_NONE'', Next), (''VDEV_INITIALIZE_ACTIVE'', Next),
     (''VDEV_INITIALIZE_CANCELED'', Next), (''VDEV_INITIALIZE_SUSPENDED'', Next),
     (''VDEV_INITIALIZE_COMPLETE'', Next)]"

definition vdev_trim_state_t :: enum where
  "vdev_trim_state_t = [
     (''VDEV_TRIM_NONE'', Next), (''VDEV_TRIM_ACTIVE'', Next), (''VDEV_TRIM_CANCELED'', Next),
     (''VDEV_TRIM_SUSPENDED'', Next), (''VDEV_TRIM_COMPLETE'', Next)]"

definition vdev_rebuild_state_t :: enum where
  "vdev_rebuild_state_t = [
     (''VDEV_REBUILD_NONE'', Next), (''VDEV_REBUILD_ACTIVE'', Next), (''VDEV_REBUILD_CANCELED'', Next),
     (''VDEV_REBUILD_COMPLETE'', Next)]"

definition zfs_errno_t :: enum where
  "zfs_errno_t = [
     (''ZFS_ERR_CHECKPOINT_EXISTS'', Is 1024), (''ZFS_ERR_DISCARDING_CHECKPOINT'', Next),
     (''ZFS_ERR_NO_CHECKPOINT'', Next), (''ZFS_ERR_DEVRM_IN_PROGRESS'', Next),
     (''ZFS_ERR_VDEV_TOO_BIG'', Next), (''ZFS_ERR_IOC_CMD_UNAVAIL'', Next),
     (''ZFS_ERR_IOC_ARG_UNAVAIL'', Next), (''ZFS_ERR_IOC_ARG_REQUIRED'', Next),
     (''ZFS_ERR_IOC_ARG_BADTYPE'', Next), (''ZFS_ERR_WRONG_PARENT'', Next),
     (''ZFS_ERR_FROM_IVSET_GUID_MISSING'', Next), (''ZFS_ERR_FROM_IVSET_GUID_MISMATCH'', Next),
     (''ZFS_ERR_SPILL_BLOCK_FLAG_MISSING'', Next), (''ZFS_ERR_UNKNOWN_SEND_STREAM_FEATURE'', Next),
     (''ZFS_ERR_EXPORT_IN_PROGRESS'', Next), (''ZFS_ERR_BOOKMARK_SOURCE_NOT_ANCESTOR'', Next),
     (''ZFS_ERR_STREAM_TRUNCATED'', Next), (''ZFS_ERR_STREAM_LARGE_BLOCK_MISMATCH'', Next),
     (''ZFS_ERR_RESILVER_IN_PROGRESS'', Next), (''ZFS_ERR_REBUILD_IN_PROGRESS'', Next),
     (''ZFS_ERR_BADPROP'', Next), (''ZFS_ERR_VDEV_NOTSUP'', Next), (''ZFS_ERR_NOT_USER_NAMESPACE'', Next),
     (''ZFS_ERR_RESUME_EXISTS'', Next), (''ZFS_ERR_CRYPTO_NOTSUP'', Next),
     (''ZFS_ERR_RAIDZ_EXPAND_IN_PROGRESS'', Next), (''ZFS_ERR_ASHIFT_MISMATCH'', Next),
     (''ZFS_ERR_STREAM_LARGE_MICROZAP'', Next), (''ZFS_ERR_TOO_MANY_SITOUTS'', Next)]"

definition spa_load_state_t :: enum where
  "spa_load_state_t = [
     (''SPA_LOAD_NONE'', Next), (''SPA_LOAD_OPEN'', Next), (''SPA_LOAD_IMPORT'', Next),
     (''SPA_LOAD_TRYIMPORT'', Next), (''SPA_LOAD_RECOVER'', Next), (''SPA_LOAD_ERROR'', Next),
     (''SPA_LOAD_CREATE'', Next)]"

definition zpool_wait_activity_t :: enum where
  "zpool_wait_activity_t = [
     (''ZPOOL_WAIT_CKPT_DISCARD'', Next), (''ZPOOL_WAIT_FREE'', Next), (''ZPOOL_WAIT_INITIALIZE'', Next),
     (''ZPOOL_WAIT_REPLACE'', Next), (''ZPOOL_WAIT_REMOVE'', Next), (''ZPOOL_WAIT_RESILVER'', Next),
     (''ZPOOL_WAIT_SCRUB'', Next), (''ZPOOL_WAIT_TRIM'', Next), (''ZPOOL_WAIT_RAIDZ_EXPAND'', Next),
     (''ZPOOL_WAIT_NUM_ACTIVITIES'', Next)]"

definition zfs_wait_activity_t :: enum where
  "zfs_wait_activity_t = [
     (''ZFS_WAIT_DELETEQ'', Next), (''ZFS_WAIT_NUM_ACTIVITIES'', Next)]"

definition zpool_prefetch_type_t :: enum where
  "zpool_prefetch_type_t = [
     (''ZPOOL_PREFETCH_NONE'', Is 0), (''ZPOOL_PREFETCH_DDT'', Next), (''ZPOOL_PREFETCH_BRT'', Next)]"

definition zpool_ddt_prune_unit_t :: enum where
  "zpool_ddt_prune_unit_t = [
     (''ZPOOL_DDT_PRUNE_NONE'', Next), (''ZPOOL_DDT_PRUNE_AGE'', Next),
     (''ZPOOL_DDT_PRUNE_PERCENTAGE'', Next)]"

definition zio_encrypt :: enum where
  "zio_encrypt = [
     (''ZIO_CRYPT_INHERIT'', Is 0), (''ZIO_CRYPT_ON'', Next), (''ZIO_CRYPT_OFF'', Next),
     (''ZIO_CRYPT_AES_128_CCM'', Next), (''ZIO_CRYPT_AES_192_CCM'', Next),
     (''ZIO_CRYPT_AES_256_CCM'', Next), (''ZIO_CRYPT_AES_128_GCM'', Next),
     (''ZIO_CRYPT_AES_192_GCM'', Next), (''ZIO_CRYPT_AES_256_GCM'', Next), (''ZIO_CRYPT_FUNCTIONS'', Next)]"

section \<open>\<open>libzfs.h\<close>\<close>

definition zfs_error_t :: enum where
  "zfs_error_t = [
     (''EZFS_SUCCESS'', Is 0), (''EZFS_NOMEM'', Is 2000), (''EZFS_BADPROP'', Next),
     (''EZFS_PROPREADONLY'', Next), (''EZFS_PROPTYPE'', Next), (''EZFS_PROPNONINHERIT'', Next),
     (''EZFS_PROPSPACE'', Next), (''EZFS_BADTYPE'', Next), (''EZFS_BUSY'', Next), (''EZFS_EXISTS'', Next),
     (''EZFS_NOENT'', Next), (''EZFS_BADSTREAM'', Next), (''EZFS_DSREADONLY'', Next),
     (''EZFS_VOLTOOBIG'', Next), (''EZFS_INVALIDNAME'', Next), (''EZFS_BADRESTORE'', Next),
     (''EZFS_BADBACKUP'', Next), (''EZFS_BADTARGET'', Next), (''EZFS_NODEVICE'', Next),
     (''EZFS_BADDEV'', Next), (''EZFS_NOREPLICAS'', Next), (''EZFS_RESILVERING'', Next),
     (''EZFS_BADVERSION'', Next), (''EZFS_POOLUNAVAIL'', Next), (''EZFS_DEVOVERFLOW'', Next),
     (''EZFS_BADPATH'', Next), (''EZFS_CROSSTARGET'', Next), (''EZFS_ZONED'', Next),
     (''EZFS_MOUNTFAILED'', Next), (''EZFS_UMOUNTFAILED'', Next), (''EZFS_UNSHARENFSFAILED'', Next),
     (''EZFS_SHARENFSFAILED'', Next), (''EZFS_PERM'', Next), (''EZFS_NOSPC'', Next),
     (''EZFS_FAULT'', Next), (''EZFS_IO'', Next), (''EZFS_INTR'', Next), (''EZFS_ISSPARE'', Next),
     (''EZFS_INVALCONFIG'', Next), (''EZFS_RECURSIVE'', Next), (''EZFS_NOHISTORY'', Next),
     (''EZFS_POOLPROPS'', Next), (''EZFS_POOL_NOTSUP'', Next), (''EZFS_POOL_INVALARG'', Next),
     (''EZFS_NAMETOOLONG'', Next), (''EZFS_OPENFAILED'', Next), (''EZFS_NOCAP'', Next),
     (''EZFS_LABELFAILED'', Next), (''EZFS_BADWHO'', Next), (''EZFS_BADPERM'', Next),
     (''EZFS_BADPERMSET'', Next), (''EZFS_NODELEGATION'', Next), (''EZFS_UNSHARESMBFAILED'', Next),
     (''EZFS_SHARESMBFAILED'', Next), (''EZFS_BADCACHE'', Next), (''EZFS_ISL2CACHE'', Next),
     (''EZFS_VDEVNOTSUP'', Next), (''EZFS_NOTSUP'', Next), (''EZFS_ACTIVE_SPARE'', Next),
     (''EZFS_UNPLAYED_LOGS'', Next), (''EZFS_REFTAG_RELE'', Next), (''EZFS_REFTAG_HOLD'', Next),
     (''EZFS_TAGTOOLONG'', Next), (''EZFS_PIPEFAILED'', Next), (''EZFS_THREADCREATEFAILED'', Next),
     (''EZFS_POSTSPLIT_ONLINE'', Next), (''EZFS_SCRUBBING'', Next), (''EZFS_ERRORSCRUBBING'', Next),
     (''EZFS_ERRORSCRUB_PAUSED'', Next), (''EZFS_NO_SCRUB'', Next), (''EZFS_DIFF'', Next),
     (''EZFS_DIFFDATA'', Next), (''EZFS_POOLREADONLY'', Next), (''EZFS_SCRUB_PAUSED'', Next),
     (''EZFS_SCRUB_PAUSED_TO_CANCEL'', Next), (''EZFS_ACTIVE_POOL'', Next), (''EZFS_CRYPTOFAILED'', Next),
     (''EZFS_NO_PENDING'', Next), (''EZFS_CHECKPOINT_EXISTS'', Next),
     (''EZFS_DISCARDING_CHECKPOINT'', Next), (''EZFS_NO_CHECKPOINT'', Next),
     (''EZFS_DEVRM_IN_PROGRESS'', Next), (''EZFS_VDEV_TOO_BIG'', Next), (''EZFS_IOC_NOTSUPPORTED'', Next),
     (''EZFS_TOOMANY'', Next), (''EZFS_INITIALIZING'', Next), (''EZFS_NO_INITIALIZE'', Next),
     (''EZFS_WRONG_PARENT'', Next), (''EZFS_TRIMMING'', Next), (''EZFS_NO_TRIM'', Next),
     (''EZFS_TRIM_NOTSUP'', Next), (''EZFS_NO_RESILVER_DEFER'', Next), (''EZFS_EXPORT_IN_PROGRESS'', Next),
     (''EZFS_REBUILDING'', Next), (''EZFS_VDEV_NOTSUP'', Next), (''EZFS_NOT_USER_NAMESPACE'', Next),
     (''EZFS_CKSUM'', Next), (''EZFS_RESUME_EXISTS'', Next), (''EZFS_SHAREFAILED'', Next),
     (''EZFS_RAIDZ_EXPAND_IN_PROGRESS'', Next), (''EZFS_ASHIFT_MISMATCH'', Next), (''EZFS_UNKNOWN'', Next)]"

definition vdev_name_t :: enum where
  "vdev_name_t = [
     (''VDEV_NAME_PATH'', Bit 0), (''VDEV_NAME_GUID'', Bit 1), (''VDEV_NAME_FOLLOW_LINKS'', Bit 2),
     (''VDEV_NAME_TYPE_ID'', Bit 3)]"

definition zfs_get_column_t :: enum where
  "zfs_get_column_t = [
     (''GET_COL_NONE'', Next), (''GET_COL_NAME'', Next), (''GET_COL_PROPERTY'', Next),
     (''GET_COL_VALUE'', Next), (''GET_COL_RECVD'', Next), (''GET_COL_SOURCE'', Next)]"

definition diff_flags_t :: enum where
  "diff_flags_t = [
     (''ZFS_DIFF_PARSEABLE'', Bit 0), (''ZFS_DIFF_TIMESTAMP'', Bit 1), (''ZFS_DIFF_CLASSIFY'', Bit 2),
     (''ZFS_DIFF_NO_MANGLE'', Bit 3)]"

definition zpool_compat_status_t :: enum where
  "zpool_compat_status_t = [
     (''ZPOOL_COMPATIBILITY_OK'', Next), (''ZPOOL_COMPATIBILITY_WARNTOKEN'', Next),
     (''ZPOOL_COMPATIBILITY_BADTOKEN'', Next), (''ZPOOL_COMPATIBILITY_BADFILE'', Next),
     (''ZPOOL_COMPATIBILITY_NOFILES'', Next)]"

section \<open>\<open>sys/dmu.h\<close>\<close>

definition dmu_object_byteswap_t :: enum where
  "dmu_object_byteswap_t = [
     (''DMU_BSWAP_UINT8'', Next), (''DMU_BSWAP_UINT16'', Next), (''DMU_BSWAP_UINT32'', Next),
     (''DMU_BSWAP_UINT64'', Next), (''DMU_BSWAP_ZAP'', Next), (''DMU_BSWAP_DNODE'', Next),
     (''DMU_BSWAP_OBJSET'', Next), (''DMU_BSWAP_ZNODE'', Next), (''DMU_BSWAP_OLDACL'', Next),
     (''DMU_BSWAP_ACL'', Next), (''DMU_BSWAP_NUMFUNCS'', Next)]"

definition dmu_tx_flag_t :: enum where
  "dmu_tx_flag_t = [
     (''DMU_TX_NOWAIT'', Is 0), (''DMU_TX_WAIT'', Bit 0), (''DMU_TX_NOTHROTTLE'', Bit 1),
     (''DMU_TX_SUSPEND'', Bit 2)]"

definition dmu_flags_t :: enum where
  "dmu_flags_t = [
     (''DB_RF_MUST_SUCCEED'', Is 0), (''DB_RF_CANFAIL'', Bit 0), (''DB_RF_HAVESTRUCT'', Bit 1),
     (''DB_RF_NEVERWAIT'', Bit 2), (''DMU_READ_PREFETCH'', Is 0), (''DMU_READ_NO_PREFETCH'', Bit 3),
     (''DB_RF_NOPREFETCH'', As ''DMU_READ_NO_PREFETCH''), (''DMU_READ_NO_DECRYPT'', Bit 4),
     (''DB_RF_NO_DECRYPT'', As ''DMU_READ_NO_DECRYPT''), (''DMU_DIRECTIO'', Bit 5),
     (''DMU_UNCACHEDIO'', Bit 6), (''DMU_PARTIAL_FIRST'', Bit 7), (''DMU_PARTIAL_MORE'', Bit 8),
     (''DMU_KEEP_CACHING'', Bit 9)]"

definition dmu_objset_flag_t :: enum where
  "dmu_objset_flag_t = [
     (''DDS_FLAG_ENCRYPTED'', Bit 0), (''DDS_FLAG_HAS_ENCRYPTED'', Bit 7)]"

section \<open>\<open>sys/spa.h\<close>\<close>

definition spa_import_type_t :: enum where
  "spa_import_type_t = [
     (''SPA_IMPORT_EXISTING'', Next), (''SPA_IMPORT_ASSEMBLE'', Next)]"

definition spa_mode_t :: enum where
  "spa_mode_t = [
     (''SPA_MODE_UNINIT'', Is 0), (''SPA_MODE_READ'', Is 1), (''SPA_MODE_WRITE'', Is 2)]"

definition spa_autotrim_t :: enum where
  "spa_autotrim_t = [
     (''SPA_AUTOTRIM_OFF'', Is 0), (''SPA_AUTOTRIM_ON'', Next)]"

definition trim_type_t :: enum where
  "trim_type_t = [
     (''TRIM_TYPE_MANUAL'', Is 0), (''TRIM_TYPE_AUTO'', Is 1), (''TRIM_TYPE_SIMPLE'', Is 2)]"

definition txg_state_t :: enum where
  "txg_state_t = [
     (''TXG_STATE_BIRTH'', Is 0), (''TXG_STATE_OPEN'', Is 1), (''TXG_STATE_QUIESCED'', Is 2),
     (''TXG_STATE_WAIT_FOR_SYNC'', Is 3), (''TXG_STATE_SYNCED'', Is 4), (''TXG_STATE_COMMITTED'', Is 5)]"

definition spa_log_state_t :: enum where
  "spa_log_state_t = [
     (''SPA_LOG_UNKNOWN'', Is 0), (''SPA_LOG_MISSING'', Next), (''SPA_LOG_CLEAR'', Next),
     (''SPA_LOG_GOOD'', Next)]"

section \<open>\<open>sys/arc.h\<close>\<close>

definition arc_strategy_t :: enum where
  "arc_strategy_t = [
     (''ARC_STRATEGY_META_ONLY'', Is 0), (''ARC_STRATEGY_META_BALANCED'', Is 1)]"

definition arc_flags_t :: enum where
  "arc_flags_t = [
     (''ARC_FLAG_WAIT'', Bit 0), (''ARC_FLAG_NOWAIT'', Bit 1), (''ARC_FLAG_PREFETCH'', Bit 2),
     (''ARC_FLAG_CACHED'', Bit 3), (''ARC_FLAG_L2CACHE'', Bit 4), (''ARC_FLAG_UNCACHED'', Bit 5),
     (''ARC_FLAG_PRESCIENT_PREFETCH'', Bit 6), (''ARC_FLAG_IN_HASH_TABLE'', Bit 7),
     (''ARC_FLAG_IO_IN_PROGRESS'', Bit 8), (''ARC_FLAG_IO_ERROR'', Bit 9), (''ARC_FLAG_INDIRECT'', Bit 10),
     (''ARC_FLAG_PRIO_ASYNC_READ'', Bit 11), (''ARC_FLAG_L2_WRITING'', Bit 12),
     (''ARC_FLAG_L2_EVICTED'', Bit 13), (''ARC_FLAG_L2_WRITE_HEAD'', Bit 14),
     (''ARC_FLAG_PROTECTED'', Bit 15), (''ARC_FLAG_NOAUTH'', Bit 16), (''ARC_FLAG_BUFC_METADATA'', Bit 17),
     (''ARC_FLAG_HAS_L1HDR'', Bit 18), (''ARC_FLAG_HAS_L2HDR'', Bit 19),
     (''ARC_FLAG_COMPRESSED_ARC'', Bit 20), (''ARC_FLAG_SHARED_DATA'', Bit 21),
     (''ARC_FLAG_CACHED_ONLY'', Bit 22), (''ARC_FLAG_NO_BUF'', Bit 23), (''ARC_FLAG_COMPRESS_0'', Bit 24),
     (''ARC_FLAG_COMPRESS_1'', Bit 25), (''ARC_FLAG_COMPRESS_2'', Bit 26),
     (''ARC_FLAG_COMPRESS_3'', Bit 27), (''ARC_FLAG_COMPRESS_4'', Bit 28),
     (''ARC_FLAG_COMPRESS_5'', Bit 29), (''ARC_FLAG_COMPRESS_6'', Bit 30)]"

definition arc_buf_flags_t :: enum where
  "arc_buf_flags_t = [
     (''ARC_BUF_FLAG_SHARED'', Bit 0), (''ARC_BUF_FLAG_COMPRESSED'', Bit 1),
     (''ARC_BUF_FLAG_ENCRYPTED'', Bit 2)]"

definition arc_buf_contents_t :: enum where
  "arc_buf_contents_t = [
     (''ARC_BUFC_DATA'', Next), (''ARC_BUFC_METADATA'', Next), (''ARC_BUFC_NUMTYPES'', Next)]"

definition arc_space_type_t :: enum where
  "arc_space_type_t = [
     (''ARC_SPACE_DATA'', Next), (''ARC_SPACE_META'', Next), (''ARC_SPACE_HDRS'', Next),
     (''ARC_SPACE_L2HDRS'', Next), (''ARC_SPACE_DBUF'', Next), (''ARC_SPACE_DNODE'', Next),
     (''ARC_SPACE_BONUS'', Next), (''ARC_SPACE_ABD_CHUNK_WASTE'', Next), (''ARC_SPACE_NUMTYPES'', Next)]"

definition arc_state_type_t :: enum where
  "arc_state_type_t = [
     (''ARC_STATE_ANON'', Next), (''ARC_STATE_MRU'', Next), (''ARC_STATE_MRU_GHOST'', Next),
     (''ARC_STATE_MFU'', Next), (''ARC_STATE_MFU_GHOST'', Next), (''ARC_STATE_L2C_ONLY'', Next),
     (''ARC_STATE_UNCACHED'', Next), (''ARC_STATE_NUMTYPES'', Next)]"

section \<open>\<open>sys/arc_impl.h\<close>\<close>

definition l2arc_dev_hdr_flags_t :: enum where
  "l2arc_dev_hdr_flags_t = [
     (''L2ARC_DEV_HDR_EVICT_FIRST'', Bit 0)]"

section \<open>\<open>sys/vdev.h\<close>\<close>

definition vdev_dtl_type_t :: enum where
  "vdev_dtl_type_t = [
     (''DTL_MISSING'', Next), (''DTL_PARTIAL'', Next), (''DTL_SCRUB'', Next), (''DTL_OUTAGE'', Next),
     (''DTL_TYPES'', Next)]"

definition vdev_config_flag_t :: enum where
  "vdev_config_flag_t = [
     (''VDEV_CONFIG_SPARE'', Bit 0), (''VDEV_CONFIG_L2CACHE'', Bit 1), (''VDEV_CONFIG_MOS'', Bit 2),
     (''VDEV_CONFIG_MISSING'', Bit 3)]"

definition vdev_labeltype_t :: enum where
  "vdev_labeltype_t = [
     (''VDEV_LABEL_CREATE'', Next), (''VDEV_LABEL_REPLACE'', Next), (''VDEV_LABEL_SPARE'', Next),
     (''VDEV_LABEL_REMOVE'', Next), (''VDEV_LABEL_L2CACHE'', Next), (''VDEV_LABEL_SPLIT'', Next)]"

section \<open>\<open>sys/zio.h\<close>\<close>

definition zio_suspend_reason_t :: enum where
  "zio_suspend_reason_t = [
     (''ZIO_SUSPEND_NONE'', Is 0), (''ZIO_SUSPEND_IOERR'', Next), (''ZIO_SUSPEND_MMP'', Next)]"

definition zio_wait_type :: enum where
  "zio_wait_type = [
     (''ZIO_WAIT_READY'', Is 0), (''ZIO_WAIT_DONE'', Next), (''ZIO_WAIT_TYPES'', Next)]"

definition trim_flag :: enum where
  "trim_flag = [
     (''ZIO_TRIM_SECURE'', Bit 0)]"

definition zio_qstate :: enum where
  "zio_qstate = [
     (''ZIO_QS_NONE'', Is 0), (''ZIO_QS_QUEUED'', Next), (''ZIO_QS_ACTIVE'', Next)]"

definition blk_verify_flag :: enum where
  "blk_verify_flag = [
     (''BLK_VERIFY_ONLY'', Next), (''BLK_VERIFY_LOG'', Next), (''BLK_VERIFY_HALT'', Next)]"

section \<open>\<open>sys/zfs_ioctl_impl.h\<close>\<close>

definition zfs_ioc_poolcheck_t :: enum where
  "zfs_ioc_poolcheck_t = [
     (''POOL_CHECK_NONE'', Bit 0), (''POOL_CHECK_SUSPENDED'', Bit 1), (''POOL_CHECK_READONLY'', Bit 2)]"

definition zfs_ioc_namecheck_t :: enum where
  "zfs_ioc_namecheck_t = [
     (''NO_NAME'', Next), (''POOL_NAME'', Next), (''DATASET_NAME'', Next), (''ENTITY_NAME'', Next)]"

section \<open>\<open>sys/dsl_crypt.h\<close>\<close>

definition dcp_cmd_t :: enum where
  "dcp_cmd_t = [
     (''DCP_CMD_NONE'', Is 0), (''DCP_CMD_RAW_RECV'', Next), (''DCP_CMD_NEW_KEY'', Next),
     (''DCP_CMD_INHERIT'', Next), (''DCP_CMD_FORCE_NEW_KEY'', Next), (''DCP_CMD_FORCE_INHERIT'', Next),
     (''DCP_CMD_MAX'', Next)]"

section \<open>\<open>sys/dsl_dir.h\<close>\<close>

definition dd_used_t :: enum where
  "dd_used_t = [
     (''DD_USED_HEAD'', Next), (''DD_USED_SNAP'', Next), (''DD_USED_CHILD'', Next),
     (''DD_USED_CHILD_RSRV'', Next), (''DD_USED_REFRSRV'', Next), (''DD_USED_NUM'', Next)]"

section \<open>\<open>sys/spa_impl.h\<close>\<close>

definition zio_taskq_type_t :: enum where
  "zio_taskq_type_t = [
     (''ZIO_TASKQ_ISSUE'', Is 0), (''ZIO_TASKQ_ISSUE_HIGH'', Next), (''ZIO_TASKQ_INTERRUPT'', Next),
     (''ZIO_TASKQ_INTERRUPT_HIGH'', Next), (''ZIO_TASKQ_TYPES'', Next)]"

definition spa_proc_state_t :: enum where
  "spa_proc_state_t = [
     (''SPA_PROC_NONE'', Next), (''SPA_PROC_CREATED'', Next), (''SPA_PROC_ACTIVE'', Next),
     (''SPA_PROC_DEACTIVATE'', Next), (''SPA_PROC_GONE'', Next)]"

definition spa_avz_action_t :: enum where
  "spa_avz_action_t = [
     (''AVZ_ACTION_NONE'', Is 0), (''AVZ_ACTION_DESTROY'', Next), (''AVZ_ACTION_REBUILD'', Next),
     (''AVZ_ACTION_INITIALIZE'', Next)]"

definition spa_config_source_t :: enum where
  "spa_config_source_t = [
     (''SPA_CONFIG_SRC_NONE'', Is 0), (''SPA_CONFIG_SRC_SCAN'', Next),
     (''SPA_CONFIG_SRC_CACHEFILE'', Next), (''SPA_CONFIG_SRC_TRYIMPORT'', Next),
     (''SPA_CONFIG_SRC_SPLIT'', Next), (''SPA_CONFIG_SRC_MOS'', Next)]"

section \<open>\<open>sys/vdev_impl.h\<close>\<close>

definition vdev_alloc_bias_t :: enum where
  "vdev_alloc_bias_t = [
     (''VDEV_BIAS_NONE'', Next), (''VDEV_BIAS_LOG'', Next), (''VDEV_BIAS_SPECIAL'', Next),
     (''VDEV_BIAS_DEDUP'', Next)]"

section \<open>\<open>sys/txg.h\<close>\<close>

definition txg_wait_flag_t :: enum where
  "txg_wait_flag_t = [
     (''TXG_WAIT_NONE'', Is 0), (''TXG_WAIT_SIGNAL'', Bit 0), (''TXG_WAIT_SUSPEND'', Bit 1)]"

section \<open>Ioctl commands\<close>

definition zfs_ioc_t :: "bool \<Rightarrow> enum" where
  "zfs_ioc_t freebsd = [
     (''ZFS_IOC_FIRST'', Is (if freebsd then 0 else 0x5A00)), (''ZFS_IOC'', As ''ZFS_IOC_FIRST''),
     (''ZFS_IOC_POOL_CREATE'', As ''ZFS_IOC_FIRST''), (''ZFS_IOC_POOL_DESTROY'', Next),
     (''ZFS_IOC_POOL_IMPORT'', Next), (''ZFS_IOC_POOL_EXPORT'', Next), (''ZFS_IOC_POOL_CONFIGS'', Next),
     (''ZFS_IOC_POOL_STATS'', Next), (''ZFS_IOC_POOL_TRYIMPORT'', Next), (''ZFS_IOC_POOL_SCAN'', Next),
     (''ZFS_IOC_POOL_FREEZE'', Next), (''ZFS_IOC_POOL_UPGRADE'', Next),
     (''ZFS_IOC_POOL_GET_HISTORY'', Next), (''ZFS_IOC_VDEV_ADD'', Next), (''ZFS_IOC_VDEV_REMOVE'', Next),
     (''ZFS_IOC_VDEV_SET_STATE'', Next), (''ZFS_IOC_VDEV_ATTACH'', Next), (''ZFS_IOC_VDEV_DETACH'', Next),
     (''ZFS_IOC_VDEV_SETPATH'', Next), (''ZFS_IOC_VDEV_SETFRU'', Next), (''ZFS_IOC_OBJSET_STATS'', Next),
     (''ZFS_IOC_OBJSET_ZPLPROPS'', Next), (''ZFS_IOC_DATASET_LIST_NEXT'', Next),
     (''ZFS_IOC_SNAPSHOT_LIST_NEXT'', Next), (''ZFS_IOC_SET_PROP'', Next), (''ZFS_IOC_CREATE'', Next),
     (''ZFS_IOC_DESTROY'', Next), (''ZFS_IOC_ROLLBACK'', Next), (''ZFS_IOC_RENAME'', Next),
     (''ZFS_IOC_RECV'', Next), (''ZFS_IOC_SEND'', Next), (''ZFS_IOC_INJECT_FAULT'', Next),
     (''ZFS_IOC_CLEAR_FAULT'', Next), (''ZFS_IOC_INJECT_LIST_NEXT'', Next), (''ZFS_IOC_ERROR_LOG'', Next),
     (''ZFS_IOC_CLEAR'', Next), (''ZFS_IOC_PROMOTE'', Next), (''ZFS_IOC_SNAPSHOT'', Next),
     (''ZFS_IOC_DSOBJ_TO_DSNAME'', Next), (''ZFS_IOC_OBJ_TO_PATH'', Next),
     (''ZFS_IOC_POOL_SET_PROPS'', Next), (''ZFS_IOC_POOL_GET_PROPS'', Next), (''ZFS_IOC_SET_FSACL'', Next),
     (''ZFS_IOC_GET_FSACL'', Next), (''ZFS_IOC_SHARE'', Next), (''ZFS_IOC_INHERIT_PROP'', Next),
     (''ZFS_IOC_SMB_ACL'', Next), (''ZFS_IOC_USERSPACE_ONE'', Next), (''ZFS_IOC_USERSPACE_MANY'', Next),
     (''ZFS_IOC_USERSPACE_UPGRADE'', Next), (''ZFS_IOC_HOLD'', Next), (''ZFS_IOC_RELEASE'', Next),
     (''ZFS_IOC_GET_HOLDS'', Next), (''ZFS_IOC_OBJSET_RECVD_PROPS'', Next), (''ZFS_IOC_VDEV_SPLIT'', Next),
     (''ZFS_IOC_NEXT_OBJ'', Next), (''ZFS_IOC_DIFF'', Next), (''ZFS_IOC_TMP_SNAPSHOT'', Next),
     (''ZFS_IOC_OBJ_TO_STATS'', Next), (''ZFS_IOC_SPACE_WRITTEN'', Next), (''ZFS_IOC_SPACE_SNAPS'', Next),
     (''ZFS_IOC_DESTROY_SNAPS'', Next), (''ZFS_IOC_POOL_REGUID'', Next), (''ZFS_IOC_POOL_REOPEN'', Next),
     (''ZFS_IOC_SEND_PROGRESS'', Next), (''ZFS_IOC_LOG_HISTORY'', Next), (''ZFS_IOC_SEND_NEW'', Next),
     (''ZFS_IOC_SEND_SPACE'', Next), (''ZFS_IOC_CLONE'', Next), (''ZFS_IOC_BOOKMARK'', Next),
     (''ZFS_IOC_GET_BOOKMARKS'', Next), (''ZFS_IOC_DESTROY_BOOKMARKS'', Next),
     (''ZFS_IOC_RECV_NEW'', Next), (''ZFS_IOC_POOL_SYNC'', Next), (''ZFS_IOC_CHANNEL_PROGRAM'', Next),
     (''ZFS_IOC_LOAD_KEY'', Next), (''ZFS_IOC_UNLOAD_KEY'', Next), (''ZFS_IOC_CHANGE_KEY'', Next),
     (''ZFS_IOC_REMAP'', Next), (''ZFS_IOC_POOL_CHECKPOINT'', Next),
     (''ZFS_IOC_POOL_DISCARD_CHECKPOINT'', Next), (''ZFS_IOC_POOL_INITIALIZE'', Next),
     (''ZFS_IOC_POOL_TRIM'', Next), (''ZFS_IOC_REDACT'', Next), (''ZFS_IOC_GET_BOOKMARK_PROPS'', Next),
     (''ZFS_IOC_WAIT'', Next), (''ZFS_IOC_WAIT_FS'', Next), (''ZFS_IOC_VDEV_GET_PROPS'', Next),
     (''ZFS_IOC_VDEV_SET_PROPS'', Next), (''ZFS_IOC_POOL_SCRUB'', Next), (''ZFS_IOC_POOL_PREFETCH'', Next),
     (''ZFS_IOC_DDT_PRUNE'', Next), (''ZFS_IOC_PLATFORM'', Plus ''ZFS_IOC_FIRST'' 0x80),
     (''ZFS_IOC_EVENTS_NEXT'', Next), (''ZFS_IOC_EVENTS_CLEAR'', Next), (''ZFS_IOC_EVENTS_SEEK'', Next),
     (''ZFS_IOC_NEXTBOOT'', Next), (''ZFS_IOC_JAIL'', Next),
     (''ZFS_IOC_USERNS_ATTACH'', As ''ZFS_IOC_JAIL''), (''ZFS_IOC_UNJAIL'', Next),
     (''ZFS_IOC_USERNS_DETACH'', As ''ZFS_IOC_UNJAIL''), (''ZFS_IOC_SET_BOOTENV'', Next),
     (''ZFS_IOC_GET_BOOTENV'', Next), (''ZFS_IOC_LAST'', Next)]"

text \<open>The numbers in the comments of the enumeration, the last group relative to the first number.\<close>

definition ioc_comments :: "(string \<times> int) list" where
  "ioc_comments = [
     (''ZFS_IOC_POOL_CREATE'', 0x5a00), (''ZFS_IOC_POOL_DESTROY'', 0x5a01),
     (''ZFS_IOC_POOL_IMPORT'', 0x5a02), (''ZFS_IOC_POOL_EXPORT'', 0x5a03),
     (''ZFS_IOC_POOL_CONFIGS'', 0x5a04), (''ZFS_IOC_POOL_STATS'', 0x5a05),
     (''ZFS_IOC_POOL_TRYIMPORT'', 0x5a06), (''ZFS_IOC_POOL_SCAN'', 0x5a07),
     (''ZFS_IOC_POOL_FREEZE'', 0x5a08), (''ZFS_IOC_POOL_UPGRADE'', 0x5a09),
     (''ZFS_IOC_POOL_GET_HISTORY'', 0x5a0a), (''ZFS_IOC_VDEV_ADD'', 0x5a0b),
     (''ZFS_IOC_VDEV_REMOVE'', 0x5a0c), (''ZFS_IOC_VDEV_SET_STATE'', 0x5a0d),
     (''ZFS_IOC_VDEV_ATTACH'', 0x5a0e), (''ZFS_IOC_VDEV_DETACH'', 0x5a0f),
     (''ZFS_IOC_VDEV_SETPATH'', 0x5a10), (''ZFS_IOC_VDEV_SETFRU'', 0x5a11),
     (''ZFS_IOC_OBJSET_STATS'', 0x5a12), (''ZFS_IOC_OBJSET_ZPLPROPS'', 0x5a13),
     (''ZFS_IOC_DATASET_LIST_NEXT'', 0x5a14), (''ZFS_IOC_SNAPSHOT_LIST_NEXT'', 0x5a15),
     (''ZFS_IOC_SET_PROP'', 0x5a16), (''ZFS_IOC_CREATE'', 0x5a17), (''ZFS_IOC_DESTROY'', 0x5a18),
     (''ZFS_IOC_ROLLBACK'', 0x5a19), (''ZFS_IOC_RENAME'', 0x5a1a), (''ZFS_IOC_RECV'', 0x5a1b),
     (''ZFS_IOC_SEND'', 0x5a1c), (''ZFS_IOC_INJECT_FAULT'', 0x5a1d), (''ZFS_IOC_CLEAR_FAULT'', 0x5a1e),
     (''ZFS_IOC_INJECT_LIST_NEXT'', 0x5a1f), (''ZFS_IOC_ERROR_LOG'', 0x5a20), (''ZFS_IOC_CLEAR'', 0x5a21),
     (''ZFS_IOC_PROMOTE'', 0x5a22), (''ZFS_IOC_SNAPSHOT'', 0x5a23), (''ZFS_IOC_DSOBJ_TO_DSNAME'', 0x5a24),
     (''ZFS_IOC_OBJ_TO_PATH'', 0x5a25), (''ZFS_IOC_POOL_SET_PROPS'', 0x5a26),
     (''ZFS_IOC_POOL_GET_PROPS'', 0x5a27), (''ZFS_IOC_SET_FSACL'', 0x5a28),
     (''ZFS_IOC_GET_FSACL'', 0x5a29), (''ZFS_IOC_SHARE'', 0x5a2a), (''ZFS_IOC_INHERIT_PROP'', 0x5a2b),
     (''ZFS_IOC_SMB_ACL'', 0x5a2c), (''ZFS_IOC_USERSPACE_ONE'', 0x5a2d),
     (''ZFS_IOC_USERSPACE_MANY'', 0x5a2e), (''ZFS_IOC_USERSPACE_UPGRADE'', 0x5a2f),
     (''ZFS_IOC_HOLD'', 0x5a30), (''ZFS_IOC_RELEASE'', 0x5a31), (''ZFS_IOC_GET_HOLDS'', 0x5a32),
     (''ZFS_IOC_OBJSET_RECVD_PROPS'', 0x5a33), (''ZFS_IOC_VDEV_SPLIT'', 0x5a34),
     (''ZFS_IOC_NEXT_OBJ'', 0x5a35), (''ZFS_IOC_DIFF'', 0x5a36), (''ZFS_IOC_TMP_SNAPSHOT'', 0x5a37),
     (''ZFS_IOC_OBJ_TO_STATS'', 0x5a38), (''ZFS_IOC_SPACE_WRITTEN'', 0x5a39),
     (''ZFS_IOC_SPACE_SNAPS'', 0x5a3a), (''ZFS_IOC_DESTROY_SNAPS'', 0x5a3b),
     (''ZFS_IOC_POOL_REGUID'', 0x5a3c), (''ZFS_IOC_POOL_REOPEN'', 0x5a3d),
     (''ZFS_IOC_SEND_PROGRESS'', 0x5a3e), (''ZFS_IOC_LOG_HISTORY'', 0x5a3f),
     (''ZFS_IOC_SEND_NEW'', 0x5a40), (''ZFS_IOC_SEND_SPACE'', 0x5a41), (''ZFS_IOC_CLONE'', 0x5a42),
     (''ZFS_IOC_BOOKMARK'', 0x5a43), (''ZFS_IOC_GET_BOOKMARKS'', 0x5a44),
     (''ZFS_IOC_DESTROY_BOOKMARKS'', 0x5a45), (''ZFS_IOC_RECV_NEW'', 0x5a46),
     (''ZFS_IOC_POOL_SYNC'', 0x5a47), (''ZFS_IOC_CHANNEL_PROGRAM'', 0x5a48),
     (''ZFS_IOC_LOAD_KEY'', 0x5a49), (''ZFS_IOC_UNLOAD_KEY'', 0x5a4a), (''ZFS_IOC_CHANGE_KEY'', 0x5a4b),
     (''ZFS_IOC_REMAP'', 0x5a4c), (''ZFS_IOC_POOL_CHECKPOINT'', 0x5a4d),
     (''ZFS_IOC_POOL_DISCARD_CHECKPOINT'', 0x5a4e), (''ZFS_IOC_POOL_INITIALIZE'', 0x5a4f),
     (''ZFS_IOC_POOL_TRIM'', 0x5a50), (''ZFS_IOC_REDACT'', 0x5a51),
     (''ZFS_IOC_GET_BOOKMARK_PROPS'', 0x5a52), (''ZFS_IOC_WAIT'', 0x5a53), (''ZFS_IOC_WAIT_FS'', 0x5a54),
     (''ZFS_IOC_VDEV_GET_PROPS'', 0x5a55), (''ZFS_IOC_VDEV_SET_PROPS'', 0x5a56),
     (''ZFS_IOC_POOL_SCRUB'', 0x5a57), (''ZFS_IOC_POOL_PREFETCH'', 0x5a58),
     (''ZFS_IOC_DDT_PRUNE'', 0x5a59)]"

definition ioc_platform_comments :: "(string \<times> int) list" where
  "ioc_platform_comments = [
     (''ZFS_IOC_EVENTS_NEXT'', 0x81), (''ZFS_IOC_EVENTS_CLEAR'', 0x82), (''ZFS_IOC_EVENTS_SEEK'', 0x83),
     (''ZFS_IOC_NEXTBOOT'', 0x84), (''ZFS_IOC_JAIL'', 0x85), (''ZFS_IOC_USERNS_ATTACH'', 0x85),
     (''ZFS_IOC_UNJAIL'', 0x86), (''ZFS_IOC_USERNS_DETACH'', 0x86), (''ZFS_IOC_SET_BOOTENV'', 0x87),
     (''ZFS_IOC_GET_BOOTENV'', 0x88)]"

section \<open>All of them\<close>

definition zfs_enums :: "enum list" where
  "zfs_enums = [
     dmu_objset_type_t, zfs_userquota_prop_t, zprop_errflags_t, vdev_prop_t, zfs_deleg_who_type_t,
     zfs_deleg_inherit_t, zfs_canmount_type_t, zfs_logbias_op_t, zfs_share_op_t, zfs_smb_acl_op_t,
     zfs_sync_type_t, zfs_xattr_type_t, zfs_dnsize_type_t, zfs_redundant_metadata_type_t, zfs_volmode_t,
     zfs_direct_t, zfs_keystatus_t, zfs_keyformat_t, zfs_keylocation_t, zfs_prefetch_type_t, vdev_state_t,
     vdev_aux_t, pool_state_t, mmp_state_t, pool_scan_func_t, pool_scrub_cmd_t, checkpoint_state_t,
     zio_type_t, zio_priority_t, dsl_scan_state_t, zpool_errata_t, pool_initialize_func_t,
     pool_trim_func_t, vdev_initializing_state_t, vdev_trim_state_t, vdev_rebuild_state_t, zfs_errno_t,
     spa_load_state_t, zpool_wait_activity_t, zfs_wait_activity_t, zpool_prefetch_type_t,
     zpool_ddt_prune_unit_t, zio_encrypt, zfs_error_t, zfs_get_column_t, zpool_compat_status_t,
     dmu_object_byteswap_t, spa_import_type_t, spa_mode_t, spa_autotrim_t, trim_type_t, txg_state_t,
     spa_log_state_t, arc_strategy_t, arc_buf_contents_t, arc_space_type_t, arc_state_type_t,
     vdev_dtl_type_t, vdev_labeltype_t, zio_suspend_reason_t, zio_wait_type, zio_qstate, blk_verify_flag,
     zfs_ioc_namecheck_t, dcp_cmd_t, dd_used_t, zio_taskq_type_t, spa_proc_state_t, spa_avz_action_t,
     spa_config_source_t, vdev_alloc_bias_t]"

definition flag_enums :: "enum list" where
  "flag_enums = [
     vdev_name_t, diff_flags_t, dmu_tx_flag_t, dmu_flags_t, dmu_objset_flag_t, arc_flags_t,
     arc_buf_flags_t, l2arc_dev_hdr_flags_t, vdev_config_flag_t, trim_flag, zfs_ioc_poolcheck_t,
     txg_wait_flag_t]"

lemmas enum_defs =
  dmu_objset_type_t_def zfs_userquota_prop_t_def zprop_errflags_t_def vdev_prop_t_def
  zfs_deleg_who_type_t_def zfs_deleg_inherit_t_def zfs_canmount_type_t_def zfs_logbias_op_t_def
  zfs_share_op_t_def zfs_smb_acl_op_t_def zfs_sync_type_t_def zfs_xattr_type_t_def
  zfs_dnsize_type_t_def zfs_redundant_metadata_type_t_def zfs_volmode_t_def zfs_direct_t_def
  zfs_keystatus_t_def zfs_keyformat_t_def zfs_keylocation_t_def zfs_prefetch_type_t_def
  vdev_state_t_def vdev_aux_t_def pool_state_t_def mmp_state_t_def pool_scan_func_t_def
  pool_scrub_cmd_t_def checkpoint_state_t_def zio_type_t_def zio_priority_t_def dsl_scan_state_t_def
  zpool_errata_t_def pool_initialize_func_t_def pool_trim_func_t_def vdev_initializing_state_t_def
  vdev_trim_state_t_def vdev_rebuild_state_t_def zfs_errno_t_def spa_load_state_t_def
  zpool_wait_activity_t_def zfs_wait_activity_t_def zpool_prefetch_type_t_def
  zpool_ddt_prune_unit_t_def zio_encrypt_def zfs_error_t_def vdev_name_t_def zfs_get_column_t_def
  diff_flags_t_def zpool_compat_status_t_def dmu_object_byteswap_t_def dmu_tx_flag_t_def
  dmu_flags_t_def dmu_objset_flag_t_def spa_import_type_t_def spa_mode_t_def spa_autotrim_t_def
  trim_type_t_def txg_state_t_def spa_log_state_t_def arc_strategy_t_def arc_flags_t_def
  arc_buf_flags_t_def arc_buf_contents_t_def arc_space_type_t_def arc_state_type_t_def
  l2arc_dev_hdr_flags_t_def vdev_dtl_type_t_def vdev_config_flag_t_def vdev_labeltype_t_def
  zio_suspend_reason_t_def zio_wait_type_def trim_flag_def zio_qstate_def blk_verify_flag_def
  zfs_ioc_poolcheck_t_def zfs_ioc_namecheck_t_def dcp_cmd_t_def dd_used_t_def zio_taskq_type_t_def
  spa_proc_state_t_def spa_avz_action_t_def spa_config_source_t_def vdev_alloc_bias_t_def
  txg_wait_flag_t_def

lemma own_values_distinct: "list_all (\<lambda>e. distinct (own_values e)) zfs_enums"
  unfolding zfs_enums_def enum_defs by code_simp

lemma enums_declared: "list_all (\<lambda>e. enum_values e \<noteq> None) (zfs_enums @ flag_enums)"
  unfolding zfs_enums_def flag_enums_def enum_defs by code_simp

definition powers :: "int list" where
  "powers = map (\<lambda>k. 2 ^ k) [0..<31]"

lemma flags_are_bits:
  "list_all (\<lambda>e. distinct (filter (\<lambda>v. v \<noteq> 0) (own_values e)) \<and> set (own_values e) \<subseteq> insert 0 (set powers)) flag_enums"
  unfolding flag_enums_def enum_defs powers_def by code_simp

text \<open>The enumerations that end with the number of their enumerators, which sizes arrays and bounds loops.\<close>

definition counted_enums :: "enum list" where
  "counted_enums = [dmu_objset_type_t, zfs_userquota_prop_t, zfs_keyformat_t, zfs_keylocation_t, pool_scan_func_t,
     checkpoint_state_t, zio_type_t, dsl_scan_state_t, pool_initialize_func_t, pool_trim_func_t, zpool_wait_activity_t,
     zfs_wait_activity_t, zio_encrypt, dmu_object_byteswap_t, arc_buf_contents_t, arc_space_type_t, arc_state_type_t,
     vdev_dtl_type_t, zio_wait_type, dcp_cmd_t, dd_used_t, zio_taskq_type_t]"

lemma counted_values: "list_all (\<lambda>e. own_values e = map int [0..<length e]) counted_enums"
  unfolding counted_enums_def enum_defs by code_simp

lemma deleg_letters:
  "own_values zfs_deleg_who_type_t =
     [0, 0x75, 0x75 - 32, 0x67, 0x67 - 32, 0x65, 0x65 - 32, 0x63, 0x63 - 32, 0x73, 0x73 - 32]"
  unfolding zfs_deleg_who_type_t_def by code_simp

text \<open>
  The enumerations are sound: every initialiser names an earlier enumerator, no two enumerators
  of one enumeration have the same value unless one is declared as the other, each flag is one bit
  that no other flag of its enumeration has, and where the last enumerator counts the others it
  does. The letters of delegated permission sets are the capitals of those of the permissions.
\<close>

theorem enumerations_sound:
  "(\<forall>e\<in>set (zfs_enums @ flag_enums). enum_values e \<noteq> None) \<and> (\<forall>e\<in>set zfs_enums. distinct (own_values e)) \<and>
   (\<forall>e\<in>set flag_enums. distinct (filter (\<lambda>v. v \<noteq> 0) (own_values e)) \<and>
      set (own_values e) \<subseteq> insert 0 (set powers)) \<and>
   (\<forall>e\<in>set counted_enums. last (own_values e) = int (length e - 1)) \<and>
   int DD_USED_NUM = last (own_values dd_used_t) \<and>
   (\<forall>k\<in>{1, 3, 5, 7, 9}. own_values zfs_deleg_who_type_t ! Suc k = own_values zfs_deleg_who_type_t ! k - 32)"
proof (intro conjI)
  show "\<forall>e\<in>set (zfs_enums @ flag_enums). enum_values e \<noteq> None" using enums_declared by (simp only: list_all_iff)
  show "\<forall>e\<in>set zfs_enums. distinct (own_values e)" using own_values_distinct by (simp only: list_all_iff)
  show "\<forall>e\<in>set flag_enums. distinct (filter (\<lambda>v. v \<noteq> 0) (own_values e)) \<and> set (own_values e) \<subseteq> insert 0 (set powers)"
    using flags_are_bits by (simp only: list_all_iff)
  have n: "e \<noteq> []" if "e \<in> set counted_enums" for e
    using that unfolding counted_enums_def enum_defs by auto
  have "last (own_values e) = int (length e - 1)" if "e \<in> set counted_enums" for e
  proof -
    have "own_values e = map int [0..<length e]" using that counted_values by (simp only: list_all_iff)
    then show ?thesis using n [OF that] by (simp add: last_map last_upt)
  qed
  then show "\<forall>e\<in>set counted_enums. last (own_values e) = int (length e - 1)" by blast
  show "int DD_USED_NUM = last (own_values dd_used_t)" unfolding DD_USED_NUM_def dd_used_t_def by code_simp
  show "\<forall>k\<in>{1, 3, 5, 7, 9}. own_values zfs_deleg_who_type_t ! Suc k = own_values zfs_deleg_who_type_t ! k - 32"
    unfolding deleg_letters by simp
qed

theorem enumerations_sound_witness:
  "distinct (own_values pool_state_t) \<and> last (own_values zio_type_t) = 7"
proof -
  have "pool_state_t \<in> set zfs_enums" "zio_type_t \<in> set counted_enums"
    by (simp_all add: zfs_enums_def counted_enums_def)
  moreover have "length zio_type_t = 8" by (simp add: zio_type_t_def)
  ultimately show ?thesis using enumerations_sound by auto
qed

lemma subseq_members: "subseq xs ys \<Longrightarrow> set xs \<subseteq> set ys"
  by (auto elim: list_emb_set)

lemma ioc_check:
  "(case (enum_values (zfs_ioc_t False), enum_values (zfs_ioc_t True)) of
      (Some vs, Some fs) \<Rightarrow> subseq ioc_comments vs \<and>
        subseq (map (\<lambda>(x, v). (x, 0x5A00 + v)) ioc_platform_comments) vs \<and>
        map snd fs = map (\<lambda>v. v - 0x5A00) (map snd vs) \<and> distinct (own_values (zfs_ioc_t False)) \<and>
        list_all (\<lambda>v. 0x5A00 \<le> v \<and> v < 0x5B00) (map snd vs)
    | _ \<Rightarrow> False)"
  unfolding zfs_ioc_t_def ioc_comments_def ioc_platform_comments_def by code_simp

text \<open>
  The ioctl commands have the numbers written beside them, the core commands as they are and the
  platform's relative to the first; no command has the number of another unless it is declared as
  it; all fit the 256 numbers of the type byte \<open>Z\<close>; and FreeBSD's numbers are the low bytes of the
  others'. There are 90 core commands (the comment counts 89).
\<close>

theorem ioctl_numbers:
  "(\<exists>vs fs. enum_values (zfs_ioc_t False) = Some vs \<and> enum_values (zfs_ioc_t True) = Some fs \<and>
     set ioc_comments \<subseteq> set vs \<and> (\<forall>(x, v)\<in>set ioc_platform_comments. (x, 0x5A00 + v) \<in> set vs) \<and>
     map snd fs = map (\<lambda>v. v - 0x5A00) (map snd vs) \<and> (\<forall>(x, v)\<in>set vs. 0x5A00 \<le> v \<and> v < 0x5B00)) \<and>
   distinct (own_values (zfs_ioc_t False)) \<and> length ioc_comments = 90"
proof -
  obtain vs fs where e: "enum_values (zfs_ioc_t False) = Some vs" "enum_values (zfs_ioc_t True) = Some fs"
    and c: "subseq ioc_comments vs" "subseq (map (\<lambda>(x, v). (x, 0x5A00 + v)) ioc_platform_comments) vs"
      "map snd fs = map (\<lambda>v. v - 0x5A00) (map snd vs)" "distinct (own_values (zfs_ioc_t False))"
      "list_all (\<lambda>v. 0x5A00 \<le> v \<and> v < 0x5B00) (map snd vs)"
  proof (cases "enum_values (zfs_ioc_t False)"; cases "enum_values (zfs_ioc_t True)")
    fix vs fs assume e: "enum_values (zfs_ioc_t False) = Some vs" "enum_values (zfs_ioc_t True) = Some fs"
    with ioc_check show thesis by (intro that [OF e]) (simp_all only: prod.case option.case)
  qed (use ioc_check in \<open>simp_all only: prod.case option.case\<close>)
  have "set ioc_comments \<subseteq> set vs" using c(1) by (rule subseq_members)
  moreover have "\<forall>(x, v)\<in>set ioc_platform_comments. (x, 0x5A00 + v) \<in> set vs"
    using subseq_members [OF c(2)] by auto
  moreover have "\<forall>(x, v)\<in>set vs. 0x5A00 \<le> v \<and> v < 0x5B00" using c(5) by (force simp: list_all_iff)
  moreover have "length ioc_comments = 90" unfolding ioc_comments_def by code_simp
  ultimately show ?thesis using e c(3,4) by blast
qed

theorem ioctl_numbers_witness:
  "\<exists>vs. enum_values (zfs_ioc_t False) = Some vs \<and> (''ZFS_IOC_DATASET_LIST_NEXT'', 0x5a14) \<in> set vs"
proof -
  have "(''ZFS_IOC_DATASET_LIST_NEXT'', 0x5a14) \<in> set ioc_comments" by (simp add: ioc_comments_def)
  then show ?thesis using ioctl_numbers by blast
qed

end
