(* ===== verification/Zfs_Stats.thy ===== *)
theory Zfs_Stats
  imports Phys_Layouts Sysmacros
begin

unbundle bit_operations_syntax

text \<open>
  Statistics and versions that the kernel passes to user space (\<open>compat/openzfs/sys/fs/zfs.h\<close>): the
  structures that travel as arrays of 64-bit words, the test whether an array from an older kernel
  has a field, histogram buckets, pool versions and the reserved prefixes of extended attribute
  names.
\<close>

section \<open>Structures\<close>

definition VS_ZIO_TYPES :: nat where "VS_ZIO_TYPES = 6"

definition c_pool_checkpoint_stat :: ctype where
  "c_pool_checkpoint_stat = CStruct [(''pcs_state'', c_u64), (''pcs_start_time'', c_u64),
    (''pcs_space'', c_u64)]"

definition c_pool_scan_stat :: ctype where
  "c_pool_scan_stat = CStruct [(''pss_func'', c_u64), (''pss_state'', c_u64), (''pss_start_time'', c_u64),
    (''pss_end_time'', c_u64), (''pss_to_examine'', c_u64), (''pss_examined'', c_u64),
    (''pss_skipped'', c_u64), (''pss_processed'', c_u64), (''pss_errors'', c_u64),
    (''pss_pass_exam'', c_u64), (''pss_pass_start'', c_u64), (''pss_pass_scrub_pause'', c_u64),
    (''pss_pass_scrub_spent_paused'', c_u64), (''pss_pass_issued'', c_u64), (''pss_issued'', c_u64),
    (''pss_error_scrub_func'', c_u64), (''pss_error_scrub_state'', c_u64),
    (''pss_error_scrub_start'', c_u64), (''pss_error_scrub_end'', c_u64),
    (''pss_error_scrub_examined'', c_u64), (''pss_error_scrub_to_be_examined'', c_u64),
    (''pss_pass_error_scrub_pause'', c_u64)]"

definition c_pool_removal_stat :: ctype where
  "c_pool_removal_stat = CStruct [(''prs_state'', c_u64), (''prs_removing_vdev'', c_u64),
    (''prs_start_time'', c_u64), (''prs_end_time'', c_u64), (''prs_to_copy'', c_u64),
    (''prs_copied'', c_u64), (''prs_mapping_memory'', c_u64)]"

definition c_pool_raidz_expand_stat :: ctype where
  "c_pool_raidz_expand_stat = CStruct [(''pres_state'', c_u64), (''pres_expanding_vdev'', c_u64),
    (''pres_start_time'', c_u64), (''pres_end_time'', c_u64), (''pres_to_reflow'', c_u64),
    (''pres_reflowed'', c_u64), (''pres_waiting_for_resilver'', c_u64)]"

definition c_vdev_rebuild_stat :: ctype where
  "c_vdev_rebuild_stat = CStruct [(''vrs_state'', c_u64), (''vrs_start_time'', c_u64),
    (''vrs_end_time'', c_u64), (''vrs_scan_time_ms'', c_u64), (''vrs_bytes_scanned'', c_u64),
    (''vrs_bytes_issued'', c_u64), (''vrs_bytes_rebuilt'', c_u64), (''vrs_bytes_est'', c_u64),
    (''vrs_errors'', c_u64), (''vrs_pass_time_ms'', c_u64), (''vrs_pass_bytes_scanned'', c_u64),
    (''vrs_pass_bytes_issued'', c_u64), (''vrs_pass_bytes_skipped'', c_u64)]"

definition c_vdev_stat :: ctype where
  "c_vdev_stat = CStruct [(''vs_timestamp'', c_u64), (''vs_state'', c_u64), (''vs_aux'', c_u64),
    (''vs_alloc'', c_u64), (''vs_space'', c_u64), (''vs_dspace'', c_u64), (''vs_rsize'', c_u64),
    (''vs_esize'', c_u64), (''vs_ops'', CArray VS_ZIO_TYPES c_u64),
    (''vs_bytes'', CArray VS_ZIO_TYPES c_u64), (''vs_read_errors'', c_u64), (''vs_write_errors'', c_u64),
    (''vs_checksum_errors'', c_u64), (''vs_initialize_errors'', c_u64), (''vs_self_healed'', c_u64),
    (''vs_scan_removing'', c_u64), (''vs_scan_processed'', c_u64), (''vs_fragmentation'', c_u64),
    (''vs_initialize_bytes_done'', c_u64), (''vs_initialize_bytes_est'', c_u64),
    (''vs_initialize_state'', c_u64), (''vs_initialize_action_time'', c_u64),
    (''vs_checkpoint_space'', c_u64), (''vs_resilver_deferred'', c_u64), (''vs_slow_ios'', c_u64),
    (''vs_trim_errors'', c_u64), (''vs_trim_notsup'', c_u64), (''vs_trim_bytes_done'', c_u64),
    (''vs_trim_bytes_est'', c_u64), (''vs_trim_state'', c_u64), (''vs_trim_action_time'', c_u64),
    (''vs_rebuild_processed'', c_u64), (''vs_configured_ashift'', c_u64), (''vs_logical_ashift'', c_u64),
    (''vs_physical_ashift'', c_u64), (''vs_noalloc'', c_u64), (''vs_pspace'', c_u64),
    (''vs_dio_verify_errors'', c_u64)]"

definition c_ddt_object :: ctype where
  "c_ddt_object = CStruct [(''ddo_count'', c_u64), (''ddo_dspace'', c_u64), (''ddo_mspace'', c_u64)]"

definition c_ddt_stat :: ctype where
  "c_ddt_stat = CStruct [(''dds_blocks'', c_u64), (''dds_lsize'', c_u64), (''dds_psize'', c_u64),
    (''dds_dsize'', c_u64), (''dds_ref_blocks'', c_u64), (''dds_ref_lsize'', c_u64),
    (''dds_ref_psize'', c_u64), (''dds_ref_dsize'', c_u64)]"

definition c_ddt_histogram :: ctype where
  "c_ddt_histogram = CStruct [(''ddh_stat'', CArray 64 c_ddt_stat)]"

definition c_zfs_rewrite_args :: ctype where
  "c_zfs_rewrite_args = CStruct [(''off'', c_u64), (''len'', c_u64), (''flags'', c_u64), (''arg'', c_u64)]"

lemmas stat_layouts =
  c_pool_checkpoint_stat_def c_pool_scan_stat_def c_pool_removal_stat_def c_pool_raidz_expand_stat_def
  c_vdev_rebuild_stat_def c_vdev_stat_def c_ddt_object_def c_ddt_stat_def c_ddt_histogram_def c_zfs_rewrite_args_def
  VS_ZIO_TYPES_def

definition stat_structs :: "ctype list" where
  "stat_structs = [c_pool_checkpoint_stat, c_pool_scan_stat, c_pool_removal_stat, c_pool_raidz_expand_stat,
     c_vdev_rebuild_stat, c_vdev_stat, c_ddt_object, c_ddt_stat, c_ddt_histogram]"

definition VDEV_STAT_VALID :: "string \<Rightarrow> nat \<Rightarrow> bool" where
  "VDEV_STAT_VALID field uint64_t_field_count \<longleftrightarrow>
    (case (offset_of c_vdev_stat field, map_of (members c_vdev_stat) field) of
       (Some p, Some t) \<Rightarrow> p + size_of 8 t \<le> uint64_t_field_count * size_of 8 c_u64 | _ \<Rightarrow> False)"

section \<open>Members of a prefix\<close>

lemma offsets_names [simp]: "map fst (offsets a pos ms) = map fst ms" "length (offsets a pos ms) = length ms"
  by (induction a pos ms rule: offsets.induct) simp_all

lemma offsets_ge:
  "\<forall>(f, t)\<in>set ms. 0 < align_of a t \<Longrightarrow> i < length ms \<Longrightarrow> pos \<le> snd (offsets a pos ms ! i)"
  using offsets_in_order [of ms a pos] nth_mem [of i "offsets a pos ms"] by (auto simp: case_prod_beta)

lemma offsets_ends:
  assumes "\<forall>(f, t)\<in>set ms. 0 < align_of a t" "i \<le> j" "j < length ms"
  shows "snd (offsets a pos ms ! i) + size_of a (snd (ms ! i)) \<le> snd (offsets a pos ms ! j) + size_of a (snd (ms ! j))"
  using assms
proof (induction ms arbitrary: pos i j)
  case (Cons m ms)
  obtain f t where m: "m = (f, t)" by (cases m)
  have al: "\<forall>(f, t)\<in>set ms. 0 < align_of a t" using Cons.prems(1) by simp
  let ?p = "pad_to pos (align_of a t) + size_of a t"
  show ?case
  proof (cases j)
    case (Suc j')
    show ?thesis
    proof (cases i)
      case 0
      have "?p \<le> snd (offsets a ?p ms ! j')" using offsets_ge [OF al] Suc Cons.prems(3) by simp
      then show ?thesis by (simp add: m 0 Suc)
    next
      case (Suc i')
      then show ?thesis using Cons.IH [OF al, of i' j' ?p] Cons.prems(2,3) \<open>j = Suc j'\<close> by (simp add: m)
    qed
  qed (use Cons.prems in simp)
qed simp

lemma map_of_nth: "distinct (map fst xs) \<Longrightarrow> i < length xs \<Longrightarrow> map_of xs (fst (xs ! i)) = Some (snd (xs ! i))"
  by (simp add: map_of_is_SomeI)

lemma prefix_members:
  assumes "\<forall>(f, t)\<in>set ms. 0 < align_of 8 t" "distinct (map fst ms)" "i \<le> j" "j < length ms"
    and "member_within (CStruct ms) n (fst (ms ! j))"
  shows "member_within (CStruct ms) n (fst (ms ! i))"
proof -
  have o: "offset_of (CStruct ms) (fst (ms ! k)) = Some (snd (offsets 8 0 ms ! k))" if "k < length ms" for k
  proof -
    have "fst (offsets 8 0 ms ! k) = fst (ms ! k)" using that by (metis nth_map offsets_names)
    then show ?thesis using map_of_nth [of "offsets 8 0 ms" k] assms(2) that by (simp add: offset_of_def)
  qed
  have i: "i < length ms" using assms(3,4) by simp
  show ?thesis
    using assms(5) offsets_ends [OF assms(1,3,4), of 0] map_of_nth [OF assms(2) i] map_of_nth [OF assms(2,4)]
    by (simp add: member_within_def o [OF i] o [OF assms(4)])
qed

lemma stat_valid_within: "VDEV_STAT_VALID f n \<longleftrightarrow> member_within c_vdev_stat (8 * n) f"
  by (simp add: VDEV_STAT_VALID_def member_within_def mult.commute split: option.splits)

lemma vdev_stat_members:
  "\<forall>(f, t)\<in>set (members c_vdev_stat). 0 < align_of 8 t" "distinct (map fst (members c_vdev_stat))"
  "length (members c_vdev_stat) = 38" "CStruct (members c_vdev_stat) = c_vdev_stat"
  by (simp_all add: c_vdev_stat_def)

text \<open>
  The statistics travel as plain arrays of 64-bit words: every structure has only such fields
  and the same layout on all hosts. An array of an older kernel is an initial part of the device
  statistics, and the test for a field is sound for it: whatever number of words arrived, a field
  that is there lies inside them, the fields before it are there too, and an array of the full
  48 words has every field. The counters after the arrays per I/O type start at word 20.
\<close>

theorem stats_grow_at_the_end:
  "list_all (\<lambda>t. words_only t \<and> sealed t) stat_structs \<and> size_of 8 c_vdev_stat = 8 * 48 \<and>
   offset_of c_vdev_stat ''vs_read_errors'' = Some (8 * 20) \<and>
   (\<forall>n i j. i \<le> j \<and> j < length (members c_vdev_stat) \<and> VDEV_STAT_VALID (fst (members c_vdev_stat ! j)) n \<longrightarrow>
      VDEV_STAT_VALID (fst (members c_vdev_stat ! i)) n) \<and>
   (\<forall>n f. VDEV_STAT_VALID f n \<longrightarrow> member_within c_vdev_stat (8 * n) f) \<and>
   (\<forall>(f, t)\<in>set (members c_vdev_stat). VDEV_STAT_VALID f 48)"
proof (intro conjI)
  show "list_all (\<lambda>t. words_only t \<and> sealed t) stat_structs"
    by (simp add: stat_structs_def sealed_def stat_layouts pad_to_def portable_def no_padding_def)
  show "size_of 8 c_vdev_stat = 8 * 48" by (simp add: stat_layouts pad_to_def)
  show "offset_of c_vdev_stat ''vs_read_errors'' = Some (8 * 20)" by (simp add: offset_of_def stat_layouts pad_to_def)
  show "\<forall>n i j. i \<le> j \<and> j < length (members c_vdev_stat) \<and> VDEV_STAT_VALID (fst (members c_vdev_stat ! j)) n \<longrightarrow>
      VDEV_STAT_VALID (fst (members c_vdev_stat ! i)) n"
    using prefix_members [OF vdev_stat_members(1,2)] unfolding stat_valid_within vdev_stat_members(4) by blast
  show "\<forall>n f. VDEV_STAT_VALID f n \<longrightarrow> member_within c_vdev_stat (8 * n) f" by (simp add: stat_valid_within)
  have "VDEV_STAT_VALID ''vs_dio_verify_errors'' 48"
    by (simp add: VDEV_STAT_VALID_def offset_of_def stat_layouts pad_to_def)
  moreover have "fst (members c_vdev_stat ! 37) = ''vs_dio_verify_errors''" by (simp add: c_vdev_stat_def)
  ultimately have "VDEV_STAT_VALID (fst (members c_vdev_stat ! i)) 48" if "i \<le> 37" for i
    using prefix_members [OF vdev_stat_members(1,2) that] unfolding stat_valid_within vdev_stat_members(3,4) by simp
  note full = this
  show "\<forall>(f, t)\<in>set (members c_vdev_stat). VDEV_STAT_VALID f 48"
  proof
    fix x assume "x \<in> set (members c_vdev_stat)"
    then obtain i where "i < 38" "members c_vdev_stat ! i = x"
      by (metis in_set_conv_nth vdev_stat_members(3))
    then have "VDEV_STAT_VALID (fst x) 48" using full [of i] by simp
    then show "case x of (f, t) \<Rightarrow> VDEV_STAT_VALID f 48" by (simp add: case_prod_beta)
  qed
qed

text \<open>A kernel that knew the fields up to the slow I/O counter sends 35 words.\<close>

theorem stats_grow_at_the_end_witness:
  "VDEV_STAT_VALID ''vs_slow_ios'' 35 \<and> VDEV_STAT_VALID ''vs_state'' 35 \<and> \<not> VDEV_STAT_VALID ''vs_trim_errors'' 35 \<and>
   member_within c_vdev_stat (8 * 35) ''vs_slow_ios''"
proof -
  have v: "VDEV_STAT_VALID ''vs_slow_ios'' 35" "\<not> VDEV_STAT_VALID ''vs_trim_errors'' 35"
    by (simp_all add: VDEV_STAT_VALID_def offset_of_def stat_layouts pad_to_def)
  have n: "fst (members c_vdev_stat ! 24) = ''vs_slow_ios''" "fst (members c_vdev_stat ! 1) = ''vs_state''"
    by (simp_all add: c_vdev_stat_def)
  note prefix = stats_grow_at_the_end [THEN conjunct2, THEN conjunct2, THEN conjunct2, THEN conjunct1,
      THEN spec [of _ 35], THEN spec [of _ 1], THEN spec [of _ 24], unfolded n vdev_stat_members(3)]
  have "VDEV_STAT_VALID ''vs_state'' 35" using prefix v(1) by simp
  moreover have "member_within c_vdev_stat (8 * 35) ''vs_slow_ios''" using stats_grow_at_the_end v(1) by blast
  ultimately show ?thesis using v by blast
qed

section \<open>Histograms\<close>

definition VDEV_L_HISTO_BUCKETS :: nat where "VDEV_L_HISTO_BUCKETS = 37"
definition VDEV_RQ_HISTO_BUCKETS :: nat where "VDEV_RQ_HISTO_BUCKETS = 25"

definition HISTO :: "u64 \<Rightarrow> nat \<Rightarrow> nat" where
  "HISTO val buckets = (if val \<noteq> 0 then (if highbit64 val - 1 < buckets - 1 then highbit64 val - 1 else buckets - 1) else 0)"
definition L_HISTO :: "u64 \<Rightarrow> nat" where "L_HISTO a = HISTO a VDEV_L_HISTO_BUCKETS"
definition RQ_HISTO :: "u64 \<Rightarrow> nat" where "RQ_HISTO a = HISTO a VDEV_RQ_HISTO_BUCKETS"

text \<open>
  A histogram never counts outside its buckets: bucket \<open>b\<close> holds the values from \<open>2 ^ b\<close> to
  below \<open>2 ^ Suc b\<close>, the first one also zero and the last one everything above, so a larger value
  is never in a smaller bucket.
\<close>

theorem histogram_buckets:
  assumes "0 < buckets"
  shows "HISTO v buckets < buckets \<and>
    (v \<noteq> 0 \<longrightarrow> 2 ^ HISTO v buckets \<le> unat v) \<and>
    (HISTO v buckets < buckets - 1 \<longrightarrow> unat v < 2 ^ Suc (HISTO v buckets)) \<and>
    (v \<le> w \<longrightarrow> HISTO v buckets \<le> HISTO w buckets)"
proof -
  have in_range: "HISTO x buckets < buckets" for x using assms by (auto simp: HISTO_def)
  have low: "2 ^ HISTO x buckets \<le> unat x" if "x \<noteq> 0" for x
  proof -
    have "HISTO x buckets \<le> highbit64 x - 1" using that by (simp add: HISTO_def)
    then have "(2 :: nat) ^ HISTO x buckets \<le> 2 ^ (highbit64 x - 1)" by simp
    then show ?thesis using highbit64_bounds [OF that] by linarith
  qed
  have high: "unat x < 2 ^ Suc (HISTO x buckets)" if "HISTO x buckets < buckets - 1" for x
  proof (cases "x = 0")
    case False
    then have "HISTO x buckets = highbit64 x - 1" using that by (auto simp: HISTO_def split: if_splits)
    then show ?thesis using highbit64_bounds [OF False] by simp
  qed simp
  have mono: "HISTO v buckets \<le> HISTO w buckets" if "v \<le> w"
  proof (rule ccontr)
    assume less: "\<not> HISTO v buckets \<le> HISTO w buckets"
    then have "HISTO w buckets < buckets - 1" using in_range [of v] by linarith
    then have "unat w < 2 ^ Suc (HISTO w buckets)" by (rule high)
    also have "\<dots> \<le> 2 ^ HISTO v buckets" using less by (intro power_increasing) simp_all
    also have "\<dots> \<le> unat v"
    proof (rule low)
      show "v \<noteq> 0" using less by (auto simp: HISTO_def)
    qed
    finally show False using that by (simp add: word_le_nat_alt)
  qed
  show ?thesis using in_range low high mono by blast
qed

theorem histogram_buckets_witness:
  "L_HISTO 1000 < 37 \<and> 2 ^ L_HISTO 1000 \<le> unat (1000 :: u64)"
  using histogram_buckets [of VDEV_L_HISTO_BUCKETS 1000 1000] by (simp add: L_HISTO_def VDEV_L_HISTO_BUCKETS_def)

section \<open>Versions\<close>

definition SPA_VERSION_INITIAL :: u64 where "SPA_VERSION_INITIAL = 1"
definition SPA_VERSION_BEFORE_FEATURES :: u64 where "SPA_VERSION_BEFORE_FEATURES = 28"
definition SPA_VERSION_FEATURES :: u64 where "SPA_VERSION_FEATURES = 5000"
definition SPA_VERSION :: u64 where "SPA_VERSION = 5000"

definition SPA_VERSION_IS_SUPPORTED :: "u64 \<Rightarrow> bool" where
  "SPA_VERSION_IS_SUPPORTED v \<longleftrightarrow>
     SPA_VERSION_INITIAL \<le> v \<and> v \<le> SPA_VERSION_BEFORE_FEATURES \<or> SPA_VERSION_FEATURES \<le> v \<and> v \<le> SPA_VERSION"

lemma supported_versions: "SPA_VERSION_IS_SUPPORTED v \<longleftrightarrow> 1 \<le> v \<and> v \<le> 28 \<or> v = 5000"
  by (auto simp: SPA_VERSION_IS_SUPPORTED_def SPA_VERSION_INITIAL_def SPA_VERSION_BEFORE_FEATURES_def
      SPA_VERSION_FEATURES_def SPA_VERSION_def)

definition ZPOOL_NO_REWIND :: u32 where "ZPOOL_NO_REWIND = 1"
definition ZPOOL_NEVER_REWIND :: u32 where "ZPOOL_NEVER_REWIND = 2"
definition ZPOOL_TRY_REWIND :: u32 where "ZPOOL_TRY_REWIND = 4"
definition ZPOOL_DO_REWIND :: u32 where "ZPOOL_DO_REWIND = 8"
definition ZPOOL_EXTREME_REWIND :: u32 where "ZPOOL_EXTREME_REWIND = 16"
definition ZPOOL_REWIND_MASK :: u32 where "ZPOOL_REWIND_MASK = 28"
definition ZPOOL_REWIND_POLICIES :: u32 where "ZPOOL_REWIND_POLICIES = 31"

lemma rewind_masks:
  "ZPOOL_REWIND_MASK = ZPOOL_TRY_REWIND OR ZPOOL_DO_REWIND OR ZPOOL_EXTREME_REWIND"
  "ZPOOL_REWIND_POLICIES = ZPOOL_NO_REWIND OR ZPOOL_NEVER_REWIND OR ZPOOL_REWIND_MASK"
  by (simp_all add: ZPOOL_REWIND_MASK_def ZPOOL_REWIND_POLICIES_def ZPOOL_TRY_REWIND_def ZPOOL_DO_REWIND_def
      ZPOOL_EXTREME_REWIND_def ZPOOL_NO_REWIND_def ZPOOL_NEVER_REWIND_def)

section \<open>Extended attribute names\<close>

text \<open>
  \<open>strncmp\<close> of the C library on strings without a null character: the difference of the first
  characters that differ, the end of a string counting as zero.
\<close>

fun strncmp :: "string \<Rightarrow> string \<Rightarrow> nat \<Rightarrow> int" where
  "strncmp s t 0 = 0"
| "strncmp [] [] (Suc n) = 0"
| "strncmp [] (c # t) (Suc n) = - of_char c"
| "strncmp (b # s) [] (Suc n) = of_char b"
| "strncmp (b # s) (c # t) (Suc n) = (if b = c then strncmp s t n else of_char b - of_char c)"

definition ZFS_XA_NS_FREEBSD_PREFIX :: string where "ZFS_XA_NS_FREEBSD_PREFIX = ''freebsd:''"
definition ZFS_XA_NS_LINUX_SECURITY_PREFIX :: string where "ZFS_XA_NS_LINUX_SECURITY_PREFIX = ''security.''"
definition ZFS_XA_NS_LINUX_SYSTEM_PREFIX :: string where "ZFS_XA_NS_LINUX_SYSTEM_PREFIX = ''system.''"
definition ZFS_XA_NS_LINUX_TRUSTED_PREFIX :: string where "ZFS_XA_NS_LINUX_TRUSTED_PREFIX = ''trusted.''"
definition ZFS_XA_NS_LINUX_USER_PREFIX :: string where "ZFS_XA_NS_LINUX_USER_PREFIX = ''user.''"

definition ZFS_XA_NS_PREFIX_MATCH :: "string \<Rightarrow> string \<Rightarrow> bool" where
  "ZFS_XA_NS_PREFIX_MATCH prefix name \<longleftrightarrow> strncmp name prefix (length prefix) = 0"

definition ZFS_XA_NS_PREFIX_FORBIDDEN :: "string \<Rightarrow> bool" where
  "ZFS_XA_NS_PREFIX_FORBIDDEN name \<longleftrightarrow>
     ZFS_XA_NS_PREFIX_MATCH ZFS_XA_NS_FREEBSD_PREFIX name \<or>
     ZFS_XA_NS_PREFIX_MATCH ZFS_XA_NS_LINUX_SECURITY_PREFIX name \<or>
     ZFS_XA_NS_PREFIX_MATCH ZFS_XA_NS_LINUX_SYSTEM_PREFIX name \<or>
     ZFS_XA_NS_PREFIX_MATCH ZFS_XA_NS_LINUX_TRUSTED_PREFIX name \<or>
     ZFS_XA_NS_PREFIX_MATCH ZFS_XA_NS_LINUX_USER_PREFIX name"

definition xa_prefixes :: "string list" where
  "xa_prefixes = [ZFS_XA_NS_FREEBSD_PREFIX, ZFS_XA_NS_LINUX_SECURITY_PREFIX, ZFS_XA_NS_LINUX_SYSTEM_PREFIX,
     ZFS_XA_NS_LINUX_TRUSTED_PREFIX, ZFS_XA_NS_LINUX_USER_PREFIX]"

lemmas xa_defs = ZFS_XA_NS_FREEBSD_PREFIX_def ZFS_XA_NS_LINUX_SECURITY_PREFIX_def ZFS_XA_NS_LINUX_SYSTEM_PREFIX_def
  ZFS_XA_NS_LINUX_TRUSTED_PREFIX_def ZFS_XA_NS_LINUX_USER_PREFIX_def

lemma strncmp_prefix: "CHR 0x00 \<notin> set p \<Longrightarrow> strncmp s p (length p) = 0 \<longleftrightarrow> take (length p) s = p"
proof (induction p arbitrary: s)
  case (Cons c p)
  then have "c \<noteq> CHR 0x00" by auto
  then have "(of_char c :: int) \<noteq> of_char (CHR 0x00)" unfolding of_char_eq_iff .
  then have c: "(of_char c :: int) \<noteq> 0" by simp
  show ?case
  proof (cases s)
    case Nil
    then show ?thesis using c by simp
  next
    case (Cons b s')
    then show ?thesis using Cons.IH Cons.prems by simp
  qed
qed simp

lemma forbidden_iff: "ZFS_XA_NS_PREFIX_FORBIDDEN name \<longleftrightarrow> (\<exists>p\<in>set xa_prefixes. \<exists>rest. name = p @ rest)"
proof -
  have m: "ZFS_XA_NS_PREFIX_MATCH p name \<longleftrightarrow> (\<exists>rest. name = p @ rest)" if "CHR 0x00 \<notin> set p" for p
    unfolding ZFS_XA_NS_PREFIX_MATCH_def strncmp_prefix [OF that] by (metis append_eq_conv_conj append_take_drop_id)
  show ?thesis
    unfolding ZFS_XA_NS_PREFIX_FORBIDDEN_def xa_prefixes_def by (simp add: m xa_defs)
qed

lemma prefixes_apart: "p \<in> set xa_prefixes \<Longrightarrow> q \<in> set xa_prefixes \<Longrightarrow> p @ a = q @ b \<Longrightarrow> p = q"
  by (auto simp: xa_prefixes_def xa_defs)

text \<open>
  The reserved prefixes keep namespaces apart: an attribute is stored under its name, or under
  its namespace's prefix and its name, and with names that may be used (those that begin with no
  prefix) two attributes are stored under the same name only if they are the same attribute of the
  same namespace. A name is refused exactly if it begins with one of the five prefixes.
\<close>

theorem xattr_names_unambiguous:
  "(ZFS_XA_NS_PREFIX_FORBIDDEN name \<longleftrightarrow> (\<exists>p\<in>set xa_prefixes. \<exists>rest. name = p @ rest)) \<and>
   (p \<in> insert [] (set xa_prefixes) \<and> q \<in> insert [] (set xa_prefixes) \<and>
    \<not> ZFS_XA_NS_PREFIX_FORBIDDEN a \<and> \<not> ZFS_XA_NS_PREFIX_FORBIDDEN b \<and> p @ a = q @ b \<longrightarrow> p = q \<and> a = b)"
proof (intro conjI impI)
  assume h: "p \<in> insert [] (set xa_prefixes) \<and> q \<in> insert [] (set xa_prefixes) \<and>
    \<not> ZFS_XA_NS_PREFIX_FORBIDDEN a \<and> \<not> ZFS_XA_NS_PREFIX_FORBIDDEN b \<and> p @ a = q @ b"
  show "p = q" using h prefixes_apart unfolding forbidden_iff by (metis append_Nil insertE)
  then show "a = b" using h by simp
qed (rule forbidden_iff)

theorem xattr_names_unambiguous_witness:
  "ZFS_XA_NS_LINUX_USER_PREFIX @ ''a'' \<noteq> ZFS_XA_NS_LINUX_TRUSTED_PREFIX @ ''a'' \<and> ''user.x'' \<noteq> ''x''"
proof -
  have ok: "\<not> ZFS_XA_NS_PREFIX_FORBIDDEN ''a''" unfolding ZFS_XA_NS_PREFIX_FORBIDDEN_def xa_defs by code_simp
  then show ?thesis
    using xattr_names_unambiguous [of "''a''" ZFS_XA_NS_LINUX_USER_PREFIX ZFS_XA_NS_LINUX_TRUSTED_PREFIX "''a''" "''a''"]
    by (auto simp: xa_prefixes_def xa_defs)
qed

end
