(* ===== verification/Spl_Condvar.thy ===== *)
theory Spl_Condvar
  imports Spl_Time Bitops
begin

text \<open>
  Waits on condition variables in the FreeBSD layer
  (\<open>compat/openzfs/os/freebsd/spl/sys/condvar.h\<close>) and the checkpoint protocol of kernel threads
  (\<open>callb.h\<close> of that layer). The kernel's clocks and its sleep are arguments; a wait gives its
  result together with the sleep it asked the kernel for, if it did. The flag \<open>nd\<close> switches off the
  assertions of both kinds.
\<close>

section \<open>Nanoseconds as fixed-point seconds\<close>

text \<open>A time of the kernel has 32 bits behind the point: \<open>SBT_1S\<close> is one second.\<close>

definition SBT_1S :: u64 where "SBT_1S = 0x100000000"

definition rem :: "u64 \<Rightarrow> u64 \<Rightarrow> u64" where
  "rem a b = word_of_int (sint a smod sint b)"

definition zfs_nstosbt :: "bool \<Rightarrow> u64 \<Rightarrow> u64 option" where
  "zfs_nstosbt nd ns = do {
     ASSERT nd (0 \<le> sint ns);
     let (sb, ns) = (if sint SBT_1S \<le> sint ns then (quot ns 1000000000 * SBT_1S, rem ns 1000000000) else (0, ns));
     Some (sb + drop_bit 31 (ns * 9223372037 + 0x7fffffff)) }"

lemma quot_div: "0 \<le> sint a \<Longrightarrow> 0 < sint b \<Longrightarrow> quot a b = a div b"
  unfolding quot_def signed_divide_int_def word_div_def
  using nonnegative_uint [of a] nonnegative_uint [of b] by (auto simp: sgn_if)

lemma rem_mod: "0 \<le> sint a \<Longrightarrow> 0 < sint b \<Longrightarrow> rem a b = a mod b"
  unfolding rem_def smod_mod_positive word_mod_def
  by (simp add: smod_mod_positive nonnegative_uint)

text \<open>The part below a second, and a long time, in unsigned arithmetic.\<close>

lemma fraction_value:
  "uint (drop_bit 31 (ns * 9223372037 + 0x7fffffff) :: u64) = (uint ns * 9223372037 + 2147483647) mod 2 ^ 64 div 2147483648"
  by (simp add: drop_bit_eq_div uint_div uint_word_ariths mod_simps)

lemma nstosbt_value:
  assumes "0 \<le> sint ns"
  shows "zfs_nstosbt nd ns = Some (if uint ns < 4294967296 then drop_bit 31 (ns * 9223372037 + 0x7fffffff)
     else ns div 1000000000 * SBT_1S + drop_bit 31 (ns mod 1000000000 * 9223372037 + 0x7fffffff))"
  using assms nonnegative_uint [OF assms]
  by (auto simp: zfs_nstosbt_def quot_div rem_mod SBT_1S_def)

lemma fraction_bounds:
  fixes n :: int
  assumes "0 \<le> n" "n < 4294967296"
  defines "x \<equiv> (n * 9223372037 + 2147483647) mod 2 ^ 64 div 2147483648 + 8589934592 * (n div 2000000000)"
  shows "n * 4294967296 \<le> x * 1000000000" "x * 1000000000 < n * 4294967296 + 2000000000"
proof -
  let ?X = "n * 9223372037 + 2147483647"
  obtain k where k: "2000000000 * k \<le> n" "n < 2000000000 * (k + 1)" "0 \<le> k" "k \<le> 2"
  proof -
    consider "n < 2000000000" | "2000000000 \<le> n" "n < 4000000000" | "4000000000 \<le> n" by linarith
    then show thesis using that [of 0] that [of 1] that [of 2] assms(1,2) by cases simp_all
  qed
  have d: "n div 2000000000 = k" using k by (intro int_div_pos_eq [of _ _ _ "n - 2000000000 * k"]) simp_all
  have dk: "?X div 2 ^ 64 = k" 
  proof (rule int_div_pos_eq)
    show "?X = 2 ^ 64 * k + (?X - 2 ^ 64 * k)" by simp
    show "0 \<le> ?X - 2 ^ 64 * k" "?X - 2 ^ 64 * k < 2 ^ 64" using k by simp_all
  qed
  have "?X mod 2 ^ 64 = ?X - 2 ^ 64 * k"
    by (simp only: dk minus_mult_div_eq_mod [symmetric])
  then have "x = ?X div 2147483648"
    unfolding x_def d using div_mult_self2 [of 2147483648 "?X - 2 ^ 64 * k" "8589934592 * k"] by (simp add: algebra_simps)
  then have "x * 2147483648 \<le> ?X" "?X < x * 2147483648 + 2147483648" by simp_all
  then show "n * 4294967296 \<le> x * 1000000000" "x * 1000000000 < n * 4294967296 + 2000000000"
    using assms(1,2) by linarith+
qed

lemma nstosbt_bounds:
  assumes "0 \<le> sint ns" "sint ns < 2147483648 * 1000000000"
  defines "lost \<equiv> if sint ns < 4294967296 then 8589934592 * (sint ns div 2000000000) else 0"
  shows "\<exists>sb. zfs_nstosbt nd ns = Some sb \<and> sint ns * 4294967296 \<le> (uint sb + lost) * 1000000000 \<and>
    (uint sb + lost) * 1000000000 < sint ns * 4294967296 + 2000000000"
proof (cases "uint ns < 4294967296")
  case True
  then show ?thesis
    using fraction_bounds [of "uint ns"] nonnegative_uint [OF assms(1)]
    by (simp add: nstosbt_value [OF assms(1)] fraction_value lost_def)
next
  case False
  let ?q = "uint ns div 1000000000" and ?r = "uint ns mod 1000000000"
  have r: "uint (ns mod 1000000000) = ?r" "uint (ns div 1000000000) = ?q"
    by (simp_all add: uint_mod uint_div)
  define f where "f = uint (drop_bit 31 (ns mod 1000000000 * 9223372037 + 0x7fffffff))"
  have rb: "0 \<le> ?r" "?r < 1000000000" by simp_all
  then have fb: "?r * 4294967296 \<le> f * 1000000000" "f * 1000000000 < ?r * 4294967296 + 2000000000"
    using fraction_bounds [of ?r] by (simp_all add: f_def fraction_value r)
  have q: "0 \<le> ?q" "?q < 2147483648" using assms(2) nonnegative_uint [OF assms(1)] by (simp_all add: div_int_pos_iff)
  have "uint (ns div 1000000000 * SBT_1S) = ?q * 4294967296"
    using q by (simp add: SBT_1S_def uint_word_ariths r)
  moreover have "0 \<le> f" "f < 4294967298" using fb rb by (simp_all add: f_def)
  ultimately have "uint (ns div 1000000000 * SBT_1S + drop_bit 31 (ns mod 1000000000 * 9223372037 + 0x7fffffff)) = ?q * 4294967296 + f"
    using q by (simp add: uint_word_ariths f_def)
  moreover obtain q r where qr: "?q = q" "?r = r" "uint ns = 1000000000 * q + r" by (metis mult_div_mod_eq)
  ultimately show ?thesis
    using fb False nonnegative_uint [OF assms(1)] by (simp add: nstosbt_value [OF assms(1)] lost_def qr)
qed

text \<open>
  A time up to 68 years is rounded up by less than two units of the fixed-point format, so a
  thread never wakes before the time that it asked for - unless the time is between 2 and 4.3
  seconds: there the product leaves 64 bits and the result is 2 seconds short, from 4 seconds on
  4 seconds.
\<close>

theorem nstosbt_rounds_up:
  assumes "0 \<le> sint ns" "sint ns < 2147483648 * 1000000000"
  defines "lost \<equiv> if sint ns < 4294967296 then 8589934592 * (sint ns div 2000000000) else 0"
  shows "\<exists>sb. zfs_nstosbt nd ns = Some sb \<and> sint ns * 4294967296 \<le> (uint sb + lost) * 1000000000 \<and>
    (uint sb + lost) * 1000000000 < sint ns * 4294967296 + 2000000000"
  using nstosbt_bounds [OF assms(1,2)] unfolding lost_def .

text \<open>Three seconds become one.\<close>

theorem nstosbt_rounds_up_witness:
  "zfs_nstosbt False 3000000000 = Some (SBT_1S + 1) \<and>
   (\<exists>sb. zfs_nstosbt False 3000000000 = Some sb \<and> uint sb + 8589934592 < 3 * 4294967296 + 2)"
proof -
  have "sint (3000000000 :: u64) = 3000000000" by simp
  with nstosbt_rounds_up [of 3000000000 False]
  have "\<exists>sb. zfs_nstosbt False 3000000000 = Some sb \<and> uint sb + 8589934592 < 3 * 4294967296 + 2" by auto
  moreover have "zfs_nstosbt False 3000000000 = Some (SBT_1S + 1)" by code_simp
  ultimately show ?thesis by blast
qed

section \<open>Timed waits\<close>

text \<open>
  The kernel: its clocks at the call, its error numbers, and what a sleep returns that may be
  interrupted or not, until a time, with a precision, from now on or absolute.
\<close>

record cv_kernel =
  lbolt_now :: u64
  hrtime_now :: u64
  tick_sbt :: u64
  EWOULDBLOCK :: int
  EINTR :: int
  ERESTART :: int
  cv_wait_sig_rc :: int
  cv_sleep :: "bool \<Rightarrow> u64 \<Rightarrow> u64 \<Rightarrow> bool \<Rightarrow> int"

type_synonym sleep = "bool \<times> u64 \<times> u64 \<times> bool"

datatype kcv_type_t = CV_DEFAULT | CV_DRIVER

fun cv_name_from :: "string \<Rightarrow> string" where
  "cv_name_from [] = []"
| "cv_name_from (c # cs) = (if 97 \<le> (of_char c :: nat) \<and> (of_char c :: nat) \<le> 122 then c # cs else cv_name_from cs)"

definition zfs_cv_init :: "bool \<Rightarrow> string \<Rightarrow> kcv_type_t \<Rightarrow> string option" where
  "zfs_cv_init nd cv type = do {
     ASSERT nd (type = CV_DEFAULT);
     Some (if cv_name_from cv = [] then cv else cv_name_from cv) }"

definition cv_wait_sig :: "cv_kernel \<Rightarrow> int" where
  "cv_wait_sig K = (if cv_wait_sig_rc K = 0 then 1 else 0)"

definition cv_timedwait :: "cv_kernel \<Rightarrow> u64 \<Rightarrow> int \<times> sleep option" where
  "cv_timedwait K timo =
    (let timo = timo - lbolt_now K in
       if sint timo \<le> 0 then (- 1, None)
       else let sbt = tick_sbt K * timo; rc = cv_sleep K False sbt 0 False in
         (if rc = EWOULDBLOCK K then - 1 else 1, Some (False, sbt, 0, False)))"

definition cv_timedwait_sig :: "cv_kernel \<Rightarrow> u64 \<Rightarrow> int \<times> sleep option" where
  "cv_timedwait_sig K timo =
    (let timo = timo - lbolt_now K in
       if sint timo \<le> 0 then (- 1, None)
       else let sbt = tick_sbt K * timo; rc = cv_sleep K True sbt 0 False in
         (if rc = EWOULDBLOCK K then - 1 else if rc = EINTR K \<or> rc = ERESTART K then 0 else 1,
          Some (True, sbt, 0, False)))"

definition cv_timedwait_hires :: "bool \<Rightarrow> cv_kernel \<Rightarrow> u64 \<Rightarrow> u64 \<Rightarrow> int \<Rightarrow> (int \<times> sleep option) option" where
  "cv_timedwait_hires nd K tim res flag = do {
     ASSERT nd (sint res \<le> sint tim);
     let hrtime = hrtime_now K;
     let tim = (if flag = 0 then tim + hrtime else tim);
     if sint tim \<le> sint hrtime then Some (- 1, None) else do {
       sbt \<leftarrow> zfs_nstosbt nd tim;
       pr \<leftarrow> zfs_nstosbt nd res;
       let rc = cv_sleep K False sbt pr True;
       if rc = EWOULDBLOCK K then Some (- 1, Some (False, sbt, pr, True)) else do {
         ASSERT nd (rc = 0);
         Some (1, Some (False, sbt, pr, True)) } } }"

definition cv_timedwait_sig_hires :: "bool \<Rightarrow> cv_kernel \<Rightarrow> u64 \<Rightarrow> u64 \<Rightarrow> int \<Rightarrow> (int \<times> sleep option) option" where
  "cv_timedwait_sig_hires nd K tim res flag = do {
     ASSERT nd (sint res \<le> sint tim);
     let hrtime = hrtime_now K;
     let tim = (if flag = 0 then tim + hrtime else tim);
     if sint tim \<le> sint hrtime then Some (- 1, None) else do {
       sbt \<leftarrow> zfs_nstosbt nd tim;
       pr \<leftarrow> zfs_nstosbt nd res;
       let rc = cv_sleep K True sbt pr True;
       if rc = EWOULDBLOCK K then Some (- 1, Some (True, sbt, pr, True))
       else if rc = EINTR K \<or> rc = ERESTART K then Some (0, Some (True, sbt, pr, True))
       else do {
         ASSERT nd (rc = 0);
         Some (1, Some (True, sbt, pr, True)) } } }"

text \<open>The name of a condition variable starts at the first small letter of the expression, if there is one.\<close>

lemma cv_name: "cv_name_from cv = dropWhile (\<lambda>c. \<not> (97 \<le> (of_char c :: nat) \<and> (of_char c :: nat) \<le> 122)) cv"
  by (induction cv) simp_all

text \<open>What the kernel documents: three different error numbers, and nothing else but success.\<close>

definition cv_contract :: "cv_kernel \<Rightarrow> bool" where
  "cv_contract K \<longleftrightarrow> distinct [0, EWOULDBLOCK K, EINTR K, ERESTART K] \<and>
     (\<forall>s p a. cv_sleep K False s p a \<in> {0, EWOULDBLOCK K} \<and>
        cv_sleep K True s p a \<in> {0, EWOULDBLOCK K, EINTR K, ERESTART K})"

text \<open>
  A time from 68 to 136 years (\<^verbatim>\<open>2^31\<close> to \<^verbatim>\<open>2^32\<close> seconds) becomes a
  negative number for the kernel, a time long past.
\<close>

lemma nstosbt_long:
  assumes "2147483648 * 1000000000 \<le> sint ns" "sint ns < 4294967296 * 1000000000"
  shows "\<exists>sb. zfs_nstosbt nd ns = Some sb \<and> sint sb < 0"
proof -
  have nn: "0 \<le> sint ns" using assms by simp
  let ?q = "uint ns div 1000000000" and ?r = "uint ns mod 1000000000"
  have u: "uint ns = sint ns" using nonnegative_uint [OF nn] by simp
  have r: "uint (ns mod 1000000000) = ?r" "uint (ns div 1000000000) = ?q" by (simp_all add: uint_mod uint_div)
  have q: "2147483648 \<le> ?q" "?q < 4294967296" using assms by (simp_all add: u)
  have rb: "0 \<le> ?r" "?r < 1000000000" by simp_all
  let ?f = "uint (drop_bit 31 (ns mod 1000000000 * 9223372037 + 0x7fffffff))"
  have "?f = (?r * 9223372037 + 2147483647) div 2147483648"
    using rb by (simp add: fraction_value r)
  then have f: "0 \<le> ?f" "?f < 4294967296" using rb by simp_all
  let ?sb = "ns div 1000000000 * SBT_1S + drop_bit 31 (ns mod 1000000000 * 9223372037 + 0x7fffffff)"
  have "uint (ns div 1000000000 * SBT_1S) = ?q * 4294967296"
    using q by (simp add: SBT_1S_def uint_word_ariths r)
  then have "uint ?sb = ?q * 4294967296 + ?f"
    using q f by (simp add: uint_word_ariths)
  moreover have "2147483648 * 4294967296 \<le> ?q * 4294967296" using q(1) by (rule mult_right_mono) simp
  ultimately have "2147483648 * 4294967296 \<le> uint ?sb" using f(1) by linarith
  then have "\<not> 0 \<le> sint ?sb" using nonnegative_uint [of ?sb] sint_lt [of ?sb] by auto
  then show ?thesis using assms(1) by (simp add: nstosbt_value [OF nn] u)
qed

text \<open>A sleep with a deadline that is ahead.\<close>

lemma hires_ahead:
  assumes "0 \<le> sint res" "sint res \<le> sint tim" "0 \<le> sint d"
    "d = (if flag = 0 then tim + hrtime_now K else tim)" "sint (hrtime_now K) < sint d"
  obtains sbt pr where "zfs_nstosbt nd d = Some sbt" "zfs_nstosbt nd res = Some pr"
    "cv_timedwait_hires nd K tim res flag = (let rc = cv_sleep K False sbt pr True in
       if rc = EWOULDBLOCK K then Some (- 1, Some (False, sbt, pr, True))
       else do { ASSERT nd (rc = 0); Some (1, Some (False, sbt, pr, True)) })"
    "cv_timedwait_sig_hires nd K tim res flag = (let rc = cv_sleep K True sbt pr True in
       if rc = EWOULDBLOCK K then Some (- 1, Some (True, sbt, pr, True))
       else if rc = EINTR K \<or> rc = ERESTART K then Some (0, Some (True, sbt, pr, True))
       else do { ASSERT nd (rc = 0); Some (1, Some (True, sbt, pr, True)) })"
proof -
  obtain sbt where s: "zfs_nstosbt nd d = Some sbt" using nstosbt_value [OF assms(3), of nd] by blast
  obtain pr where p: "zfs_nstosbt nd res = Some pr" using nstosbt_value [OF assms(1), of nd] by blast
  show thesis
    by (rule that [OF s p])
      (use assms(2,5) in \<open>simp_all add: cv_timedwait_hires_def cv_timedwait_sig_hires_def assms(4) [symmetric] s p Let_def\<close>)
qed

text \<open>
  C27. With a precision that is not negative and not above the time, and a clock that is not
  negative, a timed wait returns \<open>-1\<close> exactly when its time \<open>d\<close> had come already (and then it
  does not sleep) or the kernel reports that it came; it returns \<open>0\<close> only from an interruptible
  wait that was interrupted. Only \<open>d\<close> counts: the absolute time, or the relative one added to the
  clock modulo \<^verbatim>\<open>2^64\<close>. For a \<open>d\<close> from 4.3 seconds to 68 years after the start of the clock the
  kernel is asked to wake the thread at \<open>d\<close> or later, never before; for a \<open>d\<close> from 68 to 136
  years it is asked for a negative time.
\<close>

theorem timed_waits:
  assumes "cv_contract K" "0 \<le> sint res" "sint res \<le> sint tim" "0 \<le> sint (hrtime_now K)"
    and d: "d = (if flag = 0 then tim + hrtime_now K else tim)"
  shows "(0 < sint (t - lbolt_now K) \<longrightarrow> (\<exists>sbt rc rc'. sbt = tick_sbt K * (t - lbolt_now K) \<and>
       cv_timedwait K t = (rc, Some (False, sbt, 0, False)) \<and> cv_timedwait_sig K t = (rc', Some (True, sbt, 0, False)) \<and>
       rc = (if cv_sleep K False sbt 0 False = EWOULDBLOCK K then - 1 else 1) \<and>
       rc' = (if cv_sleep K True sbt 0 False = EWOULDBLOCK K then - 1 else if cv_sleep K True sbt 0 False = 0 then 1 else 0))) \<and>
    (sint (t - lbolt_now K) \<le> 0 \<longrightarrow> cv_timedwait K t = (- 1, None) \<and> cv_timedwait_sig K t = (- 1, None)) \<and>
    (sint d \<le> sint (hrtime_now K) \<longrightarrow>
       cv_timedwait_hires nd K tim res flag = Some (- 1, None) \<and>
       cv_timedwait_sig_hires nd K tim res flag = Some (- 1, None)) \<and>
    (sint (hrtime_now K) < sint d \<longrightarrow> (\<exists>sbt pr rc rc'.
       cv_timedwait_hires nd K tim res flag = Some (rc, Some (False, sbt, pr, True)) \<and>
       cv_timedwait_sig_hires nd K tim res flag = Some (rc', Some (True, sbt, pr, True)) \<and>
       zfs_nstosbt nd d = Some sbt \<and> zfs_nstosbt nd res = Some pr \<and>
       (4294967296 \<le> sint d \<and> sint d < 2147483648 * 1000000000 \<longrightarrow> sint d * 4294967296 \<le> uint sbt * 1000000000) \<and>
       (2147483648 * 1000000000 \<le> sint d \<and> sint d < 4294967296 * 1000000000 \<longrightarrow> sint sbt < 0) \<and>
       rc = (if cv_sleep K False sbt pr True = EWOULDBLOCK K then - 1 else 1) \<and>
       rc' = (if cv_sleep K True sbt pr True = EWOULDBLOCK K then - 1 else if cv_sleep K True sbt pr True = 0 then 1 else 0)))"
proof (intro conjI impI)
  show "\<exists>sbt rc rc'. sbt = tick_sbt K * (t - lbolt_now K) \<and>
       cv_timedwait K t = (rc, Some (False, sbt, 0, False)) \<and> cv_timedwait_sig K t = (rc', Some (True, sbt, 0, False)) \<and>
       rc = (if cv_sleep K False sbt 0 False = EWOULDBLOCK K then - 1 else 1) \<and>
       rc' = (if cv_sleep K True sbt 0 False = EWOULDBLOCK K then - 1 else if cv_sleep K True sbt 0 False = 0 then 1 else 0)"
    if "0 < sint (t - lbolt_now K)"
  proof -
    have k: "cv_sleep K True (tick_sbt K * (t - lbolt_now K)) 0 False \<in> {0, EWOULDBLOCK K, EINTR K, ERESTART K}"
      "0 \<noteq> EINTR K" "0 \<noteq> ERESTART K" using assms(1) by (simp_all add: cv_contract_def)
    show ?thesis using that k by (auto simp: cv_timedwait_def cv_timedwait_sig_def Let_def)
  qed
  show "cv_timedwait K t = (- 1, None)" "cv_timedwait_sig K t = (- 1, None)" if "sint (t - lbolt_now K) \<le> 0"
    using that by (simp_all add: cv_timedwait_def cv_timedwait_sig_def Let_def)
  show "cv_timedwait_hires nd K tim res flag = Some (- 1, None)"
    "cv_timedwait_sig_hires nd K tim res flag = Some (- 1, None)" if "sint d \<le> sint (hrtime_now K)"
    using that assms(3) by (simp_all add: cv_timedwait_hires_def cv_timedwait_sig_hires_def d [symmetric] Let_def)
  assume "sint (hrtime_now K) < sint d"
  moreover from this have nn: "0 \<le> sint d" using assms(4) by simp
  ultimately obtain sbt pr where w: "zfs_nstosbt nd d = Some sbt" "zfs_nstosbt nd res = Some pr"
    "cv_timedwait_hires nd K tim res flag = (let rc = cv_sleep K False sbt pr True in
       if rc = EWOULDBLOCK K then Some (- 1, Some (False, sbt, pr, True))
       else do { ASSERT nd (rc = 0); Some (1, Some (False, sbt, pr, True)) })"
    "cv_timedwait_sig_hires nd K tim res flag = (let rc = cv_sleep K True sbt pr True in
       if rc = EWOULDBLOCK K then Some (- 1, Some (True, sbt, pr, True))
       else if rc = EINTR K \<or> rc = ERESTART K then Some (0, Some (True, sbt, pr, True))
       else do { ASSERT nd (rc = 0); Some (1, Some (True, sbt, pr, True)) })"
    using hires_ahead [OF assms(2,3) _ d, of nd] by blast
  have lower: "sint d * 4294967296 \<le> uint sbt * 1000000000" if "4294967296 \<le> sint d" "sint d < 2147483648 * 1000000000"
    using nstosbt_bounds [OF nn that(2), of nd] that(1) w(1) by (auto split: if_splits)
  have long: "sint sbt < 0" if "2147483648 * 1000000000 \<le> sint d" "sint d < 4294967296 * 1000000000"
    using nstosbt_long [OF that, of nd] w(1) by simp
  have k: "cv_sleep K False sbt pr True \<in> {0, EWOULDBLOCK K}"
    "cv_sleep K True sbt pr True \<in> {0, EWOULDBLOCK K, EINTR K, ERESTART K}" "0 \<noteq> EINTR K" "0 \<noteq> ERESTART K"
    using assms(1) by (simp_all add: cv_contract_def)
  show "\<exists>sbt pr rc rc'.
       cv_timedwait_hires nd K tim res flag = Some (rc, Some (False, sbt, pr, True)) \<and>
       cv_timedwait_sig_hires nd K tim res flag = Some (rc', Some (True, sbt, pr, True)) \<and>
       zfs_nstosbt nd d = Some sbt \<and> zfs_nstosbt nd res = Some pr \<and>
       (4294967296 \<le> sint d \<and> sint d < 2147483648 * 1000000000 \<longrightarrow> sint d * 4294967296 \<le> uint sbt * 1000000000) \<and>
       (2147483648 * 1000000000 \<le> sint d \<and> sint d < 4294967296 * 1000000000 \<longrightarrow> sint sbt < 0) \<and>
       rc = (if cv_sleep K False sbt pr True = EWOULDBLOCK K then - 1 else 1) \<and>
       rc' = (if cv_sleep K True sbt pr True = EWOULDBLOCK K then - 1 else if cv_sleep K True sbt pr True = 0 then 1 else 0)"
    by (rule exI [of _ sbt], rule exI [of _ pr]) (use k w(1,2) lower long in \<open>auto simp: w(3,4) Let_def\<close>)
qed

definition demo_cv :: cv_kernel where
  "demo_cv = \<lparr>lbolt_now = 1000, hrtime_now = 10000000000, tick_sbt = 4294967, EWOULDBLOCK = 35, EINTR = 4, ERESTART = - 1,
     cv_wait_sig_rc = 4, cv_sleep = (\<lambda>sig s p a. if sig then 4 else 35)\<rparr>"

theorem timed_waits_witness:
  "\<exists>sbt pr. cv_timedwait_sig_hires False demo_cv 500000000 1000000 0 = Some (0, Some (True, sbt, pr, True)) \<and>
     10500000000 * 4294967296 \<le> uint sbt * 1000000000"
proof -
  have c: "cv_contract demo_cv" by (simp add: cv_contract_def demo_cv_def)
  have "(10500000000 :: u64) = (if (0 :: int) = 0 then 500000000 + hrtime_now demo_cv else 500000000)" by (simp add: demo_cv_def)
  from timed_waits [OF c _ _ _ this, of 1000000 0 False] show ?thesis by (auto simp: demo_cv_def)
qed

section \<open>Checkpoints of kernel threads\<close>

text \<open>
  The macros of \<open>callb.h\<close> over the event bits of the structure. Whether the lock is held is an
  argument; a macro gives the structure and whether it signalled the checkpointing thread. The
  wait for the end of a checkpoint takes what the other threads do to the bits at each wait, and
  has no result while it still waits.
\<close>

definition CALLB_CPR_START :: u8 where "CALLB_CPR_START = 1"
definition CALLB_CPR_SAFE :: u8 where "CALLB_CPR_SAFE = 2"
definition CALLB_CPR_ALWAYS_SAFE :: u8 where "CALLB_CPR_ALWAYS_SAFE = 4"

record callb_cpr =
  cc_lockp :: u64
  cc_events :: u8
  cc_id :: u64

definition CALLB_CPR_ASSERT :: "bool \<Rightarrow> (u64 \<Rightarrow> bool) \<Rightarrow> callb_cpr \<Rightarrow> unit option" where
  "CALLB_CPR_ASSERT nd held cp = ASSERT nd (held (cc_lockp cp))"

text \<open>
  The calls of a macro other than the wait, in order. The names of the condition variables come from
  the text of the macro argument, since \<^verbatim>\<open>cv_init\<close> turns its argument into a string.
\<close>

datatype cpr_call = Cv_init_callb string | Cv_init_stop string | Signal_callb | Mutex_exit u64
  | Callb_delete u64 | Cv_destroy_callb | Cv_destroy_stop

definition CALLB_CPR_INIT ::
    "bool \<Rightarrow> (string \<Rightarrow> u64) \<Rightarrow> nat \<Rightarrow> string \<Rightarrow> u64 \<Rightarrow> string \<Rightarrow> (string \<times> callb_cpr \<times> cpr_call list) option" where
  "CALLB_CPR_INIT nd callb_add td_size cp_text lockp name = do {
     let td_name = take (td_size - 1) name;
     let cp = \<lparr>cc_lockp = lockp, cc_events = 0, cc_id = callb_add name\<rparr>;
     n1 \<leftarrow> zfs_cv_init nd (''&('' @ cp_text @ '')->cc_callb_cv'') CV_DEFAULT;
     n2 \<leftarrow> zfs_cv_init nd (''&('' @ cp_text @ '')->cc_stop_cv'') CV_DEFAULT;
     Some (td_name, cp, [Cv_init_callb n1, Cv_init_stop n2]) }"

definition CALLB_CPR_SAFE_BEGIN :: "bool \<Rightarrow> (u64 \<Rightarrow> bool) \<Rightarrow> callb_cpr \<Rightarrow> (callb_cpr \<times> cpr_call list) option" where
  "CALLB_CPR_SAFE_BEGIN nd held cp = do {
     CALLB_CPR_ASSERT nd held cp;
     let cp = cp\<lparr>cc_events := cc_events cp OR CALLB_CPR_SAFE\<rparr>;
     Some (cp, if cc_events cp AND CALLB_CPR_START \<noteq> 0 then [Signal_callb] else []) }"

fun safe_end_wait :: "(u8 \<Rightarrow> u8) list \<Rightarrow> u8 \<Rightarrow> u8 option" where
  "safe_end_wait turns ev = (if ev AND CALLB_CPR_START \<noteq> 0
     then (case turns of [] \<Rightarrow> None | others # turns \<Rightarrow> safe_end_wait turns (others ev)) else Some ev)"

declare safe_end_wait.simps [simp del]

definition CALLB_CPR_SAFE_END :: "bool \<Rightarrow> (u64 \<Rightarrow> bool) \<Rightarrow> (u8 \<Rightarrow> u8) list \<Rightarrow> callb_cpr \<Rightarrow> callb_cpr option" where
  "CALLB_CPR_SAFE_END nd held turns cp = do {
     CALLB_CPR_ASSERT nd held cp;
     ev \<leftarrow> safe_end_wait turns (cc_events cp);
     Some (cp\<lparr>cc_events := ev AND NOT CALLB_CPR_SAFE\<rparr>) }"

definition CALLB_CPR_EXIT :: "bool \<Rightarrow> (u64 \<Rightarrow> bool) \<Rightarrow> callb_cpr \<Rightarrow> (callb_cpr \<times> cpr_call list) option" where
  "CALLB_CPR_EXIT nd held cp = do {
     CALLB_CPR_ASSERT nd held cp;
     let cp = cp\<lparr>cc_events := cc_events cp OR CALLB_CPR_SAFE\<rparr>;
     Some (cp, (if cc_events cp AND CALLB_CPR_START \<noteq> 0 then [Signal_callb] else []) @
       [Mutex_exit (cc_lockp cp), Callb_delete (cc_id cp), Cv_destroy_callb, Cv_destroy_stop]) }"

text \<open>The bits after each of the first turns of the wait.\<close>

definition events_at :: "(u8 \<Rightarrow> u8) list \<Rightarrow> u8 \<Rightarrow> nat \<Rightarrow> u8" where
  "events_at turns ev k = fold (\<lambda>f e. f e) (take k turns) ev"

lemma events_at_simps [simp]: "events_at turns ev 0 = ev" "events_at (f # turns) ev (Suc k) = events_at turns (f ev) k"
  by (simp_all add: events_at_def)

lemma safe_end_wait_cases:
  "safe_end_wait turns ev = Some ev' \<longleftrightarrow> (\<exists>k<Suc (length turns). ev' = events_at turns ev k \<and>
     ev' AND CALLB_CPR_START = 0 \<and> (\<forall>j<k. events_at turns ev j AND CALLB_CPR_START \<noteq> 0))"
proof (induction turns arbitrary: ev)
  case Nil
  show ?case by (subst safe_end_wait.simps) auto
next
  case (Cons f fs)
  show ?case
    by (subst safe_end_wait.simps)
      (simp only: list.case Cons.IH list.size add_Suc_right add_0_right Ex_less_Suc2 [of "Suc (length fs)"]
        All_less_Suc2 events_at_simps not_less_zero, auto simp: Cons.IH)
qed

lemma safe_kept:
  assumes "\<forall>f\<in>set turns. \<forall>e. f e AND CALLB_CPR_SAFE = e AND CALLB_CPR_SAFE"
  shows "events_at turns ev k AND CALLB_CPR_SAFE = ev AND CALLB_CPR_SAFE"
  using assms
proof (induction turns arbitrary: ev k)
  case (Cons f fs)
  then show ?case by (cases k) (auto simp: events_at_def)
qed (simp add: events_at_def)

lemma wait_returns:
  assumes "events_at turns ev k AND CALLB_CPR_START = 0" "k \<le> length turns"
  shows "safe_end_wait turns ev \<noteq> None"
  using assms
proof (induction turns arbitrary: ev k)
  case (Cons f fs)
  then show ?case by (cases k; subst safe_end_wait.simps) auto
qed (subst safe_end_wait.simps, simp)

text \<open>
  C17. The macros are called with the lock held. A thread that leaves its safe region never runs
  during a checkpoint: it comes back at the first wait after which no checkpoint is requested, and
  is not marked safe afterwards; if it was marked, and the other threads leave the mark alone, it is
  marked at every wait until then. Once the request is withdrawn it does come back. Entering the
  region marks the thread safe, whether it was marked before or not, changes nothing else and wakes the
  waiting thread exactly if a checkpoint was requested; the end of the thread does the same, and only
  then gives the lock up and takes the structure down.
\<close>

theorem checkpoint_waits:
  assumes "held (cc_lockp cp)"
  shows "(\<forall>cp'. CALLB_CPR_SAFE_END nd held turns cp = Some cp' \<longrightarrow>
      cc_events cp' AND (CALLB_CPR_START OR CALLB_CPR_SAFE) = 0 \<and>
      (\<exists>k\<le>length turns. cp' = cp\<lparr>cc_events := events_at turns (cc_events cp) k AND NOT CALLB_CPR_SAFE\<rparr> \<and>
        ((\<forall>f\<in>set turns. \<forall>e. f e AND CALLB_CPR_SAFE = e AND CALLB_CPR_SAFE) \<and>
         cc_events cp AND CALLB_CPR_SAFE = CALLB_CPR_SAFE \<longrightarrow>
           (\<forall>j\<le>k. events_at turns (cc_events cp) j AND CALLB_CPR_SAFE = CALLB_CPR_SAFE)) \<and>
        (\<forall>j<k. events_at turns (cc_events cp) j AND CALLB_CPR_START \<noteq> 0))) \<and>
    ((\<exists>k\<le>length turns. events_at turns (cc_events cp) k AND CALLB_CPR_START = 0) \<longrightarrow>
      CALLB_CPR_SAFE_END nd held turns cp \<noteq> None) \<and>
    CALLB_CPR_SAFE_BEGIN nd held cp = Some (cp\<lparr>cc_events := cc_events cp OR CALLB_CPR_SAFE\<rparr>,
      if cc_events cp AND CALLB_CPR_START \<noteq> 0 then [Signal_callb] else []) \<and>
    CALLB_CPR_EXIT nd held cp = Some (cp\<lparr>cc_events := cc_events cp OR CALLB_CPR_SAFE\<rparr>,
      (if cc_events cp AND CALLB_CPR_START \<noteq> 0 then [Signal_callb] else []) @
      [Mutex_exit (cc_lockp cp), Callb_delete (cc_id cp), Cv_destroy_callb, Cv_destroy_stop])"
proof (intro conjI allI impI)
  have bits: "(e AND NOT CALLB_CPR_SAFE) AND (CALLB_CPR_START OR CALLB_CPR_SAFE) = e AND CALLB_CPR_START"
    "(e OR CALLB_CPR_SAFE) AND CALLB_CPR_START = e AND CALLB_CPR_START" for e
  proof -
    have c: "NOT CALLB_CPR_SAFE AND (CALLB_CPR_START OR CALLB_CPR_SAFE) = CALLB_CPR_START" "CALLB_CPR_SAFE AND CALLB_CPR_START = 0"
      unfolding CALLB_CPR_START_def CALLB_CPR_SAFE_def by code_simp+
    show "(e AND NOT CALLB_CPR_SAFE) AND (CALLB_CPR_START OR CALLB_CPR_SAFE) = e AND CALLB_CPR_START"
      by (simp only: and.assoc c)
    show "(e OR CALLB_CPR_SAFE) AND CALLB_CPR_START = e AND CALLB_CPR_START"
      by (simp only: bit.conj_disj_distrib2 c or.right_neutral)
  qed
  have r: "CALLB_CPR_SAFE_END nd held turns cp =
      map_option (\<lambda>ev. cp\<lparr>cc_events := ev AND NOT CALLB_CPR_SAFE\<rparr>) (safe_end_wait turns (cc_events cp))"
    using assms(1) by (cases "safe_end_wait turns (cc_events cp)")
      (simp_all add: CALLB_CPR_SAFE_END_def CALLB_CPR_ASSERT_def)
  show "CALLB_CPR_SAFE_END nd held turns cp \<noteq> None"
    if "\<exists>k\<le>length turns. events_at turns (cc_events cp) k AND CALLB_CPR_START = 0"
    using that wait_returns by (auto simp: r)
  show "CALLB_CPR_SAFE_BEGIN nd held cp = Some (cp\<lparr>cc_events := cc_events cp OR CALLB_CPR_SAFE\<rparr>,
      if cc_events cp AND CALLB_CPR_START \<noteq> 0 then [Signal_callb] else [])"
    "CALLB_CPR_EXIT nd held cp = Some (cp\<lparr>cc_events := cc_events cp OR CALLB_CPR_SAFE\<rparr>,
      (if cc_events cp AND CALLB_CPR_START \<noteq> 0 then [Signal_callb] else []) @
      [Mutex_exit (cc_lockp cp), Callb_delete (cc_id cp), Cv_destroy_callb, Cv_destroy_stop])"
    using assms by (simp_all add: CALLB_CPR_SAFE_BEGIN_def CALLB_CPR_EXIT_def CALLB_CPR_ASSERT_def bits)
  fix cp' assume "CALLB_CPR_SAFE_END nd held turns cp = Some cp'"
  then obtain ev' where ev': "safe_end_wait turns (cc_events cp) = Some ev'" "cp' = cp\<lparr>cc_events := ev' AND NOT CALLB_CPR_SAFE\<rparr>"
    by (auto simp: r)
  from ev'(1) obtain k where k: "k \<le> length turns" "ev' = events_at turns (cc_events cp) k" "ev' AND CALLB_CPR_START = 0"
    "\<forall>j<k. events_at turns (cc_events cp) j AND CALLB_CPR_START \<noteq> 0"
    unfolding safe_end_wait_cases by (auto simp: less_Suc_eq_le)
  show "cc_events cp' AND (CALLB_CPR_START OR CALLB_CPR_SAFE) = 0" by (simp add: ev'(2) bits k(3))
  show "\<exists>k\<le>length turns. cp' = cp\<lparr>cc_events := events_at turns (cc_events cp) k AND NOT CALLB_CPR_SAFE\<rparr> \<and>
      ((\<forall>f\<in>set turns. \<forall>e. f e AND CALLB_CPR_SAFE = e AND CALLB_CPR_SAFE) \<and>
       cc_events cp AND CALLB_CPR_SAFE = CALLB_CPR_SAFE \<longrightarrow>
         (\<forall>j\<le>k. events_at turns (cc_events cp) j AND CALLB_CPR_SAFE = CALLB_CPR_SAFE)) \<and>
      (\<forall>j<k. events_at turns (cc_events cp) j AND CALLB_CPR_START \<noteq> 0)"
    using k ev'(2) by (intro exI [of _ k]) (simp add: safe_kept)
qed

theorem checkpoint_waits_witness:
  "CALLB_CPR_SAFE_END False (\<lambda>_. True) [\<lambda>e. e, \<lambda>e. e AND 2] \<lparr>cc_lockp = 1, cc_events = 3, cc_id = 7\<rparr> \<noteq> None \<and>
   CALLB_CPR_SAFE_BEGIN False (\<lambda>_. True) \<lparr>cc_lockp = 1, cc_events = 1, cc_id = 7\<rparr> =
     Some (\<lparr>cc_lockp = 1, cc_events = 3, cc_id = 7\<rparr>, [Signal_callb])"
proof -
  have "\<exists>k\<le>length [\<lambda>e. e, \<lambda>e. e AND 2 :: u8]. events_at [\<lambda>e. e, \<lambda>e. e AND 2] 3 k AND CALLB_CPR_START = 0"
    by (rule exI [of _ 2]) (simp add: events_at_def CALLB_CPR_START_def)
  then show ?thesis
    using checkpoint_waits [of "\<lambda>_. True" "\<lparr>cc_lockp = 1, cc_events = 3, cc_id = 7\<rparr>" False "[\<lambda>e. e, \<lambda>e. e AND 2]"]
      checkpoint_waits [of "\<lambda>_. True" "\<lparr>cc_lockp = 1, cc_events = 1, cc_id = 7\<rparr>" False "[]"]
    by (simp add: CALLB_CPR_SAFE_def CALLB_CPR_START_def)
qed

end
