(* ===== verification/Spl_Timer.thy ===== *)
theory Spl_Timer
  imports Spl_Condvar
begin

text \<open>
  Comparison of clock ticks and conversion to ticks (\<open>compat/openzfs/os/linux/spl/sys/timer.h\<close>,
  \<open>compat/openzfs/os/freebsd/spl/sys/timer.h\<close>, \<open>compat/openzfs/os/freebsd/zfs/sys/zfs_context_os.h\<close> and
  the user-space part of \<open>compat/openzfs/sys/zfs_context.h\<close>). Ticks are signed 64-bit words; on Linux the
  type checks of the macros are the types of the definitions.
\<close>

section \<open>Linux\<close>

definition linux_ddi_time_before :: "u64 \<Rightarrow> u64 \<Rightarrow> bool" where "linux_ddi_time_before a b \<longleftrightarrow> sint (a - b) < 0"
definition linux_ddi_time_after :: "u64 \<Rightarrow> u64 \<Rightarrow> bool" where "linux_ddi_time_after a b \<longleftrightarrow> linux_ddi_time_before b a"
definition linux_ddi_time_before_eq :: "u64 \<Rightarrow> u64 \<Rightarrow> bool" where "linux_ddi_time_before_eq a b \<longleftrightarrow> \<not> linux_ddi_time_after a b"
definition linux_ddi_time_after_eq :: "u64 \<Rightarrow> u64 \<Rightarrow> bool" where "linux_ddi_time_after_eq a b \<longleftrightarrow> linux_ddi_time_before_eq b a"
definition linux_ddi_time_before64 :: "u64 \<Rightarrow> u64 \<Rightarrow> bool" where "linux_ddi_time_before64 a b \<longleftrightarrow> sint (a - b) < 0"
definition linux_ddi_time_after64 :: "u64 \<Rightarrow> u64 \<Rightarrow> bool" where "linux_ddi_time_after64 a b \<longleftrightarrow> linux_ddi_time_before64 b a"
definition linux_ddi_time_before_eq64 :: "u64 \<Rightarrow> u64 \<Rightarrow> bool" where "linux_ddi_time_before_eq64 a b \<longleftrightarrow> \<not> linux_ddi_time_after64 a b"
definition linux_ddi_time_after_eq64 :: "u64 \<Rightarrow> u64 \<Rightarrow> bool" where "linux_ddi_time_after_eq64 a b \<longleftrightarrow> linux_ddi_time_before_eq64 b a"

section \<open>FreeBSD and user space\<close>

definition freebsd_ddi_time_after :: "u64 \<Rightarrow> u64 \<Rightarrow> bool" where "freebsd_ddi_time_after a b \<longleftrightarrow> sint b < sint a"
definition freebsd_ddi_time_after64 :: "u64 \<Rightarrow> u64 \<Rightarrow> bool" where "freebsd_ddi_time_after64 a b \<longleftrightarrow> sint b < sint a"

definition user_ddi_time_before :: "u64 \<Rightarrow> u64 \<Rightarrow> bool" where "user_ddi_time_before a b \<longleftrightarrow> sint a < sint b"
definition user_ddi_time_after :: "u64 \<Rightarrow> u64 \<Rightarrow> bool" where "user_ddi_time_after a b \<longleftrightarrow> user_ddi_time_before b a"
definition user_ddi_time_before_eq :: "u64 \<Rightarrow> u64 \<Rightarrow> bool" where "user_ddi_time_before_eq a b \<longleftrightarrow> \<not> user_ddi_time_after a b"
definition user_ddi_time_after_eq :: "u64 \<Rightarrow> u64 \<Rightarrow> bool" where "user_ddi_time_after_eq a b \<longleftrightarrow> user_ddi_time_before_eq b a"
definition user_ddi_time_before64 :: "u64 \<Rightarrow> u64 \<Rightarrow> bool" where "user_ddi_time_before64 a b \<longleftrightarrow> sint a < sint b"
definition user_ddi_time_after64 :: "u64 \<Rightarrow> u64 \<Rightarrow> bool" where "user_ddi_time_after64 a b \<longleftrightarrow> user_ddi_time_before64 b a"
definition user_ddi_time_before_eq64 :: "u64 \<Rightarrow> u64 \<Rightarrow> bool" where "user_ddi_time_before_eq64 a b \<longleftrightarrow> \<not> user_ddi_time_after64 a b"
definition user_ddi_time_after_eq64 :: "u64 \<Rightarrow> u64 \<Rightarrow> bool" where "user_ddi_time_after_eq64 a b \<longleftrightarrow> user_ddi_time_before_eq64 b a"

definition user_hz :: u64 where "user_hz = 119"
definition user_ddi_get_lbolt :: "u64 \<Rightarrow> u64" where "user_ddi_get_lbolt gethrtime = signed_drop_bit 23 gethrtime"
definition user_ddi_get_lbolt64 :: "u64 \<Rightarrow> u64" where "user_ddi_get_lbolt64 gethrtime = signed_drop_bit 23 gethrtime"

definition user_howmany :: "u64 \<Rightarrow> u64 \<Rightarrow> u64" where "user_howmany x y = quot (x + (y - 1)) y"

definition user_SEC_TO_TICK :: "u64 \<Rightarrow> u64" where "user_SEC_TO_TICK sec = sec * user_hz"
definition user_MSEC_TO_TICK :: "u64 \<Rightarrow> u64" where "user_MSEC_TO_TICK msec = user_howmany (msec * user_hz) user_MILLISEC"
definition user_USEC_TO_TICK :: "u64 \<Rightarrow> u64" where "user_USEC_TO_TICK usec = user_howmany (usec * user_hz) user_MICROSEC"
definition user_NSEC_TO_TICK :: "u64 \<Rightarrow> u64" where "user_NSEC_TO_TICK nsec = user_howmany (nsec * user_hz) user_NANOSEC"
definition freebsd_MSEC_TO_TICK :: "u64 \<Rightarrow> u64 \<Rightarrow> u64" where
  "freebsd_MSEC_TO_TICK hz msec = (msec * hz + (freebsd_MILLISEC - 1)) div freebsd_MILLISEC"

lemmas linux_time_defs = linux_ddi_time_before_def linux_ddi_time_after_def linux_ddi_time_before_eq_def linux_ddi_time_after_eq_def
  linux_ddi_time_before64_def linux_ddi_time_after64_def linux_ddi_time_before_eq64_def linux_ddi_time_after_eq64_def
lemmas user_time_defs = user_ddi_time_before_def user_ddi_time_after_def user_ddi_time_before_eq_def user_ddi_time_after_eq_def
  user_ddi_time_before64_def user_ddi_time_after64_def user_ddi_time_before_eq64_def user_ddi_time_after_eq64_def

lemma sint_of_nat: "d < 2 ^ 63 \<Longrightarrow> sint (of_nat d :: u64) = int d" "0 < d \<Longrightarrow> d < 2 ^ 63 \<Longrightarrow> sint (- of_nat d :: u64) = - int d"
  using sint_word_of_int [of "int d"] sint_word_of_int [of "- int d"] by simp_all

text \<open>
  Linux compares ticks correctly also when the counter wraps: of two readings less than \<open>2 ^ 63\<close>
  ticks apart the later one is after the earlier one, by every macro. The plain comparisons of the
  other two layers agree as long as no reading is negative and the earlier one is smaller, and are
  wrong about two readings around the wrap.
\<close>

theorem tick_order:
  assumes "0 < d" "d < 2 ^ 63"
  shows "(let b = a + of_nat d in
      linux_ddi_time_before a b \<and> linux_ddi_time_after b a \<and> \<not> linux_ddi_time_before b a \<and> \<not> linux_ddi_time_after a b \<and>
      linux_ddi_time_before_eq a b \<and> linux_ddi_time_after_eq b a \<and> \<not> linux_ddi_time_before_eq b a \<and> \<not> linux_ddi_time_after_eq a b \<and>
      linux_ddi_time_before64 a b \<and> linux_ddi_time_after64 b a \<and> \<not> linux_ddi_time_before64 b a \<and>
      linux_ddi_time_before_eq64 a b \<and> linux_ddi_time_after_eq64 b a \<and> \<not> linux_ddi_time_after_eq64 a b \<and>
      (sint a + int d < 2 ^ 63 \<longrightarrow> user_ddi_time_before a b \<and> user_ddi_time_after_eq64 b a \<and> freebsd_ddi_time_after b a) \<and>
      (2 ^ 63 \<le> sint a + int d \<longrightarrow> user_ddi_time_before b a \<and> freebsd_ddi_time_after a b \<and> freebsd_ddi_time_after64 a b))"
proof -
  let ?b = "a + of_nat d"
  note n = sint_of_nat(1) [OF assms(2)] sint_of_nat(2) [OF assms]
  have l: "sint (a - ?b) = - int d" "sint (?b - a) = int d" using n by simp_all
  have w: "?b = word_of_int (sint a + int d)" by simp
  have lo: "sint ?b = sint a + int d" if "sint a + int d < 2 ^ 63"
    unfolding w using that sint_ge [of a] by (intro sint_word_of_int) simp_all
  have hi: "sint ?b = sint a + int d - 2 ^ 64" if "2 ^ 63 \<le> sint a + int d"
  proof -
    have "?b = word_of_int (sint a + int d - 2 ^ 64)" unfolding w by (simp add: word_of_int_eq_iff take_bit_eq_mod)
    also have "sint \<dots> = sint a + int d - 2 ^ 64" using that assms sint_lt [of a] by (intro sint_word_of_int) simp_all
    finally show ?thesis .
  qed
  show ?thesis
    using assms by (simp add: Let_def linux_time_defs user_time_defs n lo hi freebsd_ddi_time_after_def freebsd_ddi_time_after64_def)
qed

theorem tick_order_witness:
  "linux_ddi_time_before 0x7FFFFFFFFFFFFFFF 0x8000000000000000 \<and> user_ddi_time_before 0x8000000000000000 0x7FFFFFFFFFFFFFFF"
  using tick_order [of 1 "0x7FFFFFFFFFFFFFFF"] by (simp add: Let_def)

text \<open>
  In user space a number of milliseconds is converted to the fewest ticks of the rate 119 per second
  that last so long. A tick is \<open>2 ^ 23\<close> nanoseconds, of which 119 are 0.998 seconds, so a wait of
  these ticks is up to 0.18 per cent short.
\<close>

theorem ticks_cover:
  assumes "0 \<le> sint ms" "sint ms * 119 + 999 < 2 ^ 63"
  shows "sint ms * 119 \<le> sint (user_MSEC_TO_TICK ms) * 1000 \<and> (sint (user_MSEC_TO_TICK ms) - 1) * 1000 < sint ms * 119 \<and>
    sint ms * 998244352 \<le> sint (user_MSEC_TO_TICK ms) * 8388608 * 1000 \<and>
    user_MSEC_TO_TICK ms = freebsd_MSEC_TO_TICK 119 ms"
proof -
  let ?x = "ms * 119 + 999"
  have x: "sint ?x = sint ms * 119 + 999"
    using sint_word_of_int [of "sint ms * 119 + 999"] assms by simp
  have q: "user_MSEC_TO_TICK ms = ?x div 1000"
    using assms x by (simp add: user_MSEC_TO_TICK_def user_howmany_def user_hz_def user_MILLISEC_def quot_div)
  have "uint ?x = sint ms * 119 + 999" using nonnegative_uint [of ?x] x assms(1) by simp
  then have u: "uint (?x div 1000) = (sint ms * 119 + 999) div 1000" by (simp add: uint_div)
  have "signed_take_bit 63 (uint (?x div 1000)) = uint (?x div 1000)"
    using assms by (intro signed_take_bit_int_eq_self) (simp_all add: u)
  then have "sint (?x div 1000) = uint (?x div 1000)" by (simp add: sint_uint)
  with u have s: "sint (user_MSEC_TO_TICK ms) = (sint ms * 119 + 999) div 1000" by (simp add: q)
  have "user_MSEC_TO_TICK ms = freebsd_MSEC_TO_TICK 119 ms" by (simp add: q freebsd_MSEC_TO_TICK_def freebsd_MILLISEC_def)
  moreover have "x \<le> (x + 999) div 1000 * 1000" "(x + 999) div 1000 * 1000 < x + 1000" for x :: int by linarith+
  from this [of "sint ms * 119"] have "sint ms * 119 \<le> sint (user_MSEC_TO_TICK ms) * 1000"
    "sint (user_MSEC_TO_TICK ms) * 1000 < sint ms * 119 + 1000" unfolding s .
  ultimately show ?thesis by simp
qed

theorem ticks_cover_witness: "user_MSEC_TO_TICK 1000 = freebsd_MSEC_TO_TICK 119 1000 \<and> user_MSEC_TO_TICK 1000 = 119"
proof -
  have "user_MSEC_TO_TICK 1000 = 119" by code_simp
  then show ?thesis using ticks_cover [of 1000] by simp
qed

end
