(* ===== verification/Hlist.thy ===== *)
theory Hlist
  imports Prelude
begin

text \<open>
  Hashed lists of the FreeBSD layer (\<open>compat/openzfs/os/freebsd/spl/sys/ccompat.h\<close>): singly linked nodes
  with a back pointer to the pointer that points at them, over a memory of nodes and list heads.
  Nodes and heads are addresses, \<open>0\<close> is the null pointer, and a pointer to a pointer is the first
  pointer of a head, the next pointer of a node, or null. Writing through null has no result.
\<close>

datatype slot = Null_slot | First_of u64 | Next_of u64

record hlist_mem =
  hfirst :: "u64 \<Rightarrow> u64"
  hnext :: "u64 \<Rightarrow> u64"
  hpprev :: "u64 \<Rightarrow> slot"

fun load :: "slot \<Rightarrow> hlist_mem \<Rightarrow> u64 option" where
  "load Null_slot m = None"
| "load (First_of h) m = Some (hfirst m h)"
| "load (Next_of n) m = Some (hnext m n)"

fun store :: "slot \<Rightarrow> u64 \<Rightarrow> hlist_mem \<Rightarrow> hlist_mem option" where
  "store Null_slot v m = None"
| "store (First_of h) v m = Some (m\<lparr>hfirst := (hfirst m)(h := v)\<rparr>)"
| "store (Next_of n) v m = Some (m\<lparr>hnext := (hnext m)(n := v)\<rparr>)"

abbreviation set_next :: "u64 \<Rightarrow> u64 \<Rightarrow> hlist_mem \<Rightarrow> hlist_mem" where
  "set_next n v m \<equiv> m\<lparr>hnext := (hnext m)(n := v)\<rparr>"
abbreviation set_pprev :: "u64 \<Rightarrow> slot \<Rightarrow> hlist_mem \<Rightarrow> hlist_mem" where
  "set_pprev n v m \<equiv> m\<lparr>hpprev := (hpprev m)(n := v)\<rparr>"

section \<open>Operations\<close>

definition INIT_HLIST_HEAD :: "u64 \<Rightarrow> hlist_mem \<Rightarrow> hlist_mem" where
  "INIT_HLIST_HEAD head m = m\<lparr>hfirst := (hfirst m)(head := 0)\<rparr>"

definition INIT_HLIST_NODE :: "u64 \<Rightarrow> hlist_mem \<Rightarrow> hlist_mem" where
  "INIT_HLIST_NODE node m = set_pprev node Null_slot (set_next node 0 m)"

definition hlist_add_head :: "u64 \<Rightarrow> u64 \<Rightarrow> hlist_mem \<Rightarrow> hlist_mem" where
  "hlist_add_head n h m =
    (let m = set_next n (hfirst m h) m;
         m = (if hfirst m h \<noteq> 0 then set_pprev (hfirst m h) (Next_of n) m else m);
         m = m\<lparr>hfirst := (hfirst m)(h := n)\<rparr>
     in set_pprev n (First_of h) m)"

definition hlist_del :: "u64 \<Rightarrow> hlist_mem \<Rightarrow> hlist_mem option" where
  "hlist_del n m = do {
     m \<leftarrow> store (hpprev m n) (hnext m n) m;
     Some (if hnext m n \<noteq> 0 then set_pprev (hnext m n) (hpprev m n) m else m) }"

partial_function (option) for_each_from :: "hlist_mem \<Rightarrow> u64 \<Rightarrow> u64 list option" where
  "for_each_from m p = (if p = 0 then Some [] else do { ps \<leftarrow> for_each_from m (hnext m p); Some (p # ps) })"

definition hlist_for_each :: "u64 \<Rightarrow> hlist_mem \<Rightarrow> u64 list option" where
  "hlist_for_each head m = for_each_from m (hfirst m head)"

definition container_of :: "u64 \<Rightarrow> u64 \<Rightarrow> u64" where
  "container_of ptr offset = ptr - offset"

definition hlist_entry :: "u64 \<Rightarrow> u64 \<Rightarrow> u64" where
  "hlist_entry ptr offset = container_of ptr offset"

section \<open>Lists in memory\<close>

text \<open>The nodes from a slot on; every node points back to the slot that points at it.\<close>

fun path :: "hlist_mem \<Rightarrow> slot \<Rightarrow> u64 list \<Rightarrow> bool" where
  "path m s [] \<longleftrightarrow> load s m = Some 0"
| "path m s (x # xs) \<longleftrightarrow> x \<noteq> 0 \<and> load s m = Some x \<and> hpprev m x = s \<and> path m (Next_of x) xs"

definition hlist_rep :: "hlist_mem \<Rightarrow> u64 \<Rightarrow> u64 list \<Rightarrow> bool" where
  "hlist_rep m h xs \<longleftrightarrow> path m (First_of h) xs \<and> distinct xs"

lemma path_cong:
  assumes "load s m' = load s m" "\<forall>x\<in>set xs. hnext m' x = hnext m x \<and> hpprev m' x = hpprev m x"
  shows "path m' s xs = path m s xs"
  using assms by (induction xs arbitrary: s) auto

lemma path_pprev: "path m s xs \<Longrightarrow> x \<in> set xs \<Longrightarrow> hpprev m x \<in> insert s (Next_of ` set xs)"
  by (induction xs arbitrary: s) auto

lemma path_next: "path m s xs \<Longrightarrow> x \<in> set xs \<Longrightarrow> hnext m x \<in> insert 0 (set xs)"
proof (induction xs arbitrary: s)
  case (Cons y ys)
  then show ?case by (cases ys) auto
qed simp

lemma for_each_path: "path m s xs \<Longrightarrow> load s m = Some p \<Longrightarrow> for_each_from m p = Some xs"
proof (induction xs arbitrary: s p)
  case Nil
  then show ?case by (subst for_each_from.simps) simp
next
  case (Cons x xs)
  then show ?case using Cons.IH [of "Next_of x"] by (subst for_each_from.simps) simp
qed

text \<open>What a deletion leaves alone.\<close>

lemma hlist_del_frame:
  assumes "hlist_del y m = Some m'"
  shows "t \<noteq> hpprev m y \<Longrightarrow> load t m' = load t m" "z \<noteq> hnext m y \<Longrightarrow> hpprev m' z = hpprev m z"
    "hpprev m y \<noteq> Next_of z \<Longrightarrow> hnext m' z = hnext m z"
  using assms by (cases "hpprev m y"; cases t; auto simp: hlist_del_def split: if_splits)+

lemma hlist_del_path:
  assumes "path m s (xs @ y # ys)" "distinct (xs @ y # ys)" "s \<notin> Next_of ` set (xs @ y # ys)"
  shows "\<exists>m'. hlist_del y m = Some m' \<and> path m' s (xs @ ys)"
  using assms
proof (induction xs arbitrary: s)
  case Nil
  obtain m' where d: "hlist_del y m = Some m'" "load s m' = Some (hnext m y)" "hnext m y \<noteq> 0 \<longrightarrow> hpprev m' (hnext m y) = s"
    using Nil.prems by (cases s) (auto simp: hlist_del_def)
  have "path m' s ys"
  proof (cases ys)
    case (Cons z zs)
    then have z: "hnext m y = z" "z \<noteq> 0" "path m (Next_of z) zs" using Nil.prems(1) by auto
    have s: "hpprev m y = s" using Nil.prems(1) by simp
    have "path m' (Next_of z) zs = path m (Next_of z) zs"
      using Nil.prems(2,3) Cons z(1) s
      by (intro path_cong) (auto intro!: hlist_del_frame [OF d(1)] dest: hlist_del_frame(1) [OF d(1), of "Next_of z"])
    with z Cons d show ?thesis by simp
  qed (use Nil d in simp)
  with d(1) show ?case by auto
next
  case (Cons x xs)
  then have "path m (Next_of x) (xs @ y # ys)" "Next_of x \<notin> Next_of ` set (xs @ y # ys)" by auto
  from Cons.IH [OF this(1) _ this(2)] Cons.prems obtain m' where m': "hlist_del y m = Some m'" "path m' (Next_of x) (xs @ ys)"
    by auto
  have p: "hpprev m y \<in> Next_of ` set (x # xs @ y # ys)"
    using path_pprev [of m "Next_of x" "xs @ y # ys" y] Cons.prems(1) by auto
  have n: "hnext m y \<in> insert 0 (set (xs @ y # ys))"
    using path_next [of m "Next_of x" "xs @ y # ys" y] Cons.prems(1) by auto
  have "load s m' = load s m" using p Cons.prems(3) by (intro hlist_del_frame(1) [OF m'(1)]) auto
  moreover have "hpprev m' x = hpprev m x" using n Cons.prems(1,2) by (intro hlist_del_frame(2) [OF m'(1)]) auto
  ultimately have "path m' s ((x # xs) @ ys)" using Cons.prems(1) m'(2) by simp
  with m'(1) show ?case by blast
qed

lemma path_not_null: "path m s xs \<Longrightarrow> 0 \<notin> set xs"
  by (induction xs arbitrary: s) auto

lemma path_first: "path m s xs \<Longrightarrow> load s m = Some p \<Longrightarrow> p \<in> insert 0 (set xs)"
  by (cases xs) auto

lemma add_head_rep:
  assumes "hlist_rep m h xs" "n \<noteq> 0" "n \<notin> set xs"
  shows "hlist_rep (hlist_add_head n h m) h (n # xs)"
proof -
  let ?m = "hlist_add_head n h m"
  have "path ?m (Next_of n) xs"
  proof (cases xs)
    case (Cons y ys)
    then have "path m (Next_of y) ys" "hfirst m h = y" "y \<noteq> 0" using assms(1) by (auto simp: hlist_rep_def)
    moreover have "path ?m (Next_of y) ys = path m (Next_of y) ys"
      using assms(1,3) Cons \<open>hfirst m h = y\<close> by (intro path_cong) (auto simp: hlist_add_head_def Let_def hlist_rep_def)
    ultimately show ?thesis using Cons assms(3) by (auto simp: hlist_add_head_def Let_def)
  qed (use assms(1) in \<open>simp add: hlist_add_head_def hlist_rep_def\<close>)
  then show ?thesis using assms by (simp add: hlist_rep_def) (simp add: hlist_add_head_def Let_def)
qed

lemma other_lists:
  assumes "hlist_rep m h xs" "hlist_rep m k ys" "k \<noteq> h" "set xs \<inter> set ys = {}"
  shows "n \<notin> set ys \<Longrightarrow> hlist_rep (hlist_add_head n h m) k ys"
    and "n \<in> set xs \<Longrightarrow> hlist_del n m = Some m' \<Longrightarrow> hlist_rep m' k ys"
proof -
  have x: "hfirst m h \<in> insert 0 (set xs)" and z: "0 \<notin> set ys"
    using assms(1,2) path_first [of m "First_of h" xs] path_not_null by (auto simp: hlist_rep_def)
  show "hlist_rep (hlist_add_head n h m) k ys" if n: "n \<notin> set ys"
  proof -
    have "path (hlist_add_head n h m) (First_of k) ys = path m (First_of k) ys"
    proof (rule path_cong)
      show "load (First_of k) (hlist_add_head n h m) = load (First_of k) m"
        using assms(3) by (simp add: hlist_add_head_def Let_def)
      show "\<forall>y\<in>set ys. hnext (hlist_add_head n h m) y = hnext m y \<and> hpprev (hlist_add_head n h m) y = hpprev m y"
      proof
        fix y assume "y \<in> set ys"
        then have "y \<noteq> n" "y \<noteq> hfirst m h" using n x z assms(4) by auto
        then show "hnext (hlist_add_head n h m) y = hnext m y \<and> hpprev (hlist_add_head n h m) y = hpprev m y"
          by (simp add: hlist_add_head_def Let_def)
      qed
    qed
    with assms(2) show ?thesis by (simp add: hlist_rep_def)
  qed
  assume n: "n \<in> set xs" and d: "hlist_del n m = Some m'"
  have p: "hpprev m n \<in> insert (First_of h) (Next_of ` set xs)" "hnext m n \<in> insert 0 (set xs)"
    using path_pprev [OF conjunct1 [OF assms(1) [unfolded hlist_rep_def]] n]
      path_next [OF conjunct1 [OF assms(1) [unfolded hlist_rep_def]] n] by simp_all
  have "path m' (First_of k) ys = path m (First_of k) ys"
  proof (rule path_cong)
    show "load (First_of k) m' = load (First_of k) m" using p assms(3) by (intro hlist_del_frame(1) [OF d]) auto
    show "\<forall>y\<in>set ys. hnext m' y = hnext m y \<and> hpprev m' y = hpprev m y"
    proof
      fix y assume "y \<in> set ys"
      then have "hpprev m n \<noteq> Next_of y" "y \<noteq> hnext m n" using p z assms(4) by auto
      then show "hnext m' y = hnext m y \<and> hpprev m' y = hpprev m y" using hlist_del_frame [OF d] by blast
    qed
  qed
  with assms(2) show "hlist_rep m' k ys" by (simp add: hlist_rep_def)
qed

text \<open>
  C8. A hashed list is a list: walking it gives its nodes, adding a node that is not in it puts it in
  front, deleting a node takes exactly it out - from any position and knowing only the node - and
  never writes through null, and no other list in the memory changes. An initialised head is empty.
\<close>

theorem hlist_refines_list:
  assumes "hlist_rep m h xs"
  shows "hlist_for_each h m = Some xs \<and> hlist_rep (INIT_HLIST_HEAD h m) h [] \<and>
    (n \<noteq> 0 \<and> n \<notin> set xs \<longrightarrow> hlist_rep (hlist_add_head n h m) h (n # xs)) \<and>
    (n \<in> set xs \<longrightarrow> (\<exists>m'. hlist_del n m = Some m' \<and> hlist_rep m' h (remove1 n xs))) \<and>
    (\<forall>k ys. hlist_rep m k ys \<and> k \<noteq> h \<and> set xs \<inter> set ys = {} \<longrightarrow>
       (n \<notin> set ys \<longrightarrow> hlist_rep (hlist_add_head n h m) k ys) \<and>
       (n \<in> set xs \<longrightarrow> (\<exists>m'. hlist_del n m = Some m' \<and> hlist_rep m' k ys)))"
proof -
  have del: "\<exists>m'. hlist_del n m = Some m' \<and> hlist_rep m' h (remove1 n xs)" if n: "n \<in> set xs"
  proof -
    obtain ps ys where xs: "xs = ps @ n # ys" "n \<notin> set ps" using split_list_first [OF n] by blast
    have "path m (First_of h) (ps @ n # ys)" "distinct (ps @ n # ys)" using assms xs(1) by (auto simp: hlist_rep_def)
    from hlist_del_path [OF this] obtain m' where "hlist_del n m = Some m'" "path m' (First_of h) (ps @ ys)" by auto
    moreover have "remove1 n xs = ps @ ys" using xs by (simp add: remove1_append)
    ultimately show ?thesis using assms xs by (auto simp: hlist_rep_def)
  qed
  show ?thesis
  proof (intro conjI allI impI; (elim conjE)?)
    show "hlist_for_each h m = Some xs"
      using assms for_each_path [of m "First_of h" xs "hfirst m h"] by (simp add: hlist_for_each_def hlist_rep_def)
    show "hlist_rep (INIT_HLIST_HEAD h m) h []" by (simp add: hlist_rep_def INIT_HLIST_HEAD_def)
    show "hlist_rep (hlist_add_head n h m) h (n # xs)" if "n \<noteq> 0" "n \<notin> set xs" by (rule add_head_rep [OF assms that])
    show "\<exists>m'. hlist_del n m = Some m' \<and> hlist_rep m' h (remove1 n xs)" if "n \<in> set xs" by (rule del [OF that])
    fix k ys assume o: "hlist_rep m k ys" "k \<noteq> h" "set xs \<inter> set ys = {}"
    show "hlist_rep (hlist_add_head n h m) k ys" if "n \<notin> set ys" by (rule other_lists(1) [OF assms o that])
    show "\<exists>m'. hlist_del n m = Some m' \<and> hlist_rep m' k ys" if "n \<in> set xs"
      using del [OF that] other_lists(2) [OF assms o that] by blast
  qed
qed

definition demo_hlists :: hlist_mem where
  "demo_hlists = \<lparr>hfirst = (\<lambda>_. 0)(1 := 16), hnext = (\<lambda>_. 0)(16 := 32, 32 := 48),
     hpprev = (\<lambda>_. Null_slot)(16 := First_of 1, 32 := Next_of 16, 48 := Next_of 32)\<rparr>"

theorem hlist_refines_list_witness:
  "\<exists>m'. hlist_del 32 demo_hlists = Some m' \<and> hlist_rep m' 1 [16, 48]"
proof -
  have "hlist_rep demo_hlists 1 [16, 32, 48]" by (simp add: hlist_rep_def demo_hlists_def)
  from hlist_refines_list [OF this, of 32] show ?thesis by simp
qed

text \<open>The entry of a pointer to a member is the structure that has it.\<close>

lemma hlist_entry_of_member: "hlist_entry (structure + offset) offset = structure"
  by (simp add: hlist_entry_def container_of_def)

section \<open>Counters\<close>

text \<open>The instruction \<open>atomic_fetchadd_int\<close> gives the old value and adds.\<close>

definition atomic_read :: "u32 \<Rightarrow> u32" where "atomic_read v = v"
definition atomic_inc :: "(u32 \<Rightarrow> u32 \<Rightarrow> u32 \<times> u32) \<Rightarrow> u32 \<Rightarrow> u32 \<times> u32" where
  "atomic_inc atomic_fetchadd_int v = (case atomic_fetchadd_int v 1 of (old, v) \<Rightarrow> (old + 1, v))"
definition atomic_dec :: "(u32 \<Rightarrow> u32 \<Rightarrow> u32 \<times> u32) \<Rightarrow> u32 \<Rightarrow> u32 \<times> u32" where
  "atomic_dec atomic_fetchadd_int v = (case atomic_fetchadd_int v (- 1) of (old, v) \<Rightarrow> (old - 1, v))"

lemma counters_return_new_value:
  assumes "\<forall>v d. atomic_fetchadd_int v d = (v, v + d)"
  shows "atomic_inc atomic_fetchadd_int v = (v + 1, v + 1)" "atomic_dec atomic_fetchadd_int v = (v - 1, v - 1)"
  using assms by (simp_all add: atomic_inc_def atomic_dec_def)

end
