(* ===== verification/Znode.thy ===== *)
theory Znode
  imports Spl_Time C_Layout Packed_Words "HOL-Library.Multiset"
begin

text \<open>
  File nodes (\<open>compat/openzfs/sys/zfs_znode.h\<close>, \<open>zfs_znode_impl.h\<close> and \<open>zfs_vfsops_os.h\<close> of the two
  layers, \<open>compat/openzfs/sys/zfs_fuid.h\<close>, \<open>compat/openzfs/sys/zfs_project.h\<close>): entering and leaving the
  file system, the flag word, file ids, project ids and time stamps.
\<close>

section \<open>Entering and leaving\<close>

text \<open>
  The teardown lock is code of the kernel layers; its calls are events, in their order. Whether the
  file system is unmounted is read when the given events have happened, so before a reader holds the
  lock it may still change.
\<close>

datatype zfs_event = Enter_read string | Exit_read string | Exit_fs

definition EIO :: int where "EIO = 5"

definition ZFS_TEARDOWN_ENTER_READ :: "string \<Rightarrow> zfs_event list \<Rightarrow> zfs_event list" where
  "ZFS_TEARDOWN_ENTER_READ tag tr = tr @ [Enter_read tag]"
definition ZFS_TEARDOWN_EXIT_READ :: "string \<Rightarrow> zfs_event list \<Rightarrow> zfs_event list" where
  "ZFS_TEARDOWN_EXIT_READ tag tr = tr @ [Exit_read tag]"

definition linux_zfs_enter :: "(zfs_event list \<Rightarrow> bool) \<Rightarrow> string \<Rightarrow> zfs_event list \<Rightarrow> int \<times> zfs_event list" where
  "linux_zfs_enter z_unmounted tag tr =
    (let tr = ZFS_TEARDOWN_ENTER_READ tag tr in
       if z_unmounted tr then (EIO, ZFS_TEARDOWN_EXIT_READ tag tr) else (0, tr))"

definition linux_zfs_exit :: "string \<Rightarrow> zfs_event list \<Rightarrow> zfs_event list" where
  "linux_zfs_exit tag tr = ZFS_TEARDOWN_EXIT_READ tag (tr @ [Exit_fs])"

definition freebsd_zfs_enter :: "(zfs_event list \<Rightarrow> bool) \<Rightarrow> string \<Rightarrow> zfs_event list \<Rightarrow> int \<times> zfs_event list" where
  "freebsd_zfs_enter z_unmounted tag tr =
    (let tr = ZFS_TEARDOWN_ENTER_READ tag tr in
       if z_unmounted tr then (EIO, ZFS_TEARDOWN_EXIT_READ tag tr) else (0, tr))"

definition freebsd_zfs_exit :: "string \<Rightarrow> zfs_event list \<Rightarrow> zfs_event list" where
  "freebsd_zfs_exit tag tr = ZFS_TEARDOWN_EXIT_READ tag tr"

definition zpl_enter :: "(zfs_event list \<Rightarrow> bool) \<Rightarrow> string \<Rightarrow> zfs_event list \<Rightarrow> int \<times> zfs_event list" where
  "zpl_enter z_unmounted tag tr = map_prod uminus id (linux_zfs_enter z_unmounted tag tr)"

definition zpl_exit :: "string \<Rightarrow> zfs_event list \<Rightarrow> zfs_event list" where
  "zpl_exit tag tr = ZFS_TEARDOWN_EXIT_READ tag tr"

record znode =
  z_sa_hdl :: u64
  z_pflags :: u64
  z_projid :: u64

definition zfs_verify_zp :: "znode \<Rightarrow> int" where
  "zfs_verify_zp zp = (if z_sa_hdl zp = 0 then EIO else 0)"

text \<open>The entry and exit functions are those of the layer.\<close>

definition zfs_enter_verify_zp ::
  "(string \<Rightarrow> zfs_event list \<Rightarrow> int \<times> zfs_event list) \<Rightarrow> (string \<Rightarrow> zfs_event list \<Rightarrow> zfs_event list) \<Rightarrow>
   (zfs_event list \<Rightarrow> znode) \<Rightarrow> string \<Rightarrow> zfs_event list \<Rightarrow> int \<times> zfs_event list" where
  "zfs_enter_verify_zp zfs_enter zfs_exit zp tag tr =
    (case zfs_enter tag tr of (error, tr) \<Rightarrow>
       if error \<noteq> 0 then (error, tr)
       else let error = zfs_verify_zp (zp tr) in
         if error \<noteq> 0 then (error, zfs_exit tag tr) else (0, tr))"

definition zpl_verify_zp :: "znode \<Rightarrow> int" where "zpl_verify_zp zp = - zfs_verify_zp zp"
definition zpl_enter_verify_zp ::
  "(zfs_event list \<Rightarrow> bool) \<Rightarrow> (zfs_event list \<Rightarrow> znode) \<Rightarrow> string \<Rightarrow> zfs_event list \<Rightarrow> int \<times> zfs_event list" where
  "zpl_enter_verify_zp z_unmounted zp tag tr =
    map_prod uminus id (zfs_enter_verify_zp (linux_zfs_enter z_unmounted) linux_zfs_exit zp tag tr)"

text \<open>
  The interface: the references that a sequence of calls leaves on the lock, and what an entry and
  exit function promise of them.
\<close>

fun holds :: "zfs_event list \<Rightarrow> string multiset" where
  "holds [] = {#}"
| "holds (Enter_read tag # tr) = holds tr + {#tag#}"
| "holds (Exit_read tag # tr) = holds tr"
| "holds (Exit_fs # tr) = holds tr"

fun releases :: "zfs_event list \<Rightarrow> string multiset" where
  "releases [] = {#}"
| "releases (Enter_read tag # tr) = releases tr"
| "releases (Exit_read tag # tr) = releases tr + {#tag#}"
| "releases (Exit_fs # tr) = releases tr"

lemma holds_append [simp]: "holds (tr @ tr') = holds tr' + holds tr" "releases (tr @ tr') = releases tr' + releases tr"
  by (induction tr rule: holds.induct) (simp_all add: ac_simps)

text \<open>The calls between two points, and that they keep or drop one reference.\<close>

definition keeps :: "string \<Rightarrow> zfs_event list \<Rightarrow> zfs_event list \<Rightarrow> bool" where
  "keeps tag tr tr' \<longleftrightarrow> (\<exists>new. tr' = tr @ new \<and> holds new = releases new + {#tag#})"
definition balanced :: "zfs_event list \<Rightarrow> zfs_event list \<Rightarrow> bool" where
  "balanced tr tr' \<longleftrightarrow> (\<exists>new. tr' = tr @ new \<and> holds new = releases new)"

locale teardown =
  fixes enter :: "string \<Rightarrow> zfs_event list \<Rightarrow> int \<times> zfs_event list" and exit :: "string \<Rightarrow> zfs_event list \<Rightarrow> zfs_event list"
    and unmounted :: "zfs_event list \<Rightarrow> bool"
  assumes enter_law: "enter tag tr = (0, tr') \<Longrightarrow> keeps tag tr tr' \<and> \<not> unmounted tr'"
    and refused_law: "enter tag tr = (e, tr') \<Longrightarrow> e \<noteq> 0 \<Longrightarrow> e = EIO \<and> balanced tr tr'"
    and exit_law: "keeps tag tr tr' \<Longrightarrow> balanced tr (exit tag tr')"
begin

lemma enter_verify:
  assumes "zfs_enter_verify_zp enter exit zp tag tr = (e, tr')"
  shows "if e = 0 then keeps tag tr tr' \<and> \<not> unmounted tr' \<and> z_sa_hdl (zp tr') \<noteq> 0 \<and> balanced tr (exit tag tr')
    else e = EIO \<and> balanced tr tr'"
proof -
  obtain e1 tr1 where e1: "enter tag tr = (e1, tr1)" by (cases "enter tag tr")
  show ?thesis
  proof (cases "e1 = 0")
    case True
    with e1 have k: "keeps tag tr tr1" "\<not> unmounted tr1" using enter_law by blast+
    show ?thesis
      using assms k exit_law [OF k(1)] by (auto simp: zfs_enter_verify_zp_def e1 True zfs_verify_zp_def EIO_def Let_def split: if_splits)
  next
    case False
    with assms e1 have "e = e1" "tr' = tr1" by (simp_all add: zfs_enter_verify_zp_def)
    with refused_law [OF e1 False] False show ?thesis by simp
  qed
qed

end

lemmas entry_defs = linux_zfs_enter_def linux_zfs_exit_def freebsd_zfs_enter_def freebsd_zfs_exit_def
  ZFS_TEARDOWN_ENTER_READ_def ZFS_TEARDOWN_EXIT_READ_def

interpretation linux_entry: teardown "linux_zfs_enter unmounted" linux_zfs_exit unmounted for unmounted
  by unfold_locales (auto simp: entry_defs keeps_def balanced_def Let_def EIO_def split: if_splits)

interpretation freebsd_entry: teardown "freebsd_zfs_enter unmounted" freebsd_zfs_exit unmounted for unmounted
  by unfold_locales (auto simp: entry_defs keeps_def balanced_def Let_def EIO_def split: if_splits)

text \<open>
  C40. An operation that was let in holds the teardown lock once, in a mounted file system and on a
  node with its attributes, and leaving gives the lock back; one that was refused has error \<open>EIO\<close> and
  holds nothing. It is the same on both layers, and the Linux system calls see the negative error.
\<close>

theorem entry_balanced:
  assumes "zfs_enter_verify_zp (linux_zfs_enter unmounted) linux_zfs_exit zp tag tr = (e, tr')"
    and "zfs_enter_verify_zp (freebsd_zfs_enter unmounted) freebsd_zfs_exit zp tag tr = (e2, tr2)"
  shows "(if e = 0 then keeps tag tr tr' \<and> \<not> unmounted tr' \<and> z_sa_hdl (zp tr') \<noteq> 0 \<and> balanced tr (linux_zfs_exit tag tr')
      else e = EIO \<and> balanced tr tr') \<and>
    (if e2 = 0 then keeps tag tr tr2 \<and> \<not> unmounted tr2 \<and> z_sa_hdl (zp tr2) \<noteq> 0 \<and> balanced tr (freebsd_zfs_exit tag tr2)
      else e2 = EIO \<and> balanced tr tr2) \<and>
    e = e2 \<and> zpl_enter_verify_zp unmounted zp tag tr = (- e, tr') \<and>
    (e = 0 \<longrightarrow> balanced tr (zpl_exit tag tr'))"
proof -
  have "e = e2" using assms by (auto simp: zfs_enter_verify_zp_def entry_defs Let_def split: if_splits)
  moreover have "zpl_exit tag tr' = freebsd_zfs_exit tag tr'" by (simp add: zpl_exit_def freebsd_zfs_exit_def)
  ultimately show ?thesis
    using linux_entry.enter_verify [OF assms(1)] freebsd_entry.enter_verify [OF assms(2)] freebsd_entry.exit_law [of tag tr tr']
    by (auto simp: zpl_enter_verify_zp_def assms(1))
qed

text \<open>A node whose attributes are gone.\<close>

theorem entry_balanced_witness:
  "\<exists>tr'. zfs_enter_verify_zp (linux_zfs_enter (\<lambda>_. False)) linux_zfs_exit (\<lambda>_. \<lparr>z_sa_hdl = 0, z_pflags = 0, z_projid = 0\<rparr>) ''read'' [] =
     (EIO, tr') \<and> balanced [] tr'"
proof -
  let ?zp = "\<lambda>_. \<lparr>z_sa_hdl = 0, z_pflags = 0, z_projid = 0\<rparr>"
  have "zfs_enter_verify_zp (linux_zfs_enter (\<lambda>_. False)) linux_zfs_exit ?zp ''read'' [] =
      (EIO, [Enter_read ''read'', Exit_fs, Exit_read ''read''])"
    "zfs_enter_verify_zp (freebsd_zfs_enter (\<lambda>_. False)) freebsd_zfs_exit ?zp ''read'' [] =
      (EIO, [Enter_read ''read'', Exit_read ''read''])"
    by (simp_all add: zfs_enter_verify_zp_def entry_defs zfs_verify_zp_def EIO_def)
  from entry_balanced [OF this] this(1) show ?thesis by (auto simp: EIO_def)
qed

section \<open>Ids\<close>

definition MAXUID :: u64 where "MAXUID = 0xFFFFFFFF"
definition IS_EPHEMERAL :: "u64 \<Rightarrow> bool" where "IS_EPHEMERAL x \<longleftrightarrow> MAXUID < x"
definition FUID_INDEX :: "u64 \<Rightarrow> u64" where "FUID_INDEX x = drop_bit 32 x"
definition FUID_RID :: "u64 \<Rightarrow> u64" where "FUID_RID x = x AND 0xffffffff"
definition FUID_ENCODE :: "u64 \<Rightarrow> u64 \<Rightarrow> u64" where "FUID_ENCODE idx rid = push_bit 32 idx OR rid"
definition FUID_SIZE_ESTIMATE :: "u64 \<Rightarrow> u64" where "FUID_SIZE_ESTIMATE z_fuid_size = z_fuid_size + push_bit 1 512"

definition ZPL_VERSION_FUID :: u64 where "ZPL_VERSION_FUID = 3"
definition ZPL_VERSION_SA :: u64 where "ZPL_VERSION_SA = 5"
definition SPA_VERSION_FUID :: u64 where "SPA_VERSION_FUID = 9"
definition SPA_VERSION_SA :: u64 where "SPA_VERSION_SA = 24"
definition USE_FUIDS :: "u64 \<Rightarrow> u64 \<Rightarrow> bool" where
  "USE_FUIDS version spa_version \<longleftrightarrow> ZPL_VERSION_FUID \<le> version \<and> SPA_VERSION_FUID \<le> spa_version"
definition USE_SA :: "u64 \<Rightarrow> u64 \<Rightarrow> bool" where
  "USE_SA version spa_version \<longleftrightarrow> ZPL_VERSION_SA \<le> version \<and> SPA_VERSION_SA \<le> spa_version"

definition ZFS_DEFAULT_PROJID :: u64 where "ZFS_DEFAULT_PROJID = 0"
definition ZFS_INVALID_PROJID :: u64 where "ZFS_INVALID_PROJID = - 1"
definition zpl_is_valid_projid :: "u32 \<Rightarrow> bool" where
  "zpl_is_valid_projid projid \<longleftrightarrow> \<not> ucast ZFS_INVALID_PROJID = projid"

text \<open>
  A file system id is a domain index and a relative id: taking it apart and putting it together
  loses nothing, for every word and for every pair of 32-bit numbers, and it is ephemeral exactly if
  it has a domain. An id that the system attributes can use can use domains too. A project id of
  32 bits is valid unless it is the truncated invalid id.
\<close>

theorem fuid_roundtrip:
  "FUID_ENCODE (FUID_INDEX x) (FUID_RID x) = x \<and>
   (unat idx < 2 ^ 32 \<and> unat rid < 2 ^ 32 \<longrightarrow>
      FUID_INDEX (FUID_ENCODE idx rid) = idx \<and> FUID_RID (FUID_ENCODE idx rid) = rid) \<and>
   (IS_EPHEMERAL x \<longleftrightarrow> FUID_INDEX x \<noteq> 0) \<and>
   (USE_SA version spa_version \<longrightarrow> USE_FUIDS version spa_version) \<and>
   (zpl_is_valid_projid p \<longleftrightarrow> p \<noteq> mask 32)"
proof (intro conjI impI; (elim conjE)?)
  have m: "(0xffffffff :: u64) = mask 32" by (simp add: mask_eq_exp_minus_1)
  show "FUID_ENCODE (FUID_INDEX x) (FUID_RID x) = x"
    by (rule bit_word_eqI) (auto simp: FUID_ENCODE_def FUID_INDEX_def FUID_RID_def m bit_simps)
  show "IS_EPHEMERAL x \<longleftrightarrow> FUID_INDEX x \<noteq> 0"
    using word_gt_mask_iff [of 32 x] by (simp add: IS_EPHEMERAL_def MAXUID_def FUID_INDEX_def m)
  show "USE_FUIDS version spa_version" if "USE_SA version spa_version"
    using that by (auto simp: word_le_nat_alt USE_FUIDS_def USE_SA_def ZPL_VERSION_FUID_def ZPL_VERSION_SA_def SPA_VERSION_FUID_def SPA_VERSION_SA_def)
  show "zpl_is_valid_projid p \<longleftrightarrow> p \<noteq> mask 32"
  proof -
    have "(ucast ZFS_INVALID_PROJID :: u32) = mask 32" unfolding ZFS_INVALID_PROJID_def by code_simp
    then show ?thesis unfolding zpl_is_valid_projid_def by metis
  qed
  assume s: "unat idx < 2 ^ 32" "unat rid < 2 ^ 32"
  have r: "\<not> bit rid n" "\<not> bit idx n" if "32 \<le> n" for n
    using that s bit_unat_ge [of rid n] bit_unat_ge [of idx n] power_increasing [of 32 n "2 :: nat"] by auto
  show "FUID_INDEX (FUID_ENCODE idx rid) = idx"
    using r by (intro bit_word_eqI) (auto simp: FUID_ENCODE_def FUID_INDEX_def bit_simps; meson leI)
  show "FUID_RID (FUID_ENCODE idx rid) = rid"
    using r unfolding FUID_ENCODE_def FUID_RID_def m by (intro bit_word_eqI) (auto simp: bit_simps; meson leI)
qed

theorem fuid_roundtrip_witness: "FUID_INDEX (FUID_ENCODE 5 1000) = 5 \<and> USE_FUIDS 5 28"
proof -
  have "USE_SA 5 28" by (simp add: USE_SA_def ZPL_VERSION_SA_def SPA_VERSION_SA_def)
  with fuid_roundtrip [of 0 5 1000 5 28] show ?thesis by simp
qed

section \<open>Times and types\<close>

definition ZFS_TIME_ENCODE :: "timespec \<Rightarrow> u64 \<times> u64" where "ZFS_TIME_ENCODE tp = (tv_sec tp, tv_nsec tp)"
definition ZFS_TIME_DECODE :: "u64 \<times> u64 \<Rightarrow> timespec" where
  "ZFS_TIME_DECODE stmp = \<lparr>tv_sec = fst stmp, tv_nsec = snd stmp\<rparr>"

lemma time_stamps: "ZFS_TIME_DECODE (ZFS_TIME_ENCODE tp) = tp" "ZFS_TIME_ENCODE (ZFS_TIME_DECODE stmp) = stmp"
  by (simp_all add: ZFS_TIME_ENCODE_def ZFS_TIME_DECODE_def)

text \<open>The mask \<open>S_IFMT\<close> is that of \<open>sys/stat.h\<close>; the type fits the field of a directory entry.\<close>

definition S_IFMT :: u64 where "S_IFMT = 0xF000"
definition IFTODT :: "u64 \<Rightarrow> u64" where "IFTODT mode = drop_bit 12 (mode AND S_IFMT)"

lemma file_type_fits: "IFTODT mode = take_bit 4 (drop_bit 12 mode)" "unat (IFTODT mode) < 16"
proof -
  have s: "S_IFMT = push_bit 12 (mask 4)" by (simp add: S_IFMT_def mask_eq_exp_minus_1)
  show "IFTODT mode = take_bit 4 (drop_bit 12 mode)"
    unfolding IFTODT_def s by (rule bit_word_eqI) (auto simp: bit_simps)
  then show "unat (IFTODT mode) < 16" by (simp only: unat_take_bit_word) simp
qed

text \<open>The lock of an object: FreeBSD has 64, Linux a power of two that is set at mount.\<close>

definition freebsd_ZFS_OBJ_MTX_SZ :: u64 where "freebsd_ZFS_OBJ_MTX_SZ = 64"
definition freebsd_ZFS_OBJ_HASH :: "u64 \<Rightarrow> u64" where "freebsd_ZFS_OBJ_HASH obj_num = obj_num AND (freebsd_ZFS_OBJ_MTX_SZ - 1)"
definition linux_ZFS_OBJ_HASH :: "u64 \<Rightarrow> u64 \<Rightarrow> u64" where "linux_ZFS_OBJ_HASH z_hold_size obj = obj AND (z_hold_size - 1)"

lemma object_locks:
  "unat (freebsd_ZFS_OBJ_HASH obj) = unat obj mod 64"
  "k < 64 \<Longrightarrow> unat (linux_ZFS_OBJ_HASH (2 ^ k) obj) = unat obj mod 2 ^ k"
proof -
  have "freebsd_ZFS_OBJ_MTX_SZ - 1 = mask 6" by (simp add: freebsd_ZFS_OBJ_MTX_SZ_def mask_eq_exp_minus_1)
  then show "unat (freebsd_ZFS_OBJ_HASH obj) = unat obj mod 64"
    by (simp only: freebsd_ZFS_OBJ_HASH_def and_mask_word unat_take_bit_word) simp
  show "unat (linux_ZFS_OBJ_HASH (2 ^ k) obj) = unat obj mod 2 ^ k"
    by (simp only: linux_ZFS_OBJ_HASH_def exp_minus_one_mask and_mask_word unat_take_bit_word)
qed

section \<open>File handles\<close>

definition c_zfid_short :: ctype where
  "c_zfid_short = CStruct [(''zf_len'', c_u16), (''zf_object'', CArray 6 c_u8), (''zf_gen'', CArray 4 c_u8)]"
definition linux_c_zfid_long :: ctype where
  "linux_c_zfid_long = CStruct [(''z_fid'', c_zfid_short), (''zf_setid'', CArray 6 c_u8), (''zf_setgen'', CArray 4 c_u8)]"
definition freebsd_c_zfid_long :: ctype where
  "freebsd_c_zfid_long = CStruct [(''z_fid'', c_zfid_short), (''zf_setid'', CArray 6 c_u8), (''zf_setgen'', CArray 2 c_u8)]"
definition SHORT_FID_LEN :: nat where "SHORT_FID_LEN = size_of 8 c_zfid_short - size_of 8 c_u16"
definition linux_LONG_FID_LEN :: nat where "linux_LONG_FID_LEN = size_of 8 linux_c_zfid_long - size_of 8 c_u16"
definition freebsd_LONG_FID_LEN :: nat where "freebsd_LONG_FID_LEN = size_of 8 freebsd_c_zfid_long - size_of 8 c_u16"

text \<open>The sizes that the comments promise: 12 bytes for NFSv2, 22 on Linux and 20 on FreeBSD, without gaps.\<close>

lemma file_handle_sizes:
  "size_of 8 c_zfid_short = 12" "size_of 8 linux_c_zfid_long = 22" "size_of 8 freebsd_c_zfid_long = 20"
  "SHORT_FID_LEN = 10" "linux_LONG_FID_LEN = 20" "freebsd_LONG_FID_LEN = 18"
  "list_all (\<lambda>t. no_padding 8 t \<and> portable t) [c_zfid_short, linux_c_zfid_long, freebsd_c_zfid_long]"
  by code_simp+

section \<open>The flag word\<close>

definition ZFS_READONLY :: u64 where "ZFS_READONLY = 0x0000000100000000"
definition ZFS_HIDDEN :: u64 where "ZFS_HIDDEN = 0x0000000200000000"
definition ZFS_SYSTEM :: u64 where "ZFS_SYSTEM = 0x0000000400000000"
definition ZFS_ARCHIVE :: u64 where "ZFS_ARCHIVE = 0x0000000800000000"
definition ZFS_IMMUTABLE :: u64 where "ZFS_IMMUTABLE = 0x0000001000000000"
definition ZFS_NOUNLINK :: u64 where "ZFS_NOUNLINK = 0x0000002000000000"
definition ZFS_APPENDONLY :: u64 where "ZFS_APPENDONLY = 0x0000004000000000"
definition ZFS_NODUMP :: u64 where "ZFS_NODUMP = 0x0000008000000000"
definition ZFS_OPAQUE :: u64 where "ZFS_OPAQUE = 0x0000010000000000"
definition ZFS_AV_QUARANTINED :: u64 where "ZFS_AV_QUARANTINED = 0x0000020000000000"
definition ZFS_AV_MODIFIED :: u64 where "ZFS_AV_MODIFIED = 0x0000040000000000"
definition ZFS_REPARSE :: u64 where "ZFS_REPARSE = 0x0000080000000000"
definition ZFS_OFFLINE :: u64 where "ZFS_OFFLINE = 0x0000100000000000"
definition ZFS_SPARSE :: u64 where "ZFS_SPARSE = 0x0000200000000000"
definition ZFS_PROJINHERIT :: u64 where "ZFS_PROJINHERIT = 0x0000400000000000"
definition ZFS_PROJID :: u64 where "ZFS_PROJID = 0x0000800000000000"
definition ZFS_XATTR :: u64 where "ZFS_XATTR = 0x1"
definition ZFS_INHERIT_ACE :: u64 where "ZFS_INHERIT_ACE = 0x2"
definition ZFS_ACL_TRIVIAL :: u64 where "ZFS_ACL_TRIVIAL = 0x4"
definition ZFS_ACL_OBJ_ACE :: u64 where "ZFS_ACL_OBJ_ACE = 0x8"
definition ZFS_ACL_PROTECTED :: u64 where "ZFS_ACL_PROTECTED = 0x10"
definition ZFS_ACL_DEFAULTED :: u64 where "ZFS_ACL_DEFAULTED = 0x20"
definition ZFS_ACL_AUTO_INHERIT :: u64 where "ZFS_ACL_AUTO_INHERIT = 0x40"
definition ZFS_BONUS_SCANSTAMP :: u64 where "ZFS_BONUS_SCANSTAMP = 0x80"
definition ZFS_NO_EXECS_DENIED :: u64 where "ZFS_NO_EXECS_DENIED = 0x100"

definition ZFS_ATTR_SET :: "(u64 \<Rightarrow> int) \<Rightarrow> u64 \<Rightarrow> bool \<Rightarrow> u64 \<Rightarrow> u64 option" where
  "ZFS_ATTR_SET sa_update attr value pflags = do {
     let pflags = (if value then pflags OR attr else pflags AND NOT attr);
     VERIFY (sa_update pflags = 0);
     Some pflags }"

definition zfs_inherit_projid :: "znode \<Rightarrow> u64" where
  "zfs_inherit_projid dzp = (if z_pflags dzp AND ZFS_PROJINHERIT \<noteq> 0 then z_projid dzp else ZFS_DEFAULT_PROJID)"

lemmas zfs_flag_defs =
  ZFS_READONLY_def ZFS_HIDDEN_def ZFS_SYSTEM_def ZFS_ARCHIVE_def ZFS_IMMUTABLE_def ZFS_NOUNLINK_def
  ZFS_APPENDONLY_def ZFS_NODUMP_def ZFS_OPAQUE_def ZFS_AV_QUARANTINED_def ZFS_AV_MODIFIED_def ZFS_REPARSE_def
  ZFS_OFFLINE_def ZFS_SPARSE_def ZFS_PROJINHERIT_def ZFS_PROJID_def ZFS_XATTR_def ZFS_INHERIT_ACE_def
  ZFS_ACL_TRIVIAL_def ZFS_ACL_OBJ_ACE_def ZFS_ACL_PROTECTED_def ZFS_ACL_DEFAULTED_def ZFS_ACL_AUTO_INHERIT_def
  ZFS_BONUS_SCANSTAMP_def ZFS_NO_EXECS_DENIED_def

definition zfs_flags :: "u64 list" where
  "zfs_flags = [ZFS_READONLY, ZFS_HIDDEN, ZFS_SYSTEM, ZFS_ARCHIVE, ZFS_IMMUTABLE, ZFS_NOUNLINK,
     ZFS_APPENDONLY, ZFS_NODUMP, ZFS_OPAQUE, ZFS_AV_QUARANTINED, ZFS_AV_MODIFIED, ZFS_REPARSE, ZFS_OFFLINE,
     ZFS_SPARSE, ZFS_PROJINHERIT, ZFS_PROJID, ZFS_XATTR, ZFS_INHERIT_ACE, ZFS_ACL_TRIVIAL, ZFS_ACL_OBJ_ACE,
     ZFS_ACL_PROTECTED, ZFS_ACL_DEFAULTED, ZFS_ACL_AUTO_INHERIT, ZFS_BONUS_SCANSTAMP, ZFS_NO_EXECS_DENIED]"

lemma flags_distinct: "distinct zfs_flags" "list_all (\<lambda>f. \<exists>k<64. f = 2 ^ k) zfs_flags"
proof -
  show "distinct zfs_flags" unfolding zfs_flags_def zfs_flag_defs by code_simp
  have "zfs_flags = map (\<lambda>k. 2 ^ k) ([32..<48] @ [0..<9])" unfolding zfs_flags_def zfs_flag_defs by code_simp
  note l = this
  show "list_all (\<lambda>f. \<exists>k<64. f = 2 ^ k) zfs_flags"
    unfolding list_all_iff
  proof
    fix f assume "f \<in> set zfs_flags"
    then obtain k where "f = 2 ^ k" "k \<in> set ([32..<48] @ [0..<9])" unfolding l set_map by blast
    then have "f = 2 ^ k" "k < 64" by (auto simp del: upt_rec_numeral)
    then show "\<exists>k<64. f = 2 ^ k" by blast
  qed
qed

lemma attr_set_flag:
  assumes "f \<in> set zfs_flags" "g \<in> set zfs_flags" "ZFS_ATTR_SET upd f v w = Some w'"
  shows "w' AND g \<noteq> 0 \<longleftrightarrow> (if g = f then v else w AND g \<noteq> 0)" "upd w' = 0"
proof -
  obtain j k where jk: "f = 2 ^ j" "g = 2 ^ k" "j < 64" "k < 64" 
    using assms(1,2) flags_distinct(2) unfolding list_all_iff by metis
  have b: "bit (2 ^ n :: u64) i \<longleftrightarrow> i = n" if "n < 64" for n i using that by (auto simp: bit_exp_iff)
  have "g = f \<longleftrightarrow> j = k" unfolding jk(1,2) using b [OF jk(3), of j] b [OF jk(4), of j] by metis
  moreover have m: "x AND 2 ^ n \<noteq> 0 \<longleftrightarrow> bit x n" if "n < 64" for x :: u64 and n
    using that by (simp add: and_exp_eq_0_iff_not_bit)
  ultimately show "w' AND g \<noteq> 0 \<longleftrightarrow> (if g = f then v else w AND g \<noteq> 0)"
    using assms(3) jk by (auto simp: ZFS_ATTR_SET_def VERIFY_def Let_def m bit_simps split: if_splits)
  show "upd w' = 0" using assms(3) by (auto simp: ZFS_ATTR_SET_def VERIFY_def Let_def split: if_splits)
qed

end
