(* ===== verification/Block_Span.thy ===== *)
theory Block_Span
  imports Dnode
begin

text \<open>
  The number of blocks under a block pointer (\<open>compat/openzfs/sys/dmu_traverse.h\<close>) and that its
  comment about overflow is true. The subtraction is one of \<open>int\<close>, the product one of 64 bits, the
  shift has 32. A shift by 64 or more has no meaning in C, so no result.
\<close>

definition bp_span_in_blocks :: "bool \<Rightarrow> u8 \<Rightarrow> u64 \<Rightarrow> u64 option" where
  "bp_span_in_blocks nd indblkshift level = do {
     let shift = (ucast (level * (ucast indblkshift - of_nat SPA_BLKPTRSHIFT)) :: u32);
     ASSERT3U nd (ucast shift) (<) 64;
     if unat shift < 64 then Some (push_bit (unat shift) 1) else None }"

text \<open>The highest level of a file of \<open>2 ^ 64\<close> bytes in blocks of the smallest size.\<close>

definition top_level :: "nat \<Rightarrow> nat" where
  "top_level s = DIV_ROUND_UP (DN_MAX_OFFSET_SHIFT - SPA_MINBLOCKSHIFT) (s - SPA_BLKPTRSHIFT)"

lemma span_value:
  assumes "SPA_BLKPTRSHIFT \<le> s" "s < 64" "l * (s - SPA_BLKPTRSHIFT) < 64" "l < 64"
  shows "bp_span_in_blocks nd (of_nat s) (of_nat l) = Some (2 ^ (l * (s - SPA_BLKPTRSHIFT)))"
proof -
  let ?k = "l * (s - SPA_BLKPTRSHIFT)"
  have "(ucast (of_nat s :: u8) :: u64) = of_nat s"
    using assms(2) by (intro word_unat_eq_iff [THEN iffD2]) (simp add: unsigned_ucast_eq unat_of_nat take_bit_nat_eq_self)
  then have "of_nat l * (ucast (of_nat s :: u8) - of_nat SPA_BLKPTRSHIFT) = (of_nat ?k :: u64)"
    using assms(1) by (simp add: of_nat_diff)
  moreover have "(ucast (of_nat k :: u64) :: u32) = of_nat k" "unat (of_nat k :: u32) = k" "(ucast (of_nat k :: u32) :: u64) < 64"
    if "k < 64" for k :: nat
    using that by (simp_all add: word_unat_eq_iff unat_of_nat word_less_nat_alt unsigned_ucast_eq take_bit_nat_eq_self)
  note this [OF assms(3)]
  ultimately show ?thesis
    using assms(3) by (simp add: bp_span_in_blocks_def ASSERT3U_ok push_bit_eq_mult)
qed

text \<open>
  As the comment says: for every indirect block size up to the maximum of 128k and every level that
  a file can have, the shift stays below 64, so the result is exact - one for a data block, and for
  each level times the number of pointers of an indirect block; with blocks of 1M the span of the top
  level would not fit.
\<close>

theorem span_never_overflows:
  assumes "DN_MIN_INDBLKSHIFT \<le> s" "s \<le> DN_MAX_INDBLKSHIFT" "l \<le> top_level s"
  shows "bp_span_in_blocks nd (of_nat s) (of_nat l) = Some (2 ^ (l * (s - SPA_BLKPTRSHIFT))) \<and>
    l * (s - SPA_BLKPTRSHIFT) < 64 \<and>
    (0 < l \<longrightarrow> bp_span_in_blocks nd (of_nat s) (of_nat l) =
       map_option (\<lambda>span. span * 2 ^ (s - SPA_BLKPTRSHIFT)) (bp_span_in_blocks nd (of_nat s) (of_nat (l - 1)))) \<and>
    bp_span_in_blocks nd (of_nat 20) (of_nat (top_level 20)) = None"
proof -
  have "s \<in> {12, 13, 14, 15, 16, 17}" using assms(1,2) by (auto simp: DN_MIN_INDBLKSHIFT_def DN_MAX_INDBLKSHIFT_def)
  then have "top_level s * (s - SPA_BLKPTRSHIFT) < 64 \<and> top_level s < 64"
    by (auto simp: top_level_def dnode_consts)
  then have k: "l * (s - SPA_BLKPTRSHIFT) < 64" "l < 64"
    using assms(3) by (auto intro: le_less_trans [OF mult_le_mono1])
  have s: "SPA_BLKPTRSHIFT \<le> s" "s < 64" using assms(1,2) by (simp_all add: dnode_consts)
  have "(l - 1) * (s - SPA_BLKPTRSHIFT) < 64" "l - 1 < 64" using k le_less_trans [OF mult_le_mono1 [of "l - 1" l] k(1)] by simp_all
  note v = span_value [OF s k] span_value [OF s this]
  have "bp_span_in_blocks nd (of_nat 20) (of_nat (top_level 20)) = None"
    by (cases nd) (simp_all add: bp_span_in_blocks_def top_level_def dnode_consts ASSERT3U_def VERIFY3U_def)
  moreover have "l * d = (l - 1) * d + d" if "0 < l" for d using that by (cases l) simp_all
  ultimately show ?thesis using k(1) by (simp only: v option.map(2)) (simp add: power_add)
qed

theorem span_never_overflows_witness: "bp_span_in_blocks False (of_nat 17) (of_nat 6) = Some (2 ^ 60)"
  using span_never_overflows [of 17 6] by (simp add: top_level_def dnode_consts)

end
