(* ===== verification/Dklabel.thy ===== *)
theory Dklabel
  imports C_Layout
begin

text \<open>
  The Sun disk label (\<open>compat/spl/sys/dklabel.h\<close>) in its two variants, with 16 and with 8 partitions, and
  the stored device id with its checksum. Every structure is a C layout; the argument \<open>v16\<close>
  selects \<open>_SUNOS_VTOC_16\<close>.
\<close>

section \<open>Labels\<close>

definition DKL_MAGIC :: nat where "DKL_MAGIC = 0xDABE"
definition FKL_MAGIC :: nat where "FKL_MAGIC = 0xff"
definition NDKMAP :: "bool \<Rightarrow> nat" where "NDKMAP v16 = (if v16 then 16 else 8)"
definition DK_LABEL_LOC :: "bool \<Rightarrow> nat" where "DK_LABEL_LOC v16 = (if v16 then 1 else 0)"
definition LEN_DKL_ASCII :: nat where "LEN_DKL_ASCII = 128"
definition LEN_DKL_VVOL :: nat where "LEN_DKL_VVOL = 8"
definition DK_LABEL_SIZE :: nat where "DK_LABEL_SIZE = 512"
definition DK_MAX_BLOCKS :: nat where "DK_MAX_BLOCKS = 0x7fffffff"
definition DK_ACYL :: nat where "DK_ACYL = 2"

definition c_dk_map :: ctype where
  "c_dk_map = CStruct [(''dkl_cylno'', c_u64), (''dkl_nblk'', c_u64)]"
definition c_dk_map32 :: ctype where
  "c_dk_map32 = CStruct [(''dkl_cylno'', c_u32), (''dkl_nblk'', c_u32)]"
definition c_dk_map2 :: ctype where
  "c_dk_map2 = CStruct [(''p_tag'', c_u16), (''p_flag'', c_u16)]"
definition c_dkl_partition :: ctype where
  "c_dkl_partition = CStruct [(''p_tag'', c_u16), (''p_flag'', c_u16), (''p_start'', c_u32), (''p_size'', c_u32)]"

definition c_dk_vtoc :: "bool \<Rightarrow> ctype" where
  "c_dk_vtoc v16 = (if v16 then
     CStruct [(''v_bootinfo'', CArray 3 c_u32), (''v_sanity'', c_u32), (''v_version'', c_u32),
       (''v_volume'', CArray LEN_DKL_VVOL c_u8), (''v_sectorsz'', c_u16), (''v_nparts'', c_u16),
       (''v_reserved'', CArray 10 c_u32), (''v_part'', CArray (NDKMAP v16) c_dkl_partition),
       (''timestamp'', CArray (NDKMAP v16) c_u32), (''v_asciilabel'', CArray LEN_DKL_ASCII c_u8)]
   else
     CStruct [(''v_version'', c_u32), (''v_volume'', CArray LEN_DKL_VVOL c_u8), (''v_nparts'', c_u16),
       (''v_part'', CArray (NDKMAP v16) c_dk_map2), (''v_bootinfo'', CArray 3 c_u32), (''v_sanity'', c_u32),
       (''v_reserved'', CArray 10 c_u32), (''v_timestamp'', CArray (NDKMAP v16) c_u32)])"

definition LEN_DKL_PAD :: "bool \<Rightarrow> nat" where
  "LEN_DKL_PAD v16 = (if v16 then
     DK_LABEL_SIZE - (size_of 8 (c_dk_vtoc v16) + 4 * size_of 8 c_u32 + 12 * size_of 8 c_u16 + 2 * size_of 8 c_u16)
   else
     DK_LABEL_SIZE - (LEN_DKL_ASCII + size_of 8 (c_dk_vtoc v16) + size_of 8 c_dk_map32 * NDKMAP v16 + 14 * size_of 8 c_u16 + 2 * size_of 8 c_u16))"

definition c_dk_label :: "bool \<Rightarrow> ctype" where
  "c_dk_label v16 = (if v16 then
     CStruct [(''dkl_vtoc'', c_dk_vtoc v16), (''dkl_pcyl'', c_u32), (''dkl_ncyl'', c_u32), (''dkl_acyl'', c_u16),
       (''dkl_bcyl'', c_u16), (''dkl_nhead'', c_u32), (''dkl_nsect'', c_u32), (''dkl_intrlv'', c_u16),
       (''dkl_skew'', c_u16), (''dkl_apc'', c_u16), (''dkl_rpm'', c_u16), (''dkl_write_reinstruct'', c_u16),
       (''dkl_read_reinstruct'', c_u16), (''dkl_extra'', CArray 4 c_u16), (''dkl_pad'', CArray (LEN_DKL_PAD v16) c_u8),
       (''dkl_magic'', c_u16), (''dkl_cksum'', c_u16)]
   else
     CStruct [(''dkl_asciilabel'', CArray LEN_DKL_ASCII c_u8), (''dkl_vtoc'', c_dk_vtoc v16),
       (''dkl_write_reinstruct'', c_u16), (''dkl_read_reinstruct'', c_u16), (''dkl_pad'', CArray (LEN_DKL_PAD v16) c_u8),
       (''dkl_rpm'', c_u16), (''dkl_pcyl'', c_u16), (''dkl_apc'', c_u16), (''dkl_obs1'', c_u16), (''dkl_obs2'', c_u16),
       (''dkl_intrlv'', c_u16), (''dkl_ncyl'', c_u16), (''dkl_acyl'', c_u16), (''dkl_nhead'', c_u16), (''dkl_nsect'', c_u16),
       (''dkl_obs3'', c_u16), (''dkl_obs4'', c_u16), (''dkl_map'', CArray (NDKMAP v16) c_dk_map32),
       (''dkl_magic'', c_u16), (''dkl_cksum'', c_u16)])"

definition c_fk_label :: ctype where
  "c_fk_label = CStruct [(''fkl_type'', c_u8), (''fkl_magich'', c_u8), (''fkl_magicl'', c_u8), (''filler'', c_u8)]"

section \<open>Device ids\<close>

definition DK_DEVID_BLKSIZE :: nat where "DK_DEVID_BLKSIZE = 512"
definition DK_DEVID_SIZE :: nat where "DK_DEVID_SIZE = DK_DEVID_BLKSIZE - 7"
definition DK_DEVID_REV_MSB :: u8 where "DK_DEVID_REV_MSB = 0"
definition DK_DEVID_REV_LSB :: u8 where "DK_DEVID_REV_LSB = 1"

definition c_dk_devid :: ctype where
  "c_dk_devid = CStruct [(''dkd_rev_hi'', c_u8), (''dkd_rev_lo'', c_u8), (''dkd_flags'', c_u8),
     (''dkd_devid'', CArray DK_DEVID_SIZE c_u8), (''dkd_checksum3'', c_u8), (''dkd_checksum2'', c_u8),
     (''dkd_checksum1'', c_u8), (''dkd_checksum0'', c_u8)]"

record dk_devid =
  dkd_checksum3 :: u8
  dkd_checksum2 :: u8
  dkd_checksum1 :: u8
  dkd_checksum0 :: u8

definition DKD_GETCHKSUM :: "dk_devid \<Rightarrow> u32" where
  "DKD_GETCHKSUM dkd = push_bit 24 (ucast (dkd_checksum3 dkd)) + push_bit 16 (ucast (dkd_checksum2 dkd)) +
     push_bit 8 (ucast (dkd_checksum1 dkd)) + ucast (dkd_checksum0 dkd)"

text \<open>The halves of a word and the bytes of a half are macros of another header.\<close>

record halves =
  hiword :: "u32 \<Rightarrow> u16"
  loword :: "u32 \<Rightarrow> u16"
  hibyte :: "u16 \<Rightarrow> u8"
  lobyte :: "u16 \<Rightarrow> u8"

definition DKD_FORMCHKSUM :: "halves \<Rightarrow> u32 \<Rightarrow> dk_devid \<Rightarrow> dk_devid" where
  "DKD_FORMCHKSUM H c dkd = dkd\<lparr>dkd_checksum3 := hibyte H (hiword H c), dkd_checksum2 := lobyte H (hiword H c),
     dkd_checksum1 := hibyte H (loword H c), dkd_checksum0 := lobyte H (loword H c)\<rparr>"

definition halves_contract :: "halves \<Rightarrow> bool" where
  "halves_contract H \<longleftrightarrow> (\<forall>c. hiword H c = ucast (drop_bit 16 c) \<and> loword H c = ucast c) \<and>
     (\<forall>w. hibyte H w = ucast (drop_bit 8 w) \<and> lobyte H w = ucast w)"

lemma bytes_of_word:
  "push_bit 24 (ucast (ucast (drop_bit 24 c) :: u8)) OR push_bit 16 (ucast (ucast (drop_bit 16 c) :: u8)) OR
    push_bit 8 (ucast (ucast (drop_bit 8 c) :: u8)) OR ucast (ucast c :: u8) = (c :: u32)" (is "?l = c")
proof (rule bit_word_eqI)
  fix n assume "n < LENGTH(32)"
  then consider "n < 8" | "8 \<le> n" "n < 16" | "16 \<le> n" "n < 24" | "24 \<le> n" "n < 32" by fastforce
  then show "bit ?l n = bit c n" by cases (auto simp: bit_simps)
qed

lemma bytes_disjoint:
  fixes a b c d :: u8
  shows "push_bit 24 (ucast a) + push_bit 16 (ucast b) + push_bit 8 (ucast c) + ucast d =
    (push_bit 24 (ucast a) OR push_bit 16 (ucast b) OR push_bit 8 (ucast c) OR ucast d :: u32)"
proof -
  let ?a = "push_bit 24 (ucast a) :: u32" and ?b = "push_bit 16 (ucast b) :: u32" and ?c = "push_bit 8 (ucast c) :: u32"
  have "?a + ?b = ?a OR ?b" by (rule disjunctive_add) (auto simp: bit_simps dest: bit_imp_le_length)
  moreover have "(?a OR ?b) + ?c = (?a OR ?b) OR ?c"
    by (rule disjunctive_add) (auto simp: bit_simps dest: bit_imp_le_length)
  moreover have "((?a OR ?b) OR ?c) + ucast d = ((?a OR ?b) OR ?c) OR ucast d"
    by (rule disjunctive_add) (auto simp: bit_simps dest: bit_imp_le_length)
  ultimately show ?thesis by (simp only: or.assoc)
qed

text \<open>
  Both variants of the label fill one sector of 512 bytes without a gap, with the magic number and
  the checksum in its last four bytes, on every host; so does the stored device id. The checksum
  of a device id survives being stored byte by byte.
\<close>

theorem disk_label_fills_sector:
  assumes "halves_contract H"
  shows "size_of 8 (c_dk_label v16) = DK_LABEL_SIZE \<and> no_padding 8 (c_dk_label v16) \<and> portable (c_dk_label v16) \<and>
    map_of (offsets 8 0 (members (c_dk_label v16))) ''dkl_magic'' = Some (DK_LABEL_SIZE - 4) \<and>
    map_of (offsets 8 0 (members (c_dk_label v16))) ''dkl_cksum'' = Some (DK_LABEL_SIZE - 2) \<and>
    size_of 8 c_dk_devid = DK_DEVID_BLKSIZE \<and> no_padding 8 c_dk_devid \<and>
    DKD_GETCHKSUM (DKD_FORMCHKSUM H c dkd) = c"
proof (intro conjI)
  show "size_of 8 (c_dk_label v16) = DK_LABEL_SIZE" by (rule bool.exhaust [of v16]; (simp only:)?; code_simp)
  show "no_padding 8 (c_dk_label v16)" by (rule bool.exhaust [of v16]; (simp only:)?; code_simp)
  show "portable (c_dk_label v16)" by (rule bool.exhaust [of v16]; (simp only:)?; code_simp)
  show "map_of (offsets 8 0 (members (c_dk_label v16))) ''dkl_magic'' = Some (DK_LABEL_SIZE - 4)" by (rule bool.exhaust [of v16]; (simp only:)?; code_simp)
  show "map_of (offsets 8 0 (members (c_dk_label v16))) ''dkl_cksum'' = Some (DK_LABEL_SIZE - 2)" by (rule bool.exhaust [of v16]; (simp only:)?; code_simp)
  show "size_of 8 c_dk_devid = DK_DEVID_BLKSIZE" "no_padding 8 c_dk_devid" by code_simp+
  have "ucast (drop_bit 8 (ucast (drop_bit 16 c) :: u16)) = (ucast (drop_bit 24 c) :: u8)"
    "ucast (ucast (drop_bit 16 c) :: u16) = (ucast (drop_bit 16 c) :: u8)"
    "ucast (drop_bit 8 (ucast c :: u16)) = (ucast (drop_bit 8 c) :: u8)" "ucast (ucast c :: u16) = (ucast c :: u8)"
    by (rule bit_word_eqI; auto simp: bit_simps)+
  then show "DKD_GETCHKSUM (DKD_FORMCHKSUM H c dkd) = c"
    using assms bytes_of_word [of c]
    by (simp add: DKD_GETCHKSUM_def DKD_FORMCHKSUM_def halves_contract_def bytes_disjoint)
qed

theorem disk_label_fills_sector_witness:
  "DKD_GETCHKSUM (DKD_FORMCHKSUM \<lparr>hiword = \<lambda>c. ucast (drop_bit 16 c), loword = ucast, hibyte = \<lambda>w. ucast (drop_bit 8 w), lobyte = ucast\<rparr>
     0xDEADBEEF \<lparr>dkd_checksum3 = 0, dkd_checksum2 = 0, dkd_checksum1 = 0, dkd_checksum0 = 0\<rparr>) = 0xDEADBEEF"
  using disk_label_fills_sector [of "\<lparr>hiword = \<lambda>c. ucast (drop_bit 16 c), loword = ucast, hibyte = \<lambda>w. ucast (drop_bit 8 w), lobyte = ucast\<rparr>"]
  by (simp add: halves_contract_def)

end
