(* ===== verification/Sysmacros_Linux.thy ===== *)
theory Sysmacros_Linux
  imports Sysmacros
begin

unbundle bit_operations_syntax

text \<open>
  The macros of \<open>compat/openzfs/os/linux/spl/sys/sysmacros.h\<close> and of the user-space header
  \<open>compat/spl/os/linux/sys/sysmacros.h\<close>, whose rounding macro is another expression than the one
  of FreeBSD, and the device numbers and disk blocks of the FreeBSD header. The lemmas show that
  the layers compute the same, and where they do not.
\<close>

section \<open>Alignment\<close>

definition linux_P2CROSS :: "'a::len word \<Rightarrow> 'a word \<Rightarrow> 'a word \<Rightarrow> bool" where
  "linux_P2CROSS x y align \<longleftrightarrow> align - 1 < x XOR y"
definition linux_P2ROUNDUP :: "'a::len word \<Rightarrow> 'a word \<Rightarrow> 'a word" where
  "linux_P2ROUNDUP x align = ((x - 1) OR (align - 1)) + 1"
definition linux_P2PHASE :: "'a::len word \<Rightarrow> 'a word \<Rightarrow> 'a word" where
  "linux_P2PHASE x align = x AND (align - 1)"
definition linux_P2NPHASE :: "'a::len word \<Rightarrow> 'a word \<Rightarrow> 'a word" where
  "linux_P2NPHASE x align = (- x) AND (align - 1)"
definition linux_ISP2 :: "'a::len word \<Rightarrow> bool" where
  "linux_ISP2 x \<longleftrightarrow> x AND (x - 1) = 0"
definition linux_IS_P2ALIGNED :: "u64 \<Rightarrow> u64 \<Rightarrow> bool" where
  "linux_IS_P2ALIGNED v a \<longleftrightarrow> v AND (a - 1) = 0"
definition linux_P2BOUNDARY :: "'a::len word \<Rightarrow> 'a word \<Rightarrow> 'a word \<Rightarrow> bool" where
  "linux_P2BOUNDARY off len align \<longleftrightarrow> align - 1 < off XOR (off + len - 1)"
definition linux_P2ALIGN_TYPED :: "'a::len word \<Rightarrow> 'a word \<Rightarrow> 'a word" where
  "linux_P2ALIGN_TYPED x align = x AND (- align)"
definition linux_P2PHASE_TYPED :: "'a::len word \<Rightarrow> 'a word \<Rightarrow> 'a word" where
  "linux_P2PHASE_TYPED x align = x AND (align - 1)"
definition linux_P2NPHASE_TYPED :: "'a::len word \<Rightarrow> 'a word \<Rightarrow> 'a word" where
  "linux_P2NPHASE_TYPED x align = (- x) AND (align - 1)"
definition linux_P2ROUNDUP_TYPED :: "'a::len word \<Rightarrow> 'a word \<Rightarrow> 'a word" where
  "linux_P2ROUNDUP_TYPED x align = ((x - 1) OR (align - 1)) + 1"
definition linux_P2END_TYPED :: "'a::len word \<Rightarrow> 'a word \<Rightarrow> 'a word" where
  "linux_P2END_TYPED x align = - (NOT x AND (- align))"
definition linux_P2PHASEUP_TYPED :: "'a::len word \<Rightarrow> 'a word \<Rightarrow> 'a word \<Rightarrow> 'a word" where
  "linux_P2PHASEUP_TYPED x align phase = phase - ((phase - x) AND (- align))"
definition linux_P2CROSS_TYPED :: "'a::len word \<Rightarrow> 'a word \<Rightarrow> 'a word \<Rightarrow> bool" where
  "linux_P2CROSS_TYPED x y align \<longleftrightarrow> align - 1 < x XOR y"
definition linux_P2SAMEHIGHBIT_TYPED :: "'a::len word \<Rightarrow> 'a word \<Rightarrow> bool" where
  "linux_P2SAMEHIGHBIT_TYPED x y \<longleftrightarrow> x XOR y < x AND y"

definition user_P2CROSS :: "'a::len word \<Rightarrow> 'a word \<Rightarrow> 'a word \<Rightarrow> bool" where
  "user_P2CROSS x y align \<longleftrightarrow> align - 1 < x XOR y"
definition user_P2ROUNDUP :: "'a::len word \<Rightarrow> 'a word \<Rightarrow> 'a word" where
  "user_P2ROUNDUP x align = ((x - 1) OR (align - 1)) + 1"
definition user_P2ROUNDUP_TYPED :: "'a::len word \<Rightarrow> 'a word \<Rightarrow> 'a word" where
  "user_P2ROUNDUP_TYPED x align = ((x - 1) OR (align - 1)) + 1"

text \<open>Negation is the complement of the predecessor, whatever the alignment is.\<close>

lemma roundup_forms: "- ((- x) AND (- a)) = ((x - 1) OR (a - 1)) + (1 :: 'a::len word)"
proof -
  have m: "NOT (- y) = y - 1" for y :: "'a word" by (simp add: minus_eq_not_minus_1)
  have "- ((- x) AND (- a)) = NOT ((- x) AND (- a)) + 1" by (simp add: not_eq_complement)
  also have "NOT ((- x) AND (- a)) = (x - 1) OR (a - 1)" by (simp only: bit.de_Morgan_conj m)
  finally show ?thesis .
qed

lemma P2CROSS_iff:
  assumes "k < LENGTH('a)"
  shows "linux_P2CROSS (x :: 'a::len word) y (2 ^ k) \<longleftrightarrow> unat x div 2 ^ k \<noteq> unat y div 2 ^ k"
proof -
  have "linux_P2CROSS x y (2 ^ k) \<longleftrightarrow> drop_bit k (x XOR y) \<noteq> 0"
    using assms by (simp only: linux_P2CROSS_def exp_minus_one_mask word_gt_mask_iff)
  also have "\<dots> \<longleftrightarrow> drop_bit k x \<noteq> drop_bit k y" by (simp only: drop_bit_xor xor_zero_iff_word)
  also have "\<dots> \<longleftrightarrow> unat x div 2 ^ k \<noteq> unat y div 2 ^ k"
    by (simp only: word_unat_eq_iff unat_drop_bit_word)
  finally show ?thesis .
qed

text \<open>
  The alignment macros of the kernels and of user space compute the same for every width and
  every alignment, also one that is no power of two, although they round up with different
  expressions; and for a power of two two numbers cross a boundary exactly if they are in
  different blocks, also where the sum of offset and length wraps.
\<close>

theorem alignment_layers_agree:
  "linux_P2ROUNDUP x a = P2ROUNDUP x a \<and> user_P2ROUNDUP x a = P2ROUNDUP (x :: 'a::len word) a \<and>
   linux_P2ROUNDUP_TYPED x a = P2ROUNDUP_TYPED x a \<and> user_P2ROUNDUP_TYPED x a = P2ROUNDUP_TYPED x a \<and>
   (k < LENGTH('a) \<longrightarrow>
     (linux_P2CROSS x y (2 ^ k) \<longleftrightarrow> unat x div 2 ^ k \<noteq> unat y div 2 ^ k) \<and>
     (user_P2CROSS x y (2 ^ k) \<longleftrightarrow> linux_P2CROSS x y (2 ^ k)) \<and>
     (linux_P2BOUNDARY x len (2 ^ k) \<longleftrightarrow> linux_P2CROSS x (x + len - 1) (2 ^ k)) \<and>
     (linux_P2BOUNDARY x len (2 ^ k) \<longleftrightarrow> P2BOUNDARY x len (2 ^ k)))"
  by (intro conjI impI; (rule P2CROSS_iff)?)
    (simp_all only: linux_P2ROUNDUP_def user_P2ROUNDUP_def P2ROUNDUP_def linux_P2ROUNDUP_TYPED_def user_P2ROUNDUP_TYPED_def
      P2ROUNDUP_TYPED_def roundup_forms user_P2CROSS_def linux_P2CROSS_def linux_P2BOUNDARY_def P2BOUNDARY_def)

theorem alignment_layers_agree_witness:
  "linux_P2CROSS (0x1234 :: u32) 0x1300 (2 ^ 8) \<and> linux_P2ROUNDUP (0x1234 :: u32) 0x100 = 0x1300"
  using alignment_layers_agree [where x = "0x1234 :: u32" and a = "0x100" and k = 8 and y = "0x1300"] by (simp add: linux_P2ROUNDUP_def)

section \<open>The highest bit\<close>

text \<open>
  In the Linux kernel \<open>highbit\<close> is the kernel's \<open>__fls\<close>, which numbers bits from 0 and has no
  meaning at 0, and \<open>highbit64\<close> is \<open>fls64\<close>, which numbers from 1. Both are parameters.
\<close>

definition linux_highbit :: "(u64 \<Rightarrow> nat) \<Rightarrow> u64 \<Rightarrow> nat" where "linux_highbit fls x = fls x"
definition linux_highbit64 :: "(u64 \<Rightarrow> nat) \<Rightarrow> u64 \<Rightarrow> nat" where "linux_highbit64 fls64 x = fls64 x"

definition fls_contract :: "(u64 \<Rightarrow> nat) \<Rightarrow> (u64 \<Rightarrow> nat) \<Rightarrow> bool" where
  "fls_contract fls fls64 \<longleftrightarrow> fls64 0 = 0 \<and>
     (\<forall>x. x \<noteq> 0 \<longrightarrow> bit x (fls x) \<and> (\<forall>i > fls x. \<not> bit x i) \<and> fls64 x = Suc (fls x))"

lemma highbit_layers:
  assumes "fls_contract fls fls64"
  shows "linux_highbit64 fls64 x = highbit64 x" "x \<noteq> 0 \<Longrightarrow> highbit x = Suc (linux_highbit fls x)"
proof -
  have "x \<noteq> 0 \<Longrightarrow> highbit64 x = Suc (fls x)"
    using assms by (intro highbit64_unique) (simp_all add: fls_contract_def)
  then show "linux_highbit64 fls64 x = highbit64 x" "x \<noteq> 0 \<Longrightarrow> highbit x = Suc (linux_highbit fls x)"
    using assms by (cases "x = 0"; simp add: linux_highbit64_def linux_highbit_def fls_contract_def highbit_def highbit64_def)+
qed

section \<open>Priorities\<close>

definition NICE_TO_PRIO :: "int \<Rightarrow> int \<Rightarrow> int" where "NICE_TO_PRIO MAX_RT_PRIO nice = MAX_RT_PRIO + nice + 20"
definition PRIO_TO_NICE :: "int \<Rightarrow> int \<Rightarrow> int" where "PRIO_TO_NICE MAX_RT_PRIO prio = prio - MAX_RT_PRIO - 20"
definition wtqclsyspri :: "int \<Rightarrow> int" where "wtqclsyspri MAX_RT_PRIO = MAX_RT_PRIO + 1"
definition maxclsyspri :: "int \<Rightarrow> int" where "maxclsyspri MAX_RT_PRIO = MAX_RT_PRIO"
definition minclsyspri :: "int \<Rightarrow> int" where "minclsyspri MAX_PRIO = MAX_PRIO - 1"

lemma prio_roundtrip: "PRIO_TO_NICE r (NICE_TO_PRIO r n) = n" "NICE_TO_PRIO r (PRIO_TO_NICE r p) = p"
  by (simp_all add: PRIO_TO_NICE_def NICE_TO_PRIO_def)

section \<open>Disk blocks and device numbers\<close>

definition DEV_BSIZE :: u64 where "DEV_BSIZE = 512"
definition DEV_BSHIFT :: nat where "DEV_BSHIFT = 9"
definition dtob :: "u64 \<Rightarrow> u64" where "dtob DD = push_bit DEV_BSHIFT DD"
definition btod :: "u64 \<Rightarrow> u64" where "btod BB = drop_bit DEV_BSHIFT (BB + DEV_BSIZE - 1)"
definition btodt :: "u64 \<Rightarrow> u64" where "btodt BB = drop_bit DEV_BSHIFT BB"
definition lbtod :: "u64 \<Rightarrow> u64" where "lbtod BB = signed_drop_bit DEV_BSHIFT (BB + DEV_BSIZE - 1)"

definition linux_makedev :: "u32 \<Rightarrow> u32 \<Rightarrow> u64" where
  "linux_makedev major minor = ucast (push_bit 8 (major AND 0xFFF) OR (minor AND 0xFF))"

definition O_BITSMINOR :: nat where "O_BITSMINOR = 8"
definition O_MAXMAJ :: u64 where "O_MAXMAJ = 0x7f"
definition O_MAXMIN :: u64 where "O_MAXMIN = 0xff"
definition L_BITSMINOR32 :: nat where "L_BITSMINOR32 = 18"
definition L_MAXMAJ32 :: u64 where "L_MAXMAJ32 = 0x3fff"
definition L_MAXMIN32 :: u64 where "L_MAXMIN32 = 0x3ffff"
definition L_BITSMINOR :: nat where "L_BITSMINOR = 32"
definition L_MAXMIN :: u64 where "L_MAXMIN = 0xffffffff"

text \<open>
  The markers of no device and the kernel's way to put a number together are parameters; the old
  short number has a width that the repository does not define.
\<close>

record device_env =
  NODEV :: u64
  NODEV32 :: u32
  makedevice :: "u64 \<Rightarrow> u64 \<Rightarrow> u64"

definition DEVCMPL :: "device_env \<Rightarrow> u64 \<Rightarrow> u32" where
  "DEVCMPL E x = (if L_MAXMAJ32 < drop_bit L_BITSMINOR x \<or> L_MAXMIN32 < x AND L_MAXMIN then NODEV32 E
     else ucast (push_bit L_BITSMINOR32 (drop_bit L_BITSMINOR x) OR (x AND L_MAXMIN32)))"
definition DEVEXPL :: "device_env \<Rightarrow> u32 \<Rightarrow> u64" where
  "DEVEXPL E x = (if x = NODEV32 E then NODEV E
     else makedevice E (ucast (drop_bit L_BITSMINOR32 x) AND L_MAXMAJ32) (ucast x AND L_MAXMIN32))"
definition cmpdev :: "device_env \<Rightarrow> u64 \<Rightarrow> 'o::len word" where
  "cmpdev E x = ucast (if O_MAXMAJ < drop_bit L_BITSMINOR x \<or> O_MAXMIN < x AND L_MAXMIN then NODEV E
     else push_bit O_BITSMINOR (drop_bit L_BITSMINOR x) OR (x AND O_MAXMIN))"
definition expdev :: "'o::len word \<Rightarrow> u64" where
  "expdev x = push_bit L_BITSMINOR (ucast (drop_bit O_BITSMINOR x) AND O_MAXMAJ) OR (ucast x AND O_MAXMIN)"

definition device_contract :: "device_env \<Rightarrow> bool" where
  "device_contract E \<longleftrightarrow> NODEV32 E = - 1 \<and> (\<forall>maj min. min < 2 ^ 32 \<longrightarrow> makedevice E maj min = push_bit 32 maj OR min)"


lemma and_max32: "x AND 0xffffffff = take_bit 32 (x :: u64)" "x AND 0x3ffff = take_bit 18 x" "x AND 0x3fff = take_bit 14 x"
  "x AND 0xff = take_bit 8 x" "x AND 0x7f = take_bit 7 x"
  by (simp_all add: take_bit_eq_mask mask_eq_exp_minus_1)

lemma number_cases [consumes 0]:
  obtains "n < b" | "b \<le> n" "n < 32" | (high) j where "n = 32 + j" "j < a" | "32 + a \<le> (n :: nat)"
  using le_iff_add [of 32 n] by (metis linorder_not_less nat_add_left_cancel_less)

lemma parts_bits:
  assumes "unat (drop_bit 32 x) < 2 ^ a" "unat (take_bit 32 (x :: u64)) < 2 ^ b"
  shows "32 + a \<le> i \<Longrightarrow> \<not> bit x i" "b \<le> i \<Longrightarrow> i < 32 \<Longrightarrow> \<not> bit x i"
proof -
  have d: "drop_bit a (drop_bit 32 x) = 0" "drop_bit b (take_bit 32 x) = 0"
    using assms by (simp_all only: drop_bit_eq_0_word)
  show "\<not> bit x i" if "32 + a \<le> i"
    using arg_cong [OF d(1), of "\<lambda>w. bit w (i - (32 + a))"] that by (simp add: bit_simps)
  show "\<not> bit x i" if "b \<le> i" "i < 32"
    using arg_cong [OF d(2), of "\<lambda>w. bit w (i - b)"] that by (simp add: bit_simps)
qed

lemma DEVCMPL_fits:
  assumes "drop_bit 32 x \<le> L_MAXMAJ32" "x AND L_MAXMIN \<le> L_MAXMIN32"
  shows "DEVCMPL E x = ucast (push_bit 18 (drop_bit 32 x) OR take_bit 18 x)"
proof -
  have "\<not> (L_MAXMAJ32 < drop_bit L_BITSMINOR x \<or> L_MAXMIN32 < x AND L_MAXMIN)" using assms by (auto simp: L_BITSMINOR_def not_less)
  then show ?thesis by (simp only: DEVCMPL_def if_False L_BITSMINOR32_def) (simp add: L_BITSMINOR_def L_MAXMIN32_def and_max32)
qed

lemma cmpdev_fits:
  assumes "drop_bit 32 x \<le> O_MAXMAJ" "x AND L_MAXMIN \<le> O_MAXMIN"
  shows "cmpdev E x = ucast (push_bit 8 (drop_bit 32 x) OR take_bit 8 x)"
proof -
  have "\<not> (O_MAXMAJ < drop_bit L_BITSMINOR x \<or> O_MAXMIN < x AND L_MAXMIN)" using assms by (auto simp: L_BITSMINOR_def not_less)
  then show ?thesis by (simp only: cmpdev_def if_False O_BITSMINOR_def) (simp add: L_BITSMINOR_def O_MAXMIN_def and_max32)
qed

lemma compress_expand:
  assumes "device_contract E" "drop_bit 32 x \<le> L_MAXMAJ32" "x AND L_MAXMIN \<le> L_MAXMIN32" "DEVCMPL E x \<noteq> NODEV32 E"
  shows "DEVEXPL E (DEVCMPL E x) = x"
proof -
  have "unat (drop_bit 32 x) < 2 ^ 14" "unat (take_bit 32 x) < 2 ^ 18"
    using assms(2,3) by (simp_all add: word_le_nat_alt L_MAXMAJ32_def L_MAXMIN32_def L_MAXMIN_def and_max32)
  from parts_bits [OF this] have z: "\<not> bit x i" if "46 \<le> i \<or> 18 \<le> i \<and> i < 32" for i using that by auto
  have m: "(ucast c AND L_MAXMIN32 :: u64) < 2 ^ 32" for c :: u32
  proof -
    have "unat (take_bit 18 (ucast c :: u64)) < 2 ^ 18" by (simp only: unat_take_bit_word) simp
    then show ?thesis by (simp add: L_MAXMIN32_def and_max32 word_less_nat_alt)
  qed
  note c = DEVCMPL_fits [OF assms(2,3), of E]
  have "DEVEXPL E (DEVCMPL E x) = push_bit 32 (ucast (drop_bit 18 (DEVCMPL E x)) AND L_MAXMAJ32) OR (ucast (DEVCMPL E x) AND L_MAXMIN32)"
    using assms(1,4) m by (simp add: DEVEXPL_def device_contract_def L_BITSMINOR32_def)
  also have "\<dots> = x"
    unfolding c L_MAXMAJ32_def L_MAXMIN32_def and_max32
  proof (rule bit_word_eqI)
    fix n assume n: "n < LENGTH(64)"
    show "bit (push_bit 32 (take_bit 14 (ucast (drop_bit 18 (ucast (push_bit 18 (drop_bit 32 x) OR take_bit 18 x) :: u32)))) OR
        take_bit 18 (ucast (ucast (push_bit 18 (drop_bit 32 x) OR take_bit 18 x) :: u32)) :: u64) n \<longleftrightarrow> bit x n"
      by (cases rule: number_cases [where n = n and b = 18 and a = 14]) (use z n in \<open>auto simp: bit_simps\<close>)
  qed
  finally show ?thesis .
qed

lemma old_format:
  assumes "drop_bit 32 x \<le> O_MAXMAJ" "x AND L_MAXMIN \<le> O_MAXMIN" "15 \<le> LENGTH('o)"
  shows "expdev (cmpdev E x :: 'o::len word) = x"
proof -
  have "unat (drop_bit 32 x) < 2 ^ 7" "unat (take_bit 32 x) < 2 ^ 8"
    using assms(1,2) by (simp_all add: word_le_nat_alt O_MAXMAJ_def O_MAXMIN_def L_MAXMIN_def and_max32)
  from parts_bits [OF this] have z: "\<not> bit x i" if "39 \<le> i \<or> 8 \<le> i \<and> i < 32" for i using that by auto
  have c: "cmpdev E x = (ucast (push_bit 8 (drop_bit 32 x) OR take_bit 8 x) :: 'o word)"
    by (rule cmpdev_fits [OF assms(1,2)])
  show ?thesis
    unfolding expdev_def c L_BITSMINOR_def O_BITSMINOR_def O_MAXMAJ_def O_MAXMIN_def and_max32
  proof (rule bit_word_eqI)
    fix n assume n: "n < LENGTH(64)"
    show "bit (push_bit 32 (take_bit 7 (ucast (drop_bit 8 (ucast (push_bit 8 (drop_bit 32 x) OR take_bit 8 x) :: 'o word)))) OR
        take_bit 8 (ucast (ucast (push_bit 8 (drop_bit 32 x) OR take_bit 8 x) :: 'o word)) :: u64) n \<longleftrightarrow> bit x n"
      by (cases rule: number_cases [where n = n and b = 8 and a = 7]) (use z n assms(3) in \<open>auto simp: bit_simps\<close>)
  qed
qed

text \<open>
  A device number whose major and minor numbers fit is the same after it was compressed to 32
  bits, or to the old format, and expanded; one that does not fit is compressed to the marker of no
  device and expands to it. There is one number that fits and is lost: the largest one looks like
  the marker.
\<close>

theorem device_numbers:
  assumes "device_contract E"
  shows "(drop_bit 32 x \<le> L_MAXMAJ32 \<and> x AND L_MAXMIN \<le> L_MAXMIN32 \<and> x \<noteq> 0x3fff0003ffff \<longrightarrow>
      DEVEXPL E (DEVCMPL E x) = x) \<and>
    (\<not> (drop_bit 32 x \<le> L_MAXMAJ32 \<and> x AND L_MAXMIN \<le> L_MAXMIN32) \<longrightarrow>
      DEVCMPL E x = NODEV32 E \<and> DEVEXPL E (DEVCMPL E x) = NODEV E) \<and>
    DEVEXPL E (DEVCMPL E 0x3fff0003ffff) = NODEV E \<and>
    (drop_bit 32 x \<le> O_MAXMAJ \<and> x AND L_MAXMIN \<le> O_MAXMIN \<longrightarrow> expdev (cmpdev E x :: u16) = x)"
proof (intro conjI impI; (elim conjE)?)
  show "DEVEXPL E (DEVCMPL E x) = x"
    if x: "drop_bit 32 x \<le> L_MAXMAJ32" "x AND L_MAXMIN \<le> L_MAXMIN32" "x \<noteq> 0x3fff0003ffff"
  proof (rule compress_expand [OF assms x(1,2)], rule notI)
    assume "DEVCMPL E x = NODEV32 E"
    then have e: "ucast (push_bit 18 (drop_bit 32 x) OR take_bit 18 x) = (- 1 :: u32)"
      using DEVCMPL_fits [OF x(1,2), of E] assms by (simp add: device_contract_def)
    have b: "i < 18 \<and> bit x i \<or> 18 \<le> i \<and> bit x (i + 14)" if "i < 32" for i
      using arg_cong [OF e, of "\<lambda>w. bit w i"] that by (auto simp: bit_simps add.commute)
    have "unat (drop_bit 32 x) < 2 ^ 14" "unat (take_bit 32 x) < 2 ^ 18"
      using x(1,2) by (simp_all add: word_le_nat_alt L_MAXMAJ32_def L_MAXMIN32_def L_MAXMIN_def and_max32)
    from parts_bits [OF this] have z: "\<not> bit x i" if "46 \<le> i \<or> 18 \<le> i \<and> i < 32" for i using that by auto
    have m: "(0x3fff0003ffff :: u64) = push_bit 32 (mask 14) OR mask 18" by (simp add: mask_eq_exp_minus_1)
    have "x = 0x3fff0003ffff"
    proof (rule bit_word_eqI, unfold m)
      fix i assume "i < LENGTH(64)"
      have "bit x i" if "32 \<le> i" "i < 46"
      proof -
        have "i - 14 < 32" using that by arith
        from b [OF this] that show ?thesis by auto
      qed
      moreover have "bit x i" if "i < 18" using b [of i] that by simp
      ultimately show "bit x i \<longleftrightarrow> bit (push_bit 32 (mask 14) OR mask 18 :: u64) i"
        by (cases rule: number_cases [where n = i and b = 18 and a = 14]) (use z [of i] in \<open>auto simp: bit_simps\<close>)
    qed
    with x(3) show False ..
  qed
  show "DEVCMPL E x = NODEV32 E" "DEVEXPL E (DEVCMPL E x) = NODEV E"
    if "\<not> (drop_bit 32 x \<le> L_MAXMAJ32 \<and> x AND L_MAXMIN \<le> L_MAXMIN32)"
    using that by (auto simp: DEVCMPL_def DEVEXPL_def L_BITSMINOR_def not_le)
  show "DEVEXPL E (DEVCMPL E 0x3fff0003ffff) = NODEV E"
    using assms by (simp add: DEVCMPL_def DEVEXPL_def device_contract_def L_BITSMINOR_def L_BITSMINOR32_def
      L_MAXMAJ32_def L_MAXMIN32_def L_MAXMIN_def)
  show "expdev (cmpdev E x :: u16) = x" if "drop_bit 32 x \<le> O_MAXMAJ" "x AND L_MAXMIN \<le> O_MAXMIN"
    by (rule old_format [OF that]) simp
qed

definition demo_devices :: device_env where
  "demo_devices = \<lparr>NODEV = - 1, NODEV32 = - 1, makedevice = (\<lambda>maj min. push_bit 32 maj OR min)\<rparr>"

theorem device_numbers_witness: "DEVEXPL demo_devices (DEVCMPL demo_devices 0x500000007) = 0x500000007"
  using device_numbers [of demo_devices "0x500000007"]
  by (simp add: device_contract_def demo_devices_def L_MAXMAJ32_def L_MAXMIN32_def L_MAXMIN_def)

section \<open>Disk blocks\<close>

lemma blocks_of_bytes:
  assumes "unat BB + 511 < 2 ^ 63"
  shows "unat (btod BB) = (unat BB + 511) div 512" "unat (btodt BB) = unat BB div 512" "lbtod BB = btod BB"
proof -
  have "unat (BB + 511) = unat BB + 511" using assms by (simp add: unat_word_ariths)
  moreover have "BB + DEV_BSIZE - 1 = BB + 511" by (simp add: DEV_BSIZE_def)
  ultimately have s: "unat (BB + DEV_BSIZE - 1) = unat BB + 511" by (simp only:)
  show "unat (btod BB) = (unat BB + 511) div 512" by (simp add: btod_def unat_drop_bit_word s DEV_BSHIFT_def)
  show "unat (btodt BB) = unat BB div 512" by (simp add: btodt_def unat_drop_bit_word DEV_BSHIFT_def)
  have "\<not> bit (BB + DEV_BSIZE - 1) 63"
    using bit_unat_ge [of "BB + DEV_BSIZE - 1" 63] s assms by auto
  then show "lbtod BB = btod BB"
    unfolding lbtod_def btod_def by (intro bit_word_eqI) (auto simp: bit_simps DEV_BSHIFT_def dest: bit_imp_le_length)
qed

lemma block_roundtrip:
  assumes "unat DD < 2 ^ 54"
  shows "btod (dtob DD) = DD" "btodt (dtob DD) = DD"
proof -
  have u: "unat (dtob DD) = unat DD * 512"
    using assms by (simp add: dtob_def DEV_BSHIFT_def unat_push_bit_word)
  then show "btod (dtob DD) = DD" "btodt (dtob DD) = DD"
    using blocks_of_bytes [of "dtob DD"] assms by (simp_all add: word_unat_eq_iff)
qed

end
