(* ===== verification/Nvpair.thy ===== *)
theory Nvpair
  imports Zfs_Enums Sysmacros_Linux
begin

unbundle bit_operations_syntax

text \<open>
  Name and value pairs (\<open>sys/nvpair.h\<close>, \<open>sys/nvpair_impl.h\<close>): the structures, the data types and
  the macros that find the parts of a pair. A pair is one piece of memory: the header, the name and
  the aligned value; the functions that build lists of pairs are prototypes.
\<close>

section \<open>Data types and structures\<close>

text \<open>The last enumerator exists in user space only.\<close>

definition data_type_t :: "bool \<Rightarrow> enum" where
  "data_type_t user = [
     (''DATA_TYPE_DONTCARE'', Is (- 1)), (''DATA_TYPE_UNKNOWN'', Is 0),
     (''DATA_TYPE_BOOLEAN'', Next), (''DATA_TYPE_BYTE'', Next), (''DATA_TYPE_INT16'', Next),
     (''DATA_TYPE_UINT16'', Next), (''DATA_TYPE_INT32'', Next), (''DATA_TYPE_UINT32'', Next),
     (''DATA_TYPE_INT64'', Next), (''DATA_TYPE_UINT64'', Next), (''DATA_TYPE_STRING'', Next),
     (''DATA_TYPE_BYTE_ARRAY'', Next), (''DATA_TYPE_INT16_ARRAY'', Next), (''DATA_TYPE_UINT16_ARRAY'', Next),
     (''DATA_TYPE_INT32_ARRAY'', Next), (''DATA_TYPE_UINT32_ARRAY'', Next), (''DATA_TYPE_INT64_ARRAY'', Next),
     (''DATA_TYPE_UINT64_ARRAY'', Next), (''DATA_TYPE_STRING_ARRAY'', Next), (''DATA_TYPE_HRTIME'', Next),
     (''DATA_TYPE_NVLIST'', Next), (''DATA_TYPE_NVLIST_ARRAY'', Next), (''DATA_TYPE_BOOLEAN_VALUE'', Next),
     (''DATA_TYPE_INT8'', Next), (''DATA_TYPE_UINT8'', Next), (''DATA_TYPE_BOOLEAN_ARRAY'', Next),
     (''DATA_TYPE_INT8_ARRAY'', Next), (''DATA_TYPE_UINT8_ARRAY'', Next)] @
     (if user then [(''DATA_TYPE_DOUBLE'', Next)] else [])"

text \<open>The name is a flexible array member: it has an offset and no size.\<close>

definition c_nvpair :: ctype where
  "c_nvpair = CStruct [(''nvp_size'', c_u32), (''nvp_name_sz'', c_u16), (''nvp_reserve'', c_u16),
     (''nvp_value_elem'', c_u32), (''nvp_type'', c_u32), (''nvp_name'', CArray 0 c_u8)]"

definition c_nvlist :: ctype where
  "c_nvlist = CStruct [(''nvl_version'', c_u32), (''nvl_nvflag'', c_u32), (''nvl_priv'', c_u64),
     (''nvl_flag'', c_u32), (''nvl_pad'', c_u32)]"

text \<open>In memory a pair follows the links of its list; \<open>p\<close> is the size of a pointer.\<close>

definition c_i_nvp :: "nat \<Rightarrow> ctype" where
  "c_i_nvp p = CStruct [(''_nvi_un'', CUnion [(''_nvi_align'', c_u64),
      (''_nvi'', CStruct [(''_nvi_next'', CInt p), (''_nvi_prev'', CInt p), (''_nvi_hashtable_next'', CInt p)])]),
     (''nvi_nvp'', c_nvpair)]"

definition c_nvpriv :: "nat \<Rightarrow> ctype" where
  "c_nvpriv p = CStruct [(''nvp_list'', CInt p), (''nvp_last'', CInt p), (''nvp_curr'', CInt p), (''nvp_nva'', CInt p),
     (''nvp_stat'', c_u32), (''nvp_hashtable'', CInt p), (''nvp_nbuckets'', c_u32), (''nvp_nentries'', c_u32)]"

definition NV_VERSION :: u32 where "NV_VERSION = 0"
definition NV_ENCODE_NATIVE :: int where "NV_ENCODE_NATIVE = 0"
definition NV_ENCODE_XDR :: int where "NV_ENCODE_XDR = 1"
definition NV_UNIQUE_NAME :: u32 where "NV_UNIQUE_NAME = 0x1"
definition NV_UNIQUE_NAME_TYPE :: u32 where "NV_UNIQUE_NAME_TYPE = 0x2"
definition NV_FLAG_NOENTOK :: int where "NV_FLAG_NOENTOK = 0x1"

section \<open>The parts of a pair\<close>

definition NV_ALIGN :: "u64 \<Rightarrow> u64" where "NV_ALIGN x = (x + 7) AND NOT 7"
definition NV_ALIGN4 :: "u32 \<Rightarrow> u32" where "NV_ALIGN4 x = (x + 3) AND NOT 3"

record nvpair =
  nvp_size :: u32
  nvp_name_sz :: u16
  nvp_value_elem :: u32
  nvp_type :: int

definition sizeof_nvpair :: nat where "sizeof_nvpair = size_of 8 c_nvpair"

definition NVP_SIZE :: "nvpair \<Rightarrow> u32" where "NVP_SIZE nvp = nvp_size nvp"
definition NVP_NAME :: "u64 \<Rightarrow> u64" where "NVP_NAME nvp = nvp + of_nat sizeof_nvpair"
definition NVP_TYPE :: "nvpair \<Rightarrow> int" where "NVP_TYPE nvp = nvp_type nvp"
definition NVP_NELEM :: "nvpair \<Rightarrow> u32" where "NVP_NELEM nvp = nvp_value_elem nvp"
definition NVP_VALUE :: "u64 \<Rightarrow> nvpair \<Rightarrow> u64" where
  "NVP_VALUE a nvp = a + NV_ALIGN (of_nat sizeof_nvpair + scast (nvp_name_sz nvp))"

record nvlist =
  nvl_version :: u32
  nvl_flag :: u32

definition NVL_VERSION :: "nvlist \<Rightarrow> u32" where "NVL_VERSION nvl = nvl_version nvl"
definition NVL_FLAG :: "nvlist \<Rightarrow> u32" where "NVL_FLAG nvl = nvl_flag nvl"

lemma sizeof_nvpair: "sizeof_nvpair = 16" by code_simp

lemma take_bit_add_exp: "take_bit k (y + 2 ^ k) = take_bit k (y :: 'a::len word)"
proof -
  have i: "take_bit m (z + 2 ^ k) = take_bit m z" if "m \<le> k" for m and z :: int
  proof -
    have "take_bit m (z + 2 ^ k) = take_bit m (take_bit m z + take_bit m (2 ^ k))" by (rule take_bit_add [symmetric])
    also have "take_bit m (2 ^ k :: int) = 0" using that by (simp add: take_bit_eq_mod le_imp_power_dvd)
    finally show ?thesis by simp
  qed
  show ?thesis by (transfer fixing: k) (simp add: i)
qed

text \<open>A third way to round up: add the mask and clear the low bits.\<close>

lemma add_mask_roundup: "(x + mask k) AND NOT (mask k) = P2ROUNDUP (x :: 'a::len word) (2 ^ k)"
proof -
  have e: "- x = NOT (x + mask k) + 2 ^ k" unfolding not_eq_complement mask_eq_exp_minus_1 by simp
  have "take_bit k (- x) = take_bit k (NOT (x + mask k))" unfolding e by (rule take_bit_add_exp)
  then have c: "take_bit k (- x) = mask k - take_bit k (x + mask k)" by (simp only: take_bit_not_word)
  have "(x + mask k) AND NOT (mask k) = (x + mask k) - take_bit k (x + mask k)"
    using P2ALIGN_eq_minus [of "x + mask k" k] by (simp only: P2ALIGN_mask)
  also have "\<dots> = x + take_bit k (- x)" unfolding c by simp
  finally show ?thesis by (simp only: P2ROUNDUP_eq P2NPHASE_mask)
qed

lemma NV_ALIGN_roundup: "NV_ALIGN x = P2ROUNDUP x (2 ^ 3)" "NV_ALIGN4 y = P2ROUNDUP y (2 ^ 2)"
proof -
  have m: "(7 :: u64) = mask 3" "(3 :: u32) = mask 2" by (simp_all add: mask_eq_exp_minus_1)
  show "NV_ALIGN x = P2ROUNDUP x (2 ^ 3)" unfolding NV_ALIGN_def m by (rule add_mask_roundup)
  show "NV_ALIGN4 y = P2ROUNDUP y (2 ^ 2)" unfolding NV_ALIGN4_def m by (rule add_mask_roundup)
qed

lemma NV_ALIGN_nat:
  assumes "unat x < 2 ^ 63"
  shows "unat x \<le> unat (NV_ALIGN x)" "unat (NV_ALIGN x) < unat x + 8" "8 dvd unat (NV_ALIGN x)"
proof -
  have e: "unat (NV_ALIGN x) = unat x + unat (P2NPHASE x (2 ^ 3))"
    unfolding NV_ALIGN_roundup by (rule P2ROUNDUP_nat) (use assms in simp_all)
  show "unat x \<le> unat (NV_ALIGN x)" by (simp only: e le_add1)
  show "unat (NV_ALIGN x) < unat x + 8" using P2NPHASE_less [of 3 x] by (simp add: e)
  show "8 dvd unat (NV_ALIGN x)" using P2NPHASE_complement [of 3 x] by (simp add: e)
qed

text \<open>
  C36. The value of a pair is at the first multiple of 8 after its name, whatever the length of the
  name is: the header, the name and the value never overlap and fewer than 8 bytes are lost between
  them. Both structures are laid out without gaps and alike on all hosts, and in memory the pair
  that follows the links of the list is aligned, so its value is.
\<close>

theorem nvpair_parts:
  assumes "8 dvd unat a" "unat a + 2 ^ 16 \<le> 2 ^ 64" "0 \<le> sint (nvp_name_sz nvp)"
  shows "8 dvd unat (NVP_VALUE a nvp) \<and>
    unat (NVP_NAME a) = unat a + size_of 8 c_nvpair \<and>
    unat (NVP_NAME a) + unat (nvp_name_sz nvp) \<le> unat (NVP_VALUE a nvp) \<and>
    unat (NVP_VALUE a nvp) < unat (NVP_NAME a) + unat (nvp_name_sz nvp) + 8 \<and>
    no_padding 8 c_nvpair \<and> portable c_nvpair \<and> no_padding 8 c_nvlist \<and> portable c_nvlist \<and>
    map_of (offsets 8 0 (members (c_i_nvp 8))) ''nvi_nvp'' = Some 24 \<and>
    (\<exists>n. map_of (offsets 4 0 (members (c_i_nvp 4))) ''nvi_nvp'' = Some n \<and> 4 dvd n)"
proof -
  let ?n = "unat (nvp_name_sz nvp)"
  have u: "sint (nvp_name_sz nvp) = int ?n" "?n < 2 ^ 15"
    using nonnegative_unat [OF assms(3)] by simp_all
  let ?h = "of_nat sizeof_nvpair + scast (nvp_name_sz nvp) :: u64"
  have "unat (scast (nvp_name_sz nvp) :: u64) = ?n"
    using u(2) by (simp only: scast_eq u(1) of_int_of_nat_eq unat_of_nat) simp
  then have h: "unat ?h = 16 + ?n" using u(2) by (simp add: sizeof_nvpair unat_word_ariths)
  have v: "16 + ?n \<le> unat (NV_ALIGN ?h)" "unat (NV_ALIGN ?h) < 16 + ?n + 8" "8 dvd unat (NV_ALIGN ?h)"
    using NV_ALIGN_nat [of ?h] u(2) unfolding h by simp_all
  have val: "unat (NVP_VALUE a nvp) = unat a + unat (NV_ALIGN ?h)"
    using assms(2) v(2) u(2) by (simp add: NVP_VALUE_def unat_word_ariths)
  have nam: "unat (NVP_NAME a) = unat a + 16"
    using assms(2) by (simp add: NVP_NAME_def sizeof_nvpair unat_word_ariths)
  have sz: "size_of 8 c_nvpair = 16" using sizeof_nvpair by (simp add: sizeof_nvpair_def)
  show ?thesis
  proof (intro conjI)
    show "8 dvd unat (NVP_VALUE a nvp)" using assms(1) v(3) by (simp only: val dvd_add)
    show "unat (NVP_NAME a) = unat a + size_of 8 c_nvpair" by (simp only: nam sz)
    show "unat (NVP_NAME a) + ?n \<le> unat (NVP_VALUE a nvp)" using v(1) by (simp only: nam val)
    show "unat (NVP_VALUE a nvp) < unat (NVP_NAME a) + ?n + 8" using v(2) by (simp only: nam val)
    show "no_padding 8 c_nvpair" "portable c_nvpair" "no_padding 8 c_nvlist" "portable c_nvlist" by code_simp+
    show "map_of (offsets 8 0 (members (c_i_nvp 8))) ''nvi_nvp'' = Some 24" by code_simp
    show "\<exists>n. map_of (offsets 4 0 (members (c_i_nvp 4))) ''nvi_nvp'' = Some n \<and> 4 dvd n"
      by (rule exI [of _ 12], code_simp)
  qed
qed

theorem nvpair_parts_witness:
  "unat (NVP_VALUE 0x1000 \<lparr>nvp_size = 32, nvp_name_sz = 5, nvp_value_elem = 1, nvp_type = 8\<rparr>) = 0x1018"
proof -
  let ?p = "\<lparr>nvp_size = 32, nvp_name_sz = 5, nvp_value_elem = 1, nvp_type = 8\<rparr>"
  have "8 dvd unat (NVP_VALUE 0x1000 ?p)" "0x1010 + 5 \<le> unat (NVP_VALUE 0x1000 ?p)" "unat (NVP_VALUE 0x1000 ?p) < 0x1010 + 13"
    using nvpair_parts [of "0x1000" ?p] sizeof_nvpair by (simp_all add: sizeof_nvpair_def)
  then show ?thesis by presburger
qed

section \<open>The types\<close>

text \<open>The types are numbered without a gap, and the two builds agree on all that both have.\<close>

lemma data_types:
  "enum_values (data_type_t user) = Some (zip (map fst (data_type_t user)) [- 1..int (length (data_type_t user)) - 2])"
  by (cases user) (simp_all only: data_type_t_def if_True if_False; code_simp)+

lemma data_types_shared: "prefix (data_type_t False) (data_type_t True)"
  by (simp add: data_type_t_def)

end
