(* ===== verification/Uio_Layers.thy ===== *)
theory Uio_Layers
  imports Spl_Uio
begin

unbundle bit_operations_syntax

text \<open>
  I/O descriptors of user space (\<open>compat/spl/sys/uio.h\<close>) and of FreeBSD
  (\<open>os/freebsd/spl/sys/uio.h\<close>), and how they agree with those of Linux (\<open>Spl_Uio\<close>). In user space
  the descriptor holds the array of buffers itself; on FreeBSD it points to the descriptor of the
  kernel.
\<close>

section \<open>User space\<close>

record user_uio =
  u_iov :: "(u64 \<times> u64) list"
  u_iovcnt :: u32
  u_loffset :: u64
  u_fmode :: u16
  u_extflg :: u16
  u_resid :: u64

definition user_zfs_dio_page_aligned :: "u64 \<Rightarrow> u64 \<Rightarrow> bool" where
  "user_zfs_dio_page_aligned pagesize buf \<longleftrightarrow> buf AND (pagesize - 1) = 0"

definition user_zfs_dio_offset_aligned :: "u64 \<Rightarrow> u64 \<Rightarrow> bool" where
  "user_zfs_dio_offset_aligned offset blksz \<longleftrightarrow> IS_P2ALIGNED offset blksz"

definition user_zfs_dio_size_aligned :: "u64 \<Rightarrow> u64 \<Rightarrow> bool option" where
  "user_zfs_dio_size_aligned sz blksz = (if blksz = 0 then None else Some (sz mod blksz = 0))"

definition user_zfs_dio_aligned :: "u64 \<Rightarrow> u64 \<Rightarrow> u64 \<Rightarrow> bool option" where
  "user_zfs_dio_aligned offset sz blksz =
    (if user_zfs_dio_offset_aligned offset blksz then user_zfs_dio_size_aligned sz blksz else Some False)"

definition user_zfs_uio_iov_at_index :: "user_uio \<Rightarrow> u32 \<Rightarrow> (u64 \<times> u64) option" where
  "user_zfs_uio_iov_at_index uio idx =
    (if unat idx < length (u_iov uio) then Some (u_iov uio ! unat idx) else None)"

definition user_zfs_uio_advance :: "user_uio \<Rightarrow> u64 \<Rightarrow> user_uio" where
  "user_zfs_uio_advance uio sz = uio\<lparr>u_resid := u_resid uio - sz, u_loffset := u_loffset uio + sz\<rparr>"

text \<open>
  The loop compares the offset and the length as signed numbers, where the kernel's loop compares
  them as unsigned ones.
\<close>

function user_index_loop :: "user_uio \<Rightarrow> u64 \<Rightarrow> nat \<Rightarrow> (u64 \<times> nat) option" where
  "user_index_loop uio off i =
    (if i < unat (u_iovcnt uio) then
       (case user_zfs_uio_iov_at_index uio (of_nat i) of None \<Rightarrow> None
        | Some (base, len) \<Rightarrow> if sint len \<le> sint off then user_index_loop uio (off - len) (Suc i) else Some (off, i))
     else Some (off, i))"
  by pat_completeness auto
termination by (relation "measure (\<lambda>(uio, off, i). unat (u_iovcnt uio) - i)") auto

declare user_index_loop.simps [simp del]

definition user_zfs_uio_index_at_offset :: "user_uio \<Rightarrow> u64 \<Rightarrow> (u64 \<times> u32) option" where
  "user_zfs_uio_index_at_offset uio off = map_option (\<lambda>(off', i). (off', of_nat i)) (user_index_loop uio off 0)"

section \<open>FreeBSD\<close>

record bsd_uio =
  b_iov :: "(u64 \<times> u64) list"
  b_offset :: u64
  b_resid :: u64

text \<open>The pointer to the kernel's descriptor may be null; using it then has no meaning.\<close>

record bsd_zfs_uio =
  bz_uio :: "bsd_uio option"
  bz_soffset :: u64
  bz_extflg :: u16
  bz_pages :: u64
  bz_npages :: u32

definition bsd_zfs_uio_setoffset :: "bsd_zfs_uio \<Rightarrow> u64 \<Rightarrow> bsd_zfs_uio option" where
  "bsd_zfs_uio_setoffset uio off = do {
     u \<leftarrow> bz_uio uio;
     Some (uio\<lparr>bz_uio := Some (u\<lparr>b_offset := off\<rparr>)\<rparr>) }"

definition bsd_zfs_uio_setsoffset :: "bool \<Rightarrow> bsd_zfs_uio \<Rightarrow> u64 \<Rightarrow> bsd_zfs_uio option" where
  "bsd_zfs_uio_setsoffset nd uio off = do {
     (if nd then Some () else do { u \<leftarrow> bz_uio uio; ASSERT3U nd (b_offset u) (=) off });
     Some (uio\<lparr>bz_soffset := off\<rparr>) }"

definition bsd_zfs_uio_advance :: "bsd_zfs_uio \<Rightarrow> u64 \<Rightarrow> bsd_zfs_uio option" where
  "bsd_zfs_uio_advance uio sz = do {
     u \<leftarrow> bz_uio uio;
     Some (uio\<lparr>bz_uio := Some (u\<lparr>b_resid := b_resid u - sz, b_offset := b_offset u + sz\<rparr>)\<rparr>) }"

definition bsd_zfs_uio_init :: "bsd_uio option \<Rightarrow> bsd_zfs_uio" where
  "bsd_zfs_uio_init uio_s =
    (let uio = \<lparr>bz_uio = None, bz_soffset = 0, bz_extflg = 0, bz_pages = 0, bz_npages = 0\<rparr> in
     case uio_s of None \<Rightarrow> uio | Some u \<Rightarrow> uio\<lparr>bz_uio := Some u, bz_soffset := b_offset u\<rparr>)"

section \<open>Looking an offset up\<close>

text \<open>The descriptor of Linux over the same buffers.\<close>

definition as_linux :: "user_uio \<Rightarrow> zfs_uio_t" where
  "as_linux u = \<lparr>uio_vec = Iov (u_iov u), uio_iovcnt = u_iovcnt u, uio_soffset = u_loffset u, uio_loffset = u_loffset u,
     uio_segflg = UIO_SYSSPACE, uio_fault_disable = False, uio_fmode = u_fmode u, uio_extflg = u_extflg u,
     uio_resid = u_resid u, uio_skip = 0, uio_dio = no_dio, rq = 0\<rparr>"

lemma minus_nonnegative: "0 \<le> sint a \<Longrightarrow> 0 \<le> sint b \<Longrightarrow> sint a \<le> sint b \<Longrightarrow> 0 \<le> sint (b - a :: u64)"
  using sint_range_size [of a] sint_range_size [of b]
  by (simp add: sint_word_ariths signed_take_bit_int_eq_self word_size)

lemma user_loop_is_kernel_loop:
  assumes "\<forall>(b, l)\<in>set (u_iov u). 0 \<le> sint l" "0 \<le> sint off"
  shows "user_index_loop u off i = index_loop (as_linux u) off i"
  using assms
proof (induction u off i rule: user_index_loop.induct)
  case (1 u off i)
  have at: "zfs_uio_iov_at_index (as_linux u) (of_nat i) = user_zfs_uio_iov_at_index u (of_nat i)"
    by (simp add: zfs_uio_iov_at_index_def user_zfs_uio_iov_at_index_def as_linux_def)
  have cnt: "uio_iovcnt (as_linux u) = u_iovcnt u" by (simp add: as_linux_def)
  show ?case
  proof (cases "user_zfs_uio_iov_at_index u (of_nat i)")
    case None
    then show ?thesis by (subst user_index_loop.simps, subst index_loop.simps) (simp add: at cnt)
  next
    case (Some e)
    obtain base len where e: "e = (base, len)" by (cases e)
    have "(base, len) \<in> set (u_iov u)"
      using Some e by (auto simp: user_zfs_uio_iov_at_index_def split: if_splits) (metis nth_mem)
    then have l: "0 \<le> sint len" using 1(2) by auto
    have c: "sint len \<le> sint off \<longleftrightarrow> len \<le> off" by (rule nonnegative_le [OF l 1(3)])
    have "user_index_loop u (off - len) (Suc i) = index_loop (as_linux u) (off - len) (Suc i)"
      if "i < unat (u_iovcnt u)" "sint len \<le> sint off"
      using 1(1) [OF that(1) Some e [symmetric] that(2) 1(2)] minus_nonnegative [OF l 1(3) that(2)] by blast
    then show ?thesis
      by (subst user_index_loop.simps, subst index_loop.simps) (simp add: at cnt Some e c)
  qed
qed

text \<open>The kernel's loop over a negative offset passes every buffer whose length is a positive signed number.\<close>

lemma kernel_passes_first:
  assumes "sint off < 0" "0 \<le> sint len" "uio_vec k = Iov ((base, len) # v)" "0 < unat (uio_iovcnt k)"
  shows "index_loop k off 0 = index_loop k (off - len) 1"
proof -
  have "len \<le> off"
  proof -
    have "\<not> off < len"
    proof
      assume "off < len"
      then have "uint off < 2 ^ 63" using nonnegative_uint(2) [OF assms(2)] by (simp add: word_less_def)
      then have "take_bit 63 (uint off) = uint off" by (intro take_bit_int_eq_self) simp_all
      then have "\<not> bit (uint off) 63" by (metis bit_take_bit_iff less_irrefl)
      then have "0 \<le> sint off" by (simp add: sint_uint)
      with assms(1) show False by simp
    qed
    then show ?thesis by (simp add: not_less)
  qed
  moreover have "zfs_uio_iov_at_index k 0 = Some (base, len)" using assms(3) by (simp add: zfs_uio_iov_at_index_def)
  ultimately show ?thesis using assms(4) by (subst index_loop.simps) simp
qed

text \<open>
  C24. The loops of user space and of the kernel that look an offset up agree, errors included, when
  neither the offset nor a length is negative as a signed number, however many buffers the
  descriptor claims to have. For a negative offset they do not: user space stays at the first
  buffer, the kernel leaves it behind.
\<close>

theorem uio_lookup_agrees:
  assumes "\<forall>(b, l)\<in>set (u_iov u). 0 \<le> sint l"
  shows "(0 \<le> sint off \<longrightarrow> user_zfs_uio_index_at_offset u off = zfs_uio_index_at_offset (as_linux u) off) \<and>
    (sint off < 0 \<and> u_iov u = (b, l) # v \<and> u_iovcnt u \<noteq> 0 \<longrightarrow>
      user_zfs_uio_index_at_offset u off = Some (off, 0) \<and>
      index_loop (as_linux u) off 0 = index_loop (as_linux u) (off - l) 1)"
proof (intro conjI impI; (elim conjE)?)
  show "user_zfs_uio_index_at_offset u off = zfs_uio_index_at_offset (as_linux u) off" if "0 \<le> sint off"
    by (simp only: user_zfs_uio_index_at_offset_def zfs_uio_index_at_offset_def user_loop_is_kernel_loop [OF assms that])
  assume n: "sint off < 0" "u_iov u = (b, l) # v" "u_iovcnt u \<noteq> 0"
  have l: "0 \<le> sint l" using assms n(2) by simp
  have c: "0 < unat (u_iovcnt u)" using n(3) by (simp add: unat_gt_0)
  show "user_zfs_uio_index_at_offset u off = Some (off, 0)"
    using n l c by (simp add: user_zfs_uio_index_at_offset_def user_index_loop.simps [of u off 0] user_zfs_uio_iov_at_index_def)
  show "index_loop (as_linux u) off 0 = index_loop (as_linux u) (off - l) 1"
    by (rule kernel_passes_first [OF n(1) l]) (use n(2) c in \<open>simp_all add: as_linux_def\<close>)
qed

definition demo_user_uio :: user_uio where
  "demo_user_uio = \<lparr>u_iov = [(0x1000, 3), (0x2000, 0), (0x3000, 5)], u_iovcnt = 3, u_loffset = 0, u_fmode = 0, u_extflg = 0, u_resid = 8\<rparr>"

theorem uio_lookup_agrees_witness:
  "user_zfs_uio_index_at_offset demo_user_uio 4 = zfs_uio_index_at_offset (as_linux demo_user_uio) 4 \<and>
   user_zfs_uio_index_at_offset demo_user_uio (- 1) = Some (- 1, 0)"
  using uio_lookup_agrees [of demo_user_uio 4] uio_lookup_agrees [of demo_user_uio "- 1" "0x1000" 3 "[(0x2000, 0), (0x3000, 5)]"]
  by (simp add: demo_user_uio_def)

section \<open>Moving forward\<close>

text \<open>
  The place where the data ends - the offset plus what is left - stays, in all layers, whatever is
  moved in however many steps; and the start offset of FreeBSD stays where it was set.
\<close>

lemma user_advance_end:
  "u_loffset (fold (\<lambda>n u. user_zfs_uio_advance u n) ns u) + u_resid (fold (\<lambda>n u. user_zfs_uio_advance u n) ns u) = u_loffset u + u_resid u"
  by (induction ns arbitrary: u) (simp_all add: user_zfs_uio_advance_def)

lemma linux_advance_end:
  "uio_loffset (fold (\<lambda>n u. zfs_uio_advance u n) ns u) + uio_resid (fold (\<lambda>n u. zfs_uio_advance u n) ns u) = uio_loffset u + uio_resid u"
  by (induction ns arbitrary: u) (simp_all add: zfs_uio_advance_def)

fun bsd_advance_all :: "u64 list \<Rightarrow> bsd_zfs_uio \<Rightarrow> bsd_zfs_uio option" where
  "bsd_advance_all [] u = Some u"
| "bsd_advance_all (n # ns) u = do { u \<leftarrow> bsd_zfs_uio_advance u n; bsd_advance_all ns u }"

lemma bsd_advance_end:
  assumes "bz_uio u = Some k"
  shows "\<exists>u' k'. bsd_advance_all ns u = Some u' \<and> bz_uio u' = Some k' \<and> bz_soffset u' = bz_soffset u \<and>
    b_offset k' + b_resid k' = b_offset k + b_resid k \<and> b_offset k' = b_offset k + sum_list ns"
  using assms
proof (induction ns arbitrary: u k)
  case (Cons n ns)
  let ?k = "k\<lparr>b_resid := b_resid k - n, b_offset := b_offset k + n\<rparr>"
  have "bz_uio (u\<lparr>bz_uio := Some ?k\<rparr>) = Some ?k" by simp
  from Cons.IH [OF this] Cons.prems show ?case by (auto simp: bsd_zfs_uio_advance_def)
qed simp

text \<open>A descriptor that was initialised from the kernel's one starts at its offset; one without it cannot move.\<close>

lemma bsd_init:
  "bz_uio (bsd_zfs_uio_init k) = k" "k = Some v \<Longrightarrow> bz_soffset (bsd_zfs_uio_init k) = b_offset v"
  "bsd_zfs_uio_advance (bsd_zfs_uio_init None) n = None" "bsd_zfs_uio_setoffset (bsd_zfs_uio_init None) n = None"
  "k = Some v \<Longrightarrow> bsd_zfs_uio_setsoffset False (bsd_zfs_uio_init k) (b_offset v) = Some (bsd_zfs_uio_init k)"
  by (auto simp: bsd_zfs_uio_init_def bsd_zfs_uio_advance_def bsd_zfs_uio_setoffset_def bsd_zfs_uio_setsoffset_def
    ASSERT3U_def VERIFY3U_def Let_def split: option.splits)

end
