(* ===== verification/Simd_Ports.thy ===== *)
theory Simd_Ports
  imports Simd
begin

unbundle bit_operations_syntax

text \<open>
  Instruction set tests of the ARM and PowerPC kernels: \<open>simd_aarch64.h\<close>, \<open>simd_arm.h\<close> and
  \<open>simd_powerpc.h\<close> of Linux and FreeBSD. The identification registers and the words the kernel
  keeps about the processor are parameters. A test returns a word, which is true when it is not 0.
\<close>

section \<open>64-bit ARM\<close>

record a64_cpu =
  ID_AA64PFR0_EL1 :: u64
  ID_AA64ISAR0_EL1 :: u64

definition linux_a64_neon_available :: "a64_cpu \<Rightarrow> bool" where
  "linux_a64_neon_available c = (let ftr = drop_bit 16 (ID_AA64PFR0_EL1 c) AND 0xf in ftr = 0 \<or> ftr = 1)"
definition linux_a64_sha256_available :: "a64_cpu \<Rightarrow> u64" where
  "linux_a64_sha256_available c = (let ftr = drop_bit 12 (ID_AA64ISAR0_EL1 c) AND 0x3 in ftr AND 0x1)"
definition linux_a64_sha512_available :: "a64_cpu \<Rightarrow> u64" where
  "linux_a64_sha512_available c = (let ftr = drop_bit 12 (ID_AA64ISAR0_EL1 c) AND 0x3 in ftr AND 0x2)"

text \<open>The FreeBSD kernel and its names for the bits of its words.\<close>

record arm_kernel =
  elf_hwcap :: u64
  elf_hwcap2 :: u64
  K_HWCAP_FP :: u64
  K_HWCAP_SHA2 :: u64
  K_HWCAP_SHA512 :: u64
  K_HWCAP_NEON :: u64
  K_HWCAP2_SHA2 :: u64

definition freebsd_a64_neon_available :: "arm_kernel \<Rightarrow> u64" where
  "freebsd_a64_neon_available k = elf_hwcap k AND K_HWCAP_FP k"
definition freebsd_a64_sha256_available :: "arm_kernel \<Rightarrow> u64" where
  "freebsd_a64_sha256_available k = elf_hwcap k AND K_HWCAP_SHA2 k"
definition freebsd_a64_sha512_available :: "arm_kernel \<Rightarrow> u64" where
  "freebsd_a64_sha512_available k = elf_hwcap k AND K_HWCAP_SHA512 k"

section \<open>32-bit ARM\<close>

definition linux_arm_neon_available :: "arm_kernel \<Rightarrow> u64" where
  "linux_arm_neon_available k = elf_hwcap k AND K_HWCAP_NEON k"
definition linux_arm_sha256_available :: "arm_kernel \<Rightarrow> u64" where
  "linux_arm_sha256_available k = elf_hwcap2 k AND K_HWCAP2_SHA2 k"
definition freebsd_arm_neon_available :: "arm_kernel \<Rightarrow> u64" where
  "freebsd_arm_neon_available k = elf_hwcap k AND K_HWCAP_NEON k"
definition freebsd_arm_sha256_available :: "arm_kernel \<Rightarrow> u64" where
  "freebsd_arm_sha256_available k = elf_hwcap2 k AND K_HWCAP2_SHA2 k"

section \<open>PowerPC\<close>

datatype ppc_ftr = CPU_FTR_ALTIVEC | CPU_FTR_VSX | CPU_FTR_ARCH_207S

definition linux_altivec_available :: "(ppc_ftr \<Rightarrow> bool) \<Rightarrow> bool" where
  "linux_altivec_available cpu_has_feature = cpu_has_feature CPU_FTR_ALTIVEC"
definition linux_vsx_available :: "(ppc_ftr \<Rightarrow> bool) \<Rightarrow> bool" where
  "linux_vsx_available cpu_has_feature = cpu_has_feature CPU_FTR_VSX"
definition linux_isa207_available :: "(ppc_ftr \<Rightarrow> bool) \<Rightarrow> bool" where
  "linux_isa207_available cpu_has_feature = cpu_has_feature CPU_FTR_ARCH_207S"

record ppc_kernel =
  cpu_features :: u64
  cpu_features2 :: u64
  K_PPC_FEATURE_HAS_ALTIVEC :: u64
  K_PPC_FEATURE_HAS_VSX :: u64
  K_PPC_FEATURE2_ARCH_2_07 :: u64

definition freebsd_altivec_available :: "ppc_kernel \<Rightarrow> bool" where
  "freebsd_altivec_available k \<longleftrightarrow> cpu_features k AND K_PPC_FEATURE_HAS_ALTIVEC k \<noteq> 0"
definition freebsd_vsx_available :: "ppc_kernel \<Rightarrow> bool" where
  "freebsd_vsx_available k \<longleftrightarrow> cpu_features k AND K_PPC_FEATURE_HAS_VSX k \<noteq> 0"
definition freebsd_isa207_available :: "ppc_kernel \<Rightarrow> bool" where
  "freebsd_isa207_available k \<longleftrightarrow> cpu_features2 k AND K_PPC_FEATURE2_ARCH_2_07 k \<noteq> 0"

text \<open>
  A region that uses the vector registers of a Linux PowerPC kernel: the calls it makes at its
  start and at its end, in the configurations with and without each unit.
\<close>

datatype ppc_call = Preempt_disable | Preempt_enable
  | Enable_kernel_altivec | Disable_kernel_altivec | Enable_kernel_vsx | Disable_kernel_vsx
  | Enable_kernel_spe | Disable_kernel_spe

record ppc_config =
  CONFIG_ALTIVEC :: bool
  CONFIG_VSX :: bool
  CONFIG_SPE :: bool

definition ENABLE_KERNEL_ALTIVEC :: "ppc_config \<Rightarrow> ppc_call list" where
  "ENABLE_KERNEL_ALTIVEC c = (if CONFIG_ALTIVEC c then [Enable_kernel_altivec] else [])"
definition DISABLE_KERNEL_ALTIVEC :: "ppc_config \<Rightarrow> ppc_call list" where
  "DISABLE_KERNEL_ALTIVEC c = (if CONFIG_ALTIVEC c then [Disable_kernel_altivec] else [])"
definition ENABLE_KERNEL_VSX :: "ppc_config \<Rightarrow> ppc_call list" where
  "ENABLE_KERNEL_VSX c = (if CONFIG_VSX c then [Enable_kernel_vsx] else [])"
definition DISABLE_KERNEL_VSX :: "ppc_config \<Rightarrow> ppc_call list" where
  "DISABLE_KERNEL_VSX c = (if CONFIG_VSX c then [Disable_kernel_vsx] else [])"
definition ENABLE_KERNEL_SPE :: "ppc_config \<Rightarrow> ppc_call list" where
  "ENABLE_KERNEL_SPE c = (if CONFIG_SPE c then [Enable_kernel_spe] else [])"
definition DISABLE_KERNEL_SPE :: "ppc_config \<Rightarrow> ppc_call list" where
  "DISABLE_KERNEL_SPE c = (if CONFIG_SPE c then [Disable_kernel_spe] else [])"

definition ppc_kfpu_begin :: "ppc_config \<Rightarrow> ppc_call list" where
  "ppc_kfpu_begin c = [Preempt_disable] @ ENABLE_KERNEL_ALTIVEC c @ ENABLE_KERNEL_VSX c @ ENABLE_KERNEL_SPE c"
definition ppc_kfpu_end :: "ppc_config \<Rightarrow> ppc_call list" where
  "ppc_kfpu_end c = DISABLE_KERNEL_SPE c @ DISABLE_KERNEL_VSX c @ DISABLE_KERNEL_ALTIVEC c @ [Preempt_enable]"

text \<open>The call that undoes a call.\<close>

fun undo :: "ppc_call \<Rightarrow> ppc_call" where
  "undo Preempt_disable = Preempt_enable"
| "undo Enable_kernel_altivec = Disable_kernel_altivec"
| "undo Enable_kernel_vsx = Disable_kernel_vsx"
| "undo Enable_kernel_spe = Disable_kernel_spe"
| "undo c = c"

lemma ppc_region_nests: "ppc_kfpu_end c = rev (map undo (ppc_kfpu_begin c))"
  by (simp add: ppc_kfpu_begin_def ppc_kfpu_end_def ENABLE_KERNEL_ALTIVEC_def ENABLE_KERNEL_VSX_def ENABLE_KERNEL_SPE_def
    DISABLE_KERNEL_ALTIVEC_def DISABLE_KERNEL_VSX_def DISABLE_KERNEL_SPE_def)

section \<open>What the tests say about a 64-bit ARM processor\<close>

datatype sha2_level = No_sha2 | Sha256_only | Sha256_and_512

fun sha2_field :: "sha2_level \<Rightarrow> u64" where
  "sha2_field No_sha2 = 0" | "sha2_field Sha256_only = 1" | "sha2_field Sha256_and_512 = 2"

text \<open>
  The architecture's identification fields, and the bits the kernels publish: floating point is 0 or
  1 when it is there and all ones when it is not; the field of the hash instructions counts up.
\<close>

definition a64_contract :: "bool \<Rightarrow> sha2_level \<Rightarrow> a64_cpu \<Rightarrow> arm_kernel \<Rightarrow> cpu \<Rightarrow> bool" where
  "a64_contract fp sha2 c k u \<longleftrightarrow>
     (if fp then drop_bit 16 (ID_AA64PFR0_EL1 c) AND 0xf \<in> {0, 1} else drop_bit 16 (ID_AA64PFR0_EL1 c) AND 0xf = 0xf) \<and>
     drop_bit 12 (ID_AA64ISAR0_EL1 c) AND 0xf = sha2_field sha2 \<and>
     (elf_hwcap k AND K_HWCAP_FP k \<noteq> 0 \<longleftrightarrow> fp) \<and>
     (elf_hwcap k AND K_HWCAP_SHA2 k \<noteq> 0 \<longleftrightarrow> sha2 \<noteq> No_sha2) \<and>
     (elf_hwcap k AND K_HWCAP_SHA512 k \<noteq> 0 \<longleftrightarrow> sha2 = Sha256_and_512) \<and>
     (auxval u AT_HWCAP AND HWCAP_FP \<noteq> 0 \<longleftrightarrow> fp) \<and>
     (auxval u AT_HWCAP AND HWCAP_SHA2 \<noteq> 0 \<longleftrightarrow> sha2 \<noteq> No_sha2) \<and>
     (auxval u AT_HWCAP AND HWCAP_SHA512 \<noteq> 0 \<longleftrightarrow> sha2 = Sha256_and_512)"

lemma low_two: "(x AND 3) AND 1 = (x AND 15) AND (1 :: u64)" "(x AND 3) AND 2 = (x AND 15) AND (2 :: u64)"
proof -
  have "(3 :: u64) AND 1 = 15 AND 1" "(3 :: u64) AND 2 = 15 AND 2" by code_simp+
  then show "(x AND 3) AND 1 = (x AND 15) AND (1 :: u64)" "(x AND 3) AND 2 = (x AND 15) AND (2 :: u64)"
    by (simp_all only: and.assoc)
qed

text \<open>
  On a 64-bit ARM processor the tests of both kernels and of user space for the vector unit and
  for the SHA-512 instructions say what the processor has, and so do the FreeBSD and user-space
  tests for SHA-256. The Linux kernel's test for SHA-256 looks at the lowest bit of a field that
  counts, so it denies the SHA-256 instructions exactly on the processors that have SHA-512 too.
\<close>

theorem arm_tests:
  assumes "a64_contract fp sha2 c k u"
  shows "(linux_a64_neon_available c \<longleftrightarrow> fp) \<and> (freebsd_a64_neon_available k \<noteq> 0 \<longleftrightarrow> fp) \<and>
    (aarch64_neon_available u \<noteq> 0 \<longleftrightarrow> fp) \<and>
    (linux_a64_sha512_available c \<noteq> 0 \<longleftrightarrow> sha2 = Sha256_and_512) \<and>
    (freebsd_a64_sha512_available k \<noteq> 0 \<longleftrightarrow> sha2 = Sha256_and_512) \<and>
    (aarch64_sha512_available u \<noteq> 0 \<longleftrightarrow> sha2 = Sha256_and_512) \<and>
    (freebsd_a64_sha256_available k \<noteq> 0 \<longleftrightarrow> sha2 \<noteq> No_sha2) \<and>
    (aarch64_sha256_available u \<noteq> 0 \<longleftrightarrow> sha2 \<noteq> No_sha2) \<and>
    (linux_a64_sha256_available c \<noteq> 0 \<longleftrightarrow> sha2 = Sha256_only)"
  using assms
  by (cases sha2; cases fp)
    (auto simp: a64_contract_def linux_a64_neon_available_def freebsd_a64_neon_available_def aarch64_neon_available_def
      linux_a64_sha512_available_def freebsd_a64_sha512_available_def aarch64_sha512_available_def
      linux_a64_sha256_available_def freebsd_a64_sha256_available_def aarch64_sha256_available_def Let_def low_two)

definition demo_a64 :: a64_cpu where
  "demo_a64 = \<lparr>ID_AA64PFR0_EL1 = 0x11, ID_AA64ISAR0_EL1 = 0x2120\<rparr>"
definition demo_a64_kernel :: arm_kernel where
  "demo_a64_kernel = \<lparr>elf_hwcap = 0x200041, elf_hwcap2 = 0, K_HWCAP_FP = 1, K_HWCAP_SHA2 = 0x40, K_HWCAP_SHA512 = 0x200000,
     K_HWCAP_NEON = 0x1000, K_HWCAP2_SHA2 = 8\<rparr>"

theorem arm_tests_witness:
  "linux_a64_sha512_available demo_a64 \<noteq> 0 \<and> linux_a64_sha256_available demo_a64 = 0 \<and>
   freebsd_a64_sha256_available demo_a64_kernel \<noteq> 0"
proof -
  have "a64_contract True Sha256_and_512 demo_a64 demo_a64_kernel (demo_cpu\<lparr>auxval := \<lambda>_. 0x200041\<rparr>)"
    by (simp add: a64_contract_def demo_a64_def demo_a64_kernel_def HWCAP_FP_def HWCAP_SHA2_def HWCAP_SHA512_def)
  from arm_tests [OF this] show ?thesis by simp
qed

end
