(* ===== verification/Kernel_Strings.thy ===== *)
theory Kernel_Strings
  imports Prelude "HOL-Library.Multiset"
begin

unbundle bit_operations_syntax

text \<open>
  Strings in the kernels: the Linux replacement of \<open>strlcpy\<close> (\<open>os/linux/spl/sys/string.h\<close>), copies
  from and to user space (\<open>vmsystm.h\<close>), the domains of security ids (\<open>sid.h\<close> of both kernels) and
  the character classes of FreeBSD (\<open>ctype.h\<close>). A C string is the list of its bytes without the
  terminating zero; a buffer is the list of all its bytes.
\<close>

type_synonym c_string = "u8 list"

section \<open>Bounded copy\<close>

text \<open>The kernel's \<open>strscpy\<close>: from a source, a destination and its size to a result and the destination.\<close>

definition strlcpy :: "(c_string \<Rightarrow> u8 list \<Rightarrow> u64 \<Rightarrow> int \<times> u8 list) \<Rightarrow> c_string \<Rightarrow> u8 list \<Rightarrow> u64 \<Rightarrow> u64 \<times> u8 list" where
  "strlcpy strscpy src dest sz =
    (let (ret, dest) = strscpy src dest sz in
     if 0 < ret then (of_int ret, dest) else (of_nat (length src), dest))"

text \<open>
  What the kernel documents of \<open>strscpy\<close>: the length of the source if all of it was copied; an error
  if it did not fit, and for a size of zero or one that does not fit an \<open>int\<close>; in the first two cases the
  destination holds as much of the source as fits, with a terminating zero. Nothing is said of
  the bytes behind it.
\<close>

definition strscpy_contract :: "int \<Rightarrow> (c_string \<Rightarrow> u8 list \<Rightarrow> u64 \<Rightarrow> int \<times> u8 list) \<Rightarrow> bool" where
  "strscpy_contract E2BIG strscpy \<longleftrightarrow> 0 < E2BIG \<and> (\<forall>src dest sz. 0 \<notin> set src \<and> unat sz \<le> length dest \<longrightarrow>
     (let (ret, dest') = strscpy src dest sz; usable = (sz \<noteq> 0 \<and> unat sz < 2 ^ 31) in
        ret = (if usable \<and> length src < unat sz then int (length src) else - E2BIG) \<and>
        (usable \<longrightarrow> takeWhile (\<lambda>b. b \<noteq> 0) (take (unat sz) dest') = take (unat sz - 1) src)))"

text \<open>
  The replacement returns the length of the source in every case, also for an empty source and for
  the sizes that \<open>strscpy\<close> refuses, and leaves the destination as \<open>strscpy\<close> does. So a result that is
  below the size means a complete copy - unless the size does not fit an \<open>int\<close>.
\<close>

lemma strlcpy_result:
  assumes "strscpy_contract E2BIG strscpy" "0 \<notin> set src" "unat sz \<le> length dest" "length src < 2 ^ 63"
  shows "strlcpy strscpy src dest sz = (of_nat (length src), snd (strscpy src dest sz))"
    and "sz \<noteq> 0 \<Longrightarrow> unat sz < 2 ^ 31 \<Longrightarrow> fst (strlcpy strscpy src dest sz) < sz \<Longrightarrow>
      takeWhile (\<lambda>b. b \<noteq> 0) (take (unat sz) (snd (strlcpy strscpy src dest sz))) = src"
proof -
  obtain ret dest' where s: "strscpy src dest sz = (ret, dest')" by (cases "strscpy src dest sz")
  have c: "0 < E2BIG" "ret = (if sz \<noteq> 0 \<and> unat sz < 2 ^ 31 \<and> length src < unat sz then int (length src) else - E2BIG)"
    "sz \<noteq> 0 \<and> unat sz < 2 ^ 31 \<longrightarrow> takeWhile (\<lambda>b. b \<noteq> 0) (take (unat sz) dest') = take (unat sz - 1) src"
    using assms(1-3) s unfolding strscpy_contract_def by (fastforce simp: Let_def)+
  show r: "strlcpy strscpy src dest sz = (of_nat (length src), snd (strscpy src dest sz))"
    using c(1,2) by (auto simp: strlcpy_def s)
  assume sz: "sz \<noteq> 0" "unat sz < 2 ^ 31" "fst (strlcpy strscpy src dest sz) < sz"
  have "unat (of_nat (length src) :: u64) = length src" using assms(4) by (simp add: unat_of_nat take_bit_nat_eq_self)
  then have "length src < unat sz" using sz(3) r by (simp add: word_less_nat_alt)
  then show "takeWhile (\<lambda>b. b \<noteq> 0) (take (unat sz) (snd (strlcpy strscpy src dest sz))) = src"
    using c(3) sz(1,2) r s by simp
qed

section \<open>User memory\<close>

text \<open>
  A copy between kernel and user memory, as the kernel does it: the bytes that arrive and how many
  did not.
\<close>

definition copyin :: "(u64 \<Rightarrow> nat \<Rightarrow> u8 list \<times> nat) \<Rightarrow> u64 \<Rightarrow> nat \<Rightarrow> int \<times> u8 list" where
  "copyin copy_from_user from len =
    (let (data, missing) = copy_from_user from len in (if missing \<noteq> 0 then - 1 else 0, data))"

definition copyout :: "(u64 \<Rightarrow> u8 list \<Rightarrow> nat) \<Rightarrow> u8 list \<Rightarrow> u64 \<Rightarrow> int" where
  "copyout copy_to_user from to = (if copy_to_user to from \<noteq> 0 then - 1 else 0)"

text \<open>The result, the buffer and what is stored through \<open>done\<close> when that is not null.\<close>

definition copyinstr ::
    "int \<Rightarrow> (u64 \<Rightarrow> nat \<Rightarrow> u8 list \<times> nat) \<Rightarrow> u64 \<Rightarrow> u8 list \<Rightarrow> u64 \<Rightarrow> bool \<Rightarrow> int \<times> u8 list \<times> u64 option" where
  "copyinstr ENAMETOOLONG copy_from_user from to len has_done =
    (if len = 0 then (- ENAMETOOLONG, to, None)
     else let to = replicate (unat len) 0 @ drop (unat len) to;
       (rc, data) = copyin copy_from_user from (unat (len - 1));
       to = data @ drop (length data) to
     in (0, to, if has_done then Some (of_int rc) else None))"

definition copy_contract :: "(u64 \<Rightarrow> nat \<Rightarrow> u8 list \<times> nat) \<Rightarrow> bool" where
  "copy_contract cp \<longleftrightarrow> (\<forall>from n. length (fst (cp from n)) + snd (cp from n) = n)"

text \<open>
  The string is terminated whatever user space holds; but the status of the copy reaches the caller
  as the length only, and the number of bytes does not reach it at all.
\<close>

lemma copyinstr_terminates:
  assumes "copy_contract cp" "len \<noteq> 0" "unat len \<le> length to"
  shows "\<exists>buf dn. copyinstr E cp from to len True = (0, buf, Some dn) \<and> length buf = length to \<and>
    buf ! (unat len - 1) = 0 \<and> drop (unat len) buf = drop (unat len) to \<and>
    dn = (if snd (cp from (unat len - 1)) = 0 then 0 else - 1)"
proof -
  have n: "unat (len - 1) = unat len - 1" "0 < unat len" using assms(2) by (simp_all add: unat_minus_one unat_gt_0)
  obtain d m where d: "cp from (unat len - 1) = (d, m)" by (cases "cp from (unat len - 1)")
  then have l: "length d + m = unat len - 1" using assms(1) by (metis copy_contract_def fst_conv snd_conv)
  have z: "(replicate (unat len) 0 @ drop (unat len) to) ! (unat len - 1) = (0 :: u8)"
    using n by (simp add: nth_append)
  let ?b = "d @ drop (length d) (replicate (unat len) 0 @ drop (unat len) to)"
  have "copyinstr E cp from to len True = (0, ?b, Some (if m = 0 then 0 else - 1))"
    using assms(2) by (simp only: copyinstr_def if_False n(1) copyin_def d Let_def split_conv if_True) simp
  moreover have "length ?b = length to" "drop (unat len) ?b = drop (unat len) to" using l n(2) assms(3) by auto
  moreover have "?b ! (unat len - 1) = 0"
  proof -
    have "?b ! (unat len - 1) = (replicate (unat len) 0 @ drop (unat len) to) ! (unat len - 1)"
      using l n(2) assms(3) by (subst nth_append, subst nth_drop) simp_all
    then show ?thesis using z by simp
  qed
  ultimately show ?thesis
    by (intro exI [of _ ?b] exI [of _ "if m = 0 then 0 else - 1"]) (simp only: d snd_conv simp_thms)
qed

section \<open>Domains of security ids\<close>

text \<open>The sizes that the allocator is asked for and that are given back to it, with the name that is stored.\<close>

datatype ksid_event = Alloc u64 | Free u64

definition linux_ksid_lookupdomain :: "u64 \<Rightarrow> c_string \<Rightarrow> ksid_event list \<times> c_string" where
  "linux_ksid_lookupdomain kd_size domn =
    (let len = of_nat (length domn) :: u32 in ([Alloc kd_size, Alloc (scast (len + 1))], domn))"

definition linux_ksiddomain_rele :: "u64 \<Rightarrow> c_string \<Rightarrow> ksid_event list" where
  "linux_ksiddomain_rele kd_size kd_name = [Free (of_nat (length kd_name) + 1), Free kd_size]"

definition freebsd_ksid_lookupdomain :: "u64 \<Rightarrow> c_string \<Rightarrow> ksid_event list \<times> c_string \<times> u32" where
  "freebsd_ksid_lookupdomain kd_size domn =
    (let len = of_nat (length domn) + 1 :: u64 in ([Alloc kd_size, Alloc len], domn, ucast len))"

definition freebsd_ksiddomain_rele :: "u64 \<Rightarrow> u32 \<Rightarrow> ksid_event list" where
  "freebsd_ksiddomain_rele kd_size kd_len = [Free (ucast kd_len), Free kd_size]"

fun allocated :: "ksid_event \<Rightarrow> u64 list" where
  "allocated (Alloc n) = [n]" | "allocated (Free n) = []"
fun freed :: "ksid_event \<Rightarrow> u64 list" where
  "freed (Alloc n) = []" | "freed (Free n) = [n]"

definition balanced_events :: "ksid_event list \<Rightarrow> bool" where
  "balanced_events es \<longleftrightarrow> mset (concat (map allocated es)) = mset (concat (map freed es))"

lemma linux_alloc_size: "n < 2 ^ 31 - 1 \<Longrightarrow> scast (of_nat n + 1 :: u32) = (of_nat n + 1 :: u64)"
proof -
  assume n: "n < 2 ^ 31 - 1"
  have "sint (of_nat (Suc n) :: u32) = int (Suc n)"
    using n by (simp only: signed_of_nat) (simp add: signed_take_bit_int_eq_self)
  then have "scast (of_nat (Suc n) :: u32) = (of_int (int (Suc n)) :: u64)" by (simp only: scast_eq)
  then show ?thesis by (simp add: add.commute)
qed

text \<open>
  Looking a domain up and releasing it give back to the allocator what they took, in the sizes
  they took, and the stored name is the domain. Linux counts in a signed 32-bit number and FreeBSD
  stores an unsigned one, so this holds for names below 2 GiB and 4 GiB; a name of 4 GiB is freed on
  FreeBSD with another size than it was allocated with.
\<close>

theorem ksid_sizes_match:
  "(length domn < 2 ^ 31 - 1 \<longrightarrow>
      balanced_events (fst (linux_ksid_lookupdomain s domn) @ linux_ksiddomain_rele s (snd (linux_ksid_lookupdomain s domn)))) \<and>
   (length domn < 2 ^ 32 - 1 \<longrightarrow>
      balanced_events (fst (freebsd_ksid_lookupdomain s domn) @
        freebsd_ksiddomain_rele s (snd (snd (freebsd_ksid_lookupdomain s domn))))) \<and>
   (length domn = 2 ^ 32 \<longrightarrow>
      \<not> balanced_events (fst (freebsd_ksid_lookupdomain s domn) @
        freebsd_ksiddomain_rele s (snd (snd (freebsd_ksid_lookupdomain s domn))))) \<and>
   snd (linux_ksid_lookupdomain s domn) = domn \<and> fst (snd (freebsd_ksid_lookupdomain s domn)) = domn"
proof (intro conjI impI)
  show "balanced_events (fst (linux_ksid_lookupdomain s domn) @ linux_ksiddomain_rele s (snd (linux_ksid_lookupdomain s domn)))"
    if "length domn < 2 ^ 31 - 1"
    using linux_alloc_size [OF that]
    by (simp add: balanced_events_def linux_ksid_lookupdomain_def linux_ksiddomain_rele_def Let_def)
  have f: "ucast (ucast (of_nat (length domn) + 1 :: u64) :: u32) = (of_nat ((length domn + 1) mod 2 ^ 32) :: u64)"
  proof -
    have s: "of_nat (length domn) + 1 = (of_nat (length domn + 1) :: u64)" by simp
    have "unat (ucast (of_nat (length domn + 1) :: u64) :: u32) = (length domn + 1) mod 2 ^ 32"
      by (simp only: unsigned_ucast_eq unat_of_nat take_bit_nat_def) (simp add: mod_mod_cancel take_bit_nat_def)
    then show ?thesis unfolding s by (metis of_nat_unat)
  qed
  show "balanced_events (fst (freebsd_ksid_lookupdomain s domn) @
      freebsd_ksiddomain_rele s (snd (snd (freebsd_ksid_lookupdomain s domn))))" if "length domn < 2 ^ 32 - 1"
    using that f by (simp add: balanced_events_def freebsd_ksid_lookupdomain_def freebsd_ksiddomain_rele_def Let_def)
  show "\<not> balanced_events (fst (freebsd_ksid_lookupdomain s domn) @
      freebsd_ksiddomain_rele s (snd (snd (freebsd_ksid_lookupdomain s domn))))" if "length domn = 2 ^ 32"
    using that f by (simp add: balanced_events_def freebsd_ksid_lookupdomain_def freebsd_ksiddomain_rele_def Let_def)
  show "snd (linux_ksid_lookupdomain s domn) = domn" "fst (snd (freebsd_ksid_lookupdomain s domn)) = domn"
    by (simp_all add: linux_ksid_lookupdomain_def freebsd_ksid_lookupdomain_def Let_def)
qed

theorem ksid_sizes_match_witness:
  "balanced_events (fst (linux_ksid_lookupdomain 8 [83, 45, 49]) @
     linux_ksiddomain_rele 8 (snd (linux_ksid_lookupdomain 8 [83, 45, 49])))"
proof -
  from ksid_sizes_match [of "[83, 45, 49]" 8] have "length [83, 45, 49 :: u8] < 2 ^ 31 - 1 \<longrightarrow> ?thesis" by (elim conjE)
  then show ?thesis by (rule mp) simp
qed

section \<open>Character classes\<close>

text \<open>The letters and digits are the kernel's; so is the cast to an unsigned character.\<close>

definition isalnum :: "(int \<Rightarrow> bool) \<Rightarrow> (int \<Rightarrow> bool) \<Rightarrow> int \<Rightarrow> bool" where
  "isalnum isalpha isdigit ch \<longleftrightarrow> isalpha ch \<or> isdigit ch"
definition iscntrl :: "(int \<Rightarrow> int) \<Rightarrow> int \<Rightarrow> bool" where
  "iscntrl uchar C \<longleftrightarrow> uchar C \<le> 0x1f \<or> uchar C = 0x7f"
definition isgraph :: "int \<Rightarrow> bool" where
  "isgraph C \<longleftrightarrow> 0x21 \<le> C \<and> C \<le> 0x7E"
definition ispunct :: "int \<Rightarrow> bool" where
  "ispunct C \<longleftrightarrow> (0x21 \<le> C \<and> C \<le> 0x2F) \<or> (0x3A \<le> C \<and> C \<le> 0x40) \<or> (0x5B \<le> C \<and> C \<le> 0x60) \<or> (0x7B \<le> C \<and> C \<le> 0x7E)"
definition isspace :: "int \<Rightarrow> bool" where
  "isspace C \<longleftrightarrow> C = 0x20 \<or> (0x9 \<le> C \<and> C \<le> 0xD)"

text \<open>A visible character is a letter, a digit or punctuation, and only one of these; every ASCII character is visible, the space or a control character.\<close>

lemma ascii_classes:
  assumes "\<And>c. isalpha c \<longleftrightarrow> (0x41 \<le> c \<and> c \<le> 0x5A) \<or> (0x61 \<le> c \<and> c \<le> 0x7A)" "\<And>c. isdigit c \<longleftrightarrow> 0x30 \<le> c \<and> c \<le> 0x39"
    and "\<And>c. 0 \<le> c \<Longrightarrow> c < 256 \<Longrightarrow> uchar c = c" "0 \<le> c" "c < 128"
  shows "isgraph c \<longleftrightarrow> isalnum isalpha isdigit c \<or> ispunct c" "\<not> (isalnum isalpha isdigit c \<and> ispunct c)"
    "isgraph c \<or> c = 0x20 \<or> iscntrl uchar c" "\<not> (isgraph c \<and> iscntrl uchar c)" "\<not> (isgraph c \<and> isspace c)"
    "isspace c \<Longrightarrow> c = 0x20 \<or> iscntrl uchar c"
  using assms(4,5) by (auto simp: isgraph_def isalnum_def ispunct_def iscntrl_def isspace_def assms(1-3))

end
