(* ===== verification/Vfs_Attrs.thy ===== *)
theory Vfs_Attrs
  imports Idmap
begin

unbundle bit_operations_syntax

text \<open>
  File positions, ids, access control lists and cached names of the Linux kernel
  (\<open>os/linux/kernel/linux/vfs_compat.h\<close>, \<open>dcache_compat.h\<close>), and the attribute mask and cached data
  of FreeBSD vnodes (\<open>os/freebsd/spl/sys/vnode.h\<close>).
\<close>

section \<open>Seeking\<close>

text \<open>
  Whether a file takes positions above the signed range is a flag of the file or of its operations,
  by the kernel's version; the argument says whether it does. The lock is a trace.
\<close>

record open_file =
  f_unsigned :: bool
  f_pos :: u64
  f_version :: u64

datatype lock_event = Lock | Unlock

definition lseek_execute ::
    "bool \<Rightarrow> int \<Rightarrow> open_file \<Rightarrow> u64 \<Rightarrow> u64 \<Rightarrow> int \<times> open_file \<times> lock_event list" where
  "lseek_execute HAVE_FILE_F_VERSION EINVAL filp offset maxsize =
    (if sint offset < 0 \<and> \<not> f_unsigned filp then (- EINVAL, filp, [])
     else if sint maxsize < sint offset then (- EINVAL, filp, [])
     else if offset \<noteq> f_pos filp then
       let filp = filp\<lparr>f_pos := offset\<rparr>;
           filp = (if HAVE_FILE_F_VERSION then filp\<lparr>f_version := 0\<rparr> else filp)
       in (sint offset, filp, [Lock, Unlock])
     else (sint offset, filp, []))"

text \<open>
  A seek either moves the file to the offset and returns it, or returns an error and leaves the
  file as it was; it succeeds exactly for the offsets up to the limit that are not negative, or for
  all of these if the file takes unsigned positions. The position is written under the lock, which
  is given back, and a seek to where the file is takes no lock.
\<close>

theorem seek_all_or_nothing:
  assumes "0 < EINVAL" "lseek_execute v EINVAL f offset maxsize = (rc, f', tr)"
  shows "(if (0 \<le> sint offset \<or> f_unsigned f) \<and> sint offset \<le> sint maxsize
      then rc = sint offset \<and> f_pos f' = offset else rc = - EINVAL \<and> f' = f) \<and>
    f_unsigned f' = f_unsigned f \<and> tr = (if f_pos f' = f_pos f then [] else [Lock, Unlock]) \<and>
    (f_version f' \<noteq> f_version f \<longrightarrow> f_version f' = 0 \<and> f_pos f' \<noteq> f_pos f)"
  using assms by (auto simp: lseek_execute_def Let_def split: if_splits)

theorem seek_all_or_nothing_witness:
  "\<exists>f' tr. lseek_execute True 22 \<lparr>f_unsigned = False, f_pos = 7, f_version = 5\<rparr> 100 4096 = (100, f', tr) \<and>
     f_pos f' = 100 \<and> f_version f' = 0"
proof -
  let ?f = "\<lparr>f_unsigned = False, f_pos = 7, f_version = 5\<rparr>"
  obtain rc f' tr where r: "lseek_execute True 22 ?f 100 4096 = (rc, f', tr)" by (metis prod_cases3)
  from seek_all_or_nothing [OF _ r] have "rc = 100" "f_pos f' = 100" by simp_all
  moreover from r have "f_version f' = 0" by (auto simp: lseek_execute_def Let_def)
  ultimately show ?thesis using r by auto
qed

section \<open>Access control lists\<close>

text \<open>
  The list is a pointer and its reference count; the kernel's decrement gives the count and whether
  it reached 0. The result says whether the list was handed over to be freed.
\<close>

definition zpl_posix_acl_release ::
    "u64 \<Rightarrow> (u32 \<Rightarrow> u32 \<times> bool) \<Rightarrow> u64 \<Rightarrow> u32 \<Rightarrow> u32 \<times> bool" where
  "zpl_posix_acl_release ACL_NOT_CACHED refcount_dec_and_test acl a_refcount =
    (if acl = 0 \<or> acl = ACL_NOT_CACHED then (a_refcount, False) else refcount_dec_and_test a_refcount)"

definition dec_contract :: "(u32 \<Rightarrow> u32 \<times> bool) \<Rightarrow> bool" where
  "dec_contract dec \<longleftrightarrow> (\<forall>n. n \<noteq> 0 \<longrightarrow> dec n = (n - 1, n = 1))"

text \<open>How often the list is freed when it is released by so many owners.\<close>

fun releases_free :: "u64 \<Rightarrow> (u32 \<Rightarrow> u32 \<times> bool) \<Rightarrow> u64 \<Rightarrow> nat \<Rightarrow> u32 \<Rightarrow> nat" where
  "releases_free nc dec acl 0 n = 0"
| "releases_free nc dec acl (Suc k) n =
    (let (n, freed) = zpl_posix_acl_release nc dec acl n in of_bool freed + releases_free nc dec acl k n)"

lemma acl_freed_once:
  assumes "dec_contract dec" "acl \<noteq> 0" "acl \<noteq> nc" "k \<le> unat n"
  shows "releases_free nc dec acl k n = of_bool (k = unat n \<and> n \<noteq> 0)"
  using assms(4)
proof (induction k arbitrary: n)
  case (Suc k)
  then have n: "n \<noteq> 0" by auto
  then have r: "zpl_posix_acl_release nc dec acl n = (n - 1, n = 1)"
    using assms(1-3) by (simp add: zpl_posix_acl_release_def dec_contract_def)
  have u: "unat (n - 1) = unat n - 1" using n by (simp add: unat_minus_one)
  have "releases_free nc dec acl k (n - 1) = of_bool (k = unat n - 1 \<and> n - 1 \<noteq> 0)"
    using Suc.IH [of "n - 1"] Suc.prems by (simp add: u)
  moreover have "n = 1 \<longleftrightarrow> unat n = 1" by (simp add: word_unat_eq_iff)
  ultimately show ?case using Suc.prems n by (auto simp: r)
qed (auto simp: unat_gt_0)

section \<open>Ids\<close>

record inode_ids =
  i_uid :: u32
  i_gid :: u32

definition zfs_uid_read_impl :: "('n, 'm) userns_kernel \<Rightarrow> inode_ids \<Rightarrow> u32" where
  "zfs_uid_read_impl K ip = from_kuid K (kcred_user_ns K) (i_uid ip)"
definition zfs_uid_read :: "('n, 'm) userns_kernel \<Rightarrow> inode_ids \<Rightarrow> u32" where
  "zfs_uid_read K ip = zfs_uid_read_impl K ip"
definition zfs_gid_read_impl :: "('n, 'm) userns_kernel \<Rightarrow> inode_ids \<Rightarrow> u32" where
  "zfs_gid_read_impl K ip = from_kgid K (kcred_user_ns K) (i_gid ip)"
definition zfs_gid_read :: "('n, 'm) userns_kernel \<Rightarrow> inode_ids \<Rightarrow> u32" where
  "zfs_gid_read K ip = zfs_gid_read_impl K ip"
definition zfs_uid_write :: "('n, 'm) userns_kernel \<Rightarrow> inode_ids \<Rightarrow> u32 \<Rightarrow> inode_ids" where
  "zfs_uid_write K ip uid = ip\<lparr>i_uid := make_kuid K (kcred_user_ns K) uid\<rparr>"
definition zfs_gid_write :: "('n, 'm) userns_kernel \<Rightarrow> inode_ids \<Rightarrow> u32 \<Rightarrow> inode_ids" where
  "zfs_gid_write K ip gid = ip\<lparr>i_gid := make_kgid K (kcred_user_ns K) gid\<rparr>"

text \<open>An id that the initial namespace knows is read back as it was written, and the other id stays.\<close>

lemma ids_read_back:
  assumes "kernel_ids K"
  shows "make_kuid K (kcred_user_ns K) u \<noteq> - 1 \<Longrightarrow> zfs_uid_read K (zfs_uid_write K ip u) = u"
    "make_kgid K (kcred_user_ns K) u \<noteq> - 1 \<Longrightarrow> zfs_gid_read K (zfs_gid_write K ip u) = u"
    "zfs_gid_read K (zfs_uid_write K ip u) = zfs_gid_read K ip" "zfs_uid_read K (zfs_gid_write K ip u) = zfs_uid_read K ip"
  using assms id_maps.there_and_back(2) [of "from_kuid K" "make_kuid K"] id_maps.there_and_back(2) [of "from_kgid K" "make_kgid K"]
  by (simp_all add: kernel_ids_def zfs_uid_read_def zfs_uid_read_impl_def zfs_gid_read_def zfs_gid_read_impl_def
    zfs_uid_write_def zfs_gid_write_def)

definition zpl_is_32bit_api :: "bool \<Rightarrow> bool \<Rightarrow> nat \<Rightarrow> bool" where
  "zpl_is_32bit_api CONFIG_COMPAT in_compat_syscall BITS_PER_LONG =
    (if CONFIG_COMPAT then in_compat_syscall else BITS_PER_LONG = 32)"

section \<open>Cached names\<close>

record dentry =
  is_root :: bool
  d_mountpoint :: bool
  d_inode :: u64

datatype alias_event = I_lock | I_unlock | D_drop nat

text \<open>The loop over the aliases of an inode; a name is its position in the list.\<close>

fun drop_loop :: "u64 \<Rightarrow> nat \<Rightarrow> dentry list \<Rightarrow> alias_event list" where
  "drop_loop inode i [] = []"
| "drop_loop inode i (d # ds) =
    (if \<not> is_root d \<and> \<not> d_mountpoint d \<and> d_inode d = inode then [D_drop i] else []) @ drop_loop inode (Suc i) ds"

definition zpl_d_drop_aliases :: "u64 \<Rightarrow> dentry list \<Rightarrow> alias_event list" where
  "zpl_d_drop_aliases inode i_dentry = [I_lock] @ drop_loop inode 0 i_dentry @ [I_unlock]"

lemma drop_loop_set: "D_drop k \<in> set (drop_loop inode i ds) \<longleftrightarrow>
    i \<le> k \<and> k < i + length ds \<and> \<not> is_root (ds ! (k - i)) \<and> \<not> d_mountpoint (ds ! (k - i)) \<and> d_inode (ds ! (k - i)) = inode"
proof (induction ds arbitrary: i)
  case (Cons d ds)
  show ?case
  proof (cases "k = i")
    case False
    then show ?thesis by (auto simp: Cons.IH nth_Cons' Suc_le_eq)
  next
    case True
    then show ?thesis using Cons.IH [of "Suc i"] by auto
  qed
qed simp

lemma drop_loop_distinct: "distinct (drop_loop inode i ds) \<and> I_lock \<notin> set (drop_loop inode i ds) \<and> I_unlock \<notin> set (drop_loop inode i ds)"
  by (induction ds arbitrary: i) (auto simp: drop_loop_set)

section \<open>FreeBSD vnodes\<close>

definition BSD_AT_MODE :: u32 where "BSD_AT_MODE = 0x00002"
definition BSD_AT_UID :: u32 where "BSD_AT_UID = 0x00004"
definition BSD_AT_GID :: u32 where "BSD_AT_GID = 0x00008"
definition BSD_AT_FSID :: u32 where "BSD_AT_FSID = 0x00010"
definition BSD_AT_NODEID :: u32 where "BSD_AT_NODEID = 0x00020"
definition BSD_AT_NLINK :: u32 where "BSD_AT_NLINK = 0x00040"
definition BSD_AT_SIZE :: u32 where "BSD_AT_SIZE = 0x00080"
definition BSD_AT_ATIME :: u32 where "BSD_AT_ATIME = 0x00100"
definition BSD_AT_MTIME :: u32 where "BSD_AT_MTIME = 0x00200"
definition BSD_AT_CTIME :: u32 where "BSD_AT_CTIME = 0x00400"
definition BSD_AT_RDEV :: u32 where "BSD_AT_RDEV = 0x00800"
definition BSD_AT_BLKSIZE :: u32 where "BSD_AT_BLKSIZE = 0x01000"
definition BSD_AT_NBLOCKS :: u32 where "BSD_AT_NBLOCKS = 0x02000"
definition BSD_AT_SEQ :: u32 where "BSD_AT_SEQ = 0x08000"
definition BSD_AT_XVATTR :: u32 where "BSD_AT_XVATTR = 0x10000"
definition BSD_AT_ALL :: u32 where
  "BSD_AT_ALL = BSD_AT_MODE OR BSD_AT_UID OR BSD_AT_GID OR BSD_AT_FSID OR BSD_AT_NODEID OR BSD_AT_NLINK OR BSD_AT_SIZE OR
     BSD_AT_ATIME OR BSD_AT_MTIME OR BSD_AT_CTIME OR BSD_AT_RDEV OR BSD_AT_BLKSIZE OR BSD_AT_NBLOCKS OR BSD_AT_SEQ"
definition BSD_AT_STAT :: u32 where
  "BSD_AT_STAT = BSD_AT_MODE OR BSD_AT_UID OR BSD_AT_GID OR BSD_AT_FSID OR BSD_AT_NODEID OR BSD_AT_NLINK OR BSD_AT_SIZE OR
     BSD_AT_ATIME OR BSD_AT_MTIME OR BSD_AT_CTIME OR BSD_AT_RDEV"
definition BSD_AT_TIMES :: u32 where "BSD_AT_TIMES = BSD_AT_ATIME OR BSD_AT_MTIME OR BSD_AT_CTIME"
definition BSD_AT_NOSET :: u32 where
  "BSD_AT_NOSET = BSD_AT_NLINK OR BSD_AT_RDEV OR BSD_AT_FSID OR BSD_AT_NODEID OR BSD_AT_BLKSIZE OR BSD_AT_NBLOCKS OR BSD_AT_SEQ"

record vattr =
  va_mask :: u32
  va_mode :: u16
  va_uid :: u32
  va_gid :: u32
  va_size :: u64
  va_atime_sec :: u64
  va_mtime_sec :: u64
  va_flags :: u64

text \<open>The kernel's marker of a value that is not given, as an \<open>int\<close>.\<close>

definition vattr_init_mask :: "int \<Rightarrow> vattr \<Rightarrow> vattr" where
  "vattr_init_mask VNOVAL vap =
    (let m = 0;
         m = (if va_uid vap \<noteq> of_int VNOVAL then m OR BSD_AT_UID else m);
         m = (if va_gid vap \<noteq> of_int VNOVAL then m OR BSD_AT_GID else m);
         m = (if va_size vap \<noteq> of_int VNOVAL then m OR BSD_AT_SIZE else m);
         m = (if sint (va_atime_sec vap) \<noteq> VNOVAL then m OR BSD_AT_ATIME else m);
         m = (if sint (va_mtime_sec vap) \<noteq> VNOVAL then m OR BSD_AT_MTIME else m);
         m = (if va_mode vap \<noteq> of_int VNOVAL then m OR BSD_AT_MODE else m);
         m = (if va_flags vap \<noteq> of_int VNOVAL then m OR BSD_AT_XVATTR else m)
     in vap\<lparr>va_mask := m\<rparr>)"

lemmas bsd_at_defs = BSD_AT_MODE_def BSD_AT_UID_def BSD_AT_GID_def BSD_AT_FSID_def BSD_AT_NODEID_def BSD_AT_NLINK_def
  BSD_AT_SIZE_def BSD_AT_ATIME_def BSD_AT_MTIME_def BSD_AT_CTIME_def BSD_AT_RDEV_def BSD_AT_BLKSIZE_def BSD_AT_NBLOCKS_def
  BSD_AT_SEQ_def BSD_AT_XVATTR_def


text \<open>The bits that are tested, against a mask built from seven conditions.\<close>

lemma mask_bits:
  fixes u g s a m d x :: bool
  defines "w \<equiv> (if x then BSD_AT_XVATTR else 0) OR (if d then BSD_AT_MODE else 0) OR (if m then BSD_AT_MTIME else 0) OR
    (if a then BSD_AT_ATIME else 0) OR (if s then BSD_AT_SIZE else 0) OR (if g then BSD_AT_GID else 0) OR (if u then BSD_AT_UID else 0)"
  shows "(w AND BSD_AT_UID \<noteq> 0 \<longleftrightarrow> u) \<and> (w AND BSD_AT_GID \<noteq> 0 \<longleftrightarrow> g) \<and> (w AND BSD_AT_SIZE \<noteq> 0 \<longleftrightarrow> s) \<and>
    (w AND BSD_AT_ATIME \<noteq> 0 \<longleftrightarrow> a) \<and> (w AND BSD_AT_MTIME \<noteq> 0 \<longleftrightarrow> m) \<and> (w AND BSD_AT_MODE \<noteq> 0 \<longleftrightarrow> d) \<and>
    (w AND BSD_AT_XVATTR \<noteq> 0 \<longleftrightarrow> x) \<and> w AND BSD_AT_NOSET = 0 \<and> w AND BSD_AT_CTIME = 0"
  unfolding w_def bsd_at_defs BSD_AT_NOSET_def
  by (cases u; cases g; cases s; cases a; cases m; cases d; cases x; simp)

lemma init_mask_value:
  "va_mask (vattr_init_mask V vap) = (if va_flags vap \<noteq> of_int V then BSD_AT_XVATTR else 0) OR
    (if va_mode vap \<noteq> of_int V then BSD_AT_MODE else 0) OR (if sint (va_mtime_sec vap) \<noteq> V then BSD_AT_MTIME else 0) OR
    (if sint (va_atime_sec vap) \<noteq> V then BSD_AT_ATIME else 0) OR (if va_size vap \<noteq> of_int V then BSD_AT_SIZE else 0) OR
    (if va_gid vap \<noteq> of_int V then BSD_AT_GID else 0) OR (if va_uid vap \<noteq> of_int V then BSD_AT_UID else 0)"
  by (simp add: vattr_init_mask_def Let_def or.assoc or.left_commute or.commute)

text \<open>
  The mask of a set of attributes has the bit of an attribute exactly if a value is given for
  it, whatever the mask held before, and never a bit of an attribute that cannot be set; the values
  stay. The id, the mode and the flags are compared with the marker in their own width, so a mode or
  an id of all ones is "not given" although the marker is a signed number.
\<close>

theorem vattr_mask_exact:
  shows "(va_mask (vattr_init_mask V vap) AND BSD_AT_UID \<noteq> 0 \<longleftrightarrow> va_uid vap \<noteq> of_int V) \<and>
    (va_mask (vattr_init_mask V vap) AND BSD_AT_GID \<noteq> 0 \<longleftrightarrow> va_gid vap \<noteq> of_int V) \<and>
    (va_mask (vattr_init_mask V vap) AND BSD_AT_SIZE \<noteq> 0 \<longleftrightarrow> va_size vap \<noteq> of_int V) \<and>
    (va_mask (vattr_init_mask V vap) AND BSD_AT_ATIME \<noteq> 0 \<longleftrightarrow> sint (va_atime_sec vap) \<noteq> V) \<and>
    (va_mask (vattr_init_mask V vap) AND BSD_AT_MTIME \<noteq> 0 \<longleftrightarrow> sint (va_mtime_sec vap) \<noteq> V) \<and>
    (va_mask (vattr_init_mask V vap) AND BSD_AT_MODE \<noteq> 0 \<longleftrightarrow> va_mode vap \<noteq> of_int V) \<and>
    (va_mask (vattr_init_mask V vap) AND BSD_AT_XVATTR \<noteq> 0 \<longleftrightarrow> va_flags vap \<noteq> of_int V) \<and>
    va_mask (vattr_init_mask V vap) AND BSD_AT_NOSET = 0 \<and>
    vattr_init_mask V vap = vap\<lparr>va_mask := va_mask (vattr_init_mask V vap)\<rparr>"
proof (intro conjI)
  note b = mask_bits [where u = "va_uid vap \<noteq> of_int V" and g = "va_gid vap \<noteq> of_int V" and s = "va_size vap \<noteq> of_int V"
    and a = "sint (va_atime_sec vap) \<noteq> V" and m = "sint (va_mtime_sec vap) \<noteq> V" and d = "va_mode vap \<noteq> of_int V"
    and x = "va_flags vap \<noteq> of_int V", folded init_mask_value]
  show "va_mask (vattr_init_mask V vap) AND BSD_AT_UID \<noteq> 0 \<longleftrightarrow> va_uid vap \<noteq> of_int V"
    "va_mask (vattr_init_mask V vap) AND BSD_AT_GID \<noteq> 0 \<longleftrightarrow> va_gid vap \<noteq> of_int V"
    "va_mask (vattr_init_mask V vap) AND BSD_AT_SIZE \<noteq> 0 \<longleftrightarrow> va_size vap \<noteq> of_int V"
    "va_mask (vattr_init_mask V vap) AND BSD_AT_ATIME \<noteq> 0 \<longleftrightarrow> sint (va_atime_sec vap) \<noteq> V"
    "va_mask (vattr_init_mask V vap) AND BSD_AT_MTIME \<noteq> 0 \<longleftrightarrow> sint (va_mtime_sec vap) \<noteq> V"
    "va_mask (vattr_init_mask V vap) AND BSD_AT_MODE \<noteq> 0 \<longleftrightarrow> va_mode vap \<noteq> of_int V"
    "va_mask (vattr_init_mask V vap) AND BSD_AT_XVATTR \<noteq> 0 \<longleftrightarrow> va_flags vap \<noteq> of_int V"
    "va_mask (vattr_init_mask V vap) AND BSD_AT_NOSET = 0"
    using b by blast+
  show "vattr_init_mask V vap = vap\<lparr>va_mask := va_mask (vattr_init_mask V vap)\<rparr>"
    by (simp add: vattr_init_mask_def Let_def)
qed

lemma attribute_groups:
  "BSD_AT_STAT AND NOT BSD_AT_ALL = 0" "BSD_AT_TIMES AND NOT BSD_AT_STAT = 0" "BSD_AT_NOSET AND NOT BSD_AT_ALL = 0"
  "BSD_AT_ALL AND BSD_AT_XVATTR = 0"
  unfolding BSD_AT_STAT_def BSD_AT_ALL_def BSD_AT_TIMES_def BSD_AT_NOSET_def bsd_at_defs by code_simp+

text \<open>Cached data of a vnode are written back under the lock of its object, synchronously if that is asked for.\<close>

datatype vm_event = Wlock | Page_clean u32 | Wunlock

definition vn_flush_cached_data :: "u32 \<Rightarrow> bool \<Rightarrow> bool \<Rightarrow> vm_event list" where
  "vn_flush_cached_data OBJPC_SYNC mightbedirty sync =
    (if mightbedirty then let flags = (if sync then OBJPC_SYNC else 0) in [Wlock, Page_clean flags, Wunlock] else [])"

end
