(* ===== verification/Zfs_Names.thy ===== *)
theory Zfs_Names
  imports Phys_Layouts
begin

text \<open>
  The names that the parts of the system exchange as strings: the keys of the pool configuration and
  of the commands (\<open>fs/zfs.h\<close>), of events and reports (\<open>fm/protocol.h\<close>, \<open>fm/fs/zfs.h\<close>,
  \<open>sysevent/eventdefs.h\<close>), the keys of the objects on disk (\<open>dmu.h\<close>, \<open>dsl_dataset.h\<close>, \<open>dsl_dir.h\<close>,
  \<open>dsl_crypt.h\<close>, \<open>zfs_znode.h\<close>, \<open>sa_impl.h\<close>), permissions (\<open>dsl_deleg.h\<close>) and mount options
  (\<open>mntent.h\<close>). A table has the macros of one place of a header with their strings.
\<close>

type_synonym name_table = "(string \<times> string) list"

definition zpool_config_keys_a :: name_table where
  "zpool_config_keys_a = [
     (''ZPOOL_CONFIG_VERSION'', ''version''), (''ZPOOL_CONFIG_POOL_NAME'', ''name''),
     (''ZPOOL_CONFIG_POOL_STATE'', ''state''), (''ZPOOL_CONFIG_POOL_TXG'', ''txg''),
     (''ZPOOL_CONFIG_POOL_GUID'', ''pool_guid''), (''ZPOOL_CONFIG_CREATE_TXG'', ''create_txg''),
     (''ZPOOL_CONFIG_TOP_GUID'', ''top_guid''), (''ZPOOL_CONFIG_VDEV_TREE'', ''vdev_tree''),
     (''ZPOOL_CONFIG_TYPE'', ''type''), (''ZPOOL_CONFIG_CHILDREN'', ''children''), (''ZPOOL_CONFIG_ID'', ''id''),
     (''ZPOOL_CONFIG_GUID'', ''guid''), (''ZPOOL_CONFIG_INDIRECT_OBJECT'', ''com.delphix:indirect_object''),
     (''ZPOOL_CONFIG_INDIRECT_BIRTHS'', ''com.delphix:indirect_births''),
     (''ZPOOL_CONFIG_PREV_INDIRECT_VDEV'', ''com.delphix:prev_indirect_vdev''), (''ZPOOL_CONFIG_PATH'', ''path''),
     (''ZPOOL_CONFIG_DEVID'', ''devid''), (''ZPOOL_CONFIG_SPARE_ID'', ''spareid''),
     (''ZPOOL_CONFIG_METASLAB_ARRAY'', ''metaslab_array''), (''ZPOOL_CONFIG_METASLAB_SHIFT'', ''metaslab_shift''),
     (''ZPOOL_CONFIG_ASHIFT'', ''ashift''), (''ZPOOL_CONFIG_ASIZE'', ''asize''),
     (''ZPOOL_CONFIG_MIN_ALLOC'', ''min_alloc''), (''ZPOOL_CONFIG_MAX_ALLOC'', ''max_alloc''),
     (''ZPOOL_CONFIG_DTL'', ''DTL''), (''ZPOOL_CONFIG_SCAN_STATS'', ''scan_stats''),
     (''ZPOOL_CONFIG_REMOVAL_STATS'', ''removal_stats''), (''ZPOOL_CONFIG_CHECKPOINT_STATS'', ''checkpoint_stats''),
     (''ZPOOL_CONFIG_RAIDZ_EXPAND_STATS'', ''raidz_expand_stats''), (''ZPOOL_CONFIG_VDEV_STATS'', ''vdev_stats''),
     (''ZPOOL_CONFIG_INDIRECT_SIZE'', ''indirect_size''), (''ZPOOL_CONFIG_VDEV_STATS_EX'', ''vdev_stats_ex''),
     (''ZPOOL_CONFIG_VDEV_SYNC_R_ACTIVE_QUEUE'', ''vdev_sync_r_active_queue''),
     (''ZPOOL_CONFIG_VDEV_SYNC_W_ACTIVE_QUEUE'', ''vdev_sync_w_active_queue''),
     (''ZPOOL_CONFIG_VDEV_ASYNC_R_ACTIVE_QUEUE'', ''vdev_async_r_active_queue''),
     (''ZPOOL_CONFIG_VDEV_ASYNC_W_ACTIVE_QUEUE'', ''vdev_async_w_active_queue''),
     (''ZPOOL_CONFIG_VDEV_SCRUB_ACTIVE_QUEUE'', ''vdev_async_scrub_active_queue''),
     (''ZPOOL_CONFIG_VDEV_TRIM_ACTIVE_QUEUE'', ''vdev_async_trim_active_queue''),
     (''ZPOOL_CONFIG_VDEV_REBUILD_ACTIVE_QUEUE'', ''vdev_rebuild_active_queue''),
     (''ZPOOL_CONFIG_VDEV_SYNC_R_PEND_QUEUE'', ''vdev_sync_r_pend_queue''),
     (''ZPOOL_CONFIG_VDEV_SYNC_W_PEND_QUEUE'', ''vdev_sync_w_pend_queue''),
     (''ZPOOL_CONFIG_VDEV_ASYNC_R_PEND_QUEUE'', ''vdev_async_r_pend_queue''),
     (''ZPOOL_CONFIG_VDEV_ASYNC_W_PEND_QUEUE'', ''vdev_async_w_pend_queue''),
     (''ZPOOL_CONFIG_VDEV_SCRUB_PEND_QUEUE'', ''vdev_async_scrub_pend_queue''),
     (''ZPOOL_CONFIG_VDEV_TRIM_PEND_QUEUE'', ''vdev_async_trim_pend_queue''),
     (''ZPOOL_CONFIG_VDEV_REBUILD_PEND_QUEUE'', ''vdev_rebuild_pend_queue''),
     (''ZPOOL_CONFIG_VDEV_TOT_R_LAT_HISTO'', ''vdev_tot_r_lat_histo''),
     (''ZPOOL_CONFIG_VDEV_TOT_W_LAT_HISTO'', ''vdev_tot_w_lat_histo''),
     (''ZPOOL_CONFIG_VDEV_DISK_R_LAT_HISTO'', ''vdev_disk_r_lat_histo''),
     (''ZPOOL_CONFIG_VDEV_DISK_W_LAT_HISTO'', ''vdev_disk_w_lat_histo''),
     (''ZPOOL_CONFIG_VDEV_SYNC_R_LAT_HISTO'', ''vdev_sync_r_lat_histo''),
     (''ZPOOL_CONFIG_VDEV_SYNC_W_LAT_HISTO'', ''vdev_sync_w_lat_histo''),
     (''ZPOOL_CONFIG_VDEV_ASYNC_R_LAT_HISTO'', ''vdev_async_r_lat_histo''),
     (''ZPOOL_CONFIG_VDEV_ASYNC_W_LAT_HISTO'', ''vdev_async_w_lat_histo''),
     (''ZPOOL_CONFIG_VDEV_SCRUB_LAT_HISTO'', ''vdev_scrub_histo''),
     (''ZPOOL_CONFIG_VDEV_TRIM_LAT_HISTO'', ''vdev_trim_histo''),
     (''ZPOOL_CONFIG_VDEV_REBUILD_LAT_HISTO'', ''vdev_rebuild_histo''),
     (''ZPOOL_CONFIG_VDEV_SYNC_IND_R_HISTO'', ''vdev_sync_ind_r_histo''),
     (''ZPOOL_CONFIG_VDEV_SYNC_IND_W_HISTO'', ''vdev_sync_ind_w_histo''),
     (''ZPOOL_CONFIG_VDEV_ASYNC_IND_R_HISTO'', ''vdev_async_ind_r_histo''),
     (''ZPOOL_CONFIG_VDEV_ASYNC_IND_W_HISTO'', ''vdev_async_ind_w_histo''),
     (''ZPOOL_CONFIG_VDEV_IND_SCRUB_HISTO'', ''vdev_ind_scrub_histo''),
     (''ZPOOL_CONFIG_VDEV_IND_TRIM_HISTO'', ''vdev_ind_trim_histo''),
     (''ZPOOL_CONFIG_VDEV_IND_REBUILD_HISTO'', ''vdev_ind_rebuild_histo''),
     (''ZPOOL_CONFIG_VDEV_SYNC_AGG_R_HISTO'', ''vdev_sync_agg_r_histo''),
     (''ZPOOL_CONFIG_VDEV_SYNC_AGG_W_HISTO'', ''vdev_sync_agg_w_histo''),
     (''ZPOOL_CONFIG_VDEV_ASYNC_AGG_R_HISTO'', ''vdev_async_agg_r_histo''),
     (''ZPOOL_CONFIG_VDEV_ASYNC_AGG_W_HISTO'', ''vdev_async_agg_w_histo''),
     (''ZPOOL_CONFIG_VDEV_AGG_SCRUB_HISTO'', ''vdev_agg_scrub_histo''),
     (''ZPOOL_CONFIG_VDEV_AGG_TRIM_HISTO'', ''vdev_agg_trim_histo''),
     (''ZPOOL_CONFIG_VDEV_AGG_REBUILD_HISTO'', ''vdev_agg_rebuild_histo''),
     (''ZPOOL_CONFIG_VDEV_SLOW_IOS'', ''vdev_slow_ios''),
     (''ZPOOL_CONFIG_VDEV_DIO_VERIFY_ERRORS'', ''vdev_dio_verify_errors''),
     (''ZPOOL_CONFIG_VDEV_ENC_SYSFS_PATH'', ''vdev_enc_sysfs_path''), (''ZPOOL_CONFIG_WHOLE_DISK'', ''whole_disk'')]"

definition zpool_config_keys_b :: name_table where
  "zpool_config_keys_b = [
     (''ZPOOL_CONFIG_ERRCOUNT'', ''error_count''), (''ZPOOL_CONFIG_NOT_PRESENT'', ''not_present''),
     (''ZPOOL_CONFIG_SPARES'', ''spares''), (''ZPOOL_CONFIG_IS_SPARE'', ''is_spare''),
     (''ZPOOL_CONFIG_NPARITY'', ''nparity''), (''ZPOOL_CONFIG_RAIDZ_EXPANDING'', ''raidz_expanding''),
     (''ZPOOL_CONFIG_RAIDZ_EXPAND_TXGS'', ''raidz_expand_txgs''), (''ZPOOL_CONFIG_HOSTID'', ''hostid''),
     (''ZPOOL_CONFIG_HOSTNAME'', ''hostname''), (''ZPOOL_CONFIG_LOADED_TIME'', ''initial_load_time''),
     (''ZPOOL_CONFIG_UNSPARE'', ''unspare''), (''ZPOOL_CONFIG_PHYS_PATH'', ''phys_path''),
     (''ZPOOL_CONFIG_IS_LOG'', ''is_log''), (''ZPOOL_CONFIG_L2CACHE'', ''l2cache''),
     (''ZPOOL_CONFIG_HOLE_ARRAY'', ''hole_array''), (''ZPOOL_CONFIG_VDEV_CHILDREN'', ''vdev_children''),
     (''ZPOOL_CONFIG_IS_HOLE'', ''is_hole''), (''ZPOOL_CONFIG_DDT_HISTOGRAM'', ''ddt_histogram''),
     (''ZPOOL_CONFIG_DDT_OBJ_STATS'', ''ddt_object_stats''), (''ZPOOL_CONFIG_DDT_STATS'', ''ddt_stats''),
     (''ZPOOL_CONFIG_SPLIT'', ''splitcfg''), (''ZPOOL_CONFIG_ORIG_GUID'', ''orig_guid''),
     (''ZPOOL_CONFIG_SPLIT_GUID'', ''split_guid''), (''ZPOOL_CONFIG_SPLIT_LIST'', ''guid_list''),
     (''ZPOOL_CONFIG_NONALLOCATING'', ''non_allocating''), (''ZPOOL_CONFIG_REMOVING'', ''removing''),
     (''ZPOOL_CONFIG_RESILVER_TXG'', ''resilver_txg''), (''ZPOOL_CONFIG_REBUILD_TXG'', ''rebuild_txg''),
     (''ZPOOL_CONFIG_COMMENT'', ''comment''), (''ZPOOL_CONFIG_SUSPENDED'', ''suspended''),
     (''ZPOOL_CONFIG_SUSPENDED_REASON'', ''suspended_reason''), (''ZPOOL_CONFIG_TIMESTAMP'', ''timestamp''),
     (''ZPOOL_CONFIG_BOOTFS'', ''bootfs''), (''ZPOOL_CONFIG_MISSING_DEVICES'', ''missing_vdevs''),
     (''ZPOOL_CONFIG_LOAD_INFO'', ''load_info''), (''ZPOOL_CONFIG_REWIND_INFO'', ''rewind_info''),
     (''ZPOOL_CONFIG_UNSUP_FEAT'', ''unsup_feat''), (''ZPOOL_CONFIG_ENABLED_FEAT'', ''enabled_feat''),
     (''ZPOOL_CONFIG_CAN_RDONLY'', ''can_rdonly''), (''ZPOOL_CONFIG_FEATURES_FOR_READ'', ''features_for_read''),
     (''ZPOOL_CONFIG_FEATURE_STATS'', ''feature_stats''), (''ZPOOL_CONFIG_ERRATA'', ''errata''),
     (''ZPOOL_CONFIG_VDEV_ROOT_ZAP'', ''com.klarasystems:vdev_zap_root''),
     (''ZPOOL_CONFIG_VDEV_TOP_ZAP'', ''com.delphix:vdev_zap_top''),
     (''ZPOOL_CONFIG_VDEV_LEAF_ZAP'', ''com.delphix:vdev_zap_leaf''),
     (''ZPOOL_CONFIG_HAS_PER_VDEV_ZAPS'', ''com.delphix:has_per_vdev_zaps''),
     (''ZPOOL_CONFIG_RESILVER_DEFER'', ''com.datto:resilver_defer''), (''ZPOOL_CONFIG_CACHEFILE'', ''cachefile''),
     (''ZPOOL_CONFIG_MMP_STATE'', ''mmp_state''), (''ZPOOL_CONFIG_MMP_TXG'', ''mmp_txg''),
     (''ZPOOL_CONFIG_MMP_SEQ'', ''mmp_seq''), (''ZPOOL_CONFIG_MMP_HOSTNAME'', ''mmp_hostname''),
     (''ZPOOL_CONFIG_MMP_HOSTID'', ''mmp_hostid''), (''ZPOOL_CONFIG_ALLOCATION_BIAS'', ''alloc_bias''),
     (''ZPOOL_CONFIG_EXPANSION_TIME'', ''expansion_time''),
     (''ZPOOL_CONFIG_REBUILD_STATS'', ''org.openzfs:rebuild_stats''),
     (''ZPOOL_CONFIG_COMPATIBILITY'', ''compatibility''), (''ZPOOL_CONFIG_OFFLINE'', ''offline''),
     (''ZPOOL_CONFIG_FAULTED'', ''faulted''), (''ZPOOL_CONFIG_DEGRADED'', ''degraded''),
     (''ZPOOL_CONFIG_REMOVED'', ''removed''), (''ZPOOL_CONFIG_FRU'', ''fru''),
     (''ZPOOL_CONFIG_AUX_STATE'', ''aux_state''), (''ZPOOL_LOAD_POLICY'', ''load-policy''),
     (''ZPOOL_LOAD_REWIND_POLICY'', ''load-rewind-policy''), (''ZPOOL_LOAD_REQUEST_TXG'', ''load-request-txg''),
     (''ZPOOL_LOAD_META_THRESH'', ''load-meta-thresh''), (''ZPOOL_LOAD_DATA_THRESH'', ''load-data-thresh''),
     (''ZPOOL_CONFIG_LOAD_TIME'', ''rewind_txg_ts''), (''ZPOOL_CONFIG_LOAD_META_ERRORS'', ''verify_meta_errors''),
     (''ZPOOL_CONFIG_LOAD_DATA_ERRORS'', ''verify_data_errors''),
     (''ZPOOL_CONFIG_REWIND_TIME'', ''seconds_of_rewind''), (''ZPOOL_CONFIG_DRAID_NDATA'', ''draid_ndata''),
     (''ZPOOL_CONFIG_DRAID_NSPARES'', ''draid_nspares''), (''ZPOOL_CONFIG_DRAID_NGROUPS'', ''draid_ngroups'')]"

definition vdev_type_names :: name_table where
  "vdev_type_names = [
     (''VDEV_TYPE_ROOT'', ''root''), (''VDEV_TYPE_MIRROR'', ''mirror''), (''VDEV_TYPE_REPLACING'', ''replacing''),
     (''VDEV_TYPE_RAIDZ'', ''raidz''), (''VDEV_TYPE_DRAID'', ''draid''), (''VDEV_TYPE_DRAID_SPARE'', ''dspare''),
     (''VDEV_TYPE_DISK'', ''disk''), (''VDEV_TYPE_FILE'', ''file''), (''VDEV_TYPE_MISSING'', ''missing''),
     (''VDEV_TYPE_HOLE'', ''hole''), (''VDEV_TYPE_SPARE'', ''spare''), (''VDEV_TYPE_LOG'', ''log''),
     (''VDEV_TYPE_L2CACHE'', ''l2cache''), (''VDEV_TYPE_INDIRECT'', ''indirect'')]"

definition vdev_top_zap_keys :: name_table where
  "vdev_top_zap_keys = [
     (''VDEV_TOP_ZAP_INDIRECT_OBSOLETE_SM'', ''com.delphix:indirect_obsolete_sm''),
     (''VDEV_TOP_ZAP_OBSOLETE_COUNTS_ARE_PRECISE'', ''com.delphix:obsolete_counts_are_precise''),
     (''VDEV_TOP_ZAP_POOL_CHECKPOINT_SM'', ''com.delphix:pool_checkpoint_sm''),
     (''VDEV_TOP_ZAP_MS_UNFLUSHED_PHYS_TXGS'', ''com.delphix:ms_unflushed_phys_txgs''),
     (''VDEV_TOP_ZAP_VDEV_REBUILD_PHYS'', ''org.openzfs:vdev_rebuild''),
     (''VDEV_TOP_ZAP_ALLOCATION_BIAS'', ''org.zfsonlinux:allocation_bias''),
     (''VDEV_TOP_ZAP_RAIDZ_EXPAND_STATE'', ''org.openzfs:raidz_expand_state''),
     (''VDEV_TOP_ZAP_RAIDZ_EXPAND_START_TIME'', ''org.openzfs:raidz_expand_start_time''),
     (''VDEV_TOP_ZAP_RAIDZ_EXPAND_END_TIME'', ''org.openzfs:raidz_expand_end_time''),
     (''VDEV_TOP_ZAP_RAIDZ_EXPAND_BYTES_COPIED'', ''org.openzfs:raidz_expand_bytes_copied'')]"

definition vdev_leaf_zap_keys :: name_table where
  "vdev_leaf_zap_keys = [
     (''VDEV_LEAF_ZAP_INITIALIZE_LAST_OFFSET'', ''com.delphix:next_offset_to_initialize''),
     (''VDEV_LEAF_ZAP_INITIALIZE_STATE'', ''com.delphix:vdev_initialize_state''),
     (''VDEV_LEAF_ZAP_INITIALIZE_ACTION_TIME'', ''com.delphix:vdev_initialize_action_time''),
     (''VDEV_LEAF_ZAP_TRIM_LAST_OFFSET'', ''org.zfsonlinux:next_offset_to_trim''),
     (''VDEV_LEAF_ZAP_TRIM_STATE'', ''org.zfsonlinux:vdev_trim_state''),
     (''VDEV_LEAF_ZAP_TRIM_ACTION_TIME'', ''org.zfsonlinux:vdev_trim_action_time''),
     (''VDEV_LEAF_ZAP_TRIM_RATE'', ''org.zfsonlinux:vdev_trim_rate''),
     (''VDEV_LEAF_ZAP_TRIM_PARTIAL'', ''org.zfsonlinux:vdev_trim_partial''),
     (''VDEV_LEAF_ZAP_TRIM_SECURE'', ''org.zfsonlinux:vdev_trim_secure'')]"

definition zpool_command_keys :: name_table where
  "zpool_command_keys = [
     (''ZPOOL_HIST_RECORD'', ''history record''), (''ZPOOL_HIST_TIME'', ''history time''),
     (''ZPOOL_HIST_CMD'', ''history command''), (''ZPOOL_HIST_WHO'', ''history who''),
     (''ZPOOL_HIST_ZONE'', ''history zone''), (''ZPOOL_HIST_HOST'', ''history hostname''),
     (''ZPOOL_HIST_TXG'', ''history txg''), (''ZPOOL_HIST_INT_EVENT'', ''history internal event''),
     (''ZPOOL_HIST_INT_STR'', ''history internal str''), (''ZPOOL_HIST_INT_NAME'', ''internal_name''),
     (''ZPOOL_HIST_IOCTL'', ''ioctl''), (''ZPOOL_HIST_INPUT_NVL'', ''in_nvl''),
     (''ZPOOL_HIST_OUTPUT_NVL'', ''out_nvl''), (''ZPOOL_HIST_OUTPUT_SIZE'', ''out_size''),
     (''ZPOOL_HIST_DSNAME'', ''dsname''), (''ZPOOL_HIST_DSID'', ''dsid''), (''ZPOOL_HIST_ERRNO'', ''errno''),
     (''ZPOOL_HIST_ELAPSED_NS'', ''elapsed_ns''), (''ZPOOL_HIDDEN_ARGS'', ''hidden_args''),
     (''ZPOOL_GET_PROPS_NAMES'', ''get_props_names''), (''ZPOOL_DEDUPCACHED_PROP_NAME'', ''dedupcached''),
     (''ZPOOL_INITIALIZE_COMMAND'', ''initialize_command''), (''ZPOOL_INITIALIZE_VDEVS'', ''initialize_vdevs''),
     (''ZPOOL_REGUID_GUID'', ''guid''), (''ZPOOL_TRIM_COMMAND'', ''trim_command''),
     (''ZPOOL_TRIM_VDEVS'', ''trim_vdevs''), (''ZPOOL_TRIM_RATE'', ''trim_rate''),
     (''ZPOOL_TRIM_SECURE'', ''trim_secure''), (''ZPOOL_WAIT_ACTIVITY'', ''wait_activity''),
     (''ZPOOL_WAIT_TAG'', ''wait_tag''), (''ZPOOL_WAIT_WAITED'', ''wait_waited''),
     (''ZPOOL_VDEV_PROPS_GET_VDEV'', ''vdevprops_get_vdev''),
     (''ZPOOL_VDEV_PROPS_GET_PROPS'', ''vdevprops_get_props''),
     (''ZPOOL_VDEV_PROPS_SET_VDEV'', ''vdevprops_set_vdev''),
     (''ZPOOL_VDEV_PROPS_SET_PROPS'', ''vdevprops_set_props''), (''ZFS_WAIT_ACTIVITY'', ''wait_activity''),
     (''ZFS_WAIT_WAITED'', ''wait_waited''), (''ZPOOL_PREFETCH_TYPE'', ''prefetch_type''),
     (''DDT_PRUNE_UNIT'', ''ddt_prune_unit''), (''DDT_PRUNE_AMOUNT'', ''ddt_prune_amount'')]"

definition zcp_keys :: name_table where
  "zcp_keys = [
     (''ZCP_ARG_PROGRAM'', ''program''), (''ZCP_ARG_ARGLIST'', ''arg''), (''ZCP_ARG_SYNC'', ''sync''),
     (''ZCP_ARG_INSTRLIMIT'', ''instrlimit''), (''ZCP_ARG_MEMLIMIT'', ''memlimit''), (''ZCP_ARG_CLIARGV'', ''argv''),
     (''ZCP_RET_ERROR'', ''error''), (''ZCP_RET_RETURN'', ''return'')]"

definition zfs_event_keys :: name_table where
  "zfs_event_keys = [
     (''ZFS_EV_POOL_NAME'', ''pool_name''), (''ZFS_EV_POOL_GUID'', ''pool_guid''),
     (''ZFS_EV_VDEV_PATH'', ''vdev_path''), (''ZFS_EV_VDEV_GUID'', ''vdev_guid''),
     (''ZFS_EV_HIST_TIME'', ''history_time''), (''ZFS_EV_HIST_CMD'', ''history_command''),
     (''ZFS_EV_HIST_WHO'', ''history_who''), (''ZFS_EV_HIST_ZONE'', ''history_zone''),
     (''ZFS_EV_HIST_HOST'', ''history_hostname''), (''ZFS_EV_HIST_TXG'', ''history_txg''),
     (''ZFS_EV_HIST_INT_EVENT'', ''history_internal_event''), (''ZFS_EV_HIST_INT_STR'', ''history_internal_str''),
     (''ZFS_EV_HIST_INT_NAME'', ''history_internal_name''), (''ZFS_EV_HIST_IOCTL'', ''history_ioctl''),
     (''ZFS_EV_HIST_DSNAME'', ''history_dsname''), (''ZFS_EV_HIST_DSID'', ''history_dsid''),
     (''ZFS_EV_RESILVER_TYPE'', ''resilver_type'')]"

definition fm_class_names :: name_table where
  "fm_class_names = [
     (''FM_CLASS'', ''class''), (''FM_VERSION'', ''version''), (''FM_EREPORT_CLASS'', ''ereport''),
     (''FM_FAULT_CLASS'', ''fault''), (''FM_DEFECT_CLASS'', ''defect''), (''FM_RSRC_CLASS'', ''resource''),
     (''FM_LIST_EVENT'', ''list''), (''FM_IREPORT_CLASS'', ''ireport''), (''FM_SYSEVENT_CLASS'', ''sysevent'')]"

definition fm_event_members :: name_table where
  "fm_event_members = [
     (''FM_EREPORT_DETECTOR'', ''detector''), (''FM_EREPORT_ENA'', ''ena''), (''FM_EREPORT_TIME'', ''time''),
     (''FM_EREPORT_EID'', ''eid''), (''FM_LIST_EVENT_SIZE'', ''list-sz''), (''FM_IREPORT_DETECTOR'', ''detector''),
     (''FM_IREPORT_UUID'', ''uuid''), (''FM_IREPORT_PRIORITY'', ''pri''), (''FM_IREPORT_ATTRIBUTES'', ''attr''),
     (''FM_SUSPECT_UUID'', ''uuid''), (''FM_SUSPECT_DIAG_CODE'', ''code''),
     (''FM_SUSPECT_DIAG_TIME'', ''diag-time''), (''FM_SUSPECT_DE'', ''de''),
     (''FM_SUSPECT_FAULT_LIST'', ''fault-list''), (''FM_SUSPECT_FAULT_SZ'', ''fault-list-sz''),
     (''FM_SUSPECT_FAULT_STATUS'', ''fault-status''), (''FM_SUSPECT_INJECTED'', ''__injected''),
     (''FM_SUSPECT_MESSAGE'', ''message''), (''FM_SUSPECT_RETIRE'', ''retire''),
     (''FM_SUSPECT_RESPONSE'', ''response''), (''FM_SUSPECT_SEVERITY'', ''severity'')]"

definition fm_fault_members :: name_table where
  "fm_fault_members = [
     (''FM_FAULT_ASRU'', ''asru''), (''FM_FAULT_FRU'', ''fru''), (''FM_FAULT_FRU_LABEL'', ''fru-label''),
     (''FM_FAULT_CERTAINTY'', ''certainty''), (''FM_FAULT_RESOURCE'', ''resource''),
     (''FM_FAULT_LOCATION'', ''location'')]"

definition fm_rsrc_members :: name_table where
  "fm_rsrc_members = [
     (''FM_RSRC_RESOURCE'', ''resource''), (''FM_RSRC_ASRU_UUID'', ''uuid''), (''FM_RSRC_ASRU_CODE'', ''code''),
     (''FM_RSRC_ASRU_FAULTY'', ''faulty''), (''FM_RSRC_ASRU_REPAIRED'', ''repaired''),
     (''FM_RSRC_ASRU_REPLACED'', ''replaced''), (''FM_RSRC_ASRU_ACQUITTED'', ''acquitted''),
     (''FM_RSRC_ASRU_RESOLVED'', ''resolved''), (''FM_RSRC_ASRU_UNUSABLE'', ''unusable''),
     (''FM_RSRC_ASRU_EVENT'', ''event'')]"

definition fm_rsrc_xprt_members :: name_table where
  "fm_rsrc_xprt_members = [
     (''FM_RSRC_XPRT_UUID'', ''uuid''), (''FM_RSRC_XPRT_SUBCLASS'', ''subclass''),
     (''FM_RSRC_XPRT_FAULT_STATUS'', ''fault-status''), (''FM_RSRC_XPRT_FAULT_HAS_ASRU'', ''fault-has-asru'')]"

definition fm_fmri_members :: name_table where
  "fm_fmri_members = [
     (''FM_FMRI_AUTHORITY'', ''authority''), (''FM_FMRI_SCHEME'', ''scheme''),
     (''FM_FMRI_SVC_AUTHORITY'', ''svc-authority''), (''FM_FMRI_FACILITY'', ''facility''),
     (''FM_FMRI_AUTH_CHASSIS'', ''chassis-id''), (''FM_FMRI_AUTH_PRODUCT_SN'', ''product-sn''),
     (''FM_FMRI_AUTH_PRODUCT'', ''product-id''), (''FM_FMRI_AUTH_DOMAIN'', ''domain-id''),
     (''FM_FMRI_AUTH_SERVER'', ''server-id''), (''FM_FMRI_AUTH_HOST'', ''host-id'')]"

definition fm_fmri_schemes :: name_table where
  "fm_fmri_schemes = [
     (''FM_FMRI_SCHEME_FMD'', ''fmd''), (''FM_FMRI_SCHEME_DEV'', ''dev''), (''FM_FMRI_SCHEME_HC'', ''hc''),
     (''FM_FMRI_SCHEME_SVC'', ''svc''), (''FM_FMRI_SCHEME_CPU'', ''cpu''), (''FM_FMRI_SCHEME_MEM'', ''mem''),
     (''FM_FMRI_SCHEME_MOD'', ''mod''), (''FM_FMRI_SCHEME_PKG'', ''pkg''),
     (''FM_FMRI_SCHEME_LEGACY'', ''legacy-hc''), (''FM_FMRI_SCHEME_ZFS'', ''zfs''), (''FM_FMRI_SCHEME_SW'', ''sw'')]"

definition fm_fmri_hc_members :: name_table where
  "fm_fmri_hc_members = [
     (''FM_FMRI_HC_SERIAL_ID'', ''serial''), (''FM_FMRI_HC_PART'', ''part''),
     (''FM_FMRI_HC_REVISION'', ''revision''), (''FM_FMRI_HC_ROOT'', ''hc-root''),
     (''FM_FMRI_HC_LIST_SZ'', ''hc-list-sz''), (''FM_FMRI_HC_LIST'', ''hc-list''),
     (''FM_FMRI_HC_SPECIFIC'', ''hc-specific''), (''FM_FMRI_FACILITY_NAME'', ''facility-name''),
     (''FM_FMRI_FACILITY_TYPE'', ''facility-type''), (''FM_FMRI_HC_NAME'', ''hc-name''),
     (''FM_FMRI_HC_ID'', ''hc-id'')]"

definition fm_fmri_cpu_members :: name_table where
  "fm_fmri_cpu_members = [
     (''FM_FMRI_HC_SPECIFIC_OFFSET'', ''offset''), (''FM_FMRI_HC_SPECIFIC_PHYSADDR'', ''physaddr''),
     (''FM_FMRI_FMD_NAME'', ''mod-name''), (''FM_FMRI_FMD_VERSION'', ''mod-version''),
     (''FM_FMRI_DEV_ID'', ''devid''), (''FM_FMRI_DEV_TGTPTLUN0'', ''target-port-l0id''),
     (''FM_FMRI_DEV_PATH'', ''device-path''), (''FM_FMRI_PKG_BASEDIR'', ''pkg-basedir''),
     (''FM_FMRI_PKG_INST'', ''pkg-inst''), (''FM_FMRI_PKG_VERSION'', ''pkg-version''),
     (''FM_FMRI_SVC_NAME'', ''svc-name''), (''FM_FMRI_SVC_INSTANCE'', ''svc-instance''),
     (''FM_FMRI_SVC_CONTRACT_ID'', ''svc-contract-id''), (''FM_FMRI_SVC_AUTH_SCOPE'', ''scope''),
     (''FM_FMRI_SVC_AUTH_SYSTEM_FQN'', ''system-fqn''), (''FM_FMRI_CPU_ID'', ''cpuid''),
     (''FM_FMRI_CPU_SERIAL_ID'', ''serial''), (''FM_FMRI_CPU_MASK'', ''cpumask''), (''FM_FMRI_CPU_VID'', ''cpuvid''),
     (''FM_FMRI_CPU_CPUFRU'', ''cpufru''), (''FM_FMRI_CPU_CACHE_INDEX'', ''cacheindex''),
     (''FM_FMRI_CPU_CACHE_WAY'', ''cacheway''), (''FM_FMRI_CPU_CACHE_BIT'', ''cachebit''),
     (''FM_FMRI_CPU_CACHE_TYPE'', ''cachetype'')]"

definition fm_fmri_mem_members :: name_table where
  "fm_fmri_mem_members = [
     (''FM_FMRI_MEM_UNUM'', ''unum''), (''FM_FMRI_MEM_SERIAL_ID'', ''serial''),
     (''FM_FMRI_MEM_PHYSADDR'', ''physaddr''), (''FM_FMRI_MEM_MEMCONFIG'', ''memconfig''),
     (''FM_FMRI_MEM_OFFSET'', ''offset''), (''FM_FMRI_MOD_PKG'', ''mod-pkg''), (''FM_FMRI_MOD_NAME'', ''mod-name''),
     (''FM_FMRI_MOD_ID'', ''mod-id''), (''FM_FMRI_MOD_DESC'', ''mod-desc''), (''FM_FMRI_ZFS_POOL'', ''pool''),
     (''FM_FMRI_ZFS_VDEV'', ''vdev''), (''FM_FMRI_SW_OBJ'', ''object''), (''FM_FMRI_SW_OBJ_PATH'', ''path''),
     (''FM_FMRI_SW_OBJ_ROOT'', ''root''), (''FM_FMRI_SW_OBJ_PKG'', ''pkg''), (''FM_FMRI_SW_SITE'', ''site''),
     (''FM_FMRI_SW_SITE_TOKEN'', ''token''), (''FM_FMRI_SW_SITE_MODULE'', ''module''),
     (''FM_FMRI_SW_SITE_FILE'', ''file''), (''FM_FMRI_SW_SITE_LINE'', ''line''),
     (''FM_FMRI_SW_SITE_FUNC'', ''func''), (''FM_FMRI_SW_CTXT'', ''context''),
     (''FM_FMRI_SW_CTXT_ORIGIN'', ''origin''), (''FM_FMRI_SW_CTXT_EXECNAME'', ''execname''),
     (''FM_FMRI_SW_CTXT_PID'', ''pid''), (''FM_FMRI_SW_CTXT_ZONE'', ''zone''), (''FM_FMRI_SW_CTXT_CTID'', ''ctid''),
     (''FM_FMRI_SW_CTXT_STACK'', ''stack'')]"

definition fm_zfs_names :: name_table where
  "fm_zfs_names = [
     (''ZFS_ERROR_CLASS'', ''fs.zfs''), (''FM_EREPORT_ZFS_CHECKSUM'', ''checksum''),
     (''FM_EREPORT_ZFS_AUTHENTICATION'', ''authentication''), (''FM_EREPORT_ZFS_IO'', ''io''),
     (''FM_EREPORT_ZFS_DATA'', ''data''), (''FM_EREPORT_ZFS_DELAY'', ''delay''),
     (''FM_EREPORT_ZFS_DEADMAN'', ''deadman''), (''FM_EREPORT_ZFS_DIO_VERIFY_WR'', ''dio_verify_wr''),
     (''FM_EREPORT_ZFS_DIO_VERIFY_RD'', ''dio_verify_rd''), (''FM_EREPORT_ZFS_POOL'', ''zpool''),
     (''FM_EREPORT_ZFS_DEVICE_UNKNOWN'', ''vdev.unknown''),
     (''FM_EREPORT_ZFS_DEVICE_OPEN_FAILED'', ''vdev.open_failed''),
     (''FM_EREPORT_ZFS_DEVICE_CORRUPT_DATA'', ''vdev.corrupt_data''),
     (''FM_EREPORT_ZFS_DEVICE_NO_REPLICAS'', ''vdev.no_replicas''),
     (''FM_EREPORT_ZFS_DEVICE_BAD_GUID_SUM'', ''vdev.bad_guid_sum''),
     (''FM_EREPORT_ZFS_DEVICE_TOO_SMALL'', ''vdev.too_small''),
     (''FM_EREPORT_ZFS_DEVICE_BAD_LABEL'', ''vdev.bad_label''),
     (''FM_EREPORT_ZFS_DEVICE_BAD_ASHIFT'', ''vdev.bad_ashift''), (''FM_EREPORT_ZFS_IO_FAILURE'', ''io_failure''),
     (''FM_EREPORT_ZFS_PROBE_FAILURE'', ''probe_failure''), (''FM_EREPORT_ZFS_LOG_REPLAY'', ''log_replay''),
     (''FM_EREPORT_ZFS_CONFIG_CACHE_WRITE'', ''config_cache_write''), (''FM_EREPORT_ZFS_SITOUT'', ''sitout''),
     (''FM_EREPORT_PAYLOAD_ZFS_POOL'', ''pool''), (''FM_EREPORT_PAYLOAD_ZFS_POOL_FAILMODE'', ''pool_failmode''),
     (''FM_EREPORT_PAYLOAD_ZFS_POOL_GUID'', ''pool_guid''),
     (''FM_EREPORT_PAYLOAD_ZFS_POOL_CONTEXT'', ''pool_context''),
     (''FM_EREPORT_PAYLOAD_ZFS_POOL_STATE'', ''pool_state''), (''FM_EREPORT_PAYLOAD_ZFS_VDEV_GUID'', ''vdev_guid''),
     (''FM_EREPORT_PAYLOAD_ZFS_VDEV_TYPE'', ''vdev_type''), (''FM_EREPORT_PAYLOAD_ZFS_VDEV_PATH'', ''vdev_path''),
     (''FM_EREPORT_PAYLOAD_ZFS_VDEV_PHYSPATH'', ''vdev_physpath''),
     (''FM_EREPORT_PAYLOAD_ZFS_VDEV_ENC_SYSFS_PATH'', ''vdev_enc_sysfs_path''),
     (''FM_EREPORT_PAYLOAD_ZFS_VDEV_DEVID'', ''vdev_devid''), (''FM_EREPORT_PAYLOAD_ZFS_VDEV_FRU'', ''vdev_fru''),
     (''FM_EREPORT_PAYLOAD_ZFS_VDEV_STATE'', ''vdev_state''),
     (''FM_EREPORT_PAYLOAD_ZFS_VDEV_LASTSTATE'', ''vdev_laststate''),
     (''FM_EREPORT_PAYLOAD_ZFS_VDEV_ASHIFT'', ''vdev_ashift''),
     (''FM_EREPORT_PAYLOAD_ZFS_VDEV_COMP_TS'', ''vdev_complete_ts''),
     (''FM_EREPORT_PAYLOAD_ZFS_VDEV_DELTA_TS'', ''vdev_delta_ts''),
     (''FM_EREPORT_PAYLOAD_ZFS_VDEV_SPARE_PATHS'', ''vdev_spare_paths''),
     (''FM_EREPORT_PAYLOAD_ZFS_VDEV_SPARE_GUIDS'', ''vdev_spare_guids''),
     (''FM_EREPORT_PAYLOAD_ZFS_VDEV_READ_ERRORS'', ''vdev_read_errors''),
     (''FM_EREPORT_PAYLOAD_ZFS_VDEV_WRITE_ERRORS'', ''vdev_write_errors''),
     (''FM_EREPORT_PAYLOAD_ZFS_VDEV_CKSUM_ERRORS'', ''vdev_cksum_errors''),
     (''FM_EREPORT_PAYLOAD_ZFS_VDEV_CKSUM_N'', ''vdev_cksum_n''),
     (''FM_EREPORT_PAYLOAD_ZFS_VDEV_CKSUM_T'', ''vdev_cksum_t''),
     (''FM_EREPORT_PAYLOAD_ZFS_VDEV_IO_N'', ''vdev_io_n''), (''FM_EREPORT_PAYLOAD_ZFS_VDEV_IO_T'', ''vdev_io_t''),
     (''FM_EREPORT_PAYLOAD_ZFS_VDEV_SLOW_IO_N'', ''vdev_slow_io_n''),
     (''FM_EREPORT_PAYLOAD_ZFS_VDEV_SLOW_IO_T'', ''vdev_slow_io_t''),
     (''FM_EREPORT_PAYLOAD_ZFS_VDEV_DIO_VERIFY_ERRORS'', ''dio_verify_errors''),
     (''FM_EREPORT_PAYLOAD_ZFS_VDEV_DELAYS'', ''vdev_delays''),
     (''FM_EREPORT_PAYLOAD_ZFS_PARENT_GUID'', ''parent_guid''),
     (''FM_EREPORT_PAYLOAD_ZFS_PARENT_TYPE'', ''parent_type''),
     (''FM_EREPORT_PAYLOAD_ZFS_PARENT_PATH'', ''parent_path''),
     (''FM_EREPORT_PAYLOAD_ZFS_PARENT_DEVID'', ''parent_devid''),
     (''FM_EREPORT_PAYLOAD_ZFS_ZIO_OBJSET'', ''zio_objset''),
     (''FM_EREPORT_PAYLOAD_ZFS_ZIO_OBJECT'', ''zio_object''), (''FM_EREPORT_PAYLOAD_ZFS_ZIO_LEVEL'', ''zio_level''),
     (''FM_EREPORT_PAYLOAD_ZFS_ZIO_BLKID'', ''zio_blkid''), (''FM_EREPORT_PAYLOAD_ZFS_ZIO_ERR'', ''zio_err''),
     (''FM_EREPORT_PAYLOAD_ZFS_ZIO_OFFSET'', ''zio_offset''), (''FM_EREPORT_PAYLOAD_ZFS_ZIO_SIZE'', ''zio_size''),
     (''FM_EREPORT_PAYLOAD_ZFS_ZIO_FLAGS'', ''zio_flags''), (''FM_EREPORT_PAYLOAD_ZFS_ZIO_STAGE'', ''zio_stage''),
     (''FM_EREPORT_PAYLOAD_ZFS_ZIO_PRIORITY'', ''zio_priority''),
     (''FM_EREPORT_PAYLOAD_ZFS_ZIO_TYPE'', ''zio_type''),
     (''FM_EREPORT_PAYLOAD_ZFS_ZIO_PIPELINE'', ''zio_pipeline''),
     (''FM_EREPORT_PAYLOAD_ZFS_ZIO_DELAY'', ''zio_delay''),
     (''FM_EREPORT_PAYLOAD_ZFS_ZIO_TIMESTAMP'', ''zio_timestamp''),
     (''FM_EREPORT_PAYLOAD_ZFS_ZIO_DELTA'', ''zio_delta''), (''FM_EREPORT_PAYLOAD_ZFS_PREV_STATE'', ''prev_state''),
     (''FM_EREPORT_PAYLOAD_ZFS_CKSUM_ALGO'', ''cksum_algorithm''),
     (''FM_EREPORT_PAYLOAD_ZFS_CKSUM_BYTESWAP'', ''cksum_byteswap''),
     (''FM_EREPORT_PAYLOAD_ZFS_BAD_OFFSET_RANGES'', ''bad_ranges''),
     (''FM_EREPORT_PAYLOAD_ZFS_BAD_RANGE_MIN_GAP'', ''bad_ranges_min_gap''),
     (''FM_EREPORT_PAYLOAD_ZFS_BAD_RANGE_SETS'', ''bad_range_sets''),
     (''FM_EREPORT_PAYLOAD_ZFS_BAD_RANGE_CLEARS'', ''bad_range_clears''),
     (''FM_EREPORT_PAYLOAD_ZFS_BAD_SET_BITS'', ''bad_set_bits''),
     (''FM_EREPORT_PAYLOAD_ZFS_BAD_CLEARED_BITS'', ''bad_cleared_bits''),
     (''FM_EREPORT_PAYLOAD_ZFS_SNAPSHOT_NAME'', ''snapshot_name''),
     (''FM_EREPORT_PAYLOAD_ZFS_DEVICE_NAME'', ''device_name''),
     (''FM_EREPORT_PAYLOAD_ZFS_RAW_DEVICE_NAME'', ''raw_name''), (''FM_EREPORT_PAYLOAD_ZFS_VOLUME'', ''volume''),
     (''FM_EREPORT_FAILMODE_WAIT'', ''wait''), (''FM_EREPORT_FAILMODE_CONTINUE'', ''continue''),
     (''FM_EREPORT_FAILMODE_PANIC'', ''panic''), (''FM_RESOURCE_REMOVED'', ''removed''),
     (''FM_RESOURCE_AUTOREPLACE'', ''autoreplace''), (''FM_RESOURCE_STATECHANGE'', ''statechange''),
     (''FM_RESOURCE_ZFS_SNAPSHOT_MOUNT'', ''snapshot_mount''),
     (''FM_RESOURCE_ZFS_SNAPSHOT_UNMOUNT'', ''snapshot_unmount''),
     (''FM_RESOURCE_ZVOL_CREATE_SYMLINK'', ''zvol_create''), (''FM_RESOURCE_ZVOL_REMOVE_SYMLINK'', ''zvol_remove'')]"

definition sysevent_names :: name_table where
  "sysevent_names = [
     (''EC_NONE'', ''EC_none''), (''EC_PRIV'', ''EC_priv''), (''EC_PLATFORM'', ''EC_platform''),
     (''EC_DR'', ''EC_dr''), (''EC_ENV'', ''EC_env''), (''EC_DOMAIN'', ''EC_domain''),
     (''EC_AP_DRIVER'', ''EC_ap_driver''), (''EC_IPMP'', ''EC_ipmp''), (''EC_DEV_ADD'', ''EC_dev_add''),
     (''EC_DEV_REMOVE'', ''EC_dev_remove''), (''EC_DEV_BRANCH'', ''EC_dev_branch''),
     (''EC_DEV_STATUS'', ''EC_dev_status''), (''EC_FM'', ''EC_fm''), (''EC_ZFS'', ''EC_zfs''),
     (''EC_DATALINK'', ''EC_datalink''), (''EC_VRRP'', ''EC_vrrp''), (''ESC_DISK'', ''disk''),
     (''ESC_NETWORK'', ''network''), (''ESC_PRINTER'', ''printer''), (''ESC_LOFI'', ''lofi''),
     (''ESC_DEV_BRANCH_ADD'', ''dev_branch_add''), (''ESC_DEV_BRANCH_REMOVE'', ''dev_branch_remove''),
     (''ESC_DEV_DLE'', ''dev_dle''), (''ESC_DEV_EJECT_REQUEST'', ''dev_eject_request''),
     (''ESC_FM_ERROR'', ''error''), (''ESC_FM_ERROR_REPLAY'', ''error_replay''),
     (''ESC_ZFS_RESILVER_START'', ''resilver_start''), (''ESC_ZFS_RESILVER_FINISH'', ''resilver_finish''),
     (''ESC_ZFS_VDEV_REMOVE'', ''vdev_remove''), (''ESC_ZFS_VDEV_REMOVE_AUX'', ''vdev_remove_aux''),
     (''ESC_ZFS_VDEV_REMOVE_DEV'', ''vdev_remove_dev''), (''ESC_ZFS_POOL_CREATE'', ''pool_create''),
     (''ESC_ZFS_POOL_DESTROY'', ''pool_destroy''), (''ESC_ZFS_POOL_IMPORT'', ''pool_import''),
     (''ESC_ZFS_POOL_EXPORT'', ''pool_export''), (''ESC_ZFS_VDEV_ADD'', ''vdev_add''),
     (''ESC_ZFS_VDEV_ATTACH'', ''vdev_attach''), (''ESC_ZFS_VDEV_CLEAR'', ''vdev_clear''),
     (''ESC_ZFS_VDEV_CHECK'', ''vdev_check''), (''ESC_ZFS_VDEV_ONLINE'', ''vdev_online''),
     (''ESC_ZFS_CONFIG_SYNC'', ''config_sync''), (''ESC_ZFS_SCRUB_START'', ''scrub_start''),
     (''ESC_ZFS_SCRUB_FINISH'', ''scrub_finish''), (''ESC_ZFS_SCRUB_ABORT'', ''scrub_abort''),
     (''ESC_ZFS_SCRUB_RESUME'', ''scrub_resume''), (''ESC_ZFS_SCRUB_PAUSED'', ''scrub_paused''),
     (''ESC_ZFS_VDEV_SPARE'', ''vdev_spare''), (''ESC_ZFS_VDEV_AUTOEXPAND'', ''vdev_autoexpand''),
     (''ESC_ZFS_BOOTFS_VDEV_ATTACH'', ''bootfs_vdev_attach''), (''ESC_ZFS_POOL_REGUID'', ''pool_reguid''),
     (''ESC_ZFS_HISTORY_EVENT'', ''history_event''), (''ESC_ZFS_TRIM_START'', ''trim_start''),
     (''ESC_ZFS_TRIM_FINISH'', ''trim_finish''), (''ESC_ZFS_TRIM_CANCEL'', ''trim_cancel''),
     (''ESC_ZFS_TRIM_RESUME'', ''trim_resume''), (''ESC_ZFS_TRIM_SUSPEND'', ''trim_suspend''),
     (''ESC_ZFS_ERRORSCRUB_START'', ''errorscrub_start''), (''ESC_ZFS_ERRORSCRUB_FINISH'', ''errorscrub_finish''),
     (''ESC_ZFS_ERRORSCRUB_ABORT'', ''errorscrub_abort''), (''ESC_ZFS_ERRORSCRUB_RESUME'', ''errorscrub_resume''),
     (''ESC_ZFS_ERRORSCRUB_PAUSED'', ''errorscrub_paused''), (''ESC_DATALINK_PHYS_ADD'', ''datalink_phys_add'')]"

definition sysevent_dev_members :: name_table where
  "sysevent_dev_members = [
     (''EV_VERSION'', ''version''), (''DEV_PHYS_PATH'', ''phys_path''), (''DEV_NAME'', ''dev_name''),
     (''DEV_DRIVER_NAME'', ''driver_name''), (''DEV_INSTANCE'', ''instance''), (''DEV_PROP_PREFIX'', ''prop-'')]"

definition dmu_pool_keys :: name_table where
  "dmu_pool_keys = [
     (''DMU_POOL_CONFIG'', ''config''), (''DMU_POOL_FEATURES_FOR_WRITE'', ''features_for_write''),
     (''DMU_POOL_FEATURES_FOR_READ'', ''features_for_read''),
     (''DMU_POOL_FEATURE_DESCRIPTIONS'', ''feature_descriptions''),
     (''DMU_POOL_FEATURE_ENABLED_TXG'', ''feature_enabled_txg''), (''DMU_POOL_ROOT_DATASET'', ''root_dataset''),
     (''DMU_POOL_SYNC_BPOBJ'', ''sync_bplist''), (''DMU_POOL_ERRLOG_SCRUB'', ''errlog_scrub''),
     (''DMU_POOL_ERRLOG_LAST'', ''errlog_last''), (''DMU_POOL_SPARES'', ''spares''),
     (''DMU_POOL_DEFLATE'', ''deflate''), (''DMU_POOL_HISTORY'', ''history''), (''DMU_POOL_PROPS'', ''pool_props''),
     (''DMU_POOL_L2CACHE'', ''l2cache''), (''DMU_POOL_TMP_USERREFS'', ''tmp_userrefs''),
     (''DMU_POOL_DDT'', ''DDT-%s-%s-%s''), (''DMU_POOL_DDT_LOG'', ''DDT-log-%s-%u''),
     (''DMU_POOL_DDT_STATS'', ''DDT-statistics''), (''DMU_POOL_DDT_DIR'', ''DDT-%s''),
     (''DMU_POOL_CREATION_VERSION'', ''creation_version''), (''DMU_POOL_SCAN'', ''scan''),
     (''DMU_POOL_ERRORSCRUB'', ''error_scrub''), (''DMU_POOL_LAST_SCRUBBED_TXG'', ''last_scrubbed_txg''),
     (''DMU_POOL_FREE_BPOBJ'', ''free_bpobj''), (''DMU_POOL_BPTREE_OBJ'', ''bptree_obj''),
     (''DMU_POOL_EMPTY_BPOBJ'', ''empty_bpobj''), (''DMU_POOL_CHECKSUM_SALT'', ''org.illumos:checksum_salt''),
     (''DMU_POOL_VDEV_ZAP_MAP'', ''com.delphix:vdev_zap_map''), (''DMU_POOL_REMOVING'', ''com.delphix:removing''),
     (''DMU_POOL_OBSOLETE_BPOBJ'', ''com.delphix:obsolete_bpobj''),
     (''DMU_POOL_CONDENSING_INDIRECT'', ''com.delphix:condensing_indirect''),
     (''DMU_POOL_ZPOOL_CHECKPOINT'', ''com.delphix:zpool_checkpoint''),
     (''DMU_POOL_LOG_SPACEMAP_ZAP'', ''com.delphix:log_spacemap_zap''),
     (''DMU_POOL_DELETED_CLONES'', ''com.delphix:deleted_clones''),
     (''DMU_POOL_TXG_LOG_TIME_MINUTES'', ''com.klarasystems:txg_log_time:minutes''),
     (''DMU_POOL_TXG_LOG_TIME_DAYS'', ''com.klarasystems:txg_log_time:days''),
     (''DMU_POOL_TXG_LOG_TIME_MONTHS'', ''com.klarasystems:txg_log_time:months'')]"

definition zfs_deleg_perms :: name_table where
  "zfs_deleg_perms = [
     (''ZFS_DELEG_PERM_NONE'', ''''), (''ZFS_DELEG_PERM_CREATE'', ''create''),
     (''ZFS_DELEG_PERM_DESTROY'', ''destroy''), (''ZFS_DELEG_PERM_SNAPSHOT'', ''snapshot''),
     (''ZFS_DELEG_PERM_ROLLBACK'', ''rollback''), (''ZFS_DELEG_PERM_CLONE'', ''clone''),
     (''ZFS_DELEG_PERM_PROMOTE'', ''promote''), (''ZFS_DELEG_PERM_RENAME'', ''rename''),
     (''ZFS_DELEG_PERM_MOUNT'', ''mount''), (''ZFS_DELEG_PERM_SHARE'', ''share''),
     (''ZFS_DELEG_PERM_SEND'', ''send''), (''ZFS_DELEG_PERM_SEND_RAW'', ''send:raw''),
     (''ZFS_DELEG_PERM_RECEIVE'', ''receive''), (''ZFS_DELEG_PERM_RECEIVE_APPEND'', ''receive:append''),
     (''ZFS_DELEG_PERM_ALLOW'', ''allow''), (''ZFS_DELEG_PERM_USERPROP'', ''userprop''),
     (''ZFS_DELEG_PERM_VSCAN'', ''vscan''), (''ZFS_DELEG_PERM_USERQUOTA'', ''userquota''),
     (''ZFS_DELEG_PERM_GROUPQUOTA'', ''groupquota''), (''ZFS_DELEG_PERM_USEROBJQUOTA'', ''userobjquota''),
     (''ZFS_DELEG_PERM_GROUPOBJQUOTA'', ''groupobjquota''), (''ZFS_DELEG_PERM_USERUSED'', ''userused''),
     (''ZFS_DELEG_PERM_GROUPUSED'', ''groupused''), (''ZFS_DELEG_PERM_USEROBJUSED'', ''userobjused''),
     (''ZFS_DELEG_PERM_GROUPOBJUSED'', ''groupobjused''), (''ZFS_DELEG_PERM_HOLD'', ''hold''),
     (''ZFS_DELEG_PERM_RELEASE'', ''release''), (''ZFS_DELEG_PERM_DIFF'', ''diff''),
     (''ZFS_DELEG_PERM_BOOKMARK'', ''bookmark''), (''ZFS_DELEG_PERM_LOAD_KEY'', ''load-key''),
     (''ZFS_DELEG_PERM_CHANGE_KEY'', ''change-key''), (''ZFS_DELEG_PERM_PROJECTUSED'', ''projectused''),
     (''ZFS_DELEG_PERM_PROJECTQUOTA'', ''projectquota''), (''ZFS_DELEG_PERM_PROJECTOBJUSED'', ''projectobjused''),
     (''ZFS_DELEG_PERM_PROJECTOBJQUOTA'', ''projectobjquota'')]"

definition ds_fields :: name_table where
  "ds_fields = [
     (''DS_FIELD_BOOKMARK_NAMES'', ''com.delphix:bookmarks''),
     (''DS_FIELD_LARGE_DNODE'', ''org.zfsonlinux:large_dnode''),
     (''DS_FIELD_RESUME_FROMGUID'', ''com.delphix:resume_fromguid''),
     (''DS_FIELD_RESUME_TONAME'', ''com.delphix:resume_toname''),
     (''DS_FIELD_RESUME_TOGUID'', ''com.delphix:resume_toguid''),
     (''DS_FIELD_RESUME_OBJECT'', ''com.delphix:resume_object''),
     (''DS_FIELD_RESUME_OFFSET'', ''com.delphix:resume_offset''),
     (''DS_FIELD_RESUME_BYTES'', ''com.delphix:resume_bytes''),
     (''DS_FIELD_RESUME_LARGEBLOCK'', ''com.delphix:resume_largeblockok''),
     (''DS_FIELD_RESUME_EMBEDOK'', ''com.delphix:resume_embedok''),
     (''DS_FIELD_RESUME_COMPRESSOK'', ''com.delphix:resume_compressok''),
     (''DS_FIELD_RESUME_RAWOK'', ''com.datto:resume_rawok''),
     (''DS_FIELD_REMAP_DEADLIST'', ''com.delphix:remap_deadlist''),
     (''DS_FIELD_RESUME_REDACT_BOOKMARK_SNAPS'', ''com.delphix:resume_redact_book_snaps''),
     (''DS_FIELD_IVSET_GUID'', ''com.datto:ivset_guid'')]"

definition dd_fields :: name_table where
  "dd_fields = [
     (''DD_FIELD_FILESYSTEM_COUNT'', ''com.joyent:filesystem_count''),
     (''DD_FIELD_SNAPSHOT_COUNT'', ''com.joyent:snapshot_count''),
     (''DD_FIELD_CRYPTO_KEY_OBJ'', ''com.datto:crypto_key_obj''), (''DD_FIELD_LIVELIST'', ''com.delphix:livelist''),
     (''DD_FIELD_SNAPSHOTS_CHANGED'', ''com.ixsystems:snapshots_changed'')]"

definition dsl_special_dirs :: name_table where
  "dsl_special_dirs = [
     (''MOS_DIR_NAME'', ''$MOS''), (''ORIGIN_DIR_NAME'', ''$ORIGIN''), (''FREE_DIR_NAME'', ''$FREE''),
     (''LEAK_DIR_NAME'', ''$LEAK'')]"

definition dsl_crypto_keys :: name_table where
  "dsl_crypto_keys = [
     (''DSL_CRYPTO_KEY_CRYPTO_SUITE'', ''DSL_CRYPTO_SUITE''), (''DSL_CRYPTO_KEY_GUID'', ''DSL_CRYPTO_GUID''),
     (''DSL_CRYPTO_KEY_IV'', ''DSL_CRYPTO_IV''), (''DSL_CRYPTO_KEY_MAC'', ''DSL_CRYPTO_MAC''),
     (''DSL_CRYPTO_KEY_MASTER_KEY'', ''DSL_CRYPTO_MASTER_KEY_1''),
     (''DSL_CRYPTO_KEY_HMAC_KEY'', ''DSL_CRYPTO_HMAC_KEY_1''),
     (''DSL_CRYPTO_KEY_ROOT_DDOBJ'', ''DSL_CRYPTO_ROOT_DDOBJ''),
     (''DSL_CRYPTO_KEY_REFCOUNT'', ''DSL_CRYPTO_REFCOUNT''), (''DSL_CRYPTO_KEY_VERSION'', ''DSL_CRYPTO_VERSION'')]"

definition master_node_keys :: name_table where
  "master_node_keys = [
     (''ZFS_FSID'', ''FSID''), (''ZFS_UNLINKED_SET'', ''DELETE_QUEUE''), (''ZFS_ROOT_OBJ'', ''ROOT''),
     (''ZPL_VERSION_STR'', ''VERSION''), (''ZFS_FUID_TABLES'', ''FUID''), (''ZFS_SHARES_DIR'', ''SHARES''),
     (''ZFS_SA_ATTRS'', ''SA_ATTRS'')]"

definition sa_master_keys :: name_table where
  "sa_master_keys = [
     (''SA_LAYOUTS'', ''LAYOUTS''), (''SA_REGISTRY'', ''REGISTRY'')]"

definition mount_options_a :: name_table where
  "mount_options_a = [
     (''MNTOPT_ASYNC'', ''async''), (''MNTOPT_ATIME'', ''atime''), (''MNTOPT_NOATIME'', ''noatime''),
     (''MNTOPT_AUTO'', ''auto''), (''MNTOPT_NOAUTO'', ''noauto''), (''MNTOPT_CONTEXT'', ''context''),
     (''MNTOPT_FSCONTEXT'', ''fscontext''), (''MNTOPT_DEFCONTEXT'', ''defcontext''),
     (''MNTOPT_ROOTCONTEXT'', ''rootcontext''), (''MNTOPT_DEFAULTS'', ''defaults''), (''MNTOPT_DEVICES'', ''dev''),
     (''MNTOPT_NODEVICES'', ''nodev''), (''MNTOPT_DIRATIME'', ''diratime''), (''MNTOPT_NODIRATIME'', ''nodiratime''),
     (''MNTOPT_DIRSYNC'', ''dirsync''), (''MNTOPT_EXEC'', ''exec''), (''MNTOPT_NOEXEC'', ''noexec''),
     (''MNTOPT_GROUP'', ''group''), (''MNTOPT_NOGROUP'', ''nogroup''), (''MNTOPT_IVERSION'', ''iversion''),
     (''MNTOPT_NOIVERSION'', ''noiversion''), (''MNTOPT_NBMAND'', ''mand''), (''MNTOPT_NONBMAND'', ''nomand''),
     (''MNTOPT_NETDEV'', ''_netdev''), (''MNTOPT_NOFAIL'', ''nofail''), (''MNTOPT_RELATIME'', ''relatime''),
     (''MNTOPT_NORELATIME'', ''norelatime''), (''MNTOPT_STRICTATIME'', ''strictatime''),
     (''MNTOPT_NOSTRICTATIME'', ''nostrictatime''), (''MNTOPT_LAZYTIME'', ''lazytime'')]"

definition mount_options_b :: name_table where
  "mount_options_b = [
     (''MNTOPT_OWNER'', ''owner''), (''MNTOPT_NOOWNER'', ''noowner''), (''MNTOPT_REMOUNT'', ''remount''),
     (''MNTOPT_RO'', ''ro''), (''MNTOPT_RW'', ''rw''), (''MNTOPT_SYNC'', ''sync''), (''MNTOPT_USER'', ''user''),
     (''MNTOPT_NOUSER'', ''nouser''), (''MNTOPT_USERS'', ''users''), (''MNTOPT_NOUSERS'', ''nousers''),
     (''MNTOPT_SUB'', ''sub''), (''MNTOPT_NOSUB'', ''nosub''), (''MNTOPT_QUIET'', ''quiet''),
     (''MNTOPT_LOUD'', ''loud''), (''MNTOPT_BIND'', ''bind''), (''MNTOPT_RBIND'', ''rbind''),
     (''MNTOPT_DIRXATTR'', ''dirxattr''), (''MNTOPT_SAXATTR'', ''saxattr''), (''MNTOPT_XATTR'', ''xattr''),
     (''MNTOPT_NOXATTR'', ''noxattr''), (''MNTOPT_COMMENT'', ''comment''), (''MNTOPT_ZFSUTIL'', ''zfsutil''),
     (''MNTOPT_ACL'', ''acl''), (''MNTOPT_NOACL'', ''noacl''), (''MNTOPT_POSIXACL'', ''posixacl''),
     (''MNTOPT_MNTPOINT'', ''mntpoint''), (''MNTOPT_CASESENSITIVE'', ''casesensitive''),
     (''MNTOPT_CASEINSENSITIVE'', ''caseinsensitive''), (''MNTOPT_CASEMIXED'', ''casemixed'')]"

section \<open>Keys on disk\<close>

text \<open>
  The objects that are maps from names to numbers, with the tables of their keys. The keys of
  deduplication tables are formats: the other keys are those without a percent sign.
\<close>

definition fixed_keys :: "name_table \<Rightarrow> string list" where
  "fixed_keys t = filter (\<lambda>k. CHR ''%'' \<notin> set k) (map snd t)"

definition disk_objects :: "(string \<times> name_table) list" where
  "disk_objects = [(''pool directory'', dmu_pool_keys), (''dataset'', ds_fields), (''directory'', dd_fields),
     (''child directories'', dsl_special_dirs), (''top-level device'', vdev_top_zap_keys), (''leaf device'', vdev_leaf_zap_keys),
     (''encryption key'', dsl_crypto_keys), (''master node'', master_node_keys), (''attribute master'', sa_master_keys)]"

lemmas disk_tables = dmu_pool_keys_def ds_fields_def dd_fields_def dsl_special_dirs_def vdev_top_zap_keys_def
  vdev_leaf_zap_keys_def dsl_crypto_keys_def master_node_keys_def sa_master_keys_def

text \<open>
  No two keys of an object on disk are the same, and every key fits with its terminating zero
  into the name field of a small map's entry, so such an object never has to grow into a large map
  because of a key; the keys of a dataset, a directory or a device all carry the organisation that
  introduced them.
\<close>

theorem disk_keys_fit:
  "list_all (\<lambda>(obj, t). distinct (map snd t) \<and>
     list_all (\<lambda>k. k \<noteq> [] \<and> length k + 1 \<le> MZAP_NAME_LEN) (fixed_keys t)) disk_objects \<and>
   list_all (\<lambda>k. CHR '':'' \<in> set k) (map snd (ds_fields @ dd_fields @ vdev_top_zap_keys @ vdev_leaf_zap_keys))"
  by code_simp

section \<open>Keys of commands and events\<close>

text \<open>A dictionary of named values is looked up by name: two keys of one dictionary differ.\<close>

definition dictionaries :: "name_table list" where
  "dictionaries = [zpool_config_keys_a @ zpool_config_keys_b, vdev_type_names, zcp_keys, zfs_event_keys, fm_class_names,
     fm_fault_members, fm_rsrc_members, fm_rsrc_xprt_members, fm_fmri_members, fm_fmri_schemes,
     fm_fmri_hc_members, fm_fmri_mem_members, fm_zfs_names, sysevent_names, sysevent_dev_members, zfs_deleg_perms,
     mount_options_a @ mount_options_b]"

text \<open>Two lists of strings are checked separately, and against each other.\<close>

lemma distinct_parts: "distinct xs \<Longrightarrow> distinct ys \<Longrightarrow> list_all (\<lambda>x. x \<notin> set ys) xs \<Longrightarrow> distinct (xs @ ys)"
  by (auto simp: list_all_iff)

abbreviation "keys_differ t \<equiv> distinct (map snd t)"

lemma config_keys_a: "distinct (map snd zpool_config_keys_a)" by code_simp
lemma config_keys_b: "distinct (map snd zpool_config_keys_b)" by code_simp
lemma config_keys_ab: "list_all (\<lambda>x. x \<notin> set (map snd zpool_config_keys_b)) (map snd zpool_config_keys_a)" by code_simp
lemma fm_zfs_differ: "keys_differ fm_zfs_names" by code_simp
lemma sysevents_differ: "keys_differ sysevent_names" by code_simp
lemma mount_differ: "keys_differ (mount_options_a @ mount_options_b)" by code_simp

text \<open>
  The keys of each dictionary that is passed between kernel, library and event daemon are
  pairwise different - the 150 keys of the pool configuration, the classes and members of reports,
  the events, the permissions, the mount options - and none is empty but the permission that stands
  for no permission.
\<close>

theorem dictionary_keys_differ:
  "list_all (\<lambda>t. distinct (map snd t)) dictionaries \<and>
   filter (\<lambda>e. snd e = []) (concat dictionaries) = [(''ZFS_DELEG_PERM_NONE'', [])] \<and>
   length (zpool_config_keys_a @ zpool_config_keys_b) = 150"
proof (intro conjI)
  have c: "keys_differ (zpool_config_keys_a @ zpool_config_keys_b)"
    unfolding map_append by (rule distinct_parts [OF config_keys_a config_keys_b config_keys_ab])
  have s: "list_all keys_differ [vdev_type_names, zcp_keys, zfs_event_keys, fm_class_names, fm_fault_members, fm_rsrc_members,
      fm_rsrc_xprt_members, fm_fmri_members, fm_fmri_schemes, fm_fmri_hc_members, fm_fmri_mem_members,
      sysevent_dev_members, zfs_deleg_perms]" by code_simp
  show "list_all (\<lambda>t. distinct (map snd t)) dictionaries"
    using c s fm_zfs_differ sysevents_differ mount_differ by (simp only: dictionaries_def list.pred_inject simp_thms)
  show "filter (\<lambda>e. snd e = []) (concat dictionaries) = [(''ZFS_DELEG_PERM_NONE'', [])]" by code_simp
  show "length (zpool_config_keys_a @ zpool_config_keys_b) = 150" by code_simp
qed

text \<open>Two tables do share strings: the members of reports and of events, and the serial numbers of parts.\<close>

lemma shared_members:
  "\<not> distinct (map snd fm_event_members)" "\<not> distinct (map snd (fm_fmri_hc_members @ fm_fmri_cpu_members @ fm_fmri_mem_members))"
  by code_simp+

section \<open>Mount options\<close>

text \<open>
  The name of an option that turns another one off is the name of that one after \<open>no\<close>; only
  \<open>nofail\<close> turns off nothing that has a name.
\<close>

definition negated :: "name_table \<Rightarrow> (string \<times> string) list" where
  "negated t = map (\<lambda>(n, v). (''MNTOPT_'' @ drop 9 n, drop 2 v)) (filter (\<lambda>(n, v). take 9 n = ''MNTOPT_NO'') t)"

lemma mount_options_negate:
  "filter (\<lambda>e. e \<notin> set (mount_options_a @ mount_options_b)) (negated (mount_options_a @ mount_options_b)) =
    [(''MNTOPT_FAIL'', ''fail'')]"
  "list_all (\<lambda>(n, v). take 2 v = ''no'') (filter (\<lambda>(n, v). take 9 n = ''MNTOPT_NO'') (mount_options_a @ mount_options_b))"
  by code_simp+

end
