(* ===== verification/Spl_Misc.thy ===== *)
theory Spl_Misc
  imports Prelude
begin

unbundle bit_operations_syntax

text \<open>
  Smaller parts of the porting layers: random numbers in a range (\<open>random.h\<close> of both kernels,
  \<open>zfs_context.h\<close>), write-mostly sums (the three \<open>wmsum.h\<close>), the bounds of a thread's stack
  (\<open>compat/spl/sys/stack.h\<close>), pending signals and new threads of FreeBSD (\<open>sig.h\<close>, \<open>proc.h\<close>).
\<close>

section \<open>Random numbers\<close>








section \<open>Write-mostly sums\<close>

text \<open>
  A sum that is added to often and read seldom. Each layer hands the work to another package - counters
  of the processors in the kernels, aggregated sums in user space - with the operations below.
\<close>

record 's sum_ops =
  sum_init :: "u64 \<Rightarrow> 's"
  sum_zero :: 's
  sum_get :: "'s \<Rightarrow> u64"
  sum_add :: "'s \<Rightarrow> u64 \<Rightarrow> 's"

definition linux_wmsum_init :: "'s sum_ops \<Rightarrow> u64 \<Rightarrow> 's" where "linux_wmsum_init P v = sum_init P v"
definition linux_wmsum_value :: "'s sum_ops \<Rightarrow> 's \<Rightarrow> u64" where "linux_wmsum_value P ws = sum_get P ws"
definition linux_wmsum_add :: "'s sum_ops \<Rightarrow> 's \<Rightarrow> u64 \<Rightarrow> 's" where "linux_wmsum_add P ws delta = sum_add P ws delta"
definition freebsd_wmsum_init :: "'s sum_ops \<Rightarrow> u64 \<Rightarrow> 's" where
  "freebsd_wmsum_init P v = (let ws = sum_zero P in sum_add P ws v)"
definition freebsd_wmsum_value :: "'s sum_ops \<Rightarrow> 's \<Rightarrow> u64" where "freebsd_wmsum_value P ws = sum_get P ws"
definition freebsd_wmsum_add :: "'s sum_ops \<Rightarrow> 's \<Rightarrow> u64 \<Rightarrow> 's" where "freebsd_wmsum_add P ws delta = sum_add P ws delta"
definition user_wmsum_init :: "'s sum_ops \<Rightarrow> u64 \<Rightarrow> 's" where "user_wmsum_init P v = sum_init P v"
definition user_wmsum_value :: "'s sum_ops \<Rightarrow> 's \<Rightarrow> u64" where "user_wmsum_value P ws = sum_get P ws"
definition user_wmsum_add :: "'s sum_ops \<Rightarrow> 's \<Rightarrow> u64 \<Rightarrow> 's" where "user_wmsum_add P ws delta = sum_add P ws delta"

definition sum_contract :: "'s sum_ops \<Rightarrow> bool" where
  "sum_contract P \<longleftrightarrow> (\<forall>v. sum_get P (sum_init P v) = v) \<and> sum_get P (sum_zero P) = 0 \<and>
     (\<forall>s d. sum_get P (sum_add P s d) = sum_get P s + d)"

lemma wmsum_total:
  assumes "sum_contract P"
  shows "linux_wmsum_value P (fold (\<lambda>d s. linux_wmsum_add P s d) ds (linux_wmsum_init P v)) = v + sum_list ds"
    "freebsd_wmsum_value P (fold (\<lambda>d s. freebsd_wmsum_add P s d) ds (freebsd_wmsum_init P v)) = v + sum_list ds"
    "user_wmsum_value P (fold (\<lambda>d s. user_wmsum_add P s d) ds (user_wmsum_init P v)) = v + sum_list ds"
proof -
  have f: "sum_get P (fold (\<lambda>d s. sum_add P s d) ds s) = sum_get P s + sum_list ds" for s
    using assms by (induction ds arbitrary: s) (simp_all add: sum_contract_def)
  show "linux_wmsum_value P (fold (\<lambda>d s. linux_wmsum_add P s d) ds (linux_wmsum_init P v)) = v + sum_list ds"
    "freebsd_wmsum_value P (fold (\<lambda>d s. freebsd_wmsum_add P s d) ds (freebsd_wmsum_init P v)) = v + sum_list ds"
    "user_wmsum_value P (fold (\<lambda>d s. user_wmsum_add P s d) ds (user_wmsum_init P v)) = v + sum_list ds"
    using assms by (simp_all add: linux_wmsum_value_def linux_wmsum_add_def linux_wmsum_init_def freebsd_wmsum_value_def
      freebsd_wmsum_add_def freebsd_wmsum_init_def user_wmsum_value_def user_wmsum_add_def user_wmsum_init_def f sum_contract_def Let_def)
qed

section \<open>Stacks\<close>

text \<open>
  The thread library: the result of asking for the attributes of the calling thread, and the result,
  low address and size of its stack. The trace has the one event that must balance.
\<close>

record stack_bounds =
  ss_sp :: u64
  ss_size :: u64
  ss_flags :: int

definition stack_getbounds :: "int \<Rightarrow> int \<times> u64 \<times> u64 \<Rightarrow> stack_bounds \<Rightarrow> int \<times> stack_bounds \<times> nat" where
  "stack_getbounds getattr_rc getstack sp =
    (if getattr_rc \<noteq> 0 then (getattr_rc, sp, 0)
     else let (rc, low, sz) = getstack;
              sp = (if rc = 0 then sp\<lparr>ss_sp := low, ss_size := sz, ss_flags := 0\<rparr> else sp)
       in (rc, sp, 1))"

definition thr_stksegment :: "int \<Rightarrow> int \<times> u64 \<times> u64 \<Rightarrow> stack_bounds \<Rightarrow> int \<times> stack_bounds \<times> nat" where
  "thr_stksegment getattr_rc getstack sp =
    (let (rc, sp, destroyed) = stack_getbounds getattr_rc getstack sp in
     if rc \<noteq> 0 then (rc, sp, destroyed)
     else (rc, sp\<lparr>ss_sp := ss_sp sp + ss_size sp, ss_flags := 0\<rparr>, destroyed))"

lemma stack_bounds_ends:
  "thr_stksegment 0 (0, low, sz) sp = (0, sp\<lparr>ss_sp := low + sz, ss_size := sz, ss_flags := 0\<rparr>, 1)"
  "snd (snd (thr_stksegment g st sp)) = of_bool (g = 0)"
  "fst (thr_stksegment g st sp) \<noteq> 0 \<Longrightarrow> fst (snd (thr_stksegment g st sp)) = sp"
  "fst (thr_stksegment g st sp) = (if g \<noteq> 0 then g else fst st)"
  by (auto simp: thr_stksegment_def stack_getbounds_def Let_def split: prod.splits if_splits)

section \<open>Signals and threads of FreeBSD\<close>

datatype sig_event = Proc_lock | Sigacts_lock | Cursig | Sigacts_unlock | Proc_unlock

definition issig :: "bool \<Rightarrow> int \<Rightarrow> int \<times> sig_event list" where
  "issig SIGPENDING cursig =
    (if SIGPENDING then (if cursig \<noteq> 0 then 1 else 0, [Proc_lock, Sigacts_lock, Cursig, Sigacts_unlock, Proc_unlock])
     else (0, []))"

datatype thread_event = Kthread_add u64 u64 string | Thread_lock u64 | Sched_prio u64 int | Sched_add u64

text \<open>The kernel's result is an error and the thread; a null thread is 0. The process \<open>p0\<close> stands for the system process.\<close>

definition do_thread_create ::
    "bool \<Rightarrow> (u64 \<Rightarrow> u64 \<Rightarrow> string \<Rightarrow> int \<times> u64) \<Rightarrow> u64 \<Rightarrow> u64 \<Rightarrow> u64 \<Rightarrow> u64 \<Rightarrow> u64 \<Rightarrow> u64 \<Rightarrow> u64 \<Rightarrow> bool \<Rightarrow> int \<Rightarrow> string \<Rightarrow>
      (u64 \<times> thread_event list) option" where
  "do_thread_create nd kproc_kthread_add PAGE_SIZE p0 system_proc stk stksize len pp runnable pri name = do {
     ASSERT nd (stk = 0);
     ASSERT nd (len = 0);
     ASSERT nd runnable;
     let proc = (if pp = p0 then system_proc else pp);
     if PAGE_SIZE = 0 then None else do {
       let pages = stksize div PAGE_SIZE;
       let (error, td) = kproc_kthread_add proc pages name;
       if error = 0 then Some (td, [Kthread_add proc pages name, Thread_lock td, Sched_prio td pri, Sched_add td])
       else Some (0, [Kthread_add proc pages name]) } }"

lemma thread_create_cases:
  assumes "PAGE_SIZE \<noteq> 0"
  shows "\<exists>td tr. do_thread_create nd add PAGE_SIZE p0 sysp 0 sz 0 pp True pri name = Some (td, tr) \<and>
    (td \<noteq> 0 \<longrightarrow> fst (add (if pp = p0 then sysp else pp) (sz div PAGE_SIZE) name) = 0 \<and> Sched_add td \<in> set tr)"
  using assms by (auto simp: do_thread_create_def Let_def split: prod.splits)

definition zfs_proc_is_caller :: "u64 \<Rightarrow> u64 \<Rightarrow> bool" where "zfs_proc_is_caller curproc p \<longleftrightarrow> p = curproc"

end
