(* ===== verification/Isa_Defs.thy ===== *)
theory Isa_Defs
  imports Prelude
begin

text \<open>
  The headers that tell the rest of the program which processor it is compiled for:
  \<open>compat/openzfs/os/linux/spl/sys/isa_defs.h\<close>, \<open>compat/openzfs/os/freebsd/spl/sys/isa_defs.h\<close> and
  \<open>compat/spl/sys/isa_defs.h\<close>. They are programs of the preprocessor, so their directives are data
  here and \<open>preprocess\<close> runs them on the set of macros that are defined: the result is the message
  of the \<open>#error\<close> that stops the compilation, or the macros at the end. The value of a macro, where
  a condition looks at it, is an argument; a name that is not defined has the value 0.
\<close>

section \<open>The preprocessor\<close>

datatype cond = Defined string | Equals string int | Same string string | Truth string
  | Neg cond | Both cond cond | Either cond cond

datatype directive = Define string | Stop string | Cond cond "directive list" "directive list"

abbreviation Ensure :: "string \<Rightarrow> directive" where
  "Ensure n \<equiv> Cond (Neg (Defined n)) [Define n] []"

definition macro_value :: "(string \<Rightarrow> int) \<Rightarrow> string set \<Rightarrow> string \<Rightarrow> int" where
  "macro_value v m n = (if n \<in> m then v n else 0)"

fun holds_in :: "(string \<Rightarrow> int) \<Rightarrow> string set \<Rightarrow> cond \<Rightarrow> bool" where
  "holds_in v m (Defined n) \<longleftrightarrow> n \<in> m"
| "holds_in v m (Equals n k) \<longleftrightarrow> macro_value v m n = k"
| "holds_in v m (Same a b) \<longleftrightarrow> macro_value v m a = macro_value v m b"
| "holds_in v m (Truth n) \<longleftrightarrow> macro_value v m n \<noteq> 0"
| "holds_in v m (Neg c) \<longleftrightarrow> \<not> holds_in v m c"
| "holds_in v m (Both c d) \<longleftrightarrow> holds_in v m c \<and> holds_in v m d"
| "holds_in v m (Either c d) \<longleftrightarrow> holds_in v m c \<or> holds_in v m d"

fun preprocess :: "(string \<Rightarrow> int) \<Rightarrow> directive list \<Rightarrow> string set \<Rightarrow> string + string set" where
  "preprocess v [] m = Inr m"
| "preprocess v (Define n # ds) m = preprocess v ds (insert n m)"
| "preprocess v (Stop msg # ds) m = Inl msg"
| "preprocess v (Cond c ts es # ds) m =
    (case preprocess v (if holds_in v m c then ts else es) m of Inl msg \<Rightarrow> Inl msg | Inr m' \<Rightarrow> preprocess v ds m')"

section \<open>Linux\<close>

definition linux_isa_x86_64 :: "directive list" where
  "linux_isa_x86_64 =
    [Ensure ''__x86_64'', Ensure ''__amd64'', Ensure ''__x86'', Cond (Defined ''_ILP32'') [] [Ensure ''_LP64'']]"

definition linux_isa_i386 :: "directive list" where
  "linux_isa_i386 =
    [Ensure ''__i386'', Ensure ''__x86'', Ensure ''_ILP32'']"

definition linux_isa_powerpc :: "directive list" where
  "linux_isa_powerpc =
    [Ensure ''__powerpc'', Ensure ''__powerpc__'',
     Cond (Defined ''__powerpc64__'') [Ensure ''_LP64''] [Ensure ''_ILP32'']]"

definition linux_isa_arm :: "directive list" where
  "linux_isa_arm =
    [Ensure ''__arm'', Ensure ''__arm__'', Ensure ''_ILP32'',
     Cond (Defined ''__ARMEL__'') [Define ''_ZFS_LITTLE_ENDIAN''] [Define ''_ZFS_BIG_ENDIAN'']]"

definition linux_isa_aarch64 :: "directive list" where
  "linux_isa_aarch64 =
    [Ensure ''_LP64'',
     Cond (Defined ''__AARCH64EL__'') [Define ''_ZFS_LITTLE_ENDIAN''] [Define ''_ZFS_BIG_ENDIAN'']]"

definition linux_isa_sparc :: "directive list" where
  "linux_isa_sparc =
    [Ensure ''__sparc'', Ensure ''__sparc__'',
     Cond (Defined ''__arch64__'') [Ensure ''_LP64''] [Ensure ''_ILP32''], Define ''_ZFS_BIG_ENDIAN'',
     Define ''_SUNOS_VTOC_16'']"

definition linux_isa_s390 :: "directive list" where
  "linux_isa_s390 =
    [Cond (Defined ''__s390x__'') [Ensure ''_LP64''] [Ensure ''_ILP32''], Define ''_ZFS_BIG_ENDIAN'']"

definition linux_isa_mips :: "directive list" where
  "linux_isa_mips =
    [Cond (Defined ''__MIPSEB__'')
       [Define ''_ZFS_BIG_ENDIAN'']
     [Cond (Defined ''__MIPSEL__'') [Define ''_ZFS_LITTLE_ENDIAN''] [Stop ''MIPS no endian specified'']],
     Cond (Neg (Defined ''_LP64'')) [Define ''_ILP32''] [], Define ''_SUNOS_VTOC_16'']"

definition linux_isa_riscv :: "directive list" where
  "linux_isa_riscv =
    [Ensure ''_LP64'', Ensure ''__riscv__'', Ensure ''__rv64g__'', Define ''_ZFS_LITTLE_ENDIAN'',
     Define ''_SUNOS_VTOC_16'']"

definition linux_isa_loongarch :: "directive list" where
  "linux_isa_loongarch =
    [Ensure ''_LP64'', Define ''_ZFS_LITTLE_ENDIAN'', Define ''_SUNOS_VTOC_16'', Define ''_ALIGNMENT_REQUIRED'']"

definition linux_isa_arch :: "directive list" where
  "linux_isa_arch =
    [Cond (Either (Defined ''__x86_64'') (Defined ''__x86_64__'')) linux_isa_x86_64
    [Cond (Either (Defined ''__i386'') (Defined ''__i386__'')) linux_isa_i386
    [Cond (Either (Either (Defined ''__powerpc'') (Defined ''__powerpc__'')) (Defined ''__powerpc64__'')) linux_isa_powerpc
    [Cond (Either (Defined ''__arm'') (Defined ''__arm__'')) linux_isa_arm
    [Cond (Defined ''__aarch64__'') linux_isa_aarch64
    [Cond (Either (Defined ''__sparc'') (Defined ''__sparc__'')) linux_isa_sparc
    [Cond (Defined ''__s390__'') linux_isa_s390
    [Cond (Defined ''__mips__'') linux_isa_mips
    [Cond (Both (Both (Both (Both (Defined ''__riscv'') (Defined ''__riscv_xlen''))
        (Equals ''__riscv_xlen'' 64)) (Defined ''__riscv_atomic'')) (Truth ''__riscv_atomic'')) linux_isa_riscv
    [Cond (Both (Defined ''__loongarch__'') (Defined ''__loongarch_lp64'')) linux_isa_loongarch
      [Stop ''Unsupported ISA type'']]]]]]]]]]]"

definition linux_isa_model_checks :: "directive list" where
  "linux_isa_model_checks =
    [Cond (Both (Defined ''_ILP32'') (Defined ''_LP64'')) [Stop ''Both _ILP32 and _LP64 are defined''] [],
     Cond (Both (Neg (Defined ''_ILP32'')) (Neg (Defined ''_LP64'')))
       [Stop ''Neither _ILP32 or _LP64 are defined'']
       []]"

definition linux_isa_order_checks :: "directive list" where
  "linux_isa_order_checks =
    [Cond (Defined ''CONFIG_HAVE_EFFICIENT_UNALIGNED_ACCESS'')
       [Define ''HAVE_EFFICIENT_UNALIGNED_ACCESS'']
       [],
     Cond (Both (Defined ''_ZFS_LITTLE_ENDIAN'') (Defined ''_ZFS_BIG_ENDIAN''))
       [Stop ''Both _ZFS_LITTLE_ENDIAN and _ZFS_BIG_ENDIAN are defined'']
       [],
     Cond (Both (Neg (Defined ''_ZFS_LITTLE_ENDIAN'')) (Neg (Defined ''_ZFS_BIG_ENDIAN'')))
       [Stop ''Neither _ZFS_LITTLE_ENDIAN or _ZFS_BIG_ENDIAN are defined'']
       []]"

section \<open>FreeBSD\<close>

definition freebsd_isa_x86_64 :: "directive list" where
  "freebsd_isa_x86_64 =
    [Ensure ''__amd64'', Ensure ''__x86'', Cond (Neg (Defined ''_LP64'')) [Stop ''_LP64 not defined''] [],
     Define ''_SUNOS_VTOC_16'']"

definition freebsd_isa_i386 :: "directive list" where
  "freebsd_isa_i386 =
    [Ensure ''__i386'', Ensure ''__x86'', Ensure ''_ILP32'', Define ''_SUNOS_VTOC_16'']"

definition freebsd_isa_aarch64 :: "directive list" where
  "freebsd_isa_aarch64 =
    [Cond (Neg (Defined ''_LP64'')) [Stop ''_LP64 not defined''] [], Define ''_SUNOS_VTOC_16'']"

definition freebsd_isa_riscv :: "directive list" where
  "freebsd_isa_riscv =
    [Ensure ''_LP64'', Define ''_SUNOS_VTOC_16'']"

definition freebsd_isa_arm :: "directive list" where
  "freebsd_isa_arm =
    [Ensure ''_ILP32'', Define ''_SUNOS_VTOC_16'']"

definition freebsd_isa_mips :: "directive list" where
  "freebsd_isa_mips =
    [Cond (Defined ''__mips_n64'')
       [Cond (Neg (Defined ''_LP64'')) [Stop ''_LP64 not defined''] []]
       [Ensure ''_ILP32''],
     Define ''_SUNOS_VTOC_16'']"

definition freebsd_isa_powerpc :: "directive list" where
  "freebsd_isa_powerpc =
    [Ensure ''__powerpc'', Define ''_SUNOS_VTOC_16'']"

definition freebsd_isa_sparc :: "directive list" where
  "freebsd_isa_sparc =
    [Ensure ''__sparc'',
     Cond (Both (Defined ''__sparcv8'') (Defined ''__sparcv9''))
       [Stop ''SPARC Versions 8 and 9 are mutually exclusive choices'']
       [],
     Cond (Both (Neg (Defined ''__sparcv9'')) (Neg (Defined ''__sparcv8''))) [Define ''__sparcv8''] [],
     Define ''_SUNOS_VTOC_8'',
     Cond (Defined ''__sparcv8'')
       [Define ''_ILP32'']
     [Cond (Defined ''__sparcv9'')
       [Cond (Neg (Defined ''_LP64'')) [Stop ''_LP64 not defined''] []]
       [Stop ''unknown SPARC version'']]]"

definition freebsd_isa_arch :: "directive list" where
  "freebsd_isa_arch =
    [Cond (Either (Defined ''__x86_64'') (Defined ''__amd64'')) freebsd_isa_x86_64
    [Cond (Either (Defined ''__i386'') (Defined ''__i386__'')) freebsd_isa_i386
    [Cond (Defined ''__aarch64__'') freebsd_isa_aarch64
    [Cond (Defined ''__riscv'') freebsd_isa_riscv
    [Cond (Defined ''__arm__'') freebsd_isa_arm
    [Cond (Defined ''__mips__'') freebsd_isa_mips
    [Cond (Defined ''__powerpc__'') freebsd_isa_powerpc
    [Cond (Either (Either (Defined ''__sparc'') (Defined ''__sparcv9'')) (Defined ''__sparc__'')) freebsd_isa_sparc
      [Stop ''ISA not supported'']]]]]]]]]"

definition freebsd_isa_checks :: "directive list" where
  "freebsd_isa_checks =
    [Cond (Both (Defined ''_ILP32'') (Defined ''_LP64'')) [Stop ''Both _ILP32 and _LP64 are defined''] [],
     Cond (Same ''BYTE_ORDER'' ''_BIG_ENDIAN'')
       [Define ''_ZFS_BIG_ENDIAN'']
     [Cond (Same ''BYTE_ORDER'' ''_LITTLE_ENDIAN'')
       [Define ''_ZFS_LITTLE_ENDIAN'']
       [Stop ''unknown byte order'']]]"

section \<open>User space\<close>

definition user_isa_x86_64 :: "directive list" where
  "user_isa_x86_64 =
    [Ensure ''__x86_64'', Ensure ''__amd64'', Ensure ''__x86'', Cond (Defined ''_ILP32'') [] [Ensure ''_LP64''],
     Ensure ''_ZFS_LITTLE_ENDIAN'', Define ''_SUNOS_VTOC_16'', Define ''HAVE_EFFICIENT_UNALIGNED_ACCESS'']"

definition user_isa_i386 :: "directive list" where
  "user_isa_i386 =
    [Ensure ''__i386'', Ensure ''__x86'', Ensure ''_ILP32'', Ensure ''_ZFS_LITTLE_ENDIAN'',
     Define ''_SUNOS_VTOC_16'', Define ''HAVE_EFFICIENT_UNALIGNED_ACCESS'']"

definition user_isa_powerpc :: "directive list" where
  "user_isa_powerpc =
    [Ensure ''__powerpc'', Ensure ''__powerpc__'',
     Cond (Defined ''__powerpc64__'') [Ensure ''_LP64''] [Ensure ''_ILP32''], Define ''_SUNOS_VTOC_16'',
     Define ''HAVE_EFFICIENT_UNALIGNED_ACCESS'',
     Cond (Defined ''__BYTE_ORDER'')
       [Cond (Both (Defined ''__BIG_ENDIAN'') (Same ''__BYTE_ORDER'' ''__BIG_ENDIAN''))
          [Define ''_ZFS_BIG_ENDIAN'']
        [Cond (Both (Defined ''__LITTLE_ENDIAN'') (Same ''__BYTE_ORDER'' ''__LITTLE_ENDIAN''))
          [Define ''_ZFS_LITTLE_ENDIAN'']
          []]]
     [Cond (Defined ''_BYTE_ORDER'')
       [Cond (Both (Defined ''_BIG_ENDIAN'') (Same ''_BYTE_ORDER'' ''_BIG_ENDIAN''))
          [Define ''_ZFS_BIG_ENDIAN'']
        [Cond (Both (Defined ''_LITTLE_ENDIAN'') (Same ''_BYTE_ORDER'' ''_LITTLE_ENDIAN''))
          [Define ''_ZFS_LITTLE_ENDIAN'']
          []]]
     [Cond (Both (Defined ''_BIG_ENDIAN'') (Neg (Defined ''_LITTLE_ENDIAN'')))
       [Define ''_ZFS_BIG_ENDIAN'']
     [Cond (Both (Defined ''_LITTLE_ENDIAN'') (Neg (Defined ''_BIG_ENDIAN'')))
       [Define ''_ZFS_LITTLE_ENDIAN'']
       []]]]]"

definition user_isa_arm :: "directive list" where
  "user_isa_arm =
    [Ensure ''__arm'', Ensure ''__arm__'', Ensure ''_ILP32'',
     Cond (Defined ''__ARMEL__'') [Define ''_ZFS_LITTLE_ENDIAN''] [Define ''_ZFS_BIG_ENDIAN''],
     Define ''_SUNOS_VTOC_16'',
     Cond (Defined ''__ARM_FEATURE_UNALIGNED'') [Define ''HAVE_EFFICIENT_UNALIGNED_ACCESS''] []]"

definition user_isa_aarch64 :: "directive list" where
  "user_isa_aarch64 =
    [Ensure ''_LP64'',
     Cond (Defined ''__AARCH64EL__'') [Define ''_ZFS_LITTLE_ENDIAN''] [Define ''_ZFS_BIG_ENDIAN''],
     Define ''_SUNOS_VTOC_16'']"

definition user_isa_sparc :: "directive list" where
  "user_isa_sparc =
    [Ensure ''__sparc'', Ensure ''__sparc__'', Define ''_ZFS_BIG_ENDIAN'', Define ''_SUNOS_VTOC_16'',
     Cond (Defined ''__arch64__'') [Ensure ''_LP64''] [Ensure ''_ILP32'']]"

definition user_isa_s390 :: "directive list" where
  "user_isa_s390 =
    [Cond (Defined ''__s390x__'') [Ensure ''_LP64''] [Ensure ''_ILP32''], Define ''_ZFS_BIG_ENDIAN'',
     Define ''_SUNOS_VTOC_16'']"

definition user_isa_mips :: "directive list" where
  "user_isa_mips =
    [Cond (Defined ''__MIPSEB__'')
       [Define ''_ZFS_BIG_ENDIAN'']
     [Cond (Defined ''__MIPSEL__'') [Define ''_ZFS_LITTLE_ENDIAN''] [Stop ''MIPS no endian specified'']],
     Cond (Both (Neg (Defined ''_LP64'')) (Neg (Defined ''_ILP32''))) [Define ''_ILP32''] [],
     Define ''_SUNOS_VTOC_16'']"

definition user_isa_riscv :: "directive list" where
  "user_isa_riscv =
    [Ensure ''_LP64'', Ensure ''__riscv__'', Ensure ''__rv64g__'', Define ''_ZFS_LITTLE_ENDIAN'',
     Define ''_SUNOS_VTOC_16'']"

definition user_isa_loongarch :: "directive list" where
  "user_isa_loongarch =
    [Ensure ''_LP64'', Define ''_ZFS_LITTLE_ENDIAN'', Define ''_SUNOS_VTOC_16'', Define ''_ALIGNMENT_REQUIRED'']"

definition user_isa_arch :: "directive list" where
  "user_isa_arch =
    [Cond (Either (Defined ''__x86_64'') (Defined ''__x86_64__'')) user_isa_x86_64
    [Cond (Either (Defined ''__i386'') (Defined ''__i386__'')) user_isa_i386
    [Cond (Either (Either (Defined ''__powerpc'') (Defined ''__powerpc__'')) (Defined ''__powerpc64__'')) user_isa_powerpc
    [Cond (Either (Defined ''__arm'') (Defined ''__arm__'')) user_isa_arm
    [Cond (Defined ''__aarch64__'') user_isa_aarch64
    [Cond (Either (Defined ''__sparc'') (Defined ''__sparc__'')) user_isa_sparc
    [Cond (Defined ''__s390__'') user_isa_s390
    [Cond (Defined ''__mips__'') user_isa_mips
    [Cond (Both (Both (Both (Both (Defined ''__riscv'') (Defined ''__riscv_xlen''))
        (Equals ''__riscv_xlen'' 64)) (Defined ''__riscv_atomic'')) (Truth ''__riscv_atomic'')) user_isa_riscv
    [Cond (Both (Defined ''__loongarch__'') (Defined ''__loongarch_lp64'')) user_isa_loongarch
      [Stop ''Unsupported ISA type'']]]]]]]]]]]"

definition user_isa_checks :: "directive list" where
  "user_isa_checks =
    [Cond (Both (Defined ''_ILP32'') (Defined ''_LP64'')) [Stop ''Both _ILP32 and _LP64 are defined''] [],
     Cond (Both (Neg (Defined ''_ILP32'')) (Neg (Defined ''_LP64'')))
       [Stop ''Neither _ILP32 or _LP64 are defined'']
       [],
     Cond (Both (Defined ''_ZFS_LITTLE_ENDIAN'') (Defined ''_ZFS_BIG_ENDIAN''))
       [Stop ''Both _ZFS_LITTLE_ENDIAN and _ZFS_BIG_ENDIAN are defined'']
       [],
     Cond (Both (Neg (Defined ''_ZFS_LITTLE_ENDIAN'')) (Neg (Defined ''_ZFS_BIG_ENDIAN'')))
       [Stop ''Neither _ZFS_LITTLE_ENDIAN nor _ZFS_BIG_ENDIAN are defined'']
       []]"

section \<open>The headers\<close>

text \<open>
  What the included headers of the kernels define is a parameter: the byte order of
  \<open>asm/byteorder.h\<close> (\<open>asm\<close>) and the macros of \<open>sys/endian.h\<close> (\<open>endian\<close>). On Linux the two headers
  include each other, and the guards decide by which one the compilation enters.
\<close>

definition linux_byteorder :: "directive list \<Rightarrow> directive list" where
  "linux_byteorder asm = asm @
    [Cond (Both (Defined ''__BIG_ENDIAN'') (Neg (Defined ''_ZFS_BIG_ENDIAN''))) [Define ''_ZFS_BIG_ENDIAN''] [],
     Cond (Both (Defined ''__LITTLE_ENDIAN'') (Neg (Defined ''_ZFS_LITTLE_ENDIAN''))) [Define ''_ZFS_LITTLE_ENDIAN''] []]"

definition linux_isa_defs :: "directive list \<Rightarrow> directive list" where
  "linux_isa_defs asm = linux_isa_arch @ linux_isa_model_checks @ linux_byteorder asm @ linux_isa_order_checks"

definition linux_via_byteorder :: "directive list \<Rightarrow> directive list" where
  "linux_via_byteorder asm = linux_byteorder asm @ linux_isa_arch @ linux_isa_model_checks @ linux_isa_order_checks"

definition freebsd_isa_defs :: "directive list \<Rightarrow> directive list" where
  "freebsd_isa_defs endian = endian @ freebsd_isa_arch @ freebsd_isa_checks"

definition user_isa_defs :: "directive list" where
  "user_isa_defs = user_isa_arch @ user_isa_checks"

section \<open>Running directives\<close>

lemma preprocess_append:
  "preprocess v (xs @ ys) m = (case preprocess v xs m of Inl e \<Rightarrow> Inl e | Inr m' \<Rightarrow> preprocess v ys m')"
  by (induction v xs m rule: preprocess.induct) (auto split: sum.splits)

lemma preprocess_mono: "preprocess v ds m = Inr m' \<Longrightarrow> m \<subseteq> m'"
proof (induction v ds m arbitrary: m' rule: preprocess.induct)
  case (4 v c ts es ds m)
  then obtain b where b: "preprocess v (if holds_in v m c then ts else es) m = Inr b" "preprocess v ds b = Inr m'"
    by (auto split: sum.splits)
  show ?case using 4(1) [OF b(1)] 4(2) [OF b] by (rule subset_trans)
qed auto

text \<open>The names a list of directives looks at.\<close>

fun cond_names :: "cond \<Rightarrow> string list" where
  "cond_names (Defined n) = [n]"
| "cond_names (Equals n k) = [n]"
| "cond_names (Same a b) = [a, b]"
| "cond_names (Truth n) = [n]"
| "cond_names (Neg c) = cond_names c"
| "cond_names (Both c d) = cond_names c @ cond_names d"
| "cond_names (Either c d) = cond_names c @ cond_names d"

fun names_tested :: "directive list \<Rightarrow> string list" where
  "names_tested [] = []"
| "names_tested (Define n # ds) = names_tested ds"
| "names_tested (Stop msg # ds) = names_tested ds"
| "names_tested (Cond c ts es # ds) = cond_names c @ names_tested ts @ names_tested es @ names_tested ds"

lemma holds_in_other_names:
  "X \<inter> set (cond_names c) = {} \<Longrightarrow> holds_in v (m \<union> X) c = holds_in v m c"
  by (induction c) (auto simp: macro_value_def)

lemma preprocess_other_names:
  "X \<inter> set (names_tested ds) = {} \<Longrightarrow>
    preprocess v ds (m \<union> X) = (case preprocess v ds m of Inl e \<Rightarrow> Inl e | Inr m' \<Rightarrow> Inr (m' \<union> X))"
proof (induction v ds m rule: preprocess.induct)
  case (4 v c ts es ds m)
  have h: "holds_in v (m \<union> X) c = holds_in v m c" using 4(3) by (intro holds_in_other_names) auto
  have "X \<inter> set (names_tested (if holds_in v m c then ts else es)) = {}" using 4(3) by auto
  note a = 4(1) [OF this]
  show ?case
  proof (cases "preprocess v (if holds_in v m c then ts else es) m")
    case (Inl e)
    then show ?thesis using a by (simp only: preprocess.simps h sum.case)
  next
    case (Inr m')
    have "X \<inter> set (names_tested ds) = {}" using 4(3) by auto
    note b = 4(2) [OF Inr this]
    show ?thesis using a b Inr by (simp only: preprocess.simps h sum.case)
  qed
qed simp_all

section \<open>What the headers decide\<close>

lemma exclusive_checks:
  "preprocess v user_isa_checks m = Inr m' \<Longrightarrow>
    m' = m \<and> (''_LP64'' \<in> m \<longleftrightarrow> ''_ILP32'' \<notin> m) \<and> (''_ZFS_BIG_ENDIAN'' \<in> m \<longleftrightarrow> ''_ZFS_LITTLE_ENDIAN'' \<notin> m)"
  "preprocess v linux_isa_model_checks m = Inr m' \<Longrightarrow> m' = m \<and> (''_LP64'' \<in> m \<longleftrightarrow> ''_ILP32'' \<notin> m)"
  "preprocess v linux_isa_order_checks m = Inr m' \<Longrightarrow>
    (m' = m \<or> m' = insert ''HAVE_EFFICIENT_UNALIGNED_ACCESS'' m) \<and> (''_ZFS_BIG_ENDIAN'' \<in> m \<longleftrightarrow> ''_ZFS_LITTLE_ENDIAN'' \<notin> m)"
  by (auto simp: user_isa_checks_def linux_isa_model_checks_def linux_isa_order_checks_def split: if_splits)

definition byte_order_only :: "directive list \<Rightarrow> bool" where
  "byte_order_only ds \<longleftrightarrow> ds = [Define ''__BIG_ENDIAN''] \<or> ds = [Define ''__LITTLE_ENDIAN'']"

text \<open>
  Two analyses of a list of directives: the names it can define, and whether every run that is not
  stopped ends with one of the names \<open>N\<close> defined.
\<close>

fun names_defined :: "directive list \<Rightarrow> string list" where
  "names_defined [] = []"
| "names_defined (Define n # ds) = n # names_defined ds"
| "names_defined (Stop msg # ds) = names_defined ds"
| "names_defined (Cond c ts es # ds) = names_defined ts @ names_defined es @ names_defined ds"

fun gives :: "string list \<Rightarrow> bool \<Rightarrow> cond \<Rightarrow> bool" where
  "gives N b (Defined n) \<longleftrightarrow> b \<and> n \<in> set N"
| "gives N b (Neg c) \<longleftrightarrow> gives N (\<not> b) c"
| "gives N b (Both c d) \<longleftrightarrow> b \<and> (gives N b c \<or> gives N b d)"
| "gives N b (Either c d) \<longleftrightarrow> \<not> b \<and> (gives N b c \<or> gives N b d)"
| "gives N b c \<longleftrightarrow> False"

fun surely :: "string list \<Rightarrow> directive list \<Rightarrow> bool" where
  "surely N [] \<longleftrightarrow> False"
| "surely N (Define n # ds) \<longleftrightarrow> n \<in> set N \<or> surely N ds"
| "surely N (Stop msg # ds) \<longleftrightarrow> True"
| "surely N (Cond c ts es # ds) \<longleftrightarrow>
    (gives N True c \<or> surely N ts) \<and> (gives N False c \<or> surely N es) \<or> surely N ds"

lemma preprocess_names: "preprocess v ds m = Inr m' \<Longrightarrow> m' \<subseteq> m \<union> set (names_defined ds)"
proof (induction v ds m arbitrary: m' rule: preprocess.induct)
  case (4 v c ts es ds m)
  then obtain b where b: "preprocess v (if holds_in v m c then ts else es) m = Inr b" "preprocess v ds b = Inr m'"
    by (auto split: sum.splits)
  show ?case using 4(1) [OF b(1)] 4(2) [OF b] by (auto split: if_splits)
qed fastforce+

lemma gives_sound: "gives N b c \<Longrightarrow> holds_in v m c = b \<Longrightarrow> \<exists>n\<in>set N. n \<in> m"
  by (induction N b c rule: gives.induct) auto

lemma surely_sound: "surely N ds \<Longrightarrow> preprocess v ds m = Inr m' \<Longrightarrow> \<exists>n\<in>set N. n \<in> m'"
proof (induction v ds m arbitrary: m' rule: preprocess.induct)
  case (2 v n ds m)
  then show ?case using preprocess_mono [of v ds "insert n m" m'] by auto
next
  case (4 v c ts es ds m)
  obtain b where b: "preprocess v (if holds_in v m c then ts else es) m = Inr b" "preprocess v ds b = Inr m'"
    using 4(4) by (auto split: sum.splits)
  note sub = preprocess_mono [OF b(1)] preprocess_mono [OF b(2)]
  show ?case
  proof (cases "surely N ds")
    case True
    then show ?thesis using 4(2) [OF b(1) _ b(2)] by blast
  next
    case False
    then have s: "if holds_in v m c then gives N True c \<or> surely N ts else gives N False c \<or> surely N es"
      using 4(3) by auto
    then have "(\<exists>n\<in>set N. n \<in> m) \<or> surely N (if holds_in v m c then ts else es)"
      using gives_sound [of N True c v m] gives_sound [of N False c v m] by (auto split: if_splits)
    then show ?thesis using 4(1) [OF _ b(1)] sub by blast
  qed
qed auto

lemma freebsd_arch_model:
  assumes "preprocess v freebsd_isa_arch m = Inr m'"
  shows "(''_LP64'' \<in> m' \<or> ''_ILP32'' \<in> m' \<or> ''__powerpc__'' \<in> m) \<and>
    (''_ZFS_BIG_ENDIAN'' \<in> m' \<longleftrightarrow> ''_ZFS_BIG_ENDIAN'' \<in> m) \<and> (''_ZFS_LITTLE_ENDIAN'' \<in> m' \<longleftrightarrow> ''_ZFS_LITTLE_ENDIAN'' \<in> m)"
proof -
  have "surely [''_LP64'', ''_ILP32'', ''__powerpc__''] freebsd_isa_arch" by code_simp
  from surely_sound [OF this assms] have "''_LP64'' \<in> m' \<or> ''_ILP32'' \<in> m' \<or> ''__powerpc__'' \<in> m'" by auto
  moreover have "list_all (\<lambda>n. n \<notin> set (names_defined freebsd_isa_arch)) [''__powerpc__'', ''_ZFS_BIG_ENDIAN'', ''_ZFS_LITTLE_ENDIAN'']"
    by code_simp
  ultimately show ?thesis using preprocess_names [OF assms] preprocess_mono [OF assms] by auto
qed

lemma freebsd_checks:
  assumes "preprocess v freebsd_isa_checks m = Inr m'" "''_ZFS_BIG_ENDIAN'' \<notin> m" "''_ZFS_LITTLE_ENDIAN'' \<notin> m"
  shows "\<not> (''_LP64'' \<in> m' \<and> ''_ILP32'' \<in> m') \<and> (''_ZFS_BIG_ENDIAN'' \<in> m' \<longleftrightarrow> ''_ZFS_LITTLE_ENDIAN'' \<notin> m') \<and>
    (''_LP64'' \<in> m \<longrightarrow> ''_LP64'' \<in> m') \<and> (''_ILP32'' \<in> m \<longrightarrow> ''_ILP32'' \<in> m')"
proof -
  let ?same = "\<lambda>n. macro_value v m ''BYTE_ORDER'' = macro_value v m n"
  have one: "\<not> (''_ILP32'' \<in> m \<and> ''_LP64'' \<in> m)"
    using assms(1) by (cases "''_ILP32'' \<in> m \<and> ''_LP64'' \<in> m") (simp_all add: freebsd_isa_checks_def)
  have "m' = insert ''_ZFS_BIG_ENDIAN'' m \<or> m' = insert ''_ZFS_LITTLE_ENDIAN'' m"
    using assms(1) one by (cases "?same ''_BIG_ENDIAN''"; cases "?same ''_LITTLE_ENDIAN''") (simp_all add: freebsd_isa_checks_def)
  then show ?thesis using one assms(2,3) by (elim disjE; simp; blast)
qed

lemma run_split:
  assumes "preprocess v (xs @ ys) m = Inr m'"
  obtains b where "preprocess v xs m = Inr b" "preprocess v ys b = Inr m'"
  using assms by (auto simp: preprocess_append split: sum.splits)

lemma linux_byteorder_keeps:
  assumes "byte_order_only asm" "preprocess v (linux_byteorder asm) m = Inr m'"
  shows "(''_LP64'' \<in> m' \<longleftrightarrow> ''_LP64'' \<in> m) \<and> (''_ILP32'' \<in> m' \<longleftrightarrow> ''_ILP32'' \<in> m)"
proof -
  have "names_defined (linux_byteorder asm) = hd (names_defined asm) # [''_ZFS_BIG_ENDIAN'', ''_ZFS_LITTLE_ENDIAN'']"
    "hd (names_defined asm) \<in> {''__BIG_ENDIAN'', ''__LITTLE_ENDIAN''}"
    using assms(1) by (auto simp: byte_order_only_def linux_byteorder_def)
  then have "''_LP64'' \<notin> set (names_defined (linux_byteorder asm))" "''_ILP32'' \<notin> set (names_defined (linux_byteorder asm))"
    by auto
  then show ?thesis using preprocess_names [OF assms(2)] preprocess_mono [OF assms(2)] by blast
qed

lemma linux_defs_decided:
  assumes "byte_order_only asm" "preprocess v (linux_isa_defs asm) m = Inr l"
  shows "(''_LP64'' \<in> l \<longleftrightarrow> ''_ILP32'' \<notin> l) \<and> (''_ZFS_BIG_ENDIAN'' \<in> l \<longleftrightarrow> ''_ZFS_LITTLE_ENDIAN'' \<notin> l)"
proof -
  obtain a where a: "preprocess v (linux_isa_model_checks @ linux_byteorder asm @ linux_isa_order_checks) a = Inr l"
    using assms(2) unfolding linux_isa_defs_def by (rule run_split)
  obtain b where b: "preprocess v linux_isa_model_checks a = Inr b" "preprocess v (linux_byteorder asm @ linux_isa_order_checks) b = Inr l"
    using a by (rule run_split)
  obtain c where c: "preprocess v (linux_byteorder asm) b = Inr c" "preprocess v linux_isa_order_checks c = Inr l"
    using b(2) by (rule run_split)
  have "''_LP64'' \<in> c \<longleftrightarrow> ''_ILP32'' \<notin> c"
    using exclusive_checks(2) [OF b(1)] linux_byteorder_keeps [OF assms(1) c(1)] by blast
  then show ?thesis using exclusive_checks(3) [OF c(2)] by (elim conjE disjE) simp_all
qed

lemma user_defs_decided:
  assumes "preprocess v user_isa_defs m = Inr u"
  shows "(''_LP64'' \<in> u \<longleftrightarrow> ''_ILP32'' \<notin> u) \<and> (''_ZFS_BIG_ENDIAN'' \<in> u \<longleftrightarrow> ''_ZFS_LITTLE_ENDIAN'' \<notin> u)"
proof -
  obtain a where "preprocess v user_isa_checks a = Inr u" using assms unfolding user_isa_defs_def by (rule run_split)
  from exclusive_checks(1) [OF this] show ?thesis by blast
qed

lemma freebsd_defs_decided:
  assumes "preprocess v (freebsd_isa_defs []) m = Inr f" "''_ZFS_BIG_ENDIAN'' \<notin> m" "''_ZFS_LITTLE_ENDIAN'' \<notin> m"
  shows "\<not> (''_LP64'' \<in> f \<and> ''_ILP32'' \<in> f) \<and> (''_ZFS_BIG_ENDIAN'' \<in> f \<longleftrightarrow> ''_ZFS_LITTLE_ENDIAN'' \<notin> f) \<and>
    (''__powerpc__'' \<in> m \<or> ''_LP64'' \<in> f \<or> ''_ILP32'' \<in> f)"
proof -
  obtain e where e: "preprocess v freebsd_isa_arch m = Inr e" "preprocess v freebsd_isa_checks e = Inr f"
    using assms(1) unfolding freebsd_isa_defs_def append_Nil by (rule run_split)
  note a = freebsd_arch_model [OF e(1)]
  have "''_ZFS_BIG_ENDIAN'' \<notin> e" "''_ZFS_LITTLE_ENDIAN'' \<notin> e" using a assms(2,3) by blast+
  from freebsd_checks [OF e(2) this] a show ?thesis by blast
qed

text \<open>
  Whatever the compiler predefines, a compilation that no \<open>#error\<close> stops has one model of data
  types and one byte order on Linux and in user space. On FreeBSD it has one byte order and not two
  models, and it has one except on PowerPC, where the header neither sets the model nor asks for it.
\<close>

theorem isa_decided:
  assumes "byte_order_only asm" "''_ZFS_BIG_ENDIAN'' \<notin> mf" "''_ZFS_LITTLE_ENDIAN'' \<notin> mf"
    and "preprocess v (linux_isa_defs asm) ml = Inr l" "preprocess v user_isa_defs mu = Inr u"
    and "preprocess v (freebsd_isa_defs []) mf = Inr f"
  shows "(''_LP64'' \<in> l \<longleftrightarrow> ''_ILP32'' \<notin> l) \<and> (''_ZFS_BIG_ENDIAN'' \<in> l \<longleftrightarrow> ''_ZFS_LITTLE_ENDIAN'' \<notin> l) \<and>
    (''_LP64'' \<in> u \<longleftrightarrow> ''_ILP32'' \<notin> u) \<and> (''_ZFS_BIG_ENDIAN'' \<in> u \<longleftrightarrow> ''_ZFS_LITTLE_ENDIAN'' \<notin> u) \<and>
    \<not> (''_LP64'' \<in> f \<and> ''_ILP32'' \<in> f) \<and> (''_ZFS_BIG_ENDIAN'' \<in> f \<longleftrightarrow> ''_ZFS_LITTLE_ENDIAN'' \<notin> f) \<and>
    (''__powerpc__'' \<in> mf \<or> ''_LP64'' \<in> f \<or> ''_ILP32'' \<in> f)"
  using linux_defs_decided [OF assms(1,4)] user_defs_decided [OF assms(5)] freebsd_defs_decided [OF assms(6,2,3)]
  by blast

section \<open>The processors\<close>

text \<open>
  What the compilers document to predefine for a processor: the names the headers look at, the byte
  order and whether pointers have 64 bits.
\<close>

record platform =
  p_macros :: "string list"
  p_big :: bool
  p_lp64 :: bool

definition p_value :: "platform \<Rightarrow> string \<Rightarrow> int" where
  "p_value p n =
    (if n = ''__riscv_xlen'' then (if p_lp64 p then 64 else 32) else if n = ''__riscv_atomic'' then 1
     else if n \<in> {''BYTE_ORDER'', ''_BYTE_ORDER'', ''__BYTE_ORDER''} then (if p_big p then 4321 else 1234)
     else if n \<in> {''_BIG_ENDIAN'', ''__BIG_ENDIAN''} then 4321
     else if n \<in> {''_LITTLE_ENDIAN'', ''__LITTLE_ENDIAN''} then 1234 else 0)"

definition data_model :: "platform \<Rightarrow> string list" where
  "data_model p = (if p_lp64 p then [''_LP64''] else [''_ILP32''])"

definition asm_byteorder :: "platform \<Rightarrow> directive list" where
  "asm_byteorder p = [Define (if p_big p then ''__BIG_ENDIAN'' else ''__LITTLE_ENDIAN'')]"

definition endian_macros :: "string list \<Rightarrow> directive list" where
  "endian_macros ns = map Define ns"

definition common_platforms :: "platform list" where
  "common_platforms =
    [\<lparr>p_macros = [''__x86_64'', ''__x86_64__'', ''__amd64'', ''_LP64''], p_big = False, p_lp64 = True\<rparr>,
     \<lparr>p_macros = [''__i386'', ''__i386__''], p_big = False, p_lp64 = False\<rparr>,
     \<lparr>p_macros = [''__aarch64__'', ''_LP64''], p_big = True, p_lp64 = True\<rparr>,
     \<lparr>p_macros = [''__arm__''], p_big = True, p_lp64 = False\<rparr>,
     \<lparr>p_macros = [''__mips__'', ''__MIPSEL__''], p_big = False, p_lp64 = False\<rparr>,
     \<lparr>p_macros = [''__mips__'', ''__MIPSEB__'', ''__mips_n64'', ''_LP64''], p_big = True, p_lp64 = True\<rparr>,
     \<lparr>p_macros = [''__sparc'', ''__sparc__''], p_big = True, p_lp64 = False\<rparr>,
     \<lparr>p_macros = [''__aarch64__'', ''__AARCH64EL__'', ''_LP64''], p_big = False, p_lp64 = True\<rparr>,
     \<lparr>p_macros = [''__arm__'', ''__ARMEL__''], p_big = False, p_lp64 = False\<rparr>,
     \<lparr>p_macros = [''__riscv'', ''__riscv_xlen'', ''__riscv_atomic'', ''_LP64''], p_big = False, p_lp64 = True\<rparr>,
     \<lparr>p_macros = [''__mips__'', ''__MIPSEB__''], p_big = True, p_lp64 = False\<rparr>,
     \<lparr>p_macros = [''__mips__'', ''__MIPSEL__'', ''__mips_n64'', ''_LP64''], p_big = False, p_lp64 = True\<rparr>,
     \<lparr>p_macros = [''__powerpc__'', ''__powerpc64__'', ''_LP64''], p_big = True, p_lp64 = True\<rparr>,
     \<lparr>p_macros = [''__powerpc__'', ''__powerpc64__'', ''_LP64''], p_big = False, p_lp64 = True\<rparr>,
     \<lparr>p_macros = [''__sparc'', ''__sparc__'', ''__sparcv9'', ''__arch64__'', ''_LP64''], p_big = True, p_lp64 = True\<rparr>]"

definition linux_platforms :: "platform list" where
  "linux_platforms =
    [\<lparr>p_macros = [''__x86_64'', ''__x86_64__'', ''__amd64'', ''_ILP32''], p_big = False, p_lp64 = False\<rparr>,
     \<lparr>p_macros = [''__s390__'', ''__s390x__'', ''_LP64''], p_big = True, p_lp64 = True\<rparr>,
     \<lparr>p_macros = [''__s390__''], p_big = True, p_lp64 = False\<rparr>,
     \<lparr>p_macros = [''__loongarch__'', ''__loongarch_lp64'', ''_LP64''], p_big = False, p_lp64 = True\<rparr>,
     \<lparr>p_macros = [''__powerpc__''], p_big = True, p_lp64 = False\<rparr>]"

definition decided :: "string + string set \<Rightarrow> platform \<Rightarrow> bool" where
  "decided r p = (case r of Inl e \<Rightarrow> False
    | Inr m \<Rightarrow> (''_LP64'' \<in> m \<longleftrightarrow> p_lp64 p) \<and> (''_ILP32'' \<in> m \<longleftrightarrow> \<not> p_lp64 p) \<and>
        (''_ZFS_BIG_ENDIAN'' \<in> m \<longleftrightarrow> p_big p) \<and> (''_ZFS_LITTLE_ENDIAN'' \<in> m \<longleftrightarrow> \<not> p_big p))"

definition endian_names :: "string list" where
  "endian_names = [''BYTE_ORDER'', ''_BYTE_ORDER'', ''_BIG_ENDIAN'', ''_LITTLE_ENDIAN'']"

definition glibc_names :: "string list" where
  "glibc_names = [''__BYTE_ORDER'', ''__BIG_ENDIAN'', ''__LITTLE_ENDIAN'']"

text \<open>Every name a condition of the headers looks at, and those that decide the result.\<close>

definition all_names :: "string list" where
  "all_names = [''_LP64'', ''_ILP32'', ''_ZFS_BIG_ENDIAN'', ''_ZFS_LITTLE_ENDIAN''] @
    names_tested (linux_isa_defs [] @ freebsd_isa_defs [] @ user_isa_defs)"

lemma names_tested_append: "names_tested (xs @ ys) = names_tested xs @ names_tested ys"
  by (induction xs rule: names_tested.induct) simp_all

lemma names_tested_defines: "names_tested (map Define ns) = []"
  by (induction ns) simp_all

lemma decided_other_names:
  assumes "X \<inter> set all_names = {}" "set (names_tested ds) \<subseteq> set all_names" "decided (preprocess v ds m) p"
  shows "decided (preprocess v ds (m \<union> X)) p"
proof -
  have "X \<inter> set (names_tested ds) = {}" using assms(1,2) by blast
  note r = preprocess_other_names [OF this]
  have "''_LP64'' \<notin> X" "''_ILP32'' \<notin> X" "''_ZFS_BIG_ENDIAN'' \<notin> X" "''_ZFS_LITTLE_ENDIAN'' \<notin> X"
    using assms(1) by (auto simp: all_names_def)
  then show ?thesis using assms(3) unfolding r by (cases "preprocess v ds m") (simp_all add: decided_def)
qed

lemma header_names:
  "set (names_tested (linux_isa_defs (asm_byteorder p))) \<subseteq> set all_names"
  "set (names_tested (linux_via_byteorder (asm_byteorder p))) \<subseteq> set all_names"
  "set (names_tested (freebsd_isa_defs (endian_macros ns))) \<subseteq> set all_names"
  "set (names_tested user_isa_defs) \<subseteq> set all_names"
  by (auto simp: all_names_def names_tested_append names_tested_defines linux_isa_defs_def linux_via_byteorder_def
      freebsd_isa_defs_def linux_byteorder_def asm_byteorder_def endian_macros_def)

lemma platforms_run:
  "list_all (\<lambda>p. decided (preprocess (p_value p) (linux_isa_defs (asm_byteorder p)) (set (p_macros p))) p \<and>
     decided (preprocess (p_value p) (linux_via_byteorder (asm_byteorder p)) (set (p_macros p))) p \<and>
     decided (preprocess (p_value p) user_isa_defs (set (glibc_names @ p_macros p))) p) (common_platforms @ linux_platforms)"
  "list_all (\<lambda>p. decided (preprocess (p_value p) (freebsd_isa_defs (endian_macros endian_names)) (set (p_macros p))) p)
     common_platforms"
  by code_simp+

text \<open>
  On the processors of the two lists - one for each branch of the headers and each byte order and size
  of pointers that the branch tells apart - and with whatever the compiler defines beside the names the
  headers look at, the layers accept the compilation and all find the byte order and the size of
  pointers that the processor has; on Linux also when the byte order header is the one that is
  included first. FreeBSD has no branch for the second list, but for 32-bit PowerPC, which
  \<open>freebsd_powerpc_undecided\<close> below is about.
\<close>

theorem platforms_agree:
  assumes "X \<inter> set all_names = {}"
  shows "list_all (\<lambda>p. decided (preprocess (p_value p) (linux_isa_defs (asm_byteorder p)) (set (p_macros p) \<union> X)) p \<and>
     decided (preprocess (p_value p) (linux_via_byteorder (asm_byteorder p)) (set (p_macros p) \<union> X)) p \<and>
     decided (preprocess (p_value p) user_isa_defs (set (glibc_names @ p_macros p) \<union> X)) p) (common_platforms @ linux_platforms) \<and>
   list_all (\<lambda>p. decided (preprocess (p_value p) (freebsd_isa_defs (endian_macros endian_names)) (set (p_macros p) \<union> X)) p)
     common_platforms"
proof (intro conjI)
  note d = decided_other_names [OF assms]
  show "list_all (\<lambda>p. decided (preprocess (p_value p) (linux_isa_defs (asm_byteorder p)) (set (p_macros p) \<union> X)) p \<and>
     decided (preprocess (p_value p) (linux_via_byteorder (asm_byteorder p)) (set (p_macros p) \<union> X)) p \<and>
     decided (preprocess (p_value p) user_isa_defs (set (glibc_names @ p_macros p) \<union> X)) p) (common_platforms @ linux_platforms)"
    by (rule list.pred_mono_strong [OF platforms_run(1)]) (blast intro: d [OF header_names(1)] d [OF header_names(2)] d [OF header_names(4)])
  show "list_all (\<lambda>p. decided (preprocess (p_value p) (freebsd_isa_defs (endian_macros endian_names)) (set (p_macros p) \<union> X)) p)
     common_platforms"
    by (rule list.pred_mono_strong [OF platforms_run(2)]) (blast intro: d [OF header_names(3)])
qed

lemma foreign_name: "{''__GNUC__''} \<inter> set all_names = {}"
proof -
  have "list_all (\<lambda>n. n \<noteq> ''__GNUC__'') all_names" by code_simp
  then show ?thesis by (auto simp: list_all_iff)
qed

theorem platforms_agree_witness:
  "list_all (\<lambda>p. decided (preprocess (p_value p) (freebsd_isa_defs (endian_macros endian_names)) (set (p_macros p) \<union> {''__GNUC__''})) p)
     common_platforms \<and> length common_platforms = 15"
  using platforms_agree [OF foreign_name] by (simp add: common_platforms_def)

definition x86_64_macros :: "string set" where "x86_64_macros = {''__x86_64'', ''__amd64'', ''_LP64''}"

lemma x86_64_runs:
  "preprocess (\<lambda>n. 1) (linux_isa_defs [Define ''__LITTLE_ENDIAN'']) x86_64_macros =
     Inr {''__x86_64'', ''__amd64'', ''__x86'', ''_LP64'', ''__LITTLE_ENDIAN'', ''_ZFS_LITTLE_ENDIAN''}"
  "preprocess (\<lambda>n. 1) user_isa_defs x86_64_macros = Inr {''__x86_64'', ''__amd64'', ''__x86'', ''_LP64'', ''_ZFS_LITTLE_ENDIAN'',
     ''_SUNOS_VTOC_16'', ''HAVE_EFFICIENT_UNALIGNED_ACCESS''}"
  "preprocess (\<lambda>n. 1) (freebsd_isa_defs []) (x86_64_macros \<union> {''BYTE_ORDER'', ''_LITTLE_ENDIAN''}) =
     Inr {''__x86_64'', ''__amd64'', ''__x86'', ''_LP64'', ''BYTE_ORDER'', ''_LITTLE_ENDIAN'', ''_SUNOS_VTOC_16'', ''_ZFS_LITTLE_ENDIAN''}"
  by code_simp+

theorem isa_decided_witness: "''_ILP32'' \<notin> {''__x86_64'', ''__amd64'', ''__x86'', ''_LP64'', ''__LITTLE_ENDIAN'', ''_ZFS_LITTLE_ENDIAN''}"
  using isa_decided [OF _ _ _ x86_64_runs(1) x86_64_runs(2) x86_64_runs(3)]
  by (simp add: byte_order_only_def x86_64_macros_def)

text \<open>A 32-bit PowerPC whose compiler says nothing of the model has none on FreeBSD.\<close>

lemma freebsd_powerpc_undecided:
  "case preprocess (\<lambda>n. 1) (freebsd_isa_defs []) {''__powerpc__'', ''BYTE_ORDER'', ''_BIG_ENDIAN''} of
     Inl e \<Rightarrow> False | Inr m \<Rightarrow> ''_LP64'' \<notin> m \<and> ''_ILP32'' \<notin> m"
  by code_simp

end
