(* ===== verification/Macro_Tables.thy ===== *)
theory Macro_Tables
  imports Prelude "HOL-Library.Sublist"
begin

unbundle bit_operations_syntax

text \<open>
  Constants that the headers define as macros: access control lists of the three layers
  (\<open>acl.h\<close>), disk controls (\<open>dkio.h\<close>, \<open>mhd.h\<close>, \<open>fdisk.h\<close>), kernel statistics (\<open>kstat.h\<close>),
  task queues, flags of directory entries, of traversals and of debugging, and the error numbers of
  several libraries. A table has the macros of a group in the order of the header, each with its
  expression; evaluating a name expands the macros it uses, and has no value if one is missing.
\<close>

section \<open>Expressions\<close>

datatype mexpr = Lit int | Use string | Minus mexpr | BitOr "mexpr list" | Shift mexpr mexpr
  | Add mexpr mexpr | Subtract mexpr mexpr | Times mexpr mexpr

type_synonym macro_table = "(string \<times> mexpr) list"

text \<open>The first argument bounds the depth of expansion; no macro here uses more than three others in a row.\<close>

fun mval :: "nat \<Rightarrow> macro_table \<Rightarrow> mexpr \<Rightarrow> int option" where
  "mval k T (Lit i) = Some i"
| "mval 0 T (Use n) = None"
| "mval (Suc k) T (Use n) = (case map_of T n of None \<Rightarrow> None | Some e \<Rightarrow> mval k T e)"
| "mval k T (Minus e) = map_option uminus (mval k T e)"
| "mval k T (BitOr []) = Some 0"
| "mval k T (BitOr (e # es)) = do { a \<leftarrow> mval k T e; b \<leftarrow> mval k T (BitOr es); Some (a OR b) }"
| "mval k T (Shift a b) = do { x \<leftarrow> mval k T a; y \<leftarrow> mval k T b; Some (x * 2 ^ nat y) }"
| "mval k T (Add a b) = do { x \<leftarrow> mval k T a; y \<leftarrow> mval k T b; Some (x + y) }"
| "mval k T (Subtract a b) = do { x \<leftarrow> mval k T a; y \<leftarrow> mval k T b; Some (x - y) }"
| "mval k T (Times a b) = do { x \<leftarrow> mval k T a; y \<leftarrow> mval k T b; Some (x * y) }"

definition values_in :: "macro_table \<Rightarrow> macro_table \<Rightarrow> (string \<times> int option) list" where
  "values_in env T = map (\<lambda>(n, e). (n, mval 3 env e)) T"

section \<open>The tables\<close>

definition user_acl :: macro_table where
  "user_acl =
   [(''USER_OBJ'', Lit 0x01), (''USER'', Lit 0x02), (''GROUP_OBJ'', Lit 0x04), (''GROUP'', Lit 0x08),
    (''CLASS_OBJ'', Lit 0x10), (''OTHER_OBJ'', Lit 0x20), (''ACL_DEFAULT'', Lit 0x1000),
    (''DEF_USER_OBJ'', BitOr [Use ''ACL_DEFAULT'', Use ''USER_OBJ'']),
    (''DEF_USER'', BitOr [Use ''ACL_DEFAULT'', Use ''USER'']),
    (''DEF_GROUP_OBJ'', BitOr [Use ''ACL_DEFAULT'', Use ''GROUP_OBJ'']),
    (''DEF_GROUP'', BitOr [Use ''ACL_DEFAULT'', Use ''GROUP'']),
    (''DEF_CLASS_OBJ'', BitOr [Use ''ACL_DEFAULT'', Use ''CLASS_OBJ'']),
    (''DEF_OTHER_OBJ'', BitOr [Use ''ACL_DEFAULT'', Use ''OTHER_OBJ'']), (''ACE_READ_DATA'', Lit 0x00000001),
    (''ACE_LIST_DIRECTORY'', Lit 0x00000001), (''ACE_WRITE_DATA'', Lit 0x00000002),
    (''ACE_ADD_FILE'', Lit 0x00000002), (''ACE_APPEND_DATA'', Lit 0x00000004),
    (''ACE_ADD_SUBDIRECTORY'', Lit 0x00000004), (''ACE_READ_NAMED_ATTRS'', Lit 0x00000008),
    (''ACE_WRITE_NAMED_ATTRS'', Lit 0x00000010), (''ACE_EXECUTE'', Lit 0x00000020),
    (''ACE_TRAVERSE'', Lit 0x00000020), (''ACE_DELETE_CHILD'', Lit 0x00000040),
    (''ACE_READ_ATTRIBUTES'', Lit 0x00000080), (''ACE_WRITE_ATTRIBUTES'', Lit 0x00000100),
    (''ACE_DELETE'', Lit 0x00010000), (''ACE_READ_ACL'', Lit 0x00020000), (''ACE_WRITE_ACL'', Lit 0x00040000),
    (''ACE_WRITE_OWNER'', Lit 0x00080000), (''ACE_SYNCHRONIZE'', Lit 0x00100000),
    (''ACE_FILE_INHERIT_ACE'', Lit 0x0001), (''ACE_DIRECTORY_INHERIT_ACE'', Lit 0x0002),
    (''ACE_NO_PROPAGATE_INHERIT_ACE'', Lit 0x0004), (''ACE_INHERIT_ONLY_ACE'', Lit 0x0008),
    (''ACE_SUCCESSFUL_ACCESS_ACE_FLAG'', Lit 0x0010), (''ACE_FAILED_ACCESS_ACE_FLAG'', Lit 0x0020),
    (''ACE_IDENTIFIER_GROUP'', Lit 0x0040), (''ACE_INHERITED_ACE'', Lit 0x0080), (''ACE_OWNER'', Lit 0x1000),
    (''ACE_GROUP'', Lit 0x2000), (''ACE_EVERYONE'', Lit 0x4000), (''ACE_ACCESS_ALLOWED_ACE_TYPE'', Lit 0x0000),
    (''ACE_ACCESS_DENIED_ACE_TYPE'', Lit 0x0001), (''ACE_SYSTEM_AUDIT_ACE_TYPE'', Lit 0x0002),
    (''ACE_SYSTEM_ALARM_ACE_TYPE'', Lit 0x0003), (''ACL_AUTO_INHERIT'', Lit 0x0001), (''ACL_PROTECTED'', Lit 0x0002),
    (''ACL_DEFAULTED'', Lit 0x0004),
    (''ACL_FLAGS_ALL'', BitOr [Use ''ACL_AUTO_INHERIT'', Use ''ACL_PROTECTED'', Use ''ACL_DEFAULTED'']),
    (''ACE_ACCESS_ALLOWED_COMPOUND_ACE_TYPE'', Lit 0x04), (''ACE_ACCESS_ALLOWED_OBJECT_ACE_TYPE'', Lit 0x05),
    (''ACE_ACCESS_DENIED_OBJECT_ACE_TYPE'', Lit 0x06), (''ACE_SYSTEM_AUDIT_OBJECT_ACE_TYPE'', Lit 0x07),
    (''ACE_SYSTEM_ALARM_OBJECT_ACE_TYPE'', Lit 0x08), (''ACE_ACCESS_ALLOWED_CALLBACK_ACE_TYPE'', Lit 0x09),
    (''ACE_ACCESS_DENIED_CALLBACK_ACE_TYPE'', Lit 0x0a), (''ACE_ACCESS_ALLOWED_CALLBACK_OBJECT_ACE_TYPE'', Lit 0x0b),
    (''ACE_ACCESS_DENIED_CALLBACK_OBJECT_ACE_TYPE'', Lit 0x0c), (''ACE_SYSTEM_AUDIT_CALLBACK_ACE_TYPE'', Lit 0x0d),
    (''ACE_SYSTEM_ALARM_CALLBACK_ACE_TYPE'', Lit 0x0e), (''ACE_SYSTEM_AUDIT_CALLBACK_OBJECT_ACE_TYPE'', Lit 0x0f),
    (''ACE_SYSTEM_ALARM_CALLBACK_OBJECT_ACE_TYPE'', Lit 0x10), (''ACE_ALL_TYPES'', Lit 0x001f)]"

definition user_acl_masks :: macro_table where
  "user_acl_masks =
   [(''ACE_ALL_PERMS'', BitOr [Use ''ACE_READ_DATA'', Use ''ACE_LIST_DIRECTORY'', Use ''ACE_WRITE_DATA'',
       Use ''ACE_ADD_FILE'', Use ''ACE_APPEND_DATA'', Use ''ACE_ADD_SUBDIRECTORY'', Use ''ACE_READ_NAMED_ATTRS'',
       Use ''ACE_WRITE_NAMED_ATTRS'', Use ''ACE_EXECUTE'', Use ''ACE_DELETE_CHILD'', Use ''ACE_READ_ATTRIBUTES'',
       Use ''ACE_WRITE_ATTRIBUTES'', Use ''ACE_DELETE'', Use ''ACE_READ_ACL'', Use ''ACE_WRITE_ACL'',
       Use ''ACE_WRITE_OWNER'', Use ''ACE_SYNCHRONIZE'']),
    (''ACE_ALL_WRITE_PERMS'', BitOr [Use ''ACE_WRITE_DATA'', Use ''ACE_APPEND_DATA'',
       Use ''ACE_WRITE_ATTRIBUTES'', Use ''ACE_WRITE_NAMED_ATTRS'', Use ''ACE_WRITE_ACL'',
       Use ''ACE_WRITE_OWNER'', Use ''ACE_DELETE'', Use ''ACE_DELETE_CHILD'']),
    (''ACE_READ_PERMS'', BitOr [Use ''ACE_READ_DATA'', Use ''ACE_READ_ACL'', Use ''ACE_READ_ATTRIBUTES'',
       Use ''ACE_READ_NAMED_ATTRS'']),
    (''ACE_WRITE_PERMS'', BitOr [Use ''ACE_WRITE_DATA'', Use ''ACE_APPEND_DATA'', Use ''ACE_WRITE_ATTRIBUTES'',
       Use ''ACE_WRITE_NAMED_ATTRS'']),
    (''ACE_MODIFY_PERMS'', BitOr [Use ''ACE_READ_DATA'', Use ''ACE_LIST_DIRECTORY'', Use ''ACE_WRITE_DATA'',
       Use ''ACE_ADD_FILE'', Use ''ACE_APPEND_DATA'', Use ''ACE_ADD_SUBDIRECTORY'', Use ''ACE_READ_NAMED_ATTRS'',
       Use ''ACE_WRITE_NAMED_ATTRS'', Use ''ACE_EXECUTE'', Use ''ACE_DELETE_CHILD'', Use ''ACE_READ_ATTRIBUTES'',
       Use ''ACE_WRITE_ATTRIBUTES'', Use ''ACE_DELETE'', Use ''ACE_READ_ACL'', Use ''ACE_SYNCHRONIZE'']),
    (''ACE_NFSV4_SUP_FLAGS'', BitOr [Use ''ACE_FILE_INHERIT_ACE'', Use ''ACE_DIRECTORY_INHERIT_ACE'',
       Use ''ACE_NO_PROPAGATE_INHERIT_ACE'', Use ''ACE_INHERIT_ONLY_ACE'', Use ''ACE_IDENTIFIER_GROUP'']),
    (''ACE_TYPE_FLAGS'', BitOr [Use ''ACE_OWNER'', Use ''ACE_GROUP'', Use ''ACE_EVERYONE'', Use ''ACE_IDENTIFIER_GROUP'']),
    (''ACE_INHERIT_FLAGS'', BitOr [Use ''ACE_FILE_INHERIT_ACE'', Use ''ACE_DIRECTORY_INHERIT_ACE'',
       Use ''ACE_NO_PROPAGATE_INHERIT_ACE'', Use ''ACE_INHERIT_ONLY_ACE'']),
    (''GETACL'', Lit 1), (''SETACL'', Lit 2), (''GETACLCNT'', Lit 3), (''ACE_GETACL'', Lit 4),
    (''ACE_SETACL'', Lit 5), (''ACE_GETACLCNT'', Lit 6), (''MIN_ACL_ENTRIES'', Lit 4)]"

definition user_acl_errors :: macro_table where
  "user_acl_errors =
   [(''GRP_ERROR'', Lit 1), (''USER_ERROR'', Lit 2), (''OTHER_ERROR'', Lit 3), (''CLASS_ERROR'', Lit 4),
    (''DUPLICATE_ERROR'', Lit 5), (''MISS_ERROR'', Lit 6), (''MEM_ERROR'', Lit 7), (''ENTRY_ERROR'', Lit 8)]"

definition acl_text_flags :: macro_table where
  "acl_text_flags =
   [(''ACL_APPEND_ID'', Lit 0x1), (''ACL_COMPACT_FMT'', Lit 0x2), (''ACL_NORESOLVE'', Lit 0x4),
    (''ACL_SID_FMT'', Lit 0x8)]"

definition user_eacl_errors :: macro_table where
  "user_eacl_errors =
   [(''EACL_GRP_ERROR'', Use ''GRP_ERROR''), (''EACL_USER_ERROR'', Use ''USER_ERROR''),
    (''EACL_OTHER_ERROR'', Use ''OTHER_ERROR''), (''EACL_CLASS_ERROR'', Use ''CLASS_ERROR''),
    (''EACL_DUPLICATE_ERROR'', Use ''DUPLICATE_ERROR''), (''EACL_MISS_ERROR'', Use ''MISS_ERROR''),
    (''EACL_MEM_ERROR'', Use ''MEM_ERROR''), (''EACL_ENTRY_ERROR'', Use ''ENTRY_ERROR''),
    (''EACL_INHERIT_ERROR'', Lit 9), (''EACL_FLAGS_ERROR'', Lit 10), (''EACL_PERM_MASK_ERROR'', Lit 11),
    (''EACL_COUNT_ERROR'', Lit 12), (''EACL_INVALID_SLOT'', Lit 13), (''EACL_NO_ACL_ENTRY'', Lit 14),
    (''EACL_DIFF_TYPE'', Lit 15), (''EACL_INVALID_USER_GROUP'', Lit 16), (''EACL_INVALID_STR'', Lit 17),
    (''EACL_FIELD_NOT_BLANK'', Lit 18), (''EACL_INVALID_ACCESS_TYPE'', Lit 19), (''EACL_UNKNOWN_DATA'', Lit 20),
    (''EACL_MISSING_FIELDS'', Lit 21), (''EACL_INHERIT_NOTDIR'', Lit 22)]"

definition freebsd_acl :: macro_table where
  "freebsd_acl =
   [(''USER_OBJ'', Lit 0x01), (''USER'', Lit 0x02), (''GROUP_OBJ'', Lit 0x04), (''GROUP'', Lit 0x08),
    (''CLASS_OBJ'', Lit 0x10), (''OTHER_OBJ'', Lit 0x20), (''ACL_DEFAULT'', Lit 0x1000),
    (''DEF_USER_OBJ'', BitOr [Use ''ACL_DEFAULT'', Use ''USER_OBJ'']),
    (''DEF_USER'', BitOr [Use ''ACL_DEFAULT'', Use ''USER'']),
    (''DEF_GROUP_OBJ'', BitOr [Use ''ACL_DEFAULT'', Use ''GROUP_OBJ'']),
    (''DEF_GROUP'', BitOr [Use ''ACL_DEFAULT'', Use ''GROUP'']),
    (''DEF_CLASS_OBJ'', BitOr [Use ''ACL_DEFAULT'', Use ''CLASS_OBJ'']),
    (''DEF_OTHER_OBJ'', BitOr [Use ''ACL_DEFAULT'', Use ''OTHER_OBJ'']), (''ACE_READ_DATA'', Lit 0x00000001),
    (''ACE_LIST_DIRECTORY'', Lit 0x00000001), (''ACE_WRITE_DATA'', Lit 0x00000002),
    (''ACE_ADD_FILE'', Lit 0x00000002), (''ACE_APPEND_DATA'', Lit 0x00000004),
    (''ACE_ADD_SUBDIRECTORY'', Lit 0x00000004), (''ACE_READ_NAMED_ATTRS'', Lit 0x00000008),
    (''ACE_WRITE_NAMED_ATTRS'', Lit 0x00000010), (''ACE_EXECUTE'', Lit 0x00000020),
    (''ACE_DELETE_CHILD'', Lit 0x00000040), (''ACE_READ_ATTRIBUTES'', Lit 0x00000080),
    (''ACE_WRITE_ATTRIBUTES'', Lit 0x00000100), (''ACE_DELETE'', Lit 0x00010000), (''ACE_READ_ACL'', Lit 0x00020000),
    (''ACE_WRITE_ACL'', Lit 0x00040000), (''ACE_WRITE_OWNER'', Lit 0x00080000),
    (''ACE_SYNCHRONIZE'', Lit 0x00100000), (''ACE_FILE_INHERIT_ACE'', Lit 0x0001),
    (''ACE_DIRECTORY_INHERIT_ACE'', Lit 0x0002), (''ACE_NO_PROPAGATE_INHERIT_ACE'', Lit 0x0004),
    (''ACE_INHERIT_ONLY_ACE'', Lit 0x0008), (''ACE_SUCCESSFUL_ACCESS_ACE_FLAG'', Lit 0x0010),
    (''ACE_FAILED_ACCESS_ACE_FLAG'', Lit 0x0020), (''ACE_IDENTIFIER_GROUP'', Lit 0x0040),
    (''ACE_INHERITED_ACE'', Lit 0x0080), (''ACE_OWNER'', Lit 0x1000), (''ACE_GROUP'', Lit 0x2000),
    (''ACE_EVERYONE'', Lit 0x4000), (''ACE_ACCESS_ALLOWED_ACE_TYPE'', Lit 0x0000),
    (''ACE_ACCESS_DENIED_ACE_TYPE'', Lit 0x0001), (''ACE_SYSTEM_AUDIT_ACE_TYPE'', Lit 0x0002),
    (''ACE_SYSTEM_ALARM_ACE_TYPE'', Lit 0x0003), (''ACL_AUTO_INHERIT'', Lit 0x0001), (''ACL_PROTECTED'', Lit 0x0002),
    (''ACL_DEFAULTED'', Lit 0x0004),
    (''ACL_FLAGS_ALL'', BitOr [Use ''ACL_AUTO_INHERIT'', Use ''ACL_PROTECTED'', Use ''ACL_DEFAULTED'']),
    (''ACE_ACCESS_ALLOWED_COMPOUND_ACE_TYPE'', Lit 0x04), (''ACE_ACCESS_ALLOWED_OBJECT_ACE_TYPE'', Lit 0x05),
    (''ACE_ACCESS_DENIED_OBJECT_ACE_TYPE'', Lit 0x06), (''ACE_SYSTEM_AUDIT_OBJECT_ACE_TYPE'', Lit 0x07),
    (''ACE_SYSTEM_ALARM_OBJECT_ACE_TYPE'', Lit 0x08), (''ACE_ACCESS_ALLOWED_CALLBACK_ACE_TYPE'', Lit 0x09),
    (''ACE_ACCESS_DENIED_CALLBACK_ACE_TYPE'', Lit 0x0a), (''ACE_ACCESS_ALLOWED_CALLBACK_OBJECT_ACE_TYPE'', Lit 0x0b),
    (''ACE_ACCESS_DENIED_CALLBACK_OBJECT_ACE_TYPE'', Lit 0x0c), (''ACE_SYSTEM_AUDIT_CALLBACK_ACE_TYPE'', Lit 0x0d),
    (''ACE_SYSTEM_ALARM_CALLBACK_ACE_TYPE'', Lit 0x0e), (''ACE_SYSTEM_AUDIT_CALLBACK_OBJECT_ACE_TYPE'', Lit 0x0f),
    (''ACE_SYSTEM_ALARM_CALLBACK_OBJECT_ACE_TYPE'', Lit 0x10), (''ACE_ALL_TYPES'', Lit 0x001f)]"

definition freebsd_acl_masks :: macro_table where
  "freebsd_acl_masks =
   [(''ACE_ALL_PERMS'', BitOr [Use ''ACE_READ_DATA'', Use ''ACE_LIST_DIRECTORY'', Use ''ACE_WRITE_DATA'',
       Use ''ACE_ADD_FILE'', Use ''ACE_APPEND_DATA'', Use ''ACE_ADD_SUBDIRECTORY'', Use ''ACE_READ_NAMED_ATTRS'',
       Use ''ACE_WRITE_NAMED_ATTRS'', Use ''ACE_EXECUTE'', Use ''ACE_DELETE_CHILD'', Use ''ACE_READ_ATTRIBUTES'',
       Use ''ACE_WRITE_ATTRIBUTES'', Use ''ACE_DELETE'', Use ''ACE_READ_ACL'', Use ''ACE_WRITE_ACL'',
       Use ''ACE_WRITE_OWNER'', Use ''ACE_SYNCHRONIZE'']),
    (''ACE_ALL_WRITE_PERMS'', BitOr [Use ''ACE_WRITE_DATA'', Use ''ACE_APPEND_DATA'',
       Use ''ACE_WRITE_ATTRIBUTES'', Use ''ACE_WRITE_NAMED_ATTRS'', Use ''ACE_WRITE_ACL'',
       Use ''ACE_WRITE_OWNER'', Use ''ACE_DELETE'', Use ''ACE_DELETE_CHILD'']),
    (''ACE_READ_PERMS'', BitOr [Use ''ACE_READ_DATA'', Use ''ACE_READ_ACL'', Use ''ACE_READ_ATTRIBUTES'',
       Use ''ACE_READ_NAMED_ATTRS'']),
    (''ACE_WRITE_PERMS'', BitOr [Use ''ACE_WRITE_DATA'', Use ''ACE_APPEND_DATA'', Use ''ACE_WRITE_ATTRIBUTES'',
       Use ''ACE_WRITE_NAMED_ATTRS'']),
    (''ACE_MODIFY_PERMS'', BitOr [Use ''ACE_READ_DATA'', Use ''ACE_LIST_DIRECTORY'', Use ''ACE_WRITE_DATA'',
       Use ''ACE_ADD_FILE'', Use ''ACE_APPEND_DATA'', Use ''ACE_ADD_SUBDIRECTORY'', Use ''ACE_READ_NAMED_ATTRS'',
       Use ''ACE_WRITE_NAMED_ATTRS'', Use ''ACE_EXECUTE'', Use ''ACE_DELETE_CHILD'', Use ''ACE_READ_ATTRIBUTES'',
       Use ''ACE_WRITE_ATTRIBUTES'', Use ''ACE_DELETE'', Use ''ACE_READ_ACL'', Use ''ACE_SYNCHRONIZE'']),
    (''ACE_NFSV4_SUP_FLAGS'', BitOr [Use ''ACE_FILE_INHERIT_ACE'', Use ''ACE_DIRECTORY_INHERIT_ACE'',
       Use ''ACE_NO_PROPAGATE_INHERIT_ACE'', Use ''ACE_INHERIT_ONLY_ACE'', Use ''ACE_INHERITED_ACE'',
       Use ''ACE_IDENTIFIER_GROUP'']),
    (''ACE_TYPE_FLAGS'', BitOr [Use ''ACE_OWNER'', Use ''ACE_GROUP'', Use ''ACE_EVERYONE'', Use ''ACE_IDENTIFIER_GROUP'']),
    (''ACE_INHERIT_FLAGS'', BitOr [Use ''ACE_FILE_INHERIT_ACE'', Use ''ACL_INHERITED_ACE'',
       Use ''ACE_DIRECTORY_INHERIT_ACE'', Use ''ACE_NO_PROPAGATE_INHERIT_ACE'', Use ''ACE_INHERIT_ONLY_ACE'']),
    (''GETACL'', Lit 1), (''SETACL'', Lit 2), (''GETACLCNT'', Lit 3), (''ACE_GETACL'', Lit 4),
    (''ACE_SETACL'', Lit 5), (''ACE_GETACLCNT'', Lit 6), (''MIN_ACL_ENTRIES'', Lit 4)]"

definition linux_acl :: macro_table where
  "linux_acl =
   [(''ACE_READ_DATA'', Lit 0x00000001), (''ACE_LIST_DIRECTORY'', Lit 0x00000001),
    (''ACE_WRITE_DATA'', Lit 0x00000002), (''ACE_ADD_FILE'', Lit 0x00000002), (''ACE_APPEND_DATA'', Lit 0x00000004),
    (''ACE_ADD_SUBDIRECTORY'', Lit 0x00000004), (''ACE_READ_NAMED_ATTRS'', Lit 0x00000008),
    (''ACE_WRITE_NAMED_ATTRS'', Lit 0x00000010), (''ACE_EXECUTE'', Lit 0x00000020),
    (''ACE_DELETE_CHILD'', Lit 0x00000040), (''ACE_READ_ATTRIBUTES'', Lit 0x00000080),
    (''ACE_WRITE_ATTRIBUTES'', Lit 0x00000100), (''ACE_DELETE'', Lit 0x00010000), (''ACE_READ_ACL'', Lit 0x00020000),
    (''ACE_WRITE_ACL'', Lit 0x00040000), (''ACE_WRITE_OWNER'', Lit 0x00080000),
    (''ACE_SYNCHRONIZE'', Lit 0x00100000), (''ACE_FILE_INHERIT_ACE'', Lit 0x0001),
    (''ACE_DIRECTORY_INHERIT_ACE'', Lit 0x0002), (''ACE_NO_PROPAGATE_INHERIT_ACE'', Lit 0x0004),
    (''ACE_INHERIT_ONLY_ACE'', Lit 0x0008), (''ACE_SUCCESSFUL_ACCESS_ACE_FLAG'', Lit 0x0010),
    (''ACE_FAILED_ACCESS_ACE_FLAG'', Lit 0x0020), (''ACE_IDENTIFIER_GROUP'', Lit 0x0040),
    (''ACE_INHERITED_ACE'', Lit 0x0080), (''ACE_OWNER'', Lit 0x1000), (''ACE_GROUP'', Lit 0x2000),
    (''ACE_EVERYONE'', Lit 0x4000), (''ACE_ACCESS_ALLOWED_ACE_TYPE'', Lit 0x0000),
    (''ACE_ACCESS_DENIED_ACE_TYPE'', Lit 0x0001), (''ACE_SYSTEM_AUDIT_ACE_TYPE'', Lit 0x0002),
    (''ACE_SYSTEM_ALARM_ACE_TYPE'', Lit 0x0003), (''ACL_AUTO_INHERIT'', Lit 0x0001), (''ACL_PROTECTED'', Lit 0x0002),
    (''ACL_DEFAULTED'', Lit 0x0004),
    (''ACL_FLAGS_ALL'', BitOr [Use ''ACL_AUTO_INHERIT'', Use ''ACL_PROTECTED'', Use ''ACL_DEFAULTED'']),
    (''ACE_ACCESS_ALLOWED_COMPOUND_ACE_TYPE'', Lit 0x04), (''ACE_ACCESS_ALLOWED_OBJECT_ACE_TYPE'', Lit 0x05),
    (''ACE_ACCESS_DENIED_OBJECT_ACE_TYPE'', Lit 0x06), (''ACE_SYSTEM_AUDIT_OBJECT_ACE_TYPE'', Lit 0x07),
    (''ACE_SYSTEM_ALARM_OBJECT_ACE_TYPE'', Lit 0x08), (''ACE_ACCESS_ALLOWED_CALLBACK_ACE_TYPE'', Lit 0x09),
    (''ACE_ACCESS_DENIED_CALLBACK_ACE_TYPE'', Lit 0x0a), (''ACE_ACCESS_ALLOWED_CALLBACK_OBJECT_ACE_TYPE'', Lit 0x0b),
    (''ACE_ACCESS_DENIED_CALLBACK_OBJECT_ACE_TYPE'', Lit 0x0c), (''ACE_SYSTEM_AUDIT_CALLBACK_ACE_TYPE'', Lit 0x0d),
    (''ACE_SYSTEM_ALARM_CALLBACK_ACE_TYPE'', Lit 0x0e), (''ACE_SYSTEM_AUDIT_CALLBACK_OBJECT_ACE_TYPE'', Lit 0x0f),
    (''ACE_SYSTEM_ALARM_CALLBACK_OBJECT_ACE_TYPE'', Lit 0x10), (''ACE_ALL_TYPES'', Lit 0x001f),
    (''ACE_TYPE_FLAGS'', BitOr [Use ''ACE_OWNER'', Use ''ACE_GROUP'', Use ''ACE_EVERYONE'', Use ''ACE_IDENTIFIER_GROUP'']),
    (''ACE_ALL_PERMS'', BitOr [Use ''ACE_READ_DATA'', Use ''ACE_LIST_DIRECTORY'', Use ''ACE_WRITE_DATA'',
       Use ''ACE_ADD_FILE'', Use ''ACE_APPEND_DATA'', Use ''ACE_ADD_SUBDIRECTORY'', Use ''ACE_READ_NAMED_ATTRS'',
       Use ''ACE_WRITE_NAMED_ATTRS'', Use ''ACE_EXECUTE'', Use ''ACE_DELETE_CHILD'', Use ''ACE_READ_ATTRIBUTES'',
       Use ''ACE_WRITE_ATTRIBUTES'', Use ''ACE_DELETE'', Use ''ACE_READ_ACL'', Use ''ACE_WRITE_ACL'',
       Use ''ACE_WRITE_OWNER'', Use ''ACE_SYNCHRONIZE''])]"

definition dk_controllers :: macro_table where
  "dk_controllers =
   [(''DKC_UNKNOWN'', Lit 0), (''DKC_CDROM'', Lit 1), (''DKC_WDC2880'', Lit 2), (''DKC_XXX_0'', Lit 3),
    (''DKC_XXX_1'', Lit 4), (''DKC_DSD5215'', Lit 5), (''DKC_ACB4000'', Lit 7), (''DKC_MD21'', Lit 8),
    (''DKC_XXX_2'', Lit 9), (''DKC_NCRFLOPPY'', Lit 10), (''DKC_SMSFLOPPY'', Lit 12), (''DKC_SCSI_CCS'', Lit 13),
    (''DKC_INTEL82072'', Lit 14), (''DKC_MD'', Lit 16), (''DKC_INTEL82077'', Lit 19), (''DKC_DIRECT'', Lit 20),
    (''DKC_PCMCIA_MEM'', Lit 21), (''DKC_PCMCIA_ATA'', Lit 22), (''DKC_VBD'', Lit 23),
    (''DKC_CUSTOMER_BASE'', Lit 1024)]"

definition dk_info_flags :: macro_table where
  "dk_info_flags =
   [(''DKI_BAD144'', Lit 0x01), (''DKI_MAPTRK'', Lit 0x02), (''DKI_FMTTRK'', Lit 0x04), (''DKI_FMTVOL'', Lit 0x08),
    (''DKI_FMTCYL'', Lit 0x10), (''DKI_HEXUNIT'', Lit 0x20), (''DKI_PCMCIA_PFD'', Lit 0x40)]"

definition dk_ioctls :: macro_table where
  "dk_ioctls =
   [(''DKIOC'', Shift (Lit 0x04) (Lit 8)), (''DKIOCGGEOM'', BitOr [Use ''DKIOC'', Lit 1]),
    (''DKIOCINFO'', BitOr [Use ''DKIOC'', Lit 3]), (''DKIOCEJECT'', BitOr [Use ''DKIOC'', Lit 6]),
    (''DKIOCGVTOC'', BitOr [Use ''DKIOC'', Lit 11]), (''DKIOCSVTOC'', BitOr [Use ''DKIOC'', Lit 12]),
    (''DKIOCFLUSHWRITECACHE'', BitOr [Use ''DKIOC'', Lit 34])]"

definition dk_media_ioctls :: macro_table where
  "dk_media_ioctls =
   [(''DKIOCGETWCE'', BitOr [Use ''DKIOC'', Lit 36]), (''DKIOCSETWCE'', BitOr [Use ''DKIOC'', Lit 37]),
    (''DKIOCSGEOM'', BitOr [Use ''DKIOC'', Lit 2]), (''DKIOCSAPART'', BitOr [Use ''DKIOC'', Lit 4]),
    (''DKIOCGAPART'', BitOr [Use ''DKIOC'', Lit 5]), (''DKIOCG_PHYGEOM'', BitOr [Use ''DKIOC'', Lit 32]),
    (''DKIOCG_VIRTGEOM'', BitOr [Use ''DKIOC'', Lit 33]), (''DKIOCLOCK'', BitOr [Use ''DKIOC'', Lit 7]),
    (''DKIOCUNLOCK'', BitOr [Use ''DKIOC'', Lit 8]), (''DKIOCSTATE'', BitOr [Use ''DKIOC'', Lit 13]),
    (''DKIOCREMOVABLE'', BitOr [Use ''DKIOC'', Lit 16]), (''DKIOCHOTPLUGGABLE'', BitOr [Use ''DKIOC'', Lit 35]),
    (''DKIOCADDBAD'', BitOr [Use ''DKIOC'', Lit 20]), (''DKIOCGETDEF'', BitOr [Use ''DKIOC'', Lit 21])]"

definition dk_info_ioctls :: macro_table where
  "dk_info_ioctls =
   [(''DKIOC_EBP_ENABLE'', BitOr [Use ''DKIOC'', Lit 40]), (''DKIOC_EBP_DISABLE'', BitOr [Use ''DKIOC'', Lit 41]),
    (''DKIOCGMEDIAINFO'', BitOr [Use ''DKIOC'', Lit 42]), (''DKIOCGMBOOT'', BitOr [Use ''DKIOC'', Lit 43]),
    (''DKIOCSMBOOT'', BitOr [Use ''DKIOC'', Lit 44]), (''DKIOCGTEMPERATURE'', BitOr [Use ''DKIOC'', Lit 45])]"

definition dk_media :: macro_table where
  "dk_media =
   [(''DK_UNKNOWN'', Lit 0x00), (''DK_REMOVABLE_DISK'', Lit 0x02), (''DK_MO_ERASABLE'', Lit 0x03),
    (''DK_MO_WRITEONCE'', Lit 0x04), (''DK_AS_MO'', Lit 0x05), (''DK_CDROM'', Lit 0x08), (''DK_CDR'', Lit 0x09),
    (''DK_CDRW'', Lit 0x0a), (''DK_DVDROM'', Lit 0x10), (''DK_DVDR'', Lit 0x11), (''DK_DVDRAM'', Lit 0x12),
    (''DK_FIXED_DISK'', Lit 0x10001), (''DK_FLOPPY'', Lit 0x10002), (''DK_ZIP'', Lit 0x10003),
    (''DK_JAZ'', Lit 0x10004)]"

definition dk_more_ioctls :: macro_table where
  "dk_more_ioctls =
   [(''DKIOCSETEFI'', BitOr [Use ''DKIOC'', Lit 17]), (''DKIOCGETEFI'', BitOr [Use ''DKIOC'', Lit 18]),
    (''DKIOCPARTITION'', BitOr [Use ''DKIOC'', Lit 9]), (''DKIOCGETVOLCAP'', BitOr [Use ''DKIOC'', Lit 25]),
    (''DKIOCSETVOLCAP'', BitOr [Use ''DKIOC'', Lit 26]), (''DKIOCDMR'', BitOr [Use ''DKIOC'', Lit 27])]"

definition dk_dmr_flags :: macro_table where
  "dk_dmr_flags =
   [(''DKV_DMR_NEXT_SIDE'', Lit 0x00000001), (''DKV_DMR_DONE'', Lit 0x00000002), (''DKV_DMR_ERROR'', Lit 0x00000004),
    (''DKV_DMR_SUCCESS'', Lit 0x00000008), (''DKV_DMR_SHORT'', Lit 0x00000010)]"

definition user_kstat_types :: macro_table where
  "user_kstat_types =
   [(''KSTAT_TYPE_RAW'', Lit 0), (''KSTAT_TYPE_NAMED'', Lit 1), (''KSTAT_TYPE_INTR'', Lit 2),
    (''KSTAT_TYPE_IO'', Lit 3), (''KSTAT_TYPE_TIMER'', Lit 4), (''KSTAT_NUM_TYPES'', Lit 5)]"

definition user_kstat_flags :: macro_table where
  "user_kstat_flags =
   [(''KSTAT_FLAG_VIRTUAL'', Lit 0x01), (''KSTAT_FLAG_VAR_SIZE'', Lit 0x02), (''KSTAT_FLAG_WRITABLE'', Lit 0x04),
    (''KSTAT_FLAG_PERSISTENT'', Lit 0x08), (''KSTAT_FLAG_DORMANT'', Lit 0x10), (''KSTAT_FLAG_INVALID'', Lit 0x20),
    (''KSTAT_FLAG_LONGSTRINGS'', Lit 0x40), (''KSTAT_FLAG_NO_HEADERS'', Lit 0x80)]"

definition user_kstat_data :: macro_table where
  "user_kstat_data =
   [(''KSTAT_DATA_CHAR'', Lit 0), (''KSTAT_DATA_INT32'', Lit 1), (''KSTAT_DATA_UINT32'', Lit 2),
    (''KSTAT_DATA_INT64'', Lit 3), (''KSTAT_DATA_UINT64'', Lit 4), (''KSTAT_DATA_STRING'', Lit 9),
    (''KSTAT_DATA_LONGLONG'', Use ''KSTAT_DATA_INT64''), (''KSTAT_DATA_ULONGLONG'', Use ''KSTAT_DATA_UINT64''),
    (''KSTAT_DATA_FLOAT'', Lit 5), (''KSTAT_DATA_DOUBLE'', Lit 6)]"

definition user_kstat_intrs :: macro_table where
  "user_kstat_intrs =
   [(''KSTAT_INTR_HARD'', Lit 0), (''KSTAT_INTR_SOFT'', Lit 1), (''KSTAT_INTR_WATCHDOG'', Lit 2),
    (''KSTAT_INTR_SPURIOUS'', Lit 3), (''KSTAT_INTR_MULTSVC'', Lit 4), (''KSTAT_NUM_INTRS'', Lit 5)]"

definition linux_kstat_types :: macro_table where
  "linux_kstat_types =
   [(''KSTAT_TYPE_RAW'', Lit 0), (''KSTAT_TYPE_NAMED'', Lit 1), (''KSTAT_TYPE_INTR'', Lit 2),
    (''KSTAT_TYPE_IO'', Lit 3), (''KSTAT_TYPE_TIMER'', Lit 4), (''KSTAT_NUM_TYPES'', Lit 5)]"

definition linux_kstat_data :: macro_table where
  "linux_kstat_data =
   [(''KSTAT_DATA_CHAR'', Lit 0), (''KSTAT_DATA_INT32'', Lit 1), (''KSTAT_DATA_UINT32'', Lit 2),
    (''KSTAT_DATA_INT64'', Lit 3), (''KSTAT_DATA_UINT64'', Lit 4), (''KSTAT_DATA_LONG'', Lit 5),
    (''KSTAT_DATA_ULONG'', Lit 6), (''KSTAT_DATA_STRING'', Lit 7), (''KSTAT_NUM_DATAS'', Lit 8)]"

definition linux_kstat_intrs :: macro_table where
  "linux_kstat_intrs =
   [(''KSTAT_INTR_HARD'', Lit 0), (''KSTAT_INTR_SOFT'', Lit 1), (''KSTAT_INTR_WATCHDOG'', Lit 2),
    (''KSTAT_INTR_SPURIOUS'', Lit 3), (''KSTAT_INTR_MULTSVC'', Lit 4), (''KSTAT_NUM_INTRS'', Lit 5)]"

definition linux_kstat_flags :: macro_table where
  "linux_kstat_flags =
   [(''KSTAT_FLAG_VIRTUAL'', Lit 0x01), (''KSTAT_FLAG_VAR_SIZE'', Lit 0x02), (''KSTAT_FLAG_WRITABLE'', Lit 0x04),
    (''KSTAT_FLAG_PERSISTENT'', Lit 0x08), (''KSTAT_FLAG_DORMANT'', Lit 0x10), (''KSTAT_FLAG_INVALID'', Lit 0x20),
    (''KSTAT_FLAG_LONGSTRINGS'', Lit 0x40), (''KSTAT_FLAG_NO_HEADERS'', Lit 0x80)]"

definition freebsd_kstat_types :: macro_table where
  "freebsd_kstat_types =
   [(''KSTAT_TYPE_RAW'', Lit 0), (''KSTAT_TYPE_NAMED'', Lit 1), (''KSTAT_TYPE_INTR'', Lit 2),
    (''KSTAT_TYPE_IO'', Lit 3), (''KSTAT_TYPE_TIMER'', Lit 4), (''KSTAT_NUM_TYPES'', Lit 5)]"

definition freebsd_kstat_data :: macro_table where
  "freebsd_kstat_data =
   [(''KSTAT_DATA_CHAR'', Lit 0), (''KSTAT_DATA_INT32'', Lit 1), (''KSTAT_DATA_UINT32'', Lit 2),
    (''KSTAT_DATA_INT64'', Lit 3), (''KSTAT_DATA_UINT64'', Lit 4), (''KSTAT_DATA_LONG'', Lit 5),
    (''KSTAT_DATA_ULONG'', Lit 6), (''KSTAT_DATA_STRING'', Lit 7), (''KSTAT_NUM_DATAS'', Lit 8)]"

definition freebsd_kstat_intrs :: macro_table where
  "freebsd_kstat_intrs =
   [(''KSTAT_INTR_HARD'', Lit 0), (''KSTAT_INTR_SOFT'', Lit 1), (''KSTAT_INTR_WATCHDOG'', Lit 2),
    (''KSTAT_INTR_SPURIOUS'', Lit 3), (''KSTAT_INTR_MULTSVC'', Lit 4), (''KSTAT_NUM_INTRS'', Lit 5)]"

definition freebsd_kstat_flags :: macro_table where
  "freebsd_kstat_flags =
   [(''KSTAT_FLAG_VIRTUAL'', Lit 0x01), (''KSTAT_FLAG_VAR_SIZE'', Lit 0x02), (''KSTAT_FLAG_WRITABLE'', Lit 0x04),
    (''KSTAT_FLAG_PERSISTENT'', Lit 0x08), (''KSTAT_FLAG_DORMANT'', Lit 0x10), (''KSTAT_FLAG_INVALID'', Lit 0x20),
    (''KSTAT_FLAG_LONGSTRINGS'', Lit 0x40), (''KSTAT_FLAG_NO_HEADERS'', Lit 0x80)]"

definition bsd_xat0_flags :: macro_table where
  "bsd_xat0_flags =
   [(''XAT0_CREATETIME'', Lit 0x00000001), (''XAT0_ARCHIVE'', Lit 0x00000002), (''XAT0_SYSTEM'', Lit 0x00000004),
    (''XAT0_READONLY'', Lit 0x00000008), (''XAT0_HIDDEN'', Lit 0x00000010), (''XAT0_NOUNLINK'', Lit 0x00000020),
    (''XAT0_IMMUTABLE'', Lit 0x00000040), (''XAT0_APPENDONLY'', Lit 0x00000080), (''XAT0_NODUMP'', Lit 0x00000100),
    (''XAT0_OPAQUE'', Lit 0x00000200), (''XAT0_AV_QUARANTINED'', Lit 0x00000400),
    (''XAT0_AV_MODIFIED'', Lit 0x00000800), (''XAT0_AV_SCANSTAMP'', Lit 0x00001000),
    (''XAT0_REPARSE'', Lit 0x00002000), (''XAT0_GEN'', Lit 0x00004000), (''XAT0_OFFLINE'', Lit 0x00008000),
    (''XAT0_SPARSE'', Lit 0x00010000)]"

definition bsd_lookup_flags :: macro_table where
  "bsd_lookup_flags =
   [(''LOOKUP_DIR'', Lit 0x01), (''LOOKUP_XATTR'', Lit 0x02), (''CREATE_XATTR_DIR'', Lit 0x04),
    (''LOOKUP_HAVE_SYSATTR_DIR'', Lit 0x08), (''LOOKUP_NAMED_ATTR'', Lit 0x10)]"

definition bsd_attr_flags :: macro_table where
  "bsd_attr_flags =
   [(''ATTR_UTIME'', Lit 0x01), (''ATTR_EXEC'', Lit 0x02), (''ATTR_COMM'', Lit 0x04), (''ATTR_HINT'', Lit 0x08),
    (''ATTR_REAL'', Lit 0x10), (''ATTR_NOACLCHECK'', Lit 0x20), (''ATTR_TRIGGER'', Lit 0x40)]"

definition idmap_errors :: macro_table where
  "idmap_errors =
   [(''IDMAP_SUCCESS'', Lit 0), (''IDMAP_NEXT'', Lit 1), (''IDMAP_ERR_OTHER'', Minus (Lit 10000)),
    (''IDMAP_ERR_INTERNAL'', Minus (Lit 9999)), (''IDMAP_ERR_MEMORY'', Minus (Lit 9998)),
    (''IDMAP_ERR_NORESULT'', Minus (Lit 9997)), (''IDMAP_ERR_NOTUSER'', Minus (Lit 9996)),
    (''IDMAP_ERR_NOTGROUP'', Minus (Lit 9995)), (''IDMAP_ERR_NOTSUPPORTED'', Minus (Lit 9994)),
    (''IDMAP_ERR_W2U_NAMERULE'', Minus (Lit 9993)), (''IDMAP_ERR_U2W_NAMERULE'', Minus (Lit 9992)),
    (''IDMAP_ERR_CACHE'', Minus (Lit 9991)), (''IDMAP_ERR_DB'', Minus (Lit 9990)),
    (''IDMAP_ERR_ARG'', Minus (Lit 9989)), (''IDMAP_ERR_SID'', Minus (Lit 9988)),
    (''IDMAP_ERR_IDTYPE'', Minus (Lit 9987)), (''IDMAP_ERR_RPC_HANDLE'', Minus (Lit 9986)),
    (''IDMAP_ERR_RPC'', Minus (Lit 9985)), (''IDMAP_ERR_CLIENT_HANDLE'', Minus (Lit 9984)),
    (''IDMAP_ERR_BUSY'', Minus (Lit 9983)), (''IDMAP_ERR_PERMISSION_DENIED'', Minus (Lit 9982)),
    (''IDMAP_ERR_NOMAPPING'', Minus (Lit 9981)), (''IDMAP_ERR_NEW_ID_ALLOC_REQD'', Minus (Lit 9980)),
    (''IDMAP_ERR_DOMAIN'', Minus (Lit 9979)), (''IDMAP_ERR_SECURITY'', Minus (Lit 9978)),
    (''IDMAP_ERR_NOTFOUND'', Minus (Lit 9977)), (''IDMAP_ERR_DOMAIN_NOTFOUND'', Minus (Lit 9976)),
    (''IDMAP_ERR_UPDATE_NOTALLOWED'', Minus (Lit 9975)), (''IDMAP_ERR_CFG'', Minus (Lit 9974)),
    (''IDMAP_ERR_CFG_CHANGE'', Minus (Lit 9973)), (''IDMAP_ERR_NOTMAPPED_WELLKNOWN'', Minus (Lit 9972)),
    (''IDMAP_ERR_RETRIABLE_NET_ERR'', Minus (Lit 9971)), (''IDMAP_ERR_W2U_NAMERULE_CONFLICT'', Minus (Lit 9970)),
    (''IDMAP_ERR_U2W_NAMERULE_CONFLICT'', Minus (Lit 9969)), (''IDMAP_ERR_BAD_UTF8'', Minus (Lit 9968)),
    (''IDMAP_ERR_NONE_GENERATED'', Minus (Lit 9967)), (''IDMAP_ERR_PROP_UNKNOWN'', Minus (Lit 9966)),
    (''IDMAP_ERR_NS_LDAP_OP_FAILED'', Minus (Lit 9965)), (''IDMAP_ERR_NS_LDAP_PARTIAL'', Minus (Lit 9964)),
    (''IDMAP_ERR_NS_LDAP_CFG'', Minus (Lit 9963)), (''IDMAP_ERR_NS_LDAP_BAD_WINNAME'', Minus (Lit 9962)),
    (''IDMAP_ERR_NO_ACTIVEDIRECTORY'', Minus (Lit 9961))]"

definition share_errors :: macro_table where
  "share_errors =
   [(''SA_OK'', Lit 0), (''SA_SYSTEM_ERR'', Lit 7), (''SA_SYNTAX_ERR'', Lit 8), (''SA_NO_MEMORY'', Lit 2),
    (''SA_INVALID_PROTOCOL'', Lit 13), (''SA_NOT_SUPPORTED'', Lit 21), (''SA_NO_SUCH_PATH'', Lit 1),
    (''SA_DUPLICATE_NAME'', Lit 3), (''SA_BAD_PATH'', Lit 4), (''SA_NO_SUCH_GROUP'', Lit 5),
    (''SA_CONFIG_ERR'', Lit 6), (''SA_NO_PERMISSION'', Lit 9), (''SA_BUSY'', Lit 10), (''SA_NO_SUCH_PROP'', Lit 11),
    (''SA_INVALID_NAME'', Lit 12), (''SA_NOT_ALLOWED'', Lit 14), (''SA_BAD_VALUE'', Lit 15),
    (''SA_INVALID_SECURITY'', Lit 16), (''SA_NO_SUCH_SECURITY'', Lit 17), (''SA_VALUE_CONFLICT'', Lit 18),
    (''SA_NOT_IMPLEMENTED'', Lit 19), (''SA_INVALID_PATH'', Lit 20), (''SA_PROP_SHARE_ONLY'', Lit 22),
    (''SA_NOT_SHARED'', Lit 23), (''SA_NO_SUCH_RESOURCE'', Lit 24), (''SA_RESOURCE_REQUIRED'', Lit 25),
    (''SA_MULTIPLE_ERROR'', Lit 26), (''SA_PATH_IS_SUBDIR'', Lit 27), (''SA_PATH_IS_PARENTDIR'', Lit 28),
    (''SA_NO_SECTION'', Lit 29), (''SA_NO_SUCH_SECTION'', Lit 30), (''SA_NO_PROPERTIES'', Lit 31),
    (''SA_PASSWORD_ENC'', Lit 32), (''SA_SHARE_EXISTS'', Lit 33)]"

definition fdisk_systems :: macro_table where
  "fdisk_systems =
   [(''UNUSED'', Lit 0), (''DOSOS12'', Lit 1), (''PCIXOS'', Lit 2), (''DOSOS16'', Lit 4), (''EXTDOS'', Lit 5),
    (''DOSHUGE'', Lit 6), (''FDISK_IFS'', Lit 7), (''FDISK_AIXBOOT'', Lit 8), (''FDISK_AIXDATA'', Lit 9),
    (''FDISK_OS2BOOT'', Lit 10), (''FDISK_WINDOWS'', Lit 11), (''FDISK_EXT_WIN'', Lit 12), (''FDISK_FAT95'', Lit 14),
    (''FDISK_EXTLBA'', Lit 15), (''DIAGPART'', Lit 18), (''FDISK_LINUX'', Lit 65), (''FDISK_LINUXDSWAP'', Lit 66),
    (''FDISK_LINUXDNAT'', Lit 67), (''FDISK_CPM'', Lit 82), (''DOSDATA'', Lit 86), (''OTHEROS'', Lit 98),
    (''UNIXOS'', Lit 99), (''FDISK_NOVELL2'', Lit 100), (''FDISK_NOVELL3'', Lit 101), (''FDISK_QNX4'', Lit 119),
    (''FDISK_QNX42'', Lit 120), (''FDISK_QNX43'', Lit 121), (''SUNIXOS'', Lit 130), (''FDISK_LINUXNAT'', Lit 131),
    (''FDISK_NTFSVOL1'', Lit 134), (''FDISK_NTFSVOL2'', Lit 135), (''FDISK_BSD'', Lit 165),
    (''FDISK_NEXTSTEP'', Lit 167), (''FDISK_BSDIFS'', Lit 183), (''FDISK_BSDISWAP'', Lit 184),
    (''X86BOOT'', Lit 190), (''SUNIXOS2'', Lit 191), (''EFI_PMBR'', Lit 238), (''EFI_FS'', Lit 239)]"

definition linux_taskq_flags :: macro_table where
  "linux_taskq_flags =
   [(''TASKQ_PREPOPULATE'', Lit 0x00000001), (''TASKQ_CPR_SAFE'', Lit 0x00000002),
    (''TASKQ_DYNAMIC'', Lit 0x00000004), (''TASKQ_THREADS_CPU_PCT'', Lit 0x00000008),
    (''TASKQ_DC_BATCH'', Lit 0x00000010), (''TASKQ_ACTIVE'', Lit 0x80000000)]"

definition linux_tq_flags :: macro_table where
  "linux_tq_flags =
   [(''TQ_NOSLEEP'', Lit 0x00000001), (''TQ_PUSHPAGE'', Lit 0x00000002), (''TQ_NOQUEUE'', Lit 0x01000000),
    (''TQ_NOALLOC'', Lit 0x02000000), (''TQ_NEW'', Lit 0x04000000), (''TQ_FRONT'', Lit 0x08000000)]"

definition freebsd_taskq_flags :: macro_table where
  "freebsd_taskq_flags =
   [(''TASKQ_PREPOPULATE'', Lit 0x0001), (''TASKQ_CPR_SAFE'', Lit 0x0002), (''TASKQ_DYNAMIC'', Lit 0x0004),
    (''TASKQ_THREADS_CPU_PCT'', Lit 0x0008), (''TASKQ_DC_BATCH'', Lit 0x0010)]"

definition freebsd_tq_flags :: macro_table where
  "freebsd_tq_flags =
   [(''TQ_NOSLEEP'', Lit 0x01), (''TQ_NOQUEUE'', Lit 0x02), (''TQ_NOALLOC'', Lit 0x04), (''TQ_FRONT'', Lit 0x08)]"

definition callb_classes :: macro_table where
  "callb_classes =
   [(''CB_CL_CPR_DAEMON'', Lit 0), (''CB_CL_CPR_VM'', Lit 1), (''CB_CL_CPR_CALLOUT'', Lit 2),
    (''CB_CL_CPR_OBP'', Lit 3), (''CB_CL_CPR_FB'', Lit 4), (''CB_CL_PANIC'', Lit 5), (''CB_CL_CPR_RPC'', Lit 6),
    (''CB_CL_CPR_PROMPRINTF'', Lit 7), (''CB_CL_UADMIN'', Lit 8), (''CB_CL_CPR_PM'', Lit 9),
    (''CB_CL_HALT'', Lit 10), (''CB_CL_CPR_DMA'', Lit 11), (''CB_CL_CPR_POST_USER'', Lit 12),
    (''CB_CL_UADMIN_PRE_VFS'', Lit 13), (''CB_CL_ENTER_DEBUGGER'', Lit 14), (''CB_CL_CPR_POST_KERNEL'', Lit 15),
    (''CB_CL_CPU_DEEP_IDLE'', Lit 16)]"

definition mount_option_flags :: macro_table where
  "mount_option_flags =
   [(''MO_SET'', Lit 0x01), (''MO_NODISPLAY'', Lit 0x02), (''MO_HASVALUE'', Lit 0x04), (''MO_IGNORE'', Lit 0x08),
    (''MO_TAG'', Lit 0x10), (''MO_EMPTY'', Lit 0x20)]"

definition vfs_option_flags :: macro_table where
  "vfs_option_flags =
   [(''VFS_NOFORCEOPT'', Lit 0x01), (''VFS_DISPLAY'', Lit 0x02), (''VFS_NODISPLAY'', Lit 0x04),
    (''VFS_CREATEOPT'', Lit 0x08)]"

definition vfs_features :: macro_table where
  "vfs_features =
   [(''VFSFT_XVATTR'', Lit 0x100000001), (''VFSFT_CASEINSENSITIVE'', Lit 0x100000002),
    (''VFSFT_NOCASESENSITIVE'', Lit 0x100000004), (''VFSFT_DIRENTFLAGS'', Lit 0x100000008),
    (''VFSFT_ACLONCREATE'', Lit 0x100000010), (''VFSFT_ACEMASKONACCESS'', Lit 0x100000020),
    (''VFSFT_SYSATTR_VIEWS'', Lit 0x100000040), (''VFSFT_ACCESS_FILTER'', Lit 0x100000080),
    (''VFSFT_REPARSE'', Lit 0x100000100), (''VFSFT_ZEROCOPY_SUPPORTED'', Lit 0x100000200)]"

definition zfs_debug_flags :: macro_table where
  "zfs_debug_flags =
   [(''ZFS_DEBUG_DPRINTF'', Shift (Lit 1) (Lit 0)), (''ZFS_DEBUG_DBUF_VERIFY'', Shift (Lit 1) (Lit 1)),
    (''ZFS_DEBUG_DNODE_VERIFY'', Shift (Lit 1) (Lit 2)), (''ZFS_DEBUG_SNAPNAMES'', Shift (Lit 1) (Lit 3)),
    (''ZFS_DEBUG_MODIFY'', Shift (Lit 1) (Lit 4)), (''ZFS_DEBUG_ZIO_FREE'', Shift (Lit 1) (Lit 6)),
    (''ZFS_DEBUG_HISTOGRAM_VERIFY'', Shift (Lit 1) (Lit 7)), (''ZFS_DEBUG_METASLAB_VERIFY'', Shift (Lit 1) (Lit 8)),
    (''ZFS_DEBUG_SET_ERROR'', Shift (Lit 1) (Lit 9)), (''ZFS_DEBUG_INDIRECT_REMAP'', Shift (Lit 1) (Lit 10)),
    (''ZFS_DEBUG_TRIM'', Shift (Lit 1) (Lit 11)), (''ZFS_DEBUG_LOG_SPACEMAP'', Shift (Lit 1) (Lit 12)),
    (''ZFS_DEBUG_METASLAB_ALLOC'', Shift (Lit 1) (Lit 13)), (''ZFS_DEBUG_BRT'', Shift (Lit 1) (Lit 14)),
    (''ZFS_DEBUG_RAIDZ_RECONSTRUCT'', Shift (Lit 1) (Lit 15)), (''ZFS_DEBUG_DDT'', Shift (Lit 1) (Lit 16))]"

definition crypto_results :: macro_table where
  "crypto_results =
   [(''CRYPTO_SUCCESS'', Lit 0x00000000), (''CRYPTO_HOST_MEMORY'', Lit 0x00000002),
    (''CRYPTO_FAILED'', Lit 0x00000004), (''CRYPTO_ARGUMENTS_BAD'', Lit 0x00000005),
    (''CRYPTO_DATA_LEN_RANGE'', Lit 0x0000000c), (''CRYPTO_ENCRYPTED_DATA_LEN_RANGE'', Lit 0x00000011),
    (''CRYPTO_KEY_SIZE_RANGE'', Lit 0x00000013), (''CRYPTO_KEY_TYPE_INCONSISTENT'', Lit 0x00000014),
    (''CRYPTO_MECHANISM_INVALID'', Lit 0x0000001c), (''CRYPTO_MECHANISM_PARAM_INVALID'', Lit 0x0000001d),
    (''CRYPTO_SIGNATURE_INVALID'', Lit 0x0000002d), (''CRYPTO_BUFFER_TOO_SMALL'', Lit 0x00000042),
    (''CRYPTO_NOT_SUPPORTED'', Lit 0x00000044), (''CRYPTO_INVALID_CONTEXT'', Lit 0x00000047),
    (''CRYPTO_INVALID_MAC'', Lit 0x00000048), (''CRYPTO_MECH_NOT_SUPPORTED'', Lit 0x00000049),
    (''CRYPTO_INVALID_PROVIDER_ID'', Lit 0x0000004c), (''CRYPTO_BUSY'', Lit 0x0000004e),
    (''CRYPTO_UNKNOWN_PROVIDER'', Lit 0x0000004f)]"

definition linux_dir_flags :: macro_table where
  "linux_dir_flags =
   [(''ZNEW'', Lit 0x0001), (''ZEXISTS'', Lit 0x0002), (''ZSHARED'', Lit 0x0004), (''ZXATTR'', Lit 0x0008),
    (''ZRENAMING'', Lit 0x0010), (''ZCILOOK'', Lit 0x0020), (''ZCIEXACT'', Lit 0x0040), (''ZHAVELOCK'', Lit 0x0080)]"

definition linux_mknode_flags :: macro_table where
  "linux_mknode_flags =
   [(''IS_ROOT_NODE'', Lit 0x01), (''IS_XATTR'', Lit 0x02), (''IS_TMPFILE'', Lit 0x04)]"

definition freebsd_dir_flags :: macro_table where
  "freebsd_dir_flags =
   [(''ZNEW'', Lit 0x0001), (''ZEXISTS'', Lit 0x0002), (''ZSHARED'', Lit 0x0004), (''ZXATTR'', Lit 0x0008),
    (''ZRENAMING'', Lit 0x0010), (''ZCILOOK'', Lit 0x0020), (''ZCIEXACT'', Lit 0x0040), (''ZHAVELOCK'', Lit 0x0080)]"

definition freebsd_mknode_flags :: macro_table where
  "freebsd_mknode_flags =
   [(''IS_ROOT_NODE'', Lit 0x01), (''IS_XATTR'', Lit 0x02)]"

definition traverse_flags :: macro_table where
  "traverse_flags =
   [(''TRAVERSE_PRE'', Shift (Lit 1) (Lit 0)), (''TRAVERSE_POST'', Shift (Lit 1) (Lit 1)),
    (''TRAVERSE_PREFETCH_METADATA'', Shift (Lit 1) (Lit 2)), (''TRAVERSE_PREFETCH_DATA'', Shift (Lit 1) (Lit 3)),
    (''TRAVERSE_HARD'', Shift (Lit 1) (Lit 4)), (''TRAVERSE_NO_DECRYPT'', Shift (Lit 1) (Lit 5)),
    (''TRAVERSE_LOGICAL'', Shift (Lit 1) (Lit 6))]"

definition raidz_pauses :: macro_table where
  "raidz_pauses =
   [(''RAIDZ_EXPAND_PAUSE_NONE'', Lit 0), (''RAIDZ_EXPAND_PAUSE_PRE_SCRATCH_1'', Lit 1),
    (''RAIDZ_EXPAND_PAUSE_PRE_SCRATCH_2'', Lit 2), (''RAIDZ_EXPAND_PAUSE_PRE_SCRATCH_3'', Lit 3),
    (''RAIDZ_EXPAND_PAUSE_SCRATCH_VALID'', Lit 4), (''RAIDZ_EXPAND_PAUSE_SCRATCH_REFLOWED'', Lit 5),
    (''RAIDZ_EXPAND_PAUSE_SCRATCH_POST_REFLOW_1'', Lit 6), (''RAIDZ_EXPAND_PAUSE_SCRATCH_POST_REFLOW_2'', Lit 7)]"

definition acl_inherit_modes :: macro_table where
  "acl_inherit_modes =
   [(''ZFS_ACL_DISCARD'', Lit 0), (''ZFS_ACL_NOALLOW'', Lit 1), (''ZFS_ACL_GROUPMASK'', Lit 2),
    (''ZFS_ACL_PASSTHROUGH'', Lit 3), (''ZFS_ACL_RESTRICTED'', Lit 4), (''ZFS_ACL_PASSTHROUGH_X'', Lit 5)]"

definition uu_errors :: macro_table where
  "uu_errors =
   [(''UU_ERROR_NONE'', Lit 0), (''UU_ERROR_INVALID_ARGUMENT'', Lit 1), (''UU_ERROR_UNKNOWN_FLAG'', Lit 2),
    (''UU_ERROR_NO_MEMORY'', Lit 3), (''UU_ERROR_CALLBACK_FAILED'', Lit 4), (''UU_ERROR_NOT_SUPPORTED'', Lit 5),
    (''UU_ERROR_EMPTY'', Lit 6), (''UU_ERROR_UNDERFLOW'', Lit 7), (''UU_ERROR_OVERFLOW'', Lit 8),
    (''UU_ERROR_INVALID_CHAR'', Lit 9), (''UU_ERROR_INVALID_DIGIT'', Lit 10), (''UU_ERROR_SYSTEM'', Lit 99),
    (''UU_ERROR_UNKNOWN'', Lit 100)]"

definition mhd_ioctls :: macro_table where
  "mhd_ioctls =
   [(''MHIOC'', Shift (Lit 77) (Lit 8)), (''MHIOCENFAILFAST'', BitOr [Use ''MHIOC'', Lit 1]),
    (''MHIOCTKOWN'', BitOr [Use ''MHIOC'', Lit 2]), (''MHIOCRELEASE'', BitOr [Use ''MHIOC'', Lit 3]),
    (''MHIOCSTATUS'', BitOr [Use ''MHIOC'', Lit 4]), (''MHIOCGRP_INKEYS'', BitOr [Use ''MHIOC'', Lit 5]),
    (''MHIOCGRP_INRESV'', BitOr [Use ''MHIOC'', Lit 6]), (''MHIOCGRP_REGISTER'', BitOr [Use ''MHIOC'', Lit 7]),
    (''MHIOCGRP_RESERVE'', BitOr [Use ''MHIOC'', Lit 8]),
    (''MHIOCGRP_PREEMPTANDABORT'', BitOr [Use ''MHIOC'', Lit 9]),
    (''MHIOCGRP_PREEMPT'', BitOr [Use ''MHIOC'', Lit 10]), (''MHIOCGRP_CLEAR'', BitOr [Use ''MHIOC'', Lit 11]),
    (''MHIOCGRP_REGISTERANDIGNOREKEY'', BitOr [Use ''MHIOC'', Lit 14]),
    (''MHIOCQRESERVE'', BitOr [Use ''MHIOC'', Lit 12]), (''MHIOCREREGISTERDEVID'', BitOr [Use ''MHIOC'', Lit 13])]"

definition reservation_types :: macro_table where
  "reservation_types =
   [(''SCSI3_RESV_READSHARED_OBSOLETE'', Lit 0), (''SCSI3_RESV_WRITEEXCLUSIVE'', Lit 1),
    (''SCSI3_RESV_READEXCLUSIVE_OBSOLETE'', Lit 2), (''SCSI3_RESV_EXCLUSIVEACCESS'', Lit 3),
    (''SCSI3_RESV_SHAREDACCESS_OBSOLETE'', Lit 4), (''SCSI3_RESV_WRITEEXCLUSIVEREGISTRANTSONLY'', Lit 5),
    (''SCSI3_RESV_EXCLUSIVEACCESSREGISTRANTSONLY'', Lit 6)]"

definition ioctl_versions :: macro_table where
  "ioctl_versions =
   [(''ZFS_IOCVER_UNDEF'', Minus (Lit 1)), (''ZFS_IOCVER_NONE'', Lit 0), (''ZFS_IOCVER_DEADMAN'', Lit 1),
    (''ZFS_IOCVER_LZC'', Lit 2), (''ZFS_IOCVER_ZCMD'', Lit 3), (''ZFS_IOCVER_EDBP'', Lit 4),
    (''ZFS_IOCVER_RESUME'', Lit 5), (''ZFS_IOCVER_INLANES'', Lit 6), (''ZFS_IOCVER_PAD'', Lit 7),
    (''ZFS_IOCVER_OZFS'', Lit 15)]"

definition ioctl_compats :: macro_table where
  "ioctl_compats =
   [(''ZFS_CMD_COMPAT_NONE'', Lit 0), (''ZFS_CMD_COMPAT_V15'', Lit 1), (''ZFS_CMD_COMPAT_V28'', Lit 2),
    (''ZFS_CMD_COMPAT_DEADMAN'', Lit 3), (''ZFS_CMD_COMPAT_LZC'', Lit 4), (''ZFS_CMD_COMPAT_ZCMD'', Lit 5),
    (''ZFS_CMD_COMPAT_EDBP'', Lit 6), (''ZFS_CMD_COMPAT_RESUME'', Lit 7), (''ZFS_CMD_COMPAT_INLANES'', Lit 8),
    (''ZFS_CMD_COMPAT_LEGACY'', Lit 9), (''ZFS_IOC_COMPAT_PASS'', Lit 254), (''ZFS_IOC_COMPAT_FAIL'', Lit 255)]"

definition zlib_results :: macro_table where
  "zlib_results =
   [(''Z_OK'', Lit 0), (''Z_STREAM_END'', Lit 1), (''Z_NEED_DICT'', Lit 2), (''Z_ERRNO'', Minus (Lit 1)),
    (''Z_STREAM_ERROR'', Minus (Lit 2)), (''Z_DATA_ERROR'', Minus (Lit 3)), (''Z_MEM_ERROR'', Minus (Lit 4)),
    (''Z_BUF_ERROR'', Minus (Lit 5)), (''Z_VERSION_ERROR'', Minus (Lit 6))]"

definition vdev_alloc_modes :: macro_table where
  "vdev_alloc_modes =
   [(''VDEV_ALLOC_LOAD'', Lit 0), (''VDEV_ALLOC_ADD'', Lit 1), (''VDEV_ALLOC_SPARE'', Lit 2),
    (''VDEV_ALLOC_L2CACHE'', Lit 3), (''VDEV_ALLOC_ROOTPOOL'', Lit 4), (''VDEV_ALLOC_SPLIT'', Lit 5),
    (''VDEV_ALLOC_ATTACH'', Lit 6)]"

definition ds_flags :: macro_table where
  "ds_flags =
   [(''DS_FLAG_INCONSISTENT'', Shift (Lit 1) (Lit 0)), (''DS_FLAG_NOPROMOTE'', Shift (Lit 1) (Lit 1)),
    (''DS_FLAG_UNIQUE_ACCURATE'', Shift (Lit 1) (Lit 2)), (''DS_FLAG_DEFER_DESTROY'', Shift (Lit 1) (Lit 3))]"

definition objset_flags :: macro_table where
  "objset_flags =
   [(''OBJSET_FLAG_USERACCOUNTING_COMPLETE'', Shift (Lit 1) (Lit 0)),
    (''OBJSET_FLAG_USEROBJACCOUNTING_COMPLETE'', Shift (Lit 1) (Lit 1)),
    (''OBJSET_FLAG_PROJECTQUOTA_COMPLETE'', Shift (Lit 1) (Lit 2))]"

definition ds_find_flags :: macro_table where
  "ds_find_flags =
   [(''DS_FIND_SNAPSHOTS'', Shift (Lit 1) (Lit 0)), (''DS_FIND_CHILDREN'', Shift (Lit 1) (Lit 1)),
    (''DS_FIND_SERIALIZE'', Shift (Lit 1) (Lit 2))]"

definition write_policy_flags :: macro_table where
  "write_policy_flags =
   [(''WP_NOFILL'', Lit 0x1), (''WP_DMU_SYNC'', Lit 0x2), (''WP_SPILL'', Lit 0x4), (''WP_DIRECT_WR'', Lit 0x8)]"

definition zfs_iter_flags :: macro_table where
  "zfs_iter_flags =
   [(''ZFS_ITER_RECURSE'', Shift (Lit 1) (Lit 0)), (''ZFS_ITER_ARGS_CAN_BE_PATHS'', Shift (Lit 1) (Lit 1)),
    (''ZFS_ITER_PROP_LISTSNAPS'', Shift (Lit 1) (Lit 2)), (''ZFS_ITER_DEPTH_LIMIT'', Shift (Lit 1) (Lit 3)),
    (''ZFS_ITER_RECVD_PROPS'', Shift (Lit 1) (Lit 4)), (''ZFS_ITER_LITERAL_PROPS'', Shift (Lit 1) (Lit 5)),
    (''ZFS_ITER_SIMPLE'', Shift (Lit 1) (Lit 6))]"

definition mount_results :: macro_table where
  "mount_results =
   [(''MOUNT_SUCCESS'', Lit 0x00), (''MOUNT_USAGE'', Lit 0x01), (''MOUNT_SYSERR'', Lit 0x02),
    (''MOUNT_SOFTWARE'', Lit 0x04), (''MOUNT_USER'', Lit 0x08), (''MOUNT_FILEIO'', Lit 0x10),
    (''MOUNT_FAIL'', Lit 0x20), (''MOUNT_SOMEOK'', Lit 0x40), (''MOUNT_BUSY'', Lit 0x80)]"

definition zdb_flags :: macro_table where
  "zdb_flags =
   [(''ZDB_FLAG_CHECKSUM'', Lit 0x0001), (''ZDB_FLAG_DECOMPRESS'', Lit 0x0002), (''ZDB_FLAG_BSWAP'', Lit 0x0004),
    (''ZDB_FLAG_GBH'', Lit 0x0008), (''ZDB_FLAG_INDIRECT'', Lit 0x0010), (''ZDB_FLAG_RAW'', Lit 0x0020),
    (''ZDB_FLAG_PRINT_BLKPTR'', Lit 0x0040), (''ZDB_FLAG_VERBOSE'', Lit 0x0080)]"

definition zdb_range_flags :: macro_table where
  "zdb_range_flags =
   [(''ZOR_FLAG_PLAIN_FILE'', Lit 0x0001), (''ZOR_FLAG_DIRECTORY'', Lit 0x0002),
    (''ZOR_FLAG_SPACE_MAP'', Lit 0x0004), (''ZOR_FLAG_ZAP'', Lit 0x0008)]"

section \<open>Flags\<close>

definition flag_tables :: "macro_table list" where
  "flag_tables =
   [acl_text_flags, dk_info_flags, dk_dmr_flags, user_kstat_flags, linux_kstat_flags, freebsd_kstat_flags,
    bsd_xat0_flags, bsd_lookup_flags, bsd_attr_flags, linux_taskq_flags, linux_tq_flags,
    freebsd_taskq_flags, freebsd_tq_flags, mount_option_flags, vfs_option_flags, zfs_debug_flags,
    linux_dir_flags, linux_mknode_flags, freebsd_dir_flags, freebsd_mknode_flags, traverse_flags, ds_flags,
    objset_flags, ds_find_flags, write_policy_flags, zfs_iter_flags, zdb_flags, zdb_range_flags]"

definition number_tables :: "macro_table list" where
  "number_tables =
   [user_acl_errors, dk_controllers, dk_media, user_kstat_types, user_kstat_intrs, linux_kstat_types,
    linux_kstat_data, linux_kstat_intrs, freebsd_kstat_types, freebsd_kstat_data, freebsd_kstat_intrs,
    idmap_errors, share_errors, fdisk_systems, callb_classes, vfs_features, crypto_results, raidz_pauses,
    acl_inherit_modes, uu_errors, mhd_ioctls, reservation_types, ioctl_versions, ioctl_compats,
    zlib_results, vdev_alloc_modes, mount_results]"

text \<open>A table whose values are different powers of two, and the words made of its flags.\<close>

definition flag_value :: "macro_table \<Rightarrow> string \<Rightarrow> int" where
  "flag_value T n = (case mval 3 T (Use n) of None \<Rightarrow> 0 | Some v \<Rightarrow> v)"

definition flag_word :: "macro_table \<Rightarrow> string list \<Rightarrow> int" where
  "flag_word T ns = foldr (\<lambda>n w. flag_value T n OR w) ns 0"

definition flag_table :: "macro_table \<Rightarrow> bool" where
  "flag_table T \<longleftrightarrow> list_all (\<lambda>n. List.member (map (\<lambda>k. 2 ^ k) [0..<64]) (flag_value T n)) (map fst T) \<and>
     distinct (map (flag_value T) (map fst T)) \<and> distinct (map fst T)"

lemma flag_tables_ok: "list_all flag_table flag_tables"
  by code_simp

section \<open>Numbers\<close>

text \<open>
  In each group of numbers - kinds of statistics, disk controllers and media, partition types,
  error numbers, ioctls - all numbers are defined and different.
\<close>

theorem numbers_differ:
  "list_all (\<lambda>T. distinct (map snd (values_in T T)) \<and> None \<notin> set (map snd (values_in T T))) number_tables \<and>
   (let io = values_in dk_ioctls (dk_ioctls @ dk_media_ioctls @ dk_info_ioctls @ dk_more_ioctls) in distinct (map snd io) \<and> None \<notin> set (map snd io)) \<and>
   (let er = values_in user_acl_errors user_eacl_errors in distinct (map snd er) \<and> None \<notin> set (map snd er))"
  by code_simp

section \<open>Statistics\<close>

text \<open>
  The kinds, flags and interrupts of kernel statistics have the same numbers in user space and in
  both kernels, and both kernels agree on the types of data; but in user space the numbers 5, 6 and 9
  are the types that the kernels have as signed long, unsigned long and nothing.
\<close>

theorem kstat_layers:
  "values_in user_kstat_types user_kstat_types = values_in linux_kstat_types linux_kstat_types \<and>
   values_in freebsd_kstat_types freebsd_kstat_types = values_in linux_kstat_types linux_kstat_types \<and>
   values_in user_kstat_flags user_kstat_flags = values_in linux_kstat_flags linux_kstat_flags \<and>
   values_in freebsd_kstat_flags freebsd_kstat_flags = values_in linux_kstat_flags linux_kstat_flags \<and>
   values_in user_kstat_intrs user_kstat_intrs = values_in linux_kstat_intrs linux_kstat_intrs \<and>
   values_in freebsd_kstat_intrs freebsd_kstat_intrs = values_in linux_kstat_intrs linux_kstat_intrs \<and>
   values_in freebsd_kstat_data freebsd_kstat_data = values_in linux_kstat_data linux_kstat_data \<and>
   map (flag_value user_kstat_data) [''KSTAT_DATA_FLOAT'', ''KSTAT_DATA_DOUBLE'', ''KSTAT_DATA_STRING''] = [5, 6, 9] \<and>
   map (flag_value linux_kstat_data) [''KSTAT_DATA_LONG'', ''KSTAT_DATA_ULONG'', ''KSTAT_DATA_STRING''] = [5, 6, 7]"
  by code_simp

section \<open>Access control lists\<close>

definition permission_names :: "string list" where
  "permission_names = [''ACE_READ_DATA'', ''ACE_WRITE_DATA'', ''ACE_APPEND_DATA'', ''ACE_READ_NAMED_ATTRS'',
    ''ACE_WRITE_NAMED_ATTRS'', ''ACE_EXECUTE'', ''ACE_DELETE_CHILD'', ''ACE_READ_ATTRIBUTES'', ''ACE_WRITE_ATTRIBUTES'',
    ''ACE_DELETE'', ''ACE_READ_ACL'', ''ACE_WRITE_ACL'', ''ACE_WRITE_OWNER'', ''ACE_SYNCHRONIZE'']"

definition subword :: "int \<Rightarrow> int \<Rightarrow> bool" where "subword a b \<longleftrightarrow> a AND b = a"

definition acl_mask :: "string \<Rightarrow> int" where "acl_mask = flag_value (user_acl @ user_acl_masks)"
definition all_perms :: int where "all_perms = acl_mask ''ACE_ALL_PERMS''"

definition mask_names :: "string list" where
  "mask_names = [''ACL_FLAGS_ALL'', ''ACE_TYPE_FLAGS'', ''ACE_ALL_PERMS'']"

lemma user_masks:
  "map acl_mask mask_names = [7, 0x7040, 0x1f01ff]"
  "map acl_mask [''ACE_READ_PERMS'', ''ACE_WRITE_PERMS'', ''ACE_MODIFY_PERMS'', ''ACE_ALL_WRITE_PERMS'', ''ACE_NFSV4_SUP_FLAGS''] =
     [0x20089, 0x116, 0x1301ff, 0xd0156, 0x4f]"
  "map acl_mask [''ACE_WRITE_ACL'', ''ACE_WRITE_OWNER'', ''ACE_INHERITED_ACE''] = [0x40000, 0x80000, 0x80]"
  by code_simp+

lemma kernel_masks:
  "map (flag_value linux_acl) mask_names = [7, 0x7040, 0x1f01ff]"
  "map (flag_value (freebsd_acl @ freebsd_acl_masks)) (''ACE_NFSV4_SUP_FLAGS'' # mask_names) = [0xcf, 7, 0x7040, 0x1f01ff]"
  by code_simp+

lemma permission_values:
  "map (flag_value user_acl) permission_names = [1, 2, 4, 8, 0x10, 0x20, 0x40, 0x80, 0x100, 0x10000, 0x20000, 0x40000, 0x80000, 0x100000]"
  by code_simp

lemma flag_word_values: "flag_word T ns = foldr (OR) (map (flag_value T) ns) 0"
  by (induction ns) (simp_all add: flag_word_def)

text \<open>
  Access control lists have the same numbers in user space and in both kernels, so an entry means
  the same in each: the macros of the kernels are, in their order, among those of user space, and
  the masks that all of them have are equal. The mask of all permissions is made of the fourteen
  permissions, which are different bits; reading, writing and modifying are parts of it, and
  modifying gives neither the list nor the owner away. Two macros of FreeBSD are not the same: one
  counts inherited entries as supported by the protocol, and \<open>ACE_INHERIT_FLAGS\<close> has no value, for it
  uses a name that is not defined.
\<close>

theorem acl_layers:
  "subseq (filter (\<lambda>e. fst e \<noteq> ''ACE_ALL_PERMS'') linux_acl) (user_acl @ user_acl_masks) \<and>
   subseq (filter (\<lambda>e. fst e \<noteq> ''ACE_NFSV4_SUP_FLAGS'' \<and> fst e \<noteq> ''ACE_INHERIT_FLAGS'') (freebsd_acl @ freebsd_acl_masks)) (user_acl @ user_acl_masks) \<and>
   list_all (\<lambda>n. flag_value linux_acl n = acl_mask n \<and> acl_mask n \<noteq> 0) mask_names \<and>
   list_all (\<lambda>n. flag_value (freebsd_acl @ freebsd_acl_masks) n = acl_mask n \<and> acl_mask n \<noteq> 0) mask_names \<and>
   mval 3 (freebsd_acl @ freebsd_acl_masks) (Use ''ACE_INHERIT_FLAGS'') = None \<and>
   flag_value (freebsd_acl @ freebsd_acl_masks) ''ACE_NFSV4_SUP_FLAGS'' = acl_mask ''ACE_NFSV4_SUP_FLAGS'' + acl_mask ''ACE_INHERITED_ACE'' \<and>
   all_perms = flag_word user_acl permission_names \<and> distinct (map (flag_value user_acl) permission_names) \<and>
   list_all (\<lambda>n. List.member (map (\<lambda>k. 2 ^ k) [0..<32]) (flag_value user_acl n)) permission_names \<and>
   list_all (\<lambda>n. subword (acl_mask n) all_perms)
     [''ACE_READ_PERMS'', ''ACE_WRITE_PERMS'', ''ACE_MODIFY_PERMS'', ''ACE_ALL_WRITE_PERMS''] \<and>
   acl_mask ''ACE_MODIFY_PERMS'' = all_perms - (acl_mask ''ACE_WRITE_ACL'' + acl_mask ''ACE_WRITE_OWNER'')"
proof (intro conjI)
  show "subseq (filter (\<lambda>e. fst e \<noteq> ''ACE_ALL_PERMS'') linux_acl) (user_acl @ user_acl_masks)"
    by code_simp
  show "subseq (filter (\<lambda>e. fst e \<noteq> ''ACE_NFSV4_SUP_FLAGS'' \<and> fst e \<noteq> ''ACE_INHERIT_FLAGS'') (freebsd_acl @ freebsd_acl_masks)) (user_acl @ user_acl_masks)"
    by code_simp
  show "list_all (\<lambda>n. flag_value linux_acl n = acl_mask n \<and> acl_mask n \<noteq> 0) mask_names"
    using user_masks(1) kernel_masks(1) by (simp add: mask_names_def)
  show "list_all (\<lambda>n. flag_value (freebsd_acl @ freebsd_acl_masks) n = acl_mask n \<and> acl_mask n \<noteq> 0) mask_names"
    using user_masks(1) kernel_masks(2) by (simp add: mask_names_def)
  show "mval 3 (freebsd_acl @ freebsd_acl_masks) (Use ''ACE_INHERIT_FLAGS'') = None"
    by code_simp
  show "flag_value (freebsd_acl @ freebsd_acl_masks) ''ACE_NFSV4_SUP_FLAGS'' = acl_mask ''ACE_NFSV4_SUP_FLAGS'' + acl_mask ''ACE_INHERITED_ACE''"
    using user_masks kernel_masks(2) by simp
  show "all_perms = flag_word user_acl permission_names"
    using user_masks(1) by (simp add: all_perms_def mask_names_def flag_word_values permission_values)
  show "distinct (map (flag_value user_acl) permission_names)"
    by (simp add: permission_values)
  show "list_all (\<lambda>n. List.member (map (\<lambda>k. 2 ^ k) [0..<32]) (flag_value user_acl n)) permission_names"
    using permission_values by (simp add: permission_names_def upt_rec)
  show "list_all (\<lambda>n. subword (acl_mask n) all_perms)
     [''ACE_READ_PERMS'', ''ACE_WRITE_PERMS'', ''ACE_MODIFY_PERMS'', ''ACE_ALL_WRITE_PERMS'']"
    using user_masks by (simp add: all_perms_def mask_names_def subword_def)
  show "acl_mask ''ACE_MODIFY_PERMS'' = all_perms - (acl_mask ''ACE_WRITE_ACL'' + acl_mask ''ACE_WRITE_OWNER'')"
    using user_masks by (simp add: all_perms_def mask_names_def)
qed

end
