(* ===== verification/Abd.thy ===== *)
theory Abd
  imports Prelude
begin

unbundle bit_operations_syntax

text \<open>
  Data buffers of I/O (\<open>compat/openzfs/sys/abd.h\<close>): the flags of a buffer, the tests for its kind and
  the wrappers that call an operation at offset 0; and the initialiser of the users of a cached
  buffer (\<open>dmu_buf_init_user\<close> of \<open>dmu.h\<close>). The operations with offsets are not in the repository:
  they are a parameter, with what their names promise about the bytes of a buffer as a contract.
\<close>

section \<open>Kinds of buffers\<close>

definition abd_flags_t :: "(string \<times> u32) list" where
  "abd_flags_t =
    [(''ABD_FLAG_LINEAR'', push_bit 0 1), (''ABD_FLAG_OWNER'', push_bit 1 1), (''ABD_FLAG_META'', push_bit 2 1),
     (''ABD_FLAG_MULTI_ZONE'', push_bit 3 1), (''ABD_FLAG_MULTI_CHUNK'', push_bit 4 1),
     (''ABD_FLAG_LINEAR_PAGE'', push_bit 5 1), (''ABD_FLAG_GANG'', push_bit 6 1), (''ABD_FLAG_GANG_FREE'', push_bit 7 1),
     (''ABD_FLAG_ALLOCD'', push_bit 8 1), (''ABD_FLAG_FROM_PAGES'', push_bit 9 1)]"

definition abd_flag :: "string \<Rightarrow> u32" where
  "abd_flag n = (case map_of abd_flags_t n of Some v \<Rightarrow> v | None \<Rightarrow> 0)"

text \<open>The members of a buffer that the header looks at; the rest (\<open>abd_u\<close>) is opaque.\<close>

record 'd abd =
  abd_flags :: u32
  abd_size :: u32
  abd_u :: 'd

definition abd_is_linear :: "'d abd \<Rightarrow> bool" where "abd_is_linear abd \<longleftrightarrow> abd_flags abd AND abd_flag ''ABD_FLAG_LINEAR'' \<noteq> 0"
definition abd_is_linear_page :: "'d abd \<Rightarrow> bool" where
  "abd_is_linear_page abd \<longleftrightarrow> abd_flags abd AND abd_flag ''ABD_FLAG_LINEAR_PAGE'' \<noteq> 0"
definition abd_is_gang :: "'d abd \<Rightarrow> bool" where "abd_is_gang abd \<longleftrightarrow> abd_flags abd AND abd_flag ''ABD_FLAG_GANG'' \<noteq> 0"
definition abd_get_size :: "'d abd \<Rightarrow> u32" where "abd_get_size abd = abd_size abd"
definition abd_is_from_pages :: "'d abd \<Rightarrow> bool" where
  "abd_is_from_pages abd \<longleftrightarrow> abd_flags abd AND abd_flag ''ABD_FLAG_FROM_PAGES'' \<noteq> 0"

lemma abd_kinds:
  "map abd_flag [''ABD_FLAG_LINEAR'', ''ABD_FLAG_LINEAR_PAGE'', ''ABD_FLAG_GANG'', ''ABD_FLAG_FROM_PAGES''] =
     [2 ^ 0, 2 ^ 5, 2 ^ 6, 2 ^ 9]"
  by (simp add: abd_flag_def abd_flags_t_def)

lemma abd_kind_bits:
  "abd_is_linear a \<longleftrightarrow> bit (abd_flags a) 0" "abd_is_linear_page a \<longleftrightarrow> bit (abd_flags a) 5"
  "abd_is_gang a \<longleftrightarrow> bit (abd_flags a) 6" "abd_is_from_pages a \<longleftrightarrow> bit (abd_flags a) 9"
  using abd_kinds by (simp_all only: list.map list.inject abd_is_linear_def abd_is_linear_page_def abd_is_gang_def
      abd_is_from_pages_def and_exp_eq_0_iff_not_bit not_not)

section \<open>Operations at offset 0\<close>

record 'd abd_ops =
  abd_copy_off :: "'d abd \<Rightarrow> 'd abd \<Rightarrow> nat \<Rightarrow> nat \<Rightarrow> nat \<Rightarrow> 'd abd"
  abd_copy_from_buf_off :: "'d abd \<Rightarrow> u8 list \<Rightarrow> nat \<Rightarrow> nat \<Rightarrow> 'd abd"
  abd_copy_to_buf_off :: "u8 list \<Rightarrow> 'd abd \<Rightarrow> nat \<Rightarrow> nat \<Rightarrow> u8 list"
  abd_cmp_buf_off :: "'d abd \<Rightarrow> u8 list \<Rightarrow> nat \<Rightarrow> nat \<Rightarrow> int"
  abd_zero_off :: "'d abd \<Rightarrow> nat \<Rightarrow> nat \<Rightarrow> 'd abd"
  abd_cmp_zero_off :: "'d abd \<Rightarrow> nat \<Rightarrow> nat \<Rightarrow> int"

definition abd_copy :: "'d abd_ops \<Rightarrow> 'd abd \<Rightarrow> 'd abd \<Rightarrow> nat \<Rightarrow> 'd abd" where
  "abd_copy P dabd sabd sz = abd_copy_off P dabd sabd 0 0 sz"
definition abd_copy_from_buf :: "'d abd_ops \<Rightarrow> 'd abd \<Rightarrow> u8 list \<Rightarrow> nat \<Rightarrow> 'd abd" where
  "abd_copy_from_buf P abd buf sz = abd_copy_from_buf_off P abd buf 0 sz"
definition abd_copy_to_buf :: "'d abd_ops \<Rightarrow> u8 list \<Rightarrow> 'd abd \<Rightarrow> nat \<Rightarrow> u8 list" where
  "abd_copy_to_buf P buf abd sz = abd_copy_to_buf_off P buf abd 0 sz"
definition abd_cmp_buf :: "'d abd_ops \<Rightarrow> 'd abd \<Rightarrow> u8 list \<Rightarrow> nat \<Rightarrow> int" where
  "abd_cmp_buf P abd buf sz = abd_cmp_buf_off P abd buf 0 sz"
definition abd_zero :: "'d abd_ops \<Rightarrow> 'd abd \<Rightarrow> nat \<Rightarrow> 'd abd" where
  "abd_zero P abd sz = abd_zero_off P abd 0 sz"
definition abd_cmp_zero :: "'d abd_ops \<Rightarrow> 'd abd \<Rightarrow> nat \<Rightarrow> int" where
  "abd_cmp_zero P abd sz = abd_cmp_zero_off P abd 0 sz"

text \<open>Putting bytes into a buffer, and what the operations do to its bytes.\<close>

definition overwrite :: "u8 list \<Rightarrow> nat \<Rightarrow> u8 list \<Rightarrow> u8 list" where
  "overwrite xs k ys = take k xs @ ys @ drop (k + length ys) xs"

definition abd_contract :: "'d abd_ops \<Rightarrow> ('d abd \<Rightarrow> u8 list) \<Rightarrow> bool" where
  "abd_contract P bytes \<longleftrightarrow>
    (\<forall>d s k j n. k + n \<le> length (bytes d) \<and> j + n \<le> length (bytes s) \<longrightarrow>
       bytes (abd_copy_off P d s k j n) = overwrite (bytes d) k (take n (drop j (bytes s)))) \<and>
    (\<forall>d b k n. k + n \<le> length (bytes d) \<and> n \<le> length b \<longrightarrow>
       bytes (abd_copy_from_buf_off P d b k n) = overwrite (bytes d) k (take n b) \<and>
       abd_copy_to_buf_off P b d k n = overwrite b 0 (take n (drop k (bytes d))) \<and>
       (abd_cmp_buf_off P d b k n = 0 \<longleftrightarrow> take n (drop k (bytes d)) = take n b)) \<and>
    (\<forall>d k n. k + n \<le> length (bytes d) \<longrightarrow>
       bytes (abd_zero_off P d k n) = overwrite (bytes d) k (replicate n 0) \<and>
       (abd_cmp_zero_off P d k n = 0 \<longleftrightarrow> take n (drop k (bytes d)) = replicate n 0))"

lemma length_overwrite: "k + length ys \<le> length xs \<Longrightarrow> length (overwrite xs k ys) = length xs"
  by (simp add: overwrite_def)

lemma overwrite_start: "overwrite xs 0 ys = ys @ drop (length ys) xs"
  by (simp add: overwrite_def)

text \<open>
  What is put into a buffer is found there: after a copy from memory the buffer compares equal to
  the memory and gives the same bytes back, after a copy of buffers the first equals the second, after
  clearing it compares equal to zeros - and the bytes behind the given size are as before.
\<close>

theorem abd_wrappers:
  assumes "abd_contract P bytes" "n \<le> length (bytes d)" "n \<le> length buf" "n \<le> length out" "n \<le> length (bytes s)"
  shows "abd_cmp_buf P (abd_copy_from_buf P d buf n) buf n = 0 \<and>
    take n (abd_copy_to_buf P out (abd_copy_from_buf P d buf n) n) = take n buf \<and>
    drop n (abd_copy_to_buf P out d n) = drop n out \<and>
    drop n (bytes (abd_copy_from_buf P d buf n)) = drop n (bytes d) \<and>
    abd_copy_to_buf P out (abd_copy P d s n) n = abd_copy_to_buf P out s n \<and>
    drop n (bytes (abd_copy P d s n)) = drop n (bytes d) \<and>
    abd_cmp_zero P (abd_zero P d n) n = 0 \<and> drop n (bytes (abd_zero P d n)) = drop n (bytes d)"
proof -
  have from_: "bytes (abd_copy_from_buf P d buf n) = take n buf @ drop n (bytes d)"
    using assms by (simp add: abd_contract_def abd_copy_from_buf_def overwrite_start min_absorb2)
  have copy: "bytes (abd_copy P d s n) = take n (bytes s) @ drop n (bytes d)"
    using assms by (simp add: abd_contract_def abd_copy_def overwrite_start min_absorb2)
  have zero: "bytes (abd_zero P d n) = replicate n 0 @ drop n (bytes d)"
    using assms by (simp add: abd_contract_def abd_zero_def overwrite_start)
  have to_: "abd_copy_to_buf P b a n = take n (bytes a) @ drop n b" if "n \<le> length b" "n \<le> length (bytes a)" for a b
    using assms(1) that by (simp add: abd_contract_def abd_copy_to_buf_def overwrite_start min_absorb2)
  have cmp: "abd_cmp_buf P a b n = 0 \<longleftrightarrow> take n (bytes a) = take n b" if "n \<le> length b" "n \<le> length (bytes a)" for a b
    using assms(1) that by (simp add: abd_contract_def abd_cmp_buf_def)
  have cmp0: "abd_cmp_zero P a n = 0 \<longleftrightarrow> take n (bytes a) = replicate n 0" if "n \<le> length (bytes a)" for a
    using assms(1) that by (simp add: abd_contract_def abd_cmp_zero_def)
  show ?thesis using assms(2-) by (simp add: from_ copy zero to_ cmp cmp0)
qed

definition demo_abd_ops :: "u8 list abd_ops" where
  "demo_abd_ops = \<lparr>abd_copy_off = (\<lambda>d s k j n. d\<lparr>abd_u := overwrite (abd_u d) k (take n (drop j (abd_u s)))\<rparr>),
     abd_copy_from_buf_off = (\<lambda>d b k n. d\<lparr>abd_u := overwrite (abd_u d) k (take n b)\<rparr>),
     abd_copy_to_buf_off = (\<lambda>b d k n. overwrite b 0 (take n (drop k (abd_u d)))),
     abd_cmp_buf_off = (\<lambda>d b k n. if take n (drop k (abd_u d)) = take n b then 0 else 1),
     abd_zero_off = (\<lambda>d k n. d\<lparr>abd_u := overwrite (abd_u d) k (replicate n 0)\<rparr>),
     abd_cmp_zero_off = (\<lambda>d k n. if take n (drop k (abd_u d)) = replicate n 0 then 0 else 1)\<rparr>"

lemma demo_abd_contract: "abd_contract demo_abd_ops abd_u"
  by (simp add: abd_contract_def demo_abd_ops_def)

theorem abd_wrappers_witness:
  "abd_cmp_buf demo_abd_ops (abd_copy_from_buf demo_abd_ops \<lparr>abd_flags = 1, abd_size = 4, abd_u = [1, 2, 3, 4]\<rparr> [9, 8] 2) [9, 8] 2 = 0"
  using abd_wrappers [OF demo_abd_contract, of 2 "\<lparr>abd_flags = 1, abd_size = 4, abd_u = [1, 2, 3, 4]\<rparr>" "[9, 8]" "[0, 0]"
    "\<lparr>abd_flags = 1, abd_size = 4, abd_u = [5, 6, 7, 8]\<rparr>"] by simp

section \<open>Users of a cached buffer\<close>

text \<open>
  The two eviction functions are addresses (0 is none); the last member is there in the build with
  \<open>ZFS_DEBUG\<close> only. \<open>taskq_init_ent\<close> makes the entry of the task queue ready.
\<close>

record 'q dmu_buf_user =
  dbu_tqent :: 'q
  dbu_size :: u64
  dbu_evict_func_sync :: u64
  dbu_evict_func_async :: u64
  dbu_clear_on_evict_dbufp :: u64

definition dmu_buf_init_user ::
    "bool \<Rightarrow> bool \<Rightarrow> ('q \<Rightarrow> 'q) \<Rightarrow> 'q dmu_buf_user \<Rightarrow> u64 \<Rightarrow> u64 \<Rightarrow> u64 \<Rightarrow> 'q dmu_buf_user option" where
  "dmu_buf_init_user nd ZFS_DEBUG taskq_init_ent dbu sync async clear = do {
     ASSERT nd (dbu_evict_func_sync dbu = 0);
     ASSERT nd (dbu_evict_func_async dbu = 0);
     ASSERT nd (sync = 0 \<longrightarrow> async \<noteq> 0);
     let dbu = dbu\<lparr>dbu_evict_func_sync := sync, dbu_evict_func_async := async, dbu_tqent := taskq_init_ent (dbu_tqent dbu)\<rparr>;
     Some (if ZFS_DEBUG then dbu\<lparr>dbu_clear_on_evict_dbufp := clear\<rparr> else dbu) }"

text \<open>With assertions, a user is initialised once: a second call stops at the functions of the first.\<close>

lemma buf_user_once:
  assumes "dmu_buf_init_user False dbg tq dbu sync async clear = Some dbu'"
  shows "(sync \<noteq> 0 \<or> async \<noteq> 0) \<and> dbu_evict_func_sync dbu' = sync \<and> dbu_evict_func_async dbu' = async \<and>
    dbu_size dbu' = dbu_size dbu \<and> dmu_buf_init_user False dbg tq dbu' s2 a2 c2 = None"
  using assms by (auto simp: dmu_buf_init_user_def ASSERT_def VERIFY_def Let_def split: if_splits)

end
