(* ===== verification/Spl_Stat.thy ===== *)
theory Spl_Stat
  imports Prelude
begin

unbundle bit_operations_syntax

text \<open>
  The size of a device: \<open>fstat64\<close> and \<open>fstat64_blk\<close> of \<open>compat/spl/os/freebsd/sys/stat.h\<close> and
  \<open>compat/spl/os/linux/sys/stat.h\<close>; and the report of the ages in a pruned deduplication table
  (\<open>ddt_dump_age_histogram\<close> of \<open>compat/openzfs/sys/ddt_impl.h\<close>).
\<close>

section \<open>Sizes of devices\<close>

text \<open>
  The parts of a status that the functions use. The system is two answers for a descriptor: what
  \<open>fstat\<close> returns with the status it fills in (none if it fails), and the size of the medium that
  the ioctl stores, or none if that fails.
\<close>

record statbuf =
  st_mode :: u32
  st_size :: u64

record stat_system =
  sys_fstat :: "int \<Rightarrow> statbuf option"
  media_size :: "int \<Rightarrow> u64 option"

definition S_ISCHR :: "u32 \<Rightarrow> bool" where "S_ISCHR m \<longleftrightarrow> m AND 0xf000 = 0x2000"
definition S_ISBLK :: "u32 \<Rightarrow> bool" where "S_ISBLK m \<longleftrightarrow> m AND 0xf000 = 0x6000"

definition plain_fstat :: "stat_system \<Rightarrow> int \<Rightarrow> statbuf \<Rightarrow> int \<times> statbuf" where
  "plain_fstat S fd sb = (case sys_fstat S fd of None \<Rightarrow> (-1, sb) | Some st \<Rightarrow> (0, st))"

definition freebsd_fstat64 :: "stat_system \<Rightarrow> int \<Rightarrow> statbuf \<Rightarrow> int \<times> statbuf" where
  "freebsd_fstat64 S fd sb =
    (let (ret, sb) = plain_fstat S fd sb in
     if ret = 0 \<and> S_ISCHR (st_mode sb)
     then (ret, case media_size S fd of None \<Rightarrow> sb | Some n \<Rightarrow> sb\<lparr>st_size := n\<rparr>)
     else (ret, sb))"

definition linux_fstat64_blk :: "stat_system \<Rightarrow> int \<Rightarrow> statbuf \<Rightarrow> int \<times> statbuf" where
  "linux_fstat64_blk S fd st =
    (let (ret, st) = plain_fstat S fd st in
     if ret = -1 then (-1, st)
     else if S_ISBLK (st_mode st) then (case media_size S fd of None \<Rightarrow> (-1, st) | Some n \<Rightarrow> (0, st\<lparr>st_size := n\<rparr>))
     else (0, st))"

definition freebsd_fstat64_blk :: "stat_system \<Rightarrow> int \<Rightarrow> statbuf \<Rightarrow> int \<times> statbuf" where
  "freebsd_fstat64_blk S fd st =
    (let (ret, st) = freebsd_fstat64 S fd st in
     if ret = -1 then (-1, st)
     else if S_ISBLK (st_mode st) then (case media_size S fd of None \<Rightarrow> (-1, st) | Some n \<Rightarrow> (0, st\<lparr>st_size := n\<rparr>))
     else (0, st))"

lemma not_both_kinds: "S_ISCHR m \<Longrightarrow> \<not> S_ISBLK m"
  by (simp add: S_ISCHR_def S_ISBLK_def)

text \<open>
  Where the size of the medium can be read, both layers report it for a device - a block device on
  Linux, a character or block device on FreeBSD - and a file's own size for everything else. Where it
  cannot, a block device is an error on both; but a character device on FreeBSD is reported as a
  success with the size that the status had, because the error of the ioctl is ignored.
\<close>

theorem device_sizes:
  assumes "sys_fstat S fd = Some sb"
  shows "linux_fstat64_blk S fd st =
      (if S_ISBLK (st_mode sb) then (case media_size S fd of None \<Rightarrow> (-1, sb) | Some n \<Rightarrow> (0, sb\<lparr>st_size := n\<rparr>)) else (0, sb)) \<and>
    (S_ISCHR (st_mode sb) \<longrightarrow> freebsd_fstat64_blk S fd st =
      (0, case media_size S fd of None \<Rightarrow> sb | Some n \<Rightarrow> sb\<lparr>st_size := n\<rparr>)) \<and>
    (\<not> S_ISCHR (st_mode sb) \<longrightarrow> freebsd_fstat64_blk S fd st = linux_fstat64_blk S fd st)"
  using assms not_both_kinds [of "st_mode sb"]
  by (auto simp: linux_fstat64_blk_def freebsd_fstat64_blk_def freebsd_fstat64_def plain_fstat_def Let_def split: option.splits)

definition demo_system :: stat_system where
  "demo_system = \<lparr>sys_fstat = (\<lambda>fd. Some \<lparr>st_mode = 0x21a4, st_size = 0\<rparr>), media_size = (\<lambda>fd. None)\<rparr>"

theorem device_sizes_witness:
  "freebsd_fstat64_blk demo_system 3 \<lparr>st_mode = 0, st_size = 7\<rparr> = (0, \<lparr>st_mode = 0x21a4, st_size = 0\<rparr>)"
  using device_sizes [of demo_system 3 "\<lparr>st_mode = 0x21a4, st_size = 0\<rparr>" "\<lparr>st_mode = 0, st_size = 7\<rparr>"]
  by (simp add: demo_system_def S_ISCHR_def)

lemma failed_status:
  "sys_fstat S fd = None \<Longrightarrow> linux_fstat64_blk S fd st = (-1, st) \<and> freebsd_fstat64_blk S fd st = (-1, st)"
  by (simp add: linux_fstat64_blk_def freebsd_fstat64_blk_def freebsd_fstat64_def plain_fstat_def)

section \<open>Ages of table entries\<close>

definition HIST_BINS :: nat where "HIST_BINS = 16"

record ddt_age_histo =
  dah_entries :: u64
  dah_age_histo :: "u64 list"

text \<open>
  A line of the report is the age in hours, the count and the share; nothing is printed without
  entries. The share is a 64-bit quotient that is printed as an \<open>int\<close>.
\<close>

definition ddt_dump_age_histogram :: "u64 \<Rightarrow> ddt_age_histo \<Rightarrow> u64 \<Rightarrow> (u64 \<times> (u32 \<times> u64 \<times> u32) list) option" where
  "ddt_dump_age_histogram now histogram cutoff =
    (if dah_entries histogram = 0 then None
     else Some ((now - cutoff) div 3600,
       map (\<lambda>i. (push_bit i 1, dah_age_histo histogram ! i,
              ucast (dah_age_histo histogram ! i * 100 div dah_entries histogram))) [0..<HIST_BINS]))"

lemma share_below:
  assumes "(n :: u64) \<noteq> 0" "h \<le> n" "unat n < 2 ^ 57"
  shows "unat (ucast (h * 100 div n) :: u32) = unat h * 100 div unat n" "unat h * 100 div unat n \<le> 100"
proof -
  have h: "unat h \<le> unat n" "0 < unat n" using assms(1,2) by (simp_all add: word_le_nat_alt unat_gt_0)
  have "unat h * 100 div unat n \<le> unat n * 100 div unat n" using h(1) by (intro div_le_mono mult_le_mono1)
  then show b: "unat h * 100 div unat n \<le> 100" using h(2) by simp
  have "unat h * 100 < 2 ^ 64" using h(1) assms(3) by simp
  then have "unat (h * 100 div n) = unat h * 100 div unat n" by (simp add: unat_div unat_word_ariths)
  then show "unat (ucast (h * 100 div n) :: u32) = unat h * 100 div unat n"
    using b by (simp add: unsigned_ucast_eq take_bit_nat_eq_self)
qed

lemma sum_of_shares: "0 < (n :: nat) \<Longrightarrow> sum_list (map (\<lambda>h. h * 100 div n) hs) \<le> sum_list hs * 100 div n"
proof (induction hs)
  case (Cons h hs)
  have "h * 100 div n + sum_list hs * 100 div n \<le> (h * 100 + sum_list hs * 100) div n"
    by (subst div_add1_eq [of "h * 100" "sum_list hs * 100"]) simp
  then show ?case using Cons by (simp add: add_mult_distrib)
qed simp

lemma map_of_indices: "map (\<lambda>i. f (xs ! i)) [0..<length xs] = map f xs"
  by (rule nth_equalityI) simp_all

text \<open>
  The ages double from line to line, up to four years, and the shares are percentages that add up to
  at most 100, provided that the bins count no more than the entries and these are below \<open>2^57\<close>.
\<close>

lemma age_report:
  assumes "ddt_dump_age_histogram now h cutoff = Some (hours, ls)" "length (dah_age_histo h) = HIST_BINS"
    and "sum_list (map unat (dah_age_histo h)) \<le> unat (dah_entries h)" "unat (dah_entries h) < 2 ^ 57"
  shows "map (\<lambda>(a, _). unat a) ls = map (\<lambda>i. 2 ^ i) [0..<16] \<and>
    map (\<lambda>(_, n, _). n) ls = dah_age_histo h \<and> sum_list (map (\<lambda>(_, _, p). unat p) ls) \<le> 100"
proof -
  let ?n = "dah_entries h" and ?b = "dah_age_histo h"
  have n: "?n \<noteq> 0" using assms(1) by (auto simp: ddt_dump_age_histogram_def)
  have ls: "ls = map (\<lambda>i. (push_bit i 1, ?b ! i, ucast (?b ! i * 100 div ?n))) [0..<HIST_BINS]"
    using assms(1) n by (simp add: ddt_dump_age_histogram_def)
  have small: "x \<le> ?n" if "x \<in> set ?b" for x
  proof -
    have "unat x \<le> sum_list (map unat ?b)" using that by (intro member_le_sum_list) auto
    then show ?thesis using assms(3) by (simp add: word_le_nat_alt)
  qed
  have "map (\<lambda>(_, _, p). unat p) ls = map (\<lambda>i. unat (ucast (?b ! i * 100 div ?n) :: u32)) [0..<length ?b]"
    unfolding ls assms(2) by (simp add: comp_def)
  also have "\<dots> = map (\<lambda>x. unat (ucast (x * 100 div ?n) :: u32)) ?b" by (rule map_of_indices)
  also have "\<dots> = map (\<lambda>x. unat x * 100 div unat ?n) ?b"
    by (rule map_cong [OF refl]) (rule share_below(1) [OF n small assms(4)])
  also have "\<dots> = map (\<lambda>x. x * 100 div unat ?n) (map unat ?b)" by simp
  finally have p: "map (\<lambda>(_, _, p). unat p) ls = map (\<lambda>x. x * 100 div unat ?n) (map unat ?b)" .
  have "0 < unat ?n" using n by (simp add: unat_gt_0)
  then have "sum_list (map (\<lambda>(_, _, p). unat p) ls) \<le> sum_list (map unat ?b) * 100 div unat ?n"
    unfolding p by (rule sum_of_shares)
  also have "\<dots> \<le> unat ?n * 100 div unat ?n" using assms(3) by (intro div_le_mono mult_le_mono1)
  finally have "sum_list (map (\<lambda>(_, _, p). unat p) ls) \<le> 100" using \<open>0 < unat ?n\<close> by simp
  moreover have "map (\<lambda>(_, n, _). n) ls = map (\<lambda>i. ?b ! i) [0..<length ?b]" unfolding ls assms(2) by (simp add: comp_def)
  then have "map (\<lambda>(_, n, _). n) ls = ?b" by (simp only: map_nth)
  moreover have "map (\<lambda>(a, _). unat a) ls = map (\<lambda>i. unat (push_bit i 1 :: u32)) [0..<HIST_BINS]" unfolding ls by (simp add: comp_def)
  then have "map (\<lambda>(a, _). unat a) ls = map (\<lambda>i. 2 ^ i) [0..<16]" by (simp add: HIST_BINS_def upt_rec)
  ultimately show ?thesis by (intro conjI)
qed

end
