(* ===== verification/Spec2Isabelle.thy ===== *)
theory Spec2Isabelle
  imports Php_Zfs Blkptr_Print Blkptr_Props Space_Map Range_Seg Btree_Search Avl_Node Zap_Leaf
    Uberblock Spl_List Zstd_Header Zfs_Ioctl Simd
    Packed_Words Ddt Dnode Zil Raidz_Math Umem Spl_Locks Spl_Uio
    Kfpu Blkdev Zio Xvattr Sa_Impl
    Spl_Progress
    Phys_Layouts
    Vdev_Label
    Assertions
    Efi
    Spl_Atomic
    Refcount
    Spl_Time
    Idmap
    Spl_Kmem
    Dbuf
    Bitmap
    Byteorder_Mem
    Zfs_Enums
    Zfs_Stats
    Spl_Timer
    Hlist
    Znode
    Block_Span
    Dklabel
    Sysmacros_Linux
    Nvpair
    Uio_Layers
    Simd_Ports
    Kernel_Strings
    Vfs_Attrs
    Zfs_Names
    Spl_Misc
    Isa_Defs
    Macro_Tables
    Abd
    Spl_Stat
begin

text \<open>
  A verification library of the PHP extension for ZFS and of the program logic in the OpenZFS
  headers it is built with.

  \<^bold>\<open>The program.\<close> The extension proper is four C files: \<open>zfs.c\<close> (the module: start, shutdown,
  the global library handle, the two PHP functions), \<open>zfs_list.c\<close> (the walk over the datasets),
  \<open>zpool_list.c\<close> (the list of pools) and \<open>php_zfs.h\<close>. They call libzfs and the Zend engine, which
  are not part of the repository. Beside them the repository carries the OpenZFS headers
  (\<open>compat/openzfs\<close>: the interface of libzfs, the on-disk format, the packed words, the porting
  layers of Linux and FreeBSD) and a user-space porting layer (\<open>compat/spl\<close>). The logic of a header
  is in its macros, inline functions, enumerations and structure layouts; the functions it only
  declares have no code here.

  \<^bold>\<open>Conventions.\<close> A machine integer is a word of its width, so arithmetic wraps as in C; where C
  computes in \<open>int\<close>, the definition says which width the value has. An assertion that fires, an
  access without a meaning in C, and a call that does not return have the result \<open>None\<close>; the flag
  \<open>nd\<close> (\<open>NDEBUG\<close>) switches the assertions off. Code that is not in the repository is an
  argument: a record of functions (libzfs, the Zend engine, malloc, the kernel's semaphores and
  pages) or a value (the processor, the table of object types), and what the code relies on is a
  predicate or a locale over it, interpreted on a concrete instance.
  Definitions keep the names of the source; a suffix or prefix marks a second version
  (\<open>linux_\<close>, \<open>freebsd_\<close>).

  \<^bold>\<open>The extension.\<close> \<open>Php_Runtime\<close>: the trace of calls with an effect, the error function and the
  parameters for the Zend engine and for libzfs. \<open>Zfs_List\<close> and \<open>Zpool_List\<close>: the callbacks, the
  rows they build and the list functions; \<open>zfs_list_callback\<close> calls itself through
  \<open>zfs_iter_children\<close> and takes a recursion depth \<open>n\<close>, of which any value above the height of the
  dataset tree suffices (\<open>zfs_list_depth_irrelevant\<close>: the result no longer depends on it).
  The lemmas give each callback its effect on the state, so that the list functions' result is
  one equation: the rows in pre-order, every handle closed once, the status of the iterator.
  \<open>Php_Zfs\<close>: the module state, its life cycle as steps, the invariant that a live handle is the
  last one opened, the keys and types of the rows that PHP gets, and the PHP functions as an instance of the locale \<open>lister\<close> that both list
  files implement. \<open>Zfs_Types\<close>: the constants they use.

  \<^bold>\<open>Words and bytes.\<close> \<open>Prelude\<close>: the word types, the assertions (\<open>assert.h\<close>) and word lemmas.
  \<open>Sysmacros\<close>: alignment and rounding macros, with their meaning over the naturals. \<open>Bitops\<close>: the
  bit-field macros, with the locale \<open>accessor_pair\<close> (a getter and setter pair, and a family of
  other getters it leaves alone) that the packed words are proved with. \<open>Byteorder\<close>: byte swaps.
  \<open>C_Layout\<close>: sizes, offsets and padding of C structures for a given alignment of 64-bit words.

  \<^bold>\<open>On-disk format.\<close> \<open>Blkptr\<close>, \<open>Blkptr_Fields\<close>, \<open>Blkptr_Props\<close>, \<open>Blkptr_Print\<close>: block pointers,
  their three documented layouts, derived quantities and printed form. \<open>Dmu_Types\<close>, \<open>Dnode\<close>,
  \<open>Zil\<close>, \<open>Ddt\<close>, \<open>Space_Map\<close>, \<open>Uberblock\<close>, \<open>Zap_Leaf\<close>, \<open>Zstd_Header\<close>, \<open>Sa_Impl\<close>, \<open>Packed_Words\<close>,
  \<open>Disk_Types\<close>: the structures and words of the header with the same name; the lemmas are round
  trips, independence of fields, sizes and offsets, and the agreement of two encodings of the same
  data. \<open>Phys_Layouts\<close>: the layouts of the structures of datasets, directories, bookmarks, deadlists,
  vdevs, caches, access lists and object sets (the table \<open>phys_structs\<close>; dnodes, the intent log, uberblocks,
  leaves and attributes are in the theories named after their headers), free of padding and of the
  compiler's choice of alignment, with older versions as prefixes of newer ones; \<open>Vdev_Label\<close>: the
  device label and its ring of uberblocks. \<open>Efi\<close>: partition tables and UUIDs. \<open>Zfs_Ioctl\<close>: send stream records and the ioctl command.

  \<^bold>\<open>Algorithms and I/O.\<close> \<open>Btree_Search\<close>: the branch-free search in a node equals a linear scan.
  \<open>Range_Seg\<close>, \<open>Avl_Node\<close>: segments in three widths and the packed tree node. \<open>Raidz_Math\<close>: the
  Galois field functions over log tables equal shift-and-add multiplication. \<open>Zio\<close>: stages,
  pipelines, flags and compression settings. \<open>Dbuf\<close>: the search for a dirty record, over the lists
  of \<open>Spl_List\<close>. \<open>Bitmap\<close>: bitmaps as sets. \<open>Zfs_Enums\<close>: the enumerations as lists of enumerators
  with their initialisers, evaluated the way C numbers them, and the ioctl commands. \<open>Zfs_Stats\<close>:
  the statistics that grow between versions, histogram buckets, versions and the prefixes of
  extended attribute names.

  \<^bold>\<open>Porting layers.\<close> \<open>Spl_List\<close>: lists over a memory of linked nodes, refining HOL lists.
  \<open>Spl_Locks\<close>: reader-writer locks and mutexes as steps of any number of threads, with exclusion as
  an invariant of the reachable states; \<open>Spl_Progress\<close>: from every reachable state each thread can
  still get the mutex. \<open>Umem\<close>: allocation that may retry for ever (a
  \<open>partial_function\<close>: no value when it does not return) and object caches. \<open>Spl_Uio\<close>,
  \<open>Blkdev\<close>: I/O descriptors and block I/O. \<open>Xvattr\<close>: optional file attributes. \<open>Simd\<close>,
  \<open>Simd_Kernel\<close>: the instruction set tests of user space and of the two kernels; \<open>Kfpu\<close>: saving the
  registers around their use, where an instruction that saves with a mask keeps the enabled components
  of the mask and promises nothing of the others. \<open>Assertions\<close>: the assertion macros of the three layers, what each
  prints, and that they agree on what fails. \<open>Spl_Atomic\<close>: the atomic operations of both kernels
  over their instructions; a compare-and-set loop takes a list of turns (what other processors do
  to the cell between its tries) and returns as soon as one turn does not fail for no reason.
  \<open>Refcount\<close>: reference counts refine a collection of references, and transfers between counts,
  as steps of concurrent processors, lose nothing. \<open>Spl_Time\<close>: times and clocks. \<open>Idmap\<close>: ids of
  mapped mounts. \<open>Spl_Kmem\<close>: allocation flags and the regions that forbid I/O.
  \<open>Byteorder_Mem\<close>: unaligned access in a byte order. \<open>Spl_Condvar\<close>: waits with a time limit and the
  checkpoints of kernel threads, whose loop takes the list of events that the wakeups find.
  \<open>Spl_Timer\<close>: clock ticks of the three layers. \<open>Hlist\<close>: lists whose nodes point back at the cell
  that points at them, refining HOL lists. \<open>Znode\<close>: entering a file system (the locale \<open>teardown\<close>,
  of which both kernels are instances), user and project ids, attribute flags and file ids.
  \<open>Block_Span\<close>: the span of an indirect block. \<open>Dklabel\<close>: disk labels.
  \<open>Sysmacros_Linux\<close>: the integer macros of Linux and user space, equal to FreeBSD's of \<open>Sysmacros\<close>,
  and device numbers. \<open>Uio_Layers\<close>: the descriptors of user space and FreeBSD beside that of
  \<open>Spl_Uio\<close>, and where their lookups agree. \<open>Simd_Ports\<close>: the instruction set tests of ARM and
  POWER. \<open>Kernel_Strings\<close>: string copies (\<open>strlcpy\<close> over a \<open>strscpy\<close> known by its documented result, which
  refuses sizes above \<open>INT_MAX\<close>), copies from user space and security domains.
  \<open>Vfs_Attrs\<close>: seeks, ids of an inode and attribute masks. \<open>Spl_Misc\<close>: random numbers in a range,
  write-mostly sums, stack bounds and threads.

  \<^bold>\<open>Names and pairs.\<close> \<open>Nvpair\<close>: the layout of name and value pairs and where their parts are.
  \<open>Zfs_Names\<close>: the string constants that name keys, events, permissions and mount options, as
  tables; the keys of one dictionary differ, and those on disk fit the entries of a small map.
  \<open>Macro_Tables\<close>: groups of numeric macros with their expressions - flags, error numbers, ioctls and
  access control lists - and where the layers agree on them.

  \<^bold>\<open>The build.\<close> \<open>Isa_Defs\<close>: the headers that choose the byte order and the model of data types
  are programs of the preprocessor; their directives are data, run on the macros that the compiler
  defines, and two analyses of directives are proved sound and used to show that every compilation
  that is not stopped is decided, apart from PowerPC on FreeBSD, where no data model is chosen; on
  the platforms of a list the three headers agree. \<open>Abd\<close>: data buffers of I/O. \<open>Spl_Stat\<close>: the sizes of devices and the
  age report of the deduplication table.

  \<^bold>\<open>Not modelled.\<close> Functions that are only declared (libzfs, libzpool, the DMU, the ARC, the
  crypto framework) and in-core structures that only they use; trace point definitions, module
  parameter macros and compiler annotations, which generate no behaviour of their own; the
  generated Unicode tables (\<open>u8_textprep_data.h\<close>), whose functions are not in the repository;
  the vendored Lua headers.
\<close>

end
